(* ===== verification/Go_Base.thy ===== *)
theory Go_Base
  imports Main "HOL-Library.Char_ord" "HOL-Library.List_Lexorder"
begin

text \<open>
  The prelude of the development: how a Go function is written as a HOL function.

  A Go function that touches state is a value of type \<open>('s, 'a) go\<close>: it maps the state to an
  outcome and the new state.  The outcome is a returned value, a run-time panic (an index out of
  range, a nil dereference), a call of \<^verbatim>\<open>log.Fatal\<close> (which ends the process), or \<open>Stuck\<close>, the
  value of a loop whose fuel is spent.  A Go pair \<^verbatim>\<open>(T, error)\<close> whose value is the zero value
  when the error is set is a sum, \<open>Inl\<close> carrying the error.

  The theory also holds the relational reasoning every component shares: \<open>always R m\<close> says that
  the states before and after \<open>m\<close> are related by \<open>R\<close> whatever the outcome.  The locale
  \<open>step_relation\<close> collects the composition rules for a reflexive and transitive \<open>R\<close>; the
  components interpret it for the growth of the trace, for the clock, and for their invariants.
\<close>

section \<open>Rule collections of the development\<close>

named_theorems go_simps \<open>evaluation of the combinators on a state\<close>
named_theorems always_intros \<open>composition rules for relational invariants\<close>
named_theorems zero_defs \<open>the zero values of the Go structs\<close>

section \<open>Outcomes and computations\<close>

datatype 'a outcome =
    Return 'a
  | Panic string
  | Exit string
  | Stuck

type_synonym ('s, 'a) go = "'s \<Rightarrow> 'a outcome \<times> 's"

definition ret :: "'a \<Rightarrow> ('s, 'a) go" where
  "ret x s = (Return x, s)"

definition panic :: "string \<Rightarrow> ('s, 'a) go" where
  "panic m s = (Panic m, s)"

definition fatal :: "string \<Rightarrow> ('s, 'a) go" where
  "fatal m s = (Exit m, s)"

definition stuck :: "('s, 'a) go" where
  "stuck s = (Stuck, s)"

definition gets :: "('s \<Rightarrow> 'a) \<Rightarrow> ('s, 'a) go" where
  "gets f s = (Return (f s), s)"

definition modify :: "('s \<Rightarrow> 's) \<Rightarrow> ('s, unit) go" where
  "modify f s = (Return (), f s)"

definition bind :: "('s, 'a) go \<Rightarrow> ('a \<Rightarrow> ('s, 'b) go) \<Rightarrow> ('s, 'b) go" where
  "bind m k s =
     (case m s of
        (Return x, s') \<Rightarrow> k x s'
      | (Panic e, s') \<Rightarrow> (Panic e, s')
      | (Exit e, s') \<Rightarrow> (Exit e, s')
      | (Stuck, s') \<Rightarrow> (Stuck, s'))"

text \<open>
  \<^verbatim>\<open>x, err := m; if err != nil { return h(err) }; k(x)\<close> is \<open>handle m h k\<close>, and the common
  case that returns the error as it is, \<open>check m k\<close>.
\<close>

definition handle ::
  "('s, 'e + 'a) go \<Rightarrow> ('e \<Rightarrow> ('s, 'b) go) \<Rightarrow> ('a \<Rightarrow> ('s, 'b) go) \<Rightarrow> ('s, 'b) go" where
  "handle m h k = bind m (\<lambda>r. case r of Inl e \<Rightarrow> h e | Inr x \<Rightarrow> k x)"

definition check :: "('s, 'e + 'a) go \<Rightarrow> ('a \<Rightarrow> ('s, 'e + 'b) go) \<Rightarrow> ('s, 'e + 'b) go" where
  "check m k = handle m (\<lambda>e. ret (Inl e)) k"

text \<open>A function that returns only an \<^verbatim>\<open>error\<close> returns an option; \<open>None\<close> is \<^verbatim>\<open>nil\<close>.\<close>

definition check_err :: "('s, 'e option) go \<Rightarrow> ('s, 'e option) go \<Rightarrow> ('s, 'e option) go" where
  "check_err m k = bind m (\<lambda>r. case r of Some e \<Rightarrow> ret (Some e) | None \<Rightarrow> k)"

text \<open>A call of a function without state.\<close>

definition outcome_of :: "'a outcome \<Rightarrow> ('s, 'a) go" where
  "outcome_of r s = (r, s)"

text \<open>\<^verbatim>\<open>for _, x := range xs { body }\<close> over a loop-carried value.\<close>

fun for_each :: "'x list \<Rightarrow> ('x \<Rightarrow> 'a \<Rightarrow> ('s, 'a) go) \<Rightarrow> 'a \<Rightarrow> ('s, 'a) go" where
  "for_each [] body acc = ret acc"
| "for_each (x # xs) body acc = bind (body x acc) (for_each xs body)"

text \<open>A deferred call runs whatever way the body leaves.\<close>

definition deferring :: "('s, 'a) go \<Rightarrow> ('s, unit) go \<Rightarrow> ('s, 'a) go" where
  "deferring m d s =
     (case m s of (r, s') \<Rightarrow>
        (case r of
           Exit e \<Rightarrow> (Exit e, s')
         | Stuck \<Rightarrow> (Stuck, s')
         | _ \<Rightarrow> (case d s' of
                  (Return _, s'') \<Rightarrow> (r, s'')
                | (Panic e, s'') \<Rightarrow> (Panic e, s'')
                | (Exit e, s'') \<Rightarrow> (Exit e, s'')
                | (Stuck, s'') \<Rightarrow> (Stuck, s''))))"

text \<open>A call on a part of the state, given by the selector and the update of a record field.\<close>

definition zoom :: "('t \<Rightarrow> 's) \<Rightarrow> (('s \<Rightarrow> 's) \<Rightarrow> 't \<Rightarrow> 't) \<Rightarrow> ('s, 'a) go \<Rightarrow> ('t, 'a) go" where
  "zoom sel upd m t = (case m (sel t) of (r, s) \<Rightarrow> (r, upd (\<lambda>_. s) t))"

lemma run_ret [simp, go_simps]: "ret x s = (Return x, s)"
  by (simp add: ret_def)

lemma run_panic [simp, go_simps]: "panic m s = (Panic m, s)"
  by (simp add: panic_def)

lemma run_fatal [simp, go_simps]: "fatal m s = (Exit m, s)"
  by (simp add: fatal_def)

lemma run_stuck [simp, go_simps]: "stuck s = (Stuck, s)"
  by (simp add: stuck_def)

lemma run_gets [simp, go_simps]: "gets f s = (Return (f s), s)"
  by (simp add: gets_def)

lemma run_modify [simp, go_simps]: "modify f s = (Return (), f s)"
  by (simp add: modify_def)

lemma run_outcome_of [simp, go_simps]: "outcome_of r s = (r, s)"
  by (simp add: outcome_of_def)

lemma run_zoom [go_simps]: "zoom sel upd m t = (case m (sel t) of (r, s) \<Rightarrow> (r, upd (\<lambda>_. s) t))"
  by (simp add: zoom_def)

lemma zoom_Return_eq:
  "zoom sel upd m t = (Return x, u) \<longleftrightarrow> (\<exists>s. m (sel t) = (Return x, s) \<and> u = upd (\<lambda>_. s) t)"
  by (auto simp: zoom_def split: prod.splits)

lemma run_bind [go_simps]:
  "bind m k s =
     (case m s of
        (Return x, s') \<Rightarrow> k x s'
      | (Panic e, s') \<Rightarrow> (Panic e, s')
      | (Exit e, s') \<Rightarrow> (Exit e, s')
      | (Stuck, s') \<Rightarrow> (Stuck, s'))"
  by (simp add: bind_def)

lemma run_handle [go_simps]: "handle m h k = bind m (\<lambda>r. case r of Inl e \<Rightarrow> h e | Inr x \<Rightarrow> k x)"
  by (simp add: handle_def)

lemma run_check [go_simps]:
  "check m k = bind m (\<lambda>r. case r of Inl e \<Rightarrow> ret (Inl e) | Inr x \<Rightarrow> k x)"
  by (simp add: check_def handle_def)

lemma run_check_err [go_simps]:
  "check_err m k = bind m (\<lambda>r. case r of Some e \<Rightarrow> ret (Some e) | None \<Rightarrow> k)"
  by (simp add: check_err_def)

lemma bind_Return_eq:
  "bind m k s = (Return y, t) \<longleftrightarrow> (\<exists>x u. m s = (Return x, u) \<and> k x u = (Return y, t))"
  by (auto simp: bind_def split: outcome.splits prod.splits)

lemma bind_ReturnE:
  assumes "bind m k s = (Return y, t)"
  obtains x u where "m s = (Return x, u)" "k x u = (Return y, t)"
  using assms by (auto simp: bind_Return_eq)

lemma handle_Return_eq:
  "handle m h k s = (Return y, t) \<longleftrightarrow>
     (\<exists>e u. m s = (Return (Inl e), u) \<and> h e u = (Return y, t))
     \<or> (\<exists>x u. m s = (Return (Inr x), u) \<and> k x u = (Return y, t))"
  unfolding handle_def bind_Return_eq by (auto split: sum.splits) (metis obj_sumE)+

lemma check_Return_eq:
  "check m k s = (Return y, t) \<longleftrightarrow>
     (\<exists>e. m s = (Return (Inl e), t) \<and> y = Inl e)
     \<or> (\<exists>x u. m s = (Return (Inr x), u) \<and> k x u = (Return y, t))"
  unfolding check_def handle_Return_eq by auto

lemma check_err_Return_eq:
  "check_err m k s = (Return y, t) \<longleftrightarrow>
     (\<exists>e. m s = (Return (Some e), t) \<and> y = Some e)
     \<or> (\<exists>u. m s = (Return None, u) \<and> k u = (Return y, t))"
  unfolding check_err_def bind_Return_eq by (auto split: option.splits)

lemmas Return_eqs = zoom_Return_eq bind_Return_eq handle_Return_eq check_Return_eq check_err_Return_eq

lemma ret_bind [simp]: "bind (ret x) k = k x"
  by (rule ext) (simp add: bind_def)

lemma bind_ret [simp]: "bind m ret = m"
  by (rule ext) (auto simp: bind_def split: outcome.splits prod.splits)

lemma bind_bind: "bind (bind m k) l = bind m (\<lambda>x. bind (k x) l)"
  by (rule ext) (auto simp: bind_def split: outcome.splits prod.splits)

section \<open>Relational invariants of computations\<close>

definition always :: "('s \<Rightarrow> 's \<Rightarrow> bool) \<Rightarrow> ('s, 'a) go \<Rightarrow> bool" where
  "always R m \<longleftrightarrow> (\<forall>s. R s (snd (m s)))"

lemma alwaysI: "(\<And>s r t. m s = (r, t) \<Longrightarrow> R s t) \<Longrightarrow> always R m"
  unfolding always_def by (metis prod.collapse)

lemma alwaysD: "always R m \<Longrightarrow> m s = (r, t) \<Longrightarrow> R s t"
  by (metis always_def snd_conv)

lemma always_mono: "always R m \<Longrightarrow> (\<And>s t. R s t \<Longrightarrow> S s t) \<Longrightarrow> always S m"
  by (simp add: always_def)

text \<open>
  A reflexive and transitive relation between the states before and after a computation is closed
  under every way the program composes computations.
\<close>

locale step_relation =
  fixes R :: "'s \<Rightarrow> 's \<Rightarrow> bool"
  assumes step_refl: "R s s"
    and step_trans: "R s t \<Longrightarrow> R t u \<Longrightarrow> R s u"
begin

lemma always_ret [always_intros]: "always R (ret x)"
  by (simp add: always_def step_refl)

lemma always_panic [always_intros]: "always R (panic m)"
  by (simp add: always_def step_refl)

lemma always_fatal [always_intros]: "always R (fatal m)"
  by (simp add: always_def step_refl)

lemma always_stuck [always_intros]: "always R stuck"
  by (simp add: always_def step_refl)

lemma always_gets [always_intros]: "always R (gets f)"
  by (simp add: always_def step_refl)

lemma always_outcome_of [always_intros]: "always R (outcome_of r)"
  by (simp add: always_def step_refl)

lemma always_modify: "(\<And>s. R s (f s)) \<Longrightarrow> always R (modify f)"
  by (simp add: always_def)

lemma always_bind [always_intros]:
  assumes "always R m" and "\<And>x. always R (k x)"
  shows "always R (bind m k)"
proof (rule alwaysI)
  fix s r t
  assume run: "bind m k s = (r, t)"
  obtain q u where m: "m s = (q, u)" by fastforce
  then have su: "R s u" by (rule alwaysD [OF assms(1)])
  show "R s t"
  proof (cases q)
    case (Return x)
    with run m have "k x u = (r, t)" by (simp add: bind_def)
    then have "R u t" by (rule alwaysD [OF assms(2)])
    with su show ?thesis by (rule step_trans)
  qed (use run m su in \<open>simp_all add: bind_def\<close>)
qed

lemma always_handle [always_intros]:
  assumes "always R m" and "\<And>e. always R (h e)" and "\<And>x. always R (k x)"
  shows "always R (handle m h k)"
  unfolding handle_def using assms by (auto intro!: always_bind split: sum.splits)

lemma always_check [always_intros]:
  assumes "always R m" and "\<And>x. always R (k x)"
  shows "always R (check m k)"
  unfolding check_def using assms by (auto intro!: always_handle always_ret)

lemma always_check_err [always_intros]:
  assumes "always R m" and "always R k"
  shows "always R (check_err m k)"
  unfolding check_err_def using assms by (auto intro!: always_bind always_ret split: option.splits)

lemma always_if [always_intros]:
  assumes "b \<Longrightarrow> always R m" and "\<not> b \<Longrightarrow> always R n"
  shows "always R (if b then m else n)"
  using assms by simp

lemma always_sum [always_intros]:
  assumes "\<And>e. x = Inl e \<Longrightarrow> always R (h e)" and "\<And>y. x = Inr y \<Longrightarrow> always R (k y)"
  shows "always R (case x of Inl e \<Rightarrow> h e | Inr y \<Rightarrow> k y)"
  using assms by (cases x) auto

lemma always_option [always_intros]:
  assumes "x = None \<Longrightarrow> always R n" and "\<And>y. x = Some y \<Longrightarrow> always R (k y)"
  shows "always R (case x of None \<Rightarrow> n | Some y \<Rightarrow> k y)"
  using assms by (cases x) auto

lemma always_bool [always_intros]:
  assumes "always R m" and "always R n"
  shows "always R (case b of True \<Rightarrow> m | False \<Rightarrow> n)"
  using assms by (cases b) auto

lemma always_list [always_intros]:
  assumes "x = [] \<Longrightarrow> always R n" and "\<And>y ys. x = y # ys \<Longrightarrow> always R (k y ys)"
  shows "always R (case x of [] \<Rightarrow> n | y # ys \<Rightarrow> k y ys)"
  using assms by (cases x) auto

lemma always_prod [always_intros]:
  assumes "\<And>a b. x = (a, b) \<Longrightarrow> always R (k a b)"
  shows "always R (case x of (a, b) \<Rightarrow> k a b)"
  using assms by (cases x) auto

lemma always_prod_arg [always_intros]:
  assumes "\<And>a b. x = (a, b) \<Longrightarrow> always R (k a b c)"
  shows "always R ((case x of (a, b) \<Rightarrow> k a b) c)"
  using assms by (cases x) auto

lemma always_let [always_intros]: "always R (k x) \<Longrightarrow> always R (let y = x in k y)"
  by simp

lemma always_for_each [always_intros]:
  assumes "\<And>x a. x \<in> set xs \<Longrightarrow> always R (body x a)"
  shows "always R (for_each xs body acc)"
  using assms
  by (induction xs arbitrary: acc) (auto intro!: always_bind always_ret)

lemma always_deferring [always_intros]:
  assumes "always R m" and "always R d"
  shows "always R (deferring m d)"
proof (rule alwaysI)
  fix s r t
  assume run: "deferring m d s = (r, t)"
  obtain q u where m: "m s = (q, u)" by fastforce
  obtain p v where d: "d u = (p, v)" by fastforce
  have "R s u" "R u v"
    using alwaysD [OF assms(1) m] alwaysD [OF assms(2) d] by simp_all
  then have "R s v" by (rule step_trans)
  with \<open>R s u\<close> run m d show "R s t"
    by (auto simp: deferring_def split: outcome.splits)
qed

end

text \<open>The invariant form: \<open>I\<close> holds after every computation that starts with it.\<close>

definition keeps :: "('s \<Rightarrow> bool) \<Rightarrow> 's \<Rightarrow> 's \<Rightarrow> bool" where
  "keeps I s t \<longleftrightarrow> (I s \<longrightarrow> I t)"

lemma step_relation_keeps: "step_relation (keeps I)"
  by unfold_locales (auto simp: keeps_def)

section \<open>Strings\<close>

definition HasPrefix :: "string \<Rightarrow> string \<Rightarrow> bool" where
  "HasPrefix s p \<longleftrightarrow> take (length p) s = p"

definition HasSuffix :: "string \<Rightarrow> string \<Rightarrow> bool" where
  "HasSuffix s p \<longleftrightarrow> length p \<le> length s \<and> drop (length s - length p) s = p"

definition TrimSuffix :: "string \<Rightarrow> string \<Rightarrow> string" where
  "TrimSuffix s p = (if HasSuffix s p then take (length s - length p) s else s)"

fun Join :: "string list \<Rightarrow> string \<Rightarrow> string" where
  "Join [] sep = []"
| "Join [x] sep = x"
| "Join (x # y # xs) sep = x @ sep @ Join (y # xs) sep"

text \<open>White space, \<^verbatim>\<open>strings.Fields\<close> and \<^verbatim>\<open>strings.TrimSpace\<close> on ASCII text.\<close>

definition is_space :: "char \<Rightarrow> bool" where
  "is_space x \<longleftrightarrow> x \<in> {CHR '' '', CHR 0x09, CHR 0x0A, CHR 0x0B, CHR 0x0C, CHR 0x0D}"

fun fields_acc :: "string \<Rightarrow> string \<Rightarrow> string list" where
  "fields_acc acc [] = (if acc = [] then [] else [rev acc])"
| "fields_acc acc (x # xs) =
     (if is_space x then (if acc = [] then fields_acc [] xs else rev acc # fields_acc [] xs)
      else fields_acc (x # acc) xs)"

definition Fields :: "string \<Rightarrow> string list" where
  "Fields s = fields_acc [] s"

definition TrimSpace :: "string \<Rightarrow> string" where
  "TrimSpace s = rev (dropWhile is_space (rev (dropWhile is_space s)))"

definition ascii_lower :: "char \<Rightarrow> char" where
  "ascii_lower c = (let n = of_char c :: nat in if 65 \<le> n \<and> n \<le> 90 then char_of (n + 32) else c)"

definition ascii_upper :: "char \<Rightarrow> char" where
  "ascii_upper c = (let n = of_char c :: nat in if 97 \<le> n \<and> n \<le> 122 then char_of (n - 32) else c)"

definition ToLower :: "string \<Rightarrow> string" where
  "ToLower s = map ascii_lower s"

definition ToUpper :: "string \<Rightarrow> string" where
  "ToUpper s = map ascii_upper s"

definition digit :: "nat \<Rightarrow> char" where
  "digit n = char_of (48 + n)"

fun show_nat :: "nat \<Rightarrow> string" where
  "show_nat n = (if n < 10 then [digit n] else show_nat (n div 10) @ [digit (n mod 10)])"

declare show_nat.simps [simp del]

definition show_int :: "int \<Rightarrow> string" where
  "show_int i = (if i < 0 then CHR ''-'' # show_nat (nat (- i)) else show_nat (nat i))"

lemma HasPrefix_iff: "HasPrefix s p \<longleftrightarrow> (\<exists>r. s = p @ r)"
  unfolding HasPrefix_def by (metis append_eq_conv_conj append_take_drop_id)

lemma HasSuffix_iff: "HasSuffix s p \<longleftrightarrow> (\<exists>r. s = r @ p)"
  unfolding HasSuffix_def
  by (metis append_eq_conv_conj append_take_drop_id diff_diff_cancel length_append length_drop
      le_add2 add_diff_cancel_right')

lemma HasPrefix_refl [simp]: "HasPrefix s s"
  by (simp add: HasPrefix_def)

lemma HasPrefix_append [simp]: "HasPrefix (p @ s) p"
  by (simp add: HasPrefix_def)

lemma TrimSuffix_append [simp]: "TrimSuffix (s @ p) p = s"
  by (simp add: TrimSuffix_def HasSuffix_def)

lemma show_nat_nonempty [simp]: "show_nat n \<noteq> []"
  by (subst show_nat.simps) simp

section \<open>Machine integers\<close>

text \<open>
  Go's \<^verbatim>\<open>int\<close>, \<^verbatim>\<open>int64\<close> and \<^verbatim>\<open>time.Duration\<close> are 64-bit two's complement: a result that does not
  fit is reduced to the 64-bit value with the same low bits.
\<close>

definition i64 :: "int \<Rightarrow> int" where
  "i64 x = signed_take_bit 63 x"

definition Second :: int where
  "Second = 1000000000"

definition in_i64 :: "int \<Rightarrow> bool" where
  "in_i64 x \<longleftrightarrow> - (2 ^ 63) \<le> x \<and> x < 2 ^ 63"

lemma i64_id: "in_i64 x \<Longrightarrow> i64 x = x"
  by (simp add: i64_def in_i64_def signed_take_bit_int_eq_self)

lemma i64_range: "in_i64 (i64 x)"
  using signed_take_bit_int_greater_eq_minus_exp [of 63 x] signed_take_bit_int_less_exp [of 63 x]
  by (simp add: in_i64_def i64_def)

end
