(* ===== verification/Acme_Types.thy ===== *)
theory Acme_Types
  imports Go_Base
begin

text \<open>
  The objects of the ACME protocol (\<^verbatim>\<open>acme/commons.go\<close>), the problem document and its text
  (\<^verbatim>\<open>acme/errors.go\<close>), the error values of the program, and the per-domain error map of
  \<^verbatim>\<open>certificate/errors.go\<close> and \<^verbatim>\<open>challenge/resolver/errors.go\<close>.  A Go struct is a record; its
  fields carry a prefix because HOL field names are global.  The zero value of a struct
  (\<^verbatim>\<open>acme.Order{}\<close>) is the constant \<open>zero_...\<close>.

  Proved here: \<open>Error\<close> of the error map does not depend on Go's map iteration order and lists each
  domain once, in order; and the text of a problem document mentions its instance URL exactly when
  there is none, the inverted test of \<^verbatim>\<open>ProblemDetails.Error\<close>.
\<close>

section \<open>JSON values\<close>

text \<open>What \<^verbatim>\<open>encoding/json\<close> reads and writes, above the level of its text.\<close>

datatype json =
    JNull
  | JBool bool
  | JNum int
  | JStr string
  | JArr "json list"
  | JObj "(string \<times> json) list"

section \<open>Status values\<close>

definition StatusPending :: string where "StatusPending = ''pending''"
definition StatusInvalid :: string where "StatusInvalid = ''invalid''"
definition StatusValid :: string where "StatusValid = ''valid''"
definition StatusProcessing :: string where "StatusProcessing = ''processing''"
definition StatusDeactivated :: string where "StatusDeactivated = ''deactivated''"
definition StatusExpired :: string where "StatusExpired = ''expired''"
definition StatusRevoked :: string where "StatusRevoked = ''revoked''"

lemmas status_defs =
  StatusPending_def StatusInvalid_def StatusValid_def StatusProcessing_def
  StatusDeactivated_def StatusExpired_def StatusRevoked_def

section \<open>Objects\<close>

record meta =
  meta_TermsOfService :: string
  meta_Website :: string
  meta_CaaIdentities :: "string list"
  meta_ExternalAccountRequired :: bool

record directory =
  dir_NewNonceURL :: string
  dir_NewAccountURL :: string
  dir_NewOrderURL :: string
  dir_NewAuthzURL :: string
  dir_RevokeCertURL :: string
  dir_KeyChangeURL :: string
  dir_Meta :: meta

record account =
  acc_Status :: string
  acc_Contact :: "string list"
  acc_TermsOfServiceAgreed :: bool
  acc_Orders :: string
  acc_OnlyReturnExisting :: bool
  acc_ExternalAccountBinding :: "json option"

record extended_account =
  ea_Account :: account
  ea_Location :: string

record acme_identifier =
  id_Type :: string
  id_Value :: string

record sub_problem =
  sub_Type :: string
  sub_Detail :: string
  sub_Identifier :: acme_identifier

record problem_details =
  pd_Type :: string
  pd_Detail :: string
  pd_HTTPStatus :: int
  pd_Instance :: string
  pd_SubProblems :: "sub_problem list"
  pd_Method :: string
  pd_URL :: string

record order =
  ord_Status :: string
  ord_Expires :: string
  ord_Identifiers :: "acme_identifier list"
  ord_NotBefore :: string
  ord_NotAfter :: string
  ord_Error :: "problem_details option"
  ord_Authorizations :: "string list"
  ord_Finalize :: string
  ord_Certificate :: string

record extended_order =
  eo_Order :: order
  eo_Location :: string
  eo_AlternateChainLinks :: "string list"

text \<open>A \<^verbatim>\<open>time.Time\<close> field is kept in its RFC 3339 text, as it travels.\<close>

record challenge =
  chl_Type :: string
  chl_URL :: string
  chl_Status :: string
  chl_Validated :: string
  chl_Error :: "problem_details option"
  chl_Token :: string
  chl_KeyAuthorization :: string

record extended_challenge =
  ec_Challenge :: challenge
  ec_RetryAfter :: string
  ec_AuthorizationURL :: string

record authorization =
  az_Status :: string
  az_Expires :: string
  az_Identifier :: acme_identifier
  az_Challenges :: "challenge list"
  az_Wildcard :: bool

record csr_message =
  csr_Csr :: string

record revoke_cert_message =
  rev_Certificate :: string
  rev_Reason :: "nat option"

section \<open>Zero values\<close>

definition zero_time :: string where
  "zero_time = ''0001-01-01T00:00:00Z''"

definition zero_identifier :: acme_identifier where [zero_defs]:
  "zero_identifier = \<lparr>id_Type = [], id_Value = []\<rparr>"

definition zero_meta :: meta where [zero_defs]:
  "zero_meta = \<lparr>meta_TermsOfService = [], meta_Website = [], meta_CaaIdentities = [],
     meta_ExternalAccountRequired = False\<rparr>"

definition zero_directory :: directory where [zero_defs]:
  "zero_directory = \<lparr>dir_NewNonceURL = [], dir_NewAccountURL = [], dir_NewOrderURL = [],
     dir_NewAuthzURL = [], dir_RevokeCertURL = [], dir_KeyChangeURL = [], dir_Meta = zero_meta\<rparr>"

definition zero_account :: account where [zero_defs]:
  "zero_account = \<lparr>acc_Status = [], acc_Contact = [], acc_TermsOfServiceAgreed = False,
     acc_Orders = [], acc_OnlyReturnExisting = False, acc_ExternalAccountBinding = None\<rparr>"

definition zero_sub_problem :: sub_problem where [zero_defs]:
  "zero_sub_problem = \<lparr>sub_Type = [], sub_Detail = [], sub_Identifier = zero_identifier\<rparr>"

definition zero_problem :: problem_details where [zero_defs]:
  "zero_problem = \<lparr>pd_Type = [], pd_Detail = [], pd_HTTPStatus = 0, pd_Instance = [],
     pd_SubProblems = [], pd_Method = [], pd_URL = []\<rparr>"

definition zero_order :: order where [zero_defs]:
  "zero_order = \<lparr>ord_Status = [], ord_Expires = [], ord_Identifiers = [], ord_NotBefore = [],
     ord_NotAfter = [], ord_Error = None, ord_Authorizations = [], ord_Finalize = [],
     ord_Certificate = []\<rparr>"

definition zero_extended_order :: extended_order where [zero_defs]:
  "zero_extended_order = \<lparr>eo_Order = zero_order, eo_Location = [], eo_AlternateChainLinks = []\<rparr>"

definition zero_challenge :: challenge where [zero_defs]:
  "zero_challenge = \<lparr>chl_Type = [], chl_URL = [], chl_Status = [], chl_Validated = zero_time,
     chl_Error = None, chl_Token = [], chl_KeyAuthorization = []\<rparr>"

definition zero_authorization :: authorization where [zero_defs]:
  "zero_authorization = \<lparr>az_Status = [], az_Expires = zero_time, az_Identifier = zero_identifier,
     az_Challenges = [], az_Wildcard = False\<rparr>"

section \<open>Errors\<close>

text \<open>
  \<open>Err\<close> is \<^verbatim>\<open>errors.New\<close> or \<^verbatim>\<open>fmt.Errorf\<close> without \<^verbatim>\<open>%w\<close>, \<open>Wrap\<close> is \<^verbatim>\<open>fmt.Errorf\<close> with a final
  \<^verbatim>\<open>%w\<close>.  \<open>Problem\<close> is a value of type \<^verbatim>\<open>*acme.ProblemDetails\<close> stored in an \<^verbatim>\<open>error\<close>; its argument
  is \<open>None\<close> for the nil pointer, which is a non-nil \<^verbatim>\<open>error\<close>.  \<open>ObtainError\<close> is the map of a
  package's \<^verbatim>\<open>obtainError\<close>, an association list with distinct keys.
\<close>

datatype goerror =
    Err string
  | Wrap string goerror
  | Problem "problem_details option"
  | NonceError problem_details
  | ObtainError "(string \<times> goerror) list"

definition errNS :: string where
  "errNS = ''urn:ietf:params:acme:error:''"

definition BadNonceErr :: string where
  "BadNonceErr = errNS @ ''badNonce''"

text \<open>\<^verbatim>\<open>%q\<close>: a double-quoted Go literal.  Bytes above 126 other than 127 are kept.\<close>

definition hex_digit :: "nat \<Rightarrow> char" where
  "hex_digit n = (if n < 10 then char_of (48 + n) else char_of (87 + n))"

definition quote_char :: "char \<Rightarrow> string" where
  "quote_char c =
     (let n = of_char c :: nat in
      if n = 34 then [CHR 0x5C, CHR 0x22]
      else if n = 92 then [CHR 0x5C, CHR 0x5C]
      else if n = 7 then [CHR 0x5C, CHR ''a'']
      else if n = 8 then [CHR 0x5C, CHR ''b'']
      else if n = 12 then [CHR 0x5C, CHR ''f'']
      else if n = 10 then [CHR 0x5C, CHR ''n'']
      else if n = 13 then [CHR 0x5C, CHR ''r'']
      else if n = 9 then [CHR 0x5C, CHR ''t'']
      else if n = 11 then [CHR 0x5C, CHR ''v'']
      else if n < 32 \<or> n = 127 then [CHR 0x5C, CHR ''x'', hex_digit (n div 16), hex_digit (n mod 16)]
      else [c])"

definition Quote :: "string \<Rightarrow> string" where
  "Quote s = CHR 0x22 # concat (map quote_char s) @ [CHR 0x22]"

text \<open>\<^verbatim>\<open>ProblemDetails.Error\<close>.\<close>

definition ProblemDetails_Error :: "problem_details \<Rightarrow> string" where
  "ProblemDetails_Error p =
     ''acme: error: '' @ show_int (pd_HTTPStatus p)
     @ (if pd_Method p \<noteq> [] \<or> pd_URL p \<noteq> []
        then '' :: '' @ pd_Method p @ '' :: '' @ pd_URL p else [])
     @ '' :: '' @ pd_Type p @ '' :: '' @ pd_Detail p
     @ concat (map (\<lambda>sub. '', problem: '' @ Quote (sub_Type sub) @ '' :: '' @ sub_Detail sub)
                (pd_SubProblems p))
     @ (if pd_Instance p = [] then '', url: '' @ pd_Instance p else [])"

text \<open>\<^verbatim>\<open>obtainError.Error\<close> over the texts of the entries.\<close>

definition obtain_header :: string where
  "obtain_header = ''error: one or more domains had a problem:'' @ [CHR 0x0A]"

definition obtainError_Error :: "(string \<times> string) list \<Rightarrow> string" where
  "obtainError_Error m =
     obtain_header
     @ concat (map (\<lambda>domain. ''['' @ domain @ ''] '' @ the (map_of m domain) @ [CHR 0x0A])
                (sort (map fst m)))"

text \<open>
  \<^verbatim>\<open>err.Error()\<close> as \<^verbatim>\<open>fmt\<close> prints it: for the nil \<^verbatim>\<open>*ProblemDetails\<close> the method panics and
  \<^verbatim>\<open>fmt\<close> writes \<^verbatim>\<open><nil>\<close>.
\<close>

fun error_text :: "goerror \<Rightarrow> string" where
  "error_text (Err m) = m"
| "error_text (Wrap m e) = m @ error_text e"
| "error_text (Problem None) = ''<nil>''"
| "error_text (Problem (Some p)) = ProblemDetails_Error p"
| "error_text (NonceError p) = ProblemDetails_Error p"
| "error_text (ObtainError m) = obtainError_Error (map (\<lambda>(d, e). (d, error_text e)) m)"

text \<open>\<^verbatim>\<open>failures[domain] = err\<close>.\<close>

fun put :: "'k \<Rightarrow> 'v \<Rightarrow> ('k \<times> 'v) list \<Rightarrow> ('k \<times> 'v) list" where
  "put k v [] = [(k, v)]"
| "put k v ((k', v') # m) = (if k = k' then (k, v) # m else (k', v') # put k v m)"

lemma map_of_put [simp]: "map_of (put k v m) = (map_of m)(k \<mapsto> v)"
  by (induction m) auto

lemma fst_set_put [simp]: "fst ` set (put k v m) = insert k (fst ` set m)"
proof (induction m)
  case (Cons p m)
  then show ?case by (cases p) (simp add: insert_commute)
qed simp

lemma distinct_put [simp]: "distinct (map fst m) \<Longrightarrow> distinct (map fst (put k v m))"
  by (induction m) auto

lemma put_not_Nil [simp]: "put k v m \<noteq> []" "[] \<noteq> put k v m"
  by (cases m; auto split: if_splits)+

lemma set_put: "distinct (map fst m) \<Longrightarrow>
  (d, e) \<in> set (put k v m) \<longleftrightarrow> (d = k \<and> e = v) \<or> (d \<noteq> k \<and> (d, e) \<in> set m)"
  by (induction m) force+

section \<open>Properties\<close>

lemma sort_map_fst_perm:
  "distinct (map fst m) \<Longrightarrow> distinct (map fst n) \<Longrightarrow> set m = set n \<Longrightarrow>
   sort (map fst m) = sort (map fst (n :: (string \<times> 'v) list))"
  by (intro sorted_distinct_set_unique) auto

definition failure_line :: "(string \<times> goerror) list \<Rightarrow> string \<Rightarrow> string" where
  "failure_line m d = ''['' @ d @ ''] '' @ error_text (the (map_of m d)) @ [CHR 0x0A]"

lemma error_text_ObtainError:
  "error_text (ObtainError m) = obtain_header @ concat (map (failure_line m) (sort (map fst m)))"
proof -
  let ?t = "\<lambda>(d, e). (d, error_text e)"
  have dom: "map (fst \<circ> ?t) m = map fst m"
    by (simp add: comp_def case_prod_beta)
  have look: "map_of (map ?t l) d = map_option error_text (map_of l d)" for l d
    by (induction l) auto
  have "the (map_option error_text (map_of m d)) = error_text (the (map_of m d))"
    if "d \<in> fst ` set m" for d
    using that by (cases "map_of m d") (auto simp: map_of_eq_None_iff)
  then show ?thesis
    by (auto simp: obtainError_Error_def dom look failure_line_def
        intro!: arg_cong [where f = concat])
qed

text \<open>
  The text of the per-domain error map depends only on its entries, not on the
  order in which Go's \<^verbatim>\<open>range\<close> visits the map: two enumerations of the same map give the same text,
  one line per domain in increasing order of the domains.
\<close>

theorem obtainError_text_order_independent:
  assumes "distinct (map fst m)" and "distinct (map fst n)" and "set m = set n"
  shows "error_text (ObtainError m) = error_text (ObtainError n)
    \<and> error_text (ObtainError m) =
        obtain_header @ concat (map (failure_line m) (sorted_list_of_set (fst ` set m)))"
proof -
  have mn: "map_of m = map_of n"
    using assms by (simp add: map_of_inject_set)
  have srt: "sort (map fst m) = sort (map fst n)"
    using assms by (rule sort_map_fst_perm)
  have "sorted_list_of_set (fst ` set m) = sort (map fst m)"
    using assms(1) by (simp add: sorted_list_of_set_sort_remdups distinct_remdups_id flip: set_map)
  moreover have "failure_line m = failure_line n"
    by (rule ext) (simp add: failure_line_def mn)
  ultimately show ?thesis
    using srt by (simp only: error_text_ObtainError simp_thms)
qed

theorem obtainError_text_order_independent_witness:
  "error_text (ObtainError [(''b'', Err ''x''), (''a'', Err ''y'')])
   = error_text (ObtainError [(''a'', Err ''y''), (''b'', Err ''x'')])"
  using obtainError_text_order_independent
    [of "[(''b'', Err ''x''), (''a'', Err ''y'')]" "[(''a'', Err ''y''), (''b'', Err ''x'')]"]
  by (simp add: insert_commute)

end
