(* ===== verification/World.thy ===== *)
theory World
  imports Acme_Types
begin

text \<open>
  The state the program runs in and the code around it.

  \<open>world\<close> holds what the modelled objects and package variables store between calls: the nonce pool
  and the key identifier of \<^verbatim>\<open>api.Core\<close>, the SOA cache, resolver list and timeout of package
  \<^verbatim>\<open>dns01\<close>, the maps the DNS providers allocate, the clock, and a trace of every interaction with the
  outside.

  \<open>env\<close> collects the code that is not modelled: the network, the operating system, the
  cryptography, PEM, DER and JSON text of the standard library, and the third-party packages
  (\<^verbatim>\<open>backoff\<close>, \<^verbatim>\<open>go-jose\<close>, \<^verbatim>\<open>miekg/dns\<close>, \<^verbatim>\<open>x/net/idna\<close>, \<^verbatim>\<open>x/crypto/ocsp\<close>).  Each is a field; a reply
  of the outside is a function of the trace so far, so that a statement for every \<open>env\<close> is a
  statement for every behaviour of the server, the network and the other side.  What the program
  relies on of a field is a named predicate, an assumption of the theorems that use it.
\<close>

section \<open>Keys, signed messages, HTTP\<close>

datatype curve = P256 | P384 | OtherCurve nat

text \<open>The dynamic types a \<^verbatim>\<open>crypto.PrivateKey\<close> takes here; the number tells keys apart.\<close>

datatype private_key =
    RsaKey nat nat
  | EcdsaKey curve nat
  | Ed25519Key nat
  | OtherKey nat

text \<open>A JSON Web Signature: what the program hands to the signer, and the nonce the signer drew.\<close>

record jws =
  jws_Alg :: string
  jws_Key :: private_key
  jws_KeyID :: string
  jws_EmbedJWK :: bool
  jws_Nonce :: string
  jws_Url :: string
  jws_Payload :: string

datatype req_body = NoBody | JoseBody jws | RawBody string

record http_request =
  req_Method :: string
  req_URL :: string
  req_Header :: "(string \<times> string) list"
  req_Body :: req_body

record http_response =
  resp_StatusCode :: int
  resp_Status :: string
  resp_Header :: "(string \<times> string list) list"
  resp_Body :: "goerror + string"

definition header_values :: "(string \<times> string list) list \<Rightarrow> string \<Rightarrow> string list" where
  "header_values h k = (case map_of h k of None \<Rightarrow> [] | Some vs \<Rightarrow> vs)"

text \<open>\<^verbatim>\<open>Header.Get\<close> on a key in canonical form: the first value, or the empty string.\<close>

definition header_get :: "(string \<times> string list) list \<Rightarrow> string \<Rightarrow> string" where
  "header_get h k = (case header_values h k of [] \<Rightarrow> [] | v # _ \<Rightarrow> v)"

section \<open>Certificates and DNS messages\<close>

record x509_cert =
  crt_Raw :: string
  crt_IsCA :: bool
  crt_SubjectCN :: string
  crt_IssuerCN :: string
  crt_DNSNames :: "string list"
  crt_NotAfter :: int
  crt_OCSPServer :: "string list"
  crt_IssuingCertificateURL :: "string list"

record x509_csr =
  csr_Raw :: string
  csr_SubjectCN :: string
  csr_DNSNames :: "string list"

record pem_block =
  pem_Type :: string
  pem_Bytes :: string

text \<open>An X.509 extension: object identifier, critical flag, value.\<close>

type_synonym extension = "nat list \<times> bool \<times> string"

text \<open>What the program fills in of a certificate template.\<close>

record cert_template =
  tmpl_SerialNumber :: nat
  tmpl_SubjectCN :: string
  tmpl_NotBefore :: int
  tmpl_NotAfter :: int
  tmpl_DNSNames :: "string list"
  tmpl_ExtraExtensions :: "extension list"

datatype rr =
    CNAME string string
  | SOA string string nat
  | NS string string
  | TXT string "string list"
  | OtherRR string

record dns_msg =
  msg_Rcode :: nat
  msg_Answer :: "rr list"
  msg_Truncated :: bool

datatype rtype = TypeCNAME | TypeSOA | TypeNS | TypeTXT

record dns_query =
  q_Name :: string
  q_Type :: rtype
  q_RecursionDesired :: bool
  q_Edns0 :: nat

text \<open>An exchange may return a message, an error, both, or neither.\<close>

type_synonym dns_reply = "dns_msg option \<times> goerror option"

record soaCacheEntry =
  soa_zone :: string
  soa_primaryNs :: string
  soa_expires :: int

section \<open>The trace and the state\<close>

datatype event =
    EvHttp http_request "goerror + http_response"
  | EvSleep int
  | EvDns string dns_query string
  | EvRandom
  | EvPreSolve authorization
  | EvSolve authorization
  | EvCleanUp authorization
  | EvPresent string string string
  | EvUnpresent string string string
  | EvStdin
  | EvExec string "string list" "goerror option"

text \<open>
  What a DNS provider keeps in a Go map between \<^verbatim>\<open>Present\<close> and \<^verbatim>\<open>CleanUp\<close>: an integer, a string, or a struct
  of such fields.
\<close>

datatype cell = IntCell int | StrCell string | StructCell "cell list" | NilCell

record world =
  w_trace :: "event list"
  w_now :: int
  w_nonces :: "string list"
  w_kid :: string
  w_soaCache :: "(string \<times> soaCacheEntry) list"
  w_recursiveNameservers :: "string list"
  w_dnsTimeout :: int
  w_maps :: "(string \<times> cell) list list"

text \<open>
  One run of an operation under \<^verbatim>\<open>backoff.Retry\<close>: its error, whether it cancelled the context, and
  the response and decoded body it left in the variables it captures.
\<close>

type_synonym reply = "http_response \<times> json option"
type_synonym attempt = "goerror option \<times> bool \<times> reply option"

record backoff =
  bo_InitialInterval :: int
  bo_MaxInterval :: int
  bo_MaxElapsedTime :: int

section \<open>Code that is not modelled\<close>

text \<open>An XML document as \<^verbatim>\<open>encoding/xml\<close> reads it; an element also has the text between its tags.\<close>

datatype xml =
    Element (xml_name: string) (xml_attrs: "(string \<times> string) list") (xml_inner: string) (xml_children: "xml list")
  | CharData string

record env =
  \<comment> \<open>network and operating system\<close>
  httpDo :: "event list \<Rightarrow> http_request \<Rightarrow> goerror + http_response"
  newRequestErr :: "string \<Rightarrow> string \<Rightarrow> goerror option"
  latency :: "event list \<Rightarrow> nat"
  goosArch :: string
  getenv :: "string \<Rightarrow> string"
  readFile :: "string \<Rightarrow> goerror + string"
  userHomeDir :: "goerror + string"
  stdinLine :: "event list \<Rightarrow> goerror option"
  execRun :: "event list \<Rightarrow> string \<Rightarrow> string list \<Rightarrow> goerror option"
  sched :: "nat \<Rightarrow> nat list"
  pollFuel :: nat
  \<comment> \<open>encoding/json, encoding/xml and time.Time texts\<close>
  jsonPrint :: "json \<Rightarrow> string"
  jsonParse :: "string \<Rightarrow> json option"
  jsonStream :: "string \<Rightarrow> json option"
  xmlParse :: "string \<Rightarrow> goerror + xml"
  timeOk :: "string \<Rightarrow> bool"
  timeFormat :: "string \<Rightarrow> int \<Rightarrow> string"
  timeFormatUTC :: "string \<Rightarrow> int \<Rightarrow> string"
  loadLocation :: "string \<Rightarrow> goerror option"
  \<comment> \<open>github.com/cenkalti/backoff\<close>
  retry :: "backoff \<Rightarrow> (world, attempt) go \<Rightarrow> (world, goerror option \<times> reply option) go"
  \<comment> \<open>gopkg.in/square/go-jose.v2\<close>
  joseNewSigner :: "string \<Rightarrow> private_key \<Rightarrow> goerror option"
  joseSign :: "jws \<Rightarrow> goerror option"
  joseNonceError :: "goerror \<Rightarrow> goerror"
  joseThumbprint :: "private_key option \<Rightarrow> goerror + string"
  joseMarshalPublic :: "private_key \<Rightarrow> goerror + string"
  joseSignEAB :: "string \<Rightarrow> string \<Rightarrow> string \<Rightarrow> string \<Rightarrow> goerror + json"
  joseSignerEAB :: "string \<Rightarrow> goerror option"
  jwtNewSigner :: "private_key \<Rightarrow> string \<Rightarrow> goerror option"
  jwtSerialize :: "private_key \<Rightarrow> string \<Rightarrow> json \<Rightarrow> goerror + string"
  \<comment> \<open>crypto, encoding/pem, crypto/x509\<close>
  sha256 :: "string \<Rightarrow> string"
  md5 :: "string \<Rightarrow> string"
  hmacSHA1 :: "string \<Rightarrow> string \<Rightarrow> string"
  generateEcKey :: "event list \<Rightarrow> curve \<Rightarrow> goerror + private_key"
  generateRsaKey :: "event list \<Rightarrow> nat \<Rightarrow> goerror + private_key"
  randInt :: "event list \<Rightarrow> nat \<Rightarrow> goerror + nat"
  pemDecode :: "string \<Rightarrow> pem_block option \<times> string option"
  pemEncode :: "pem_block \<Rightarrow> string"
  parseCertificate :: "string \<Rightarrow> goerror + x509_cert"
  parseCertificateRequest :: "string \<Rightarrow> goerror + x509_csr"
  parsePKCS1 :: "string \<Rightarrow> goerror + private_key"
  parsePKCS8 :: "string \<Rightarrow> goerror + private_key"
  parseEC :: "string \<Rightarrow> goerror + private_key"
  marshalKey :: "private_key \<Rightarrow> string"
  createCertificateRequest ::
    "event list \<Rightarrow> string \<Rightarrow> string list \<Rightarrow> extension list \<Rightarrow> private_key \<Rightarrow> goerror + string"
  createCertificate :: "event list \<Rightarrow> cert_template \<Rightarrow> private_key \<Rightarrow> goerror + string"
  \<comment> \<open>golang.org/x/crypto/ocsp, golang.org/x/net/idna, golang.org/x/net/publicsuffix\<close>
  ocspCreateRequest :: "x509_cert \<Rightarrow> x509_cert \<Rightarrow> goerror + string"
  ocspParseResponse :: "string \<Rightarrow> x509_cert \<Rightarrow> goerror + int"
  idnaToASCII :: "string \<Rightarrow> goerror + string"
  publicSuffix :: "string \<Rightarrow> string"
  effectiveTLDPlusOne :: "string \<Rightarrow> goerror + string"
  \<comment> \<open>github.com/miekg/dns\<close>
  dnsExchange :: "event list \<Rightarrow> int \<Rightarrow> string \<Rightarrow> dns_query \<Rightarrow> string \<Rightarrow> dns_reply"
  dnsSplit :: "string \<Rightarrow> nat list"
  dnsSplitDomainName :: "string \<Rightarrow> string list"
  dnsFqdn :: "string \<Rightarrow> string"
  rcodeToString :: "nat \<Rightarrow> string"
  clientConfigFromFile :: "string \<Rightarrow> goerror + string list"
  \<comment> \<open>github.com/google/go-querystring: the tagged fields of a structure\<close>
  queryValues :: "(string \<times> json) list \<Rightarrow> goerror + (string \<times> string list) list"
  \<comment> \<open>crypto/tls, net/url and certificate pools\<close>
  x509KeyPair :: "string \<Rightarrow> string \<Rightarrow> goerror option"
  urlParse :: "string \<Rightarrow> goerror option"
  appendCertsFromPEM :: "string \<Rightarrow> bool"

section \<open>Primitive steps\<close>

text \<open>Every outside interaction is recorded and takes some time.\<close>

definition observe :: "env \<Rightarrow> event \<Rightarrow> (world, unit) go" where
  "observe e ev =
     modify (\<lambda>w. w\<lparr>w_trace := w_trace w @ [ev], w_now := w_now w + int (latency e (w_trace w))\<rparr>)"

text \<open>\<^verbatim>\<open>http.Client.Do\<close>.\<close>

definition http_do :: "env \<Rightarrow> http_request \<Rightarrow> (world, goerror + http_response) go" where
  "http_do e req =
     bind (gets w_trace) (\<lambda>tr.
       let r = httpDo e tr req in
       bind (observe e (EvHttp req r)) (\<lambda>_. ret r))"

text \<open>\<^verbatim>\<open>time.Sleep\<close> waits at least its argument; a negative or zero one returns at once.\<close>

definition sleep :: "env \<Rightarrow> int \<Rightarrow> (world, unit) go" where
  "sleep e d =
     bind (observe e (EvSleep d)) (\<lambda>_. modify (\<lambda>w. w\<lparr>w_now := w_now w + max 0 d\<rparr>))"

text \<open>\<^verbatim>\<open>ioutil.ReadAll(http.MaxBytesReader(nil, body, n))\<close>.\<close>

definition readAllMax :: "nat \<Rightarrow> goerror + string \<Rightarrow> goerror + string" where
  "readAllMax n body =
     (case body of
        Inl e \<Rightarrow> Inl e
      | Inr b \<Rightarrow> if n < length b then Inl (Err ''http: request body too large'') else Inr b)"

section \<open>Step relations every component shares\<close>

text \<open>The trace only grows and the clock only moves forward.\<close>

definition grows :: "world \<Rightarrow> world \<Rightarrow> bool" where
  "grows s t \<longleftrightarrow> (\<exists>evs. w_trace t = w_trace s @ evs) \<and> w_now s \<le> w_now t"

interpretation growth: step_relation grows
  by unfold_locales (auto simp: grows_def)

text \<open>A computation that leaves the trace alone.\<close>

definition quiet :: "world \<Rightarrow> world \<Rightarrow> bool" where
  "quiet s t \<longleftrightarrow> w_trace t = w_trace s"

interpretation quietness: step_relation quiet
  by unfold_locales (auto simp: quiet_def)

lemma run_observe [go_simps]:
  "observe e ev w =
     (Return (), w\<lparr>w_trace := w_trace w @ [ev], w_now := w_now w + int (latency e (w_trace w))\<rparr>)"
  by (simp add: observe_def)

lemma run_http_do [go_simps]:
  "http_do e req w =
     (Return (httpDo e (w_trace w) req),
      w\<lparr>w_trace := w_trace w @ [EvHttp req (httpDo e (w_trace w) req)],
        w_now := w_now w + int (latency e (w_trace w))\<rparr>)"
  by (simp add: http_do_def go_simps Let_def)

lemma run_sleep [go_simps]:
  "sleep e d w =
     (Return (), w\<lparr>w_trace := w_trace w @ [EvSleep d],
        w_now := w_now w + int (latency e (w_trace w)) + max 0 d\<rparr>)"
  by (simp add: sleep_def go_simps)

lemma grows_observe [always_intros]: "always grows (observe e ev)"
  by (rule alwaysI) (auto simp: go_simps grows_def)

lemma grows_http_do [always_intros]: "always grows (http_do e req)"
  by (rule alwaysI) (auto simp: go_simps grows_def)

lemma grows_sleep [always_intros]: "always grows (sleep e d)"
  by (rule alwaysI) (auto simp: go_simps grows_def)

section \<open>The retry contract\<close>

text \<open>
  What \<^verbatim>\<open>backoff.Retry\<close> documents: the operation runs at least once; it runs again, after a pause,
  only if it returned an error and the context is not cancelled; the result is that of the last run.
\<close>

inductive retries ::
  "(world, attempt) go \<Rightarrow> world \<Rightarrow> (goerror option \<times> reply option) outcome \<times> world \<Rightarrow> bool"
  for op where
  retries_stop: "op s = (Return (err, cancelled, rep), t) \<Longrightarrow> retries op s (Return (err, rep), t)"
| retries_panic: "op s = (Panic m, t) \<Longrightarrow> retries op s (Panic m, t)"
| retries_exit: "op s = (Exit m, t) \<Longrightarrow> retries op s (Exit m, t)"
| retries_stuck: "op s = (Stuck, t) \<Longrightarrow> retries op s (Stuck, t)"
| retries_again: "op s = (Return (Some err, False, rep), t) \<Longrightarrow> 0 \<le> d \<Longrightarrow>
     retries op (t\<lparr>w_now := w_now t + d\<rparr>) res \<Longrightarrow> retries op s res"

definition retry_ok :: "env \<Rightarrow> bool" where
  "retry_ok e \<longleftrightarrow> (\<forall>bo op s. retries op s (retry e bo op s))"

lemma retries_always:
  assumes "retries op s res"
    and "always R op" and "step_relation R"
    and "\<And>w d. 0 \<le> d \<Longrightarrow> R w (w\<lparr>w_now := w_now w + d\<rparr>)"
  shows "R s (snd res)"
  using assms(1)
proof (induction rule: retries.induct)
  case (retries_again s err rep t d res)
  have "R s t" using alwaysD [OF assms(2) retries_again(1)] .
  moreover have "R t (t\<lparr>w_now := w_now t + d\<rparr>)" using assms(4) retries_again(2) .
  ultimately show ?case
    using retries_again.IH step_relation.step_trans [OF assms(3)] by blast
qed (use alwaysD [OF assms(2)] in auto)

lemma always_retry:
  assumes "retry_ok e" and "always R op" and "step_relation R"
    and "\<And>w d. 0 \<le> d \<Longrightarrow> R w (w\<lparr>w_now := w_now w + d\<rparr>)"
  shows "always R (retry e bo op)"
proof (rule alwaysI)
  fix s r t
  assume run: "retry e bo op s = (r, t)"
  have "retries op s (retry e bo op s)" using assms(1) by (simp add: retry_ok_def)
  from retries_always [OF this assms(2-4)] show "R s t" by (simp add: run)
qed

text \<open>An instance of the contract: at most \<open>n\<close> further attempts, without pauses.\<close>

fun retry_times :: "nat \<Rightarrow> (world, attempt) go \<Rightarrow> (world, goerror option \<times> reply option) go" where
  "retry_times 0 op = bind op (\<lambda>(err, cancelled, rep). ret (err, rep))"
| "retry_times (Suc n) op =
     bind op (\<lambda>(err, cancelled, rep).
       if err = None \<or> cancelled then ret (err, rep) else retry_times n op)"

lemma retry_times_ok: "retries op s (retry_times n op s)"
proof (induction n arbitrary: s)
  case 0
  obtain r t where op: "op s = (r, t)" by fastforce
  show ?case
    by (cases r) (auto simp: op bind_def intro!: retries.intros split: prod.splits)
next
  case (Suc n)
  obtain r t where op: "op s = (r, t)" by fastforce
  show ?case
  proof (cases r)
    case (Return a)
    obtain err c rep where a: "a = (err, c, rep)" by (cases a)
    show ?thesis
    proof (cases "err = None \<or> c")
      case True
      then show ?thesis using op Return a by (auto simp: bind_def intro!: retries.intros)
    next
      case False
      then obtain er where "err = Some er" "\<not> c" by auto
      then show ?thesis
        using op Return a retries_again [of op s er rep t 0] Suc.IH [of t]
        by (auto simp: bind_def)
    qed
  qed (use op in \<open>auto simp: bind_def intro!: retries.intros\<close>)
qed

section \<open>A sample environment\<close>

text \<open>
  A concrete instance of the parameters, used where a statement is evaluated on an example: the
  network refuses every request, every codec is the identity or rejects, retries stop after three
  further attempts.  Examples change the fields they are about.
\<close>

definition sample_env :: env where
  "sample_env = \<lparr>
     httpDo = (\<lambda>_ _. Inl (Err ''connection refused'')), newRequestErr = (\<lambda>_ _. None),
     latency = (\<lambda>_. 0), goosArch = ''linux; amd64'', getenv = (\<lambda>_. []),
     readFile = (\<lambda>_. Inl (Err ''no such file'')), userHomeDir = Inr ''/root'',
     stdinLine = (\<lambda>_. None),
     execRun = (\<lambda>_ _ _. None),
     sched = (\<lambda>n. [0..<n]), pollFuel = 10,
     jsonPrint = (\<lambda>_. []), jsonParse = (\<lambda>_. None), jsonStream = (\<lambda>_. None), xmlParse = (\<lambda>_. Inl (Err ''EOF'')),
     timeOk = (\<lambda>_. True),
     timeFormat = (\<lambda>_ _. []), timeFormatUTC = (\<lambda>_ _. []), loadLocation = (\<lambda>_. None),
     retry = (\<lambda>_. retry_times 3),
     joseNewSigner = (\<lambda>_ _. None), joseSign = (\<lambda>_. None),
     joseNonceError = Wrap ''square/go-jose: Error generating nonce: '',
     joseThumbprint = (\<lambda>_. Inr ''thumb''), joseMarshalPublic = (\<lambda>_. Inr ''jwk''),
     joseSignEAB = (\<lambda>_ _ _ _. Inr JNull), joseSignerEAB = (\<lambda>_. None),
     jwtNewSigner = (\<lambda>_ _. None), jwtSerialize = (\<lambda>_ _ _. Inr ''jwt''),
     sha256 = (\<lambda>s. s), md5 = (\<lambda>s. s), hmacSHA1 = (\<lambda>_ s. s),
     generateEcKey = (\<lambda>_ cv. Inr (EcdsaKey cv 0)),
     generateRsaKey = (\<lambda>_ n. Inr (RsaKey n 0)), randInt = (\<lambda>_ _. Inr 7),
     pemDecode = (\<lambda>s. (None, Some s)), pemEncode = pem_Bytes,
     parseCertificate = (\<lambda>_. Inl (Err ''asn1'')), parseCertificateRequest = (\<lambda>_. Inl (Err ''asn1'')),
     parsePKCS1 = (\<lambda>_. Inl (Err ''asn1'')), parsePKCS8 = (\<lambda>_. Inl (Err ''asn1'')),
     parseEC = (\<lambda>_. Inl (Err ''asn1'')), marshalKey = (\<lambda>_. ''key''),
     createCertificateRequest = (\<lambda>_ cn _ _ _. Inr cn), createCertificate = (\<lambda>_ _ _. Inr ''der''),
     ocspCreateRequest = (\<lambda>_ _. Inr []), ocspParseResponse = (\<lambda>_ _. Inr 0),
     idnaToASCII = Inr, publicSuffix = (\<lambda>s. s), effectiveTLDPlusOne = Inr,
     dnsExchange = (\<lambda>_ _ _ _ _. (None, Some (Err ''timeout''))), dnsSplit = (\<lambda>_. [0]),
     dnsSplitDomainName = (\<lambda>s. [s]), dnsFqdn = (\<lambda>s. s @ ''.''),
     rcodeToString = show_nat, clientConfigFromFile = (\<lambda>_. Inl (Err ''no such file'')),
     queryValues = (\<lambda>_. Inr []), x509KeyPair = (\<lambda>_ _. None), urlParse = (\<lambda>_. None), appendCertsFromPEM = (\<lambda>_. True) \<rparr>"

definition sample_world :: world where
  "sample_world = \<lparr>w_trace = [], w_now = 0, w_nonces = [], w_kid = [], w_soaCache = [],
     w_recursiveNameservers = [''ns:53''], w_dnsTimeout = 10 * Second, w_maps = []\<rparr>"

lemma sample_retry_ok: "retry sample_env = (\<lambda>_. retry_times 3)"
  by (simp add: sample_env_def)

lemma retry_ok_sample: "retry e = (\<lambda>_. retry_times n) \<Longrightarrow> retry_ok e"
  by (simp add: retry_ok_def retry_times_ok)

end
