(* ===== verification/Acme_Json.thy ===== *)
theory Acme_Json
  imports World
begin

text \<open>
  How the structs of \<^verbatim>\<open>acme/commons.go\<close> and \<^verbatim>\<open>acme/errors.go\<close> travel as JSON: \<^verbatim>\<open>json.Marshal\<close> and
  \<^verbatim>\<open>json.Unmarshal\<close> driven by the field tags.  A field tagged \<^verbatim>\<open>omitempty\<close> is left out when it has
  its zero value; a member that names no field is ignored; \<^verbatim>\<open>null\<close> leaves a string, number or boolean
  as it is and clears a slice or pointer; a member of the wrong kind is an error.  Member names are
  compared exactly (RFC 8555 spells them as the tags do).

  Proved here: decoding what was encoded gives the object back, for orders, authorizations,
  challenges, accounts and problem documents.
\<close>

section \<open>Encoding\<close>

type_synonym members = "(string \<times> json) list"

definition omit_str :: "string \<Rightarrow> string \<Rightarrow> members" where
  "omit_str k s = (if s = [] then [] else [(k, JStr s)])"

definition omit_bool :: "string \<Rightarrow> bool \<Rightarrow> members" where
  "omit_bool k b = (if b then [(k, JBool b)] else [])"

definition omit_int :: "string \<Rightarrow> int \<Rightarrow> members" where
  "omit_int k i = (if i = 0 then [] else [(k, JNum i)])"

definition omit_list :: "string \<Rightarrow> ('a \<Rightarrow> json) \<Rightarrow> 'a list \<Rightarrow> members" where
  "omit_list k f xs = (if xs = [] then [] else [(k, JArr (map f xs))])"

definition omit_ptr :: "string \<Rightarrow> ('a \<Rightarrow> json) \<Rightarrow> 'a option \<Rightarrow> members" where
  "omit_ptr k f x = (case x of None \<Rightarrow> [] | Some y \<Rightarrow> [(k, f y)])"

definition identifier_json :: "acme_identifier \<Rightarrow> json" where
  "identifier_json i = JObj [(''type'', JStr (id_Type i)), (''value'', JStr (id_Value i))]"

definition sub_problem_json :: "sub_problem \<Rightarrow> json" where
  "sub_problem_json p =
     JObj (omit_str ''type'' (sub_Type p) @ omit_str ''detail'' (sub_Detail p)
       @ [(''identifier'', identifier_json (sub_Identifier p))])"

definition problem_json :: "problem_details \<Rightarrow> json" where
  "problem_json p =
     JObj (omit_str ''type'' (pd_Type p) @ omit_str ''detail'' (pd_Detail p)
       @ omit_int ''status'' (pd_HTTPStatus p) @ omit_str ''instance'' (pd_Instance p)
       @ omit_list ''subproblems'' sub_problem_json (pd_SubProblems p)
       @ omit_str ''method'' (pd_Method p) @ omit_str ''url'' (pd_URL p))"

definition account_json :: "account \<Rightarrow> json" where
  "account_json a =
     JObj (omit_str ''status'' (acc_Status a) @ omit_list ''contact'' JStr (acc_Contact a)
       @ omit_bool ''termsOfServiceAgreed'' (acc_TermsOfServiceAgreed a)
       @ omit_str ''orders'' (acc_Orders a)
       @ omit_bool ''onlyReturnExisting'' (acc_OnlyReturnExisting a)
       @ omit_ptr ''externalAccountBinding'' (\<lambda>j. j) (acc_ExternalAccountBinding a))"

text \<open>\<^verbatim>\<open>Identifiers\<close> has no \<^verbatim>\<open>omitempty\<close>: a nil slice is written as \<^verbatim>\<open>null\<close>.\<close>

definition order_json :: "order \<Rightarrow> json" where
  "order_json o' =
     JObj (omit_str ''status'' (ord_Status o') @ omit_str ''expires'' (ord_Expires o')
       @ [(''identifiers'', if ord_Identifiers o' = [] then JNull
             else JArr (map identifier_json (ord_Identifiers o')))]
       @ omit_str ''notBefore'' (ord_NotBefore o') @ omit_str ''notAfter'' (ord_NotAfter o')
       @ omit_ptr ''error'' problem_json (ord_Error o')
       @ omit_list ''authorizations'' JStr (ord_Authorizations o')
       @ omit_str ''finalize'' (ord_Finalize o') @ omit_str ''certificate'' (ord_Certificate o'))"

text \<open>\<^verbatim>\<open>omitempty\<close> has no effect on the struct types \<^verbatim>\<open>time.Time\<close> and \<^verbatim>\<open>Identifier\<close>.\<close>

definition challenge_json :: "challenge \<Rightarrow> json" where
  "challenge_json c =
     JObj ([(''type'', JStr (chl_Type c)), (''url'', JStr (chl_URL c)),
            (''status'', JStr (chl_Status c)), (''validated'', JStr (chl_Validated c))]
       @ omit_ptr ''error'' problem_json (chl_Error c)
       @ [(''token'', JStr (chl_Token c)), (''keyAuthorization'', JStr (chl_KeyAuthorization c))])"

definition authorization_json :: "authorization \<Rightarrow> json" where
  "authorization_json a =
     JObj ([(''status'', JStr (az_Status a)), (''expires'', JStr (az_Expires a)),
            (''identifier'', identifier_json (az_Identifier a))]
       @ omit_list ''challenges'' challenge_json (az_Challenges a)
       @ omit_bool ''wildcard'' (az_Wildcard a))"

definition csr_message_json :: "csr_message \<Rightarrow> json" where
  "csr_message_json m = JObj [(''csr'', JStr (csr_Csr m))]"

definition revoke_json :: "revoke_cert_message \<Rightarrow> json" where
  "revoke_json m =
     JObj ((''certificate'', JStr (rev_Certificate m))
       # omit_ptr ''reason'' (\<lambda>n. JNum (int n)) (rev_Reason m))"

section \<open>Decoding\<close>

fun map_res :: "('a \<Rightarrow> 'e + 'b) \<Rightarrow> 'a list \<Rightarrow> 'e + 'b list" where
  "map_res f [] = Inr []"
| "map_res f (x # xs) =
     (case f x of Inl e \<Rightarrow> Inl e
      | Inr y \<Rightarrow> (case map_res f xs of Inl e \<Rightarrow> Inl e | Inr ys \<Rightarrow> Inr (y # ys)))"

fun fold_members :: "(string \<Rightarrow> json \<Rightarrow> 'a \<Rightarrow> goerror + 'a) \<Rightarrow> members \<Rightarrow> 'a \<Rightarrow> goerror + 'a" where
  "fold_members step [] a = Inr a"
| "fold_members step ((k, v) # ms) a =
     (case step k v a of Inl e \<Rightarrow> Inl e | Inr b \<Rightarrow> fold_members step ms b)"

definition type_error :: goerror where
  "type_error = Err ''json: cannot unmarshal value into Go struct field''"

definition decode_struct :: "(string \<Rightarrow> json \<Rightarrow> 'a \<Rightarrow> goerror + 'a) \<Rightarrow> 'a \<Rightarrow> json \<Rightarrow> goerror + 'a" where
  "decode_struct step zero j =
     (case j of JObj ms \<Rightarrow> fold_members step ms zero | JNull \<Rightarrow> Inr zero | _ \<Rightarrow> Inl type_error)"

definition set_str :: "json \<Rightarrow> (string \<Rightarrow> 'a) \<Rightarrow> 'a \<Rightarrow> goerror + 'a" where
  "set_str v upd a = (case v of JStr s \<Rightarrow> Inr (upd s) | JNull \<Rightarrow> Inr a | _ \<Rightarrow> Inl type_error)"

definition set_bool :: "json \<Rightarrow> (bool \<Rightarrow> 'a) \<Rightarrow> 'a \<Rightarrow> goerror + 'a" where
  "set_bool v upd a = (case v of JBool b \<Rightarrow> Inr (upd b) | JNull \<Rightarrow> Inr a | _ \<Rightarrow> Inl type_error)"

definition set_int :: "json \<Rightarrow> (int \<Rightarrow> 'a) \<Rightarrow> 'a \<Rightarrow> goerror + 'a" where
  "set_int v upd a =
     (case v of JNum i \<Rightarrow> if in_i64 i then Inr (upd i) else Inl type_error
      | JNull \<Rightarrow> Inr a | _ \<Rightarrow> Inl type_error)"

definition set_time :: "env \<Rightarrow> json \<Rightarrow> (string \<Rightarrow> 'a) \<Rightarrow> 'a \<Rightarrow> goerror + 'a" where
  "set_time e v upd a =
     (case v of JStr s \<Rightarrow> if timeOk e s then Inr (upd s) else Inl (Err ''parsing time'')
      | JNull \<Rightarrow> Inr a | _ \<Rightarrow> Inl type_error)"

definition set_list :: "(json \<Rightarrow> goerror + 'b) \<Rightarrow> json \<Rightarrow> ('b list \<Rightarrow> 'a) \<Rightarrow> goerror + 'a" where
  "set_list dec v upd =
     (case v of
        JArr vs \<Rightarrow> (case map_res dec vs of Inl e \<Rightarrow> Inl e | Inr ys \<Rightarrow> Inr (upd ys))
      | JNull \<Rightarrow> Inr (upd []) | _ \<Rightarrow> Inl type_error)"

definition set_ptr :: "(json \<Rightarrow> goerror + 'b) \<Rightarrow> json \<Rightarrow> ('b option \<Rightarrow> 'a) \<Rightarrow> goerror + 'a" where
  "set_ptr dec v upd =
     (case v of JNull \<Rightarrow> Inr (upd None)
      | _ \<Rightarrow> (case dec v of Inl e \<Rightarrow> Inl e | Inr y \<Rightarrow> Inr (upd (Some y))))"

definition set_struct :: "(json \<Rightarrow> goerror + 'b) \<Rightarrow> json \<Rightarrow> ('b \<Rightarrow> 'a) \<Rightarrow> goerror + 'a" where
  "set_struct dec v upd = (case dec v of Inl e \<Rightarrow> Inl e | Inr y \<Rightarrow> Inr (upd y))"

definition string_of_json :: "json \<Rightarrow> goerror + string" where
  "string_of_json v = set_str v (\<lambda>s. s) []"

definition identifier_of_json :: "json \<Rightarrow> goerror + acme_identifier" where
  "identifier_of_json = decode_struct (\<lambda>k v i.
     if k = ''type'' then set_str v (\<lambda>s. i\<lparr>id_Type := s\<rparr>) i
     else if k = ''value'' then set_str v (\<lambda>s. i\<lparr>id_Value := s\<rparr>) i
     else Inr i) zero_identifier"

definition sub_problem_of_json :: "json \<Rightarrow> goerror + sub_problem" where
  "sub_problem_of_json = decode_struct (\<lambda>k v p.
     if k = ''type'' then set_str v (\<lambda>s. p\<lparr>sub_Type := s\<rparr>) p
     else if k = ''detail'' then set_str v (\<lambda>s. p\<lparr>sub_Detail := s\<rparr>) p
     else if k = ''identifier'' then set_struct identifier_of_json v (\<lambda>i. p\<lparr>sub_Identifier := i\<rparr>)
     else Inr p) zero_sub_problem"

definition problem_of_json :: "json \<Rightarrow> goerror + problem_details" where
  "problem_of_json = decode_struct (\<lambda>k v p.
     if k = ''type'' then set_str v (\<lambda>s. p\<lparr>pd_Type := s\<rparr>) p
     else if k = ''detail'' then set_str v (\<lambda>s. p\<lparr>pd_Detail := s\<rparr>) p
     else if k = ''status'' then set_int v (\<lambda>i. p\<lparr>pd_HTTPStatus := i\<rparr>) p
     else if k = ''instance'' then set_str v (\<lambda>s. p\<lparr>pd_Instance := s\<rparr>) p
     else if k = ''subproblems'' then set_list sub_problem_of_json v (\<lambda>l. p\<lparr>pd_SubProblems := l\<rparr>)
     else if k = ''method'' then set_str v (\<lambda>s. p\<lparr>pd_Method := s\<rparr>) p
     else if k = ''url'' then set_str v (\<lambda>s. p\<lparr>pd_URL := s\<rparr>) p
     else Inr p) zero_problem"

definition account_of_json :: "json \<Rightarrow> goerror + account" where
  "account_of_json = decode_struct (\<lambda>k v a.
     if k = ''status'' then set_str v (\<lambda>s. a\<lparr>acc_Status := s\<rparr>) a
     else if k = ''contact'' then set_list string_of_json v (\<lambda>l. a\<lparr>acc_Contact := l\<rparr>)
     else if k = ''termsOfServiceAgreed'' then
       set_bool v (\<lambda>b. a\<lparr>acc_TermsOfServiceAgreed := b\<rparr>) a
     else if k = ''orders'' then set_str v (\<lambda>s. a\<lparr>acc_Orders := s\<rparr>) a
     else if k = ''onlyReturnExisting'' then set_bool v (\<lambda>b. a\<lparr>acc_OnlyReturnExisting := b\<rparr>) a
     else if k = ''externalAccountBinding'' then Inr (a\<lparr>acc_ExternalAccountBinding := Some v\<rparr>)
     else Inr a) zero_account"

definition order_of_json :: "json \<Rightarrow> goerror + order" where
  "order_of_json = decode_struct (\<lambda>k v r.
     if k = ''status'' then set_str v (\<lambda>s. r\<lparr>ord_Status := s\<rparr>) r
     else if k = ''expires'' then set_str v (\<lambda>s. r\<lparr>ord_Expires := s\<rparr>) r
     else if k = ''identifiers'' then set_list identifier_of_json v (\<lambda>l. r\<lparr>ord_Identifiers := l\<rparr>)
     else if k = ''notBefore'' then set_str v (\<lambda>s. r\<lparr>ord_NotBefore := s\<rparr>) r
     else if k = ''notAfter'' then set_str v (\<lambda>s. r\<lparr>ord_NotAfter := s\<rparr>) r
     else if k = ''error'' then set_ptr problem_of_json v (\<lambda>p. r\<lparr>ord_Error := p\<rparr>)
     else if k = ''authorizations'' then set_list string_of_json v (\<lambda>l. r\<lparr>ord_Authorizations := l\<rparr>)
     else if k = ''finalize'' then set_str v (\<lambda>s. r\<lparr>ord_Finalize := s\<rparr>) r
     else if k = ''certificate'' then set_str v (\<lambda>s. r\<lparr>ord_Certificate := s\<rparr>) r
     else Inr r) zero_order"

definition challenge_of_json :: "env \<Rightarrow> json \<Rightarrow> goerror + challenge" where
  "challenge_of_json e = decode_struct (\<lambda>k v c.
     if k = ''type'' then set_str v (\<lambda>s. c\<lparr>chl_Type := s\<rparr>) c
     else if k = ''url'' then set_str v (\<lambda>s. c\<lparr>chl_URL := s\<rparr>) c
     else if k = ''status'' then set_str v (\<lambda>s. c\<lparr>chl_Status := s\<rparr>) c
     else if k = ''validated'' then set_time e v (\<lambda>s. c\<lparr>chl_Validated := s\<rparr>) c
     else if k = ''error'' then set_ptr problem_of_json v (\<lambda>p. c\<lparr>chl_Error := p\<rparr>)
     else if k = ''token'' then set_str v (\<lambda>s. c\<lparr>chl_Token := s\<rparr>) c
     else if k = ''keyAuthorization'' then set_str v (\<lambda>s. c\<lparr>chl_KeyAuthorization := s\<rparr>) c
     else Inr c) zero_challenge"

definition authorization_of_json :: "env \<Rightarrow> json \<Rightarrow> goerror + authorization" where
  "authorization_of_json e = decode_struct (\<lambda>k v a.
     if k = ''status'' then set_str v (\<lambda>s. a\<lparr>az_Status := s\<rparr>) a
     else if k = ''expires'' then set_time e v (\<lambda>s. a\<lparr>az_Expires := s\<rparr>) a
     else if k = ''identifier'' then set_struct identifier_of_json v (\<lambda>i. a\<lparr>az_Identifier := i\<rparr>)
     else if k = ''challenges'' then
       set_list (challenge_of_json e) v (\<lambda>l. a\<lparr>az_Challenges := l\<rparr>)
     else if k = ''wildcard'' then set_bool v (\<lambda>b. a\<lparr>az_Wildcard := b\<rparr>) a
     else Inr a) zero_authorization"

definition meta_of_json :: "json \<Rightarrow> goerror + meta" where
  "meta_of_json = decode_struct (\<lambda>k v m.
     if k = ''termsOfService'' then set_str v (\<lambda>s. m\<lparr>meta_TermsOfService := s\<rparr>) m
     else if k = ''website'' then set_str v (\<lambda>s. m\<lparr>meta_Website := s\<rparr>) m
     else if k = ''caaIdentities'' then set_list string_of_json v (\<lambda>l. m\<lparr>meta_CaaIdentities := l\<rparr>)
     else if k = ''externalAccountRequired'' then
       set_bool v (\<lambda>b. m\<lparr>meta_ExternalAccountRequired := b\<rparr>) m
     else Inr m) zero_meta"

definition directory_of_json :: "json \<Rightarrow> goerror + directory" where
  "directory_of_json = decode_struct (\<lambda>k v d.
     if k = ''newNonce'' then set_str v (\<lambda>s. d\<lparr>dir_NewNonceURL := s\<rparr>) d
     else if k = ''newAccount'' then set_str v (\<lambda>s. d\<lparr>dir_NewAccountURL := s\<rparr>) d
     else if k = ''newOrder'' then set_str v (\<lambda>s. d\<lparr>dir_NewOrderURL := s\<rparr>) d
     else if k = ''newAuthz'' then set_str v (\<lambda>s. d\<lparr>dir_NewAuthzURL := s\<rparr>) d
     else if k = ''revokeCert'' then set_str v (\<lambda>s. d\<lparr>dir_RevokeCertURL := s\<rparr>) d
     else if k = ''keyChange'' then set_str v (\<lambda>s. d\<lparr>dir_KeyChangeURL := s\<rparr>) d
     else if k = ''meta'' then set_struct meta_of_json v (\<lambda>m. d\<lparr>dir_Meta := m\<rparr>)
     else Inr d) zero_directory"

section \<open>Round trips\<close>

lemma map_res_map: "(\<And>x. x \<in> set xs \<Longrightarrow> dec (enc x) = Inr x) \<Longrightarrow> map_res dec (map enc xs) = Inr xs"
  by (induction xs) auto

lemma fold_members_append [simp]:
  "fold_members step (ms @ ns) a =
     (case fold_members step ms a of Inl e \<Rightarrow> Inl e | Inr b \<Rightarrow> fold_members step ns b)"
  by (induction ms arbitrary: a) (auto split: sum.splits)

text \<open>
  One rule per kind of \<^verbatim>\<open>omitempty\<close> member: reading the member back stores the value, also when the
  value is zero and the member is absent, provided the zero value is what the struct holds already.
\<close>

lemma fold_omit_str:
  assumes "\<And>v a. step k v a = set_str v (\<lambda>s. upd s a) a" and "upd [] a = a"
  shows "fold_members step (omit_str k s) a = Inr (upd s a)"
  using assms by (simp add: omit_str_def set_str_def)

lemma fold_omit_bool:
  assumes "\<And>v a. step k v a = set_bool v (\<lambda>b. upd b a) a" and "upd False a = a"
  shows "fold_members step (omit_bool k b) a = Inr (upd b a)"
  using assms by (simp add: omit_bool_def set_bool_def)

lemma fold_omit_int:
  assumes "\<And>v a. step k v a = set_int v (\<lambda>b. upd b a) a" and "upd 0 a = a" and "in_i64 i"
  shows "fold_members step (omit_int k i) a = Inr (upd i a)"
  using assms by (simp add: omit_int_def set_int_def)

lemma fold_omit_list:
  assumes "\<And>v a. step k v a = set_list dec v (\<lambda>l. upd l a)" and "upd [] a = a"
    and "\<And>x. x \<in> set xs \<Longrightarrow> dec (enc x) = Inr x"
  shows "fold_members step (omit_list k enc xs) a = Inr (upd xs a)"
  using assms by (simp add: omit_list_def set_list_def map_res_map)

lemma fold_omit_ptr:
  assumes "\<And>v a. step k v a = set_ptr dec v (\<lambda>p. upd p a)" and "upd None a = a"
    and "\<And>y. x = Some y \<Longrightarrow> dec (enc y) = Inr y \<and> enc y \<noteq> JNull"
  shows "fold_members step (omit_ptr k enc x) a = Inr (upd x a)"
  using assms by (auto simp: omit_ptr_def set_ptr_def split: option.splits json.splits)

lemma string_roundtrip [simp]: "string_of_json (JStr s) = Inr s"
  by (simp add: string_of_json_def set_str_def)

lemma identifier_roundtrip [simp]: "identifier_of_json (identifier_json i) = Inr i"
  by (simp add: identifier_of_json_def identifier_json_def decode_struct_def set_str_def zero_defs)

lemma sub_problem_roundtrip [simp]: "sub_problem_of_json (sub_problem_json p) = Inr p"
  by (simp add: sub_problem_of_json_def sub_problem_json_def decode_struct_def zero_defs
      fold_omit_str [where upd = "\<lambda>s p. p\<lparr>sub_Type := s\<rparr>"]
      fold_omit_str [where upd = "\<lambda>s p. p\<lparr>sub_Detail := s\<rparr>"] set_struct_def)

text \<open>
  The values a Go program can hold in the structs: an \<^verbatim>\<open>int\<close> is in the 64-bit range, a \<^verbatim>\<open>time.Time\<close>
  has a text the parser accepts.
\<close>

definition problem_wf :: "problem_details \<Rightarrow> bool" where
  "problem_wf p \<longleftrightarrow> in_i64 (pd_HTTPStatus p)"

definition challenge_wf :: "env \<Rightarrow> challenge \<Rightarrow> bool" where
  "challenge_wf e c \<longleftrightarrow> timeOk e (chl_Validated c) \<and> pred_option problem_wf (chl_Error c)"

definition authorization_wf :: "env \<Rightarrow> authorization \<Rightarrow> bool" where
  "authorization_wf e a \<longleftrightarrow> timeOk e (az_Expires a) \<and> list_all (challenge_wf e) (az_Challenges a)"

definition order_wf :: "order \<Rightarrow> bool" where
  "order_wf r \<longleftrightarrow> pred_option problem_wf (ord_Error r)"

lemma problem_roundtrip: "problem_wf p \<Longrightarrow> problem_of_json (problem_json p) = Inr p"
  by (simp add: problem_of_json_def problem_json_def decode_struct_def zero_defs problem_wf_def
      fold_omit_str [where upd = "\<lambda>s p. p\<lparr>pd_Type := s\<rparr>"]
      fold_omit_str [where upd = "\<lambda>s p. p\<lparr>pd_Detail := s\<rparr>"]
      fold_omit_int [where upd = "\<lambda>i p. p\<lparr>pd_HTTPStatus := i\<rparr>"]
      fold_omit_str [where upd = "\<lambda>s p. p\<lparr>pd_Instance := s\<rparr>"]
      fold_omit_list [where upd = "\<lambda>l p. p\<lparr>pd_SubProblems := l\<rparr>" and dec = sub_problem_of_json]
      fold_omit_str [where upd = "\<lambda>s p. p\<lparr>pd_Method := s\<rparr>"]
      fold_omit_str [where upd = "\<lambda>s p. p\<lparr>pd_URL := s\<rparr>"])

lemma problem_json_not_null [simp]: "problem_json p \<noteq> JNull"
  by (simp add: problem_json_def)

lemma account_roundtrip: "account_of_json (account_json a) = Inr a"
  by (cases "acc_ExternalAccountBinding a")
    (simp_all add: account_of_json_def account_json_def decode_struct_def zero_defs omit_ptr_def
      fold_omit_str [where upd = "\<lambda>s a. a\<lparr>acc_Status := s\<rparr>"]
      fold_omit_list [where upd = "\<lambda>l a. a\<lparr>acc_Contact := l\<rparr>" and dec = string_of_json]
      fold_omit_bool [where upd = "\<lambda>b a. a\<lparr>acc_TermsOfServiceAgreed := b\<rparr>"]
      fold_omit_str [where upd = "\<lambda>s a. a\<lparr>acc_Orders := s\<rparr>"]
      fold_omit_bool [where upd = "\<lambda>b a. a\<lparr>acc_OnlyReturnExisting := b\<rparr>"])

lemma order_roundtrip: "order_wf r \<Longrightarrow> order_of_json (order_json r) = Inr r"
  by (simp add: order_of_json_def order_json_def decode_struct_def zero_defs order_wf_def
      set_list_def map_res_map pred_option_def problem_roundtrip
      fold_omit_str [where upd = "\<lambda>s r. r\<lparr>ord_Status := s\<rparr>"]
      fold_omit_str [where upd = "\<lambda>s r. r\<lparr>ord_Expires := s\<rparr>"]
      fold_omit_str [where upd = "\<lambda>s r. r\<lparr>ord_NotBefore := s\<rparr>"]
      fold_omit_str [where upd = "\<lambda>s r. r\<lparr>ord_NotAfter := s\<rparr>"]
      fold_omit_ptr [where upd = "\<lambda>p r. r\<lparr>ord_Error := p\<rparr>" and dec = problem_of_json]
      fold_omit_list [where upd = "\<lambda>l r. r\<lparr>ord_Authorizations := l\<rparr>" and dec = string_of_json]
      fold_omit_str [where upd = "\<lambda>s r. r\<lparr>ord_Finalize := s\<rparr>"]
      fold_omit_str [where upd = "\<lambda>s r. r\<lparr>ord_Certificate := s\<rparr>"])

lemma challenge_roundtrip: "challenge_wf e c \<Longrightarrow> challenge_of_json e (challenge_json c) = Inr c"
  by (simp add: challenge_of_json_def challenge_json_def decode_struct_def zero_defs challenge_wf_def
      set_str_def set_time_def pred_option_def problem_roundtrip
      fold_omit_ptr [where upd = "\<lambda>p c. c\<lparr>chl_Error := p\<rparr>" and dec = problem_of_json])

lemma authorization_roundtrip:
  "authorization_wf e a \<Longrightarrow> authorization_of_json e (authorization_json a) = Inr a"
  by (simp add: authorization_of_json_def authorization_json_def decode_struct_def zero_defs
      authorization_wf_def set_str_def set_time_def set_struct_def list_all_iff challenge_roundtrip
      fold_omit_list [where upd = "\<lambda>l a. a\<lparr>az_Challenges := l\<rparr>" and dec = "challenge_of_json e"]
      fold_omit_bool [where upd = "\<lambda>b a. a\<lparr>az_Wildcard := b\<rparr>"])



end
