(* ===== verification/Sender.thy ===== *)
theory Sender
  imports Acme_Json
begin

text \<open>
  \<^verbatim>\<open>acme/api/internal/sender\<close>: the HTTP layer.  \<open>Doer_do\<close> performs the request, turns a status of 400
  or more into an error, and decodes the body when the caller passes a target.  The target of
  \<^verbatim>\<open>json.Unmarshal\<close> is the function that reports whether a JSON value fits it; \<open>None\<close> is a nil target.

  Proved here: how \<open>checkError\<close> classifies every reply, including the reply whose body is the JSON
  \<^verbatim>\<open>null\<close>, on which it dereferences a nil pointer.
\<close>

definition ourUserAgent :: string where
  "ourUserAgent = ''xenolf-acme/4.0.1''"

definition ourUserAgentComment :: string where
  "ourUserAgentComment = ''detach''"

definition StatusBadRequest :: int where
  "StatusBadRequest = 400"

text \<open>The immutable part of \<^verbatim>\<open>api.Core\<close>: the user agent, the account key, the directory.\<close>

record core =
  core_userAgent :: string
  core_privKey :: private_key
  core_directory :: directory

definition formatUserAgent :: "env \<Rightarrow> string \<Rightarrow> string" where
  "formatUserAgent e ua =
     TrimSpace (ua @ '' '' @ ourUserAgent @ '' ('' @ ourUserAgentComment @ ''; '' @ goosArch e @ '')'')"

definition newRequest ::
  "env \<Rightarrow> string \<Rightarrow> string \<Rightarrow> string \<Rightarrow> req_body \<Rightarrow> (string \<times> string) list \<Rightarrow> goerror + http_request" where
  "newRequest e ua method uri body opts =
     (case newRequestErr e method uri of
        Some err \<Rightarrow> Inl (Wrap ''failed to create request: '' err)
      | None \<Rightarrow> Inr \<lparr>req_Method = method, req_URL = uri,
          req_Header = (''User-Agent'', formatUserAgent e ua) # opts, req_Body = body\<rparr>)"

definition checkError :: "env \<Rightarrow> http_request \<Rightarrow> http_response \<Rightarrow> (world, goerror option) go" where
  "checkError e req resp =
     (if StatusBadRequest \<le> resp_StatusCode resp then
        (let prefix = show_int (resp_StatusCode resp) @ '' :: '' @ req_Method req @ '' :: ''
                        @ req_URL req @ '' :: '' in
         case resp_Body resp of
           Inl err \<Rightarrow> ret (Some (Wrap prefix err))
         | Inr body \<Rightarrow>
             (case jsonParse e body of
                None \<Rightarrow> ret (Some (Wrap prefix (Err (''invalid JSON :: '' @ body))))
              | Some j \<Rightarrow>
                  if j = JNull then panic ''invalid memory address or nil pointer dereference''
                  else (case problem_of_json j of
                     Inl err \<Rightarrow> ret (Some (Wrap prefix err))
                   | Inr p \<Rightarrow>
                       (let errorDetails = p\<lparr>pd_Method := req_Method req, pd_URL := req_URL req\<rparr> in
                        if pd_HTTPStatus errorDetails = StatusBadRequest
                           \<and> pd_Type errorDetails = BadNonceErr
                        then ret (Some (NonceError errorDetails))
                        else ret (Some (Problem (Some errorDetails)))))))
      else ret None)"

type_synonym decode_target = "(json \<Rightarrow> goerror option) option"
type_synonym do_result = "http_response option \<times> (goerror + json option)"

definition Doer_do :: "env \<Rightarrow> http_request \<Rightarrow> decode_target \<Rightarrow> (world, do_result) go" where
  "Doer_do e req response =
     handle (http_do e req) (\<lambda>err. ret (None, Inl err)) (\<lambda>resp.
       bind (checkError e req resp) (\<lambda>failed.
         case failed of
           Some err \<Rightarrow> ret (Some resp, Inl err)
         | None \<Rightarrow>
             (case response of
                None \<Rightarrow> ret (Some resp, Inr None)
              | Some target \<Rightarrow>
                  (case resp_Body resp of
                     Inl err \<Rightarrow> ret (Some resp, Inl err)
                   | Inr raw \<Rightarrow>
                       (let msg = ''failed to unmarshal '' @ Quote raw @ '': '' in
                        case jsonParse e raw of
                          None \<Rightarrow> ret (Some resp, Inl (Wrap msg (Err ''invalid JSON'')))
                        | Some j \<Rightarrow>
                            (case target j of
                               Some err \<Rightarrow> ret (Some resp, Inl (Wrap msg err))
                             | None \<Rightarrow> ret (Some resp, Inr (Some j))))))))"

definition Doer_send ::
  "env \<Rightarrow> core \<Rightarrow> string \<Rightarrow> string \<Rightarrow> req_body \<Rightarrow> (string \<times> string) list \<Rightarrow> decode_target
    \<Rightarrow> (world, do_result) go" where
  "Doer_send e c method url body opts response =
     (case newRequest e (core_userAgent c) method url body opts of
        Inl err \<Rightarrow> ret (None, Inl err)
      | Inr req \<Rightarrow> Doer_do e req response)"

definition Doer_Get :: "env \<Rightarrow> core \<Rightarrow> string \<Rightarrow> decode_target \<Rightarrow> (world, do_result) go" where
  "Doer_Get e c url response = Doer_send e c ''GET'' url NoBody [] response"

definition Doer_Head :: "env \<Rightarrow> core \<Rightarrow> string \<Rightarrow> (world, do_result) go" where
  "Doer_Head e c url = Doer_send e c ''HEAD'' url NoBody [] None"

definition Doer_Post ::
  "env \<Rightarrow> core \<Rightarrow> string \<Rightarrow> req_body \<Rightarrow> string \<Rightarrow> decode_target \<Rightarrow> (world, do_result) go" where
  "Doer_Post e c url body bodyType response =
     Doer_send e c ''POST'' url body [(''Content-Type'', bodyType)] response"

section \<open>Facts about the HTTP layer\<close>

lemma checkError_error:
  "StatusBadRequest \<le> resp_StatusCode resp \<Longrightarrow>
   (\<exists>err. checkError e req resp w = (Return (Some err), w)) \<or> (\<exists>m. checkError e req resp w = (Panic m, w))"
  by (simp add: checkError_def Let_def split: sum.split option.split)

lemma checkError_cases:
  obtains err where "checkError e req resp w = (Return (Some err), w)"
    "StatusBadRequest \<le> resp_StatusCode resp"
  | m where "checkError e req resp w = (Panic m, w)" "StatusBadRequest \<le> resp_StatusCode resp"
  | "checkError e req resp w = (Return None, w)" "resp_StatusCode resp < StatusBadRequest"
proof (cases "StatusBadRequest \<le> resp_StatusCode resp")
  case True
  from checkError_error [OF this, of e req w] that(1,2) [OF _ True] show thesis by blast
next
  case False
  then show thesis using that(3) by (simp add: checkError_def)
qed

text \<open>One request is made; what \<open>Doer_do\<close> returns is a function of the reply.\<close>

lemma Doer_do_trace:
  assumes "Doer_do e req target w = (r, t)"
  shows "w_trace t = w_trace w @ [EvHttp req (httpDo e (w_trace w) req)]
    \<and> w_nonces t = w_nonces w \<and> w_kid t = w_kid w"
proof -
  let ?w = "w\<lparr>w_trace := w_trace w @ [EvHttp req (httpDo e (w_trace w) req)],
      w_now := w_now w + int (latency e (w_trace w))\<rparr>"
  have "t = ?w"
  proof (cases "httpDo e (w_trace w) req")
    case (Inr resp)
    show ?thesis
      by (rule checkError_cases [of e req resp ?w])
        (use assms Inr in \<open>auto simp: Doer_do_def go_simps Let_def
           split: option.splits sum.splits\<close>)
  qed (use assms in \<open>auto simp: Doer_do_def go_simps\<close>)
  then show ?thesis by simp
qed

lemma Doer_do_response:
  assumes "Doer_do e req target w = (Return (rp, res), t)"
  shows "rp = (case httpDo e (w_trace w) req of Inl _ \<Rightarrow> None | Inr resp \<Rightarrow> Some resp)"
proof -
  let ?w = "w\<lparr>w_trace := w_trace w @ [EvHttp req (httpDo e (w_trace w) req)],
      w_now := w_now w + int (latency e (w_trace w))\<rparr>"
  show ?thesis
  proof (cases "httpDo e (w_trace w) req")
    case (Inr resp)
    show ?thesis
      by (rule checkError_cases [of e req resp ?w])
        (use assms Inr in \<open>auto simp: Doer_do_def go_simps Let_def
           split: option.splits sum.splits\<close>)
  qed (use assms in \<open>auto simp: Doer_do_def go_simps\<close>)
qed



end
