(* ===== verification/Nonces.thy ===== *)
theory Nonces
  imports Sender "HOL-Library.Multiset"
begin

text \<open>
  \<^verbatim>\<open>acme/api/internal/nonces\<close>: the pool of replay nonces.  \<open>Push\<close> and \<open>Pop\<close> work at the end of the
  slice; \<open>Nonce\<close> takes a pooled nonce or asks the server for one with a HEAD request.  The mutex makes
  each of \<open>Push\<close> and \<open>Pop\<close> one atomic step, so concurrent users interleave whole steps: the second half
  of the theory is that interleaving as a step relation, with the invariant that no nonce is ever held
  or spent by two users.
\<close>

section \<open>The manager\<close>

text \<open>\<^verbatim>\<open>NewManager\<close>: an empty pool.\<close>

definition NewManager :: "(world, unit) go" where
  "NewManager = modify (\<lambda>w. w\<lparr>w_nonces := []\<rparr>)"

text \<open>\<^verbatim>\<open>Manager.Pop\<close>: \<open>None\<close> is the pair of the empty string and \<^verbatim>\<open>false\<close>.\<close>

definition Manager_Pop :: "(world, string option) go" where
  "Manager_Pop =
     bind (gets w_nonces) (\<lambda>nonces.
       if nonces = [] then ret None
       else bind (modify (\<lambda>w. w\<lparr>w_nonces := butlast nonces\<rparr>)) (\<lambda>_. ret (Some (last nonces))))"

definition Manager_Push :: "string \<Rightarrow> (world, unit) go" where
  "Manager_Push nonce = modify (\<lambda>w. w\<lparr>w_nonces := w_nonces w @ [nonce]\<rparr>)"

definition GetFromResponse :: "http_response option \<Rightarrow> goerror + string" where
  "GetFromResponse resp =
     (case resp of
        None \<Rightarrow> Inl (Err ''nil response'')
      | Some r \<Rightarrow>
          (let nonce = header_get (resp_Header r) ''Replay-Nonce'' in
           if nonce = [] then Inl (Err ''server did not respond with a proper nonce header'')
           else Inr nonce))"

definition getNonce :: "env \<Rightarrow> core \<Rightarrow> (world, goerror + string) go" where
  "getNonce e c =
     bind (Doer_Head e c (dir_NewNonceURL (core_directory c))) (\<lambda>(resp, res).
       case res of
         Inl err \<Rightarrow> ret (Inl (Wrap ''failed to get nonce from HTTP HEAD: '' err))
       | Inr _ \<Rightarrow> ret (GetFromResponse resp))"

definition Manager_Nonce :: "env \<Rightarrow> core \<Rightarrow> (world, goerror + string) go" where
  "Manager_Nonce e c =
     bind Manager_Pop (\<lambda>p. case p of Some nonce \<Rightarrow> ret (Inr nonce) | None \<Rightarrow> getNonce e c)"

section \<open>The pool as a stack\<close>

text \<open>What users of the pool rely on: \<open>pop\<close> gives back the last nonce pushed.\<close>

locale nonce_stack =
  fixes contents :: "'s \<Rightarrow> string list"
    and push :: "string \<Rightarrow> ('s, unit) go"
    and pop :: "('s, string option) go"
  assumes push_contents: "push n s = (Return (), t) \<Longrightarrow> contents t = contents s @ [n]"
    and push_returns: "fst (push n s) = Return ()"
    and pop_empty: "contents s = [] \<Longrightarrow> fst (pop s) = Return None \<and> contents (snd (pop s)) = []"
    and pop_nonempty: "contents s = ns @ [n] \<Longrightarrow>
          fst (pop s) = Return (Some n) \<and> contents (snd (pop s)) = ns"
begin

lemma push_pop:
  "fst (bind (push n) (\<lambda>_. pop) s) = Return (Some n)
   \<and> contents (snd (bind (push n) (\<lambda>_. pop) s)) = contents s"
proof -
  obtain t where t: "push n s = (Return (), t)"
    using push_returns [of n s] by (cases "push n s") auto
  show ?thesis
    using pop_nonempty [OF push_contents [OF t]] by (simp add: bind_def t)
qed

lemma pop_conserves:
  "mset (contents s) =
     mset (contents (snd (pop s))) + (case fst (pop s) of Return (Some n) \<Rightarrow> {#n#} | _ \<Rightarrow> {#})"
  by (cases "contents s" rule: rev_cases) (use pop_empty pop_nonempty in auto)

end

lemma Manager_Pop_run:
  "Manager_Pop w = (if w_nonces w = [] then (Return None, w)
     else (Return (Some (last (w_nonces w))), w\<lparr>w_nonces := butlast (w_nonces w)\<rparr>))"
  by (simp add: Manager_Pop_def go_simps)

lemma Manager_Push_run: "Manager_Push n w = (Return (), w\<lparr>w_nonces := w_nonces w @ [n]\<rparr>)"
  by (simp add: Manager_Push_def)

interpretation pool: nonce_stack w_nonces Manager_Push Manager_Pop
  by unfold_locales (auto simp: Manager_Push_run Manager_Pop_run)

section \<open>Concurrent users\<close>

text \<open>
  The certifier fetches authorizations from one goroutine per URL, all signing with the same manager.  A
  user is idle, asks the server because the pool was empty, holds a nonce it will sign with, or holds
  the nonce of a reply it will push.  \<open>Pop\<close> and \<open>Push\<close> run under the mutex and are one step each; requests
  are not, so the steps of different users interleave in any order.  A server that obeys RFC 8555
  section 6.5 issues a nonce it has not issued before.
\<close>

datatype user = Idle | Fetching | Holding string | Pushing string

record nonce_system =
  sys_world :: world
  sys_users :: "user list"
  sys_issued :: "string list"
  sys_spent :: "string list"

fun carried :: "user \<Rightarrow> string list" where
  "carried (Holding n) = [n]"
| "carried (Pushing n) = [n]"
| "carried _ = []"

inductive nonce_step :: "nonce_system \<Rightarrow> nonce_system \<Rightarrow> bool" where
  pop_some: "i < length us \<Longrightarrow> us ! i = Idle \<Longrightarrow> Manager_Pop w = (Return (Some n), w') \<Longrightarrow>
    nonce_step \<lparr>sys_world = w, sys_users = us, sys_issued = iss, sys_spent = sp\<rparr>
      \<lparr>sys_world = w', sys_users = us[i := Holding n], sys_issued = iss, sys_spent = sp\<rparr>"
| pop_none: "i < length us \<Longrightarrow> us ! i = Idle \<Longrightarrow> Manager_Pop w = (Return None, w') \<Longrightarrow>
    nonce_step \<lparr>sys_world = w, sys_users = us, sys_issued = iss, sys_spent = sp\<rparr>
      \<lparr>sys_world = w', sys_users = us[i := Fetching], sys_issued = iss, sys_spent = sp\<rparr>"
| fetched: "i < length us \<Longrightarrow> us ! i = Fetching \<Longrightarrow> n \<notin> set iss \<Longrightarrow>
    nonce_step \<lparr>sys_world = w, sys_users = us, sys_issued = iss, sys_spent = sp\<rparr>
      \<lparr>sys_world = w, sys_users = us[i := Holding n], sys_issued = n # iss, sys_spent = sp\<rparr>"
| failed: "i < length us \<Longrightarrow> us ! i = Fetching \<or> us ! i = Holding n \<Longrightarrow>
    nonce_step \<lparr>sys_world = w, sys_users = us, sys_issued = iss, sys_spent = sp\<rparr>
      \<lparr>sys_world = w, sys_users = us[i := Idle], sys_issued = iss, sys_spent = sp\<rparr>"
| posted_no_nonce: "i < length us \<Longrightarrow> us ! i = Holding n \<Longrightarrow>
    nonce_step \<lparr>sys_world = w, sys_users = us, sys_issued = iss, sys_spent = sp\<rparr>
      \<lparr>sys_world = w, sys_users = us[i := Idle], sys_issued = iss, sys_spent = n # sp\<rparr>"
| posted: "i < length us \<Longrightarrow> us ! i = Holding n \<Longrightarrow> m \<notin> set iss \<Longrightarrow>
    nonce_step \<lparr>sys_world = w, sys_users = us, sys_issued = iss, sys_spent = sp\<rparr>
      \<lparr>sys_world = w, sys_users = us[i := Pushing m], sys_issued = m # iss, sys_spent = n # sp\<rparr>"
| pushed: "i < length us \<Longrightarrow> us ! i = Pushing m \<Longrightarrow> Manager_Push m w = (Return (), w') \<Longrightarrow>
    nonce_step \<lparr>sys_world = w, sys_users = us, sys_issued = iss, sys_spent = sp\<rparr>
      \<lparr>sys_world = w', sys_users = us[i := Idle], sys_issued = iss, sys_spent = sp\<rparr>"

definition initial_system :: "nat \<Rightarrow> world \<Rightarrow> nonce_system" where
  "initial_system k w = \<lparr>sys_world = w\<lparr>w_nonces := []\<rparr>, sys_users = replicate k Idle,
     sys_issued = [], sys_spent = []\<rparr>"

text \<open>All the nonces somebody could still send, or has sent.\<close>

definition accounted :: "nonce_system \<Rightarrow> string multiset" where
  "accounted s =
     mset (sys_spent s) + mset (w_nonces (sys_world s)) + mset (concat (map carried (sys_users s)))"

definition system_ok :: "nonce_system \<Rightarrow> bool" where
  "system_ok s \<longleftrightarrow> distinct (sys_issued s) \<and> accounted s \<subseteq># mset (sys_issued s)"

lemma carried_update:
  assumes "i < length us"
  shows "mset (concat (map carried (us[i := u]))) + mset (carried (us ! i)) =
    mset (concat (map carried us)) + mset (carried u)"
  using assms
proof (induction us arbitrary: i)
  case (Cons v us)
  show ?case
  proof (cases i)
    case (Suc j)
    with Cons show ?thesis by (simp add: ac_simps)
  qed (simp add: ac_simps)
qed simp

text \<open>One step moves nonces around, loses some, or adds the one the server issues with it.\<close>

lemma accounted_step:
  assumes "nonce_step s t"
  shows "\<exists>new. sys_issued t = new @ sys_issued s \<and> distinct new \<and> set new \<inter> set (sys_issued s) = {}
    \<and> accounted t \<subseteq># accounted s + mset new"
  using assms
proof cases
  case (pop_some i us w n w' iss sp)
  then have "mset (w_nonces w) = add_mset n (mset (w_nonces w'))"
    using pool.pop_conserves [of w] by simp
  with pop_some carried_update [of i us "Holding n"] show ?thesis
    by (simp add: accounted_def)
next
  case (pop_none i us w w' iss sp)
  then have "mset (w_nonces w) = mset (w_nonces w')"
    using pool.pop_conserves [of w] by simp
  with pop_none carried_update [of i us Fetching] show ?thesis
    by (simp add: accounted_def)
next
  case (fetched i us n iss w sp)
  with carried_update [of i us "Holding n"] show ?thesis
    by (intro exI [of _ "[n]"]) (simp add: accounted_def)
next
  case (failed i us n w iss sp)
  have "mset (concat (map carried (us[i := Idle]))) \<subseteq># mset (concat (map carried us))"
    using carried_update [OF failed(3), of Idle] by simp (metis mset_subset_eq_add_left)
  with failed show ?thesis
    by (intro exI [of _ "[]"]) (simp add: accounted_def)
next
  case (posted_no_nonce i us n w iss sp)
  with carried_update [of i us Idle] have
    "mset (concat (map carried us)) = add_mset n (mset (concat (map carried (us[i := Idle]))))"
    by simp
  with posted_no_nonce show ?thesis
    by (intro exI [of _ "[]"]) (simp add: accounted_def)
next
  case (posted i us n m iss w sp)
  with carried_update [of i us "Pushing m"] show ?thesis
    by (intro exI [of _ "[m]"]) (simp add: accounted_def)
next
  case (pushed i us m w w' iss sp)
  then have "w_nonces w' = w_nonces w @ [m]" by (auto simp: Manager_Push_run)
  with pushed carried_update [of i us Idle] show ?thesis
    by (intro exI [of _ "[]"]) (simp add: accounted_def)
qed

lemma system_ok_step: "system_ok s \<Longrightarrow> nonce_step s t \<Longrightarrow> system_ok t"
  using accounted_step [of s t] unfolding system_ok_def
  by (auto simp: add.commute) (meson subset_mset.add_left_mono subset_mset.order_trans)

lemma system_ok_initial: "system_ok (initial_system k w)"
  by (induction k) (simp_all add: initial_system_def system_ok_def accounted_def)

lemma system_ok_reachable: "nonce_step\<^sup>*\<^sup>* (initial_system k w) s \<Longrightarrow> system_ok s"
  by (induction rule: rtranclp_induct) (auto intro: system_ok_initial system_ok_step)

lemma distinct_sub_mset: "mset xs \<subseteq># mset ys \<Longrightarrow> distinct ys \<Longrightarrow> distinct xs"
proof -
  assume "mset xs \<subseteq># mset ys" and "distinct ys"
  then obtain zs where "mset ys = mset (xs @ zs)"
    by (metis ex_mset mset_append subset_mset.add_diff_inverse)
  with \<open>distinct ys\<close> show ?thesis
    using mset_eq_imp_distinct_iff by fastforce
qed

text \<open>
  C4 (safety).  However many users share the nonce manager and however their steps interleave, no nonce
  is sent twice, no two users hold the same nonce, and no nonce that was sent or is held is still in
  the pool, as long as the server never issues a nonce twice.
\<close>

theorem concurrent_nonces_distinct:
  assumes "nonce_step\<^sup>*\<^sup>* (initial_system k w) s"
  shows "distinct (sys_spent s @ w_nonces (sys_world s) @ concat (map carried (sys_users s)))"
proof (rule distinct_sub_mset)
  show "mset (sys_spent s @ w_nonces (sys_world s) @ concat (map carried (sys_users s)))
      \<subseteq># mset (sys_issued s)" and "distinct (sys_issued s)"
    using system_ok_reachable [OF assms] by (simp_all add: system_ok_def accounted_def add.assoc)
qed

theorem concurrent_nonces_distinct_witness:
  "\<exists>s. nonce_step\<^sup>*\<^sup>* (initial_system 2 sample_world) s \<and> sys_users s = [Holding ''a'', Holding ''b'']
     \<and> distinct (sys_spent s @ w_nonces (sys_world s) @ concat (map carried (sys_users s)))"
proof -
  let ?s = "\<lambda>us iss. \<lparr>sys_world = sample_world\<lparr>w_nonces := []\<rparr>, sys_users = us, sys_issued = iss,
    sys_spent = []\<rparr>"
  let ?w = "sample_world\<lparr>w_nonces := []\<rparr>"
  have pop: "Manager_Pop ?w = (Return None, ?w)" by (simp add: Manager_Pop_run)
  have "nonce_step (initial_system 2 sample_world) (?s [Fetching, Idle] [])"
    using pop_none [of 0 "[Idle, Idle]" ?w ?w "[]" "[]"] pop
    by (simp add: initial_system_def numeral_2_eq_2)
  moreover have "nonce_step (?s [Fetching, Idle] []) (?s [Fetching, Fetching] [])"
    using pop_none [of 1 "[Fetching, Idle]" ?w ?w "[]" "[]"] pop by simp
  moreover have "nonce_step (?s [Fetching, Fetching] []) (?s [Holding ''a'', Fetching] [''a''])"
    using fetched [of 0 "[Fetching, Fetching]" "''a''" "[]" ?w "[]"] by simp
  moreover have "nonce_step (?s [Holding ''a'', Fetching] [''a'']) (?s [Holding ''a'', Holding ''b''] [''b'', ''a''])"
    using fetched [of 1 "[Holding ''a'', Fetching]" "''b''" "[''a'']" ?w "[]"] by simp
  ultimately have run: "nonce_step\<^sup>*\<^sup>* (initial_system 2 sample_world) (?s [Holding ''a'', Holding ''b''] [''b'', ''a''])"
    by (meson r_into_rtranclp rtranclp_trans)
  show ?thesis
    by (rule exI, rule conjI, rule run, rule conjI [OF _ concurrent_nonces_distinct [OF run]]) simp
qed

end
