(* ===== verification/Base64_Url.thy ===== *)
theory Base64_Url
  imports Go_Base
begin

text \<open>
  \<^verbatim>\<open>base64.RawURLEncoding\<close> of the Go standard library: the URL alphabet without padding.  The decoder
  skips carriage returns and newlines, rejects any other byte outside the alphabet and a lone
  trailing sextet, and ignores the unused low bits of the last sextet.  The program writes CSRs, key
  thumbprints and the \<^verbatim>\<open>dns-01\<close> record value with it and reads the HMAC key of an external account.
\<close>

fun sextets :: "nat list \<Rightarrow> nat list" where
  "sextets [] = []"
| "sextets [a] = [a div 4, a mod 4 * 16]"
| "sextets [a, b] = [a div 4, a mod 4 * 16 + b div 16, b mod 16 * 4]"
| "sextets (a # b # c # r) =
     a div 4 # (a mod 4 * 16 + b div 16) # (b mod 16 * 4 + c div 64) # c mod 64 # sextets r"

fun octets :: "nat list \<Rightarrow> nat list option" where
  "octets [] = Some []"
| "octets [x] = None"
| "octets [x, y] = Some [x * 4 + y div 16]"
| "octets [x, y, z] = Some [x * 4 + y div 16, y mod 16 * 16 + z div 4]"
| "octets (x # y # z # w # r) =
     map_option (\<lambda>bs. (x * 4 + y div 16) # (y mod 16 * 16 + z div 4) # (z mod 4 * 64 + w) # bs)
       (octets r)"

definition sextet_char :: "nat \<Rightarrow> char" where
  "sextet_char n =
     (if n < 26 then char_of (65 + n)
      else if n < 52 then char_of (71 + n)
      else if n < 62 then char_of (n - 4)
      else if n = 62 then CHR ''-'' else CHR ''_'')"

definition char_sextet :: "char \<Rightarrow> nat option" where
  "char_sextet c =
     (let n = of_char c :: nat in
      if 65 \<le> n \<and> n \<le> 90 then Some (n - 65)
      else if 97 \<le> n \<and> n \<le> 122 then Some (n - 71)
      else if 48 \<le> n \<and> n \<le> 57 then Some (n + 4)
      else if c = CHR ''-'' then Some 62
      else if c = CHR ''_'' then Some 63
      else None)"

fun sextets_of :: "string \<Rightarrow> nat list option" where
  "sextets_of [] = Some []"
| "sextets_of (c # cs) =
     (case char_sextet c of None \<Rightarrow> None
      | Some n \<Rightarrow> map_option (Cons n) (sextets_of cs))"

definition base64_encode :: "string \<Rightarrow> string" where
  "base64_encode s = map sextet_char (sextets (map of_char s))"

definition base64_decode :: "string \<Rightarrow> string option" where
  "base64_decode s =
     (case sextets_of (filter (\<lambda>c. c \<noteq> CHR 0x0A \<and> c \<noteq> CHR 0x0D) s) of
        None \<Rightarrow> None
      | Some xs \<Rightarrow> map_option (map char_of) (octets xs))"

lemma pack_div: "y < k \<Longrightarrow> (x * k + y) div k = (x :: nat)"
  by simp

lemma pack_mod: "y < k \<Longrightarrow> (x * k + y) mod k = (y :: nat)"
  by simp

lemma nibbles: "b < 256 \<Longrightarrow> b div 16 < 16" "b < 256 \<Longrightarrow> b div 64 < 4" "b < 256 \<Longrightarrow> b div 4 < 64"
  for b :: nat
  by linarith+

lemma split4: "a div 4 * 4 + a mod 4 = a" and split16: "b div 16 * 16 + b mod 16 = b"
  and split64: "c div 64 * 64 + c mod 64 = c" for a b c :: nat
  by simp_all

lemma octets_sextets: "\<forall>b \<in> set bs. b < 256 \<Longrightarrow> octets (sextets bs) = Some bs"
  by (induction bs rule: sextets.induct)
    (simp_all add: pack_div pack_mod nibbles split4 split16 split64)

lemma sextets_bound: "\<forall>b \<in> set bs. b < 256 \<Longrightarrow> \<forall>x \<in> set (sextets bs). x < 64"
proof (induction bs rule: sextets.induct)
  case (4 a b c r)
  then have "b div 16 < 16" "c div 64 < 4" "a mod 4 < 4" "b mod 16 < 16" by (simp_all add: nibbles)
  then have "a mod 4 * 16 + b div 16 < 64" "b mod 16 * 4 + c div 64 < 64" by linarith+
  then show ?case using 4 by (simp add: nibbles)
next
  case (3 a b)
  then have "b div 16 < 16" "a mod 4 < 4" "b mod 16 < 16" by (simp_all add: nibbles)
  then have "a mod 4 * 16 + b div 16 < 64" "b mod 16 * 4 < 64" by linarith+
  then show ?case using 3 by (simp add: nibbles)
next
  case (2 a)
  have "a mod 4 < 4" by simp
  then have "a mod 4 * 16 < 64" by linarith
  then show ?case using 2 by (simp add: nibbles)
qed simp

lemma char_neq: "(of_char c :: nat) \<noteq> of_char d \<Longrightarrow> c \<noteq> d"
  by auto

lemma sextet_char_code:
  "n < 64 \<Longrightarrow> (of_char (sextet_char n) :: nat) =
     (if n < 26 then 65 + n else if n < 52 then 71 + n else if n < 62 then n - 4
      else if n = 62 then 45 else 95)"
  by (simp add: sextet_char_def)

lemma sextet_char_table:
  assumes "n < 64"
  shows "char_sextet (sextet_char n) = Some n" "sextet_char n \<noteq> CHR 0x0A" "sextet_char n \<noteq> CHR 0x0D"
proof -
  have "n < 26 \<or> 26 \<le> n \<and> n < 52 \<or> 52 \<le> n \<and> n < 62 \<or> n = 62 \<or> n = 63" using assms by arith
  then show "char_sextet (sextet_char n) = Some n"
    by (elim disjE)
      (simp_all add: char_sextet_def sextet_char_code Let_def, simp_all add: sextet_char_def, arith?)
  show "sextet_char n \<noteq> CHR 0x0A" "sextet_char n \<noteq> CHR 0x0D"
    using assms by (auto intro!: char_neq simp: sextet_char_code split: if_splits)
qed

lemma sextets_of_map: "\<forall>x \<in> set xs. x < 64 \<Longrightarrow> sextets_of (map sextet_char xs) = Some xs"
  by (induction xs) (simp_all add: sextet_char_table)

lemma base64_roundtrip: "base64_decode (base64_encode s) = Some s"
proof -
  let ?xs = "sextets (map of_char s)"
  have bytes: "\<forall>b \<in> set (map of_char s :: nat list). b < 256" by simp
  then have "\<forall>x \<in> set ?xs. x < 64" by (rule sextets_bound)
  then have "filter (\<lambda>c. c \<noteq> CHR 0x0A \<and> c \<noteq> CHR 0x0D) (map sextet_char ?xs) = map sextet_char ?xs"
    and "sextets_of (map sextet_char ?xs) = Some ?xs"
    by (auto simp: filter_id_conv sextet_char_table sextets_of_map)
  then show ?thesis
    by (simp add: base64_decode_def base64_encode_def octets_sextets [OF bytes] comp_def)
qed

end
