(* ===== verification/Jws.thy ===== *)
theory Jws
  imports Nonces Base64_Url
begin

text \<open>
  \<^verbatim>\<open>acme/api/internal/secure\<close>: signing requests and key authorizations.  The signer of \<^verbatim>\<open>go-jose\<close> is a
  parameter: \<open>joseNewSigner\<close> accepts or rejects an algorithm and key, \<open>joseSign\<close> signs.  As its
  \<^verbatim>\<open>NonceSource\<close> documents, one signature draws one nonce, here from \<open>Manager_Nonce\<close>; an error of the
  source reaches the caller through \<open>joseNonceError\<close>.  The fields of \<^verbatim>\<open>JWS\<close> are the key of \<open>core\<close>, the key
  identifier \<open>w_kid\<close> and the pool \<open>w_nonces\<close> of the state.

  Proved here: what a signed message carries (\<open>SignContent_carries\<close>), and the first half of the nonce
  discipline: signing takes one nonce out of the pool, or one the server has just issued.
\<close>

section \<open>Signing\<close>

definition NewJWS :: "string \<Rightarrow> (world, unit) go" where
  "NewJWS kid = modify (\<lambda>w. w\<lparr>w_kid := kid\<rparr>)"

definition SetKid :: "string \<Rightarrow> (world, unit) go" where
  "SetKid kid = modify (\<lambda>w. w\<lparr>w_kid := kid\<rparr>)"

definition signature_algorithm :: "private_key \<Rightarrow> string" where
  "signature_algorithm k =
     (case k of
        RsaKey _ _ \<Rightarrow> ''RS256''
      | EcdsaKey cv _ \<Rightarrow> (if cv = P256 then ''ES256'' else if cv = P384 then ''ES384'' else [])
      | _ \<Rightarrow> [])"

definition SignContent :: "env \<Rightarrow> core \<Rightarrow> string \<Rightarrow> string \<Rightarrow> (world, goerror + jws) go" where
  "SignContent e c url content =
     (let k = core_privKey c; alg = signature_algorithm k in
      bind (gets w_kid) (\<lambda>kid.
        case joseNewSigner e alg k of
          Some err \<Rightarrow> ret (Inl (Wrap ''failed to create jose signer: '' err))
        | None \<Rightarrow>
            handle (Manager_Nonce e c)
              (\<lambda>err. ret (Inl (Wrap ''failed to sign content: '' (joseNonceError e err))))
              (\<lambda>nonce.
                 let m = \<lparr>jws_Alg = alg, jws_Key = k, jws_KeyID = kid, jws_EmbedJWK = (kid = []),
                          jws_Nonce = nonce, jws_Url = url, jws_Payload = content\<rparr> in
                 case joseSign e m of
                   Some err \<Rightarrow> ret (Inl (Wrap ''failed to sign content: '' err))
                 | None \<Rightarrow> ret (Inr m))))"

text \<open>The External Account Binding: signed with the shared key, without a nonce.\<close>

definition SignEABContent :: "env \<Rightarrow> core \<Rightarrow> string \<Rightarrow> string \<Rightarrow> string \<Rightarrow> goerror + json" where
  "SignEABContent e c url kid hmac =
     (case joseMarshalPublic e (core_privKey c) of
        Inl err \<Rightarrow> Inl (Wrap ''acme: error encoding eab jwk key: '' err)
      | Inr jwkJSON \<Rightarrow>
          (case joseSignerEAB e hmac of
             Some err \<Rightarrow> Inl (Wrap ''failed to create External Account Binding jose signer: '' err)
           | None \<Rightarrow>
               (case joseSignEAB e hmac kid url jwkJSON of
                  Inl err \<Rightarrow> Inl (Wrap ''failed to External Account Binding sign content: '' err)
                | Inr signed \<Rightarrow> Inr signed)))"

definition GetKeyAuthorization :: "env \<Rightarrow> core \<Rightarrow> string \<Rightarrow> goerror + string" where
  "GetKeyAuthorization e c token =
     (let k = core_privKey c;
          publicKey = (case k of EcdsaKey _ _ \<Rightarrow> Some k | RsaKey _ _ \<Rightarrow> Some k | _ \<Rightarrow> None) in
      case joseThumbprint e publicKey of
        Inl err \<Rightarrow> Inl err
      | Inr thumbBytes \<Rightarrow> Inr (token @ ''.'' @ base64_encode thumbBytes))"

section \<open>Nonces on the wire\<close>

text \<open>The nonces a trace shows: those the server handed out, and those that were sent.\<close>

fun issued_by :: "event \<Rightarrow> string list" where
  "issued_by (EvHttp _ (Inr resp)) =
     (let n = header_get (resp_Header resp) ''Replay-Nonce'' in if n = [] then [] else [n])"
| "issued_by _ = []"

fun sent_in :: "event \<Rightarrow> string list" where
  "sent_in (EvHttp req _) = (case req_Body req of JoseBody m \<Rightarrow> [jws_Nonce m] | _ \<Rightarrow> [])"
| "sent_in _ = []"

definition issued :: "event list \<Rightarrow> string list" where
  "issued tr = concat (map issued_by tr)"

definition sent :: "event list \<Rightarrow> string list" where
  "sent tr = concat (map sent_in tr)"

lemma issued_append [simp]: "issued (tr @ tr') = issued tr @ issued tr'"
  by (simp add: issued_def)

lemma sent_append [simp]: "sent (tr @ tr') = sent tr @ sent tr'"
  by (simp add: sent_def)

lemma issued_single [simp]: "issued [ev] = issued_by ev" and sent_single [simp]: "sent [ev] = sent_in ev"
  by (simp_all add: issued_def sent_def)

text \<open>
  The invariant with a list of nonces \<open>held\<close> outside the pool: every nonce sent, pooled or held was
  handed out that often by the server.
\<close>

definition nonces_held :: "string list \<Rightarrow> world \<Rightarrow> bool" where
  "nonces_held held w \<longleftrightarrow>
     mset (sent (w_trace w)) + mset (w_nonces w) + mset held \<subseteq># mset (issued (w_trace w))"

abbreviation nonces_ok :: "world \<Rightarrow> bool" where
  "nonces_ok \<equiv> nonces_held []"

lemma nonces_held_drop: "nonces_held (n # held) w \<Longrightarrow> nonces_held held w"
  unfolding nonces_held_def
  by (rule subset_mset.order_trans [rotated], assumption) simp

text \<open>Any HTTP exchange can only add to what was issued; a signed one adds its nonce to what was sent.\<close>

lemma nonces_held_exchange:
  assumes "nonces_held held w" and "mset (sent_in ev) + mset held' \<subseteq># mset held"
    and "w_trace t = w_trace w @ [ev]" and "w_nonces t = w_nonces w"
  shows "nonces_held (issued_by ev @ held') t"
proof -
  have "mset (sent (w_trace w)) + mset (w_nonces w) + (mset (sent_in ev) + mset held')
      \<subseteq># mset (issued (w_trace w))"
    using assms(1,2) unfolding nonces_held_def
    by (meson subset_mset.add_left_mono subset_mset.order_trans)
  then have "mset (sent (w_trace w)) + mset (w_nonces w) + (mset (sent_in ev) + mset held')
      + mset (issued_by ev) \<subseteq># mset (issued (w_trace w)) + mset (issued_by ev)"
    by (rule subset_mset.add_right_mono)
  then show ?thesis
    unfolding nonces_held_def assms(3,4) by (simp add: ac_simps)
qed

lemma nonces_held_sub: "nonces_held held w \<Longrightarrow> mset held' \<subseteq># mset held \<Longrightarrow> nonces_held held' w"
  unfolding nonces_held_def by (meson subset_mset.add_left_mono subset_mset.order_trans)

lemma nonces_held_cong:
  "w_trace t = w_trace w \<Longrightarrow> w_nonces t = w_nonces w \<Longrightarrow> nonces_held held t = nonces_held held w"
  by (simp add: nonces_held_def)

lemma Doer_do_held:
  assumes "nonces_held held w" and "Doer_do e req target w = (r, t)"
    and "mset (sent_in (EvHttp req (Inl err))) + mset held' \<subseteq># mset held"
  shows "nonces_held (issued_by (EvHttp req (httpDo e (w_trace w) req)) @ held') t"
  using Doer_do_trace [OF assms(2)] assms(3) by (intro nonces_held_exchange [OF assms(1)]) auto

text \<open>The nonce a reply carries is one it issued.\<close>

lemma GetFromResponse_issued:
  "GetFromResponse (Some resp) = Inr n \<Longrightarrow> issued_by (EvHttp req (Inr resp)) = [n]"
  by (simp add: GetFromResponse_def Let_def split: if_splits)

lemma getNonce_held:
  assumes "nonces_ok w" and "getNonce e c w = (r, t)"
  shows "nonces_ok t \<and> (\<forall>n. r = Return (Inr n) \<longrightarrow> nonces_held [n] t)"
proof -
  let ?url = "dir_NewNonceURL (core_directory c)"
  obtain q u where send: "Doer_Head e c ?url w = (q, u)" by fastforce
  have tu: "t = u"
    using assms(2) send by (auto simp: getNonce_def bind_def split: outcome.splits prod.splits sum.splits)
  show ?thesis
  proof (cases "newRequest e (core_userAgent c) ''HEAD'' ?url NoBody []")
    case (Inl err)
    then have "u = w" "q = Return (None, Inl err)"
      using send by (simp_all add: Doer_Head_def Doer_send_def)
    then show ?thesis
      using assms send by (auto simp: getNonce_def bind_def)
  next
    case (Inr req)
    then have body: "req_Body req = NoBody"
      by (auto simp: newRequest_def split: option.splits)
    have run: "Doer_do e req None w = (q, u)"
      using send Inr by (simp add: Doer_Head_def Doer_send_def)
    have held: "nonces_held (issued_by (EvHttp req (httpDo e (w_trace w) req))) u"
      using Doer_do_held [OF assms(1) run, of undefined "[]"] body by simp
    moreover have "nonces_held [n] u" if "r = Return (Inr n)" for n
    proof -
      from that assms(2) send obtain rp res where q: "q = Return (rp, Inr res)"
        and n: "GetFromResponse rp = Inr n"
        by (auto simp: getNonce_def bind_def split: outcome.splits prod.splits sum.splits)
      then show ?thesis
        using held Doer_do_response [OF run [unfolded q]] GetFromResponse_issued [of _ n req]
        by (auto simp: GetFromResponse_def split: sum.splits)
    qed
    ultimately show ?thesis
      using tu nonces_held_sub [of _ u "[]"] by auto
  qed
qed

lemma Manager_Nonce_held:
  assumes "nonces_ok w" and "Manager_Nonce e c w = (r, t)"
  shows "nonces_ok t \<and> (\<forall>n. r = Return (Inr n) \<longrightarrow> nonces_held [n] t)"
proof (cases "w_nonces w" rule: rev_cases)
  case Nil
  then show ?thesis
    using assms getNonce_held [OF assms(1)] by (simp add: Manager_Nonce_def bind_def Manager_Pop_run)
next
  case (snoc ns n)
  then have "r = Return (Inr n)" "t = w\<lparr>w_nonces := ns\<rparr>"
    using assms(2) by (simp_all add: Manager_Nonce_def bind_def Manager_Pop_run)
  moreover have "nonces_held [n] (w\<lparr>w_nonces := ns\<rparr>)"
    using assms(1) snoc by (simp add: nonces_held_def ac_simps)
  ultimately show ?thesis using nonces_held_drop by auto
qed

lemma SignContent_held:
  assumes "nonces_ok w" and "SignContent e c url content w = (r, t)"
  shows "nonces_ok t \<and> (\<forall>m. r = Return (Inr m) \<longrightarrow> nonces_held [jws_Nonce m] t)"
proof -
  obtain q u where nonce: "Manager_Nonce e c w = (q, u)" by fastforce
  note held = Manager_Nonce_held [OF assms(1) nonce]
  show ?thesis
  proof (cases "joseNewSigner e (signature_algorithm (core_privKey c)) (core_privKey c)")
    case None
    then show ?thesis
      using assms(2) nonce held
      by (auto simp: SignContent_def go_simps Let_def split: outcome.splits sum.splits option.splits)
  qed (use assms in \<open>auto simp: SignContent_def go_simps Let_def\<close>)
qed

text \<open>A signed message carries the URL and payload it was asked to sign, and identifies the key by the
  account URL once that is known, by the embedded public key before.\<close>

lemma SignContent_carries:
  assumes "SignContent e c url content w = (Return (Inr m), t)"
  shows "jws_Url m = url \<and> jws_Payload m = content \<and> jws_KeyID m = w_kid w
    \<and> (jws_EmbedJWK m \<longleftrightarrow> w_kid w = []) \<and> jws_Key m = core_privKey c
    \<and> jws_Alg m = signature_algorithm (core_privKey c) \<and> joseSign e m = None"
  using assms
  by (auto simp: SignContent_def go_simps Let_def split: outcome.splits sum.splits option.splits prod.splits)

end
