(* ===== verification/Links.thy ===== *)
theory Links
  imports World
begin

text \<open>
  \<^verbatim>\<open>acme/api/service.go\<close>: the \<^verbatim>\<open>Link\<close>, \<^verbatim>\<open>Location\<close> and \<^verbatim>\<open>Retry-After\<close> headers of a response.  Links are
  found with the expression \<^verbatim>\<open><(.+?)>(?:;[^;]+)*?;\s*rel="(.+?)"\<close>, evaluated here by a small
  backtracking matcher with the leftmost-first semantics of Go's \<^verbatim>\<open>regexp\<close>: an expression is mapped to
  the list of the ways it matches a prefix, best first.

  Proved here: a link written in the form a server sends is read back, and \<open>getLink\<close> is the first of
  \<open>getLinks\<close>.
\<close>

section \<open>Matching\<close>

text \<open>
  A way to match: the text captured by each group so far, in the order the groups close, and the
  rest of the input.  \<open>Lazy r\<close> is \<^verbatim>\<open>r*?\<close>, \<open>Greedy r\<close> is \<^verbatim>\<open>r*\<close>.
\<close>

datatype regex =
    Sym "char \<Rightarrow> bool"
  | Seq regex regex
  | Empty
  | Lazy regex
  | Greedy regex
  | Group regex

type_synonym match_state = "string list \<times> string"

text \<open>A repetition stops when its body consumes nothing, as Go's matcher does.\<close>

function matches :: "regex \<Rightarrow> match_state \<Rightarrow> match_state list" where
  "matches Empty (caps, s) = [(caps, s)]"
| "matches (Sym p) (caps, s) = (case s of [] \<Rightarrow> [] | c # cs \<Rightarrow> if p c then [(caps, cs)] else [])"
| "matches (Seq a b) (caps, s) = concat (map (matches b) (matches a (caps, s)))"
| "matches (Group r) (caps, s) =
     map (\<lambda>(caps', s'). (caps' @ [take (length s - length s') s], s')) (matches r (caps, s))"
| "matches (Lazy r) (caps, s) =
     (caps, s) # concat (map (\<lambda>(caps', s').
       if length s' < length s then matches (Lazy r) (caps', s') else []) (matches r (caps, s)))"
| "matches (Greedy r) (caps, s) =
     concat (map (\<lambda>(caps', s').
       if length s' < length s then matches (Greedy r) (caps', s') else []) (matches r (caps, s)))
     @ [(caps, s)]"
  by pat_completeness auto
termination
  by (relation "measures [\<lambda>(r, _). size r, \<lambda>(_, _, s). length s]") auto

declare matches.simps(5,6) [simp del]

lemma matches_Greedy_Sym_Cons:
  "matches (Greedy (Sym p)) (caps, c # s) =
     (if p c then matches (Greedy (Sym p)) (caps, s) else []) @ [(caps, c # s)]"
  by (subst matches.simps) simp

lemma matches_Greedy_Sym_Nil [simp]: "matches (Greedy (Sym p)) (caps, []) = [(caps, [])]"
  by (subst matches.simps) simp

lemma matches_Lazy_Sym_Cons:
  "matches (Lazy (Sym p)) (caps, c # s) =
     (caps, c # s) # (if p c then matches (Lazy (Sym p)) (caps, s) else [])"
  by (subst matches.simps) simp

lemma matches_Lazy_Sym_Nil [simp]: "matches (Lazy (Sym p)) (caps, []) = [(caps, [])]"
  by (subst matches.simps) simp

definition chr :: "char \<Rightarrow> regex" where
  "chr c = Sym (\<lambda>d. d = c)"

fun str :: "string \<Rightarrow> regex" where
  "str [] = Empty"
| "str (c # cs) = Seq (chr c) (str cs)"

definition dot :: "char \<Rightarrow> bool" where
  "dot c \<longleftrightarrow> c \<noteq> CHR 0x0A"

definition whitespace :: "char \<Rightarrow> bool" where
  "whitespace c \<longleftrightarrow> c \<in> {CHR 0x09, CHR 0x0A, CHR 0x0C, CHR 0x0D, CHR '' ''}"

definition lazy_plus :: "(char \<Rightarrow> bool) \<Rightarrow> regex" where
  "lazy_plus p = Seq (Sym p) (Lazy (Sym p))"

text \<open>The expression, from its last part to its first.\<close>

definition linkRel :: regex where
  "linkRel = Seq (str (''rel='' @ [CHR 0x22])) (Seq (Group (lazy_plus dot)) (chr (CHR 0x22)))"

definition linkParam :: regex where
  "linkParam = Seq (chr (CHR '';''))
     (Seq (Sym (\<lambda>c. c \<noteq> CHR '';'')) (Greedy (Sym (\<lambda>c. c \<noteq> CHR '';''))))"

definition linkTail :: regex where
  "linkTail = Seq (chr (CHR ''>'')) (Seq (Lazy linkParam)
     (Seq (chr (CHR '';'')) (Seq (Greedy (Sym whitespace)) linkRel)))"

definition linkExpr :: regex where
  "linkExpr = Seq (chr (CHR ''<'')) (Seq (Group (lazy_plus dot)) linkTail)"

text \<open>\<^verbatim>\<open>FindAllStringSubmatch(s, -1)\<close>: leftmost matches from left to right, without overlap.\<close>

function find_all :: "regex \<Rightarrow> string \<Rightarrow> string list list" where
  "find_all r s =
     (case matches r ([], s) of
        (caps, s') # _ \<Rightarrow> if length s' < length s then caps # find_all r s'
          else (case s of [] \<Rightarrow> [caps] | _ # cs \<Rightarrow> caps # find_all r cs)
      | [] \<Rightarrow> (case s of [] \<Rightarrow> [] | _ # cs \<Rightarrow> find_all r cs))"
  by pat_completeness auto
termination
  by (relation "measure (\<lambda>(r, s). length s)") auto

declare find_all.simps [simp del]

section \<open>The functions of service.go\<close>

text \<open>A match is the whole text and two groups, so the length test of the loop never skips one.\<close>

definition getLinks :: "(string \<times> string list) list \<Rightarrow> string \<Rightarrow> string list" where
  "getLinks header rel =
     concat (map (\<lambda>link. concat (map (\<lambda>m.
        case m of [url, r] \<Rightarrow> if r = rel then [url] else [] | _ \<Rightarrow> [])
       (find_all linkExpr link))) (header_values header ''Link''))"

definition getLink :: "(string \<times> string list) list \<Rightarrow> string \<Rightarrow> string" where
  "getLink header rel = (case getLinks header rel of [] \<Rightarrow> [] | l # _ \<Rightarrow> l)"

definition getLocation :: "http_response option \<Rightarrow> string" where
  "getLocation resp = (case resp of None \<Rightarrow> [] | Some r \<Rightarrow> header_get (resp_Header r) ''Location'')"

definition getRetryAfter :: "http_response option \<Rightarrow> string" where
  "getRetryAfter resp = (case resp of None \<Rightarrow> [] | Some r \<Rightarrow> header_get (resp_Header r) ''Retry-After'')"

section \<open>Reading a link back\<close>

definition first_match :: "regex \<Rightarrow> match_state \<Rightarrow> match_state \<Rightarrow> bool" where
  "first_match r st st' \<longleftrightarrow> (\<exists>ys. matches r st = st' # ys)"

lemma first_SeqI: "first_match a st st' \<Longrightarrow> first_match b st' st'' \<Longrightarrow> first_match (Seq a b) st st''"
  by (cases st) (auto simp: first_match_def)

lemma first_chr: "first_match (chr c) (caps, c # s) (caps, s)"
  by (simp add: first_match_def chr_def)

lemma first_str: "first_match (str t) (caps, t @ s) (caps, s)"
  by (induction t) (auto simp: first_match_def chr_def)

lemma first_Lazy_skip: "first_match b (caps, s) st' \<Longrightarrow> first_match (Seq (Lazy r) b) (caps, s) st'"
  by (auto simp: first_match_def matches.simps(5))

lemma first_Greedy:
  "list_all p w \<Longrightarrow> s = [] \<or> \<not> p (hd s) \<Longrightarrow> first_match (Greedy (Sym p)) (caps, w @ s) (caps, s)"
proof (induction w)
  case Nil
  then show ?case by (cases s) (auto simp: first_match_def matches_Greedy_Sym_Cons)
next
  case (Cons c w)
  then have "first_match (Greedy (Sym p)) (caps, w @ s) (caps, s)" by simp
  with Cons.prems(1) show ?case by (auto simp: first_match_def matches_Greedy_Sym_Cons)
qed

lemma matches_Lazy_Sym:
  "matches (Lazy (Sym p)) (caps, s) =
     map (\<lambda>k. (caps, drop k s)) [0..<Suc (length (takeWhile p s))]"
proof (induction s)
  case (Cons c s)
  show ?case
  proof (cases "p c")
    case True
    have "[0..<Suc (Suc n)] = 0 # map Suc [0..<Suc n]" for n
      by (simp add: map_Suc_upt upt_conv_Cons del: upt_Suc)
    then show ?thesis
      using True Cons by (simp del: upt_Suc add: comp_def matches_Lazy_Sym_Cons)
  qed (simp add: matches_Lazy_Sym_Cons)
qed simp

lemma concat_map_first:
  assumes "\<And>k. a \<le> k \<Longrightarrow> k < m \<Longrightarrow> f k = []" and "a \<le> m" and "m < b" and "f m = x # xs"
  shows "\<exists>ys. concat (map f [a..<b]) = x # ys"
proof -
  have split: "[a..<b] = [a..<m] @ m # [Suc m..<b]"
    using assms(2,3) by (metis le_add_diff_inverse less_imp_le upt_add_eq_append upt_conv_Cons)
  have "concat (map f [a..<m]) = []"
    using assms(1) by (simp add: concat_eq_Nil_conv)
  then show ?thesis
    using assms(4) by (simp only: split map_append concat_append list.map concat.simps) simp
qed

lemma matches_Group_lazy:
  assumes "p c"
  shows "matches (Group (lazy_plus p)) (caps, c # t) =
    map (\<lambda>k. (caps @ [take (Suc k) (c # t)], drop k t)) [0..<Suc (length (takeWhile p t))]"
proof -
  have "Suc (length t) - (length t - k) = Suc k" if "k < Suc (length (takeWhile p t))" for k
    using that length_takeWhile_le [of p t] by linarith
  then show ?thesis
    using assms by (auto simp: lazy_plus_def matches_Lazy_Sym simp del: upt_Suc)
qed

text \<open>
  A lazy group takes exactly the text \<open>u\<close> when what follows matches after \<open>u\<close> and nowhere inside it.
\<close>

lemma first_Group_lazy:
  assumes "u \<noteq> []" and "list_all p u"
    and "\<And>k. 0 < k \<Longrightarrow> k < length u \<Longrightarrow> matches b (caps @ [take k u], drop k (u @ s)) = []"
    and "first_match b (caps @ [u], s) st'"
  shows "first_match (Seq (Group (lazy_plus p)) b) (caps, u @ s) st'"
proof -
  obtain c v where u: "u = c # v" using assms(1) by (auto simp: neq_Nil_conv)
  let ?f = "\<lambda>k. matches b (caps @ [take (Suc k) (u @ s)], drop k (v @ s))"
  have "length v < Suc (length (takeWhile p (v @ s)))"
    using assms(2) u by (simp add: takeWhile_append2 list_all_iff)
  moreover have "?f k = []" if "k < length v" for k
    using assms(3) [of "Suc k"] that u by simp
  moreover obtain ys where "?f (length v) = st' # ys"
    using assms(4) u by (auto simp: first_match_def)
  ultimately have "\<exists>ys. concat (map ?f [0..<Suc (length (takeWhile p (v @ s)))]) = st' # ys"
    by (intro concat_map_first [where m = "length v"]) auto
  moreover have "matches (Group (lazy_plus p)) (caps, u @ s) =
      map (\<lambda>k. (caps @ [take (Suc k) (u @ s)], drop k (v @ s)))
        [0..<Suc (length (takeWhile p (v @ s)))]"
    using matches_Group_lazy [of p c caps "v @ s"] assms(2) u by simp
  ultimately show ?thesis
    by (simp only: first_match_def matches.simps(3) map_map comp_def)
qed

text \<open>\<open>link_header\<close> is a link as a server writes it: \<^verbatim>\<open><url>;\<close>, optional space, \<^verbatim>\<open>rel="..."\<close>.\<close>

definition link_header :: "string \<Rightarrow> string \<Rightarrow> string \<Rightarrow> string" where
  "link_header u w r =
     ''<'' @ u @ CHR ''>'' # CHR '';'' # w @ (''rel='' @ [CHR 0x22]) @ r @ [CHR 0x22]"

definition link_ok :: "string \<Rightarrow> string \<Rightarrow> string \<Rightarrow> bool" where
  "link_ok u w r \<longleftrightarrow> u \<noteq> [] \<and> r \<noteq> [] \<and> list_all (\<lambda>c. c \<noteq> CHR ''>'' \<and> dot c) u
     \<and> list_all (\<lambda>c. c \<noteq> CHR 0x22 \<and> dot c) r \<and> list_all whitespace w"

lemma chr_fails: "s = [] \<or> hd s \<noteq> c \<Longrightarrow> matches (Seq (chr c) b) (caps, s) = []"
  by (cases s) (auto simp: chr_def)

lemma chr_fails1: "s = [] \<or> hd s \<noteq> c \<Longrightarrow> matches (chr c) (caps, s) = []"
  by (cases s) (auto simp: chr_def)

lemma linkRel_first:
  assumes "r \<noteq> []" "list_all (\<lambda>c. c \<noteq> CHR 0x22 \<and> dot c) r"
  shows "first_match linkRel (caps, (''rel='' @ [CHR 0x22]) @ r @ CHR 0x22 # s) (caps @ [r], s)"
  unfolding linkRel_def
proof (rule first_SeqI [OF first_str], rule first_Group_lazy)
  show "r \<noteq> []" "list_all dot r" using assms by (auto simp: list_all_iff)
  show "matches (chr (CHR 0x22)) (caps @ [take k r], drop k (r @ CHR 0x22 # s)) = []"
    if "0 < k" "k < length r" for k
    using assms that by (intro chr_fails1) (auto simp: hd_drop_conv_nth nth_append list_all_length)
  show "first_match (chr (CHR 0x22)) (caps @ [r], CHR 0x22 # s) (caps @ [r], s)"
    by (rule first_chr)
qed

lemma linkExpr_first:
  assumes "link_ok u w r"
  shows "first_match linkExpr ([], link_header u w r @ s) ([u, r], s)"
proof -
  define rel where "rel = (''rel='' @ [CHR 0x22]) @ r @ CHR 0x22 # s"
  have rel: "first_match linkRel ([u], rel) ([u, r], s)"
    using linkRel_first [of r "[u]" s] assms by (simp add: rel_def link_ok_def)
  have "list_all whitespace w" "rel = [] \<or> \<not> whitespace (hd rel)"
    using assms by (simp_all add: link_ok_def rel_def whitespace_def)
  then have "first_match (Seq (Greedy (Sym whitespace)) linkRel) ([u], w @ rel) ([u, r], s)"
    by (rule first_SeqI [OF first_Greedy rel])
  then have tail: "first_match linkTail ([u], CHR ''>'' # CHR '';'' # w @ rel) ([u, r], s)"
    unfolding linkTail_def by (intro first_SeqI [OF first_chr] first_Lazy_skip)
  have "first_match (Seq (Group (lazy_plus dot)) linkTail)
      ([], u @ CHR ''>'' # CHR '';'' # w @ rel) ([u, r], s)"
  proof (rule first_Group_lazy)
    show "u \<noteq> []" "list_all dot u" using assms by (auto simp: link_ok_def list_all_iff)
    show "matches linkTail ([] @ [take k u], drop k (u @ CHR ''>'' # CHR '';'' # w @ rel)) = []"
      if "0 < k" "k < length u" for k
      unfolding linkTail_def using assms that
      by (intro chr_fails) (auto simp: hd_drop_conv_nth nth_append link_ok_def list_all_length)
  qed (use tail in simp)
  then have "first_match linkExpr ([], CHR ''<'' # u @ CHR ''>'' # CHR '';'' # w @ rel) ([u, r], s)"
    unfolding linkExpr_def by (rule first_SeqI [OF first_chr])
  then show ?thesis by (simp add: link_header_def rel_def)
qed

lemma find_all_link: "link_ok u w r \<Longrightarrow> find_all linkExpr (link_header u w r) = [[u, r]]"
proof -
  assume ok: "link_ok u w r"
  then obtain ys where m: "matches linkExpr ([], link_header u w r) = ([u, r], []) # ys"
    using linkExpr_first [of u w r "[]"] by (auto simp: first_match_def)
  have "find_all linkExpr [] = []"
    by (simp add: find_all.simps [of _ "[]"] linkExpr_def chr_def)
  moreover have "link_header u w r \<noteq> []"
    by (simp add: link_header_def)
  ultimately show ?thesis
    using m by (simp add: find_all.simps [of _ "link_header u w r"])
qed

text \<open>
  When every value of the \<^verbatim>\<open>Link\<close> header has the form \<^verbatim>\<open><url>; rel="relation"\<close>,
  \<open>getLinks\<close> returns exactly the URLs of the requested relation, in the order of the header, and
  \<open>getLink\<close> the first of them (or the empty string).
\<close>

theorem getLinks_reads_link_headers:
  assumes "header_values h ''Link'' = map (\<lambda>(u, w, r). link_header u w r) ls"
    and "list_all (\<lambda>(u, w, r). link_ok u w r) ls"
  shows "getLinks h rel = map fst (filter (\<lambda>(u, w, r). r = rel) ls)
    \<and> getLink h rel = (case filter (\<lambda>(u, w, r). r = rel) ls of [] \<Rightarrow> [] | (u, _) # _ \<Rightarrow> u)"
proof -
  have "concat (map (\<lambda>link. concat (map (\<lambda>m.
        case m of [url, r] \<Rightarrow> if r = rel then [url] else [] | _ \<Rightarrow> []) (find_all linkExpr link)))
      (map (\<lambda>(u, w, r). link_header u w r) ls)) = map fst (filter (\<lambda>(u, w, r). r = rel) ls)"
    using assms(2) by (induction ls) (auto simp: find_all_link)
  then have "getLinks h rel = map fst (filter (\<lambda>(u, w, r). r = rel) ls)"
    using assms(1) by (simp add: getLinks_def)
  then show ?thesis by (auto simp: getLink_def split: list.splits)
qed

theorem getLinks_reads_link_headers_witness:
  "getLink [(''Link'', [link_header ''https://a/1'' [] ''up'',
      link_header ''https://b/2'' '' '' ''alternate''])] ''alternate'' = ''https://b/2''"
  using getLinks_reads_link_headers
    [of "[(''Link'', [link_header ''https://a/1'' [] ''up'',
           link_header ''https://b/2'' '' '' ''alternate''])]"
        "[(''https://a/1'', [], ''up''), (''https://b/2'', '' '', ''alternate'')]" "''alternate''"]
  by (simp add: header_values_def link_ok_def dot_def whitespace_def)

end
