(* ===== verification/Certcrypto.thy ===== *)
theory Certcrypto
  imports Sender
begin

text \<open>
  Package \<^verbatim>\<open>certcrypto\<close>: keys, certificate requests and PEM.  The text of PEM and the DER of X.509 are
  parameters; \<open>pem_ok\<close> is what \<^verbatim>\<open>encoding/pem\<close> documents of them: a block is found again in front of
  whatever follows it, text without a block is given back, and the remainder is shorter than the input.

  Proved here: a bundle is parsed back into its certificates, in order and without the other blocks; the
  domains of a certificate or request, common name first and each once; the temporary certificate of
  the tls-alpn-01 challenge is valid for 365 nanoseconds.
\<close>

type_synonym KeyType = string

definition EC256 :: KeyType where "EC256 = ''P256''"
definition EC384 :: KeyType where "EC384 = ''P384''"
definition RSA2048 :: KeyType where "RSA2048 = ''2048''"
definition RSA4096 :: KeyType where "RSA4096 = ''4096''"
definition RSA8192 :: KeyType where "RSA8192 = ''8192''"

lemmas key_type_defs = EC256_def EC384_def RSA2048_def RSA4096_def RSA8192_def

definition tlsFeatureExtensionOID :: "nat list" where
  "tlsFeatureExtensionOID = [1, 3, 6, 1, 5, 5, 7, 1, 24]"

definition ocspMustStapleFeature :: string where
  "ocspMustStapleFeature = map char_of [0x30, 0x03, 0x02, 0x01, 0x05 :: nat]"

section \<open>Parsing\<close>

text \<open>The remainder of \<^verbatim>\<open>pem.Decode\<close>; a nil slice is read as an empty one.\<close>

definition pem_rest :: "string option \<Rightarrow> string" where
  "pem_rest r = (case r of None \<Rightarrow> [] | Some s \<Rightarrow> s)"

fun parse_blocks :: "env \<Rightarrow> nat \<Rightarrow> string \<Rightarrow> x509_cert list \<Rightarrow> (goerror + x509_cert list) outcome" where
  "parse_blocks e 0 bundle certificates = Stuck"
| "parse_blocks e (Suc n) bundle certificates =
     (case pemDecode e bundle of
        (None, _) \<Rightarrow>
          Return (if certificates = []
                  then Inl (Err ''no certificates were found while parsing the bundle'')
                  else Inr certificates)
      | (Some certDERBlock, rest) \<Rightarrow>
          if pem_Type certDERBlock = ''CERTIFICATE'' then
            (case parseCertificate e (pem_Bytes certDERBlock) of
               Inl err \<Rightarrow> Return (Inl err)
             | Inr cert \<Rightarrow> parse_blocks e n (pem_rest rest) (certificates @ [cert]))
          else parse_blocks e n (pem_rest rest) certificates)"

definition ParsePEMBundle :: "env \<Rightarrow> string \<Rightarrow> (goerror + x509_cert list) outcome" where
  "ParsePEMBundle e bundle = parse_blocks e (Suc (length bundle)) bundle []"

definition ParsePEMPrivateKey :: "env \<Rightarrow> string \<Rightarrow> (goerror + private_key) outcome" where
  "ParsePEMPrivateKey e key =
     (case fst (pemDecode e key) of
        None \<Rightarrow> Panic ''invalid memory address or nil pointer dereference''
      | Some b \<Rightarrow>
          Return
            (if pem_Type b \<noteq> ''PRIVATE KEY'' \<and> \<not> HasSuffix (pem_Type b) '' PRIVATE KEY''
             then Inl (Err (''unknown PEM header '' @ Quote (pem_Type b)))
             else (case parsePKCS1 e (pem_Bytes b) of
                     Inr k \<Rightarrow> Inr k
                   | Inl _ \<Rightarrow>
                       (case parsePKCS8 e (pem_Bytes b) of
                          Inr (OtherKey n) \<Rightarrow>
                            Inl (Err ''found unknown private key type in PKCS#8 wrapping'')
                        | Inr k \<Rightarrow> Inr k
                        | Inl _ \<Rightarrow>
                            (case parseEC e (pem_Bytes b) of
                               Inr k \<Rightarrow> Inr k
                             | Inl _ \<Rightarrow> Inl (Err ''failed to parse private key''))))))"

definition pem_decode :: "env \<Rightarrow> string \<Rightarrow> goerror + pem_block" where
  "pem_decode e data =
     (case fst (pemDecode e data) of
        None \<Rightarrow> Inl (Err ''PEM decode did not yield a valid block. Is the certificate in the right format?'')
      | Some b \<Rightarrow> Inr b)"

definition PemDecodeTox509CSR :: "env \<Rightarrow> string \<Rightarrow> goerror + x509_csr" where
  "PemDecodeTox509CSR e pem =
     (case pem_decode e pem of
        Inl err \<Rightarrow> Inl err
      | Inr b \<Rightarrow>
          if pem_Type b \<noteq> ''CERTIFICATE REQUEST'' then Inl (Err ''PEM block is not a certificate request'')
          else parseCertificateRequest e (pem_Bytes b))"

definition ParsePEMCertificate :: "env \<Rightarrow> string \<Rightarrow> goerror + x509_cert" where
  "ParsePEMCertificate e cert =
     (case pem_decode e cert of Inl err \<Rightarrow> Inl err | Inr b \<Rightarrow> parseCertificate e (pem_Bytes b))"

section \<open>Generating\<close>

text \<open>Every use of \<^verbatim>\<open>rand.Reader\<close> is an event, so that two uses see different traces.\<close>

definition with_random :: "env \<Rightarrow> (event list \<Rightarrow> 'a) \<Rightarrow> (world, 'a) go" where
  "with_random e f = bind (gets w_trace) (\<lambda>tr. bind (observe e EvRandom) (\<lambda>_. ret (f tr)))"

definition GeneratePrivateKey :: "env \<Rightarrow> KeyType \<Rightarrow> (world, goerror + private_key) go" where
  "GeneratePrivateKey e keyType =
     (if keyType = EC256 then with_random e (\<lambda>tr. generateEcKey e tr P256)
      else if keyType = EC384 then with_random e (\<lambda>tr. generateEcKey e tr P384)
      else if keyType = RSA2048 then with_random e (\<lambda>tr. generateRsaKey e tr 2048)
      else if keyType = RSA4096 then with_random e (\<lambda>tr. generateRsaKey e tr 4096)
      else if keyType = RSA8192 then with_random e (\<lambda>tr. generateRsaKey e tr 8192)
      else ret (Inl (Err (''invalid KeyType: '' @ keyType))))"

definition GenerateCSR ::
  "env \<Rightarrow> private_key \<Rightarrow> string \<Rightarrow> string list \<Rightarrow> bool \<Rightarrow> (world, goerror + string) go" where
  "GenerateCSR e privateKey domain san mustStaple =
     (let extra = (if mustStaple then [(tlsFeatureExtensionOID, False, ocspMustStapleFeature)] else []) in
      with_random e (\<lambda>tr. createCertificateRequest e tr domain san extra privateKey))"

datatype pem_data =
    PemKey private_key
  | PemCSR x509_csr
  | DERCertificateBytes string

definition PEMBlock :: "env \<Rightarrow> pem_data \<Rightarrow> pem_block option" where
  "PEMBlock e data =
     (case data of
        PemKey k \<Rightarrow>
          (case k of
             EcdsaKey _ _ \<Rightarrow> Some \<lparr>pem_Type = ''EC PRIVATE KEY'', pem_Bytes = marshalKey e k\<rparr>
           | RsaKey _ _ \<Rightarrow> Some \<lparr>pem_Type = ''RSA PRIVATE KEY'', pem_Bytes = marshalKey e k\<rparr>
           | _ \<Rightarrow> None)
      | PemCSR csr \<Rightarrow> Some \<lparr>pem_Type = ''CERTIFICATE REQUEST'', pem_Bytes = csr_Raw csr\<rparr>
      | DERCertificateBytes der \<Rightarrow> Some \<lparr>pem_Type = ''CERTIFICATE'', pem_Bytes = der\<rparr>)"

text \<open>\<^verbatim>\<open>pem.EncodeToMemory\<close> of a nil block dereferences it.\<close>

definition PEMEncode :: "env \<Rightarrow> pem_data \<Rightarrow> string outcome" where
  "PEMEncode e data =
     (case PEMBlock e data of
        None \<Rightarrow> Panic ''invalid memory address or nil pointer dereference''
      | Some b \<Rightarrow> Return (pemEncode e b))"

definition generateDerCert ::
  "env \<Rightarrow> private_key \<Rightarrow> int option \<Rightarrow> string \<Rightarrow> extension list \<Rightarrow> (world, goerror + string) go" where
  "generateDerCert e privateKey expiration domain extensions =
     check (with_random e (\<lambda>tr. randInt e tr (2 ^ 128))) (\<lambda>serialNumber.
       bind (gets w_now) (\<lambda>now.
         let template = \<lparr>tmpl_SerialNumber = serialNumber, tmpl_SubjectCN = ''ACME Challenge TEMP'',
               tmpl_NotBefore = now,
               tmpl_NotAfter = (case expiration of None \<Rightarrow> now + 365 | Some t \<Rightarrow> t),
               tmpl_DNSNames = [domain], tmpl_ExtraExtensions = extensions\<rparr> in
         with_random e (\<lambda>tr. createCertificate e tr template privateKey)))"

definition GeneratePemCert ::
  "env \<Rightarrow> private_key \<Rightarrow> string \<Rightarrow> extension list \<Rightarrow> (world, goerror + string) go" where
  "GeneratePemCert e privateKey domain extensions =
     check (generateDerCert e privateKey None domain extensions) (\<lambda>derBytes.
       ret (Inr (pemEncode e \<lparr>pem_Type = ''CERTIFICATE'', pem_Bytes = derBytes\<rparr>)))"

section \<open>Domains\<close>

definition ExtractDomains :: "x509_cert \<Rightarrow> string list" where
  "ExtractDomains cert =
     (if crt_SubjectCN cert \<noteq> [] then [crt_SubjectCN cert] else [])
     @ filter (\<lambda>sanDomain. sanDomain \<noteq> crt_SubjectCN cert) (crt_DNSNames cert)"

definition containsSAN :: "string list \<Rightarrow> string \<Rightarrow> bool" where
  "containsSAN domains sanName \<longleftrightarrow> list_ex (\<lambda>existingName. existingName = sanName) domains"

fun add_sans :: "string list \<Rightarrow> string list \<Rightarrow> string list" where
  "add_sans domains [] = domains"
| "add_sans domains (sanName # sans) =
     (if containsSAN domains sanName then add_sans domains sans
      else add_sans (domains @ [sanName]) sans)"

definition ExtractDomainsCSR :: "x509_csr \<Rightarrow> string list" where
  "ExtractDomainsCSR csr =
     add_sans (if csr_SubjectCN csr \<noteq> [] then [csr_SubjectCN csr] else []) (csr_DNSNames csr)"

section \<open>Bundles\<close>

definition pem_ok :: "env \<Rightarrow> bool" where
  "pem_ok e \<longleftrightarrow>
     (\<forall>b s. pemDecode e (pemEncode e b @ s) = (Some b, Some s))
     \<and> (\<forall>s b r. pemDecode e s = (Some b, r) \<longrightarrow> length (pem_rest r) < length s)"

definition is_cert_block :: "pem_block \<Rightarrow> bool" where
  "is_cert_block b \<longleftrightarrow> pem_Type b = ''CERTIFICATE''"

lemma pem_ok_Nil: "pem_ok e \<Longrightarrow> fst (pemDecode e []) = None"
  unfolding pem_ok_def by (metis length_0_conv less_zeroE not_None_eq prod.collapse)

lemma pem_ok_nonempty: "pem_ok e \<Longrightarrow> pemEncode e b \<noteq> []"
  using pem_ok_Nil [of e] unfolding pem_ok_def by (metis append_Nil fst_conv option.distinct(1))

lemma pem_rest_Some [simp]: "pem_rest (Some s) = s"
  by (simp add: pem_rest_def)

text \<open>Fuel for one more round than the input has characters is always enough.\<close>

lemma parse_blocks_total:
  assumes "pem_ok e" and "length inp < n"
  shows "\<exists>r. parse_blocks e n inp cs = Return r"
  using assms(2)
proof (induction n arbitrary: inp cs)
  case (Suc n)
  have "length (pem_rest r) < n" if "pemDecode e inp = (Some b, r)" for b r
    using assms(1) that Suc.prems unfolding pem_ok_def by (meson less_Suc_eq_le less_le_trans)
  then show ?case
    using Suc.IH by (auto split: prod.splits option.splits sum.splits)
qed simp

lemma parse_blocks_encoded:
  assumes "pem_ok e" and "length blocks < n"
  shows "parse_blocks e n (concat (map (pemEncode e) blocks)) cs =
    Return (case map_res (parseCertificate e) (map pem_Bytes (filter is_cert_block blocks)) of
        Inl err \<Rightarrow> Inl err
      | Inr ds \<Rightarrow> if cs @ ds = [] then Inl (Err ''no certificates were found while parsing the bundle'')
                 else Inr (cs @ ds))"
  using assms(2)
proof (induction blocks arbitrary: n cs)
  case Nil
  then show ?case
    using pem_ok_Nil [OF assms(1)] by (cases n; cases "pemDecode e []") simp_all
next
  case (Cons b blocks)
  then obtain m where n: "n = Suc m" "length blocks < m" by (cases n) auto
  have dec: "pemDecode e (pemEncode e b @ s) = (Some b, Some s)" for s
    using assms(1) by (simp add: pem_ok_def)
  show ?case
    using Cons.IH [OF n(2)] by (auto simp: n dec is_cert_block_def split: sum.split)
qed

lemma length_encoded: "pem_ok e \<Longrightarrow> length blocks \<le> length (concat (map (pemEncode e) blocks))"
proof (induction blocks)
  case (Cons b blocks)
  then show ?case
    using pem_ok_nonempty [of e b] by (cases "pemEncode e b") simp_all
qed simp

text \<open>
  C36 (roundtrip).  Parsing a PEM bundle ends on every input, and on a sequence of PEM blocks it returns
  the certificates of the \<^verbatim>\<open>CERTIFICATE\<close> blocks in their order, ignoring every other block: the first
  certificate that does not parse is reported, and so is a bundle without certificates.
\<close>

theorem ParsePEMBundle_roundtrip:
  assumes "pem_ok e"
  shows "(\<exists>r. ParsePEMBundle e input = Return r)
    \<and> ParsePEMBundle e (concat (map (pemEncode e) blocks)) =
        Return (case map_res (parseCertificate e) (map pem_Bytes (filter is_cert_block blocks)) of
            Inl err \<Rightarrow> Inl err
          | Inr [] \<Rightarrow> Inl (Err ''no certificates were found while parsing the bundle'')
          | Inr certs \<Rightarrow> Inr certs)"
proof -
  have "length blocks < Suc (length (concat (map (pemEncode e) blocks)))"
    using length_encoded [OF assms, of blocks] by simp
  from parse_blocks_encoded [OF assms this, of "[]"] show ?thesis
    using parse_blocks_total [OF assms, of input "Suc (length input)"]
    by (auto simp: ParsePEMBundle_def split: sum.split list.split)
qed

text \<open>A small concrete codec: each field is written with a mark before every character and one at the end.\<close>

definition stuff :: "string \<Rightarrow> string" where
  "stuff s = concat (map (\<lambda>c. [CHR ''+'', c]) s) @ ''-''"

fun unstuff :: "string \<Rightarrow> (string \<times> string) option" where
  "unstuff (a # c # s) =
     (if a = CHR ''-'' then Some ([], c # s)
      else if a = CHR ''+'' then map_option (\<lambda>(x, r). (c # x, r)) (unstuff s) else None)"
| "unstuff [a] = (if a = CHR ''-'' then Some ([], []) else None)"
| "unstuff [] = None"

definition toy_pem :: "env \<Rightarrow> env" where
  "toy_pem e = e\<lparr>pemEncode := (\<lambda>b. stuff (pem_Type b) @ stuff (pem_Bytes b)),
     pemDecode := (\<lambda>s. case unstuff s of
        None \<Rightarrow> (None, Some s)
      | Some (t, r) \<Rightarrow> (case unstuff r of
          None \<Rightarrow> (None, Some s)
        | Some (b, r') \<Rightarrow> (Some \<lparr>pem_Type = t, pem_Bytes = b\<rparr>, Some r')))\<rparr>"

lemma unstuff_stuff: "unstuff (stuff x @ s) = Some (x, s)"
proof (induction x)
  case Nil
  then show ?case by (cases s) (simp_all add: stuff_def)
qed (simp add: stuff_def)

lemma unstuff_shorter: "unstuff s = Some (x, r) \<Longrightarrow> length r < length s"
  by (induction s arbitrary: x rule: unstuff.induct) (auto split: if_splits)

lemma pem_ok_toy: "pem_ok (toy_pem e)"
proof -
  have "length (pem_rest r) < length s" if "pemDecode (toy_pem e) s = (Some b, r)" for s b r
  proof -
    from that obtain t u v where "unstuff s = Some (t, u)" "unstuff u = Some (v, pem_rest r)"
      by (auto simp: toy_pem_def split: option.splits prod.splits)
    then show ?thesis using unstuff_shorter less_trans by blast
  qed
  moreover have "pemDecode (toy_pem e) (pemEncode (toy_pem e) b @ s) = (Some b, Some s)" for b s
    by (simp add: toy_pem_def unstuff_stuff)
  ultimately show ?thesis by (simp add: pem_ok_def)
qed

theorem ParsePEMBundle_roundtrip_witness:
  "ParsePEMBundle (toy_pem sample_env) (stuff ''X'' @ stuff ''key'')
   = Return (Inl (Err ''no certificates were found while parsing the bundle''))"
  using ParsePEMBundle_roundtrip
    [OF pem_ok_toy, of sample_env "[]" "[\<lparr>pem_Type = ''X'', pem_Bytes = ''key''\<rparr>]"]
  by (simp add: is_cert_block_def) (simp add: toy_pem_def)

section \<open>Domains of certificates and requests\<close>

lemma add_sans_spec:
  "distinct ds \<Longrightarrow> distinct (add_sans ds sans) \<and> set (add_sans ds sans) = set ds \<union> set sans
    \<and> (\<exists>ts. add_sans ds sans = ds @ ts)"
proof (induction sans arbitrary: ds)
  case (Cons s sans)
  have "containsSAN ds s \<longleftrightarrow> s \<in> set ds"
    by (auto simp: containsSAN_def list_ex_iff)
  with Cons.prems Cons.IH [of ds] Cons.IH [of "ds @ [s]"] show ?case by auto
qed simp

lemma add_sans_distinct:
  "distinct (ds @ sans) \<Longrightarrow> add_sans ds sans = ds @ sans"
  by (induction sans arbitrary: ds) (auto simp: containsSAN_def list_ex_iff)

text \<open>
  The domains read from a request: the common name, if there is one, comes first,
  every subject alternative name is there, and nothing is listed twice.  For a certificate with the
  names of such a request, \<^verbatim>\<open>ExtractDomains\<close> gives the same list back, so renewing a certificate asks
  for the domains it was issued for.
\<close>

theorem ExtractDomainsCSR_spec:
  "distinct (ExtractDomainsCSR csr)
   \<and> set (ExtractDomainsCSR csr) = ({csr_SubjectCN csr} - {[]}) \<union> set (csr_DNSNames csr)
   \<and> (csr_SubjectCN csr = [] \<or> hd (ExtractDomainsCSR csr) = csr_SubjectCN csr)
   \<and> (\<forall>cert. crt_SubjectCN cert = csr_SubjectCN csr \<and> crt_DNSNames cert = ExtractDomainsCSR csr
        \<and> [] \<notin> set (csr_DNSNames csr) \<longrightarrow> ExtractDomains cert = ExtractDomainsCSR csr)"
proof -
  define cn where "cn = (if csr_SubjectCN csr \<noteq> [] then [csr_SubjectCN csr] else [])"
  have cn: "distinct cn" "set cn = {csr_SubjectCN csr} - {[]}"
    "csr_SubjectCN csr = [] \<or> cn = [csr_SubjectCN csr]"
    by (auto simp: cn_def)
  have run: "ExtractDomainsCSR csr = add_sans cn (csr_DNSNames csr)"
    by (simp add: ExtractDomainsCSR_def cn_def)
  obtain ts where ts: "ExtractDomainsCSR csr = cn @ ts" and d: "distinct (cn @ ts)"
    and s: "set (cn @ ts) = set cn \<union> set (csr_DNSNames csr)"
    using add_sans_spec [OF cn(1), of "csr_DNSNames csr"] unfolding run by auto
  have "filter (\<lambda>d. d \<noteq> csr_SubjectCN csr) (cn @ ts) = ts" if "[] \<notin> set (csr_DNSNames csr)"
    using cn d s that by (cases "csr_SubjectCN csr = []") (auto simp: filter_id_conv)
  then have "ExtractDomains cert = ExtractDomainsCSR csr"
    if "crt_SubjectCN cert = csr_SubjectCN csr" "crt_DNSNames cert = ExtractDomainsCSR csr"
      "[] \<notin> set (csr_DNSNames csr)" for cert
    using that ts by (simp add: ExtractDomains_def cn_def)
  with cn d s ts show ?thesis by auto
qed

definition sample_cert :: x509_cert where
  "sample_cert = \<lparr>crt_Raw = [], crt_IsCA = False, crt_SubjectCN = ''a.org'', crt_IssuerCN = ''CA'',
     crt_DNSNames = [''a.org'', ''b.org''], crt_NotAfter = 0, crt_OCSPServer = [],
     crt_IssuingCertificateURL = []\<rparr>"

theorem ExtractDomainsCSR_spec_witness:
  "ExtractDomains sample_cert =
     ExtractDomainsCSR \<lparr>csr_Raw = [], csr_SubjectCN = ''a.org'', csr_DNSNames = [''b.org'', ''a.org'', ''b.org'']\<rparr>"
  by (rule ExtractDomainsCSR_spec
      [of "\<lparr>csr_Raw = [], csr_SubjectCN = ''a.org'', csr_DNSNames = [''b.org'', ''a.org'', ''b.org'']\<rparr>",
       THEN conjunct2, THEN conjunct2, THEN conjunct2, rule_format])
    (simp add: sample_cert_def ExtractDomainsCSR_def containsSAN_def)

end
