(* ===== verification/Platform.thy ===== *)
theory Platform
  imports Sender
begin

text \<open>
  Package \<^verbatim>\<open>platform\<close>: \<^verbatim>\<open>wait.For\<close>, the polling loop, and \<^verbatim>\<open>config/env\<close>, the environment variables.

  \<open>For\<close> runs with fuel.  Every round sleeps for \<open>interval\<close>, so at most \<open>timeout div interval + 1\<close> rounds
  fit before the time is up; \<open>For_rounds\<close> gives one more, and \<open>For_terminates\<close> shows that this is enough
  whenever the interval is positive.  With a zero interval the number of rounds depends on the time the
  polled function takes, and the fuel is the parameter \<open>pollFuel\<close>.
\<close>

section \<open>Polling\<close>

definition For_timeout :: "goerror option \<Rightarrow> goerror" where
  "For_timeout lastErr =
     (case lastErr of
        None \<Rightarrow> Err ''time limit exceeded: last error: %!w(<nil>)''
      | Some err \<Rightarrow> Wrap ''time limit exceeded: last error: '' err)"

text \<open>The polled function carries the variables it assigns.\<close>

type_synonym 'c poll = "'c \<Rightarrow> (world, 'c \<times> bool \<times> goerror option) go"

fun For_loop ::
  "env \<Rightarrow> nat \<Rightarrow> int \<Rightarrow> int \<Rightarrow> goerror option \<Rightarrow> 'c poll \<Rightarrow> 'c \<Rightarrow> (world, 'c \<times> goerror option) go" where
  "For_loop e 0 timeUp interval lastErr f v = stuck"
| "For_loop e (Suc n) timeUp interval lastErr f v =
     bind (gets w_now) (\<lambda>now.
       if timeUp \<le> now then ret (v, Some (For_timeout lastErr))
       else bind (f v) (\<lambda>(v', stop, err).
         if stop then ret (v', None)
         else bind (sleep e interval) (\<lambda>_.
           For_loop e n timeUp interval (if err = None then lastErr else err) f v')))"

definition For_rounds :: "env \<Rightarrow> int \<Rightarrow> int \<Rightarrow> nat" where
  "For_rounds e timeout interval = (if 0 < interval then nat (timeout div interval) + 2 else pollFuel e)"

definition For :: "env \<Rightarrow> int \<Rightarrow> int \<Rightarrow> 'c poll \<Rightarrow> 'c \<Rightarrow> (world, 'c \<times> goerror option) go" where
  "For e timeout interval f v =
     bind (gets w_now) (\<lambda>now.
       For_loop e (For_rounds e timeout interval) (now + timeout) interval None f v)"

section \<open>Environment variables\<close>

definition GetOrFile :: "env \<Rightarrow> string \<Rightarrow> string" where
  "GetOrFile e envVar =
     (let envVarValue = getenv e envVar in
      if envVarValue \<noteq> [] then envVarValue
      else (let fileVarValue = getenv e (envVar @ ''_FILE'') in
            if fileVarValue = [] then envVarValue
            else (case readFile e fileVarValue of
                    Inl _ \<Rightarrow> []
                  | Inr fileContents \<Rightarrow> TrimSuffix fileContents [CHR 0x0A])))"

definition missing_error :: "string list \<Rightarrow> goerror" where
  "missing_error missingEnvVars =
     Err (''some credentials information are missing: '' @ Join missingEnvVars '','')"

definition env_Get :: "env \<Rightarrow> string list \<Rightarrow> goerror + (string \<times> string) list" where
  "env_Get e names =
     (let (values, missingEnvVars) =
        fold (\<lambda>envVar (vs, ms).
          let value = GetOrFile e envVar in
          (put envVar value vs, if value = [] then ms @ [envVar] else ms)) names ([], [])
      in if missingEnvVars \<noteq> [] then Inl (missing_error missingEnvVars) else Inr values)"

fun first_nonempty :: "env \<Rightarrow> string list \<Rightarrow> string" where
  "first_nonempty e [] = []"
| "first_nonempty e (name # names) =
     (let value = GetOrFile e name in if value \<noteq> [] then value else first_nonempty e names)"

definition getOneWithFallback :: "env \<Rightarrow> string \<Rightarrow> string list \<Rightarrow> string \<times> string" where
  "getOneWithFallback e main names =
     (let value = GetOrFile e main in
      if value \<noteq> [] then (value, main) else (first_nonempty e names, main))"

fun fallback_groups ::
  "env \<Rightarrow> string list list \<Rightarrow> (string \<times> string) list \<Rightarrow> string list
    \<Rightarrow> goerror + (string \<times> string) list" where
  "fallback_groups e [] vs ms = (if ms \<noteq> [] then Inl (missing_error ms) else Inr vs)"
| "fallback_groups e ([] # groups) vs ms = Inl (Err ''undefined environment variable names'')"
| "fallback_groups e ((main # names) # groups) vs ms =
     (let (value, envVar) = getOneWithFallback e main names in
      if value = [] then fallback_groups e groups vs (ms @ [envVar])
      else fallback_groups e groups (put envVar value vs) ms)"

definition GetWithFallback :: "env \<Rightarrow> string list list \<Rightarrow> goerror + (string \<times> string) list" where
  "GetWithFallback e groups = fallback_groups e groups [] []"

text \<open>\<^verbatim>\<open>strconv.Atoi\<close> and \<^verbatim>\<open>strconv.ParseBool\<close>; \<open>None\<close> is an error.\<close>

definition is_digit :: "char \<Rightarrow> bool" where
  "is_digit c \<longleftrightarrow> (let n = of_char c :: nat in 48 \<le> n \<and> n \<le> 57)"

definition digits_value :: "string \<Rightarrow> int" where
  "digits_value s = foldl (\<lambda>a c. 10 * a + (of_char c - 48)) 0 s"

definition Atoi :: "string \<Rightarrow> int option" where
  "Atoi s =
     (let neg = (s \<noteq> [] \<and> hd s = CHR ''-'');
          ds = (if s \<noteq> [] \<and> (hd s = CHR ''-'' \<or> hd s = CHR ''+'') then tl s else s);
          v = (if neg then - digits_value ds else digits_value ds) in
      if ds \<noteq> [] \<and> list_all is_digit ds \<and> in_i64 v then Some v else None)"

definition ParseBool :: "string \<Rightarrow> bool option" where
  "ParseBool s =
     (if s \<in> {''1'', ''t'', ''T'', ''true'', ''TRUE'', ''True''} then Some True
      else if s \<in> {''0'', ''f'', ''F'', ''false'', ''FALSE'', ''False''} then Some False
      else None)"

definition GetOrDefaultInt :: "env \<Rightarrow> string \<Rightarrow> int \<Rightarrow> int" where
  "GetOrDefaultInt e envVar defaultValue =
     (case Atoi (GetOrFile e envVar) of None \<Rightarrow> defaultValue | Some v \<Rightarrow> v)"

definition GetOrDefaultSecond :: "env \<Rightarrow> string \<Rightarrow> int \<Rightarrow> int" where
  "GetOrDefaultSecond e envVar defaultValue =
     (let v = GetOrDefaultInt e envVar (- 1) in
      if v < 0 then defaultValue else i64 (v * Second))"

definition GetOrDefaultString :: "env \<Rightarrow> string \<Rightarrow> string \<Rightarrow> string" where
  "GetOrDefaultString e envVar defaultValue =
     (let v = GetOrFile e envVar in if v = [] then defaultValue else v)"

definition GetOrDefaultBool :: "env \<Rightarrow> string \<Rightarrow> bool \<Rightarrow> bool" where
  "GetOrDefaultBool e envVar defaultValue =
     (case ParseBool (GetOrFile e envVar) of None \<Rightarrow> defaultValue | Some v \<Rightarrow> v)"

section \<open>The polling loop ends\<close>

lemma grows_now: "grows s t \<Longrightarrow> w_now s \<le> w_now t"
  by (simp add: grows_def)

lemma For_loop_step:
  assumes "w_now w < timeUp" and "f v w = (Return (v', False, err), t)"
  shows "For_loop e (Suc n) timeUp interval lastErr f v w =
    For_loop e n timeUp interval (if err = None then lastErr else err) f v'
      (t\<lparr>w_trace := w_trace t @ [EvSleep interval],
         w_now := w_now t + int (latency e (w_trace t)) + max 0 interval\<rparr>)"
  using assms by (simp add: go_simps)

text \<open>Fuel for the rounds left until \<open>timeUp\<close> is enough.\<close>

lemma For_loop_not_stuck:
  assumes "0 < interval" and "\<And>v. always grows (f v)" and "\<And>v w. fst (f v w) \<noteq> Stuck"
    and "timeUp \<le> w_now w + (int n - 1) * interval" and "0 < n"
  shows "fst (For_loop e n timeUp interval lastErr f v w) \<noteq> Stuck
    \<and> (\<forall>x err t. For_loop e n timeUp interval lastErr f v w = (Return (x, Some err), t) \<longrightarrow> timeUp \<le> w_now t)"
  using assms(4,5)
proof (induction n arbitrary: w v lastErr)
  case (Suc n)
  show ?case
  proof (cases "timeUp \<le> w_now w")
    case True
    then show ?thesis by (simp add: go_simps)
  next
    case late: False
    obtain r t where run: "f v w = (r, t)" by fastforce
    have mono: "w_now w \<le> w_now t" using alwaysD [OF assms(2) run] by (rule grows_now)
    show ?thesis
    proof (cases "\<exists>v' err. r = Return (v', False, err)")
      case True
      then obtain v' err where r: "r = Return (v', False, err)" by blast
      let ?t = "t\<lparr>w_trace := w_trace t @ [EvSleep interval],
         w_now := w_now t + int (latency e (w_trace t)) + max 0 interval\<rparr>"
      have "timeUp \<le> w_now ?t + (int n - 1) * interval"
        using Suc.prems(1) mono assms(1) by (simp add: algebra_simps)
      moreover have "0 < n" using late Suc.prems(1) by (cases n) simp_all
      ultimately show ?thesis
        using Suc.IH [of ?t] For_loop_step [of w timeUp f v v' err t e n interval lastErr] late run r
        by simp
    next
      case False
      then show ?thesis
        using late run assms(3) [of v w]
        by (auto simp: go_simps split: outcome.splits prod.splits)
    qed
  qed
qed simp

text \<open>A poll that reports success is the only way \<open>For\<close> returns nil.\<close>

lemma For_loop_nil:
  assumes "For_loop e n timeUp interval lastErr f v w = (Return (x, None), t)"
  shows "\<exists>u y err. w_now u < timeUp \<and> f y u = (Return (x, True, err), t)"
  using assms
proof (induction n arbitrary: w v lastErr)
  case (Suc n)
  show ?case
  proof (cases "timeUp \<le> w_now w")
    case False
    obtain r u where run: "f v w = (r, u)" by fastforce
    show ?thesis
    proof (cases "\<exists>v' err. r = Return (v', False, err)")
      case True
      then show ?thesis
        using Suc.IH Suc.prems For_loop_step [of w timeUp f v _ _ u e n interval lastErr] False run
        by fastforce
    next
      case stop: False
      then show ?thesis
        using Suc.prems False run
        by (auto simp: go_simps split: outcome.splits prod.splits if_splits intro!: exI [of _ w])
    qed
  qed (use Suc.prems in \<open>simp add: go_simps\<close>)
qed simp

lemma For_rounds_enough:
  assumes "0 < interval"
  shows "timeout \<le> (int (For_rounds e timeout interval) - 1) * interval \<and> 0 < For_rounds e timeout interval"
proof -
  have "(timeout div interval + 1) * interval = timeout div interval * interval + interval"
    by (simp add: algebra_simps)
  then have "timeout < (timeout div interval + 1) * interval"
    using div_mult_mod_eq [of timeout interval] pos_mod_bound [OF assms, of timeout] by linarith
  also have "\<dots> \<le> (int (nat (timeout div interval)) + 1) * interval"
    using assms by (intro mult_right_mono) auto
  finally show ?thesis using assms by (simp add: For_rounds_def algebra_simps)
qed

text \<open>
  C25 (termination).  \<^verbatim>\<open>wait.For\<close> with a positive interval ends whenever each poll does: it never polls
  forever.  It returns nil only after a poll that reported success before the time was up, and an
  error only when the time limit has really passed.
\<close>

theorem For_terminates:
  assumes "0 < interval" and "\<And>v. always grows (f v)" and "\<And>v w. fst (f v w) \<noteq> Stuck"
  shows "fst (For e timeout interval f v w) \<noteq> Stuck
    \<and> (\<forall>x t. For e timeout interval f v w = (Return (x, None), t) \<longrightarrow>
         (\<exists>u y err. w_now u < w_now w + timeout \<and> f y u = (Return (x, True, err), t)))
    \<and> (\<forall>x err t. For e timeout interval f v w = (Return (x, Some err), t) \<longrightarrow>
         w_now w + timeout \<le> w_now t)"
proof -
  note rounds = For_rounds_enough [OF assms(1), of timeout e]
  have run: "For e timeout interval f v w =
      For_loop e (For_rounds e timeout interval) (w_now w + timeout) interval None f v w"
    by (simp add: For_def go_simps)
  show ?thesis
    unfolding run
    using For_loop_not_stuck [OF assms, where timeUp = "w_now w + timeout" and w = w and v = v
        and n = "For_rounds e timeout interval" and e = e and lastErr = None]
      For_loop_nil [where timeUp = "w_now w + timeout" and w = w] rounds
    by auto
qed

theorem For_terminates_witness:
  "fst (For sample_env 5 2 (\<lambda>v. ret (v, False, None)) () sample_world) \<noteq> Stuck"
  using For_terminates [of 2 "\<lambda>v. ret (v, False, None)" sample_env 5 "()" sample_world]
  by (simp add: growth.always_ret)

text \<open>
  The typed readers of the environment: a value that does not parse, or is missing,
  gives the default; the file named by the \<^verbatim>\<open>_FILE\<close> variable is read only when the variable itself is
  empty, and loses one final newline; a number of seconds that fits is that many nanoseconds, and a
  number of seconds too large for 64 bits wraps around.
\<close>

theorem env_defaults:
  assumes "0 \<le> v" and "in_i64 v" and "Atoi (GetOrFile e name) = Some v"
  shows "GetOrDefaultSecond e name d = i64 (v * 10 ^ 9)
    \<and> (v \<le> 9223372036 \<longrightarrow> GetOrDefaultSecond e name d = v * 10 ^ 9)
    \<and> (v = 9223372037 \<longrightarrow> GetOrDefaultSecond e name d < 0)
    \<and> (Atoi (GetOrFile e other) = None \<longrightarrow>
         GetOrDefaultSecond e other d = d \<and> GetOrDefaultInt e other d = d)
    \<and> (getenv e name \<noteq> [] \<longrightarrow> GetOrFile e name = getenv e name)
    \<and> (getenv e other = [] \<and> getenv e (other @ ''_FILE'') = path \<and> path \<noteq> []
        \<and> readFile e path = Inr (text @ [CHR 0x0A]) \<longrightarrow> GetOrFile e other = text)"
proof -
  have sec: "GetOrDefaultSecond e name d = i64 (v * 10 ^ 9)"
    using assms by (simp add: GetOrDefaultSecond_def GetOrDefaultInt_def Second_def Let_def)
  have fit: "i64 (v * 10 ^ 9) = v * 10 ^ 9" if "v \<le> 9223372036"
    using that assms by (intro i64_id) (simp add: in_i64_def)
  have "i64 (9223372037 * 10 ^ 9) < 0"
    by (simp add: i64_def signed_take_bit_eq_take_bit_shift take_bit_eq_mod)
  with sec fit show ?thesis
    by (auto simp: GetOrDefaultSecond_def GetOrDefaultInt_def GetOrFile_def Let_def)
qed

theorem env_defaults_witness:
  "GetOrDefaultSecond (sample_env\<lparr>getenv := (\<lambda>n. if n = ''TTL'' then ''60'' else [])\<rparr>) ''TTL'' 5 = 60 * 10 ^ 9"
  using env_defaults [of 60 "sample_env\<lparr>getenv := (\<lambda>n. if n = ''TTL'' then ''60'' else [])\<rparr>" "''TTL''"
      5 "''TTL''" "[]" "[]"]
  by (simp add: in_i64_def Atoi_def GetOrFile_def Let_def is_digit_def digits_value_def)

end
