(* ===== verification/Api.thy ===== *)
theory Api
  imports Jws Links Certcrypto Platform
begin

text \<open>
  Package \<^verbatim>\<open>acme/api\<close>: the ACME calls.  \<open>signedPost\<close> signs and sends one request and returns the nonce of
  the reply to the pool; \<open>retrievablePost\<close> repeats it under \<^verbatim>\<open>backoff.Retry\<close> as long as the server
  rejects the nonce; the services build their messages on \<open>post\<close> and \<open>postAsGet\<close>.

  The locale \<open>client_invariant\<close> states what a relation between the states before and after has to satisfy
  at the few primitive steps of the client so that it holds across every call; the lemmas for the calls
  are proved once inside it.  It is interpreted for the growth of the trace and for the nonce
  invariant.
\<close>

section \<open>Requests\<close>

text \<open>The target of a decode: does the value fit?\<close>

definition into :: "(json \<Rightarrow> goerror + 'a) \<Rightarrow> decode_target" where
  "into dec = Some (\<lambda>j. case dec j of Inl err \<Rightarrow> Some err | Inr _ \<Rightarrow> None)"

definition signedPost ::
  "env \<Rightarrow> core \<Rightarrow> string \<Rightarrow> string \<Rightarrow> decode_target \<Rightarrow> (world, do_result) go" where
  "signedPost e c uri content response =
     handle (SignContent e c uri content)
       (\<lambda>err. ret (None, Inl (Wrap ''failed to post JWS message: failed to sign content: '' err)))
       (\<lambda>signedContent.
          bind (Doer_Post e c uri (JoseBody signedContent) ''application/jose+json'' response) (\<lambda>(resp, res).
            bind (case GetFromResponse resp of Inr nonce \<Rightarrow> Manager_Push nonce | Inl _ \<Rightarrow> ret ()) (\<lambda>_.
              ret (resp, res))))"

definition is_NonceError :: "goerror \<Rightarrow> bool" where
  "is_NonceError err \<longleftrightarrow> (case err of NonceError _ \<Rightarrow> True | _ \<Rightarrow> False)"

text \<open>The operation under retry: every error but a nonce error cancels the context.\<close>

definition post_operation ::
  "env \<Rightarrow> core \<Rightarrow> string \<Rightarrow> string \<Rightarrow> decode_target \<Rightarrow> (world, attempt) go" where
  "post_operation e c uri content response =
     bind (signedPost e c uri content response) (\<lambda>(resp, res).
       case res of
         Inl err \<Rightarrow> ret (Some err, \<not> is_NonceError err, map_option (\<lambda>r. (r, None)) resp)
       | Inr j \<Rightarrow> ret (None, False, map_option (\<lambda>r. (r, j)) resp))"

definition post_backoff :: backoff where
  "post_backoff = \<lparr>bo_InitialInterval = 200 * 10 ^ 6, bo_MaxInterval = 5 * Second,
     bo_MaxElapsedTime = 20 * Second\<rparr>"

definition nil_pointer :: string where
  "nil_pointer = ''invalid memory address or nil pointer dereference''"

text \<open>
  On success the response is never nil (lemma \<open>signedPost_response\<close>), so the branch for a nil one is
  not reached.
\<close>

definition retrievablePost ::
  "env \<Rightarrow> core \<Rightarrow> string \<Rightarrow> string \<Rightarrow> decode_target \<Rightarrow> (world, goerror + reply) go" where
  "retrievablePost e c uri content response =
     bind (retry e post_backoff (post_operation e c uri content response)) (\<lambda>(err, resp).
       case err of
         Some er \<Rightarrow> ret (Inl er)
       | None \<Rightarrow> (case resp of None \<Rightarrow> panic nil_pointer | Some r \<Rightarrow> ret (Inr r)))"

definition post ::
  "env \<Rightarrow> core \<Rightarrow> string \<Rightarrow> json \<Rightarrow> decode_target \<Rightarrow> (world, goerror + reply) go" where
  "post e c uri reqBody response = retrievablePost e c uri (jsonPrint e reqBody) response"

definition postAsGet :: "env \<Rightarrow> core \<Rightarrow> string \<Rightarrow> decode_target \<Rightarrow> (world, goerror + reply) go" where
  "postAsGet e c uri response = retrievablePost e c uri [] response"

text \<open>The value decoded into the variable of the caller, which starts as the zero value.\<close>

definition decoded :: "(json \<Rightarrow> goerror + 'a) \<Rightarrow> 'a \<Rightarrow> json option \<Rightarrow> 'a" where
  "decoded dec zero j =
     (case j of None \<Rightarrow> zero | Some v \<Rightarrow> (case dec v of Inl _ \<Rightarrow> zero | Inr x \<Rightarrow> x))"

section \<open>The client\<close>

definition getDirectory :: "env \<Rightarrow> core \<Rightarrow> string \<Rightarrow> (world, goerror + directory) go" where
  "getDirectory e c caDirURL =
     bind (Doer_Get e c caDirURL (into directory_of_json)) (\<lambda>(resp, res).
       case res of
         Inl err \<Rightarrow> ret (Inl (Wrap (''get directory at '' @ [CHR 0x27] @ caDirURL @ [CHR 0x27] @ '': '') err))
       | Inr j \<Rightarrow>
           (let dir = decoded directory_of_json zero_directory j in
            if dir_NewAccountURL dir = [] then ret (Inl (Err ''directory missing new registration URL''))
            else if dir_NewOrderURL dir = [] then ret (Inl (Err ''directory missing new order URL''))
            else ret (Inr dir)))"

definition Core_New :: "env \<Rightarrow> string \<Rightarrow> string \<Rightarrow> string \<Rightarrow> private_key \<Rightarrow> (world, goerror + core) go" where
  "Core_New e userAgent caDirURL kid privateKey =
     (let doer = \<lparr>core_userAgent = userAgent, core_privKey = privateKey, core_directory = zero_directory\<rparr> in
      check (getDirectory e doer caDirURL) (\<lambda>dir.
        bind NewManager (\<lambda>_.
          bind (NewJWS kid) (\<lambda>_.
            ret (Inr (doer\<lparr>core_directory := dir\<rparr>))))))"

definition signEABContent :: "env \<Rightarrow> core \<Rightarrow> string \<Rightarrow> string \<Rightarrow> string \<Rightarrow> goerror + json" where
  "signEABContent e c newAccountURL kid hmac = SignEABContent e c newAccountURL kid hmac"

section \<open>Accounts\<close>

text \<open>The error of \<^verbatim>\<open>New\<close> comes with the location, which is empty because the response is nil then.\<close>

definition Accounts_New :: "env \<Rightarrow> core \<Rightarrow> account \<Rightarrow> (world, extended_account \<times> goerror option) go" where
  "Accounts_New e c req =
     bind (post e c (dir_NewAccountURL (core_directory c)) (account_json req) (into account_of_json)) (\<lambda>r.
       let location = getLocation (case r of Inl _ \<Rightarrow> None | Inr (resp, _) \<Rightarrow> Some resp) in
       bind (if location \<noteq> [] then SetKid location else ret ()) (\<lambda>_.
         case r of
           Inl err \<Rightarrow> ret (\<lparr>ea_Account = zero_account, ea_Location = location\<rparr>, Some err)
         | Inr (resp, j) \<Rightarrow>
             ret (\<lparr>ea_Account = decoded account_of_json zero_account j, ea_Location = location\<rparr>, None)))"

definition zero_extended_account :: extended_account where [zero_defs]:
  "zero_extended_account = \<lparr>ea_Account = zero_account, ea_Location = []\<rparr>"

definition Accounts_NewEAB ::
  "env \<Rightarrow> core \<Rightarrow> account \<Rightarrow> string \<Rightarrow> string \<Rightarrow> (world, extended_account \<times> goerror option) go" where
  "Accounts_NewEAB e c accMsg kid hmacEncoded =
     (case base64_decode hmacEncoded of
        None \<Rightarrow> ret (zero_extended_account,
                  Some (Wrap ''acme: could not decode hmac key: '' (Err ''illegal base64 data'')))
      | Some hmac \<Rightarrow>
          (case signEABContent e c (dir_NewAccountURL (core_directory c)) kid hmac of
             Inl err \<Rightarrow> ret (zero_extended_account, Some (Wrap ''acme: error signing eab content: '' err))
           | Inr eabJWS \<Rightarrow> Accounts_New e c (accMsg\<lparr>acc_ExternalAccountBinding := Some eabJWS\<rparr>)))"

definition Accounts_Get :: "env \<Rightarrow> core \<Rightarrow> string \<Rightarrow> (world, goerror + account) go" where
  "Accounts_Get e c accountURL =
     (if accountURL = [] then ret (Inl (Err ''account[get]: empty URL''))
      else check (post e c accountURL (account_json zero_account) (into account_of_json)) (\<lambda>(_, j).
        ret (Inr (decoded account_of_json zero_account j))))"

definition Accounts_Update :: "env \<Rightarrow> core \<Rightarrow> string \<Rightarrow> account \<Rightarrow> (world, goerror + account) go" where
  "Accounts_Update e c accountURL req =
     (if accountURL = [] then ret (Inl (Err ''account[update]: empty URL''))
      else check (post e c accountURL (account_json req) (into account_of_json)) (\<lambda>(_, j).
        ret (Inr (decoded account_of_json zero_account j))))"

text \<open>A call for its error only.\<close>

definition error_of :: "(world, goerror + 'a) go \<Rightarrow> (world, goerror option) go" where
  "error_of m = handle m (\<lambda>err. ret (Some err)) (\<lambda>_. ret None)"

definition Accounts_Deactivate :: "env \<Rightarrow> core \<Rightarrow> string \<Rightarrow> (world, goerror option) go" where
  "Accounts_Deactivate e c accountURL =
     (if accountURL = [] then ret (Some (Err ''account[deactivate]: empty URL''))
      else error_of (post e c accountURL (account_json (zero_account\<lparr>acc_Status := StatusDeactivated\<rparr>)) None))"

section \<open>Orders\<close>

definition Orders_New :: "env \<Rightarrow> core \<Rightarrow> string list \<Rightarrow> (world, goerror + extended_order) go" where
  "Orders_New e c domains =
     (let identifiers = map (\<lambda>domain. \<lparr>id_Type = ''dns'', id_Value = domain\<rparr>) domains in
      check (post e c (dir_NewOrderURL (core_directory c))
               (order_json (zero_order\<lparr>ord_Identifiers := identifiers\<rparr>)) (into order_of_json)) (\<lambda>(resp, j).
        ret (Inr \<lparr>eo_Order = decoded order_of_json zero_order j,
                  eo_Location = header_get (resp_Header resp) ''Location'',
                  eo_AlternateChainLinks = getLinks (resp_Header resp) ''alternate''\<rparr>)))"

definition Orders_Get :: "env \<Rightarrow> core \<Rightarrow> string \<Rightarrow> (world, goerror + extended_order) go" where
  "Orders_Get e c orderURL =
     (if orderURL = [] then ret (Inl (Err ''order[get]: empty URL''))
      else check (postAsGet e c orderURL (into order_of_json)) (\<lambda>(resp, j).
        ret (Inr \<lparr>eo_Order = decoded order_of_json zero_order j, eo_Location = [],
                  eo_AlternateChainLinks = getLinks (resp_Header resp) ''alternate''\<rparr>)))"

text \<open>\<^verbatim>\<open>order.Error\<close> of type \<^verbatim>\<open>*ProblemDetails\<close> is returned as an \<^verbatim>\<open>error\<close>, non-nil even if the pointer is nil.\<close>

definition Orders_UpdateForCSR ::
  "env \<Rightarrow> core \<Rightarrow> string \<Rightarrow> string \<Rightarrow> (world, goerror + extended_order) go" where
  "Orders_UpdateForCSR e c orderURL csr =
     check (post e c orderURL (csr_message_json \<lparr>csr_Csr = base64_encode csr\<rparr>) (into order_of_json)) (\<lambda>(resp, j).
       let order = decoded order_of_json zero_order j in
       if ord_Status order = StatusInvalid then ret (Inl (Problem (ord_Error order)))
       else ret (Inr \<lparr>eo_Order = order, eo_Location = [],
                      eo_AlternateChainLinks = getLinks (resp_Header resp) ''alternate''\<rparr>))"

section \<open>Authorizations and challenges\<close>

definition Authorizations_Get :: "env \<Rightarrow> core \<Rightarrow> string \<Rightarrow> (world, goerror + authorization) go" where
  "Authorizations_Get e c authzURL =
     (if authzURL = [] then ret (Inl (Err ''authorization[get]: empty URL''))
      else check (postAsGet e c authzURL (into (authorization_of_json e))) (\<lambda>(_, j).
        ret (Inr (decoded (authorization_of_json e) zero_authorization j))))"

definition Authorizations_Deactivate :: "env \<Rightarrow> core \<Rightarrow> string \<Rightarrow> (world, goerror option) go" where
  "Authorizations_Deactivate e c authzURL =
     (if authzURL = [] then ret (Some (Err ''authorization[deactivate]: empty URL''))
      else error_of (post e c authzURL
             (authorization_json (zero_authorization\<lparr>az_Status := StatusDeactivated\<rparr>))
             (into (authorization_of_json e))))"

definition extend_challenge :: "env \<Rightarrow> reply \<Rightarrow> extended_challenge" where
  "extend_challenge e r =
     (case r of (resp, j) \<Rightarrow>
        \<lparr>ec_Challenge = decoded (challenge_of_json e) zero_challenge j,
         ec_RetryAfter = getRetryAfter (Some resp),
         ec_AuthorizationURL = getLink (resp_Header resp) ''up''\<rparr>)"

definition Challenges_New :: "env \<Rightarrow> core \<Rightarrow> string \<Rightarrow> (world, goerror + extended_challenge) go" where
  "Challenges_New e c chlgURL =
     (if chlgURL = [] then ret (Inl (Err ''challenge[new]: empty URL''))
      else check (post e c chlgURL (JObj []) (into (challenge_of_json e))) (\<lambda>r.
        ret (Inr (extend_challenge e r))))"

definition Challenges_Get :: "env \<Rightarrow> core \<Rightarrow> string \<Rightarrow> (world, goerror + extended_challenge) go" where
  "Challenges_Get e c chlgURL =
     (if chlgURL = [] then ret (Inl (Err ''challenge[get]: empty URL''))
      else check (postAsGet e c chlgURL (into (challenge_of_json e))) (\<lambda>r.
        ret (Inr (extend_challenge e r))))"

section \<open>Certificates\<close>

definition maxBodySize :: nat where
  "maxBodySize = 1024 * 1024"

definition Certificates_get :: "env \<Rightarrow> core \<Rightarrow> string \<Rightarrow> (world, goerror + string \<times> string) go" where
  "Certificates_get e c certURL =
     (if certURL = [] then ret (Inl (Err ''certificate[get]: empty URL''))
      else check (postAsGet e c certURL None) (\<lambda>(resp, _).
        case readAllMax maxBodySize (resp_Body resp) of
          Inl err \<Rightarrow> ret (Inl err)
        | Inr cert \<Rightarrow> ret (Inr (cert, getLink (resp_Header resp) ''up''))))"

definition getIssuerFromLink :: "env \<Rightarrow> core \<Rightarrow> string \<Rightarrow> (world, goerror + string option) go" where
  "getIssuerFromLink e c up =
     (if up = [] then ret (Inr None)
      else check (Certificates_get e c up) (\<lambda>(cert, _).
        case parseCertificate e cert of
          Inl err \<Rightarrow> ret (Inl err)
        | Inr _ \<Rightarrow> bind (outcome_of (PEMEncode e (DERCertificateBytes cert))) (\<lambda>p. ret (Inr (Some p)))))"

text \<open>The issuer certificate is \<open>None\<close> when the code returns a nil slice.\<close>

definition Certificates_Get ::
  "env \<Rightarrow> core \<Rightarrow> string \<Rightarrow> bool \<Rightarrow> (world, goerror + string \<times> string option) go" where
  "Certificates_Get e c certURL bundle =
     check (Certificates_get e c certURL) (\<lambda>(cert, up).
       case snd (pemDecode e cert) of
         Some issuer \<Rightarrow> ret (Inr (cert, Some issuer))
       | None \<Rightarrow>
           bind (getIssuerFromLink e c up) (\<lambda>r.
             case r of
               Inl err \<Rightarrow> ret (Inr (cert, None))
             | Inr issuer \<Rightarrow>
                 ret (Inr (if pem_rest issuer \<noteq> [] \<and> bundle then cert @ pem_rest issuer else cert, issuer))))"

definition Certificates_Revoke :: "env \<Rightarrow> core \<Rightarrow> revoke_cert_message \<Rightarrow> (world, goerror option) go" where
  "Certificates_Revoke e c req =
     error_of (post e c (dir_RevokeCertURL (core_directory c)) (revoke_json req) None)"

section \<open>Invariants of the client\<close>

text \<open>
  What a relation has to satisfy at the primitive steps of the client, in three layers: the steps of code
  that only asks, such as the DNS lookups and the plain HTTP requests; with the maps the DNS providers
  write to; and with the steps that use the account.  An event is plain when no signed request is sent in
  it.
\<close>

locale lookup_invariant = step_relation R for R :: "world \<Rightarrow> world \<Rightarrow> bool" +
  assumes clock_step: "0 \<le> d \<Longrightarrow> R w (w\<lparr>w_now := w_now w + d\<rparr>)"
    and plain_step: "sent_in ev = [] \<Longrightarrow> always R (observe e ev)"
    and soa_step: "R w (w\<lparr>w_soaCache := m\<rparr>)"
begin

lemma always_plain_http:
  assumes "\<And>m. req_Body req \<noteq> JoseBody m"
  shows "always R (http_do e req)"
proof -
  have "sent_in (EvHttp req r) = []" for r
    using assms by (simp split: req_body.split)
  then show ?thesis
    unfolding http_do_def by (intro always_intros plain_step)
qed

lemma always_plain_do:
  "(\<And>m. req_Body req \<noteq> JoseBody m) \<Longrightarrow> always R (Doer_do e req target)"
  unfolding Doer_do_def checkError_def
  by (intro always_intros always_plain_http) auto

lemma always_Doer_Get [always_intros]: "always R (Doer_Get e c url target)"
  unfolding Doer_Get_def Doer_send_def
  by (intro always_intros always_plain_do) (auto simp: newRequest_def split: option.splits)

lemma always_Doer_Head [always_intros]: "always R (Doer_Head e c url)"
  unfolding Doer_Head_def Doer_send_def
  by (intro always_intros always_plain_do) (auto simp: newRequest_def split: option.splits)

lemma always_sleep [always_intros]: "always R (sleep e d)"
  unfolding sleep_def by (intro always_intros plain_step always_modify clock_step) simp_all

lemma always_For [always_intros]:
  assumes "\<And>v. always R (f v)"
  shows "always R (For e timeout interval f v)"
proof -
  have "always R (For_loop e n timeUp interval lastErr f v)" for n timeUp lastErr v
    by (induction n arbitrary: lastErr v) (auto intro!: assms always_intros)
  then show ?thesis
    unfolding For_def by (intro always_intros)
qed

lemma always_with_random [always_intros]: "always R (with_random e f)"
  unfolding with_random_def by (intro always_intros plain_step) simp

end

locale plain_invariant = lookup_invariant R for R :: "world \<Rightarrow> world \<Rightarrow> bool" +
  assumes maps_step: "R w (w\<lparr>w_maps := h\<rparr>)"

locale client_invariant = plain_invariant R for R :: "world \<Rightarrow> world \<Rightarrow> bool" +
  assumes kid_step: "R w (w\<lparr>w_kid := k\<rparr>)"
    and pool_step: "always R NewManager"
    and post_step: "always R (signedPost e c uri content target)"
begin

lemma always_SetKid [always_intros]: "always R (SetKid kid)" "always R (NewJWS kid)"
  unfolding SetKid_def NewJWS_def by (intro always_modify kid_step)+

lemma always_retrievablePost [always_intros]:
  assumes "retry_ok e"
  shows "always R (retrievablePost e c uri content target)"
proof -
  have "always R (post_operation e c uri content target)"
    unfolding post_operation_def by (intro always_intros post_step)
  then have "always R (retry e post_backoff (post_operation e c uri content target))"
    using assms step_relation_axioms clock_step by (intro always_retry)
  then show ?thesis
    unfolding retrievablePost_def by (intro always_intros)
qed

lemma always_post [always_intros]:
  "retry_ok e \<Longrightarrow> always R (post e c uri body target)"
  "retry_ok e \<Longrightarrow> always R (postAsGet e c uri target)"
  unfolding post_def postAsGet_def by (rule always_retrievablePost, assumption)+

lemma always_error_of [always_intros]: "always R m \<Longrightarrow> always R (error_of m)"
  unfolding error_of_def by (intro always_intros)

lemma always_Core_New [always_intros]: "always R (Core_New e ua url kid k)"
  unfolding Core_New_def getDirectory_def by (intro always_intros pool_step)

lemma always_Accounts [always_intros]:
  assumes "retry_ok e"
  shows "always R (Accounts_New e c req)" and "always R (Accounts_NewEAB e c req kid hmac)"
    and "always R (Accounts_Get e c url)" and "always R (Accounts_Update e c url req)"
    and "always R (Accounts_Deactivate e c url)"
  unfolding Accounts_NewEAB_def Accounts_New_def Accounts_Get_def Accounts_Update_def
    Accounts_Deactivate_def
  by (intro always_intros assms)+

lemma always_Orders [always_intros]:
  assumes "retry_ok e"
  shows "always R (Orders_New e c domains)" and "always R (Orders_Get e c url)"
    and "always R (Orders_UpdateForCSR e c url csr)"
  unfolding Orders_New_def Orders_Get_def Orders_UpdateForCSR_def
  by (intro always_intros assms)+

lemma always_Authorizations [always_intros]:
  assumes "retry_ok e"
  shows "always R (Authorizations_Get e c url)" and "always R (Authorizations_Deactivate e c url)"
    and "always R (Challenges_New e c url)" and "always R (Challenges_Get e c url)"
  unfolding Authorizations_Get_def Authorizations_Deactivate_def Challenges_New_def Challenges_Get_def
  by (intro always_intros assms)+

lemma always_Certificates [always_intros]:
  assumes "retry_ok e"
  shows "always R (Certificates_get e c url)" and "always R (getIssuerFromLink e c url)"
    and "always R (Certificates_Get e c url b)" and "always R (Certificates_Revoke e c msg)"
  unfolding Certificates_Get_def getIssuerFromLink_def Certificates_get_def Certificates_Revoke_def
  by (intro always_intros assms)+

end

text \<open>The trace grows and the clock does not go back.\<close>

lemma grows_fields: "w_trace t = w_trace s \<Longrightarrow> w_now s \<le> w_now t \<Longrightarrow> grows s t"
  by (simp add: grows_def)

lemma grows_signedPost: "always grows (signedPost e c uri content target)"
proof -
  have pop: "always grows Manager_Pop"
    unfolding Manager_Pop_def by (intro always_intros growth.always_modify) (simp add: grows_fields)
  have push: "always grows (Manager_Push n)" for n
    unfolding Manager_Push_def by (intro growth.always_modify) (simp add: grows_fields)
  have send: "always grows (Doer_send e c m url body opts tgt)" for m url body opts tgt
    unfolding Doer_send_def Doer_do_def checkError_def by (intro always_intros)
  show ?thesis
    unfolding signedPost_def SignContent_def Manager_Nonce_def getNonce_def Doer_Head_def Doer_Post_def
    by (intro always_intros pop push send)
qed

interpretation growing: client_invariant grows
proof unfold_locales
  show "always grows NewManager"
    unfolding NewManager_def by (intro growth.always_modify) (simp add: grows_fields)
qed (simp_all add: grows_fields grows_observe grows_signedPost)

text \<open>Every nonce is sent at most as often as the server issued it.\<close>

definition send_and_keep_nonce ::
  "env \<Rightarrow> core \<Rightarrow> string \<Rightarrow> decode_target \<Rightarrow> jws \<Rightarrow> (world, do_result) go" where
  "send_and_keep_nonce e c uri response signedContent =
     bind (Doer_Post e c uri (JoseBody signedContent) ''application/jose+json'' response) (\<lambda>(resp, res).
       bind (case GetFromResponse resp of Inr nonce \<Rightarrow> Manager_Push nonce | Inl _ \<Rightarrow> ret ()) (\<lambda>_.
         ret (resp, res)))"

lemma nonces_push: "nonces_held [n] w \<Longrightarrow> Manager_Push n w = (r, t) \<Longrightarrow> nonces_ok t"
  by (auto simp: Manager_Push_run nonces_held_def ac_simps)

lemma nonces_send_and_keep:
  assumes "nonces_held [jws_Nonce m] u" and "send_and_keep_nonce e c uri target m u = (r, t)"
  shows "nonces_ok t"
proof (cases "newRequest e (core_userAgent c) ''POST'' uri (JoseBody m)
    [(''Content-Type'', ''application/jose+json'')]")
  case (Inl err)
  then have "t = u"
    using assms(2) by (simp add: send_and_keep_nonce_def Doer_Post_def Doer_send_def go_simps GetFromResponse_def)
  with assms(1) show ?thesis by (auto intro: nonces_held_drop)
next
  case (Inr req)
  then have body: "req_Body req = JoseBody m"
    by (auto simp: newRequest_def split: option.splits)
  obtain q v where run: "Doer_do e req target u = (q, v)" by fastforce
  have held: "nonces_held (issued_by (EvHttp req (httpDo e (w_trace u) req))) v"
    using Doer_do_held [OF assms(1) run, of undefined "[]"] body by simp
  then have ok: "nonces_ok v" by (rule nonces_held_sub) simp
  have after: "bind (\<lambda>_. (q, v)) (\<lambda>(resp, res).
      bind (case GetFromResponse resp of Inr nonce \<Rightarrow> Manager_Push nonce | Inl _ \<Rightarrow> ret ()) (\<lambda>_.
        ret (resp, res))) u = (r, t)"
    using assms(2) run Inr by (simp add: send_and_keep_nonce_def Doer_Post_def Doer_send_def bind_def)
  show ?thesis
  proof (cases "\<exists>resp n res. q = Return (Some resp, res) \<and> GetFromResponse (Some resp) = Inr n")
    case True
    then obtain resp n res where q: "q = Return (Some resp, res)" and n: "GetFromResponse (Some resp) = Inr n"
      by blast
    have "httpDo e (w_trace u) req = Inr resp"
      using Doer_do_response [OF run [unfolded q]] by (simp split: sum.splits)
    with held n have "nonces_held [n] v" by (simp only: GetFromResponse_issued)
    moreover have "Manager_Push n v = (Return (), t)"
      using after q n by (simp add: bind_def Manager_Push_run)
    ultimately show ?thesis by (rule nonces_push)
  next
    case False
    then have "t = v"
      using after by (cases q) (auto simp: bind_def GetFromResponse_def split: option.splits sum.splits)
    with ok show ?thesis by simp
  qed
qed

lemma nonces_signedPost: "always (keeps nonces_ok) (signedPost e c uri content target)"
proof (rule alwaysI)
  fix w r t
  assume run: "signedPost e c uri content target w = (r, t)"
  obtain q u where sign: "SignContent e c uri content w = (q, u)" by fastforce
  show "keeps nonces_ok w t"
    unfolding keeps_def
  proof
    assume ok: "nonces_ok w"
    note held = SignContent_held [OF ok sign]
    show "nonces_ok t"
    proof (cases "\<exists>m. q = Return (Inr m)")
      case False
      then have "t = u"
        using run sign by (auto simp: signedPost_def go_simps split: outcome.splits sum.splits)
      with held show ?thesis by simp
    next
      case True
      then obtain m where q: "q = Return (Inr m)" by blast
      then have "send_and_keep_nonce e c uri target m u = (r, t)"
        using run sign by (simp add: signedPost_def handle_def send_and_keep_nonce_def bind_def)
      with held q show ?thesis by (blast intro: nonces_send_and_keep)
    qed
  qed
qed

lemma keeps_held: "w_trace t = w_trace w \<Longrightarrow> w_nonces t = w_nonces w \<Longrightarrow> keeps nonces_ok w t"
  by (simp add: keeps_def nonces_held_def)

interpretation nonce_safe: client_invariant "keeps nonces_ok"
proof (intro client_invariant.intro plain_invariant.intro lookup_invariant.intro step_relation_keeps
    lookup_invariant_axioms.intro plain_invariant_axioms.intro client_invariant_axioms.intro)
  show "always (keeps nonces_ok) NewManager"
    unfolding NewManager_def always_def keeps_def nonces_held_def
    by (auto intro: subset_mset.order_trans [rotated])
  show "always (keeps nonces_ok) (observe e ev)" if "sent_in ev = []" for e ev
    using that nonces_held_exchange [of "[]" _ ev "[]"] nonces_held_sub [of "issued_by ev @ []" _ "[]"]
    by (fastforce simp: always_def keeps_def go_simps)
qed (simp_all add: keeps_held nonces_signedPost)

text \<open>
  The steps of code outside the client: no message is signed and the pool of nonces stays as it is.  Such
  code keeps the nonce accounting, because it sends no nonce and takes none.
\<close>

definition outside :: "world \<Rightarrow> world \<Rightarrow> bool" where
  "outside s t \<longleftrightarrow> (\<exists>evs. w_trace t = w_trace s @ evs \<and> sent evs = []) \<and> w_now s \<le> w_now t
     \<and> w_nonces t = w_nonces s"

lemma outside_fields:
  "w_trace t = w_trace s \<Longrightarrow> w_nonces t = w_nonces s \<Longrightarrow> w_now s \<le> w_now t \<Longrightarrow> outside s t"
  by (simp add: outside_def sent_def)

interpretation outsider: plain_invariant outside
proof unfold_locales
  show "outside s u" if "outside s t" "outside t u" for s t u
    using that unfolding outside_def by (metis append.assoc append_Nil sent_append order_trans)
  show "always outside (observe e ev)" if "sent_in ev = []" for e ev
    using that by (auto simp: always_def outside_def go_simps)
qed (simp_all add: outside_fields)

text \<open>The steps of a lookup leave the maps of the providers alone.\<close>

definition same_maps :: "world \<Rightarrow> world \<Rightarrow> bool" where
  "same_maps s t \<longleftrightarrow> w_maps t = w_maps s"

interpretation maps_kept: lookup_invariant same_maps
  by unfold_locales (simp_all add: same_maps_def always_def go_simps)

lemma outside_grows: "outside s t \<Longrightarrow> grows s t"
  by (auto simp: outside_def grows_def)

lemma outside_nonces: "outside s t \<Longrightarrow> keeps nonces_ok s t"
  unfolding outside_def keeps_def nonces_held_def
  by (auto intro: subset_mset.order_trans)

section \<open>Properties of the calls\<close>

lemma Doer_do_success:
  assumes "Doer_do e req target w = (Return (rp, Inr j), t)"
  shows "rp \<noteq> None"
  using Doer_do_response [OF assms] assms
  by (auto simp: Doer_do_def go_simps split: sum.splits)

text \<open>A successful request has a response.\<close>

lemma signedPost_response:
  assumes "signedPost e c uri content target w = (Return (rp, Inr j), t)"
  shows "rp \<noteq> None"
proof -
  obtain m u where "send_and_keep_nonce e c uri target m u = (Return (rp, Inr j), t)"
    using assms
    unfolding signedPost_def send_and_keep_nonce_def [symmetric] by (auto simp: handle_Return_eq)
  then obtain v where "Doer_Post e c uri (JoseBody m) ''application/jose+json'' target u =
      (Return (rp, Inr j), v)"
    by (auto simp: send_and_keep_nonce_def bind_Return_eq)
  then show ?thesis
    by (auto simp: Doer_Post_def Doer_send_def dest: Doer_do_success split: sum.splits)
qed

lemma retries_last:
  assumes "retries op s res" and "op s = (Return (err, c, rep), t)" and "err = None \<or> c"
  shows "res = (Return (err, rep), t)"
  using assms by (cases rule: retries.cases) auto

text \<open>
  C5 (functional).  A request is repeated only when the server rejected its nonce: whatever else the
  first attempt returns, a success or an error, is returned at once, and the state is that after the
  single attempt.  This holds for every retry policy that obeys the contract of \<^verbatim>\<open>backoff.Retry\<close>.
\<close>

theorem retrievablePost_single_attempt:
  assumes "retry_ok e" and "signedPost e c uri content target w = (Return (resp, res), t)"
    and "\<And>p. res \<noteq> Inl (NonceError p)"
  shows "retrievablePost e c uri content target w =
    (Return (case res of Inl err \<Rightarrow> Inl err | Inr j \<Rightarrow> Inr (the resp, j)), t)"
proof -
  let ?op = "post_operation e c uri content target"
  have run: "retries ?op w (retry e post_backoff ?op w)"
    using assms(1) by (simp add: retry_ok_def)
  show ?thesis
  proof (cases res)
    case (Inl err)
    then have "\<not> is_NonceError err"
      using assms(3) by (auto simp: is_NonceError_def split: goerror.splits)
    then have "?op w = (Return (Some err, True, map_option (\<lambda>r. (r, None)) resp), t)"
      using assms(2) Inl by (simp add: post_operation_def bind_def)
    from retries_last [OF run this] Inl show ?thesis
      by (simp add: retrievablePost_def bind_def)
  next
    case (Inr j)
    then obtain r where r: "resp = Some r"
      using signedPost_response assms(2) by blast
    then have "?op w = (Return (None, False, Some (r, j)), t)"
      using assms(2) Inr by (simp add: post_operation_def bind_def)
    from retries_last [OF run this] Inr r show ?thesis
      by (simp add: retrievablePost_def bind_def)
  qed
qed

theorem retrievablePost_single_attempt_witness:
  "fst (retrievablePost sample_env
      \<lparr>core_userAgent = [], core_privKey = RsaKey 2048 1, core_directory = zero_directory\<rparr>
      ''https://ca/order'' [] None (sample_world\<lparr>w_nonces := [''n1'']\<rparr>))
   = Return (Inl (Err ''connection refused''))"
proof -
  let ?c = "\<lparr>core_userAgent = [], core_privKey = RsaKey 2048 1, core_directory = zero_directory\<rparr>"
  let ?w = "sample_world\<lparr>w_nonces := [''n1'']\<rparr>"
  have "fst (signedPost sample_env ?c ''https://ca/order'' [] None ?w) =
      Return (None, Inl (Err ''connection refused''))"
    by (simp add: signedPost_def SignContent_def Manager_Nonce_def Manager_Pop_run Doer_Post_def
        Doer_send_def newRequest_def Doer_do_def go_simps Let_def sample_env_def sample_world_def
        GetFromResponse_def)
  then obtain t where "signedPost sample_env ?c ''https://ca/order'' [] None ?w =
      (Return (None, Inl (Err ''connection refused'')), t)"
    by (metis prod.collapse)
  from retrievablePost_single_attempt [OF retry_ok_sample [OF sample_retry_ok] this] show ?thesis
    by simp
qed

text \<open>
  A call on an empty URL is refused with its own error and nothing is sent: the state,
  trace and nonce pool included, is the one before.
\<close>

theorem empty_url_sends_nothing:
  "Accounts_Get e c [] w = (Return (Inl (Err ''account[get]: empty URL'')), w)
   \<and> Accounts_Update e c [] req w = (Return (Inl (Err ''account[update]: empty URL'')), w)
   \<and> Accounts_Deactivate e c [] w = (Return (Some (Err ''account[deactivate]: empty URL'')), w)
   \<and> Orders_Get e c [] w = (Return (Inl (Err ''order[get]: empty URL'')), w)
   \<and> Authorizations_Get e c [] w = (Return (Inl (Err ''authorization[get]: empty URL'')), w)
   \<and> Authorizations_Deactivate e c [] w = (Return (Some (Err ''authorization[deactivate]: empty URL'')), w)
   \<and> Challenges_New e c [] w = (Return (Inl (Err ''challenge[new]: empty URL'')), w)
   \<and> Challenges_Get e c [] w = (Return (Inl (Err ''challenge[get]: empty URL'')), w)
   \<and> Certificates_Get e c [] b w = (Return (Inl (Err ''certificate[get]: empty URL'')), w)"
  by (simp add: Accounts_Get_def Accounts_Update_def Accounts_Deactivate_def Orders_Get_def
      Authorizations_Get_def Authorizations_Deactivate_def Challenges_New_def Challenges_Get_def
      Certificates_Get_def Certificates_get_def check_def handle_def)

section \<open>The key identifier\<close>

definition same_kid :: "world \<Rightarrow> world \<Rightarrow> bool" where
  "same_kid s t \<longleftrightarrow> w_kid t = w_kid s"

interpretation kid_kept: step_relation same_kid
  by unfold_locales (auto simp: same_kid_def)

lemma same_kid_post:
  assumes "retry_ok e"
  shows "always same_kid (post e c uri body target)"
proof -
  have "always same_kid (Doer_do e req tgt)" for req tgt
    using Doer_do_trace by (auto intro!: alwaysI simp: same_kid_def)
  then have send: "always same_kid (Doer_send e c m url bd opts tgt)" for m url bd opts tgt
    unfolding Doer_send_def by (intro always_intros)
  have pool: "always same_kid Manager_Pop" "always same_kid (Manager_Push n)" for n
    by (auto intro!: alwaysI simp: same_kid_def Manager_Pop_run Manager_Push_run split: if_splits)
  have "always same_kid (post_operation e c uri content target)" for content
    unfolding post_operation_def signedPost_def SignContent_def Manager_Nonce_def getNonce_def
      Doer_Head_def Doer_Post_def
    by (intro always_intros send pool)
  then have "always same_kid (retry e post_backoff (post_operation e c uri content target))" for content
    by (intro always_retry assms kid_kept.step_relation_axioms) (simp_all add: same_kid_def)
  then show ?thesis
    unfolding post_def retrievablePost_def by (intro always_intros)
qed

lemma Accounts_New_kid:
  assumes "retry_ok e" and "Accounts_New e c req w = (Return (acc, err), t)"
  shows "(err \<noteq> None \<longrightarrow> w_kid t = w_kid w \<and> ea_Location acc = [])
    \<and> (err = None \<longrightarrow> w_kid t = (if ea_Location acc = [] then w_kid w else ea_Location acc))"
proof -
  let ?post = "post e c (dir_NewAccountURL (core_directory c)) (account_json req) (into account_of_json)"
  obtain r v where run: "?post w = (Return r, v)"
    using assms(2) by (auto simp: Accounts_New_def bind_Return_eq)
  have kid: "w_kid v = w_kid w"
    using alwaysD [OF same_kid_post [OF assms(1)] run] by (simp add: same_kid_def)
  then show ?thesis
    using assms(2) run
    by (auto simp: Accounts_New_def bind_def Let_def SetKid_def getLocation_def split: sum.splits if_splits)
qed

text \<open>
  Creating an account: when the server answers with a location, later requests are
  signed under that key identifier and no longer embed the public key; when the call fails, the key
  identifier is the one before and the returned location is empty.
\<close>

theorem Accounts_New_sets_kid:
  assumes "retry_ok e" and "Accounts_New e c req w = (Return (acc, err), t)"
  shows "(err \<noteq> None \<longrightarrow> w_kid t = w_kid w \<and> ea_Location acc = [])
    \<and> (err = None \<longrightarrow> w_kid t = (if ea_Location acc = [] then w_kid w else ea_Location acc))
    \<and> (err = None \<and> ea_Location acc \<noteq> [] \<and> SignContent e c url content t = (Return (Inr m), u)
        \<longrightarrow> jws_KeyID m = ea_Location acc \<and> \<not> jws_EmbedJWK m)"
  using Accounts_New_kid [OF assms] SignContent_carries by fastforce

text \<open>A server that answers every request with status 201, a location and a nonce that counts requests.\<close>

definition sample_ca :: env where
  "sample_ca = sample_env\<lparr>
     httpDo := (\<lambda>tr req. Inr \<lparr>resp_StatusCode = 201, resp_Status = ''201'',
        resp_Header = [(''Location'', [''https://ca/acct/1'']), (''Replay-Nonce'', [show_nat (length tr)])],
        resp_Body = Inr ''{}''\<rparr>),
     jsonParse := (\<lambda>_. Some (JObj []))\<rparr>"

definition sample_core :: core where
  "sample_core = \<lparr>core_userAgent = ''test'', core_privKey = RsaKey 2048 1,
     core_directory = zero_directory\<lparr>dir_NewAccountURL := ''https://ca/new-acct'',
       dir_NewNonceURL := ''https://ca/nonce'', dir_NewOrderURL := ''https://ca/new-order''\<rparr>\<rparr>"

text \<open>Evaluation of a request on concrete input.\<close>

lemmas post_eval =
  post_def postAsGet_def retrievablePost_def post_operation_def signedPost_def SignContent_def
  Manager_Nonce_def Manager_Pop_run Manager_Push_run Doer_Post_def Doer_send_def newRequest_def
  Doer_do_def go_simps Let_def GetFromResponse_def checkError_def StatusBadRequest_def
  header_get_def header_values_def numeral_3_eq_3 into_def decode_struct_def decoded_def
  getLocation_def getRetryAfter_def

lemma retry_ok_ca: "retry_ok sample_ca"
  by (rule retry_ok_sample [of _ 3]) (simp add: sample_ca_def sample_env_def)

theorem Accounts_New_sets_kid_witness:
  "\<exists>t. Accounts_New sample_ca sample_core zero_account (sample_world\<lparr>w_nonces := [''n'']\<rparr>) =
       (Return (\<lparr>ea_Account = zero_account, ea_Location = ''https://ca/acct/1''\<rparr>, None), t)
     \<and> w_kid t = ''https://ca/acct/1''"
proof -
  let ?w = "sample_world\<lparr>w_nonces := [''n'']\<rparr>"
  let ?acc = "\<lparr>ea_Account = zero_account, ea_Location = ''https://ca/acct/1''\<rparr>"
  have "fst (Accounts_New sample_ca sample_core zero_account ?w) = Return (?acc, None)"
    by (simp add: post_eval sample_ca_def sample_env_def Accounts_New_def account_of_json_def SetKid_def)
  then obtain t where run: "Accounts_New sample_ca sample_core zero_account ?w = (Return (?acc, None), t)"
    by (metis prod.collapse)
  from Accounts_New_sets_kid [OF retry_ok_ca run] run show ?thesis by auto
qed

section \<open>Where signed requests go\<close>

fun posted_to :: "event \<Rightarrow> string list" where
  "posted_to (EvHttp req _) = (case req_Body req of JoseBody _ \<Rightarrow> [req_URL req] | _ \<Rightarrow> [])"
| "posted_to _ = []"

text \<open>Between two states, signed requests were sent to the URLs of \<open>U\<close> only.\<close>

definition posts_only :: "string set \<Rightarrow> world \<Rightarrow> world \<Rightarrow> bool" where
  "posts_only U s t \<longleftrightarrow> (\<exists>evs. w_trace t = w_trace s @ evs \<and> (\<forall>ev \<in> set evs. set (posted_to ev) \<subseteq> U))"

interpretation footprint: step_relation "posts_only U"
proof
  show "posts_only U s s" for s by (simp add: posts_only_def)
  show "posts_only U s u" if st: "posts_only U s t" and tu: "posts_only U t u" for s t u
  proof -
    from st tu obtain xs ys where "w_trace t = w_trace s @ xs" "w_trace u = w_trace t @ ys"
      "\<forall>ev \<in> set xs. set (posted_to ev) \<subseteq> U" "\<forall>ev \<in> set ys. set (posted_to ev) \<subseteq> U"
      unfolding posts_only_def by blast
    then show ?thesis unfolding posts_only_def by (intro exI [of _ "xs @ ys"]) auto
  qed
qed

lemma posts_only_quiet: "w_trace t = w_trace s \<Longrightarrow> posts_only U s t"
  by (simp add: posts_only_def)

lemma posts_only_mono: "posts_only U s t \<Longrightarrow> U \<subseteq> V \<Longrightarrow> posts_only V s t"
  unfolding posts_only_def by blast

lemma posts_only_send:
  assumes "\<And>m. body = JoseBody m \<Longrightarrow> url \<in> U"
  shows "always (posts_only U) (Doer_send e c method url body opts target)"
proof -
  have "always (posts_only U) (http_do e req)"
    if "newRequest e ua method url body opts = Inr req" for req ua
  proof (rule alwaysI)
    fix s r t
    assume run: "http_do e req s = (r, t)"
    have "set (posted_to (EvHttp req x)) \<subseteq> U" for x
      using that assms by (auto simp: newRequest_def split: option.splits req_body.splits)
    with run show "posts_only U s t"
      unfolding posts_only_def by (auto simp: go_simps)
  qed
  then show ?thesis
    unfolding Doer_send_def Doer_do_def checkError_def by (intro always_intros)
qed

lemma posts_only_retrievablePost:
  assumes "retry_ok e" and "uri \<in> U"
  shows "always (posts_only U) (retrievablePost e c uri content target)"
proof -
  have pool: "always (posts_only U) Manager_Pop" "always (posts_only U) (Manager_Push n)" for n
    by (auto intro!: alwaysI posts_only_quiet simp: Manager_Pop_run Manager_Push_run split: if_splits)
  have "always (posts_only U) (post_operation e c uri content target)"
    unfolding post_operation_def signedPost_def SignContent_def Manager_Nonce_def getNonce_def
      Doer_Head_def Doer_Post_def
    by (intro always_intros posts_only_send pool assms) simp_all
  then have "always (posts_only U) (retry e post_backoff (post_operation e c uri content target))"
    by (intro always_retry assms footprint.step_relation_axioms posts_only_quiet) simp_all
  then show ?thesis
    unfolding retrievablePost_def by (intro always_intros)
qed

lemma posts_only_post:
  "retry_ok e \<Longrightarrow> uri \<in> U \<Longrightarrow> always (posts_only U) (post e c uri body target)"
  "retry_ok e \<Longrightarrow> uri \<in> U \<Longrightarrow> always (posts_only U) (postAsGet e c uri target)"
  unfolding post_def postAsGet_def by (rule posts_only_retrievablePost; assumption)+

end
