(* ===== verification/Registration.thy ===== *)
theory Registration
  imports Api
begin

text \<open>
  Package \<^verbatim>\<open>registration\<close>: the registrar, which creates, looks up, changes and deactivates the account of
  a user.  A user is a record of what the methods of the \<^verbatim>\<open>User\<close> interface return; a nil registrar, user or
  registration is \<open>None\<close>, and what dereferences it panics.

  Proved here: after a successful registration requests are signed under the account URL; a failed one
  leaves the key identifier and returns the error, also when the server reports a conflict, because the
  type assertion that looks for a conflict never matches; the stored URL is where queries, updates and
  deactivation go.
\<close>

record registration_resource =
  rr_Body :: account
  rr_URI :: string

record user =
  usr_Email :: string
  usr_Registration :: "registration_resource option"
  usr_PrivateKey :: "private_key option"

record register_eab_options =
  eab_TermsOfServiceAgreed :: bool
  eab_Kid :: string
  eab_HmacEncoded :: string

record registrar =
  rg_core :: core
  rg_user :: "user option"

definition NewRegistrar :: "core \<Rightarrow> user option \<Rightarrow> registrar" where
  "NewRegistrar c u = \<lparr>rg_core = c, rg_user = u\<rparr>"

text \<open>The core and the user, unless \<^verbatim>\<open>r == nil || r.user == nil\<close>.\<close>

definition registrar_parts :: "registrar option \<Rightarrow> (core \<times> user) option" where
  "registrar_parts r =
     (case r of
        None \<Rightarrow> None
      | Some rg \<Rightarrow> (case rg_user rg of None \<Rightarrow> None | Some u \<Rightarrow> Some (rg_core rg, u)))"

definition accMsg_for :: "user \<Rightarrow> bool \<Rightarrow> account" where
  "accMsg_for u tosAgreed =
     zero_account\<lparr>acc_TermsOfServiceAgreed := tosAgreed,
       acc_Contact := (if usr_Email u \<noteq> [] then [''mailto:'' @ usr_Email u] else [])\<rparr>"

text \<open>
  \<^verbatim>\<open>err.(acme.ProblemDetails)\<close>: does the error hold a value, not a pointer, of that type?  Nothing in the
  program stores one, so no constructor of \<open>goerror\<close> matches.
\<close>

definition as_ProblemDetails :: "goerror \<Rightarrow> problem_details option" where
  "as_ProblemDetails err =
     (case err of Err _ \<Rightarrow> None | Wrap _ _ \<Rightarrow> None | Problem _ \<Rightarrow> None | NonceError _ \<Rightarrow> None
      | ObtainError _ \<Rightarrow> None)"

definition StatusConflict :: int where "StatusConflict = 409"

text \<open>What both ways to register make of the answer.\<close>

definition registered ::
  "extended_account \<times> goerror option \<Rightarrow> goerror + registration_resource" where
  "registered a =
     (let acct = fst a; res = \<lparr>rr_Body = ea_Account acct, rr_URI = ea_Location acct\<rparr> in
      case snd a of
        None \<Rightarrow> Inr res
      | Some err \<Rightarrow>
          (case as_ProblemDetails err of
             None \<Rightarrow> Inl err
           | Some p \<Rightarrow> if pd_HTTPStatus p \<noteq> StatusConflict then Inl err else Inr res))"

definition Register ::
  "env \<Rightarrow> registrar option \<Rightarrow> bool \<Rightarrow> (world, goerror + registration_resource) go" where
  "Register e r tosAgreed =
     (case registrar_parts r of
        Some (c, u) \<Rightarrow>
          bind (Accounts_New e c (accMsg_for u tosAgreed)) (\<lambda>a. ret (registered a))
      | None \<Rightarrow> ret (Inl (Err ''acme: cannot register a nil client or user'')))"

definition RegisterWithExternalAccountBinding ::
  "env \<Rightarrow> registrar option \<Rightarrow> register_eab_options \<Rightarrow> (world, goerror + registration_resource) go" where
  "RegisterWithExternalAccountBinding e r options =
     (case registrar_parts r of
        Some (c, u) \<Rightarrow>
          bind (Accounts_NewEAB e c (accMsg_for u (eab_TermsOfServiceAgreed options)) (eab_Kid options)
                  (eab_HmacEncoded options)) (\<lambda>a. ret (registered a))
      | None \<Rightarrow> panic nil_pointer)"

definition QueryRegistration :: "env \<Rightarrow> registrar option \<Rightarrow> (world, goerror + registration_resource) go" where
  "QueryRegistration e r =
     (case registrar_parts r of
        Some (c, u) \<Rightarrow>
          (case usr_Registration u of
             None \<Rightarrow> panic nil_pointer
           | Some reg \<Rightarrow>
               check (Accounts_Get e c (rr_URI reg)) (\<lambda>acct.
                 ret (Inr \<lparr>rr_Body = acct, rr_URI = rr_URI reg\<rparr>)))
      | None \<Rightarrow> ret (Inl (Err ''acme: cannot query the registration of a nil client or user'')))"

definition UpdateRegistration ::
  "env \<Rightarrow> registrar option \<Rightarrow> bool \<Rightarrow> (world, goerror + registration_resource) go" where
  "UpdateRegistration e r tosAgreed =
     (case registrar_parts r of
        Some (c, u) \<Rightarrow>
          (case usr_Registration u of
             None \<Rightarrow> panic nil_pointer
           | Some reg \<Rightarrow>
               check (Accounts_Update e c (rr_URI reg) (accMsg_for u tosAgreed)) (\<lambda>acct.
                 ret (Inr \<lparr>rr_Body = acct, rr_URI = rr_URI reg\<rparr>)))
      | None \<Rightarrow> ret (Inl (Err ''acme: cannot update a nil client or user'')))"

definition DeleteRegistration :: "env \<Rightarrow> registrar option \<Rightarrow> (world, goerror option) go" where
  "DeleteRegistration e r =
     (case registrar_parts r of
        Some (c, u) \<Rightarrow>
          (case usr_Registration u of
             None \<Rightarrow> panic nil_pointer
           | Some reg \<Rightarrow> Accounts_Deactivate e c (rr_URI reg))
      | None \<Rightarrow> ret (Some (Err ''acme: cannot unregister a nil client or user'')))"

definition ResolveAccountByKey ::
  "env \<Rightarrow> registrar option \<Rightarrow> (world, goerror + registration_resource) go" where
  "ResolveAccountByKey e r =
     (case r of
        None \<Rightarrow> panic nil_pointer
      | Some rg \<Rightarrow>
          bind (Accounts_New e (rg_core rg) (zero_account\<lparr>acc_OnlyReturnExisting := True\<rparr>)) (\<lambda>(acct, err).
            case err of
              Some er \<Rightarrow> ret (Inl er)
            | None \<Rightarrow> ret (Inr \<lparr>rr_Body = ea_Account acct, rr_URI = ea_Location acct\<rparr>)))"

section \<open>Properties\<close>

lemma registered_eq:
  "registered (acct, err) =
     (case err of None \<Rightarrow> Inr \<lparr>rr_Body = ea_Account acct, rr_URI = ea_Location acct\<rparr> | Some er \<Rightarrow> Inl er)"
  by (auto simp: registered_def as_ProblemDetails_def Let_def split: option.split goerror.split)

context client_invariant
begin

lemma always_registrar [always_intros]:
  assumes "retry_ok e"
  shows "always R (Register e r tos)" and "always R (RegisterWithExternalAccountBinding e r options)"
    and "always R (QueryRegistration e r)" and "always R (UpdateRegistration e r tos)"
    and "always R (DeleteRegistration e r)" and "always R (ResolveAccountByKey e r)"
  unfolding Register_def RegisterWithExternalAccountBinding_def QueryRegistration_def UpdateRegistration_def
    DeleteRegistration_def ResolveAccountByKey_def
  by (intro always_intros assms)+

end

lemma Accounts_NewEAB_kid:
  assumes "retry_ok e" and "Accounts_NewEAB e c req kid hmac w = (Return (acc, err), t)"
  shows "(err \<noteq> None \<longrightarrow> w_kid t = w_kid w)
    \<and> (err = None \<longrightarrow> w_kid t = (if ea_Location acc = [] then w_kid w else ea_Location acc))"
  using assms(2) Accounts_New_kid [OF assms(1)]
  by (fastforce simp: Accounts_NewEAB_def split: option.splits sum.splits)

text \<open>The key identifier that the result of a registration leaves behind.\<close>

definition kid_after :: "string \<Rightarrow> goerror + registration_resource \<Rightarrow> string" where
  "kid_after kid res =
     (case res of Inl _ \<Rightarrow> kid | Inr reg \<Rightarrow> if rr_URI reg = [] then kid else rr_URI reg)"

lemma registration_kid:
  assumes "retry_ok e"
  shows "Register e r tos w = (Return res, t) \<Longrightarrow> w_kid t = kid_after (w_kid w) res"
    and "RegisterWithExternalAccountBinding e r options w = (Return res, t) \<Longrightarrow> w_kid t = kid_after (w_kid w) res"
    and "ResolveAccountByKey e r w = (Return res, t) \<Longrightarrow> w_kid t = kid_after (w_kid w) res"
    and "registrar_parts r = Some (c, u) \<Longrightarrow>
      Accounts_New e c (accMsg_for u tos) w = (Return (acct, Some er), t) \<Longrightarrow>
      Register e r tos w = (Return (Inl er), t)"
proof -
  have new: "Accounts_New e c req w = (Return (acct, err), t) \<Longrightarrow>
      w_kid t = kid_after (w_kid w) (registered (acct, err))" for c req acct err
    using Accounts_New_kid [OF assms, of c req w acct err t]
    by (auto simp: registered_eq kid_after_def split: option.split)
  then show "Register e r tos w = (Return res, t) \<Longrightarrow> w_kid t = kid_after (w_kid w) res"
    by (auto simp: Register_def bind_Return_eq kid_after_def split: option.splits)
  have "Accounts_NewEAB e c req kid hmac w = (Return (acct, err), t) \<Longrightarrow>
      w_kid t = kid_after (w_kid w) (registered (acct, err))" for c req kid hmac acct err
    using Accounts_NewEAB_kid [OF assms, of c req kid hmac w acct err t]
    by (auto simp: registered_eq kid_after_def split: option.split)
  then show "RegisterWithExternalAccountBinding e r options w = (Return res, t) \<Longrightarrow>
      w_kid t = kid_after (w_kid w) res"
    by (auto simp: RegisterWithExternalAccountBinding_def bind_Return_eq split: option.splits)
  show "ResolveAccountByKey e r w = (Return res, t) \<Longrightarrow> w_kid t = kid_after (w_kid w) res"
    using new
    by (fastforce simp: ResolveAccountByKey_def bind_Return_eq registered_eq split: option.splits)
  show "registrar_parts r = Some (c, u) \<Longrightarrow>
      Accounts_New e c (accMsg_for u tos) w = (Return (acct, Some er), t) \<Longrightarrow>
      Register e r tos w = (Return (Inl er), t)"
    by (simp add: Register_def registered_eq bind_def)
qed


definition sample_user :: user where
  "sample_user = \<lparr>usr_Email = ''a@b.org'', usr_Registration = None, usr_PrivateKey = Some (RsaKey 2048 1)\<rparr>"


end
