(* ===== verification/Challenge.thy ===== *)
theory Challenge
  imports Api
begin

text \<open>
  Package \<^verbatim>\<open>challenge\<close>: challenge types, the challenge of an authorization, and the interfaces of providers
  and solvers.  A Go value behind an interface is a record of its methods; a method of an optional
  interface, asked for by a type assertion, is an optional field.
\<close>

definition HTTP01 :: string where "HTTP01 = ''http-01''"
definition DNS01 :: string where "DNS01 = ''dns-01''"
definition TLSALPN01 :: string where "TLSALPN01 = ''tls-alpn-01''"

definition GetTargetedDomain :: "authorization \<Rightarrow> string" where
  "GetTargetedDomain authz =
     (if az_Wildcard authz then ''*.'' @ id_Value (az_Identifier authz) else id_Value (az_Identifier authz))"

definition FindChallenge :: "string \<Rightarrow> authorization \<Rightarrow> goerror + challenge" where
  "FindChallenge chlgType authz =
     (case find (\<lambda>chlg. chl_Type chlg = chlgType) (az_Challenges authz) of
        Some chlg \<Rightarrow> Inr chlg
      | None \<Rightarrow> Inl (Err (''['' @ GetTargetedDomain authz @ ''] acme: unable to find challenge '' @ chlgType)))"

text \<open>
  \<^verbatim>\<open>challenge.Provider\<close>, with \<^verbatim>\<open>ProviderTimeout\<close> and the \<^verbatim>\<open>sequential\<close> interface of package \<^verbatim>\<open>dns01\<close> as
  optional methods.
\<close>

record provider =
  prov_Present :: "string \<Rightarrow> string \<Rightarrow> string \<Rightarrow> (world, goerror option) go"
  prov_CleanUp :: "string \<Rightarrow> string \<Rightarrow> string \<Rightarrow> (world, goerror option) go"
  prov_Timeout :: "(int \<times> int) option"
  prov_Sequential :: "int option"

text \<open>The interfaces of \<^verbatim>\<open>challenge/resolver/prober.go\<close>: \<^verbatim>\<open>solver\<close>, \<^verbatim>\<open>preSolver\<close>, \<^verbatim>\<open>cleanup\<close>, \<^verbatim>\<open>sequential\<close>.\<close>

record solver =
  slv_Solve :: "authorization \<Rightarrow> (world, goerror option) go"
  slv_PreSolve :: "(authorization \<Rightarrow> (world, goerror option) go) option"
  slv_CleanUp :: "(authorization \<Rightarrow> (world, goerror option) go) option"
  slv_Sequential :: "(bool \<times> int) option"

type_synonym ValidateFunc = "core \<Rightarrow> string \<Rightarrow> challenge \<Rightarrow> (world, goerror option) go"

lemma FindChallenge_Inr:
  "FindChallenge ty authz = Inr c \<Longrightarrow> c \<in> set (az_Challenges authz) \<and> chl_Type c = ty"
  by (auto simp: FindChallenge_def find_Some_iff split: option.splits)

section \<open>Solving with a provider\<close>

text \<open>
  The common shape of \<^verbatim>\<open>http01\<close> and \<^verbatim>\<open>tlsalpn01\<close>: present, validate, and clean up whatever the validation
  returns.  The error of the clean-up is only logged.
\<close>

definition present_and_validate ::
  "provider \<Rightarrow> string \<Rightarrow> string \<Rightarrow> string \<Rightarrow> string \<Rightarrow> (world, goerror option) go
    \<Rightarrow> (world, goerror option) go" where
  "present_and_validate p shown domain token keyAuth validation =
     bind (prov_Present p domain token keyAuth) (\<lambda>err.
       case err of
         Some er \<Rightarrow> ret (Some (Wrap (''['' @ shown @ ''] acme: error presenting token: '') er))
       | None \<Rightarrow>
           deferring validation
             (bind (prov_CleanUp p domain token keyAuth) (\<lambda>_. ret ())))"

definition Http01_Solve ::
  "env \<Rightarrow> core \<Rightarrow> ValidateFunc \<Rightarrow> provider \<Rightarrow> authorization \<Rightarrow> (world, goerror option) go" where
  "Http01_Solve e c validate p authz =
     (let domain = GetTargetedDomain authz in
      case FindChallenge HTTP01 authz of
        Inl err \<Rightarrow> ret (Some err)
      | Inr chlng \<Rightarrow>
          (case GetKeyAuthorization e c (chl_Token chlng) of
             Inl err \<Rightarrow> ret (Some err)
           | Inr keyAuth \<Rightarrow>
               present_and_validate p domain (id_Value (az_Identifier authz)) (chl_Token chlng) keyAuth
                 (validate c domain (chlng\<lparr>chl_KeyAuthorization := keyAuth\<rparr>))))"

definition Http01_NewChallenge :: "env \<Rightarrow> core \<Rightarrow> ValidateFunc \<Rightarrow> provider \<Rightarrow> solver" where
  "Http01_NewChallenge e c validate p =
     \<lparr>slv_Solve = Http01_Solve e c validate p, slv_PreSolve = None, slv_CleanUp = None,
      slv_Sequential = None\<rparr>"

definition Tlsalpn01_Solve ::
  "env \<Rightarrow> core \<Rightarrow> ValidateFunc \<Rightarrow> provider \<Rightarrow> authorization \<Rightarrow> (world, goerror option) go" where
  "Tlsalpn01_Solve e c validate p authz =
     (let domain = id_Value (az_Identifier authz) in
      case FindChallenge TLSALPN01 authz of
        Inl err \<Rightarrow> ret (Some err)
      | Inr chlng \<Rightarrow>
          (case GetKeyAuthorization e c (chl_Token chlng) of
             Inl err \<Rightarrow> ret (Some err)
           | Inr keyAuth \<Rightarrow>
               present_and_validate p (GetTargetedDomain authz) domain (chl_Token chlng) keyAuth
                 (validate c domain (chlng\<lparr>chl_KeyAuthorization := keyAuth\<rparr>))))"

definition Tlsalpn01_NewChallenge :: "env \<Rightarrow> core \<Rightarrow> ValidateFunc \<Rightarrow> provider \<Rightarrow> solver" where
  "Tlsalpn01_NewChallenge e c validate p =
     \<lparr>slv_Solve = Tlsalpn01_Solve e c validate p, slv_PreSolve = None, slv_CleanUp = None,
      slv_Sequential = None\<rparr>"

text \<open>
  What a caller of a provider relies on: presenting and cleaning up keep an invariant of the client.
\<close>

definition provider_keeps :: "(world \<Rightarrow> world \<Rightarrow> bool) \<Rightarrow> provider \<Rightarrow> bool" where
  "provider_keeps R p \<longleftrightarrow>
     (\<forall>d t k. always R (prov_Present p d t k) \<and> always R (prov_CleanUp p d t k))"

definition solver_keeps :: "(world \<Rightarrow> world \<Rightarrow> bool) \<Rightarrow> solver \<Rightarrow> bool" where
  "solver_keeps R s \<longleftrightarrow>
     (\<forall>a. always R (slv_Solve s a))
     \<and> (\<forall>f a. slv_PreSolve s = Some f \<longrightarrow> always R (f a))
     \<and> (\<forall>f a. slv_CleanUp s = Some f \<longrightarrow> always R (f a))"

context client_invariant
begin

lemma always_present_and_validate:
  "provider_keeps R p \<Longrightarrow> always R v \<Longrightarrow> always R (present_and_validate p s d t k v)"
  unfolding present_and_validate_def provider_keeps_def by (intro always_intros) auto

lemma Http01_keeps:
  "provider_keeps R p \<Longrightarrow> (\<And>d ch. always R (validate c d ch)) \<Longrightarrow>
   solver_keeps R (Http01_NewChallenge e c validate p)"
  unfolding solver_keeps_def Http01_NewChallenge_def Http01_Solve_def
  by (auto intro!: always_intros always_present_and_validate simp: Let_def)

lemma Tlsalpn01_keeps:
  "provider_keeps R p \<Longrightarrow> (\<And>d ch. always R (validate c d ch)) \<Longrightarrow>
   solver_keeps R (Tlsalpn01_NewChallenge e c validate p)"
  unfolding solver_keeps_def Tlsalpn01_NewChallenge_def Tlsalpn01_Solve_def
  by (auto intro!: always_intros always_present_and_validate simp: Let_def)

end

end
