(* ===== verification/Resolver.thy ===== *)
theory Resolver
  imports Challenge
begin

text \<open>
  Package \<^verbatim>\<open>challenge/resolver\<close>: the solver manager, the validation of a challenge, and the prober that
  solves all authorizations of an order.  The map of solvers is an association list; \<open>failures\<close>, the map
  the helpers of the prober fill in, is passed along.
\<close>

section \<open>The solver manager\<close>

type_synonym solvers = "(string \<times> solver) list"

text \<open>
  \<^verbatim>\<open>sort.Sort(byType(authz.Challenges))\<close>: decreasing types.  The sort is in place, so the authorization
  the solver gets has its challenges in that order.
\<close>

definition sort_challenges :: "authorization \<Rightarrow> authorization" where
  "sort_challenges authz =
     authz\<lparr>az_Challenges := rev (sort_key chl_Type (rev (az_Challenges authz)))\<rparr>"

fun first_solver :: "solvers \<Rightarrow> challenge list \<Rightarrow> solver option" where
  "first_solver slvs [] = None"
| "first_solver slvs (chlg # chlgs) =
     (case map_of slvs (chl_Type chlg) of Some solvr \<Rightarrow> Some solvr | None \<Rightarrow> first_solver slvs chlgs)"

definition chooseSolver :: "solvers \<Rightarrow> authorization \<Rightarrow> solver option" where
  "chooseSolver slvs authz = first_solver slvs (az_Challenges (sort_challenges authz))"

definition Remove :: "string \<Rightarrow> solvers \<Rightarrow> solvers" where
  "Remove chlgType slvs = filter (\<lambda>(ty, _). ty \<noteq> chlgType) slvs"

section \<open>Validation\<close>

definition checkChallengeStatus :: "extended_challenge \<Rightarrow> goerror + bool" where
  "checkChallengeStatus chlng =
     (let status = chl_Status (ec_Challenge chlng) in
      if status = StatusValid then Inr True
      else if status = StatusPending \<or> status = StatusProcessing then Inr False
      else if status = StatusInvalid then Inl (Problem (chl_Error (ec_Challenge chlng)))
      else Inl (Err ''the server returned an unexpected state''))"

definition checkAuthorizationStatus :: "authorization \<Rightarrow> goerror + bool" where
  "checkAuthorizationStatus authz =
     (let status = az_Status authz in
      if status = StatusValid then Inr True
      else if status = StatusPending \<or> status = StatusProcessing then Inr False
      else if status = StatusDeactivated \<or> status = StatusExpired \<or> status = StatusRevoked
      then Inl (Err (''the authorization state '' @ status))
      else if status = StatusInvalid then
        (case find (\<lambda>chlg. chl_Status chlg = StatusInvalid \<and> chl_Error chlg \<noteq> None) (az_Challenges authz) of
           Some chlg \<Rightarrow> Inl (Problem (chl_Error chlg))
         | None \<Rightarrow> Inl (Err (''the authorization state '' @ status)))
      else Inl (Err ''the server returned an unexpected state''))"

definition validate_backoff :: "int \<Rightarrow> backoff" where
  "validate_backoff ra =
     (let initialInterval = i64 (ra * Second) in
      \<lparr>bo_InitialInterval = initialInterval, bo_MaxInterval = i64 (10 * initialInterval),
       bo_MaxElapsedTime = i64 (100 * initialInterval)\<rparr>)"

definition validate_operation :: "env \<Rightarrow> core \<Rightarrow> string \<Rightarrow> (world, attempt) go" where
  "validate_operation e c authzURL =
     handle (Authorizations_Get e c authzURL) (\<lambda>err. ret (Some err, True, None)) (\<lambda>authz.
       case checkAuthorizationStatus authz of
         Inl err \<Rightarrow> ret (Some err, True, None)
       | Inr valid \<Rightarrow>
           if valid then ret (None, False, None)
           else ret (Some (Err ''the server didn't respond to our request''), False, None))"

definition validate :: "env \<Rightarrow> ValidateFunc" where
  "validate e c domain chlg =
     handle (Challenges_New e c (chl_URL chlg))
       (\<lambda>err. ret (Some (Wrap ''failed to initiate challenge: '' err))) (\<lambda>chlng.
       case checkChallengeStatus chlng of
         Inl err \<Rightarrow> ret (Some err)
       | Inr valid \<Rightarrow>
           if valid then ret None
           else
             (let ra = (case Atoi (ec_RetryAfter chlng) of None \<Rightarrow> 5 | Some n \<Rightarrow> n) in
              bind (retry e (validate_backoff ra) (validate_operation e c (ec_AuthorizationURL chlng)))
                (\<lambda>(err, _). ret err)))"

definition SetHTTP01Provider :: "env \<Rightarrow> core \<Rightarrow> provider \<Rightarrow> solvers \<Rightarrow> solvers" where
  "SetHTTP01Provider e c p slvs = put HTTP01 (Http01_NewChallenge e c (validate e) p) slvs"

definition SetTLSALPN01Provider :: "env \<Rightarrow> core \<Rightarrow> provider \<Rightarrow> solvers \<Rightarrow> solvers" where
  "SetTLSALPN01Provider e c p slvs = put TLSALPN01 (Tlsalpn01_NewChallenge e c (validate e) p) slvs"

section \<open>The prober\<close>

type_synonym failures = "(string \<times> goerror) list"
type_synonym selectedAuthSolver = "authorization \<times> solver"

definition cleanUp :: "solver \<Rightarrow> authorization \<Rightarrow> (world, unit) go" where
  "cleanUp solvr authz =
     (case slv_CleanUp solvr of
        None \<Rightarrow> ret ()
      | Some f \<Rightarrow> bind (f authz) (\<lambda>_. ret ()))"

definition preSolve :: "solver \<Rightarrow> authorization \<Rightarrow> (world, goerror option) go" where
  "preSolve solvr authz = (case slv_PreSolve solvr of None \<Rightarrow> ret None | Some f \<Rightarrow> f authz)"

definition record_failure :: "string \<Rightarrow> goerror option \<Rightarrow> failures \<Rightarrow> failures" where
  "record_failure domain err fs = (case err of None \<Rightarrow> fs | Some er \<Rightarrow> put domain er fs)"

definition preSolve_step :: "selectedAuthSolver \<Rightarrow> failures \<Rightarrow> (world, failures) go" where
  "preSolve_step p fs =
     (case p of (authz, solvr) \<Rightarrow>
        bind (preSolve solvr authz) (\<lambda>err. ret (record_failure (GetTargetedDomain authz) err fs)))"

definition solve_step :: "selectedAuthSolver \<Rightarrow> failures \<Rightarrow> (world, failures) go" where
  "solve_step p fs =
     (case p of (authz, solvr) \<Rightarrow>
        let domain = GetTargetedDomain authz in
        if map_of fs domain \<noteq> None then ret fs
        else bind (slv_Solve solvr authz) (\<lambda>err. ret (record_failure domain err fs)))"

definition parallelSolve :: "selectedAuthSolver list \<Rightarrow> failures \<Rightarrow> (world, failures) go" where
  "parallelSolve authSolvers failures =
     bind (for_each authSolvers preSolve_step failures) (\<lambda>fs.
       deferring
         (for_each authSolvers solve_step fs)
         (for_each authSolvers (\<lambda>(authz, solvr) _. cleanUp solvr authz) ()))"

fun sequentialSolve :: "env \<Rightarrow> selectedAuthSolver list \<Rightarrow> failures \<Rightarrow> (world, failures) go" where
  "sequentialSolve e [] fs = ret fs"
| "sequentialSolve e ((authz, solvr) # rest) fs =
     (let domain = GetTargetedDomain authz in
      bind (preSolve solvr authz) (\<lambda>err.
        case err of
          Some er \<Rightarrow> bind (cleanUp solvr authz) (\<lambda>_. sequentialSolve e rest (put domain er fs))
        | None \<Rightarrow>
            bind (slv_Solve solvr authz) (\<lambda>err.
              case err of
                Some er \<Rightarrow> bind (cleanUp solvr authz) (\<lambda>_. sequentialSolve e rest (put domain er fs))
              | None \<Rightarrow>
                  bind (cleanUp solvr authz) (\<lambda>_.
                    bind (if rest = [] then ret ()
                          else (case slv_Sequential solvr of
                                  None \<Rightarrow> panic ''interface conversion: missing method Sequential''
                                | Some (_, interval) \<Rightarrow> sleep e interval)) (\<lambda>_.
                      sequentialSolve e rest fs)))))"

definition no_solver :: "string \<Rightarrow> goerror" where
  "no_solver domain = Err (''['' @ domain @ ''] acme: could not determine solvers'')"

text \<open>The first pass: which solver, and sequentially or not.\<close>

fun select_solvers ::
  "solvers \<Rightarrow> authorization list \<Rightarrow> selectedAuthSolver list \<times> selectedAuthSolver list \<times> failures
    \<Rightarrow> selectedAuthSolver list \<times> selectedAuthSolver list \<times> failures" where
  "select_solvers slvs [] acc = acc"
| "select_solvers slvs (authz # rest) (par, sq, fs) =
     (if az_Status authz = StatusValid then select_solvers slvs rest (par, sq, fs)
      else (case chooseSolver slvs authz of
              None \<Rightarrow>
                (let domain = GetTargetedDomain authz in
                 select_solvers slvs rest (par, sq, put domain (no_solver domain) fs))
            | Some solvr \<Rightarrow>
                (let authSolver = (sort_challenges authz, solvr) in
                 case slv_Sequential solvr of
                   Some (True, _) \<Rightarrow> select_solvers slvs rest (par, sq @ [authSolver], fs)
                 | _ \<Rightarrow> select_solvers slvs rest (par @ [authSolver], sq, fs))))"

definition Prober_Solve :: "env \<Rightarrow> solvers \<Rightarrow> authorization list \<Rightarrow> (world, goerror option) go" where
  "Prober_Solve e slvs authorizations =
     (case select_solvers slvs authorizations ([], [], []) of
        (authSolvers, authSolversSequential, failures) \<Rightarrow>
          bind (parallelSolve authSolvers failures) (\<lambda>failures.
            bind (sequentialSolve e authSolversSequential failures) (\<lambda>failures.
              ret (if failures \<noteq> [] then Some (ObtainError failures) else None))))"

section \<open>Invariants\<close>

context client_invariant
begin

lemma always_validate [always_intros]:
  assumes "retry_ok e"
  shows "always R (validate e c domain chlg)"
proof -
  have "always R (validate_operation e c url)" for url
    unfolding validate_operation_def by (intro always_intros assms)
  then have "always R (retry e bo (validate_operation e c url))" for bo url
    using assms step_relation_axioms clock_step by (intro always_retry)
  then show ?thesis
    unfolding validate_def by (intro always_intros assms)
qed

lemma always_cleanUp: "solver_keeps R s \<Longrightarrow> always R (cleanUp s a)"
  unfolding cleanUp_def solver_keeps_def by (intro always_intros) auto

lemma always_preSolve: "solver_keeps R s \<Longrightarrow> always R (preSolve s a)"
  unfolding preSolve_def solver_keeps_def by (intro always_intros) auto

lemma always_Solve: "solver_keeps R s \<Longrightarrow> always R (slv_Solve s a)"
  by (simp add: solver_keeps_def)

lemmas solver_steps = always_cleanUp always_preSolve always_Solve

lemma always_parallelSolve:
  assumes "\<And>a s. (a, s) \<in> set l \<Longrightarrow> solver_keeps R s"
  shows "always R (parallelSolve l fs)"
  unfolding parallelSolve_def preSolve_step_def solve_step_def
  by (intro always_intros solver_steps) (auto dest: assms)

lemma always_sequentialSolve:
  assumes "\<And>a s. (a, s) \<in> set l \<Longrightarrow> solver_keeps R s"
  shows "always R (sequentialSolve e l fs)"
  using assms
proof (induction l arbitrary: fs)
  case (Cons p l)
  obtain a s where p: "p = (a, s)" by (cases p)
  have keeps: "solver_keeps R s" using Cons.prems p by auto
  have rest: "always R (sequentialSolve e l fs)" for fs
    using Cons by auto
  show ?case
    unfolding p sequentialSolve.simps Let_def
    by (intro always_intros solver_steps keeps rest)
qed (simp add: always_ret)

lemma select_solvers_from:
  assumes "select_solvers slvs as (par, sq, fs) = (par', sq', fs')"
    and "(a, s) \<in> set (par' @ sq')"
  shows "(a, s) \<in> set (par @ sq) \<or> s \<in> ran (map_of slvs)"
  using assms
proof (induction as arbitrary: par sq fs)
  case (Cons x as)
  have first: "first_solver slvs cs = Some s \<Longrightarrow> s \<in> ran (map_of slvs)" for cs
    by (induction cs) (auto simp: ran_def split: option.splits)
  from Cons.prems show ?case
    by (auto simp: Let_def chooseSolver_def split: if_splits option.splits bool.splits prod.splits
        dest!: Cons.IH intro: first)
qed auto

lemma always_Prober_Solve:
  assumes "\<And>s. s \<in> ran (map_of slvs) \<Longrightarrow> solver_keeps R s"
  shows "always R (Prober_Solve e slvs as)"
proof -
  obtain par sq fs where sel: "select_solvers slvs as ([], [], []) = (par, sq, fs)"
    using prod_cases3 by blast
  have "solver_keeps R s" if "(a, s) \<in> set (par @ sq)" for a s
    using select_solvers_from [OF sel that] assms by simp
  then show ?thesis
    unfolding Prober_Solve_def sel prod.case
    by (intro always_intros always_parallelSolve always_sequentialSolve) auto
qed

end

section \<open>The choice of a solver\<close>

text \<open>The specification of the choice: the solver of the greatest type that has one.\<close>

definition best_solver :: "solvers \<Rightarrow> challenge set \<Rightarrow> solver option \<Rightarrow> bool" where
  "best_solver slvs cs r \<longleftrightarrow>
     (case r of
        None \<Rightarrow> \<forall>c \<in> cs. map_of slvs (chl_Type c) = None
      | Some s \<Rightarrow> \<exists>c \<in> cs. map_of slvs (chl_Type c) = Some s
          \<and> (\<forall>d \<in> cs. map_of slvs (chl_Type d) \<noteq> None \<longrightarrow> chl_Type d \<le> chl_Type c))"

lemma best_solver_None: "best_solver slvs cs None \<longleftrightarrow> (\<forall>c \<in> cs. map_of slvs (chl_Type c) = None)"
  by (simp add: best_solver_def)

lemma best_solver_SomeE:
  assumes "best_solver slvs cs (Some s)"
  obtains c where "c \<in> cs" "map_of slvs (chl_Type c) = Some s"
    "\<And>d. d \<in> cs \<Longrightarrow> map_of slvs (chl_Type d) \<noteq> None \<Longrightarrow> chl_Type d \<le> chl_Type c"
  using assms by (auto simp: best_solver_def)

lemma best_solver_unique:
  assumes "best_solver slvs cs r" and "best_solver slvs cs r'"
  shows "r = r'"
proof (cases r; cases r')
  fix s s' assume r: "r = Some s" "r' = Some s'"
  obtain c where c: "c \<in> cs" "map_of slvs (chl_Type c) = Some s"
    "\<And>d. d \<in> cs \<Longrightarrow> map_of slvs (chl_Type d) \<noteq> None \<Longrightarrow> chl_Type d \<le> chl_Type c"
    using assms(1) r(1) by (auto elim: best_solver_SomeE)
  obtain d where d: "d \<in> cs" "map_of slvs (chl_Type d) = Some s'"
    "\<And>x. x \<in> cs \<Longrightarrow> map_of slvs (chl_Type x) \<noteq> None \<Longrightarrow> chl_Type x \<le> chl_Type d"
    using assms(2) r(2) by (auto elim: best_solver_SomeE)
  have "chl_Type c = chl_Type d"
    using c(3) [OF d(1)] d(3) [OF c(1)] c(2) d(2) by (simp add: antisym)
  with c(2) d(2) r show ?thesis by simp
qed (use assms in \<open>auto simp: best_solver_None elim: best_solver_SomeE\<close>)

lemma first_solver_sorted:
  assumes "sorted_wrt (\<lambda>x y. chl_Type y \<le> chl_Type x) cs"
  shows "best_solver slvs (set cs) (first_solver slvs cs)"
  using assms
proof (induction cs)
  case (Cons c cs)
  then show ?case
    by (auto simp: best_solver_def split: option.splits)
qed (simp add: best_solver_def)

text \<open>
  The solver chosen for an authorization is the one registered for the greatest
  challenge type, in the order of strings, among the offered challenges that have a solver; none is
  chosen exactly when no offered challenge has one.  The choice does not depend on the order in which
  the server lists the challenges.
\<close>

theorem chooseSolver_greatest_type:
  "best_solver slvs (set (az_Challenges authz)) (chooseSolver slvs authz)
   \<and> (\<forall>authz'. set (az_Challenges authz') = set (az_Challenges authz) \<longrightarrow>
        chooseSolver slvs authz' = chooseSolver slvs authz)"
proof -
  have spec: "best_solver slvs (set (az_Challenges a)) (chooseSolver slvs a)" for a
  proof -
    have "sorted_wrt (\<lambda>x y. chl_Type y \<le> chl_Type x) (az_Challenges (sort_challenges a))"
      using sorted_sort_key [of chl_Type "rev (az_Challenges a)"]
      by (simp add: sort_challenges_def sorted_map sorted_wrt_rev)
    from first_solver_sorted [OF this] show ?thesis
      by (simp add: chooseSolver_def sort_challenges_def)
  qed
  then show ?thesis
    using best_solver_unique by metis
qed

definition http_chl :: challenge where
  "http_chl = zero_challenge\<lparr>chl_Type := HTTP01\<rparr>"

definition dns_chl :: challenge where
  "dns_chl = zero_challenge\<lparr>chl_Type := DNS01\<rparr>"

definition no_op_solver :: solver where
  "no_op_solver = \<lparr>slv_Solve = (\<lambda>_. ret None), slv_PreSolve = None, slv_CleanUp = None, slv_Sequential = None\<rparr>"

theorem chooseSolver_greatest_type_witness:
  "chooseSolver [(DNS01, no_op_solver)] (zero_authorization\<lparr>az_Challenges := [dns_chl, http_chl]\<rparr>)
   = chooseSolver [(DNS01, no_op_solver)] (zero_authorization\<lparr>az_Challenges := [http_chl, dns_chl]\<rparr>)"
  by (rule chooseSolver_greatest_type [THEN conjunct2, rule_format]) auto

section \<open>Validation is honest\<close>

lemma retries_success:
  assumes "retries op s res" and "res = (Return (None, rep), t)" and "always grows op"
  shows "\<exists>u c. grows s u \<and> op u = (Return (None, c, rep), t)"
  using assms(1,2)
proof (induction rule: retries.induct)
  case (retries_again s err rep' v d res)
  then obtain u c where u: "grows (v\<lparr>w_now := w_now v + d\<rparr>) u" "op u = (Return (None, c, rep), t)"
    by blast
  have "grows s (v\<lparr>w_now := w_now v + d\<rparr>)"
    using alwaysD [OF assms(3) retries_again(1)] retries_again(2) by (auto simp: grows_def)
  with u growth.step_trans show ?case by blast
qed (auto intro: growth.step_refl)

lemma checkAuthorizationStatus_True: "checkAuthorizationStatus a = Inr True \<longleftrightarrow> az_Status a = StatusValid"
  by (auto simp: checkAuthorizationStatus_def status_defs Let_def split: option.splits)

lemma checkChallengeStatus_True:
  "checkChallengeStatus c = Inr True \<longleftrightarrow> chl_Status (ec_Challenge c) = StatusValid"
  by (auto simp: checkChallengeStatus_def status_defs Let_def)

lemma validate_operation_nil:
  assumes "validate_operation e c url u = (Return (None, ca, rep), t)"
  obtains authz where "Authorizations_Get e c url u = (Return (Inr authz), t)"
    and "checkAuthorizationStatus authz = Inr True"
proof -
  obtain authz v where run: "Authorizations_Get e c url u = (Return (Inr authz), v)"
    and after: "(case checkAuthorizationStatus authz of
         Inl err \<Rightarrow> ret (Some err, True, None)
       | Inr valid \<Rightarrow>
           if valid then ret (None, False, None)
           else ret (Some (Err ''the server didn't respond to our request''), False, None)) v
       = (Return (None, ca, rep), t)"
    using assms by (auto simp: validate_operation_def handle_Return_eq)
  show thesis
    using after by (cases "checkAuthorizationStatus authz") (auto split: if_splits intro!: that simp: run)
qed

text \<open>On whose word a validation succeeded: the server called the challenge or its authorization valid.\<close>

definition server_validated :: "env \<Rightarrow> core \<Rightarrow> string \<Rightarrow> world \<Rightarrow> world \<Rightarrow> bool" where
  "server_validated e c url w t \<longleftrightarrow>
     (\<exists>chlng v. Challenges_New e c url w = (Return (Inr chlng), v)
        \<and> ((chl_Status (ec_Challenge chlng) = ''valid'' \<and> t = v)
           \<or> (\<exists>authz u. grows v u
                \<and> Authorizations_Get e c (ec_AuthorizationURL chlng) u = (Return (Inr authz), t)
                \<and> az_Status authz = ''valid'')))"

lemma validate_nil:
  assumes "retry_ok e" and "validate e c domain chlg w = (Return None, t)"
  shows "server_validated e c (chl_URL chlg) w t"
proof -
  obtain chlng v where new: "Challenges_New e c (chl_URL chlg) w = (Return (Inr chlng), v)"
    and rest: "(case checkChallengeStatus chlng of
         Inl err \<Rightarrow> ret (Some err)
       | Inr valid \<Rightarrow> if valid then ret None
           else (let ra = (case Atoi (ec_RetryAfter chlng) of None \<Rightarrow> 5 | Some n \<Rightarrow> n) in
              bind (retry e (validate_backoff ra) (validate_operation e c (ec_AuthorizationURL chlng)))
                (\<lambda>(err, _). ret err))) v = (Return None, t)"
    using assms(2) by (auto simp: validate_def handle_Return_eq)
  let ?op = "validate_operation e c (ec_AuthorizationURL chlng)"
  show ?thesis
  proof (cases "checkChallengeStatus chlng = Inr True")
    case True
    with rest have "t = v" by simp
    moreover have "chl_Status (ec_Challenge chlng) = ''valid''"
      using True by (simp add: checkChallengeStatus_True StatusValid_def)
    ultimately show ?thesis using new unfolding server_validated_def by blast
  next
    case False
    then obtain bo rep where "retry e bo ?op v = (Return (None, rep), t)"
      using rest by (auto simp: bind_Return_eq split: sum.splits if_splits)
    moreover have "retries ?op v (retry e bo ?op v)" for bo
      using assms(1) by (simp add: retry_ok_def)
    moreover have "always grows ?op"
      unfolding validate_operation_def by (intro always_intros growing.always_Authorizations assms)
    ultimately obtain u ca where "grows v u" "?op u = (Return (None, ca, rep), t)"
      using retries_success by metis
    from this(2) obtain authz where
      "Authorizations_Get e c (ec_AuthorizationURL chlng) u = (Return (Inr authz), t)"
      and "checkAuthorizationStatus authz = Inr True"
      by (rule validate_operation_nil)
    with new \<open>grows v u\<close> show ?thesis
      unfolding server_validated_def by (auto simp: checkAuthorizationStatus_True StatusValid_def)
  qed
qed

text \<open>
  C8 (safety).  A challenge counts as solved only on the word of the server: \<^verbatim>\<open>validate\<close> returns nil only
  if the reply to starting the challenge, or the last reply fetched later from the authorization URL,
  has the status \<^verbatim>\<open>valid\<close>.
\<close>

theorem validate_needs_valid_status:
  assumes "retry_ok e" and "validate e c domain chlg w = (Return None, t)"
  shows "\<exists>chlng v. Challenges_New e c (chl_URL chlg) w = (Return (Inr chlng), v)
    \<and> ((chl_Status (ec_Challenge chlng) = ''valid'' \<and> t = v)
       \<or> (\<exists>authz u. grows v u
            \<and> Authorizations_Get e c (ec_AuthorizationURL chlng) u = (Return (Inr authz), t)
            \<and> az_Status authz = ''valid''))"
  using validate_nil [OF assms] by (simp add: server_validated_def)

section \<open>The prober reports every failure\<close>

text \<open>The solver was called on its authorization, between the two states, and returned nil.\<close>

definition solved_between :: "world \<Rightarrow> world \<Rightarrow> selectedAuthSolver \<Rightarrow> bool" where
  "solved_between w t p \<longleftrightarrow>
     (\<exists>u v. grows w u \<and> slv_Solve (snd p) (fst p) u = (Return None, v) \<and> grows v t)"

definition growing_solvers :: "selectedAuthSolver list \<Rightarrow> bool" where
  "growing_solvers l \<longleftrightarrow> (\<forall>p \<in> set l. solver_keeps grows (snd p))"

lemma solved_between_mono:
  "solved_between u v p \<Longrightarrow> grows w u \<Longrightarrow> grows v t \<Longrightarrow> solved_between w t p"
  unfolding solved_between_def using growth.step_trans by blast

lemma record_failure_Nil [simp]: "record_failure d err fs = [] \<longleftrightarrow> err = None \<and> fs = []"
  by (auto simp: record_failure_def split: option.splits)

lemma preSolve_phase_nil: "for_each l preSolve_step fs w = (Return [], t) \<Longrightarrow> fs = []"
  by (induction l arbitrary: fs w) (fastforce simp: preSolve_step_def bind_Return_eq)+

lemma solve_step_nil:
  assumes "solve_step p fs w = (Return [], t)"
  shows "fs = [] \<and> solved_between w t p"
  using assms growth.step_refl
  by (cases p) (auto simp: solve_step_def bind_Return_eq solved_between_def Let_def split: if_splits)

lemma grows_solve_step: "solver_keeps grows (snd p) \<Longrightarrow> always grows (solve_step p fs)"
  unfolding solve_step_def by (cases p) (auto intro!: always_intros growing.always_Solve simp: Let_def)

lemma solve_phase_nil:
  assumes "for_each l solve_step fs w = (Return [], t)" and "growing_solvers l"
  shows "fs = [] \<and> (\<forall>p \<in> set l. solved_between w t p)"
  using assms
proof (induction l arbitrary: fs w)
  case (Cons p l)
  then obtain fs1 u where one: "solve_step p fs w = (Return fs1, u)"
    and rest: "for_each l solve_step fs1 u = (Return [], t)"
    by (auto simp: bind_Return_eq)
  have keeps: "solver_keeps grows (snd q)" if "q \<in> set (p # l)" for q
    using Cons.prems(2) that by (auto simp: growing_solvers_def)
  have wu: "grows w u" using alwaysD [OF grows_solve_step one] keeps by simp
  have ut: "grows u t"
    using rest by (rule alwaysD [rotated]) (auto intro!: always_intros grows_solve_step keeps)
  from Cons.IH [OF rest] keeps have "fs1 = []" "\<forall>q \<in> set l. solved_between u t q"
    by (simp_all add: growing_solvers_def)
  with solve_step_nil [of p fs w u] one show ?case
    using wu ut growth.step_refl solved_between_mono by fastforce
qed simp

lemma deferring_Return:
  assumes "deferring m d s = (Return r, t)"
  obtains u where "m s = (Return r, u)" "d u = (Return (), t)"
  using assms by (auto simp: deferring_def split: outcome.splits prod.splits)

lemma grows_clean_all: "growing_solvers l \<Longrightarrow> always grows (for_each l (\<lambda>(authz, solvr) _. cleanUp solvr authz) ())"
  unfolding growing_solvers_def by (fastforce intro!: always_intros growing.always_cleanUp)

lemma grows_preSolve_phase: "growing_solvers l \<Longrightarrow> always grows (for_each l preSolve_step fs)"
  unfolding growing_solvers_def preSolve_step_def by (fastforce intro!: always_intros growing.always_preSolve)

lemma parallelSolve_nil:
  assumes "parallelSolve l fs w = (Return [], t)" and "growing_solvers l"
  shows "fs = [] \<and> (\<forall>p \<in> set l. solved_between w t p)"
proof -
  obtain fs1 u v where pre: "for_each l preSolve_step fs w = (Return fs1, u)"
    and slv: "for_each l solve_step fs1 u = (Return [], v)"
    and cln: "for_each l (\<lambda>(authz, solvr) _. cleanUp solvr authz) () v = (Return (), t)"
    using assms(1) by (auto simp: parallelSolve_def bind_Return_eq elim!: deferring_Return)
  have "grows w u" "grows v t"
    using alwaysD [OF grows_preSolve_phase pre] alwaysD [OF grows_clean_all cln] assms(2) by auto
  with solve_phase_nil [OF slv assms(2)] preSolve_phase_nil pre show ?thesis
    using solved_between_mono by blast
qed

lemma sequentialSolve_nil:
  assumes "sequentialSolve e l fs w = (Return [], t)" and "growing_solvers l"
  shows "fs = [] \<and> (\<forall>p \<in> set l. solved_between w t p)"
  using assms
proof (induction l arbitrary: fs w)
  case (Cons p l)
  obtain a s where p: "p = (a, s)" by (cases p)
  have keeps: "solver_keeps grows s" and l: "growing_solvers l"
    using Cons.prems(2) by (simp_all add: growing_solvers_def p)
  have never: "sequentialSolve e l (put d er fs) v \<noteq> (Return [], t)" for d er v
    using Cons.IH [of "put d er fs" v] l by auto
  obtain u v x where pre: "preSolve s a w = (Return None, u)"
    and slv: "slv_Solve s a u = (Return None, v)"
    and wait: "bind (cleanUp s a) (\<lambda>_. if l = [] then ret ()
        else (case slv_Sequential s of
                None \<Rightarrow> panic ''interface conversion: missing method Sequential''
              | Some (_, interval) \<Rightarrow> sleep e interval)) v = (Return (), x)"
    and rest: "sequentialSolve e l fs x = (Return [], t)"
    using Cons.prems(1)
    by (fastforce simp: p bind_Return_eq Let_def never split: option.splits)
  have "grows w u" using alwaysD [OF growing.always_preSolve [OF keeps] pre] .
  moreover have "grows v x"
    using wait by (rule alwaysD [rotated]) (intro always_intros growing.always_cleanUp keeps)
  moreover have xt: "grows x t"
    using alwaysD [OF growing.always_sequentialSolve rest] l by (fastforce simp: growing_solvers_def)
  moreover have uv: "grows u v" using alwaysD [OF growing.always_Solve [OF keeps] slv] .
  moreover have "fs = []" "\<forall>q \<in> set l. solved_between x t q"
    using Cons.IH [OF rest l] by auto
  ultimately show ?case
    using slv growth.step_trans solved_between_mono growth.step_refl
    unfolding p solved_between_def by (metis (no_types, lifting) fst_conv set_ConsD snd_conv)
qed simp

lemma select_solvers_all:
  assumes "select_solvers slvs as (par, sq, fs) = (par', sq', fs')"
  shows "(fs' = [] \<longrightarrow> fs = [] \<and> (\<forall>a \<in> set as. az_Status a \<noteq> StatusValid \<longrightarrow>
            (\<exists>s. chooseSolver slvs a = Some s \<and> (sort_challenges a, s) \<in> set (par' @ sq'))))
    \<and> set (par @ sq) \<subseteq> set (par' @ sq')"
  using assms
proof (induction as arbitrary: par sq fs)
  case (Cons x as)
  show ?case
  proof (cases "az_Status x = StatusValid")
    case True
    then show ?thesis using Cons.prems by (auto dest!: Cons.IH)
  next
    case False
    show ?thesis
    proof (cases "chooseSolver slvs x")
      case None
      then show ?thesis using Cons.prems False by (auto simp: Let_def dest!: Cons.IH)
    next
      case (Some s)
      then show ?thesis
        using Cons.prems False
        by (cases "\<exists>i. slv_Sequential s = Some (True, i)")
          (auto simp: Let_def split: option.splits bool.splits prod.splits dest!: Cons.IH)
    qed
  qed
qed auto

lemma Prober_Solve_nil:
  assumes "Prober_Solve e slvs as w = (Return None, t)"
    and "\<And>s. s \<in> ran (map_of slvs) \<Longrightarrow> solver_keeps grows s"
    and "a \<in> set as" and "az_Status a \<noteq> StatusValid"
  obtains s where "chooseSolver slvs a = Some s" "solved_between w t (sort_challenges a, s)"
proof -
  obtain par sq fs where sel: "select_solvers slvs as ([], [], []) = (par, sq, fs)"
    using prod_cases3 by blast
  have "growing_solvers par" "growing_solvers sq"
    using growing.select_solvers_from [OF sel] assms(2) by (fastforce simp: growing_solvers_def)+
  note grow = this
  obtain u fs1 where par: "parallelSolve par fs w = (Return fs1, u)"
    and sq: "sequentialSolve e sq fs1 u = (Return [], t)"
    using assms(1) by (auto simp: Prober_Solve_def sel bind_Return_eq split: if_splits)
  have wu: "grows w u" and ut: "grows u t"
    using alwaysD [OF growing.always_parallelSolve par] alwaysD [OF growing.always_sequentialSolve sq] grow
    by (fastforce simp: growing_solvers_def)+
  have "fs1 = []" "\<forall>p \<in> set sq. solved_between u t p"
    using sequentialSolve_nil [OF sq grow(2)] by auto
  then have "fs = []" "\<forall>p \<in> set (par @ sq). solved_between w t p"
    using parallelSolve_nil [of par fs w u] par grow(1) solved_between_mono wu ut growth.step_refl by auto
  with select_solvers_all [OF sel] assms(3,4) that show thesis by blast
qed

text \<open>
  C7 (functional).  The prober reports success only if every authorization that was not valid already has a
  solver, and the \<^verbatim>\<open>Solve\<close> method of that solver was called on it during the run and returned nil.  Of
  the solvers it is assumed that they do not take back what happened: the trace and the clock only grow.
\<close>

theorem Prober_Solve_nil_all_solved:
  assumes "Prober_Solve e slvs as w = (Return None, t)"
    and "\<And>s. s \<in> ran (map_of slvs) \<Longrightarrow> solver_keeps grows s"
    and "a \<in> set as" and "az_Status a \<noteq> ''valid''"
  shows "\<exists>s u v. chooseSolver slvs a = Some s
    \<and> grows w u \<and> slv_Solve s (sort_challenges a) u = (Return None, v) \<and> grows v t"
  using Prober_Solve_nil [of e slvs as w t a] assms
  unfolding solved_between_def StatusValid_def by (metis fst_conv snd_conv)

theorem Prober_Solve_nil_all_solved_witness:
  "\<exists>s u v. chooseSolver [(DNS01, no_op_solver)] (zero_authorization\<lparr>az_Challenges := [dns_chl]\<rparr>) = Some s
     \<and> grows sample_world u
     \<and> slv_Solve s (sort_challenges (zero_authorization\<lparr>az_Challenges := [dns_chl]\<rparr>)) u = (Return None, v)
     \<and> grows v sample_world"
proof (rule Prober_Solve_nil_all_solved [of sample_env _ "[zero_authorization\<lparr>az_Challenges := [dns_chl]\<rparr>]"])
  show "solver_keeps grows s" if "s \<in> ran (map_of [(DNS01, no_op_solver)])" for s
    using that growth.always_ret [of None]
    by (auto simp: ran_def solver_keeps_def no_op_solver_def split: if_splits)
qed (simp_all add: Prober_Solve_def chooseSolver_def sort_challenges_def dns_chl_def no_op_solver_def
      status_defs zero_defs parallelSolve_def deferring_def preSolve_step_def solve_step_def
      preSolve_def cleanUp_def record_failure_def go_simps Let_def)

section \<open>The order of the calls\<close>

text \<open>
  A solver whose methods record that they were called and return what a script says: with it the trace
  shows which calls the prober makes, and in which order.
\<close>

definition scripted ::
  "env \<Rightarrow> (authorization \<Rightarrow> goerror option) \<Rightarrow> (authorization \<Rightarrow> goerror option) \<Rightarrow> int \<Rightarrow> solver" where
  "scripted e pre slv interval =
     \<lparr>slv_Solve = (\<lambda>a. bind (observe e (EvSolve a)) (\<lambda>_. ret (slv a))),
      slv_PreSolve = Some (\<lambda>a. bind (observe e (EvPreSolve a)) (\<lambda>_. ret (pre a))),
      slv_CleanUp = Some (\<lambda>a. bind (observe e (EvCleanUp a)) (\<lambda>_. ret None)),
      slv_Sequential = Some (0 < interval, interval)\<rparr>"

text \<open>A loop whose body always returns, and whose calls can be predicted.\<close>

fun loop_events :: "('x \<Rightarrow> 'a \<Rightarrow> event list) \<Rightarrow> ('x \<Rightarrow> 'a \<Rightarrow> 'a) \<Rightarrow> 'x list \<Rightarrow> 'a \<Rightarrow> event list" where
  "loop_events ev f [] acc = []"
| "loop_events ev f (x # xs) acc = ev x acc @ loop_events ev f xs (f x acc)"

lemma for_each_script:
  assumes "\<And>x acc w. x \<in> set xs \<Longrightarrow>
      \<exists>t. body x acc w = (Return (f x acc), t) \<and> w_trace t = w_trace w @ ev x acc"
  shows "\<exists>t. for_each xs body acc w = (Return (fold f xs acc), t)
    \<and> w_trace t = w_trace w @ loop_events ev f xs acc"
  using assms
proof (induction xs arbitrary: acc w)
  case (Cons x xs)
  obtain u where u: "body x acc w = (Return (f x acc), u)" "w_trace u = w_trace w @ ev x acc"
    using Cons.prems [of x acc w] by auto
  obtain t where "for_each xs body (f x acc) u = (Return (fold f xs (f x acc)), t)"
    "w_trace t = w_trace u @ loop_events ev f xs (f x acc)"
    using Cons.IH [of "f x acc" u] Cons.prems by auto
  with u show ?case by (simp add: bind_def)
qed simp

lemma loop_events_const: "loop_events (\<lambda>x _. ev x) f xs acc = concat (map ev xs)"
  by (induction xs arbitrary: acc) simp_all

definition pre_failures ::
  "(authorization \<Rightarrow> goerror option) \<Rightarrow> authorization list \<Rightarrow> failures \<Rightarrow> failures" where
  "pre_failures pre as fs = fold (\<lambda>a. record_failure (GetTargetedDomain a) (pre a)) as fs"

lemma scripted_pre_phase:
  "\<exists>t. for_each (map (\<lambda>a. (a, scripted e pre slv n)) as) preSolve_step fs w =
     (Return (pre_failures pre as fs), t) \<and> w_trace t = w_trace w @ map EvPreSolve as"
proof -
  have "\<exists>t. for_each (map (\<lambda>a. (a, scripted e pre slv n)) as) preSolve_step fs w =
     (Return (fold (\<lambda>p. record_failure (GetTargetedDomain (fst p)) (pre (fst p)))
        (map (\<lambda>a. (a, scripted e pre slv n)) as) fs), t)
     \<and> w_trace t = w_trace w @ loop_events (\<lambda>p _. [EvPreSolve (fst p)])
         (\<lambda>p. record_failure (GetTargetedDomain (fst p)) (pre (fst p)))
         (map (\<lambda>a. (a, scripted e pre slv n)) as) fs"
    by (rule for_each_script) (auto simp: preSolve_step_def preSolve_def scripted_def go_simps)
  then show ?thesis
    by (simp add: loop_events_const pre_failures_def fold_map comp_def concat_map_singleton)
qed

lemma scripted_clean_phase:
  "\<exists>t. for_each (map (\<lambda>a. (a, scripted e pre slv n)) as) (\<lambda>(a, s) _. cleanUp s a) () w = (Return (), t)
     \<and> w_trace t = w_trace w @ map EvCleanUp as"
proof -
  have "\<exists>t. for_each (map (\<lambda>a. (a, scripted e pre slv n)) as) (\<lambda>(a, s) _. cleanUp s a) () w =
     (Return (fold (\<lambda>_ _. ()) (map (\<lambda>a. (a, scripted e pre slv n)) as) ()), t)
     \<and> w_trace t = w_trace w @ loop_events (\<lambda>p _. [EvCleanUp (fst p)]) (\<lambda>_ _. ())
         (map (\<lambda>a. (a, scripted e pre slv n)) as) ()"
    by (rule for_each_script) (auto simp: cleanUp_def scripted_def go_simps)
  then show ?thesis
    by (simp add: loop_events_const comp_def concat_map_singleton)
qed

text \<open>The second phase skips what has failed already.\<close>

fun still_open :: "(authorization \<Rightarrow> goerror option) \<Rightarrow> authorization list \<Rightarrow> failures \<Rightarrow> authorization list" where
  "still_open slv [] fs = []"
| "still_open slv (a # as) fs =
     (if map_of fs (GetTargetedDomain a) \<noteq> None then still_open slv as fs
      else a # still_open slv as (record_failure (GetTargetedDomain a) (slv a) fs))"

fun solve_failures :: "(authorization \<Rightarrow> goerror option) \<Rightarrow> authorization list \<Rightarrow> failures \<Rightarrow> failures" where
  "solve_failures slv [] fs = fs"
| "solve_failures slv (a # as) fs =
     (if map_of fs (GetTargetedDomain a) \<noteq> None then solve_failures slv as fs
      else solve_failures slv as (record_failure (GetTargetedDomain a) (slv a) fs))"

lemma scripted_solve_phase:
  "\<exists>t. for_each (map (\<lambda>a. (a, scripted e pre slv n)) as) solve_step fs w =
     (Return (solve_failures slv as fs), t) \<and> w_trace t = w_trace w @ map EvSolve (still_open slv as fs)"
proof (induction as arbitrary: fs w)
  case (Cons a as)
  show ?case
  proof (cases "map_of fs (GetTargetedDomain a)")
    case None
    let ?u = "w\<lparr>w_trace := w_trace w @ [EvSolve a], w_now := w_now w + int (latency e (w_trace w))\<rparr>"
    let ?fs = "record_failure (GetTargetedDomain a) (slv a) fs"
    obtain t where "for_each (map (\<lambda>a. (a, scripted e pre slv n)) as) solve_step ?fs ?u =
        (Return (solve_failures slv as ?fs), t)" "w_trace t = w_trace ?u @ map EvSolve (still_open slv as ?fs)"
      using Cons.IH by blast
    moreover have "solve_step (a, scripted e pre slv n) fs w = (Return ?fs, ?u)"
      using None by (simp add: solve_step_def scripted_def go_simps Let_def)
    ultimately show ?thesis using None by (simp add: bind_def)
  next
    case (Some er)
    then show ?thesis
      using Cons.IH [of fs w] by (simp add: solve_step_def Let_def)
  qed
qed simp

lemma pre_failures_map_of:
  assumes "distinct (map GetTargetedDomain as)"
  shows "map_of (pre_failures pre as fs) d =
    (case find (\<lambda>a. GetTargetedDomain a = d \<and> pre a \<noteq> None) as of
       Some a \<Rightarrow> pre a | None \<Rightarrow> map_of fs d)"
  using assms
proof (induction as arbitrary: fs)
  case (Cons a as)
  have "find (\<lambda>b. GetTargetedDomain b = GetTargetedDomain a \<and> pre b \<noteq> None) as = None"
    using Cons.prems by (auto simp: find_None_iff image_iff)
  with Cons show ?case
    by (auto simp: pre_failures_def record_failure_def split: option.splits)
qed (simp add: pre_failures_def)

lemma still_open_distinct:
  "distinct (map GetTargetedDomain as) \<Longrightarrow>
   still_open slv as fs = filter (\<lambda>a. map_of fs (GetTargetedDomain a) = None) as"
proof (induction as arbitrary: fs)
  case (Cons a as)
  have "filter (\<lambda>b. map_of (record_failure (GetTargetedDomain a) (slv a) fs) (GetTargetedDomain b) = None) as
      = filter (\<lambda>b. map_of fs (GetTargetedDomain b) = None) as"
    using Cons.prems by (intro filter_cong) (auto simp: record_failure_def image_iff split: option.splits)
  with Cons show ?case by auto
qed simp

lemma solve_failures_distinct:
  "distinct (map GetTargetedDomain as) \<Longrightarrow> a \<in> set as \<Longrightarrow>
   map_of (solve_failures slv as fs) (GetTargetedDomain a) =
     (case map_of fs (GetTargetedDomain a) of None \<Rightarrow> slv a | Some er \<Rightarrow> Some er)"
proof (induction as arbitrary: fs)
  case (Cons b as)
  have other: "map_of (solve_failures slv as gs) d = map_of gs d"
    if "d \<notin> GetTargetedDomain ` set as" for gs d
    using that by (induction as arbitrary: gs) (auto simp: record_failure_def split: option.splits)
  show ?case
  proof (cases "a = b")
    case True
    have "GetTargetedDomain b \<notin> GetTargetedDomain ` set as" using Cons.prems(1) by simp
    with True show ?thesis
      by (auto simp: other record_failure_def split: option.splits)
  next
    case False
    then have "GetTargetedDomain a \<noteq> GetTargetedDomain b" "a \<in> set as"
      using Cons.prems by (auto simp: image_iff)
    with Cons show ?thesis
      by (auto simp: record_failure_def split: option.splits)
  qed
qed simp

text \<open>
  C26 (functional).  The calls of the parallel pass, for solvers that answer as scripted: first every
  challenge is presented, in order; then those without a failure so far are solved, in order; then every
  challenge is cleaned up, in order, the ones that could not be presented included.  A domain fails
  exactly if it had failed before, or presenting or solving it failed.
\<close>

theorem parallelSolve_calls:
  assumes "distinct (map GetTargetedDomain as)"
  shows "\<exists>fs' t. parallelSolve (map (\<lambda>a. (a, scripted e pre slv n)) as) fs w = (Return fs', t)
    \<and> w_trace t = w_trace w @ map EvPreSolve as
        @ map EvSolve (filter (\<lambda>a. map_of fs (GetTargetedDomain a) = None \<and> pre a = None) as)
        @ map EvCleanUp as
    \<and> (\<forall>a \<in> set as. map_of fs' (GetTargetedDomain a) =
         (case pre a of Some er \<Rightarrow> Some er
          | None \<Rightarrow> (case map_of fs (GetTargetedDomain a) of Some er \<Rightarrow> Some er | None \<Rightarrow> slv a)))"
proof -
  let ?l = "map (\<lambda>a. (a, scripted e pre slv n)) as"
  let ?fs = "pre_failures pre as fs"
  obtain u where u: "for_each ?l preSolve_step fs w = (Return ?fs, u)"
    "w_trace u = w_trace w @ map EvPreSolve as"
    using scripted_pre_phase by blast
  obtain v where v: "for_each ?l solve_step ?fs u = (Return (solve_failures slv as ?fs), v)"
    "w_trace v = w_trace u @ map EvSolve (still_open slv as ?fs)"
    using scripted_solve_phase by blast
  obtain t where t: "for_each ?l (\<lambda>(a, s) _. cleanUp s a) () v = (Return (), t)"
    "w_trace t = w_trace v @ map EvCleanUp as"
    using scripted_clean_phase by blast
  have pre: "map_of ?fs (GetTargetedDomain a) =
      (case pre a of Some er \<Rightarrow> Some er | None \<Rightarrow> map_of fs (GetTargetedDomain a))" if "a \<in> set as" for a
  proof -
    have only: "b = a" if "b \<in> set as" "GetTargetedDomain b = GetTargetedDomain a" for b
      using that \<open>a \<in> set as\<close> assms by (simp add: distinct_map inj_on_def)
    have found: "b = a \<and> pre a \<noteq> None"
      if "find (\<lambda>b. GetTargetedDomain b = GetTargetedDomain a \<and> pre b \<noteq> None) as = Some b" for b
      using that only by (metis (mono_tags, lifting) find_Some_iff nth_mem)
    show ?thesis
    proof (cases "find (\<lambda>b. GetTargetedDomain b = GetTargetedDomain a \<and> pre b \<noteq> None) as")
      case None
      with that have "pre a = None" by (auto simp: find_None_iff)
      with None show ?thesis by (simp add: pre_failures_map_of [OF assms] del: not_None_eq)
    next
      case (Some b)
      with found [OF Some] show ?thesis
        by (auto simp: pre_failures_map_of [OF assms] simp del: not_None_eq)
    qed
  qed
  have "filter (\<lambda>a. map_of ?fs (GetTargetedDomain a) = None) as =
      filter (\<lambda>a. map_of fs (GetTargetedDomain a) = None \<and> pre a = None) as"
    by (intro filter_cong) (auto simp: pre split: option.splits)
  then have "w_trace t = w_trace w @ map EvPreSolve as
        @ map EvSolve (filter (\<lambda>a. map_of fs (GetTargetedDomain a) = None \<and> pre a = None) as)
        @ map EvCleanUp as"
    using u v t by (simp add: still_open_distinct [OF assms])
  moreover have "parallelSolve ?l fs w = (Return (solve_failures slv as ?fs), t)"
    using u v t by (simp add: parallelSolve_def bind_def deferring_def)
  moreover have "\<forall>a \<in> set as. map_of (solve_failures slv as ?fs) (GetTargetedDomain a) =
         (case pre a of Some er \<Rightarrow> Some er
          | None \<Rightarrow> (case map_of fs (GetTargetedDomain a) of Some er \<Rightarrow> Some er | None \<Rightarrow> slv a))"
    by (auto simp: solve_failures_distinct [OF assms] pre split: option.splits)
  ultimately show ?thesis by blast
qed

definition named_authz :: "string \<Rightarrow> authorization" where
  "named_authz d = zero_authorization\<lparr>az_Identifier := \<lparr>id_Type = ''dns'', id_Value = d\<rparr>\<rparr>"

theorem parallelSolve_calls_witness:
  "\<exists>fs' t. parallelSolve (map (\<lambda>a. (a, scripted sample_env (\<lambda>_. None) (\<lambda>_. None) 0))
       [named_authz ''a'', named_authz ''b'']) [] sample_world = (Return fs', t)
     \<and> w_trace t = [EvPreSolve (named_authz ''a''), EvPreSolve (named_authz ''b''),
         EvSolve (named_authz ''a''), EvSolve (named_authz ''b''),
         EvCleanUp (named_authz ''a''), EvCleanUp (named_authz ''b'')]"
  using parallelSolve_calls [of "[named_authz ''a'', named_authz ''b'']" sample_env "\<lambda>_. None" "\<lambda>_. None"
      0 "[]" sample_world]
  by (auto simp: named_authz_def GetTargetedDomain_def zero_authorization_def sample_world_def)

text \<open>What one turn of the sequential pass does.\<close>

definition turn_events ::
  "(authorization \<Rightarrow> goerror option) \<Rightarrow> (authorization \<Rightarrow> goerror option) \<Rightarrow> int \<Rightarrow> bool
    \<Rightarrow> authorization \<Rightarrow> event list" where
  "turn_events pre slv interval followed a =
     [EvPreSolve a] @ (if pre a = None then [EvSolve a] else []) @ [EvCleanUp a]
     @ (if followed \<and> pre a = None \<and> slv a = None then [EvSleep interval] else [])"

fun sequence_events ::
  "(authorization \<Rightarrow> goerror option) \<Rightarrow> (authorization \<Rightarrow> goerror option) \<Rightarrow> int
    \<Rightarrow> authorization list \<Rightarrow> event list" where
  "sequence_events pre slv interval [] = []"
| "sequence_events pre slv interval (a # as) =
     turn_events pre slv interval (as \<noteq> []) a @ sequence_events pre slv interval as"

text \<open>
  C27 (functional).  The calls of the sequential pass: each challenge is presented, solved if presenting
  it succeeded, and cleaned up before the next one is touched; between two challenges the prober waits
  for the interval of the solver, but not after a failed one and not after the last.
\<close>

theorem sequentialSolve_calls:
  "\<exists>t. sequentialSolve e (map (\<lambda>a. (a, scripted e pre slv n)) as) fs w =
       (Return (fold (\<lambda>a fs. case pre a of Some er \<Rightarrow> put (GetTargetedDomain a) er fs
          | None \<Rightarrow> record_failure (GetTargetedDomain a) (slv a) fs) as fs), t)
     \<and> w_trace t = w_trace w @ sequence_events pre slv n as"
proof (induction as arbitrary: fs w)
  case (Cons a as)
  let ?fs = "case pre a of Some er \<Rightarrow> put (GetTargetedDomain a) er fs
          | None \<Rightarrow> record_failure (GetTargetedDomain a) (slv a) fs"
  let ?l = "map (\<lambda>a. (a, scripted e pre slv n))"
  have "\<exists>u. sequentialSolve e (?l (a # as)) fs w = sequentialSolve e (?l as) ?fs u
      \<and> w_trace u = w_trace w @ turn_events pre slv n (as \<noteq> []) a"
    by (cases "pre a"; cases "slv a"; cases "as = []")
      (auto simp: preSolve_def cleanUp_def scripted_def go_simps Let_def turn_events_def record_failure_def)
  then obtain u where u: "sequentialSolve e (?l (a # as)) fs w = sequentialSolve e (?l as) ?fs u"
    "w_trace u = w_trace w @ turn_events pre slv n (as \<noteq> []) a" by blast
  from Cons.IH [of ?fs u] u show ?case by auto
qed simp

definition valid_ca :: env where
  "valid_ca = sample_ca\<lparr>jsonParse := (\<lambda>_. Some (JObj [(''status'', JStr ''valid'')]))\<rparr>"

lemma retry_ok_valid_ca: "retry_ok valid_ca"
  by (rule retry_ok_sample [of _ 3]) (simp add: valid_ca_def sample_ca_def sample_env_def)

theorem validate_needs_valid_status_witness:
  "\<exists>t chlng v. validate valid_ca sample_core ''a.org'' (http_chl\<lparr>chl_URL := ''https://ca/chl''\<rparr>)
       (sample_world\<lparr>w_nonces := [''n'']\<rparr>) = (Return None, t)
     \<and> Challenges_New valid_ca sample_core ''https://ca/chl'' (sample_world\<lparr>w_nonces := [''n'']\<rparr>) =
         (Return (Inr chlng), v)"
proof -
  let ?w = "sample_world\<lparr>w_nonces := [''n'']\<rparr>" and ?chl = "http_chl\<lparr>chl_URL := ''https://ca/chl''\<rparr>"
  have "fst (validate valid_ca sample_core ''a.org'' ?chl ?w) = Return None"
    by (simp add: post_eval validate_def Challenges_New_def valid_ca_def sample_ca_def sample_env_def
        extend_challenge_def challenge_of_json_def set_str_def checkChallengeStatus_def StatusValid_def)
  then obtain t where run: "validate valid_ca sample_core ''a.org'' ?chl ?w = (Return None, t)"
    by (metis prod.collapse)
  from validate_needs_valid_status [OF retry_ok_valid_ca run] run show ?thesis by auto
qed

section \<open>What a solver promises\<close>

text \<open>
  The contract of a solver that is built on \<^verbatim>\<open>validate\<close>: success means that a challenge of the
  authorization was validated in between, and the trace only grows.
\<close>

definition validated_between :: "env \<Rightarrow> core \<Rightarrow> authorization \<Rightarrow> world \<Rightarrow> world \<Rightarrow> bool" where
  "validated_between e c a w t \<longleftrightarrow>
     (\<exists>chlng \<in> set (az_Challenges a). \<exists>u v.
        grows w u \<and> server_validated e c (chl_URL chlng) u v \<and> grows v t)"

lemma validated_between_mono:
  "validated_between e c a u v \<Longrightarrow> grows w u \<Longrightarrow> grows v t \<Longrightarrow> validated_between e c a w t"
  unfolding validated_between_def using growth.step_trans by blast

definition honest :: "env \<Rightarrow> core \<Rightarrow> solver \<Rightarrow> bool" where
  "honest e c s \<longleftrightarrow> solver_keeps grows s
     \<and> (\<forall>a w t. slv_Solve s a w = (Return None, t) \<longrightarrow> validated_between e c a w t)"

locale honest_solvers =
  fixes e :: env and c :: core and slvs :: solvers
  assumes solvers_honest: "s \<in> ran (map_of slvs) \<Longrightarrow> honest e c s"
begin

lemma chosen_solver: "chooseSolver slvs a = Some s \<Longrightarrow> s \<in> ran (map_of slvs)"
proof -
  have "first_solver slvs cs = Some s \<Longrightarrow> s \<in> ran (map_of slvs)" for cs
    by (induction cs) (auto simp: ran_def split: option.splits)
  then show "chooseSolver slvs a = Some s \<Longrightarrow> s \<in> ran (map_of slvs)"
    by (simp add: chooseSolver_def)
qed

text \<open>A successful prober leaves every authorization valid on the word of the server.\<close>

lemma prober_validates:
  assumes "Prober_Solve e slvs as w = (Return None, t)" and "a \<in> set as"
    and "az_Status a \<noteq> StatusValid"
  shows "validated_between e c a w t"
proof -
  have "solver_keeps grows s" if "s \<in> ran (map_of slvs)" for s
    using solvers_honest [OF that] by (simp add: honest_def)
  then obtain s where s: "chooseSolver slvs a = Some s" "solved_between w t (sort_challenges a, s)"
    using Prober_Solve_nil assms by blast
  have "honest e c s" using chosen_solver [OF s(1)] by (rule solvers_honest)
  with s(2) have "validated_between e c (sort_challenges a) w t"
    unfolding solved_between_def honest_def using validated_between_mono by fastforce
  then show ?thesis
    by (simp add: validated_between_def sort_challenges_def)
qed

lemma honest_put: "honest e c s \<Longrightarrow> s' \<in> ran (map_of (put ty s slvs)) \<Longrightarrow> honest e c s'"
  using solvers_honest by (auto simp: ran_def split: if_splits)

lemma honest_Remove: "s' \<in> ran (map_of (Remove ty slvs)) \<Longrightarrow> honest e c s'"
proof -
  have "map_of (Remove ty slvs) k = (if k = ty then None else map_of slvs k)" for k
    unfolding Remove_def by (induction slvs) auto
  then show "s' \<in> ran (map_of (Remove ty slvs)) \<Longrightarrow> honest e c s'"
    using solvers_honest by (auto simp: ran_def split: if_splits)
qed

end

text \<open>The two solvers that present a token and validate it.\<close>

lemma present_and_validate_nil:
  assumes "present_and_validate p shown d tk k v w = (Return None, t)" and "provider_keeps grows p"
  obtains x y where "grows w x" "v x = (Return None, y)" "grows y t"
proof -
  obtain x where pre: "prov_Present p d tk k w = (Return None, x)"
    and rest: "deferring v (bind (prov_CleanUp p d tk k) (\<lambda>_. ret ())) x = (Return None, t)"
    using assms(1) by (auto simp: present_and_validate_def bind_Return_eq split: option.splits)
  obtain y where "v x = (Return None, y)" and cln: "bind (prov_CleanUp p d tk k) (\<lambda>_. ret ()) y = (Return (), t)"
    using rest by (rule deferring_Return)
  moreover have steps: "always grows (prov_Present p d tk k)"
    "always grows (bind (prov_CleanUp p d tk k) (\<lambda>_. ret ()))"
    using assms(2) by (auto simp: provider_keeps_def intro!: always_intros)
  moreover have "grows w x" using steps(1) pre by (rule alwaysD)
  moreover have "grows y t" using steps(2) cln by (rule alwaysD)
  ultimately show ?thesis using that by blast
qed

lemma validated_betweenI:
  assumes "retry_ok e" and "FindChallenge ty a = Inr chlng" and "grows w x" and "grows y t"
    and "validate e c d (chlng\<lparr>chl_KeyAuthorization := k\<rparr>) x = (Return None, y)"
  shows "validated_between e c a w t"
  using validate_nil [OF assms(1,5)] FindChallenge_Inr [OF assms(2)] assms(3,4)
  by (auto simp: validated_between_def)

lemma Http01_honest:
  assumes "retry_ok e" and "provider_keeps grows p"
  shows "honest e c (Http01_NewChallenge e c (validate e) p)"
  unfolding honest_def
proof (intro conjI allI impI)
  show "solver_keeps grows (Http01_NewChallenge e c (validate e) p)"
    using assms by (intro growing.Http01_keeps growing.always_validate)
  fix a w t
  assume run: "slv_Solve (Http01_NewChallenge e c (validate e) p) a w = (Return None, t)"
  then obtain chlng k where find: "FindChallenge HTTP01 a = Inr chlng"
    and slv: "present_and_validate p (GetTargetedDomain a) (id_Value (az_Identifier a)) (chl_Token chlng) k
      (validate e c (GetTargetedDomain a) (chlng\<lparr>chl_KeyAuthorization := k\<rparr>)) w = (Return None, t)"
    by (auto simp: Http01_NewChallenge_def Http01_Solve_def Let_def split: sum.splits)
  from slv assms(2) show "validated_between e c a w t"
    by (rule present_and_validate_nil) (rule validated_betweenI [OF assms(1) find])
qed

lemma Tlsalpn01_honest:
  assumes "retry_ok e" and "provider_keeps grows p"
  shows "honest e c (Tlsalpn01_NewChallenge e c (validate e) p)"
  unfolding honest_def
proof (intro conjI allI impI)
  show "solver_keeps grows (Tlsalpn01_NewChallenge e c (validate e) p)"
    using assms by (intro growing.Tlsalpn01_keeps growing.always_validate)
  fix a w t
  assume run: "slv_Solve (Tlsalpn01_NewChallenge e c (validate e) p) a w = (Return None, t)"
  then obtain chlng k where find: "FindChallenge TLSALPN01 a = Inr chlng"
    and slv: "present_and_validate p (GetTargetedDomain a) (id_Value (az_Identifier a)) (chl_Token chlng) k
      (validate e c (id_Value (az_Identifier a)) (chlng\<lparr>chl_KeyAuthorization := k\<rparr>)) w = (Return None, t)"
    by (auto simp: Tlsalpn01_NewChallenge_def Tlsalpn01_Solve_def Let_def split: sum.splits)
  from slv assms(2) show "validated_between e c a w t"
    by (rule present_and_validate_nil) (rule validated_betweenI [OF assms(1) find])
qed

end
