(* ===== verification/Certificate.thy ===== *)
theory Certificate
  imports Resolver
begin

text \<open>
  Package \<^verbatim>\<open>certificate\<close>: the certifier, which turns domains or a certificate request into a certificate.
  The resolver it solves authorizations with is a field of the certifier, as in the code; \<open>Lego\<close> plugs in
  the prober of package \<^verbatim>\<open>resolver\<close>.

  \<^verbatim>\<open>getAuthorizations\<close> starts one goroutine per authorization URL and collects the answers as they come:
  the parameter \<open>sched\<close> is the order in which the fetches complete.  How their signed requests share the
  nonce pool is the subject of the step relation in \<open>Nonces\<close>; here each fetch runs as a whole.
\<close>

record resource =
  res_Domain :: string
  res_CertURL :: string
  res_CertStableURL :: string
  res_PrivateKey :: "string option"
  res_Certificate :: string
  res_IssuerCertificate :: "string option"
  res_CSR :: string

record obtain_request =
  or_Domains :: "string list"
  or_Bundle :: bool
  or_PrivateKey :: "private_key option"
  or_MustStaple :: bool
  or_PreferredChain :: string

record obtain_for_csr_request =
  ocr_CSR :: "x509_csr option"
  ocr_Bundle :: bool
  ocr_PreferredChain :: string

record certifier =
  cf_core :: core
  cf_Solve :: "authorization list \<Rightarrow> (world, goerror option) go"
  cf_KeyType :: KeyType
  cf_Timeout :: int

text \<open>A Go pair \<^verbatim>\<open>(*Resource, error)\<close> in which both may be set.\<close>

type_synonym cert_result = "resource option \<times> goerror option"

section \<open>Authorizations\<close>

definition overallRequestLimit :: int where
  "overallRequestLimit = 18"

definition fetch_authz ::
  "env \<Rightarrow> certifier \<Rightarrow> string list \<Rightarrow> nat \<Rightarrow> authorization list \<times> failures
    \<Rightarrow> (world, authorization list \<times> failures) go" where
  "fetch_authz e c urls i acc =
     (case acc of (responses, failures) \<Rightarrow>
        bind (Authorizations_Get e (cf_core c) (urls ! i)) (\<lambda>r.
          case r of
            Inl err \<Rightarrow> ret (responses, put (id_Value (az_Identifier zero_authorization)) err failures)
          | Inr authz \<Rightarrow> ret (responses @ [authz], failures)))"

definition getAuthorizations ::
  "env \<Rightarrow> certifier \<Rightarrow> extended_order \<Rightarrow> (world, goerror + authorization list) go" where
  "getAuthorizations e c order =
     (let urls = ord_Authorizations (eo_Order order);
          delay = Second div overallRequestLimit in
      bind (for_each urls (\<lambda>_ _. sleep e delay) ()) (\<lambda>_.
        bind (for_each (sched e (length urls)) (fetch_authz e c urls) ([], [])) (\<lambda>(responses, failures).
          if length (ord_Identifiers (eo_Order order)) < length urls
          then panic ''index out of range''
          else if failures \<noteq> [] then ret (Inl (ObtainError failures))
          else ret (Inr responses))))"

definition deactivateAuthorizations :: "env \<Rightarrow> certifier \<Rightarrow> extended_order \<Rightarrow> (world, unit) go" where
  "deactivateAuthorizations e c order =
     for_each (ord_Authorizations (eo_Order order)) (\<lambda>authzURL _.
       handle (Authorizations_Get e (cf_core c) authzURL) (\<lambda>_. ret ()) (\<lambda>auth.
         if az_Status auth = StatusValid then ret ()
         else bind (Authorizations_Deactivate e (cf_core c) authzURL) (\<lambda>_. ret ()))) ()"

section \<open>Fetching the certificate\<close>

definition checkOrderStatus :: "extended_order \<Rightarrow> goerror + bool" where
  "checkOrderStatus order =
     (let status = ord_Status (eo_Order order) in
      if status = StatusValid then Inr True
      else if status = StatusInvalid then Inl (Problem (ord_Error (eo_Order order)))
      else Inr False)"

definition hasPreferredChain :: "env \<Rightarrow> string option \<Rightarrow> string \<Rightarrow> (goerror + bool) outcome" where
  "hasPreferredChain e issuer preferredChain =
     (case ParsePEMBundle e (pem_rest issuer) of
        Return (Inl err) \<Rightarrow> Return (Inl err)
      | Return (Inr certs) \<Rightarrow> Return (Inr (list_ex (\<lambda>cert. crt_IssuerCN cert = preferredChain) certs))
      | Panic m \<Rightarrow> Panic m
      | Exit m \<Rightarrow> Exit m
      | Stuck \<Rightarrow> Stuck)"

definition set_chain :: "string \<Rightarrow> string \<Rightarrow> string option \<Rightarrow> resource \<Rightarrow> resource" where
  "set_chain link cert issuer certRes =
     certRes\<lparr>res_IssuerCertificate := issuer, res_Certificate := cert, res_CertURL := link,
             res_CertStableURL := link\<rparr>"

fun check_links ::
  "env \<Rightarrow> certifier \<Rightarrow> bool \<Rightarrow> string \<Rightarrow> bool \<Rightarrow> string list \<Rightarrow> resource
    \<Rightarrow> (world, resource \<times> (goerror + bool)) go" where
  "check_links e c bundle preferredChain first [] certRes = ret (certRes, Inr True)"
| "check_links e c bundle preferredChain first (link # links) certRes =
     bind (Certificates_Get e (cf_core c) link bundle) (\<lambda>r.
       case r of
         Inl err \<Rightarrow> ret (certRes, Inl err)
       | Inr (cert, issuer) \<Rightarrow>
           (let certRes = (if first then set_chain link cert issuer certRes else certRes) in
            if preferredChain = [] then ret (certRes, Inr True)
            else bind (outcome_of (hasPreferredChain e issuer preferredChain)) (\<lambda>ok.
              case ok of
                Inl err \<Rightarrow> ret (certRes, Inl err)
              | Inr True \<Rightarrow> ret (set_chain link cert issuer certRes, Inr True)
              | Inr False \<Rightarrow> check_links e c bundle preferredChain False links certRes)))"

definition checkResponse ::
  "env \<Rightarrow> certifier \<Rightarrow> extended_order \<Rightarrow> resource \<Rightarrow> bool \<Rightarrow> string
    \<Rightarrow> (world, resource \<times> (goerror + bool)) go" where
  "checkResponse e c order certRes bundle preferredChain =
     (case checkOrderStatus order of
        Inl err \<Rightarrow> ret (certRes, Inl err)
      | Inr False \<Rightarrow> ret (certRes, Inr False)
      | Inr True \<Rightarrow>
          check_links e c bundle preferredChain True
            (ord_Certificate (eo_Order order) # eo_AlternateChainLinks order) certRes)"

definition poll_order ::
  "env \<Rightarrow> certifier \<Rightarrow> string \<Rightarrow> bool \<Rightarrow> string \<Rightarrow> resource poll" where
  "poll_order e c location bundle preferredChain certRes =
     handle (Orders_Get e (cf_core c) location) (\<lambda>errW. ret (certRes, False, Some errW)) (\<lambda>ord.
       bind (checkResponse e c ord certRes bundle preferredChain) (\<lambda>(certRes, r).
         case r of
           Inl errW \<Rightarrow> ret (certRes, False, Some errW)
         | Inr done \<Rightarrow> ret (certRes, done, None)))"

definition getForCSR ::
  "env \<Rightarrow> certifier \<Rightarrow> string list \<Rightarrow> extended_order \<Rightarrow> bool \<Rightarrow> string \<Rightarrow> string option \<Rightarrow> string
    \<Rightarrow> (world, cert_result) go" where
  "getForCSR e c domains order bundle csr privateKeyPem preferredChain =
     handle (Orders_UpdateForCSR e (cf_core c) (ord_Finalize (eo_Order order)) csr)
       (\<lambda>err. ret (None, Some err)) (\<lambda>respOrder.
       case domains of
         [] \<Rightarrow> panic ''index out of range''
       | commonName # _ \<Rightarrow>
           (let certRes = \<lparr>res_Domain = commonName, res_CertURL = ord_Certificate (eo_Order respOrder),
                  res_CertStableURL = [], res_PrivateKey = privateKeyPem, res_Certificate = [],
                  res_IssuerCertificate = None, res_CSR = []\<rparr>;
                timeout = (if cf_Timeout c \<le> 0 then 30 * Second else cf_Timeout c);
                poll = (\<lambda>certRes.
                  bind (For e timeout (timeout div 60)
                          (poll_order e c (eo_Location order) bundle preferredChain) certRes)
                    (\<lambda>(certRes, err). ret (Some certRes, err))) in
            if ord_Status (eo_Order respOrder) = StatusValid then
              bind (checkResponse e c respOrder certRes bundle preferredChain) (\<lambda>(certRes, r).
                case r of
                  Inl errR \<Rightarrow> ret (None, Some errR)
                | Inr ok \<Rightarrow> if ok then ret (Some certRes, None) else poll certRes)
            else poll certRes))"

definition getForOrder ::
  "env \<Rightarrow> certifier \<Rightarrow> string list \<Rightarrow> extended_order \<Rightarrow> bool \<Rightarrow> private_key option \<Rightarrow> bool \<Rightarrow> string
    \<Rightarrow> (world, cert_result) go" where
  "getForOrder e c domains order bundle privateKey mustStaple preferredChain =
     handle (case privateKey of None \<Rightarrow> GeneratePrivateKey e (cf_KeyType c) | Some k \<Rightarrow> ret (Inr k))
       (\<lambda>err. ret (None, Some err)) (\<lambda>key.
       case domains of
         [] \<Rightarrow> panic ''index out of range''
       | commonName # _ \<Rightarrow>
           (let san = commonName # filter (\<lambda>v. v \<noteq> commonName)
                        (map id_Value (ord_Identifiers (eo_Order order))) in
            handle (GenerateCSR e key commonName san mustStaple) (\<lambda>err. ret (None, Some err)) (\<lambda>csr.
              bind (outcome_of (PEMEncode e (PemKey key))) (\<lambda>keyPem.
                getForCSR e c domains order bundle csr (Some keyPem) preferredChain))))"

section \<open>Obtaining\<close>

definition sanitizeDomain :: "env \<Rightarrow> string list \<Rightarrow> string list" where
  "sanitizeDomain e domains =
     concat (map (\<lambda>domain. case idnaToASCII e domain of Inl _ \<Rightarrow> [] | Inr d \<Rightarrow> [d]) domains)"

definition obtain_failures :: "authorization list \<Rightarrow> goerror option \<Rightarrow> failures" where
  "obtain_failures authz err =
     (case err of None \<Rightarrow> []
      | Some er \<Rightarrow> fold (\<lambda>auth. put (GetTargetedDomain auth) er) authz [])"

definition failures_error :: "failures \<Rightarrow> goerror option" where
  "failures_error fs = (if fs \<noteq> [] then Some (ObtainError fs) else None)"

text \<open>
  The part \<^verbatim>\<open>Obtain\<close> and \<^verbatim>\<open>ObtainForCSR\<close> share: order, authorizations, solving; \<open>issue\<close> is what follows.
\<close>

definition order_and_solve ::
  "env \<Rightarrow> certifier \<Rightarrow> string list \<Rightarrow> (extended_order \<Rightarrow> authorization list \<Rightarrow> (world, cert_result) go)
    \<Rightarrow> (world, cert_result) go" where
  "order_and_solve e c domains issue =
     handle (Orders_New e (cf_core c) domains) (\<lambda>err. ret (None, Some err)) (\<lambda>order.
       handle (getAuthorizations e c order)
         (\<lambda>err. bind (deactivateAuthorizations e c order) (\<lambda>_. ret (None, Some err))) (\<lambda>authz.
         bind (cf_Solve c authz) (\<lambda>err.
           case err of
             Some er \<Rightarrow> bind (deactivateAuthorizations e c order) (\<lambda>_. ret (None, Some er))
           | None \<Rightarrow> issue order authz)))"

definition Obtain :: "env \<Rightarrow> certifier \<Rightarrow> obtain_request \<Rightarrow> (world, cert_result) go" where
  "Obtain e c request =
     (if or_Domains request = [] then ret (None, Some (Err ''no domains to obtain a certificate for''))
      else
        (let domains = sanitizeDomain e (or_Domains request) in
         order_and_solve e c domains (\<lambda>order authz.
           bind (getForOrder e c domains order (or_Bundle request) (or_PrivateKey request)
                   (or_MustStaple request) (or_PreferredChain request)) (\<lambda>(cert, err).
             ret (cert, failures_error (obtain_failures authz err))))))"

definition ObtainForCSR :: "env \<Rightarrow> certifier \<Rightarrow> obtain_for_csr_request \<Rightarrow> (world, cert_result) go" where
  "ObtainForCSR e c request =
     (case ocr_CSR request of
        None \<Rightarrow> ret (None, Some (Err ''cannot obtain resource for CSR: CSR is missing''))
      | Some csr \<Rightarrow>
          (let domains = ExtractDomainsCSR csr in
           order_and_solve e c domains (\<lambda>order authz.
             bind (getForCSR e c domains order (ocr_Bundle request) (csr_Raw csr) None
                     (ocr_PreferredChain request)) (\<lambda>(cert, err).
               bind (case cert of
                       None \<Rightarrow> ret None
                     | Some r \<Rightarrow> bind (outcome_of (PEMEncode e (PemCSR csr)))
                         (\<lambda>p. ret (Some (r\<lparr>res_CSR := p\<rparr>)))) (\<lambda>cert.
                 ret (cert, failures_error (obtain_failures authz err)))))))"

section \<open>Revoking, renewing, status\<close>

definition Revoke :: "env \<Rightarrow> certifier \<Rightarrow> string \<Rightarrow> (world, goerror option) go" where
  "Revoke e c cert =
     handle (outcome_of (ParsePEMBundle e cert)) (\<lambda>err. ret (Some err)) (\<lambda>certificates.
       case certificates of
         [] \<Rightarrow> panic ''index out of range''
       | x509Cert # _ \<Rightarrow>
           if crt_IsCA x509Cert then ret (Some (Err ''certificate bundle starts with a CA certificate''))
           else Certificates_Revoke e (cf_core c)
                  \<lparr>rev_Certificate = base64_encode (crt_Raw x509Cert), rev_Reason = None\<rparr>)"

definition Renew :: "env \<Rightarrow> certifier \<Rightarrow> resource \<Rightarrow> bool \<Rightarrow> bool \<Rightarrow> string \<Rightarrow> (world, cert_result) go" where
  "Renew e c certRes bundle mustStaple preferredChain =
     handle (outcome_of (ParsePEMBundle e (res_Certificate certRes))) (\<lambda>err. ret (None, Some err)) (\<lambda>certificates.
       case certificates of
         [] \<Rightarrow> panic ''index out of range''
       | x509Cert # _ \<Rightarrow>
           if crt_IsCA x509Cert
           then ret (None, Some (Err (''['' @ res_Domain certRes @ ''] Certificate bundle starts with a CA certificate'')))
           else if res_CSR certRes \<noteq> [] then
             (case PemDecodeTox509CSR e (res_CSR certRes) of
                Inl errP \<Rightarrow> ret (None, Some errP)
              | Inr csr \<Rightarrow> ObtainForCSR e c \<lparr>ocr_CSR = Some csr, ocr_Bundle = bundle,
                             ocr_PreferredChain = preferredChain\<rparr>)
           else
             handle (case res_PrivateKey certRes of
                       None \<Rightarrow> ret (Inr None)
                     | Some pem \<Rightarrow> check (outcome_of (ParsePEMPrivateKey e pem)) (\<lambda>k. ret (Inr (Some k))))
               (\<lambda>err. ret (None, Some err)) (\<lambda>privateKey.
               Obtain e c \<lparr>or_Domains = ExtractDomains x509Cert, or_Bundle = bundle,
                 or_PrivateKey = privateKey, or_MustStaple = mustStaple, or_PreferredChain = []\<rparr>))"

text \<open>\<^verbatim>\<open>http.Client.Get\<close> and \<^verbatim>\<open>http.Client.Post\<close> without the headers of the sender.\<close>

definition plain_request ::
  "env \<Rightarrow> string \<Rightarrow> string \<Rightarrow> (string \<times> string) list \<Rightarrow> req_body \<Rightarrow> (world, goerror + http_response) go" where
  "plain_request e method url header body =
     (case newRequestErr e method url of
        Some err \<Rightarrow> ret (Inl err)
      | None \<Rightarrow> http_do e \<lparr>req_Method = method, req_URL = url, req_Header = header, req_Body = body\<rparr>)"

definition issuer_of ::
  "env \<Rightarrow> x509_cert list \<Rightarrow> x509_cert \<Rightarrow> (world, goerror + x509_cert) go" where
  "issuer_of e certificates issuedCert =
     (case certificates of
        _ # issuerCert # _ \<Rightarrow> ret (Inr issuerCert)
      | _ \<Rightarrow>
          (case crt_IssuingCertificateURL issuedCert of
             [] \<Rightarrow> ret (Inl (Err ''no issuing certificate URL''))
           | url # _ \<Rightarrow>
               check (plain_request e ''GET'' url [] NoBody) (\<lambda>resp.
                 case readAllMax maxBodySize (resp_Body resp) of
                   Inl errC \<Rightarrow> ret (Inl errC)
                 | Inr issuerBytes \<Rightarrow> ret (parseCertificate e issuerBytes))))"

definition GetOCSP :: "env \<Rightarrow> certifier \<Rightarrow> string \<Rightarrow> (world, goerror + string \<times> int) go" where
  "GetOCSP e c bundle =
     check (outcome_of (ParsePEMBundle e bundle)) (\<lambda>certificates.
       case certificates of
         [] \<Rightarrow> panic ''index out of range''
       | issuedCert # _ \<Rightarrow>
           (case crt_OCSPServer issuedCert of
              [] \<Rightarrow> ret (Inl (Err ''no OCSP server specified in cert''))
            | ocspServer # _ \<Rightarrow>
                check (issuer_of e certificates issuedCert) (\<lambda>issuerCert.
                  case ocspCreateRequest e issuedCert issuerCert of
                    Inl err \<Rightarrow> ret (Inl err)
                  | Inr ocspReq \<Rightarrow>
                      check (plain_request e ''POST'' ocspServer
                               [(''Content-Type'', ''application/ocsp-request'')] (RawBody ocspReq)) (\<lambda>resp.
                        case readAllMax maxBodySize (resp_Body resp) of
                          Inl err \<Rightarrow> ret (Inl err)
                        | Inr ocspResBytes \<Rightarrow>
                            (case ocspParseResponse e ocspResBytes issuerCert of
                               Inl err \<Rightarrow> ret (Inl err)
                             | Inr ocspRes \<Rightarrow> ret (Inr (ocspResBytes, ocspRes)))))))"

definition Certifier_Get :: "env \<Rightarrow> certifier \<Rightarrow> string \<Rightarrow> bool \<Rightarrow> (world, goerror + resource) go" where
  "Certifier_Get e c url bundle =
     check (Certificates_Get e (cf_core c) url bundle) (\<lambda>(cert, issuer).
       check (outcome_of (ParsePEMBundle e cert)) (\<lambda>x509Certs.
         case x509Certs of
           [] \<Rightarrow> panic ''index out of range''
         | x # _ \<Rightarrow>
             ret (Inr \<lparr>res_Domain = crt_SubjectCN x, res_CertURL = url, res_CertStableURL = url,
               res_PrivateKey = None, res_Certificate = cert, res_IssuerCertificate = issuer,
               res_CSR = []\<rparr>)))"

section \<open>Invariants\<close>

context client_invariant
begin

lemma always_deactivate [always_intros]:
  "retry_ok e \<Longrightarrow> always R (deactivateAuthorizations e c order)"
  unfolding deactivateAuthorizations_def by (intro always_intros)

lemma always_getAuthorizations [always_intros]:
  "retry_ok e \<Longrightarrow> always R (getAuthorizations e c order)"
  unfolding getAuthorizations_def fetch_authz_def by (intro always_intros)

lemma always_check_links [always_intros]:
  assumes "retry_ok e"
  shows "always R (check_links e c bundle pc first links r)"
proof (induction links arbitrary: first r)
  case (Cons link links)
  then show ?case
    unfolding check_links.simps by (intro always_intros assms)
qed (simp add: always_ret)

lemma always_checkResponse [always_intros]:
  "retry_ok e \<Longrightarrow> always R (checkResponse e c order r bundle pc)"
  unfolding checkResponse_def by (intro always_intros)

lemma always_getForCSR [always_intros]:
  "retry_ok e \<Longrightarrow> always R (getForCSR e c domains order bundle csr k pc)"
  unfolding getForCSR_def poll_order_def by (intro always_intros)

lemma always_getForOrder [always_intros]:
  "retry_ok e \<Longrightarrow> always R (getForOrder e c domains order bundle k ms pc)"
  unfolding getForOrder_def GenerateCSR_def GeneratePrivateKey_def by (intro always_intros)

lemma always_order_and_solve:
  assumes "retry_ok e" and "\<And>authz. always R (cf_Solve c authz)" and "\<And>order authz. always R (issue order authz)"
  shows "always R (order_and_solve e c domains issue)"
  unfolding order_and_solve_def by (intro always_intros assms)

lemma always_Obtain [always_intros]:
  assumes "retry_ok e" and "\<And>authz. always R (cf_Solve c authz)"
  shows "always R (Obtain e c request)" and "always R (ObtainForCSR e c csr_request)"
  unfolding Obtain_def ObtainForCSR_def
  by (intro always_intros always_order_and_solve assms)+

lemma always_Renew [always_intros]:
  assumes "retry_ok e" and "\<And>authz. always R (cf_Solve c authz)"
  shows "always R (Renew e c r bundle ms pc)"
  unfolding Renew_def by (intro always_intros assms)

lemma always_Revoke [always_intros]: "retry_ok e \<Longrightarrow> always R (Revoke e c cert)"
  unfolding Revoke_def by (intro always_intros)

lemma always_plain_request [always_intros]:
  "(\<And>m. body \<noteq> JoseBody m) \<Longrightarrow> always R (plain_request e method url header body)"
  unfolding plain_request_def by (intro always_intros always_plain_http) simp

lemma always_GetOCSP [always_intros]: "always R (GetOCSP e c bundle)"
  unfolding GetOCSP_def issuer_of_def by (intro always_intros) simp_all

lemma always_Certifier_Get [always_intros]: "retry_ok e \<Longrightarrow> always R (Certifier_Get e c url bundle)"
  unfolding Certifier_Get_def by (intro always_intros)

end

section \<open>When solving fails\<close>

lemma posts_only_deactivate:
  assumes "retry_ok e"
  shows "always (posts_only (set (ord_Authorizations (eo_Order order)))) (deactivateAuthorizations e c order)"
  unfolding deactivateAuthorizations_def Authorizations_Get_def Authorizations_Deactivate_def error_of_def
  by (intro always_intros posts_only_post assms)

text \<open>The run of the shared part up to the solver.\<close>

definition reaches_solver ::
  "env \<Rightarrow> certifier \<Rightarrow> string list \<Rightarrow> world \<Rightarrow> extended_order \<Rightarrow> authorization list \<Rightarrow> world \<Rightarrow> bool" where
  "reaches_solver e c domains w order authz v \<longleftrightarrow>
     (\<exists>u. Orders_New e (cf_core c) domains w = (Return (Inr order), u)
        \<and> getAuthorizations e c order u = (Return (Inr authz), v))"

lemma order_and_solve_solver:
  assumes "reaches_solver e c domains w order authz v"
  shows "order_and_solve e c domains issue w =
    bind (cf_Solve c authz) (\<lambda>err. case err of
        Some er \<Rightarrow> bind (deactivateAuthorizations e c order) (\<lambda>_. ret (None, Some er))
      | None \<Rightarrow> issue order authz) v"
  using assms by (auto simp: reaches_solver_def order_and_solve_def handle_def bind_def)

text \<open>
  C6 (safety).  No partial certificates: when solving the authorizations fails, \<^verbatim>\<open>Obtain\<close> returns no
  certificate and the error of the solver, and every signed request it still makes goes to an
  authorization URL of the order, to deactivate it.  In particular the order is not finalized.
\<close>

theorem Obtain_stops_when_solving_fails:
  assumes "retry_ok e" and "or_Domains req \<noteq> []"
    and "reaches_solver e c (sanitizeDomain e (or_Domains req)) w order authz v"
    and "cf_Solve c authz v = (Return (Some er), x)"
    and "Obtain e c req w = (Return res, t)"
  shows "res = (None, Some er) \<and> posts_only (set (ord_Authorizations (eo_Order order))) x t"
proof -
  have "bind (deactivateAuthorizations e c order) (\<lambda>_. ret (None, Some er)) x = (Return res, t)"
    using assms(2,4,5) by (simp add: Obtain_def Let_def order_and_solve_solver [OF assms(3)] bind_def)
  then have "res = (None, Some er)" "deactivateAuthorizations e c order x = (Return (), t)"
    by (auto simp: bind_Return_eq)
  then show ?thesis
    using alwaysD [OF posts_only_deactivate [OF assms(1)]] by blast
qed

definition plain_certifier :: "(authorization list \<Rightarrow> (world, goerror option) go) \<Rightarrow> KeyType \<Rightarrow> certifier" where
  "plain_certifier slv kt = \<lparr>cf_core = sample_core, cf_Solve = slv, cf_KeyType = kt, cf_Timeout = 0\<rparr>"

definition plain_request_for :: "string list \<Rightarrow> obtain_request" where
  "plain_request_for ds = \<lparr>or_Domains = ds, or_Bundle = True, or_PrivateKey = None,
     or_MustStaple = False, or_PreferredChain = []\<rparr>"

lemma sample_ca_reaches_solver:
  "\<exists>order v. reaches_solver sample_ca (plain_certifier slv kt) ds (sample_world\<lparr>w_nonces := [''n'']\<rparr>) order [] v
     \<and> ord_Authorizations (eo_Order order) = []"
proof -
  let ?w = "sample_world\<lparr>w_nonces := [''n'']\<rparr>"
  obtain u where u: "Orders_New sample_ca sample_core ds ?w =
      (Return (Inr \<lparr>eo_Order = zero_order, eo_Location = ''https://ca/acct/1'', eo_AlternateChainLinks = []\<rparr>), u)"
    by (simp add: post_eval sample_ca_def sample_env_def Orders_New_def order_of_json_def getLinks_def)
  then show ?thesis
    by (auto simp: reaches_solver_def plain_certifier_def getAuthorizations_def zero_order_def
        sample_ca_def sample_env_def go_simps Let_def)
qed

theorem Obtain_stops_when_solving_fails_witness:
  "\<exists>t. Obtain sample_ca (plain_certifier (\<lambda>_. ret (Some (Err ''unsolved''))) EC256)
     (plain_request_for [''a.org'']) (sample_world\<lparr>w_nonces := [''n'']\<rparr>)
     = (Return (None, Some (Err ''unsolved'')), t)"
proof -
  let ?c = "plain_certifier (\<lambda>_. ret (Some (Err ''unsolved''))) EC256"
  let ?w = "sample_world\<lparr>w_nonces := [''n'']\<rparr>" and ?req = "plain_request_for [''a.org'']"
  obtain order v where reach: "reaches_solver sample_ca ?c (sanitizeDomain sample_ca (or_Domains ?req)) ?w order [] v"
    and none: "ord_Authorizations (eo_Order order) = []"
    using sample_ca_reaches_solver by blast
  have slv: "cf_Solve ?c [] v = (Return (Some (Err ''unsolved'')), v)"
    by (simp add: plain_certifier_def)
  have doms: "or_Domains ?req \<noteq> []" by (simp add: plain_request_for_def)
  obtain res t where run: "Obtain sample_ca ?c ?req ?w = (Return res, t)"
    using doms none slv
    by (simp add: Obtain_def Let_def order_and_solve_solver [OF reach] bind_def deactivateAuthorizations_def)
  from Obtain_stops_when_solving_fails [OF retry_ok_ca doms reach slv run] run show ?thesis by simp
qed

section \<open>When issuing fails\<close>

lemma obtain_failures_map_of:
  "map_of (obtain_failures authz (Some er)) d = (if d \<in> GetTargetedDomain ` set authz then Some er else None)"
proof -
  have "map_of (fold (\<lambda>a. put (GetTargetedDomain a) er) authz fs) d =
      (if d \<in> GetTargetedDomain ` set authz then Some er else map_of fs d)" for fs
    by (induction authz arbitrary: fs) auto
  then show ?thesis by (simp add: obtain_failures_def)
qed

lemma obtain_failures_Nil: "obtain_failures authz (Some er) = [] \<longleftrightarrow> authz = []"
proof -
  have "fold (\<lambda>a. put (GetTargetedDomain a) er) authz fs = [] \<longleftrightarrow> authz = [] \<and> fs = []" for fs
    by (induction authz arbitrary: fs) auto
  then show ?thesis by (simp add: obtain_failures_def)
qed

text \<open>
  C24 (error).  When the challenges are solved but the certificate cannot be issued, \<^verbatim>\<open>Obtain\<close> reports the
  error once for every domain of the order's authorizations.  If the order has no authorizations, the
  error is lost: \<^verbatim>\<open>Obtain\<close> returns a nil error.
\<close>

theorem Obtain_reports_issue_error:
  assumes "or_Domains req \<noteq> []"
    and "reaches_solver e c (sanitizeDomain e (or_Domains req)) w order authz v"
    and "cf_Solve c authz v = (Return None, x)"
    and "getForOrder e c (sanitizeDomain e (or_Domains req)) order (or_Bundle req) (or_PrivateKey req)
           (or_MustStaple req) (or_PreferredChain req) x = (Return (cert, Some er), t)"
  shows "\<exists>err. Obtain e c req w = (Return (cert, err), t)
    \<and> (if authz = [] then err = None
       else \<exists>m. err = Some (ObtainError m)
         \<and> (\<forall>d. map_of m d = (if d \<in> GetTargetedDomain ` set authz then Some er else None)))"
proof -
  have "Obtain e c req w = (Return (cert, failures_error (obtain_failures authz (Some er))), t)"
    using assms(1,3,4) by (simp add: Obtain_def Let_def order_and_solve_solver [OF assms(2)] bind_def)
  then show ?thesis
    using obtain_failures_map_of [of authz er] obtain_failures_Nil [of authz er]
    by (simp add: failures_error_def)
qed

theorem Obtain_reports_issue_error_witness:
  "\<exists>t. Obtain sample_ca (plain_certifier (\<lambda>_. ret None) ''bad-type'') (plain_request_for [''a.org''])
     (sample_world\<lparr>w_nonces := [''n'']\<rparr>) = (Return (None, None), t)"
proof -
  let ?c = "plain_certifier (\<lambda>_. ret None) ''bad-type''"
  let ?w = "sample_world\<lparr>w_nonces := [''n'']\<rparr>" and ?req = "plain_request_for [''a.org'']"
  obtain order v where reach: "reaches_solver sample_ca ?c (sanitizeDomain sample_ca (or_Domains ?req)) ?w order [] v"
    using sample_ca_reaches_solver by blast
  have slv: "cf_Solve ?c [] v = (Return None, v)" by (simp add: plain_certifier_def)
  have "getForOrder sample_ca ?c (sanitizeDomain sample_ca (or_Domains ?req)) order (or_Bundle ?req)
      (or_PrivateKey ?req) (or_MustStaple ?req) (or_PreferredChain ?req) v =
      (Return (None, Some (Err ''invalid KeyType: bad-type'')), v)"
    by (simp add: getForOrder_def plain_request_for_def plain_certifier_def GeneratePrivateKey_def
        key_type_defs handle_def)
  from Obtain_reports_issue_error [OF _ reach slv this] show ?thesis
    by (simp add: plain_request_for_def)
qed

section \<open>The preferred chain\<close>

text \<open>The link whose chain is returned: the first preferred one, or the default one.\<close>

definition chosen_link :: "(string \<Rightarrow> bool) \<Rightarrow> string \<Rightarrow> string \<Rightarrow> string list \<Rightarrow> string" where
  "chosen_link preferred pc link links =
     (if pc = [] then link
      else (case find preferred (link # links) of Some l \<Rightarrow> l | None \<Rightarrow> link))"

lemma check_links_rest:
  assumes "\<And>l w. l \<in> set links \<Longrightarrow>
      \<exists>t. Certificates_Get e (cf_core c) l bundle w = (Return (Inr (cert l, issuer l)), t)"
    and "\<And>l. l \<in> set links \<Longrightarrow> hasPreferredChain e (issuer l) pc = Return (Inr (preferred l))"
    and "pc \<noteq> []"
  shows "\<exists>t. check_links e c bundle pc False links r w =
    (Return (case find preferred links of Some l \<Rightarrow> set_chain l (cert l) (issuer l) r | None \<Rightarrow> r, Inr True), t)"
  using assms(1,2)
proof (induction links arbitrary: w)
  case (Cons l links)
  obtain u where "Certificates_Get e (cf_core c) l bundle w = (Return (Inr (cert l, issuer l)), u)"
    using Cons.prems(1) by auto
  moreover have "\<exists>t. check_links e c bundle pc False links r u =
      (Return (case find preferred links of Some l \<Rightarrow> set_chain l (cert l) (issuer l) r | None \<Rightarrow> r, Inr True), t)"
    using Cons.prems by (intro Cons.IH) auto
  ultimately show ?case
    using Cons.prems(2) [of l] assms(3) by (cases "preferred l") (simp_all add: bind_def Let_def)
qed simp

lemma set_chain_twice [simp]: "set_chain l c i (set_chain l' c' i' r) = set_chain l c i r"
  by (simp add: set_chain_def)


text \<open>
  A certificate without a stored request is renewed without the preferred chain: the
  argument has no effect on that path, so the renewed certificate comes with the default chain.
\<close>

theorem Renew_ignores_preferred_chain:
  assumes "res_CSR certRes = []"
  shows "Renew e c certRes bundle mustStaple pc = Renew e c certRes bundle mustStaple pc'"
  unfolding Renew_def assms
  by (rule arg_cong [where f = "handle _ _"], rule ext) (simp split: list.split)

theorem Renew_ignores_preferred_chain_witness:
  "Renew sample_env (plain_certifier (\<lambda>_. ret None) EC256)
     \<lparr>res_Domain = ''a.org'', res_CertURL = [], res_CertStableURL = [], res_PrivateKey = None,
      res_Certificate = [], res_IssuerCertificate = None, res_CSR = []\<rparr> True False ''ISRG Root X1''
   = Renew sample_env (plain_certifier (\<lambda>_. ret None) EC256)
     \<lparr>res_Domain = ''a.org'', res_CertURL = [], res_CertStableURL = [], res_PrivateKey = None,
      res_Certificate = [], res_IssuerCertificate = None, res_CSR = []\<rparr> True False []"
  by (rule Renew_ignores_preferred_chain) simp

section \<open>Fetching the authorizations\<close>

definition sched_ok :: "env \<Rightarrow> bool" where
  "sched_ok e \<longleftrightarrow> (\<forall>n. mset (sched e n) = mset [0..<n])"

lemma fetch_authz_cases:
  assumes "fetch_authz e c urls i (rs, fs) w = (Return (rs', fs'), t)"
  shows "(\<exists>a. rs' = rs @ [a] \<and> fs' = fs \<and> Authorizations_Get e (cf_core c) (urls ! i) w = (Return (Inr a), t))
    \<or> (\<exists>er. rs' = rs \<and> fs' = put [] er fs)"
  using assms unfolding fetch_authz_def prod.case handle_def [symmetric]
  by (auto simp: handle_Return_eq zero_authorization_def zero_identifier_def)

lemma fetch_loop:
  assumes "for_each ixs (fetch_authz e c urls) (rs, fs) w = (Return (rs', fs'), t)" and "fst ` set fs \<subseteq> {[]}"
  shows "fst ` set fs' \<subseteq> {[]}
    \<and> (fs' = [] \<longrightarrow> fs = [] \<and> (\<exists>as. rs' = rs @ as \<and> list_all2 (\<lambda>i a. \<exists>u v.
          Authorizations_Get e (cf_core c) (urls ! i) u = (Return (Inr a), v)) ixs as))"
  using assms
proof (induction ixs arbitrary: rs fs w)
  case (Cons i ixs)
  then obtain rs1 fs1 u where one: "fetch_authz e c urls i (rs, fs) w = (Return (rs1, fs1), u)"
    and rest: "for_each ixs (fetch_authz e c urls) (rs1, fs1) u = (Return (rs', fs'), t)"
    by (auto simp: bind_Return_eq)
  have keys: "fst ` set fs1 \<subseteq> {[]}"
    using fetch_authz_cases [OF one] Cons.prems(2) by (elim disjE exE conjE) (simp_all del: image_subset_iff)
  show ?case
  proof (intro conjI impI)
    show "fst ` set fs' \<subseteq> {[]}" using Cons.IH [OF rest keys] by simp
  next
    assume "fs' = []"
    with Cons.IH [OF rest keys] obtain as where fs1: "fs1 = []" and as: "rs' = rs1 @ as"
      "list_all2 (\<lambda>i a. \<exists>u v. Authorizations_Get e (cf_core c) (urls ! i) u = (Return (Inr a), v)) ixs as"
      by blast
    from fetch_authz_cases [OF one] fs1 obtain a where a: "rs1 = rs @ [a]" "fs = []"
      "Authorizations_Get e (cf_core c) (urls ! i) w = (Return (Inr a), u)" by auto
    with as show "fs = []" by simp
    from a as show "\<exists>as. rs' = rs @ as \<and> list_all2 (\<lambda>i a. \<exists>u v.
          Authorizations_Get e (cf_core c) (urls ! i) u = (Return (Inr a), v)) (i # ixs) as"
      by (intro exI [of _ "a # as"]) auto
  qed
qed auto

text \<open>
  Fetching the authorizations of an order: success means that every authorization URL
  was fetched and there is one authorization for each, in the order in which the fetches complete.  On
  failure all errors share the empty domain as their key, because the failed fetch has no identifier,
  so only one of them is reported.  An order with more authorizations than identifiers crashes the
  client.
\<close>

theorem getAuthorizations_complete:
  assumes "sched_ok e" and "getAuthorizations e c order w = (Return res, t)"
  shows "(\<forall>authz. res = Inr authz \<longrightarrow> list_all2 (\<lambda>i a. \<exists>u v.
        Authorizations_Get e (cf_core c) (ord_Authorizations (eo_Order order) ! i) u = (Return (Inr a), v))
        (sched e (length (ord_Authorizations (eo_Order order)))) authz
      \<and> length authz = length (ord_Authorizations (eo_Order order)))
    \<and> (\<forall>er. res = Inl er \<longrightarrow> (\<exists>fs. er = ObtainError fs \<and> fst ` set fs = {[]}))
    \<and> length (ord_Authorizations (eo_Order order)) \<le> length (ord_Identifiers (eo_Order order))"
proof -
  let ?urls = "ord_Authorizations (eo_Order order)"
  obtain u rs fs where loop: "for_each (sched e (length ?urls)) (fetch_authz e c ?urls) ([], []) u = (Return (rs, fs), t)"
    and res: "res = (if fs \<noteq> [] then Inl (ObtainError fs) else Inr rs)"
    and len: "length ?urls \<le> length (ord_Identifiers (eo_Order order))"
    using assms(2) by (auto simp: getAuthorizations_def bind_Return_eq Let_def split: if_splits)
  have "length (sched e (length ?urls)) = length ?urls"
    using assms(1) mset_eq_length [of "sched e (length ?urls)" "[0..<length ?urls]"] by (simp add: sched_ok_def)
  moreover have "fst ` set fs = {[]}" if "fs \<noteq> []"
    using fetch_loop [OF loop] that by (cases fs) auto
  ultimately show ?thesis
    using fetch_loop [OF loop] res len by (auto dest: list_all2_lengthD)
qed

theorem getAuthorizations_complete_witness:
  "fst (getAuthorizations sample_ca (plain_certifier (\<lambda>_. ret None) EC256) zero_extended_order sample_world)
     = Return (Inr []) \<and> length ([] :: authorization list) = length (ord_Authorizations (eo_Order zero_extended_order))"
proof -
  obtain t where run: "getAuthorizations sample_ca (plain_certifier (\<lambda>_. ret None) EC256) zero_extended_order
      sample_world = (Return (Inr []), t)"
    by (simp add: getAuthorizations_def zero_extended_order_def zero_order_def sample_ca_def sample_env_def
        go_simps Let_def)
  have "sched_ok sample_ca" by (simp add: sched_ok_def sample_ca_def sample_env_def)
  from getAuthorizations_complete [OF this run] run show ?thesis by simp
qed

section \<open>Revoking\<close>

text \<open>
  \<^verbatim>\<open>Revoke\<close> never asks to revoke a CA certificate: a bundle that starts with one, or does not
  parse, is refused and nothing is sent.  Otherwise the only signed requests go to the revocation URL
  of the directory.
\<close>

theorem Revoke_refuses_ca:
  assumes "retry_ok e"
  shows "(ParsePEMBundle e cert = Return (Inr (x # xs)) \<and> crt_IsCA x \<longrightarrow>
        Revoke e c cert w = (Return (Some (Err ''certificate bundle starts with a CA certificate'')), w))
    \<and> (ParsePEMBundle e cert = Return (Inl err) \<longrightarrow> Revoke e c cert w = (Return (Some err), w))
    \<and> posts_only {dir_RevokeCertURL (core_directory (cf_core c))} w (snd (Revoke e c cert w))"
proof -
  have "always (posts_only {dir_RevokeCertURL (core_directory (cf_core c))}) (Revoke e c cert)"
    unfolding Revoke_def Certificates_Revoke_def error_of_def
    by (intro always_intros posts_only_post assms) simp
  then show ?thesis
    by (simp add: always_def Revoke_def handle_def bind_def)
qed

theorem Revoke_refuses_ca_witness:
  "Revoke sample_env (plain_certifier (\<lambda>_. ret None) EC256) [] sample_world
   = (Return (Some (Err ''no certificates were found while parsing the bundle'')), sample_world)"
  using Revoke_refuses_ca [OF retry_ok_sample [OF sample_retry_ok], of "[]" undefined "[]"
      "plain_certifier (\<lambda>_. ret None) EC256" sample_world "Err ''no certificates were found while parsing the bundle''"]
  by (simp add: ParsePEMBundle_def sample_env_def)

section \<open>A valid order of the sample server\<close>

lemma sample_ca_certificate:
  assumes "l \<noteq> []"
  shows "\<exists>t. Certificates_Get sample_ca sample_core l b w = (Return (Inr (''{}'', Some ''{}'')), t)"
  using assms
  by (cases "w_nonces w = []")
    (simp_all add: post_eval getNonce_def Doer_Head_def sample_ca_def sample_env_def Certificates_Get_def
      Certificates_get_def readAllMax_def maxBodySize_def)


section \<open>A certificate comes after solving\<close>

text \<open>What \<^verbatim>\<open>Obtain\<close> went through when it returns a certificate.\<close>

lemma order_and_solve_cert:
  assumes "order_and_solve e c domains issue w = (Return (Some cert, err), t)"
  obtains order authz v x where "reaches_solver e c domains w order authz v"
    "cf_Solve c authz v = (Return None, x)" "issue order authz x = (Return (Some cert, err), t)"
proof -
  from assms obtain order u where order: "Orders_New e (cf_core c) domains w = (Return (Inr order), u)"
    and rest: "handle (getAuthorizations e c order)
       (\<lambda>err. bind (deactivateAuthorizations e c order) (\<lambda>_. ret (None, Some err))) (\<lambda>authz.
       bind (cf_Solve c authz) (\<lambda>err.
         case err of
           Some er \<Rightarrow> bind (deactivateAuthorizations e c order) (\<lambda>_. ret (None, Some er))
         | None \<Rightarrow> issue order authz)) u = (Return (Some cert, err), t)"
    by (auto simp: order_and_solve_def handle_Return_eq)
  from rest obtain authz v where authz: "getAuthorizations e c order u = (Return (Inr authz), v)"
    and solve: "bind (cf_Solve c authz) (\<lambda>err. case err of
           Some er \<Rightarrow> bind (deactivateAuthorizations e c order) (\<lambda>_. ret (None, Some er))
         | None \<Rightarrow> issue order authz) v = (Return (Some cert, err), t)"
    by (auto simp: handle_Return_eq bind_Return_eq)
  from solve obtain er x where "cf_Solve c authz v = (Return er, x)"
    and after: "(case er of
           Some er \<Rightarrow> bind (deactivateAuthorizations e c order) (\<lambda>_. ret (None, Some er))
         | None \<Rightarrow> issue order authz) x = (Return (Some cert, err), t)"
    unfolding bind_Return_eq by blast
  moreover have "er = None" using after by (cases er) (auto simp: bind_Return_eq)
  ultimately show ?thesis
    using that order authz by (auto simp: reaches_solver_def)
qed

lemma Obtain_cert_solved:
  assumes "retry_ok e" and "Obtain e c req w = (Return (Some cert, err), t)"
  obtains order authz v x where "reaches_solver e c (sanitizeDomain e (or_Domains req)) w order authz v"
    "cf_Solve c authz v = (Return None, x)" "grows x t"
proof -
  let ?ds = "sanitizeDomain e (or_Domains req)"
  let ?issue = "\<lambda>order authz. bind (getForOrder e c ?ds order (or_Bundle req) (or_PrivateKey req)
      (or_MustStaple req) (or_PreferredChain req)) (\<lambda>(cert, err).
      ret (cert, failures_error (obtain_failures authz err)))"
  have "order_and_solve e c ?ds ?issue w = (Return (Some cert, err), t)"
    using assms(2) by (simp add: Obtain_def Let_def split: if_splits)
  then obtain order authz v x where "reaches_solver e c ?ds w order authz v"
    "cf_Solve c authz v = (Return None, x)" and issue: "?issue order authz x = (Return (Some cert, err), t)"
    by (rule order_and_solve_cert)
  moreover have "always grows (?issue order authz)"
    by (intro always_intros growing.always_getForOrder assms(1))
  then have "grows x t" using issue by (rule alwaysD)
  ultimately show ?thesis using that by blast
qed

end
