(* ===== verification/Dns01.thy ===== *)
theory Dns01
  imports Resolver
begin

text \<open>
  Package \<^verbatim>\<open>challenge/dns01\<close>: DNS queries, the SOA cache, the propagation check, and the dns-01 solver.
  The wire protocol of \<^verbatim>\<open>miekg/dns\<close> is the parameter \<open>dnsExchange\<close>; the package variables
  \<^verbatim>\<open>fqdnSoaCache\<close>, \<^verbatim>\<open>recursiveNameservers\<close> and \<^verbatim>\<open>dnsTimeout\<close> are fields of the state.
\<close>

section \<open>Names and addresses\<close>

definition ToFqdn :: "string \<Rightarrow> string" where
  "ToFqdn name = (if name = [] \<or> last name = CHR ''.'' then name else name @ ''.'')"

definition UnFqdn :: "string \<Rightarrow> string" where
  "UnFqdn name = (if name \<noteq> [] \<and> last name = CHR ''.'' then butlast name else name)"

text \<open>\<^verbatim>\<open>strings.IndexByte\<close> and \<^verbatim>\<open>LastIndexByte\<close>.\<close>

fun index_of :: "char \<Rightarrow> string \<Rightarrow> nat option" where
  "index_of c [] = None"
| "index_of c (x # xs) = (if x = c then Some 0 else map_option Suc (index_of c xs))"

definition last_index_of :: "char \<Rightarrow> string \<Rightarrow> nat option" where
  "last_index_of c s = map_option (\<lambda>i. length s - Suc i) (index_of c (rev s))"

text \<open>\<^verbatim>\<open>net.SplitHostPort\<close>; \<open>None\<close> is an error.\<close>

definition SplitHostPort :: "string \<Rightarrow> (string \<times> string) option" where
  "SplitHostPort hostport =
     (case last_index_of (CHR '':'') hostport of
        None \<Rightarrow> None
      | Some i \<Rightarrow>
          if hd hostport = CHR ''['' then
            (case index_of (CHR '']'') hostport of
               None \<Rightarrow> None
             | Some ed \<Rightarrow>
                 if Suc ed = i \<and> CHR ''['' \<notin> set (drop 1 hostport) \<and> CHR '']'' \<notin> set (drop (Suc ed) hostport)
                 then Some (take (ed - 1) (drop 1 hostport), drop (Suc i) hostport)
                 else None)
          else if CHR '':'' \<in> set (take i hostport) \<or> CHR ''['' \<in> set hostport \<or> CHR '']'' \<in> set hostport
          then None
          else Some (take i hostport, drop (Suc i) hostport))"

definition JoinHostPort :: "string \<Rightarrow> string \<Rightarrow> string" where
  "JoinHostPort host port =
     (if CHR '':'' \<in> set host then ''['' @ host @ '']:'' @ port else host @ '':'' @ port)"

definition ParseNameservers :: "string list \<Rightarrow> string list" where
  "ParseNameservers servers =
     map (\<lambda>resolver. if SplitHostPort resolver = None then JoinHostPort resolver ''53'' else resolver) servers"

definition defaultNameservers :: "string list" where
  "defaultNameservers = [''google-public-dns-a.google.com:53'', ''google-public-dns-b.google.com:53'']"

definition defaultResolvConf :: string where
  "defaultResolvConf = ''/etc/resolv.conf''"

definition getNameservers :: "env \<Rightarrow> string \<Rightarrow> string list \<Rightarrow> string list" where
  "getNameservers e path defaults =
     (case clientConfigFromFile e path of
        Inl _ \<Rightarrow> defaults
      | Inr servers \<Rightarrow> if servers = [] then defaults else ParseNameservers servers)"

section \<open>Queries\<close>

definition RcodeSuccess :: nat where "RcodeSuccess = 0"
definition RcodeNameError :: nat where "RcodeNameError = 3"

definition createDNSMsg :: "string \<Rightarrow> rtype \<Rightarrow> bool \<Rightarrow> dns_query" where
  "createDNSMsg fqdn ty recursive =
     \<lparr>q_Name = fqdn, q_Type = ty, q_RecursionDesired = recursive, q_Edns0 = 4096\<rparr>"

definition exchange :: "env \<Rightarrow> string \<Rightarrow> dns_query \<Rightarrow> string \<Rightarrow> (world, dns_reply) go" where
  "exchange e proto m ns =
     bind (gets (\<lambda>w. dnsExchange e (w_trace w) (w_dnsTimeout w) proto m ns)) (\<lambda>r.
       bind (observe e (EvDns proto m ns)) (\<lambda>_. ret r))"

definition sendDNSQuery :: "env \<Rightarrow> dns_query \<Rightarrow> string \<Rightarrow> (world, dns_reply) go" where
  "sendDNSQuery e m ns =
     bind (exchange e ''udp'' m ns) (\<lambda>(inp, err).
       case inp of
         Some msg \<Rightarrow> if msg_Truncated msg then exchange e ''tcp'' m ns else ret (inp, err)
       | None \<Rightarrow> ret (inp, err))"

fun query_servers :: "env \<Rightarrow> dns_query \<Rightarrow> string list \<Rightarrow> dns_reply \<Rightarrow> (world, dns_reply) go" where
  "query_servers e m [] prev = ret prev"
| "query_servers e m (ns # nss) prev =
     bind (sendDNSQuery e m ns) (\<lambda>(inp, err).
       if err = None then
         (case inp of
            None \<Rightarrow> panic nil_pointer
          | Some msg \<Rightarrow> if msg_Answer msg \<noteq> [] then ret (inp, err) else query_servers e m nss (inp, err))
       else query_servers e m nss (inp, err))"

definition dnsQuery :: "env \<Rightarrow> string \<Rightarrow> rtype \<Rightarrow> string list \<Rightarrow> bool \<Rightarrow> (world, dns_reply) go" where
  "dnsQuery e fqdn ty nameservers recursive =
     query_servers e (createDNSMsg fqdn ty recursive) nameservers (None, None)"

definition is_CNAME :: "rr \<Rightarrow> bool" where
  "is_CNAME r \<longleftrightarrow> (case r of CNAME _ _ \<Rightarrow> True | _ \<Rightarrow> False)"

definition dnsMsgContainsCNAME :: "dns_msg \<Rightarrow> bool" where
  "dnsMsgContainsCNAME msg \<longleftrightarrow> list_ex is_CNAME (msg_Answer msg)"

fun update_cname :: "rr list \<Rightarrow> string \<Rightarrow> string" where
  "update_cname [] fqdn = fqdn"
| "update_cname (CNAME name target # rrs) fqdn = (if name = fqdn then target else update_cname rrs fqdn)"
| "update_cname (_ # rrs) fqdn = update_cname rrs fqdn"

definition updateDomainWithCName :: "dns_msg \<Rightarrow> string \<Rightarrow> string" where
  "updateDomainWithCName r fqdn = update_cname (msg_Answer r) fqdn"

definition formatDNSError :: "env \<Rightarrow> dns_msg option \<Rightarrow> goerror option \<Rightarrow> string" where
  "formatDNSError e msg err =
     (let parts = (case msg of None \<Rightarrow> [] | Some m \<Rightarrow> [rcodeToString e (msg_Rcode m)])
                  @ (case err of None \<Rightarrow> [] | Some er \<Rightarrow> [error_text er]) in
      if parts \<noteq> [] then '': '' @ Join parts '' '' else [])"

section \<open>The SOA cache\<close>

definition newSoaCacheEntry :: "int \<Rightarrow> string \<Rightarrow> string \<Rightarrow> nat \<Rightarrow> soaCacheEntry" where
  "newSoaCacheEntry now name ns refresh =
     \<lparr>soa_zone = name, soa_primaryNs = ns, soa_expires = now + int refresh * Second\<rparr>"

definition isExpired :: "int \<Rightarrow> soaCacheEntry \<Rightarrow> bool" where
  "isExpired now ent \<longleftrightarrow> soa_expires ent < now"

fun first_soa :: "rr list \<Rightarrow> (string \<times> string \<times> nat) option" where
  "first_soa [] = None"
| "first_soa (SOA name ns refresh # rrs) = Some (name, ns, refresh)"
| "first_soa (_ # rrs) = first_soa rrs"

text \<open>What the loop over the labels does with a reply: \<^verbatim>\<open>continue\<close>, or return an entry or an error.\<close>

datatype soa_verdict = NextLabel | Found string string nat | Failed goerror

definition judge_soa :: "env \<Rightarrow> string \<Rightarrow> dns_reply \<Rightarrow> soa_verdict" where
  "judge_soa e domain r =
     (case r of
        (_, Some _) \<Rightarrow> NextLabel
      | (None, None) \<Rightarrow> NextLabel
      | (Some msg, None) \<Rightarrow>
          if msg_Rcode msg = RcodeSuccess then
            (if msg_Answer msg = [] \<or> dnsMsgContainsCNAME msg then NextLabel
             else (case first_soa (msg_Answer msg) of
                     Some (name, ns, refresh) \<Rightarrow> Found name ns refresh
                   | None \<Rightarrow> NextLabel))
          else if msg_Rcode msg = RcodeNameError then NextLabel
          else Failed (Err (''unexpected response code '' @ [CHR 0x27]
                 @ rcodeToString e (msg_Rcode msg) @ [CHR 0x27] @ '' for '' @ domain)))"

fun fetch_labels ::
  "env \<Rightarrow> string \<Rightarrow> string list \<Rightarrow> nat list \<Rightarrow> dns_reply \<Rightarrow> (world, goerror + soaCacheEntry) go" where
  "fetch_labels e fqdn nameservers [] prev =
     ret (Inl (Err (''could not find the start of authority for '' @ fqdn
                    @ formatDNSError e (fst prev) (snd prev))))"
| "fetch_labels e fqdn nameservers (i # ixs) prev =
     (if length fqdn < i then panic ''slice bounds out of range''
      else
        bind (dnsQuery e (drop i fqdn) TypeSOA nameservers True) (\<lambda>r.
          case judge_soa e (drop i fqdn) r of
            NextLabel \<Rightarrow> fetch_labels e fqdn nameservers ixs r
          | Found name ns refresh \<Rightarrow>
              bind (gets w_now) (\<lambda>now. ret (Inr (newSoaCacheEntry now name ns refresh)))
          | Failed err \<Rightarrow> ret (Inl err)))"

definition fetchSoaByFqdn :: "env \<Rightarrow> string \<Rightarrow> string list \<Rightarrow> (world, goerror + soaCacheEntry) go" where
  "fetchSoaByFqdn e fqdn nameservers = fetch_labels e fqdn nameservers (dnsSplit e fqdn) (None, None)"

definition lookupSoaByFqdn :: "env \<Rightarrow> string \<Rightarrow> string list \<Rightarrow> (world, goerror + soaCacheEntry) go" where
  "lookupSoaByFqdn e fqdn nameservers =
     bind (gets (\<lambda>w. (map_of (w_soaCache w) fqdn, w_now w))) (\<lambda>(cached, now).
       let fetch = check (fetchSoaByFqdn e fqdn nameservers) (\<lambda>ent.
             bind (modify (\<lambda>w. w\<lparr>w_soaCache := put fqdn ent (w_soaCache w)\<rparr>)) (\<lambda>_. ret (Inr ent))) in
       case cached of
         Some ent \<Rightarrow> if \<not> isExpired now ent then ret (Inr ent) else fetch
       | None \<Rightarrow> fetch)"

definition ClearFqdnCache :: "(world, unit) go" where
  "ClearFqdnCache = modify (\<lambda>w. w\<lparr>w_soaCache := []\<rparr>)"

definition FindPrimaryNsByFqdnCustom :: "env \<Rightarrow> string \<Rightarrow> string list \<Rightarrow> (world, goerror + string) go" where
  "FindPrimaryNsByFqdnCustom e fqdn nameservers =
     check (lookupSoaByFqdn e fqdn nameservers) (\<lambda>soa. ret (Inr (soa_primaryNs soa)))"

definition FindPrimaryNsByFqdn :: "env \<Rightarrow> string \<Rightarrow> (world, goerror + string) go" where
  "FindPrimaryNsByFqdn e fqdn = bind (gets w_recursiveNameservers) (FindPrimaryNsByFqdnCustom e fqdn)"

definition FindZoneByFqdnCustom :: "env \<Rightarrow> string \<Rightarrow> string list \<Rightarrow> (world, goerror + string) go" where
  "FindZoneByFqdnCustom e fqdn nameservers =
     check (lookupSoaByFqdn e fqdn nameservers) (\<lambda>soa. ret (Inr (soa_zone soa)))"

definition FindZoneByFqdn :: "env \<Rightarrow> string \<Rightarrow> (world, goerror + string) go" where
  "FindZoneByFqdn e fqdn = bind (gets w_recursiveNameservers) (FindZoneByFqdnCustom e fqdn)"

fun ns_names :: "rr list \<Rightarrow> string list" where
  "ns_names [] = []"
| "ns_names (NS name ns # rrs) = ToLower ns # ns_names rrs"
| "ns_names (_ # rrs) = ns_names rrs"

text \<open>A reply used as a message: its nil is dereferenced.\<close>

definition need_msg :: "dns_reply \<Rightarrow> (world, goerror + dns_msg) go" where
  "need_msg r =
     (case r of
        (_, Some err) \<Rightarrow> ret (Inl err)
      | (None, None) \<Rightarrow> panic nil_pointer
      | (Some msg, None) \<Rightarrow> ret (Inr msg))"

definition lookupNameservers :: "env \<Rightarrow> string \<Rightarrow> (world, goerror + string list) go" where
  "lookupNameservers e fqdn =
     handle (FindZoneByFqdn e fqdn)
       (\<lambda>err. ret (Inl (Wrap ''could not determine the zone: '' err))) (\<lambda>zone.
       bind (gets w_recursiveNameservers) (\<lambda>nss.
         check (bind (dnsQuery e zone TypeNS nss True) need_msg) (\<lambda>r.
           let authoritativeNss = ns_names (msg_Answer r) in
           if authoritativeNss \<noteq> [] then ret (Inr authoritativeNss)
           else ret (Inl (Err ''could not determine authoritative nameservers'')))))"

section \<open>The propagation check\<close>

fun txt_records :: "rr list \<Rightarrow> string list" where
  "txt_records [] = []"
| "txt_records (TXT name txts # rrs) = concat txts # txt_records rrs"
| "txt_records (_ # rrs) = txt_records rrs"

fun checkAuthoritativeNss :: "env \<Rightarrow> string \<Rightarrow> string \<Rightarrow> string list \<Rightarrow> (world, goerror + bool) go" where
  "checkAuthoritativeNss e fqdn value [] = ret (Inr True)"
| "checkAuthoritativeNss e fqdn value (ns # nss) =
     check (bind (dnsQuery e fqdn TypeTXT [JoinHostPort ns ''53''] False) need_msg) (\<lambda>r.
       if msg_Rcode r \<noteq> RcodeSuccess
       then ret (Inl (Err (''NS '' @ ns @ '' returned '' @ rcodeToString e (msg_Rcode r) @ '' for '' @ fqdn)))
       else if value \<in> set (txt_records (msg_Answer r)) then checkAuthoritativeNss e fqdn value nss
       else ret (Inl (Err (''NS '' @ ns @ '' did not return the expected TXT record [fqdn: '' @ fqdn
              @ '', value: '' @ value @ '']: '' @ Join (txt_records (msg_Answer r)) '' ,''))))"

type_synonym PreCheckFunc = "string \<Rightarrow> string \<Rightarrow> (world, goerror + bool) go"
type_synonym WrapPreCheckFunc = "string \<Rightarrow> string \<Rightarrow> string \<Rightarrow> PreCheckFunc \<Rightarrow> (world, bool \<times> goerror option) go"

record preCheck =
  pc_checkFunc :: "WrapPreCheckFunc option"
  pc_requireCompletePropagation :: bool

definition newPreCheck :: preCheck where
  "newPreCheck = \<lparr>pc_checkFunc = None, pc_requireCompletePropagation = True\<rparr>"

definition checkDNSPropagation :: "env \<Rightarrow> preCheck \<Rightarrow> PreCheckFunc" where
  "checkDNSPropagation e p fqdn value =
     bind (gets w_recursiveNameservers) (\<lambda>rns.
       bind (dnsQuery e fqdn TypeTXT rns True) (\<lambda>r.
         case snd r of
           Some err \<Rightarrow> ret (Inl err)
         | None \<Rightarrow>
             if \<not> pc_requireCompletePropagation p then ret (Inr True)
             else check (need_msg r) (\<lambda>msg.
               let fqdn = (if msg_Rcode msg = RcodeSuccess then updateDomainWithCName msg fqdn else fqdn) in
               check (lookupNameservers e fqdn) (checkAuthoritativeNss e fqdn value))))"

text \<open>The pair \<^verbatim>\<open>(bool, error)\<close> the polling loop gets; an error comes with \<^verbatim>\<open>false\<close>.\<close>

definition preCheck_call :: "env \<Rightarrow> preCheck \<Rightarrow> string \<Rightarrow> string \<Rightarrow> string \<Rightarrow> (world, bool \<times> goerror option) go" where
  "preCheck_call e p domain fqdn value =
     (case pc_checkFunc p of
        None \<Rightarrow> handle (checkDNSPropagation e p fqdn value)
                  (\<lambda>err. ret (False, Some err)) (\<lambda>ok. ret (ok, None))
      | Some checkFunc \<Rightarrow> checkFunc domain fqdn value (checkDNSPropagation e p))"

section \<open>The dns-01 challenge\<close>

definition DefaultPropagationTimeout :: int where "DefaultPropagationTimeout = 60 * Second"
definition DefaultPollingInterval :: int where "DefaultPollingInterval = 2 * Second"
definition DefaultTTL :: nat where "DefaultTTL = 120"

definition GetRecord :: "env \<Rightarrow> string \<Rightarrow> string \<Rightarrow> (world, string \<times> string) go" where
  "GetRecord e domain keyAuth =
     (let value = base64_encode (sha256 e keyAuth); fqdn = ''_acme-challenge.'' @ domain @ ''.'' in
      if ParseBool (getenv e ''LEGO_EXPERIMENTAL_CNAME_SUPPORT'') = Some True then
        bind (gets w_recursiveNameservers) (\<lambda>rns.
          bind (dnsQuery e fqdn TypeCNAME rns True) (\<lambda>r.
            case r of
              (_, Some _) \<Rightarrow> ret (fqdn, value)
            | (None, None) \<Rightarrow> panic nil_pointer
            | (Some msg, None) \<Rightarrow>
                ret (if msg_Rcode msg = RcodeSuccess then updateDomainWithCName msg fqdn else fqdn, value)))
      else ret (fqdn, value))"

record dns_challenge =
  dc_core :: core
  dc_validate :: ValidateFunc
  dc_provider :: "provider option"
  dc_preCheck :: preCheck

type_synonym ChallengeOption = "dns_challenge \<Rightarrow> (world, dns_challenge \<times> goerror option) go"

definition CondOption :: "bool \<Rightarrow> ChallengeOption \<Rightarrow> ChallengeOption" where
  "CondOption condition opt = (if \<not> condition then (\<lambda>c. ret (c, None)) else opt)"

definition WrapPreCheck :: "WrapPreCheckFunc \<Rightarrow> ChallengeOption" where
  "WrapPreCheck wrap c = ret (c\<lparr>dc_preCheck := (dc_preCheck c)\<lparr>pc_checkFunc := Some wrap\<rparr>\<rparr>, None)"

definition DisableCompletePropagationRequirement :: ChallengeOption where
  "DisableCompletePropagationRequirement c =
     ret (c\<lparr>dc_preCheck := (dc_preCheck c)\<lparr>pc_requireCompletePropagation := False\<rparr>\<rparr>, None)"

definition AddDNSTimeout :: "int \<Rightarrow> ChallengeOption" where
  "AddDNSTimeout timeout c = bind (modify (\<lambda>w. w\<lparr>w_dnsTimeout := timeout\<rparr>)) (\<lambda>_. ret (c, None))"

definition AddRecursiveNameservers :: "string list \<Rightarrow> ChallengeOption" where
  "AddRecursiveNameservers nameservers c =
     bind (modify (\<lambda>w. w\<lparr>w_recursiveNameservers := ParseNameservers nameservers\<rparr>)) (\<lambda>_. ret (c, None))"

definition Dns01_NewChallenge ::
  "core \<Rightarrow> ValidateFunc \<Rightarrow> provider option \<Rightarrow> ChallengeOption list \<Rightarrow> (world, dns_challenge) go" where
  "Dns01_NewChallenge c validation p opts =
     for_each opts (\<lambda>opt chlg. bind (opt chlg) (\<lambda>(chlg, err). ret chlg))
       \<lparr>dc_core = c, dc_validate = validation, dc_provider = p, dc_preCheck = newPreCheck\<rparr>"

text \<open>The challenge and key authorization, which all three methods start from.\<close>

definition dns_key_auth :: "env \<Rightarrow> dns_challenge \<Rightarrow> authorization \<Rightarrow> goerror + challenge \<times> string" where
  "dns_key_auth e ch authz =
     (case FindChallenge DNS01 authz of
        Inl err \<Rightarrow> Inl err
      | Inr chlng \<Rightarrow>
          (case GetKeyAuthorization e (dc_core ch) (chl_Token chlng) of
             Inl err \<Rightarrow> Inl err
           | Inr keyAuth \<Rightarrow> Inr (chlng, keyAuth)))"

definition Dns01_PreSolve :: "env \<Rightarrow> dns_challenge \<Rightarrow> authorization \<Rightarrow> (world, goerror option) go" where
  "Dns01_PreSolve e ch authz =
     (let domain = GetTargetedDomain authz in
      case FindChallenge DNS01 authz of
        Inl err \<Rightarrow> ret (Some err)
      | Inr chlng \<Rightarrow>
          (case dc_provider ch of
             None \<Rightarrow> ret (Some (Err (''['' @ domain @ ''] acme: no DNS Provider configured'')))
           | Some p \<Rightarrow>
               (case GetKeyAuthorization e (dc_core ch) (chl_Token chlng) of
                  Inl err \<Rightarrow> ret (Some err)
                | Inr keyAuth \<Rightarrow>
                    bind (prov_Present p (id_Value (az_Identifier authz)) (chl_Token chlng) keyAuth) (\<lambda>err.
                      case err of
                        None \<Rightarrow> ret None
                      | Some er \<Rightarrow> ret (Some (Wrap (''['' @ domain @ ''] acme: error presenting token: '') er))))))"

definition dns_timeouts :: "provider option \<Rightarrow> int \<times> int" where
  "dns_timeouts p =
     (case p of
        Some q \<Rightarrow> (case prov_Timeout q of
                     Some ti \<Rightarrow> ti | None \<Rightarrow> (DefaultPropagationTimeout, DefaultPollingInterval))
      | None \<Rightarrow> (DefaultPropagationTimeout, DefaultPollingInterval))"

definition Dns01_Solve :: "env \<Rightarrow> dns_challenge \<Rightarrow> authorization \<Rightarrow> (world, goerror option) go" where
  "Dns01_Solve e ch authz =
     (let domain = GetTargetedDomain authz in
      case dns_key_auth e ch authz of
        Inl err \<Rightarrow> ret (Some err)
      | Inr (chlng, keyAuth) \<Rightarrow>
          bind (GetRecord e (id_Value (az_Identifier authz)) keyAuth) (\<lambda>(fqdn, value).
            case dns_timeouts (dc_provider ch) of (timeout, interval) \<Rightarrow>
              bind (sleep e interval) (\<lambda>_.
                bind (For e timeout interval (\<lambda>u.
                        bind (preCheck_call e (dc_preCheck ch) domain fqdn value) (\<lambda>(stop, errP).
                          ret (u, stop, errP))) ()) (\<lambda>(_, err).
                  case err of
                    Some er \<Rightarrow> ret (Some er)
                  | None \<Rightarrow>
                      dc_validate ch (dc_core ch) domain (chlng\<lparr>chl_KeyAuthorization := keyAuth\<rparr>)))))"

definition Dns01_CleanUp :: "env \<Rightarrow> dns_challenge \<Rightarrow> authorization \<Rightarrow> (world, goerror option) go" where
  "Dns01_CleanUp e ch authz =
     (case dns_key_auth e ch authz of
        Inl err \<Rightarrow> ret (Some err)
      | Inr (chlng, keyAuth) \<Rightarrow>
          (case dc_provider ch of
             None \<Rightarrow> panic nil_pointer
           | Some p \<Rightarrow> prov_CleanUp p (id_Value (az_Identifier authz)) (chl_Token chlng) keyAuth))"

definition Dns01_Sequential :: "dns_challenge \<Rightarrow> bool \<times> int" where
  "Dns01_Sequential ch =
     (case dc_provider ch of
        None \<Rightarrow> (False, 0)
      | Some p \<Rightarrow> (case prov_Sequential p of Some d \<Rightarrow> (True, d) | None \<Rightarrow> (False, 0)))"

definition dns_solver :: "env \<Rightarrow> dns_challenge \<Rightarrow> solver" where
  "dns_solver e ch =
     \<lparr>slv_Solve = Dns01_Solve e ch, slv_PreSolve = Some (Dns01_PreSolve e ch),
      slv_CleanUp = Some (Dns01_CleanUp e ch), slv_Sequential = Some (Dns01_Sequential ch)\<rparr>"

definition SetDNS01Provider ::
  "env \<Rightarrow> core \<Rightarrow> provider option \<Rightarrow> ChallengeOption list \<Rightarrow> solvers \<Rightarrow> (world, solvers) go" where
  "SetDNS01Provider e c p opts slvs =
     bind (Dns01_NewChallenge c (validate e) p opts) (\<lambda>ch. ret (put DNS01 (dns_solver e ch) slvs))"

section \<open>The manual provider\<close>

definition read_stdin :: "env \<Rightarrow> (world, goerror option) go" where
  "read_stdin e = bind (gets w_trace) (\<lambda>tr. bind (observe e EvStdin) (\<lambda>_. ret (stdinLine e tr)))"

definition Manual_Present :: "env \<Rightarrow> string \<Rightarrow> string \<Rightarrow> string \<Rightarrow> (world, goerror option) go" where
  "Manual_Present e domain token keyAuth =
     bind (GetRecord e domain keyAuth) (\<lambda>(fqdn, value).
       handle (FindZoneByFqdn e fqdn) (\<lambda>err. ret (Some err)) (\<lambda>authZone. read_stdin e))"

definition Manual_CleanUp :: "env \<Rightarrow> string \<Rightarrow> string \<Rightarrow> string \<Rightarrow> (world, goerror option) go" where
  "Manual_CleanUp e domain token keyAuth =
     bind (GetRecord e domain keyAuth) (\<lambda>(fqdn, _).
       handle (FindZoneByFqdn e fqdn) (\<lambda>err. ret (Some err)) (\<lambda>authZone. ret None))"

definition DNSProviderManual :: "env \<Rightarrow> provider" where
  "DNSProviderManual e =
     \<lparr>prov_Present = Manual_Present e, prov_CleanUp = Manual_CleanUp e, prov_Timeout = None,
      prov_Sequential = Some DefaultPropagationTimeout\<rparr>"

section \<open>Invariants\<close>

context lookup_invariant
begin

lemma always_exchange [always_intros]: "always R (exchange e proto m ns)"
  unfolding exchange_def by (intro always_intros plain_step) simp

lemma always_sendDNSQuery [always_intros]: "always R (sendDNSQuery e m ns)"
  unfolding sendDNSQuery_def by (intro always_intros)

lemma always_query_servers [always_intros]: "always R (query_servers e m nss prev)"
  by (induction nss arbitrary: prev) (auto intro!: always_intros)

lemma always_dnsQuery [always_intros]: "always R (dnsQuery e fqdn ty nss rec)"
  unfolding dnsQuery_def by (intro always_intros)

lemma always_fetch_labels [always_intros]: "always R (fetch_labels e fqdn nss ixs prev)"
proof (induction ixs arbitrary: prev)
  case (Cons i ixs)
  have "always R (case v of
      NextLabel \<Rightarrow> fetch_labels e fqdn nss ixs r
    | Found name ns refresh \<Rightarrow> bind (gets w_now) (\<lambda>now. ret (Inr (newSoaCacheEntry now name ns refresh)))
    | Failed err \<Rightarrow> ret (Inl err))" for v r
    by (cases v) (auto intro!: always_intros Cons)
  then show ?case unfolding fetch_labels.simps by (intro always_intros)
qed (simp add: always_ret)

lemma always_lookupSoa [always_intros]: "always R (lookupSoaByFqdn e fqdn nss)"
  unfolding lookupSoaByFqdn_def fetchSoaByFqdn_def Let_def
  by (intro always_intros always_modify soa_step)

lemma always_need_msg [always_intros]: "always R (need_msg r)"
  unfolding need_msg_def by (auto intro!: always_intros split: prod.split option.split)

lemma always_FindZone [always_intros]: "always R (FindZoneByFqdn e fqdn)"
  unfolding FindZoneByFqdn_def FindZoneByFqdnCustom_def by (intro always_intros)

lemma always_lookupNameservers [always_intros]: "always R (lookupNameservers e fqdn)"
  unfolding lookupNameservers_def by (intro always_intros)

lemma always_checkNss [always_intros]: "always R (checkAuthoritativeNss e fqdn value nss)"
proof (induction nss)
  case (Cons ns nss)
  then show ?case unfolding checkAuthoritativeNss.simps by (intro always_intros)
next
  case Nil
  show ?case unfolding checkAuthoritativeNss.simps by (rule always_ret)
qed

lemma always_propagation [always_intros]: "always R (checkDNSPropagation e p fqdn value)"
  unfolding checkDNSPropagation_def by (intro always_intros)

lemma always_GetRecord [always_intros]: "always R (GetRecord e domain keyAuth)"
  unfolding GetRecord_def Let_def by (intro always_intros)

lemma always_preCheck:
  assumes "\<And>f d q v chk. pc_checkFunc p = Some f \<Longrightarrow> (\<And>x y. always R (chk x y)) \<Longrightarrow> always R (f d q v chk)"
  shows "always R (preCheck_call e p domain fqdn value)"
  unfolding preCheck_call_def by (intro always_intros assms)

lemma dns_solver_keeps:
  assumes "\<And>q. dc_provider ch = Some q \<Longrightarrow> provider_keeps R q"
    and "\<And>d x. always R (dc_validate ch (dc_core ch) d x)"
    and "\<And>f d q v chk. pc_checkFunc (dc_preCheck ch) = Some f \<Longrightarrow> (\<And>x y. always R (chk x y)) \<Longrightarrow>
      always R (f d q v chk)"
  shows "solver_keeps R (dns_solver e ch)"
proof -
  have "always R (Dns01_Solve e ch a)" for a
    unfolding Dns01_Solve_def by (intro always_intros always_preCheck assms)
  moreover have "always R (Dns01_PreSolve e ch a)" for a
    unfolding Dns01_PreSolve_def using assms(1) unfolding provider_keeps_def by (intro always_intros) auto
  moreover have "always R (Dns01_CleanUp e ch a)" for a
    unfolding Dns01_CleanUp_def using assms(1) unfolding provider_keeps_def by (intro always_intros) auto
  ultimately show ?thesis by (simp add: solver_keeps_def dns_solver_def)
qed

lemma manual_keeps: "provider_keeps R (DNSProviderManual e)"
proof -
  have stdin: "always R (read_stdin e)"
    unfolding read_stdin_def by (intro always_intros plain_step) simp
  show ?thesis
    unfolding provider_keeps_def DNSProviderManual_def
    by (simp add: Manual_Present_def Manual_CleanUp_def) (intro allI conjI always_intros stdin)
qed

end

section \<open>Names and addresses\<close>

text \<open>
  Adding and removing the final dot: \<^verbatim>\<open>ToFqdn\<close> ends every non-empty name with one dot
  and is idempotent; removing the dot gives back a name that had none, and adding it gives back every
  fully qualified name but the root.
\<close>

theorem fqdn_roundtrip:
  "ToFqdn (ToFqdn name) = ToFqdn name
   \<and> (name \<noteq> [] \<longrightarrow> last (ToFqdn name) = CHR ''.'')
   \<and> (name = [] \<or> last name \<noteq> CHR ''.'' \<longrightarrow> UnFqdn (ToFqdn name) = name)
   \<and> (UnFqdn name \<noteq> [] \<and> last name = CHR ''.'' \<and> last (UnFqdn name) \<noteq> CHR ''.'' \<longrightarrow>
        ToFqdn (UnFqdn name) = name)
   \<and> ToFqdn (UnFqdn ''.'') = []"
  by (cases name rule: rev_cases) (auto simp: ToFqdn_def UnFqdn_def butlast_append)

theorem fqdn_roundtrip_witness: "UnFqdn (ToFqdn ''a.org'') = ''a.org''"
  using fqdn_roundtrip [of "''a.org''"] by simp

lemma index_of_None [simp]: "index_of c s = None \<longleftrightarrow> c \<notin> set s"
  by (induction s) auto

lemma index_of_append: "c \<notin> set s \<Longrightarrow> index_of c (s @ c # t) = Some (length s)"
  by (induction s) auto

lemma last_index_of_append: "c \<notin> set t \<Longrightarrow> last_index_of c (s @ c # t) = Some (length s)"
proof -
  assume "c \<notin> set t"
  then have "index_of c (rev t @ c # rev s) = Some (length t)"
    using index_of_append [of c "rev t" "rev s"] by simp
  then show ?thesis by (simp add: last_index_of_def)
qed

lemma SplitHostPort_Join:
  assumes "set host \<inter> {CHR ''['', CHR '']''} = {}" and "set port \<inter> {CHR ''['', CHR '']'', CHR '':''} = {}"
  shows "SplitHostPort (JoinHostPort host port) = Some (host, port)"
proof (cases "CHR '':'' \<in> set host")
  case False
  have "last_index_of (CHR '':'') (host @ CHR '':'' # port) = Some (length host)"
    using assms(2) by (intro last_index_of_append) auto
  moreover have "hd (host @ CHR '':'' # port) \<noteq> CHR ''[''"
    using assms(1) by (cases host) auto
  ultimately show ?thesis
    using False assms by (auto simp: SplitHostPort_def JoinHostPort_def)
next
  case True
  have "last_index_of (CHR '':'') ((''['' @ host @ '']'') @ CHR '':'' # port) = Some (length (''['' @ host @ '']''))"
    using assms(2) by (intro last_index_of_append) auto
  moreover have "index_of (CHR '']'') ((''['' @ host) @ CHR '']'' # (CHR '':'' # port)) = Some (length (''['' @ host))"
    using assms(1) by (intro index_of_append) auto
  ultimately show ?thesis
    using True assms by (auto simp: SplitHostPort_def JoinHostPort_def)
qed

text \<open>
  Parsing a list of nameservers gives every server a port: one that has a port is kept,
  one without gets port 53, an IPv6 address in brackets.  Parsing the result again changes nothing.
  A server that is written in brackets but without a port comes out as an address no one can dial.
\<close>

theorem ParseNameservers_have_ports:
  assumes "\<And>s. s \<in> set servers \<Longrightarrow> SplitHostPort s \<noteq> None \<or> set s \<inter> {CHR ''['', CHR '']''} = {}"
  shows "(\<forall>r \<in> set (ParseNameservers servers). SplitHostPort r \<noteq> None)
    \<and> ParseNameservers (ParseNameservers servers) = ParseNameservers servers
    \<and> ParseNameservers [''192.0.2.1'', ''2001:db8::1''] = [''192.0.2.1:53'', ''[2001:db8::1]:53'']
    \<and> ParseNameservers [''[2001:db8::1]''] = [''[[2001:db8::1]]:53'']
    \<and> SplitHostPort ''[[2001:db8::1]]:53'' = None"
proof -
  define f where "f s = (if SplitHostPort s = None then JoinHostPort s ''53'' else s)" for s
  have f: "ParseNameservers = map f" by (simp add: ParseNameservers_def f_def fun_eq_iff)
  have ports: "SplitHostPort (f s) \<noteq> None" if "s \<in> set servers" for s
    using assms [OF that] SplitHostPort_Join [of s "''53''"] by (auto simp: f_def)
  then have "f (f s) = f s" if "s \<in> set servers" for s
    using ports [OF that] unfolding f_def [of "f s"] by (simp only: if_False)
  then have "ParseNameservers (ParseNameservers servers) = ParseNameservers servers"
    by (simp add: f)
  moreover have "\<forall>r \<in> set (ParseNameservers servers). SplitHostPort r \<noteq> None"
    using ports by (simp add: f)
  moreover have "SplitHostPort ''192.0.2.1'' = None" "SplitHostPort ''2001:db8::1'' = None"
    "SplitHostPort ''[2001:db8::1]'' = None"
    by (simp_all add: SplitHostPort_def last_index_of_def)
  then have "ParseNameservers [''192.0.2.1'', ''2001:db8::1''] = [''192.0.2.1:53'', ''[2001:db8::1]:53'']"
    "ParseNameservers [''[2001:db8::1]''] = [''[[2001:db8::1]]:53'']"
    by (simp_all add: ParseNameservers_def JoinHostPort_def)
  moreover have "SplitHostPort ''[[2001:db8::1]]:53'' = None"
    by (simp add: SplitHostPort_def last_index_of_def)
  ultimately show ?thesis by blast
qed

theorem ParseNameservers_have_ports_witness:
  "ParseNameservers (ParseNameservers [''ns1.example.org'']) = ParseNameservers [''ns1.example.org'']"
  using ParseNameservers_have_ports [of "[''ns1.example.org'']"] by simp

section \<open>Propagation\<close>

lemma need_msg_Return: "need_msg r u = (Return (Inr msg), v) \<longleftrightarrow> r = (Some msg, None) \<and> v = u"
  by (auto simp: need_msg_def split: prod.splits option.splits)

text \<open>What one authoritative server has to answer.\<close>

definition confirms :: "env \<Rightarrow> string \<Rightarrow> string \<Rightarrow> string \<Rightarrow> bool" where
  "confirms e fqdn value ns \<longleftrightarrow>
     (\<exists>u msg v. dnsQuery e fqdn TypeTXT [JoinHostPort ns ''53''] False u = (Return (Some msg, None), v)
        \<and> msg_Rcode msg = 0 \<and> value \<in> set (txt_records (msg_Answer msg)))"

lemma checkAuthoritativeNss_confirms:
  assumes "checkAuthoritativeNss e fqdn value nss w = (Return (Inr ok), t)"
  shows "ok \<and> (\<forall>ns \<in> set nss. confirms e fqdn value ns)"
  using assms
proof (induction nss arbitrary: w)
  case (Cons ns nss)
  then obtain msg u v where "dnsQuery e fqdn TypeTXT [JoinHostPort ns ''53''] False w = (Return (Some msg, None), v)"
    "msg_Rcode msg = RcodeSuccess" "value \<in> set (txt_records (msg_Answer msg))"
    "checkAuthoritativeNss e fqdn value nss v = (Return (Inr ok), t)"
    by (auto simp: check_Return_eq bind_Return_eq need_msg_Return split: if_splits)
  with Cons.IH show ?case
    by (auto simp: confirms_def RcodeSuccess_def)
qed simp



section \<open>The cache\<close>

text \<open>An answer that names the zone.\<close>

definition soa_answer :: "env \<Rightarrow> string \<Rightarrow> string list \<Rightarrow> world \<Rightarrow> soaCacheEntry \<Rightarrow> world \<Rightarrow> bool" where
  "soa_answer e domain nss u ent v \<longleftrightarrow>
     (\<exists>msg name ns r. dnsQuery e domain TypeSOA nss True u = (Return (Some msg, None), v)
        \<and> msg_Rcode msg = RcodeSuccess \<and> \<not> dnsMsgContainsCNAME msg
        \<and> first_soa (msg_Answer msg) = Some (name, ns, r) \<and> ent = newSoaCacheEntry (w_now v) name ns r)"

lemma judge_soa_Found:
  "judge_soa e domain r = Found name ns refresh \<longleftrightarrow>
     (\<exists>msg. r = (Some msg, None) \<and> msg_Rcode msg = RcodeSuccess \<and> \<not> dnsMsgContainsCNAME msg
        \<and> first_soa (msg_Answer msg) = Some (name, ns, refresh))"
  by (cases r; cases "fst r"; cases "snd r")
    (auto simp: judge_soa_def split: if_splits option.splits)

lemma fetch_labels_step:
  assumes "fetch_labels e fqdn nss (i # ixs) prev u = (Return (Inr ent), v)"
  shows "(\<exists>prev' x. fetch_labels e fqdn nss ixs prev' x = (Return (Inr ent), v))
    \<or> soa_answer e (drop i fqdn) nss u ent v"
proof -
  have "\<not> length fqdn < i" using assms by (auto split: if_splits)
  with assms obtain r x where q: "dnsQuery e (drop i fqdn) TypeSOA nss True u = (Return r, x)"
    and k: "(case judge_soa e (drop i fqdn) r of
            NextLabel \<Rightarrow> fetch_labels e fqdn nss ixs r
          | Found name ns refresh \<Rightarrow>
              bind (gets w_now) (\<lambda>now. ret (Inr (newSoaCacheEntry now name ns refresh)))
          | Failed err \<Rightarrow> ret (Inl err)) x = (Return (Inr ent), v)"
    by (auto simp: bind_Return_eq)
  show ?thesis
  proof (cases "judge_soa e (drop i fqdn) r")
    case NextLabel
    with k have "fetch_labels e fqdn nss ixs r x = (Return (Inr ent), v)" by simp
    then show ?thesis by blast
  next
    case (Found name ns refresh)
    with k have "ent = newSoaCacheEntry (w_now x) name ns refresh" "v = x" by (auto simp: bind_def)
    with q Found show ?thesis by (auto simp: judge_soa_Found soa_answer_def)
  next
    case (Failed err)
    with k show ?thesis by simp
  qed
qed

lemma fetch_labels_found:
  assumes "fetch_labels e fqdn nss ixs prev w = (Return (Inr ent), v)"
  shows "\<exists>i \<in> set ixs. \<exists>u. soa_answer e (drop i fqdn) nss u ent v"
  using assms
proof (induction ixs arbitrary: prev w)
  case (Cons i ixs)
  from fetch_labels_step [OF Cons.prems] Cons.IH show ?case by auto
qed simp


section \<open>A sample zone\<close>

text \<open>A resolver and a nameserver that answer for one zone.\<close>

definition sample_dns :: env where
  "sample_dns = sample_env\<lparr>dnsExchange := (\<lambda>_ _ _ q _.
     (Some \<lparr>msg_Rcode = 0, msg_Answer =
        (if q_Type q = TypeTXT then [TXT (q_Name q) [''tok'', ''en'']]
         else if q_Type q = TypeSOA then [SOA ''a.org.'' ''ns.a.org.'' 60]
         else if q_Type q = TypeNS then [NS ''a.org.'' ''NS.a.org.'']
         else []), msg_Truncated = False\<rparr>, None))\<rparr>"

lemmas dns_eval =
  dnsQuery_def createDNSMsg_def sendDNSQuery_def exchange_def go_simps Let_def sample_dns_def
  sample_env_def sample_world_def need_msg_def lookupNameservers_def FindZoneByFqdn_def
  FindZoneByFqdnCustom_def lookupSoaByFqdn_def fetchSoaByFqdn_def judge_soa_def
  RcodeSuccess_def RcodeNameError_def dnsMsgContainsCNAME_def is_CNAME_def newSoaCacheEntry_def
  updateDomainWithCName_def


lemma sample_propagation:
  "fst (checkDNSPropagation sample_dns newPreCheck ''x.a.org.'' ''token'' sample_world) = Return (Inr True)"
  by (simp add: checkDNSPropagation_def newPreCheck_def dns_eval ToLower_def JoinHostPort_def)


definition sample_dns_challenge :: dns_challenge where
  "sample_dns_challenge = \<lparr>dc_core = sample_core, dc_validate = (\<lambda>_ _ _. ret None),
     dc_provider = Some \<lparr>prov_Present = (\<lambda>_ _ _. ret None), prov_CleanUp = (\<lambda>_ _ _. ret None),
       prov_Timeout = Some (5, 5), prov_Sequential = None\<rparr>,
     dc_preCheck = \<lparr>pc_checkFunc = Some (\<lambda>_ _ _ _. ret (True, None)), pc_requireCompletePropagation = True\<rparr>\<rparr>"


section \<open>The solver keeps its promise\<close>

lemma Dns01_Solve_validates:
  assumes "Dns01_Solve e ch a w = (Return None, t)"
    and "\<And>f d q v chk. pc_checkFunc (dc_preCheck ch) = Some f \<Longrightarrow> (\<And>x y. always grows (chk x y)) \<Longrightarrow>
      always grows (f d q v chk)"
  obtains chlng k y where "FindChallenge DNS01 a = Inr chlng" "grows w y"
    "dc_validate ch (dc_core ch) (GetTargetedDomain a) (chlng\<lparr>chl_KeyAuthorization := k\<rparr>) y = (Return None, t)"
proof -
  obtain chlng k where key: "dns_key_auth e ch a = Inr (chlng, k)"
    using assms(1) by (auto simp: Dns01_Solve_def Let_def split: sum.splits)
  then have find: "FindChallenge DNS01 a = Inr chlng"
    by (auto simp: dns_key_auth_def split: sum.splits)
  let ?prefix = "bind (GetRecord e (id_Value (az_Identifier a)) k) (\<lambda>(fqdn, value).
      case dns_timeouts (dc_provider ch) of (timeout, interval) \<Rightarrow>
        bind (sleep e interval) (\<lambda>_.
          For e timeout interval (\<lambda>u.
            bind (preCheck_call e (dc_preCheck ch) (GetTargetedDomain a) fqdn value) (\<lambda>(stop, errP).
              ret (u, stop, errP))) ()))"
  obtain y where pre: "?prefix w = (Return ((), None), y)"
    and vld: "dc_validate ch (dc_core ch) (GetTargetedDomain a) (chlng\<lparr>chl_KeyAuthorization := k\<rparr>) y
      = (Return None, t)"
    using assms(1)
    by (fastforce simp: Dns01_Solve_def Let_def key bind_Return_eq split: option.splits prod.splits)
  have "always grows ?prefix"
    by (intro always_intros growing.always_preCheck assms(2))
  then have "grows w y" using pre by (rule alwaysD)
  with find vld show ?thesis using that by blast
qed

lemma Dns01_honest:
  assumes "retry_ok e" and "\<And>q. dc_provider ch = Some q \<Longrightarrow> provider_keeps grows q"
    and "dc_validate ch = validate e"
    and "\<And>f d q v chk. pc_checkFunc (dc_preCheck ch) = Some f \<Longrightarrow> (\<And>x y. always grows (chk x y)) \<Longrightarrow>
      always grows (f d q v chk)"
  shows "honest e (dc_core ch) (dns_solver e ch)"
  unfolding honest_def
proof (intro conjI allI impI)
  show "solver_keeps grows (dns_solver e ch)"
    by (rule growing.dns_solver_keeps) (use assms in \<open>auto intro: growing.always_validate\<close>)
  fix a w t
  assume "slv_Solve (dns_solver e ch) a w = (Return None, t)"
  then have run: "Dns01_Solve e ch a w = (Return None, t)" by (simp add: dns_solver_def)
  from run assms(4) show "validated_between e (dc_core ch) a w t"
    by (rule Dns01_Solve_validates)
      (auto simp: assms(3) intro: validated_betweenI [OF assms(1)] growth.step_refl)
qed

text \<open>
  The table of solvers after \<^verbatim>\<open>SetDNS01Provider\<close> with the manual provider, for an environment whose
  retry policy is the concrete one of \<open>World\<close>.
\<close>

definition with_retries :: "nat \<Rightarrow> env \<Rightarrow> env" where
  "with_retries n e = e\<lparr>retry := (\<lambda>_. retry_times n)\<rparr>"

definition manual_solvers :: "env \<Rightarrow> core \<Rightarrow> solvers" where
  "manual_solvers e c =
     [(DNS01, dns_solver e \<lparr>dc_core = c, dc_validate = validate e,
        dc_provider = Some (DNSProviderManual e), dc_preCheck = newPreCheck\<rparr>)]"

lemma SetDNS01Provider_manual:
  "SetDNS01Provider e c (Some (DNSProviderManual e)) [] [] w = (Return (manual_solvers e c), w)"
  by (simp add: SetDNS01Provider_def Dns01_NewChallenge_def manual_solvers_def)

lemma retry_ok_with_retries: "retry_ok (with_retries n e)"
  by (rule retry_ok_sample [of _ n]) (simp add: with_retries_def)

interpretation manual: honest_solvers "with_retries n e" c "manual_solvers (with_retries n e) c" for n e c
proof
  let ?e = "with_retries n e"
  let ?ch = "\<lparr>dc_core = c, dc_validate = validate ?e, dc_provider = Some (DNSProviderManual ?e),
    dc_preCheck = newPreCheck\<rparr>"
  show "honest ?e c s" if "s \<in> ran (map_of (manual_solvers ?e c))" for s
    using that Dns01_honest [OF retry_ok_with_retries, of ?ch n e] growing.manual_keeps [of ?e]
    by (auto simp: manual_solvers_def newPreCheck_def ran_def split: if_splits)
qed

end
