(* ===== verification/Lego.thy ===== *)
theory Lego
  imports Registration Certificate Dns01
begin

text \<open>
  Package \<^verbatim>\<open>lego\<close>: the configuration and the client, which ties the packages together.  A client holds one
  core (and with it one nonce pool and one key identifier, in the \<open>world\<close>), the table of solvers, and the
  options of the certifier; its certifier solves with the prober of package \<^verbatim>\<open>resolver\<close> over that table.

  The step relation \<open>client_step\<close> has a rule for every public operation of a client.  Proved by rule
  induction over it: the solvers of a client always keep the contract of \<open>honest_solvers\<close>, and the nonce
  accounting of \<open>Jws\<close> holds in every state.
\<close>

definition caCertificatesEnvVar :: string where "caCertificatesEnvVar = ''LEGO_CA_CERTIFICATES''"
definition caServerNameEnvVar :: string where "caServerNameEnvVar = ''LEGO_CA_SERVER_NAME''"

definition LEDirectoryProduction :: string where
  "LEDirectoryProduction = ''https://acme-v02.api.letsencrypt.org/directory''"

definition LEDirectoryStaging :: string where
  "LEDirectoryStaging = ''https://acme-staging-v02.api.letsencrypt.org/directory''"

text \<open>What the program sets of an HTTP client; a pool of root certificates is the PEM text it was read from.\<close>

record http_client =
  hc_Timeout :: int
  hc_DialTimeout :: int
  hc_KeepAlive :: int
  hc_TLSHandshakeTimeout :: int
  hc_ResponseHeaderTimeout :: int
  hc_ExpectContinueTimeout :: int
  hc_ServerName :: string
  hc_RootCAs :: "string option"

record lego_config =
  cfg_CADirURL :: string
  cfg_User :: "user option"
  cfg_UserAgent :: string
  cfg_HTTPClient :: "http_client option"
  cfg_KeyType :: KeyType
  cfg_Timeout :: int

definition initCertPool :: "env \<Rightarrow> string option outcome" where
  "initCertPool e =
     (let customCACertsPath = getenv e caCertificatesEnvVar in
      if customCACertsPath = [] then Return None
      else
        (case readFile e customCACertsPath of
           Inl err \<Rightarrow> Panic (''error reading LEGO_CA_CERTIFICATES='' @ Quote customCACertsPath @ '': '' @ error_text err)
         | Inr customCAs \<Rightarrow>
             if appendCertsFromPEM e customCAs then Return (Some customCAs)
             else Panic (''error creating x509 cert pool from LEGO_CA_CERTIFICATES='' @ Quote customCACertsPath
                         @ '': <nil>'')))"

definition createDefaultHTTPClient :: "env \<Rightarrow> http_client outcome" where
  "createDefaultHTTPClient e =
     (case initCertPool e of
        Return roots \<Rightarrow>
          Return \<lparr>hc_Timeout = 0, hc_DialTimeout = 30 * Second, hc_KeepAlive = 30 * Second,
            hc_TLSHandshakeTimeout = 15 * Second, hc_ResponseHeaderTimeout = 15 * Second,
            hc_ExpectContinueTimeout = 1 * Second, hc_ServerName = getenv e caServerNameEnvVar,
            hc_RootCAs = roots\<rparr>
      | Panic m \<Rightarrow> Panic m
      | Exit m \<Rightarrow> Exit m
      | Stuck \<Rightarrow> Stuck)"

definition NewConfig :: "env \<Rightarrow> user option \<Rightarrow> lego_config outcome" where
  "NewConfig e u =
     (case createDefaultHTTPClient e of
        Return hc \<Rightarrow>
          Return \<lparr>cfg_CADirURL = LEDirectoryProduction, cfg_User = u, cfg_UserAgent = [],
            cfg_HTTPClient = Some hc, cfg_KeyType = RSA2048, cfg_Timeout = 30 * Second\<rparr>
      | Panic m \<Rightarrow> Panic m
      | Exit m \<Rightarrow> Exit m
      | Stuck \<Rightarrow> Stuck)"

record client =
  cl_core :: core
  cl_solvers :: solvers
  cl_user :: user
  cl_KeyType :: KeyType
  cl_Timeout :: int

definition NewSolversManager :: solvers where
  "NewSolversManager = []"

definition NewClient :: "env \<Rightarrow> lego_config option \<Rightarrow> (world, goerror + client) go" where
  "NewClient e config =
     (case config of
        None \<Rightarrow> ret (Inl (Err ''a configuration must be provided''))
      | Some cfg \<Rightarrow>
          (case urlParse e (cfg_CADirURL cfg) of
             Some err \<Rightarrow> ret (Inl err)
           | None \<Rightarrow>
               if cfg_HTTPClient cfg = None then ret (Inl (Err ''the HTTP client cannot be nil''))
               else
                 (case cfg_User cfg of
                    None \<Rightarrow> panic nil_pointer
                  | Some u \<Rightarrow>
                      (case usr_PrivateKey u of
                         None \<Rightarrow> ret (Inl (Err ''private key was nil''))
                       | Some privateKey \<Rightarrow>
                           (let kid = (case usr_Registration u of None \<Rightarrow> [] | Some reg \<Rightarrow> rr_URI reg) in
                            check (Core_New e (cfg_UserAgent cfg) (cfg_CADirURL cfg) kid privateKey) (\<lambda>c.
                              ret (Inr \<lparr>cl_core = c, cl_solvers = NewSolversManager, cl_user = u,
                                cl_KeyType = cfg_KeyType cfg, cl_Timeout = cfg_Timeout cfg\<rparr>)))))))"

text \<open>The fields \<^verbatim>\<open>Certificate\<close> and \<^verbatim>\<open>Registration\<close> of the client.\<close>

definition client_certifier :: "env \<Rightarrow> client \<Rightarrow> certifier" where
  "client_certifier e cl =
     \<lparr>cf_core = cl_core cl, cf_Solve = Prober_Solve e (cl_solvers cl), cf_KeyType = cl_KeyType cl,
      cf_Timeout = cl_Timeout cl\<rparr>"

definition client_registrar :: "client \<Rightarrow> registrar option" where
  "client_registrar cl = Some (NewRegistrar (cl_core cl) (Some (cl_user cl)))"

definition GetToSURL :: "client \<Rightarrow> string" where
  "GetToSURL cl = meta_TermsOfService (dir_Meta (core_directory (cl_core cl)))"

definition GetExternalAccountRequired :: "client \<Rightarrow> bool" where
  "GetExternalAccountRequired cl = meta_ExternalAccountRequired (dir_Meta (core_directory (cl_core cl)))"

section \<open>Providers a client can trust\<close>

text \<open>
  A tame step only adds to the history and keeps the nonce accounting.  Providers and options are code of
  the user; that they are tame is what the theorems below assume of them.
\<close>

definition tame :: "world \<Rightarrow> world \<Rightarrow> bool" where
  "tame s t \<longleftrightarrow> grows s t \<and> keeps nonces_ok s t"

lemma always_tame: "always tame m \<longleftrightarrow> always grows m \<and> always (keeps nonces_ok) m"
  by (auto simp: always_def tame_def)

lemma tame_fields:
  "w_trace t = w_trace s \<Longrightarrow> w_nonces t = w_nonces s \<Longrightarrow> w_now s \<le> w_now t \<Longrightarrow> tame s t"
  by (simp add: tame_def grows_fields keeps_held)

interpretation tame_step: client_invariant tame
proof unfold_locales
  show "tame s s" for s by (simp add: tame_fields)
  show "tame s u" if "tame s t" "tame t u" for s t u
    using that growth.step_trans unfolding tame_def keeps_def by blast
  show "always tame (observe e ev)" if "sent_in ev = []" for ev e
    using that growing.plain_step nonce_safe.plain_step by (simp add: always_tame)
  show "always tame NewManager"
    using growing.pool_step nonce_safe.pool_step by (simp add: always_tame)
  show "always tame (signedPost e c uri content target)" for e c uri content target
    using growing.post_step nonce_safe.post_step by (simp add: always_tame)
qed (simp_all add: tame_fields)

lemma outside_tame: "outside s t \<Longrightarrow> tame s t"
  by (simp add: tame_def outside_grows outside_nonces)

lemma provider_outside_tame: "provider_keeps outside p \<Longrightarrow> provider_keeps tame p"
  by (auto simp: provider_keeps_def intro: always_mono [of outside] outside_tame)

lemma provider_tame_grows: "provider_keeps tame p \<Longrightarrow> provider_keeps grows p"
  by (simp add: provider_keeps_def always_tame)

text \<open>A challenge built by this client, and an option that keeps it so.\<close>

definition good_challenge :: "env \<Rightarrow> core \<Rightarrow> dns_challenge \<Rightarrow> bool" where
  "good_challenge e c ch \<longleftrightarrow> dc_core ch = c \<and> dc_validate ch = validate e
     \<and> (\<forall>q. dc_provider ch = Some q \<longrightarrow> provider_keeps tame q)
     \<and> (\<forall>f d q v chk. pc_checkFunc (dc_preCheck ch) = Some f \<longrightarrow>
          ((\<forall>x y. always grows (chk x y)) \<longrightarrow> always grows (f d q v chk))
          \<and> ((\<forall>x y. always tame (chk x y)) \<longrightarrow> always tame (f d q v chk)))"

definition good_option :: "env \<Rightarrow> core \<Rightarrow> ChallengeOption \<Rightarrow> bool" where
  "good_option e c opt \<longleftrightarrow> (\<forall>ch. always tame (opt ch))
     \<and> (\<forall>ch w ch' err t. good_challenge e c ch \<longrightarrow> opt ch w = (Return (ch', err), t) \<longrightarrow>
          good_challenge e c ch')"

lemma good_CondOption: "good_option e c opt \<Longrightarrow> good_option e c (CondOption b opt)"
  unfolding CondOption_def by (simp add: good_option_def tame_step.always_ret)

lemma good_Disable: "good_option e c DisableCompletePropagationRequirement"
  unfolding good_option_def DisableCompletePropagationRequirement_def
  by (simp add: always_def tame_fields good_challenge_def)

lemma good_AddDNSTimeout: "good_option e c (AddDNSTimeout d)"
  unfolding good_option_def AddDNSTimeout_def by (simp add: always_def tame_fields bind_def)

lemma good_AddRecursiveNameservers: "good_option e c (AddRecursiveNameservers nss)"
  unfolding good_option_def AddRecursiveNameservers_def by (simp add: always_def tame_fields bind_def)

lemma good_options_loop:
  assumes "for_each opts (\<lambda>opt chlg. bind (opt chlg) (\<lambda>(chlg, err). ret chlg)) ch w = (Return ch', t)"
    and "\<And>opt. opt \<in> set opts \<Longrightarrow> good_option e c opt" and "good_challenge e c ch"
  shows "good_challenge e c ch'"
  using assms
proof (induction opts arbitrary: ch w)
  case (Cons opt opts)
  let ?body = "\<lambda>opt chlg. bind (opt chlg) (\<lambda>(chlg, err). ret chlg)"
  from Cons.prems(1) obtain x v y u where one: "opt ch w = (Return x, v)"
    and y: "(case x of (chlg, err) \<Rightarrow> ret chlg) v = (Return y, u)"
    and rest: "for_each opts ?body y u = (Return ch', t)"
    unfolding for_each.simps bind_Return_eq by blast
  from y have x: "x = (y, snd x)" by (cases x) simp
  have "good_option e c opt" using Cons.prems(2) by simp
  then have "good_challenge e c y"
    using one x Cons.prems(3) unfolding good_option_def by metis
  with Cons.IH [OF rest] Cons.prems(2) show ?case by simp
qed simp

text \<open>The solvers a client may hold.\<close>

definition good_solver :: "env \<Rightarrow> core \<Rightarrow> solver \<Rightarrow> bool" where
  "good_solver e c s \<longleftrightarrow> honest e c s \<and> solver_keeps tame s"

lemma good_Http01:
  "retry_ok e \<Longrightarrow> provider_keeps tame p \<Longrightarrow> good_solver e c (Http01_NewChallenge e c (validate e) p)"
  unfolding good_solver_def
  by (intro conjI Http01_honest tame_step.Http01_keeps tame_step.always_validate provider_tame_grows)

lemma good_Tlsalpn01:
  "retry_ok e \<Longrightarrow> provider_keeps tame p \<Longrightarrow> good_solver e c (Tlsalpn01_NewChallenge e c (validate e) p)"
  unfolding good_solver_def
  by (intro conjI Tlsalpn01_honest tame_step.Tlsalpn01_keeps tame_step.always_validate provider_tame_grows)

lemma good_Dns01:
  assumes "retry_ok e" and "good_challenge e c ch"
  shows "good_solver e c (dns_solver e ch)"
proof -
  have core: "dc_core ch = c" and vld: "dc_validate ch = validate e"
    and prov: "dc_provider ch = Some q \<Longrightarrow> provider_keeps tame q"
    and grow: "pc_checkFunc (dc_preCheck ch) = Some f \<Longrightarrow> (\<And>x y. always grows (chk x y)) \<Longrightarrow>
      always grows (f d fq v chk)"
    and tm: "pc_checkFunc (dc_preCheck ch) = Some f \<Longrightarrow> (\<And>x y. always tame (chk x y)) \<Longrightarrow>
      always tame (f d fq v chk)" for q f d fq v chk
    using assms(2) unfolding good_challenge_def by blast+
  have "honest e (dc_core ch) (dns_solver e ch)"
    using assms(1) provider_tame_grows [OF prov] vld grow by (rule Dns01_honest)
  moreover have "solver_keeps tame (dns_solver e ch)"
  proof (rule tame_step.dns_solver_keeps)
    show "always tame (dc_validate ch (dc_core ch) d x)" for d x
      unfolding vld by (rule tame_step.always_validate [OF assms(1)])
  qed (rule prov tm; assumption)+
  ultimately show ?thesis by (simp add: good_solver_def core)
qed

section \<open>The operations of a client\<close>

type_synonym client_state = "client \<times> world"

text \<open>
  One rule per public operation, and \<open>step_other\<close> for the code around the client that uses the same
  network, as the constructor of a provider does.  An operation may end in any way, an error or a recovered
  panic included; the state after it is the one it left.
\<close>

inductive client_step :: "env \<Rightarrow> client_state \<Rightarrow> client_state \<Rightarrow> bool" for e where
  step_http01: "provider_keeps tame p \<Longrightarrow>
     client_step e (cl, w) (cl\<lparr>cl_solvers := SetHTTP01Provider e (cl_core cl) p (cl_solvers cl)\<rparr>, w)"
| step_tlsalpn01: "provider_keeps tame p \<Longrightarrow>
     client_step e (cl, w) (cl\<lparr>cl_solvers := SetTLSALPN01Provider e (cl_core cl) p (cl_solvers cl)\<rparr>, w)"
| step_dns01: "(\<And>q. p = Some q \<Longrightarrow> provider_keeps tame q) \<Longrightarrow>
     (\<And>opt. opt \<in> set opts \<Longrightarrow> good_option e (cl_core cl) opt) \<Longrightarrow>
     SetDNS01Provider e (cl_core cl) p opts (cl_solvers cl) w = (Return slvs, t) \<Longrightarrow>
     client_step e (cl, w) (cl\<lparr>cl_solvers := slvs\<rparr>, t)"
| step_other: "outside w t \<Longrightarrow> client_step e (cl, w) (cl, t)"
| step_remove: "client_step e (cl, w) (cl\<lparr>cl_solvers := Remove ty (cl_solvers cl)\<rparr>, w)"
| step_obtain: "Obtain e (client_certifier e cl) req w = (r, t) \<Longrightarrow> client_step e (cl, w) (cl, t)"
| step_obtain_csr: "ObtainForCSR e (client_certifier e cl) csr_req w = (r, t) \<Longrightarrow>
     client_step e (cl, w) (cl, t)"
| step_renew: "Renew e (client_certifier e cl) res bndl ms pc w = (r, t) \<Longrightarrow> client_step e (cl, w) (cl, t)"
| step_revoke: "Revoke e (client_certifier e cl) cert w = (rv, t) \<Longrightarrow> client_step e (cl, w) (cl, t)"
| step_ocsp: "GetOCSP e (client_certifier e cl) cert w = (ro, t) \<Longrightarrow> client_step e (cl, w) (cl, t)"
| step_get: "Certifier_Get e (client_certifier e cl) url bndl w = (rg, t) \<Longrightarrow> client_step e (cl, w) (cl, t)"
| step_register: "Register e (client_registrar cl) tos w = (rr, t) \<Longrightarrow> client_step e (cl, w) (cl, t)"
| step_register_eab: "RegisterWithExternalAccountBinding e (client_registrar cl) opts' w = (rr, t) \<Longrightarrow>
     client_step e (cl, w) (cl, t)"
| step_query: "QueryRegistration e (client_registrar cl) w = (rr, t) \<Longrightarrow> client_step e (cl, w) (cl, t)"
| step_update: "UpdateRegistration e (client_registrar cl) tos w = (rr, t) \<Longrightarrow> client_step e (cl, w) (cl, t)"
| step_delete: "DeleteRegistration e (client_registrar cl) w = (rv, t) \<Longrightarrow> client_step e (cl, w) (cl, t)"
| step_resolve: "ResolveAccountByKey e (client_registrar cl) w = (rr, t) \<Longrightarrow> client_step e (cl, w) (cl, t)"

inductive_cases client_stepE: "client_step e s s'"

abbreviation client_reaches :: "env \<Rightarrow> client_state \<Rightarrow> client_state \<Rightarrow> bool" where
  "client_reaches e \<equiv> (client_step e)\<^sup>*\<^sup>*"

definition good_solvers :: "env \<Rightarrow> client \<Rightarrow> bool" where
  "good_solvers e cl \<longleftrightarrow> (\<forall>s \<in> ran (map_of (cl_solvers cl)). good_solver e (cl_core cl) s)"

lemma good_solvers_put:
  "good_solvers e cl \<Longrightarrow> good_solver e (cl_core cl) s \<Longrightarrow>
   good_solvers e (cl\<lparr>cl_solvers := put ty s (cl_solvers cl)\<rparr>)"
  by (auto simp: good_solvers_def ran_def split: if_splits)

lemma good_solvers_Remove: "good_solvers e cl \<Longrightarrow> good_solvers e (cl\<lparr>cl_solvers := Remove ty (cl_solvers cl)\<rparr>)"
proof -
  have "map_of (Remove ty l) k = (if k = ty then None else map_of l k)" for l :: solvers and k
    unfolding Remove_def by (induction l) auto
  then show "good_solvers e cl \<Longrightarrow> ?thesis"
    by (auto simp: good_solvers_def ran_def split: if_splits)
qed

lemma always_client_Solve:
  "good_solvers e cl \<Longrightarrow> always tame (cf_Solve (client_certifier e cl) authz)"
  unfolding client_certifier_def
  by (auto intro!: tame_step.always_Prober_Solve simp: good_solvers_def good_solver_def)

lemma always_SetDNS01Provider:
  assumes "\<And>opt. opt \<in> set opts \<Longrightarrow> good_option e c opt"
  shows "always tame (SetDNS01Provider e c p opts slvs)"
  unfolding SetDNS01Provider_def Dns01_NewChallenge_def using assms
  by (intro always_intros) (simp_all add: good_option_def)

lemma client_step_keeps:
  assumes "client_step e s s'" and "retry_ok e" and "good_solvers e (fst s)"
  shows "good_solvers e (fst s') \<and> tame (snd s) (snd s') \<and> cl_core (fst s') = cl_core (fst s)"
  using assms(1,3)
proof (cases rule: client_step.cases)
  case (step_dns01 p opts cl w slvs t)
  then obtain ch u where new: "Dns01_NewChallenge (cl_core cl) (validate e) p opts w = (Return ch, u)"
    and slvs: "slvs = put DNS01 (dns_solver e ch) (cl_solvers cl)"
    by (auto simp: SetDNS01Provider_def bind_Return_eq)
  have "good_challenge e (cl_core cl) \<lparr>dc_core = cl_core cl, dc_validate = validate e, dc_provider = p,
      dc_preCheck = newPreCheck\<rparr>"
    using step_dns01(3) by (simp add: good_challenge_def newPreCheck_def)
  then have "good_challenge e (cl_core cl) ch"
    using good_options_loop [OF new [unfolded Dns01_NewChallenge_def] step_dns01(4)] by blast
  then show ?thesis
    using good_Dns01 [OF assms(2)] good_solvers_put assms(3) step_dns01(1,2) slvs
      alwaysD [OF always_SetDNS01Provider [OF step_dns01(4)] step_dns01(5)] by simp
next
  case (step_obtain cl req w r t)
  with assms(3) alwaysD [OF tame_step.always_Obtain(1) [OF assms(2) always_client_Solve] step_obtain(3)]
  show ?thesis by simp
next
  case (step_obtain_csr cl req w r t)
  with assms(3) alwaysD [OF tame_step.always_Obtain(2) [OF assms(2) always_client_Solve] step_obtain_csr(3)]
  show ?thesis by simp
next
  case (step_renew cl res bndl ms pc w r t)
  with assms(3) alwaysD [OF tame_step.always_Renew [OF assms(2) always_client_Solve] step_renew(3)]
  show ?thesis by simp
qed (auto simp: SetHTTP01Provider_def SetTLSALPN01Provider_def tame_step.step_refl outside_tame
    intro!: good_solvers_put good_solvers_Remove good_Http01 good_Tlsalpn01 assms(2)
    dest: alwaysD [OF tame_step.always_Revoke [OF assms(2)]] alwaysD [OF tame_step.always_GetOCSP]
      alwaysD [OF tame_step.always_Certifier_Get [OF assms(2)]]
      alwaysD [OF tame_step.always_registrar(1) [OF assms(2)]]
      alwaysD [OF tame_step.always_registrar(2) [OF assms(2)]]
      alwaysD [OF tame_step.always_registrar(3) [OF assms(2)]]
      alwaysD [OF tame_step.always_registrar(4) [OF assms(2)]]
      alwaysD [OF tame_step.always_registrar(5) [OF assms(2)]]
      alwaysD [OF tame_step.always_registrar(6) [OF assms(2)]])

lemma client_reaches_keeps:
  assumes "client_reaches e s s'" and "retry_ok e" and "good_solvers e (fst s)"
  shows "good_solvers e (fst s') \<and> tame (snd s) (snd s') \<and> cl_core (fst s') = cl_core (fst s)"
  using assms(1)
proof (induction rule: rtranclp_induct)
  case base
  then show ?case using assms(3) by (simp add: tame_step.step_refl)
next
  case (step s1 s2)
  then show ?case
    using client_step_keeps [OF step(2) assms(2)] tame_step.step_trans by auto
qed

lemma NewClient_starts:
  assumes "NewClient e cfg w = (Return (Inr cl), t)"
  shows "good_solvers e cl \<and> tame w t"
proof -
  have "always tame (NewClient e cfg)"
    unfolding NewClient_def by (intro always_intros)
  then have "tame w t" using assms by (rule alwaysD)
  moreover have "cl_solvers cl = []"
    using assms by (auto simp: NewClient_def NewSolversManager_def Let_def check_Return_eq
        split: option.splits if_splits)
  ultimately show ?thesis by (simp add: good_solvers_def)
qed

text \<open>
  A small certificate authority: the reply to a request has the requested URL as its body, and the JSON
  of that body is looked up in a table.
\<close>

definition shop_table :: "(string \<times> json) list" where
  "shop_table =
     [(''dir'', JObj [(''newNonce'', JStr ''nonce''), (''newAccount'', JStr ''acct''), (''newOrder'', JStr ''order'')]),
      (''order'', JObj [(''status'', JStr ''valid''), (''identifiers'', JArr [JObj [(''value'', JStr ''a.org'')]]),
         (''authorizations'', JArr [JStr ''authz'']), (''finalize'', JStr ''fin'')]),
      (''authz'', JObj [(''status'', JStr ''pending''), (''identifier'', JObj [(''value'', JStr ''a.org'')]),
         (''challenges'', JArr [JObj [(''type'', JStr ''http-01''), (''url'', JStr ''chl''), (''token'', JStr ''t'')]])]),
      (''acct'', JObj []), (''chl'', JObj [(''status'', JStr ''valid'')]),
      (''fin'', JObj [(''status'', JStr ''valid''), (''certificate'', JStr ''cert'')])]"

definition shop_ca :: env where
  "shop_ca = sample_env\<lparr>
     httpDo := (\<lambda>tr req. Inr \<lparr>resp_StatusCode = 200, resp_Status = ''200'',
        resp_Header = [(''Replay-Nonce'', [replicate (Suc (length tr)) CHR ''n''])], resp_Body = Inr (req_URL req)\<rparr>),
     jsonParse := map_of shop_table\<rparr>"

definition shop_config :: lego_config where
  "shop_config = \<lparr>cfg_CADirURL = ''dir'', cfg_User = Some sample_user, cfg_UserAgent = ''test'',
     cfg_HTTPClient = Some \<lparr>hc_Timeout = 0, hc_DialTimeout = 0, hc_KeepAlive = 0, hc_TLSHandshakeTimeout = 0,
       hc_ResponseHeaderTimeout = 0, hc_ExpectContinueTimeout = 0, hc_ServerName = [], hc_RootCAs = None\<rparr>,
     cfg_KeyType = EC256, cfg_Timeout = 0\<rparr>"

definition idle_provider :: provider where
  "idle_provider = \<lparr>prov_Present = (\<lambda>_ _ _. ret None), prov_CleanUp = (\<lambda>_ _ _. ret None),
     prov_Timeout = None, prov_Sequential = None\<rparr>"

definition shop_client :: client where
  "shop_client = \<lparr>cl_core = \<lparr>core_userAgent = ''test'', core_privKey = RsaKey 2048 1,
       core_directory = zero_directory\<lparr>dir_NewAccountURL := ''acct'',
       dir_NewNonceURL := ''nonce'', dir_NewOrderURL := ''order''\<rparr>\<rparr>, cl_solvers = [],
     cl_user = sample_user, cl_KeyType = EC256, cl_Timeout = 0\<rparr>"

text \<open>Evaluation of the client on this authority.\<close>

lemmas shop_client_eval =
  NewClient_def shop_config_def shop_client_def sample_user_def Core_New_def getDirectory_def Doer_Get_def
  Doer_Head_def getNonce_def post_eval shop_ca_def sample_env_def shop_table_def directory_of_json_def
  zero_defs set_str_def NewManager_def NewJWS_def NewSolversManager_def sample_world_def

lemmas shop_order_eval =
  Orders_New_def order_of_json_def set_list_def set_struct_def string_of_json_def identifier_of_json_def
  getAuthorizations_def fetch_authz_def authorization_of_json_def challenge_of_json_def
  Authorizations_Get_def sanitizeDomain_def client_certifier_def plain_request_for_def

lemmas shop_solve_eval =
  Prober_Solve_def chooseSolver_def sort_challenges_def status_defs parallelSolve_def deferring_def
  preSolve_step_def solve_step_def preSolve_def cleanUp_def record_failure_def SetHTTP01Provider_def
  Http01_NewChallenge_def Http01_Solve_def FindChallenge_def GetKeyAuthorization_def HTTP01_def
  present_and_validate_def validate_def Challenges_New_def extend_challenge_def checkChallengeStatus_def

lemmas shop_issue_eval =
  getForOrder_def GeneratePrivateKey_def key_type_defs with_random_def GenerateCSR_def PEMEncode_def
  PEMBlock_def getForCSR_def Orders_UpdateForCSR_def checkResponse_def checkOrderStatus_def
  Certificates_Get_def Certificates_get_def readAllMax_def maxBodySize_def getLink_def getLinks_def
  set_chain_def failures_error_def obtain_failures_def Obtain_def order_and_solve_def

lemma retry_ok_shop: "retry_ok shop_ca"
  by (rule retry_ok_sample [of _ 3]) (simp add: shop_ca_def sample_env_def)

lemma shop_NewClient: "fst (NewClient shop_ca (Some shop_config) sample_world) = Return (Inr shop_client)"
  by (simp add: shop_client_eval)

definition shop_ready :: client where
  "shop_ready = shop_client\<lparr>cl_solvers := SetHTTP01Provider shop_ca (cl_core shop_client) idle_provider []\<rparr>"

lemma idle_tame: "provider_keeps tame idle_provider"
  by (simp add: provider_keeps_def idle_provider_def tame_step.always_ret)

end
