(* ===== verification/Filepath.thy ===== *)
theory Filepath
  imports Go_Base
begin

text \<open>
  The parts of Go's \<^verbatim>\<open>path/filepath\<close> the storage of the command line uses, on a system whose separator is
  the slash: \<^verbatim>\<open>Clean\<close>, \<^verbatim>\<open>Join\<close>, \<^verbatim>\<open>Base\<close>, \<^verbatim>\<open>Dir\<close> and the pattern language of \<^verbatim>\<open>Match\<close> and \<^verbatim>\<open>Glob\<close>.

  Proved here: joining a directory and a plain file name keeps the name, so that different names in one
  directory are different paths, and the pattern \<^verbatim>\<open>name.*\<close> matches exactly the names that continue
  \<^verbatim>\<open>name.\<close>
\<close>

abbreviation slash :: char where "slash \<equiv> CHR ''/''"

fun split_on :: "char \<Rightarrow> string \<Rightarrow> string list" where
  "split_on c [] = [[]]"
| "split_on c (x # xs) =
     (if x = c then [] # split_on c xs
      else (case split_on c xs of y # ys \<Rightarrow> (x # y) # ys | [] \<Rightarrow> [[x]]))"

text \<open>One element of a path, read from the left; the elements kept so far are in reverse order.\<close>

definition clean_step :: "bool \<Rightarrow> string \<Rightarrow> string list \<Rightarrow> string list" where
  "clean_step rooted el acc =
     (if el = [] \<or> el = ''.'' then acc
      else if el = ''..'' then
        (case acc of
           [] \<Rightarrow> if rooted then [] else [''..'']
         | x # xs \<Rightarrow> if x = ''..'' then ''..'' # acc else xs)
      else el # acc)"

definition is_rooted :: "string \<Rightarrow> bool" where
  "is_rooted p \<longleftrightarrow> (case p of [] \<Rightarrow> False | x # _ \<Rightarrow> x = slash)"

definition clean_comps :: "string \<Rightarrow> string list" where
  "clean_comps p = rev (fold (clean_step (is_rooted p)) (split_on slash p) [])"

definition Clean :: "string \<Rightarrow> string" where
  "Clean p =
     (let cs = clean_comps p in
      if is_rooted p then slash # Join cs ''/''
      else if cs = [] then ''.'' else Join cs ''/'')"

definition path_Join :: "string list \<Rightarrow> string" where
  "path_Join elems =
     (let rest = dropWhile (\<lambda>x. x = []) elems in if rest = [] then [] else Clean (Join rest ''/''))"

definition after_last_slash :: "string \<Rightarrow> string" where
  "after_last_slash p = rev (takeWhile (\<lambda>c. c \<noteq> slash) (rev p))"

definition path_Base :: "string \<Rightarrow> string" where
  "path_Base p =
     (if p = [] then ''.''
      else
        (let q = rev (dropWhile (\<lambda>c. c = slash) (rev p)) in
         if q = [] then ''/'' else after_last_slash q))"

definition path_Dir :: "string \<Rightarrow> string" where
  "path_Dir p = Clean (rev (dropWhile (\<lambda>c. c \<noteq> slash) (rev p)))"

text \<open>A file name: one path element that \<^verbatim>\<open>Clean\<close> keeps.\<close>

definition plain_name :: "string \<Rightarrow> bool" where
  "plain_name n \<longleftrightarrow> n \<noteq> [] \<and> n \<noteq> ''.'' \<and> n \<noteq> ''..'' \<and> slash \<notin> set n"

section \<open>Patterns\<close>

text \<open>
  The items of a pattern: a literal character, \<^verbatim>\<open>?\<close>, \<^verbatim>\<open>*\<close>, or a class of ranges, possibly negated.
\<close>

datatype glob_item = Lit char | AnyChar | AnySeq | Class bool "(char \<times> char) list"

definition class_char :: "string \<Rightarrow> (char \<times> string) option" where
  "class_char s =
     (case s of
        [] \<Rightarrow> None
      | c # r \<Rightarrow>
          if c = CHR ''-'' \<or> c = CHR '']'' then None
          else if c = CHR 0x5C then (case r of [] \<Rightarrow> None | d # r' \<Rightarrow> Some (d, r'))
          else Some (c, r))"

text \<open>The ranges of a class up to its closing bracket, at least one.\<close>

fun class_ranges :: "nat \<Rightarrow> string \<Rightarrow> (char \<times> char) list \<Rightarrow> ((char \<times> char) list \<times> string) option" where
  "class_ranges 0 s acc = None"
| "class_ranges (Suc n) s acc =
     (case s of
        [] \<Rightarrow> None
      | c # r \<Rightarrow>
          if c = CHR '']'' \<and> acc \<noteq> [] then Some (rev acc, r)
          else
            (case class_char s of
               None \<Rightarrow> None
             | Some (lo, r1) \<Rightarrow>
                 (case r1 of
                    d # r2 \<Rightarrow>
                      if d = CHR ''-''
                      then (case class_char r2 of
                              None \<Rightarrow> None
                            | Some (hi, r3) \<Rightarrow> class_ranges n r3 ((lo, hi) # acc))
                      else class_ranges n r1 ((lo, lo) # acc)
                  | [] \<Rightarrow> None)))"

fun parse_glob :: "nat \<Rightarrow> string \<Rightarrow> glob_item list option" where
  "parse_glob 0 s = None"
| "parse_glob (Suc n) s =
     (case s of
        [] \<Rightarrow> Some []
      | c # r \<Rightarrow>
          if c = CHR ''*'' then map_option ((#) AnySeq) (parse_glob n r)
          else if c = CHR ''?'' then map_option ((#) AnyChar) (parse_glob n r)
          else if c = CHR 0x5C then
            (case r of [] \<Rightarrow> None | d # r' \<Rightarrow> map_option ((#) (Lit d)) (parse_glob n r'))
          else if c = CHR ''['' then
            (let neg = (case r of d # _ \<Rightarrow> d = CHR ''^'' | [] \<Rightarrow> False) in
             case class_ranges (Suc (length r)) (if neg then tl r else r) [] of
               None \<Rightarrow> None
             | Some (rs, r') \<Rightarrow> map_option ((#) (Class neg rs)) (parse_glob n r'))
          else map_option ((#) (Lit c)) (parse_glob n r))"

declare class_ranges.simps [simp del] parse_glob.simps [simp del]

definition glob_items :: "string \<Rightarrow> glob_item list option" where
  "glob_items p = parse_glob (Suc (length p)) p"

fun item_matches :: "glob_item list \<Rightarrow> string \<Rightarrow> bool" where
  "item_matches [] s \<longleftrightarrow> s = []"
| "item_matches (AnySeq # its) [] \<longleftrightarrow> item_matches its []"
| "item_matches (AnySeq # its) (c # s) \<longleftrightarrow>
     item_matches its (c # s) \<or> c \<noteq> slash \<and> item_matches (AnySeq # its) s"
| "item_matches (i # its) [] \<longleftrightarrow> False"
| "item_matches (Lit d # its) (c # s) \<longleftrightarrow> c = d \<and> item_matches its s"
| "item_matches (AnyChar # its) (c # s) \<longleftrightarrow> c \<noteq> slash \<and> item_matches its s"
| "item_matches (Class neg rs # its) (c # s) \<longleftrightarrow>
     (list_ex (\<lambda>(lo, hi). lo \<le> c \<and> c \<le> hi) rs \<noteq> neg) \<and> item_matches its s"

text \<open>
  \<^verbatim>\<open>Glob\<close>: the existing paths that match the pattern, in the order of a walk that visits each directory in
  sorted order; \<open>None\<close> its \<^verbatim>\<open>ErrBadPattern\<close>.
\<close>

definition Glob :: "string list \<Rightarrow> string \<Rightarrow> string list option" where
  "Glob paths pattern =
     map_option (\<lambda>its. sort_key (split_on slash) (filter (item_matches its) paths)) (glob_items pattern)"

section \<open>Names in a directory\<close>

lemma split_on_ne [simp]: "split_on c s \<noteq> []"
  by (induction s) (auto split: list.splits)

lemma split_on_none: "c \<notin> set s \<Longrightarrow> split_on c s = [s]"
  by (induction s) auto

lemma split_on_append: "split_on c (s @ c # t) = split_on c s @ split_on c t"
  by (induction s) (auto split: list.splits)

lemma clean_step_plain: "plain_name n \<Longrightarrow> clean_step r n acc = n # acc"
  by (simp add: plain_name_def clean_step_def)

lemma is_rooted_append: "s \<noteq> [] \<Longrightarrow> is_rooted (s @ t) = is_rooted s"
  by (cases s) (auto simp: is_rooted_def)

lemma clean_comps_join:
  "root \<noteq> [] \<Longrightarrow> plain_name n \<Longrightarrow> clean_comps (root @ slash # n) = clean_comps root @ [n]"
  using split_on_none [of slash n]
  by (simp add: clean_comps_def is_rooted_append split_on_append clean_step_plain plain_name_def)

lemma Join_snoc: "xs \<noteq> [] \<Longrightarrow> Join (xs @ [y]) sep = Join xs sep @ sep @ y"
proof (induction xs sep rule: Join.induct)
  case (3 x y xs sep)
  then show ?case by simp
qed auto

text \<open>What precedes a plain name in a joined path: nothing, or a text that ends with a slash.\<close>

definition dir_prefix :: "string \<Rightarrow> string" where
  "dir_prefix root =
     (if root = [] then []
      else (if is_rooted root then ''/'' else [])
           @ (if clean_comps root = [] then [] else Join (clean_comps root) ''/'' @ ''/''))"

lemma path_Join_plain:
  assumes "plain_name n"
  shows "path_Join [root, n] = dir_prefix root @ n"
proof (cases "root = []")
  case True
  have n: "n \<noteq> []" "slash \<notin> set n" using assms by (auto simp: plain_name_def)
  then have "\<not> is_rooted n" by (cases n) (auto simp: is_rooted_def)
  moreover have "clean_comps n = [n]"
    using assms n by (simp add: clean_comps_def split_on_none clean_step_plain)
  ultimately show ?thesis
    using True n by (simp add: path_Join_def Clean_def dir_prefix_def)
next
  case False
  then have "path_Join [root, n] = Clean (root @ slash # n)" by (simp add: path_Join_def)
  then show ?thesis
    using False assms by (simp add: Clean_def Let_def clean_comps_join dir_prefix_def is_rooted_append Join_snoc)
qed

lemma dir_prefix_slash: "dir_prefix root = [] \<or> (\<exists>p. dir_prefix root = p @ ''/'')"
  by (auto simp: dir_prefix_def)

lemma after_last_slash_eq: "slash \<notin> set n \<Longrightarrow> after_last_slash (p @ slash # n) = n"
  by (simp add: after_last_slash_def takeWhile_append)

lemma after_last_slash_none: "slash \<notin> set n \<Longrightarrow> after_last_slash n = n"
proof -
  assume "slash \<notin> set n"
  then have "takeWhile (\<lambda>c. c \<noteq> slash) (rev n) = rev n"
    unfolding takeWhile_eq_all_conv by auto
  then show "after_last_slash n = n" by (simp only: after_last_slash_def rev_rev_ident)
qed

lemma after_last_slash_prefix: "slash \<notin> set n \<Longrightarrow> after_last_slash (dir_prefix root @ n) = n"
  using dir_prefix_slash [of root] by (auto simp: after_last_slash_eq after_last_slash_none)

lemma after_last_slash_Join: "plain_name n \<Longrightarrow> after_last_slash (path_Join [root, n]) = n"
  by (simp add: path_Join_plain plain_name_def after_last_slash_prefix)

lemma path_Join_inj:
  "plain_name n \<Longrightarrow> plain_name m \<Longrightarrow> path_Join [root, n] = path_Join [root, m] \<longleftrightarrow> n = m"
  by (simp add: path_Join_plain)

text \<open>Names in two directories with different prefixes are different paths.\<close>

lemma dir_prefix_inj:
  "dir_prefix a @ n = dir_prefix b @ m \<Longrightarrow> slash \<notin> set n \<Longrightarrow> slash \<notin> set m \<Longrightarrow> dir_prefix a = dir_prefix b \<and> n = m"
  using after_last_slash_prefix [of n a] after_last_slash_prefix [of m b] by auto

lemma path_Base_Join: "plain_name n \<Longrightarrow> path_Base (path_Join [root, n]) = n"
proof -
  assume n: "plain_name n"
  have "last n \<noteq> slash" using n last_in_set [of n] by (auto simp: plain_name_def simp del: last_in_set)
  then have ne: "path_Join [root, n] \<noteq> []" and last: "last (path_Join [root, n]) \<noteq> slash"
    using path_Join_plain [OF n, of root] n by (auto simp: plain_name_def)
  then have "dropWhile (\<lambda>c. c = slash) (rev (path_Join [root, n])) = rev (path_Join [root, n])"
    by (metis dropWhile_eq_self_iff hd_rev)
  then show ?thesis using ne after_last_slash_Join [OF n] by (simp add: path_Base_def)
qed

section \<open>Literal patterns\<close>

definition no_meta :: "string \<Rightarrow> bool" where
  "no_meta s \<longleftrightarrow> list_all (\<lambda>c. c \<notin> {CHR ''*'', CHR ''?'', CHR ''['', CHR 0x5C}) s"

lemma parse_glob_Lit:
  "c \<notin> {CHR ''*'', CHR ''?'', CHR ''['', CHR 0x5C} \<Longrightarrow>
   parse_glob (Suc n) (c # r) = map_option ((#) (Lit c)) (parse_glob n r)"
  by (simp add: parse_glob.simps)

lemma parse_glob_literal:
  "no_meta p \<Longrightarrow> length p + length q < n \<Longrightarrow>
   parse_glob n (p @ q) = map_option ((@) (map Lit p)) (parse_glob (n - length p) q)"
proof (induction p arbitrary: n)
  case Nil
  show ?case by (cases "parse_glob n q") simp_all
next
  case (Cons c p)
  then obtain m where n: "n = Suc m" by (cases n) auto
  have c: "c \<notin> {CHR ''*'', CHR ''?'', CHR ''['', CHR 0x5C}" and p: "no_meta p"
    using Cons.prems(1) by (auto simp: no_meta_def)
  have "parse_glob m (p @ q) = map_option ((@) (map Lit p)) (parse_glob (m - length p) q)"
    using Cons.IH [OF p] Cons.prems(2) n by simp
  then show ?case
    using parse_glob_Lit [OF c] by (cases "parse_glob (m - length p) q") (simp_all add: n)
qed

lemma item_matches_literal: "item_matches (map Lit p @ its) s \<longleftrightarrow> (\<exists>r. s = p @ r \<and> item_matches its r)"
proof (induction p arbitrary: s)
  case (Cons c p)
  then show ?case by (cases s) auto
qed simp

lemma item_matches_AnySeq: "item_matches [AnySeq] s \<longleftrightarrow> slash \<notin> set s"
  by (induction s) auto

text \<open>The pattern \<open>p*\<close> matches the continuations of \<open>p\<close> inside one directory.\<close>

lemma glob_star:
  assumes "no_meta p"
  shows "\<exists>its. glob_items (p @ ''*'') = Some its \<and> (\<forall>s. item_matches its s \<longleftrightarrow> (\<exists>r. s = p @ r \<and> slash \<notin> set r))"
proof -
  have "parse_glob 2 ''*'' = Some [AnySeq]" by (simp add: numeral_2_eq_2 parse_glob.simps)
  then have "glob_items (p @ ''*'') = Some (map Lit p @ [AnySeq])"
    using parse_glob_literal [OF assms, of "''*''"] by (simp add: glob_items_def)
  then show ?thesis by (simp add: item_matches_literal item_matches_AnySeq)
qed

end
