(* ===== verification/Storage.thy ===== *)
theory Storage
  imports Lego Filepath
begin

text \<open>
  The storage of the command line (\<^verbatim>\<open>cmd/accounts_storage.go\<close>, \<^verbatim>\<open>cmd/certs_storage.go\<close>, \<^verbatim>\<open>cmd/account.go\<close>):
  accounts, their keys, and certificates as files.

  The state is a \<open>shell\<close>: the client's world together with the files (a path, its contents and its mode),
  the directories, the hooks that were run and the lines that were printed.  What can fail in the operating
  system is the parameter \<open>osErr\<close>; a missing file or directory is not a parameter but a fact of the state.
  \<^verbatim>\<open>log.Fatal\<close> is the outcome \<open>Exit\<close>.
\<close>

section \<open>Command-line context\<close>

text \<open>The flags of \<^verbatim>\<open>cmd/flags.go\<close> and of the commands; a field \<open>_set\<close> is \<^verbatim>\<open>GlobalIsSet\<close>.\<close>

record cli_ctx =
  fl_domains :: "string list"
  fl_server :: string
  fl_accept_tos :: bool
  fl_email :: string
  fl_csr :: string
  fl_csr_set :: bool
  fl_eab :: bool
  fl_eab_set :: bool
  fl_kid :: string
  fl_hmac :: string
  fl_key_type :: string
  fl_filename :: string
  fl_path :: string
  fl_http :: bool
  fl_http_port :: string
  fl_http_port_set :: bool
  fl_http_proxy_header :: string
  fl_http_webroot :: string
  fl_http_webroot_set :: bool
  fl_http_memcached :: "string list"
  fl_http_memcached_set :: bool
  fl_tls :: bool
  fl_tls_port :: string
  fl_tls_port_set :: bool
  fl_dns :: string
  fl_dns_set :: bool
  fl_dns_disable_cp :: bool
  fl_dns_resolvers :: "string list"
  fl_http_timeout :: int
  fl_http_timeout_set :: bool
  fl_dns_timeout :: int
  fl_dns_timeout_set :: bool
  fl_pem :: bool
  fl_cert_timeout :: int
  fl_no_bundle :: bool
  fl_must_staple :: bool
  fl_hook :: string
  fl_preferred_chain :: string
  fl_days :: int
  fl_reuse_key :: bool
  fl_keep :: bool
  fl_accounts :: bool
  fl_names :: bool
  fl_code :: string

record cli_env =
  ce_env :: env
  osErr :: "string \<Rightarrow> string \<Rightarrow> goerror option"
  jsonIndent :: "json \<Rightarrow> string"
  urlHost :: "string \<Rightarrow> string"
  hookResult :: "string list \<Rightarrow> string \<times> bool \<times> goerror option"
  stdinText :: "nat \<Rightarrow> goerror + string"
  appVersion :: string

record shell =
  sh_world :: world
  sh_files :: "(string \<times> string \<times> nat) list"
  sh_dirs :: "string list"
  sh_hooks :: "(string list \<times> string list) list"
  sh_out :: "string list"

abbreviation on_world :: "(world, 'a) go \<Rightarrow> (shell, 'a) go" where
  "on_world \<equiv> zoom sh_world sh_world_update"

section \<open>Files\<close>

definition file_at :: "shell \<Rightarrow> string \<Rightarrow> string option" where
  "file_at s path = map_option fst (map_of (sh_files s) path)"

datatype stat = Exists | NotExist | StatErr goerror

definition os_Stat :: "cli_env \<Rightarrow> string \<Rightarrow> (shell, stat) go" where
  "os_Stat c path =
     (case osErr c ''stat'' path of
        Some err \<Rightarrow> ret (StatErr err)
      | None \<Rightarrow> gets (\<lambda>s. if file_at s path \<noteq> None \<or> path \<in> set (sh_dirs s) then Exists else NotExist))"

definition no_such_file :: "string \<Rightarrow> goerror" where
  "no_such_file path = Err (''open '' @ path @ '': no such file or directory'')"

definition os_ReadFile :: "cli_env \<Rightarrow> string \<Rightarrow> (shell, goerror + string) go" where
  "os_ReadFile c path =
     (case osErr c ''read'' path of
        Some err \<Rightarrow> ret (Inl err)
      | None \<Rightarrow> gets (\<lambda>s. case file_at s path of None \<Rightarrow> Inl (no_such_file path) | Some d \<Rightarrow> Inr d))"

text \<open>The mode applies to a new file; writing to an existing one keeps its mode.\<close>

definition store_file :: "string \<Rightarrow> string \<Rightarrow> nat \<Rightarrow> shell \<Rightarrow> shell" where
  "store_file path data mode s =
     s\<lparr>sh_files := put path
        (data, case map_of (sh_files s) path of None \<Rightarrow> mode | Some (_, m) \<Rightarrow> m) (sh_files s)\<rparr>"

definition os_WriteFile :: "cli_env \<Rightarrow> string \<Rightarrow> string \<Rightarrow> nat \<Rightarrow> (shell, goerror option) go" where
  "os_WriteFile c path data mode =
     (case osErr c ''write'' path of
        Some err \<Rightarrow> ret (Some err)
      | None \<Rightarrow>
          bind (gets sh_dirs) (\<lambda>dirs.
            if path_Dir path \<notin> set dirs then ret (Some (no_such_file path))
            else if path \<in> set dirs then ret (Some (Err (''open '' @ path @ '': is a directory'')))
            else bind (modify (store_file path data mode)) (\<lambda>_. ret None)))"

text \<open>A directory and everything above it.\<close>

fun parents :: "nat \<Rightarrow> string \<Rightarrow> string list" where
  "parents 0 path = [path]"
| "parents (Suc n) path = (let d = path_Dir path in if d = path then [path] else path # parents n d)"

definition os_MkdirAll :: "cli_env \<Rightarrow> string \<Rightarrow> (shell, goerror option) go" where
  "os_MkdirAll c path =
     (case osErr c ''mkdir'' path of
        Some err \<Rightarrow> ret (Some err)
      | None \<Rightarrow>
          bind (modify (\<lambda>s. s\<lparr>sh_dirs := filter (\<lambda>d. d \<notin> set (sh_dirs s)) (parents (length path) path) @ sh_dirs s\<rparr>)) (\<lambda>_. ret None))"

text \<open>Moving a file or a directory with what is below it; a file at the new path is replaced.\<close>

definition reroot :: "string \<Rightarrow> string \<Rightarrow> string \<Rightarrow> string" where
  "reroot old new p =
     (if p = old then new
      else if HasPrefix p (old @ ''/'') then new @ drop (length old) p else p)"

definition move_path :: "string \<Rightarrow> string \<Rightarrow> shell \<Rightarrow> shell" where
  "move_path old new s =
     s\<lparr>sh_files := map (\<lambda>(p, f). (reroot old new p, f)) (filter (\<lambda>(p, _). p \<noteq> new \<or> p = old) (sh_files s)),
       sh_dirs := map (reroot old new) (sh_dirs s)\<rparr>"

definition os_Rename :: "cli_env \<Rightarrow> string \<Rightarrow> string \<Rightarrow> (shell, goerror option) go" where
  "os_Rename c old new =
     (case osErr c ''rename'' old of
        Some err \<Rightarrow> ret (Some err)
      | None \<Rightarrow>
          bind (gets (\<lambda>s. (file_at s old \<noteq> None \<or> old \<in> set (sh_dirs s)) \<and> path_Dir new \<in> set (sh_dirs s))) (\<lambda>ok.
            if \<not> ok then ret (Some (Err (''rename '' @ old @ '' '' @ new @ '': no such file or directory'')))
            else bind (modify (move_path old new)) (\<lambda>_. ret None)))"

definition createNonExistingFolder :: "cli_env \<Rightarrow> string \<Rightarrow> (shell, goerror option) go" where
  "createNonExistingFolder c path =
     bind (os_Stat c path) (\<lambda>st.
       case st of
         NotExist \<Rightarrow> os_MkdirAll c path
       | StatErr err \<Rightarrow> ret (Some err)
       | Exists \<Rightarrow> ret None)"

text \<open>\<^verbatim>\<open>0o600\<close>\<close>

definition filePerm :: nat where "filePerm = 6 * 64"

section \<open>Certificates\<close>

record certs_storage =
  cs_rootPath :: string
  cs_archivePath :: string
  cs_pem :: bool
  cs_filename :: string

definition NewCertificatesStorage :: "cli_ctx \<Rightarrow> certs_storage" where
  "NewCertificatesStorage ctx =
     \<lparr>cs_rootPath = path_Join [fl_path ctx, ''certificates''],
      cs_archivePath = path_Join [fl_path ctx, ''archives''],
      cs_pem = fl_pem ctx, cs_filename = fl_filename ctx\<rparr>"

definition fatal_on :: "('e \<Rightarrow> string) \<Rightarrow> (shell, 'e option) go \<Rightarrow> (shell, unit) go" where
  "fatal_on msg m = bind m (\<lambda>r. case r of Some err \<Rightarrow> fatal (msg err) | None \<Rightarrow> ret ())"

definition CreateRootFolder :: "cli_env \<Rightarrow> certs_storage \<Rightarrow> (shell, unit) go" where
  "CreateRootFolder c st =
     fatal_on (\<lambda>err. ''Could not check/create path: '' @ error_text err)
       (createNonExistingFolder c (cs_rootPath st))"

definition CreateArchiveFolder :: "cli_env \<Rightarrow> certs_storage \<Rightarrow> (shell, unit) go" where
  "CreateArchiveFolder c st =
     fatal_on (\<lambda>err. ''Could not check/create path: '' @ error_text err)
       (createNonExistingFolder c (cs_archivePath st))"

definition sanitizedDomain :: "cli_env \<Rightarrow> string \<Rightarrow> string outcome" where
  "sanitizedDomain c domain =
     (case idnaToASCII (ce_env c) (map (\<lambda>x. if x = CHR ''*'' then CHR ''_'' else x) domain) of
        Inl err \<Rightarrow> Exit (error_text err)
      | Inr safe \<Rightarrow> Return safe)"

definition GetFileName :: "cli_env \<Rightarrow> certs_storage \<Rightarrow> string \<Rightarrow> string \<Rightarrow> (shell, string) go" where
  "GetFileName c st domain extension =
     bind (outcome_of (sanitizedDomain c domain)) (\<lambda>name.
       ret (path_Join [cs_rootPath st, name @ extension]))"

definition WriteFile ::
  "cli_env \<Rightarrow> certs_storage \<Rightarrow> string \<Rightarrow> string \<Rightarrow> string \<Rightarrow> (shell, goerror option) go" where
  "WriteFile c st domain extension data =
     bind (if cs_filename st \<noteq> [] then ret (cs_filename st) else outcome_of (sanitizedDomain c domain))
       (\<lambda>baseFileName.
         os_WriteFile c (path_Join [cs_rootPath st, baseFileName @ extension]) data filePerm)"

definition ReadFile :: "cli_env \<Rightarrow> certs_storage \<Rightarrow> string \<Rightarrow> string \<Rightarrow> (shell, goerror + string) go" where
  "ReadFile c st domain extension =
     bind (GetFileName c st domain extension) (os_ReadFile c)"

definition ExistsFile :: "cli_env \<Rightarrow> certs_storage \<Rightarrow> string \<Rightarrow> string \<Rightarrow> (shell, bool) go" where
  "ExistsFile c st domain extension =
     bind (GetFileName c st domain extension) (\<lambda>filePath.
       bind (os_Stat c filePath) (\<lambda>r.
         case r of NotExist \<Rightarrow> ret False | StatErr err \<Rightarrow> fatal (error_text err) | Exists \<Rightarrow> ret True))"

definition ReadCertificate ::
  "cli_env \<Rightarrow> certs_storage \<Rightarrow> string \<Rightarrow> string \<Rightarrow> (shell, goerror + x509_cert list) go" where
  "ReadCertificate c st domain extension =
     check (ReadFile c st domain extension) (\<lambda>content.
       outcome_of (ParsePEMBundle (ce_env c) content))"

text \<open>The metadata file: the members of \<^verbatim>\<open>certificate.Resource\<close> that are not tagged \<^verbatim>\<open>json:"-"\<close>.\<close>

definition resource_json :: "resource \<Rightarrow> json" where
  "resource_json r =
     JObj [(''domain'', JStr (res_Domain r)), (''certUrl'', JStr (res_CertURL r)),
           (''certStableUrl'', JStr (res_CertStableURL r))]"

definition zero_resource :: resource where [zero_defs]:
  "zero_resource = \<lparr>res_Domain = [], res_CertURL = [], res_CertStableURL = [], res_PrivateKey = None,
     res_Certificate = [], res_IssuerCertificate = None, res_CSR = []\<rparr>"

definition resource_of_json :: "json \<Rightarrow> goerror + resource" where
  "resource_of_json = decode_struct (\<lambda>k v r.
     if k = ''domain'' then set_str v (\<lambda>s. r\<lparr>res_Domain := s\<rparr>) r
     else if k = ''certUrl'' then set_str v (\<lambda>s. r\<lparr>res_CertURL := s\<rparr>) r
     else if k = ''certStableUrl'' then set_str v (\<lambda>s. r\<lparr>res_CertStableURL := s\<rparr>) r
     else Inr r) zero_resource"

definition unable :: "string \<Rightarrow> string \<Rightarrow> goerror \<Rightarrow> string" where
  "unable what domain err = ''Unable to save '' @ what @ '' for domain '' @ domain @ '' '' @ error_text err"

definition SaveResource :: "cli_env \<Rightarrow> certs_storage \<Rightarrow> resource \<Rightarrow> (shell, unit) go" where
  "SaveResource c st certRes =
     (let domain = res_Domain certRes;
          save = (\<lambda>what ext data. fatal_on (unable what domain) (WriteFile c st domain ext data)) in
      bind (save ''Certificate'' ''.crt'' (res_Certificate certRes)) (\<lambda>_.
        bind (case res_IssuerCertificate certRes of
                None \<Rightarrow> ret ()
              | Some issuer \<Rightarrow> save ''IssuerCertificate'' ''.issuer.crt'' issuer) (\<lambda>_.
          bind (case res_PrivateKey certRes of
                  Some key \<Rightarrow>
                    bind (save ''PrivateKey'' ''.key'' key) (\<lambda>_.
                      if cs_pem st
                      then save ''Certificate and PrivateKey in .pem'' ''.pem'' (res_Certificate certRes @ key)
                      else ret ())
                | None \<Rightarrow>
                    if cs_pem st
                    then fatal (''Unable to save pem without private key for domain '' @ domain)
                    else ret ()) (\<lambda>_.
            save ''CertResource'' ''.json'' (jsonIndent c (resource_json certRes))))))"

text \<open>\<^verbatim>\<open>json.Unmarshal\<close> into a zero value.\<close>

definition unmarshal :: "cli_env \<Rightarrow> (json \<Rightarrow> goerror + 'a) \<Rightarrow> string \<Rightarrow> goerror + 'a" where
  "unmarshal c dec raw =
     (case jsonParse (ce_env c) raw of None \<Rightarrow> Inl (Err ''invalid JSON'') | Some j \<Rightarrow> dec j)"

definition ReadResource :: "cli_env \<Rightarrow> certs_storage \<Rightarrow> string \<Rightarrow> (shell, resource) go" where
  "ReadResource c st domain =
     handle (ReadFile c st domain ''.json'')
       (\<lambda>err. fatal (''Error while loading the meta data for domain '' @ domain @ '' '' @ error_text err))
       (\<lambda>raw.
         case unmarshal c resource_of_json raw of
           Inl err \<Rightarrow> fatal (''Error while marshaling the meta data for domain '' @ domain @ '' '' @ error_text err)
         | Inr r \<Rightarrow> ret r)"

fun archive_files :: "cli_env \<Rightarrow> certs_storage \<Rightarrow> string list \<Rightarrow> (shell, goerror option) go" where
  "archive_files c st [] = ret None"
| "archive_files c st (oldFile # rest) =
     bind (gets (\<lambda>s. w_now (sh_world s))) (\<lambda>now.
       let date = show_int (now div Second);
           filename = date @ ''.'' @ path_Base oldFile;
           newFile = path_Join [cs_archivePath st, filename] in
       check_err (os_Rename c oldFile newFile) (archive_files c st rest))"

definition MoveToArchive :: "cli_env \<Rightarrow> certs_storage \<Rightarrow> string \<Rightarrow> (shell, goerror option) go" where
  "MoveToArchive c st domain =
     bind (outcome_of (sanitizedDomain c domain)) (\<lambda>name.
       bind (gets (\<lambda>s. map fst (sh_files s) @ sh_dirs s)) (\<lambda>paths.
         case Glob paths (path_Join [cs_rootPath st, name @ ''.*'']) of
           None \<Rightarrow> ret (Some (Err ''syntax error in pattern''))
         | Some found \<Rightarrow> archive_files c st found))"

section \<open>The store of certificates\<close>

text \<open>
  The abstract store: for every certificate name, the contents of its five files.  \<open>cert_store\<close> is what the
  files of a shell say, \<open>save_entry\<close> is what saving a resource means.
\<close>

datatype cert_file = Crt | Issuer | Key | Pem | Json

fun ext_of :: "cert_file \<Rightarrow> string" where
  "ext_of Crt = ''.crt''"
| "ext_of Issuer = ''.issuer.crt''"
| "ext_of Key = ''.key''"
| "ext_of Pem = ''.pem''"
| "ext_of Json = ''.json''"

type_synonym store = "string \<Rightarrow> cert_file \<Rightarrow> string option"

definition cert_path :: "certs_storage \<Rightarrow> string \<Rightarrow> cert_file \<Rightarrow> string" where
  "cert_path st name f = path_Join [cs_rootPath st, name @ ext_of f]"

definition cert_store :: "certs_storage \<Rightarrow> shell \<Rightarrow> store" where
  "cert_store st s name f = file_at s (cert_path st name f)"

definition save_entry :: "(json \<Rightarrow> string) \<Rightarrow> bool \<Rightarrow> string \<Rightarrow> resource \<Rightarrow> store \<Rightarrow> store" where
  "save_entry pr pem name r A name' f =
     (if name' \<noteq> name then A name' f
      else
        (case f of
           Crt \<Rightarrow> Some (res_Certificate r)
         | Issuer \<Rightarrow> (case res_IssuerCertificate r of None \<Rightarrow> A name f | Some i \<Rightarrow> Some i)
         | Key \<Rightarrow> (case res_PrivateKey r of None \<Rightarrow> A name f | Some k \<Rightarrow> Some k)
         | Pem \<Rightarrow> (case res_PrivateKey r of
                      None \<Rightarrow> A name f | Some k \<Rightarrow> if pem then Some (res_Certificate r @ k) else A name f)
         | Json \<Rightarrow> Some (pr (resource_json r))))"

text \<open>The folder exists, nothing is in the way, and the operating system does not fail.\<close>

definition can_write :: "cli_env \<Rightarrow> certs_storage \<Rightarrow> string \<Rightarrow> shell \<Rightarrow> bool" where
  "can_write c st name s \<longleftrightarrow> (\<forall>f. osErr c ''write'' (cert_path st name f) = None
     \<and> path_Dir (cert_path st name f) \<in> set (sh_dirs s) \<and> cert_path st name f \<notin> set (sh_dirs s))"

lemma file_at_store_file [simp]:
  "file_at (store_file p d m s) q = (if q = p then Some d else file_at s q)"
  by (simp add: file_at_def store_file_def)

lemma sh_dirs_store_file [simp]: "sh_dirs (store_file p d m s) = sh_dirs s"
  by (simp add: store_file_def)

lemma can_write_store_file [simp]: "can_write c st name (store_file p d m s) = can_write c st name s"
  by (simp add: can_write_def)

text \<open>The name the files of a domain are written under.\<close>

definition base_name :: "cli_env \<Rightarrow> certs_storage \<Rightarrow> string \<Rightarrow> string outcome" where
  "base_name c st domain =
     (if cs_filename st \<noteq> [] then Return (cs_filename st) else sanitizedDomain c domain)"

lemma run_save:
  assumes "base_name c st domain = Return name" and "can_write c st name s"
  shows "fatal_on msg (WriteFile c st domain (ext_of f) data) s =
    (Return (), store_file (cert_path st name f) data filePerm s)"
proof -
  have "os_WriteFile c (cert_path st name f) data filePerm s =
      (Return None, store_file (cert_path st name f) data filePerm s)"
    using assms(2) by (simp add: os_WriteFile_def can_write_def bind_def)
  then show ?thesis
    using assms(1)
    by (simp add: fatal_on_def WriteFile_def bind_def cert_path_def base_name_def split: if_splits)
qed

text \<open>Two file names are the same only for the same entry, or if one name is the other with \<^verbatim>\<open>.issuer\<close>.\<close>

lemma ext_clash:
  assumes "name @ ext_of f = name' @ ext_of f'"
  shows "name = name' \<and> f = f' \<or> name = name' @ ''.issuer'' \<or> name' = name @ ''.issuer''"
proof -
  have "name' = name @ ''.issuer''" if "f = Issuer" "f' = Crt"
    using assms that append_same_eq [of "name @ ''.issuer''" "''.crt''" name'] by simp
  moreover have "name = name' @ ''.issuer''" if "f = Crt" "f' = Issuer"
    using assms that append_same_eq [of name "''.crt''" "name' @ ''.issuer''"] by simp
  moreover have "f = f' \<or> f = Issuer \<and> f' = Crt \<or> f = Crt \<and> f' = Issuer"
    using arg_cong [OF assms, of rev] by (cases f; cases f') simp_all
  moreover have "name = name'" if "f = f'" using assms that by simp
  ultimately show ?thesis by blast
qed

definition plain_entry :: "string \<Rightarrow> bool" where
  "plain_entry name \<longleftrightarrow> slash \<notin> set name"

lemma plain_name_ext: "plain_entry name \<Longrightarrow> plain_name (name @ ext_of f)"
  by (cases f) (auto simp: plain_entry_def plain_name_def append_eq_Cons_conv)

text \<open>Entries whose files cannot be mistaken for each other.\<close>

definition separate_entries :: "string \<Rightarrow> string \<Rightarrow> bool" where
  "separate_entries name name' \<longleftrightarrow> plain_entry name \<and> plain_entry name'
     \<and> name \<noteq> name' @ ''.issuer'' \<and> name' \<noteq> name @ ''.issuer''"

lemma cert_path_separate:
  assumes "separate_entries name name'"
  shows "cert_path st name f = cert_path st name' f' \<longleftrightarrow> name = name' \<and> f = f'"
    and "cert_path st name' f' = cert_path st name f \<longleftrightarrow> name = name' \<and> f = f'"
  using assms ext_clash [of name f name' f'] plain_name_ext path_Join_inj
  unfolding cert_path_def separate_entries_def by metis+

lemma separate_self [simp]: "separate_entries name name \<longleftrightarrow> plain_entry name"
  by (auto simp: separate_entries_def)

lemma SaveResource_run:
  assumes "base_name c st (res_Domain r) = Return name"
    and "can_write c st name s" and "cs_pem st \<longrightarrow> res_PrivateKey r \<noteq> None"
  shows "\<exists>t. SaveResource c st r s = (Return (), t) \<and> sh_world t = sh_world s \<and> sh_dirs t = sh_dirs s
    \<and> (\<forall>name' f. separate_entries name name' \<longrightarrow>
         cert_store st t name' f = save_entry (jsonIndent c) (cs_pem st) name r (cert_store st s) name' f)"
proof -
  have save: "fatal_on msg (WriteFile c st (res_Domain r) ''.crt'' data) u =
        (Return (), store_file (cert_path st name Crt) data filePerm u)"
      "fatal_on msg (WriteFile c st (res_Domain r) ''.issuer.crt'' data) u =
        (Return (), store_file (cert_path st name Issuer) data filePerm u)"
      "fatal_on msg (WriteFile c st (res_Domain r) ''.key'' data) u =
        (Return (), store_file (cert_path st name Key) data filePerm u)"
      "fatal_on msg (WriteFile c st (res_Domain r) ''.pem'' data) u =
        (Return (), store_file (cert_path st name Pem) data filePerm u)"
      "fatal_on msg (WriteFile c st (res_Domain r) ''.json'' data) u =
        (Return (), store_file (cert_path st name Json) data filePerm u)"
    if "can_write c st name u" for msg data u
    using run_save [OF assms(1) that, of msg Crt] run_save [OF assms(1) that, of msg Issuer]
      run_save [OF assms(1) that, of msg Key] run_save [OF assms(1) that, of msg Pem]
      run_save [OF assms(1) that, of msg Json] by simp_all
  have world: "sh_world (store_file p d m u) = sh_world u" for p d m u by (simp add: store_file_def)
  show ?thesis
    using assms(2,3)
    by (cases "res_IssuerCertificate r"; cases "res_PrivateKey r"; cases "cs_pem st")
      (auto simp: SaveResource_def Let_def bind_def save world cert_store_def save_entry_def cert_path_separate
        split: cert_file.split)
qed

text \<open>
  C12 (refinement).  Saving a certificate implements the update of an abstract store that maps names to
  entries: exactly the entry of the base name (the \<^verbatim>\<open>--filename\<close> option, or else the sanitized domain)
  is replaced, file by file, and every other entry is kept.  A missing issuer or key leaves the old file
  in place.  The one exception is a pair of names of which one is the other followed by \<^verbatim>\<open>.issuer\<close>,
  whose files coincide.
\<close>

theorem SaveResource_refines_store:
  assumes "base_name c st (res_Domain r) = Return name" and "can_write c st name s"
    and "cs_pem st \<longrightarrow> res_PrivateKey r \<noteq> None" and "separate_entries name name'"
  shows "fst (SaveResource c st r s) = Return ()
    \<and> cert_store st (snd (SaveResource c st r s)) name' f =
        save_entry (jsonIndent c) (cs_pem st) name r (cert_store st s) name' f"
  using SaveResource_run [OF assms(1-3)] assms(4) by auto

lemma ReadFile_run:
  assumes "sanitizedDomain c domain = Return name" and "osErr c ''read'' (cert_path st name f) = None"
  shows "ReadFile c st domain (ext_of f) s =
    (Return (case cert_store st s name f of
        None \<Rightarrow> Inl (no_such_file (cert_path st name f)) | Some d \<Rightarrow> Inr d), s)"
  using assms unfolding ReadFile_def GetFileName_def os_ReadFile_def cert_store_def cert_path_def
  by (simp add: bind_def)

lemma resource_roundtrip:
  "resource_of_json (resource_json r) =
     Inr (zero_resource\<lparr>res_Domain := res_Domain r, res_CertURL := res_CertURL r,
                        res_CertStableURL := res_CertStableURL r\<rparr>)"
  by (simp add: resource_of_json_def resource_json_def decode_struct_def set_str_def)

text \<open>
  C13 (roundtrip).  Reading back what was saved: without the \<^verbatim>\<open>--filename\<close> option the certificate and the
  metadata of the domain are those of the saved resource (its other fields are not stored in the
  metadata).  With the option set to another name, reading by domain, as \<^verbatim>\<open>renew\<close> and \<^verbatim>\<open>revoke\<close> do, gives what
  was there before the save.
\<close>

theorem SaveResource_read_back:
  assumes "base_name c st (res_Domain r) = Return base" and "sanitizedDomain c (res_Domain r) = Return name"
    and "can_write c st base s" and "cs_pem st \<longrightarrow> res_PrivateKey r \<noteq> None" and "separate_entries base name"
    and "jsonParse (ce_env c) (jsonIndent c (resource_json r)) = Some (resource_json r)"
    and "\<And>f. osErr c ''read'' (cert_path st name f) = None"
  shows "\<exists>t. SaveResource c st r s = (Return (), t)
    \<and> fst (ReadFile c st (res_Domain r) ''.crt'' t) =
        (if base = name then Return (Inr (res_Certificate r)) else fst (ReadFile c st (res_Domain r) ''.crt'' s))
    \<and> (base = name \<longrightarrow>
        ReadResource c st (res_Domain r) t =
          (Return (zero_resource\<lparr>res_Domain := res_Domain r, res_CertURL := res_CertURL r,
                                 res_CertStableURL := res_CertStableURL r\<rparr>), t))"
proof -
  obtain t where run: "SaveResource c st r s = (Return (), t)"
    and upd: "\<And>name' f. separate_entries base name' \<Longrightarrow> cert_store st t name' f =
      save_entry (jsonIndent c) (cs_pem st) base r (cert_store st s) name' f"
    using SaveResource_run [OF assms(1,3,4)] by blast
  note read = ReadFile_run [OF assms(2,7)]
  show ?thesis
    using run read [of Crt] read [of Json] upd [OF assms(5)]
    by (auto simp: save_entry_def ReadResource_def handle_def bind_def unmarshal_def assms(6)
        resource_roundtrip)
qed

section \<open>Archiving\<close>

lemma reroot_other:
  assumes "q \<noteq> old" and "\<not> HasPrefix q (old @ ''/'')" and "q \<noteq> new" and "\<not> HasPrefix q (new @ ''/'')"
  shows "reroot old new p = q \<longleftrightarrow> p = q"
  using assms by (auto simp: reroot_def HasPrefix_iff)

lemma reroot_old:
  assumes "old \<noteq> new" and "\<not> HasPrefix old (new @ ''/'')"
  shows "reroot old new p \<noteq> old"
  using assms by (auto simp: reroot_def HasPrefix_iff)

lemma map_of_rekey:
  assumes "\<And>p. f p = q \<longleftrightarrow> p = r"
  shows "map_of (map (\<lambda>(p, x). (f p, x)) l) q = map_of l r"
proof (induction l)
  case (Cons y l)
  then show ?case using assms [of "fst y"] by (cases y) auto
qed simp

lemma map_of_rekey_none:
  assumes "\<And>p. f p \<noteq> q"
  shows "map_of (map (\<lambda>(p, x). (f p, x)) l) q = None"
proof (induction l)
  case (Cons y l)
  then show ?case using assms [of "fst y"] by (cases y) auto
qed simp

lemma map_of_filter_key: "P q \<Longrightarrow> map_of (filter (\<lambda>(p, _). P p) l) q = map_of l q"
  by (induction l) auto

lemma file_at_move_other:
  assumes "q \<noteq> old" and "\<not> HasPrefix q (old @ ''/'')" and "q \<noteq> new" and "\<not> HasPrefix q (new @ ''/'')"
  shows "file_at (move_path old new s) q = file_at s q"
proof -
  have "map_of (map (\<lambda>(p, x). (reroot old new p, x)) l) q = map_of l q" for l :: "(string \<times> string \<times> nat) list"
    by (rule map_of_rekey) (rule reroot_other [OF assms])
  moreover have "map_of (filter (\<lambda>(p, _). p \<noteq> new \<or> p = old) (sh_files s)) q = map_of (sh_files s) q"
    using assms(3) map_of_filter_key [of "\<lambda>p. p \<noteq> new \<or> p = old" q] by blast
  ultimately show ?thesis by (simp add: file_at_def move_path_def)
qed

lemma file_at_move_old:
  "old \<noteq> new \<Longrightarrow> \<not> HasPrefix old (new @ ''/'') \<Longrightarrow> file_at (move_path old new s) old = None"
  using map_of_rekey_none [OF reroot_old] by (simp add: file_at_def move_path_def)

lemma file_at_move_new:
  assumes "old \<noteq> new"
  shows "file_at s old = Some d \<Longrightarrow> file_at (move_path old new s) new = Some d"
proof -
  have key: "reroot old new p = new \<Longrightarrow> p = old \<or> p = new" "reroot old new old = new" for p
    using assms by (auto simp: reroot_def HasPrefix_iff split: if_splits)
  have "map_of (map (\<lambda>(p, y). (reroot old new p, y)) (filter (\<lambda>(p, _). p \<noteq> new \<or> p = old) l)) new = map_of l old"
    for l :: "(string \<times> string \<times> nat) list"
    using assms by (induction l) (auto simp: key(2) dest: key(1) [OF sym])
  then show "file_at s old = Some d \<Longrightarrow> file_at (move_path old new s) new = Some d"
    by (simp add: file_at_def move_path_def)
qed

lemma slash_not_in_show_nat: "slash \<notin> set (show_nat n)"
proof (induction n rule: show_nat.induct)
  case (1 n)
  have d: "slash \<noteq> digit k" if "k < 10" for k
  proof
    assume "slash = digit k"
    then have "of_char (digit k) = (of_char slash :: nat)" by (rule arg_cong [OF sym])
    with that show False by (simp add: digit_def)
  qed
  show ?case
  proof (cases "n < 10")
    case True
    then show ?thesis using d [of n] by (simp add: show_nat.simps [of n])
  next
    case False
    then show ?thesis using d [of "n mod 10"] 1 by (simp add: show_nat.simps [of n])
  qed
qed

lemma slash_not_in_show_int: "slash \<notin> set (show_int i)"
  using slash_not_in_show_nat by (simp add: show_int_def)

text \<open>The name a file of the storage has in the archive.\<close>

definition archived_name :: "shell \<Rightarrow> string \<Rightarrow> string" where
  "archived_name s m = show_int (w_now (sh_world s) div Second) @ ''.'' @ m"

lemma archived_name_inj [simp]: "archived_name s m = archived_name s n \<longleftrightarrow> m = n"
  by (simp add: archived_name_def)

lemma archived_name_slash [simp]: "slash \<in> set (archived_name s m) \<longleftrightarrow> slash \<in> set m"
  using slash_not_in_show_int by (auto simp: archived_name_def)

lemma archived_name_plain: "slash \<notin> set m \<Longrightarrow> m \<noteq> [] \<Longrightarrow> plain_name (archived_name s m)"
  using archived_name_slash [of s m]
  by (auto simp: plain_name_def archived_name_def append_eq_Cons_conv show_int_def simp del: archived_name_slash
      split: if_splits)

lemma sh_world_move [simp]: "sh_world (move_path old new s) = sh_world s"
  by (simp add: move_path_def)

lemma archived_name_move [simp]: "archived_name (move_path old new s) m = archived_name s m"
  by (simp add: archived_name_def)

lemma not_below_name: "slash \<notin> set n \<Longrightarrow> slash \<notin> set m \<Longrightarrow> \<not> HasPrefix (p @ n) ((p @ m) @ ''/'')"
  by (auto simp: HasPrefix_iff)

lemma not_below_other:
  assumes "slash \<notin> set n" and "\<not> HasPrefix p q"
  shows "\<not> HasPrefix (p @ n) ((q @ m) @ ''/'')"
proof
  assume "HasPrefix (p @ n) ((q @ m) @ ''/'')"
  then obtain r where "p @ n = (q @ m @ ''/'') @ r" by (auto simp: HasPrefix_iff)
  then obtain us where "p = (q @ m @ ''/'') @ us \<and> us @ n = r \<or> p @ us = q @ m @ ''/'' \<and> n = us @ r"
    using append_eq_append_conv2 [THEN iffD1, of p n "q @ m @ ''/''" r] by metis
  then show False
  proof
    assume "p = (q @ m @ ''/'') @ us \<and> us @ n = r"
    then show False using assms(2) by (auto simp: HasPrefix_iff)
  next
    assume us: "p @ us = q @ m @ ''/'' \<and> n = us @ r"
    then have "us = []" using assms(1) by (cases us rule: rev_cases) auto
    then show False using us assms(2) by (auto simp: HasPrefix_iff)
  qed
qed

text \<open>The folders of the certificates and of the archive, neither inside the other.\<close>

definition apart :: "certs_storage \<Rightarrow> bool" where
  "apart st \<longleftrightarrow> \<not> HasPrefix (dir_prefix (cs_rootPath st)) (dir_prefix (cs_archivePath st))
     \<and> \<not> HasPrefix (dir_prefix (cs_archivePath st)) (dir_prefix (cs_rootPath st))"

definition cert_at :: "certs_storage \<Rightarrow> string \<Rightarrow> string" where
  "cert_at st n = dir_prefix (cs_rootPath st) @ n"

definition arch_at :: "certs_storage \<Rightarrow> shell \<Rightarrow> string \<Rightarrow> string" where
  "arch_at st s n = dir_prefix (cs_archivePath st) @ archived_name s n"

lemma apart_paths:
  assumes "apart st" and "slash \<notin> set m" and "slash \<notin> set n"
  shows "cert_at st m \<noteq> arch_at st s n" and "arch_at st s n \<noteq> cert_at st m"
    and "\<not> HasPrefix (cert_at st m) (arch_at st s n @ ''/'')"
    and "\<not> HasPrefix (arch_at st s n) (cert_at st m @ ''/'')"
    and "\<not> HasPrefix (cert_at st m) (cert_at st n @ ''/'')"
    and "\<not> HasPrefix (arch_at st s m) (arch_at st s n @ ''/'')"
proof -
  have ne: "dir_prefix (cs_rootPath st) \<noteq> dir_prefix (cs_archivePath st)"
    using assms(1) by (auto simp: apart_def HasPrefix_iff)
  then show "cert_at st m \<noteq> arch_at st s n"
    using dir_prefix_inj [of "cs_rootPath st" m "cs_archivePath st" "archived_name s n"] assms
    by (auto simp: cert_at_def arch_at_def)
  then show "arch_at st s n \<noteq> cert_at st m" by simp
  show "\<not> HasPrefix (cert_at st m) (arch_at st s n @ ''/'')"
    using assms unfolding cert_at_def arch_at_def apart_def by (intro not_below_other) simp_all
  show "\<not> HasPrefix (arch_at st s n) (cert_at st m @ ''/'')"
    using assms unfolding cert_at_def arch_at_def apart_def by (intro not_below_other) simp_all
  show "\<not> HasPrefix (cert_at st m) (cert_at st n @ ''/'')"
    using assms unfolding cert_at_def by (intro not_below_name)
  show "\<not> HasPrefix (arch_at st s m) (arch_at st s n @ ''/'')"
    using assms unfolding arch_at_def by (intro not_below_name) simp_all
qed

lemma path_Dir_plain: "plain_name n \<Longrightarrow> path_Dir (dir_prefix root @ n) = Clean (dir_prefix root)"
proof -
  assume "plain_name n"
  then have n: "slash \<notin> set n" by (simp add: plain_name_def)
  then have "dropWhile (\<lambda>c. c \<noteq> slash) (rev n @ rev (dir_prefix root)) =
      dropWhile (\<lambda>c. c \<noteq> slash) (rev (dir_prefix root))"
    by (intro dropWhile_append2) auto
  moreover have "dropWhile (\<lambda>c. c \<noteq> slash) (rev (dir_prefix root)) = rev (dir_prefix root)"
    using dir_prefix_slash [of root] by auto
  ultimately show ?thesis by (simp add: path_Dir_def)
qed

text \<open>The shell after moving one file of the storage to the archive.\<close>

definition archive_one :: "certs_storage \<Rightarrow> string \<Rightarrow> shell \<Rightarrow> shell" where
  "archive_one st m s = move_path (cert_at st m) (arch_at st s m) s"

lemma archive_step:
  assumes "plain_name m" and "file_at s (cert_at st m) \<noteq> None" and "osErr c ''rename'' (cert_at st m) = None"
    and "Clean (dir_prefix (cs_archivePath st)) \<in> set (sh_dirs s)"
  shows "archive_files c st (cert_at st m # rest) s = archive_files c st rest (archive_one st m s)"
proof -
  have base: "path_Base (cert_at st m) = m"
    using path_Base_Join [OF assms(1)] path_Join_plain [OF assms(1)] by (simp add: cert_at_def)
  have plain: "plain_name (archived_name s m)"
    using archived_name_plain assms(1) by (simp add: plain_name_def)
  have new: "path_Join [cs_archivePath st, archived_name s m] = arch_at st s m"
    using path_Join_plain [OF plain] by (simp add: arch_at_def)
  have "path_Dir (arch_at st s m) \<in> set (sh_dirs s)"
    using path_Dir_plain [OF plain] assms(4) by (simp add: arch_at_def)
  then have "os_Rename c (cert_at st m) (arch_at st s m) s = (Return None, archive_one st m s)"
    using assms(2,3) by (simp add: os_Rename_def bind_def archive_one_def)
  then show ?thesis
    using new by (simp add: bind_def Let_def base check_err_def archived_name_def)
qed

lemma archive_one_files:
  assumes "apart st" and "plain_name m" and "slash \<notin> set n"
  shows "file_at (archive_one st m s) (cert_at st n) = (if n = m then None else file_at s (cert_at st n))"
    and "file_at s (cert_at st m) \<noteq> None \<Longrightarrow>
         file_at (archive_one st m s) (arch_at st s n) =
           (if n = m then file_at s (cert_at st m) else file_at s (arch_at st s n))"
proof -
  have m: "slash \<notin> set m" using assms(2) by (simp add: plain_name_def)
  note paths = apart_paths [OF assms(1)]
  have inj: "cert_at st n = cert_at st m \<longleftrightarrow> n = m" "arch_at st s n = arch_at st s m \<longleftrightarrow> n = m"
    by (simp_all add: cert_at_def arch_at_def)
  show "file_at (archive_one st m s) (cert_at st n) = (if n = m then None else file_at s (cert_at st n))"
    using file_at_move_other [of "cert_at st n" "cert_at st m" "arch_at st s m" s]
      file_at_move_old [of "cert_at st m" "arch_at st s m" s] paths [OF m m] paths [OF assms(3) m] inj
    by (simp add: archive_one_def)
  show "file_at (archive_one st m s) (arch_at st s n) =
      (if n = m then file_at s (cert_at st m) else file_at s (arch_at st s n))"
    if "file_at s (cert_at st m) \<noteq> None"
    using file_at_move_other [of "arch_at st s n" "cert_at st m" "arch_at st s m" s]
      file_at_move_new [of "cert_at st m" "arch_at st s m" s] paths [OF m m] paths [OF m assms(3)]
      paths [OF assms(3) m] inj that
    by (auto simp: archive_one_def)
qed

lemma archive_one_dirs:
  assumes "\<forall>d \<in> set (sh_dirs s). d \<noteq> cert_at st m \<and> \<not> HasPrefix d (cert_at st m @ ''/'')"
  shows "sh_dirs (archive_one st m s) = sh_dirs s"
  using assms by (auto simp: archive_one_def move_path_def reroot_def intro!: map_idI)

lemma arch_at_archive_one [simp]: "arch_at st (archive_one st m s) n = arch_at st s n"
  by (simp add: arch_at_def archive_one_def)

lemma archive_files_run:
  assumes "apart st" and "\<And>p. osErr c ''rename'' p = None"
  shows "\<lbrakk>distinct ms; \<forall>m \<in> set ms. plain_name m \<and> file_at s (cert_at st m) \<noteq> None;
    \<forall>d \<in> set (sh_dirs s). \<forall>m \<in> set ms. d \<noteq> cert_at st m \<and> \<not> HasPrefix d (cert_at st m @ ''/'');
    Clean (dir_prefix (cs_archivePath st)) \<in> set (sh_dirs s)\<rbrakk> \<Longrightarrow>
    \<exists>t. archive_files c st (map (cert_at st) ms) s = (Return None, t)
      \<and> (\<forall>n. slash \<notin> set n \<longrightarrow>
           file_at t (cert_at st n) = (if n \<in> set ms then None else file_at s (cert_at st n))
           \<and> file_at t (arch_at st s n) =
               (if n \<in> set ms then file_at s (cert_at st n) else file_at s (arch_at st s n)))"
proof (induction ms arbitrary: s)
  case (Cons m ms)
  let ?u = "archive_one st m s"
  have m: "plain_name m" "file_at s (cert_at st m) \<noteq> None" using Cons.prems(2) by auto
  have dirs: "sh_dirs ?u = sh_dirs s" using Cons.prems(3) by (intro archive_one_dirs) simp
  note one = archive_one_files [OF assms(1) m(1)]
  have "\<forall>k \<in> set ms. plain_name k \<and> file_at ?u (cert_at st k) \<noteq> None"
    using Cons.prems(1,2) one(1) by (auto simp: plain_name_def)
  then obtain t where t: "archive_files c st (map (cert_at st) ms) ?u = (Return None, t)"
    and files: "\<And>n. slash \<notin> set n \<Longrightarrow>
      file_at t (cert_at st n) = (if n \<in> set ms then None else file_at ?u (cert_at st n))
      \<and> file_at t (arch_at st s n) =
          (if n \<in> set ms then file_at ?u (cert_at st n) else file_at ?u (arch_at st s n))"
    using Cons.IH [of ?u] Cons.prems dirs by auto
  have "archive_files c st (map (cert_at st) (m # ms)) s = (Return None, t)"
    using archive_step [OF m assms(2)] Cons.prems(4) t by simp
  moreover have "file_at t (cert_at st n) = (if n \<in> set (m # ms) then None else file_at s (cert_at st n))
      \<and> file_at t (arch_at st s n) =
          (if n \<in> set (m # ms) then file_at s (cert_at st n) else file_at s (arch_at st s n))"
    if "slash \<notin> set n" for n
    using files [OF that] one(1) [OF that] one(2) [OF that m(2)] Cons.prems(1) by auto
  ultimately show ?case by blast
qed simp

text \<open>The names in the folder that the pattern of a domain matches.\<close>

lemma Glob_names:
  assumes "no_meta (cert_at st (name @ ''.''))" and "plain_entry name" and "distinct (map fst (sh_files s))"
    and "\<forall>d \<in> set (sh_dirs s). \<not> HasPrefix d (cert_at st (name @ ''.''))"
  shows "\<exists>ms. Glob (map fst (sh_files s) @ sh_dirs s) (path_Join [cs_rootPath st, name @ ''.*'']) =
      Some (map (cert_at st) ms) \<and> distinct ms
    \<and> (\<forall>m. m \<in> set ms \<longleftrightarrow> HasPrefix m (name @ ''.'') \<and> slash \<notin> set m \<and> file_at s (cert_at st m) \<noteq> None)"
proof -
  let ?P = "cert_at st (name @ ''.'')"
  have join: "path_Join [cs_rootPath st, name @ ''.*''] = ?P @ ''*''"
    using path_Join_plain [of "name @ ''.*''"] assms(2)
    by (auto simp: plain_entry_def plain_name_def cert_at_def append_eq_Cons_conv)
  obtain its where its: "glob_items (?P @ ''*'') = Some its"
    and match: "\<And>s. item_matches its s \<longleftrightarrow> (\<exists>r. s = ?P @ r \<and> slash \<notin> set r)"
    using glob_star [OF assms(1)] by blast
  define found where "found = sort_key (split_on slash) (filter (item_matches its) (map fst (sh_files s) @ sh_dirs s))"
  define ms where "ms = map (drop (length (dir_prefix (cs_rootPath st)))) found"
  have set: "p \<in> set found \<longleftrightarrow> p \<in> fst ` set (sh_files s) \<and> (\<exists>r. p = ?P @ r \<and> slash \<notin> set r)" for p
    using assms(4) by (auto simp: found_def match HasPrefix_iff)
  have nodirs: "filter (item_matches its) (sh_dirs s) = []"
    using assms(4) by (auto simp: filter_empty_conv match HasPrefix_iff)
  have inverse: "cert_at st (drop (length (dir_prefix (cs_rootPath st))) p) = p" if "p \<in> set found" for p
    using that set [of p] by (auto simp: cert_at_def)
  then have found: "map (cert_at st) ms = found" by (simp add: ms_def map_idI)
  have "distinct found" using assms(3) by (simp add: found_def nodirs)
  then have dist: "distinct ms" using distinct_map [of "cert_at st" ms] by (simp add: found)
  have "m \<in> set ms \<longleftrightarrow> HasPrefix m (name @ ''.'') \<and> slash \<notin> set m \<and> file_at s (cert_at st m) \<noteq> None" for m
  proof -
    have "m \<in> set ms \<longleftrightarrow> cert_at st m \<in> set found"
      using found by (auto simp: cert_at_def simp flip: found)
    also have "\<dots> \<longleftrightarrow> cert_at st m \<in> fst ` set (sh_files s) \<and> (\<exists>r. m = (name @ ''.'') @ r \<and> slash \<notin> set r)"
      by (auto simp: set cert_at_def)
    finally show ?thesis
      using assms(2) by (auto simp: HasPrefix_iff file_at_def map_of_eq_None_iff plain_entry_def)
  qed
  moreover have "Glob (map fst (sh_files s) @ sh_dirs s) (path_Join [cs_rootPath st, name @ ''.*'']) = Some found"
    by (simp add: Glob_def join its found_def)
  ultimately show ?thesis using dist found by auto
qed

text \<open>
  C19 (functional).  \<^verbatim>\<open>MoveToArchive\<close> moves exactly the files of the certificates folder whose name starts
  with the sanitized domain and a dot, each to the archive under its old name prefixed with the time, and
  nothing else: every other file of the folder is kept.  The files of another domain are moved too when its
  name continues the domain after a dot, as \<^verbatim>\<open>example.com.au\<close> does \<^verbatim>\<open>example.com\<close>.
\<close>

theorem MoveToArchive_moves_prefix:
  assumes "sanitizedDomain c domain = Return name" and "plain_name name"
    and "no_meta (cert_at st (name @ ''.''))" and "apart st"
    and "distinct (map fst (sh_files s))"
    and "list_all (\<lambda>d. \<not> HasPrefix d (cert_at st (name @ ''.''))) (sh_dirs s)"
    and "Clean (dir_prefix (cs_archivePath st)) \<in> set (sh_dirs s)"
    and "\<And>p. osErr c ''rename'' p = None"
  shows "\<exists>t. MoveToArchive c st domain s = (Return None, t)
    \<and> (\<forall>n. plain_name n \<longrightarrow>
         (if HasPrefix n (name @ ''.'')
          then file_at t (path_Join [cs_rootPath st, n]) = None
            \<and> (\<forall>d. file_at s (path_Join [cs_rootPath st, n]) = Some d \<longrightarrow>
                 file_at t (path_Join [cs_archivePath st, archived_name s n]) = Some d)
          else file_at t (path_Join [cs_rootPath st, n]) = file_at s (path_Join [cs_rootPath st, n])))"
proof -
  have dirs: "\<forall>d \<in> set (sh_dirs s). \<not> HasPrefix d (cert_at st (name @ ''.''))"
    using assms(6) by (simp add: list_all_iff)
  obtain ms where glob: "Glob (map fst (sh_files s) @ sh_dirs s) (path_Join [cs_rootPath st, name @ ''.*'']) =
      Some (map (cert_at st) ms)" and ms: "distinct ms"
    "\<And>m. m \<in> set ms \<longleftrightarrow> HasPrefix m (name @ ''.'') \<and> slash \<notin> set m \<and> file_at s (cert_at st m) \<noteq> None"
    using Glob_names [OF assms(3) _ assms(5) dirs] assms(2) by (auto simp: plain_entry_def plain_name_def)
  have plain: "plain_name m" if "m \<in> set ms" for m
    using that ms(2) assms(2) by (auto simp: plain_name_def HasPrefix_iff append_eq_Cons_conv)
  have away: "d \<noteq> cert_at st m \<and> \<not> HasPrefix d (cert_at st m @ ''/'')" if "d \<in> set (sh_dirs s)" "m \<in> set ms" for d m
    using dirs that ms(2) by (fastforce simp: HasPrefix_iff cert_at_def)
  obtain t where t: "archive_files c st (map (cert_at st) ms) s = (Return None, t)"
    and files: "\<And>n. slash \<notin> set n \<Longrightarrow>
      file_at t (cert_at st n) = (if n \<in> set ms then None else file_at s (cert_at st n))
      \<and> file_at t (arch_at st s n) = (if n \<in> set ms then file_at s (cert_at st n) else file_at s (arch_at st s n))"
    using archive_files_run [OF assms(4,8) ms(1), of s] plain ms(2) away assms(7) by auto
  have "MoveToArchive c st domain s = (Return None, t)"
    using t glob by (simp add: MoveToArchive_def bind_def assms(1))
  moreover have "if HasPrefix n (name @ ''.'')
      then file_at t (path_Join [cs_rootPath st, n]) = None
        \<and> (\<forall>d. file_at s (path_Join [cs_rootPath st, n]) = Some d \<longrightarrow>
             file_at t (path_Join [cs_archivePath st, archived_name s n]) = Some d)
      else file_at t (path_Join [cs_rootPath st, n]) = file_at s (path_Join [cs_rootPath st, n])"
    if n: "plain_name n" for n
  proof -
    have "path_Join [cs_rootPath st, n] = cert_at st n"
      and "path_Join [cs_archivePath st, archived_name s n] = arch_at st s n"
      using path_Join_plain [OF n] path_Join_plain [OF archived_name_plain] n
      by (simp_all add: cert_at_def arch_at_def plain_name_def)
    then show ?thesis using files [of n] ms(2) [of n] n by (auto simp: plain_name_def)
  qed
  ultimately show ?thesis by blast
qed

section \<open>A sample storage\<close>

definition sample_resource :: resource where
  "sample_resource = zero_resource\<lparr>res_Domain := ''*.a'', res_CertURL := ''u'', res_PrivateKey := Some ''k'',
     res_Certificate := ''crt''\<rparr>"

definition sample_cli :: cli_env where
  "sample_cli = \<lparr>ce_env = sample_env\<lparr>jsonParse := [''J'' \<mapsto> resource_json sample_resource]\<rparr>,
     osErr = (\<lambda>_ _. None), jsonIndent = (\<lambda>_. ''J''), urlHost = (\<lambda>_. ''ca''), hookResult = (\<lambda>_. ([], False, None)),
     stdinText = (\<lambda>_. Inr ''Y''), appVersion = ''dev''\<rparr>"

definition sample_storage :: certs_storage where
  "sample_storage = \<lparr>cs_rootPath = ''c'', cs_archivePath = ''z'', cs_pem = True, cs_filename = []\<rparr>"

definition sample_shell :: shell where
  "sample_shell = \<lparr>sh_world = sample_world,
     sh_files = [(''c/a.crt'', ''old'', 384), (''c/a.b.key'', ''other'', 384), (''c/ab.crt'', ''third'', 384)],
     sh_dirs = [''c'', ''z''], sh_hooks = [], sh_out = []\<rparr>"

lemmas storage_eval =
  sample_cli_def sample_storage_def sample_shell_def sample_resource_def sample_env_def sample_world_def
  base_name_def sanitizedDomain_def can_write_def cert_path_def path_Dir_def path_Join_def Clean_def
  clean_comps_def is_rooted_def clean_step_def separate_entries_def plain_entry_def plain_name_def
  zero_resource_def file_at_def cert_store_def apart_def dir_prefix_def cert_at_def no_meta_def HasPrefix_iff
  archived_name_def

lemma sample_can_write: "can_write sample_cli sample_storage ''_.a'' sample_shell"
  unfolding can_write_def
proof (intro allI)
  fix f
  show "osErr sample_cli ''write'' (cert_path sample_storage ''_.a'' f) = None
    \<and> path_Dir (cert_path sample_storage ''_.a'' f) \<in> set (sh_dirs sample_shell)
    \<and> cert_path sample_storage ''_.a'' f \<notin> set (sh_dirs sample_shell)"
    by (cases f) (simp_all add: storage_eval)
qed

theorem SaveResource_refines_store_witness:
  "cert_store sample_storage (snd (SaveResource sample_cli sample_storage sample_resource sample_shell))
     ''_.a'' Pem = Some ''crtk''
   \<and> cert_store sample_storage (snd (SaveResource sample_cli sample_storage sample_resource sample_shell))
     ''a'' Crt = Some ''old''"
proof -
  have n: "base_name sample_cli sample_storage (res_Domain sample_resource) = Return ''_.a''"
    by (simp add: storage_eval)
  have k: "cs_pem sample_storage \<longrightarrow> res_PrivateKey sample_resource \<noteq> None" by (simp add: storage_eval)
  have "separate_entries ''_.a'' ''_.a''" "separate_entries ''_.a'' ''a''" by (simp_all add: storage_eval)
  note this [THEN SaveResource_refines_store [OF n sample_can_write k]]
  from this(1) [of Pem] this(2) [of Crt] show ?thesis
    by (simp add: save_entry_def) (simp add: storage_eval)
qed

theorem SaveResource_read_back_witness:
  "\<exists>t. SaveResource sample_cli sample_storage sample_resource sample_shell = (Return (), t)
     \<and> fst (ReadFile sample_cli sample_storage ''*.a'' ''.crt'' t) = Return (Inr ''crt'')
     \<and> fst (ReadResource sample_cli sample_storage ''*.a'' t) =
         Return (zero_resource\<lparr>res_Domain := ''*.a'', res_CertURL := ''u''\<rparr>)"
proof -
  have n: "base_name sample_cli sample_storage (res_Domain sample_resource) = Return ''_.a''"
    "sanitizedDomain sample_cli (res_Domain sample_resource) = Return ''_.a''"
    by (simp_all add: storage_eval)
  have rest: "cs_pem sample_storage \<longrightarrow> res_PrivateKey sample_resource \<noteq> None"
    "separate_entries ''_.a'' ''_.a''"
    "jsonParse (ce_env sample_cli) (jsonIndent sample_cli (resource_json sample_resource)) =
       Some (resource_json sample_resource)"
    "osErr sample_cli ''read'' (cert_path sample_storage ''_.a'' f) = None" for f
    by (simp_all add: storage_eval)
  have r: "res_Domain sample_resource = ''*.a''" "res_Certificate sample_resource = ''crt''"
    "res_CertURL sample_resource = ''u''" "res_CertStableURL sample_resource = []"
    by (simp_all add: sample_resource_def zero_resource_def)
  from SaveResource_read_back [OF n sample_can_write rest] show ?thesis
    by (auto simp: r) (simp add: zero_resource_def)
qed

theorem MoveToArchive_moves_prefix_witness:
  "\<exists>t. MoveToArchive sample_cli sample_storage ''a'' sample_shell = (Return None, t)
     \<and> file_at t ''c/a.crt'' = None \<and> file_at t ''c/a.b.key'' = None
     \<and> file_at t ''c/ab.crt'' = Some ''third''"
proof -
  have pre: "sanitizedDomain sample_cli ''a'' = Return ''a''" "plain_name ''a''"
    "no_meta (cert_at sample_storage (''a'' @ ''.''))" "apart sample_storage"
    "distinct (map fst (sh_files sample_shell))"
    "list_all (\<lambda>d. \<not> HasPrefix d (cert_at sample_storage (''a'' @ ''.''))) (sh_dirs sample_shell)"
    "Clean (dir_prefix (cs_archivePath sample_storage)) \<in> set (sh_dirs sample_shell)"
    "osErr sample_cli ''rename'' p = None" for p
    by (simp_all add: storage_eval)
  obtain t where t: "MoveToArchive sample_cli sample_storage ''a'' sample_shell = (Return None, t)"
    and files: "\<And>n. plain_name n \<Longrightarrow>
      (if HasPrefix n (''a'' @ ''.'')
       then file_at t (path_Join [cs_rootPath sample_storage, n]) = None
         \<and> (\<forall>d. file_at sample_shell (path_Join [cs_rootPath sample_storage, n]) = Some d \<longrightarrow>
              file_at t (path_Join [cs_archivePath sample_storage, archived_name sample_shell n]) = Some d)
       else file_at t (path_Join [cs_rootPath sample_storage, n]) =
            file_at sample_shell (path_Join [cs_rootPath sample_storage, n]))"
    using MoveToArchive_moves_prefix [OF pre] by blast
  have paths: "path_Join [cs_rootPath sample_storage, ''a.crt''] = ''c/a.crt''"
    "path_Join [cs_rootPath sample_storage, ''a.b.key''] = ''c/a.b.key''"
    "path_Join [cs_rootPath sample_storage, ''ab.crt''] = ''c/ab.crt''"
    "file_at sample_shell ''c/ab.crt'' = Some ''third''"
    by (simp_all add: storage_eval)
  show ?thesis
    using t files [of "''a.crt''"] files [of "''a.b.key''"] files [of "''ab.crt''"] paths
    by (simp add: plain_name_def HasPrefix_iff)
qed

end
