(* ===== verification/Accounts.thy ===== *)
theory Accounts
  imports Storage
begin

text \<open>
  The accounts of the command line (\<^verbatim>\<open>cmd/account.go\<close>, \<^verbatim>\<open>cmd/accounts_storage.go\<close>): one folder per server
  and user, with the account as JSON and its private key as PEM.

  Proved here: the private key that is generated for a new account is the one every later run loads; an
  account is read back as it was saved, and looked up at the server exactly when its registration is
  missing.
\<close>

definition baseAccountsRootFolderName :: string where "baseAccountsRootFolderName = ''accounts''"
definition baseKeysFolderName :: string where "baseKeysFolderName = ''keys''"
definition accountFileName :: string where "accountFileName = ''account.json''"

section \<open>Accounts\<close>

record cli_account =
  ac_Email :: string
  ac_Registration :: "registration_resource option"
  ac_key :: "private_key option"

text \<open>The account as a \<^verbatim>\<open>registration.User\<close>: \<^verbatim>\<open>GetEmail\<close>, \<^verbatim>\<open>GetRegistration\<close>, \<^verbatim>\<open>GetPrivateKey\<close>.\<close>

definition account_user :: "cli_account \<Rightarrow> user" where
  "account_user a = \<lparr>usr_Email = ac_Email a, usr_Registration = ac_Registration a, usr_PrivateKey = ac_key a\<rparr>"

definition registration_json :: "registration_resource \<Rightarrow> json" where
  "registration_json r = JObj ((''body'', account_json (rr_Body r)) # omit_str ''uri'' (rr_URI r))"

text \<open>The private key is not exported and so not written.\<close>

definition cli_account_json :: "cli_account \<Rightarrow> json" where
  "cli_account_json a =
     JObj [(''email'', JStr (ac_Email a)),
           (''registration'', case ac_Registration a of None \<Rightarrow> JNull | Some r \<Rightarrow> registration_json r)]"

definition registration_of_json :: "json \<Rightarrow> goerror + registration_resource" where
  "registration_of_json = decode_struct (\<lambda>k v r.
     if k = ''body'' then set_struct account_of_json v (\<lambda>a. r\<lparr>rr_Body := a\<rparr>)
     else if k = ''uri'' then set_str v (\<lambda>s. r\<lparr>rr_URI := s\<rparr>) r
     else Inr r) \<lparr>rr_Body = zero_account, rr_URI = []\<rparr>"

definition cli_account_of_json :: "json \<Rightarrow> goerror + cli_account" where
  "cli_account_of_json = decode_struct (\<lambda>k v a.
     if k = ''email'' then set_str v (\<lambda>s. a\<lparr>ac_Email := s\<rparr>) a
     else if k = ''registration'' then set_ptr registration_of_json v (\<lambda>r. a\<lparr>ac_Registration := r\<rparr>)
     else Inr a) \<lparr>ac_Email = [], ac_Registration = None, ac_key = None\<rparr>"

section \<open>The storage\<close>

record accounts_storage =
  as_userID :: string
  as_rootPath :: string
  as_rootUserPath :: string
  as_keysPath :: string
  as_accountFilePath :: string
  as_ctx :: cli_ctx

definition getEmail :: "cli_ctx \<Rightarrow> string outcome" where
  "getEmail ctx =
     (if fl_email ctx = []
      then Exit ''You have to pass an account (email address) to the program using --email or -m''
      else Return (fl_email ctx))"

definition server_path :: "string \<Rightarrow> string" where
  "server_path host = map (\<lambda>x. if x = CHR '':'' then CHR ''_'' else x) host"

definition NewAccountsStorage :: "cli_env \<Rightarrow> cli_ctx \<Rightarrow> accounts_storage outcome" where
  "NewAccountsStorage c ctx =
     (case getEmail ctx of
        Return email \<Rightarrow>
          (case urlParse (ce_env c) (fl_server ctx) of
             Some err \<Rightarrow> Exit (error_text err)
           | None \<Rightarrow>
               (let rootPath = path_Join [fl_path ctx, baseAccountsRootFolderName];
                    serverPath = server_path (urlHost c (fl_server ctx));
                    accountsPath = path_Join [rootPath, serverPath];
                    rootUserPath = path_Join [accountsPath, email] in
                Return \<lparr>as_userID = email, as_rootPath = rootPath, as_rootUserPath = rootUserPath,
                  as_keysPath = path_Join [rootUserPath, baseKeysFolderName],
                  as_accountFilePath = path_Join [rootUserPath, accountFileName], as_ctx = ctx\<rparr>))
      | Panic m \<Rightarrow> Panic m
      | Exit m \<Rightarrow> Exit m
      | Stuck \<Rightarrow> Stuck)"

definition ExistsAccountFilePath :: "cli_env \<Rightarrow> accounts_storage \<Rightarrow> (shell, bool) go" where
  "ExistsAccountFilePath c st =
     bind (os_Stat c (path_Join [as_rootUserPath st, accountFileName])) (\<lambda>r.
       case r of NotExist \<Rightarrow> ret False | StatErr err \<Rightarrow> fatal (error_text err) | Exists \<Rightarrow> ret True)"

definition Save :: "cli_env \<Rightarrow> accounts_storage \<Rightarrow> cli_account \<Rightarrow> (shell, goerror option) go" where
  "Save c st acct = os_WriteFile c (as_accountFilePath st) (jsonIndent c (cli_account_json acct)) filePerm"

definition tryRecoverRegistration ::
  "cli_env \<Rightarrow> cli_ctx \<Rightarrow> private_key \<Rightarrow> (shell, goerror + registration_resource) go" where
  "tryRecoverRegistration c ctx privateKey =
     bind (outcome_of (NewConfig (ce_env c)
             (Some (account_user \<lparr>ac_Email = [], ac_Registration = None, ac_key = Some privateKey\<rparr>)))) (\<lambda>config.
       let config' = config\<lparr>cfg_CADirURL := fl_server ctx, cfg_UserAgent := ''lego-cli/'' @ appVersion c\<rparr> in
       check (on_world (NewClient (ce_env c) (Some config'))) (\<lambda>cl.
         on_world (ResolveAccountByKey (ce_env c) (client_registrar cl))))"

definition LoadAccount :: "cli_env \<Rightarrow> accounts_storage \<Rightarrow> private_key \<Rightarrow> (shell, cli_account) go" where
  "LoadAccount c st privateKey =
     handle (os_ReadFile c (as_accountFilePath st))
       (\<lambda>err. fatal (''Could not load file for account '' @ as_userID st @ '': '' @ error_text err))
       (\<lambda>raw.
         case unmarshal c cli_account_of_json raw of
           Inl err \<Rightarrow> fatal (''Could not parse file for account '' @ as_userID st @ '': '' @ error_text err)
         | Inr parsed \<Rightarrow>
             (let acct = parsed\<lparr>ac_key := Some privateKey\<rparr> in
              if (case ac_Registration acct of None \<Rightarrow> True | Some r \<Rightarrow> acc_Status (rr_Body r) = [])
              then
                handle (tryRecoverRegistration c (as_ctx st) privateKey)
                  (\<lambda>err. fatal (''Could not load account for '' @ as_userID st @ ''. Registration is nil: ''
                               @ error_text err))
                  (\<lambda>reg.
                    let acct' = acct\<lparr>ac_Registration := Some reg\<rparr> in
                    bind (fatal_on (\<lambda>err. ''Could not save account for '' @ as_userID st
                                        @ ''. Registration is nil: '' @ error_text err) (Save c st acct'))
                      (\<lambda>_. ret acct'))
              else ret acct))"

section \<open>Private keys\<close>

text \<open>\<^verbatim>\<open>os.Create\<close>: an empty file, with mode \<^verbatim>\<open>0666\<close> when it is new.\<close>

definition createPerm :: nat where "createPerm = 6 * 64 + 6 * 8 + 6"

definition generatePrivateKey :: "cli_env \<Rightarrow> string \<Rightarrow> KeyType \<Rightarrow> (shell, goerror + private_key) go" where
  "generatePrivateKey c file keyType =
     check (on_world (GeneratePrivateKey (ce_env c) keyType)) (\<lambda>privateKey.
       bind (os_WriteFile c file [] createPerm) (\<lambda>r.
         case r of
           Some err \<Rightarrow> ret (Inl err)
         | None \<Rightarrow>
             (case PEMBlock (ce_env c) (PemKey privateKey) of
                None \<Rightarrow> panic nil_pointer
              | Some pemKey \<Rightarrow>
                  (case osErr c ''append'' file of
                     Some err \<Rightarrow> ret (Inl err)
                   | None \<Rightarrow>
                       bind (modify (store_file file (pemEncode (ce_env c) pemKey) createPerm)) (\<lambda>_.
                         ret (Inr privateKey))))))"

definition loadPrivateKey :: "cli_env \<Rightarrow> string \<Rightarrow> (shell, goerror + private_key) go" where
  "loadPrivateKey c file =
     check (os_ReadFile c file) (\<lambda>keyBytes.
       case fst (pemDecode (ce_env c) keyBytes) of
         None \<Rightarrow> panic nil_pointer
       | Some keyBlock \<Rightarrow>
           ret (if pem_Type keyBlock = ''RSA PRIVATE KEY'' then parsePKCS1 (ce_env c) (pem_Bytes keyBlock)
                else if pem_Type keyBlock = ''EC PRIVATE KEY'' then parseEC (ce_env c) (pem_Bytes keyBlock)
                else Inl (Err ''unknown private key type'')))"

definition createKeysFolder :: "cli_env \<Rightarrow> accounts_storage \<Rightarrow> (shell, unit) go" where
  "createKeysFolder c st =
     fatal_on (\<lambda>err. ''Could not check/create directory for account '' @ as_userID st @ '': '' @ error_text err)
       (createNonExistingFolder c (as_keysPath st))"

definition accKeyPath :: "accounts_storage \<Rightarrow> string" where
  "accKeyPath st = path_Join [as_keysPath st, as_userID st @ ''.key'']"

definition GetPrivateKey :: "cli_env \<Rightarrow> accounts_storage \<Rightarrow> KeyType \<Rightarrow> (shell, private_key) go" where
  "GetPrivateKey c st keyType =
     bind (os_Stat c (accKeyPath st)) (\<lambda>r.
       if r = NotExist
       then
         bind (createKeysFolder c st) (\<lambda>_.
           handle (generatePrivateKey c (accKeyPath st) keyType)
             (\<lambda>err. fatal (''Could not generate RSA private account key for account '' @ as_userID st @ '': ''
                          @ error_text err))
             ret)
       else
         handle (loadPrivateKey c (accKeyPath st))
           (\<lambda>err. fatal (''Could not load RSA private key from file '' @ accKeyPath st @ '': '' @ error_text err))
           ret)"

section \<open>The key of an account\<close>

text \<open>
  What \<^verbatim>\<open>encoding/pem\<close> and \<^verbatim>\<open>crypto/x509\<close> document of the keys that are written: a block is found again, and
  parsing undoes marshalling for the two kinds of key.
\<close>

definition key_codec :: "env \<Rightarrow> bool" where
  "key_codec e \<longleftrightarrow> pem_ok e
     \<and> (\<forall>n i. parsePKCS1 e (marshalKey e (RsaKey n i)) = Inr (RsaKey n i))
     \<and> (\<forall>cv i. parseEC e (marshalKey e (EcdsaKey cv i)) = Inr (EcdsaKey cv i))"

lemma loadPrivateKey_written:
  assumes "key_codec (ce_env c)" and "PEMBlock (ce_env c) (PemKey k) = Some b"
    and "file_at s file = Some (pemEncode (ce_env c) b)" and "osErr c ''read'' file = None"
  shows "loadPrivateKey c file s = (Return (Inr k), s)"
proof -
  have "fst (pemDecode (ce_env c) (pemEncode (ce_env c) b)) = Some b"
    using assms(1) unfolding key_codec_def pem_ok_def by (metis append_Nil2 fst_conv)
  then show ?thesis
    using assms by (cases k) (auto simp: loadPrivateKey_def check_def handle_def bind_def os_ReadFile_def
        PEMBlock_def key_codec_def)
qed

lemma generatePrivateKey_written:
  assumes "generatePrivateKey c file keyType s = (Return (Inr k), t)"
  shows "\<exists>b. PEMBlock (ce_env c) (PemKey k) = Some b \<and> file_at t file = Some (pemEncode (ce_env c) b)"
  using assms
  by (auto simp: generatePrivateKey_def check_def handle_def bind_def
      split: prod.splits outcome.splits sum.splits option.splits)

text \<open>
  C20 (roundtrip).  The key of an account does not change: the key that is generated when there is none is
  the one that every later call returns, whatever key type that call asks for, and loading it changes no
  file.
\<close>

theorem GetPrivateKey_stable:
  assumes "key_codec (ce_env c)" and "file_at s (accKeyPath st) = None"
    and "accKeyPath st \<notin> set (sh_dirs s)"
    and "osErr c ''stat'' (accKeyPath st) = None" and "osErr c ''read'' (accKeyPath st) = None"
    and "GetPrivateKey c st keyType s = (Return k, t)"
  shows "GetPrivateKey c st keyType' t = (Return k, t)"
proof -
  have "\<exists>u. generatePrivateKey c (accKeyPath st) keyType u = (Return (Inr k), t)"
    using assms(2-4,6)
    by (auto simp: GetPrivateKey_def os_Stat_def handle_def bind_def
        split: prod.splits outcome.splits sum.splits)
  then obtain b where b: "PEMBlock (ce_env c) (PemKey k) = Some b"
      "file_at t (accKeyPath st) = Some (pemEncode (ce_env c) b)"
    using generatePrivateKey_written by blast
  then show ?thesis
    using loadPrivateKey_written [OF assms(1) b assms(5)] assms(4)
    by (simp add: GetPrivateKey_def os_Stat_def handle_def bind_def)
qed

text \<open>A concrete codec of keys, in unary.\<close>

fun curve_no :: "curve \<Rightarrow> nat" where
  "curve_no P256 = 0"
| "curve_no P384 = 1"
| "curve_no (OtherCurve n) = n + 2"

definition no_curve :: "nat \<Rightarrow> curve" where
  "no_curve n = (if n = 0 then P256 else if n = 1 then P384 else OtherCurve (n - 2))"

lemma no_curve_no [simp]: "no_curve (curve_no cv) = cv"
  by (cases cv) (simp_all add: no_curve_def)

definition toy_keys :: "env \<Rightarrow> env" where
  "toy_keys e = toy_pem (e\<lparr>
     marshalKey := (\<lambda>k. case k of
         RsaKey n i \<Rightarrow> replicate n (CHR ''n'') @ replicate i (CHR ''i'')
       | EcdsaKey cv i \<Rightarrow> replicate (curve_no cv) (CHR ''n'') @ replicate i (CHR ''i'')
       | _ \<Rightarrow> []),
     parsePKCS1 := (\<lambda>s. Inr (RsaKey (length (filter (\<lambda>x. x = CHR ''n'') s)) (length (filter (\<lambda>x. x = CHR ''i'') s)))),
     parseEC := (\<lambda>s. Inr (EcdsaKey (no_curve (length (filter (\<lambda>x. x = CHR ''n'') s)))
                                   (length (filter (\<lambda>x. x = CHR ''i'') s))))\<rparr>)"

lemma key_codec_toy: "key_codec (toy_keys e)"
  using pem_ok_toy by (simp add: key_codec_def toy_keys_def) (simp add: toy_pem_def)

definition sample_accounts :: accounts_storage where
  "sample_accounts = \<lparr>as_userID = ''u'', as_rootPath = ''r'', as_rootUserPath = ''r/u'', as_keysPath = ''c'',
     as_accountFilePath = ''r/u/account.json'', as_ctx = undefined\<rparr>"

theorem GetPrivateKey_stable_witness:
  "\<exists>t. GetPrivateKey (sample_cli\<lparr>ce_env := toy_keys sample_env\<rparr>) sample_accounts EC256 sample_shell =
        (Return (EcdsaKey P256 0), t)
     \<and> GetPrivateKey (sample_cli\<lparr>ce_env := toy_keys sample_env\<rparr>) sample_accounts RSA2048 t =
        (Return (EcdsaKey P256 0), t)"
proof -
  let ?c = "sample_cli\<lparr>ce_env := toy_keys sample_env\<rparr>"
  have path: "accKeyPath sample_accounts = ''c/u.key''"
    by (simp add: accKeyPath_def sample_accounts_def storage_eval)
  have keys: "as_keysPath sample_accounts = ''c''" by (simp add: sample_accounts_def)
  have env: "osErr ?c op p = None" "ce_env ?c = toy_keys sample_env"
    "generateEcKey (toy_keys sample_env) tr cv = Inr (EcdsaKey cv 0)" for op p tr cv
    by (simp_all add: sample_cli_def toy_keys_def toy_pem_def sample_env_def)
  have shell: "file_at sample_shell ''c/u.key'' = None" "sh_dirs sample_shell = [''c'', ''z'']"
    "path_Dir ''c/u.key'' = ''c''"
    by (simp_all add: storage_eval)
  have "os_Stat ?c ''c/u.key'' sample_shell = (Return NotExist, sample_shell)"
    "createKeysFolder ?c sample_accounts sample_shell = (Return (), sample_shell)"
    by (simp_all only: os_Stat_def createKeysFolder_def fatal_on_def createNonExistingFolder_def keys env)
      (simp_all add: shell bind_def)
  moreover have "\<exists>t. generatePrivateKey ?c ''c/u.key'' EC256 sample_shell = (Return (Inr (EcdsaKey P256 0)), t)"
    by (simp only: generatePrivateKey_def check_def handle_def os_WriteFile_def env GeneratePrivateKey_def)
      (simp add: bind_def run_zoom with_random_def env shell observe_def PEMBlock_def split_def)
  ultimately obtain t where t: "GetPrivateKey ?c sample_accounts EC256 sample_shell = (Return (EcdsaKey P256 0), t)"
    by (auto simp: GetPrivateKey_def path handle_def bind_def)
  have "GetPrivateKey ?c sample_accounts RSA2048 t = (Return (EcdsaKey P256 0), t)"
    by (rule GetPrivateKey_stable [OF _ _ _ _ _ t])
      (simp_all add: key_codec_toy path, simp_all add: storage_eval)
  with t show ?thesis by blast
qed

end
