(* ===== verification/Http01.thy ===== *)
theory Http01
  imports Dns01
begin

text \<open>
  Package \<^verbatim>\<open>challenge/http01\<close>: the built-in web server of the http-01 challenge and the matchers that
  guard it against requests for other domains, among them the parser of the \<^verbatim>\<open>Forwarded\<close> header.  The
  solver itself is in \<open>Challenge\<close>.
\<close>

section \<open>The Forwarded header\<close>

definition isWS :: "char \<Rightarrow> bool" where
  "isWS c \<longleftrightarrow> c \<in> {CHR '' '', CHR 0x09, CHR 0x0B, CHR 0x0D, CHR 0x0A}"

definition tchar :: "char \<Rightarrow> bool" where
  "tchar c \<longleftrightarrow>
     c \<in> set ''!#$%&*+-.^_|~'' \<union> {CHR 0x27, CHR 0x60}
     \<or> (let n = of_char c :: nat in 48 \<le> n \<and> n \<le> 57 \<or> 97 \<le> n \<and> n \<le> 122 \<or> 65 \<le> n \<and> n \<le> 90)"

definition TrimFunc :: "(char \<Rightarrow> bool) \<Rightarrow> string \<Rightarrow> string" where
  "TrimFunc p s = rev (dropWhile p (rev (dropWhile p s)))"

text \<open>\<^verbatim>\<open>skipWS(s, i)\<close> reads \<^verbatim>\<open>s[i+1]\<close> first; \<open>None\<close> is the index out of range.\<close>

fun skipWS_count :: "string \<Rightarrow> nat option" where
  "skipWS_count [] = None"
| "skipWS_count (c # s) = (if isWS c then map_option Suc (skipWS_count s) else Some 0)"

definition skipWS :: "string \<Rightarrow> nat \<Rightarrow> nat option" where
  "skipWS s i = map_option (\<lambda>k. i + k) (skipWS_count (drop (Suc i) s))"

record fwd_state =
  fw_cur :: "(string \<times> string) list"
  fw_key :: string
  fw_val :: string
  fw_inquote :: bool
  fw_pos :: nat
  fw_elements :: "(string \<times> string) list list"

text \<open>One round of the loop at index \<open>i\<close>: the index and state of the next round, or the way the function
  is left.  Slices have \<^verbatim>\<open>pos <= i\<close> whenever they are taken.\<close>

datatype fwd_step = Next nat fwd_state | Fail goerror | Crash

definition slice :: "string \<Rightarrow> nat \<Rightarrow> nat \<Rightarrow> string" where
  "slice s pos i = drop pos (take i s)"

definition fwd_round :: "string \<Rightarrow> nat \<Rightarrow> fwd_state \<Rightarrow> fwd_step" where
  "fwd_round s i st =
     (let r = s ! i; v = slice s (fw_pos st) i;
          skip = (\<lambda>st'. case skipWS s i of
                    None \<Rightarrow> Crash | Some j \<Rightarrow> Next (Suc j) (st'\<lparr>fw_pos := Suc j\<rparr>)) in
      if fw_inquote st then
        (if r = CHR 0x22
         then Next (Suc i) (st\<lparr>fw_cur := put (fw_key st) v (fw_cur st), fw_key := [], fw_pos := i,
                               fw_inquote := False\<rparr>)
         else Next (Suc i) st)
      else if r = CHR 0x22 then
        (if fw_key st = [] then Fail (Err (''unexpected quoted string as pos '' @ show_nat i))
         else Next (Suc i) (st\<lparr>fw_inquote := True, fw_pos := Suc i\<rparr>))
      else if r = CHR '';'' then
        skip (st\<lparr>fw_cur := put (fw_key st) v (fw_cur st), fw_key := []\<rparr>)
      else if r = CHR ''='' then
        skip (st\<lparr>fw_key := ToLower (TrimFunc isWS v)\<rparr>)
      else if r = CHR '','' then
        (let val = (if fw_val st = [] then v else fw_val st);
             cur = (if fw_key st \<noteq> [] then put (fw_key st) val (fw_cur st) else fw_cur st) in
         skip (st\<lparr>fw_elements := fw_elements st @ [cur], fw_cur := [], fw_key := [], fw_val := []\<rparr>))
      else if tchar r \<or> isWS r then Next (Suc i) st
      else Fail (Err (''invalid token character at pos '' @ show_nat i @ '': '' @ [r])))"

definition fwd_finish :: "string \<Rightarrow> fwd_state \<Rightarrow> (goerror + (string \<times> string) list list) outcome" where
  "fwd_finish s st =
     Return
       (if fw_inquote st then Inl (Err (''unterminated quoted-string at pos '' @ show_nat (length s)))
        else
          (let val = (if fw_pos st < length s then drop (fw_pos st) s else fw_val st);
               cur = (if fw_key st \<noteq> [] then put (fw_key st) val (fw_cur st) else fw_cur st) in
           Inr (fw_elements st @ (if cur \<noteq> [] then [cur] else []))))"

lemma skipWS_bounds:
  assumes "skipWS s i = Some j"
  shows "i \<le> j \<and> Suc j < length s"
proof -
  have "skipWS_count t = Some k \<Longrightarrow> k < length t" for t k
    by (induction t arbitrary: k) (auto split: if_splits)
  then show ?thesis using assms by (fastforce simp: skipWS_def)
qed

lemma fwd_round_advances: "fwd_round s i st = Next j st' \<Longrightarrow> i < j"
  using skipWS_bounds [of s i]
  by (auto simp: fwd_round_def Let_def split: if_splits option.splits intro: le_imp_less_Suc)

function fwd_loop :: "string \<Rightarrow> nat \<Rightarrow> fwd_state \<Rightarrow> (goerror + (string \<times> string) list list) outcome" where
  "fwd_loop s i st =
     (if i < length s then
        (case fwd_round s i st of
           Next j st' \<Rightarrow> fwd_loop s j st'
         | Fail err \<Rightarrow> Return (Inl err)
         | Crash \<Rightarrow> Panic ''index out of range'')
      else fwd_finish s st)"
  by pat_completeness auto
termination
  by (relation "measure (\<lambda>(s, i, st). length s - i)") (auto dest: fwd_round_advances)

declare fwd_loop.simps [simp del]

definition fwd_init :: fwd_state where
  "fwd_init = \<lparr>fw_cur = [], fw_key = [], fw_val = [], fw_inquote = False, fw_pos = 0, fw_elements = []\<rparr>"

definition parseForwardedHeader :: "string \<Rightarrow> (goerror + (string \<times> string) list list) outcome" where
  "parseForwardedHeader s = fwd_loop s 0 fwd_init"

section \<open>Matchers\<close>

record in_request =
  in_Method :: string
  in_Host :: string
  in_Path :: string
  in_Header :: "(string \<times> string list) list"

datatype matcher = HostMatcher | ForwardedMatcher | ArbitraryMatcher string

definition matcher_name :: "matcher \<Rightarrow> string" where
  "matcher_name m =
     (case m of HostMatcher \<Rightarrow> ''Host'' | ForwardedMatcher \<Rightarrow> ''Forwarded'' | ArbitraryMatcher h \<Rightarrow> h)"

definition hostMatcher_matches :: "in_request \<Rightarrow> string \<Rightarrow> bool outcome" where
  "hostMatcher_matches r domain = Return (HasPrefix (in_Host r) domain)"

definition arbitraryMatcher_matches :: "string \<Rightarrow> in_request \<Rightarrow> string \<Rightarrow> bool outcome" where
  "arbitraryMatcher_matches h r domain = Return (HasPrefix (header_get (in_Header r) h) domain)"

definition forwardedMatcher_matches :: "in_request \<Rightarrow> string \<Rightarrow> bool outcome" where
  "forwardedMatcher_matches r domain =
     (case parseForwardedHeader (header_get (in_Header r) ''Forwarded'') of
        Return (Inl _) \<Rightarrow> Return False
      | Return (Inr []) \<Rightarrow> Return False
      | Return (Inr (fwd # _)) \<Rightarrow>
          (let host = (case map_of fwd ''host'' of None \<Rightarrow> [] | Some h \<Rightarrow> h) in
           Return (HasPrefix host domain))
      | Panic m \<Rightarrow> Panic m
      | Exit m \<Rightarrow> Exit m
      | Stuck \<Rightarrow> Stuck)"

definition matcher_matches :: "matcher \<Rightarrow> in_request \<Rightarrow> string \<Rightarrow> bool outcome" where
  "matcher_matches m =
     (case m of
        HostMatcher \<Rightarrow> hostMatcher_matches
      | ForwardedMatcher \<Rightarrow> forwardedMatcher_matches
      | ArbitraryMatcher h \<Rightarrow> arbitraryMatcher_matches h)"

text \<open>\<^verbatim>\<open>textproto.CanonicalMIMEHeaderKey\<close>: a key with an invalid byte is left alone.\<close>

fun canonical_from :: "bool \<Rightarrow> string \<Rightarrow> string" where
  "canonical_from upper [] = []"
| "canonical_from upper (c # s) =
     (if upper then ascii_upper c else ascii_lower c) # canonical_from (c = CHR ''-'') s"

definition CanonicalMIMEHeaderKey :: "string \<Rightarrow> string" where
  "CanonicalMIMEHeaderKey s = (if list_all tchar s then canonical_from True s else s)"

section \<open>The server\<close>

text \<open>The listener of a server: none yet, serving, or closed by \<^verbatim>\<open>CleanUp\<close> (and still referenced).\<close>

datatype listener = NoListener | Serving string string string | Closed

record provider_server =
  srv_iface :: string
  srv_port :: string
  srv_matcher :: matcher
  srv_listener :: listener

definition NewProviderServer :: "string \<Rightarrow> string \<Rightarrow> provider_server" where
  "NewProviderServer iface port =
     \<lparr>srv_iface = iface, srv_port = (if port = [] then ''80'' else port), srv_matcher = HostMatcher,
      srv_listener = NoListener\<rparr>"

definition GetAddress :: "provider_server \<Rightarrow> string" where
  "GetAddress s = JoinHostPort (srv_iface s) (srv_port s)"

definition SetProxyHeader :: "string \<Rightarrow> provider_server \<Rightarrow> provider_server" where
  "SetProxyHeader headerName s =
     (let h = CanonicalMIMEHeaderKey headerName in
      s\<lparr>srv_matcher :=
          (if h = [] \<or> h = ''Host'' then HostMatcher
           else if h = ''Forwarded'' then ForwardedMatcher
           else ArbitraryMatcher h)\<rparr>)"

text \<open>\<open>listen\<close> is \<^verbatim>\<open>net.Listen\<close>: does the address fail?\<close>

definition Server_Present ::
  "(string \<Rightarrow> goerror option) \<Rightarrow> string \<Rightarrow> string \<Rightarrow> string \<Rightarrow> (provider_server, goerror option) go" where
  "Server_Present listen domain token keyAuth =
     bind (gets GetAddress) (\<lambda>address.
       case listen address of
         Some err \<Rightarrow>
           bind (modify (\<lambda>s. s\<lparr>srv_listener := NoListener\<rparr>)) (\<lambda>_.
             ret (Some (Wrap ''could not start HTTP server for challenge: '' err)))
       | None \<Rightarrow>
           bind (modify (\<lambda>s. s\<lparr>srv_listener := Serving domain token keyAuth\<rparr>)) (\<lambda>_. ret None))"

text \<open>
  \<^verbatim>\<open>CleanUp\<close> closes the listener and waits for the server goroutine, which sends on \<^verbatim>\<open>done\<close> once; a second
  call waits for a goroutine that has ended.
\<close>

definition Server_CleanUp :: "(provider_server, goerror option) go" where
  "Server_CleanUp =
     bind (gets srv_listener) (\<lambda>l.
       case l of
         NoListener \<Rightarrow> ret None
       | Serving _ _ _ \<Rightarrow> bind (modify (\<lambda>s. s\<lparr>srv_listener := Closed\<rparr>)) (\<lambda>_. ret None)
       | Closed \<Rightarrow> stuck)"

definition ChallengePath :: "string \<Rightarrow> string" where
  "ChallengePath token = ''/.well-known/acme-challenge/'' @ token"

datatype served = Body string | NotFound

text \<open>What the server answers; a panic in the handler ends the connection without an answer.\<close>

definition serve :: "provider_server \<Rightarrow> in_request \<Rightarrow> served outcome" where
  "serve s r =
     (case srv_listener s of
        Serving domain token keyAuth \<Rightarrow>
          if in_Path r \<noteq> ChallengePath token then Return NotFound
          else if in_Method r = ''GET'' then
            (case matcher_matches (srv_matcher s) r domain of
               Return ok \<Rightarrow> Return (Body (if ok then keyAuth else ''TEST''))
             | Panic m \<Rightarrow> Panic m
             | Exit m \<Rightarrow> Exit m
             | Stuck \<Rightarrow> Stuck)
          else Return (Body ''TEST'')
      | _ \<Rightarrow> Stuck)"

section \<open>What a matcher promises\<close>

text \<open>
  A matcher looks at one value of the request, its source, and accepts a domain only if the source
  starts with it.
\<close>

locale domain_matcher =
  fixes matches_domain :: "in_request \<Rightarrow> string \<Rightarrow> bool outcome"
    and source :: "in_request \<Rightarrow> string"
  assumes accepts: "matches_domain r d = Return True \<Longrightarrow> HasPrefix (source r) d"
    and decides: "matches_domain r d = Return ok \<Longrightarrow> HasPrefix (source r) d' \<Longrightarrow> HasPrefix (source r) d \<Longrightarrow>
          source r \<noteq> [] \<Longrightarrow> matches_domain r d' = Return True"
begin

lemma accepted_prefix:
  assumes "matches_domain r d = Return True" and "source r \<noteq> []" and "HasPrefix d d'"
  shows "matches_domain r d' = Return True"
proof -
  have d: "HasPrefix (source r) d" using assms(1) by (rule accepts)
  with assms(3) have "HasPrefix (source r) d'" by (auto simp: HasPrefix_iff)
  then show ?thesis using decides [OF assms(1) _ d assms(2)] by blast
qed

lemma accepted_comparable:
  assumes "matches_domain r d = Return True" and "matches_domain r d' = Return True"
  shows "HasPrefix d d' \<or> HasPrefix d' d"
proof -
  obtain x y where "source r = d @ x" "source r = d' @ y"
    using accepts [OF assms(1)] accepts [OF assms(2)] by (auto simp: HasPrefix_iff)
  then show ?thesis by (auto simp: HasPrefix_iff append_eq_append_conv2)
qed

end

definition forwarded_host :: "in_request \<Rightarrow> string" where
  "forwarded_host r =
     (case parseForwardedHeader (header_get (in_Header r) ''Forwarded'') of
        Return (Inr (fwd # _)) \<Rightarrow> (case map_of fwd ''host'' of None \<Rightarrow> [] | Some h \<Rightarrow> h)
      | _ \<Rightarrow> [])"

definition matcher_source :: "matcher \<Rightarrow> in_request \<Rightarrow> string" where
  "matcher_source m r =
     (case m of HostMatcher \<Rightarrow> in_Host r | ForwardedMatcher \<Rightarrow> forwarded_host r
      | ArbitraryMatcher h \<Rightarrow> header_get (in_Header r) h)"

interpretation host_matcher: domain_matcher hostMatcher_matches in_Host
  by unfold_locales (simp_all add: hostMatcher_matches_def)

interpretation header_matcher: domain_matcher "arbitraryMatcher_matches h" "\<lambda>r. header_get (in_Header r) h"
  by unfold_locales (simp_all add: arbitraryMatcher_matches_def)

interpretation forwarded_matcher: domain_matcher forwardedMatcher_matches forwarded_host
  by unfold_locales
    (auto simp: forwardedMatcher_matches_def forwarded_host_def Let_def
      split: outcome.splits sum.splits list.splits option.splits)

lemma matcher_accepts: "matcher_matches m r d = Return True \<Longrightarrow> HasPrefix (matcher_source m r) d"
  by (cases m)
    (auto simp: matcher_matches_def matcher_source_def
      dest: host_matcher.accepts header_matcher.accepts forwarded_matcher.accepts)


definition sample_server :: provider_server where
  "sample_server = (NewProviderServer [] [])\<lparr>srv_listener := Serving ''a.org'' ''tok'' ''tok.key''\<rparr>"

definition sample_visit :: in_request where
  "sample_visit = \<lparr>in_Method = ''GET'', in_Host = ''a.org:80'', in_Path = ''/.well-known/acme-challenge/tok'',
     in_Header = []\<rparr>"


section \<open>When the parser crashes\<close>

lemma skipWS_count_None: "skipWS_count s = None \<longleftrightarrow> list_all isWS s"
  by (induction s) auto

lemma fwd_round_Crash:
  assumes "i < length s" and "fwd_round s i st = Crash"
  shows "s ! i \<in> {CHR '';'', CHR ''='', CHR '',''} \<and> list_all isWS (drop (Suc i) s)"
  using assms
  by (auto simp: fwd_round_def Let_def skipWS_def skipWS_count_None split: if_splits option.splits)

lemma fwd_loop_no_panic:
  assumes "s = [] \<or> \<not> isWS (last s) \<and> last s \<notin> {CHR '';'', CHR ''='', CHR '',''}"
  shows "\<exists>r. fwd_loop s i st = Return r"
proof (induction "length s - i" arbitrary: i st rule: less_induct)
  case less
  show ?case
  proof (cases "i < length s")
    case False
    then show ?thesis by (simp add: fwd_loop.simps fwd_finish_def)
  next
    case True
    then have ne: "s \<noteq> []" by auto
    have "fwd_round s i st \<noteq> Crash"
    proof
      assume crash: "fwd_round s i st = Crash"
      note facts = fwd_round_Crash [OF True crash]
      show False
      proof (cases "Suc i = length s")
        case at_end: True
        then have "s ! i = last s" using ne by (metis diff_Suc_1 last_conv_nth)
        with facts assms ne show False by auto
      next
        case False
        with True have "last s \<in> set (drop (Suc i) s)"
          by (metis Suc_lessI drop_eq_Nil last_drop last_in_set linorder_not_le)
        with facts assms ne show False by (auto simp: list_all_iff)
      qed
    qed
    moreover have "\<exists>r. fwd_loop s j st' = Return r" if "fwd_round s i st = Next j st'" for j st'
      using less [of j st'] fwd_round_advances [OF that] True by auto
    ultimately show ?thesis
      by (cases "fwd_round s i st") (use True in \<open>simp_all add: fwd_loop.simps [of s i]\<close>)
  qed
qed



section \<open>The parser reads what a proxy writes\<close>

definition render_pair :: "string \<times> string \<Rightarrow> string" where
  "render_pair p = fst p @ ''='' @ snd p"

definition render_element :: "(string \<times> string) list \<Rightarrow> string" where
  "render_element ps = Join (map render_pair ps) '';''"

definition render_forwarded :: "(string \<times> string) list list \<Rightarrow> string" where
  "render_forwarded es = Join (map render_element es) '', ''"

definition token_ok :: "string \<Rightarrow> bool" where
  "token_ok t \<longleftrightarrow> t \<noteq> [] \<and> list_all tchar t"

definition pair_ok :: "string \<times> string \<Rightarrow> bool" where
  "pair_ok p \<longleftrightarrow> token_ok (fst p) \<and> token_ok (snd p)"

definition read_pairs :: "(string \<times> string) list \<Rightarrow> (string \<times> string) list \<Rightarrow> (string \<times> string) list" where
  "read_pairs ps cur = fold (\<lambda>(k, v). put (ToLower k) v) ps cur"

lemma tchar_not_special:
  assumes "tchar c"
  shows "c \<noteq> CHR 0x22 \<and> c \<noteq> CHR '';'' \<and> c \<noteq> CHR ''='' \<and> c \<noteq> CHR '','' \<and> \<not> isWS c"
  using assms by (auto simp: tchar_def isWS_def Let_def)

lemma fwd_round_tchar: "\<not> fw_inquote st \<Longrightarrow> tchar (s ! i) \<Longrightarrow> fwd_round s i st = Next (Suc i) st"
  using tchar_not_special [of "s ! i"] by (simp add: fwd_round_def Let_def)

lemma fwd_scan_token:
  assumes "\<not> fw_inquote st" and "list_all tchar t"
  shows "fwd_loop (pre @ t @ rest) (length pre) st = fwd_loop (pre @ t @ rest) (length pre + length t) st"
  using assms(2)
proof (induction t arbitrary: pre)
  case (Cons c t)
  have "fwd_loop (pre @ (c # t) @ rest) (length pre) st = fwd_loop (pre @ (c # t) @ rest) (Suc (length pre)) st"
    using Cons.prems assms(1)
    by (subst fwd_loop.simps) (simp add: fwd_round_tchar nth_append)
  also have "\<dots> = fwd_loop ((pre @ [c]) @ t @ rest) (length (pre @ [c]) + length t) st"
    using Cons.IH [of "pre @ [c]"] Cons.prems by simp
  finally show ?case by simp
qed simp

lemma skipWS_none: "s = pre @ a # c # rest \<Longrightarrow> \<not> isWS c \<Longrightarrow> skipWS s (length pre) = Some (length pre)"
  by (simp add: skipWS_def)

lemma skipWS_one:
  "s = pre @ a # b # c # rest \<Longrightarrow> isWS b \<Longrightarrow> \<not> isWS c \<Longrightarrow> skipWS s (length pre) = Some (Suc (length pre))"
  by (simp add: skipWS_def)

lemma slice_mid: "slice (pre @ t @ rest) (length pre) (length pre + length t) = t"
  by (simp add: slice_def)

lemma TrimFunc_token: "token_ok t \<Longrightarrow> TrimFunc isWS t = t"
proof -
  assume ok: "token_ok t"
  then have "t \<noteq> []" and "\<forall>c \<in> set t. \<not> isWS c"
    using tchar_not_special by (auto simp: token_ok_def list_all_iff)
  then have "dropWhile isWS t = t" "dropWhile isWS (rev t) = rev t"
    by (simp_all add: dropWhile_eq_self_iff hd_rev)
  then show ?thesis by (simp add: TrimFunc_def)
qed

lemma token_first: "token_ok t \<Longrightarrow> \<exists>c u. t = c # u \<and> \<not> isWS c"
  using tchar_not_special by (cases t) (auto simp: token_ok_def)

text \<open>One pair, up to the end of its value.\<close>

lemma fwd_pair:
  assumes "\<not> fw_inquote st" and "fw_pos st = length pre" and "pair_ok (k, v)"
  shows "fwd_loop (pre @ render_pair (k, v) @ rest) (length pre) st =
    fwd_loop (pre @ render_pair (k, v) @ rest) (length (pre @ render_pair (k, v)))
      (st\<lparr>fw_key := ToLower k, fw_pos := length (pre @ k @ ''='')\<rparr>)"
proof -
  let ?s = "pre @ render_pair (k, v) @ rest"
  have ok: "token_ok k" "token_ok v" using assms(3) by (simp_all add: pair_ok_def)
  obtain c u where v: "v = c # u" "\<not> isWS c" using token_first [OF ok(2)] by blast
  have s: "?s = pre @ k @ (''='' @ v @ rest)" "?s = (pre @ k) @ CHR ''='' # c # (u @ rest)"
    "?s = (pre @ k @ ''='') @ v @ rest"
    by (simp_all add: render_pair_def v)
  have "fwd_loop ?s (length pre) st = fwd_loop ?s (length (pre @ k)) st"
    unfolding s(1) using fwd_scan_token [OF assms(1)] ok(1) by (simp add: token_ok_def)
  also have "\<dots> = fwd_loop ?s (Suc (length (pre @ k)))
      (st\<lparr>fw_key := ToLower k, fw_pos := Suc (length (pre @ k))\<rparr>)"
  proof -
    have "?s ! length (pre @ k) = CHR ''=''" unfolding s(2) by (simp only: nth_append_length)
    moreover have "slice ?s (fw_pos st) (length (pre @ k)) = k"
      using slice_mid [of pre k "''='' @ v @ rest"] s(1) assms(2) by simp
    ultimately have "fwd_round ?s (length (pre @ k)) st = Next (Suc (length (pre @ k)))
        (st\<lparr>fw_key := ToLower k, fw_pos := Suc (length (pre @ k))\<rparr>)"
      using assms(1) skipWS_none [OF s(2) v(2)] TrimFunc_token [OF ok(1)]
      by (simp add: fwd_round_def Let_def)
    then show ?thesis by (subst fwd_loop.simps) (simp add: render_pair_def)
  qed
  also have "\<dots> = fwd_loop ?s (length (pre @ k @ ''='') + length v)
      (st\<lparr>fw_key := ToLower k, fw_pos := length (pre @ k @ ''='')\<rparr>)"
    using fwd_scan_token [of "st\<lparr>fw_key := ToLower k, fw_pos := length (pre @ k @ ''='')\<rparr>" v "pre @ k @ ''=''" rest]
      assms(1) ok(2) by (simp add: s(3) token_ok_def)
  finally show ?thesis by (simp add: render_pair_def add.assoc)
qed

text \<open>One element, up to the end of its last value.\<close>

lemma fwd_element:
  assumes "\<not> fw_inquote st" and "fw_pos st = length pre" and "fw_key st = []"
    and "ps \<noteq> []" and "list_all pair_ok ps"
  shows "\<exists>k v p. ps = butlast ps @ [(k, v)]
    \<and> slice (pre @ render_element ps @ rest) p (length (pre @ render_element ps)) = v
    \<and> drop p (pre @ render_element ps) = v
    \<and> p < length (pre @ render_element ps)
    \<and> fwd_loop (pre @ render_element ps @ rest) (length pre) st =
        fwd_loop (pre @ render_element ps @ rest) (length (pre @ render_element ps))
          (st\<lparr>fw_cur := read_pairs (butlast ps) (fw_cur st), fw_key := ToLower k, fw_pos := p\<rparr>)"
  using assms
proof (induction ps arbitrary: pre st)
  case (Cons q ps)
  obtain k v where q: "q = (k, v)" by (cases q)
  have ok: "pair_ok (k, v)" using Cons.prems q by simp
  then have "v \<noteq> []" by (simp add: pair_ok_def token_ok_def)
  show ?case
  proof (cases "ps = []")
    case True
    let ?p = "length (pre @ k @ ''='')"
    have e: "render_element (q # ps) = render_pair (k, v)" by (simp add: render_element_def q True)
    have "slice (pre @ render_pair (k, v) @ rest) ?p (length (pre @ render_pair (k, v))) = v"
      using slice_mid [of "pre @ k @ ''=''" v rest] by (simp add: render_pair_def add.assoc)
    moreover have "drop ?p (pre @ render_pair (k, v)) = v" by (simp add: render_pair_def)
    ultimately show ?thesis
      using fwd_pair [OF Cons.prems(1,2) ok, of rest] True \<open>v \<noteq> []\<close>
      unfolding e by (intro exI [of _ k] exI [of _ v] exI [of _ ?p])
        (simp add: q read_pairs_def render_pair_def)
  next
    case False
    let ?pre = "pre @ render_pair (k, v) @ '';''"
    obtain k2 v2 qs where ps: "ps = (k2, v2) # qs" using False by (metis list.exhaust surj_pair)
    have e: "render_element (q # ps) = render_pair (k, v) @ '';'' @ render_element ps"
      by (simp add: render_element_def q ps)
    have "token_ok k2" using Cons.prems(5) by (simp add: ps pair_ok_def)
    then obtain c u where c: "k2 = c # u" "\<not> isWS c" using token_first by blast
    obtain x where x: "render_element ps = c # x"
      by (cases qs) (simp_all add: render_element_def ps render_pair_def c)
    let ?s = "pre @ render_element (q # ps) @ rest"
    let ?st = "st\<lparr>fw_key := ToLower k, fw_pos := length (pre @ k @ ''='')\<rparr>"
    let ?st2 = "st\<lparr>fw_cur := put (ToLower k) v (fw_cur st), fw_key := [], fw_pos := length ?pre\<rparr>"
    have s: "?s = (pre @ render_pair (k, v)) @ CHR '';'' # c # (x @ rest)"
      "?s = ?pre @ render_element ps @ rest" "?s = pre @ render_pair (k, v) @ ('';'' @ render_element ps @ rest)"
      by (simp_all add: e x)
    have "fwd_loop ?s (length pre) st = fwd_loop ?s (length (pre @ render_pair (k, v))) ?st"
      using fwd_pair [OF Cons.prems(1,2) ok, of "'';'' @ render_element ps @ rest"] s(3) by simp
    also have "\<dots> = fwd_loop ?s (length ?pre) ?st2"
    proof -
      have "?s ! length (pre @ render_pair (k, v)) = CHR '';''" unfolding s(1) by (simp only: nth_append_length)
      moreover have "slice ?s (fw_pos ?st) (length (pre @ render_pair (k, v))) = v"
        using slice_mid [of "pre @ k @ ''=''" v "'';'' @ render_element ps @ rest"]
        by (simp add: s(3) render_pair_def add.assoc)
      ultimately have "fwd_round ?s (length (pre @ render_pair (k, v))) ?st = Next (length ?pre) ?st2"
        using Cons.prems(1) skipWS_none [OF s(1) c(2)] by (simp add: fwd_round_def Let_def)
      then show ?thesis by (subst fwd_loop.simps) (simp add: e)
    qed
    finally have step: "fwd_loop ?s (length pre) st = fwd_loop ?s (length ?pre) ?st2" .
    have ih: "\<exists>k v p. ps = butlast ps @ [(k, v)]
      \<and> slice (?pre @ render_element ps @ rest) p (length (?pre @ render_element ps)) = v
      \<and> drop p (?pre @ render_element ps) = v
      \<and> p < length (?pre @ render_element ps)
      \<and> fwd_loop (?pre @ render_element ps @ rest) (length ?pre) ?st2 =
          fwd_loop (?pre @ render_element ps @ rest) (length (?pre @ render_element ps))
            (?st2\<lparr>fw_cur := read_pairs (butlast ps) (fw_cur ?st2), fw_key := ToLower k, fw_pos := p\<rparr>)"
      using Cons.prems False by (intro Cons.IH) simp_all
    have same: "?pre @ render_element ps = pre @ render_element (q # ps)" by (simp add: e)
    have "butlast (q # ps) = q # butlast ps" "read_pairs (q # butlast ps) cur =
        read_pairs (butlast ps) (put (ToLower k) v cur)" for cur
      using False by (simp_all add: read_pairs_def q)
    with ih step show ?thesis
      unfolding s(2) [symmetric] same by fastforce
  qed
qed simp

definition element_ok :: "(string \<times> string) list \<Rightarrow> bool" where
  "element_ok ps \<longleftrightarrow> ps \<noteq> [] \<and> list_all pair_ok ps"

lemma element_first:
  assumes "element_ok ps"
  shows "\<exists>c u. render_element ps = c # u \<and> \<not> isWS c"
proof -
  obtain k v qs where ps: "ps = (k, v) # qs" using assms by (cases ps) (auto simp: element_ok_def)
  then obtain c u where "k = c # u" "\<not> isWS c"
    using token_first [of k] assms by (auto simp: element_ok_def pair_ok_def)
  then show ?thesis by (cases qs) (simp_all add: ps render_element_def render_pair_def)
qed

lemma read_pairs_last: "ps = butlast ps @ [(k, v)] \<Longrightarrow> put (ToLower k) v (read_pairs (butlast ps) cur) = read_pairs ps cur"
  by (metis (no_types, lifting) case_prod_conv fold_append fold_simps comp_apply read_pairs_def)

lemma element_last_key: "element_ok ps \<Longrightarrow> ps = butlast ps @ [(k, v)] \<Longrightarrow> ToLower k \<noteq> []"
proof -
  assume "element_ok ps" and "ps = butlast ps @ [(k, v)]"
  then have "(k, v) \<in> set ps" "list_all pair_ok ps"
    by (metis in_set_conv_decomp, simp add: element_ok_def)
  then have "pair_ok (k, v)" by (auto simp: list_all_iff)
  then show ?thesis by (simp add: pair_ok_def token_ok_def ToLower_def)
qed

text \<open>From the start of an element with nothing pending.\<close>

definition at_element :: "nat \<Rightarrow> fwd_state \<Rightarrow> bool" where
  "at_element p st \<longleftrightarrow> \<not> fw_inquote st \<and> fw_pos st = p \<and> fw_key st = [] \<and> fw_val st = [] \<and> fw_cur st = []"

lemma fwd_last_element:
  assumes "at_element (length pre) st" and "element_ok ps"
  shows "fwd_loop (pre @ render_element ps) (length pre) st = Return (Inr (fw_elements st @ [read_pairs ps []]))"
proof -
  let ?s = "pre @ render_element ps"
  obtain k v p where ps: "ps = butlast ps @ [(k, v)]" and v: "drop p ?s = v" "p < length ?s"
    and run: "fwd_loop ?s (length pre) st = fwd_loop ?s (length ?s)
          (st\<lparr>fw_cur := read_pairs (butlast ps) (fw_cur st), fw_key := ToLower k, fw_pos := p\<rparr>)"
    using fwd_element [of st pre ps "[]"] assms by (auto simp: at_element_def element_ok_def)
  have "fwd_loop ?s (length ?s) (st\<lparr>fw_cur := read_pairs (butlast ps) (fw_cur st), fw_key := ToLower k, fw_pos := p\<rparr>)
      = Return (Inr (fw_elements st @ [put (ToLower k) v (read_pairs (butlast ps) [])]))"
    using assms(1) v element_last_key [OF assms(2) ps]
    by (subst fwd_loop.simps) (auto simp: fwd_finish_def at_element_def Let_def)
  with run read_pairs_last [OF ps] show ?thesis by simp
qed

lemma fwd_next_element:
  assumes "at_element (length pre) st" and "element_ok ps" and "rest = c # u" and "\<not> isWS c"
  shows "\<exists>st'. at_element (length (pre @ render_element ps @ '', '')) st'
    \<and> fw_elements st' = fw_elements st @ [read_pairs ps []]
    \<and> fwd_loop (pre @ render_element ps @ '', '' @ rest) (length pre) st =
        fwd_loop (pre @ render_element ps @ '', '' @ rest) (length (pre @ render_element ps @ '', '')) st'"
proof -
  let ?i = "length (pre @ render_element ps)" and ?s = "pre @ render_element ps @ '', '' @ rest"
  obtain k v p where ps: "ps = butlast ps @ [(k, v)]" and v: "slice ?s p ?i = v"
    and run: "fwd_loop ?s (length pre) st = fwd_loop ?s ?i
          (st\<lparr>fw_cur := read_pairs (butlast ps) (fw_cur st), fw_key := ToLower k, fw_pos := p\<rparr>)"
    using fwd_element [of st pre ps "'', '' @ rest"] assms(1,2) by (auto simp: at_element_def element_ok_def)
  have s: "?s = (pre @ render_element ps) @ CHR '','' # CHR '' '' # c # u" by (simp add: assms(3))
  have at: "?s ! ?i = CHR '',''" unfolding s by (simp only: nth_append_length)
  have skip: "skipWS ?s ?i = Some (Suc ?i)"
    using skipWS_one [OF s _ assms(4)] by (simp add: isWS_def)
  let ?st' = "st\<lparr>fw_elements := fw_elements st @ [read_pairs ps []], fw_cur := [], fw_key := [], fw_val := [],
      fw_pos := Suc (Suc ?i)\<rparr>"
  have "fwd_round ?s ?i (st\<lparr>fw_cur := read_pairs (butlast ps) (fw_cur st), fw_key := ToLower k, fw_pos := p\<rparr>)
      = Next (Suc (Suc ?i)) ?st'"
    using assms(1) at skip v element_last_key [OF assms(2) ps] read_pairs_last [OF ps, of "[]"]
    by (simp add: fwd_round_def Let_def at_element_def)
  then have "fwd_loop ?s (length pre) st = fwd_loop ?s (Suc (Suc ?i)) ?st'"
    unfolding run by (subst fwd_loop.simps) simp
  then show ?thesis
    using assms(1) by (intro exI [of _ ?st']) (simp add: at_element_def)
qed

lemma fwd_elements:
  assumes "at_element (length pre) st" and "es \<noteq> []" and "list_all element_ok es"
  shows "fwd_loop (pre @ render_forwarded es) (length pre) st =
    Return (Inr (fw_elements st @ map (\<lambda>ps. read_pairs ps []) es))"
  using assms
proof (induction es arbitrary: pre st)
  case (Cons ps es)
  show ?case
  proof (cases es)
    case Nil
    then show ?thesis
      using fwd_last_element [of pre st ps] Cons.prems by (simp add: render_forwarded_def)
  next
    case (Cons qs fs)
    have r: "render_forwarded (ps # es) = render_element ps @ '', '' @ render_forwarded es"
      by (simp add: render_forwarded_def Cons)
    obtain c u where "render_element qs = c # u" "\<not> isWS c"
      using element_first [of qs] Cons.prems Cons by auto
    then obtain u' where c: "render_forwarded es = c # u'" "\<not> isWS c"
      by (cases fs) (simp_all add: render_forwarded_def Cons)
    obtain st' where st': "at_element (length (pre @ render_element ps @ '', '')) st'"
      "fw_elements st' = fw_elements st @ [read_pairs ps []]"
      "fwd_loop (pre @ render_element ps @ '', '' @ render_forwarded es) (length pre) st =
       fwd_loop (pre @ render_element ps @ '', '' @ render_forwarded es)
         (length (pre @ render_element ps @ '', '')) st'"
      using fwd_next_element [OF _ _ c, of pre st ps] Cons.prems by auto
    have "fwd_loop ((pre @ render_element ps @ '', '') @ render_forwarded es)
        (length (pre @ render_element ps @ '', '')) st' =
        Return (Inr (fw_elements st' @ map (\<lambda>ps. read_pairs ps []) es))"
      using Cons.prems Cons by (intro Cons.IH [OF st'(1)]) simp_all
    with st'(2,3) show ?thesis unfolding r by simp
  qed
qed simp

text \<open>
  C34 (roundtrip).  A \<^verbatim>\<open>Forwarded\<close> header written from lists of token pairs, pairs separated by semicolons
  and elements by a comma and a blank, is read back: the elements in order, each with its pairs under
  lower-case keys.  In particular the host of the first proxy is the one the matcher compares.
\<close>

theorem parseForwardedHeader_roundtrip:
  assumes "es \<noteq> []" and "list_all element_ok es"
  shows "parseForwardedHeader (render_forwarded es) = Return (Inr (map (\<lambda>ps. read_pairs ps []) es))"
  using fwd_elements [of "[]" fwd_init es] assms
  by (simp add: parseForwardedHeader_def at_element_def fwd_init_def)

theorem parseForwardedHeader_roundtrip_witness:
  "parseForwardedHeader ''for=10.0.0.1;Host=a.org, for=x'' =
     Return (Inr [[(''for'', ''10.0.0.1''), (''host'', ''a.org'')], [(''for'', ''x'')]])"
proof -
  have "list_all element_ok [[(''for'', ''10.0.0.1''), (''Host'', ''a.org'')], [(''for'', ''x'')]]"
    by (simp add: element_ok_def pair_ok_def token_ok_def tchar_def)
  from parseForwardedHeader_roundtrip [OF _ this] show ?thesis
    by (simp add: render_forwarded_def render_element_def render_pair_def read_pairs_def ToLower_def ascii_lower_def char_of_def bit_0)
qed

end
