(* ===== verification/Providers.thy ===== *)
theory Providers
  imports Storage Http01
begin

text \<open>
  Package \<^verbatim>\<open>providers\<close>: the choice of a DNS provider by name (\<^verbatim>\<open>providers/dns/dns_providers.go\<close>) and the two
  providers of the HTTP challenge that do not listen themselves, \<^verbatim>\<open>providers/http/webroot\<close> and
  \<^verbatim>\<open>providers/http/memcached\<close>.  The constructors of the DNS providers, one package for each hosting service,
  are the parameter \<open>construct\<close>.

  Proved here: presenting a challenge in a web root puts the key authorization where a web server serves
  the challenge path, and cleaning up restores the files.
\<close>

section \<open>DNS providers by name\<close>

text \<open>The names and the package whose \<^verbatim>\<open>NewDNSProvider\<close> is called.\<close>

definition dns_packages :: "(string \<times> string) list" where
  "dns_packages = [
    (''acme-dns'', ''acmedns''), (''alidns'', ''alidns''), (''arvancloud'', ''arvancloud''),
    (''azure'', ''azure''), (''auroradns'', ''auroradns''), (''autodns'', ''autodns''),
    (''bindman'', ''bindman''), (''bluecat'', ''bluecat''), (''checkdomain'', ''checkdomain''),
    (''clouddns'', ''clouddns''), (''cloudflare'', ''cloudflare''), (''cloudns'', ''cloudns''),
    (''cloudxns'', ''cloudxns''), (''conoha'', ''conoha''), (''constellix'', ''constellix''),
    (''desec'', ''desec''), (''designate'', ''designate''), (''digitalocean'', ''digitalocean''),
    (''dnsimple'', ''dnsimple''), (''dnsmadeeasy'', ''dnsmadeeasy''), (''dnspod'', ''dnspod''),
    (''dode'', ''dode''), (''dreamhost'', ''dreamhost''), (''duckdns'', ''duckdns''),
    (''dyn'', ''dyn''), (''dynu'', ''dynu''), (''easydns'', ''easydns''), (''edgedns'', ''edgedns''),
    (''fastdns'', ''edgedns''), (''exec'', ''exec''),
    (''exoscale'', ''exoscale''), (''gandi'', ''gandi''), (''gandiv5'', ''gandiv5''),
    (''glesys'', ''glesys''), (''gcloud'', ''gcloud''), (''godaddy'', ''godaddy''),
    (''hetzner'', ''hetzner''), (''hostingde'', ''hostingde''), (''httpreq'', ''httpreq''),
    (''hyperone'', ''hyperone''), (''iij'', ''iij''), (''inwx'', ''inwx''), (''joker'', ''joker''),
    (''lightsail'', ''lightsail''), (''linode'', ''linode''), (''linodev4'', ''linode''), (''liquidweb'', ''liquidweb''), (''luadns'', ''luadns''),
    (''mydnsjp'', ''mydnsjp''), (''mythicbeasts'', ''mythicbeasts''), (''namecheap'', ''namecheap''),
    (''namedotcom'', ''namedotcom''), (''namesilo'', ''namesilo''), (''netcup'', ''netcup''),
    (''netlify'', ''netlify''), (''nifcloud'', ''nifcloud''), (''ns1'', ''ns1''),
    (''oraclecloud'', ''oraclecloud''), (''otc'', ''otc''), (''ovh'', ''ovh''), (''pdns'', ''pdns''),
    (''rackspace'', ''rackspace''), (''regru'', ''regru''), (''rfc2136'', ''rfc2136''),
    (''rimuhosting'', ''rimuhosting''), (''route53'', ''route53''), (''sakuracloud'', ''sakuracloud''),
    (''scaleway'', ''scaleway''), (''selectel'', ''selectel''), (''servercow'', ''servercow''),
    (''stackpath'', ''stackpath''), (''transip'', ''transip''), (''vegadns'', ''vegadns''),
    (''versio'', ''versio''), (''vultr'', ''vultr''), (''vscale'', ''vscale''),
    (''yandex'', ''yandex''), (''zoneee'', ''zoneee''), (''zonomi'', ''zonomi'')
  ]"

definition NewDNSChallengeProviderByName ::
  "env \<Rightarrow> (string \<Rightarrow> (world, goerror + provider) go) \<Rightarrow> string \<Rightarrow> (world, goerror + provider) go" where
  "NewDNSChallengeProviderByName e construct name =
     (if name = ''manual'' then ret (Inr (DNSProviderManual e))
      else
        (case map_of dns_packages name of
           Some package \<Rightarrow> construct package
         | None \<Rightarrow> ret (Inl (Err (''unrecognized DNS provider: '' @ name)))))"

section \<open>Web root\<close>

text \<open>The provider is its path.\<close>

definition NewHTTPProvider :: "cli_env \<Rightarrow> string \<Rightarrow> (shell, goerror + string) go" where
  "NewHTTPProvider c path =
     bind (os_Stat c path) (\<lambda>st.
       if st = NotExist then ret (Inl (Err ''webroot path does not exist'')) else ret (Inr path))"

definition challenge_file :: "string \<Rightarrow> string \<Rightarrow> string" where
  "challenge_file root token = path_Join [root, ChallengePath token]"

text \<open>\<^verbatim>\<open>0o644\<close>\<close>

definition webPerm :: nat where "webPerm = 6 * 64 + 4 * 8 + 4"

definition Webroot_Present :: "cli_env \<Rightarrow> string \<Rightarrow> string \<Rightarrow> string \<Rightarrow> string \<Rightarrow> (shell, goerror option) go" where
  "Webroot_Present c root domain token keyAuth =
     (let challengeFilePath = challenge_file root token in
      bind (os_MkdirAll c (path_Dir challengeFilePath)) (\<lambda>r1.
        case r1 of
          Some err \<Rightarrow>
            ret (Some (Wrap ''could not create required directories in webroot for HTTP challenge: '' err))
        | None \<Rightarrow>
            bind (os_WriteFile c challengeFilePath keyAuth webPerm) (\<lambda>r2.
              case r2 of
                Some err \<Rightarrow> ret (Some (Wrap ''could not write file in webroot for HTTP challenge: '' err))
              | None \<Rightarrow> ret None)))"

text \<open>\<^verbatim>\<open>os.Remove\<close>: a file, or a directory with nothing in it.\<close>

definition os_Remove :: "cli_env \<Rightarrow> string \<Rightarrow> (shell, goerror option) go" where
  "os_Remove c path =
     (case osErr c ''remove'' path of
        Some err \<Rightarrow> ret (Some err)
      | None \<Rightarrow>
          bind (gets (\<lambda>s. s)) (\<lambda>s.
            if file_at s path \<noteq> None
            then bind (modify (\<lambda>s. s\<lparr>sh_files := filter (\<lambda>(p, _). p \<noteq> path) (sh_files s)\<rparr>)) (\<lambda>_. ret None)
            else if path \<notin> set (sh_dirs s)
            then ret (Some (Err (''remove '' @ path @ '': no such file or directory'')))
            else if list_ex (\<lambda>p. path_Dir p = path \<and> p \<noteq> path) (map fst (sh_files s) @ sh_dirs s)
            then ret (Some (Err (''remove '' @ path @ '': directory not empty'')))
            else bind (modify (\<lambda>s. s\<lparr>sh_dirs := filter (\<lambda>d. d \<noteq> path) (sh_dirs s)\<rparr>)) (\<lambda>_. ret None)))"

definition Webroot_CleanUp :: "cli_env \<Rightarrow> string \<Rightarrow> string \<Rightarrow> string \<Rightarrow> string \<Rightarrow> (shell, goerror option) go" where
  "Webroot_CleanUp c root domain token keyAuth =
     bind (os_Remove c (challenge_file root token)) (\<lambda>r.
       case r of
         Some err \<Rightarrow> ret (Some (Wrap ''could not remove file in webroot after HTTP challenge: '' err))
       | None \<Rightarrow> ret None)"

section \<open>Memcached\<close>

text \<open>
  \<open>connect\<close> is \<^verbatim>\<open>memcache.New\<close>: does it fail for a host?  The state is the list of items that were offered
  to a host: the host, the key, the value and the expiration in seconds.
\<close>

type_synonym offers = "(string \<times> string \<times> string \<times> int) list"

definition NewMemcachedProvider :: "string list \<Rightarrow> goerror + string list" where
  "NewMemcachedProvider hosts =
     (if hosts = [] then Inl (Err ''no memcached hosts provided'') else Inr hosts)"

definition Memcached_Present ::
  "(string \<Rightarrow> goerror option) \<Rightarrow> string list \<Rightarrow> string \<Rightarrow> string \<Rightarrow> string \<Rightarrow> (offers, goerror option) go" where
  "Memcached_Present connect hosts domain token keyAuth =
     (let challengePath = path_Join [''/'', ChallengePath token] in
      bind (for_each hosts (\<lambda>host errs.
              case connect host of
                Some err \<Rightarrow> ret (errs @ [err])
              | None \<Rightarrow>
                  bind (modify (\<lambda>items. items @ [(host, challengePath, keyAuth, 60)])) (\<lambda>_. ret errs)) [])
        (\<lambda>errs.
          if length errs = length hosts
          then ret (Some (Err (''unable to store key in any of the memcache hosts: ['' @ Join (map error_text errs) '' '' @ '']'')))
          else ret None))"

definition Memcached_CleanUp :: "string list \<Rightarrow> string \<Rightarrow> string \<Rightarrow> string \<Rightarrow> (offers, goerror option) go" where
  "Memcached_CleanUp hosts domain token keyAuth = ret None"

section \<open>Presenting and cleaning up\<close>

lemma parents_self: "d \<in> set (parents n d)"
  by (cases n) (simp_all add: Let_def)

lemma Webroot_Present_run:
  assumes "osErr c ''mkdir'' (path_Dir (challenge_file root token)) = None"
    and "osErr c ''write'' (challenge_file root token) = None"
    and "challenge_file root token \<notin> set (sh_dirs (snd (os_MkdirAll c (path_Dir (challenge_file root token)) s)))"
  shows "\<exists>t. Webroot_Present c root domain token keyAuth s = (Return None, t)
    \<and> (\<forall>p. file_at t p = (if p = challenge_file root token then Some keyAuth else file_at s p))"
proof -
  let ?p = "challenge_file root token"
  obtain u where u: "os_MkdirAll c (path_Dir ?p) s = (Return None, u)"
    and files: "file_at u p = file_at s p" and dir: "path_Dir ?p \<in> set (sh_dirs u)" for p
    using assms(1) parents_self by (fastforce simp: os_MkdirAll_def bind_def file_at_def)
  have "os_WriteFile c ?p keyAuth webPerm u = (Return None, store_file ?p keyAuth webPerm u)"
    using assms(2,3) u dir by (simp add: os_WriteFile_def bind_def)
  then show ?thesis using u files by (simp add: Webroot_Present_def Let_def bind_def)
qed

lemma os_Remove_run:
  assumes "osErr c ''remove'' path = None" and "file_at s path \<noteq> None"
  shows "\<exists>t. os_Remove c path s = (Return None, t)
    \<and> (\<forall>p. file_at t p = (if p = path then None else file_at s p))"
proof -
  have "map_of (filter (\<lambda>(p, _). p \<noteq> path) l) p = (if p = path then None else map_of l p)"
    for l :: "(string \<times> string \<times> nat) list" and p
    by (induction l) auto
  then show ?thesis using assms by (auto simp: os_Remove_def bind_def file_at_def)
qed

text \<open>
  C22 (functional).  The web root provider: after \<^verbatim>\<open>Present\<close> the file that a web server with this root serves
  for the challenge path holds the key authorization, and \<^verbatim>\<open>CleanUp\<close> removes that file; no other file is
  touched by either.  The directories that were made stay.
\<close>

theorem Webroot_present_cleanup:
  assumes "osErr c ''mkdir'' (path_Dir (challenge_file root token)) = None"
    and "osErr c ''write'' (challenge_file root token) = None"
    and "osErr c ''remove'' (challenge_file root token) = None"
    and "challenge_file root token \<notin> set (sh_dirs (snd (os_MkdirAll c (path_Dir (challenge_file root token)) s)))"
  shows "\<exists>t u. Webroot_Present c root domain token keyAuth s = (Return None, t)
    \<and> file_at t (path_Join [root, ChallengePath token]) = Some keyAuth
    \<and> Webroot_CleanUp c root domain token keyAuth t = (Return None, u)
    \<and> file_at u (path_Join [root, ChallengePath token]) = None
    \<and> (\<forall>p. p \<noteq> path_Join [root, ChallengePath token] \<longrightarrow> file_at t p = file_at s p \<and> file_at u p = file_at s p)"
proof -
  obtain t where t: "Webroot_Present c root domain token keyAuth s = (Return None, t)"
    and ft: "\<And>p. file_at t p = (if p = challenge_file root token then Some keyAuth else file_at s p)"
    using Webroot_Present_run [OF assms(1,2,4)] by blast
  obtain u where u: "os_Remove c (challenge_file root token) t = (Return None, u)"
    and fu: "\<And>p. file_at u p = (if p = challenge_file root token then None else file_at t p)"
    using os_Remove_run [OF assms(3), of t] ft by auto
  have "Webroot_CleanUp c root domain token keyAuth t = (Return None, u)"
    using u by (simp add: Webroot_CleanUp_def bind_def)
  with t ft fu show ?thesis by (auto simp: challenge_file_def)
qed

theorem Webroot_present_cleanup_witness:
  "\<exists>t u. Webroot_Present sample_cli ''c'' ''a'' ''tok'' ''auth'' sample_shell = (Return None, t)
    \<and> file_at t ''c/.well-known/acme-challenge/tok'' = Some ''auth''
    \<and> Webroot_CleanUp sample_cli ''c'' ''a'' ''tok'' ''auth'' t = (Return None, u)
    \<and> file_at u ''c/.well-known/acme-challenge/tok'' = None \<and> file_at u ''c/a.crt'' = Some ''old''"
proof -
  have path: "path_Join [''c'', ChallengePath ''tok''] = ''c/.well-known/acme-challenge/tok''"
    and old: "file_at sample_shell ''c/a.crt'' = Some ''old''"
    and dir: "path_Dir ''c/.well-known/acme-challenge/tok'' = ''c/.well-known/acme-challenge''"
    by (simp_all add: ChallengePath_def storage_eval)
  have os: "osErr sample_cli op p = None" for op p by (simp add: sample_cli_def)
  have up: "path_Dir ''c/.well-known/acme-challenge'' = ''c/.well-known''" "path_Dir ''c/.well-known'' = ''c''"
    "path_Dir ''c'' = ''.''" "path_Dir ''.'' = ''.''"
    by (simp_all add: storage_eval)
  have "set (parents n ''.'') \<subseteq> {''.''}" for n by (cases n) (simp_all add: up)
  then have "set (parents n ''c'') \<subseteq> {''c'', ''.''}" for n by (cases n) (auto simp: up)
  then have "set (parents n ''c/.well-known'') \<subseteq> {''c/.well-known'', ''c'', ''.''}" for n
    by (cases n) (auto simp: up)
  then have "set (parents n ''c/.well-known/acme-challenge'') \<subseteq>
      {''c/.well-known/acme-challenge'', ''c/.well-known'', ''c'', ''.''}" for n
    by (cases n) (auto simp: up)
  then have "''c/.well-known/acme-challenge/tok'' \<notin> set (parents n ''c/.well-known/acme-challenge'')" for n
    by (auto dest!: subsetD)
  then have "challenge_file ''c'' ''tok'' \<notin> set (sh_dirs (snd (os_MkdirAll sample_cli
      (path_Dir (challenge_file ''c'' ''tok'')) sample_shell)))"
    by (simp add: challenge_file_def path dir os_MkdirAll_def os bind_def del: parents.simps)
      (simp add: sample_shell_def)
  from Webroot_present_cleanup [OF os os os this, of "''a''" "''auth''"] show ?thesis
    using old by (auto simp: path)
qed

end
