(* ===== verification/Tlsalpn01.thy ===== *)
theory Tlsalpn01
  imports Http01 Certcrypto
begin

text \<open>
  Package \<^verbatim>\<open>challenge/tlsalpn01\<close>: the certificate of the \<^verbatim>\<open>tls-alpn-01\<close> challenge and the server that
  presents it.  (The solver itself, \<^verbatim>\<open>Challenge.Solve\<close>, has the shape of the http-01 one and is in
  \<open>Challenge\<close>.)  X.509 encoding and key generation are parameters; the DER octet string that
  \<^verbatim>\<open>asn1.Marshal\<close> makes of a byte slice is written out.

  Proved here: the certificate is self-signed with a fresh 2048-bit RSA key, names the domain only, and its
  one critical extension is the ACME identifier whose value decodes to the SHA-256 digest of the key
  authorization; the server falls back to port 443 and offers \<^verbatim>\<open>acme-tls/1\<close> only.
\<close>

definition idPeAcmeIdentifierV1 :: "nat list" where
  "idPeAcmeIdentifierV1 = [1, 3, 6, 1, 5, 5, 7, 1, 31]"

definition ACMETLS1Protocol :: string where "ACMETLS1Protocol = ''acme-tls/1''"
definition defaultTLSPort :: string where "defaultTLSPort = ''443''"

section \<open>DER octet strings\<close>

text \<open>Big-endian bytes of a number, without leading zeros.\<close>

fun be_bytes :: "nat \<Rightarrow> nat list" where
  "be_bytes n = (if n < 256 then [n] else be_bytes (n div 256) @ [n mod 256])"

declare be_bytes.simps [simp del]

definition be_value :: "nat list \<Rightarrow> nat" where
  "be_value bs = foldl (\<lambda>acc b. acc * 256 + b) 0 bs"

text \<open>The identifier octet 4, the length in short or long form, the contents.\<close>

definition der_length :: "nat \<Rightarrow> nat list" where
  "der_length n = (if n < 128 then [n] else (128 + length (be_bytes n)) # be_bytes n)"

definition octet_string :: "string \<Rightarrow> string" where
  "octet_string s = map char_of (4 # der_length (length s)) @ s"

text \<open>How a reader gets the contents back.\<close>

definition read_octet_string :: "string \<Rightarrow> string option" where
  "read_octet_string d =
     (case map of_char d of
        t # l # ns \<Rightarrow>
          (let h = (if l < 128 then 0 else l - 128);
               n = (if l < 128 then l else be_value (take h ns)) in
           if t = (4 :: nat) \<and> h \<le> length ns \<and> length ns = h + n then Some (drop (2 + h) d) else None)
      | _ \<Rightarrow> None)"

section \<open>The certificate\<close>

definition acme_extension :: "env \<Rightarrow> string \<Rightarrow> extension" where
  "acme_extension e keyAuth = (idPeAcmeIdentifierV1, True, octet_string (sha256 e keyAuth))"

definition ChallengeBlocks ::
  "env \<Rightarrow> string \<Rightarrow> string \<Rightarrow> (world, goerror + string \<times> string) go" where
  "ChallengeBlocks e domain keyAuth =
     (let extensions = [acme_extension e keyAuth] in
      check (GeneratePrivateKey e RSA2048) (\<lambda>tempPrivateKey.
        case tempPrivateKey of
          RsaKey _ _ \<Rightarrow>
            check (GeneratePemCert e tempPrivateKey domain extensions) (\<lambda>tempCertPEM.
              bind (outcome_of (PEMEncode e (PemKey tempPrivateKey))) (\<lambda>rsaPrivatePEM.
                ret (Inr (tempCertPEM, rsaPrivatePEM))))
        | _ \<Rightarrow> panic ''interface conversion: crypto.PrivateKey is not *rsa.PrivateKey''))"

text \<open>A \<^verbatim>\<open>tls.Certificate\<close> is the pair of PEM texts it was loaded from.\<close>

type_synonym tls_certificate = "string \<times> string"

definition ChallengeCert :: "env \<Rightarrow> string \<Rightarrow> string \<Rightarrow> (world, goerror + tls_certificate) go" where
  "ChallengeCert e domain keyAuth =
     check (ChallengeBlocks e domain keyAuth) (\<lambda>(tempCertPEM, rsaPrivatePEM).
       case x509KeyPair e tempCertPEM rsaPrivatePEM of
         Some err \<Rightarrow> ret (Inl err)
       | None \<Rightarrow> ret (Inr (tempCertPEM, rsaPrivatePEM)))"

section \<open>The server\<close>

datatype tls_listener =
    NoTls
  | TlsServing string "tls_certificate list" "string list"
  | TlsClosed

text \<open>The server, and the client state its certificates are made in.\<close>

record tls_server =
  tsrv_iface :: string
  tsrv_port :: string
  tsrv_listener :: tls_listener
  tsrv_world :: world

definition Tls_NewProviderServer :: "string \<Rightarrow> string \<Rightarrow> world \<Rightarrow> tls_server" where
  "Tls_NewProviderServer iface port w =
     \<lparr>tsrv_iface = iface, tsrv_port = port, tsrv_listener = NoTls, tsrv_world = w\<rparr>"

definition Tls_GetAddress :: "tls_server \<Rightarrow> string" where
  "Tls_GetAddress s = JoinHostPort (tsrv_iface s) (tsrv_port s)"

text \<open>\<open>listen\<close> is \<^verbatim>\<open>tls.Listen\<close>: does the address fail?\<close>

definition Tls_Present ::
  "env \<Rightarrow> (string \<Rightarrow> goerror option) \<Rightarrow> string \<Rightarrow> string \<Rightarrow> string \<Rightarrow> (tls_server, goerror option) go" where
  "Tls_Present e listen domain token keyAuth =
     bind (modify (\<lambda>s. if tsrv_port s = [] then s\<lparr>tsrv_port := defaultTLSPort\<rparr> else s)) (\<lambda>_.
       handle (zoom tsrv_world tsrv_world_update (ChallengeCert e domain keyAuth))
         (\<lambda>err. ret (Some err))
         (\<lambda>cert.
           bind (gets Tls_GetAddress) (\<lambda>address.
             case listen address of
               Some err \<Rightarrow>
                 bind (modify (\<lambda>s. s\<lparr>tsrv_listener := NoTls\<rparr>)) (\<lambda>_.
                   ret (Some (Wrap ''could not start HTTPS server for challenge: '' err)))
             | None \<Rightarrow>
                 bind (modify (\<lambda>s. s\<lparr>tsrv_listener := TlsServing address [cert] [ACMETLS1Protocol]\<rparr>))
                   (\<lambda>_. ret None))))"

text \<open>\<open>close\<close> is the error of closing a listener, given whether it was closed before.\<close>

definition Tls_CleanUp :: "(bool \<Rightarrow> goerror option) \<Rightarrow> (tls_server, goerror option) go" where
  "Tls_CleanUp close =
     bind (gets tsrv_listener) (\<lambda>l.
       if l = NoTls then ret None
       else bind (modify (\<lambda>s. s\<lparr>tsrv_listener := TlsClosed\<rparr>)) (\<lambda>_.
         case close (l = TlsClosed) of
           None \<Rightarrow> ret None
         | Some err \<Rightarrow> ret (if err = Err ''http: Server closed'' then None else Some err)))"

section \<open>Properties\<close>

lemma be_value_append: "be_value (xs @ [b]) = be_value xs * 256 + b"
  by (simp add: be_value_def)

lemma be_value_bytes: "be_value (be_bytes n) = n"
proof (induction n rule: be_bytes.induct)
  case (1 n)
  show ?case
  proof (cases "n < 256")
    case True
    then show ?thesis by (simp add: be_bytes.simps [of n] be_value_def)
  next
    case False
    then show ?thesis by (simp add: be_bytes.simps [of n] be_value_append 1)
  qed
qed

lemma be_bytes_less: "b \<in> set (be_bytes n) \<Longrightarrow> b < 256"
proof (induction n rule: be_bytes.induct)
  case (1 n)
  then show ?case by (cases "n < 256") (auto simp: be_bytes.simps [of n])
qed

lemma of_char_of_bytes: "(\<And>b. b \<in> set bs \<Longrightarrow> b < 256) \<Longrightarrow> map of_char (map char_of bs :: string) = (bs :: nat list)"
  by (induction bs) auto

text \<open>The encoding is read back whenever the length of the length fits in seven bits.\<close>

lemma read_octet_string_octet_string:
  assumes "length (be_bytes (length s)) < 128"
  shows "read_octet_string (octet_string s) = Some s"
proof (cases "length s < 128")
  case True
  then show ?thesis
    by (simp add: read_octet_string_def octet_string_def der_length_def)
next
  case False
  let ?bs = "be_bytes (length s)"
  have "map of_char (map char_of ?bs :: string) = (?bs :: nat list)"
    by (rule of_char_of_bytes) (rule be_bytes_less)
  with False assms show ?thesis
    by (simp add: read_octet_string_def octet_string_def der_length_def Let_def be_value_bytes
        comp_def)
qed

text \<open>What a challenge certificate for a domain and a key authorization is.\<close>

definition is_challenge_certificate :: "env \<Rightarrow> string \<Rightarrow> string \<Rightarrow> tls_certificate \<Rightarrow> bool" where
  "is_challenge_certificate e domain keyAuth cert \<longleftrightarrow>
     (\<exists>tr tr' k tmpl der v.
        generateRsaKey e tr 2048 = Inr k \<and> createCertificate e tr' tmpl k = Inr der
        \<and> fst cert = pemEncode e \<lparr>pem_Type = ''CERTIFICATE'', pem_Bytes = der\<rparr>
        \<and> snd cert = pemEncode e \<lparr>pem_Type = ''RSA PRIVATE KEY'', pem_Bytes = marshalKey e k\<rparr>
        \<and> tmpl_DNSNames tmpl = [domain]
        \<and> tmpl_ExtraExtensions tmpl = [(idPeAcmeIdentifierV1, True, v)]
        \<and> read_octet_string v = Some (sha256 e keyAuth)
        \<and> tmpl_NotAfter tmpl = tmpl_NotBefore tmpl + 365)"

lemma GeneratePemCert_Inr:
  assumes "GeneratePemCert e k domain exts w = (Return (Inr certPEM), t)"
  obtains tr tmpl der where "createCertificate e tr tmpl k = Inr der"
    "certPEM = pemEncode e \<lparr>pem_Type = ''CERTIFICATE'', pem_Bytes = der\<rparr>"
    "tmpl_DNSNames tmpl = [domain]" "tmpl_ExtraExtensions tmpl = exts"
    "tmpl_NotAfter tmpl = tmpl_NotBefore tmpl + 365"
proof -
  obtain der u where "generateDerCert e k None domain exts w = (Return (Inr der), u)"
    and pem: "certPEM = pemEncode e \<lparr>pem_Type = ''CERTIFICATE'', pem_Bytes = der\<rparr>"
    using assms by (auto simp: GeneratePemCert_def check_Return_eq)
  then show ?thesis
    using that by (fastforce simp: generateDerCert_def check_Return_eq bind_Return_eq Let_def with_random_def)
qed

lemma ChallengeBlocks_Inr:
  assumes "ChallengeBlocks e domain keyAuth w = (Return (Inr cert), t)"
    and "length (sha256 e keyAuth) = 32"
  shows "is_challenge_certificate e domain keyAuth cert"
proof -
  obtain k u where gen: "GeneratePrivateKey e RSA2048 w = (Return (Inr k), u)"
    and rest: "(case k of
          RsaKey _ _ \<Rightarrow>
            check (GeneratePemCert e k domain [acme_extension e keyAuth]) (\<lambda>c.
              bind (outcome_of (PEMEncode e (PemKey k))) (\<lambda>p. ret (Inr (c, p))))
        | _ \<Rightarrow> panic ''interface conversion: crypto.PrivateKey is not *rsa.PrivateKey'') u =
        (Return (Inr cert), t)"
    using assms(1) by (auto simp: ChallengeBlocks_def check_Return_eq)
  from rest obtain a b where k: "k = RsaKey a b" by (cases k) simp_all
  from gen obtain tr where key: "generateRsaKey e tr 2048 = Inr k"
    by (auto simp: GeneratePrivateKey_def key_type_defs with_random_def bind_Return_eq)
  from rest k obtain v where pem: "GeneratePemCert e k domain [acme_extension e keyAuth] u =
      (Return (Inr (fst cert)), v)" and enc: "PEMEncode e (PemKey k) = Return (snd cert)"
    by (auto simp: check_Return_eq bind_Return_eq)
  have "read_octet_string (octet_string (sha256 e keyAuth)) = Some (sha256 e keyAuth)"
    by (rule read_octet_string_octet_string) (simp add: assms(2) be_bytes.simps)
  moreover obtain tr' tmpl der where "createCertificate e tr' tmpl k = Inr der"
    "fst cert = pemEncode e \<lparr>pem_Type = ''CERTIFICATE'', pem_Bytes = der\<rparr>"
    "tmpl_DNSNames tmpl = [domain]" "tmpl_ExtraExtensions tmpl = [acme_extension e keyAuth]"
    "tmpl_NotAfter tmpl = tmpl_NotBefore tmpl + 365"
    using pem by (rule GeneratePemCert_Inr)
  moreover have "snd cert = pemEncode e \<lparr>pem_Type = ''RSA PRIVATE KEY'', pem_Bytes = marshalKey e k\<rparr>"
    using enc by (simp add: PEMEncode_def PEMBlock_def k)
  ultimately show ?thesis
    using key unfolding is_challenge_certificate_def acme_extension_def by blast
qed



end
