(* ===== verification/Go_Float.thy ===== *)
theory Go_Float
  imports Go_Base "HOL-Library.Log_Nat"
begin

text \<open>
  Go's \<^verbatim>\<open>float64\<close>, as far as durations are converted with it: rounding a rational number to 53 significant
  bits, halves to the even neighbour.  Numbers so small or so large that the exponent of a \<^verbatim>\<open>float64\<close> would
  not fit do not occur.

  Proved here: the relative error of a rounding, and that rounding never goes below an integer.
\<close>

definition exponent :: "rat \<Rightarrow> int" where
  "exponent x =
     (let k = bitlen (fst (quotient_of x)) - bitlen (snd (quotient_of x)) in
      if 2 powi k \<le> x then k else k - 1)"

definition round_half_even :: "rat \<Rightarrow> int" where
  "round_half_even x =
     (let n = \<lfloor>x\<rfloor>; r = x - of_int n in
      if r < 1 / 2 then n else if 1 / 2 < r then n + 1 else if even n then n else n + 1)"

definition float_pos :: "rat \<Rightarrow> rat" where
  "float_pos x = (let e = exponent x - 52 in of_int (round_half_even (x / 2 powi e)) * 2 powi e)"

definition float64 :: "rat \<Rightarrow> rat" where
  "float64 x = (if x = 0 then 0 else if x < 0 then - float_pos (- x) else float_pos x)"

text \<open>The conversion \<^verbatim>\<open>int(x)\<close> drops the fraction.\<close>

definition trunc :: "rat \<Rightarrow> int" where
  "trunc x = (if x < 0 then - \<lfloor>- x\<rfloor> else \<lfloor>x\<rfloor>)"

lemma round_half_even_bounds: "\<lfloor>x\<rfloor> \<le> round_half_even x" "\<bar>of_int (round_half_even x) - x\<bar> \<le> 1 / 2"
proof -
  show "\<lfloor>x\<rfloor> \<le> round_half_even x" by (simp add: round_half_even_def Let_def)
  have "of_int \<lfloor>x\<rfloor> \<le> x" "x < of_int \<lfloor>x\<rfloor> + 1" by linarith+
  then show "\<bar>of_int (round_half_even x) - x\<bar> \<le> 1 / 2"
    unfolding round_half_even_def Let_def abs_if by (simp split: if_split) linarith
qed

lemma bitlen_pow:
  assumes "0 < p"
  shows "2 powi (bitlen p - 1) \<le> (of_int p :: rat)" and "(of_int p :: rat) < 2 powi bitlen p"
proof -
  have pos: "0 \<le> bitlen p - 1" using assms bitlen_eq_zero_iff [of p] bitlen_nonneg [of p] by linarith
  have b: "2 ^ nat (bitlen p - 1) \<le> p" "p < 2 ^ nat (bitlen p)" using bitlen_bounds [OF assms] by simp_all
  have "rat_of_int (2 ^ nat (bitlen p - 1)) \<le> of_int p" "rat_of_int p < of_int (2 ^ nat (bitlen p))"
    using b by (simp_all only: of_int_le_iff of_int_less_iff)
  with pos show "2 powi (bitlen p - 1) \<le> (of_int p :: rat)" "(of_int p :: rat) < 2 powi bitlen p"
    by (simp_all add: power_int_def)
qed

lemma exponent_bounds:
  assumes "0 < x"
  shows "2 powi exponent x \<le> x" and "x < 2 powi (exponent x + 1)"
proof -
  obtain p q where pq: "quotient_of x = (p, q)" by (cases "quotient_of x")
  then have x: "x = of_int p / of_int q" and q: "0 < q"
    using quotient_of_div quotient_of_denom_pos by blast+
  then have p: "0 < p" using assms by (simp add: zero_less_divide_iff)
  define k where "k = bitlen p - bitlen q"
  have "2 powi (k - 1) = 2 powi (bitlen p - 1) / (2 powi bitlen q :: rat)"
    by (simp add: k_def power_int_diff [symmetric] algebra_simps)
  also have "\<dots> \<le> x"
    unfolding x using bitlen_pow [OF p] bitlen_pow [OF q] p q by (intro frac_le) auto
  finally have lo: "2 powi (k - 1) \<le> x" .
  have "x < 2 powi bitlen p / (2 powi (bitlen q - 1) :: rat)"
    unfolding x using bitlen_pow [OF p] bitlen_pow [OF q] p by (intro frac_less) auto
  also have "\<dots> = 2 powi (k + 1)"
    by (simp add: k_def power_int_diff [symmetric] algebra_simps)
  finally have hi: "x < 2 powi (k + 1)" .
  have e: "exponent x = (if 2 powi k \<le> x then k else k - 1)"
    by (simp add: exponent_def pq k_def)
  show "2 powi exponent x \<le> x" "x < 2 powi (exponent x + 1)"
    using lo hi by (auto simp: e not_le)
qed

lemma float_pos_error:
  assumes "0 < x"
  shows "\<bar>float_pos x - x\<bar> \<le> x / 2 ^ 53"
proof -
  define e where "e = exponent x - 52"
  define y where "y = x / 2 powi e"
  have pos: "(0 :: rat) < 2 powi e" by simp
  have x: "x = y * 2 powi e" using pos by (simp add: y_def)
  have "float_pos x - x = (of_int (round_half_even y) - y) * 2 powi e"
    by (simp add: float_pos_def Let_def e_def [symmetric] y_def [symmetric] algebra_simps) (simp add: x)
  then have "\<bar>float_pos x - x\<bar> = \<bar>of_int (round_half_even y) - y\<bar> * 2 powi e"
    by (simp add: abs_mult)
  also have "\<dots> \<le> 1 / 2 * 2 powi e"
    using round_half_even_bounds(2) [of y] by (intro mult_right_mono) simp_all
  also have "\<dots> = 2 powi exponent x / 2 ^ 53"
    by (simp add: e_def power_int_diff)
  also have "\<dots> \<le> x / 2 ^ 53"
    using exponent_bounds(1) [OF assms] by (simp add: divide_right_mono)
  finally show ?thesis .
qed

lemma float64_error: "\<bar>float64 x - x\<bar> \<le> \<bar>x\<bar> / 2 ^ 53"
  using float_pos_error [of x] float_pos_error [of "- x"] by (auto simp: float64_def abs_if split: if_splits)

lemma float64_ge_int:
  assumes "of_int n \<le> x" and "0 \<le> n" and "x < 2 ^ 53"
  shows "of_int n \<le> float64 x"
proof (cases "x = 0")
  case True
  then show ?thesis using assms by (simp add: float64_def)
next
  case False
  have "(0 :: rat) \<le> of_int n" using assms(2) by simp
  with False assms(1) have x: "0 < x" by linarith
  define m where "m = nat (52 - exponent x)"
  have "2 powi exponent x < (2 powi 53 :: rat)"
    using exponent_bounds(1) [OF x] assms(3) by (simp add: power_int_def)
  then have "exponent x < 53" using power_int_increasing [of 53 "exponent x" "2 :: rat"] by fastforce
  then have e: "2 powi (exponent x - 52) = (1 / 2 ^ m :: rat)"
    by (simp add: m_def power_int_def field_simps)
  have "of_int (n * 2 ^ m) \<le> x * 2 ^ m" using assms(1) by simp
  then have "n * 2 ^ m \<le> \<lfloor>x * 2 ^ m\<rfloor>" by (simp add: le_floor_iff)
  then have "n * 2 ^ m \<le> round_half_even (x * 2 ^ m)"
    using round_half_even_bounds(1) by (rule order_trans)
  then have "rat_of_int (n * 2 ^ m) \<le> of_int (round_half_even (x * 2 ^ m))"
    by (simp only: of_int_le_iff)
  then have "of_int n \<le> rat_of_int (round_half_even (x * 2 ^ m)) / 2 ^ m"
    by (simp add: field_simps)
  then show ?thesis using x by (simp add: float64_def float_pos_def Let_def e)
qed

section \<open>Durations\<close>

definition Hour :: int where "Hour = 3600 * Second"

text \<open>Go's division and remainder of integers truncate towards zero.\<close>

definition go_div :: "int \<Rightarrow> int \<Rightarrow> int" where
  "go_div a b = sgn a * sgn b * (\<bar>a\<bar> div \<bar>b\<bar>)"

definition go_mod :: "int \<Rightarrow> int \<Rightarrow> int" where
  "go_mod a b = a - b * go_div a b"

text \<open>\<^verbatim>\<open>Duration.Hours\<close>\<close>

definition Hours :: "int \<Rightarrow> rat" where
  "Hours d = float64 (of_int (go_div d Hour) + float64 (of_int (go_mod d Hour) / of_int Hour))"

text \<open>\<^verbatim>\<open>int(d.Hours() / 24.0)\<close>\<close>

definition whole_days :: "int \<Rightarrow> int" where
  "whole_days d = trunc (float64 (Hours d / 24))"

lemma float64_sign: "0 \<le> x \<Longrightarrow> 0 \<le> float64 x" "x \<le> 0 \<Longrightarrow> float64 x \<le> 0"
  using float64_error [of x] by (auto simp: abs_if split: if_splits)

lemma go_div_nonneg: "0 \<le> d \<Longrightarrow> 0 < h \<Longrightarrow> go_div d h = d div h" "0 \<le> d \<Longrightarrow> 0 < h \<Longrightarrow> go_mod d h = d mod h"
  by (auto simp: go_div_def go_mod_def sgn_if minus_mult_div_eq_mod)

lemma Hour_pos [simp]: "0 < Hour" "0 \<le> Hour" "Hour \<noteq> 0" by (simp_all add: Hour_def Second_def)

lemma go_div_nonpos:
  "d \<le> 0 \<Longrightarrow> 0 < h \<Longrightarrow> go_div d h = - (- d div h)" "d \<le> 0 \<Longrightarrow> 0 < h \<Longrightarrow> go_mod d h = - (- d mod h)"
  using minus_mult_div_eq_mod [of "- d" h] by (auto simp: go_div_def go_mod_def sgn_if)

lemma whole_days_nonpos:
  assumes "d \<le> 0"
  shows "whole_days d \<le> 0"
proof -
  have "go_div d Hour \<le> 0" "go_mod d Hour \<le> 0"
    using assms by (simp_all add: go_div_nonpos pos_imp_zdiv_nonneg_iff)
  then have "Hours d \<le> 0" unfolding Hours_def
    by (intro float64_sign add_nonpos_nonpos) (simp_all add: divide_nonpos_pos)
  then have "float64 (Hours d / 24) \<le> 0" by (intro float64_sign) simp
  then show ?thesis by (auto simp: whole_days_def trunc_def)
qed

text \<open>The sum that is rounded to give the hours, and how far it is from the exact quotient.\<close>

definition hours_sum :: "int \<Rightarrow> rat" where
  "hours_sum d = of_int (d div Hour) + float64 (of_int (d mod Hour) / of_int Hour)"

lemma hours_sum_bounds:
  assumes "0 \<le> d"
  shows "Hours d = float64 (hours_sum d)" and "of_int (d div Hour) \<le> hours_sum d"
    and "hours_sum d \<le> of_int d / of_int Hour + 1 / 2 ^ 53"
proof -
  define r :: rat where "r = of_int (d mod Hour) / of_int Hour"
  show "Hours d = float64 (hours_sum d)"
    using assms by (simp add: Hours_def hours_sum_def go_div_nonneg)
  have "0 \<le> d mod Hour" "d mod Hour \<le> Hour"
    using pos_mod_sign [OF Hour_pos(1), of d] pos_mod_bound [OF Hour_pos(1), of d] by linarith+
  then have r: "0 \<le> r" "r \<le> 1"
    by (simp_all only: r_def divide_le_eq zero_le_divide_iff) simp_all
  show "of_int (d div Hour) \<le> hours_sum d"
    using float64_sign(1) [OF r(1)] by (simp add: hours_sum_def r_def)
  have "rat_of_int d = of_int Hour * of_int (d div Hour) + of_int (d mod Hour)"
    by (simp only: of_int_mult [symmetric] of_int_add [symmetric] mult_div_mod_eq)
  then have "of_int d / of_int Hour = of_int (d div Hour) + r"
    by (simp only: r_def add_divide_distrib) simp
  moreover have "float64 r \<le> r + 1 / 2 ^ 53"
    using float64_error [of r] r by (simp add: abs_if split: if_splits)
  ultimately show "hours_sum d \<le> of_int d / of_int Hour + 1 / 2 ^ 53"
    by (simp add: hours_sum_def r_def)
qed

lemma hours_small:
  assumes "0 \<le> d" and "in_i64 d"
  shows "hours_sum d < 2 ^ 22"
proof -
  have "d \<le> (2 ^ 22 - 1) * Hour" using assms(2) by (simp add: in_i64_def Hour_def Second_def)
  then have "rat_of_int d \<le> of_int ((2 ^ 22 - 1) * Hour)" by (simp only: of_int_le_iff)
  then have "rat_of_int d / of_int Hour \<le> 2 ^ 22 - 1" by (simp add: divide_le_eq)
  then show ?thesis using hours_sum_bounds(3) [OF assms(1)] by simp
qed

lemma whole_days_ge:
  assumes "k * (24 * Hour) \<le> d" and "0 \<le> k" and "in_i64 d"
  shows "k \<le> whole_days d"
proof -
  have "0 \<le> k * (24 * Hour)" using assms(2) by (intro mult_nonneg_nonneg) simp_all
  then have d: "0 \<le> d" using assms(1) by linarith
  have "24 * k * Hour \<le> d" using assms(1) by (simp add: ac_simps)
  then have "24 * k * Hour div Hour \<le> d div Hour" by (intro zdiv_mono1) simp_all
  then have "24 * k \<le> d div Hour" by simp
  then have "rat_of_int (24 * k) \<le> of_int (d div Hour)" by (simp only: of_int_le_iff)
  then have "of_int (24 * k) \<le> hours_sum d" using hours_sum_bounds(2) [OF d] by linarith
  then have h: "of_int (24 * k) \<le> Hours d"
    unfolding hours_sum_bounds(1) [OF d] using assms(2) hours_small [OF d assms(3)]
    by (intro float64_ge_int) simp_all
  have "Hours d < 2 ^ 23"
    using float64_error [of "hours_sum d"] hours_small [OF d assms(3)] hours_sum_bounds(1) [OF d]
    by (simp add: abs_if split: if_splits)
  then have "of_int k \<le> float64 (Hours d / 24)"
    using h assms(2) by (intro float64_ge_int) simp_all
  moreover have "(0 :: rat) \<le> of_int k" using assms(2) by simp
  ultimately show ?thesis by (simp add: whole_days_def trunc_def le_floor_iff)
qed

text \<open>Less than the whole number by more than a millisecond is not rounded up to it.\<close>

lemma whole_days_less:
  assumes "d + 1000000 < k * (24 * Hour)" and "0 \<le> d" and "in_i64 d"
  shows "whole_days d < k"
proof -
  define x :: rat where "x = of_int d / of_int Hour"
  have s: "hours_sum d \<le> x + 1 / 2 ^ 53" "hours_sum d < 2 ^ 22" "0 \<le> hours_sum d"
    using hours_sum_bounds [OF assms(2)] hours_small [OF assms(2,3)] assms(2)
    by (auto simp: x_def pos_imp_zdiv_nonneg_iff intro: order_trans [of _ "of_int (d div Hour)"])
  have H: "0 \<le> Hours d" "Hours d \<le> x + 1 / 2 ^ 53 + 1 / 2 ^ 31" "Hours d < 2 ^ 23"
    using float64_error [of "hours_sum d"] s float64_sign(1) [OF s(3)] hours_sum_bounds(1) [OF assms(2)]
    by (auto simp: abs_if split: if_splits)
  have D: "float64 (Hours d / 24) \<le> Hours d / 24 + 1 / 2 ^ 34" "0 \<le> float64 (Hours d / 24)"
    using float64_error [of "Hours d / 24"] H float64_sign(1) [of "Hours d / 24"]
    by (auto simp: abs_if split: if_splits)
  have "rat_of_int (d + 1000000) < of_int (k * (24 * Hour))" using assms(1) by (simp only: of_int_less_iff)
  then have "x + 1000000 / of_int Hour < 24 * of_int k"
    using Hour_pos by (simp add: x_def add_divide_distrib [symmetric] divide_less_eq ac_simps)
  then have "x / 24 + 1 / 2 ^ 31 < of_int k" by (simp add: Hour_def Second_def)
  then have "float64 (Hours d / 24) < of_int k" using D(1) H(2) by simp
  then show ?thesis using D(2) by (simp add: whole_days_def trunc_def floor_less_iff)
qed

end
