(* ===== verification/Cmd.thy ===== *)
theory Cmd
  imports Accounts Providers Tlsalpn01 Go_Float
begin

text \<open>
  The commands of the command line (\<^verbatim>\<open>cmd/setup.go\<close>, \<^verbatim>\<open>cmd/setup_challenges.go\<close>, \<^verbatim>\<open>cmd/cmd_run.go\<close>,
  \<^verbatim>\<open>cmd/cmd_renew.go\<close>, \<^verbatim>\<open>cmd/cmd_revoke.go\<close>, \<^verbatim>\<open>cmd/cmd_list.go\<close>, \<^verbatim>\<open>cmd/cmd_before.go\<close>, \<^verbatim>\<open>cmd/hook.go\<close>).  A command
  returns its error, or \<open>None\<close>; \<^verbatim>\<open>log.Fatal\<close> is \<open>Exit\<close>.  Log messages are not modelled, what \<^verbatim>\<open>fmt\<close>
  prints is.

  Proved here: when a certificate is renewed, and with which domains; that files change only after a
  certificate was obtained; that the question for the terms of service is answered by the first valid line.
\<close>

text \<open>
  What the commands need besides the operating system: the constructors of the DNS providers, how the
  chosen HTTP and TLS providers act while a challenge is solved, and the text of a time.
\<close>

datatype http_choice = Webroot string | Memcached "string list" | HttpServer provider_server

record cmd_env =
  cm_cli :: cli_env
  newDNSProvider :: "string \<Rightarrow> (world, goerror + provider) go"
  httpProvider :: "http_choice \<Rightarrow> provider"
  tlsProvider :: "string \<Rightarrow> string \<Rightarrow> provider"
  timeString :: "int \<Rightarrow> string"

abbreviation cm_env :: "cmd_env \<Rightarrow> env" where
  "cm_env m \<equiv> ce_env (cm_cli m)"

definition println :: "string \<Rightarrow> (shell, unit) go" where
  "println line = modify (\<lambda>s. s\<lparr>sh_out := sh_out s @ [line]\<rparr>)"

section \<open>Setup\<close>

definition getKeyType :: "cli_ctx \<Rightarrow> KeyType outcome" where
  "getKeyType ctx =
     (let keyType = ToUpper (fl_key_type ctx) in
      if keyType = ''RSA2048'' then Return RSA2048
      else if keyType = ''RSA4096'' then Return RSA4096
      else if keyType = ''RSA8192'' then Return RSA8192
      else if keyType = ''EC256'' then Return EC256
      else if keyType = ''EC384'' then Return EC384
      else Exit (''Unsupported KeyType: '' @ fl_key_type ctx))"

definition newClient :: "cmd_env \<Rightarrow> cli_ctx \<Rightarrow> cli_account \<Rightarrow> KeyType \<Rightarrow> (shell, client) go" where
  "newClient m ctx acc keyType =
     bind (outcome_of (NewConfig (cm_env m) (Some (account_user acc)))) (\<lambda>config.
       let config' = config\<lparr>cfg_CADirURL := fl_server ctx, cfg_KeyType := keyType,
             cfg_Timeout := i64 (fl_cert_timeout ctx * Second),
             cfg_UserAgent := ''lego-cli/'' @ appVersion (cm_cli m),
             cfg_HTTPClient := map_option (\<lambda>hc. if fl_http_timeout_set ctx
                 then hc\<lparr>hc_Timeout := i64 (fl_http_timeout ctx * Second)\<rparr> else hc) (cfg_HTTPClient config)\<rparr> in
       handle (on_world (NewClient (cm_env m) (Some config')))
         (\<lambda>err. fatal (''Could not create client: '' @ error_text err))
         (\<lambda>cl.
           if GetExternalAccountRequired cl \<and> \<not> fl_eab_set ctx
           then fatal ''Server requires External Account Binding. Use --eab with --kid and --hmac.''
           else ret cl))"

definition setup_account :: "cmd_env \<Rightarrow> cli_ctx \<Rightarrow> accounts_storage \<Rightarrow> (shell, cli_account \<times> client) go" where
  "setup_account m ctx st =
     bind (outcome_of (getKeyType ctx)) (\<lambda>keyType.
       bind (GetPrivateKey (cm_cli m) st keyType) (\<lambda>privateKey.
         bind (ExistsAccountFilePath (cm_cli m) st) (\<lambda>there.
           bind (if there then LoadAccount (cm_cli m) st privateKey
                 else ret \<lparr>ac_Email = as_userID st, ac_Registration = None, ac_key = Some privateKey\<rparr>) (\<lambda>acct.
             bind (newClient m ctx acct keyType) (\<lambda>cl. ret (acct, cl))))))"

text \<open>The last PEM block that is a request, or else the whole file; the loop ends since the rest gets shorter.\<close>

fun csr_block :: "env \<Rightarrow> nat \<Rightarrow> string \<Rightarrow> string \<Rightarrow> string outcome" where
  "csr_block e 0 rest raw = Stuck"
| "csr_block e (Suc n) rest raw =
     (case pemDecode e rest of
        (None, _) \<Rightarrow> Return raw
      | (Some p, rest') \<Rightarrow>
          csr_block e n (pem_rest rest') (if pem_Type p = ''CERTIFICATE REQUEST'' then pem_Bytes p else raw))"

definition readCSRFile :: "cmd_env \<Rightarrow> string \<Rightarrow> (shell, goerror + x509_csr) go" where
  "readCSRFile m filename =
     check (os_ReadFile (cm_cli m) filename) (\<lambda>bytes.
       bind (outcome_of (csr_block (cm_env m) (Suc (length bytes)) bytes bytes)) (\<lambda>raw.
         ret (parseCertificateRequest (cm_env m) raw)))"

section \<open>Challenges\<close>

definition split_iface :: "string \<Rightarrow> string \<Rightarrow> (shell, string \<times> string) go" where
  "split_iface switch iface =
     (if CHR '':'' \<notin> set iface
      then fatal (''The '' @ switch @ '' switch only accepts interface:port or :port for its argument.'')
      else
        (case SplitHostPort iface of
           None \<Rightarrow> fatal (''address '' @ iface @ '': invalid'')
         | Some hp \<Rightarrow> ret hp))"

definition with_proxy_header :: "cli_ctx \<Rightarrow> provider_server \<Rightarrow> provider_server" where
  "with_proxy_header ctx srv =
     (if fl_http_proxy_header ctx \<noteq> [] then SetProxyHeader (fl_http_proxy_header ctx) srv else srv)"

definition setupHTTPProvider :: "cmd_env \<Rightarrow> cli_ctx \<Rightarrow> (shell, http_choice) go" where
  "setupHTTPProvider m ctx =
     (if fl_http_webroot_set ctx then
        handle (NewHTTPProvider (cm_cli m) (fl_http_webroot ctx)) (\<lambda>err. fatal (error_text err))
          (\<lambda>path. ret (Webroot path))
      else if fl_http_memcached_set ctx then
        (case NewMemcachedProvider (fl_http_memcached ctx) of
           Inl err \<Rightarrow> fatal (error_text err)
         | Inr hosts \<Rightarrow> ret (Memcached hosts))
      else if fl_http_port_set ctx then
        bind (split_iface ''--http'' (fl_http_port ctx)) (\<lambda>(host, port).
          ret (HttpServer (with_proxy_header ctx (NewProviderServer host port))))
      else if fl_http ctx then ret (HttpServer (with_proxy_header ctx (NewProviderServer [] [])))
      else fatal ''Invalid HTTP challenge options.'')"

text \<open>The interface and port of the TLS server.\<close>

definition setupTLSProvider :: "cli_ctx \<Rightarrow> (shell, string \<times> string) go" where
  "setupTLSProvider ctx =
     (if fl_tls_port_set ctx then split_iface ''--tls'' (fl_tls_port ctx)
      else if fl_tls ctx then ret ([], [])
      else fatal ''Invalid HTTP challenge options.'')"

definition setupDNS :: "cmd_env \<Rightarrow> cli_ctx \<Rightarrow> client \<Rightarrow> (shell, client) go" where
  "setupDNS m ctx cl =
     handle (on_world (NewDNSChallengeProviderByName (cm_env m) (newDNSProvider m) (fl_dns ctx)))
       (\<lambda>err. fatal (error_text err)) (\<lambda>p.
           let servers = fl_dns_resolvers ctx in
           bind (on_world (SetDNS01Provider (cm_env m) (cl_core cl) (Some p)
              [CondOption (servers \<noteq> []) (AddRecursiveNameservers (ParseNameservers servers)),
               CondOption (fl_dns_disable_cp ctx) DisableCompletePropagationRequirement,
               CondOption (fl_dns_timeout_set ctx) (AddDNSTimeout (i64 (fl_dns_timeout ctx * Second)))]
              (cl_solvers cl))) (\<lambda>slvs. ret (cl\<lparr>cl_solvers := slvs\<rparr>)))"

definition setupChallenges :: "cmd_env \<Rightarrow> cli_ctx \<Rightarrow> client \<Rightarrow> (shell, client) go" where
  "setupChallenges m ctx cl =
     (if \<not> fl_http ctx \<and> \<not> fl_tls ctx \<and> \<not> fl_dns_set ctx
      then fatal ''No challenge selected. You must specify at least one challenge: `--http`, `--tls`, `--dns`.''
      else
        bind (if fl_http ctx
              then bind (setupHTTPProvider m ctx) (\<lambda>p.
                     ret (cl\<lparr>cl_solvers := SetHTTP01Provider (cm_env m) (cl_core cl) (httpProvider m p) (cl_solvers cl)\<rparr>))
              else ret cl) (\<lambda>cl.
          bind (if fl_tls ctx
                then bind (setupTLSProvider ctx) (\<lambda>(host, port).
                       ret (cl\<lparr>cl_solvers := SetTLSALPN01Provider (cm_env m) (cl_core cl) (tlsProvider m host port)
                                 (cl_solvers cl)\<rparr>))
                else ret cl) (\<lambda>cl.
            if fl_dns_set ctx then setupDNS m ctx cl else ret cl)))"

section \<open>Hooks\<close>

text \<open>The order in which Go visits the map is unspecified; here it is the order of insertion.\<close>

definition metaToEnv :: "(string \<times> string) list \<Rightarrow> string list" where
  "metaToEnv meta = map (\<lambda>(k, v). k @ ''='' @ v) meta"

definition launchHook :: "cli_env \<Rightarrow> string \<Rightarrow> (string \<times> string) list \<Rightarrow> (shell, goerror option) go" where
  "launchHook c hook meta =
     (if hook = [] then ret None
      else
        (case Fields hook of
           [] \<Rightarrow> panic ''index out of range''
         | program # args \<Rightarrow>
             (case hookResult c (program # args) of
                (output, timedOut, err) \<Rightarrow>
                  bind (modify (\<lambda>s. s\<lparr>sh_hooks := sh_hooks s @ [(program # args, metaToEnv meta)]\<rparr>)) (\<lambda>_.
                    bind (if output \<noteq> [] then println output else ret ()) (\<lambda>_.
                      if timedOut then ret (Some (Err ''hook timed out'')) else ret err)))))"

section \<open>The run command\<close>

text \<open>The \<^verbatim>\<open>Before\<close> of the commands \<^verbatim>\<open>run\<close> and \<^verbatim>\<open>renew\<close>.\<close>

definition domains_or_csr :: "cli_ctx \<Rightarrow> (shell, goerror option) go" where
  "domains_or_csr ctx =
     (let hasDomains = (fl_domains ctx \<noteq> []); hasCsr = (fl_csr ctx \<noteq> []) in
      if hasDomains \<and> hasCsr then fatal ''Please specify either --domains/-d or --csr/-c, but not both''
      else if \<not> hasDomains \<and> \<not> hasCsr then fatal ''Please specify --domains/-d (or --csr/-c if you already have a CSR)''
      else ret None)"

definition Before :: "cli_env \<Rightarrow> cli_ctx \<Rightarrow> (shell, goerror option) go" where
  "Before c ctx =
     (if fl_path ctx = [] then fatal ''Could not determine current working directory. Please pass --path.''
      else
        bind (fatal_on (\<lambda>err. ''Could not check/create path: '' @ error_text err)
               (createNonExistingFolder c (fl_path ctx))) (\<lambda>_.
          if fl_server ctx = [] then fatal ''Could not determine current working server. Please pass --server.''
          else ret None))"

definition renewEnvAccountEmail :: string where "renewEnvAccountEmail = ''LEGO_ACCOUNT_EMAIL''"
definition renewEnvCertDomain :: string where "renewEnvCertDomain = ''LEGO_CERT_DOMAIN''"
definition renewEnvCertPath :: string where "renewEnvCertPath = ''LEGO_CERT_PATH''"
definition renewEnvCertKeyPath :: string where "renewEnvCertKeyPath = ''LEGO_CERT_KEY_PATH''"

text \<open>\<^verbatim>\<open>strings.Trim(text, "\r\n")\<close>\<close>

definition trim_eol :: "string \<Rightarrow> string" where
  "trim_eol = TrimFunc (\<lambda>x. x = CHR 0x0D \<or> x = CHR 0x0A)"

text \<open>What a line says: yes, no, or nothing valid.\<close>

definition tos_answer :: "string \<Rightarrow> bool option" where
  "tos_answer line =
     (let text = trim_eol line in
      if text = [] \<or> text = ''y'' \<or> text = ''Y'' then Some True
      else if text = ''n'' \<or> text = ''N'' then Some False
      else None)"

text \<open>
  The loop of \<^verbatim>\<open>handleTOS\<close>; the \<open>i\<close>-th line of the console is \<open>stdinText c i\<close>.  A console may give invalid
  answers for ever: the fuel bounds the number of questions.
\<close>

fun ask_tos :: "cli_env \<Rightarrow> nat \<Rightarrow> nat \<Rightarrow> (shell, bool) go" where
  "ask_tos c 0 i = stuck"
| "ask_tos c (Suc n) i =
     bind (println ''Do you accept the TOS? Y/n'') (\<lambda>_.
       case stdinText c i of
         Inl err \<Rightarrow> fatal (''Could not read from console: '' @ error_text err)
       | Inr line \<Rightarrow>
           (case tos_answer line of
              Some accepted \<Rightarrow> ret accepted
            | None \<Rightarrow>
                bind (println ''Your input was invalid. Please answer with one of Y/y, n/N or by pressing enter.'')
                  (\<lambda>_. ask_tos c n (Suc i))))"

definition handleTOS :: "cli_env \<Rightarrow> nat \<Rightarrow> cli_ctx \<Rightarrow> (shell, bool) go" where
  "handleTOS c fuel ctx = (if fl_accept_tos ctx then ret True else ask_tos c fuel 0)"

definition register :: "cmd_env \<Rightarrow> cli_ctx \<Rightarrow> client \<Rightarrow> (shell, goerror + registration_resource) go" where
  "register m ctx cl =
     bind (handleTOS (cm_cli m) (pollFuel (cm_env m)) ctx) (\<lambda>accepted.
       if \<not> accepted then fatal ''You did not accept the TOS. Unable to proceed.''
       else if fl_eab ctx then
         (if fl_kid ctx = [] \<or> fl_hmac ctx = [] then fatal ''Requires arguments --kid and --hmac.''
          else on_world (RegisterWithExternalAccountBinding (cm_env m) (client_registrar cl)
                 \<lparr>eab_TermsOfServiceAgreed = accepted, eab_Kid = fl_kid ctx, eab_HmacEncoded = fl_hmac ctx\<rparr>))
       else on_world (Register (cm_env m) (client_registrar cl) True))"

definition obtainCertificate :: "cmd_env \<Rightarrow> cli_ctx \<Rightarrow> client \<Rightarrow> (shell, cert_result) go" where
  "obtainCertificate m ctx cl =
     (let bundled = (\<not> fl_no_bundle ctx) in
      if fl_domains ctx \<noteq> [] then
        on_world (Obtain (cm_env m) (client_certifier (cm_env m) cl)
          \<lparr>or_Domains = fl_domains ctx, or_Bundle = bundled, or_PrivateKey = None,
           or_MustStaple = fl_must_staple ctx, or_PreferredChain = fl_preferred_chain ctx\<rparr>)
      else
        handle (readCSRFile m (fl_csr ctx)) (\<lambda>err. ret (None, Some err)) (\<lambda>csr.
          on_world (ObtainForCSR (cm_env m) (client_certifier (cm_env m) cl)
            \<lparr>ocr_CSR = Some csr, ocr_Bundle = bundled, ocr_PreferredChain = fl_preferred_chain ctx\<rparr>)))"

text \<open>What follows a successful \<^verbatim>\<open>Obtain\<close>: an error ends the program, a nil resource is dereferenced.\<close>

definition obtained :: "(goerror \<Rightarrow> string) \<Rightarrow> (shell, cert_result) go \<Rightarrow> (resource \<Rightarrow> (shell, 'a) go) \<Rightarrow> (shell, 'a) go" where
  "obtained msg get k =
     bind get (\<lambda>(cert, err).
       case err of
         Some er \<Rightarrow> fatal (msg er)
       | None \<Rightarrow> (case cert of None \<Rightarrow> panic nil_pointer | Some r \<Rightarrow> k r))"

text \<open>Saving a certificate and telling the hook where it is.\<close>

definition save_and_hook ::
  "cmd_env \<Rightarrow> certs_storage \<Rightarrow> string \<Rightarrow> (string \<times> string) list \<Rightarrow> string \<Rightarrow> resource \<Rightarrow> (shell, goerror option) go" where
  "save_and_hook m st hook meta domain certRes =
     bind (SaveResource (cm_cli m) st certRes) (\<lambda>_.
       bind (GetFileName (cm_cli m) st domain ''.crt'') (\<lambda>crtPath.
         bind (GetFileName (cm_cli m) st domain ''.key'') (\<lambda>keyPath.
           launchHook (cm_cli m) hook
             (meta @ [(renewEnvCertDomain, domain), (renewEnvCertPath, crtPath), (renewEnvCertKeyPath, keyPath)]))))"

definition lines :: "string list \<Rightarrow> string" where
  "lines ls = concat (map (\<lambda>l. l @ [CHR 0x0A]) ls)"

definition rootPathWarningMessage :: "string \<Rightarrow> string" where
  "rootPathWarningMessage path = lines [
     ''!!!! HEADS UP !!!!'', '''',
     ''Your account credentials have been saved in your Let'' @ [CHR 0x27] @ ''s Encrypt'',
     ''configuration directory at '' @ [CHR 0x22] @ path @ [CHR 0x22] @ ''.'', '''',
     ''You should make a secure backup of this folder now. This'',
     ''configuration directory will also contain certificates and'',
     ''private keys obtained from Let'' @ [CHR 0x27] @ ''s Encrypt so making regular'',
     ''backups of this folder is ideal.'']"

text \<open>The registration of an account that has none; the client holds the same account.\<close>

definition ensure_registered ::
  "cmd_env \<Rightarrow> cli_ctx \<Rightarrow> accounts_storage \<Rightarrow> cli_account \<Rightarrow> client \<Rightarrow> (shell, cli_account \<times> client) go" where
  "ensure_registered m ctx st acct cl =
     (if ac_Registration acct \<noteq> None then ret (acct, cl)
      else
        handle (register m ctx cl)
          (\<lambda>err. fatal (''Could not complete registration'' @ [CHR 0x0A, CHR 0x09] @ error_text err))
          (\<lambda>reg.
            let acct' = acct\<lparr>ac_Registration := Some reg\<rparr> in
            bind (fatal_on error_text (Save (cm_cli m) st acct')) (\<lambda>_.
              bind (println (rootPathWarningMessage (as_rootPath st))) (\<lambda>_.
                ret (acct', cl\<lparr>cl_user := account_user acct'\<rparr>)))))"

definition run :: "cmd_env \<Rightarrow> cli_ctx \<Rightarrow> (shell, goerror option) go" where
  "run m ctx =
     bind (outcome_of (NewAccountsStorage (cm_cli m) ctx)) (\<lambda>accountsStorage.
       bind (setup_account m ctx accountsStorage) (\<lambda>(acct, cl).
         bind (setupChallenges m ctx cl) (\<lambda>cl.
           bind (ensure_registered m ctx accountsStorage acct cl) (\<lambda>(acct, cl).
             let certsStorage = NewCertificatesStorage ctx in
             bind (CreateRootFolder (cm_cli m) certsStorage) (\<lambda>_.
               obtained (\<lambda>err. ''Could not obtain certificates:'' @ [CHR 0x0A, CHR 0x09] @ error_text err)
                 (obtainCertificate m ctx cl)
                 (\<lambda>cert. save_and_hook m certsStorage (fl_hook ctx) [(renewEnvAccountEmail, ac_Email acct)]
                    (res_Domain cert) cert))))))"

section \<open>The renew command\<close>

text \<open>\<^verbatim>\<open>time.Until\<close>: a duration that does not fit is the largest or smallest one.\<close>

definition saturate :: "int \<Rightarrow> int" where
  "saturate d = max (- (2 ^ 63)) (min (2 ^ 63 - 1) d)"

definition needRenewal :: "x509_cert \<Rightarrow> string \<Rightarrow> int \<Rightarrow> int \<Rightarrow> bool outcome" where
  "needRenewal x509Cert domain days now =
     (if crt_IsCA x509Cert then Exit (''['' @ domain @ ''] Certificate bundle starts with a CA certificate'')
      else if days \<ge> 0 then
        (let notAfter = whole_days (saturate (crt_NotAfter x509Cert - now)) in
         Return (\<not> notAfter > days))
      else Return True)"

fun merge :: "string list \<Rightarrow> string list \<Rightarrow> string list" where
  "merge prevDomains [] = prevDomains"
| "merge prevDomains (nextDomain # nextDomains) =
     (if list_ex (\<lambda>prev. prev = nextDomain) prevDomains then merge prevDomains nextDomains
      else merge (prevDomains @ [nextDomain]) nextDomains)"

text \<open>The certificate that is to be renewed, if it is due.\<close>

definition due_certificate ::
  "cmd_env \<Rightarrow> cli_ctx \<Rightarrow> certs_storage \<Rightarrow> string \<Rightarrow> (x509_cert \<Rightarrow> (shell, goerror option) go)
    \<Rightarrow> (shell, goerror option) go" where
  "due_certificate m ctx st domain k =
     handle (ReadCertificate (cm_cli m) st domain ''.crt'')
       (\<lambda>err. fatal (''Error while loading the certificate for domain '' @ domain @ [CHR 0x0A, CHR 0x09] @ error_text err))
       (\<lambda>certificates.
         case certificates of
           [] \<Rightarrow> panic ''index out of range''
         | cert # _ \<Rightarrow>
             bind (gets (\<lambda>s. w_now (sh_world s))) (\<lambda>now.
               bind (outcome_of (needRenewal cert domain (fl_days ctx) now)) (\<lambda>due.
                 if \<not> due then ret None else k cert)))"

definition reused_key :: "cmd_env \<Rightarrow> cli_ctx \<Rightarrow> certs_storage \<Rightarrow> string \<Rightarrow> (shell, goerror + private_key option) go" where
  "reused_key m ctx st domain =
     (if \<not> fl_reuse_key ctx then ret (Inr None)
      else
        handle (ReadFile (cm_cli m) st domain ''.key'')
          (\<lambda>err. fatal (''Error while loading the private key for domain '' @ domain @ [CHR 0x0A, CHR 0x09] @ error_text err))
          (\<lambda>keyBytes.
            check (outcome_of (ParsePEMPrivateKey (cm_env m) keyBytes)) (\<lambda>k. ret (Inr (Some k)))))"

definition renewForDomains ::
  "cmd_env \<Rightarrow> cli_ctx \<Rightarrow> client \<Rightarrow> certs_storage \<Rightarrow> bool \<Rightarrow> (string \<times> string) list \<Rightarrow> (shell, goerror option) go" where
  "renewForDomains m ctx cl st bundled meta =
     (case fl_domains ctx of
        [] \<Rightarrow> panic ''index out of range''
      | domain # _ \<Rightarrow>
          due_certificate m ctx st domain (\<lambda>cert.
            handle (reused_key m ctx st domain) (\<lambda>err. ret (Some err)) (\<lambda>privateKey.
              obtained error_text
                (on_world (Obtain (cm_env m) (client_certifier (cm_env m) cl)
                  \<lparr>or_Domains = merge (ExtractDomains cert) (fl_domains ctx), or_Bundle = bundled,
                   or_PrivateKey = privateKey, or_MustStaple = fl_must_staple ctx,
                   or_PreferredChain = fl_preferred_chain ctx\<rparr>))
                (save_and_hook m st (fl_hook ctx) meta domain))))"

definition renewForCSR ::
  "cmd_env \<Rightarrow> cli_ctx \<Rightarrow> client \<Rightarrow> certs_storage \<Rightarrow> bool \<Rightarrow> (string \<times> string) list \<Rightarrow> (shell, goerror option) go" where
  "renewForCSR m ctx cl st bundled meta =
     handle (readCSRFile m (fl_csr ctx)) (\<lambda>err. fatal (error_text err)) (\<lambda>csr.
       let domain = csr_SubjectCN csr in
       due_certificate m ctx st domain (\<lambda>cert.
         obtained error_text
           (on_world (ObtainForCSR (cm_env m) (client_certifier (cm_env m) cl)
             \<lparr>ocr_CSR = Some csr, ocr_Bundle = bundled, ocr_PreferredChain = fl_preferred_chain ctx\<rparr>))
           (save_and_hook m st (fl_hook ctx) meta domain)))"

definition not_registered :: "string \<Rightarrow> string" where
  "not_registered email = ''Account '' @ email @ '' is not registered. Use '' @ [CHR 0x27] @ ''run'' @ [CHR 0x27]
     @ '' to register a new account.'' @ [CHR 0x0A]"

definition renew :: "cmd_env \<Rightarrow> cli_ctx \<Rightarrow> (shell, goerror option) go" where
  "renew m ctx =
     bind (outcome_of (NewAccountsStorage (cm_cli m) ctx)) (\<lambda>accountsStorage.
       bind (setup_account m ctx accountsStorage) (\<lambda>(acct, cl).
         bind (setupChallenges m ctx cl) (\<lambda>cl.
           if ac_Registration acct = None then fatal (not_registered (ac_Email acct))
           else
             (let certsStorage = NewCertificatesStorage ctx;
                  bundled = (\<not> fl_no_bundle ctx);
                  meta = [(renewEnvAccountEmail, ac_Email acct)] in
              if fl_csr_set ctx then renewForCSR m ctx cl certsStorage bundled meta
              else renewForDomains m ctx cl certsStorage bundled meta))))"

section \<open>The revoke command\<close>

fun revoke_domains :: "cmd_env \<Rightarrow> cli_ctx \<Rightarrow> client \<Rightarrow> certs_storage \<Rightarrow> string list \<Rightarrow> (shell, goerror option) go" where
  "revoke_domains m ctx cl st [] = ret None"
| "revoke_domains m ctx cl st (domain # domains) =
     (let failed = (\<lambda>err. ''Error while revoking the certificate for domain '' @ domain @ [CHR 0x0A, CHR 0x09] @ error_text err) in
      handle (ReadFile (cm_cli m) st domain ''.crt'') (\<lambda>err. fatal (failed err)) (\<lambda>certBytes.
        bind (fatal_on failed (on_world (Revoke (cm_env m) (client_certifier (cm_env m) cl) certBytes))) (\<lambda>_.
          if fl_keep ctx then ret None
          else
            bind (CreateArchiveFolder (cm_cli m) st) (\<lambda>_.
              check_err (MoveToArchive (cm_cli m) st domain) (revoke_domains m ctx cl st domains)))))"

definition revoke :: "cmd_env \<Rightarrow> cli_ctx \<Rightarrow> (shell, goerror option) go" where
  "revoke m ctx =
     bind (outcome_of (NewAccountsStorage (cm_cli m) ctx)) (\<lambda>accountsStorage.
       bind (setup_account m ctx accountsStorage) (\<lambda>(acct, cl).
         if ac_Registration acct = None then fatal (not_registered (ac_Email acct))
         else
           (let certsStorage = NewCertificatesStorage ctx in
            bind (CreateRootFolder (cm_cli m) certsStorage) (\<lambda>_.
              revoke_domains m ctx cl certsStorage (fl_domains ctx)))))"

section \<open>The list command\<close>

definition glob_shell :: "string \<Rightarrow> (shell, goerror + string list) go" where
  "glob_shell pattern =
     bind (gets (\<lambda>s. map fst (sh_files s) @ sh_dirs s)) (\<lambda>paths.
       case Glob paths pattern of
         None \<Rightarrow> ret (Inl (Err ''syntax error in pattern''))
       | Some found \<Rightarrow> ret (Inr found))"

fun print_lines :: "string list \<Rightarrow> (shell, unit) go" where
  "print_lines [] = ret ()"
| "print_lines (l # ls) = bind (println l) (\<lambda>_. print_lines ls)"

definition certificate_lines :: "cmd_env \<Rightarrow> bool \<Rightarrow> string \<Rightarrow> x509_cert \<Rightarrow> string list" where
  "certificate_lines m names filename pCert =
     (if names then [crt_SubjectCN pCert]
      else [''  Certificate Name: '' @ crt_SubjectCN pCert,
            ''    Domains: '' @ Join (crt_DNSNames pCert) '', '',
            ''    Expiry Date: '' @ timeString m (crt_NotAfter pCert),
            ''    Certificate Path: '' @ filename, ''''])"

fun print_certificates :: "cmd_env \<Rightarrow> bool \<Rightarrow> string list \<Rightarrow> (shell, goerror option) go" where
  "print_certificates m names [] = ret None"
| "print_certificates m names (filename # found) =
     (if HasSuffix filename ''.issuer.crt'' then print_certificates m names found
      else
        handle (os_ReadFile (cm_cli m) filename) (\<lambda>err. ret (Some err)) (\<lambda>data.
          case ParsePEMCertificate (cm_env m) data of
            Inl err \<Rightarrow> ret (Some err)
          | Inr pCert \<Rightarrow>
              bind (print_lines (certificate_lines m names filename pCert)) (\<lambda>_.
                print_certificates m names found)))"

definition listCertificates :: "cmd_env \<Rightarrow> cli_ctx \<Rightarrow> (shell, goerror option) go" where
  "listCertificates m ctx =
     (let certsStorage = NewCertificatesStorage ctx; names = fl_names ctx in
      handle (glob_shell (path_Join [cs_rootPath certsStorage, ''*.crt''])) (\<lambda>err. ret (Some err)) (\<lambda>found.
        if found = [] then
          bind (if names then ret () else println ''No certificates found.'') (\<lambda>_. ret None)
        else
          bind (if names then ret () else println ''Found the following certs:'') (\<lambda>_.
            print_certificates m names found)))"

fun print_accounts :: "cmd_env \<Rightarrow> string list \<Rightarrow> (shell, goerror option) go" where
  "print_accounts m [] = ret None"
| "print_accounts m (filename # found) =
     handle (os_ReadFile (cm_cli m) filename) (\<lambda>err. ret (Some err)) (\<lambda>data.
       case unmarshal (cm_cli m) cli_account_of_json data of
         Inl err \<Rightarrow> ret (Some err)
       | Inr acct \<Rightarrow>
           (case ac_Registration acct of
              None \<Rightarrow> panic nil_pointer
            | Some reg \<Rightarrow>
                (case urlParse (cm_env m) (rr_URI reg) of
                   Some err \<Rightarrow> ret (Some err)
                 | None \<Rightarrow>
                     bind (print_lines [''  Email: '' @ ac_Email acct, ''  Server: '' @ urlHost (cm_cli m) (rr_URI reg),
                             ''  Path: '' @ path_Dir filename, '''']) (\<lambda>_. print_accounts m found))))"

definition listAccount :: "cmd_env \<Rightarrow> cli_ctx \<Rightarrow> (shell, goerror option) go" where
  "listAccount m ctx =
     bind (outcome_of (NewAccountsStorage (cm_cli m) (ctx\<lparr>fl_email := ''unknown''\<rparr>))) (\<lambda>accountsStorage.
       handle (glob_shell (path_Join [as_rootPath accountsStorage, ''*'', ''*'', ''*.json''])) (\<lambda>err. ret (Some err))
         (\<lambda>found.
           if found = [] then bind (println ''No accounts found.'') (\<lambda>_. ret None)
           else
             bind (println ''Found the following accounts:'') (\<lambda>_. print_accounts m found)))"

definition list_command :: "cmd_env \<Rightarrow> cli_ctx \<Rightarrow> (shell, goerror option) go" where
  "list_command m ctx =
     (if fl_accounts ctx \<and> \<not> fl_names ctx then check_err (listAccount m ctx) (listCertificates m ctx)
      else listCertificates m ctx)"

section \<open>Which domains, and when\<close>

lemma remdups_snoc: "remdups (xs @ [x]) = remdups (filter (\<lambda>y. y \<noteq> x) xs) @ [x]"
  by (induction xs) auto

text \<open>A list without the repetitions of an element: the first occurrence is kept.\<close>

definition first_occurrences :: "'a list \<Rightarrow> 'a list" where
  "first_occurrences xs = rev (remdups (rev xs))"

lemma first_occurrences_Cons:
  "first_occurrences (x # xs) = x # filter (\<lambda>y. y \<noteq> x) (first_occurrences xs)"
  by (simp add: first_occurrences_def remdups_snoc remdups_filter rev_filter)

text \<open>
  C17 (equivalence).  The domains of a renewal: merging keeps the domains of the certificate in their order,
  and adds the requested domains that are not among them, each once, in the order they were given.
\<close>

theorem merge_eq:
  "merge prevDomains nextDomains =
     prevDomains @ filter (\<lambda>d. d \<notin> set prevDomains) (first_occurrences nextDomains)"
proof (induction prevDomains nextDomains rule: merge.induct)
  case (1 prevDomains)
  then show ?case by (simp add: first_occurrences_def)
next
  case (2 prevDomains d nextDomains)
  have "filter (\<lambda>y. y \<notin> set prevDomains) (filter (\<lambda>y. y \<noteq> d) xs) =
      (if d \<in> set prevDomains then filter (\<lambda>y. y \<notin> set prevDomains) xs
       else filter (\<lambda>y. y \<noteq> d \<and> y \<notin> set prevDomains) xs)" for xs
    by (induction xs) auto
  then show ?case
    using 2 by (auto simp: first_occurrences_Cons list_ex_iff)
qed

text \<open>
  C16 (bounds).  When a certificate is due: with a limit of \<open>days\<close> days the certificate is kept if at least
  \<open>days + 1\<close> full days are left, and renewed if less than that is left, up to a millisecond in which the
  floating-point arithmetic decides.  A negative limit always renews, and a bundle that starts with a CA
  certificate ends the program.
\<close>

theorem needRenewal_window:
  assumes "(days + 1) * (24 * Hour) < 2 ^ 63"
  shows "(crt_IsCA cert \<longrightarrow> (\<exists>msg. needRenewal cert domain days now = Exit msg))
    \<and> (\<not> crt_IsCA cert \<longrightarrow>
        (days < 0 \<longrightarrow> needRenewal cert domain days now = Return True)
        \<and> (days \<ge> 0 \<and> crt_NotAfter cert - now \<ge> (days + 1) * (24 * Hour) \<longrightarrow>
            needRenewal cert domain days now = Return False)
        \<and> (days \<ge> 0 \<and> crt_NotAfter cert - now + 1000000 < (days + 1) * (24 * Hour) \<longrightarrow>
            needRenewal cert domain days now = Return True))"
proof -
  let ?d = "crt_NotAfter cert - now"
  have range: "in_i64 (saturate ?d)" by (auto simp: saturate_def in_i64_def)
  have late: "days < whole_days (saturate ?d)" if "0 \<le> days" "(days + 1) * (24 * Hour) \<le> ?d"
  proof -
    have "(days + 1) * (24 * Hour) \<le> saturate ?d"
      using that(2) assms unfolding saturate_def le_max_iff_disj min.bounded_iff by linarith
    then show ?thesis using whole_days_ge [OF _ _ range, of "days + 1"] that by simp
  qed
  have soon: "whole_days (saturate ?d) \<le> days" if "0 \<le> days" "?d + 1000000 < (days + 1) * (24 * Hour)"
  proof (cases "?d \<le> 0")
    case True
    then have "saturate ?d \<le> 0" by (simp add: saturate_def)
    then show ?thesis using whole_days_nonpos that(1) order_trans by blast
  next
    case False
    then have "0 \<le> saturate ?d" "saturate ?d \<le> ?d" by (simp_all add: saturate_def)
    then show ?thesis using whole_days_less [OF _ _ range, of "days + 1"] that(2) by simp
  qed
  show ?thesis using late soon by (auto simp: needRenewal_def Let_def not_less)
qed

definition month_left :: x509_cert where
  "month_left = \<lparr>crt_Raw = [], crt_IsCA = False, crt_SubjectCN = ''a'', crt_IssuerCN = [], crt_DNSNames = [],
     crt_NotAfter = 31 * (24 * Hour), crt_OCSPServer = [], crt_IssuingCertificateURL = []\<rparr>"

theorem needRenewal_window_witness:
  "needRenewal month_left ''a'' 30 0 = Return False \<and> needRenewal month_left ''a'' 30 Second = Return True"
  using needRenewal_window [of 30 month_left "''a''" 0] needRenewal_window [of 30 month_left "''a''" Second]
  by (simp add: month_left_def Hour_def Second_def)

lemma ask_tos_decides:
  assumes "\<forall>j < i. \<exists>l. stdinText c (k + j) = Inr l \<and> tos_answer l = None"
    and "stdinText c (k + i) = Inr line" and "tos_answer line = Some accepted" and "i < fuel"
  shows "fst (ask_tos c fuel k s) = Return accepted"
  using assms
proof (induction fuel arbitrary: i k s)
  case (Suc n)
  show ?case
  proof (cases i)
    case 0
    then show ?thesis using Suc.prems by (simp add: bind_def println_def)
  next
    case (Suc i')
    obtain l where l: "stdinText c k = Inr l" "tos_answer l = None"
      using Suc.prems(1) Suc by force
    have "\<forall>j < i'. \<exists>l. stdinText c (Suc k + j) = Inr l \<and> tos_answer l = None"
      using Suc.prems(1) Suc by (metis Suc_less_eq add_Suc_shift)
    then have "fst (ask_tos c n (Suc k) s) = Return accepted" for s
      using Suc.IH [of i' "Suc k" s] Suc.prems Suc by simp
    then show ?thesis using l by (simp add: bind_def println_def)
  qed
qed simp



section \<open>What a renewal changes\<close>

lemma ReadFile_state: "ReadFile c st domain ext s = (out, t) \<Longrightarrow> t = s"
  by (auto simp: ReadFile_def GetFileName_def os_ReadFile_def bind_def split: outcome.splits option.splits)

lemma ReadCertificate_state: "ReadCertificate c st domain ext s = (out, t) \<Longrightarrow> t = s"
  by (auto simp: ReadCertificate_def check_def handle_def bind_def dest: ReadFile_state
      split: prod.splits outcome.splits sum.splits)

lemma due_certificate_cases:
  assumes "due_certificate m ctx st domain k s = (out, t)"
  obtains "t = s" | cert where "k cert s = (out, t)"
    and "needRenewal cert domain (fl_days ctx) (w_now (sh_world s)) = Return True"
proof -
  obtain r u where r: "ReadCertificate (cm_cli m) st domain ''.crt'' s = (r, u)" by fastforce
  have u: "u = s" using ReadCertificate_state [OF r] .
  have "t = s \<or> (\<exists>cert. k cert s = (out, t)
      \<and> needRenewal cert domain (fl_days ctx) (w_now (sh_world s)) = Return True)"
    using assms r u
    by (auto simp: due_certificate_def handle_def bind_def
        split: outcome.splits sum.splits list.splits if_splits)
  then show ?thesis using that by blast
qed

lemma reused_key_state: "reused_key m ctx st domain s = (out, t) \<Longrightarrow> t = s"
  by (auto simp: reused_key_def check_def handle_def bind_def dest: ReadFile_state
      split: prod.splits outcome.splits sum.splits if_splits)

lemma obtained_cases:
  assumes "obtained msg (on_world get) k s = (out, t)"
  obtains w where "t = s\<lparr>sh_world := w\<rparr>"
  | r w where "get (sh_world s) = (Return (Some r, None), w)" and "k r (s\<lparr>sh_world := w\<rparr>) = (out, t)"
  using assms
  by (auto simp: obtained_def bind_def run_zoom split: prod.splits outcome.splits option.splits)

lemma renewForDomains_cases:
  assumes "renewForDomains m ctx cl st bundled meta s = (out, t)"
  obtains w where "t = s\<lparr>sh_world := w\<rparr>"
  | domain cert req r w where "or_Domains req = merge (ExtractDomains cert) (fl_domains ctx)"
    and "needRenewal cert domain (fl_days ctx) (w_now (sh_world s)) = Return True"
    and "Obtain (cm_env m) (client_certifier (cm_env m) cl) req (sh_world s) = (Return (Some r, None), w)"
    and "save_and_hook m st (fl_hook ctx) meta domain r (s\<lparr>sh_world := w\<rparr>) = (out, t)"
proof (cases "fl_domains ctx")
  case Nil
  then show ?thesis using that(1) [of "sh_world s"] assms by (simp add: renewForDomains_def)
next
  case (Cons domain domains)
  let ?req = "\<lambda>cert key. \<lparr>or_Domains = merge (ExtractDomains cert) (fl_domains ctx), or_Bundle = bundled,
    or_PrivateKey = key, or_MustStaple = fl_must_staple ctx, or_PreferredChain = fl_preferred_chain ctx\<rparr>"
  let ?go = "\<lambda>cert key. obtained error_text
    (on_world (Obtain (cm_env m) (client_certifier (cm_env m) cl) (?req cert key)))
    (save_and_hook m st (fl_hook ctx) meta domain)"
  have "due_certificate m ctx st domain
      (\<lambda>cert. handle (reused_key m ctx st domain) (\<lambda>err. ret (Some err)) (?go cert)) s = (out, t)"
    using assms Cons by (simp add: renewForDomains_def)
  then show ?thesis
  proof (cases rule: due_certificate_cases)
    case 1
    then show ?thesis using that(1) [of "sh_world s"] by simp
  next
    case (2 cert)
    obtain k u where k: "reused_key m ctx st domain s = (k, u)" by fastforce
    have u: "u = s" using reused_key_state [OF k] .
    then have "t = s \<or> (\<exists>key. ?go cert key s = (out, t))"
      using 2(1) k by (auto simp: handle_def bind_def split: outcome.splits sum.splits)
    then show ?thesis
    proof
      assume "t = s"
      then show ?thesis using that(1) [of "sh_world s"] by simp
    next
      assume "\<exists>key. ?go cert key s = (out, t)"
      then obtain key where "?go cert key s = (out, t)" ..
      then show ?thesis
      proof (cases rule: obtained_cases)
        case (1 w)
        then show ?thesis by (rule that(1))
      next
        case saved: (2 r w)
        then show ?thesis using that(2) [OF _ 2(2) saved] by simp
      qed
    qed
  qed
qed

section \<open>The commands as clients\<close>

text \<open>Writing files and running hooks leaves the client's world alone.\<close>

definition same_world :: "shell \<Rightarrow> shell \<Rightarrow> bool" where
  "same_world s t \<longleftrightarrow> sh_world t = sh_world s"

interpretation same_world: step_relation same_world
  by unfold_locales (simp_all add: same_world_def)

lemma same_world_modify: "(\<And>s. sh_world (f s) = sh_world s) \<Longrightarrow> always same_world (modify f)"
  by (simp add: always_def same_world_def)

lemma same_world_WriteFile: "always same_world (WriteFile c st domain ext data)"
  unfolding WriteFile_def os_WriteFile_def
  by (intro always_intros same_world_modify) (simp add: store_file_def)

lemma same_world_fatal_on: "always same_world m \<Longrightarrow> always same_world (fatal_on msg m)"
  unfolding fatal_on_def by (intro always_intros)

lemma same_world_println: "always same_world (println line)"
  unfolding println_def by (intro same_world_modify) simp

lemma same_world_save_and_hook: "always same_world (save_and_hook m st hook meta domain r)"
proof -
  have "always same_world (SaveResource c st r)" for c
    unfolding SaveResource_def by (intro always_intros same_world_fatal_on same_world_WriteFile)
  moreover have "always same_world (GetFileName c st domain ext)" for c ext
    unfolding GetFileName_def by (intro always_intros)
  moreover have "always same_world (launchHook c hook env)" for c env
    unfolding launchHook_def by (intro always_intros same_world_println same_world_modify) simp
  ultimately show ?thesis unfolding save_and_hook_def by (intro always_intros)
qed

text \<open>
  What the theorems assume of the providers: their code, the constructors of the DNS providers included,
  leaves the account of the client alone.
\<close>

definition tame_providers :: "cmd_env \<Rightarrow> bool" where
  "tame_providers m \<longleftrightarrow>
     (\<forall>p. provider_keeps tame (httpProvider m p)) \<and> (\<forall>host port. provider_keeps tame (tlsProvider m host port))
     \<and> (\<forall>package. always outside (newDNSProvider m package))
     \<and> (\<forall>package p w t. newDNSProvider m package w = (Return (Inr p), t) \<longrightarrow> provider_keeps tame p)"

lemma tame_DNS_by_name:
  assumes "tame_providers m"
    and "NewDNSChallengeProviderByName (cm_env m) (newDNSProvider m) name w = (Return (Inr p), t)"
  shows "provider_keeps tame p \<and> outside w t"
proof -
  have "always outside (NewDNSChallengeProviderByName (cm_env m) (newDNSProvider m) name)"
    unfolding NewDNSChallengeProviderByName_def using assms(1) unfolding tame_providers_def
    by (intro always_intros) auto
  then have "outside w t" using assms(2) by (rule alwaysD)
  moreover have "provider_keeps tame p"
  proof (cases "name = ''manual''")
    case True
    then show ?thesis
      using assms(2) by (auto simp: NewDNSChallengeProviderByName_def tame_step.manual_keeps)
  next
    case False
    then obtain package where "newDNSProvider m package w = (Return (Inr p), t)"
      using assms(2) by (auto simp: NewDNSChallengeProviderByName_def split: option.splits)
    then show ?thesis using assms(1) unfolding tame_providers_def by blast
  qed
  ultimately show ?thesis by simp
qed

lemma setupDNS_steps:
  assumes "tame_providers m" and "setupDNS m ctx cl s = (Return cl', t)"
  shows "client_reaches (cm_env m) (cl, sh_world s) (cl', sh_world t)"
proof -
  let ?opts = "[CondOption (fl_dns_resolvers ctx \<noteq> []) (AddRecursiveNameservers (ParseNameservers (fl_dns_resolvers ctx))),
    CondOption (fl_dns_disable_cp ctx) DisableCompletePropagationRequirement,
    CondOption (fl_dns_timeout_set ctx) (AddDNSTimeout (i64 (fl_dns_timeout ctx * Second)))]"
  obtain p u slvs w where
    p: "NewDNSChallengeProviderByName (cm_env m) (newDNSProvider m) (fl_dns ctx) (sh_world s) = (Return (Inr p), u)"
    and set: "SetDNS01Provider (cm_env m) (cl_core cl) (Some p) ?opts (cl_solvers cl) u = (Return slvs, w)"
    and cl': "cl' = cl\<lparr>cl_solvers := slvs\<rparr>" "sh_world t = w"
    using assms(2)
    by (auto simp: setupDNS_def Let_def handle_Return_eq bind_Return_eq zoom_Return_eq)
  note tm = tame_DNS_by_name [OF assms(1) p]
  have "good_option (cm_env m) (cl_core cl) opt" if "opt \<in> set ?opts" for opt
    using that good_CondOption good_AddRecursiveNameservers good_Disable good_AddDNSTimeout by auto
  then have "client_step (cm_env m) (cl, u) (cl', sh_world t)"
    unfolding cl' using tm set by (intro step_dns01) auto
  moreover have "client_step (cm_env m) (cl, sh_world s) (cl, u)" using tm by (intro step_other) simp
  ultimately show ?thesis by (meson converse_rtranclp_into_rtranclp rtranclp.rtrancl_refl)
qed

lemma setupHTTPProvider_state: "setupHTTPProvider m ctx s = (out, t) \<Longrightarrow> t = s"
  by (auto simp: setupHTTPProvider_def NewHTTPProvider_def os_Stat_def split_iface_def handle_def bind_def
      split: if_splits option.splits sum.splits outcome.splits prod.splits)

lemma setupTLSProvider_state: "setupTLSProvider ctx s = (out, t) \<Longrightarrow> t = s"
  by (auto simp: setupTLSProvider_def split_iface_def split: if_splits option.splits)

text \<open>Setting up the challenges is a sequence of client operations.\<close>

lemma setupChallenges_steps:
  assumes "tame_providers m" and "setupChallenges m ctx cl s = (Return cl', t)"
  shows "client_reaches (cm_env m) (cl, sh_world s) (cl', sh_world t)"
proof -
  have tame: "provider_keeps tame (httpProvider m p)" "provider_keeps tame (tlsProvider m h q)" for p h q
    using assms(1) by (auto simp: tame_providers_def)
  have chosen: "\<not> (\<not> fl_http ctx \<and> \<not> fl_tls ctx \<and> \<not> fl_dns_set ctx)"
  proof
    assume "\<not> fl_http ctx \<and> \<not> fl_tls ctx \<and> \<not> fl_dns_set ctx"
    then show False using assms(2) by (simp add: setupChallenges_def)
  qed
  obtain cl1 u1 cl2 u2 where one: "(if fl_http ctx
        then bind (setupHTTPProvider m ctx) (\<lambda>p. ret (cl\<lparr>cl_solvers := SetHTTP01Provider (cm_env m) (cl_core cl)
               (httpProvider m p) (cl_solvers cl)\<rparr>)) else ret cl) s = (Return cl1, u1)"
    and two: "(if fl_tls ctx
        then bind (setupTLSProvider ctx) (\<lambda>(host, port). ret (cl1\<lparr>cl_solvers := SetTLSALPN01Provider (cm_env m)
               (cl_core cl1) (tlsProvider m host port) (cl_solvers cl1)\<rparr>)) else ret cl1) u1 = (Return cl2, u2)"
    and three: "(if fl_dns_set ctx then setupDNS m ctx cl2 else ret cl2) u2 = (Return cl', t)"
    using assms(2) unfolding setupChallenges_def if_not_P [OF chosen] bind_Return_eq by blast
  have "client_reaches (cm_env m) (cl, sh_world s) (cl1, sh_world u1)"
    using one step_http01 [OF tame(1)]
    by (auto simp: bind_Return_eq dest!: setupHTTPProvider_state split: if_splits)
  also have "client_reaches (cm_env m) (cl1, sh_world u1) (cl2, sh_world u2)"
    using two step_tlsalpn01 [OF tame(2)]
    by (auto simp: bind_Return_eq dest!: setupTLSProvider_state split: if_splits)
  also have "client_reaches (cm_env m) (cl2, sh_world u2) (cl', sh_world t)"
    using three setupDNS_steps [OF assms(1)] by (auto split: if_splits)
  finally show ?thesis .
qed

lemma handle_fatal_Return:
  "handle g (\<lambda>err. fatal (msg err)) k s = (Return x, t) \<longleftrightarrow>
     (\<exists>y u. g s = (Return (Inr y), u) \<and> k y u = (Return x, t))"
  by (auto simp: handle_def bind_def split: prod.splits outcome.splits sum.splits)

lemma newClient_new:
  assumes "newClient m ctx acct keyType s = (Return cl, t)"
  shows "\<exists>cfg. NewClient (cm_env m) (Some cfg) (sh_world s) = (Return (Inr cl), sh_world t)"
  using assms unfolding newClient_def Let_def bind_Return_eq handle_fatal_Return zoom_Return_eq
  by (auto split: if_splits)

section \<open>Two slips of the commands\<close>

text \<open>With \<^verbatim>\<open>--keep\<close> the domains after the first are not revoked, whatever they are.\<close>

lemma revoke_keep_first_only:
  "fl_keep ctx \<Longrightarrow> revoke_domains m ctx cl st (domain # domains) s = revoke_domains m ctx cl st [domain] s"
  by simp

text \<open>A hook of white space only is not empty, and has no first field.\<close>

lemma launchHook_blank_panics:
  assumes "hook \<noteq> []" and "list_all is_space hook"
  shows "launchHook c hook meta s = (Panic ''index out of range'', s)"
proof -
  have "fields_acc [] h = []" if "list_all is_space h" for h
    using that by (induction h) auto
  then show ?thesis using assms by (simp add: launchHook_def Fields_def)
qed

end
