(* ===== verification/Url.thy ===== *)
theory Url
  imports Filepath Acme_Types
begin

text \<open>
  The parts of Go's \<^verbatim>\<open>net/url\<close> the DNS providers use: percent-encoding, \<^verbatim>\<open>url.Parse\<close>, \<^verbatim>\<open>URL.Parse\<close> (the
  resolution of a reference), \<^verbatim>\<open>URL.String\<close>, and query strings (\<^verbatim>\<open>url.Values\<close>).  A string is its bytes.

  Proved here: unescaping what was escaped gives the text back, and the value of a dns-01 record, which is
  written in the URL alphabet of base64, needs no escaping.
\<close>

section \<open>Percent-encoding\<close>

datatype encoding =
  EncodePath | EncodePathSegment | EncodeHost | EncodeUserPassword | EncodeQueryComponent | EncodeFragment

definition is_alnum :: "char \<Rightarrow> bool" where
  "is_alnum c \<longleftrightarrow> (let n = of_char c :: nat in
     48 \<le> n \<and> n \<le> 57 \<or> 65 \<le> n \<and> n \<le> 90 \<or> 97 \<le> n \<and> n \<le> 122)"

definition shouldEscape :: "encoding \<Rightarrow> char \<Rightarrow> bool" where
  "shouldEscape mode c \<longleftrightarrow>
     (if is_alnum c \<or> c \<in> set ''-_.~'' then False
      else if mode = EncodeHost \<and> c \<in> set ''!$&()*+,;=:[]<>'' \<union> {CHR 0x22, CHR 0x27} then False
      else if c \<in> set ''$&+,/:;=?@'' then
        (case mode of
           EncodePath \<Rightarrow> c = CHR ''?''
         | EncodePathSegment \<Rightarrow> c \<in> set ''/;,?''
         | EncodeUserPassword \<Rightarrow> c \<in> set ''@/?:''
         | EncodeQueryComponent \<Rightarrow> True
         | EncodeFragment \<Rightarrow> False
         | EncodeHost \<Rightarrow> True)
      else if mode = EncodeFragment \<and> c \<in> set ''!()*'' then False
      else True)"

definition upper_hex :: "nat \<Rightarrow> char" where
  "upper_hex n = (if n < 10 then char_of (48 + n) else char_of (55 + n))"

definition unhex :: "char \<Rightarrow> nat option" where
  "unhex c = (let n = of_char c :: nat in
     if 48 \<le> n \<and> n \<le> 57 then Some (n - 48)
     else if 97 \<le> n \<and> n \<le> 102 then Some (n - 87)
     else if 65 \<le> n \<and> n \<le> 70 then Some (n - 55)
     else None)"

definition escape_char :: "encoding \<Rightarrow> char \<Rightarrow> string" where
  "escape_char mode c =
     (if c = CHR '' '' \<and> mode = EncodeQueryComponent then ''+''
      else if shouldEscape mode c
      then [CHR ''%'', upper_hex (of_char c div 16), upper_hex (of_char c mod 16)]
      else [c])"

definition escape :: "encoding \<Rightarrow> string \<Rightarrow> string" where
  "escape mode s = concat (map (escape_char mode) s)"

text \<open>\<^verbatim>\<open>url.QueryEscape\<close> and \<^verbatim>\<open>url.PathEscape\<close>.\<close>

definition QueryEscape :: "string \<Rightarrow> string" where "QueryEscape = escape EncodeQueryComponent"
definition PathEscape :: "string \<Rightarrow> string" where "PathEscape = escape EncodePathSegment"

text \<open>The text after a per cent sign: two hexadecimal digits.\<close>

definition hex_pair :: "char \<Rightarrow> char \<Rightarrow> nat option" where
  "hex_pair a b =
     (case (unhex a, unhex b) of (Some x, Some y) \<Rightarrow> Some (16 * x + y) | _ \<Rightarrow> None)"

definition escape_error :: "string \<Rightarrow> goerror" where
  "escape_error s = Err (''invalid URL escape '' @ Quote (take 3 s))"

fun unescape :: "encoding \<Rightarrow> string \<Rightarrow> goerror + string" where
  "unescape mode [] = Inr []"
| "unescape mode (c # r) =
     (if c = CHR ''%'' then
        (case r of
           a # b # r' \<Rightarrow>
             (case hex_pair a b of
                None \<Rightarrow> Inl (escape_error (c # r))
              | Some n \<Rightarrow>
                  if mode = EncodeHost \<and> n < 128 \<and> n \<noteq> 37 then Inl (escape_error (c # r))
                  else (case unescape mode r' of Inl err \<Rightarrow> Inl err | Inr t \<Rightarrow> Inr (char_of n # t)))
         | _ \<Rightarrow> Inl (escape_error (c # r)))
      else if c = CHR ''+'' \<and> mode = EncodeQueryComponent then
        (case unescape mode r of Inl err \<Rightarrow> Inl err | Inr t \<Rightarrow> Inr (CHR '' '' # t))
      else if mode = EncodeHost \<and> (of_char c :: nat) < 128 \<and> shouldEscape mode c
      then Inl (Err (''invalid character '' @ Quote [c] @ '' in host name''))
      else (case unescape mode r of Inl err \<Rightarrow> Inl err | Inr t \<Rightarrow> Inr (c # t)))"

section \<open>Query strings\<close>

text \<open>\<^verbatim>\<open>url.Values\<close>: the values of each key.  \<^verbatim>\<open>Encode\<close> writes the keys in order.\<close>

type_synonym url_values = "(string \<times> string list) list"

definition Values_Set :: "string \<Rightarrow> string \<Rightarrow> url_values \<Rightarrow> url_values" where
  "Values_Set k v vs = put k [v] vs"

definition Values_Add :: "string \<Rightarrow> string \<Rightarrow> url_values \<Rightarrow> url_values" where
  "Values_Add k v vs = put k ((case map_of vs k of None \<Rightarrow> [] | Some l \<Rightarrow> l) @ [v]) vs"

text \<open>\<^verbatim>\<open>Set\<close> and \<^verbatim>\<open>Add\<close> for each pair in turn.\<close>

definition Values_Sets :: "(string \<times> string) list \<Rightarrow> url_values \<Rightarrow> url_values" where
  "Values_Sets ps vs = fold (\<lambda>(k, v). Values_Set k v) ps vs"

definition Values_Adds :: "(string \<times> string) list \<Rightarrow> url_values \<Rightarrow> url_values" where
  "Values_Adds ps vs = fold (\<lambda>(k, v). Values_Add k v) ps vs"

definition Values_Encode :: "url_values \<Rightarrow> string" where
  "Values_Encode vs =
     Join (concat (map (\<lambda>(k, xs). map (\<lambda>v. QueryEscape k @ ''='' @ QueryEscape v) xs) (sort_key fst vs))) ''&''"

text \<open>The text before the first \<open>c\<close>, and the text after it.\<close>

definition cut :: "char \<Rightarrow> string \<Rightarrow> string \<times> string" where
  "cut c s = (takeWhile (\<lambda>x. x \<noteq> c) s, drop 1 (dropWhile (\<lambda>x. x \<noteq> c) s))"

text \<open>\<^verbatim>\<open>URL.Query\<close>: a piece that does not decode is dropped.\<close>

definition query_piece :: "string \<Rightarrow> url_values \<Rightarrow> url_values" where
  "query_piece piece vs =
     (if piece = [] then vs
      else
        (case cut (CHR ''='') piece of (k, v) \<Rightarrow>
           (case (unescape EncodeQueryComponent k, unescape EncodeQueryComponent v) of
              (Inr k', Inr v') \<Rightarrow> Values_Add k' v' vs
            | _ \<Rightarrow> vs)))"

definition ParseQuery :: "string \<Rightarrow> url_values" where
  "ParseQuery query =
     fold query_piece (split_on (CHR ''&'') (map (\<lambda>c. if c = CHR '';'' then CHR ''&'' else c) query)) []"

section \<open>URLs\<close>

record url =
  url_Scheme :: string
  url_Opaque :: string
  url_User :: "(string \<times> string option) option"
  url_Host :: string
  url_Path :: string
  url_RawPath :: string
  url_ForceQuery :: bool
  url_RawQuery :: string
  url_Fragment :: string

definition zero_url :: url where
  "zero_url = \<lparr>url_Scheme = [], url_Opaque = [], url_User = None, url_Host = [], url_Path = [],
     url_RawPath = [], url_ForceQuery = False, url_RawQuery = [], url_Fragment = []\<rparr>"

definition is_alpha :: "char \<Rightarrow> bool" where
  "is_alpha c \<longleftrightarrow> (let n = of_char c :: nat in 65 \<le> n \<and> n \<le> 90 \<or> 97 \<le> n \<and> n \<le> 122)"

text \<open>
  \<^verbatim>\<open>getscheme\<close>: letters, and after the first one also digits and \<^verbatim>\<open>+-.\<close>, up to a colon; without a colon, or with
  any other character before it, there is no scheme.
\<close>

fun getscheme_from :: "string \<Rightarrow> string \<Rightarrow> string \<Rightarrow> goerror + (string \<times> string)" where
  "getscheme_from acc [] whole = Inr ([], whole)"
| "getscheme_from acc (c # r) whole =
     (if is_alpha c then getscheme_from (acc @ [c]) r whole
      else if is_alnum c \<or> c \<in> set ''+-.''
      then (if acc = [] then Inr ([], whole) else getscheme_from (acc @ [c]) r whole)
      else if c = CHR '':''
      then (if acc = [] then Inl (Err ''missing protocol scheme'') else Inr (acc, r))
      else Inr ([], whole))"

definition getscheme :: "string \<Rightarrow> goerror + (string \<times> string)" where
  "getscheme rawurl = getscheme_from [] rawurl rawurl"

definition validOptionalPort :: "string \<Rightarrow> bool" where
  "validOptionalPort port \<longleftrightarrow>
     (case port of [] \<Rightarrow> True
      | c # ds \<Rightarrow> c = CHR '':'' \<and> list_all (\<lambda>d. CHR ''0'' \<le> d \<and> d \<le> CHR ''9'') ds)"

definition from_last :: "char \<Rightarrow> string \<Rightarrow> string" where
  "from_last c s = c # rev (takeWhile (\<lambda>x. x \<noteq> c) (rev s))"

definition port_error :: "string \<Rightarrow> goerror" where
  "port_error port = Err (''invalid port '' @ Quote port @ '' after host'')"

text \<open>\<^verbatim>\<open>parseHost\<close>; the zone of an IPv6 address is not told apart from the address.\<close>

definition parseHost :: "string \<Rightarrow> goerror + string" where
  "parseHost host =
     (if host \<noteq> [] \<and> hd host = CHR ''['' then
        (if CHR '']'' \<notin> set host then Inl (Err (''missing '' @ Quote '']'' @ '' in host''))
         else
           (let colonPort = tl (from_last (CHR '']'') host) in
            if \<not> validOptionalPort colonPort then Inl (port_error colonPort)
            else unescape EncodeHost host))
      else if CHR '':'' \<in> set host \<and> \<not> validOptionalPort (from_last (CHR '':'') host)
      then Inl (port_error (from_last (CHR '':'') host))
      else unescape EncodeHost host)"

definition validUserinfo :: "string \<Rightarrow> bool" where
  "validUserinfo s \<longleftrightarrow> list_all (\<lambda>c. is_alnum c \<or> c \<in> set ''-._:~!$&()*+,;=%@'' \<or> c = CHR 0x27) s"

definition parseUserinfo :: "string \<Rightarrow> goerror + (string \<times> string option)" where
  "parseUserinfo ui =
     (if \<not> validUserinfo ui then Inl (Err ''net/url: invalid userinfo'')
      else if CHR '':'' \<notin> set ui then
        (case unescape EncodeUserPassword ui of Inl err \<Rightarrow> Inl err | Inr u \<Rightarrow> Inr (u, None))
      else
        (case cut (CHR '':'') ui of (username, password) \<Rightarrow>
           (case unescape EncodeUserPassword username of
              Inl err \<Rightarrow> Inl err
            | Inr u \<Rightarrow>
                (case unescape EncodeUserPassword password of
                   Inl err \<Rightarrow> Inl err
                 | Inr p \<Rightarrow> Inr (u, Some p)))))"

definition parseAuthority :: "string \<Rightarrow> goerror + ((string \<times> string option) option \<times> string)" where
  "parseAuthority authority =
     (if CHR ''@'' \<notin> set authority then
        (case parseHost authority of Inl err \<Rightarrow> Inl err | Inr h \<Rightarrow> Inr (None, h))
      else
        (let host = tl (from_last (CHR ''@'') authority);
             ui = take (length authority - Suc (length host)) authority in
         case parseHost host of
           Inl err \<Rightarrow> Inl err
         | Inr h \<Rightarrow> (case parseUserinfo ui of Inl err \<Rightarrow> Inl err | Inr u \<Rightarrow> Inr (Some u, h))))"

definition setPath :: "string \<Rightarrow> url \<Rightarrow> goerror + url" where
  "setPath p u =
     (case unescape EncodePath p of
        Inl err \<Rightarrow> Inl err
      | Inr path \<Rightarrow>
          Inr (u\<lparr>url_Path := path, url_RawPath := (if p = escape EncodePath path then [] else p)\<rparr>))"

definition has_ctl :: "string \<Rightarrow> bool" where
  "has_ctl s \<longleftrightarrow> list_ex (\<lambda>c. (of_char c :: nat) < 32 \<or> (of_char c :: nat) = 127) s"

text \<open>\<^verbatim>\<open>parse\<close> without the checks of a request line, the part behind the scheme.\<close>

definition parse_rest :: "string \<Rightarrow> string \<Rightarrow> goerror + url" where
  "parse_rest scheme rest0 =
     (let force = (rest0 \<noteq> [] \<and> last rest0 = CHR ''?'' \<and> CHR ''?'' \<notin> set (butlast rest0));
          (rest, query) = (if force then (butlast rest0, []) else cut (CHR ''?'') rest0);
          u = zero_url\<lparr>url_Scheme := scheme, url_ForceQuery := force, url_RawQuery := query\<rparr> in
      if \<not> HasPrefix rest ''/'' then
        (if scheme \<noteq> [] then Inr (u\<lparr>url_Opaque := rest\<rparr>)
         else if CHR '':'' \<in> set (fst (cut (CHR ''/'') rest))
         then Inl (Err ''first path segment in URL cannot contain colon'')
         else setPath rest u)
      else if (scheme \<noteq> [] \<or> \<not> HasPrefix rest ''///'') \<and> HasPrefix rest ''//'' then
        (let authority = takeWhile (\<lambda>x. x \<noteq> slash) (drop 2 rest);
             path = dropWhile (\<lambda>x. x \<noteq> slash) (drop 2 rest) in
         case parseAuthority authority of
           Inl err \<Rightarrow> Inl err
         | Inr (user, host) \<Rightarrow> setPath path (u\<lparr>url_User := user, url_Host := host\<rparr>))
      else setPath rest u)"

definition parse_plain :: "string \<Rightarrow> goerror + url" where
  "parse_plain rawurl =
     (if has_ctl rawurl then Inl (Err ''net/url: invalid control character in URL'')
      else if rawurl = ''*'' then Inr (zero_url\<lparr>url_Path := ''*''\<rparr>)
      else
        (case getscheme rawurl of
           Inl err \<Rightarrow> Inl err
         | Inr (scheme, rest) \<Rightarrow> parse_rest (ToLower scheme) rest))"

definition url_Parse :: "string \<Rightarrow> goerror + url" where
  "url_Parse rawurl =
     (case cut (CHR ''#'') rawurl of (u, frag) \<Rightarrow>
        (case parse_plain u of
           Inl err \<Rightarrow> Inl (Wrap (''parse '' @ Quote u @ '': '') err)
         | Inr v \<Rightarrow>
             if frag = [] then Inr v
             else
               (case unescape EncodeFragment frag of
                  Inl err \<Rightarrow> Inl (Wrap (''parse '' @ Quote rawurl @ '': '') err)
                | Inr f \<Rightarrow> Inr (v\<lparr>url_Fragment := f\<rparr>))))"

section \<open>Writing and resolving\<close>

definition validEncodedPath :: "string \<Rightarrow> bool" where
  "validEncodedPath s \<longleftrightarrow>
     list_all (\<lambda>c. c \<in> set ''!$&()*+,;=:@[]%'' \<or> c = CHR 0x27 \<or> \<not> shouldEscape EncodePath c) s"

definition EscapedPath :: "url \<Rightarrow> string" where
  "EscapedPath u =
     (if url_RawPath u \<noteq> [] \<and> validEncodedPath (url_RawPath u)
         \<and> unescape EncodePath (url_RawPath u) = Inr (url_Path u)
      then url_RawPath u
      else if url_Path u = ''*'' then ''*''
      else escape EncodePath (url_Path u))"

definition user_String :: "string \<times> string option \<Rightarrow> string" where
  "user_String ui =
     escape EncodeUserPassword (fst ui)
     @ (case snd ui of None \<Rightarrow> [] | Some p \<Rightarrow> '':'' @ escape EncodeUserPassword p)"

text \<open>\<^verbatim>\<open>URL.String\<close>, up to the query and from there on.\<close>

definition url_before_query :: "url \<Rightarrow> string" where
  "url_before_query u =
     (let scheme = (if url_Scheme u \<noteq> [] then url_Scheme u @ '':'' else []);
          path = EscapedPath u;
          authority =
            (if url_Scheme u \<noteq> [] \<or> url_Host u \<noteq> [] \<or> url_User u \<noteq> None then
               (if url_Host u \<noteq> [] \<or> url_Path u \<noteq> [] \<or> url_User u \<noteq> None then ''//'' else [])
               @ (case url_User u of None \<Rightarrow> [] | Some ui \<Rightarrow> user_String ui @ ''@'')
               @ escape EncodeHost (url_Host u)
             else []);
          body =
            (if url_Opaque u \<noteq> [] then url_Opaque u
             else
               authority
               @ (if path \<noteq> [] \<and> hd path \<noteq> slash \<and> url_Host u \<noteq> [] then ''/'' else [])
               @ (if scheme = [] \<and> authority = [] \<and> CHR '':'' \<in> set (fst (cut slash path)) then ''./'' else [])
               @ path) in
      scheme @ body)"

definition url_String :: "url \<Rightarrow> string" where
  "url_String u =
     url_before_query u
     @ (if url_ForceQuery u \<or> url_RawQuery u \<noteq> [] then ''?'' @ url_RawQuery u else [])
     @ (if url_Fragment u \<noteq> [] then ''#'' @ escape EncodeFragment (url_Fragment u) else [])"

definition resolve_step :: "string \<Rightarrow> string list \<Rightarrow> string list" where
  "resolve_step el dst = (if el = ''.'' then dst else if el = ''..'' then butlast dst else dst @ [el])"

definition resolvePath :: "string \<Rightarrow> string \<Rightarrow> string" where
  "resolvePath bas ref =
     (let full = (if ref = [] then bas
                  else if hd ref \<noteq> slash
                  then rev (dropWhile (\<lambda>c. c \<noteq> slash) (rev bas)) @ ref
                  else ref) in
      if full = [] then []
      else
        (let src = split_on slash full;
             dst = fold resolve_step src [];
             dst' = (if last src = ''.'' \<or> last src = ''..'' then dst @ [[]] else dst);
             joined = Join dst' ''/'' in
         slash # (if HasPrefix joined ''/'' then tl joined else joined)))"

text \<open>\<^verbatim>\<open>setPath\<close> whose error is dropped, as \<^verbatim>\<open>ResolveReference\<close> calls it.\<close>

definition setPath_quiet :: "string \<Rightarrow> url \<Rightarrow> url" where
  "setPath_quiet p u = (case setPath p u of Inl _ \<Rightarrow> u | Inr v \<Rightarrow> v)"

definition ResolveReference :: "url \<Rightarrow> url \<Rightarrow> url" where
  "ResolveReference u ref =
     (let v = (if url_Scheme ref = [] then ref\<lparr>url_Scheme := url_Scheme u\<rparr> else ref) in
      if url_Scheme ref \<noteq> [] \<or> url_Host ref \<noteq> [] \<or> url_User ref \<noteq> None
      then setPath_quiet (resolvePath (EscapedPath ref) []) v
      else if url_Opaque ref \<noteq> [] then v\<lparr>url_User := None, url_Host := [], url_Path := []\<rparr>
      else
        (let v1 = (if url_Path ref = [] \<and> url_RawQuery ref = []
                   then v\<lparr>url_RawQuery := url_RawQuery u,
                          url_Fragment := (if url_Fragment ref = [] then url_Fragment u else url_Fragment ref)\<rparr>
                   else v) in
         setPath_quiet (resolvePath (EscapedPath u) (EscapedPath ref))
           (v1\<lparr>url_Host := url_Host u, url_User := url_User u\<rparr>)))"

text \<open>The method \<^verbatim>\<open>URL.Parse\<close>.\<close>

definition url_ParseRef :: "url \<Rightarrow> string \<Rightarrow> goerror + url" where
  "url_ParseRef u ref = (case url_Parse ref of Inl err \<Rightarrow> Inl err | Inr r \<Rightarrow> Inr (ResolveReference u r))"

section \<open>Facts about escaping\<close>

lemma unhex_upper [simp]: "n < 16 \<Longrightarrow> unhex (upper_hex n) = Some n"
  by (auto simp: unhex_def upper_hex_def Let_def of_char_of)

lemma unescape_escape_char:
  assumes "mode \<noteq> EncodeHost"
  shows "unescape mode (escape_char mode c @ s) =
    (case unescape mode s of Inl err \<Rightarrow> Inl err | Inr t \<Rightarrow> Inr (c # t))"
proof -
  have pct: "shouldEscape mode (CHR ''%'')" using assms by (cases mode) (simp_all add: shouldEscape_def is_alnum_def)
  have plus: "mode = EncodeQueryComponent \<Longrightarrow> shouldEscape mode (CHR ''+'')"
    by (simp add: shouldEscape_def is_alnum_def)
  have "16 * (of_char c div 16) + of_char c mod 16 = (of_char c :: nat)" by simp
  moreover have "of_char c div 16 < (16 :: nat)" using nat_of_char_less_256 [of c] by linarith
  ultimately have "hex_pair (upper_hex (of_char c div 16)) (upper_hex (of_char c mod 16)) = Some (of_char c)"
    by (simp add: hex_pair_def)
  moreover have codes: "char_of (37 :: nat) = CHR ''%''" "char_of (43 :: nat) = CHR ''+''"
    by (simp_all add: char_of_def bit_0)
  ultimately show ?thesis
    using assms pct plus codes by (auto simp: escape_char_def split: sum.split)
qed

lemma unescape_escape:
  assumes "mode \<noteq> EncodeHost"
  shows "unescape mode (escape mode s) = Inr s"
  unfolding escape_def
  by (induction s) (simp_all add: unescape_escape_char [OF assms])

lemma escape_append: "escape mode (s @ t) = escape mode s @ escape mode t"
  by (simp add: escape_def)

lemma escape_id: "list_all (\<lambda>c. \<not> shouldEscape mode c \<and> c \<noteq> CHR '' '') s \<Longrightarrow> escape mode s = s"
  unfolding escape_def by (induction s) (simp_all add: escape_char_def)

text \<open>The URL alphabet of base64.\<close>

definition is_base64 :: "char \<Rightarrow> bool" where
  "is_base64 c \<longleftrightarrow> is_alnum c \<or> c = CHR ''-'' \<or> c = CHR ''_''"

lemma is_base64_safe: "is_base64 c \<Longrightarrow> \<not> shouldEscape mode c \<and> c \<noteq> CHR '' ''"
proof -
  assume "is_base64 c"
  then have "is_alnum c \<or> c \<in> set ''-_.~''" by (auto simp: is_base64_def)
  moreover have "\<not> is_alnum (CHR '' '')" by (simp add: is_alnum_def)
  ultimately show ?thesis unfolding shouldEscape_def by auto
qed

lemma escape_base64: "list_all is_base64 s \<Longrightarrow> escape mode s = s"
  by (rule escape_id) (auto simp: list_all_iff dest: is_base64_safe)

section \<open>Facts about query strings\<close>

lemma map_of_Sets:
  "map_of (Values_Sets ps vs) k =
     (case map_of (rev ps) k of Some v \<Rightarrow> Some [v] | None \<Rightarrow> map_of vs k)"
  unfolding Values_Sets_def
  by (induction ps arbitrary: vs) (auto simp: Values_Set_def map_add_def split: option.splits prod.splits)

lemma Join_split: "x \<in> set xs \<Longrightarrow> \<exists>a b. Join xs sep = a @ x @ b"
proof (induction xs sep rule: Join.induct)
  case (3 x' y xs sep)
  then show ?case
  proof (cases "x = x'")
    case True
    then have "Join (x' # y # xs) sep = [] @ x @ (sep @ Join (y # xs) sep)" by simp
    then show ?thesis by blast
  next
    case False
    with 3 obtain a b where "Join (y # xs) sep = a @ x @ b" by auto
    then have "Join (x' # y # xs) sep = (x' @ sep @ a) @ x @ b" by simp
    then show ?thesis by blast
  qed
qed (auto intro: exI [of _ "[]"])

lemma Values_Encode_value:
  assumes "map_of vs k = Some xs" and "v \<in> set xs"
  shows "\<exists>a b. Values_Encode vs = a @ QueryEscape v @ b"
proof -
  have "QueryEscape k @ ''='' @ QueryEscape v \<in> set (concat (map (\<lambda>(k, xs).
      map (\<lambda>v. QueryEscape k @ ''='' @ QueryEscape v) xs) (sort_key fst vs)))"
    using map_of_SomeD [OF assms(1)] assms(2) by force
  from Join_split [OF this, of "''&''"] obtain a b
    where "Values_Encode vs = a @ (QueryEscape k @ ''='' @ QueryEscape v) @ b"
    unfolding Values_Encode_def by blast
  then have "Values_Encode vs = (a @ QueryEscape k @ ''='') @ QueryEscape v @ b" by simp
  then show ?thesis by blast
qed

lemma url_String_query: "\<exists>a b. url_String u = a @ url_RawQuery u @ b"
proof (cases "url_RawQuery u = []")
  case False
  then have "url_String u = (url_before_query u @ ''?'') @ url_RawQuery u
      @ (if url_Fragment u \<noteq> [] then ''#'' @ escape EncodeFragment (url_Fragment u) else [])"
    by (simp add: url_String_def)
  then show ?thesis by blast
qed (auto intro: exI [of _ "[]"])

text \<open>A text in the query is a text in the URL.\<close>

lemma url_String_value:
  assumes "map_of vs k = Some xs" and "v \<in> set xs" and "QueryEscape v = v" and "url_RawQuery u = Values_Encode vs"
  shows "\<exists>a b. url_String u = a @ v @ b"
proof -
  obtain a b where "Values_Encode vs = a @ v @ b" using Values_Encode_value [OF assms(1,2)] assms(3) by auto
  moreover obtain c d where "url_String u = c @ url_RawQuery u @ d" using url_String_query by blast
  ultimately have "url_String u = (c @ a) @ v @ (b @ d)" using assms(4) by simp
  then show ?thesis by blast
qed

section \<open>Reading a query back\<close>

text \<open>
  What \<^verbatim>\<open>Encode\<close> writes, \<^verbatim>\<open>ParseQuery\<close> reads back: each key has its values again, in their order.
\<close>

lemma upper_hex_plain: "n < 16 \<Longrightarrow> is_alnum (upper_hex n)"
  by (auto simp: upper_hex_def is_alnum_def Let_def of_char_of)

lemma QueryEscape_plain:
  assumes "c \<in> set (QueryEscape s)"
  shows "c \<noteq> CHR ''&'' \<and> c \<noteq> CHR '';'' \<and> c \<noteq> CHR ''=''"
proof -
  obtain x where x: "c \<in> set (escape_char EncodeQueryComponent x)"
    using assms by (auto simp: QueryEscape_def escape_def)
  have hex: "of_char x div 16 < (16 :: nat)" "of_char x mod 16 < (16 :: nat)"
    using nat_of_char_less_256 [of x] by linarith+
  have "c = CHR ''+'' \<or> c = CHR ''%'' \<or> is_alnum c \<or> \<not> shouldEscape EncodeQueryComponent c"
    using x upper_hex_plain [OF hex(1)] upper_hex_plain [OF hex(2)]
    by (cases "x = CHR '' ''"; cases "shouldEscape EncodeQueryComponent x") (auto simp add: escape_char_def)
  moreover have "\<not> is_alnum y \<and> shouldEscape EncodeQueryComponent y" if "y \<in> {CHR ''&'', CHR '';'', CHR ''=''}" for y
    using that by (auto simp: shouldEscape_def is_alnum_def)
  ultimately show ?thesis by blast
qed

lemma cut_append: "c \<notin> set s \<Longrightarrow> cut c (s @ c # t) = (s, t)"
proof -
  assume "c \<notin> set s"
  then have "takeWhile (\<lambda>x. x \<noteq> c) (s @ c # t) = s" "dropWhile (\<lambda>x. x \<noteq> c) (s @ c # t) = c # t"
    by (induction s) auto
  then show ?thesis by (simp add: cut_def)
qed

definition query_pairs :: "url_values \<Rightarrow> (string \<times> string) list" where
  "query_pairs vs = concat (map (\<lambda>(k, xs). map (Pair k) xs) (sort_key fst vs))"

lemma Values_Encode_pairs:
  "Values_Encode vs = Join (map (\<lambda>(k, v). QueryEscape k @ ''='' @ QueryEscape v) (query_pairs vs)) ''&''"
  unfolding Values_Encode_def query_pairs_def map_concat map_map comp_def by (simp add: case_prod_unfold comp_def)

lemma split_on_Join:
  "xs \<noteq> [] \<Longrightarrow> \<forall>x \<in> set xs. c \<notin> set x \<Longrightarrow> split_on c (Join xs [c]) = xs"
  by (induction xs "[c]" rule: Join.induct) (simp_all add: split_on_none split_on_append)

lemma set_Join: "set (Join xs sep) \<subseteq> \<Union> (set ` set xs) \<union> set sep"
  by (induction xs sep rule: Join.induct) auto

lemma ParseQuery_pairs: "ParseQuery (Values_Encode vs) = fold (\<lambda>(k, v). Values_Add k v) (query_pairs vs) []"
proof (cases "query_pairs vs = []")
  case True
  then show ?thesis by (simp add: Values_Encode_pairs ParseQuery_def query_piece_def)
next
  case False
  let ?piece = "\<lambda>(k, v). QueryEscape k @ ''='' @ QueryEscape v"
  have "CHR '';'' \<notin> set (Values_Encode vs)"
    using set_Join [of "map ?piece (query_pairs vs)" "''&''"] QueryEscape_plain
    unfolding Values_Encode_pairs by fastforce
  then have semi: "map (\<lambda>c. if c = CHR '';'' then CHR ''&'' else c) (Values_Encode vs) = Values_Encode vs"
    by (intro map_idI) auto
  have "split_on (CHR ''&'') (Values_Encode vs) = map ?piece (query_pairs vs)"
    unfolding Values_Encode_pairs using False QueryEscape_plain by (intro split_on_Join) fastforce+
  moreover have "query_piece (?piece p) = (case p of (k, v) \<Rightarrow> Values_Add k v)" for p
  proof -
    obtain k v where p: "p = (k, v)" by fastforce
    have "CHR ''='' \<notin> set (QueryEscape k)" using QueryEscape_plain by blast
    then have "cut (CHR ''='') (QueryEscape k @ ''='' @ QueryEscape v) = (QueryEscape k, QueryEscape v)"
      by (simp add: cut_append)
    then show ?thesis by (auto simp: p query_piece_def QueryEscape_def unescape_escape)
  qed
  ultimately show ?thesis unfolding ParseQuery_def semi by (simp add: fold_map comp_def)
qed

lemma fold_Values_Add:
  "map_of (fold (\<lambda>(k, v). Values_Add k v) ps acc) k =
     (let l = map snd (filter (\<lambda>p. fst p = k) ps) in
      if l = [] then map_of acc k else Some ((case map_of acc k of None \<Rightarrow> [] | Some l0 \<Rightarrow> l0) @ l))"
  by (induction ps arbitrary: acc) (auto simp: Values_Add_def Let_def split: option.splits)

lemma filter_query_pairs:
  assumes "distinct (map fst vs)"
  shows "map snd (filter (\<lambda>p. fst p = k) (query_pairs vs)) = (case map_of vs k of None \<Rightarrow> [] | Some xs \<Rightarrow> xs)"
proof -
  have "map snd (filter (\<lambda>p. fst p = k) (concat (map (\<lambda>(k, xs). map (Pair k) xs) us)))
      = (case map_of us k of None \<Rightarrow> [] | Some xs \<Rightarrow> xs)" if "distinct (map fst us)" for us :: url_values
    using that
  proof (induction us)
    case (Cons u us)
    obtain k' xs where u: "u = (k', xs)" by fastforce
    show ?case
    proof (cases "k' = k")
      case True
      then have "map_of us k = None" using Cons.prems u by (auto simp: map_of_eq_None_iff)
      then show ?thesis using Cons True u by (simp add: comp_def)
    next
      case False
      then show ?thesis using Cons u by (simp add: filter_map comp_def)
    qed
  qed simp
  moreover have sorted: "distinct (map fst (sort_key fst vs))"
    using assms by (simp add: distinct_map)
  moreover have "map_of (sort_key fst vs) = map_of vs"
    using map_of_inject_set [OF sorted assms] by simp
  ultimately show ?thesis unfolding query_pairs_def by metis
qed

lemma ParseQuery_Encode:
  assumes "distinct (map fst vs)" and "map_of vs k \<noteq> Some []"
  shows "map_of (ParseQuery (Values_Encode vs)) k = map_of vs k"
  unfolding ParseQuery_pairs fold_Values_Add filter_query_pairs [OF assms(1)]
  using assms(2) by (cases "map_of vs k") auto

text \<open>A pair of a key and a value stays in a query that is extended, and in one that is written and read again.\<close>

definition has_value :: "url_values \<Rightarrow> string \<Rightarrow> string \<Rightarrow> bool" where
  "has_value vs k v \<longleftrightarrow> distinct (map fst vs) \<and> (\<exists>xs. map_of vs k = Some xs \<and> v \<in> set xs)"

lemma distinct_Adds: "distinct (map fst vs) \<Longrightarrow> distinct (map fst (Values_Adds ps vs))"
  unfolding Values_Adds_def by (induction ps arbitrary: vs) (auto simp: Values_Add_def)

lemma distinct_ParseQuery: "distinct (map fst (ParseQuery query))"
proof -
  have "distinct (map fst vs) \<Longrightarrow> distinct (map fst (fold query_piece ps vs))" for ps vs
    by (induction ps arbitrary: vs)
      (auto simp: query_piece_def Values_Add_def split: sum.splits prod.splits)
  then show ?thesis unfolding ParseQuery_def by simp
qed

lemma has_value_Adds:
  assumes "distinct (map fst vs)" and "(k, v) \<in> set ps \<or> has_value vs k v"
  shows "has_value (Values_Adds ps vs) k v"
proof -
  let ?l = "map snd (filter (\<lambda>p. fst p = k) ps)"
  have "(k, v) \<in> set ps \<Longrightarrow> v \<in> set ?l" by force
  then have "\<exists>xs. map_of (Values_Adds ps vs) k = Some xs \<and> v \<in> set xs"
    using assms(2) unfolding Values_Adds_def fold_Values_Add Let_def has_value_def
    by (cases "?l = []") auto
  then show ?thesis using distinct_Adds [OF assms(1)] by (simp add: has_value_def)
qed

lemma has_value_reread:
  assumes "has_value vs k v"
  shows "has_value (ParseQuery (Values_Encode vs)) k v"
proof -
  obtain xs where vs: "distinct (map fst vs)" "map_of vs k = Some xs" "v \<in> set xs"
    using assms by (auto simp: has_value_def)
  then have "map_of (ParseQuery (Values_Encode vs)) k = Some xs"
    using ParseQuery_Encode [of vs k] by (cases xs) auto
  then show ?thesis using vs distinct_ParseQuery by (auto simp: has_value_def)
qed

end
