(* ===== verification/Hosting.thy ===== *)
theory Hosting
  imports Lego Url Http01
begin

text \<open>
  What the DNS providers of the hosting services share: how they build HTTP requests and read replies
  (\<^verbatim>\<open>net/http\<close>, \<^verbatim>\<open>encoding/json\<close>), the Go maps in which they remember records between \<^verbatim>\<open>Present\<close> and
  \<^verbatim>\<open>CleanUp\<close>, and the contract the dns-01 solver relies on.

  The HTTP client of a configuration is its timeout; what it does with a request is the parameter
  \<open>httpDo\<close>.  A body that cannot be read to the end is read as an error; where the code ignores that error,
  as the empty text.  The mutexes guard maps that only one challenge at a time uses, because the prober
  presents and cleans up one challenge after the other.  Log lines are left out.

  The locale \<open>offering\<close> is the interface between package \<^verbatim>\<open>dns01\<close> and a provider, \<open>hosting\<close> that of a provider
  which never finds the record at the service already; \<open>remembering\<close> extends it for the providers that keep the
  identifier of the record they created under the token of the challenge.  The theory of each provider
  interprets them for its model.
\<close>

section \<open>Requests\<close>

definition NewRequest :: "env \<Rightarrow> string \<Rightarrow> string \<Rightarrow> string option \<Rightarrow> goerror + http_request" where
  "NewRequest e method uri body =
     (case newRequestErr e method uri of
        Some err \<Rightarrow> Inl err
      | None \<Rightarrow> Inr \<lparr>req_Method = method, req_URL = uri, req_Header = [],
          req_Body = (case body of None \<Rightarrow> NoBody | Some b \<Rightarrow> RawBody b)\<rparr>)"

definition Header_Set :: "string \<Rightarrow> string \<Rightarrow> http_request \<Rightarrow> http_request" where
  "Header_Set k v req = req\<lparr>req_Header := put (CanonicalMIMEHeaderKey k) v (req_Header req)\<rparr>"

text \<open>\<^verbatim>\<open>hex.EncodeToString\<close>.\<close>

definition hex_EncodeToString :: "string \<Rightarrow> string" where
  "hex_EncodeToString s =
     concat (map (\<lambda>c. map (\<lambda>n. if n < 10 then char_of (48 + n) else char_of (87 + n))
       [of_char c div 16, of_char c mod (16 :: nat)]) s)"

text \<open>\<^verbatim>\<open>Header.Add\<close> on a key that has no value yet.\<close>

abbreviation Header_Add :: "string \<Rightarrow> string \<Rightarrow> http_request \<Rightarrow> http_request" where
  "Header_Add \<equiv> Header_Set"

text \<open>\<^verbatim>\<open>base64.StdEncoding\<close> and \<^verbatim>\<open>Request.SetBasicAuth\<close>.\<close>

definition std_char :: "nat \<Rightarrow> char" where
  "std_char n = (if n = 62 then CHR ''+'' else if n = 63 then CHR ''/'' else sextet_char n)"

definition StdEncoding :: "string \<Rightarrow> string" where
  "StdEncoding s =
     (let t = map std_char (sextets (map of_char s)) in
      t @ replicate ((4 - length t mod 4) mod 4) (CHR ''=''))"

definition SetBasicAuth :: "string \<Rightarrow> string \<Rightarrow> http_request \<Rightarrow> http_request" where
  "SetBasicAuth username password =
     Header_Set ''Authorization'' (''Basic '' @ StdEncoding (username @ '':'' @ password))"

definition http_Get :: "env \<Rightarrow> string \<Rightarrow> (world, goerror + http_response) go" where
  "http_Get e uri =
     (case NewRequest e ''GET'' uri None of Inl err \<Rightarrow> ret (Inl err) | Inr req \<Rightarrow> http_do e req)"

text \<open>
  A request with headers, sent: what the service answers, or an error.  The functions turn the error of the
  request and the error of the exchange into what the caller returns.
\<close>

definition send_as ::
  "(goerror \<Rightarrow> goerror) \<Rightarrow> (goerror \<Rightarrow> goerror) \<Rightarrow> env \<Rightarrow> string \<Rightarrow> string \<Rightarrow> string option
    \<Rightarrow> (http_request \<Rightarrow> http_request) \<Rightarrow> (world, goerror + http_response) go" where
  "send_as f g e method uri body hdr =
     (case NewRequest e method uri body of
        Inl err \<Rightarrow> ret (Inl (f err))
      | Inr req \<Rightarrow> bind (http_do e (hdr req)) (\<lambda>r. ret (map_sum g (\<lambda>x. x) r)))"

abbreviation send ::
  "env \<Rightarrow> string \<Rightarrow> string \<Rightarrow> string option \<Rightarrow> (http_request \<Rightarrow> http_request)
    \<Rightarrow> (world, goerror + http_response) go" where
  "send \<equiv> send_as (\<lambda>err. err) (\<lambda>err. err)"

text \<open>\<^verbatim>\<open>u, _ := url.Parse(s)\<close> for a constant that parses.\<close>

definition parsed :: "string \<Rightarrow> url" where
  "parsed s = (case url_Parse s of Inr u \<Rightarrow> u | Inl _ \<Rightarrow> zero_url)"

section \<open>Replies\<close>

text \<open>\<^verbatim>\<open>json.Unmarshal\<close> of a text, and \<^verbatim>\<open>json.NewDecoder(body).Decode\<close>, which reads the first value only.\<close>

definition Unmarshal :: "env \<Rightarrow> (json \<Rightarrow> goerror + 'a) \<Rightarrow> string \<Rightarrow> goerror + 'a" where
  "Unmarshal e dec raw =
     (case jsonParse e raw of None \<Rightarrow> Inl (Err ''invalid JSON'') | Some j \<Rightarrow> dec j)"

definition Decode :: "env \<Rightarrow> (json \<Rightarrow> goerror + 'a) \<Rightarrow> goerror + string \<Rightarrow> goerror + 'a" where
  "Decode e dec body =
     (case body of
        Inl err \<Rightarrow> Inl err
      | Inr raw \<Rightarrow> (case jsonStream e raw of None \<Rightarrow> Inl (Err ''invalid JSON'') | Some j \<Rightarrow> dec j))"

text \<open>\<^verbatim>\<open>json.NewEncoder(buf).Encode\<close> ends the text with a newline.\<close>

abbreviation Encode :: "env \<Rightarrow> json \<Rightarrow> string" where
  "Encode e j \<equiv> jsonPrint e j @ [CHR 0x0A]"

text \<open>\<^verbatim>\<open>content, _ := ioutil.ReadAll(body)\<close>\<close>

definition body_text :: "goerror + string \<Rightarrow> string" where
  "body_text body = (case body of Inl _ \<Rightarrow> [] | Inr raw \<Rightarrow> raw)"

definition list_of_json :: "(json \<Rightarrow> goerror + 'a) \<Rightarrow> json \<Rightarrow> goerror + 'a list" where
  "list_of_json dec j = set_list dec j (\<lambda>l. l)"

definition ptr_of_json :: "(json \<Rightarrow> goerror + 'a) \<Rightarrow> json \<Rightarrow> goerror + 'a option" where
  "ptr_of_json dec j = set_ptr dec j (\<lambda>x. x)"

text \<open>\<^verbatim>\<open>json.Unmarshal\<close> of a \<^verbatim>\<open>json.RawMessage\<close>; it is empty when the member was missing.\<close>

definition unmarshal_raw :: "(json \<Rightarrow> goerror + 'a) \<Rightarrow> json option \<Rightarrow> goerror + 'a" where
  "unmarshal_raw dec raw = (case raw of None \<Rightarrow> Inl (Err ''unexpected end of JSON input'') | Some j \<Rightarrow> dec j)"

text \<open>A member of an integer type with the option \<^verbatim>\<open>string\<close>: the number is the text of a JSON string.\<close>

definition set_int_string :: "json \<Rightarrow> (int \<Rightarrow> 'a) \<Rightarrow> 'a \<Rightarrow> goerror + 'a" where
  "set_int_string v upd a =
     (case v of
        JNull \<Rightarrow> Inr a
      | JStr s \<Rightarrow>
          if s = ''null'' then Inr a
          else if HasPrefix s ''+'' then Inl type_error
          else (case Atoi s of None \<Rightarrow> Inl type_error | Some i \<Rightarrow> Inr (upd i))
      | _ \<Rightarrow> Inl type_error)"

text \<open>\<^verbatim>\<open>fmt.Errorf("%w: ...", err)\<close>: the text of the error comes first.\<close>

definition err_then :: "goerror \<Rightarrow> string \<Rightarrow> goerror" where
  "err_then err rest = Err (error_text err @ rest)"

text \<open>\<^verbatim>\<open>return fmt.Errorf(prefix + "%w", err)\<close>, and nil for nil.\<close>

definition wrap_err :: "string \<Rightarrow> (world, goerror option) go \<Rightarrow> (world, goerror option) go" where
  "wrap_err prefix m = bind m (\<lambda>r. ret (map_option (Wrap prefix) r))"

definition wrap_res :: "string \<Rightarrow> (world, goerror + 'a) go \<Rightarrow> (world, goerror + 'a) go" where
  "wrap_res prefix m = bind m (\<lambda>r. ret (map_sum (Wrap prefix) (\<lambda>x. x) r))"

text \<open>\<^verbatim>\<open>x, err := m; if err != nil { return fmt.Errorf(prefix + "%w", err) }\<close> in a function that returns an error.\<close>

definition try_or :: "string \<Rightarrow> (world, goerror + 'a) go \<Rightarrow> ('a \<Rightarrow> (world, goerror option) go)
    \<Rightarrow> (world, goerror option) go" where
  "try_or prefix m k = handle m (\<lambda>err. ret (Some (Wrap prefix err))) k"

text \<open>Errors are passed on as they are.\<close>

abbreviation passing :: "(world, goerror + 'a) go \<Rightarrow> ('a \<Rightarrow> (world, goerror option) go) \<Rightarrow> (world, goerror option) go" where
  "passing m k \<equiv> handle m (\<lambda>err. ret (Some err)) k"

text \<open>
  The functions \<^verbatim>\<open>checkResponse\<close>, \<^verbatim>\<open>sendRequest\<close> and \<^verbatim>\<open>makeRequest\<close> that several clients have in common: a status
  from 400 on is an error, other replies are decoded into a value of the named type, unless nothing is to be
  decoded.  The endpoint is a pointer; \<^verbatim>\<open>Parse\<close> of nil reads its fields.
\<close>

definition checkStatus :: "http_response \<Rightarrow> goerror option" where
  "checkStatus resp =
     (let code = show_int (resp_StatusCode resp) in
      if resp_StatusCode resp < 400 then None
      else
        (case resp_Body resp of
           Inl err \<Rightarrow> Some (Wrap (''unable to read body: status code='' @ code @ '', error='') err)
         | Inr raw \<Rightarrow> Some (Err (''status code='' @ code @ '': '' @ raw))))"

definition sendRequest ::
  "env \<Rightarrow> string \<Rightarrow> http_request \<Rightarrow> (json \<Rightarrow> goerror + 'a) \<Rightarrow> 'a option \<Rightarrow> (world, goerror + 'a) go" where
  "sendRequest e typ req dec nothing =
     check (http_do e req) (\<lambda>resp.
       case checkStatus resp of
         Some err \<Rightarrow> ret (Inl err)
       | None \<Rightarrow>
           (case nothing of
              Some x \<Rightarrow> ret (Inr x)
            | None \<Rightarrow>
                (case resp_Body resp of
                   Inl err \<Rightarrow> ret (Inl err)
                 | Inr raw \<Rightarrow>
                     (case Unmarshal e dec raw of
                        Inl err \<Rightarrow> ret (Inl (Wrap (''unmarshaling '' @ typ @ '' error [status code=''
                                     @ show_int (resp_StatusCode resp) @ '']: '') (err_then err ('': '' @ raw))))
                      | Inr x \<Rightarrow> ret (Inr x)))))"

definition makeRequest ::
  "env \<Rightarrow> url option \<Rightarrow> string \<Rightarrow> string \<Rightarrow> string option \<Rightarrow> (http_request \<Rightarrow> http_request)
    \<Rightarrow> (goerror + http_request) outcome" where
  "makeRequest e endpoint method resource body hdr =
     (case endpoint of
        None \<Rightarrow> Panic ''invalid memory address or nil pointer dereference''
      | Some u \<Rightarrow>
          Return (case url_ParseRef u resource of
             Inl err \<Rightarrow> Inl err
           | Inr uri \<Rightarrow>
               (case NewRequest e method (url_String uri) body of
                  Inl err \<Rightarrow> Inl err
                | Inr req \<Rightarrow> Inr (hdr req))))"

text \<open>Names of the subdomain: \<^verbatim>\<open>strings.Index\<close> and \<^verbatim>\<open>strings.Replace\<close> of one character.\<close>

fun str_index :: "string \<Rightarrow> string \<Rightarrow> nat option" where
  "str_index [] sub = (if sub = [] then Some 0 else None)"
| "str_index (c # s) sub = (if HasPrefix (c # s) sub then Some 0 else map_option Suc (str_index s sub))"

definition replace_char :: "char \<Rightarrow> char \<Rightarrow> string \<Rightarrow> string" where
  "replace_char old new s = map (\<lambda>c. if c = old then new else c) s"

text \<open>\<^verbatim>\<open>strings.Replace(s, old, new, 1)\<close>\<close>

definition replace_first :: "string \<Rightarrow> string \<Rightarrow> string \<Rightarrow> string" where
  "replace_first s old new =
     (case str_index s old of None \<Rightarrow> s | Some i \<Rightarrow> take i s @ new @ drop (i + length old) s)"

definition TrimPrefix :: "string \<Rightarrow> string \<Rightarrow> string" where
  "TrimPrefix s p = (if HasPrefix s p then drop (length p) s else s)"

text \<open>\<^verbatim>\<open>http.StatusText\<close>\<close>

definition StatusText :: "int \<Rightarrow> string" where
  "StatusText code = (case map_of [
     (100, ''Continue''), (101, ''Switching Protocols''), (102, ''Processing''), (103, ''Early Hints''),
     (200, ''OK''), (201, ''Created''), (202, ''Accepted''), (203, ''Non-Authoritative Information''),
     (204, ''No Content''), (205, ''Reset Content''), (206, ''Partial Content''), (207, ''Multi-Status''),
     (208, ''Already Reported''), (226, ''IM Used''), (300, ''Multiple Choices''),
     (301, ''Moved Permanently''), (302, ''Found''), (303, ''See Other''), (304, ''Not Modified''),
     (305, ''Use Proxy''), (307, ''Temporary Redirect''), (308, ''Permanent Redirect''),
     (400, ''Bad Request''), (401, ''Unauthorized''), (402, ''Payment Required''), (403, ''Forbidden''),
     (404, ''Not Found''), (405, ''Method Not Allowed''), (406, ''Not Acceptable''),
     (407, ''Proxy Authentication Required''), (408, ''Request Timeout''), (409, ''Conflict''),
     (410, ''Gone''), (411, ''Length Required''), (412, ''Precondition Failed''),
     (413, ''Request Entity Too Large''), (414, ''Request URI Too Long''), (415, ''Unsupported Media Type''),
     (416, ''Requested Range Not Satisfiable''), (417, ''Expectation Failed''),
     (418, ''I'' @ [CHR 0x27] @ ''m a teapot''), (421, ''Misdirected Request''),
     (422, ''Unprocessable Entity''), (423, ''Locked''), (424, ''Failed Dependency''), (425, ''Too Early''),
     (426, ''Upgrade Required''), (428, ''Precondition Required''), (429, ''Too Many Requests''),
     (431, ''Request Header Fields Too Large''), (451, ''Unavailable For Legal Reasons''),
     (500, ''Internal Server Error''), (501, ''Not Implemented''), (502, ''Bad Gateway''),
     (503, ''Service Unavailable''), (504, ''Gateway Timeout''), (505, ''HTTP Version Not Supported''),
     (506, ''Variant Also Negotiates''), (507, ''Insufficient Storage''), (508, ''Loop Detected''),
     (510, ''Not Extended''), (511, ''Network Authentication Required'')] code of None \<Rightarrow> [] | Some s \<Rightarrow> s)"

section \<open>Maps\<close>

text \<open>A map is allocated at an address; the address is part of the provider.\<close>

definition make_map :: "(world, nat) go" where
  "make_map =
     bind (gets (\<lambda>w. length (w_maps w))) (\<lambda>a.
       bind (modify (\<lambda>w. w\<lparr>w_maps := w_maps w @ [[]]\<rparr>)) (\<lambda>_. ret a))"

definition map_at :: "nat \<Rightarrow> world \<Rightarrow> (string \<times> cell) list" where
  "map_at a w = (if a < length (w_maps w) then w_maps w ! a else [])"

definition map_get :: "nat \<Rightarrow> string \<Rightarrow> (world, cell option) go" where
  "map_get a k = gets (\<lambda>w. map_of (map_at a w) k)"

definition map_set :: "nat \<Rightarrow> string \<Rightarrow> cell \<Rightarrow> (world, unit) go" where
  "map_set a k v = modify (\<lambda>w. w\<lparr>w_maps := (w_maps w)[a := put k v (map_at a w)]\<rparr>)"

definition map_delete :: "nat \<Rightarrow> string \<Rightarrow> (world, unit) go" where
  "map_delete a k = modify (\<lambda>w. w\<lparr>w_maps := (w_maps w)[a := filter (\<lambda>(x, _). x \<noteq> k) (map_at a w)]\<rparr>)"

definition entry :: "nat \<Rightarrow> string \<Rightarrow> world \<Rightarrow> cell option" where
  "entry a k w = map_of (map_at a w) k"

definition allocated :: "nat \<Rightarrow> world \<Rightarrow> bool" where
  "allocated a w \<longleftrightarrow> a < length (w_maps w)"

lemma map_of_delete: "map_of (filter (\<lambda>(x, _). x \<noteq> k) m) j = (if j = k then None else map_of m j)"
  by (induction m) auto

lemma map_at_set [simp]: "allocated a w \<Longrightarrow> map_at a (w\<lparr>w_maps := (w_maps w)[a := m]\<rparr>) = m"
  by (simp add: map_at_def allocated_def)

lemma run_map_get [go_simps]: "map_get a k w = (Return (entry a k w), w)"
  by (simp add: map_get_def entry_def)

lemma run_map_set [go_simps]:
  "map_set a k v w = (Return (), w\<lparr>w_maps := (w_maps w)[a := put k v (map_at a w)]\<rparr>)"
  by (simp add: map_set_def)

lemma run_map_delete [go_simps]:
  "map_delete a k w = (Return (), w\<lparr>w_maps := (w_maps w)[a := filter (\<lambda>(x, _). x \<noteq> k) (map_at a w)]\<rparr>)"
  by (simp add: map_delete_def)

lemma entry_set:
  "allocated a w \<Longrightarrow> entry a j (w\<lparr>w_maps := (w_maps w)[a := put k v (map_at a w)]\<rparr>)
     = (if j = k then Some v else entry a j w)"
  by (simp add: entry_def)

lemma entry_delete:
  "allocated a w \<Longrightarrow> entry a j (w\<lparr>w_maps := (w_maps w)[a := filter (\<lambda>(x, _). x \<noteq> k) (map_at a w)]\<rparr>)
     = (if j = k then None else entry a j w)"
  by (simp add: entry_def map_of_delete)

text \<open>
  The end of \<^verbatim>\<open>CleanUp\<close> of a provider that remembers: look the token up, give up when it is not there, remove
  what it stands for, and forget it.
\<close>

definition remove_remembered ::
  "nat \<Rightarrow> string \<Rightarrow> goerror \<Rightarrow> (cell \<Rightarrow> (world, goerror option) go) \<Rightarrow> (world, goerror option) go" where
  "remove_remembered a token unknown remove =
     bind (map_get a token) (\<lambda>found.
       case found of
         None \<Rightarrow> ret (Some unknown)
       | Some c \<Rightarrow> check_err (remove c) (bind (map_delete a token) (\<lambda>_. ret None)))"

text \<open>The value of a cell of the type its map has.\<close>

fun cell_int :: "cell \<Rightarrow> int" where
  "cell_int (IntCell i) = i"
| "cell_int _ = 0"

fun cell_str :: "cell \<Rightarrow> string" where
  "cell_str (StrCell s) = s"
| "cell_str _ = []"

text \<open>A field of an object that several calls share, of a text type; it is empty at first.\<close>

definition str_field :: "nat \<Rightarrow> string \<Rightarrow> (world, string) go" where
  "str_field a k = bind (map_get a k) (\<lambda>v. ret (case v of None \<Rightarrow> [] | Some x \<Rightarrow> cell_str x))"

section \<open>Configurations\<close>

record host_config =
  hcf_PropagationTimeout :: int
  hcf_PollingInterval :: int
  hcf_HTTPTimeout :: int

record ttl_config = host_config +
  hcf_TTL :: int

definition Minute :: int where "Minute = 60 * Second"

text \<open>The error of a time to live below the minimum of the service.\<close>

definition ttl_error :: "string \<Rightarrow> int \<Rightarrow> int \<Rightarrow> goerror" where
  "ttl_error pkg ttl minTTL =
     Err (pkg @ '': invalid TTL, TTL ('' @ show_int ttl @ '') must be greater than '' @ show_int minTTL)"

definition nil_config :: "string \<Rightarrow> goerror" where
  "nil_config pkg = Err (pkg @ '': the configuration of the DNS provider is nil'')"

definition env_value :: "(string \<times> string) list \<Rightarrow> string \<Rightarrow> string" where
  "env_value values k = (case map_of values k of None \<Rightarrow> [] | Some v \<Rightarrow> v)"

section \<open>What a provider may do\<close>

lemma Header_Set_body [simp]:
  "req_Body (Header_Set k v req) = req_Body req" "req_URL (Header_Set k v req) = req_URL req"
  "req_Method (Header_Set k v req) = req_Method req"
  by (simp_all add: Header_Set_def)

lemma SetBasicAuth_body [simp]:
  "req_Body (SetBasicAuth u p req) = req_Body req" "req_URL (SetBasicAuth u p req) = req_URL req"
  "req_Method (SetBasicAuth u p req) = req_Method req"
  by (simp_all add: SetBasicAuth_def)

context lookup_invariant
begin

lemma always_http_plain:
  assumes "NewRequest e method uri body = Inr req0" and "req_Body req = req_Body req0"
  shows "always R (http_do e req)"
proof (rule always_plain_http)
  show "req_Body req \<noteq> JoseBody m" for m
    using assms by (auto simp: NewRequest_def split: option.splits)
qed

lemma always_sendRequest [always_intros]:
  "(\<And>m. req_Body req \<noteq> JoseBody m) \<Longrightarrow> always R (sendRequest e typ req dec nothing)"
  unfolding sendRequest_def by (intro always_intros always_plain_http) auto

lemma always_http_Get [always_intros]: "always R (http_Get e uri)"
  unfolding http_Get_def by (intro always_intros always_http_plain) simp_all

lemma always_send [always_intros]:
  "(\<And>req. req_Body (hdr req) = req_Body req) \<Longrightarrow> always R (send_as f g e method uri body hdr)"
  unfolding send_as_def by (intro always_intros always_http_plain) simp_all

lemma always_check_outcome:
  "(\<And>x. r = Return (Inr x) \<Longrightarrow> always R (k x)) \<Longrightarrow> always R (check (outcome_of r) k)"
  by (auto simp: check_def handle_def always_def bind_def step_refl split: outcome.splits sum.splits prod.splits)

lemma always_wrap [always_intros]:
  "always R m \<Longrightarrow> always R (wrap_err s m)" "always R m' \<Longrightarrow> always R (wrap_res s m')"
  unfolding wrap_err_def wrap_res_def by (intro always_intros; assumption)+

lemma always_try_or [always_intros]:
  "always R m \<Longrightarrow> (\<And>x. always R (k x)) \<Longrightarrow> always R (try_or s m k)"
  unfolding try_or_def by (intro always_intros)

end

context plain_invariant
begin

lemma always_maps [always_intros]:
  "always R make_map" "always R (map_get a k)" "always R (map_set a k v)" "always R (map_delete a k)"
  unfolding make_map_def map_get_def map_set_def map_delete_def
  by (intro always_intros always_modify maps_step)+

lemma always_str_field [always_intros]: "always R (str_field a k)"
  unfolding str_field_def by (intro always_intros)

lemma always_remove_remembered [always_intros]:
  "(\<And>c. always R (remove c)) \<Longrightarrow> always R (remove_remembered a token unknown remove)"
  unfolding remove_remembered_def by (intro always_intros)

lemma provider_keepsI:
  "(\<And>d t k. always R (present d t k)) \<Longrightarrow> (\<And>d t k. always R (cleanup d t k)) \<Longrightarrow>
   provider_keeps R \<lparr>prov_Present = present, prov_CleanUp = cleanup, prov_Timeout = to, prov_Sequential = sq\<rparr>"
  by (simp add: provider_keeps_def)

end

lemma NewRequest_Inr:
  "NewRequest e method uri body = Inr req \<longleftrightarrow>
     newRequestErr e method uri = None
     \<and> req = \<lparr>req_Method = method, req_URL = uri, req_Header = [],
         req_Body = (case body of None \<Rightarrow> NoBody | Some b \<Rightarrow> RawBody b)\<rparr>"
  by (auto simp: NewRequest_def split: option.splits)

lemma wrap_err_Return_eq:
  "wrap_err s m w = (Return r, t) \<longleftrightarrow> (\<exists>q. m w = (Return q, t) \<and> r = map_option (Wrap s) q)"
  by (auto simp: wrap_err_def bind_Return_eq)

lemma wrap_res_Return_eq:
  "wrap_res s m w = (Return r, t) \<longleftrightarrow> (\<exists>q. m w = (Return q, t) \<and> r = map_sum (Wrap s) (\<lambda>x. x) q)"
  by (auto simp: wrap_res_def bind_Return_eq)

lemma try_or_Return_eq:
  "try_or s m k w = (Return r, t) \<longleftrightarrow>
     (\<exists>err. m w = (Return (Inl err), t) \<and> r = Some (Wrap s err))
     \<or> (\<exists>x u. m w = (Return (Inr x), u) \<and> k x u = (Return r, t))"
  by (auto simp: try_or_def handle_Return_eq)

lemma http_Get_Inr:
  "http_Get e uri w = (Return (Inr resp), t) \<longleftrightarrow>
     (\<exists>req. NewRequest e ''GET'' uri None = Inr req \<and> http_do e req w = (Return (Inr resp), t))"
  by (auto simp: http_Get_def split: sum.splits)

lemma map_sum_Inr_iff: "map_sum f (\<lambda>x. x) q = Inr y \<longleftrightarrow> q = Inr y"
  by (cases q) auto

lemma Inr_map_sum_iff: "Inr y = map_sum f (\<lambda>x. x) q \<longleftrightarrow> q = Inr y"
  by (cases q) auto

lemma map_sum_eq_Inr: "map_sum f g q = Inr y \<longleftrightarrow> (\<exists>x. q = Inr x \<and> y = g x)"
  by (cases q) auto

text \<open>Successful runs, taken apart.\<close>

lemmas host_runs = Return_eqs wrap_err_Return_eq wrap_res_Return_eq try_or_Return_eq http_Get_Inr
  map_sum_Inr_iff Inr_map_sum_iff

lemma run_cases:
  "(case x of Inl a \<Rightarrow> f a | Inr b \<Rightarrow> g b) w = y \<longleftrightarrow> (\<exists>a. x = Inl a \<and> f a w = y) \<or> (\<exists>b. x = Inr b \<and> g b w = y)"
  "(case z of None \<Rightarrow> h | Some c \<Rightarrow> k c) w = y \<longleftrightarrow> z = None \<and> h w = y \<or> (\<exists>c. z = Some c \<and> k c w = y)"
  "(if b then m else n) w = y \<longleftrightarrow> b \<and> m w = y \<or> \<not> b \<and> n w = y"
  by (auto split: sum.split option.split)

section \<open>What happened\<close>

text \<open>The event is new since \<open>s\<close>.\<close>

definition happened :: "world \<Rightarrow> world \<Rightarrow> event \<Rightarrow> bool" where
  "happened s t ev \<longleftrightarrow> ev \<in> set (drop (length (w_trace s)) (w_trace t))"

lemma happened_http:
  "http_do e req s = (Return (Inr resp), t) \<Longrightarrow> happened s t (EvHttp req (Inr resp))"
  by (auto simp: run_http_do happened_def)

lemma happened_within:
  assumes "happened u v ev" and "grows s u" and "grows v t"
  shows "happened s t ev"
proof -
  obtain evs evs' where u: "w_trace u = w_trace s @ evs" and t: "w_trace t = w_trace v @ evs'"
    using assms(2,3) by (auto simp: grows_def)
  have "set (drop (length (w_trace u)) (w_trace v)) \<subseteq> set (drop (length (w_trace s)) (w_trace v))"
    by (rule set_drop_subset_set_drop) (simp add: u)
  then show ?thesis using assms(1) by (auto simp: happened_def t)
qed

lemma happened_step:
  assumes "http_do e req u = (Return (Inr resp), v)" and "grows s u" and "grows v t"
  shows "happened s t (EvHttp req (Inr resp))"
  using happened_within [OF happened_http [OF assms(1)] assms(2,3)] .

text \<open>The strings a JSON value holds.\<close>

fun json_strings :: "json \<Rightarrow> string list" where
  "json_strings (JStr s) = [s]"
| "json_strings (JArr js) = concat (map json_strings js)"
| "json_strings (JObj ms) = concat (map (\<lambda>m. json_strings (snd m)) ms)"
| "json_strings _ = []"

text \<open>
  The request carries the text: in its URL, in its body, or in a string of the JSON value that was encoded
  as its body or as a parameter of its query.
\<close>

definition carries :: "env \<Rightarrow> string \<Rightarrow> http_request \<Rightarrow> bool" where
  "carries e txt req \<longleftrightarrow>
     (\<exists>a b. req_URL req = a @ txt @ b)
     \<or> (\<exists>a b c d j. req_URL req = a @ QueryEscape (jsonPrint e j) @ b \<and> c @ txt @ d \<in> set (json_strings j))
     \<or> (\<exists>body. req_Body req = RawBody body \<and>
          ((\<exists>a b. body = a @ txt @ b)
           \<or> (\<exists>j tail. body = jsonPrint e j @ tail \<and> (\<exists>s \<in> set (json_strings j). \<exists>a b. s = a @ txt @ b))))"

definition delivers :: "env \<Rightarrow> string \<Rightarrow> event \<Rightarrow> bool" where
  "delivers e txt ev \<longleftrightarrow>
     (case ev of
        EvHttp req (Inr resp) \<Rightarrow> carries e txt req
      | EvExec program args res \<Rightarrow> txt \<in> set args
      | _ \<Rightarrow> False)"

lemma carries_Nil [simp]: "carries e [] req"
  unfolding carries_def by (intro disjI1 exI [of _ "req_URL req"] exI [of _ "[]"]) simp

lemma carries_json_within:
  assumes "req_Body req = RawBody (jsonPrint e j @ tail)" and "a @ txt @ b \<in> set (json_strings j)"
  shows "carries e txt req"
  using assms unfolding carries_def by blast

lemma carries_json_line:
  assumes "req_Body req = RawBody (jsonPrint e j @ tail)" and "txt \<noteq> [] \<Longrightarrow> txt \<in> set (json_strings j)"
  shows "carries e txt req"
  using assms carries_json_within [of req e j tail "[]" "txt" "[]"] by (cases "txt = []") auto

lemma carries_json:
  assumes "req_Body req = RawBody (jsonPrint e j)" and "txt \<noteq> [] \<Longrightarrow> txt \<in> set (json_strings j)"
  shows "carries e txt req"
  using assms carries_json_line [of req e j "[]"] by simp

lemma carries_Header [simp]:
  "carries e txt (Header_Set k v req) \<longleftrightarrow> carries e txt req"
  "carries e txt (SetBasicAuth user pass req) \<longleftrightarrow> carries e txt req"
  by (simp_all add: carries_def)

lemma carries_body: "req_Body req = RawBody (a @ txt @ b) \<Longrightarrow> carries e txt req"
  unfolding carries_def by blast

lemma carries_url: "req_URL req = a @ txt @ b \<Longrightarrow> carries e txt req"
  unfolding carries_def by blast

lemma carries_query_json:
  assumes "has_value vs k (jsonPrint e j)" and "url_RawQuery u = Values_Encode vs" and "req_URL req = url_String u"
    and "c @ txt @ d \<in> set (json_strings j)"
  shows "carries e txt req"
proof -
  obtain a b where "Values_Encode vs = a @ QueryEscape (jsonPrint e j) @ b"
    using assms(1) Values_Encode_value unfolding has_value_def by blast
  moreover obtain a' b' where "url_String u = a' @ url_RawQuery u @ b'" using url_String_query by blast
  ultimately have "req_URL req = (a' @ a) @ QueryEscape (jsonPrint e j) @ (b @ b')" using assms(2,3) by simp
  then show ?thesis using assms(4) unfolding carries_def by blast
qed

lemmas json_text = omit_str_def omit_int_def omit_bool_def omit_list_def omit_ptr_def

text \<open>The text of the TXT record of a challenge.\<close>

definition record_value :: "env \<Rightarrow> string \<Rightarrow> string" where
  "record_value e keyAuth = base64_encode (sha256 e keyAuth)"

lemma GetRecord_value:
  "GetRecord e domain keyAuth w = (Return (fqdn, value), t) \<Longrightarrow> value = record_value e keyAuth"
  by (auto simp: GetRecord_def record_value_def Let_def bind_Return_eq split: if_splits prod.splits option.splits)

lemma record_value_base64: "list_all is_base64 (record_value e keyAuth)"
proof -
  have "is_base64 (sextet_char n)" if "n < 64" for n
    using sextet_char_code [OF that] that by (auto simp: is_base64_def is_alnum_def Let_def sextet_char_def)
  moreover have "\<forall>x \<in> set (sextets (map of_char s)). x < 64" for s
    by (rule sextets_bound) simp
  ultimately show ?thesis by (auto simp: record_value_def base64_encode_def list_all_iff)
qed

lemmas escape_record_value [simp] = escape_base64 [OF record_value_base64]

lemma QueryEscape_record_value [simp]: "QueryEscape (record_value e keyAuth) = record_value e keyAuth"
  by (simp add: QueryEscape_def)

section \<open>Runs that reach the service\<close>

text \<open>
  \<open>ensures Q P m\<close>: whenever \<open>m\<close> returns a value that satisfies \<open>Q\<close>, an event that satisfies \<open>P\<close> happened while
  it ran.  The rules follow the shape of the code: the event may come from the part that has been read so
  far, or from the part still to come.
\<close>

definition ensures :: "('a \<Rightarrow> bool) \<Rightarrow> (event \<Rightarrow> bool) \<Rightarrow> (world, 'a) go \<Rightarrow> bool" where
  "ensures Q P m \<longleftrightarrow> (\<forall>s x t. m s = (Return x, t) \<longrightarrow> Q x \<longrightarrow> (\<exists>ev. happened s t ev \<and> P ev))"

named_theorems ensures_intros \<open>rules for runs that reach the service\<close>

abbreviation is_nil :: "'e option \<Rightarrow> bool" where "is_nil r \<equiv> r = None"
abbreviation is_ok :: "'e + 'a \<Rightarrow> bool" where "is_ok r \<equiv> \<not> isl r"

lemma ensuresD: "ensures Q P m \<Longrightarrow> m s = (Return x, t) \<Longrightarrow> Q x \<Longrightarrow> \<exists>ev. happened s t ev \<and> P ev"
  unfolding ensures_def by blast

lemma ensures_mono: "ensures Q P m \<Longrightarrow> (\<And>ev. P ev \<Longrightarrow> P' ev) \<Longrightarrow> ensures Q P' m"
  unfolding ensures_def by blast

lemma ensures_ret [ensures_intros]: "\<not> Q x \<Longrightarrow> ensures Q P (ret x)"
  by (simp add: ensures_def)

lemma ensures_panic [ensures_intros]: "ensures Q P (panic m)"
  by (simp add: ensures_def)

lemma ensures_later:
  assumes "always grows m" and "\<And>x. ensures Q P (k x)"
  shows "ensures Q P (bind m k)"
  unfolding ensures_def
proof (intro allI impI)
  fix s y t
  assume "bind m k s = (Return y, t)" "Q y"
  then obtain x u where m: "m s = (Return x, u)" and k: "k x u = (Return y, t)" by (auto simp: bind_Return_eq)
  obtain ev where "happened u t ev" "P ev" using ensuresD [OF assms(2) k \<open>Q y\<close>] by blast
  then show "\<exists>ev. happened s t ev \<and> P ev"
    using happened_within alwaysD [OF assms(1) m] growth.step_refl by blast
qed

text \<open>The first part shows the event when its value satisfies \<open>A\<close>; otherwise the rest has to.\<close>

lemma ensures_first:
  assumes "ensures A P m" and "\<And>x. always grows (k x)" and "\<And>x. \<not> A x \<Longrightarrow> ensures Q P (k x)"
    and "always grows m"
  shows "ensures Q P (bind m k)"
  unfolding ensures_def
proof (intro allI impI)
  fix s y t
  assume "bind m k s = (Return y, t)" "Q y"
  then obtain x u where m: "m s = (Return x, u)" and k: "k x u = (Return y, t)" by (auto simp: bind_Return_eq)
  have su: "grows s u" and ut: "grows u t" using alwaysD [OF assms(4) m] alwaysD [OF assms(2) k] .
  show "\<exists>ev. happened s t ev \<and> P ev"
  proof (cases "A x")
    case True
    then show ?thesis using ensuresD [OF assms(1) m] happened_within growth.step_refl ut by blast
  next
    case False
    then show ?thesis using ensuresD [OF assms(3) k \<open>Q y\<close>] happened_within growth.step_refl su by blast
  qed
qed

lemma ensures_handle_later:
  assumes "always grows m" and "\<And>err. ensures Q P (h err)" and "\<And>x. ensures Q P (k x)"
  shows "ensures Q P (handle m h k)"
  unfolding handle_def using assms by (intro ensures_later) (auto split: sum.split)

lemma ensures_handle_first:
  assumes "ensures is_ok P m" and "always grows m" and "\<And>err. ensures Q P (h err)"
    and "\<And>x. always grows (k x)" and "\<And>err. always grows (h err)"
  shows "ensures Q P (handle m h k)"
  unfolding handle_def using assms by (intro ensures_first [of is_ok]) (auto split: sum.split)

lemma ensures_deferring [ensures_intros]:
  assumes "ensures Q P m" and "always grows d"
  shows "ensures Q P (deferring m d)"
  unfolding ensures_def
proof (intro allI impI)
  fix s x t
  assume run: "deferring m d s = (Return x, t)" and "Q x"
  then obtain u y where m: "m s = (Return x, u)" and d: "d u = (y, t)"
    by (auto simp: deferring_def split: outcome.splits prod.splits)
  obtain ev where "happened s u ev" "P ev" using ensuresD [OF assms(1) m \<open>Q x\<close>] by blast
  then show "\<exists>ev. happened s t ev \<and> P ev"
    using happened_within [OF _ growth.step_refl alwaysD [OF assms(2) d]] by blast
qed

lemma ensures_check_later:
  "always grows m \<Longrightarrow> (\<And>x. ensures is_ok P (k x)) \<Longrightarrow> ensures is_ok P (check m k)"
  unfolding check_def by (intro ensures_handle_later ensures_ret) simp_all

lemma ensures_check_first:
  "ensures is_ok P m \<Longrightarrow> always grows m \<Longrightarrow> (\<And>x. always grows (k x)) \<Longrightarrow> ensures is_ok P (check m k)"
  unfolding check_def by (intro ensures_handle_first ensures_ret growth.always_ret) simp_all

lemma ensures_check_outcome:
  "(\<And>x. r = Return (Inr x) \<Longrightarrow> ensures is_ok P (k x)) \<Longrightarrow> ensures is_ok P (check (outcome_of r) k)"
  by (auto simp: ensures_def check_def handle_Return_eq)

lemma ensures_try_later:
  "always grows m \<Longrightarrow> (\<And>x. ensures is_nil P (k x)) \<Longrightarrow> ensures is_nil P (try_or s m k)"
  unfolding try_or_def by (intro ensures_handle_later ensures_ret) simp_all

lemma ensures_try_first:
  "ensures is_ok P m \<Longrightarrow> always grows m \<Longrightarrow> (\<And>x. always grows (k x)) \<Longrightarrow> ensures is_nil P (try_or s m k)"
  unfolding try_or_def by (intro ensures_handle_first ensures_ret growth.always_ret) simp_all

lemma ensures_check_err_later:
  "always grows m \<Longrightarrow> ensures is_nil P k \<Longrightarrow> ensures is_nil P (check_err m k)"
  unfolding check_err_def by (intro ensures_later) (auto split: option.split intro: ensures_ret)

lemma ensures_check_err_first:
  "ensures is_nil P m \<Longrightarrow> always grows m \<Longrightarrow> always grows k \<Longrightarrow> ensures is_nil P (check_err m k)"
  unfolding check_err_def
  by (intro ensures_first [of is_nil]) (auto split: option.split intro: ensures_ret growth.always_ret)

lemma ensures_wrap [ensures_intros]:
  "ensures is_nil P m \<Longrightarrow> ensures is_nil P (wrap_err s m)"
  "ensures is_ok P m' \<Longrightarrow> ensures is_ok P (wrap_res s m')"
  by (auto simp: ensures_def wrap_err_Return_eq wrap_res_Return_eq) (metis isl_map_sum)

text \<open>A request: if its reply does not yet settle the matter, the rest has to.\<close>

lemma ensures_http:
  assumes "\<And>err. ensures Q P (h err)" and "\<And>resp. always grows (k resp)"
    and "\<And>resp. \<not> P (EvHttp req (Inr resp)) \<Longrightarrow> ensures Q P (k resp)"
    and "\<And>err. always grows (h err)"
  shows "ensures Q P (handle (http_do e req) h k)"
proof -
  have "ensures (\<lambda>r. \<exists>resp. r = Inr resp \<and> P (EvHttp req (Inr resp))) P (http_do e req)"
    unfolding ensures_def using happened_http by blast
  then show ?thesis
    unfolding handle_def using assms grows_http_do
    by (intro ensures_first [of "\<lambda>r. \<exists>resp. r = Inr resp \<and> P (EvHttp req (Inr resp))"])
      (auto split: sum.split)
qed

lemma ensures_http_check [ensures_intros]:
  assumes "\<And>resp. always grows (k resp)"
    and "\<And>resp. \<not> P (EvHttp req (Inr resp)) \<Longrightarrow> ensures is_ok P (k resp)"
  shows "ensures is_ok P (check (http_do e req) k)"
  unfolding check_def using assms by (intro ensures_http ensures_ret growth.always_ret) simp_all

lemma ensures_http_handle [ensures_intros]:
  assumes "\<And>resp. always grows (k resp)" and "\<And>err. h err \<noteq> None"
    and "\<And>resp. \<not> P (EvHttp req (Inr resp)) \<Longrightarrow> ensures is_nil P (k resp)"
  shows "ensures is_nil P (handle (http_do e req) (\<lambda>err. ret (h err)) k)"
  using assms by (intro ensures_http ensures_ret growth.always_ret) simp_all

lemma ensures_send:
  assumes "\<And>err. ensures Q P (h err)" and "\<And>resp. always grows (k resp)"
    and "\<And>req resp. NewRequest e method uri body = Inr req \<Longrightarrow> \<not> P (EvHttp (hdr req) (Inr resp)) \<Longrightarrow>
      ensures Q P (k resp)"
    and "\<And>err. always grows (h err)"
  shows "ensures Q P (handle (send_as f g e method uri body hdr) h k)"
proof (cases "NewRequest e method uri body")
  case (Inl err)
  then show ?thesis using assms(1) by (simp add: send_as_def handle_def)
next
  case (Inr req)
  have "handle (send_as f g e method uri body hdr) h k = handle (http_do e (hdr req)) (\<lambda>err. h (g err)) k"
    unfolding send_as_def handle_def Inr by (simp add: bind_bind, rule ext)
      (auto simp: bind_def split: outcome.splits prod.splits sum.splits)
  then show ?thesis using assms Inr by (auto intro!: ensures_http)
qed

lemma ensures_send_check [ensures_intros]:
  assumes "\<And>resp. always grows (k resp)"
    and "\<And>req resp. NewRequest e method uri body = Inr req \<Longrightarrow> \<not> P (EvHttp (hdr req) (Inr resp)) \<Longrightarrow>
      ensures is_ok P (k resp)"
  shows "ensures is_ok P (check (send_as f g e method uri body hdr) k)"
  unfolding check_def by (rule ensures_send) (auto intro: ensures_ret growth.always_ret assms)

lemma ensures_send_handle [ensures_intros]:
  assumes "\<And>resp. always grows (k resp)" and "\<And>err. h err \<noteq> None"
    and "\<And>req resp. NewRequest e method uri body = Inr req \<Longrightarrow> \<not> P (EvHttp (hdr req) (Inr resp)) \<Longrightarrow>
      ensures is_nil P (k resp)"
  shows "ensures is_nil P (handle (send_as f g e method uri body hdr) (\<lambda>err. ret (h err)) k)"
  using assms by (intro ensures_send ensures_ret growth.always_ret) simp_all

lemma ensures_send_try [ensures_intros]:
  assumes "\<And>resp. always grows (k resp)"
    and "\<And>req resp. NewRequest e method uri body = Inr req \<Longrightarrow> \<not> P (EvHttp (hdr req) (Inr resp)) \<Longrightarrow>
      ensures is_nil P (k resp)"
  shows "ensures is_nil P (try_or s (send_as f g e method uri body hdr) k)"
  unfolding try_or_def by (rule ensures_send_handle) (simp_all add: assms)

lemma ensures_GetRecord [ensures_intros]:
  assumes "\<And>fqdn. ensures Q P (k fqdn (record_value e keyAuth))"
  shows "ensures Q P (bind (GetRecord e domain keyAuth) (\<lambda>(fqdn, value). k fqdn value))"
  unfolding ensures_def
proof (intro allI impI)
  fix s y t
  assume "bind (GetRecord e domain keyAuth) (\<lambda>(fqdn, value). k fqdn value) s = (Return y, t)" "Q y"
  then obtain fqdn val u where m: "GetRecord e domain keyAuth s = (Return (fqdn, val), u)"
    and k: "k fqdn val u = (Return y, t)" by (auto simp: bind_Return_eq)
  have "ensures Q P (k fqdn val)" using assms GetRecord_value [OF m] by simp
  then obtain ev where "happened u t ev" "P ev" using k \<open>Q y\<close> unfolding ensures_def by blast
  then show "\<exists>ev. happened s t ev \<and> P ev"
    using happened_within alwaysD [OF growing.always_GetRecord m] growth.step_refl by blast
qed

lemma ensures_if [ensures_intros]:
  "(b \<Longrightarrow> ensures Q P m) \<Longrightarrow> (\<not> b \<Longrightarrow> ensures Q P n) \<Longrightarrow> ensures Q P (if b then m else n)"
  by simp

lemma ensures_sum [ensures_intros]:
  "(\<And>a. x = Inl a \<Longrightarrow> ensures Q P (h a)) \<Longrightarrow> (\<And>b. x = Inr b \<Longrightarrow> ensures Q P (k b)) \<Longrightarrow>
   ensures Q P (case x of Inl a \<Rightarrow> h a | Inr b \<Rightarrow> k b)"
  by (cases x) auto

lemma ensures_option [ensures_intros]:
  "(x = None \<Longrightarrow> ensures Q P n) \<Longrightarrow> (\<And>b. x = Some b \<Longrightarrow> ensures Q P (k b)) \<Longrightarrow>
   ensures Q P (case x of None \<Rightarrow> n | Some b \<Rightarrow> k b)"
  by (cases x) auto

lemma ensures_prod [ensures_intros]:
  "(\<And>a b. x = (a, b) \<Longrightarrow> ensures Q P (k a b)) \<Longrightarrow> ensures Q P (case x of (a, b) \<Rightarrow> k a b)"
  by (cases x) auto

text \<open>The lookups in front of a request.\<close>

lemmas ensures_zone [ensures_intros] =
  ensures_check_later [OF growing.always_FindZone]
  ensures_try_later [OF growing.always_FindZone]
  ensures_check_later [OF growing.always_wrap(2) [OF growing.always_FindZone]]
  ensures_try_later [OF growing.always_wrap(2) [OF growing.always_FindZone]]
  ensures_handle_later [OF growing.always_FindZone]
  ensures_handle_later [OF growing.always_wrap(2) [OF growing.always_FindZone]]

text \<open>An exchange whose reply the provider accepts.\<close>

definition answered :: "(http_response \<Rightarrow> bool) \<Rightarrow> event \<Rightarrow> bool" where
  "answered ok ev \<longleftrightarrow> (case ev of EvHttp req (Inr resp) \<Rightarrow> ok resp | _ \<Rightarrow> False)"

abbreviation below_400 :: "http_response \<Rightarrow> bool" where
  "below_400 resp \<equiv> resp_StatusCode resp < 400"

abbreviation status_200 :: "event \<Rightarrow> bool" where
  "status_200 \<equiv> answered (\<lambda>resp. resp_StatusCode resp = 200)"

abbreviation status_201 :: "event \<Rightarrow> bool" where
  "status_201 \<equiv> answered (\<lambda>resp. resp_StatusCode resp = 201)"

definition delivered :: "env \<Rightarrow> string \<Rightarrow> (event \<Rightarrow> bool) \<Rightarrow> event \<Rightarrow> bool" where
  "delivered e txt accepted ev \<longleftrightarrow> accepted ev \<and> delivers e txt ev"

lemma delivered_http [simp]:
  "delivered e txt (answered ok) (EvHttp req (Inr resp)) \<longleftrightarrow> ok resp \<and> carries e txt req"
  by (simp add: delivered_def answered_def delivers_def)

lemma makeRequest_body:
  assumes "makeRequest e endpoint method resource body hdr = Return (Inr req)"
    and "\<And>r. req_Body (hdr r) = req_Body r" and "\<And>r. req_Method (hdr r) = req_Method r"
  shows "req_Body req = (case body of None \<Rightarrow> NoBody | Some b \<Rightarrow> RawBody b) \<and> req_Method req = method"
  using assms by (auto simp: makeRequest_def NewRequest_Inr split: sum.splits option.splits)

lemma sendRequest_sent [ensures_intros]:
  assumes "carries e v req"
  shows "ensures is_ok (delivered e v (answered below_400)) (sendRequest e typ req dec nothing)"
  unfolding sendRequest_def using assms
  by (intro ensures_intros always_intros) (auto simp: checkStatus_def Let_def split: sum.splits)

section \<open>Records remembered by the token of the challenge\<close>

text \<open>
  \<open>forgets a token P m\<close>: \<open>m\<close> fails when the token is unknown; when it succeeds, an event that suits what the
  token stood for happened, and the token is unknown afterwards.
\<close>

definition forgets ::
  "nat \<Rightarrow> string \<Rightarrow> (cell \<Rightarrow> event \<Rightarrow> bool) \<Rightarrow> (world, goerror option) go \<Rightarrow> bool" where
  "forgets a token P m \<longleftrightarrow>
     (\<forall>w r t. m w = (Return r, t) \<longrightarrow> entry a token w = None \<longrightarrow> r \<noteq> None)
     \<and> (\<forall>w t. m w = (Return None, t) \<longrightarrow> allocated a w \<longrightarrow>
          (\<exists>c ev. entry a token w = Some c \<and> happened w t ev \<and> P c ev \<and> entry a token t = None))"

definition remembers :: "nat \<Rightarrow> string \<Rightarrow> (world, goerror option) go \<Rightarrow> bool" where
  "remembers a token m \<longleftrightarrow>
     (\<forall>w t. m w = (Return None, t) \<longrightarrow> allocated a w \<longrightarrow> entry a token t \<noteq> None \<and> allocated a t)"

lemma same_maps_entry: "same_maps s t \<Longrightarrow> entry a k t = entry a k s"
  by (simp add: same_maps_def entry_def map_at_def)

lemma same_maps_allocated: "same_maps s t \<Longrightarrow> allocated a t \<longleftrightarrow> allocated a s"
  by (simp add: same_maps_def allocated_def)

lemma forgets_remove [ensures_intros]:
  assumes "\<And>c. ensures is_nil (P c) (remove c)" and "\<And>c. always same_maps (remove c)"
  shows "forgets a token P (remove_remembered a token unknown remove)"
  unfolding forgets_def
proof (intro conjI allI impI)
  fix w r t
  assume "remove_remembered a token unknown remove w = (Return r, t)" "entry a token w = None"
  then show "r \<noteq> None" by (auto simp: remove_remembered_def go_simps)
next
  fix w t
  assume run: "remove_remembered a token unknown remove w = (Return None, t)" and al: "allocated a w"
  then obtain c u where c: "entry a token w = Some c" and u: "remove c w = (Return None, u)"
    and t: "t = u\<lparr>w_maps := (w_maps u)[a := filter (\<lambda>(x, _). x \<noteq> token) (map_at a u)]\<rparr>"
    by (auto simp: remove_remembered_def bind_Return_eq run_map_get run_map_delete check_err_Return_eq
        split: option.splits)
  have "allocated a u" using same_maps_allocated [OF alwaysD [OF assms(2) u]] al by simp
  then have "entry a token t = None" by (simp add: t entry_delete)
  moreover obtain ev where "happened w u ev" "P c ev" using ensuresD [OF assms(1) u] by blast
  moreover have "happened w t ev" using \<open>happened w u ev\<close> by (simp add: happened_def t)
  ultimately show "\<exists>c ev. entry a token w = Some c \<and> happened w t ev \<and> P c ev \<and> entry a token t = None"
    using c by blast
qed

lemma forgets_bind:
  assumes "always same_maps m" and "always grows m" and "\<And>x. forgets a token P (k x)"
  shows "forgets a token P (bind m k)"
  unfolding forgets_def
proof (intro conjI allI impI)
  fix w r t
  assume "bind m k w = (Return r, t)" "entry a token w = None"
  then show "r \<noteq> None"
    using assms(3) same_maps_entry [OF alwaysD [OF assms(1)]] unfolding forgets_def bind_Return_eq by metis
next
  fix w t
  assume "bind m k w = (Return None, t)" and al: "allocated a w"
  then obtain x u where m: "m w = (Return x, u)" and k: "k x u = (Return None, t)" by (auto simp: bind_Return_eq)
  have same: "same_maps w u" and wu: "grows w u" using alwaysD [OF assms(1) m] alwaysD [OF assms(2) m] .
  obtain c ev where "entry a token u = Some c" "happened u t ev" "P c ev" "entry a token t = None"
    using assms(3) k same_maps_allocated [OF same] al unfolding forgets_def by blast
  then show "\<exists>c ev. entry a token w = Some c \<and> happened w t ev \<and> P c ev \<and> entry a token t = None"
    using same_maps_entry [OF same] happened_within [OF _ wu growth.step_refl] by metis
qed

lemma forgets_fail: "err \<noteq> None \<Longrightarrow> forgets a token P (ret err)"
  by (auto simp: forgets_def)

lemma forgets_handle:
  assumes "always same_maps m" and "always grows m" and "\<And>x. forgets a token P (k x)"
  shows "forgets a token P (handle m (\<lambda>err. ret (Some (f err))) k)"
  unfolding handle_def
  by (intro forgets_bind assms(1,2)) (auto split: sum.split intro: forgets_fail assms(3))

lemmas forgets_try = forgets_handle [where f = "Wrap s" for s, folded try_or_def]

lemma forgets_GetRecord [ensures_intros]:
  assumes "\<And>fqdn value. forgets a token P (k fqdn value)"
  shows "forgets a token P (bind (GetRecord e domain keyAuth) (\<lambda>(fqdn, value). k fqdn value))"
  by (intro forgets_bind maps_kept.always_GetRecord growing.always_GetRecord)
    (auto intro: assms split: prod.split)

lemma forgets_cases [ensures_intros]:
  "forgets a token P (ret (Some err))"
  "(b \<Longrightarrow> forgets a token P m) \<Longrightarrow> (\<not> b \<Longrightarrow> forgets a token P n) \<Longrightarrow> forgets a token P (if b then m else n)"
  "(x = None \<Longrightarrow> forgets a token P m) \<Longrightarrow> (\<And>y. x = Some y \<Longrightarrow> forgets a token P (k y)) \<Longrightarrow>
   forgets a token P (case x of None \<Rightarrow> m | Some y \<Rightarrow> k y)"
  by (auto simp: forgets_fail split: option.split)

lemmas forgets_zone [ensures_intros] = forgets_try [OF maps_kept.always_FindZone growing.always_FindZone]

lemma remembers_set [ensures_intros]: "remembers a token (bind (map_set a token c) (\<lambda>_. ret None))"
  by (auto simp: remembers_def go_simps entry_set) (simp add: allocated_def)

lemma remembers_bind:
  assumes "always same_maps m" and "\<And>x. remembers a token (k x)"
  shows "remembers a token (bind m k)"
  using assms(2) same_maps_allocated [OF alwaysD [OF assms(1)]] unfolding remembers_def bind_Return_eq by metis

lemma remembers_fail: "err \<noteq> None \<Longrightarrow> remembers a token (ret err)"
  by (auto simp: remembers_def)

lemma remembers_handle:
  assumes "always same_maps m" and "\<And>x. remembers a token (k x)"
  shows "remembers a token (handle m (\<lambda>err. ret (Some (f err))) k)"
  unfolding handle_def
  by (intro remembers_bind assms(1)) (auto split: sum.split intro: remembers_fail assms(2))

lemmas remembers_try = remembers_handle [where f = "Wrap s" for s, folded try_or_def]

lemma remembers_cases [ensures_intros]:
  "remembers a token (ret (Some err))"
  "(b \<Longrightarrow> remembers a token m) \<Longrightarrow> (\<not> b \<Longrightarrow> remembers a token n) \<Longrightarrow> remembers a token (if b then m else n)"
  "(x = None \<Longrightarrow> remembers a token m) \<Longrightarrow> (\<And>y. x = Some y \<Longrightarrow> remembers a token (k y)) \<Longrightarrow>
   remembers a token (case x of None \<Rightarrow> m | Some y \<Rightarrow> k y)"
  by (auto simp: remembers_fail split: option.split)

lemma remembers_GetRecord [ensures_intros]:
  assumes "\<And>fqdn value. remembers a token (k fqdn value)"
  shows "remembers a token (bind (GetRecord e domain keyAuth) (\<lambda>(fqdn, value). k fqdn value))"
  by (intro remembers_bind maps_kept.always_GetRecord) (auto intro: assms split: prod.split)

lemmas remembers_zone [ensures_intros] = remembers_try [OF maps_kept.always_FindZone]

section \<open>The interface of a provider\<close>

text \<open>
  The reply reports the text, within a string of the JSON value that was decoded from its body; an empty text is
  everywhere.
\<close>

definition reported :: "env \<Rightarrow> string \<Rightarrow> event \<Rightarrow> bool" where
  "reported e txt ev \<longleftrightarrow>
     (case ev of
        EvHttp _ (Inr resp) \<Rightarrow>
          \<exists>content j. resp_Body resp = Inr content \<and> jsonParse e content = Some j
            \<and> (txt = [] \<or> (\<exists>a b. a @ txt @ b \<in> set (json_strings j)))
      | _ \<Rightarrow> False)"

lemma reportedI:
  assumes "resp_Body resp = Inr content" and "jsonParse e content = Some j" and "txt \<noteq> [] \<Longrightarrow> a @ txt @ b \<in> set (json_strings j)"
  shows "reported e txt (EvHttp req (Inr resp))"
  using assms unfolding reported_def by auto

text \<open>What is decoded from a structure or a list comes from its parts.\<close>

lemma decode_struct_invariant:
  assumes "decode_struct step zero j = Inr r" and "P zero"
    and "\<And>k v a b. P a \<Longrightarrow> step k v a = Inr b \<Longrightarrow> set (json_strings v) \<subseteq> set (json_strings j) \<Longrightarrow> P b"
  shows "P r"
proof -
  have "P r" if "P a" "fold_members step ms a = Inr r" "set (json_strings (JObj ms)) \<subseteq> set (json_strings j)" for ms a
    using that
  proof (induction ms arbitrary: a)
    case (Cons m ms)
    obtain k v b where m: "m = (k, v)" and step: "step k v a = Inr b" and rest: "fold_members step ms b = Inr r"
      using Cons.prems(2) by (cases m) (auto split: sum.splits)
    have "P b" using assms(3) [OF Cons.prems(1) step] Cons.prems(3) m by simp
    from Cons.IH [OF this rest] Cons.prems(3) show ?case by simp
  qed simp
  with assms(1,2) show ?thesis by (auto simp: decode_struct_def split: json.splits)
qed

lemma list_of_json_member:
  assumes "list_of_json dec j = Inr xs" and "x \<in> set xs"
  shows "\<exists>v. dec v = Inr x \<and> set (json_strings v) \<subseteq> set (json_strings j)"
proof -
  have "map_res dec js = Inr xs \<Longrightarrow> \<exists>v \<in> set js. dec v = Inr x" for js
    using assms(2) by (induction js arbitrary: xs) (auto split: sum.splits)
  then show ?thesis
    using assms by (fastforce simp: list_of_json_def set_list_def split: json.splits sum.splits)
qed

text \<open>
  What package \<^verbatim>\<open>dns01\<close> relies on: a provider stays outside the account of the client, and when \<^verbatim>\<open>Present\<close>
  reports no error, the text of the record (or the key authorization it is computed from) has been handed to
  the service, in an exchange the provider counts as accepted, or it was found there.
\<close>

locale offering =
  fixes e :: env and p :: provider and accepted :: "event \<Rightarrow> bool" and found :: "string \<Rightarrow> event \<Rightarrow> bool"
  assumes offer_outside: "provider_keeps outside p"
    and offer_present: "ensures is_nil (\<lambda>ev. delivered e (record_value e keyAuth) accepted ev
        \<or> delivered e keyAuth accepted ev \<or> found (record_value e keyAuth) ev) (prov_Present p domain token keyAuth)"
begin

lemma offer_tame: "provider_keeps tame p"
  by (rule provider_outside_tame [OF offer_outside])

text \<open>After a \<^verbatim>\<open>PreSolve\<close> without error the service has the record.\<close>

lemma offer_PreSolve:
  assumes "dc_provider ch = Some p" and "Dns01_PreSolve e ch authz w = (Return None, t)"
  shows "\<exists>chlng keyAuth ev. dns_key_auth e ch authz = Inr (chlng, keyAuth) \<and> happened w t ev
    \<and> (accepted ev \<and> (delivers e (record_value e keyAuth) ev \<or> delivers e keyAuth ev) \<or> found (record_value e keyAuth) ev)"
proof -
  obtain chlng keyAuth where key: "dns_key_auth e ch authz = Inr (chlng, keyAuth)"
    and run: "prov_Present p (id_Value (az_Identifier authz)) (chl_Token chlng) keyAuth w = (Return None, t)"
    using assms
    by (auto simp: Dns01_PreSolve_def dns_key_auth_def Let_def bind_Return_eq split: sum.splits option.splits)
  from ensuresD [OF offer_present run refl] key show ?thesis unfolding delivered_def by blast
qed

end

text \<open>Most providers do not look first: they always hand over the text.\<close>

locale hosting =
  fixes e :: env and p :: provider and accepted :: "event \<Rightarrow> bool"
  assumes host_outside: "provider_keeps outside p"
    and host_present: "ensures is_nil (\<lambda>ev. delivered e (record_value e keyAuth) accepted ev
        \<or> delivered e keyAuth accepted ev) (prov_Present p domain token keyAuth)"

sublocale hosting \<subseteq> offering e p accepted "\<lambda>_ _. False"
  by unfold_locales (simp_all add: host_outside host_present)

text \<open>A lookup that finds the record is enough; otherwise the rest has to hand it over.\<close>

lemma ensures_try_either:
  assumes "always grows m" and "\<And>x. always grows (k x)"
    and "\<And>x s t. m s = (Return (Inr x), t) \<Longrightarrow> \<nexists>ev. happened s t ev \<and> P ev \<Longrightarrow> ensures is_nil P (k x)"
  shows "ensures is_nil P (try_or msg m k)"
  unfolding ensures_def
proof (intro allI impI)
  fix s r t
  assume "try_or msg m k s = (Return r, t)" and "is_nil r"
  then obtain x u where m: "m s = (Return (Inr x), u)" and k: "k x u = (Return None, t)"
    by (auto simp: host_runs)
  have "grows s u" "grows u t" using alwaysD [OF assms(1) m] alwaysD [OF assms(2) k] by simp_all
  then show "\<exists>ev. happened s t ev \<and> P ev"
    using assms(3) [OF m] ensuresD [of is_nil P "k x", OF _ k] happened_within growth.step_refl by blast
qed

lemma offeringI:
  assumes "provider_keeps outside p"
    and "\<And>domain token keyAuth. ensures is_nil (\<lambda>ev. delivered e (record_value e keyAuth) accepted ev
      \<or> found (record_value e keyAuth) ev) (prov_Present p domain token keyAuth)"
  shows "offering e p accepted found"
  using assms by unfold_locales (auto intro: ensures_mono)

lemma hostingI:
  assumes "provider_keeps outside p"
    and "\<And>domain token keyAuth. ensures is_nil (delivered e (record_value e keyAuth) accepted)
      (prov_Present p domain token keyAuth)"
  shows "hosting e p accepted"
  using assms by unfold_locales (auto intro: ensures_mono)

text \<open>
  A provider that keeps what identifies the record it created, in the map at \<open>adr\<close> under the token of the
  challenge.  \<open>removes c req\<close> says that the request removes the record that \<open>c\<close> identifies.
\<close>

locale remembering = hosting +
  fixes adr :: nat and removes :: "cell \<Rightarrow> http_request \<Rightarrow> bool"
  assumes present_remembers: "remembers adr token (prov_Present p domain token keyAuth)"
    and cleanup_forgets: "forgets adr token (\<lambda>c ev. \<exists>req resp. ev = EvHttp req (Inr resp) \<and> removes c req)
      (prov_CleanUp p domain token keyAuth)"
begin

text \<open>
  A second \<^verbatim>\<open>CleanUp\<close> of the same challenge fails: the record was removed and its identifier forgotten.
\<close>

lemma cleanup_once:
  assumes "prov_CleanUp p domain token keyAuth w = (Return None, t)" and "allocated adr w"
    and "prov_CleanUp p domain' token keyAuth' t = (Return r, u)"
  shows "r \<noteq> None"
proof -
  have "entry adr token t = None"
    using cleanup_forgets [of token domain keyAuth] assms(1,2) unfolding forgets_def by blast
  then show ?thesis
    using cleanup_forgets [of token domain' keyAuth'] assms(3) unfolding forgets_def by blast
qed

lemma cleanup_removes:
  assumes "prov_CleanUp p domain token keyAuth w = (Return None, t)" and "allocated adr w"
    and "entry adr token w = Some c"
  shows "\<exists>req resp. happened w t (EvHttp req (Inr resp)) \<and> removes c req"
  using cleanup_forgets [of token domain keyAuth] assms unfolding forgets_def by fastforce

text \<open>What \<^verbatim>\<open>CleanUp\<close> removes is what \<^verbatim>\<open>Present\<close> of the same challenge left.\<close>

lemma cleanup_removes_presented:
  assumes "prov_Present p domain token keyAuth w = (Return None, t)" and "allocated adr w"
    and "entry adr token t' = entry adr token t" and "allocated adr t'"
    and "prov_CleanUp p domain token keyAuth t' = (Return None, u)"
  shows "\<exists>c req resp. entry adr token t = Some c \<and> removes c req \<and> happened t' u (EvHttp req (Inr resp))
    \<and> entry adr token u = None"
  using cleanup_forgets [of token domain keyAuth] assms(3-5) unfolding forgets_def by metis

end

end
