(* ===== verification/Digitalocean.thy ===== *)
theory Digitalocean
  imports Hosting
begin

text \<open>
  Package \<^verbatim>\<open>providers/dns/digitalocean\<close>.  The provider keeps the identifier the service gave the record under
  the token of the challenge, and removes the record by it.
\<close>

definition digitalocean_defaultBaseURL :: string where
  "digitalocean_defaultBaseURL = ''https://api.digitalocean.com''"

record digitalocean_config = ttl_config +
  do_BaseURL :: string
  do_AuthToken :: string

definition digitalocean_NewDefaultConfig :: "env \<Rightarrow> digitalocean_config" where
  "digitalocean_NewDefaultConfig e =
     \<lparr>hcf_PropagationTimeout = GetOrDefaultSecond e ''DO_PROPAGATION_TIMEOUT'' (60 * Second),
      hcf_PollingInterval = GetOrDefaultSecond e ''DO_POLLING_INTERVAL'' (5 * Second),
      hcf_HTTPTimeout = GetOrDefaultSecond e ''DO_HTTP_TIMEOUT'' (30 * Second),
      hcf_TTL = GetOrDefaultInt e ''DO_TTL'' 30,
      do_BaseURL = digitalocean_defaultBaseURL, do_AuthToken = []\<rparr>"

record digitalocean =
  do_config :: digitalocean_config
  do_recordIDs :: nat

record do_record =
  dor_ID :: int
  dor_Type :: string
  dor_Name :: string
  dor_Data :: string
  dor_TTL :: int

definition do_record_json :: "do_record \<Rightarrow> json" where
  "do_record_json r =
     JObj (omit_int ''id'' (dor_ID r) @ omit_str ''type'' (dor_Type r) @ omit_str ''name'' (dor_Name r)
       @ omit_str ''data'' (dor_Data r) @ omit_int ''ttl'' (dor_TTL r))"

definition do_record_of_json :: "json \<Rightarrow> goerror + do_record" where
  "do_record_of_json = decode_struct (\<lambda>k v r.
     if k = ''id'' then set_int v (\<lambda>i. r\<lparr>dor_ID := i\<rparr>) r
     else if k = ''type'' then set_str v (\<lambda>s. r\<lparr>dor_Type := s\<rparr>) r
     else if k = ''name'' then set_str v (\<lambda>s. r\<lparr>dor_Name := s\<rparr>) r
     else if k = ''data'' then set_str v (\<lambda>s. r\<lparr>dor_Data := s\<rparr>) r
     else if k = ''ttl'' then set_int v (\<lambda>i. r\<lparr>dor_TTL := i\<rparr>) r
     else Inr r) \<lparr>dor_ID = 0, dor_Type = [], dor_Name = [], dor_Data = [], dor_TTL = 0\<rparr>"

text \<open>\<^verbatim>\<open>txtRecordResponse\<close>, whose only field is the record.\<close>

definition txtRecordResponse_of_json :: "json \<Rightarrow> goerror + do_record" where
  "txtRecordResponse_of_json = decode_struct (\<lambda>k v r.
     if k = ''domain_record'' then set_struct do_record_of_json v (\<lambda>x. x) else Inr r)
     \<lparr>dor_ID = 0, dor_Type = [], dor_Name = [], dor_Data = [], dor_TTL = 0\<rparr>"

text \<open>\<^verbatim>\<open>apiError\<close>: the identifier and the message.\<close>

definition do_apiError_of_json :: "json \<Rightarrow> goerror + string \<times> string" where
  "do_apiError_of_json = decode_struct (\<lambda>k v (i, m).
     if k = ''id'' then set_str v (\<lambda>s. (s, m)) (i, m)
     else if k = ''message'' then set_str v (\<lambda>s. (i, s)) (i, m)
     else Inr (i, m)) ([], [])"

definition do_toUnreadableBodyMessage :: "http_request \<Rightarrow> string \<Rightarrow> string" where
  "do_toUnreadableBodyMessage req rawBody =
     ''the request '' @ req_URL req @ '' sent a response with a body which is an invalid format: '' @ Quote rawBody"

definition do_readError :: "env \<Rightarrow> http_request \<Rightarrow> http_response \<Rightarrow> goerror" where
  "do_readError e req resp =
     (case resp_Body resp of
        Inl _ \<Rightarrow> Err (do_toUnreadableBodyMessage req [])
      | Inr content \<Rightarrow>
          (case Unmarshal e do_apiError_of_json content of
             Inl err \<Rightarrow> Wrap ''apiError unmarshaling error: ''
                          (err_then err ('': '' @ do_toUnreadableBodyMessage req content))
           | Inr (i, m) \<Rightarrow> Err (''HTTP '' @ show_int (resp_StatusCode resp) @ '': '' @ i @ '': '' @ m)))"

definition do_newRequest :: "env \<Rightarrow> digitalocean \<Rightarrow> string \<Rightarrow> string \<Rightarrow> string option \<Rightarrow> goerror + http_request" where
  "do_newRequest e d method reqURL body =
     (case NewRequest e method reqURL body of
        Inl err \<Rightarrow> Inl err
      | Inr req \<Rightarrow>
          Inr (Header_Set ''Authorization'' (''Bearer '' @ do_AuthToken (do_config d))
                (Header_Set ''Content-Type'' ''application/json'' req)))"

definition do_zone :: "env \<Rightarrow> string \<Rightarrow> (world, goerror + string) go" where
  "do_zone e domain =
     wrap_res (''could not determine zone for domain '' @ Quote domain @ '': '') (FindZoneByFqdn e (ToFqdn domain))"

definition do_records_url :: "digitalocean \<Rightarrow> string \<Rightarrow> string" where
  "do_records_url d authZone = do_BaseURL (do_config d) @ ''/v2/domains/'' @ UnFqdn authZone @ ''/records''"

definition do_removeTxtRecord :: "env \<Rightarrow> digitalocean \<Rightarrow> string \<Rightarrow> int \<Rightarrow> (world, goerror option) go" where
  "do_removeTxtRecord e d domain recordID =
     handle (do_zone e domain) (\<lambda>err. ret (Some err)) (\<lambda>authZone.
       case do_newRequest e d ''DELETE'' (do_records_url d authZone @ ''/'' @ show_int recordID) None of
         Inl err \<Rightarrow> ret (Some err)
       | Inr req \<Rightarrow>
           handle (http_do e req) (\<lambda>err. ret (Some err)) (\<lambda>resp.
             if 400 \<le> resp_StatusCode resp then ret (Some (do_readError e req resp)) else ret None))"

definition do_addTxtRecord :: "env \<Rightarrow> digitalocean \<Rightarrow> string \<Rightarrow> string \<Rightarrow> (world, goerror + do_record) go" where
  "do_addTxtRecord e d fqdn value =
     check (do_zone e fqdn) (\<lambda>authZone.
       let body = jsonPrint e (do_record_json \<lparr>dor_ID = 0, dor_Type = ''TXT'', dor_Name = fqdn,
                    dor_Data = value, dor_TTL = hcf_TTL (do_config d)\<rparr>) in
       case do_newRequest e d ''POST'' (do_records_url d authZone) (Some body) of
         Inl err \<Rightarrow> ret (Inl err)
       | Inr req \<Rightarrow>
           check (http_do e req) (\<lambda>resp.
             if 400 \<le> resp_StatusCode resp then ret (Inl (do_readError e req resp))
             else
               (case resp_Body resp of
                  Inl _ \<Rightarrow> ret (Inl (Err (do_toUnreadableBodyMessage req [])))
                | Inr content \<Rightarrow>
                    (case Unmarshal e txtRecordResponse_of_json content of
                       Inl err \<Rightarrow> ret (Inl (err_then err ('': '' @ do_toUnreadableBodyMessage req content)))
                     | Inr respData \<Rightarrow> ret (Inr respData)))))"

definition digitalocean_Present :: "env \<Rightarrow> digitalocean \<Rightarrow> string \<Rightarrow> string \<Rightarrow> string \<Rightarrow> (world, goerror option) go" where
  "digitalocean_Present e d domain token keyAuth =
     bind (GetRecord e domain keyAuth) (\<lambda>(fqdn, value).
       try_or ''digitalocean: '' (do_addTxtRecord e d fqdn value) (\<lambda>respData.
         bind (map_set (do_recordIDs d) token (IntCell (dor_ID respData))) (\<lambda>_. ret None)))"

definition digitalocean_CleanUp :: "env \<Rightarrow> digitalocean \<Rightarrow> string \<Rightarrow> string \<Rightarrow> string \<Rightarrow> (world, goerror option) go" where
  "digitalocean_CleanUp e d domain token keyAuth =
     bind (GetRecord e domain keyAuth) (\<lambda>(fqdn, _).
       try_or ''digitalocean: '' (FindZoneByFqdn e fqdn) (\<lambda>authZone.
         remove_remembered (do_recordIDs d) token
           (Err (''digitalocean: unknown record ID for '' @ [CHR 0x27] @ fqdn @ [CHR 0x27]))
           (\<lambda>recordID. wrap_err ''digitalocean: '' (do_removeTxtRecord e d authZone (cell_int recordID)))))"

definition digitalocean_Timeout :: "digitalocean \<Rightarrow> int \<times> int" where
  "digitalocean_Timeout d = (hcf_PropagationTimeout (do_config d), hcf_PollingInterval (do_config d))"

definition digitalocean_provider :: "env \<Rightarrow> digitalocean \<Rightarrow> provider" where
  "digitalocean_provider e d =
     \<lparr>prov_Present = digitalocean_Present e d, prov_CleanUp = digitalocean_CleanUp e d,
      prov_Timeout = Some (digitalocean_Timeout d), prov_Sequential = None\<rparr>"

definition digitalocean_NewDNSProviderConfig :: "digitalocean_config option \<Rightarrow> (world, goerror + digitalocean) go" where
  "digitalocean_NewDNSProviderConfig config =
     (case config of
        None \<Rightarrow> ret (Inl (nil_config ''digitalocean''))
      | Some c \<Rightarrow>
          if do_AuthToken c = [] then ret (Inl (Err ''digitalocean: credentials missing''))
          else
            (let c = (if do_BaseURL c = [] then c\<lparr>do_BaseURL := digitalocean_defaultBaseURL\<rparr> else c) in
             bind make_map (\<lambda>a. ret (Inr \<lparr>do_config = c, do_recordIDs = a\<rparr>))))"

definition digitalocean_NewDNSProvider :: "env \<Rightarrow> (world, goerror + digitalocean) go" where
  "digitalocean_NewDNSProvider e =
     (case env_Get e [''DO_AUTH_TOKEN''] of
        Inl err \<Rightarrow> ret (Inl (Wrap ''digitalocean: '' err))
      | Inr values \<Rightarrow>
          digitalocean_NewDNSProviderConfig
            (Some ((digitalocean_NewDefaultConfig e)\<lparr>do_AuthToken := env_value values ''DO_AUTH_TOKEN''\<rparr>)))"

section \<open>The provider keeps its contract\<close>

lemma do_newRequest_body: "do_newRequest e d method uri body = Inr req \<Longrightarrow>
  req_Method req = method \<and> req_URL req = uri \<and> req_Body req = (case body of None \<Rightarrow> NoBody | Some b \<Rightarrow> RawBody b)"
  by (auto simp: do_newRequest_def NewRequest_Inr split: sum.splits)

context lookup_invariant
begin

lemma always_digitalocean [always_intros]:
  "always R (do_addTxtRecord e d fqdn value)" "always R (do_removeTxtRecord e d domain recordID)"
  unfolding do_addTxtRecord_def do_removeTxtRecord_def do_zone_def Let_def
  by (intro always_intros always_plain_http; auto dest: do_newRequest_body)+

end

context plain_invariant
begin

lemma digitalocean_keeps: "provider_keeps R (digitalocean_provider e d)"
  unfolding digitalocean_provider_def
  by (rule provider_keepsI; unfold digitalocean_Present_def digitalocean_CleanUp_def) (intro always_intros)+

end

lemma do_addTxtRecord_sent:
  "ensures is_ok (delivered e value (answered below_400)) (do_addTxtRecord e d fqdn value)"
proof -
  have "carries e value req" if "do_newRequest e d ''POST'' uri (Some (jsonPrint e (do_record_json
      \<lparr>dor_ID = 0, dor_Type = ''TXT'', dor_Name = fqdn, dor_Data = value, dor_TTL = ttl\<rparr>))) = Inr req" for uri ttl req
    using do_newRequest_body [OF that] by (intro carries_json) (auto simp: do_record_json_def json_text)
  then show ?thesis
    unfolding do_addTxtRecord_def do_zone_def Let_def by (intro ensures_intros always_intros) auto
qed

lemma digitalocean_Present_sent:
  "ensures is_nil (delivered e (record_value e keyAuth) (answered below_400))
     (digitalocean_Present e d domain token keyAuth)"
  unfolding digitalocean_Present_def
  by (intro ensures_intros ensures_try_first always_intros do_addTxtRecord_sent)

lemma digitalocean_hosting: "hosting e (digitalocean_provider e d) (answered below_400)"
  by (rule hostingI [OF outsider.digitalocean_keeps])
    (simp add: digitalocean_Present_sent digitalocean_provider_def)

text \<open>The request that removes the record with an identifier.\<close>

definition do_removes :: "digitalocean \<Rightarrow> cell \<Rightarrow> http_request \<Rightarrow> bool" where
  "do_removes d c req \<longleftrightarrow> req_Method req = ''DELETE''
     \<and> (\<exists>authZone. req_URL req = do_records_url d authZone @ ''/'' @ show_int (cell_int c))"

lemma do_removeTxtRecord_sent:
  "ensures is_nil (\<lambda>ev. \<exists>req resp. ev = EvHttp req (Inr resp) \<and> do_removes d c req)
     (do_removeTxtRecord e d domain (cell_int c))"
  unfolding do_removeTxtRecord_def do_zone_def Let_def
  by (intro ensures_intros always_intros) (auto simp: do_removes_def dest!: do_newRequest_body)

interpretation digitalocean: remembering e "digitalocean_provider e d" "answered below_400" "do_recordIDs d"
  "do_removes d" for e d
proof (intro remembering.intro digitalocean_hosting remembering_axioms.intro)
  show "remembers (do_recordIDs d) token (prov_Present (digitalocean_provider e d) domain token keyAuth)"
    for token domain keyAuth
    unfolding digitalocean_provider_def digitalocean_Present_def provider.simps
    by (intro ensures_intros remembers_try always_intros)
  show "forgets (do_recordIDs d) token (\<lambda>c ev. \<exists>req resp. ev = EvHttp req (Inr resp) \<and> do_removes d c req)
      (prov_CleanUp (digitalocean_provider e d) domain token keyAuth)" for token domain keyAuth
    unfolding digitalocean_provider_def digitalocean_CleanUp_def provider.simps
    by (intro ensures_intros do_removeTxtRecord_sent always_intros)
qed

section \<open>What is cleaned up\<close>

lemma do_addTxtRecord_reply:
  assumes "do_addTxtRecord e d fqdn value s = (Return (Inr r), t)"
  shows "\<exists>req resp body. happened s t (EvHttp req (Inr resp)) \<and> carries e value req \<and> below_400 resp
    \<and> resp_Body resp = Inr body \<and> Unmarshal e txtRecordResponse_of_json body = Inr r"
proof -
  let ?rec = "\<lparr>dor_ID = 0, dor_Type = ''TXT'', dor_Name = fqdn, dor_Data = value, dor_TTL = hcf_TTL (do_config d)\<rparr>"
  obtain zone u req resp body where zone: "do_zone e fqdn s = (Return (Inr zone), u)"
    and req: "do_newRequest e d ''POST'' (do_records_url d zone) (Some (jsonPrint e (do_record_json ?rec))) = Inr req"
    and http: "http_do e req u = (Return (Inr resp), t)" and ok: "below_400 resp"
    and body: "resp_Body resp = Inr body" "Unmarshal e txtRecordResponse_of_json body = Inr r"
    using assms by (auto simp: do_addTxtRecord_def Let_def check_Return_eq run_cases)
  have "always grows (do_zone e fqdn)" unfolding do_zone_def by (intro always_intros)
  from alwaysD [OF this zone] have "happened s t (EvHttp req (Inr resp))"
    using happened_step [OF http _ growth.step_refl] by blast
  moreover have "carries e value req"
    using do_newRequest_body [OF req] by (intro carries_json) (auto simp: do_record_json_def json_text)
  ultimately show ?thesis using ok body by blast
qed

lemma digitalocean_new_map:
  "digitalocean_NewDNSProvider e w = (Return (Inr d), t) \<Longrightarrow> allocated (do_recordIDs d) t"
  by (auto simp: digitalocean_NewDNSProvider_def digitalocean_NewDNSProviderConfig_def Let_def bind_Return_eq make_map_def
      allocated_def split: sum.splits if_splits)

text \<open>
  C10 (functional).  A DigitalOcean provider cleans up what it presented: when \<^verbatim>\<open>Present\<close> of a new provider and
  then \<^verbatim>\<open>CleanUp\<close> return nil, the record was accepted by the service, and the record that was deleted is the one
  whose identifier the service gave in its reply.  The identifier is forgotten: a second \<^verbatim>\<open>CleanUp\<close> of the
  challenge fails, and cannot delete a record that was created since.
\<close>

theorem digitalocean_removes_what_it_added:
  assumes "digitalocean_NewDNSProvider e w0 = (Return (Inr d), w1)"
    and "digitalocean_Present e d domain token keyAuth w1 = (Return None, w2)"
    and "digitalocean_CleanUp e d domain token keyAuth w2 = (Return None, w3)"
  shows "\<exists>add reply body r del dresp.
    happened w1 w2 (EvHttp add (Inr reply)) \<and> carries e (record_value e keyAuth) add \<and> below_400 reply
    \<and> resp_Body reply = Inr body \<and> Unmarshal e txtRecordResponse_of_json body = Inr r
    \<and> happened w2 w3 (EvHttp del (Inr dresp)) \<and> do_removes d (IntCell (dor_ID r)) del
    \<and> (\<forall>out w4. digitalocean_CleanUp e d domain token keyAuth w3 = (Return out, w4) \<longrightarrow> out \<noteq> None)"
proof -
  have al: "allocated (do_recordIDs d) w1" by (rule digitalocean_new_map [OF assms(1)])
  obtain fqdn val u v r where rec: "GetRecord e domain keyAuth w1 = (Return (fqdn, val), u)"
    and add: "do_addTxtRecord e d fqdn val u = (Return (Inr r), v)"
    and set: "map_set (do_recordIDs d) token (IntCell (dor_ID r)) v = (Return (), w2)"
    using assms(2) by (auto simp: digitalocean_Present_def bind_Return_eq try_or_Return_eq)
  have alv: "allocated (do_recordIDs d) v"
    using al same_maps_allocated [OF alwaysD [OF maps_kept.always_GetRecord rec]]
      same_maps_allocated [OF alwaysD [OF maps_kept.always_digitalocean(1) add]] by simp
  then have entry: "entry (do_recordIDs d) token w2 = Some (IntCell (dor_ID r))" and al2: "allocated (do_recordIDs d) w2"
    using set by (auto simp: run_map_set entry_set allocated_def)
  obtain req resp body where reply: "happened u v (EvHttp req (Inr resp))" "carries e val req" "below_400 resp"
    "resp_Body resp = Inr body" "Unmarshal e txtRecordResponse_of_json body = Inr r"
    using do_addTxtRecord_reply [OF add] by blast
  have "happened w1 w2 (EvHttp req (Inr resp))"
    using happened_within [OF reply(1) alwaysD [OF growing.always_GetRecord rec]] set
    by (auto simp: run_map_set grows_def)
  moreover have "val = record_value e keyAuth" by (rule GetRecord_value [OF rec])
  moreover obtain del dresp where "happened w2 w3 (EvHttp del (Inr dresp))" "do_removes d (IntCell (dor_ID r)) del"
    using digitalocean.cleanup_removes [of e d domain token keyAuth w2 w3] assms(3) al2 entry
    by (auto simp: digitalocean_provider_def)
  moreover have "out \<noteq> None" if "digitalocean_CleanUp e d domain token keyAuth w3 = (Return out, w4)" for out w4
    using digitalocean.cleanup_once [of e d domain token keyAuth w2 w3 domain keyAuth out w4] assms(3) al2 that
    by (simp add: digitalocean_provider_def)
  ultimately show ?thesis using reply(2-5) by metis
qed

text \<open>A service with one zone that numbers the record 7.\<close>

definition ocean_env :: env where
  "ocean_env = sample_env\<lparr>getenv := (\<lambda>k. if k = ''DO_AUTH_TOKEN'' then ''x'' else []),
     jsonParse := (\<lambda>_. Some (JObj [(''domain_record'', JObj [(''id'', JNum 7)])])),
     httpDo := (\<lambda>_ _. Inr \<lparr>resp_StatusCode = 201, resp_Status = ''201 Created'', resp_Header = [], resp_Body = Inr []\<rparr>)\<rparr>"

definition ocean_world :: world where
  "ocean_world = sample_world\<lparr>w_soaCache :=
     [(''_acme-challenge.a.org.'', \<lparr>soa_zone = ''a.org.'', soa_primaryNs = ''ns.'', soa_expires = 10\<rparr>),
      (''a.org.'', \<lparr>soa_zone = ''a.org.'', soa_primaryNs = ''ns.'', soa_expires = 10\<rparr>)]\<rparr>"

theorem digitalocean_removes_what_it_added_witness:
  "\<exists>d w1 w2 w3 del dresp. digitalocean_NewDNSProvider ocean_env ocean_world = (Return (Inr d), w1)
     \<and> digitalocean_Present ocean_env d ''a.org'' ''t'' ''k'' w1 = (Return None, w2)
     \<and> digitalocean_CleanUp ocean_env d ''a.org'' ''t'' ''k'' w2 = (Return None, w3)
     \<and> happened w2 w3 (EvHttp del (Inr dresp)) \<and> do_removes d (IntCell 7) del"
proof -
  let ?d = "\<lparr>do_config = (digitalocean_NewDefaultConfig ocean_env)\<lparr>do_AuthToken := ''x''\<rparr>, do_recordIDs = 0\<rparr>"
  let ?w1 = "ocean_world\<lparr>w_maps := [[]]\<rparr>"
  have new: "digitalocean_NewDNSProvider ocean_env ocean_world = (Return (Inr ?d), ?w1)"
    by (simp add: digitalocean_NewDNSProvider_def digitalocean_NewDNSProviderConfig_def env_Get_def GetOrFile_def
        env_value_def make_map_def bind_def Let_def)
      (simp add: ocean_env_def ocean_world_def sample_world_def digitalocean_NewDefaultConfig_def
        digitalocean_defaultBaseURL_def)
  note eval = bind_def GetRecord_def ParseBool_def try_or_def handle_def check_def check_err_def wrap_err_def wrap_res_def
    do_zone_def FindZoneByFqdn_def FindZoneByFqdnCustom_def lookupSoaByFqdn_def isExpired_def do_newRequest_def
    NewRequest_def run_http_do ToFqdn_def UnFqdn_def go_simps entry_def map_at_def remove_remembered_def
    do_addTxtRecord_def do_removeTxtRecord_def digitalocean_Present_def digitalocean_CleanUp_def Unmarshal_def
    txtRecordResponse_of_json_def do_record_of_json_def decode_struct_def set_struct_def set_int_def in_i64_def
  let ?present = "digitalocean_Present ocean_env ?d ''a.org'' ''t'' ''k'' ?w1"
  have "fst ?present = Return None"
    by (simp add: eval Let_def) (simp add: ocean_env_def ocean_world_def sample_env_def sample_world_def eval)
  then have w2: "?present = (Return None, snd ?present)" by (metis prod.collapse)
  have "fst (digitalocean_CleanUp ocean_env ?d ''a.org'' ''t'' ''k'' (snd ?present)) = Return None"
    by (simp add: eval Let_def) (simp add: ocean_env_def ocean_world_def sample_env_def sample_world_def eval)
  then obtain w3 where w3: "digitalocean_CleanUp ocean_env ?d ''a.org'' ''t'' ''k'' (snd ?present) = (Return None, w3)"
    by (metis prod.collapse)
  have "dor_ID r = 7" if "Unmarshal ocean_env txtRecordResponse_of_json body = Inr r" for body r
    using that by (auto simp: eval ocean_env_def)
  with digitalocean_removes_what_it_added [OF new w2 w3] new w2 w3 show ?thesis by metis
qed

end
