(* ===== verification/Godaddy.thy ===== *)
theory Godaddy
  imports Hosting
begin

text \<open>
  Package \<^verbatim>\<open>providers/dns/godaddy\<close>.  The service replaces all TXT records of a name at once: \<^verbatim>\<open>Present\<close> writes the
  records that were there together with the new one, \<^verbatim>\<open>CleanUp\<close> those that remain.
\<close>

definition godaddy_defaultBaseURL :: string where "godaddy_defaultBaseURL = ''https://api.godaddy.com''"
definition godaddy_minTTL :: int where "godaddy_minTTL = 600"

record godaddy = ttl_config +
  gd_APIKey :: string
  gd_APISecret :: string

definition godaddy_NewDefaultConfig :: "env \<Rightarrow> godaddy" where
  "godaddy_NewDefaultConfig e =
     \<lparr>hcf_PropagationTimeout = GetOrDefaultSecond e ''GODADDY_PROPAGATION_TIMEOUT'' (120 * Second),
      hcf_PollingInterval = GetOrDefaultSecond e ''GODADDY_POLLING_INTERVAL'' (2 * Second),
      hcf_HTTPTimeout = GetOrDefaultSecond e ''GODADDY_HTTP_TIMEOUT'' (30 * Second),
      hcf_TTL = GetOrDefaultInt e ''GODADDY_TTL'' godaddy_minTTL, gd_APIKey = [], gd_APISecret = []\<rparr>"

definition godaddy_NewDNSProviderConfig :: "godaddy option \<Rightarrow> goerror + godaddy" where
  "godaddy_NewDNSProviderConfig config =
     (case config of
        None \<Rightarrow> Inl (nil_config ''godaddy'')
      | Some c \<Rightarrow>
          if gd_APIKey c = [] \<or> gd_APISecret c = [] then Inl (Err ''godaddy: credentials missing'')
          else if hcf_TTL c < godaddy_minTTL then Inl (ttl_error ''godaddy'' (hcf_TTL c) godaddy_minTTL)
          else Inr c)"

definition godaddy_NewDNSProvider :: "env \<Rightarrow> goerror + godaddy" where
  "godaddy_NewDNSProvider e =
     (case env_Get e [''GODADDY_API_KEY'', ''GODADDY_API_SECRET''] of
        Inl err \<Rightarrow> Inl (Wrap ''godaddy: '' err)
      | Inr values \<Rightarrow>
          godaddy_NewDNSProviderConfig (Some ((godaddy_NewDefaultConfig e)
            \<lparr>gd_APIKey := env_value values ''GODADDY_API_KEY'',
             gd_APISecret := env_value values ''GODADDY_API_SECRET''\<rparr>)))"

record gd_DNSRecord =
  gdr_Name :: string
  gdr_Type :: string
  gdr_Data :: string
  gdr_Priority :: int
  gdr_TTL :: int

definition zero_gd_DNSRecord :: gd_DNSRecord where
  "zero_gd_DNSRecord = \<lparr>gdr_Name = [], gdr_Type = [], gdr_Data = [], gdr_Priority = 0, gdr_TTL = 0\<rparr>"

definition gd_DNSRecord_json :: "gd_DNSRecord \<Rightarrow> json" where
  "gd_DNSRecord_json r =
     JObj (omit_str ''name'' (gdr_Name r) @ omit_str ''type'' (gdr_Type r) @ [(''data'', JStr (gdr_Data r))]
       @ omit_int ''priority'' (gdr_Priority r) @ omit_int ''ttl'' (gdr_TTL r))"

definition gd_DNSRecord_of_json :: "json \<Rightarrow> goerror + gd_DNSRecord" where
  "gd_DNSRecord_of_json = decode_struct (\<lambda>k v r.
     if k = ''name'' then set_str v (\<lambda>s. r\<lparr>gdr_Name := s\<rparr>) r
     else if k = ''type'' then set_str v (\<lambda>s. r\<lparr>gdr_Type := s\<rparr>) r
     else if k = ''data'' then set_str v (\<lambda>s. r\<lparr>gdr_Data := s\<rparr>) r
     else if k = ''priority'' then set_int v (\<lambda>i. r\<lparr>gdr_Priority := i\<rparr>) r
     else if k = ''ttl'' then set_int v (\<lambda>i. r\<lparr>gdr_TTL := i\<rparr>) r
     else Inr r) zero_gd_DNSRecord"

definition godaddy_makeRequest ::
  "env \<Rightarrow> godaddy \<Rightarrow> string \<Rightarrow> string \<Rightarrow> string option \<Rightarrow> (world, goerror + http_response) go" where
  "godaddy_makeRequest e d method uri body =
     send e method (godaddy_defaultBaseURL @ uri) body (\<lambda>req.
       Header_Set ''Authorization'' (''sso-key '' @ gd_APIKey d @ '':'' @ gd_APISecret d)
         (Header_Set ''Content-Type'' ''application/json'' (Header_Set ''Accept'' ''application/json'' req)))"

definition godaddy_getRecords ::
  "env \<Rightarrow> godaddy \<Rightarrow> string \<Rightarrow> string \<Rightarrow> string \<Rightarrow> (world, goerror + gd_DNSRecord list) go" where
  "godaddy_getRecords e d domainZone rType recordName =
     (let resource = Clean (''/v1/domains/'' @ domainZone @ ''/records/'' @ rType @ ''/'' @ recordName) in
      check (godaddy_makeRequest e d ''GET'' resource None) (\<lambda>resp.
        if resp_StatusCode resp \<noteq> 200
        then ret (Inl (Err (''could not get records: Domain: '' @ domainZone @ ''; Record: '' @ recordName
               @ '', Status: '' @ show_int (resp_StatusCode resp) @ ''; Body: '' @ body_text (resp_Body resp))))
        else ret (Decode e (list_of_json gd_DNSRecord_of_json) (resp_Body resp))))"

definition godaddy_updateTxtRecords ::
  "env \<Rightarrow> godaddy \<Rightarrow> gd_DNSRecord list \<Rightarrow> string \<Rightarrow> string \<Rightarrow> (world, goerror option) go" where
  "godaddy_updateTxtRecords e d records domainZone recordName =
     (let body = jsonPrint e (JArr (map gd_DNSRecord_json records));
          resource = Clean (''/v1/domains/'' @ domainZone @ ''/records/TXT/'' @ recordName) in
      handle (godaddy_makeRequest e d ''PUT'' resource (Some body)) (\<lambda>err. ret (Some err)) (\<lambda>resp.
        if resp_StatusCode resp \<noteq> 200
        then ret (Some (Err (''could not create record '' @ body @ ''; Status: ''
               @ show_int (resp_StatusCode resp) @ ''; Body: '' @ body_text (resp_Body resp))))
        else ret None))"

definition godaddy_extractRecordName :: "string \<Rightarrow> string \<Rightarrow> string" where
  "godaddy_extractRecordName fqdn zone =
     (let name = UnFqdn fqdn in
      case str_index name (''.'' @ zone) of Some idx \<Rightarrow> take idx name | None \<Rightarrow> name)"

definition godaddy_getZone :: "env \<Rightarrow> string \<Rightarrow> (world, goerror + string) go" where
  "godaddy_getZone e fqdn = check (FindZoneByFqdn e fqdn) (\<lambda>authZone. ret (Inr (UnFqdn authZone)))"

definition godaddy_Present :: "env \<Rightarrow> godaddy \<Rightarrow> string \<Rightarrow> string \<Rightarrow> string \<Rightarrow> (world, goerror option) go" where
  "godaddy_Present e d domain token keyAuth =
     bind (GetRecord e domain keyAuth) (\<lambda>(fqdn, value).
       try_or ''godaddy: failed to get zone: '' (godaddy_getZone e fqdn) (\<lambda>domainZone.
         let recordName = godaddy_extractRecordName fqdn domainZone in
         try_or ''godaddy: failed to get TXT records: '' (godaddy_getRecords e d domainZone ''TXT'' recordName) (\<lambda>records.
           let newRecords = filter (\<lambda>record. gdr_Data record \<noteq> []) records
                 @ [\<lparr>gdr_Name = recordName, gdr_Type = ''TXT'', gdr_Data = value, gdr_Priority = 0,
                     gdr_TTL = hcf_TTL d\<rparr>] in
           wrap_err ''godaddy: failed to add TXT record: ''
             (godaddy_updateTxtRecords e d newRecords domainZone recordName))))"

definition godaddy_keep :: "string \<Rightarrow> gd_DNSRecord list \<Rightarrow> gd_DNSRecord list" where
  "godaddy_keep value allTxtRecords =
     (let recordsKeep = filter (\<lambda>record. gdr_Data record \<noteq> value \<and> gdr_Data record \<noteq> []) allTxtRecords in
      if recordsKeep = [] then [zero_gd_DNSRecord\<lparr>gdr_Name := ''empty'', gdr_Data := []\<rparr>] else recordsKeep)"

definition godaddy_CleanUp :: "env \<Rightarrow> godaddy \<Rightarrow> string \<Rightarrow> string \<Rightarrow> string \<Rightarrow> (world, goerror option) go" where
  "godaddy_CleanUp e d domain token keyAuth =
     bind (GetRecord e domain keyAuth) (\<lambda>(fqdn, value).
       try_or ''godaddy: failed to get zone: '' (godaddy_getZone e fqdn) (\<lambda>domainZone.
         let recordName = godaddy_extractRecordName fqdn domainZone in
         try_or ''godaddy: failed to get TXT records: '' (godaddy_getRecords e d domainZone ''TXT'' recordName) (\<lambda>records.
           if records = [] then ret None
           else
             try_or ''godaddy: failed to get all TXT records: '' (godaddy_getRecords e d domainZone ''TXT'' []) (\<lambda>allTxtRecords.
               wrap_err ''godaddy: failed to remove TXT record: ''
                 (godaddy_updateTxtRecords e d (godaddy_keep value allTxtRecords) domainZone [])))))"

definition godaddy_Timeout :: "godaddy \<Rightarrow> int \<times> int" where
  "godaddy_Timeout d = (hcf_PropagationTimeout d, hcf_PollingInterval d)"

definition godaddy_provider :: "env \<Rightarrow> godaddy \<Rightarrow> provider" where
  "godaddy_provider e d =
     \<lparr>prov_Present = godaddy_Present e d, prov_CleanUp = godaddy_CleanUp e d,
      prov_Timeout = Some (godaddy_Timeout d), prov_Sequential = None\<rparr>"

section \<open>The provider keeps its contract\<close>

context plain_invariant
begin

lemma always_godaddy [always_intros]:
  "always R (godaddy_getRecords e d zone ty name)" "always R (godaddy_updateTxtRecords e d records zone name)"
  "always R (godaddy_getZone e fqdn)"
  unfolding godaddy_getRecords_def godaddy_updateTxtRecords_def godaddy_makeRequest_def godaddy_getZone_def
  by (intro always_intros; simp)+

lemma godaddy_keeps: "provider_keeps R (godaddy_provider e d)"
  unfolding godaddy_provider_def
  by (rule provider_keepsI; unfold godaddy_Present_def godaddy_CleanUp_def) (intro always_intros)+

end

lemma godaddy_update_sent:
  assumes "value = [] \<or> (\<exists>r \<in> set records. gdr_Data r = value)"
  shows "ensures is_nil (delivered e value status_200)
    (godaddy_updateTxtRecords e d records zone name)"
  unfolding godaddy_updateTxtRecords_def godaddy_makeRequest_def Let_def using assms
  by (intro ensures_intros always_intros)
    (auto simp: NewRequest_Inr gd_DNSRecord_json_def intro!: carries_json)

lemma godaddy_Present_sent:
  "ensures is_nil (delivered e (record_value e keyAuth) status_200)
     (godaddy_Present e d domain token keyAuth)"
  unfolding godaddy_Present_def Let_def
  by (intro ensures_intros ensures_try_later always_intros godaddy_update_sent) simp

interpretation godaddy: hosting e "godaddy_provider e d" status_200 for e d
  by (rule hostingI [OF outsider.godaddy_keeps]) (simp add: godaddy_Present_sent godaddy_provider_def)

text \<open>
  Nothing is lost: a record with data is kept by \<^verbatim>\<open>CleanUp\<close> unless it holds the value of the challenge, and
  no record it writes holds that value.
\<close>

lemma godaddy_keep_others:
  "r \<in> set records \<Longrightarrow> gdr_Data r \<noteq> [] \<Longrightarrow> gdr_Data r \<noteq> value \<Longrightarrow> r \<in> set (godaddy_keep value records)"
  "r \<in> set (godaddy_keep value records) \<Longrightarrow> value \<noteq> [] \<Longrightarrow> gdr_Data r \<noteq> value"
  by (auto simp: godaddy_keep_def Let_def filter_empty_conv split: if_splits)

end
