(* ===== verification/Hetzner.thy ===== *)
theory Hetzner
  imports Hosting
begin

text \<open>
  Package \<^verbatim>\<open>providers/dns/hetzner\<close> with its client.  \<^verbatim>\<open>CleanUp\<close> looks the record up by type, name and value
  among the records of the zone.
\<close>

definition hetzner_defaultBaseURL :: string where "hetzner_defaultBaseURL = ''https://dns.hetzner.com''"
definition hetzner_authHeader :: string where "hetzner_authHeader = ''Auth-API-Token''"
definition hetzner_minTTL :: int where "hetzner_minTTL = 600"

record hetzner_config = ttl_config +
  hz_APIKey :: string

definition hetzner_NewDefaultConfig :: "env \<Rightarrow> hetzner_config" where
  "hetzner_NewDefaultConfig e =
     \<lparr>hcf_PropagationTimeout = GetOrDefaultSecond e ''HETZNER_PROPAGATION_TIMEOUT'' (120 * Second),
      hcf_PollingInterval = GetOrDefaultSecond e ''HETZNER_POLLING_INTERVAL'' (2 * Second),
      hcf_HTTPTimeout = GetOrDefaultSecond e ''HETZNER_HTTP_TIMEOUT'' (30 * Second),
      hcf_TTL = GetOrDefaultInt e ''HETZNER_TTL'' hetzner_minTTL, hz_APIKey = []\<rparr>"

text \<open>The client of package \<^verbatim>\<open>internal\<close>.\<close>

record hetzner_client =
  hzc_BaseURL :: string
  hzc_apiKey :: string

definition hetzner_NewClient :: "string \<Rightarrow> hetzner_client" where
  "hetzner_NewClient apiKey = \<lparr>hzc_BaseURL = hetzner_defaultBaseURL, hzc_apiKey = apiKey\<rparr>"

record hetzner =
  hz_config :: hetzner_config
  hz_client :: hetzner_client

definition hetzner_NewDNSProviderConfig :: "hetzner_config option \<Rightarrow> goerror + hetzner" where
  "hetzner_NewDNSProviderConfig config =
     (case config of
        None \<Rightarrow> Inl (nil_config ''hetzner'')
      | Some c \<Rightarrow>
          if hz_APIKey c = [] then Inl (Err ''hetzner: credentials missing'')
          else if hcf_TTL c < hetzner_minTTL then Inl (ttl_error ''hetzner'' (hcf_TTL c) hetzner_minTTL)
          else Inr \<lparr>hz_config = c, hz_client = hetzner_NewClient (hz_APIKey c)\<rparr>)"

definition hetzner_NewDNSProvider :: "env \<Rightarrow> goerror + hetzner" where
  "hetzner_NewDNSProvider e =
     (case env_Get e [''HETZNER_API_KEY''] of
        Inl err \<Rightarrow> Inl (Wrap ''hetzner: '' err)
      | Inr values \<Rightarrow>
          hetzner_NewDNSProviderConfig
            (Some ((hetzner_NewDefaultConfig e)\<lparr>hz_APIKey := env_value values ''HETZNER_API_KEY''\<rparr>)))"

record hz_DNSRecord =
  hzr_ID :: string
  hzr_Name :: string
  hzr_Type :: string
  hzr_Value :: string
  hzr_Priority :: int
  hzr_TTL :: int
  hzr_ZoneID :: string

definition zero_hz_DNSRecord :: hz_DNSRecord where
  "zero_hz_DNSRecord = \<lparr>hzr_ID = [], hzr_Name = [], hzr_Type = [], hzr_Value = [], hzr_Priority = 0,
     hzr_TTL = 0, hzr_ZoneID = []\<rparr>"

definition hz_DNSRecord_json :: "hz_DNSRecord \<Rightarrow> json" where
  "hz_DNSRecord_json r =
     JObj (omit_str ''id'' (hzr_ID r) @ omit_str ''name'' (hzr_Name r) @ omit_str ''type'' (hzr_Type r)
       @ [(''value'', JStr (hzr_Value r))] @ omit_int ''priority'' (hzr_Priority r)
       @ omit_int ''ttl'' (hzr_TTL r) @ omit_str ''zone_id'' (hzr_ZoneID r))"

definition hz_DNSRecord_of_json :: "json \<Rightarrow> goerror + hz_DNSRecord" where
  "hz_DNSRecord_of_json = decode_struct (\<lambda>k v r.
     if k = ''id'' then set_str v (\<lambda>s. r\<lparr>hzr_ID := s\<rparr>) r
     else if k = ''name'' then set_str v (\<lambda>s. r\<lparr>hzr_Name := s\<rparr>) r
     else if k = ''type'' then set_str v (\<lambda>s. r\<lparr>hzr_Type := s\<rparr>) r
     else if k = ''value'' then set_str v (\<lambda>s. r\<lparr>hzr_Value := s\<rparr>) r
     else if k = ''priority'' then set_int v (\<lambda>i. r\<lparr>hzr_Priority := i\<rparr>) r
     else if k = ''ttl'' then set_int v (\<lambda>i. r\<lparr>hzr_TTL := i\<rparr>) r
     else if k = ''zone_id'' then set_str v (\<lambda>s. r\<lparr>hzr_ZoneID := s\<rparr>) r
     else Inr r) zero_hz_DNSRecord"

definition hz_DNSRecords_of_json :: "json \<Rightarrow> goerror + hz_DNSRecord list" where
  "hz_DNSRecords_of_json = decode_struct (\<lambda>k v rs.
     if k = ''records'' then set_list hz_DNSRecord_of_json v (\<lambda>l. l) else Inr rs) []"

text \<open>A zone: its identifier and its name.\<close>

definition hz_Zone_of_json :: "json \<Rightarrow> goerror + string \<times> string" where
  "hz_Zone_of_json = decode_struct (\<lambda>k v (i, n).
     if k = ''id'' then set_str v (\<lambda>s. (s, n)) (i, n)
     else if k = ''name'' then set_str v (\<lambda>s. (i, s)) (i, n)
     else Inr (i, n)) ([], [])"

definition hz_Zones_of_json :: "json \<Rightarrow> goerror + (string \<times> string) list" where
  "hz_Zones_of_json = decode_struct (\<lambda>k v zs.
     if k = ''zones'' then set_list hz_Zone_of_json v (\<lambda>l. l) else Inr zs) []"

definition hetzner_createEndpoint :: "hetzner_client \<Rightarrow> string list \<Rightarrow> goerror + url" where
  "hetzner_createEndpoint c parts =
     (case url_Parse (hzc_BaseURL c) of
        Inl err \<Rightarrow> Inl err
      | Inr baseURL \<Rightarrow> url_ParseRef baseURL (path_Join parts))"

definition hetzner_do ::
  "env \<Rightarrow> hetzner_client \<Rightarrow> string \<Rightarrow> url \<Rightarrow> string option \<Rightarrow> (world, goerror + http_response) go" where
  "hetzner_do e c method endpoint body =
     send e method (url_String endpoint) body (\<lambda>req.
       Header_Set hetzner_authHeader (hzc_apiKey c)
         (Header_Set ''Content-Type'' ''application/json'' (Header_Set ''Accept'' ''application/json'' req)))"

definition with_endpoint ::
  "goerror + url \<Rightarrow> (url \<Rightarrow> (world, goerror + 'a) go) \<Rightarrow> (world, goerror + 'a) go" where
  "with_endpoint r k =
     (case r of Inl err \<Rightarrow> ret (Inl (Wrap ''failed to create endpoint: '' err)) | Inr endpoint \<Rightarrow> k endpoint)"

definition hetzner_getRecords :: "env \<Rightarrow> hetzner_client \<Rightarrow> string \<Rightarrow> (world, goerror + hz_DNSRecord list) go" where
  "hetzner_getRecords e c zoneID =
     with_endpoint (hetzner_createEndpoint c [''api'', ''v1'', ''records'']) (\<lambda>endpoint.
       check (hetzner_do e c ''GET'' (endpoint\<lparr>url_RawQuery := Values_Encode (Values_Set ''zone_id'' zoneID (ParseQuery (url_RawQuery endpoint)))\<rparr>) None) (\<lambda>resp.
         if resp_StatusCode resp \<noteq> 200
         then ret (Inl (Err (''could not get records: zone ID: '' @ zoneID @ ''; Status: '' @ resp_Status resp
                @ ''; Body: '' @ body_text (resp_Body resp))))
         else (case Decode e hz_DNSRecords_of_json (resp_Body resp) of
                 Inl err \<Rightarrow> ret (Inl (Wrap ''failed to decode response body: '' err))
               | Inr records \<Rightarrow> ret (Inr records))))"

definition hetzner_GetTxtRecord ::
  "env \<Rightarrow> hetzner_client \<Rightarrow> string \<Rightarrow> string \<Rightarrow> string \<Rightarrow> (world, goerror + hz_DNSRecord) go" where
  "hetzner_GetTxtRecord e c name value zoneID =
     check (hetzner_getRecords e c zoneID) (\<lambda>records.
       case find (\<lambda>r. hzr_Type r = ''TXT'' \<and> hzr_Name r = name \<and> hzr_Value r = value) records of
         Some record \<Rightarrow> ret (Inr record)
       | None \<Rightarrow> ret (Inl (Err (''could not find record: zone ID: '' @ zoneID @ ''; Record: '' @ name))))"

definition hetzner_CreateRecord :: "env \<Rightarrow> hetzner_client \<Rightarrow> hz_DNSRecord \<Rightarrow> (world, goerror + unit) go" where
  "hetzner_CreateRecord e c record =
     (let body = jsonPrint e (hz_DNSRecord_json record) in
      with_endpoint (hetzner_createEndpoint c [''api'', ''v1'', ''records'']) (\<lambda>endpoint.
        check (hetzner_do e c ''POST'' endpoint (Some body)) (\<lambda>resp.
          if resp_StatusCode resp \<noteq> 200
          then ret (Inl (Err (''could not create record '' @ body @ ''; Status: '' @ resp_Status resp
                 @ ''; Body: '' @ body_text (resp_Body resp))))
          else ret (Inr ()))))"

definition hetzner_DeleteRecord :: "env \<Rightarrow> hetzner_client \<Rightarrow> string \<Rightarrow> (world, goerror + unit) go" where
  "hetzner_DeleteRecord e c recordID =
     with_endpoint (hetzner_createEndpoint c [''api'', ''v1'', ''records'', recordID]) (\<lambda>endpoint.
       check (hetzner_do e c ''DELETE'' endpoint None) (\<lambda>resp.
         if resp_StatusCode resp \<noteq> 200
         then ret (Inl (Err (''could not delete record: '' @ resp_Status resp @ ''; Status: '' @ recordID)))
         else ret (Inr ())))"

definition hetzner_getZones :: "env \<Rightarrow> hetzner_client \<Rightarrow> (world, goerror + (string \<times> string) list) go" where
  "hetzner_getZones e c =
     with_endpoint (hetzner_createEndpoint c [''api'', ''v1'', ''zones'']) (\<lambda>endpoint.
       check (wrap_res ''could not get zones: '' (hetzner_do e c ''GET'' endpoint None)) (\<lambda>resp.
         if resp_StatusCode resp \<noteq> 200
         then ret (Inl (Err (''could not get zones: '' @ resp_Status resp)))
         else (case Decode e hz_Zones_of_json (resp_Body resp) of
                 Inl err \<Rightarrow> ret (Inl (Wrap ''failed to decode response body: '' err))
               | Inr zones \<Rightarrow> ret (Inr zones))))"

definition hetzner_GetZoneID :: "env \<Rightarrow> hetzner_client \<Rightarrow> string \<Rightarrow> (world, goerror + string) go" where
  "hetzner_GetZoneID e c domain =
     check (hetzner_getZones e c) (\<lambda>zones.
       case find (\<lambda>z. snd z = domain) zones of
         Some z \<Rightarrow> ret (Inr (fst z))
       | None \<Rightarrow> ret (Inl (Err (''could not get zone for domain '' @ domain @ '' not found''))))"

definition hetzner_extractRecordName :: "string \<Rightarrow> string \<Rightarrow> string" where
  "hetzner_extractRecordName fqdn zone =
     (let name = UnFqdn fqdn in
      case str_index name (''.'' @ zone) of Some idx \<Rightarrow> take idx name | None \<Rightarrow> name)"

definition hetzner_getZone :: "env \<Rightarrow> string \<Rightarrow> (world, goerror + string) go" where
  "hetzner_getZone e fqdn = check (FindZoneByFqdn e fqdn) (\<lambda>authZone. ret (Inr (UnFqdn authZone)))"

definition hetzner_Present :: "env \<Rightarrow> hetzner \<Rightarrow> string \<Rightarrow> string \<Rightarrow> string \<Rightarrow> (world, goerror option) go" where
  "hetzner_Present e d domain token keyAuth =
     bind (GetRecord e domain keyAuth) (\<lambda>(fqdn, value).
       try_or (''hetzner: failed to find zone: fqdn='' @ fqdn @ '': '') (hetzner_getZone e fqdn) (\<lambda>zone.
         try_or ''hetzner: '' (hetzner_GetZoneID e (hz_client d) zone) (\<lambda>zoneID.
           try_or (''hetzner: failed to add TXT record: fqdn='' @ fqdn @ '', zoneID='' @ zoneID @ '': '')
             (hetzner_CreateRecord e (hz_client d)
               \<lparr>hzr_ID = [], hzr_Name = hetzner_extractRecordName fqdn zone, hzr_Type = ''TXT'', hzr_Value = value,
                hzr_Priority = 0, hzr_TTL = hcf_TTL (hz_config d), hzr_ZoneID = zoneID\<rparr>)
             (\<lambda>_. ret None))))"

definition hetzner_CleanUp :: "env \<Rightarrow> hetzner \<Rightarrow> string \<Rightarrow> string \<Rightarrow> string \<Rightarrow> (world, goerror option) go" where
  "hetzner_CleanUp e d domain token keyAuth =
     bind (GetRecord e domain keyAuth) (\<lambda>(fqdn, value).
       try_or (''hetzner: failed to find zone: fqdn='' @ fqdn @ '': '') (hetzner_getZone e fqdn) (\<lambda>zone.
         try_or ''hetzner: '' (hetzner_GetZoneID e (hz_client d) zone) (\<lambda>zoneID.
           try_or ''hetzner: ''
             (hetzner_GetTxtRecord e (hz_client d) (hetzner_extractRecordName fqdn zone) value zoneID) (\<lambda>record.
             try_or (''hetzner: failed to delate TXT record: id='' @ hzr_ID record @ '', name='' @ hzr_Name record @ '': '')
               (hetzner_DeleteRecord e (hz_client d) (hzr_ID record)) (\<lambda>_. ret None)))))"

definition hetzner_Timeout :: "hetzner \<Rightarrow> int \<times> int" where
  "hetzner_Timeout d = (hcf_PropagationTimeout (hz_config d), hcf_PollingInterval (hz_config d))"

definition hetzner_provider :: "env \<Rightarrow> hetzner \<Rightarrow> provider" where
  "hetzner_provider e d =
     \<lparr>prov_Present = hetzner_Present e d, prov_CleanUp = hetzner_CleanUp e d,
      prov_Timeout = Some (hetzner_Timeout d), prov_Sequential = None\<rparr>"

section \<open>The provider keeps its contract\<close>

context plain_invariant
begin

lemma always_hetzner [always_intros]:
  "always R (hetzner_getRecords e c zoneID)" "always R (hetzner_CreateRecord e c r)"
  "always R (hetzner_DeleteRecord e c recordID)" "always R (hetzner_getZones e c)"
  "always R (hetzner_getZone e fqdn)"
  unfolding hetzner_getRecords_def hetzner_CreateRecord_def hetzner_DeleteRecord_def hetzner_getZones_def
    with_endpoint_def hetzner_do_def hetzner_getZone_def
  by (intro always_intros; simp)+

lemma hetzner_keeps: "provider_keeps R (hetzner_provider e d)"
  unfolding hetzner_provider_def
  by (rule provider_keepsI; unfold hetzner_Present_def hetzner_CleanUp_def hetzner_GetZoneID_def
      hetzner_GetTxtRecord_def) (intro always_intros)+

end

lemma hetzner_CreateRecord_sent:
  "hzr_Value r = v \<Longrightarrow>
   ensures is_ok (delivered e v status_200) (hetzner_CreateRecord e c r)"
  unfolding hetzner_CreateRecord_def hetzner_do_def with_endpoint_def Let_def
  by (intro ensures_intros always_intros)
    (auto simp: NewRequest_Inr hz_DNSRecord_json_def intro!: carries_json)

lemma hetzner_Present_sent:
  "ensures is_nil (delivered e (record_value e keyAuth) status_200)
     (hetzner_Present e d domain token keyAuth)"
  unfolding hetzner_Present_def hetzner_GetZoneID_def
  by (intro ensures_try_first [OF hetzner_CreateRecord_sent] ensures_intros ensures_try_later always_intros) simp

interpretation hetzner: hosting e "hetzner_provider e d" status_200 for e d
  by (rule hostingI [OF outsider.hetzner_keeps]) (simp add: hetzner_Present_sent hetzner_provider_def)

end
