(* ===== verification/Httpreq.thy ===== *)
theory Httpreq
  imports Hosting
begin

text \<open>
  Packages \<^verbatim>\<open>providers/dns/httpreq\<close> and \<^verbatim>\<open>providers/dns/exec\<close>: providers that hand the record to a server, or to
  a program, of the user.  In mode \<^verbatim>\<open>RAW\<close> they pass the key authorization instead of the text of the record.
\<close>

section \<open>A server of the user\<close>

record httpreq = host_config +
  hr_Endpoint :: "url option"
  hr_Mode :: string
  hr_Username :: string
  hr_Password :: string

definition httpreq_NewDefaultConfig :: "env \<Rightarrow> httpreq" where
  "httpreq_NewDefaultConfig e =
     \<lparr>hcf_PropagationTimeout = GetOrDefaultSecond e ''HTTPREQ_PROPAGATION_TIMEOUT'' DefaultPropagationTimeout,
      hcf_PollingInterval = GetOrDefaultSecond e ''HTTPREQ_POLLING_INTERVAL'' DefaultPollingInterval,
      hcf_HTTPTimeout = GetOrDefaultSecond e ''HTTPREQ_HTTP_TIMEOUT'' (30 * Second),
      hr_Endpoint = None, hr_Mode = [], hr_Username = [], hr_Password = []\<rparr>"

definition httpreq_NewDNSProviderConfig :: "httpreq option \<Rightarrow> goerror + httpreq" where
  "httpreq_NewDNSProviderConfig config =
     (case config of
        None \<Rightarrow> Inl (nil_config ''httpreq'')
      | Some c \<Rightarrow> if hr_Endpoint c = None then Inl (Err ''httpreq: the endpoint is missing'') else Inr c)"

definition httpreq_NewDNSProvider :: "env \<Rightarrow> goerror + httpreq" where
  "httpreq_NewDNSProvider e =
     (case env_Get e [''HTTPREQ_ENDPOINT''] of
        Inl err \<Rightarrow> Inl (Wrap ''httpreq: '' err)
      | Inr values \<Rightarrow>
          (case url_Parse (env_value values ''HTTPREQ_ENDPOINT'') of
             Inl err \<Rightarrow> Inl (Wrap ''httpreq: '' err)
           | Inr endpoint \<Rightarrow>
               httpreq_NewDNSProviderConfig (Some ((httpreq_NewDefaultConfig e)
                 \<lparr>hr_Mode := GetOrFile e ''HTTPREQ_MODE'', hr_Username := GetOrFile e ''HTTPREQ_USERNAME'',
                  hr_Password := GetOrFile e ''HTTPREQ_PASSWORD'', hr_Endpoint := Some endpoint\<rparr>))))"

text \<open>The two messages.\<close>

definition httpreq_message :: "string \<Rightarrow> string \<Rightarrow> json" where
  "httpreq_message fqdn value = JObj [(''fqdn'', JStr fqdn), (''value'', JStr value)]"

definition httpreq_messageRaw :: "string \<Rightarrow> string \<Rightarrow> string \<Rightarrow> json" where
  "httpreq_messageRaw domain token keyAuth =
     JObj [(''domain'', JStr domain), (''token'', JStr token), (''keyAuth'', JStr keyAuth)]"

definition httpreq_doPost :: "env \<Rightarrow> httpreq \<Rightarrow> string \<Rightarrow> json \<Rightarrow> (world, goerror option) go" where
  "httpreq_doPost e d uri msg =
     (case hr_Endpoint d of
        None \<Rightarrow> panic nil_pointer
      | Some ep \<Rightarrow>
          (let reqBody = jsonPrint e msg @ [CHR 0x0A];
               newURI = path_Join [EscapedPath ep, uri] in
           case url_ParseRef ep newURI of
             Inl err \<Rightarrow> ret (Some err)
           | Inr endpoint \<Rightarrow>
               handle (send e ''POST'' (url_String endpoint) (Some reqBody) (\<lambda>req.
                   let req = Header_Set ''Content-Type'' ''application/json'' req in
                   if hr_Username d \<noteq> [] \<and> hr_Password d \<noteq> []
                   then SetBasicAuth (hr_Username d) (hr_Password d) req else req))
                 (\<lambda>err. ret (Some err)) (\<lambda>resp.
                 if 400 \<le> resp_StatusCode resp then
                   (case resp_Body resp of
                      Inl err \<Rightarrow> ret (Some (Wrap (show_int (resp_StatusCode resp)
                                   @ '': failed to read response body: '') err))
                    | Inr body \<Rightarrow> ret (Some (Err (show_int (resp_StatusCode resp) @ '': request failed: '' @ body))))
                 else ret None)))"

definition httpreq_Present :: "env \<Rightarrow> httpreq \<Rightarrow> string \<Rightarrow> string \<Rightarrow> string \<Rightarrow> (world, goerror option) go" where
  "httpreq_Present e d domain token keyAuth =
     (if hr_Mode d = ''RAW''
      then wrap_err ''httpreq: '' (httpreq_doPost e d ''/present'' (httpreq_messageRaw domain token keyAuth))
      else
        bind (GetRecord e domain keyAuth) (\<lambda>(fqdn, value).
          wrap_err ''httpreq: '' (httpreq_doPost e d ''/present'' (httpreq_message fqdn value))))"

definition httpreq_CleanUp :: "env \<Rightarrow> httpreq \<Rightarrow> string \<Rightarrow> string \<Rightarrow> string \<Rightarrow> (world, goerror option) go" where
  "httpreq_CleanUp e d domain token keyAuth =
     (if hr_Mode d = ''RAW''
      then wrap_err ''httpreq: '' (httpreq_doPost e d ''/cleanup'' (httpreq_messageRaw domain token keyAuth))
      else
        bind (GetRecord e domain keyAuth) (\<lambda>(fqdn, value).
          wrap_err ''httpreq: '' (httpreq_doPost e d ''/cleanup'' (httpreq_message fqdn value))))"

definition httpreq_Timeout :: "httpreq \<Rightarrow> int \<times> int" where
  "httpreq_Timeout d = (hcf_PropagationTimeout d, hcf_PollingInterval d)"

definition httpreq_provider :: "env \<Rightarrow> httpreq \<Rightarrow> provider" where
  "httpreq_provider e d =
     \<lparr>prov_Present = httpreq_Present e d, prov_CleanUp = httpreq_CleanUp e d,
      prov_Timeout = Some (httpreq_Timeout d), prov_Sequential = None\<rparr>"

section \<open>A program of the user\<close>

record exec_config =
  ex_Program :: string
  ex_Mode :: string
  ex_PropagationTimeout :: int
  ex_PollingInterval :: int

definition exec_NewDefaultConfig :: "env \<Rightarrow> exec_config" where
  "exec_NewDefaultConfig e =
     \<lparr>ex_Program = [], ex_Mode = [],
      ex_PropagationTimeout = GetOrDefaultSecond e ''EXEC_PROPAGATION_TIMEOUT'' DefaultPropagationTimeout,
      ex_PollingInterval = GetOrDefaultSecond e ''EXEC_POLLING_INTERVAL'' DefaultPollingInterval\<rparr>"

definition exec_NewDNSProviderConfig :: "exec_config option \<Rightarrow> goerror + exec_config" where
  "exec_NewDNSProviderConfig config =
     (case config of None \<Rightarrow> Inl (Err ''the configuration is nil'') | Some c \<Rightarrow> Inr c)"

definition exec_NewDNSProvider :: "env \<Rightarrow> goerror + exec_config" where
  "exec_NewDNSProvider e =
     (case env_Get e [''EXEC_PATH''] of
        Inl err \<Rightarrow> Inl (Wrap ''exec: '' err)
      | Inr values \<Rightarrow>
          exec_NewDNSProviderConfig (Some ((exec_NewDefaultConfig e)
            \<lparr>ex_Program := env_value values ''EXEC_PATH'', ex_Mode := getenv e ''EXEC_MODE''\<rparr>)))"

text \<open>\<^verbatim>\<open>exec.Command(program, args...).CombinedOutput()\<close>; the output is only logged.\<close>

definition exec_Command :: "env \<Rightarrow> string \<Rightarrow> string list \<Rightarrow> (world, goerror option) go" where
  "exec_Command e program args =
     bind (gets (\<lambda>w. execRun e (w_trace w) program args)) (\<lambda>err.
       bind (observe e (EvExec program args err)) (\<lambda>_. ret err))"

definition exec_Present :: "env \<Rightarrow> exec_config \<Rightarrow> string \<Rightarrow> string \<Rightarrow> string \<Rightarrow> (world, goerror option) go" where
  "exec_Present e d domain token keyAuth =
     bind (if ex_Mode d = ''RAW'' then ret [''present'', ''--'', domain, token, keyAuth]
           else bind (GetRecord e domain keyAuth) (\<lambda>(fqdn, value). ret [''present'', fqdn, value]))
       (exec_Command e (ex_Program d))"

definition exec_CleanUp :: "env \<Rightarrow> exec_config \<Rightarrow> string \<Rightarrow> string \<Rightarrow> string \<Rightarrow> (world, goerror option) go" where
  "exec_CleanUp e d domain token keyAuth =
     bind (if ex_Mode d = ''RAW'' then ret [''cleanup'', ''--'', domain, token, keyAuth]
           else bind (GetRecord e domain keyAuth) (\<lambda>(fqdn, value). ret [''cleanup'', fqdn, value]))
       (exec_Command e (ex_Program d))"

definition exec_Timeout :: "exec_config \<Rightarrow> int \<times> int" where
  "exec_Timeout d = (ex_PropagationTimeout d, ex_PollingInterval d)"

definition exec_Sequential :: "exec_config \<Rightarrow> int" where
  "exec_Sequential d = ex_PropagationTimeout d"

definition exec_provider :: "env \<Rightarrow> exec_config \<Rightarrow> provider" where
  "exec_provider e d =
     \<lparr>prov_Present = exec_Present e d, prov_CleanUp = exec_CleanUp e d,
      prov_Timeout = Some (exec_Timeout d), prov_Sequential = Some (exec_Sequential d)\<rparr>"

section \<open>The providers keep their contract\<close>

context plain_invariant
begin

lemma always_httpreq_doPost [always_intros]: "always R (httpreq_doPost e d uri msg)"
  unfolding httpreq_doPost_def Let_def by (intro always_intros) simp

lemma httpreq_keeps: "provider_keeps R (httpreq_provider e d)"
  unfolding httpreq_provider_def
  by (rule provider_keepsI; unfold httpreq_Present_def httpreq_CleanUp_def) (intro always_intros)+

lemma always_exec_Command [always_intros]: "always R (exec_Command e program args)"
  unfolding exec_Command_def by (intro always_intros plain_step) simp

lemma exec_keeps: "provider_keeps R (exec_provider e d)"
  unfolding exec_provider_def
  by (rule provider_keepsI; unfold exec_Present_def exec_CleanUp_def) (intro always_intros)+

end

lemma httpreq_doPost_sent:
  assumes "txt \<in> set (json_strings msg)"
  shows "ensures is_nil (delivered e txt (answered below_400)) (httpreq_doPost e d uri msg)"
  unfolding httpreq_doPost_def Let_def using assms
  by (intro ensures_intros always_intros)
    (auto simp: NewRequest_Inr intro!: carries_json_line split: if_splits)

interpretation httpreq: hosting e "httpreq_provider e d" "answered below_400" for e d
proof
  show "provider_keeps outside (httpreq_provider e d)" by (rule outsider.httpreq_keeps)
  have raw: "ensures is_nil (\<lambda>ev. delivered e v (answered below_400) ev \<or> delivered e x (answered below_400) ev)
      (httpreq_doPost e d uri msg)" if "x \<in> set (json_strings msg)" for v x uri msg
    using httpreq_doPost_sent [OF that] by (rule ensures_mono) simp
  have val: "ensures is_nil (\<lambda>ev. delivered e x (answered below_400) ev \<or> delivered e v (answered below_400) ev)
      (httpreq_doPost e d uri msg)" if "x \<in> set (json_strings msg)" for v x uri msg
    using httpreq_doPost_sent [OF that] by (rule ensures_mono) simp
  show "ensures is_nil (\<lambda>ev. delivered e (record_value e keyAuth) (answered below_400) ev
      \<or> delivered e keyAuth (answered below_400) ev) (prov_Present (httpreq_provider e d) domain token keyAuth)"
    for domain token keyAuth
    unfolding httpreq_provider_def httpreq_Present_def provider.simps
    by (cases "hr_Mode d = ''RAW''")
      (simp_all, (intro ensures_intros raw val; simp add: httpreq_message_def httpreq_messageRaw_def)+)
qed

text \<open>The program ended without error.\<close>

definition succeeded :: "event \<Rightarrow> bool" where
  "succeeded ev \<longleftrightarrow> (case ev of EvExec program args err \<Rightarrow> err = None | _ \<Rightarrow> False)"

lemma exec_Command_sent:
  assumes "txt \<in> set args"
  shows "ensures is_nil (delivered e txt succeeded) (exec_Command e program args)"
  unfolding ensures_def exec_Command_def using assms
  by (auto simp: go_simps happened_def delivered_def succeeded_def delivers_def)

interpretation exec: hosting e "exec_provider e d" succeeded for e d
proof
  show "provider_keeps outside (exec_provider e d)" by (rule outsider.exec_keeps)
  have sent: "ensures is_nil (\<lambda>ev. delivered e v succeeded ev \<or> delivered e k succeeded ev)
      (exec_Command e program args)" if "v \<in> set args \<or> k \<in> set args" for v k program args
    using that exec_Command_sent [of v args e program] exec_Command_sent [of k args e program]
    unfolding ensures_def by blast
  show "ensures is_nil (\<lambda>ev. delivered e (record_value e keyAuth) succeeded ev \<or> delivered e keyAuth succeeded ev)
      (prov_Present (exec_provider e d) domain token keyAuth)" for domain token keyAuth
    unfolding exec_provider_def exec_Present_def provider.simps
    by (cases "ex_Mode d = ''RAW''") (simp_all add: sent bind_bind case_prod_beta' ensures_GetRecord
        [where k = "\<lambda>fqdn value. exec_Command e (ex_Program d) [''present'', fqdn, value]", simplified case_prod_beta'])
qed

end
