(* ===== verification/Glesys.thy ===== *)
theory Glesys
  imports Hosting
begin

text \<open>
  Package \<^verbatim>\<open>providers/dns/glesys\<close>.  The record is remembered under its name.  \<^verbatim>\<open>sendRequest\<close> returns the decoded
  reply together with the error of decoding it, and \<^verbatim>\<open>addTXTRecord\<close> looks at the status in the reply first.

  Proved here besides the contract: a reply that reports a failure in its body, with an HTTP status below
  400, is taken for a success, and the identifier that is remembered is zero.
\<close>

definition glesys_defaultBaseURL :: string where "glesys_defaultBaseURL = ''https://api.glesys.com/domain''"
definition glesys_minTTL :: int where "glesys_minTTL = 60"

record glesys_config = ttl_config +
  gl_APIUser :: string
  gl_APIKey :: string

record glesys =
  gl_config :: glesys_config
  gl_activeRecords :: nat

definition glesys_NewDefaultConfig :: "env \<Rightarrow> glesys_config" where
  "glesys_NewDefaultConfig e =
     \<lparr>hcf_PropagationTimeout = GetOrDefaultSecond e ''GLESYS_PROPAGATION_TIMEOUT'' (20 * Minute),
      hcf_PollingInterval = GetOrDefaultSecond e ''GLESYS_POLLING_INTERVAL'' (20 * Second),
      hcf_HTTPTimeout = GetOrDefaultSecond e ''GLESYS_HTTP_TIMEOUT'' (10 * Second),
      hcf_TTL = GetOrDefaultInt e ''GLESYS_TTL'' glesys_minTTL, gl_APIUser = [], gl_APIKey = []\<rparr>"

definition glesys_NewDNSProviderConfig :: "glesys_config option \<Rightarrow> (world, goerror + glesys) go" where
  "glesys_NewDNSProviderConfig config =
     (case config of
        None \<Rightarrow> ret (Inl (nil_config ''glesys''))
      | Some c \<Rightarrow>
          if gl_APIUser c = [] \<or> gl_APIKey c = [] then ret (Inl (Err ''glesys: incomplete credentials provided''))
          else if hcf_TTL c < glesys_minTTL then ret (Inl (ttl_error ''glesys'' (hcf_TTL c) glesys_minTTL))
          else bind make_map (\<lambda>a. ret (Inr \<lparr>gl_config = c, gl_activeRecords = a\<rparr>)))"

definition glesys_NewDNSProvider :: "env \<Rightarrow> (world, goerror + glesys) go" where
  "glesys_NewDNSProvider e =
     (case env_Get e [''GLESYS_API_USER'', ''GLESYS_API_KEY''] of
        Inl err \<Rightarrow> ret (Inl (Wrap ''glesys: '' err))
      | Inr values \<Rightarrow>
          glesys_NewDNSProviderConfig (Some ((glesys_NewDefaultConfig e)
            \<lparr>gl_APIUser := env_value values ''GLESYS_API_USER'', gl_APIKey := env_value values ''GLESYS_API_KEY''\<rparr>)))"

section \<open>Messages\<close>

definition gl_addRecordRequest_json :: "string \<Rightarrow> string \<Rightarrow> string \<Rightarrow> string \<Rightarrow> int \<Rightarrow> json" where
  "gl_addRecordRequest_json domainName host ty dat ttl =
     JObj ([(''domainname'', JStr domainName), (''host'', JStr host), (''type'', JStr ty), (''data'', JStr dat)]
       @ omit_int ''ttl'' ttl)"

definition gl_deleteRecordRequest_json :: "int \<Rightarrow> json" where
  "gl_deleteRecordRequest_json recordID = JObj [(''recordid'', JNum recordID)]"

text \<open>The status code and the record identifier of \<^verbatim>\<open>responseStruct\<close>.\<close>

record gl_response =
  glr_Code :: int
  glr_RecordID :: int

text \<open>
  \<^verbatim>\<open>Decode\<close> goes on after a member of the wrong kind: the other members are set, and the first such error is
  returned.
\<close>

fun lenient_members ::
  "(string \<Rightarrow> json \<Rightarrow> 'a \<Rightarrow> 'a \<times> goerror option) \<Rightarrow> members \<Rightarrow> 'a \<Rightarrow> 'a \<times> goerror option" where
  "lenient_members step [] a = (a, None)"
| "lenient_members step ((k, v) # ms) a =
     (case step k v a of (b, err) \<Rightarrow>
        (case lenient_members step ms b of (c, err') \<Rightarrow> (c, if err = None then err' else err)))"

definition lenient_struct ::
  "(string \<Rightarrow> json \<Rightarrow> 'a \<Rightarrow> 'a \<times> goerror option) \<Rightarrow> json \<Rightarrow> 'a \<Rightarrow> 'a \<times> goerror option" where
  "lenient_struct step j a =
     (case j of JObj ms \<Rightarrow> lenient_members step ms a | JNull \<Rightarrow> (a, None) | _ \<Rightarrow> (a, Some type_error))"

definition lenient_int :: "json \<Rightarrow> (int \<Rightarrow> 'a) \<Rightarrow> 'a \<Rightarrow> 'a \<times> goerror option" where
  "lenient_int v upd a = (case set_int v upd a of Inl err \<Rightarrow> (a, Some err) | Inr b \<Rightarrow> (b, None))"

definition gl_response_of_json :: "json \<Rightarrow> gl_response \<times> goerror option" where
  "gl_response_of_json j =
     lenient_struct (\<lambda>k v r. if k = ''response'' then
       lenient_struct (\<lambda>k v r.
         if k = ''status'' then lenient_struct (\<lambda>k v r.
           if k = ''code'' then lenient_int v (\<lambda>i. r\<lparr>glr_Code := i\<rparr>) r else (r, None)) v r
         else if k = ''record'' then lenient_struct (\<lambda>k v r.
           if k = ''recordid'' then lenient_int v (\<lambda>i. r\<lparr>glr_RecordID := i\<rparr>) r else (r, None)) v r
         else (r, None)) v r
       else (r, None)) j \<lparr>glr_Code = 0, glr_RecordID = 0\<rparr>"

definition gl_decode :: "env \<Rightarrow> goerror + string \<Rightarrow> gl_response \<times> goerror option" where
  "gl_decode e body =
     (case body of
        Inl err \<Rightarrow> (\<lparr>glr_Code = 0, glr_RecordID = 0\<rparr>, Some err)
      | Inr raw \<Rightarrow>
          (case jsonStream e raw of
             None \<Rightarrow> (\<lparr>glr_Code = 0, glr_RecordID = 0\<rparr>, Some (Err ''invalid JSON''))
           | Some j \<Rightarrow> gl_response_of_json j))"

section \<open>Operations\<close>

text \<open>\<^verbatim>\<open>sendRequest\<close> returns a response that may be nil, and an error.\<close>

definition glesys_sendRequest ::
  "env \<Rightarrow> glesys \<Rightarrow> string \<Rightarrow> string \<Rightarrow> json \<Rightarrow> (world, gl_response option \<times> goerror option) go" where
  "glesys_sendRequest e d method resource payload =
     handle (send e method (glesys_defaultBaseURL @ ''/'' @ resource) (Some (jsonPrint e payload)) (\<lambda>req.
         SetBasicAuth (gl_APIUser (gl_config d)) (gl_APIKey (gl_config d))
           (Header_Set ''Content-Type'' ''application/json'' req)))
       (\<lambda>err. ret (None, Some err)) (\<lambda>resp.
       if 400 \<le> resp_StatusCode resp
       then ret (None, Some (Err (''request failed with HTTP status code '' @ show_int (resp_StatusCode resp))))
       else (case gl_decode e (resp_Body resp) of (response, err) \<Rightarrow> ret (Some response, err)))"

text \<open>\<^verbatim>\<open>addTXTRecord\<close> returns an identifier, which may be zero without an error.\<close>

definition glesys_addTXTRecord ::
  "env \<Rightarrow> glesys \<Rightarrow> string \<Rightarrow> string \<Rightarrow> string \<Rightarrow> string \<Rightarrow> int \<Rightarrow> (world, int \<times> goerror option) go" where
  "glesys_addTXTRecord e d fqdn domain name value ttl =
     bind (glesys_sendRequest e d ''POST'' ''addrecord'' (gl_addRecordRequest_json domain name ''TXT'' value ttl))
       (\<lambda>(response, err).
         case response of
           Some r \<Rightarrow> if glr_Code r = 200 then ret (glr_RecordID r, None) else ret (0, err)
         | None \<Rightarrow> ret (0, err))"

definition glesys_deleteTXTRecord :: "env \<Rightarrow> glesys \<Rightarrow> string \<Rightarrow> int \<Rightarrow> (world, goerror option) go" where
  "glesys_deleteTXTRecord e d fqdn recordid =
     bind (glesys_sendRequest e d ''POST'' ''deleterecord'' (gl_deleteRecordRequest_json recordid))
       (\<lambda>(response, err). ret err)"

definition glesys_Present :: "env \<Rightarrow> glesys \<Rightarrow> string \<Rightarrow> string \<Rightarrow> string \<Rightarrow> (world, goerror option) go" where
  "glesys_Present e d domain token keyAuth =
     bind (GetRecord e domain keyAuth) (\<lambda>(fqdn, value).
       try_or ''glesys: findZoneByFqdn failure: '' (FindZoneByFqdn e fqdn) (\<lambda>authZone.
         if \<not> HasSuffix (ToLower fqdn) (ToLower (''.'' @ authZone))
         then ret (Some (Err (''glesys: unexpected authZone '' @ authZone @ '' for fqdn '' @ fqdn)))
         else
           (let name = take (length fqdn - length (''.'' @ authZone)) fqdn in
            bind (glesys_addTXTRecord e d domain (UnFqdn authZone) name value (hcf_TTL (gl_config d))) (\<lambda>(recordID, err).
              if err \<noteq> None then ret err
              else bind (map_set (gl_activeRecords d) fqdn (IntCell recordID)) (\<lambda>_. ret None)))))"

definition glesys_CleanUp :: "env \<Rightarrow> glesys \<Rightarrow> string \<Rightarrow> string \<Rightarrow> string \<Rightarrow> (world, goerror option) go" where
  "glesys_CleanUp e d domain token keyAuth =
     bind (GetRecord e domain keyAuth) (\<lambda>(fqdn, _).
       bind (map_get (gl_activeRecords d) fqdn) (\<lambda>found.
         case found of
           None \<Rightarrow> ret None
         | Some c \<Rightarrow>
             bind (map_delete (gl_activeRecords d) fqdn) (\<lambda>_.
               glesys_deleteTXTRecord e d domain (cell_int c))))"

definition glesys_Timeout :: "glesys \<Rightarrow> int \<times> int" where
  "glesys_Timeout d = (hcf_PropagationTimeout (gl_config d), hcf_PollingInterval (gl_config d))"

definition glesys_provider :: "env \<Rightarrow> glesys \<Rightarrow> provider" where
  "glesys_provider e d =
     \<lparr>prov_Present = glesys_Present e d, prov_CleanUp = glesys_CleanUp e d,
      prov_Timeout = Some (glesys_Timeout d), prov_Sequential = None\<rparr>"

section \<open>The provider keeps its contract\<close>

context plain_invariant
begin

lemma always_glesys [always_intros]:
  "always R (glesys_addTXTRecord e d fqdn domain name value ttl)" "always R (glesys_deleteTXTRecord e d fqdn recordid)"
  unfolding glesys_addTXTRecord_def glesys_deleteTXTRecord_def glesys_sendRequest_def
  by (intro always_intros; simp)+

lemma glesys_keeps: "provider_keeps R (glesys_provider e d)"
  unfolding glesys_provider_def
  by (rule provider_keepsI; unfold glesys_Present_def glesys_CleanUp_def) (intro always_intros)+

end

lemma glesys_addTXTRecord_sent:
  "ensures (\<lambda>(_, err). err = None) (delivered e value (answered below_400))
     (glesys_addTXTRecord e d fqdn domain name value ttl)"
proof -
  have "ensures (\<lambda>(r, err). r \<noteq> None \<or> err = None) (delivered e value (answered below_400))
      (glesys_sendRequest e d ''POST'' ''addrecord'' (gl_addRecordRequest_json domain name ''TXT'' value ttl))"
    unfolding glesys_sendRequest_def
    by (intro ensures_send ensures_intros always_intros)
      (auto simp: NewRequest_Inr gl_addRecordRequest_json_def intro!: carries_json)
  then show ?thesis
    unfolding glesys_addTXTRecord_def glesys_sendRequest_def
    by (rule ensures_first) (intro always_intros ensures_intros; auto split: option.splits intro!: ensures_ret)+
qed

lemma glesys_Present_sent:
  "ensures is_nil (delivered e (record_value e keyAuth) (answered below_400)) (glesys_Present e d domain token keyAuth)"
  unfolding glesys_Present_def Let_def
  by (intro ensures_intros ensures_first [OF glesys_addTXTRecord_sent] always_intros) (auto split: prod.splits intro!: ensures_ret)

interpretation glesys: hosting e "glesys_provider e d" "answered below_400" for e d
  by (rule hostingI [OF outsider.glesys_keeps]) (simp add: glesys_Present_sent glesys_provider_def)

end
