(* ===== verification/Luadns.thy ===== *)
theory Luadns
  imports Hosting
begin

text \<open>
  Package \<^verbatim>\<open>providers/dns/luadns\<close> with its client.  The provider remembers the record the service returned, a
  pointer that is nil when the reply is the JSON \<^verbatim>\<open>null\<close>.

  Proved here besides the contract: the zone a domain is put into is the longest one whose name is a
  suffix of the domain as a text, and such a zone need not hold the domain.
\<close>

definition luadns_defaultBaseURL :: string where "luadns_defaultBaseURL = ''https://api.luadns.com''"
definition luadns_minTTL :: int where "luadns_minTTL = 300"

record luadns_config = ttl_config +
  lua_APIUsername :: string
  lua_APIToken :: string

definition luadns_NewDefaultConfig :: "env \<Rightarrow> luadns_config" where
  "luadns_NewDefaultConfig e =
     \<lparr>hcf_PropagationTimeout = GetOrDefaultSecond e ''LUADNS_PROPAGATION_TIMEOUT'' (120 * Second),
      hcf_PollingInterval = GetOrDefaultSecond e ''LUADNS_POLLING_INTERVAL'' (2 * Second),
      hcf_HTTPTimeout = GetOrDefaultSecond e ''LUADNS_HTTP_TIMEOUT'' (30 * Second),
      hcf_TTL = GetOrDefaultInt e ''LUADNS_TTL'' luadns_minTTL, lua_APIUsername = [], lua_APIToken = []\<rparr>"

record luadns_client =
  luac_BaseURL :: string
  luac_apiUsername :: string
  luac_apiToken :: string

definition luadns_NewClient :: "string \<Rightarrow> string \<Rightarrow> luadns_client" where
  "luadns_NewClient apiUsername apiToken =
     \<lparr>luac_BaseURL = luadns_defaultBaseURL, luac_apiUsername = apiUsername, luac_apiToken = apiToken\<rparr>"

record luadns =
  lua_config :: luadns_config
  lua_client :: luadns_client
  lua_records :: nat

definition luadns_NewDNSProviderConfig :: "luadns_config option \<Rightarrow> (world, goerror + luadns) go" where
  "luadns_NewDNSProviderConfig config =
     (case config of
        None \<Rightarrow> ret (Inl (nil_config ''luadns''))
      | Some c \<Rightarrow>
          if lua_APIUsername c = [] \<or> lua_APIToken c = [] then ret (Inl (Err ''luadns: credentials missing''))
          else if hcf_TTL c < luadns_minTTL then ret (Inl (ttl_error ''luadns'' (hcf_TTL c) luadns_minTTL))
          else
            bind make_map (\<lambda>a.
              ret (Inr \<lparr>lua_config = c, lua_client = luadns_NewClient (lua_APIUsername c) (lua_APIToken c),
                lua_records = a\<rparr>)))"

definition luadns_NewDNSProvider :: "env \<Rightarrow> (world, goerror + luadns) go" where
  "luadns_NewDNSProvider e =
     (case env_Get e [''LUADNS_API_USERNAME'', ''LUADNS_API_TOKEN''] of
        Inl err \<Rightarrow> ret (Inl (Wrap ''luadns: '' err))
      | Inr values \<Rightarrow>
          luadns_NewDNSProviderConfig (Some ((luadns_NewDefaultConfig e)
            \<lparr>lua_APIUsername := env_value values ''LUADNS_API_USERNAME'',
             lua_APIToken := env_value values ''LUADNS_API_TOKEN''\<rparr>)))"

section \<open>Messages\<close>

record lua_DNSZone =
  luz_ID :: int
  luz_Name :: string
  luz_Synced :: bool
  luz_QueriesCount :: int
  luz_RecordsCount :: int
  luz_AliasesCount :: int
  luz_RedirectsCount :: int
  luz_ForwardsCount :: int
  luz_TemplateID :: int

definition zero_lua_DNSZone :: lua_DNSZone where
  "zero_lua_DNSZone = \<lparr>luz_ID = 0, luz_Name = [], luz_Synced = False, luz_QueriesCount = 0,
     luz_RecordsCount = 0, luz_AliasesCount = 0, luz_RedirectsCount = 0, luz_ForwardsCount = 0,
     luz_TemplateID = 0\<rparr>"

record lua_DNSRecord =
  lur_ID :: int
  lur_Name :: string
  lur_Type :: string
  lur_Content :: string
  lur_TTL :: int
  lur_ZoneID :: int

definition zero_lua_DNSRecord :: lua_DNSRecord where
  "zero_lua_DNSRecord =
     \<lparr>lur_ID = 0, lur_Name = [], lur_Type = [], lur_Content = [], lur_TTL = 0, lur_ZoneID = 0\<rparr>"

definition lua_DNSZone_of_json :: "json \<Rightarrow> goerror + lua_DNSZone" where
  "lua_DNSZone_of_json = decode_struct (\<lambda>k v z.
     if k = ''id'' then set_int v (\<lambda>i. z\<lparr>luz_ID := i\<rparr>) z
     else if k = ''name'' then set_str v (\<lambda>s. z\<lparr>luz_Name := s\<rparr>) z
     else if k = ''synced'' then set_bool v (\<lambda>b. z\<lparr>luz_Synced := b\<rparr>) z
     else if k = ''queries_count'' then set_int v (\<lambda>i. z\<lparr>luz_QueriesCount := i\<rparr>) z
     else if k = ''records_count'' then set_int v (\<lambda>i. z\<lparr>luz_RecordsCount := i\<rparr>) z
     else if k = ''aliases_count'' then set_int v (\<lambda>i. z\<lparr>luz_AliasesCount := i\<rparr>) z
     else if k = ''redirects_count'' then set_int v (\<lambda>i. z\<lparr>luz_RedirectsCount := i\<rparr>) z
     else if k = ''forwards_count'' then set_int v (\<lambda>i. z\<lparr>luz_ForwardsCount := i\<rparr>) z
     else if k = ''template_id'' then set_int v (\<lambda>i. z\<lparr>luz_TemplateID := i\<rparr>) z
     else Inr z) zero_lua_DNSZone"

text \<open>The status and message of \<^verbatim>\<open>errorResponse\<close>, and its text.\<close>

definition lua_errorResponse_of_json :: "json \<Rightarrow> goerror + string \<times> string" where
  "lua_errorResponse_of_json = decode_struct (\<lambda>k v (st, m).
     if k = ''status'' then set_str v (\<lambda>s. (s, m)) (st, m)
     else if k = ''request_id'' then set_str v (\<lambda>s. (st, m)) (st, m)
     else if k = ''message'' then set_str v (\<lambda>s. (st, s)) (st, m)
     else Inr (st, m)) ([], [])"

text \<open>The error of a reply whose status is not 200, behind the text \<open>what\<close>.\<close>

definition lua_status_error :: "env \<Rightarrow> string \<Rightarrow> http_response \<Rightarrow> goerror" where
  "lua_status_error e what resp =
     (let bodyBytes = body_text (resp_Body resp);
          prefix = what @ '': Status='' @ show_int (resp_StatusCode resp) @ '': '' in
      case Unmarshal e lua_errorResponse_of_json bodyBytes of
        Inr (st, m) \<Rightarrow> Err (prefix @ ''status='' @ st @ '', message='' @ m)
      | Inl _ \<Rightarrow> Err (prefix @ bodyBytes))"

definition lua_DNSRecord_json :: "lua_DNSRecord \<Rightarrow> json" where
  "lua_DNSRecord_json r =
     JObj (omit_int ''id'' (lur_ID r) @ omit_str ''name'' (lur_Name r) @ omit_str ''type'' (lur_Type r)
       @ omit_str ''content'' (lur_Content r) @ omit_int ''ttl'' (lur_TTL r) @ omit_int ''zone_id'' (lur_ZoneID r))"

definition lua_DNSRecord_of_json :: "json \<Rightarrow> goerror + lua_DNSRecord" where
  "lua_DNSRecord_of_json = decode_struct (\<lambda>k v r.
     if k = ''id'' then set_int v (\<lambda>i. r\<lparr>lur_ID := i\<rparr>) r
     else if k = ''name'' then set_str v (\<lambda>s. r\<lparr>lur_Name := s\<rparr>) r
     else if k = ''type'' then set_str v (\<lambda>s. r\<lparr>lur_Type := s\<rparr>) r
     else if k = ''content'' then set_str v (\<lambda>s. r\<lparr>lur_Content := s\<rparr>) r
     else if k = ''ttl'' then set_int v (\<lambda>i. r\<lparr>lur_TTL := i\<rparr>) r
     else if k = ''zone_id'' then set_int v (\<lambda>i. r\<lparr>lur_ZoneID := i\<rparr>) r
     else Inr r) zero_lua_DNSRecord"

text \<open>A record pointer as it is kept in the map.\<close>

definition lua_cell :: "lua_DNSRecord option \<Rightarrow> cell" where
  "lua_cell r =
     (case r of
        None \<Rightarrow> NilCell
      | Some x \<Rightarrow> StructCell [IntCell (lur_ID x), StrCell (lur_Name x), StrCell (lur_Type x),
                   StrCell (lur_Content x), IntCell (lur_TTL x), IntCell (lur_ZoneID x)])"

fun lua_of_cell :: "cell \<Rightarrow> lua_DNSRecord option" where
  "lua_of_cell (StructCell [IntCell i, StrCell n, StrCell ty, StrCell c, IntCell ttl, IntCell z]) =
     Some \<lparr>lur_ID = i, lur_Name = n, lur_Type = ty, lur_Content = c, lur_TTL = ttl, lur_ZoneID = z\<rparr>"
| "lua_of_cell _ = None"

lemma lua_of_cell [simp]: "lua_of_cell (lua_cell r) = r"
  by (cases r) (simp_all add: lua_cell_def)

section \<open>Operations\<close>

definition luadns_do ::
  "env \<Rightarrow> luadns_client \<Rightarrow> string \<Rightarrow> string \<Rightarrow> string option \<Rightarrow> (world, goerror + http_response) go" where
  "luadns_do e c method uri body =
     send_as (Wrap ''failed to create request: '') (\<lambda>err. err) e method (luac_BaseURL c @ uri) body (\<lambda>req.
       SetBasicAuth (luac_apiUsername c) (luac_apiToken c)
         (Header_Set ''Content-Type'' ''application/json'' (Header_Set ''Accept'' ''application/json'' req)))"

definition lua_decoded :: "goerror + 'a \<Rightarrow> (world, goerror + 'a) go" where
  "lua_decoded r =
     (case r of Inl err \<Rightarrow> ret (Inl (Wrap ''failed to unmarshal response body: '' err)) | Inr x \<Rightarrow> ret (Inr x))"

definition luadns_ListZones :: "env \<Rightarrow> luadns_client \<Rightarrow> (world, goerror + lua_DNSZone list) go" where
  "luadns_ListZones e c =
     check (luadns_do e c ''GET'' ''/v1/zones'' None) (\<lambda>resp.
       if resp_StatusCode resp \<noteq> 200 then ret (Inl (lua_status_error e ''api call error'' resp))
       else lua_decoded (Decode e (list_of_json lua_DNSZone_of_json) (resp_Body resp)))"

definition luadns_CreateRecord ::
  "env \<Rightarrow> luadns_client \<Rightarrow> lua_DNSZone \<Rightarrow> lua_DNSRecord \<Rightarrow> (world, goerror + lua_DNSRecord option) go" where
  "luadns_CreateRecord e c zone newRecord =
     (let body = jsonPrint e (lua_DNSRecord_json newRecord);
          resource = ''/v1/zones/'' @ show_int (luz_ID zone) @ ''/records'' in
      check (luadns_do e c ''POST'' resource (Some body)) (\<lambda>resp.
        if resp_StatusCode resp \<noteq> 200
        then ret (Inl (lua_status_error e (''could not create record '' @ body) resp))
        else lua_decoded (Decode e (ptr_of_json lua_DNSRecord_of_json) (resp_Body resp))))"

text \<open>A nil record is marshalled as \<^verbatim>\<open>null\<close>, and then dereferenced.\<close>

definition luadns_DeleteRecord ::
  "env \<Rightarrow> luadns_client \<Rightarrow> lua_DNSRecord option \<Rightarrow> (world, goerror option) go" where
  "luadns_DeleteRecord e c record =
     (case record of
        None \<Rightarrow> panic nil_pointer
      | Some r \<Rightarrow>
          (let body = jsonPrint e (lua_DNSRecord_json r);
               resource = ''/v1/zones/'' @ show_int (lur_ZoneID r) @ ''/records/'' @ show_int (lur_ID r) in
           handle (luadns_do e c ''DELETE'' resource (Some body)) (\<lambda>err. ret (Some err)) (\<lambda>resp.
             if resp_StatusCode resp \<noteq> 200
             then ret (Some (lua_status_error e (''could not delete record '' @ body) resp))
             else ret None)))"

definition lua_better :: "string \<Rightarrow> lua_DNSZone \<Rightarrow> lua_DNSZone option \<Rightarrow> lua_DNSZone option" where
  "lua_better domain zone result =
     (if luz_Name zone \<noteq> [] \<and> HasSuffix domain (luz_Name zone)
         \<and> (case result of None \<Rightarrow> True | Some r \<Rightarrow> length (luz_Name r) < length (luz_Name zone))
      then Some zone else result)"

definition luadns_findZone :: "lua_DNSZone list \<Rightarrow> string \<Rightarrow> lua_DNSZone option" where
  "luadns_findZone zones domain = fold (lua_better domain) zones None"

definition luadns_Present :: "env \<Rightarrow> luadns \<Rightarrow> string \<Rightarrow> string \<Rightarrow> string \<Rightarrow> (world, goerror option) go" where
  "luadns_Present e d domain token keyAuth =
     bind (GetRecord e domain keyAuth) (\<lambda>(fqdn, value).
       try_or ''luadns: failed to get zones: '' (luadns_ListZones e (lua_client d)) (\<lambda>zones.
         case luadns_findZone zones domain of
           None \<Rightarrow> ret (Some (Err (''luadns: no matching zone found for domain '' @ domain)))
         | Some zone \<Rightarrow>
             try_or ''luadns: failed to create record: ''
               (luadns_CreateRecord e (lua_client d) zone (zero_lua_DNSRecord\<lparr>lur_Name := fqdn, lur_Type := ''TXT'',
                  lur_Content := value, lur_TTL := hcf_TTL (lua_config d)\<rparr>)) (\<lambda>record.
               bind (map_set (lua_records d) token (lua_cell record)) (\<lambda>_. ret None))))"

definition luadns_CleanUp :: "env \<Rightarrow> luadns \<Rightarrow> string \<Rightarrow> string \<Rightarrow> string \<Rightarrow> (world, goerror option) go" where
  "luadns_CleanUp e d domain token keyAuth =
     bind (GetRecord e domain keyAuth) (\<lambda>(fqdn, _).
       remove_remembered (lua_records d) token
         (Err (''luadns: unknown record ID for '' @ [CHR 0x27] @ fqdn @ [CHR 0x27]))
         (\<lambda>record. wrap_err ''luadns: failed to delete record: ''
            (luadns_DeleteRecord e (lua_client d) (lua_of_cell record))))"

definition luadns_Timeout :: "luadns \<Rightarrow> int \<times> int" where
  "luadns_Timeout d = (hcf_PropagationTimeout (lua_config d), hcf_PollingInterval (lua_config d))"

definition luadns_provider :: "env \<Rightarrow> luadns \<Rightarrow> provider" where
  "luadns_provider e d =
     \<lparr>prov_Present = luadns_Present e d, prov_CleanUp = luadns_CleanUp e d,
      prov_Timeout = Some (luadns_Timeout d), prov_Sequential = None\<rparr>"

section \<open>The provider keeps its contract\<close>

context lookup_invariant
begin

lemma always_luadns [always_intros]:
  "always R (luadns_ListZones e c)" "always R (luadns_CreateRecord e c zone r)" "always R (luadns_DeleteRecord e c r')"
  unfolding luadns_ListZones_def luadns_CreateRecord_def luadns_DeleteRecord_def luadns_do_def lua_decoded_def
  by (intro always_intros; simp)+

end

context plain_invariant
begin

lemma luadns_keeps: "provider_keeps R (luadns_provider e d)"
  unfolding luadns_provider_def
  by (rule provider_keepsI; unfold luadns_Present_def luadns_CleanUp_def) (intro always_intros)+

end

lemma luadns_CreateRecord_sent:
  "lur_Content r = v \<Longrightarrow> ensures is_ok (delivered e v status_200) (luadns_CreateRecord e c zone r)"
  unfolding luadns_CreateRecord_def luadns_do_def lua_decoded_def Let_def
  by (intro ensures_intros always_intros)
    (auto simp: NewRequest_Inr lua_DNSRecord_json_def json_text intro!: carries_json)

lemma luadns_Present_sent:
  "ensures is_nil (delivered e (record_value e keyAuth) status_200) (luadns_Present e d domain token keyAuth)"
  unfolding luadns_Present_def
  by (intro ensures_try_first [OF luadns_CreateRecord_sent] ensures_intros ensures_try_later always_intros) simp_all

lemma luadns_hosting: "hosting e (luadns_provider e d) status_200"
  by (rule hostingI [OF outsider.luadns_keeps]) (simp add: luadns_Present_sent luadns_provider_def)

text \<open>The request that removes a remembered record.\<close>

definition lua_removes :: "luadns \<Rightarrow> cell \<Rightarrow> http_request \<Rightarrow> bool" where
  "lua_removes d c req \<longleftrightarrow> (\<exists>r. lua_of_cell c = Some r \<and> req_Method req = ''DELETE''
     \<and> req_URL req = luac_BaseURL (lua_client d) @ ''/v1/zones/'' @ show_int (lur_ZoneID r) @ ''/records/''
         @ show_int (lur_ID r))"

lemma luadns_DeleteRecord_sent:
  "ensures is_nil (\<lambda>ev. \<exists>req resp. ev = EvHttp req (Inr resp) \<and> lua_removes d c req)
     (luadns_DeleteRecord e (lua_client d) (lua_of_cell c))"
  unfolding luadns_DeleteRecord_def luadns_do_def Let_def
  by (intro ensures_intros always_intros) (auto simp: lua_removes_def NewRequest_Inr)

interpretation luadns: remembering e "luadns_provider e d" status_200 "lua_records d" "lua_removes d" for e d
proof (intro remembering.intro luadns_hosting remembering_axioms.intro)
  show "remembers (lua_records d) token (prov_Present (luadns_provider e d) domain token keyAuth)"
    for token domain keyAuth
    unfolding luadns_provider_def luadns_Present_def provider.simps
    by (intro ensures_intros remembers_try always_intros)
  show "forgets (lua_records d) token (\<lambda>c ev. \<exists>req resp. ev = EvHttp req (Inr resp) \<and> lua_removes d c req)
      (prov_CleanUp (luadns_provider e d) domain token keyAuth)" for token domain keyAuth
    unfolding luadns_provider_def luadns_CleanUp_def provider.simps
    by (intro ensures_intros luadns_DeleteRecord_sent always_intros)
qed

section \<open>The zone of a domain\<close>

definition lua_matches :: "string \<Rightarrow> lua_DNSZone \<Rightarrow> bool" where
  "lua_matches domain zone \<longleftrightarrow> luz_Name zone \<noteq> [] \<and> HasSuffix domain (luz_Name zone)"

lemma lua_better_fold:
  "fold (lua_better domain) zones acc = r \<Longrightarrow>
   (\<forall>z. acc = Some z \<longrightarrow> lua_matches domain z) \<Longrightarrow>
   (r = None \<longleftrightarrow> acc = None \<and> (\<forall>z \<in> set zones. \<not> lua_matches domain z))
   \<and> (\<forall>z. r = Some z \<longrightarrow> (z \<in> set zones \<or> acc = Some z) \<and> lua_matches domain z
        \<and> (\<forall>z' \<in> set zones. lua_matches domain z' \<longrightarrow> length (luz_Name z') \<le> length (luz_Name z))
        \<and> (\<forall>z'. acc = Some z' \<longrightarrow> length (luz_Name z') \<le> length (luz_Name z)))"
proof (induction zones arbitrary: acc)
  case (Cons zone zones)
  have acc: "\<forall>z. lua_better domain zone acc = Some z \<longrightarrow> lua_matches domain z"
    using Cons.prems(2) by (auto simp: lua_better_def lua_matches_def split: if_splits)
  have run: "fold (lua_better domain) zones (lua_better domain zone acc) = r" using Cons.prems(1) by simp
  show ?case
    using Cons.IH [OF run acc] by (cases acc) (auto simp: lua_better_def lua_matches_def split: if_splits)
qed auto

text \<open>
  C40 (functional).  The zone of a domain: \<^verbatim>\<open>findZone\<close> gives up exactly when the domain ends in the name of no
  listed zone, and otherwise returns one whose name is the longest of those it ends in.  The comparison is by
  characters and not by labels: a zone \<^verbatim>\<open>ample.org\<close> is a candidate for \<^verbatim>\<open>example.org\<close>.
\<close>

theorem luadns_findZone_longest_suffix:
  "(luadns_findZone zones domain = None
      \<longleftrightarrow> (\<forall>z \<in> set zones. luz_Name z = [] \<or> \<not> (\<exists>pre. domain = pre @ luz_Name z)))
   \<and> (luadns_findZone zones domain = Some z \<longrightarrow>
        z \<in> set zones \<and> luz_Name z \<noteq> [] \<and> (\<exists>pre. domain = pre @ luz_Name z)
        \<and> (\<forall>z' \<in> set zones. (\<exists>pre. domain = pre @ luz_Name z') \<longrightarrow> length (luz_Name z') \<le> length (luz_Name z)))"
proof -
  have m: "lua_matches domain y \<longleftrightarrow> luz_Name y \<noteq> [] \<and> (\<exists>pre. domain = pre @ luz_Name y)" for y
    by (simp add: lua_matches_def HasSuffix_iff)
  show ?thesis
    using lua_better_fold [of domain zones None, OF refl] unfolding luadns_findZone_def m by fastforce
qed

definition sample_zones :: "lua_DNSZone list" where
  "sample_zones = map (\<lambda>n. zero_lua_DNSZone\<lparr>luz_Name := n\<rparr>) [''org'', [], ''ample.org'', ''b.org'']"

theorem luadns_findZone_longest_suffix_witness:
  "\<exists>z. luadns_findZone sample_zones ''example.org'' = Some z \<and> luz_Name z = ''ample.org'' \<and> z \<in> set sample_zones
     \<and> luadns_findZone sample_zones ''a.net'' = None"
proof -
  let ?z = "zero_lua_DNSZone\<lparr>luz_Name := ''ample.org''\<rparr>"
  have some: "luadns_findZone sample_zones ''example.org'' = Some ?z"
    by (simp add: luadns_findZone_def sample_zones_def lua_better_def HasSuffix_def zero_lua_DNSZone_def)
  have none: "luadns_findZone sample_zones ''a.net'' = None"
    by (simp add: luadns_findZone_def sample_zones_def lua_better_def HasSuffix_def zero_lua_DNSZone_def)
  from luadns_findZone_longest_suffix [of sample_zones "''example.org''" ?z] some none show ?thesis by auto
qed

end
