(* ===== verification/Netlify.thy ===== *)
theory Netlify
  imports Hosting
begin

text \<open>
  Package \<^verbatim>\<open>providers/dns/netlify\<close> with its client.  The provider remembers the identifier of the record under
  the token of the challenge.
\<close>

definition netlify_defaultBaseURL :: string where "netlify_defaultBaseURL = ''https://api.netlify.com/api/v1''"

record netlify_config = ttl_config +
  nl_Token :: string

definition netlify_NewDefaultConfig :: "env \<Rightarrow> netlify_config" where
  "netlify_NewDefaultConfig e =
     \<lparr>hcf_PropagationTimeout = GetOrDefaultSecond e ''NETLIFY_PROPAGATION_TIMEOUT'' DefaultPropagationTimeout,
      hcf_PollingInterval = GetOrDefaultSecond e ''NETLIFY_POLLING_INTERVAL'' DefaultPollingInterval,
      hcf_HTTPTimeout = GetOrDefaultSecond e ''NETLIFY_HTTP_TIMEOUT'' (30 * Second),
      hcf_TTL = GetOrDefaultInt e ''NETLIFY_TTL'' 300, nl_Token = []\<rparr>"

record netlify_client =
  nlc_BaseURL :: string
  nlc_token :: string

definition netlify_NewClient :: "string \<Rightarrow> netlify_client" where
  "netlify_NewClient token = \<lparr>nlc_BaseURL = netlify_defaultBaseURL, nlc_token = token\<rparr>"

record netlify =
  nl_config :: netlify_config
  nl_client :: netlify_client
  nl_recordIDs :: nat

definition netlify_NewDNSProviderConfig :: "netlify_config option \<Rightarrow> (world, goerror + netlify) go" where
  "netlify_NewDNSProviderConfig config =
     (case config of
        None \<Rightarrow> ret (Inl (nil_config ''netlify''))
      | Some c \<Rightarrow>
          if nl_Token c = [] then ret (Inl (Err ''netlify: incomplete credentials, missing token''))
          else
            bind make_map (\<lambda>a.
              ret (Inr \<lparr>nl_config = c, nl_client = netlify_NewClient (nl_Token c), nl_recordIDs = a\<rparr>)))"

definition netlify_NewDNSProvider :: "env \<Rightarrow> (world, goerror + netlify) go" where
  "netlify_NewDNSProvider e =
     (case env_Get e [''NETLIFY_TOKEN''] of
        Inl err \<Rightarrow> ret (Inl (Wrap ''netlify: '' err))
      | Inr values \<Rightarrow>
          netlify_NewDNSProviderConfig
            (Some ((netlify_NewDefaultConfig e)\<lparr>nl_Token := env_value values ''NETLIFY_TOKEN''\<rparr>)))"

record nl_DNSRecord =
  nlr_ID :: string
  nlr_Hostname :: string
  nlr_TTL :: int
  nlr_Type :: string
  nlr_Value :: string

definition zero_nl_DNSRecord :: nl_DNSRecord where
  "zero_nl_DNSRecord = \<lparr>nlr_ID = [], nlr_Hostname = [], nlr_TTL = 0, nlr_Type = [], nlr_Value = []\<rparr>"

definition nl_DNSRecord_json :: "nl_DNSRecord \<Rightarrow> json" where
  "nl_DNSRecord_json r =
     JObj (omit_str ''id'' (nlr_ID r) @ omit_str ''hostname'' (nlr_Hostname r) @ omit_int ''ttl'' (nlr_TTL r)
       @ omit_str ''type'' (nlr_Type r) @ omit_str ''value'' (nlr_Value r))"

definition nl_DNSRecord_of_json :: "json \<Rightarrow> goerror + nl_DNSRecord" where
  "nl_DNSRecord_of_json = decode_struct (\<lambda>k v r.
     if k = ''id'' then set_str v (\<lambda>s. r\<lparr>nlr_ID := s\<rparr>) r
     else if k = ''hostname'' then set_str v (\<lambda>s. r\<lparr>nlr_Hostname := s\<rparr>) r
     else if k = ''ttl'' then set_int v (\<lambda>i. r\<lparr>nlr_TTL := i\<rparr>) r
     else if k = ''type'' then set_str v (\<lambda>s. r\<lparr>nlr_Type := s\<rparr>) r
     else if k = ''value'' then set_str v (\<lambda>s. r\<lparr>nlr_Value := s\<rparr>) r
     else Inr r) zero_nl_DNSRecord"

definition netlify_createEndpoint :: "netlify_client \<Rightarrow> string list \<Rightarrow> goerror + string" where
  "netlify_createEndpoint c parts =
     (case url_Parse (nlc_BaseURL c) of
        Inl err \<Rightarrow> Inl (Wrap ''failed to parse base URL: '' err)
      | Inr bas \<Rightarrow>
          (case url_ParseRef bas (path_Join [url_Path bas, path_Join parts]) of
             Inl err \<Rightarrow> Inl (Wrap ''failed to parse endpoint path: '' err)
           | Inr endpoint \<Rightarrow> Inr (url_String endpoint)))"

definition nl_status_error :: "http_response \<Rightarrow> string \<Rightarrow> goerror" where
  "nl_status_error resp body = Err (''invalid status code: '' @ resp_Status resp @ '': '' @ body)"

text \<open>Send a request to an endpoint of the API and read the body of a reply with the expected status.\<close>

definition netlify_call ::
  "env \<Rightarrow> netlify_client \<Rightarrow> string \<Rightarrow> string list \<Rightarrow> string option \<Rightarrow> (http_request \<Rightarrow> http_request) \<Rightarrow> int
    \<Rightarrow> (world, goerror + string) go" where
  "netlify_call e c method parts content hdr expected =
     (case netlify_createEndpoint c parts of
        Inl err \<Rightarrow> ret (Inl (Wrap ''failed to parse endpoint: '' err))
      | Inr endpoint \<Rightarrow>
          check (send_as (Wrap ''failed to create request: '') (Wrap ''API call failed: '') e method endpoint content hdr) (\<lambda>resp.
            case resp_Body resp of
              Inl err \<Rightarrow> ret (Inl (Wrap ''failed to read response body: '' err))
            | Inr body \<Rightarrow>
                if resp_StatusCode resp \<noteq> expected then ret (Inl (nl_status_error resp body)) else ret (Inr body)))"

definition nl_headers :: "netlify_client \<Rightarrow> http_request \<Rightarrow> http_request" where
  "nl_headers c req =
     Header_Set ''Authorization'' (''Bearer '' @ nlc_token c) (Header_Set ''Accept'' ''application/json'' req)"

definition netlify_GetRecords :: "env \<Rightarrow> netlify_client \<Rightarrow> string \<Rightarrow> (world, goerror + nl_DNSRecord list) go" where
  "netlify_GetRecords e c zoneID =
     check (netlify_call e c ''GET'' [''dns_zones'', zoneID, ''dns_records''] None (nl_headers c) 200) (\<lambda>body.
       case Unmarshal e (list_of_json nl_DNSRecord_of_json) body of
         Inl err \<Rightarrow> ret (Inl (Wrap ''failed to marshal response body: '' err))
       | Inr records \<Rightarrow> ret (Inr records))"

definition netlify_CreateRecord ::
  "env \<Rightarrow> netlify_client \<Rightarrow> string \<Rightarrow> nl_DNSRecord \<Rightarrow> (world, goerror + nl_DNSRecord) go" where
  "netlify_CreateRecord e c zoneID record =
     check (netlify_call e c ''POST'' [''dns_zones'', zoneID, ''dns_records'']
         (Some (jsonPrint e (nl_DNSRecord_json record)))
         (\<lambda>req. Header_Set ''Authorization'' (''Bearer '' @ nlc_token c)
            (Header_Set ''Content-Type'' ''application/json; charset=utf-8''
              (Header_Set ''Accept'' ''application/json'' req))) 201) (\<lambda>body.
       case Unmarshal e nl_DNSRecord_of_json body of
         Inl err \<Rightarrow> ret (Inl (Wrap ''failed to marshal response body: '' err))
       | Inr recordResp \<Rightarrow> ret (Inr recordResp))"

definition netlify_RemoveRecord :: "env \<Rightarrow> netlify_client \<Rightarrow> string \<Rightarrow> string \<Rightarrow> (world, goerror option) go" where
  "netlify_RemoveRecord e c zoneID recordID =
     handle (netlify_call e c ''DELETE'' [''dns_zones'', zoneID, ''dns_records'', recordID] None (nl_headers c) 204)
       (\<lambda>err. ret (Some err)) (\<lambda>_. ret None)"

definition netlify_Present :: "env \<Rightarrow> netlify \<Rightarrow> string \<Rightarrow> string \<Rightarrow> string \<Rightarrow> (world, goerror option) go" where
  "netlify_Present e d domain token keyAuth =
     bind (GetRecord e domain keyAuth) (\<lambda>(fqdn, value).
       try_or ''netlify: failed to find zone: '' (FindZoneByFqdn e fqdn) (\<lambda>zone.
         let authZone = UnFqdn zone in
         try_or (''netlify: failed to create TXT records: fqdn='' @ fqdn @ '', authZone='' @ authZone @ '': '')
           (netlify_CreateRecord e (nl_client d) (replace_char (CHR ''.'') (CHR ''_'') authZone)
             \<lparr>nlr_ID = [], nlr_Hostname = UnFqdn fqdn, nlr_TTL = hcf_TTL (nl_config d), nlr_Type = ''TXT'',
              nlr_Value = value\<rparr>) (\<lambda>resp.
           bind (map_set (nl_recordIDs d) token (StrCell (nlr_ID resp))) (\<lambda>_. ret None))))"

definition netlify_CleanUp :: "env \<Rightarrow> netlify \<Rightarrow> string \<Rightarrow> string \<Rightarrow> string \<Rightarrow> (world, goerror option) go" where
  "netlify_CleanUp e d domain token keyAuth =
     bind (GetRecord e domain keyAuth) (\<lambda>(fqdn, _).
       try_or ''netlify: failed to find zone: '' (FindZoneByFqdn e fqdn) (\<lambda>zone.
         let authZone = UnFqdn zone; q = [CHR 0x27] in
         remove_remembered (nl_recordIDs d) token
           (Err (''netlify: unknown record ID for '' @ q @ fqdn @ q @ '' '' @ q @ token @ q))
           (\<lambda>recordID. wrap_err (''netlify: failed to delete TXT records: fqdn='' @ fqdn @ '', authZone='' @ authZone
                @ '', recordID='' @ cell_str recordID @ '': '')
              (netlify_RemoveRecord e (nl_client d) (replace_char (CHR ''.'') (CHR ''_'') authZone) (cell_str recordID)))))"

definition netlify_Timeout :: "netlify \<Rightarrow> int \<times> int" where
  "netlify_Timeout d = (hcf_PropagationTimeout (nl_config d), hcf_PollingInterval (nl_config d))"

definition netlify_provider :: "env \<Rightarrow> netlify \<Rightarrow> provider" where
  "netlify_provider e d =
     \<lparr>prov_Present = netlify_Present e d, prov_CleanUp = netlify_CleanUp e d,
      prov_Timeout = Some (netlify_Timeout d), prov_Sequential = None\<rparr>"

section \<open>The provider keeps its contract\<close>

context lookup_invariant
begin

lemma always_netlify_call [always_intros]:
  "(\<And>req. req_Body (hdr req) = req_Body req) \<Longrightarrow> always R (netlify_call e c method parts content hdr expected)"
  unfolding netlify_call_def by (intro always_intros)

lemma always_netlify [always_intros]:
  "always R (netlify_GetRecords e c zoneID)" "always R (netlify_CreateRecord e c zoneID r)"
  "always R (netlify_RemoveRecord e c zoneID recordID)"
  unfolding netlify_GetRecords_def netlify_CreateRecord_def netlify_RemoveRecord_def nl_headers_def
  by (intro always_intros; simp)+

end

context plain_invariant
begin

lemma netlify_keeps: "provider_keeps R (netlify_provider e d)"
  unfolding netlify_provider_def
  by (rule provider_keepsI; unfold netlify_Present_def netlify_CleanUp_def) (intro always_intros)+

end

lemma netlify_CreateRecord_sent:
  assumes "nlr_Value r = v"
  shows "ensures is_ok (delivered e v status_201) (netlify_CreateRecord e c zoneID r)"
proof -
  have call: "ensures is_ok (delivered e v status_201)
      (netlify_call e c ''POST'' parts (Some (jsonPrint e (nl_DNSRecord_json r)))
        (\<lambda>req. Header_Set k1 v1 (Header_Set k2 v2 (Header_Set k3 v3 req))) 201)" for parts k1 v1 k2 v2 k3 v3
    unfolding netlify_call_def using assms
    by (intro ensures_intros always_intros)
      (auto simp: NewRequest_Inr nl_DNSRecord_json_def json_text intro!: carries_json)
  show ?thesis
    unfolding netlify_CreateRecord_def by (intro ensures_check_first [OF call] always_intros) simp
qed

lemma netlify_Present_sent:
  "ensures is_nil (delivered e (record_value e keyAuth) status_201) (netlify_Present e d domain token keyAuth)"
  unfolding netlify_Present_def Let_def
  by (intro ensures_try_first [OF netlify_CreateRecord_sent] ensures_intros always_intros) simp_all

lemma netlify_hosting: "hosting e (netlify_provider e d) status_201"
  by (rule hostingI [OF outsider.netlify_keeps]) (simp add: netlify_Present_sent netlify_provider_def)

definition nl_removes :: "netlify \<Rightarrow> cell \<Rightarrow> http_request \<Rightarrow> bool" where
  "nl_removes d c req \<longleftrightarrow> req_Method req = ''DELETE'' \<and> (\<exists>zoneID.
     netlify_createEndpoint (nl_client d) [''dns_zones'', zoneID, ''dns_records'', cell_str c] = Inr (req_URL req))"

lemma netlify_RemoveRecord_sent:
  "ensures is_nil (\<lambda>ev. \<exists>req resp. ev = EvHttp req (Inr resp) \<and> nl_removes d c req)
     (netlify_RemoveRecord e (nl_client d) zoneID (cell_str c))"
proof -
  have call: "ensures is_ok (\<lambda>ev. \<exists>req resp. ev = EvHttp req (Inr resp) \<and> nl_removes d c req)
      (netlify_call e (nl_client d) ''DELETE'' [''dns_zones'', zoneID, ''dns_records'', cell_str c] None
        (nl_headers (nl_client d)) 204)"
    unfolding netlify_call_def nl_headers_def
    by (intro ensures_intros always_intros) (auto simp: NewRequest_Inr nl_removes_def)
  show ?thesis
    unfolding netlify_RemoveRecord_def
    by (intro ensures_handle_first [OF call] ensures_intros always_intros) (simp_all add: nl_headers_def)
qed

interpretation netlify: remembering e "netlify_provider e d" status_201 "nl_recordIDs d" "nl_removes d" for e d
proof (intro remembering.intro netlify_hosting remembering_axioms.intro)
  show "remembers (nl_recordIDs d) token (prov_Present (netlify_provider e d) domain token keyAuth)"
    for token domain keyAuth
    unfolding netlify_provider_def netlify_Present_def provider.simps Let_def
    by (intro ensures_intros remembers_try always_intros)
  show "forgets (nl_recordIDs d) token (\<lambda>c ev. \<exists>req resp. ev = EvHttp req (Inr resp) \<and> nl_removes d c req)
      (prov_CleanUp (netlify_provider e d) domain token keyAuth)" for token domain keyAuth
    unfolding netlify_provider_def netlify_CleanUp_def provider.simps Let_def
    by (intro ensures_intros netlify_RemoveRecord_sent always_intros)
qed

end
