(* ===== verification/Gandiv5.thy ===== *)
theory Gandiv5
  imports Hosting
begin

text \<open>
  Package \<^verbatim>\<open>providers/dns/gandiv5\<close>.  The service replaces all values of a name at once: \<^verbatim>\<open>Present\<close> adds the new
  value to those that are there, \<^verbatim>\<open>CleanUp\<close> removes the whole set of values.
\<close>

definition gandiv5_defaultBaseURL :: string where "gandiv5_defaultBaseURL = ''https://dns.api.gandi.net/api/v5''"
definition gandiv5_minTTL :: int where "gandiv5_minTTL = 300"

record gandiv5_config = ttl_config +
  g5_BaseURL :: string
  g5_APIKey :: string

definition gandiv5_NewDefaultConfig :: "env \<Rightarrow> gandiv5_config" where
  "gandiv5_NewDefaultConfig e =
     \<lparr>hcf_PropagationTimeout = GetOrDefaultSecond e ''GANDIV5_PROPAGATION_TIMEOUT'' (20 * Minute),
      hcf_PollingInterval = GetOrDefaultSecond e ''GANDIV5_POLLING_INTERVAL'' (20 * Second),
      hcf_HTTPTimeout = GetOrDefaultSecond e ''GANDIV5_HTTP_TIMEOUT'' (10 * Second),
      hcf_TTL = GetOrDefaultInt e ''GANDIV5_TTL'' gandiv5_minTTL, g5_BaseURL = [], g5_APIKey = []\<rparr>"

text \<open>The field \<^verbatim>\<open>findZoneByFqdn\<close>, overridden only in tests, is \<^verbatim>\<open>dns01.FindZoneByFqdn\<close>.\<close>

record gandiv5 =
  g5_config :: gandiv5_config
  g5_inProgressFQDNs :: nat

definition gandiv5_NewDNSProviderConfig :: "gandiv5_config option \<Rightarrow> (world, goerror + gandiv5) go" where
  "gandiv5_NewDNSProviderConfig config =
     (case config of
        None \<Rightarrow> ret (Inl (nil_config ''gandiv5''))
      | Some c \<Rightarrow>
          if g5_APIKey c = [] then ret (Inl (Err ''gandiv5: no API Key given''))
          else
            (let c = (if g5_BaseURL c = [] then c\<lparr>g5_BaseURL := gandiv5_defaultBaseURL\<rparr> else c) in
             if hcf_TTL c < gandiv5_minTTL then ret (Inl (ttl_error ''gandiv5'' (hcf_TTL c) gandiv5_minTTL))
             else bind make_map (\<lambda>a. ret (Inr \<lparr>g5_config = c, g5_inProgressFQDNs = a\<rparr>))))"

definition gandiv5_NewDNSProvider :: "env \<Rightarrow> (world, goerror + gandiv5) go" where
  "gandiv5_NewDNSProvider e =
     (case env_Get e [''GANDIV5_API_KEY''] of
        Inl err \<Rightarrow> ret (Inl (Wrap ''gandi: '' err))
      | Inr values \<Rightarrow>
          gandiv5_NewDNSProviderConfig
            (Some ((gandiv5_NewDefaultConfig e)\<lparr>g5_APIKey := env_value values ''GANDIV5_API_KEY''\<rparr>)))"

text \<open>The message of \<^verbatim>\<open>apiResponse\<close>.\<close>

definition g5_apiResponse_of_json :: "json \<Rightarrow> goerror + string" where
  "g5_apiResponse_of_json = decode_struct (\<lambda>k v m.
     if k = ''message'' then set_str v (\<lambda>s. s) m
     else if k = ''uuid'' then set_str v (\<lambda>s. m) m
     else Inr m) []"

record g5_Record =
  g5r_TTL :: int
  g5r_Values :: "string list"
  g5r_Name :: string
  g5r_Type :: string

text \<open>A nil slice is marshalled as \<^verbatim>\<open>null\<close>; the values the program writes are never empty.\<close>

definition g5_Record_json :: "g5_Record \<Rightarrow> json" where
  "g5_Record_json r =
     JObj ([(''rrset_ttl'', JNum (g5r_TTL r)),
            (''rrset_values'', if g5r_Values r = [] then JNull else JArr (map JStr (g5r_Values r)))]
       @ omit_str ''rrset_name'' (g5r_Name r) @ omit_str ''rrset_type'' (g5r_Type r))"

definition g5_Record_of_json :: "json \<Rightarrow> goerror + g5_Record" where
  "g5_Record_of_json = decode_struct (\<lambda>k v r.
     if k = ''rrset_ttl'' then set_int v (\<lambda>i. r\<lparr>g5r_TTL := i\<rparr>) r
     else if k = ''rrset_values'' then set_list string_of_json v (\<lambda>l. r\<lparr>g5r_Values := l\<rparr>)
     else if k = ''rrset_name'' then set_str v (\<lambda>s. r\<lparr>g5r_Name := s\<rparr>) r
     else if k = ''rrset_type'' then set_str v (\<lambda>s. r\<lparr>g5r_Type := s\<rparr>) r
     else Inr r) \<lparr>g5r_TTL = 0, g5r_Values = [], g5r_Name = [], g5r_Type = []\<rparr>"

definition gandiv5_newRequest ::
  "env \<Rightarrow> gandiv5 \<Rightarrow> string \<Rightarrow> string \<Rightarrow> json option \<Rightarrow> goerror + http_request" where
  "gandiv5_newRequest e d method resource body =
     (let u = g5_BaseURL (g5_config d) @ ''/'' @ resource in
      case body of
        None \<Rightarrow> NewRequest e method u None
      | Some j \<Rightarrow>
          (case NewRequest e method u (Some (jsonPrint e j)) of
             Inl err \<Rightarrow> Inl err
           | Inr req \<Rightarrow> Inr (Header_Set ''Content-Type'' ''application/json'' req)))"

text \<open>\<^verbatim>\<open>readBody\<close>: the body of a reply of the client is never nil.\<close>

definition gandiv5_readBody :: "http_response \<Rightarrow> goerror + string" where
  "gandiv5_readBody resp = resp_Body resp"

definition gandiv5_checkResponse :: "env \<Rightarrow> http_request \<Rightarrow> http_response \<Rightarrow> goerror option" where
  "gandiv5_checkResponse e req resp =
     (let prefix = show_int (resp_StatusCode resp) @ '' ['' @ StatusText (resp_StatusCode resp) @ ''] request failed: '' in
      if resp_StatusCode resp = 404 \<and> req_Method req = ''GET'' then None
      else if 400 \<le> resp_StatusCode resp then
        (case gandiv5_readBody resp of
           Inl err \<Rightarrow> Some (Wrap prefix err)
         | Inr dat \<Rightarrow>
             (case Unmarshal e g5_apiResponse_of_json dat of
                Inl err \<Rightarrow> Some (Wrap prefix (err_then err ('': '' @ dat)))
              | Inr m \<Rightarrow> Some (Err (prefix @ m))))
      else None)"

text \<open>\<^verbatim>\<open>do\<close> with a target: an empty body leaves the target as it is.\<close>

definition gandiv5_do ::
  "env \<Rightarrow> gandiv5 \<Rightarrow> http_request \<Rightarrow> (json \<Rightarrow> goerror + 'a) \<Rightarrow> 'a \<Rightarrow> (world, goerror + 'a) go" where
  "gandiv5_do e d req0 dec zero =
     (let req = (if g5_APIKey (g5_config d) \<noteq> [] then Header_Set ''X-Api-Key'' (g5_APIKey (g5_config d)) req0 else req0) in
      check (http_do e req) (\<lambda>resp.
        case gandiv5_checkResponse e req resp of
          Some err \<Rightarrow> ret (Inl err)
        | None \<Rightarrow>
            (case gandiv5_readBody resp of
               Inl err \<Rightarrow> ret (Inl (Wrap ''failed to read body: '' err))
             | Inr raw \<Rightarrow>
                 if raw = [] then ret (Inr zero)
                 else
                   (case Unmarshal e dec raw of
                      Inl err \<Rightarrow> ret (Inl (Wrap ''unmarshaling error: '' (err_then err ('': '' @ raw))))
                    | Inr x \<Rightarrow> ret (Inr x)))))"

definition gandiv5_target :: "string \<Rightarrow> string \<Rightarrow> string" where
  "gandiv5_target domain name = ''domains/'' @ domain @ ''/records/'' @ name @ ''/TXT''"

definition gandiv5_getTXTRecord :: "env \<Rightarrow> gandiv5 \<Rightarrow> string \<Rightarrow> string \<Rightarrow> (world, goerror + g5_Record) go" where
  "gandiv5_getTXTRecord e d domain name =
     (case gandiv5_newRequest e d ''GET'' (gandiv5_target domain name) None of
        Inl err \<Rightarrow> ret (Inl err)
      | Inr req \<Rightarrow>
          wrap_res (''unable to get TXT records for domain '' @ domain @ '' and name '' @ name @ '': '')
            (gandiv5_do e d req g5_Record_of_json \<lparr>g5r_TTL = 0, g5r_Values = [], g5r_Name = [], g5r_Type = []\<rparr>))"

definition gandiv5_addTXTRecord ::
  "env \<Rightarrow> gandiv5 \<Rightarrow> string \<Rightarrow> string \<Rightarrow> string \<Rightarrow> int \<Rightarrow> (world, goerror + unit) go" where
  "gandiv5_addTXTRecord e d domain name value ttl =
     check (gandiv5_getTXTRecord e d domain name) (\<lambda>txtRecord.
       let values = [value] @ g5r_Values txtRecord in
       case gandiv5_newRequest e d ''PUT'' (gandiv5_target domain name)
              (Some (g5_Record_json \<lparr>g5r_TTL = ttl, g5r_Values = values, g5r_Name = [], g5r_Type = []\<rparr>)) of
         Inl err \<Rightarrow> ret (Inl err)
       | Inr req \<Rightarrow>
           check (wrap_res (''unable to create TXT record for domain '' @ domain @ '' and name '' @ name @ '': '')
             (gandiv5_do e d req g5_apiResponse_of_json [])) (\<lambda>_. ret (Inr ())))"

definition gandiv5_deleteTXTRecord :: "env \<Rightarrow> gandiv5 \<Rightarrow> string \<Rightarrow> string \<Rightarrow> (world, goerror + unit) go" where
  "gandiv5_deleteTXTRecord e d domain name =
     (case gandiv5_newRequest e d ''DELETE'' (gandiv5_target domain name) None of
        Inl err \<Rightarrow> ret (Inl err)
      | Inr req \<Rightarrow>
          check (wrap_res (''unable to delete TXT record for domain '' @ domain @ '' and name '' @ name @ '': '')
            (gandiv5_do e d req g5_apiResponse_of_json [])) (\<lambda>_. ret (Inr ())))"

definition gandiv5_Present :: "env \<Rightarrow> gandiv5 \<Rightarrow> string \<Rightarrow> string \<Rightarrow> string \<Rightarrow> (world, goerror option) go" where
  "gandiv5_Present e d domain token keyAuth =
     bind (GetRecord e domain keyAuth) (\<lambda>(fqdn, value).
       try_or ''gandiv5: findZoneByFqdn failure: '' (FindZoneByFqdn e fqdn) (\<lambda>authZone.
         if \<not> HasSuffix (ToLower fqdn) (ToLower (''.'' @ authZone))
         then ret (Some (Err (''gandiv5: unexpected authZone '' @ authZone @ '' for fqdn '' @ fqdn)))
         else
           (let name = take (length fqdn - length (''.'' @ authZone)) fqdn in
            handle (gandiv5_addTXTRecord e d (UnFqdn authZone) name value (hcf_TTL (g5_config d)))
              (\<lambda>err. ret (Some err)) (\<lambda>_.
              bind (map_set (g5_inProgressFQDNs d) fqdn (StructCell [StrCell name, StrCell authZone])) (\<lambda>_. ret None)))))"

text \<open>The fields \<^verbatim>\<open>fieldName\<close> and \<^verbatim>\<open>authZone\<close> of \<^verbatim>\<open>inProgressInfo\<close>.\<close>

fun g5_info :: "cell \<Rightarrow> string \<times> string" where
  "g5_info (StructCell [StrCell fieldName, StrCell authZone]) = (fieldName, authZone)"
| "g5_info _ = ([], [])"

definition gandiv5_CleanUp :: "env \<Rightarrow> gandiv5 \<Rightarrow> string \<Rightarrow> string \<Rightarrow> string \<Rightarrow> (world, goerror option) go" where
  "gandiv5_CleanUp e d domain token keyAuth =
     bind (GetRecord e domain keyAuth) (\<lambda>(fqdn, _).
       bind (map_get (g5_inProgressFQDNs d) fqdn) (\<lambda>found.
         case found of
           None \<Rightarrow> ret None
         | Some c \<Rightarrow>
             (case g5_info c of (fieldName, authZone) \<Rightarrow>
                bind (map_delete (g5_inProgressFQDNs d) fqdn) (\<lambda>_.
                  try_or ''gandiv5: '' (gandiv5_deleteTXTRecord e d (UnFqdn authZone) fieldName) (\<lambda>_. ret None)))))"

definition gandiv5_Timeout :: "gandiv5 \<Rightarrow> int \<times> int" where
  "gandiv5_Timeout d = (hcf_PropagationTimeout (g5_config d), hcf_PollingInterval (g5_config d))"

definition gandiv5_provider :: "env \<Rightarrow> gandiv5 \<Rightarrow> provider" where
  "gandiv5_provider e d =
     \<lparr>prov_Present = gandiv5_Present e d, prov_CleanUp = gandiv5_CleanUp e d,
      prov_Timeout = Some (gandiv5_Timeout d), prov_Sequential = None\<rparr>"

section \<open>The provider keeps its contract\<close>

lemma gandiv5_newRequest_Inr:
  "gandiv5_newRequest e d method resource body = Inr req \<Longrightarrow>
   req_Body req = (case body of None \<Rightarrow> NoBody | Some j \<Rightarrow> RawBody (jsonPrint e j)) \<and> req_Method req = method
   \<and> req_URL req = g5_BaseURL (g5_config d) @ ''/'' @ resource"
  by (auto simp: gandiv5_newRequest_def NewRequest_Inr split: option.splits sum.splits)

context plain_invariant
begin

lemma always_gandiv5_do [always_intros]:
  "(\<And>m. req_Body req \<noteq> JoseBody m) \<Longrightarrow> always R (gandiv5_do e d req dec zero)"
  unfolding gandiv5_do_def Let_def by (intro always_intros always_plain_http) auto

lemma always_gandiv5 [always_intros]:
  "always R (gandiv5_getTXTRecord e d domain name)" "always R (gandiv5_addTXTRecord e d domain name value ttl)"
  "always R (gandiv5_deleteTXTRecord e d domain name)"
  unfolding gandiv5_getTXTRecord_def gandiv5_addTXTRecord_def gandiv5_deleteTXTRecord_def Let_def
  by (intro always_intros; auto dest!: gandiv5_newRequest_Inr)+

lemma gandiv5_keeps: "provider_keeps R (gandiv5_provider e d)"
  unfolding gandiv5_provider_def
  by (rule provider_keepsI; unfold gandiv5_Present_def gandiv5_CleanUp_def) (intro always_intros)+

end

lemma gandiv5_checkResponse_None:
  "gandiv5_checkResponse e req resp = None \<longleftrightarrow>
     below_400 resp \<or> resp_StatusCode resp = 404 \<and> req_Method req = ''GET''"
  by (auto simp: gandiv5_checkResponse_def Let_def split: sum.split)

lemma gandiv5_do_sent:
  assumes "req_Method req \<noteq> ''GET''" and "carries e v req"
  shows "ensures is_ok (delivered e v (answered below_400)) (gandiv5_do e d req dec zero)"
  unfolding gandiv5_do_def Let_def using assms
  by (intro ensures_intros always_intros) (auto simp: gandiv5_checkResponse_None split: if_splits)

lemma gandiv5_addTXTRecord_sent:
  "ensures is_ok (delivered e value (answered below_400)) (gandiv5_addTXTRecord e d domain name value ttl)"
  unfolding gandiv5_addTXTRecord_def Let_def
  by (intro ensures_check_first [OF ensures_wrap(2) [OF gandiv5_do_sent]] ensures_intros ensures_check_later
      always_intros) (auto dest!: gandiv5_newRequest_Inr intro!: carries_json simp: g5_Record_json_def)

lemma gandiv5_Present_sent:
  "ensures is_nil (delivered e (record_value e keyAuth) (answered below_400)) (gandiv5_Present e d domain token keyAuth)"
  unfolding gandiv5_Present_def Let_def
  by (intro ensures_handle_first [OF gandiv5_addTXTRecord_sent] ensures_intros always_intros) simp_all

interpretation gandiv5: hosting e "gandiv5_provider e d" "answered below_400" for e d
  by (rule hostingI [OF outsider.gandiv5_keeps]) (simp add: gandiv5_Present_sent gandiv5_provider_def)

end
