(* ===== verification/Query_Hosts.thy ===== *)
theory Query_Hosts
  imports Hosting
begin

text \<open>
  Four services that take the record in the parameters of one request: packages \<^verbatim>\<open>providers/dns/dode\<close>,
  \<^verbatim>\<open>providers/dns/duckdns\<close>, \<^verbatim>\<open>providers/dns/dreamhost\<close> and \<^verbatim>\<open>providers/dns/mydnsjp\<close>.  The first two judge the
  reply by its body alone; their TXT record is one for all challenges of a domain, so they ask for
  challenges to be solved one after the other.
\<close>

record seq_config = host_config +
  sq_SequenceInterval :: int
  sq_Token :: string

section \<open>do.de\<close>

definition dode_NewDefaultConfig :: "env \<Rightarrow> seq_config" where
  "dode_NewDefaultConfig e =
     \<lparr>hcf_PropagationTimeout = GetOrDefaultSecond e ''DODE_PROPAGATION_TIMEOUT'' DefaultPropagationTimeout,
      hcf_PollingInterval = GetOrDefaultSecond e ''DODE_POLLING_INTERVAL'' DefaultPollingInterval,
      hcf_HTTPTimeout = GetOrDefaultSecond e ''DODE_HTTP_TIMEOUT'' (30 * Second),
      sq_SequenceInterval = GetOrDefaultSecond e ''DODE_SEQUENCE_INTERVAL'' DefaultPropagationTimeout,
      sq_Token = []\<rparr>"

definition dode_NewDNSProviderConfig :: "seq_config option \<Rightarrow> goerror + seq_config" where
  "dode_NewDNSProviderConfig config =
     (case config of
        None \<Rightarrow> Inl (nil_config ''do.de'')
      | Some c \<Rightarrow> if sq_Token c = [] then Inl (Err ''do.de: credentials missing'') else Inr c)"

definition dode_NewDNSProvider :: "env \<Rightarrow> goerror + seq_config" where
  "dode_NewDNSProvider e =
     (case env_Get e [''DODE_TOKEN''] of
        Inl err \<Rightarrow> Inl (Wrap ''do.de: '' err)
      | Inr values \<Rightarrow>
          dode_NewDNSProviderConfig (Some ((dode_NewDefaultConfig e)\<lparr>sq_Token := env_value values ''DODE_TOKEN''\<rparr>)))"

text \<open>
  The success flag of \<^verbatim>\<open>apiResponse\<close>.  Its fields have no tags, and the service writes their names in lower
  case; names are compared without regard to case here.
\<close>

definition dode_apiResponse_of_json :: "json \<Rightarrow> goerror + bool" where
  "dode_apiResponse_of_json = decode_struct (\<lambda>k v r.
     if ToLower k = ''domain'' then set_str v (\<lambda>s. r) r
     else if ToLower k = ''success'' then set_bool v (\<lambda>b. b) r
     else Inr r) False"

definition dode_updateTxtRecord :: "env \<Rightarrow> string \<Rightarrow> string \<Rightarrow> string \<Rightarrow> bool \<Rightarrow> (world, goerror option) go" where
  "dode_updateTxtRecord e fqdn token txt' clear =
     (let u = parsed ''https://www.do.de/api/letsencrypt'';
          query = Values_Sets ([(''token'', token), (''domain'', UnFqdn fqdn)]
                    @ (if clear then [(''action'', ''delete'')] else [(''value'', txt')])) (ParseQuery (url_RawQuery u));
          u = u\<lparr>url_RawQuery := Values_Encode query\<rparr> in
      handle (send e ''GET'' (url_String u) None (\<lambda>req. req)) (\<lambda>err. ret (Some err)) (\<lambda>response.
        case resp_Body response of
          Inl err \<Rightarrow> ret (Some err)
        | Inr body \<Rightarrow>
            (case Unmarshal e dode_apiResponse_of_json body of
               Inl _ \<Rightarrow> ret (Some (Err (''request to change TXT record for do.de returned the following invalid json (''
                          @ body @ ''); used url ['' @ url_String u @ '']'')))
             | Inr success \<Rightarrow>
                 if \<not> success
                 then ret (Some (Err (''request to change TXT record for do.de returned the following error result (''
                        @ body @ ''); used url ['' @ url_String u @ '']'')))
                 else ret None)))"

definition dode_Present :: "env \<Rightarrow> seq_config \<Rightarrow> string \<Rightarrow> string \<Rightarrow> string \<Rightarrow> (world, goerror option) go" where
  "dode_Present e d domain token keyAuth =
     bind (GetRecord e domain keyAuth) (\<lambda>(fqdn, txtRecord). dode_updateTxtRecord e fqdn (sq_Token d) txtRecord False)"

definition dode_CleanUp :: "env \<Rightarrow> seq_config \<Rightarrow> string \<Rightarrow> string \<Rightarrow> string \<Rightarrow> (world, goerror option) go" where
  "dode_CleanUp e d domain token keyAuth =
     bind (GetRecord e domain keyAuth) (\<lambda>(fqdn, _). dode_updateTxtRecord e fqdn (sq_Token d) [] True)"

definition dode_Timeout :: "seq_config \<Rightarrow> int \<times> int" where
  "dode_Timeout d = (hcf_PropagationTimeout d, hcf_PollingInterval d)"

definition dode_Sequential :: "seq_config \<Rightarrow> int" where
  "dode_Sequential d = sq_SequenceInterval d"

definition dode_provider :: "env \<Rightarrow> seq_config \<Rightarrow> provider" where
  "dode_provider e d =
     \<lparr>prov_Present = dode_Present e d, prov_CleanUp = dode_CleanUp e d,
      prov_Timeout = Some (dode_Timeout d), prov_Sequential = Some (dode_Sequential d)\<rparr>"

section \<open>DuckDNS\<close>

definition duckdns_NewDefaultConfig :: "env \<Rightarrow> seq_config" where
  "duckdns_NewDefaultConfig e =
     \<lparr>hcf_PropagationTimeout = GetOrDefaultSecond e ''DUCKDNS_PROPAGATION_TIMEOUT'' DefaultPropagationTimeout,
      hcf_PollingInterval = GetOrDefaultSecond e ''DUCKDNS_POLLING_INTERVAL'' DefaultPollingInterval,
      hcf_HTTPTimeout = GetOrDefaultSecond e ''DUCKDNS_HTTP_TIMEOUT'' (30 * Second),
      sq_SequenceInterval = GetOrDefaultSecond e ''DUCKDNS_SEQUENCE_INTERVAL'' DefaultPropagationTimeout,
      sq_Token = []\<rparr>"

definition duckdns_NewDNSProviderConfig :: "seq_config option \<Rightarrow> goerror + seq_config" where
  "duckdns_NewDNSProviderConfig config =
     (case config of
        None \<Rightarrow> Inl (nil_config ''duckdns'')
      | Some c \<Rightarrow> if sq_Token c = [] then Inl (Err ''duckdns: credentials missing'') else Inr c)"

definition duckdns_NewDNSProvider :: "env \<Rightarrow> goerror + seq_config" where
  "duckdns_NewDNSProvider e =
     (case env_Get e [''DUCKDNS_TOKEN''] of
        Inl err \<Rightarrow> Inl (Wrap ''duckdns: '' err)
      | Inr values \<Rightarrow>
          duckdns_NewDNSProviderConfig
            (Some ((duckdns_NewDefaultConfig e)\<lparr>sq_Token := env_value values ''DUCKDNS_TOKEN''\<rparr>)))"

text \<open>The last three labels of a name under \<^verbatim>\<open>duckdns.org\<close>, and the last label of any other name.\<close>

definition duckdns_getMainDomain :: "env \<Rightarrow> string \<Rightarrow> string outcome" where
  "duckdns_getMainDomain e domain =
     (let domain = UnFqdn domain; split = dnsSplit e domain;
          from = (\<lambda>i. if length domain < i then Panic ''slice bounds out of range'' else Return (drop i domain)) in
      if HasSuffix (ToLower domain) ''duckdns.org'' then
        (if length split < 3 then Return [] else from (split ! (length split - 3)))
      else if split = [] then Panic ''index out of range''
      else from (split ! (length split - 1)))"

definition FormatBool :: "bool \<Rightarrow> string" where
  "FormatBool b = (if b then ''true'' else ''false'')"

definition duckdns_updateTxtRecord :: "env \<Rightarrow> string \<Rightarrow> string \<Rightarrow> string \<Rightarrow> bool \<Rightarrow> (world, goerror option) go" where
  "duckdns_updateTxtRecord e domain token txt' clear =
     (let u = parsed ''https://www.duckdns.org/update'' in
      bind (outcome_of (duckdns_getMainDomain e domain)) (\<lambda>mainDomain.
        if mainDomain = [] then ret (Some (Err (''unable to find the main domain for: '' @ domain)))
        else
          (let query = Values_Sets [(''domains'', mainDomain), (''token'', token), (''clear'', FormatBool clear),
                         (''txt'', txt')] (ParseQuery (url_RawQuery u));
               u = u\<lparr>url_RawQuery := Values_Encode query\<rparr> in
           handle (send e ''GET'' (url_String u) None (\<lambda>req. req)) (\<lambda>err. ret (Some err)) (\<lambda>response.
             case resp_Body response of
               Inl err \<Rightarrow> ret (Some err)
             | Inr body \<Rightarrow>
                 if body \<noteq> ''OK''
                 then ret (Some (Err (''request to change TXT record for DuckDNS returned the following result (''
                        @ body @ '') this does not match expectation (OK) used url ['' @ url_String u @ '']'')))
                 else ret None))))"

definition duckdns_Present :: "env \<Rightarrow> seq_config \<Rightarrow> string \<Rightarrow> string \<Rightarrow> string \<Rightarrow> (world, goerror option) go" where
  "duckdns_Present e d domain token keyAuth =
     bind (GetRecord e domain keyAuth) (\<lambda>(_, txtRecord). duckdns_updateTxtRecord e domain (sq_Token d) txtRecord False)"

definition duckdns_CleanUp :: "env \<Rightarrow> seq_config \<Rightarrow> string \<Rightarrow> string \<Rightarrow> string \<Rightarrow> (world, goerror option) go" where
  "duckdns_CleanUp e d domain token keyAuth = duckdns_updateTxtRecord e domain (sq_Token d) [] True"

definition duckdns_Timeout :: "seq_config \<Rightarrow> int \<times> int" where
  "duckdns_Timeout d = (hcf_PropagationTimeout d, hcf_PollingInterval d)"

definition duckdns_Sequential :: "seq_config \<Rightarrow> int" where
  "duckdns_Sequential d = sq_SequenceInterval d"

definition duckdns_provider :: "env \<Rightarrow> seq_config \<Rightarrow> provider" where
  "duckdns_provider e d =
     \<lparr>prov_Present = duckdns_Present e d, prov_CleanUp = duckdns_CleanUp e d,
      prov_Timeout = Some (duckdns_Timeout d), prov_Sequential = Some (duckdns_Sequential d)\<rparr>"

section \<open>DreamHost\<close>

definition dreamhost_defaultBaseURL :: string where "dreamhost_defaultBaseURL = ''https://api.dreamhost.com''"
definition dreamhost_cmdAddRecord :: string where "dreamhost_cmdAddRecord = ''dns-add_record''"
definition dreamhost_cmdRemoveRecord :: string where "dreamhost_cmdRemoveRecord = ''dns-remove_record''"

record dreamhost = host_config +
  dh_BaseURL :: string
  dh_APIKey :: string

definition dreamhost_NewDefaultConfig :: "env \<Rightarrow> dreamhost" where
  "dreamhost_NewDefaultConfig e =
     \<lparr>hcf_PropagationTimeout = GetOrDefaultSecond e ''DREAMHOST_PROPAGATION_TIMEOUT'' (60 * Minute),
      hcf_PollingInterval = GetOrDefaultSecond e ''DREAMHOST_POLLING_INTERVAL'' (1 * Minute),
      hcf_HTTPTimeout = GetOrDefaultSecond e ''DREAMHOST_HTTP_TIMEOUT'' (30 * Second),
      dh_BaseURL = dreamhost_defaultBaseURL, dh_APIKey = []\<rparr>"

definition dreamhost_NewDNSProviderConfig :: "dreamhost option \<Rightarrow> goerror + dreamhost" where
  "dreamhost_NewDNSProviderConfig config =
     (case config of
        None \<Rightarrow> Inl (nil_config ''dreamhost'')
      | Some c \<Rightarrow>
          if dh_APIKey c = [] then Inl (Err ''dreamhost: credentials missing'')
          else Inr (if dh_BaseURL c = [] then c\<lparr>dh_BaseURL := dreamhost_defaultBaseURL\<rparr> else c))"

definition dreamhost_NewDNSProvider :: "env \<Rightarrow> goerror + dreamhost" where
  "dreamhost_NewDNSProvider e =
     (case env_Get e [''DREAMHOST_API_KEY''] of
        Inl err \<Rightarrow> Inl (Wrap ''dreamhost: '' err)
      | Inr values \<Rightarrow>
          dreamhost_NewDNSProviderConfig
            (Some ((dreamhost_NewDefaultConfig e)\<lparr>dh_APIKey := env_value values ''DREAMHOST_API_KEY''\<rparr>)))"

text \<open>The data and the result of \<^verbatim>\<open>apiResponse\<close>.\<close>

definition dh_apiResponse_of_json :: "json \<Rightarrow> goerror + string \<times> string" where
  "dh_apiResponse_of_json = decode_struct (\<lambda>k v (dat, res).
     if k = ''data'' then set_str v (\<lambda>s. (s, res)) (dat, res)
     else if k = ''result'' then set_str v (\<lambda>s. (dat, s)) (dat, res)
     else Inr (dat, res)) ([], [])"

definition dreamhost_buildQuery :: "dreamhost \<Rightarrow> string \<Rightarrow> string \<Rightarrow> string \<Rightarrow> goerror + url" where
  "dreamhost_buildQuery d action domain txt' =
     (case url_Parse (dh_BaseURL d) of
        Inl err \<Rightarrow> Inl err
      | Inr u \<Rightarrow>
          Inr (u\<lparr>url_RawQuery := Values_Encode (Values_Sets
            [(''key'', dh_APIKey d), (''cmd'', action), (''format'', ''json''), (''record'', domain), (''type'', ''TXT''),
             (''value'', txt'), (''comment'', QueryEscape ''Managed By lego'')] (ParseQuery (url_RawQuery u)))\<rparr>))"

definition dreamhost_updateTxtRecord :: "env \<Rightarrow> dreamhost \<Rightarrow> url \<Rightarrow> (world, goerror option) go" where
  "dreamhost_updateTxtRecord e d u =
     handle (send e ''GET'' (url_String u) None (\<lambda>req. req)) (\<lambda>err. ret (Some err)) (\<lambda>resp.
       if resp_StatusCode resp \<noteq> 200
       then ret (Some (Err (''request failed with HTTP status code '' @ show_int (resp_StatusCode resp))))
       else
         (case resp_Body resp of
            Inl err \<Rightarrow> ret (Some (Wrap ''failed to read body: '' err))
          | Inr raw \<Rightarrow>
              (case Unmarshal e dh_apiResponse_of_json raw of
                 Inl err \<Rightarrow> ret (Some (Wrap ''unable to decode API server response: '' (err_then err ('': '' @ raw))))
               | Inr (dat, res) \<Rightarrow>
                   if res = ''error'' then ret (Some (Err (''add TXT record failed: '' @ dat))) else ret None)))"

definition dreamhost_Present :: "env \<Rightarrow> dreamhost \<Rightarrow> string \<Rightarrow> string \<Rightarrow> string \<Rightarrow> (world, goerror option) go" where
  "dreamhost_Present e d domain token keyAuth =
     bind (GetRecord e domain keyAuth) (\<lambda>(fqdn, value).
       case dreamhost_buildQuery d dreamhost_cmdAddRecord (UnFqdn fqdn) value of
         Inl err \<Rightarrow> ret (Some (Wrap ''dreamhost: '' err))
       | Inr u \<Rightarrow> wrap_err ''dreamhost: '' (dreamhost_updateTxtRecord e d u))"

definition dreamhost_CleanUp :: "env \<Rightarrow> dreamhost \<Rightarrow> string \<Rightarrow> string \<Rightarrow> string \<Rightarrow> (world, goerror option) go" where
  "dreamhost_CleanUp e d domain token keyAuth =
     bind (GetRecord e domain keyAuth) (\<lambda>(fqdn, value).
       case dreamhost_buildQuery d dreamhost_cmdRemoveRecord (UnFqdn fqdn) value of
         Inl err \<Rightarrow> ret (Some (Wrap ''dreamhost: '' err))
       | Inr u \<Rightarrow> wrap_err ''dreamhost: '' (dreamhost_updateTxtRecord e d u))"

definition dreamhost_Timeout :: "dreamhost \<Rightarrow> int \<times> int" where
  "dreamhost_Timeout d = (hcf_PropagationTimeout d, hcf_PollingInterval d)"

definition dreamhost_provider :: "env \<Rightarrow> dreamhost \<Rightarrow> provider" where
  "dreamhost_provider e d =
     \<lparr>prov_Present = dreamhost_Present e d, prov_CleanUp = dreamhost_CleanUp e d,
      prov_Timeout = Some (dreamhost_Timeout d), prov_Sequential = None\<rparr>"

section \<open>MyDNS.jp\<close>

definition mydnsjp_defaultBaseURL :: string where "mydnsjp_defaultBaseURL = ''https://www.mydns.jp/directedit.html''"

record mydnsjp = host_config +
  mj_MasterID :: string
  mj_Password :: string

definition mydnsjp_NewDefaultConfig :: "env \<Rightarrow> mydnsjp" where
  "mydnsjp_NewDefaultConfig e =
     \<lparr>hcf_PropagationTimeout = GetOrDefaultSecond e ''MYDNSJP_PROPAGATION_TIMEOUT'' (2 * Minute),
      hcf_PollingInterval = GetOrDefaultSecond e ''MYDNSJP_POLLING_INTERVAL'' (2 * Second),
      hcf_HTTPTimeout = GetOrDefaultSecond e ''MYDNSJP_HTTP_TIMEOUT'' (30 * Second),
      mj_MasterID = [], mj_Password = []\<rparr>"

definition mydnsjp_NewDNSProviderConfig :: "mydnsjp option \<Rightarrow> goerror + mydnsjp" where
  "mydnsjp_NewDNSProviderConfig config =
     (case config of
        None \<Rightarrow> Inl (nil_config ''mydnsjp'')
      | Some c \<Rightarrow>
          if mj_MasterID c = [] \<or> mj_Password c = []
          then Inl (Err ''mydnsjp: some credentials information are missing'') else Inr c)"

definition mydnsjp_NewDNSProvider :: "env \<Rightarrow> goerror + mydnsjp" where
  "mydnsjp_NewDNSProvider e =
     (case env_Get e [''MYDNSJP_MASTER_ID'', ''MYDNSJP_PASSWORD''] of
        Inl err \<Rightarrow> Inl (Wrap ''mydnsjp: '' err)
      | Inr values \<Rightarrow>
          mydnsjp_NewDNSProviderConfig (Some ((mydnsjp_NewDefaultConfig e)
            \<lparr>mj_MasterID := env_value values ''MYDNSJP_MASTER_ID'',
             mj_Password := env_value values ''MYDNSJP_PASSWORD''\<rparr>)))"

definition mydnsjp_buildRequest ::
  "env \<Rightarrow> mydnsjp \<Rightarrow> string \<Rightarrow> string \<Rightarrow> string \<Rightarrow> goerror + http_request" where
  "mydnsjp_buildRequest e d domain value cmd =
     (let params = Values_Sets [(''CERTBOT_DOMAIN'', domain), (''CERTBOT_VALIDATION'', value), (''EDIT_CMD'', cmd)] [] in
      case NewRequest e ''POST'' mydnsjp_defaultBaseURL (Some (Values_Encode params)) of
        Inl err \<Rightarrow> Inl (Wrap ''invalid request: '' err)
      | Inr req \<Rightarrow>
          Inr (SetBasicAuth (mj_MasterID d) (mj_Password d)
            (Header_Set ''Content-Type'' ''application/x-www-form-urlencoded'' req)))"

definition mydnsjp_doRequest :: "env \<Rightarrow> mydnsjp \<Rightarrow> string \<Rightarrow> string \<Rightarrow> string \<Rightarrow> (world, goerror option) go" where
  "mydnsjp_doRequest e d domain value cmd =
     (case mydnsjp_buildRequest e d domain value cmd of
        Inl err \<Rightarrow> ret (Some err)
      | Inr req \<Rightarrow>
          handle (http_do e req) (\<lambda>err. ret (Some (Wrap ''error querying API: '' err))) (\<lambda>resp.
            if 400 \<le> resp_StatusCode resp then
              (case resp_Body resp of
                 Inl err \<Rightarrow> ret (Some err)
               | Inr content \<Rightarrow> ret (Some (Err (''request '' @ req_URL req @ '' failed [status code ''
                                  @ show_int (resp_StatusCode resp) @ '']: '' @ content))))
            else ret None))"

definition mydnsjp_Present :: "env \<Rightarrow> mydnsjp \<Rightarrow> string \<Rightarrow> string \<Rightarrow> string \<Rightarrow> (world, goerror option) go" where
  "mydnsjp_Present e d domain token keyAuth =
     bind (GetRecord e domain keyAuth) (\<lambda>(_, value). wrap_err ''mydnsjp: '' (mydnsjp_doRequest e d domain value ''REGIST''))"

definition mydnsjp_CleanUp :: "env \<Rightarrow> mydnsjp \<Rightarrow> string \<Rightarrow> string \<Rightarrow> string \<Rightarrow> (world, goerror option) go" where
  "mydnsjp_CleanUp e d domain token keyAuth =
     bind (GetRecord e domain keyAuth) (\<lambda>(_, value). wrap_err ''mydnsjp: '' (mydnsjp_doRequest e d domain value ''DELETE''))"

definition mydnsjp_Timeout :: "mydnsjp \<Rightarrow> int \<times> int" where
  "mydnsjp_Timeout d = (hcf_PropagationTimeout d, hcf_PollingInterval d)"

definition mydnsjp_provider :: "env \<Rightarrow> mydnsjp \<Rightarrow> provider" where
  "mydnsjp_provider e d =
     \<lparr>prov_Present = mydnsjp_Present e d, prov_CleanUp = mydnsjp_CleanUp e d,
      prov_Timeout = Some (mydnsjp_Timeout d), prov_Sequential = None\<rparr>"

section \<open>The providers keep their contract\<close>

lemma mydnsjp_buildRequest_body:
  "mydnsjp_buildRequest e d domain value cmd = Inr req \<Longrightarrow> req_Body req = RawBody (Values_Encode
     (Values_Sets [(''CERTBOT_DOMAIN'', domain), (''CERTBOT_VALIDATION'', value), (''EDIT_CMD'', cmd)] []))"
  by (auto simp: mydnsjp_buildRequest_def NewRequest_Inr Let_def split: sum.splits)

context plain_invariant
begin

lemma always_query_hosts [always_intros]:
  "always R (dode_updateTxtRecord e fqdn token v clear)" "always R (duckdns_updateTxtRecord e fqdn token v clear)"
  "always R (dreamhost_updateTxtRecord e dh u)" "always R (mydnsjp_doRequest e mj domain v cmd)"
  unfolding dode_updateTxtRecord_def duckdns_updateTxtRecord_def dreamhost_updateTxtRecord_def mydnsjp_doRequest_def
    Let_def
  by (intro always_intros always_plain_http; auto dest: mydnsjp_buildRequest_body)+

lemma query_hosts_keep:
  "provider_keeps R (dode_provider e d)" "provider_keeps R (duckdns_provider e d)"
  "provider_keeps R (dreamhost_provider e dh)" "provider_keeps R (mydnsjp_provider e mj)"
  unfolding dode_provider_def duckdns_provider_def dreamhost_provider_def mydnsjp_provider_def
  by (rule provider_keepsI; unfold dode_Present_def dode_CleanUp_def duckdns_Present_def duckdns_CleanUp_def
      dreamhost_Present_def dreamhost_CleanUp_def mydnsjp_Present_def mydnsjp_CleanUp_def; intro always_intros)+

end

text \<open>The criterion of each service: a body that reports success, or the status.\<close>

definition dode_accepts :: "env \<Rightarrow> http_response \<Rightarrow> bool" where
  "dode_accepts e resp \<longleftrightarrow> (\<exists>body. resp_Body resp = Inr body \<and> Unmarshal e dode_apiResponse_of_json body = Inr True)"

definition duckdns_accepts :: "http_response \<Rightarrow> bool" where
  "duckdns_accepts resp \<longleftrightarrow> resp_Body resp = Inr ''OK''"

lemma query_carries:
  assumes "NewRequest e ''GET'' (url_String u) None = Inr req" and "url_RawQuery u = Values_Encode (Values_Sets ps vs)"
    and "map_of (rev ps) k = Some v" and "QueryEscape v = v"
  shows "carries e v req"
proof -
  have "\<exists>a b. url_String u = a @ v @ b"
    by (rule url_String_value [of "Values_Sets ps vs" k "[v]"]) (simp_all add: map_of_Sets assms(2-4))
  then show ?thesis using assms(1) by (auto simp: NewRequest_Inr intro: carries_url)
qed

lemma dode_Present_sent:
  "ensures is_nil (delivered e (record_value e keyAuth) (answered (dode_accepts e))) (dode_Present e d domain token keyAuth)"
  unfolding dode_Present_def dode_updateTxtRecord_def Let_def
  by (intro ensures_intros always_intros)
    (auto simp: dode_accepts_def dest: query_carries [where k = "''value''" and v = "record_value e keyAuth"])

lemma duckdns_Present_sent:
  "ensures is_nil (delivered e (record_value e keyAuth) (answered duckdns_accepts)) (duckdns_Present e d domain token keyAuth)"
  unfolding duckdns_Present_def duckdns_updateTxtRecord_def Let_def
  by (intro ensures_intros ensures_later always_intros)
    (auto simp: duckdns_accepts_def dest: query_carries [where k = "''txt''" and v = "record_value e keyAuth"])

lemma dreamhost_Present_sent:
  "ensures is_nil (delivered e (record_value e keyAuth) status_200) (dreamhost_Present e d domain token keyAuth)"
  unfolding dreamhost_Present_def dreamhost_updateTxtRecord_def
  by (intro ensures_intros always_intros)
    (auto simp: dreamhost_buildQuery_def split: sum.splits
      dest: query_carries [where k = "''value''" and v = "record_value e keyAuth"])

lemma mydnsjp_Present_sent:
  "ensures is_nil (delivered e (record_value e keyAuth) (answered below_400)) (mydnsjp_Present e d domain token keyAuth)"
proof -
  have "carries e (record_value e keyAuth) req"
    if "mydnsjp_buildRequest e d domain (record_value e keyAuth) cmd = Inr req" for cmd req
    using mydnsjp_buildRequest_body [OF that]
      Values_Encode_value [of "Values_Sets [(''CERTBOT_DOMAIN'', domain), (''CERTBOT_VALIDATION'', record_value e keyAuth),
        (''EDIT_CMD'', cmd)] []" "''CERTBOT_VALIDATION''" "[record_value e keyAuth]" "record_value e keyAuth"]
    by (auto simp: map_of_Sets intro: carries_body)
  then show ?thesis
    unfolding mydnsjp_Present_def mydnsjp_doRequest_def by (intro ensures_intros always_intros) auto
qed

interpretation dode: hosting e "dode_provider e d" "answered (dode_accepts e)" for e d
  by (rule hostingI [OF outsider.query_hosts_keep(1)]) (simp add: dode_Present_sent dode_provider_def)

interpretation duckdns: hosting e "duckdns_provider e d" "answered duckdns_accepts" for e d
  by (rule hostingI [OF outsider.query_hosts_keep(2)]) (simp add: duckdns_Present_sent duckdns_provider_def)

interpretation dreamhost: hosting e "dreamhost_provider e d" status_200 for e d
  by (rule hostingI [OF outsider.query_hosts_keep(3)]) (simp add: dreamhost_Present_sent dreamhost_provider_def)

interpretation mydnsjp: hosting e "mydnsjp_provider e d" "answered below_400" for e d
  by (rule hostingI [OF outsider.query_hosts_keep(4)]) (simp add: mydnsjp_Present_sent mydnsjp_provider_def)

end
