(* ===== verification/Selectel.thy ===== *)
theory Selectel
  imports Hosting
begin

text \<open>
  Packages \<^verbatim>\<open>providers/dns/selectel\<close> and \<^verbatim>\<open>providers/dns/vscale\<close>, and the client they share,
  \<^verbatim>\<open>providers/dns/internal/selectel\<close>.  The two packages differ in their names and in the default address of
  the service; the operations with the prefix \<open>sel\<close> are written once, with the name of the package as an
  argument.
\<close>

section \<open>The client\<close>

definition DefaultSelectelBaseURL :: string where "DefaultSelectelBaseURL = ''https://api.selectel.ru/domains/v1''"
definition DefaultVScaleBaseURL :: string where "DefaultVScaleBaseURL = ''https://api.vscale.io/v1/domains''"

record sel_client =
  slc_BaseURL :: string
  slc_token :: string

definition sel_NewClient :: "string \<Rightarrow> sel_client" where
  "sel_NewClient token = \<lparr>slc_BaseURL = DefaultVScaleBaseURL, slc_token = token\<rparr>"

record sel_Domain =
  sld_ID :: int
  sld_Name :: string

definition sel_Domain_of_json :: "json \<Rightarrow> goerror + sel_Domain" where
  "sel_Domain_of_json = decode_struct (\<lambda>k v d.
     if k = ''id'' then set_int v (\<lambda>i. d\<lparr>sld_ID := i\<rparr>) d
     else if k = ''name'' then set_str v (\<lambda>s. d\<lparr>sld_Name := s\<rparr>) d
     else Inr d) \<lparr>sld_ID = 0, sld_Name = []\<rparr>"

record sel_Record =
  slr_ID :: int
  slr_Name :: string
  slr_Type :: string
  slr_TTL :: int
  slr_Email :: string
  slr_Content :: string

definition sel_Record_json :: "sel_Record \<Rightarrow> json" where
  "sel_Record_json r =
     JObj (omit_int ''id'' (slr_ID r) @ omit_str ''name'' (slr_Name r) @ omit_str ''type'' (slr_Type r)
       @ omit_int ''ttl'' (slr_TTL r) @ omit_str ''email'' (slr_Email r) @ omit_str ''content'' (slr_Content r))"

definition sel_Record_of_json :: "json \<Rightarrow> goerror + sel_Record" where
  "sel_Record_of_json = decode_struct (\<lambda>k v r.
     if k = ''id'' then set_int v (\<lambda>i. r\<lparr>slr_ID := i\<rparr>) r
     else if k = ''name'' then set_str v (\<lambda>s. r\<lparr>slr_Name := s\<rparr>) r
     else if k = ''type'' then set_str v (\<lambda>s. r\<lparr>slr_Type := s\<rparr>) r
     else if k = ''ttl'' then set_int v (\<lambda>i. r\<lparr>slr_TTL := i\<rparr>) r
     else if k = ''email'' then set_str v (\<lambda>s. r\<lparr>slr_Email := s\<rparr>) r
     else if k = ''content'' then set_str v (\<lambda>s. r\<lparr>slr_Content := s\<rparr>) r
     else Inr r) \<lparr>slr_ID = 0, slr_Name = [], slr_Type = [], slr_TTL = 0, slr_Email = [], slr_Content = []\<rparr>"

record sel_APIError =
  sle_Description :: string
  sle_Code :: int
  sle_Field :: string

definition sel_APIError_of_json :: "json \<Rightarrow> goerror + sel_APIError" where
  "sel_APIError_of_json = decode_struct (\<lambda>k v r.
     if k = ''error'' then set_str v (\<lambda>s. r\<lparr>sle_Description := s\<rparr>) r
     else if k = ''code'' then set_int v (\<lambda>i. r\<lparr>sle_Code := i\<rparr>) r
     else if k = ''field'' then set_str v (\<lambda>s. r\<lparr>sle_Field := s\<rparr>) r
     else Inr r) \<lparr>sle_Description = [], sle_Code = 0, sle_Field = []\<rparr>"

definition sel_APIError_Error :: "sel_APIError \<Rightarrow> string" where
  "sel_APIError_Error a =
     ''API error: '' @ show_int (sle_Code a) @ '' - '' @ sle_Description a @ '' - '' @ sle_Field a"

text \<open>A request without a value to encode has an empty buffer as its body, which \<^verbatim>\<open>http.NewRequest\<close> takes for none.\<close>

definition sel_newRequest ::
  "env \<Rightarrow> sel_client \<Rightarrow> string \<Rightarrow> string \<Rightarrow> json option \<Rightarrow> goerror + http_request" where
  "sel_newRequest e c method uri body =
     (case NewRequest e method (slc_BaseURL c @ uri) (map_option (Encode e) body) of
        Inl err \<Rightarrow> Inl (Wrap ''failed to create new http request with error: '' err)
      | Inr req \<Rightarrow>
          Inr (Header_Add ''Accept'' ''application/json'' (Header_Add ''Content-Type'' ''application/json''
            (Header_Add ''X-Token'' (slc_token c) req))))"

definition sel_checkResponse :: "env \<Rightarrow> http_response \<Rightarrow> goerror option" where
  "sel_checkResponse e resp =
     (if 400 \<le> resp_StatusCode resp then
        (case resp_Body resp of
           Inl err \<Rightarrow> Some err
         | Inr body \<Rightarrow>
             (case Unmarshal e sel_APIError_of_json body of
                Inl _ \<Rightarrow> Some (Err (''request failed with status code '' @ show_int (resp_StatusCode resp)
                                @ '', response body: '' @ body))
              | Inr apiError \<Rightarrow> Some (Wrap (''request failed with status code '' @ show_int (resp_StatusCode resp) @ '': '')
                                      (Err (sel_APIError_Error apiError)))))
      else None)"

definition sel_unmarshalBody :: "env \<Rightarrow> (json \<Rightarrow> goerror + 'a) \<Rightarrow> http_response \<Rightarrow> goerror + 'a" where
  "sel_unmarshalBody e dec resp =
     (case resp_Body resp of
        Inl err \<Rightarrow> Inl err
      | Inr body \<Rightarrow>
          (case Unmarshal e dec body of
             Inl err \<Rightarrow> Inl (Wrap ''unmarshaling error: '' (err_then err ('': '' @ body)))
           | Inr x \<Rightarrow> Inr x))"

text \<open>\<^verbatim>\<open>do\<close> returns the reply beside an error; an error of the exchange comes without a reply.\<close>

definition sel_do ::
  "env \<Rightarrow> http_request \<Rightarrow> (http_response \<Rightarrow> goerror + 'a) \<Rightarrow> (world, (http_response option \<times> goerror) + 'a) go" where
  "sel_do e req to =
     handle (http_do e req) (\<lambda>err. ret (Inl (None, Wrap ''request failed with error: '' err))) (\<lambda>resp.
       case sel_checkResponse e resp of
         Some err \<Rightarrow> ret (Inl (Some resp, err))
       | None \<Rightarrow> ret (map_sum (\<lambda>err. (Some resp, err)) (\<lambda>x. x) (to resp)))"

definition sel_not_found :: "http_response option \<Rightarrow> bool" where
  "sel_not_found resp \<longleftrightarrow> (case resp of None \<Rightarrow> False | Some r \<Rightarrow> resp_StatusCode r = 404)"

definition parent_domain :: "string \<Rightarrow> string" where
  "parent_domain s = drop 1 (dropWhile (\<lambda>c. c \<noteq> CHR ''.'') s)"

lemma parent_domain_shorter: "s \<noteq> [] \<Longrightarrow> length (parent_domain s) < length s"
  using length_dropWhile_le [of "\<lambda>c. c \<noteq> CHR ''.''" s] by (cases s) (auto simp: parent_domain_def)

function sel_GetDomainByName :: "env \<Rightarrow> sel_client \<Rightarrow> string \<Rightarrow> (world, goerror + sel_Domain) go" where
  "sel_GetDomainByName e c domainName =
     (case sel_newRequest e c ''GET'' (''/'' @ domainName) None of
        Inl err \<Rightarrow> ret (Inl err)
      | Inr req \<Rightarrow>
          bind (sel_do e req (sel_unmarshalBody e sel_Domain_of_json)) (\<lambda>r.
            case r of
              Inr domain \<Rightarrow> ret (Inr domain)
            | Inl (resp, err) \<Rightarrow>
                if sel_not_found resp \<and> 1 < count_list domainName (CHR ''.'')
                then sel_GetDomainByName e c (parent_domain domainName)
                else ret (Inl err)))"
  by pat_completeness auto
termination
  by (relation "measure (\<lambda>(_, _, s). length s)") (auto intro!: parent_domain_shorter)

declare sel_GetDomainByName.simps [simp del]

text \<open>\<^verbatim>\<open>_, err = c.do(req, to)\<close>\<close>

definition sel_request ::
  "env \<Rightarrow> sel_client \<Rightarrow> string \<Rightarrow> string \<Rightarrow> json option \<Rightarrow> (http_response \<Rightarrow> goerror + 'a) \<Rightarrow> (world, goerror + 'a) go" where
  "sel_request e c method uri body to =
     (case sel_newRequest e c method uri body of
        Inl err \<Rightarrow> ret (Inl err)
      | Inr req \<Rightarrow> handle (sel_do e req to) (\<lambda>(_, err). ret (Inl err)) (\<lambda>x. ret (Inr x)))"

definition sel_AddRecord :: "env \<Rightarrow> sel_client \<Rightarrow> int \<Rightarrow> sel_Record \<Rightarrow> (world, goerror + sel_Record) go" where
  "sel_AddRecord e c domainID body =
     sel_request e c ''POST'' (''/'' @ show_int domainID @ ''/records/'') (Some (sel_Record_json body))
       (sel_unmarshalBody e sel_Record_of_json)"

definition sel_ListRecords :: "env \<Rightarrow> sel_client \<Rightarrow> int \<Rightarrow> (world, goerror + sel_Record list) go" where
  "sel_ListRecords e c domainID =
     sel_request e c ''GET'' (''/'' @ show_int domainID @ ''/records/'') None
       (sel_unmarshalBody e (list_of_json sel_Record_of_json))"

definition sel_DeleteRecord :: "env \<Rightarrow> sel_client \<Rightarrow> int \<Rightarrow> int \<Rightarrow> (world, goerror option) go" where
  "sel_DeleteRecord e c domainID recordID =
     handle (sel_request e c ''DELETE'' (''/'' @ show_int domainID @ ''/records/'' @ show_int recordID) None (\<lambda>_. Inr ()))
       (\<lambda>err. ret (Some err)) (\<lambda>_. ret None)"

section \<open>The providers\<close>

definition sel_minTTL :: int where "sel_minTTL = 60"

record sel_config = ttl_config +
  sl_BaseURL :: string
  sl_Token :: string

record selectel =
  sl_config :: sel_config
  sl_client :: sel_client

definition sel_NewDefaultConfig :: "env \<Rightarrow> string \<Rightarrow> string \<Rightarrow> sel_config" where
  "sel_NewDefaultConfig e envNamespace defaultURL =
     \<lparr>hcf_PropagationTimeout = GetOrDefaultSecond e (envNamespace @ ''PROPAGATION_TIMEOUT'') (120 * Second),
      hcf_PollingInterval = GetOrDefaultSecond e (envNamespace @ ''POLLING_INTERVAL'') (2 * Second),
      hcf_HTTPTimeout = GetOrDefaultSecond e (envNamespace @ ''HTTP_TIMEOUT'') (30 * Second),
      hcf_TTL = GetOrDefaultInt e (envNamespace @ ''TTL'') sel_minTTL,
      sl_BaseURL = GetOrDefaultString e (envNamespace @ ''BASE_URL'') defaultURL, sl_Token = []\<rparr>"

definition sel_NewDNSProviderConfig :: "string \<Rightarrow> sel_config option \<Rightarrow> goerror + selectel" where
  "sel_NewDNSProviderConfig pkg config =
     (case config of
        None \<Rightarrow> Inl (nil_config pkg)
      | Some c \<Rightarrow>
          if sl_Token c = [] then Inl (Err (pkg @ '': credentials missing''))
          else if hcf_TTL c < sel_minTTL then Inl (ttl_error pkg (hcf_TTL c) sel_minTTL)
          else Inr \<lparr>sl_config = c, sl_client = (sel_NewClient (sl_Token c))\<lparr>slc_BaseURL := sl_BaseURL c\<rparr>\<rparr>)"

definition sel_NewDNSProvider :: "string \<Rightarrow> string \<Rightarrow> sel_config \<Rightarrow> env \<Rightarrow> goerror + selectel" where
  "sel_NewDNSProvider pkg envAPIToken config e =
     (case env_Get e [envAPIToken] of
        Inl err \<Rightarrow> Inl (Wrap (pkg @ '': '') err)
      | Inr values \<Rightarrow> sel_NewDNSProviderConfig pkg (Some (config\<lparr>sl_Token := env_value values envAPIToken\<rparr>)))"

definition sel_Present ::
  "string \<Rightarrow> env \<Rightarrow> selectel \<Rightarrow> string \<Rightarrow> string \<Rightarrow> string \<Rightarrow> (world, goerror option) go" where
  "sel_Present pkg e d domain token keyAuth =
     bind (GetRecord e domain keyAuth) (\<lambda>(fqdn, value).
       try_or (pkg @ '': '') (sel_GetDomainByName e (sl_client d) domain) (\<lambda>domainObj.
         try_or (pkg @ '': '')
           (sel_AddRecord e (sl_client d) (sld_ID domainObj)
             \<lparr>slr_ID = 0, slr_Name = fqdn, slr_Type = ''TXT'', slr_TTL = hcf_TTL (sl_config d), slr_Email = [],
              slr_Content = value\<rparr>) (\<lambda>_. ret None)))"

text \<open>Every record of that name is deleted; the last error is returned.\<close>

definition sel_CleanUp ::
  "string \<Rightarrow> env \<Rightarrow> selectel \<Rightarrow> string \<Rightarrow> string \<Rightarrow> string \<Rightarrow> (world, goerror option) go" where
  "sel_CleanUp pkg e d domain token keyAuth =
     bind (GetRecord e domain keyAuth) (\<lambda>(fqdn, _).
       let recordName = UnFqdn fqdn in
       try_or (pkg @ '': '') (sel_GetDomainByName e (sl_client d) domain) (\<lambda>domainObj.
         try_or (pkg @ '': '') (sel_ListRecords e (sl_client d) (sld_ID domainObj)) (\<lambda>records.
           for_each records (\<lambda>record lastErr.
             if slr_Name record = recordName then
               bind (sel_DeleteRecord e (sl_client d) (sld_ID domainObj) (slr_ID record)) (\<lambda>err.
                 ret (case err of None \<Rightarrow> lastErr | Some x \<Rightarrow> Some (Wrap (pkg @ '': '') x)))
             else ret lastErr) None)))"

definition sel_Timeout :: "selectel \<Rightarrow> int \<times> int" where
  "sel_Timeout d = (hcf_PropagationTimeout (sl_config d), hcf_PollingInterval (sl_config d))"

definition selectel_NewDefaultConfig :: "env \<Rightarrow> sel_config" where
  "selectel_NewDefaultConfig e = sel_NewDefaultConfig e ''SELECTEL_'' DefaultSelectelBaseURL"

definition selectel_NewDNSProvider :: "env \<Rightarrow> goerror + selectel" where
  "selectel_NewDNSProvider e =
     sel_NewDNSProvider ''selectel'' ''SELECTEL_API_TOKEN'' (selectel_NewDefaultConfig e) e"

definition selectel_NewDNSProviderConfig :: "sel_config option \<Rightarrow> goerror + selectel" where
  "selectel_NewDNSProviderConfig = sel_NewDNSProviderConfig ''selectel''"

definition selectel_Present :: "env \<Rightarrow> selectel \<Rightarrow> string \<Rightarrow> string \<Rightarrow> string \<Rightarrow> (world, goerror option) go" where
  "selectel_Present = sel_Present ''selectel''"

definition selectel_CleanUp :: "env \<Rightarrow> selectel \<Rightarrow> string \<Rightarrow> string \<Rightarrow> string \<Rightarrow> (world, goerror option) go" where
  "selectel_CleanUp = sel_CleanUp ''selectel''"

definition vscale_NewDefaultConfig :: "env \<Rightarrow> sel_config" where
  "vscale_NewDefaultConfig e = sel_NewDefaultConfig e ''VSCALE_'' DefaultVScaleBaseURL"

definition vscale_NewDNSProvider :: "env \<Rightarrow> goerror + selectel" where
  "vscale_NewDNSProvider e = sel_NewDNSProvider ''vscale'' ''VSCALE_API_TOKEN'' (vscale_NewDefaultConfig e) e"

definition vscale_NewDNSProviderConfig :: "sel_config option \<Rightarrow> goerror + selectel" where
  "vscale_NewDNSProviderConfig = sel_NewDNSProviderConfig ''vscale''"

definition vscale_Present :: "env \<Rightarrow> selectel \<Rightarrow> string \<Rightarrow> string \<Rightarrow> string \<Rightarrow> (world, goerror option) go" where
  "vscale_Present = sel_Present ''vscale''"

definition vscale_CleanUp :: "env \<Rightarrow> selectel \<Rightarrow> string \<Rightarrow> string \<Rightarrow> string \<Rightarrow> (world, goerror option) go" where
  "vscale_CleanUp = sel_CleanUp ''vscale''"

definition selectel_provider :: "env \<Rightarrow> selectel \<Rightarrow> provider" where
  "selectel_provider e d =
     \<lparr>prov_Present = selectel_Present e d, prov_CleanUp = selectel_CleanUp e d,
      prov_Timeout = Some (sel_Timeout d), prov_Sequential = None\<rparr>"

definition vscale_provider :: "env \<Rightarrow> selectel \<Rightarrow> provider" where
  "vscale_provider e d =
     \<lparr>prov_Present = vscale_Present e d, prov_CleanUp = vscale_CleanUp e d,
      prov_Timeout = Some (sel_Timeout d), prov_Sequential = None\<rparr>"

section \<open>The providers keep their contract\<close>

lemma sel_newRequest_Inr:
  "sel_newRequest e c method uri body = Inr req \<Longrightarrow>
   req_Body req = (case body of None \<Rightarrow> NoBody | Some j \<Rightarrow> RawBody (Encode e j))
   \<and> req_Method req = method \<and> req_URL req = slc_BaseURL c @ uri"
  by (auto simp: sel_newRequest_def NewRequest_Inr split: sum.splits option.splits)

context plain_invariant
begin

lemma always_sel_do [always_intros]:
  "(\<And>m. req_Body req \<noteq> JoseBody m) \<Longrightarrow> always R (sel_do e req to)"
  unfolding sel_do_def by (intro always_intros always_plain_http) auto

lemma always_sel_GetDomainByName [always_intros]: "always R (sel_GetDomainByName e c domainName)"
proof (induction e c domainName rule: sel_GetDomainByName.induct)
  case (1 e c domainName)
  show ?case
    by (subst sel_GetDomainByName.simps) (intro always_intros "1.IH"; auto dest: sel_newRequest_Inr)
qed

lemma always_sel_request [always_intros]: "always R (sel_request e c method uri body to)"
  unfolding sel_request_def
  by (intro always_intros) (auto dest!: sel_newRequest_Inr split: option.splits)

lemma always_sel [always_intros]:
  "always R (sel_AddRecord e c domainID r)" "always R (sel_ListRecords e c domainID)"
  "always R (sel_DeleteRecord e c domainID recordID)"
  unfolding sel_AddRecord_def sel_ListRecords_def sel_DeleteRecord_def by (intro always_intros)+

lemma sel_keeps: "provider_keeps R (selectel_provider e d)" "provider_keeps R (vscale_provider e d)"
  unfolding selectel_provider_def vscale_provider_def selectel_Present_def selectel_CleanUp_def vscale_Present_def
    vscale_CleanUp_def
  by (rule provider_keepsI; unfold sel_Present_def sel_CleanUp_def Let_def; intro always_intros)+

end

lemma sel_AddRecord_sent:
  assumes "slr_Content r = v"
  shows "ensures is_ok (delivered e v (answered below_400)) (sel_AddRecord e c domainID r)"
proof -
  have sent: "ensures is_ok (delivered e v (answered below_400)) (sel_do e req to)" if "carries e v req"
    for req and to :: "http_response \<Rightarrow> goerror + sel_Record"
    unfolding sel_do_def handle_def using that
    by (intro ensures_http [unfolded handle_def] ensures_intros always_intros)
      (auto simp: sel_checkResponse_def split: sum.splits)
  show ?thesis
    unfolding sel_AddRecord_def sel_request_def using assms
    by (intro ensures_handle_first [OF sent] ensures_intros always_intros)
      (auto dest!: sel_newRequest_Inr intro!: carries_json_line simp: sel_Record_json_def json_text)
qed

lemma sel_Present_sent:
  "ensures is_nil (delivered e (record_value e keyAuth) (answered below_400)) (sel_Present pkg e d domain token keyAuth)"
  unfolding sel_Present_def
  by (intro ensures_try_first [OF sel_AddRecord_sent] ensures_intros ensures_try_later always_intros) simp_all

interpretation selectel: hosting e "selectel_provider e d" "answered below_400" for e d
  by (rule hostingI [OF outsider.sel_keeps(1)]) (simp add: sel_Present_sent selectel_provider_def selectel_Present_def)

interpretation vscale: hosting e "vscale_provider e d" "answered below_400" for e d
  by (rule hostingI [OF outsider.sel_keeps(2)]) (simp add: sel_Present_sent vscale_provider_def vscale_Present_def)

end
