(* ===== verification/Versio.thy ===== *)
theory Versio
  imports Hosting
begin

text \<open>
  Package \<^verbatim>\<open>providers/dns/versio\<close>.  The service only replaces all records of a domain: both operations read
  them, change the list and write it back.  The mutex that covers a whole operation is not needed here, where
  an operation runs without interruption.  The setting \<^verbatim>\<open>SequenceInterval\<close> is read and never used: the provider
  has no \<^verbatim>\<open>Sequential\<close> method.
\<close>

definition versio_defaultBaseURL :: string where "versio_defaultBaseURL = ''https://www.versio.nl/api/v1/''"

record versio = ttl_config +
  vs_BaseURL :: url
  vs_Username :: string
  vs_Password :: string
  vs_SequenceInterval :: int

definition versio_NewDefaultConfig :: "env \<Rightarrow> versio" where
  "versio_NewDefaultConfig e =
     \<lparr>hcf_PropagationTimeout = GetOrDefaultSecond e ''VERSIO_PROPAGATION_TIMEOUT'' (60 * Second),
      hcf_PollingInterval = GetOrDefaultSecond e ''VERSIO_POLLING_INTERVAL'' (5 * Second),
      hcf_HTTPTimeout = GetOrDefaultSecond e ''VERSIO_HTTP_TIMEOUT'' (30 * Second),
      hcf_TTL = GetOrDefaultInt e ''VERSIO_TTL'' 300,
      vs_BaseURL = (case url_Parse (GetOrDefaultString e ''VERSIO_ENDPOINT'' versio_defaultBaseURL) of
         Inr u \<Rightarrow> u
       | Inl _ \<Rightarrow> parsed versio_defaultBaseURL),
      vs_Username = [], vs_Password = [],
      vs_SequenceInterval = GetOrDefaultSecond e ''VERSIO_SEQUENCE_INTERVAL'' DefaultPropagationTimeout\<rparr>"

definition versio_NewDNSProviderConfig :: "versio option \<Rightarrow> goerror + versio" where
  "versio_NewDNSProviderConfig config =
     (case config of
        None \<Rightarrow> Inl (nil_config ''versio'')
      | Some c \<Rightarrow>
          if vs_Username c = [] then Inl (Err ''versio: the versio username is missing'')
          else if vs_Password c = [] then Inl (Err ''versio: the versio password is missing'')
          else Inr c)"

definition versio_NewDNSProvider :: "env \<Rightarrow> goerror + versio" where
  "versio_NewDNSProvider e =
     (case env_Get e [''VERSIO_USERNAME'', ''VERSIO_PASSWORD''] of
        Inl err \<Rightarrow> Inl (Wrap ''versio: '' err)
      | Inr values \<Rightarrow>
          versio_NewDNSProviderConfig (Some ((versio_NewDefaultConfig e)
            \<lparr>vs_Username := env_value values ''VERSIO_USERNAME'',
             vs_Password := env_value values ''VERSIO_PASSWORD''\<rparr>)))"

section \<open>The client\<close>

record versio_record =
  vsr_Type :: string
  vsr_Name :: string
  vsr_Value :: string
  vsr_Priority :: int
  vsr_TTL :: int

definition versio_record_json :: "versio_record \<Rightarrow> json" where
  "versio_record_json r =
     JObj (omit_str ''type'' (vsr_Type r) @ omit_str ''name'' (vsr_Name r) @ omit_str ''value'' (vsr_Value r)
       @ omit_int ''prio'' (vsr_Priority r) @ omit_int ''ttl'' (vsr_TTL r))"

definition versio_record_of_json :: "json \<Rightarrow> goerror + versio_record" where
  "versio_record_of_json = decode_struct (\<lambda>k v r.
     if k = ''type'' then set_str v (\<lambda>s. r\<lparr>vsr_Type := s\<rparr>) r
     else if k = ''name'' then set_str v (\<lambda>s. r\<lparr>vsr_Name := s\<rparr>) r
     else if k = ''value'' then set_str v (\<lambda>s. r\<lparr>vsr_Value := s\<rparr>) r
     else if k = ''prio'' then set_int v (\<lambda>i. r\<lparr>vsr_Priority := i\<rparr>) r
     else if k = ''ttl'' then set_int v (\<lambda>i. r\<lparr>vsr_TTL := i\<rparr>) r
     else Inr r) \<lparr>vsr_Type = [], vsr_Name = [], vsr_Value = [], vsr_Priority = 0, vsr_TTL = 0\<rparr>"

text \<open>
  The records of \<^verbatim>\<open>dnsRecord\<close>.  The list that is written is built with \<^verbatim>\<open>append\<close>, so that it is nil, and \<^verbatim>\<open>null\<close>
  in JSON, exactly when it has no element.
\<close>

definition versio_dnsRecord_json :: "versio_record list \<Rightarrow> json" where
  "versio_dnsRecord_json rs =
     JObj [(''dns_records'', if rs = [] then JNull else JArr (map versio_record_json rs))]"

definition versio_dnsRecord_of_json :: "json \<Rightarrow> goerror + versio_record list" where
  "versio_dnsRecord_of_json = decode_struct (\<lambda>k v rs.
     if k = ''dns_records'' then set_list versio_record_of_json v (\<lambda>l. l) else Inr rs) []"

definition versio_dnsRecordsResponse_of_json :: "json \<Rightarrow> goerror + versio_record list" where
  "versio_dnsRecordsResponse_of_json = decode_struct (\<lambda>k v rs.
     if k = ''domainInfo'' then set_struct versio_dnsRecord_of_json v (\<lambda>l. l) else Inr rs) []"

text \<open>The message of \<^verbatim>\<open>errorMessage\<close> in a \<^verbatim>\<open>dnsErrorResponse\<close>.\<close>

definition versio_errorMessage_of_json :: "json \<Rightarrow> goerror + string" where
  "versio_errorMessage_of_json = decode_struct (\<lambda>k v m.
     if k = ''code'' then set_int v (\<lambda>i. m) m
     else if k = ''message'' then set_str v (\<lambda>s. s) m
     else Inr m) []"

definition versio_dnsErrorResponse_of_json :: "json \<Rightarrow> goerror + string" where
  "versio_dnsErrorResponse_of_json = decode_struct (\<lambda>k v m.
     if k = ''error'' then set_struct versio_errorMessage_of_json v (\<lambda>s. s) else Inr m) []"

definition versio_makeRequest ::
  "env \<Rightarrow> versio \<Rightarrow> string \<Rightarrow> string \<Rightarrow> string option \<Rightarrow> goerror + http_request" where
  "versio_makeRequest e d method uri body =
     (case url_ParseRef (vs_BaseURL d) (path_Join [EscapedPath (vs_BaseURL d), uri]) of
        Inl err \<Rightarrow> Inl err
      | Inr endpoint \<Rightarrow>
          (case NewRequest e method (url_String endpoint) body of
             Inl err \<Rightarrow> Inl err
           | Inr req \<Rightarrow>
               (let req = Header_Set ''Content-Type'' ''application/json'' req in
                Inr (if vs_Username d \<noteq> [] \<and> vs_Password d \<noteq> []
                     then SetBasicAuth (vs_Username d) (vs_Password d) req else req))))"

definition versio_do ::
  "env \<Rightarrow> http_request \<Rightarrow> (string \<Rightarrow> goerror + 'a) \<Rightarrow> 'a option \<Rightarrow> (world, goerror + 'a) go" where
  "versio_do e req unmarshal nothing =
     check (http_do e req) (\<lambda>resp.
       let code = show_int (resp_StatusCode resp) in
       if 400 \<le> resp_StatusCode resp then
         (case resp_Body resp of
            Inl err \<Rightarrow> ret (Inl (Wrap (code @ '': failed to read response body: '') err))
          | Inr body \<Rightarrow>
              (case Unmarshal e versio_dnsErrorResponse_of_json body of
                 Inl _ \<Rightarrow> ret (Inl (Err (code @ '': request failed: '' @ body)))
               | Inr m \<Rightarrow> ret (Inl (Err (code @ '': request failed: '' @ m)))))
       else
         (case nothing of
            Some x \<Rightarrow> ret (Inr x)
          | None \<Rightarrow>
              (case resp_Body resp of
                 Inl err \<Rightarrow> ret (Inl (Wrap ''request failed: '' err))
               | Inr content \<Rightarrow>
                   (case unmarshal content of
                      Inl err \<Rightarrow> ret (Inl (err_then err ('': '' @ content)))
                    | Inr x \<Rightarrow> ret (Inr x)))))"

definition versio_postDNSRecords :: "env \<Rightarrow> versio \<Rightarrow> string \<Rightarrow> versio_record list \<Rightarrow> (world, goerror + unit) go" where
  "versio_postDNSRecords e d domain msg =
     (case versio_makeRequest e d ''POST'' (''domains/'' @ domain @ ''/update'')
             (Some (Encode e (versio_dnsRecord_json msg))) of
        Inl err \<Rightarrow> ret (Inl err)
      | Inr req \<Rightarrow> versio_do e req (\<lambda>_. Inr ()) (Some ()))"

definition versio_getDNSRecords :: "env \<Rightarrow> versio \<Rightarrow> string \<Rightarrow> (world, goerror + versio_record list) go" where
  "versio_getDNSRecords e d domain =
     (case versio_makeRequest e d ''GET'' (''domains/'' @ domain @ ''?show_dns_records=true'') None of
        Inl err \<Rightarrow> ret (Inl err)
      | Inr req \<Rightarrow> versio_do e req (Unmarshal e versio_dnsRecordsResponse_of_json) None)"

section \<open>The provider\<close>

definition versio_Present :: "env \<Rightarrow> versio \<Rightarrow> string \<Rightarrow> string \<Rightarrow> string \<Rightarrow> (world, goerror option) go" where
  "versio_Present e d domain token keyAuth =
     bind (GetRecord e domain keyAuth) (\<lambda>(fqdn, value).
       try_or ''versio: '' (FindZoneByFqdn e fqdn) (\<lambda>authZone.
         let zoneName = UnFqdn authZone; q = [CHR 0x22] in
         try_or ''versio: '' (versio_getDNSRecords e d zoneName) (\<lambda>records.
           let txtRecord = \<lparr>vsr_Type = ''TXT'', vsr_Name = fqdn, vsr_Value = q @ value @ q, vsr_Priority = 0,
                 vsr_TTL = hcf_TTL d\<rparr> in
           try_or ''versio: '' (versio_postDNSRecords e d zoneName (records @ [txtRecord])) (\<lambda>_. ret None))))"

definition versio_CleanUp :: "env \<Rightarrow> versio \<Rightarrow> string \<Rightarrow> string \<Rightarrow> string \<Rightarrow> (world, goerror option) go" where
  "versio_CleanUp e d domain token keyAuth =
     bind (GetRecord e domain keyAuth) (\<lambda>(fqdn, _).
       try_or ''versio: '' (FindZoneByFqdn e fqdn) (\<lambda>authZone.
         let zoneName = UnFqdn authZone in
         try_or ''versio: '' (versio_getDNSRecords e d zoneName) (\<lambda>records.
           try_or ''versio: '' (versio_postDNSRecords e d zoneName (filter (\<lambda>r. vsr_Name r \<noteq> fqdn) records))
             (\<lambda>_. ret None))))"

definition versio_Timeout :: "versio \<Rightarrow> int \<times> int" where
  "versio_Timeout d = (hcf_PropagationTimeout d, hcf_PollingInterval d)"

definition versio_provider :: "env \<Rightarrow> versio \<Rightarrow> provider" where
  "versio_provider e d =
     \<lparr>prov_Present = versio_Present e d, prov_CleanUp = versio_CleanUp e d,
      prov_Timeout = Some (versio_Timeout d), prov_Sequential = None\<rparr>"

section \<open>The provider keeps its contract\<close>

lemma versio_makeRequest_body:
  "versio_makeRequest e d method uri body = Inr req \<Longrightarrow>
   req_Body req = (case body of None \<Rightarrow> NoBody | Some b \<Rightarrow> RawBody b) \<and> req_Method req = method"
  by (auto simp: versio_makeRequest_def NewRequest_Inr Let_def split: sum.splits option.splits if_splits)

context lookup_invariant
begin

lemma always_versio_do [always_intros]:
  "(\<And>m. req_Body req \<noteq> JoseBody m) \<Longrightarrow> always R (versio_do e req unmarshal nothing)"
  unfolding versio_do_def Let_def by (intro always_intros always_plain_http) auto

lemma always_versio [always_intros]:
  "always R (versio_postDNSRecords e d domain msg)" "always R (versio_getDNSRecords e d domain)"
  unfolding versio_postDNSRecords_def versio_getDNSRecords_def
  by (intro always_intros; auto dest!: versio_makeRequest_body)+

lemma versio_keeps: "provider_keeps R (versio_provider e d)"
  unfolding versio_provider_def provider_keeps_def
  by (simp, intro conjI allI; unfold versio_Present_def versio_CleanUp_def Let_def; intro always_intros)

end

lemma versio_postDNSRecords_sent:
  assumes "r \<in> set msg" and "vsr_Value r = a @ v @ b" and "a \<noteq> []"
  shows "ensures is_ok (delivered e v (answered below_400)) (versio_postDNSRecords e d domain msg)"
proof -
  have "a @ v @ b \<in> set (json_strings (versio_dnsRecord_json msg))"
    using assms by (force simp: versio_dnsRecord_json_def versio_record_json_def json_text)
  then show ?thesis
    unfolding versio_postDNSRecords_def versio_do_def Let_def
    by (intro ensures_intros always_intros)
      (auto dest!: versio_makeRequest_body intro: carries_json_within)
qed

lemma versio_Present_sent:
  "ensures is_nil (delivered e (record_value e keyAuth) (answered below_400)) (versio_Present e d domain token keyAuth)"
  unfolding versio_Present_def Let_def
  by (intro ensures_try_first [OF versio_postDNSRecords_sent [where a = "[CHR 0x22]" and b = "[CHR 0x22]"]]
      ensures_intros ensures_try_later always_intros) auto

interpretation versio: hosting e "versio_provider e d" "answered below_400" for e d
  by (rule hostingI [OF outsider.versio_keeps]) (simp add: versio_Present_sent versio_provider_def)

end
