(* ===== verification/Zoneee.thy ===== *)
theory Zoneee
  imports Hosting
begin

text \<open>Package \<^verbatim>\<open>providers/dns/zoneee\<close>.  \<^verbatim>\<open>CleanUp\<close> finds the record by its value and removes that one only.\<close>

definition zoneee_defaultEndpoint :: string where "zoneee_defaultEndpoint = ''https://api.zone.eu/v2/dns/''"

record zoneee = host_config +
  zn_Endpoint :: "url option"
  zn_Username :: string
  zn_APIKey :: string

definition zoneee_NewDefaultConfig :: "env \<Rightarrow> zoneee" where
  "zoneee_NewDefaultConfig e =
     \<lparr>hcf_PropagationTimeout = GetOrDefaultSecond e ''ZONEEE_PROPAGATION_TIMEOUT'' (5 * Minute),
      hcf_PollingInterval = GetOrDefaultSecond e ''ZONEEE_POLLING_INTERVAL'' (5 * Second),
      hcf_HTTPTimeout = GetOrDefaultSecond e ''ZONEEE_HTTP_TIMEOUT'' (30 * Second),
      zn_Endpoint = Some (parsed zoneee_defaultEndpoint), zn_Username = [], zn_APIKey = []\<rparr>"

definition zoneee_NewDNSProviderConfig :: "zoneee option \<Rightarrow> goerror + zoneee" where
  "zoneee_NewDNSProviderConfig config =
     (case config of
        None \<Rightarrow> Inl (nil_config ''zoneee'')
      | Some c \<Rightarrow>
          if zn_Username c = [] then Inl (Err ''zoneee: credentials missing: username'')
          else if zn_APIKey c = [] then Inl (Err ''zoneee: credentials missing: API key'')
          else if zn_Endpoint c = None then Inl (Err ''zoneee: the endpoint is missing'')
          else Inr c)"

definition zoneee_NewDNSProvider :: "env \<Rightarrow> goerror + zoneee" where
  "zoneee_NewDNSProvider e =
     (case env_Get e [''ZONEEE_API_USER'', ''ZONEEE_API_KEY''] of
        Inl err \<Rightarrow> Inl (Wrap ''zoneee: '' err)
      | Inr values \<Rightarrow>
          (case url_Parse (GetOrDefaultString e ''ZONEEE_ENDPOINT'' zoneee_defaultEndpoint) of
             Inl err \<Rightarrow> Inl (Wrap ''zoneee: '' err)
           | Inr endpoint \<Rightarrow>
               zoneee_NewDNSProviderConfig (Some ((zoneee_NewDefaultConfig e)
                 \<lparr>zn_Username := env_value values ''ZONEEE_API_USER'',
                  zn_APIKey := env_value values ''ZONEEE_API_KEY'', zn_Endpoint := Some endpoint\<rparr>))))"

section \<open>The client\<close>

record zn_txtRecord =
  znr_ID :: string
  znr_Name :: string
  znr_Destination :: string
  znr_Delete :: bool
  znr_Modify :: bool
  znr_ResourceURL :: string

definition zn_txtRecord_json :: "zn_txtRecord \<Rightarrow> json" where
  "zn_txtRecord_json r =
     JObj (omit_str ''id'' (znr_ID r)
       @ [(''name'', JStr (znr_Name r)), (''destination'', JStr (znr_Destination r))]
       @ omit_bool ''delete'' (znr_Delete r) @ omit_bool ''modify'' (znr_Modify r)
       @ omit_str ''resource_url'' (znr_ResourceURL r))"

definition zn_txtRecord_of_json :: "json \<Rightarrow> goerror + zn_txtRecord" where
  "zn_txtRecord_of_json = decode_struct (\<lambda>k v r.
     if k = ''id'' then set_str v (\<lambda>s. r\<lparr>znr_ID := s\<rparr>) r
     else if k = ''name'' then set_str v (\<lambda>s. r\<lparr>znr_Name := s\<rparr>) r
     else if k = ''destination'' then set_str v (\<lambda>s. r\<lparr>znr_Destination := s\<rparr>) r
     else if k = ''delete'' then set_bool v (\<lambda>b. r\<lparr>znr_Delete := b\<rparr>) r
     else if k = ''modify'' then set_bool v (\<lambda>b. r\<lparr>znr_Modify := b\<rparr>) r
     else if k = ''resource_url'' then set_str v (\<lambda>s. r\<lparr>znr_ResourceURL := s\<rparr>) r
     else Inr r)
     \<lparr>znr_ID = [], znr_Name = [], znr_Destination = [], znr_Delete = False, znr_Modify = False, znr_ResourceURL = []\<rparr>"

definition zoneee_checkResponse :: "http_response \<Rightarrow> goerror option" where
  "zoneee_checkResponse = checkStatus"

definition zoneee_makeRequest ::
  "env \<Rightarrow> zoneee \<Rightarrow> string \<Rightarrow> string \<Rightarrow> string option \<Rightarrow> (goerror + http_request) outcome" where
  "zoneee_makeRequest e d method resource body =
     makeRequest e (zn_Endpoint d) method resource body (\<lambda>req.
       SetBasicAuth (zn_Username d) (zn_APIKey d) (Header_Set ''Content-Type'' ''application/json'' req))"

definition zoneee_sendRequest ::
  "env \<Rightarrow> http_request \<Rightarrow> (json \<Rightarrow> goerror + 'a) \<Rightarrow> 'a option \<Rightarrow> (world, goerror + 'a) go" where
  "zoneee_sendRequest e = sendRequest e ''*[]zoneee.txtRecord''"

definition zoneee_addTxtRecord :: "env \<Rightarrow> zoneee \<Rightarrow> string \<Rightarrow> zn_txtRecord \<Rightarrow> (world, goerror + zn_txtRecord list) go" where
  "zoneee_addTxtRecord e d domain record =
     check (outcome_of (zoneee_makeRequest e d ''POST'' (path_Join [domain, ''txt''])
         (Some (Encode e (zn_txtRecord_json record))))) (\<lambda>req.
       zoneee_sendRequest e req (list_of_json zn_txtRecord_of_json) None)"

definition zoneee_getTxtRecords :: "env \<Rightarrow> zoneee \<Rightarrow> string \<Rightarrow> (world, goerror + zn_txtRecord list) go" where
  "zoneee_getTxtRecords e d domain =
     check (outcome_of (zoneee_makeRequest e d ''GET'' (path_Join [domain, ''txt'']) None)) (\<lambda>req.
       zoneee_sendRequest e req (list_of_json zn_txtRecord_of_json) None)"

definition zoneee_removeTxtRecord :: "env \<Rightarrow> zoneee \<Rightarrow> string \<Rightarrow> string \<Rightarrow> (world, goerror + unit) go" where
  "zoneee_removeTxtRecord e d domain i =
     check (outcome_of (zoneee_makeRequest e d ''DELETE'' (path_Join [domain, ''txt'', i]) None)) (\<lambda>req.
       zoneee_sendRequest e req (\<lambda>_. Inr ()) (Some ()))"

section \<open>The provider\<close>

definition zoneee_getHostedZone :: "env \<Rightarrow> string \<Rightarrow> (world, goerror + string) go" where
  "zoneee_getHostedZone e domain = check (FindZoneByFqdn e (ToFqdn domain)) (\<lambda>authZone. ret (Inr (UnFqdn authZone)))"

definition zoneee_Present :: "env \<Rightarrow> zoneee \<Rightarrow> string \<Rightarrow> string \<Rightarrow> string \<Rightarrow> (world, goerror option) go" where
  "zoneee_Present e d domain token keyAuth =
     bind (GetRecord e domain keyAuth) (\<lambda>(fqdn, value).
       if fqdn = [] then panic ''slice bounds out of range''
       else
         (let record = \<lparr>znr_ID = [], znr_Name = butlast fqdn, znr_Destination = value, znr_Delete = False,
                znr_Modify = False, znr_ResourceURL = []\<rparr> in
          try_or ''zoneee: '' (zoneee_getHostedZone e domain) (\<lambda>authZone.
            try_or ''zoneee: '' (zoneee_addTxtRecord e d authZone record) (\<lambda>_. ret None))))"

text \<open>The identifier of the last record with the value, empty when there is none.\<close>

definition zoneee_record_id :: "string \<Rightarrow> zn_txtRecord list \<Rightarrow> string" where
  "zoneee_record_id value records = fold (\<lambda>r i. if znr_Destination r = value then znr_ID r else i) records []"

definition zoneee_CleanUp :: "env \<Rightarrow> zoneee \<Rightarrow> string \<Rightarrow> string \<Rightarrow> string \<Rightarrow> (world, goerror option) go" where
  "zoneee_CleanUp e d domain token keyAuth =
     bind (GetRecord e domain keyAuth) (\<lambda>(_, value).
       try_or ''zoneee: '' (zoneee_getHostedZone e domain) (\<lambda>authZone.
         try_or ''zoneee: '' (zoneee_getTxtRecords e d authZone) (\<lambda>records.
           let i = zoneee_record_id value records in
           if i = [] then ret (Some (Err (''zoneee: txt record does not exist for '' @ value)))
           else try_or ''zoneee: '' (zoneee_removeTxtRecord e d authZone i) (\<lambda>_. ret None))))"

definition zoneee_Timeout :: "zoneee \<Rightarrow> int \<times> int" where
  "zoneee_Timeout d = (hcf_PropagationTimeout d, hcf_PollingInterval d)"

definition zoneee_provider :: "env \<Rightarrow> zoneee \<Rightarrow> provider" where
  "zoneee_provider e d =
     \<lparr>prov_Present = zoneee_Present e d, prov_CleanUp = zoneee_CleanUp e d,
      prov_Timeout = Some (zoneee_Timeout d), prov_Sequential = None\<rparr>"

section \<open>The provider keeps its contract\<close>

lemma zoneee_makeRequest_body:
  "zoneee_makeRequest e d method resource body = Return (Inr req) \<Longrightarrow>
   req_Body req = (case body of None \<Rightarrow> NoBody | Some b \<Rightarrow> RawBody b) \<and> req_Method req = method"
  unfolding zoneee_makeRequest_def by (erule makeRequest_body) simp_all

context lookup_invariant
begin

lemma always_zoneee [always_intros]:
  "always R (zoneee_addTxtRecord e d domain r)" "always R (zoneee_getTxtRecords e d domain)"
  "always R (zoneee_removeTxtRecord e d domain i)" "always R (zoneee_getHostedZone e domain)"
  unfolding zoneee_sendRequest_def zoneee_addTxtRecord_def zoneee_getTxtRecords_def zoneee_removeTxtRecord_def zoneee_getHostedZone_def
  by (intro always_check_outcome always_intros; auto dest!: zoneee_makeRequest_body)+

lemma zoneee_keeps: "provider_keeps R (zoneee_provider e d)"
  unfolding zoneee_provider_def provider_keeps_def
  by (simp, intro conjI allI; unfold zoneee_Present_def zoneee_CleanUp_def Let_def; intro always_intros)

end

lemma zoneee_addTxtRecord_sent:
  "znr_Destination r = v \<Longrightarrow> ensures is_ok (delivered e v (answered below_400)) (zoneee_addTxtRecord e d domain r)"
  unfolding zoneee_addTxtRecord_def zoneee_sendRequest_def
  by (intro ensures_check_outcome ensures_intros always_intros)
    (auto dest!: zoneee_makeRequest_body intro!: carries_json_line
      simp: zn_txtRecord_json_def)

lemma zoneee_Present_sent:
  "ensures is_nil (delivered e (record_value e keyAuth) (answered below_400)) (zoneee_Present e d domain token keyAuth)"
  unfolding zoneee_Present_def Let_def
  by (intro ensures_try_first [OF zoneee_addTxtRecord_sent] ensures_intros ensures_try_later always_intros) simp_all

interpretation zoneee: hosting e "zoneee_provider e d" "answered below_400" for e d
  by (rule hostingI [OF outsider.zoneee_keeps]) (simp add: zoneee_Present_sent zoneee_provider_def)

end
