(* ===== verification/Autodns.thy ===== *)
theory Autodns
  imports Hosting
begin

text \<open>
  Package \<^verbatim>\<open>providers/dns/autodns\<close>.  Adding and removing a record are both updates of the zone, sent as a stream
  of additions and removals.  An endpoint setting that does not parse leaves the endpoint nil, and the first
  request panics.
\<close>

definition autodns_defaultEndpoint :: string where "autodns_defaultEndpoint = ''https://api.autodns.com/v1/''"
definition autodns_defaultEndpointContext :: int where "autodns_defaultEndpointContext = 4"
definition autodns_defaultTTL :: int where "autodns_defaultTTL = 600"

record autodns = ttl_config +
  ad_Endpoint :: "url option"
  ad_Username :: string
  ad_Password :: string
  ad_Context :: int

definition autodns_NewDefaultConfig :: "env \<Rightarrow> autodns" where
  "autodns_NewDefaultConfig e =
     \<lparr>hcf_PropagationTimeout = GetOrDefaultSecond e ''AUTODNS_PROPAGATION_TIMEOUT'' (2 * Minute),
      hcf_PollingInterval = GetOrDefaultSecond e ''AUTODNS_POLLING_INTERVAL'' (2 * Second),
      hcf_HTTPTimeout = GetOrDefaultSecond e ''AUTODNS_HTTP_TIMEOUT'' (30 * Second),
      hcf_TTL = GetOrDefaultInt e ''AUTODNS_TTL'' autodns_defaultTTL,
      ad_Endpoint = (case url_Parse (GetOrDefaultString e ''AUTODNS_ENDPOINT'' autodns_defaultEndpoint) of
         Inr u \<Rightarrow> Some u
       | Inl _ \<Rightarrow> None),
      ad_Username = [], ad_Password = [],
      ad_Context = GetOrDefaultInt e ''AUTODNS_CONTEXT'' autodns_defaultEndpointContext\<rparr>"

definition autodns_NewDNSProviderConfig :: "autodns option \<Rightarrow> goerror + autodns" where
  "autodns_NewDNSProviderConfig config =
     (case config of
        None \<Rightarrow> Inl (Err ''autodns: config is nil'')
      | Some c \<Rightarrow>
          if ad_Username c = [] then Inl (Err ''autodns: missing user'')
          else if ad_Password c = [] then Inl (Err ''autodns: missing password'')
          else Inr c)"

definition autodns_NewDNSProvider :: "env \<Rightarrow> goerror + autodns" where
  "autodns_NewDNSProvider e =
     (case env_Get e [''AUTODNS_API_USER'', ''AUTODNS_API_PASSWORD''] of
        Inl err \<Rightarrow> Inl (Wrap ''autodns: '' err)
      | Inr values \<Rightarrow>
          autodns_NewDNSProviderConfig (Some ((autodns_NewDefaultConfig e)
            \<lparr>ad_Username := env_value values ''AUTODNS_API_USER'',
             ad_Password := env_value values ''AUTODNS_API_PASSWORD''\<rparr>)))"

section \<open>The client\<close>

record ad_ResourceRecord =
  adr_Name :: string
  adr_TTL :: int
  adr_Type :: string
  adr_Value :: string
  adr_Pref :: int

definition zero_ad_ResourceRecord :: ad_ResourceRecord where
  "zero_ad_ResourceRecord = \<lparr>adr_Name = [], adr_TTL = 0, adr_Type = [], adr_Value = [], adr_Pref = 0\<rparr>"

definition ad_ResourceRecord_json :: "ad_ResourceRecord \<Rightarrow> json" where
  "ad_ResourceRecord_json r =
     JObj ([(''name'', JStr (adr_Name r)), (''ttl'', JNum (adr_TTL r)), (''type'', JStr (adr_Type r)),
            (''value'', JStr (adr_Value r))] @ omit_int ''pref'' (adr_Pref r))"

text \<open>A 32-bit field refuses numbers out of its range.\<close>

definition set_int32 :: "json \<Rightarrow> (int \<Rightarrow> 'a) \<Rightarrow> 'a \<Rightarrow> goerror + 'a" where
  "set_int32 v upd a =
     (case v of JNum i \<Rightarrow> if - (2 ^ 31) \<le> i \<and> i < 2 ^ 31 then Inr (upd i) else Inl type_error
      | JNull \<Rightarrow> Inr a | _ \<Rightarrow> Inl type_error)"

definition ad_ResourceRecord_of_json :: "json \<Rightarrow> goerror + ad_ResourceRecord" where
  "ad_ResourceRecord_of_json = decode_struct (\<lambda>k v r.
     if k = ''name'' then set_str v (\<lambda>s. r\<lparr>adr_Name := s\<rparr>) r
     else if k = ''ttl'' then set_int v (\<lambda>i. r\<lparr>adr_TTL := i\<rparr>) r
     else if k = ''type'' then set_str v (\<lambda>s. r\<lparr>adr_Type := s\<rparr>) r
     else if k = ''value'' then set_str v (\<lambda>s. r\<lparr>adr_Value := s\<rparr>) r
     else if k = ''pref'' then set_int32 v (\<lambda>i. r\<lparr>adr_Pref := i\<rparr>) r
     else Inr r) zero_ad_ResourceRecord"

record ad_Zone =
  adz_Name :: string
  adz_ResourceRecords :: "ad_ResourceRecord option list"
  adz_Action :: string
  adz_VirtualNameServer :: string

definition ad_Zone_of_json :: "json \<Rightarrow> goerror + ad_Zone" where
  "ad_Zone_of_json = decode_struct (\<lambda>k v z.
     if k = ''origin'' then set_str v (\<lambda>s. z\<lparr>adz_Name := s\<rparr>) z
     else if k = ''resourceRecords''
       then set_list (ptr_of_json ad_ResourceRecord_of_json) v (\<lambda>l. z\<lparr>adz_ResourceRecords := l\<rparr>)
     else if k = ''action'' then set_str v (\<lambda>s. z\<lparr>adz_Action := s\<rparr>) z
     else if k = ''virtualNameServer'' then set_str v (\<lambda>s. z\<lparr>adz_VirtualNameServer := s\<rparr>) z
     else Inr z) \<lparr>adz_Name = [], adz_ResourceRecords = [], adz_Action = [], adz_VirtualNameServer = []\<rparr>"

text \<open>The list that is not set is nil, \<^verbatim>\<open>null\<close> in JSON.\<close>

record ad_ZoneStream =
  ads_Adds :: "ad_ResourceRecord list option"
  ads_Removes :: "ad_ResourceRecord list option"

definition ad_ZoneStream_json :: "ad_ZoneStream \<Rightarrow> json" where
  "ad_ZoneStream_json z =
     (let records = (\<lambda>l. case l of None \<Rightarrow> JNull | Some rs \<Rightarrow> JArr (map ad_ResourceRecord_json rs)) in
      JObj [(''adds'', records (ads_Adds z)), (''rems'', records (ads_Removes z))])"

definition autodns_makeRequest ::
  "env \<Rightarrow> autodns \<Rightarrow> string \<Rightarrow> string \<Rightarrow> string option \<Rightarrow> (goerror + http_request) outcome" where
  "autodns_makeRequest e d method resource body =
     makeRequest e (ad_Endpoint d) method resource body (\<lambda>req.
       SetBasicAuth (ad_Username d) (ad_Password d)
         (Header_Set ''X-Domainrobot-Context'' (show_int (ad_Context d))
           (Header_Set ''Content-Type'' ''application/json'' req)))"

definition autodns_checkResponse :: "http_response \<Rightarrow> goerror option" where
  "autodns_checkResponse = checkStatus"

definition autodns_sendRequest ::
  "env \<Rightarrow> http_request \<Rightarrow> (json \<Rightarrow> goerror + 'a) \<Rightarrow> 'a option \<Rightarrow> (world, goerror + 'a) go" where
  "autodns_sendRequest e = sendRequest e ''**autodns.Zone''"

definition autodns_makeZoneUpdateRequest ::
  "env \<Rightarrow> autodns \<Rightarrow> ad_ZoneStream \<Rightarrow> string \<Rightarrow> (world, goerror + ad_Zone option) go" where
  "autodns_makeZoneUpdateRequest e d zoneStream domain =
     check (outcome_of (autodns_makeRequest e d ''POST'' (path_Join [''zone'', domain, ''_stream''])
         (Some (Encode e (ad_ZoneStream_json zoneStream))))) (\<lambda>req.
       autodns_sendRequest e req (ptr_of_json ad_Zone_of_json) None)"

definition autodns_addTxtRecord ::
  "env \<Rightarrow> autodns \<Rightarrow> string \<Rightarrow> ad_ResourceRecord list \<Rightarrow> (world, goerror + ad_Zone option) go" where
  "autodns_addTxtRecord e d domain records =
     autodns_makeZoneUpdateRequest e d \<lparr>ads_Adds = Some records, ads_Removes = None\<rparr> domain"

definition autodns_removeTXTRecord ::
  "env \<Rightarrow> autodns \<Rightarrow> string \<Rightarrow> ad_ResourceRecord list \<Rightarrow> (world, goerror + unit) go" where
  "autodns_removeTXTRecord e d domain records =
     check (autodns_makeZoneUpdateRequest e d \<lparr>ads_Adds = None, ads_Removes = Some records\<rparr> domain)
       (\<lambda>_. ret (Inr ()))"

section \<open>The provider\<close>

definition autodns_Present :: "env \<Rightarrow> autodns \<Rightarrow> string \<Rightarrow> string \<Rightarrow> string \<Rightarrow> (world, goerror option) go" where
  "autodns_Present e d domain token keyAuth =
     bind (GetRecord e domain keyAuth) (\<lambda>(fqdn, value).
       try_or ''autodns: '' (autodns_addTxtRecord e d domain
         [\<lparr>adr_Name = fqdn, adr_TTL = hcf_TTL d, adr_Type = ''TXT'', adr_Value = value, adr_Pref = 0\<rparr>]) (\<lambda>_. ret None))"

definition autodns_CleanUp :: "env \<Rightarrow> autodns \<Rightarrow> string \<Rightarrow> string \<Rightarrow> string \<Rightarrow> (world, goerror option) go" where
  "autodns_CleanUp e d domain token keyAuth =
     bind (GetRecord e domain keyAuth) (\<lambda>(fqdn, value).
       try_or ''autodns: '' (autodns_removeTXTRecord e d domain
         [\<lparr>adr_Name = fqdn, adr_TTL = hcf_TTL d, adr_Type = ''TXT'', adr_Value = value, adr_Pref = 0\<rparr>]) (\<lambda>_. ret None))"

definition autodns_Timeout :: "autodns \<Rightarrow> int \<times> int" where
  "autodns_Timeout d = (hcf_PropagationTimeout d, hcf_PollingInterval d)"

definition autodns_provider :: "env \<Rightarrow> autodns \<Rightarrow> provider" where
  "autodns_provider e d =
     \<lparr>prov_Present = autodns_Present e d, prov_CleanUp = autodns_CleanUp e d,
      prov_Timeout = Some (autodns_Timeout d), prov_Sequential = None\<rparr>"

section \<open>The provider keeps its contract\<close>

lemma autodns_makeRequest_body:
  "autodns_makeRequest e d method resource body = Return (Inr req) \<Longrightarrow>
   req_Body req = (case body of None \<Rightarrow> NoBody | Some b \<Rightarrow> RawBody b) \<and> req_Method req = method"
  unfolding autodns_makeRequest_def by (erule makeRequest_body) simp_all

context lookup_invariant
begin

lemma always_autodns [always_intros]:
  "always R (autodns_makeZoneUpdateRequest e d zoneStream domain)"
  unfolding autodns_makeZoneUpdateRequest_def autodns_sendRequest_def
  by (intro always_check_outcome always_intros) (auto dest!: autodns_makeRequest_body)

lemma always_autodns_records [always_intros]:
  "always R (autodns_addTxtRecord e d domain rs)" "always R (autodns_removeTXTRecord e d domain rs)"
  unfolding autodns_addTxtRecord_def autodns_removeTXTRecord_def by (intro always_intros)+

lemma autodns_keeps: "provider_keeps R (autodns_provider e d)"
  unfolding autodns_provider_def provider_keeps_def
  by (simp, intro conjI allI; unfold autodns_Present_def autodns_CleanUp_def; intro always_intros)

end

lemma autodns_addTxtRecord_sent:
  assumes "r \<in> set rs" and "adr_Value r = v"
  shows "ensures is_ok (delivered e v (answered below_400)) (autodns_addTxtRecord e d domain rs)"
proof -
  have "v \<in> set (json_strings (ad_ZoneStream_json \<lparr>ads_Adds = Some rs, ads_Removes = None\<rparr>))"
    using assms by (force simp: ad_ZoneStream_json_def ad_ResourceRecord_json_def)
  then show ?thesis
    unfolding autodns_addTxtRecord_def autodns_makeZoneUpdateRequest_def autodns_sendRequest_def
    by (intro ensures_check_outcome ensures_intros)
      (auto dest!: autodns_makeRequest_body intro!: carries_json_line)
qed

lemma autodns_Present_sent:
  "ensures is_nil (delivered e (record_value e keyAuth) (answered below_400)) (autodns_Present e d domain token keyAuth)"
  unfolding autodns_Present_def
  by (intro ensures_try_first [OF autodns_addTxtRecord_sent] ensures_intros always_intros) auto

interpretation autodns: hosting e "autodns_provider e d" "answered below_400" for e d
  by (rule hostingI [OF outsider.autodns_keeps]) (simp add: autodns_Present_sent autodns_provider_def)

end
