(* ===== verification/Rackspace.thy ===== *)
theory Rackspace
  imports Hosting
begin

text \<open>
  Package \<^verbatim>\<open>providers/dns/rackspace\<close>.  The constructor logs in: it exchanges the credentials for a token and the
  address of the DNS service.
\<close>

definition rackspace_defaultBaseURL :: string where
  "rackspace_defaultBaseURL = ''https://identity.api.rackspacecloud.com/v2.0/tokens''"

record rackspace_config = ttl_config +
  rs_BaseURL :: string
  rs_APIUser :: string
  rs_APIKey :: string

definition rackspace_NewDefaultConfig :: "env \<Rightarrow> rackspace_config" where
  "rackspace_NewDefaultConfig e =
     \<lparr>hcf_PropagationTimeout = GetOrDefaultSecond e ''RACKSPACE_PROPAGATION_TIMEOUT'' DefaultPropagationTimeout,
      hcf_PollingInterval = GetOrDefaultSecond e ''RACKSPACE_POLLING_INTERVAL'' DefaultPollingInterval,
      hcf_HTTPTimeout = GetOrDefaultSecond e ''RACKSPACE_HTTP_TIMEOUT'' (30 * Second),
      hcf_TTL = GetOrDefaultInt e ''RACKSPACE_TTL'' 300,
      rs_BaseURL = rackspace_defaultBaseURL, rs_APIUser = [], rs_APIKey = []\<rparr>"

record rackspace =
  rs_config :: rackspace_config
  rs_token :: string
  rs_cloudDNSEndpoint :: string

section \<open>Data\<close>

text \<open>\<^verbatim>\<open>AuthData\<close> with its embedded structures, which have names in JSON.\<close>

definition rs_AuthData_json :: "string \<Rightarrow> string \<Rightarrow> json" where
  "rs_AuthData_json username apiKey =
     JObj [(''auth'', JObj [(''RAX-KSKEY:apiKeyCredentials'',
       JObj [(''username'', JStr username), (''apiKey'', JStr apiKey)])])]"

text \<open>An \<^verbatim>\<open>Endpoint\<close> is read for its public URL.\<close>

definition rs_Endpoint_of_json :: "json \<Rightarrow> goerror + string" where
  "rs_Endpoint_of_json = decode_struct (\<lambda>k v u.
     if k = ''publicURL'' then set_str v (\<lambda>s. s) u
     else if k = ''tenantId'' then set_str v (\<lambda>s. u) u
     else Inr u) []"

record rs_ServiceCatalog =
  rss_Endpoints :: "string list"
  rss_Name :: string

definition rs_ServiceCatalog_of_json :: "json \<Rightarrow> goerror + rs_ServiceCatalog" where
  "rs_ServiceCatalog_of_json = decode_struct (\<lambda>k v s.
     if k = ''endpoints'' then set_list rs_Endpoint_of_json v (\<lambda>l. s\<lparr>rss_Endpoints := l\<rparr>)
     else if k = ''name'' then set_str v (\<lambda>x. s\<lparr>rss_Name := x\<rparr>) s
     else Inr s) \<lparr>rss_Endpoints = [], rss_Name = []\<rparr>"

definition rs_Token_of_json :: "json \<Rightarrow> goerror + string" where
  "rs_Token_of_json = decode_struct (\<lambda>k v t. if k = ''id'' then set_str v (\<lambda>s. s) t else Inr t) []"

record rs_Access =
  rsa_ServiceCatalog :: "rs_ServiceCatalog list"
  rsa_Token :: string

definition rs_Access_of_json :: "json \<Rightarrow> goerror + rs_Access" where
  "rs_Access_of_json = decode_struct (\<lambda>k v a.
     if k = ''serviceCatalog'' then set_list rs_ServiceCatalog_of_json v (\<lambda>l. a\<lparr>rsa_ServiceCatalog := l\<rparr>)
     else if k = ''token'' then set_struct rs_Token_of_json v (\<lambda>t. a\<lparr>rsa_Token := t\<rparr>)
     else Inr a) \<lparr>rsa_ServiceCatalog = [], rsa_Token = []\<rparr>"

definition rs_Identity_of_json :: "json \<Rightarrow> goerror + rs_Access" where
  "rs_Identity_of_json = decode_struct (\<lambda>k v a.
     if k = ''access'' then set_struct rs_Access_of_json v (\<lambda>x. x) else Inr a)
     \<lparr>rsa_ServiceCatalog = [], rsa_Token = []\<rparr>"

text \<open>A \<^verbatim>\<open>HostedZone\<close> is read for its identifier.\<close>

definition rs_HostedZone_of_json :: "json \<Rightarrow> goerror + int" where
  "rs_HostedZone_of_json = decode_struct (\<lambda>k v i.
     if k = ''id'' then set_int v (\<lambda>n. n) i
     else if k = ''name'' then set_str v (\<lambda>s. i) i
     else Inr i) 0"

record rs_ZoneSearchResponse =
  rsz_TotalEntries :: int
  rsz_HostedZones :: "int list"

definition rs_ZoneSearchResponse_of_json :: "json \<Rightarrow> goerror + rs_ZoneSearchResponse" where
  "rs_ZoneSearchResponse_of_json = decode_struct (\<lambda>k v z.
     if k = ''totalEntries'' then set_int v (\<lambda>n. z\<lparr>rsz_TotalEntries := n\<rparr>) z
     else if k = ''domains'' then set_list rs_HostedZone_of_json v (\<lambda>l. z\<lparr>rsz_HostedZones := l\<rparr>)
     else Inr z) \<lparr>rsz_TotalEntries = 0, rsz_HostedZones = []\<rparr>"

record rs_Record =
  rsr_Name :: string
  rsr_Type :: string
  rsr_Data :: string
  rsr_TTL :: int
  rsr_ID :: string

definition rs_Record_json :: "rs_Record \<Rightarrow> json" where
  "rs_Record_json r =
     JObj ([(''name'', JStr (rsr_Name r)), (''type'', JStr (rsr_Type r)), (''data'', JStr (rsr_Data r))]
       @ omit_int ''ttl'' (rsr_TTL r) @ omit_str ''id'' (rsr_ID r))"

definition rs_Record_of_json :: "json \<Rightarrow> goerror + rs_Record" where
  "rs_Record_of_json = decode_struct (\<lambda>k v r.
     if k = ''name'' then set_str v (\<lambda>s. r\<lparr>rsr_Name := s\<rparr>) r
     else if k = ''type'' then set_str v (\<lambda>s. r\<lparr>rsr_Type := s\<rparr>) r
     else if k = ''data'' then set_str v (\<lambda>s. r\<lparr>rsr_Data := s\<rparr>) r
     else if k = ''ttl'' then set_int v (\<lambda>n. r\<lparr>rsr_TTL := n\<rparr>) r
     else if k = ''id'' then set_str v (\<lambda>s. r\<lparr>rsr_ID := s\<rparr>) r
     else Inr r) \<lparr>rsr_Name = [], rsr_Type = [], rsr_Data = [], rsr_TTL = 0, rsr_ID = []\<rparr>"

text \<open>The list that is written has one element.\<close>

definition rs_Records_json :: "rs_Record list \<Rightarrow> json" where
  "rs_Records_json rs = JObj [(''records'', JArr (map rs_Record_json rs))]"

definition rs_Records_of_json :: "json \<Rightarrow> goerror + rs_Record list" where
  "rs_Records_of_json = decode_struct (\<lambda>k v rs.
     if k = ''records'' then set_list rs_Record_of_json v (\<lambda>l. l) else Inr rs) []"

section \<open>The client\<close>

definition rackspace_login :: "env \<Rightarrow> rackspace_config \<Rightarrow> (world, goerror + rs_Access) go" where
  "rackspace_login e config =
     check (send_as (\<lambda>err. err) (Wrap ''error querying Identity API: '') e ''POST'' (rs_BaseURL config)
         (Some (jsonPrint e (rs_AuthData_json (rs_APIUser config) (rs_APIKey config))))
         (Header_Set ''Content-Type'' ''application/json'')) (\<lambda>resp.
       if resp_StatusCode resp \<noteq> 200
       then ret (Inl (Err (''authentication failed: response code: '' @ show_int (resp_StatusCode resp))))
       else ret (Decode e rs_Identity_of_json (resp_Body resp)))"

text \<open>The raw JSON text of a reply is the value it stands for.\<close>

definition rackspace_makeRequest ::
  "env \<Rightarrow> rackspace \<Rightarrow> string \<Rightarrow> string \<Rightarrow> string option \<Rightarrow> (world, goerror + json) go" where
  "rackspace_makeRequest e d method uri body =
     (let u = rs_cloudDNSEndpoint d @ uri in
      check (send_as (\<lambda>err. err) (Wrap ''error querying DNS API: '') e method u body
          (\<lambda>req. Header_Set ''Content-Type'' ''application/json'' (Header_Set ''X-Auth-Token'' (rs_token d) req))) (\<lambda>resp.
        let code = show_int (resp_StatusCode resp) in
        if resp_StatusCode resp \<noteq> 200 \<and> resp_StatusCode resp \<noteq> 202
        then ret (Inl (Err (''request failed for '' @ method @ '' '' @ u @ ''. Response code: '' @ code)))
        else
          (case Decode e Inr (resp_Body resp) of
             Inl _ \<Rightarrow> ret (Inl (Err (''JSON decode failed for '' @ method @ '' '' @ u @ ''. Response code: '' @ code)))
           | Inr r \<Rightarrow> ret (Inr r))))"

definition rackspace_getHostedZoneID :: "env \<Rightarrow> rackspace \<Rightarrow> string \<Rightarrow> (world, goerror + int) go" where
  "rackspace_getHostedZoneID e d fqdn =
     check (FindZoneByFqdn e fqdn) (\<lambda>authZone.
       check (rackspace_makeRequest e d ''GET'' (''/domains?name='' @ UnFqdn authZone) None) (\<lambda>result.
         case rs_ZoneSearchResponse_of_json result of
           Inl err \<Rightarrow> ret (Inl err)
         | Inr z \<Rightarrow>
             if rsz_TotalEntries z \<noteq> 1
             then ret (Inl (Err (''found '' @ show_int (rsz_TotalEntries z) @ '' zones for '' @ authZone
                    @ '' in Rackspace for domain '' @ fqdn)))
             else if rsz_HostedZones z = [] then panic ''index out of range''
             else ret (Inr (hd (rsz_HostedZones z)))))"

definition rackspace_findTxtRecord :: "env \<Rightarrow> rackspace \<Rightarrow> string \<Rightarrow> int \<Rightarrow> (world, goerror + rs_Record) go" where
  "rackspace_findTxtRecord e d fqdn zoneID =
     check (rackspace_makeRequest e d ''GET''
         (''/domains/'' @ show_int zoneID @ ''/records?type=TXT&name='' @ UnFqdn fqdn) None) (\<lambda>result.
       case rs_Records_of_json result of
         Inl err \<Rightarrow> ret (Inl err)
       | Inr records \<Rightarrow>
           if records = [] then ret (Inl (Err (''no TXT record found for '' @ fqdn)))
           else if length records = 1 then ret (Inr (hd records))
           else ret (Inl (Err (''more than 1 TXT record found for '' @ fqdn))))"

section \<open>The provider\<close>

definition rackspace_NewDNSProviderConfig ::
  "env \<Rightarrow> rackspace_config option \<Rightarrow> (world, goerror + rackspace) go" where
  "rackspace_NewDNSProviderConfig e config =
     (case config of
        None \<Rightarrow> ret (Inl (nil_config ''rackspace''))
      | Some c \<Rightarrow>
          if rs_APIUser c = [] \<or> rs_APIKey c = [] then ret (Inl (Err ''rackspace: credentials missing''))
          else
            check (wrap_res ''rackspace: '' (rackspace_login e c)) (\<lambda>identity.
              let missing = Inl (Err ''rackspace: failed to populate DNS endpoint, check Rackspace API for changes'') in
              case List.find (\<lambda>s. rss_Name s = ''cloudDNS'') (rsa_ServiceCatalog identity) of
                None \<Rightarrow> ret missing
              | Some service \<Rightarrow>
                  (case rss_Endpoints service of
                     [] \<Rightarrow> panic ''index out of range''
                   | dnsEndpoint # _ \<Rightarrow>
                       if dnsEndpoint = [] then ret missing
                       else ret (Inr \<lparr>rs_config = c, rs_token = rsa_Token identity, rs_cloudDNSEndpoint = dnsEndpoint\<rparr>))))"

definition rackspace_NewDNSProvider :: "env \<Rightarrow> (world, goerror + rackspace) go" where
  "rackspace_NewDNSProvider e =
     (case env_Get e [''RACKSPACE_USER'', ''RACKSPACE_API_KEY''] of
        Inl err \<Rightarrow> ret (Inl (Wrap ''rackspace: '' err))
      | Inr values \<Rightarrow>
          rackspace_NewDNSProviderConfig e (Some ((rackspace_NewDefaultConfig e)
            \<lparr>rs_APIUser := env_value values ''RACKSPACE_USER'',
             rs_APIKey := env_value values ''RACKSPACE_API_KEY''\<rparr>)))"

definition rackspace_Present :: "env \<Rightarrow> rackspace \<Rightarrow> string \<Rightarrow> string \<Rightarrow> string \<Rightarrow> (world, goerror option) go" where
  "rackspace_Present e d domain token keyAuth =
     bind (GetRecord e domain keyAuth) (\<lambda>(fqdn, value).
       try_or ''rackspace: '' (rackspace_getHostedZoneID e d fqdn) (\<lambda>zoneID.
         let rec = rs_Records_json [\<lparr>rsr_Name = UnFqdn fqdn, rsr_Type = ''TXT'', rsr_Data = value,
               rsr_TTL = hcf_TTL (rs_config d), rsr_ID = []\<rparr>] in
         try_or ''rackspace: '' (rackspace_makeRequest e d ''POST'' (''/domains/'' @ show_int zoneID @ ''/records'')
           (Some (jsonPrint e rec))) (\<lambda>_. ret None)))"

definition rackspace_CleanUp :: "env \<Rightarrow> rackspace \<Rightarrow> string \<Rightarrow> string \<Rightarrow> string \<Rightarrow> (world, goerror option) go" where
  "rackspace_CleanUp e d domain token keyAuth =
     bind (GetRecord e domain keyAuth) (\<lambda>(fqdn, _).
       try_or ''rackspace: '' (rackspace_getHostedZoneID e d fqdn) (\<lambda>zoneID.
         try_or ''rackspace: '' (rackspace_findTxtRecord e d fqdn zoneID) (\<lambda>record.
           try_or ''rackspace: '' (rackspace_makeRequest e d ''DELETE''
             (''/domains/'' @ show_int zoneID @ ''/records?id='' @ rsr_ID record) None) (\<lambda>_. ret None))))"

definition rackspace_Timeout :: "rackspace \<Rightarrow> int \<times> int" where
  "rackspace_Timeout d = (hcf_PropagationTimeout (rs_config d), hcf_PollingInterval (rs_config d))"

definition rackspace_provider :: "env \<Rightarrow> rackspace \<Rightarrow> provider" where
  "rackspace_provider e d =
     \<lparr>prov_Present = rackspace_Present e d, prov_CleanUp = rackspace_CleanUp e d,
      prov_Timeout = Some (rackspace_Timeout d), prov_Sequential = None\<rparr>"

section \<open>The provider keeps its contract\<close>

context lookup_invariant
begin

lemma always_rackspace_makeRequest [always_intros]: "always R (rackspace_makeRequest e d method uri body)"
  unfolding rackspace_makeRequest_def Let_def by (intro always_intros) simp

lemma always_rackspace [always_intros]:
  "always R (rackspace_getHostedZoneID e d fqdn)" "always R (rackspace_findTxtRecord e d fqdn zoneID)"
  "always R (rackspace_login e c)"
  unfolding rackspace_getHostedZoneID_def rackspace_findTxtRecord_def rackspace_login_def
  by (intro always_intros; simp)+

lemma always_rackspace_NewDNSProvider [always_intros]: "always R (rackspace_NewDNSProvider e)"
  unfolding rackspace_NewDNSProvider_def rackspace_NewDNSProviderConfig_def Let_def by (intro always_intros)

lemma rackspace_keeps: "provider_keeps R (rackspace_provider e d)"
  unfolding rackspace_provider_def provider_keeps_def
  by (simp, intro conjI allI; unfold rackspace_Present_def rackspace_CleanUp_def Let_def; intro always_intros)

end

abbreviation status_200_or_202 :: "event \<Rightarrow> bool" where
  "status_200_or_202 \<equiv> answered (\<lambda>resp. resp_StatusCode resp = 200 \<or> resp_StatusCode resp = 202)"

lemma rackspace_makeRequest_sent:
  assumes "v \<in> set (json_strings j)"
  shows "ensures is_ok (delivered e v status_200_or_202) (rackspace_makeRequest e d method uri (Some (jsonPrint e j)))"
  unfolding rackspace_makeRequest_def Let_def using assms
  by (intro ensures_intros always_intros) (auto simp: NewRequest_Inr intro!: carries_json)

lemma rackspace_Present_sent:
  "ensures is_nil (delivered e (record_value e keyAuth) status_200_or_202) (rackspace_Present e d domain token keyAuth)"
  unfolding rackspace_Present_def Let_def
  by (intro ensures_try_first [OF rackspace_makeRequest_sent] ensures_intros ensures_try_later always_intros)
    (simp add: rs_Records_json_def rs_Record_json_def)

interpretation rackspace: hosting e "rackspace_provider e d" status_200_or_202 for e d
  by (rule hostingI [OF outsider.rackspace_keeps]) (simp add: rackspace_Present_sent rackspace_provider_def)

end
