(* ===== verification/Conoha.thy ===== *)
theory Conoha
  imports Hosting
begin

text \<open>
  Package \<^verbatim>\<open>providers/dns/conoha\<close> with its client.  The constructor of the client logs in; \<^verbatim>\<open>CleanUp\<close> looks for
  the record by name, type and content.
\<close>

record conoha_config = ttl_config +
  ch_Region :: string
  ch_TenantID :: string
  ch_Username :: string
  ch_Password :: string

definition conoha_NewDefaultConfig :: "env \<Rightarrow> conoha_config" where
  "conoha_NewDefaultConfig e =
     \<lparr>hcf_PropagationTimeout = GetOrDefaultSecond e ''CONOHA_PROPAGATION_TIMEOUT'' DefaultPropagationTimeout,
      hcf_PollingInterval = GetOrDefaultSecond e ''CONOHA_POLLING_INTERVAL'' DefaultPollingInterval,
      hcf_HTTPTimeout = GetOrDefaultSecond e ''CONOHA_HTTP_TIMEOUT'' (30 * Second),
      hcf_TTL = GetOrDefaultInt e ''CONOHA_TTL'' 60,
      ch_Region = GetOrDefaultString e ''CONOHA_REGION'' ''tyo1'', ch_TenantID = [], ch_Username = [], ch_Password = []\<rparr>"

section \<open>The client\<close>

record ch_Auth =
  cha_TenantID :: string
  cha_Username :: string
  cha_Password :: string

definition ch_IdentityRequest_json :: "ch_Auth \<Rightarrow> json" where
  "ch_IdentityRequest_json a =
     JObj [(''auth'', JObj [(''tenantId'', JStr (cha_TenantID a)),
       (''passwordCredentials'', JObj [(''username'', JStr (cha_Username a)), (''password'', JStr (cha_Password a))])])]"

text \<open>\<^verbatim>\<open>IdentityResponse\<close>, \<^verbatim>\<open>Access\<close> and \<^verbatim>\<open>Token\<close> are read for the identifier of the token.\<close>

definition ch_Token_of_json :: "json \<Rightarrow> goerror + string" where
  "ch_Token_of_json = decode_struct (\<lambda>k v t. if k = ''id'' then set_str v (\<lambda>s. s) t else Inr t) []"

definition ch_Access_of_json :: "json \<Rightarrow> goerror + string" where
  "ch_Access_of_json = decode_struct (\<lambda>k v t.
     if k = ''token'' then set_struct ch_Token_of_json v (\<lambda>s. s) else Inr t) []"

definition ch_IdentityResponse_of_json :: "json \<Rightarrow> goerror + string" where
  "ch_IdentityResponse_of_json = decode_struct (\<lambda>k v t.
     if k = ''access'' then set_struct ch_Access_of_json v (\<lambda>s. s) else Inr t) []"

record ch_Domain =
  chd_ID :: string
  chd_Name :: string

definition ch_Domain_of_json :: "json \<Rightarrow> goerror + ch_Domain" where
  "ch_Domain_of_json = decode_struct (\<lambda>k v d.
     if k = ''id'' then set_str v (\<lambda>s. d\<lparr>chd_ID := s\<rparr>) d
     else if k = ''name'' then set_str v (\<lambda>s. d\<lparr>chd_Name := s\<rparr>) d
     else Inr d) \<lparr>chd_ID = [], chd_Name = []\<rparr>"

definition ch_DomainListResponse_of_json :: "json \<Rightarrow> goerror + ch_Domain list" where
  "ch_DomainListResponse_of_json = decode_struct (\<lambda>k v ds.
     if k = ''domains'' then set_list ch_Domain_of_json v (\<lambda>l. l) else Inr ds) []"

record ch_Record =
  chr_ID :: string
  chr_Name :: string
  chr_Type :: string
  chr_Data :: string
  chr_TTL :: int

definition ch_Record_json :: "ch_Record \<Rightarrow> json" where
  "ch_Record_json r =
     JObj (omit_str ''id'' (chr_ID r) @ [(''name'', JStr (chr_Name r)), (''type'', JStr (chr_Type r)),
       (''data'', JStr (chr_Data r)), (''ttl'', JNum (chr_TTL r))])"

definition ch_Record_of_json :: "json \<Rightarrow> goerror + ch_Record" where
  "ch_Record_of_json = decode_struct (\<lambda>k v r.
     if k = ''id'' then set_str v (\<lambda>s. r\<lparr>chr_ID := s\<rparr>) r
     else if k = ''name'' then set_str v (\<lambda>s. r\<lparr>chr_Name := s\<rparr>) r
     else if k = ''type'' then set_str v (\<lambda>s. r\<lparr>chr_Type := s\<rparr>) r
     else if k = ''data'' then set_str v (\<lambda>s. r\<lparr>chr_Data := s\<rparr>) r
     else if k = ''ttl'' then set_int v (\<lambda>n. r\<lparr>chr_TTL := n\<rparr>) r
     else Inr r) \<lparr>chr_ID = [], chr_Name = [], chr_Type = [], chr_Data = [], chr_TTL = 0\<rparr>"

definition ch_RecordListResponse_of_json :: "json \<Rightarrow> goerror + ch_Record list" where
  "ch_RecordListResponse_of_json = decode_struct (\<lambda>k v rs.
     if k = ''records'' then set_list ch_Record_of_json v (\<lambda>l. l) else Inr rs) []"

record ch_client =
  chc_token :: string
  chc_endpoint :: string

text \<open>An empty reader as the body is no body.\<close>

definition conoha_do ::
  "env \<Rightarrow> ch_client \<Rightarrow> string \<Rightarrow> string \<Rightarrow> json option \<Rightarrow> (json \<Rightarrow> goerror + 'a) \<Rightarrow> 'a option
    \<Rightarrow> (world, goerror + 'a) go" where
  "conoha_do e c method path payload dec nothing =
     check (send e method (chc_endpoint c @ path) (map_option (jsonPrint e) payload) (\<lambda>req.
         Header_Set ''X-Auth-Token'' (chc_token c) (Header_Set ''Content-Type'' ''application/json''
           (Header_Set ''Accept'' ''application/json'' req)))) (\<lambda>resp.
       if resp_StatusCode resp \<noteq> 200 then
         (case resp_Body resp of
            Inl err \<Rightarrow> ret (Inl err)
          | Inr respBody \<Rightarrow> ret (Inl (Err (''HTTP request failed with status code ''
                              @ show_int (resp_StatusCode resp) @ '': '' @ respBody))))
       else
         (case nothing of
            Some x \<Rightarrow> ret (Inr x)
          | None \<Rightarrow>
              (case resp_Body resp of
                 Inl err \<Rightarrow> ret (Inl err)
               | Inr respBody \<Rightarrow> ret (Unmarshal e dec respBody))))"

definition conoha_getIdentity :: "env \<Rightarrow> ch_client \<Rightarrow> ch_Auth \<Rightarrow> (world, goerror + string) go" where
  "conoha_getIdentity e c auth =
     conoha_do e c ''POST'' ''/v2.0/tokens'' (Some (ch_IdentityRequest_json auth)) ch_IdentityResponse_of_json None"

definition conoha_NewClient :: "env \<Rightarrow> string \<Rightarrow> ch_Auth \<Rightarrow> (world, goerror + ch_client) go" where
  "conoha_NewClient e region auth =
     (let c = \<lparr>chc_token = [], chc_endpoint = ''https://identity.'' @ region @ ''.conoha.io''\<rparr> in
      check (wrap_res ''failed to login: '' (conoha_getIdentity e c auth)) (\<lambda>token.
        ret (Inr \<lparr>chc_token = token, chc_endpoint = ''https://dns-service.'' @ region @ ''.conoha.io''\<rparr>)))"

definition conoha_GetDomainID :: "env \<Rightarrow> ch_client \<Rightarrow> string \<Rightarrow> (world, goerror + string) go" where
  "conoha_GetDomainID e c domainName =
     check (conoha_do e c ''GET'' ''/v1/domains'' None ch_DomainListResponse_of_json None) (\<lambda>domainList.
       case List.find (\<lambda>d. chd_Name d = domainName) domainList of
         Some d \<Rightarrow> ret (Inr (chd_ID d))
       | None \<Rightarrow> ret (Inl (Err (''no such domain: '' @ domainName))))"

definition conoha_GetRecordID ::
  "env \<Rightarrow> ch_client \<Rightarrow> string \<Rightarrow> string \<Rightarrow> string \<Rightarrow> string \<Rightarrow> (world, goerror + string) go" where
  "conoha_GetRecordID e c domainID recordName recordType dat =
     check (conoha_do e c ''GET'' (''/v1/domains/'' @ domainID @ ''/records'') None ch_RecordListResponse_of_json None)
       (\<lambda>recordList.
         case List.find (\<lambda>r. chr_Name r = recordName \<and> chr_Type r = recordType \<and> chr_Data r = dat) recordList of
           Some r \<Rightarrow> ret (Inr (chr_ID r))
         | None \<Rightarrow> ret (Inl (Err ''no such record'')))"

definition conoha_CreateRecord :: "env \<Rightarrow> ch_client \<Rightarrow> string \<Rightarrow> ch_Record \<Rightarrow> (world, goerror + unit) go" where
  "conoha_CreateRecord e c domainID record =
     conoha_do e c ''POST'' (''/v1/domains/'' @ domainID @ ''/records'') (Some (ch_Record_json record)) (\<lambda>_. Inr ()) (Some ())"

definition conoha_DeleteRecord :: "env \<Rightarrow> ch_client \<Rightarrow> string \<Rightarrow> string \<Rightarrow> (world, goerror + unit) go" where
  "conoha_DeleteRecord e c domainID recordID =
     conoha_do e c ''DELETE'' (''/v1/domains/'' @ domainID @ ''/records/'' @ recordID) None (\<lambda>_. Inr ()) (Some ())"

section \<open>The provider\<close>

record conoha =
  ch_config :: conoha_config
  ch_client :: ch_client

definition conoha_NewDNSProviderConfig :: "env \<Rightarrow> conoha_config option \<Rightarrow> (world, goerror + conoha) go" where
  "conoha_NewDNSProviderConfig e config =
     (case config of
        None \<Rightarrow> ret (Inl (nil_config ''conoha''))
      | Some c \<Rightarrow>
          if ch_TenantID c = [] \<or> ch_Username c = [] \<or> ch_Password c = []
          then ret (Inl (Err ''conoha: some credentials information are missing''))
          else
            check (wrap_res ''conoha: failed to create client: '' (conoha_NewClient e (ch_Region c)
                \<lparr>cha_TenantID = ch_TenantID c, cha_Username = ch_Username c, cha_Password = ch_Password c\<rparr>)) (\<lambda>client.
              ret (Inr \<lparr>ch_config = c, ch_client = client\<rparr>)))"

definition conoha_NewDNSProvider :: "env \<Rightarrow> (world, goerror + conoha) go" where
  "conoha_NewDNSProvider e =
     (case env_Get e [''CONOHA_TENANT_ID'', ''CONOHA_API_USERNAME'', ''CONOHA_API_PASSWORD''] of
        Inl err \<Rightarrow> ret (Inl (Wrap ''conoha: '' err))
      | Inr values \<Rightarrow>
          conoha_NewDNSProviderConfig e (Some ((conoha_NewDefaultConfig e)
            \<lparr>ch_TenantID := env_value values ''CONOHA_TENANT_ID'',
             ch_Username := env_value values ''CONOHA_API_USERNAME'',
             ch_Password := env_value values ''CONOHA_API_PASSWORD''\<rparr>)))"

definition conoha_Present :: "env \<Rightarrow> conoha \<Rightarrow> string \<Rightarrow> string \<Rightarrow> string \<Rightarrow> (world, goerror option) go" where
  "conoha_Present e d domain token keyAuth =
     bind (GetRecord e domain keyAuth) (\<lambda>(fqdn, value).
       handle (FindZoneByFqdn e fqdn) (\<lambda>err. ret (Some err)) (\<lambda>authZone.
         try_or ''conoha: failed to get domain ID: '' (conoha_GetDomainID e (ch_client d) authZone) (\<lambda>i.
           try_or ''conoha: failed to create record: '' (conoha_CreateRecord e (ch_client d) i
             \<lparr>chr_ID = [], chr_Name = fqdn, chr_Type = ''TXT'', chr_Data = value, chr_TTL = hcf_TTL (ch_config d)\<rparr>)
             (\<lambda>_. ret None))))"

definition conoha_CleanUp :: "env \<Rightarrow> conoha \<Rightarrow> string \<Rightarrow> string \<Rightarrow> string \<Rightarrow> (world, goerror option) go" where
  "conoha_CleanUp e d domain token keyAuth =
     bind (GetRecord e domain keyAuth) (\<lambda>(fqdn, value).
       handle (FindZoneByFqdn e fqdn) (\<lambda>err. ret (Some err)) (\<lambda>authZone.
         try_or ''conoha: failed to get domain ID: '' (conoha_GetDomainID e (ch_client d) authZone) (\<lambda>domID.
           try_or ''conoha: failed to get record ID: ''
             (conoha_GetRecordID e (ch_client d) domID fqdn ''TXT'' value) (\<lambda>recID.
             try_or ''conoha: failed to delete record: '' (conoha_DeleteRecord e (ch_client d) domID recID)
               (\<lambda>_. ret None)))))"

definition conoha_Timeout :: "conoha \<Rightarrow> int \<times> int" where
  "conoha_Timeout d = (hcf_PropagationTimeout (ch_config d), hcf_PollingInterval (ch_config d))"

definition conoha_provider :: "env \<Rightarrow> conoha \<Rightarrow> provider" where
  "conoha_provider e d =
     \<lparr>prov_Present = conoha_Present e d, prov_CleanUp = conoha_CleanUp e d,
      prov_Timeout = Some (conoha_Timeout d), prov_Sequential = None\<rparr>"

section \<open>The provider keeps its contract\<close>

context lookup_invariant
begin

lemma always_conoha_do [always_intros]: "always R (conoha_do e c method path payload dec nothing)"
  unfolding conoha_do_def by (intro always_intros) simp

lemma always_conoha [always_intros]:
  "always R (conoha_getIdentity e c auth)" "always R (conoha_GetDomainID e c domainName)"
  "always R (conoha_GetRecordID e c domainID recordName recordType dat)"
  "always R (conoha_CreateRecord e c domainID r)" "always R (conoha_DeleteRecord e c domainID recordID)"
  unfolding conoha_getIdentity_def conoha_GetDomainID_def conoha_GetRecordID_def conoha_CreateRecord_def
    conoha_DeleteRecord_def
  by (intro always_intros)+

lemma always_conoha_NewDNSProvider [always_intros]: "always R (conoha_NewDNSProvider e)"
  unfolding conoha_NewDNSProvider_def conoha_NewDNSProviderConfig_def conoha_NewClient_def Let_def
  by (intro always_intros)

lemma conoha_keeps: "provider_keeps R (conoha_provider e d)"
  unfolding conoha_provider_def provider_keeps_def
  by (simp, intro conjI allI; unfold conoha_Present_def conoha_CleanUp_def; intro always_intros)

end

lemma conoha_CreateRecord_sent:
  assumes "chr_Data r = v"
  shows "ensures is_ok (delivered e v status_200) (conoha_CreateRecord e c domainID r)"
  unfolding conoha_CreateRecord_def conoha_do_def using assms
  by (intro ensures_intros always_intros) (auto simp: NewRequest_Inr ch_Record_json_def json_text intro!: carries_json)

lemma conoha_Present_sent:
  "ensures is_nil (delivered e (record_value e keyAuth) status_200) (conoha_Present e d domain token keyAuth)"
  unfolding conoha_Present_def
  by (intro ensures_try_first [OF conoha_CreateRecord_sent] ensures_intros ensures_try_later always_intros) simp_all

interpretation conoha: hosting e "conoha_provider e d" status_200 for e d
  by (rule hostingI [OF outsider.conoha_keeps]) (simp add: conoha_Present_sent conoha_provider_def)

end
