(* ===== verification/Scaleway.thy ===== *)
theory Scaleway
  imports Hosting "HOL-Library.Word"
begin

text \<open>
  Package \<^verbatim>\<open>providers/dns/scaleway\<close> with its client.  The zone named in the requests is the domain of the
  challenge; a time to live below the minimum is raised to it, and is sent as a 32-bit number.
\<close>

definition scaleway_defaultBaseURL :: string where "scaleway_defaultBaseURL = ''https://api.scaleway.com''"
definition scaleway_defaultVersion :: string where "scaleway_defaultVersion = ''v2alpha2''"
definition scaleway_minTTL :: int where "scaleway_minTTL = 60"
definition scaleway_defaultEndpoint :: string where
  "scaleway_defaultEndpoint = ''https://api.scaleway.com/domain/v2alpha2''"

section \<open>The client\<close>

definition sw_APIError_of_json :: "json \<Rightarrow> goerror + string" where
  "sw_APIError_of_json = decode_struct (\<lambda>k v m. if k = ''message'' then set_str v (\<lambda>s. s) m else Inr m) []"

record sw_Record =
  swr_Data :: string
  swr_Name :: string
  swr_Priority :: "32 word"
  swr_TTL :: "32 word"
  swr_Type :: string
  swr_Comment :: string

definition sw_Record_json :: "sw_Record \<Rightarrow> json" where
  "sw_Record_json r =
     JObj (omit_str ''data'' (swr_Data r) @ omit_str ''name'' (swr_Name r) @ omit_int ''priority'' (uint (swr_Priority r))
       @ omit_int ''ttl'' (uint (swr_TTL r)) @ omit_str ''type'' (swr_Type r) @ omit_str ''comment'' (swr_Comment r))"

definition sw_RecordChangeAdd_json :: "sw_Record list \<Rightarrow> json" where
  "sw_RecordChangeAdd_json records = JObj (omit_list ''records'' sw_Record_json records)"

record sw_RecordChangeSet =
  sws_Data :: string
  sws_Name :: string
  sws_TTL :: "32 word"
  sws_Type :: string
  sws_Records :: "sw_Record list"

definition sw_RecordChangeSet_json :: "sw_RecordChangeSet \<Rightarrow> json" where
  "sw_RecordChangeSet_json r =
     JObj (omit_str ''data'' (sws_Data r) @ omit_str ''name'' (sws_Name r) @ omit_int ''ttl'' (uint (sws_TTL r))
       @ omit_str ''type'' (sws_Type r) @ omit_list ''records'' sw_Record_json (sws_Records r))"

record sw_RecordChangeDelete =
  swd_Data :: string
  swd_Name :: string
  swd_Type :: string

definition sw_RecordChangeDelete_json :: "sw_RecordChangeDelete \<Rightarrow> json" where
  "sw_RecordChangeDelete_json r =
     JObj (omit_str ''data'' (swd_Data r) @ omit_str ''name'' (swd_Name r) @ omit_str ''type'' (swd_Type r))"

text \<open>A change is a map with one entry.\<close>

definition sw_UpdateDNSZoneRecordsRequest_json :: "string \<Rightarrow> json list \<Rightarrow> bool \<Rightarrow> json" where
  "sw_UpdateDNSZoneRecordsRequest_json dnsZone changes returnAllRecords =
     JObj (omit_str ''dns_zone'' dnsZone @ omit_list ''changes'' (\<lambda>j. j) changes
       @ omit_bool ''return_all_records'' returnAllRecords)"

record sw_client =
  swc_baseURL :: string
  swc_token :: string

definition scaleway_NewClient :: "string \<Rightarrow> string \<Rightarrow> sw_client" where
  "scaleway_NewClient optsBaseURL optsToken =
     \<lparr>swc_baseURL = (if optsBaseURL \<noteq> [] then optsBaseURL else scaleway_defaultEndpoint), swc_token = optsToken\<rparr>"

definition scaleway_newRequest :: "env \<Rightarrow> sw_client \<Rightarrow> string \<Rightarrow> string \<Rightarrow> json option \<Rightarrow> goerror + http_request" where
  "scaleway_newRequest e c method uri body =
     (case NewRequest e method (swc_baseURL c @ uri) (map_option (Encode e) body) of
        Inl err \<Rightarrow> Inl (Wrap ''failed to create new http request with error: '' err)
      | Inr req \<Rightarrow>
          Inr (Header_Add ''Accept'' ''application/json'' (Header_Add ''Content-Type'' ''application/json''
            (Header_Add ''X-auth-token'' (swc_token c) req))))"

definition scaleway_checkResponse :: "env \<Rightarrow> http_response \<Rightarrow> goerror option" where
  "scaleway_checkResponse e resp =
     (if 400 \<le> resp_StatusCode resp \<or> resp_StatusCode resp < 200 then
        (case resp_Body resp of
           Inl err \<Rightarrow> Some err
         | Inr body \<Rightarrow>
             (case Unmarshal e sw_APIError_of_json body of
                Inl _ \<Rightarrow> Some (Err (''request failed with status code '' @ show_int (resp_StatusCode resp)
                                @ '', response body: '' @ body))
              | Inr m \<Rightarrow> Some (Wrap (''request failed with status code '' @ show_int (resp_StatusCode resp) @ '': '') (Err m))))
      else None)"

text \<open>The second call of \<^verbatim>\<open>checkResponse\<close> sees the same status, and returns nil as the first one did.\<close>

definition scaleway_do :: "env \<Rightarrow> http_request \<Rightarrow> (world, goerror option) go" where
  "scaleway_do e req =
     handle (http_do e req) (\<lambda>err. ret (Some (Wrap ''request failed with error: '' err))) (\<lambda>resp.
       check_err (ret (scaleway_checkResponse e resp)) (ret (scaleway_checkResponse e resp)))"

definition scaleway_update :: "env \<Rightarrow> sw_client \<Rightarrow> string \<Rightarrow> json \<Rightarrow> (world, goerror option) go" where
  "scaleway_update e c zone change =
     (case scaleway_newRequest e c ''PATCH'' (''/dns-zones/'' @ zone @ ''/records'')
             (Some (sw_UpdateDNSZoneRecordsRequest_json zone [change] False)) of
        Inl err \<Rightarrow> ret (Some err)
      | Inr req \<Rightarrow> scaleway_do e req)"

definition scaleway_AddRecord :: "env \<Rightarrow> sw_client \<Rightarrow> string \<Rightarrow> sw_Record \<Rightarrow> (world, goerror option) go" where
  "scaleway_AddRecord e c zone record =
     scaleway_update e c zone (JObj [(''add'', sw_RecordChangeAdd_json [record])])"

definition scaleway_SetRecord :: "env \<Rightarrow> sw_client \<Rightarrow> string \<Rightarrow> sw_Record \<Rightarrow> (world, goerror option) go" where
  "scaleway_SetRecord e c zone record =
     scaleway_update e c zone (JObj [(''set'', sw_RecordChangeSet_json
       \<lparr>sws_Data = [], sws_Name = swr_Name record, sws_TTL = 0, sws_Type = swr_Type record, sws_Records = [record]\<rparr>)])"

definition scaleway_DeleteRecord :: "env \<Rightarrow> sw_client \<Rightarrow> string \<Rightarrow> sw_Record \<Rightarrow> (world, goerror option) go" where
  "scaleway_DeleteRecord e c zone record =
     scaleway_update e c zone (JObj [(''delete'', sw_RecordChangeDelete_json
       \<lparr>swd_Data = swr_Data record, swd_Name = swr_Name record, swd_Type = swr_Type record\<rparr>)])"

section \<open>The provider\<close>

record scaleway_config = ttl_config +
  sw_BaseURL :: string
  sw_Version :: string
  sw_Token :: string

record scaleway =
  sw_config :: scaleway_config
  sw_client :: sw_client

definition scaleway_NewDefaultConfig :: "env \<Rightarrow> scaleway_config" where
  "scaleway_NewDefaultConfig e =
     \<lparr>hcf_PropagationTimeout = GetOrDefaultSecond e ''SCALEWAY_PROPAGATION_TIMEOUT'' (120 * Second),
      hcf_PollingInterval = GetOrDefaultSecond e ''SCALEWAY_POLLING_INTERVAL'' (10 * Second),
      hcf_HTTPTimeout = GetOrDefaultSecond e ''SCALEWAY_HTTP_TIMEOUT'' (30 * Second),
      hcf_TTL = GetOrDefaultInt e ''SCALEWAY_TTL'' scaleway_minTTL,
      sw_BaseURL = GetOrDefaultString e ''SCALEWAY_BASE_URL'' scaleway_defaultBaseURL,
      sw_Version = GetOrDefaultString e ''SCALEWAY_API_VERSION'' scaleway_defaultVersion, sw_Token = []\<rparr>"

definition scaleway_NewDNSProviderConfig :: "scaleway_config option \<Rightarrow> goerror + scaleway" where
  "scaleway_NewDNSProviderConfig config =
     (case config of
        None \<Rightarrow> Inl (nil_config ''scaleway'')
      | Some c \<Rightarrow>
          if sw_Token c = [] then Inl (Err ''scaleway: credentials missing'')
          else
            (let c = (if hcf_TTL c < scaleway_minTTL then c\<lparr>hcf_TTL := scaleway_minTTL\<rparr> else c) in
             Inr \<lparr>sw_config = c,
               sw_client = scaleway_NewClient (sw_BaseURL c @ ''/domain/'' @ sw_Version c) (sw_Token c)\<rparr>))"

definition scaleway_NewDNSProvider :: "env \<Rightarrow> goerror + scaleway" where
  "scaleway_NewDNSProvider e =
     (case env_Get e [''SCALEWAY_API_TOKEN''] of
        Inl err \<Rightarrow> Inl (Wrap ''scaleway: '' err)
      | Inr values \<Rightarrow>
          scaleway_NewDNSProviderConfig
            (Some ((scaleway_NewDefaultConfig e)\<lparr>sw_Token := env_value values ''SCALEWAY_API_TOKEN''\<rparr>)))"

definition scaleway_txtRecord :: "scaleway \<Rightarrow> string \<Rightarrow> string \<Rightarrow> sw_Record" where
  "scaleway_txtRecord d fqdn value =
     \<lparr>swr_Data = [CHR 0x22] @ value @ [CHR 0x22], swr_Name = fqdn, swr_Priority = 0,
      swr_TTL = word_of_int (hcf_TTL (sw_config d)), swr_Type = ''TXT'', swr_Comment = []\<rparr>"

definition scaleway_Present :: "env \<Rightarrow> scaleway \<Rightarrow> string \<Rightarrow> string \<Rightarrow> string \<Rightarrow> (world, goerror option) go" where
  "scaleway_Present e d domain token keyAuth =
     bind (GetRecord e domain keyAuth) (\<lambda>(fqdn, value).
       wrap_err ''scaleway: '' (scaleway_AddRecord e (sw_client d) domain (scaleway_txtRecord d fqdn value)))"

definition scaleway_CleanUp :: "env \<Rightarrow> scaleway \<Rightarrow> string \<Rightarrow> string \<Rightarrow> string \<Rightarrow> (world, goerror option) go" where
  "scaleway_CleanUp e d domain token keyAuth =
     bind (GetRecord e domain keyAuth) (\<lambda>(fqdn, value).
       wrap_err ''scaleway: '' (scaleway_DeleteRecord e (sw_client d) domain (scaleway_txtRecord d fqdn value)))"

definition scaleway_Timeout :: "scaleway \<Rightarrow> int \<times> int" where
  "scaleway_Timeout d = (hcf_PropagationTimeout (sw_config d), hcf_PollingInterval (sw_config d))"

definition scaleway_provider :: "env \<Rightarrow> scaleway \<Rightarrow> provider" where
  "scaleway_provider e d =
     \<lparr>prov_Present = scaleway_Present e d, prov_CleanUp = scaleway_CleanUp e d,
      prov_Timeout = Some (scaleway_Timeout d), prov_Sequential = None\<rparr>"

section \<open>The provider keeps its contract\<close>

lemma scaleway_newRequest_body:
  "scaleway_newRequest e c method uri body = Inr req \<Longrightarrow>
   req_Body req = (case body of None \<Rightarrow> NoBody | Some j \<Rightarrow> RawBody (Encode e j)) \<and> req_Method req = method"
  by (auto simp: scaleway_newRequest_def NewRequest_Inr split: sum.splits option.splits)

context lookup_invariant
begin

lemma always_scaleway_update [always_intros]: "always R (scaleway_update e c zone change)"
  unfolding scaleway_update_def scaleway_do_def
  by (intro always_intros always_plain_http) (auto dest!: scaleway_newRequest_body)

lemma always_scaleway [always_intros]:
  "always R (scaleway_AddRecord e c zone r)" "always R (scaleway_DeleteRecord e c zone r)"
  "always R (scaleway_SetRecord e c zone r)"
  unfolding scaleway_AddRecord_def scaleway_DeleteRecord_def scaleway_SetRecord_def by (intro always_intros)+

lemma scaleway_keeps: "provider_keeps R (scaleway_provider e d)"
  unfolding scaleway_provider_def provider_keeps_def
  by (simp, intro conjI allI; unfold scaleway_Present_def scaleway_CleanUp_def; intro always_intros)

end

abbreviation status_200_to_399 :: "event \<Rightarrow> bool" where
  "status_200_to_399 \<equiv> answered (\<lambda>resp. 200 \<le> resp_StatusCode resp \<and> resp_StatusCode resp < 400)"

lemma scaleway_update_sent:
  assumes "a @ v @ b \<in> set (json_strings change)"
  shows "ensures is_nil (delivered e v status_200_to_399) (scaleway_update e c zone change)"
proof -
  have "a @ v @ b \<in> set (json_strings (sw_UpdateDNSZoneRecordsRequest_json zone [change] False))"
    using assms by (simp add: sw_UpdateDNSZoneRecordsRequest_json_def json_text)
  then show ?thesis
    unfolding scaleway_update_def scaleway_do_def check_err_def
    by (intro ensures_intros always_intros)
      (auto dest!: scaleway_newRequest_body simp: scaleway_checkResponse_def split: sum.splits
        intro: carries_json_within intro!: ensures_ret)
qed

lemma scaleway_Present_sent:
  "ensures is_nil (delivered e (record_value e keyAuth) status_200_to_399) (scaleway_Present e d domain token keyAuth)"
  unfolding scaleway_Present_def scaleway_AddRecord_def
  by (intro scaleway_update_sent [where a = "[CHR 0x22]" and b = "[CHR 0x22]"] ensures_intros)
    (simp add: sw_RecordChangeAdd_json_def sw_Record_json_def scaleway_txtRecord_def json_text)

interpretation scaleway: hosting e "scaleway_provider e d" status_200_to_399 for e d
  by (rule hostingI [OF outsider.scaleway_keeps]) (simp add: scaleway_Present_sent scaleway_provider_def)

end
