(* ===== verification/Arvancloud.thy ===== *)
theory Arvancloud
  imports Hosting
begin

text \<open>
  Package \<^verbatim>\<open>providers/dns/arvancloud\<close> with its client.  The provider remembers the identifier of the record under
  the token of the challenge.
\<close>

definition arvancloud_defaultBaseURL :: string where "arvancloud_defaultBaseURL = ''https://napi.arvancloud.com''"
definition arvancloud_minTTL :: int where "arvancloud_minTTL = 600"

section \<open>The client\<close>

text \<open>The data of an \<^verbatim>\<open>apiResponse\<close>, as the value its text stands for; nothing when it is missing.\<close>

definition av_apiResponse_of_json :: "json \<Rightarrow> goerror + json option" where
  "av_apiResponse_of_json = decode_struct (\<lambda>k v dat.
     if k = ''message'' then set_str v (\<lambda>s. dat) dat
     else if k = ''data'' then Inr (Some v)
     else Inr dat) None"

record av_IPFilterMode =
  avi_Count :: string
  avi_Order :: string
  avi_GeoFilter :: string

definition av_IPFilterMode_json :: "av_IPFilterMode \<Rightarrow> json" where
  "av_IPFilterMode_json m =
     JObj (omit_str ''count'' (avi_Count m) @ omit_str ''order'' (avi_Order m) @ omit_str ''geo_filter'' (avi_GeoFilter m))"

definition av_IPFilterMode_of_json :: "json \<Rightarrow> goerror + av_IPFilterMode" where
  "av_IPFilterMode_of_json = decode_struct (\<lambda>k v m.
     if k = ''count'' then set_str v (\<lambda>s. m\<lparr>avi_Count := s\<rparr>) m
     else if k = ''order'' then set_str v (\<lambda>s. m\<lparr>avi_Order := s\<rparr>) m
     else if k = ''geo_filter'' then set_str v (\<lambda>s. m\<lparr>avi_GeoFilter := s\<rparr>) m
     else Inr m) \<lparr>avi_Count = [], avi_Order = [], avi_GeoFilter = []\<rparr>"

text \<open>\<^verbatim>\<open>TXTRecordValue\<close>\<close>

definition av_TXTRecordValue_json :: "string \<Rightarrow> json" where
  "av_TXTRecordValue_json text' = JObj (omit_str ''text'' text')"

text \<open>The field \<^verbatim>\<open>Value\<close> is of any type: its JSON value, nothing for nil.\<close>

record av_DNSRecord =
  avr_ID :: string
  avr_Type :: string
  avr_Value :: "json option"
  avr_Name :: string
  avr_TTL :: int
  avr_UpstreamHTTPS :: string
  avr_IPFilterMode :: "av_IPFilterMode option"

definition av_DNSRecord_json :: "av_DNSRecord \<Rightarrow> json" where
  "av_DNSRecord_json r =
     JObj (omit_str ''id'' (avr_ID r) @ [(''type'', JStr (avr_Type r))] @ omit_ptr ''value'' (\<lambda>j. j) (avr_Value r)
       @ omit_str ''name'' (avr_Name r) @ omit_int ''ttl'' (avr_TTL r) @ omit_str ''upstream_https'' (avr_UpstreamHTTPS r)
       @ omit_ptr ''ip_filter_mode'' av_IPFilterMode_json (avr_IPFilterMode r))"

definition av_DNSRecord_of_json :: "json \<Rightarrow> goerror + av_DNSRecord" where
  "av_DNSRecord_of_json = decode_struct (\<lambda>k v r.
     if k = ''id'' then set_str v (\<lambda>s. r\<lparr>avr_ID := s\<rparr>) r
     else if k = ''type'' then set_str v (\<lambda>s. r\<lparr>avr_Type := s\<rparr>) r
     else if k = ''value'' then Inr (r\<lparr>avr_Value := if v = JNull then None else Some v\<rparr>)
     else if k = ''name'' then set_str v (\<lambda>s. r\<lparr>avr_Name := s\<rparr>) r
     else if k = ''ttl'' then set_int v (\<lambda>n. r\<lparr>avr_TTL := n\<rparr>) r
     else if k = ''upstream_https'' then set_str v (\<lambda>s. r\<lparr>avr_UpstreamHTTPS := s\<rparr>) r
     else if k = ''ip_filter_mode'' then set_ptr av_IPFilterMode_of_json v (\<lambda>m. r\<lparr>avr_IPFilterMode := m\<rparr>)
     else Inr r)
     \<lparr>avr_ID = [], avr_Type = [], avr_Value = None, avr_Name = [], avr_TTL = 0, avr_UpstreamHTTPS = [],
      avr_IPFilterMode = None\<rparr>"

record av_client =
  avc_BaseURL :: string
  avc_apiKey :: string

definition arvancloud_NewClient :: "string \<Rightarrow> av_client" where
  "arvancloud_NewClient apiKey = \<lparr>avc_BaseURL = arvancloud_defaultBaseURL, avc_apiKey = apiKey\<rparr>"

definition arvancloud_do ::
  "env \<Rightarrow> av_client \<Rightarrow> string \<Rightarrow> string \<Rightarrow> string option \<Rightarrow> (world, goerror + http_response) go" where
  "arvancloud_do e c method endpoint body =
     send e method endpoint body (\<lambda>req.
       Header_Set ''Authorization'' (avc_apiKey c)
         ((if body = None then (\<lambda>r. r) else Header_Set ''Content-Type'' ''application/json'')
           (Header_Set ''Accept'' ''application/json'' req)))"

definition arvancloud_createEndpoint :: "av_client \<Rightarrow> string list \<Rightarrow> goerror + url" where
  "arvancloud_createEndpoint c parts =
     (case url_Parse (avc_BaseURL c) of
        Inl err \<Rightarrow> Inl err
      | Inr baseURL \<Rightarrow> url_ParseRef baseURL (path_Join parts))"

text \<open>The last member of a name counts in a map made from a JSON object.\<close>

definition av_equalsTXTRecord :: "av_DNSRecord \<Rightarrow> string \<Rightarrow> string \<Rightarrow> bool" where
  "av_equalsTXTRecord record name value \<longleftrightarrow>
     avr_Type record = ''txt'' \<and> avr_Name record = name
     \<and> (case avr_Value record of Some (JObj ms) \<Rightarrow> map_of (rev ms) ''text'' = Some (JStr value) | _ \<Rightarrow> False)"

definition av_decode_data ::
  "env \<Rightarrow> string \<Rightarrow> (json \<Rightarrow> goerror + 'a) \<Rightarrow> string \<Rightarrow> goerror + 'a" where
  "av_decode_data e what dec body =
     (case Unmarshal e av_apiResponse_of_json body of
        Inl err \<Rightarrow> Inl (Wrap ''failed to decode response body: '' err)
      | Inr None \<Rightarrow> Inl (Wrap (''failed to decode '' @ what @ '': '') (Err ''unexpected end of JSON input''))
      | Inr (Some j) \<Rightarrow> map_sum (Wrap (''failed to decode '' @ what @ '': '')) (\<lambda>x. x) (dec j))"

definition arvancloud_getRecords ::
  "env \<Rightarrow> av_client \<Rightarrow> string \<Rightarrow> string \<Rightarrow> (world, goerror + av_DNSRecord list) go" where
  "arvancloud_getRecords e c domain search =
     (case arvancloud_createEndpoint c [''cdn'', ''4.0'', ''domains'', domain, ''dns-records''] of
        Inl err \<Rightarrow> ret (Inl (Wrap ''failed to create endpoint: '' err))
      | Inr endpoint \<Rightarrow>
          (let endpoint = (if search = [] then endpoint
                 else endpoint\<lparr>url_RawQuery := Values_Encode (Values_Set ''search''
                   (filter (\<lambda>ch. ch \<noteq> CHR ''_'') search) (ParseQuery (url_RawQuery endpoint)))\<rparr>) in
           check (arvancloud_do e c ''GET'' (url_String endpoint) None) (\<lambda>resp.
             case resp_Body resp of
               Inl err \<Rightarrow> ret (Inl (Wrap ''failed to read response body: '' err))
             | Inr body \<Rightarrow>
                 if resp_StatusCode resp \<noteq> 200
                 then ret (Inl (Err (''could not get records '' @ search @ '': Domain: '' @ domain @ ''; Status: ''
                        @ resp_Status resp @ ''; Body: '' @ body)))
                 else ret (av_decode_data e ''records'' (list_of_json av_DNSRecord_of_json) body))))"

definition arvancloud_GetTxtRecord ::
  "env \<Rightarrow> av_client \<Rightarrow> string \<Rightarrow> string \<Rightarrow> string \<Rightarrow> (world, goerror + av_DNSRecord) go" where
  "arvancloud_GetTxtRecord e c domain name value =
     check (arvancloud_getRecords e c domain name) (\<lambda>records.
       case List.find (\<lambda>r. av_equalsTXTRecord r name value) records of
         Some record \<Rightarrow> ret (Inr record)
       | None \<Rightarrow> ret (Inl (Err (''could not find record: Domain: '' @ domain @ ''; Record: '' @ name))))"

definition arvancloud_CreateRecord ::
  "env \<Rightarrow> av_client \<Rightarrow> string \<Rightarrow> av_DNSRecord \<Rightarrow> (world, goerror + av_DNSRecord) go" where
  "arvancloud_CreateRecord e c domain record =
     (let reqBody = jsonPrint e (av_DNSRecord_json record) in
      case arvancloud_createEndpoint c [''cdn'', ''4.0'', ''domains'', domain, ''dns-records''] of
        Inl err \<Rightarrow> ret (Inl (Wrap ''failed to create endpoint: '' err))
      | Inr endpoint \<Rightarrow>
          check (arvancloud_do e c ''POST'' (url_String endpoint) (Some reqBody)) (\<lambda>resp.
            case resp_Body resp of
              Inl err \<Rightarrow> ret (Inl (Wrap ''failed to read response body: '' err))
            | Inr body \<Rightarrow>
                if resp_StatusCode resp \<noteq> 201
                then ret (Inl (Err (''could not create record '' @ reqBody @ ''; Domain: '' @ domain @ ''; Status: ''
                       @ resp_Status resp @ ''; Body: '' @ body)))
                else ret (av_decode_data e ''record'' av_DNSRecord_of_json body)))"

definition arvancloud_DeleteRecord :: "env \<Rightarrow> av_client \<Rightarrow> string \<Rightarrow> string \<Rightarrow> (world, goerror option) go" where
  "arvancloud_DeleteRecord e c domain i =
     (case arvancloud_createEndpoint c [''cdn'', ''4.0'', ''domains'', domain, ''dns-records'', i] of
        Inl err \<Rightarrow> ret (Some (Wrap ''failed to create endpoint: '' err))
      | Inr endpoint \<Rightarrow>
          handle (arvancloud_do e c ''DELETE'' (url_String endpoint) None) (\<lambda>err. ret (Some err)) (\<lambda>resp.
            if resp_StatusCode resp \<noteq> 200
            then ret (Some (Err (''could not delete record '' @ i @ ''; Domain: '' @ domain @ ''; Status: ''
                   @ resp_Status resp @ ''; Body: '' @ body_text (resp_Body resp))))
            else ret None))"

section \<open>The provider\<close>

record arvancloud_config = ttl_config +
  av_APIKey :: string

record arvancloud =
  av_config :: arvancloud_config
  av_client :: av_client
  av_recordIDs :: nat

definition arvancloud_NewDefaultConfig :: "env \<Rightarrow> arvancloud_config" where
  "arvancloud_NewDefaultConfig e =
     \<lparr>hcf_PropagationTimeout = GetOrDefaultSecond e ''ARVANCLOUD_PROPAGATION_TIMEOUT'' (120 * Second),
      hcf_PollingInterval = GetOrDefaultSecond e ''ARVANCLOUD_POLLING_INTERVAL'' (2 * Second),
      hcf_HTTPTimeout = GetOrDefaultSecond e ''ARVANCLOUD_HTTP_TIMEOUT'' (30 * Second),
      hcf_TTL = GetOrDefaultInt e ''ARVANCLOUD_TTL'' arvancloud_minTTL, av_APIKey = []\<rparr>"

definition arvancloud_NewDNSProviderConfig :: "arvancloud_config option \<Rightarrow> (world, goerror + arvancloud) go" where
  "arvancloud_NewDNSProviderConfig config =
     (case config of
        None \<Rightarrow> ret (Inl (nil_config ''arvancloud''))
      | Some c \<Rightarrow>
          if av_APIKey c = [] then ret (Inl (Err ''arvancloud: credentials missing''))
          else if hcf_TTL c < arvancloud_minTTL
          then ret (Inl (ttl_error ''arvancloud'' (hcf_TTL c) arvancloud_minTTL))
          else
            bind make_map (\<lambda>a.
              ret (Inr \<lparr>av_config = c, av_client = arvancloud_NewClient (av_APIKey c), av_recordIDs = a\<rparr>)))"

definition arvancloud_NewDNSProvider :: "env \<Rightarrow> (world, goerror + arvancloud) go" where
  "arvancloud_NewDNSProvider e =
     (case env_Get e [''ARVANCLOUD_API_KEY''] of
        Inl err \<Rightarrow> ret (Inl (Wrap ''arvancloud: '' err))
      | Inr values \<Rightarrow>
          arvancloud_NewDNSProviderConfig
            (Some ((arvancloud_NewDefaultConfig e)\<lparr>av_APIKey := env_value values ''ARVANCLOUD_API_KEY''\<rparr>)))"

definition av_getZone :: "env \<Rightarrow> string \<Rightarrow> (world, goerror + string) go" where
  "av_getZone e fqdn = check (FindZoneByFqdn e fqdn) (\<lambda>authZone. ret (Inr (UnFqdn authZone)))"

definition av_extractRecordName :: "string \<Rightarrow> string \<Rightarrow> string" where
  "av_extractRecordName fqdn zone =
     (let name = UnFqdn fqdn in
      case str_index name (''.'' @ zone) of Some idx \<Rightarrow> take idx name | None \<Rightarrow> name)"

definition arvancloud_Present :: "env \<Rightarrow> arvancloud \<Rightarrow> string \<Rightarrow> string \<Rightarrow> string \<Rightarrow> (world, goerror option) go" where
  "arvancloud_Present e d domain token keyAuth =
     bind (GetRecord e domain keyAuth) (\<lambda>(fqdn, value).
       handle (av_getZone e fqdn) (\<lambda>err. ret (Some err)) (\<lambda>authZone.
         try_or (''arvancloud: failed to add TXT record: fqdn='' @ fqdn @ '': '')
           (arvancloud_CreateRecord e (av_client d) authZone
             \<lparr>avr_ID = [], avr_Type = ''txt'', avr_Value = Some (av_TXTRecordValue_json value),
              avr_Name = av_extractRecordName fqdn authZone, avr_TTL = hcf_TTL (av_config d),
              avr_UpstreamHTTPS = ''default'',
              avr_IPFilterMode = Some \<lparr>avi_Count = ''single'', avi_Order = ''none'', avi_GeoFilter = ''none''\<rparr>\<rparr>) (\<lambda>newRecord.
           bind (map_set (av_recordIDs d) token (StrCell (avr_ID newRecord))) (\<lambda>_. ret None))))"

definition arvancloud_CleanUp :: "env \<Rightarrow> arvancloud \<Rightarrow> string \<Rightarrow> string \<Rightarrow> string \<Rightarrow> (world, goerror option) go" where
  "arvancloud_CleanUp e d domain token keyAuth =
     bind (GetRecord e domain keyAuth) (\<lambda>(fqdn, _).
       handle (av_getZone e fqdn) (\<lambda>err. ret (Some err)) (\<lambda>authZone.
         let q = [CHR 0x27] in
         remove_remembered (av_recordIDs d) token
           (Err (''arvancloud: unknown record ID for '' @ q @ fqdn @ q @ '' '' @ q @ token @ q))
           (\<lambda>recordID. wrap_err (''arvancloud: failed to delate TXT record: id='' @ cell_str recordID @ '': '')
              (arvancloud_DeleteRecord e (av_client d) authZone (cell_str recordID)))))"

definition arvancloud_Timeout :: "arvancloud \<Rightarrow> int \<times> int" where
  "arvancloud_Timeout d = (hcf_PropagationTimeout (av_config d), hcf_PollingInterval (av_config d))"

definition arvancloud_provider :: "env \<Rightarrow> arvancloud \<Rightarrow> provider" where
  "arvancloud_provider e d =
     \<lparr>prov_Present = arvancloud_Present e d, prov_CleanUp = arvancloud_CleanUp e d,
      prov_Timeout = Some (arvancloud_Timeout d), prov_Sequential = None\<rparr>"

section \<open>The provider keeps its contract\<close>

context lookup_invariant
begin

lemma always_arvancloud [always_intros]:
  "always R (arvancloud_getRecords e c domain search)" "always R (arvancloud_CreateRecord e c domain r)"
  "always R (arvancloud_DeleteRecord e c domain i)" "always R (av_getZone e fqdn)"
  unfolding arvancloud_getRecords_def arvancloud_CreateRecord_def arvancloud_DeleteRecord_def arvancloud_do_def
    av_getZone_def Let_def
  by (intro always_intros; simp)+

lemma always_arvancloud_GetTxtRecord [always_intros]: "always R (arvancloud_GetTxtRecord e c domain name value)"
  unfolding arvancloud_GetTxtRecord_def by (intro always_intros)

end

context plain_invariant
begin

lemma always_arvancloud_NewDNSProvider [always_intros]: "always R (arvancloud_NewDNSProvider e)"
  unfolding arvancloud_NewDNSProvider_def arvancloud_NewDNSProviderConfig_def by (intro always_intros)

lemma arvancloud_keeps: "provider_keeps R (arvancloud_provider e d)"
  unfolding arvancloud_provider_def
  by (rule provider_keepsI; unfold arvancloud_Present_def arvancloud_CleanUp_def Let_def) (intro always_intros)+

end

lemma arvancloud_CreateRecord_sent:
  assumes "avr_Value r = Some (av_TXTRecordValue_json v)"
  shows "ensures is_ok (delivered e v status_201) (arvancloud_CreateRecord e c domain r)"
  unfolding arvancloud_CreateRecord_def arvancloud_do_def Let_def using assms
  by (intro ensures_intros always_intros)
    (auto simp: NewRequest_Inr av_DNSRecord_json_def av_TXTRecordValue_json_def json_text intro!: carries_json)

lemma arvancloud_Present_sent:
  "ensures is_nil (delivered e (record_value e keyAuth) status_201) (arvancloud_Present e d domain token keyAuth)"
  unfolding arvancloud_Present_def Let_def
  by (intro ensures_try_first [OF arvancloud_CreateRecord_sent] ensures_intros ensures_handle_later always_intros) simp_all

lemma arvancloud_hosting: "hosting e (arvancloud_provider e d) status_201"
  by (rule hostingI [OF outsider.arvancloud_keeps]) (simp add: arvancloud_Present_sent arvancloud_provider_def)

definition av_removes :: "arvancloud \<Rightarrow> cell \<Rightarrow> http_request \<Rightarrow> bool" where
  "av_removes d c req \<longleftrightarrow> req_Method req = ''DELETE'' \<and> (\<exists>zone endpoint.
     arvancloud_createEndpoint (av_client d) [''cdn'', ''4.0'', ''domains'', zone, ''dns-records'', cell_str c] = Inr endpoint
     \<and> req_URL req = url_String endpoint)"

lemma arvancloud_DeleteRecord_sent:
  "ensures is_nil (\<lambda>ev. \<exists>req resp. ev = EvHttp req (Inr resp) \<and> av_removes d c req)
     (arvancloud_DeleteRecord e (av_client d) zone (cell_str c))"
  unfolding arvancloud_DeleteRecord_def arvancloud_do_def
  by (intro ensures_intros always_intros) (auto simp: NewRequest_Inr av_removes_def)

interpretation arvancloud: remembering e "arvancloud_provider e d" status_201 "av_recordIDs d" "av_removes d" for e d
proof (intro remembering.intro arvancloud_hosting remembering_axioms.intro)
  show "remembers (av_recordIDs d) token (prov_Present (arvancloud_provider e d) domain token keyAuth)"
    for token domain keyAuth
    unfolding arvancloud_provider_def arvancloud_Present_def provider.simps Let_def
    by (intro ensures_intros remembers_try remembers_handle always_intros)
  show "forgets (av_recordIDs d) token (\<lambda>c ev. \<exists>req resp. ev = EvHttp req (Inr resp) \<and> av_removes d c req)
      (prov_CleanUp (arvancloud_provider e d) domain token keyAuth)" for token domain keyAuth
    unfolding arvancloud_provider_def arvancloud_CleanUp_def provider.simps Let_def
    by (intro ensures_intros forgets_handle arvancloud_DeleteRecord_sent always_intros)
qed

end
