(* ===== verification/Clouddns.thy ===== *)
theory Clouddns
  imports Hosting
begin

text \<open>
  Package \<^verbatim>\<open>providers/dns/clouddns\<close> with its client.  The client logs in with its first request and keeps the
  access token from then on.  A change of the records takes effect only when the domain is published.

  The client is an object with one field that changes, \<^verbatim>\<open>AccessToken\<close>; that field is kept at the address of the
  client among the maps of the program, under its name.
\<close>

definition clouddns_apiBaseURL :: string where "clouddns_apiBaseURL = ''https://admin.vshosting.cloud/clouddns''"
definition clouddns_loginURL :: string where
  "clouddns_loginURL = ''https://admin.vshosting.cloud/api/public/auth/login''"

section \<open>Data\<close>

text \<open>The code and the message of an \<^verbatim>\<open>APIError\<close>.\<close>

definition cd_ErrorContent_of_json :: "json \<Rightarrow> goerror + int \<times> string" where
  "cd_ErrorContent_of_json = decode_struct (\<lambda>k v (c, m).
     if k = ''code'' then set_int v (\<lambda>n. (n, m)) (c, m)
     else if k = ''message'' then set_str v (\<lambda>s. (c, s)) (c, m)
     else Inr (c, m)) (0, [])"

definition cd_APIError_of_json :: "json \<Rightarrow> goerror + int \<times> string" where
  "cd_APIError_of_json = decode_struct (\<lambda>k v x.
     if k = ''error'' then set_struct cd_ErrorContent_of_json v (\<lambda>y. y) else Inr x) (0, [])"

definition cd_Authorization_json :: "string \<Rightarrow> string \<Rightarrow> json" where
  "cd_Authorization_json email password = JObj (omit_str ''email'' email @ omit_str ''password'' password)"

text \<open>An \<^verbatim>\<open>AuthResponse\<close> is read for the access token.\<close>

definition cd_Auth_of_json :: "json \<Rightarrow> goerror + string" where
  "cd_Auth_of_json = decode_struct (\<lambda>k v t.
     if k = ''accessToken'' then set_str v (\<lambda>s. s) t
     else if k = ''refreshToken'' then set_str v (\<lambda>s. t) t
     else Inr t) []"

definition cd_AuthResponse_of_json :: "json \<Rightarrow> goerror + string" where
  "cd_AuthResponse_of_json = decode_struct (\<lambda>k v t.
     if k = ''auth'' then set_struct cd_Auth_of_json v (\<lambda>s. s) else Inr t) []"

record cd_Search =
  cds_Name :: string
  cds_Operator :: string
  cds_Type :: string
  cds_Value :: string

definition cd_Search_json :: "cd_Search \<Rightarrow> json" where
  "cd_Search_json s =
     JObj (omit_str ''name'' (cds_Name s) @ omit_str ''operator'' (cds_Operator s) @ omit_str ''type'' (cds_Type s)
       @ omit_str ''value'' (cds_Value s))"

text \<open>A \<^verbatim>\<open>SearchQuery\<close> with neither limit, offset nor order.\<close>

definition cd_SearchQuery_json :: "cd_Search list \<Rightarrow> json" where
  "cd_SearchQuery_json search = JObj (omit_list ''search'' cd_Search_json search)"

record cd_Domain =
  cdd_ID :: string
  cdd_DomainName :: string
  cdd_Status :: string

definition cd_Domain_of_json :: "json \<Rightarrow> goerror + cd_Domain" where
  "cd_Domain_of_json = decode_struct (\<lambda>k v d.
     if k = ''id'' then set_str v (\<lambda>s. d\<lparr>cdd_ID := s\<rparr>) d
     else if k = ''domainName'' then set_str v (\<lambda>s. d\<lparr>cdd_DomainName := s\<rparr>) d
     else if k = ''status'' then set_str v (\<lambda>s. d\<lparr>cdd_Status := s\<rparr>) d
     else Inr d) \<lparr>cdd_ID = [], cdd_DomainName = [], cdd_Status = []\<rparr>"

text \<open>The items of a \<^verbatim>\<open>SearchResponse\<close>.\<close>

definition cd_SearchResponse_of_json :: "json \<Rightarrow> goerror + cd_Domain list" where
  "cd_SearchResponse_of_json = decode_struct (\<lambda>k v ds.
     if k = ''items'' then set_list cd_Domain_of_json v (\<lambda>l. l)
     else if k \<in> {''limit'', ''offset'', ''totalHits''} then set_int v (\<lambda>n. ds) ds
     else Inr ds) []"

record cd_Record =
  cdr_ID :: string
  cdr_DomainID :: string
  cdr_Name :: string
  cdr_Value :: string
  cdr_Type :: string

definition cd_Record_json :: "cd_Record \<Rightarrow> json" where
  "cd_Record_json r =
     JObj (omit_str ''id'' (cdr_ID r) @ omit_str ''domainId'' (cdr_DomainID r) @ omit_str ''name'' (cdr_Name r)
       @ omit_str ''value'' (cdr_Value r) @ omit_str ''type'' (cdr_Type r))"

definition cd_Record_of_json :: "json \<Rightarrow> goerror + cd_Record" where
  "cd_Record_of_json = decode_struct (\<lambda>k v r.
     if k = ''id'' then set_str v (\<lambda>s. r\<lparr>cdr_ID := s\<rparr>) r
     else if k = ''domainId'' then set_str v (\<lambda>s. r\<lparr>cdr_DomainID := s\<rparr>) r
     else if k = ''name'' then set_str v (\<lambda>s. r\<lparr>cdr_Name := s\<rparr>) r
     else if k = ''value'' then set_str v (\<lambda>s. r\<lparr>cdr_Value := s\<rparr>) r
     else if k = ''type'' then set_str v (\<lambda>s. r\<lparr>cdr_Type := s\<rparr>) r
     else Inr r) \<lparr>cdr_ID = [], cdr_DomainID = [], cdr_Name = [], cdr_Value = [], cdr_Type = []\<rparr>"

text \<open>A \<^verbatim>\<open>DomainInfo\<close> is read for its records, and written with its time to live only.\<close>

definition cd_DomainInfo_of_json :: "json \<Rightarrow> goerror + cd_Record list" where
  "cd_DomainInfo_of_json = decode_struct (\<lambda>k v rs.
     if k = ''lastDomainRecordList'' then set_list cd_Record_of_json v (\<lambda>l. l)
     else if k = ''soaTtl'' then set_int v (\<lambda>n. rs) rs
     else if k \<in> {''id'', ''domainName'', ''status''} then set_str v (\<lambda>s. rs) rs
     else Inr rs) []"

definition cd_DomainInfo_json :: "int \<Rightarrow> json" where
  "cd_DomainInfo_json soaTTL = JObj (omit_int ''soaTtl'' soaTTL)"

section \<open>The client\<close>

record cd_client =
  cdc_object :: nat
  cdc_ClientID :: string
  cdc_Email :: string
  cdc_Password :: string
  cdc_TTL :: int
  cdc_apiBaseURL :: string
  cdc_loginURL :: string

definition clouddns_NewClient :: "string \<Rightarrow> string \<Rightarrow> string \<Rightarrow> int \<Rightarrow> (world, cd_client) go" where
  "clouddns_NewClient clientID email password ttl =
     bind make_map (\<lambda>a.
       ret \<lparr>cdc_object = a, cdc_ClientID = clientID, cdc_Email = email, cdc_Password = password, cdc_TTL = ttl,
            cdc_apiBaseURL = clouddns_apiBaseURL, cdc_loginURL = clouddns_loginURL\<rparr>)"

definition cd_AccessToken :: "cd_client \<Rightarrow> (world, string) go" where
  "cd_AccessToken c = str_field (cdc_object c) ''AccessToken''"

definition cd_toUnreadableBodyMessage :: "http_request \<Rightarrow> string \<Rightarrow> string" where
  "cd_toUnreadableBodyMessage req rawBody =
     ''the request '' @ req_URL req @ '' sent a response with a body which is an invalid format: '' @ Quote rawBody"

definition cd_readError :: "env \<Rightarrow> http_request \<Rightarrow> http_response \<Rightarrow> goerror" where
  "cd_readError e req resp =
     (case resp_Body resp of
        Inl _ \<Rightarrow> Err (cd_toUnreadableBodyMessage req [])
      | Inr content \<Rightarrow>
          (case Unmarshal e cd_APIError_of_json content of
             Inl err \<Rightarrow> Wrap ''APIError unmarshaling error: ''
                          (err_then err ('': '' @ cd_toUnreadableBodyMessage req content))
           | Inr (code, m) \<Rightarrow> Err (''HTTP '' @ show_int (resp_StatusCode resp) @ '': code '' @ show_int code @ '': '' @ m)))"

definition cd_doRequest :: "env \<Rightarrow> http_request \<Rightarrow> (world, goerror + string) go" where
  "cd_doRequest e req =
     check (http_do e req) (\<lambda>resp.
       if 400 \<le> resp_StatusCode resp then ret (Inl (cd_readError e req resp)) else ret (resp_Body resp))"

definition cd_newRequest ::
  "env \<Rightarrow> string \<Rightarrow> string \<Rightarrow> string \<Rightarrow> string option \<Rightarrow> goerror + http_request" where
  "cd_newRequest e accessToken method reqURL body =
     (case NewRequest e method reqURL body of
        Inl err \<Rightarrow> Inl err
      | Inr req \<Rightarrow>
          Inr (Header_Set ''Authorization'' (''Bearer '' @ accessToken)
            (Header_Set ''Content-Type'' ''application/json'' req)))"

definition cd_login :: "env \<Rightarrow> cd_client \<Rightarrow> (world, goerror + unit) go" where
  "cd_login e c =
     (case NewRequest e ''POST'' (cdc_loginURL c)
             (Some (jsonPrint e (cd_Authorization_json (cdc_Email c) (cdc_Password c)))) of
        Inl err \<Rightarrow> ret (Inl err)
      | Inr req \<Rightarrow>
          check (cd_doRequest e (Header_Set ''Content-Type'' ''application/json'' req)) (\<lambda>content.
            case Unmarshal e cd_AuthResponse_of_json content of
              Inl err \<Rightarrow> ret (Inl err)
            | Inr token \<Rightarrow> bind (map_set (cdc_object c) ''AccessToken'' (StrCell token)) (\<lambda>_. ret (Inr ()))))"

definition cd_doAPIRequest ::
  "env \<Rightarrow> cd_client \<Rightarrow> string \<Rightarrow> string \<Rightarrow> string option \<Rightarrow> (world, goerror + string) go" where
  "cd_doAPIRequest e c method endpoint body =
     bind (cd_AccessToken c) (\<lambda>token.
       check (if token = [] then cd_login e c else ret (Inr ())) (\<lambda>_.
         bind (cd_AccessToken c) (\<lambda>token.
           case cd_newRequest e token method (cdc_apiBaseURL c @ ''/'' @ endpoint) body of
             Inl err \<Rightarrow> ret (Inl err)
           | Inr req \<Rightarrow> cd_doRequest e req)))"

definition cd_addTxtRecord :: "env \<Rightarrow> cd_client \<Rightarrow> cd_Record \<Rightarrow> (world, goerror + string) go" where
  "cd_addTxtRecord e c record =
     cd_doAPIRequest e c ''POST'' ''record-txt'' (Some (jsonPrint e (cd_Record_json record)))"

definition cd_deleteRecord :: "env \<Rightarrow> cd_client \<Rightarrow> cd_Record \<Rightarrow> (world, goerror + string) go" where
  "cd_deleteRecord e c record = cd_doAPIRequest e c ''DELETE'' (''record/'' @ cdr_ID record) None"

definition cd_getDomain :: "env \<Rightarrow> cd_client \<Rightarrow> string \<Rightarrow> (world, goerror + cd_Domain) go" where
  "cd_getDomain e c zone =
     check (cd_doAPIRequest e c ''POST'' ''domain/search'' (Some (jsonPrint e (cd_SearchQuery_json
         [\<lparr>cds_Name = ''clientId'', cds_Operator = ''eq'', cds_Type = [], cds_Value = cdc_ClientID c\<rparr>,
          \<lparr>cds_Name = ''domainName'', cds_Operator = ''eq'', cds_Type = [], cds_Value = zone\<rparr>])))) (\<lambda>resp.
       case Unmarshal e cd_SearchResponse_of_json resp of
         Inl err \<Rightarrow> ret (Inl err)
       | Inr items \<Rightarrow>
           if items = [] then ret (Inl (Err (''domain not found: '' @ zone))) else ret (Inr (hd items)))"

definition cd_getRecord :: "env \<Rightarrow> cd_client \<Rightarrow> string \<Rightarrow> string \<Rightarrow> (world, goerror + cd_Record) go" where
  "cd_getRecord e c domainID recordName =
     check (cd_doAPIRequest e c ''GET'' (''domain/'' @ domainID) None) (\<lambda>resp.
       case Unmarshal e cd_DomainInfo_of_json resp of
         Inl err \<Rightarrow> ret (Inl err)
       | Inr records \<Rightarrow>
           (case List.find (\<lambda>r. cdr_Name r = recordName \<and> cdr_Type r = ''TXT'') records of
              Some record \<Rightarrow> ret (Inr record)
            | None \<Rightarrow> ret (Inl (Err (''record not found: domainID '' @ domainID @ '', name '' @ recordName)))))"

definition cd_publishRecords :: "env \<Rightarrow> cd_client \<Rightarrow> string \<Rightarrow> (world, goerror + string) go" where
  "cd_publishRecords e c domainID =
     cd_doAPIRequest e c ''PUT'' (''domain/'' @ domainID @ ''/publish'') (Some (jsonPrint e (cd_DomainInfo_json (cdc_TTL c))))"

definition cd_AddRecord :: "env \<Rightarrow> cd_client \<Rightarrow> string \<Rightarrow> string \<Rightarrow> string \<Rightarrow> (world, goerror + string) go" where
  "cd_AddRecord e c zone recordName recordValue =
     check (cd_getDomain e c zone) (\<lambda>domain.
       check (cd_addTxtRecord e c \<lparr>cdr_ID = [], cdr_DomainID = cdd_ID domain, cdr_Name = recordName,
           cdr_Value = recordValue, cdr_Type = ''TXT''\<rparr>) (\<lambda>_.
         cd_publishRecords e c (cdd_ID domain)))"

definition cd_DeleteRecord :: "env \<Rightarrow> cd_client \<Rightarrow> string \<Rightarrow> string \<Rightarrow> (world, goerror + string) go" where
  "cd_DeleteRecord e c zone recordName =
     check (cd_getDomain e c zone) (\<lambda>domain.
       check (cd_getRecord e c (cdd_ID domain) recordName) (\<lambda>record.
         check (cd_deleteRecord e c record) (\<lambda>_. cd_publishRecords e c (cdd_ID domain))))"

section \<open>The provider\<close>

record clouddns_config = ttl_config +
  cd_ClientID :: string
  cd_Email :: string
  cd_Password :: string

record clouddns =
  cd_client :: cd_client
  cd_config :: clouddns_config

definition clouddns_NewDefaultConfig :: "env \<Rightarrow> clouddns_config" where
  "clouddns_NewDefaultConfig e =
     \<lparr>hcf_PropagationTimeout = GetOrDefaultSecond e ''CLOUDDNS_PROPAGATION_TIMEOUT'' (120 * Second),
      hcf_PollingInterval = GetOrDefaultSecond e ''CLOUDDNS_POLLING_INTERVAL'' (5 * Second),
      hcf_HTTPTimeout = GetOrDefaultSecond e ''CLOUDDNS_HTTP_TIMEOUT'' (30 * Second),
      hcf_TTL = GetOrDefaultInt e ''CLOUDDNS_TTL'' 300, cd_ClientID = [], cd_Email = [], cd_Password = []\<rparr>"

definition clouddns_NewDNSProviderConfig :: "clouddns_config option \<Rightarrow> (world, goerror + clouddns) go" where
  "clouddns_NewDNSProviderConfig config =
     (case config of
        None \<Rightarrow> ret (Inl (nil_config ''clouddns''))
      | Some c \<Rightarrow>
          if cd_ClientID c = [] \<or> cd_Email c = [] \<or> cd_Password c = []
          then ret (Inl (Err ''clouddns: credentials missing''))
          else
            bind (clouddns_NewClient (cd_ClientID c) (cd_Email c) (cd_Password c) (hcf_TTL c)) (\<lambda>client.
              ret (Inr \<lparr>cd_client = client, cd_config = c\<rparr>)))"

definition clouddns_NewDNSProvider :: "env \<Rightarrow> (world, goerror + clouddns) go" where
  "clouddns_NewDNSProvider e =
     (case env_Get e [''CLOUDDNS_CLIENT_ID'', ''CLOUDDNS_EMAIL'', ''CLOUDDNS_PASSWORD''] of
        Inl err \<Rightarrow> ret (Inl (Wrap ''clouddns: '' err))
      | Inr values \<Rightarrow>
          clouddns_NewDNSProviderConfig (Some ((clouddns_NewDefaultConfig e)
            \<lparr>cd_ClientID := env_value values ''CLOUDDNS_CLIENT_ID'', cd_Email := env_value values ''CLOUDDNS_EMAIL'',
             cd_Password := env_value values ''CLOUDDNS_PASSWORD''\<rparr>)))"

definition clouddns_Present :: "env \<Rightarrow> clouddns \<Rightarrow> string \<Rightarrow> string \<Rightarrow> string \<Rightarrow> (world, goerror option) go" where
  "clouddns_Present e d domain token keyAuth =
     bind (GetRecord e domain keyAuth) (\<lambda>(fqdn, value).
       try_or ''clouddns: '' (FindZoneByFqdn e fqdn) (\<lambda>authZone.
         try_or ''clouddns: '' (cd_AddRecord e (cd_client d) authZone fqdn value) (\<lambda>_. ret None)))"

definition clouddns_CleanUp :: "env \<Rightarrow> clouddns \<Rightarrow> string \<Rightarrow> string \<Rightarrow> string \<Rightarrow> (world, goerror option) go" where
  "clouddns_CleanUp e d domain token keyAuth =
     bind (GetRecord e domain keyAuth) (\<lambda>(fqdn, _).
       try_or ''clouddns: '' (FindZoneByFqdn e fqdn) (\<lambda>authZone.
         try_or ''clouddns: '' (cd_DeleteRecord e (cd_client d) authZone fqdn) (\<lambda>_. ret None)))"

definition clouddns_Timeout :: "clouddns \<Rightarrow> int \<times> int" where
  "clouddns_Timeout d = (hcf_PropagationTimeout (cd_config d), hcf_PollingInterval (cd_config d))"

definition clouddns_provider :: "env \<Rightarrow> clouddns \<Rightarrow> provider" where
  "clouddns_provider e d =
     \<lparr>prov_Present = clouddns_Present e d, prov_CleanUp = clouddns_CleanUp e d,
      prov_Timeout = Some (clouddns_Timeout d), prov_Sequential = None\<rparr>"

section \<open>The provider keeps its contract\<close>

lemma cd_newRequest_Inr:
  "cd_newRequest e token method uri body = Inr req \<Longrightarrow>
   req_Body req = (case body of None \<Rightarrow> NoBody | Some b \<Rightarrow> RawBody b) \<and> req_Method req = method \<and> req_URL req = uri"
  by (auto simp: cd_newRequest_def NewRequest_Inr split: sum.splits option.splits)

context plain_invariant
begin

lemma always_cd_doRequest [always_intros]:
  "(\<And>m. req_Body req \<noteq> JoseBody m) \<Longrightarrow> always R (cd_doRequest e req)"
  unfolding cd_doRequest_def by (intro always_intros always_plain_http) auto

lemma always_cd_doAPIRequest [always_intros]: "always R (cd_doAPIRequest e c method endpoint body)"
  unfolding cd_doAPIRequest_def cd_login_def cd_AccessToken_def
  by (intro always_intros) (auto dest!: cd_newRequest_Inr simp: NewRequest_Inr split: option.splits)

lemma always_cd_basic [always_intros]:
  "always R (cd_addTxtRecord e c r)" "always R (cd_deleteRecord e c r)" "always R (cd_getDomain e c zone)"
  "always R (cd_getRecord e c domainID recordName)" "always R (cd_publishRecords e c domainID)"
  unfolding cd_addTxtRecord_def cd_deleteRecord_def cd_getDomain_def cd_getRecord_def cd_publishRecords_def
  by (intro always_intros)+

lemma always_cd [always_intros]:
  "always R (cd_AddRecord e c zone recordName recordValue)" "always R (cd_DeleteRecord e c zone recordName)"
  unfolding cd_AddRecord_def cd_DeleteRecord_def by (intro always_intros)+

lemma always_clouddns_NewDNSProvider [always_intros]: "always R (clouddns_NewDNSProvider e)"
  unfolding clouddns_NewDNSProvider_def clouddns_NewDNSProviderConfig_def clouddns_NewClient_def
  by (intro always_intros)

lemma clouddns_keeps: "provider_keeps R (clouddns_provider e d)"
  unfolding clouddns_provider_def
  by (rule provider_keepsI; unfold clouddns_Present_def clouddns_CleanUp_def) (intro always_intros)+

end

lemma cd_doAPIRequest_sent:
  assumes "\<And>req. req_Method req = method \<Longrightarrow> req_URL req = cdc_apiBaseURL c @ ''/'' @ endpoint \<Longrightarrow>
      req_Body req = (case body of None \<Rightarrow> NoBody | Some b \<Rightarrow> RawBody b) \<Longrightarrow> good req"
  shows "ensures is_ok (\<lambda>ev. \<exists>req resp. ev = EvHttp req (Inr resp) \<and> below_400 resp \<and> good req)
    (cd_doAPIRequest e c method endpoint body)"
proof -
  have sent: "ensures is_ok (\<lambda>ev. \<exists>req resp. ev = EvHttp req (Inr resp) \<and> below_400 resp \<and> good req) (cd_doRequest e req)"
    if "good req" for req
    unfolding cd_doRequest_def using that by (intro ensures_intros always_intros) auto
  show ?thesis
    unfolding cd_doAPIRequest_def cd_AccessToken_def cd_login_def
    by (intro ensures_later ensures_check_later ensures_intros sent always_intros)
      (auto dest!: cd_newRequest_Inr intro!: assms simp: NewRequest_Inr split: option.splits)
qed

lemma cd_addTxtRecord_sent:
  assumes "cdr_Value r = v"
  shows "ensures is_ok (delivered e v (answered below_400)) (cd_addTxtRecord e c r)"
proof -
  have "carries e v req" if "req_Body req = RawBody (jsonPrint e (cd_Record_json r))" for req
    using that assms by (intro carries_json) (auto simp: cd_Record_json_def json_text)
  then show ?thesis
    unfolding cd_addTxtRecord_def
    by (intro ensures_mono [OF cd_doAPIRequest_sent [where good = "carries e v"]]) auto
qed

lemma clouddns_Present_sent:
  "ensures is_nil (delivered e (record_value e keyAuth) (answered below_400)) (clouddns_Present e d domain token keyAuth)"
proof -
  have sent: "ensures is_ok (delivered e v (answered below_400)) (cd_AddRecord e c zone name v)" for c zone name v
    unfolding cd_AddRecord_def
    by (intro ensures_check_first [OF cd_addTxtRecord_sent] ensures_check_later always_intros) simp
  show ?thesis
    unfolding clouddns_Present_def by (intro ensures_try_first [OF sent] ensures_intros always_intros)
qed

interpretation clouddns: hosting e "clouddns_provider e d" "answered below_400" for e d
  by (rule hostingI [OF outsider.clouddns_keeps]) (simp add: clouddns_Present_sent clouddns_provider_def)

text \<open>What \<^verbatim>\<open>Present\<close> and \<^verbatim>\<open>CleanUp\<close> change is published before they report success.\<close>

definition cd_publishes :: "clouddns \<Rightarrow> event \<Rightarrow> bool" where
  "cd_publishes d ev \<longleftrightarrow> (\<exists>req resp domainID. ev = EvHttp req (Inr resp) \<and> below_400 resp \<and> req_Method req = ''PUT''
     \<and> req_URL req = cdc_apiBaseURL (cd_client d) @ ''/domain/'' @ domainID @ ''/publish'')"

lemma cd_publishRecords_sent:
  "ensures is_ok (cd_publishes d) (cd_publishRecords e (cd_client d) domainID)"
  unfolding cd_publishRecords_def
  by (intro ensures_mono [OF cd_doAPIRequest_sent [where good =
        "\<lambda>req. req_Method req = ''PUT'' \<and> req_URL req = cdc_apiBaseURL (cd_client d) @ ''/domain/'' @ domainID @ ''/publish''"]])
    (auto simp: cd_publishes_def)

lemma clouddns_published:
  "ensures is_nil (cd_publishes d) (clouddns_Present e d domain token keyAuth)"
  "ensures is_nil (cd_publishes d) (clouddns_CleanUp e d domain token keyAuth)"
proof -
  have add: "ensures is_ok (cd_publishes d) (cd_AddRecord e (cd_client d) zone name v)" for zone name v
    unfolding cd_AddRecord_def by (intro cd_publishRecords_sent ensures_check_later always_intros)
  have del: "ensures is_ok (cd_publishes d) (cd_DeleteRecord e (cd_client d) zone name)" for zone name
    unfolding cd_DeleteRecord_def by (intro cd_publishRecords_sent ensures_check_later always_intros)
  show "ensures is_nil (cd_publishes d) (clouddns_Present e d domain token keyAuth)"
    "ensures is_nil (cd_publishes d) (clouddns_CleanUp e d domain token keyAuth)"
    unfolding clouddns_Present_def clouddns_CleanUp_def
    by (intro ensures_try_first [OF add] ensures_try_first [OF del] ensures_intros always_intros)+
qed

end
