(* ===== verification/Pdns.thy ===== *)
theory Pdns
  imports Hosting
begin

text \<open>
  Package \<^verbatim>\<open>providers/dns/pdns\<close>.  The constructor asks the server for the versions of its interface; without an
  answer the oldest one is used.  \<^verbatim>\<open>Present\<close> replaces the set of records of a name by the old records and the
  new one; \<^verbatim>\<open>CleanUp\<close> deletes the whole set.
\<close>

section \<open>Data\<close>

record pdns_Record =
  pdr_Content :: string
  pdr_Disabled :: bool
  pdr_Name :: string
  pdr_Type :: string
  pdr_TTL :: int

definition pdns_Record_json :: "pdns_Record \<Rightarrow> json" where
  "pdns_Record_json r =
     JObj ([(''content'', JStr (pdr_Content r)), (''disabled'', JBool (pdr_Disabled r)), (''name'', JStr (pdr_Name r)),
            (''type'', JStr (pdr_Type r))] @ omit_int ''ttl'' (pdr_TTL r))"

definition pdns_Record_of_json :: "json \<Rightarrow> goerror + pdns_Record" where
  "pdns_Record_of_json = decode_struct (\<lambda>k v r.
     if k = ''content'' then set_str v (\<lambda>s. r\<lparr>pdr_Content := s\<rparr>) r
     else if k = ''disabled'' then set_bool v (\<lambda>b. r\<lparr>pdr_Disabled := b\<rparr>) r
     else if k = ''name'' then set_str v (\<lambda>s. r\<lparr>pdr_Name := s\<rparr>) r
     else if k = ''type'' then set_str v (\<lambda>s. r\<lparr>pdr_Type := s\<rparr>) r
     else if k = ''ttl'' then set_int v (\<lambda>n. r\<lparr>pdr_TTL := n\<rparr>) r
     else Inr r) \<lparr>pdr_Content = [], pdr_Disabled = False, pdr_Name = [], pdr_Type = [], pdr_TTL = 0\<rparr>"

record pdns_rrSet =
  pds_Name :: string
  pds_Type :: string
  pds_Kind :: string
  pds_ChangeType :: string
  pds_Records :: "pdns_Record list"
  pds_TTL :: int

text \<open>A set is written either with the new record in it or with no list at all.\<close>

definition pdns_rrSet_json :: "pdns_rrSet \<Rightarrow> json" where
  "pdns_rrSet_json s =
     JObj ([(''name'', JStr (pds_Name s)), (''type'', JStr (pds_Type s)), (''kind'', JStr (pds_Kind s)),
            (''changetype'', JStr (pds_ChangeType s)),
            (''records'', if pds_Records s = [] then JNull else JArr (map pdns_Record_json (pds_Records s)))]
       @ omit_int ''ttl'' (pds_TTL s))"

definition zero_pdns_rrSet :: pdns_rrSet where
  "zero_pdns_rrSet =
     \<lparr>pds_Name = [], pds_Type = [], pds_Kind = [], pds_ChangeType = [], pds_Records = [], pds_TTL = 0\<rparr>"

definition pdns_rrSet_of_json :: "json \<Rightarrow> goerror + pdns_rrSet" where
  "pdns_rrSet_of_json = decode_struct (\<lambda>k v r.
     if k = ''name'' then set_str v (\<lambda>s. r\<lparr>pds_Name := s\<rparr>) r
     else if k = ''type'' then set_str v (\<lambda>s. r\<lparr>pds_Type := s\<rparr>) r
     else if k = ''kind'' then set_str v (\<lambda>s. r\<lparr>pds_Kind := s\<rparr>) r
     else if k = ''changetype'' then set_str v (\<lambda>s. r\<lparr>pds_ChangeType := s\<rparr>) r
     else if k = ''records'' then set_list pdns_Record_of_json v (\<lambda>l. r\<lparr>pds_Records := l\<rparr>)
     else if k = ''ttl'' then set_int v (\<lambda>n. r\<lparr>pds_TTL := n\<rparr>) r
     else Inr r) zero_pdns_rrSet"

definition pdns_rrSets_json :: "pdns_rrSet list \<Rightarrow> json" where
  "pdns_rrSets_json sets = JObj [(''rrsets'', JArr (map pdns_rrSet_json sets))]"

record pdns_hostedZone =
  pdz_ID :: string
  pdz_Name :: string
  pdz_URL :: string
  pdz_RRSets :: "pdns_rrSet list"
  pdz_Records :: "pdns_Record list"

definition pdns_hostedZone_of_json :: "json \<Rightarrow> goerror + pdns_hostedZone" where
  "pdns_hostedZone_of_json = decode_struct (\<lambda>k v z.
     if k = ''id'' then set_str v (\<lambda>s. z\<lparr>pdz_ID := s\<rparr>) z
     else if k = ''name'' then set_str v (\<lambda>s. z\<lparr>pdz_Name := s\<rparr>) z
     else if k = ''url'' then set_str v (\<lambda>s. z\<lparr>pdz_URL := s\<rparr>) z
     else if k = ''rrsets'' then set_list pdns_rrSet_of_json v (\<lambda>l. z\<lparr>pdz_RRSets := l\<rparr>)
     else if k = ''records'' then set_list pdns_Record_of_json v (\<lambda>l. z\<lparr>pdz_Records := l\<rparr>)
     else Inr z) \<lparr>pdz_ID = [], pdz_Name = [], pdz_URL = [], pdz_RRSets = [], pdz_Records = []\<rparr>"

definition pdns_apiError_of_json :: "json \<Rightarrow> goerror + string" where
  "pdns_apiError_of_json = decode_struct (\<lambda>k v m. if k = ''error'' then set_str v (\<lambda>s. s) m else Inr m) []"

text \<open>The number of an \<^verbatim>\<open>apiVersion\<close>.\<close>

definition pdns_apiVersion_of_json :: "json \<Rightarrow> goerror + int" where
  "pdns_apiVersion_of_json = decode_struct (\<lambda>k v n.
     if k = ''url'' then set_str v (\<lambda>s. n) n
     else if k = ''version'' then set_int v (\<lambda>i. i) n
     else Inr n) 0"

section \<open>The client\<close>

record pdns_config = ttl_config +
  pd_APIKey :: string
  pd_Host :: "url option"

record pdns =
  pd_apiVersion :: int
  pd_config :: pdns_config

text \<open>The host is a pointer that the constructor has found not to be nil.\<close>

definition pdns_host :: "pdns \<Rightarrow> url" where
  "pdns_host d = (case pd_Host (pd_config d) of None \<Rightarrow> zero_url | Some u \<Rightarrow> u)"

definition pdns_makeRequest :: "env \<Rightarrow> pdns \<Rightarrow> string \<Rightarrow> string \<Rightarrow> string option \<Rightarrow> goerror + http_request" where
  "pdns_makeRequest e d method uri body =
     (let host = pdns_host d;
          path = (if url_Path host \<noteq> ''/'' then url_Path host else []);
          uri = (if HasPrefix uri ''/'' then uri else ''/'' @ uri);
          uri = (if 0 < pd_apiVersion d \<and> \<not> HasPrefix uri ''/api/v''
                 then ''/api/v'' @ show_int (pd_apiVersion d) @ uri else uri) in
      case NewRequest e method (url_Scheme host @ ''://'' @ url_Host host @ path @ uri) body of
        Inl err \<Rightarrow> Inl err
      | Inr req \<Rightarrow> Inr (Header_Set ''X-API-Key'' (pd_APIKey (pd_config d)) req))"

definition json_space :: "char \<Rightarrow> bool" where
  "json_space ch \<longleftrightarrow> ch \<in> {CHR '' '', CHR 0x09, CHR 0x0A, CHR 0x0D}"

text \<open>A body of white space only is the end of the file for the decoder; it gives a nil message.\<close>

definition pdns_sendRequest ::
  "env \<Rightarrow> pdns \<Rightarrow> string \<Rightarrow> string \<Rightarrow> string option \<Rightarrow> (world, goerror + json option) go" where
  "pdns_sendRequest e d method uri body =
     (case pdns_makeRequest e d method uri body of
        Inl err \<Rightarrow> ret (Inl err)
      | Inr req \<Rightarrow>
          handle (http_do e req) (\<lambda>err. ret (Inl (Wrap ''error talking to PDNS API: '' err))) (\<lambda>resp.
            if resp_StatusCode resp \<noteq> 422 \<and> (resp_StatusCode resp < 200 \<or> 300 \<le> resp_StatusCode resp)
            then ret (Inl (Err (''unexpected HTTP status code '' @ show_int (resp_StatusCode resp)
                   @ '' when fetching '' @ [CHR 0x27] @ req_URL req @ [CHR 0x27])))
            else
              (case resp_Body resp of
                 Inl err \<Rightarrow> ret (Inl err)
               | Inr raw \<Rightarrow>
                   if list_all json_space raw then ret (Inr None)
                   else
                     (case Decode e Inr (Inr raw) of
                        Inl err \<Rightarrow> ret (Inl err)
                      | Inr msg \<Rightarrow>
                          (case msg of
                             JObj ms \<Rightarrow>
                               (case pdns_apiError_of_json msg of
                                  Inl err \<Rightarrow> ret (Inl err)
                                | Inr shortMsg \<Rightarrow>
                                    if shortMsg \<noteq> [] then ret (Inl (Wrap ''error talking to PDNS API: '' (Err shortMsg)))
                                    else ret (Inr (Some msg)))
                           | _ \<Rightarrow> ret (Inr (Some msg)))))))"

text \<open>The records of the old interface, each as a set of its own.\<close>

definition pdns_convert :: "pdns_hostedZone \<Rightarrow> pdns_hostedZone" where
  "pdns_convert z =
     (if pdz_Records z = [] then z
      else z\<lparr>pdz_RRSets := map (\<lambda>r. zero_pdns_rrSet\<lparr>pds_Name := pdr_Name r, pds_Type := pdr_Type r, pds_Records := [r]\<rparr>)
             (pdz_Records z)\<rparr>)"

definition pdns_getHostedZone :: "env \<Rightarrow> pdns \<Rightarrow> string \<Rightarrow> (world, goerror + pdns_hostedZone) go" where
  "pdns_getHostedZone e d fqdn =
     check (FindZoneByFqdn e fqdn) (\<lambda>authZone.
       check (pdns_sendRequest e d ''GET'' ''/servers/localhost/zones'' None) (\<lambda>result.
         case unmarshal_raw (list_of_json pdns_hostedZone_of_json) result of
           Inl err \<Rightarrow> ret (Inl err)
         | Inr zones \<Rightarrow>
             (let u = (case List.find (\<lambda>z. UnFqdn (pdz_Name z) = UnFqdn authZone) zones of
                         None \<Rightarrow> [] | Some z \<Rightarrow> pdz_URL z) in
              check (pdns_sendRequest e d ''GET'' u None) (\<lambda>result.
                case unmarshal_raw pdns_hostedZone_of_json result of
                  Inl err \<Rightarrow> ret (Inl err)
                | Inr zone \<Rightarrow> ret (Inr (pdns_convert zone))))))"

definition pdns_findTxtRecord :: "env \<Rightarrow> pdns \<Rightarrow> string \<Rightarrow> (world, goerror + pdns_rrSet option) go" where
  "pdns_findTxtRecord e d fqdn =
     check (pdns_getHostedZone e d fqdn) (\<lambda>zone.
       check (pdns_sendRequest e d ''GET'' (pdz_URL zone) None) (\<lambda>_.
         ret (Inr (List.find (\<lambda>s. (pds_Name s = UnFqdn fqdn \<or> pds_Name s = fqdn) \<and> pds_Type s = ''TXT'')
           (pdz_RRSets zone)))))"

definition pdns_getAPIVersion :: "env \<Rightarrow> pdns \<Rightarrow> (world, goerror + int) go" where
  "pdns_getAPIVersion e d =
     check (pdns_sendRequest e d ''GET'' ''/api'' None) (\<lambda>result.
       case unmarshal_raw (list_of_json pdns_apiVersion_of_json) result of
         Inl err \<Rightarrow> ret (Inl err)
       | Inr versions \<Rightarrow> ret (Inr (fold (\<lambda>v latest. if latest < v then v else latest) versions 0)))"

section \<open>The provider\<close>

definition pdns_NewDefaultConfig :: "env \<Rightarrow> pdns_config" where
  "pdns_NewDefaultConfig e =
     \<lparr>hcf_PropagationTimeout = GetOrDefaultSecond e ''PDNS_PROPAGATION_TIMEOUT'' (120 * Second),
      hcf_PollingInterval = GetOrDefaultSecond e ''PDNS_POLLING_INTERVAL'' (2 * Second),
      hcf_HTTPTimeout = GetOrDefaultSecond e ''PDNS_HTTP_TIMEOUT'' (30 * Second),
      hcf_TTL = GetOrDefaultInt e ''PDNS_TTL'' (int DefaultTTL), pd_APIKey = [], pd_Host = None\<rparr>"

definition pdns_NewDNSProviderConfig :: "env \<Rightarrow> pdns_config option \<Rightarrow> (world, goerror + pdns) go" where
  "pdns_NewDNSProviderConfig e config =
     (case config of
        None \<Rightarrow> ret (Inl (nil_config ''pdns''))
      | Some c \<Rightarrow>
          if pd_APIKey c = [] then ret (Inl (Err ''pdns: API key missing''))
          else if (case pd_Host c of None \<Rightarrow> True | Some u \<Rightarrow> url_Host u = [])
          then ret (Inl (Err ''pdns: API URL missing''))
          else
            (let d = \<lparr>pd_apiVersion = 0, pd_config = c\<rparr> in
             bind (pdns_getAPIVersion e d) (\<lambda>r.
               ret (Inr (d\<lparr>pd_apiVersion := (case r of Inl _ \<Rightarrow> 0 | Inr v \<Rightarrow> v)\<rparr>)))))"

definition pdns_NewDNSProvider :: "env \<Rightarrow> (world, goerror + pdns) go" where
  "pdns_NewDNSProvider e =
     (case env_Get e [''PDNS_API_KEY'', ''PDNS_API_URL''] of
        Inl err \<Rightarrow> ret (Inl (Wrap ''pdns: '' err))
      | Inr values \<Rightarrow>
          (case url_Parse (env_value values ''PDNS_API_URL'') of
             Inl err \<Rightarrow> ret (Inl (Wrap ''pdns: '' err))
           | Inr hostURL \<Rightarrow>
               pdns_NewDNSProviderConfig e (Some ((pdns_NewDefaultConfig e)
                 \<lparr>pd_Host := Some hostURL, pd_APIKey := env_value values ''PDNS_API_KEY''\<rparr>))))"

definition pdns_Present :: "env \<Rightarrow> pdns \<Rightarrow> string \<Rightarrow> string \<Rightarrow> string \<Rightarrow> (world, goerror option) go" where
  "pdns_Present e d domain token keyAuth =
     bind (GetRecord e domain keyAuth) (\<lambda>(fqdn, value).
       try_or ''pdns: '' (pdns_getHostedZone e d fqdn) (\<lambda>zone.
         let name = (if pd_apiVersion d = 0 then UnFqdn fqdn else fqdn);
             rec = \<lparr>pdr_Content = [CHR 0x22] @ value @ [CHR 0x22], pdr_Disabled = False, pdr_Name = name,
                    pdr_Type = ''TXT'', pdr_TTL = hcf_TTL (pd_config d)\<rparr> in
         try_or ''pdns: '' (pdns_findTxtRecord e d fqdn) (\<lambda>existingRrSet.
           let records = (case existingRrSet of None \<Rightarrow> [] | Some s \<Rightarrow> pds_Records s) @ [rec];
               rrsets = [\<lparr>pds_Name = name, pds_Type = ''TXT'', pds_Kind = ''Master'', pds_ChangeType = ''REPLACE'',
                          pds_Records = records, pds_TTL = hcf_TTL (pd_config d)\<rparr>] in
           try_or ''pdns: '' (pdns_sendRequest e d ''PATCH'' (pdz_URL zone)
             (Some (jsonPrint e (pdns_rrSets_json rrsets)))) (\<lambda>_. ret None))))"

definition pdns_CleanUp :: "env \<Rightarrow> pdns \<Rightarrow> string \<Rightarrow> string \<Rightarrow> string \<Rightarrow> (world, goerror option) go" where
  "pdns_CleanUp e d domain token keyAuth =
     bind (GetRecord e domain keyAuth) (\<lambda>(fqdn, _).
       try_or ''pdns: '' (pdns_getHostedZone e d fqdn) (\<lambda>zone.
         try_or ''pdns: '' (pdns_findTxtRecord e d fqdn) (\<lambda>set.
           case set of
             None \<Rightarrow> ret (Some (Err (''pdns: no existing record found for '' @ fqdn)))
           | Some s \<Rightarrow>
               try_or ''pdns: '' (pdns_sendRequest e d ''PATCH'' (pdz_URL zone) (Some (jsonPrint e (pdns_rrSets_json
                 [zero_pdns_rrSet\<lparr>pds_Name := pds_Name s, pds_Type := pds_Type s, pds_ChangeType := ''DELETE''\<rparr>]))))
                 (\<lambda>_. ret None))))"

definition pdns_Timeout :: "pdns \<Rightarrow> int \<times> int" where
  "pdns_Timeout d = (hcf_PropagationTimeout (pd_config d), hcf_PollingInterval (pd_config d))"

definition pdns_provider :: "env \<Rightarrow> pdns \<Rightarrow> provider" where
  "pdns_provider e d =
     \<lparr>prov_Present = pdns_Present e d, prov_CleanUp = pdns_CleanUp e d,
      prov_Timeout = Some (pdns_Timeout d), prov_Sequential = None\<rparr>"

section \<open>The provider keeps its contract\<close>

lemma pdns_makeRequest_body:
  "pdns_makeRequest e d method uri body = Inr req \<Longrightarrow>
   req_Body req = (case body of None \<Rightarrow> NoBody | Some b \<Rightarrow> RawBody b) \<and> req_Method req = method"
  by (auto simp: pdns_makeRequest_def NewRequest_Inr Let_def split: sum.splits option.splits)

lemma pdns_reply_cases:
  "(case msg of JObj ms \<Rightarrow> f msg | _ \<Rightarrow> g msg) = (if \<exists>ms. msg = JObj ms then f msg else g msg)"
  by (cases msg) auto

context lookup_invariant
begin

lemma always_pdns_sendRequest [always_intros]: "always R (pdns_sendRequest e d method uri body)"
  unfolding pdns_sendRequest_def pdns_reply_cases
  by (intro always_intros always_plain_http) (auto dest!: pdns_makeRequest_body split: option.splits)

lemma always_pdns_getHostedZone [always_intros]: "always R (pdns_getHostedZone e d fqdn)"
  unfolding pdns_getHostedZone_def Let_def by (intro always_intros)

lemma always_pdns [always_intros]:
  "always R (pdns_findTxtRecord e d fqdn)" "always R (pdns_getAPIVersion e d)"
  unfolding pdns_findTxtRecord_def pdns_getAPIVersion_def by (intro always_intros)+

lemma always_pdns_NewDNSProvider [always_intros]: "always R (pdns_NewDNSProvider e)"
  unfolding pdns_NewDNSProvider_def pdns_NewDNSProviderConfig_def Let_def by (intro always_intros)

lemma pdns_keeps: "provider_keeps R (pdns_provider e d)"
  unfolding pdns_provider_def provider_keeps_def
  by (simp, intro conjI allI; unfold pdns_Present_def pdns_CleanUp_def Let_def; intro always_intros)

end

definition pdns_accepts :: "http_response \<Rightarrow> bool" where
  "pdns_accepts resp \<longleftrightarrow> resp_StatusCode resp = 422 \<or> 200 \<le> resp_StatusCode resp \<and> resp_StatusCode resp < 300"

lemma pdns_sendRequest_sent:
  assumes "a @ v @ b \<in> set (json_strings j)"
  shows "ensures is_ok (delivered e v (answered pdns_accepts)) (pdns_sendRequest e d method uri (Some (jsonPrint e j)))"
  unfolding pdns_sendRequest_def pdns_reply_cases handle_def using assms
  by (intro ensures_http [unfolded handle_def] ensures_intros always_intros)
    (auto dest!: pdns_makeRequest_body simp: pdns_accepts_def intro: carries_json_within [where tail = "[]", simplified])

lemma pdns_Present_sent:
  "ensures is_nil (delivered e (record_value e keyAuth) (answered pdns_accepts)) (pdns_Present e d domain token keyAuth)"
  unfolding pdns_Present_def Let_def
  by (intro ensures_try_first [OF pdns_sendRequest_sent [where a = "[CHR 0x22]" and b = "[CHR 0x22]"]]
      ensures_intros ensures_try_later always_intros)
    (auto simp: pdns_rrSets_json_def pdns_rrSet_json_def pdns_Record_json_def)

interpretation pdns: hosting e "pdns_provider e d" "answered pdns_accepts" for e d
  by (rule hostingI [OF outsider.pdns_keeps]) (simp add: pdns_Present_sent pdns_provider_def)

end
