(* ===== verification/Dyn.thy ===== *)
theory Dyn
  imports Hosting
begin

text \<open>
  Package \<^verbatim>\<open>providers/dns/dyn\<close>.  Every operation opens a session, changes the zone, publishes the change and
  closes the session.  The token of the session is a field of the provider that changes: it is kept at the
  address of the provider among the maps of the program, under its name.  The raw text of the messages in a
  reply is shown as the printed JSON value.
\<close>

definition dyn_defaultBaseURL :: string where "dyn_defaultBaseURL = ''https://api.dynect.net/REST''"

record dyn_config = ttl_config +
  dy_CustomerName :: string
  dy_UserName :: string
  dy_Password :: string

record dyn =
  dy_config :: dyn_config
  dy_object :: nat

definition dyn_NewDefaultConfig :: "env \<Rightarrow> dyn_config" where
  "dyn_NewDefaultConfig e =
     \<lparr>hcf_PropagationTimeout = GetOrDefaultSecond e ''DYN_PROPAGATION_TIMEOUT'' DefaultPropagationTimeout,
      hcf_PollingInterval = GetOrDefaultSecond e ''DYN_POLLING_INTERVAL'' DefaultPollingInterval,
      hcf_HTTPTimeout = GetOrDefaultSecond e ''DYN_HTTP_TIMEOUT'' (10 * Second),
      hcf_TTL = GetOrDefaultInt e ''DYN_TTL'' (int DefaultTTL),
      dy_CustomerName = [], dy_UserName = [], dy_Password = []\<rparr>"

definition dyn_NewDNSProviderConfig :: "dyn_config option \<Rightarrow> (world, goerror + dyn) go" where
  "dyn_NewDNSProviderConfig config =
     (case config of
        None \<Rightarrow> ret (Inl (nil_config ''dyn''))
      | Some c \<Rightarrow>
          if dy_CustomerName c = [] \<or> dy_UserName c = [] \<or> dy_Password c = []
          then ret (Inl (Err ''dyn: credentials missing''))
          else bind make_map (\<lambda>a. ret (Inr \<lparr>dy_config = c, dy_object = a\<rparr>)))"

definition dyn_NewDNSProvider :: "env \<Rightarrow> (world, goerror + dyn) go" where
  "dyn_NewDNSProvider e =
     (case env_Get e [''DYN_CUSTOMER_NAME'', ''DYN_USER_NAME'', ''DYN_PASSWORD''] of
        Inl err \<Rightarrow> ret (Inl (Wrap ''dyn: '' err))
      | Inr values \<Rightarrow>
          dyn_NewDNSProviderConfig (Some ((dyn_NewDefaultConfig e)
            \<lparr>dy_CustomerName := env_value values ''DYN_CUSTOMER_NAME'',
             dy_UserName := env_value values ''DYN_USER_NAME'', dy_Password := env_value values ''DYN_PASSWORD''\<rparr>)))"

section \<open>The client\<close>

record dyn_dynResponse =
  dyr_Status :: string
  dyr_Data :: "json option"
  dyr_JobID :: int
  dyr_Messages :: "json option"

definition dyn_dynResponse_of_json :: "json \<Rightarrow> goerror + dyn_dynResponse" where
  "dyn_dynResponse_of_json = decode_struct (\<lambda>k v r.
     if k = ''status'' then set_str v (\<lambda>s. r\<lparr>dyr_Status := s\<rparr>) r
     else if k = ''data'' then Inr (r\<lparr>dyr_Data := Some v\<rparr>)
     else if k = ''job_id'' then set_int v (\<lambda>n. r\<lparr>dyr_JobID := n\<rparr>) r
     else if k = ''msgs'' then Inr (r\<lparr>dyr_Messages := Some v\<rparr>)
     else Inr r) \<lparr>dyr_Status = [], dyr_Data = None, dyr_JobID = 0, dyr_Messages = None\<rparr>"

definition dyn_credentials_json :: "dyn_config \<Rightarrow> json" where
  "dyn_credentials_json c =
     JObj [(''customer_name'', JStr (dy_CustomerName c)), (''user_name'', JStr (dy_UserName c)),
           (''password'', JStr (dy_Password c))]"

text \<open>The token of a \<^verbatim>\<open>session\<close>.\<close>

definition dyn_session_of_json :: "json \<Rightarrow> goerror + string" where
  "dyn_session_of_json = decode_struct (\<lambda>k v t.
     if k = ''token'' then set_str v (\<lambda>s. s) t
     else if k = ''version'' then set_str v (\<lambda>s. t) t
     else Inr t) []"

definition dyn_publish_json :: "string \<Rightarrow> json" where
  "dyn_publish_json notes = JObj [(''publish'', JBool True), (''notes'', JStr notes)]"

definition dyn_token :: "dyn \<Rightarrow> (world, string) go" where
  "dyn_token d = str_field (dy_object d) ''token''"

definition dyn_messages :: "env \<Rightarrow> dyn_dynResponse \<Rightarrow> string" where
  "dyn_messages e r = (case dyr_Messages r of None \<Rightarrow> [] | Some j \<Rightarrow> jsonPrint e j)"

definition dyn_sendRequest ::
  "env \<Rightarrow> dyn \<Rightarrow> string \<Rightarrow> string \<Rightarrow> json \<Rightarrow> (world, goerror + dyn_dynResponse) go" where
  "dyn_sendRequest e d method resource payload =
     bind (dyn_token d) (\<lambda>token.
       check (send e method (dyn_defaultBaseURL @ ''/'' @ resource) (Some (jsonPrint e payload)) (\<lambda>req.
           (if token = [] then (\<lambda>r. r) else Header_Set ''Auth-Token'' token)
             (Header_Set ''Content-Type'' ''application/json'' req))) (\<lambda>resp.
         let code = show_int (resp_StatusCode resp) in
         if 500 \<le> resp_StatusCode resp then ret (Inl (Err (''API request failed with HTTP status code '' @ code)))
         else
           (case Decode e dyn_dynResponse_of_json (resp_Body resp) of
              Inl err \<Rightarrow> ret (Inl err)
            | Inr dynRes \<Rightarrow>
                if 400 \<le> resp_StatusCode resp
                then ret (Inl (Err (''API request failed with HTTP status code '' @ code @ '': '' @ dyn_messages e dynRes)))
                else if resp_StatusCode resp = 307
                then ret (Inl (Err ''API request returned HTTP 307. This is currently unsupported''))
                else if dyr_Status dynRes = ''failure''
                then ret (Inl (Err (''API request failed: '' @ dyn_messages e dynRes)))
                else ret (Inr dynRes))))"

definition dyn_login :: "env \<Rightarrow> dyn \<Rightarrow> (world, goerror + unit) go" where
  "dyn_login e d =
     check (dyn_sendRequest e d ''POST'' ''Session'' (dyn_credentials_json (dy_config d))) (\<lambda>dynRes.
       case dyr_Data dynRes of
         None \<Rightarrow> ret (Inl (Err ''unexpected end of JSON input''))
       | Some j \<Rightarrow>
           (case dyn_session_of_json j of
              Inl err \<Rightarrow> ret (Inl err)
            | Inr token \<Rightarrow> bind (map_set (dy_object d) ''token'' (StrCell token)) (\<lambda>_. ret (Inr ()))))"

text \<open>A request to delete, answered by a status only.\<close>

definition dyn_delete :: "env \<Rightarrow> dyn \<Rightarrow> string \<Rightarrow> (world, goerror + http_response) go" where
  "dyn_delete e d resource =
     bind (dyn_token d) (\<lambda>token.
       send e ''DELETE'' (dyn_defaultBaseURL @ ''/'' @ resource) None (\<lambda>req.
         Header_Set ''Auth-Token'' token (Header_Set ''Content-Type'' ''application/json'' req)))"

definition dyn_logout :: "env \<Rightarrow> dyn \<Rightarrow> (world, goerror option) go" where
  "dyn_logout e d =
     bind (dyn_token d) (\<lambda>token.
       if token = [] then ret None
       else
         handle (dyn_delete e d ''Session'') (\<lambda>err. ret (Some err)) (\<lambda>resp.
           if resp_StatusCode resp \<noteq> 200
           then ret (Some (Err (''API request failed to delete session with HTTP status code ''
                  @ show_int (resp_StatusCode resp))))
           else bind (map_set (dy_object d) ''token'' (StrCell [])) (\<lambda>_. ret None)))"

definition dyn_publish :: "env \<Rightarrow> dyn \<Rightarrow> string \<Rightarrow> string \<Rightarrow> (world, goerror + dyn_dynResponse) go" where
  "dyn_publish e d zone notes = dyn_sendRequest e d ''PUT'' (''Zone/'' @ zone @ ''/'') (dyn_publish_json notes)"

section \<open>The provider\<close>

text \<open>The keys of a map are written in order.\<close>

definition dyn_data_json :: "string \<Rightarrow> int \<Rightarrow> json" where
  "dyn_data_json value ttl =
     JObj [(''rdata'', JObj [(''txtdata'', JStr value)]), (''ttl'', JStr (show_int ttl))]"

definition dyn_Present :: "env \<Rightarrow> dyn \<Rightarrow> string \<Rightarrow> string \<Rightarrow> string \<Rightarrow> (world, goerror option) go" where
  "dyn_Present e d domain token keyAuth =
     bind (GetRecord e domain keyAuth) (\<lambda>(fqdn, value).
       try_or ''dyn: '' (FindZoneByFqdn e fqdn) (\<lambda>authZone.
         try_or ''dyn: '' (dyn_login e d) (\<lambda>_.
           try_or ''dyn: '' (dyn_sendRequest e d ''POST'' (''TXTRecord/'' @ authZone @ ''/'' @ fqdn @ ''/'')
               (dyn_data_json value (hcf_TTL (dy_config d)))) (\<lambda>_.
             try_or ''dyn: '' (dyn_publish e d authZone
                 ''Added TXT record for ACME dns-01 challenge using lego client'') (\<lambda>_.
               dyn_logout e d)))))"

definition dyn_CleanUp :: "env \<Rightarrow> dyn \<Rightarrow> string \<Rightarrow> string \<Rightarrow> string \<Rightarrow> (world, goerror option) go" where
  "dyn_CleanUp e d domain token keyAuth =
     bind (GetRecord e domain keyAuth) (\<lambda>(fqdn, _).
       try_or ''dyn: '' (FindZoneByFqdn e fqdn) (\<lambda>authZone.
         try_or ''dyn: '' (dyn_login e d) (\<lambda>_.
           try_or ''dyn: '' (dyn_delete e d (''TXTRecord/'' @ authZone @ ''/'' @ fqdn @ ''/'')) (\<lambda>resp.
             if resp_StatusCode resp \<noteq> 200
             then ret (Some (Err (''dyn: API request failed to delete TXT record HTTP status code ''
                    @ show_int (resp_StatusCode resp))))
             else
               try_or ''dyn: '' (dyn_publish e d authZone
                   ''Removed TXT record for ACME dns-01 challenge using lego client'') (\<lambda>_.
                 dyn_logout e d)))))"

definition dyn_Timeout :: "dyn \<Rightarrow> int \<times> int" where
  "dyn_Timeout d = (hcf_PropagationTimeout (dy_config d), hcf_PollingInterval (dy_config d))"

definition dyn_provider :: "env \<Rightarrow> dyn \<Rightarrow> provider" where
  "dyn_provider e d =
     \<lparr>prov_Present = dyn_Present e d, prov_CleanUp = dyn_CleanUp e d,
      prov_Timeout = Some (dyn_Timeout d), prov_Sequential = None\<rparr>"

section \<open>The provider keeps its contract\<close>

context plain_invariant
begin

lemma always_dyn_sendRequest [always_intros]:
  "always R (dyn_sendRequest e d method resource payload)" "always R (dyn_delete e d resource)"
  unfolding dyn_sendRequest_def dyn_delete_def dyn_token_def Let_def by (intro always_intros; simp)+

lemma always_dyn [always_intros]:
  "always R (dyn_login e d)" "always R (dyn_logout e d)" "always R (dyn_publish e d zone notes)"
  unfolding dyn_login_def dyn_logout_def dyn_publish_def dyn_token_def by (intro always_intros)+

lemma always_dyn_NewDNSProvider [always_intros]: "always R (dyn_NewDNSProvider e)"
  unfolding dyn_NewDNSProvider_def dyn_NewDNSProviderConfig_def by (intro always_intros)

lemma dyn_keeps: "provider_keeps R (dyn_provider e d)"
  unfolding dyn_provider_def
  by (rule provider_keepsI; unfold dyn_Present_def dyn_CleanUp_def) (intro always_intros)+

end

definition dyn_accepts :: "http_response \<Rightarrow> bool" where
  "dyn_accepts resp \<longleftrightarrow> resp_StatusCode resp < 400 \<and> resp_StatusCode resp \<noteq> 307"

lemma dyn_sendRequest_sent:
  assumes "v \<in> set (json_strings payload)"
  shows "ensures is_ok (delivered e v (answered dyn_accepts)) (dyn_sendRequest e d method resource payload)"
  unfolding dyn_sendRequest_def dyn_token_def Let_def using assms
  by (intro ensures_intros ensures_later always_intros)
    (auto simp: NewRequest_Inr dyn_accepts_def intro!: carries_json)

lemma dyn_Present_sent:
  "ensures is_nil (delivered e (record_value e keyAuth) (answered dyn_accepts)) (dyn_Present e d domain token keyAuth)"
  unfolding dyn_Present_def
  by (intro ensures_try_first [OF dyn_sendRequest_sent] ensures_intros ensures_try_later always_intros)
    (simp add: dyn_data_json_def)

interpretation dyn: hosting e "dyn_provider e d" "answered dyn_accepts" for e d
  by (rule hostingI [OF outsider.dyn_keeps]) (simp add: dyn_Present_sent dyn_provider_def)

end
