(* ===== verification/Mythicbeasts.thy ===== *)
theory Mythicbeasts
  imports Hosting
begin

text \<open>
  Package \<^verbatim>\<open>providers/dns/mythicbeasts\<close>.  The provider logs in before its first change and keeps the token: that
  field, the only one that changes, is kept at the address of the provider among the maps of the program,
  under its name.  The provider has no \<^verbatim>\<open>Timeout\<close> method, so that its two settings for it have no effect.
\<close>

definition mythicbeasts_apiBaseURL :: string where "mythicbeasts_apiBaseURL = ''https://api.mythic-beasts.com/dns/v2''"
definition mythicbeasts_authBaseURL :: string where "mythicbeasts_authBaseURL = ''https://auth.mythic-beasts.com/login''"

text \<open>The endpoints are pointers, never nil in a configuration made by \<^verbatim>\<open>NewDefaultConfig\<close>.\<close>

record mythicbeasts_config = ttl_config +
  mb_UserName :: string
  mb_Password :: string
  mb_APIEndpoint :: url
  mb_AuthAPIEndpoint :: url

record mythicbeasts =
  mb_config :: mythicbeasts_config
  mb_object :: nat

definition mythicbeasts_NewDefaultConfig :: "env \<Rightarrow> goerror + mythicbeasts_config" where
  "mythicbeasts_NewDefaultConfig e =
     (case url_Parse (GetOrDefaultString e ''MYTHICBEASTS_API_ENDPOINT'' mythicbeasts_apiBaseURL) of
        Inl err \<Rightarrow> Inl (Wrap ''mythicbeasts: Unable to parse API URL: '' err)
      | Inr apiEndpoint \<Rightarrow>
          (case url_Parse (GetOrDefaultString e ''MYTHICBEASTS_AUTH_API_ENDPOINT'' mythicbeasts_authBaseURL) of
             Inl err \<Rightarrow> Inl (Wrap ''mythicbeasts: Unable to parse AUTH API URL: '' err)
           | Inr authEndpoint \<Rightarrow>
               Inr \<lparr>hcf_PropagationTimeout =
                      GetOrDefaultSecond e ''MYTHICBEASTS_PROPAGATION_TIMEOUT'' DefaultPropagationTimeout,
                    hcf_PollingInterval = GetOrDefaultSecond e ''MYTHICBEASTS_POLLING_INTERVAL'' DefaultPollingInterval,
                    hcf_HTTPTimeout = GetOrDefaultSecond e ''MYTHICBEASTS_HTTP_TIMEOUT'' (10 * Second),
                    hcf_TTL = GetOrDefaultInt e ''MYTHICBEASTS_TTL'' (int DefaultTTL),
                    mb_UserName = [], mb_Password = [], mb_APIEndpoint = apiEndpoint, mb_AuthAPIEndpoint = authEndpoint\<rparr>))"

definition mythicbeasts_NewDNSProviderConfig :: "mythicbeasts_config option \<Rightarrow> (world, goerror + mythicbeasts) go" where
  "mythicbeasts_NewDNSProviderConfig config =
     (case config of
        None \<Rightarrow> ret (Inl (nil_config ''mythicbeasts''))
      | Some c \<Rightarrow>
          if mb_UserName c = [] \<or> mb_Password c = []
          then ret (Inl (Err ''mythicbeasts: incomplete credentials, missing username and/or password''))
          else bind make_map (\<lambda>a. ret (Inr \<lparr>mb_config = c, mb_object = a\<rparr>)))"

definition mythicbeasts_NewDNSProvider :: "env \<Rightarrow> (world, goerror + mythicbeasts) go" where
  "mythicbeasts_NewDNSProvider e =
     (case env_Get e [''MYTHICBEASTS_USERNAME'', ''MYTHICBEASTS_PASSWORD''] of
        Inl err \<Rightarrow> ret (Inl (Wrap ''mythicbeasts: '' err))
      | Inr values \<Rightarrow>
          (case mythicbeasts_NewDefaultConfig e of
             Inl err \<Rightarrow> ret (Inl (Wrap ''mythicbeasts: '' err))
           | Inr config \<Rightarrow>
               mythicbeasts_NewDNSProviderConfig (Some (config
                 \<lparr>mb_UserName := env_value values ''MYTHICBEASTS_USERNAME'',
                  mb_Password := env_value values ''MYTHICBEASTS_PASSWORD''\<rparr>))))"

section \<open>The client\<close>

record mb_authResponse =
  mba_Token :: string
  mba_Lifetime :: int
  mba_TokenType :: string

definition mb_authResponse_of_json :: "json \<Rightarrow> goerror + mb_authResponse" where
  "mb_authResponse_of_json = decode_struct (\<lambda>k v r.
     if k = ''access_token'' then set_str v (\<lambda>s. r\<lparr>mba_Token := s\<rparr>) r
     else if k = ''expires_in'' then set_int v (\<lambda>n. r\<lparr>mba_Lifetime := n\<rparr>) r
     else if k = ''token_type'' then set_str v (\<lambda>s. r\<lparr>mba_TokenType := s\<rparr>) r
     else Inr r) \<lparr>mba_Token = [], mba_Lifetime = 0, mba_TokenType = []\<rparr>"

text \<open>The text of an \<^verbatim>\<open>authResponseError\<close> is its two fields.\<close>

definition mb_authResponseError_of_json :: "json \<Rightarrow> goerror + string \<times> string" where
  "mb_authResponseError_of_json = decode_struct (\<lambda>k v (m, d).
     if k = ''error'' then set_str v (\<lambda>s. (s, d)) (m, d)
     else if k = ''error_description'' then set_str v (\<lambda>s. (m, s)) (m, d)
     else Inr (m, d)) ([], [])"

definition mb_authResponseError_Error :: "string \<times> string \<Rightarrow> string" where
  "mb_authResponseError_Error a = fst a @ '': '' @ snd a"

record mb_createTXTRecord =
  mbr_Host :: string
  mbr_TTL :: int
  mbr_Type :: string
  mbr_Data :: string

definition mb_createTXTRecord_json :: "mb_createTXTRecord \<Rightarrow> json" where
  "mb_createTXTRecord_json r =
     JObj [(''host'', JStr (mbr_Host r)), (''ttl'', JNum (mbr_TTL r)), (''type'', JStr (mbr_Type r)),
           (''data'', JStr (mbr_Data r))]"

definition mb_createTXTRequest_json :: "mb_createTXTRecord list \<Rightarrow> json" where
  "mb_createTXTRequest_json rs = JObj [(''records'', JArr (map mb_createTXTRecord_json rs))]"

text \<open>The numbers of records added and removed that a reply tells.\<close>

definition mb_createTXTResponse_of_json :: "json \<Rightarrow> goerror + int" where
  "mb_createTXTResponse_of_json = decode_struct (\<lambda>k v n.
     if k = ''records_added'' then set_int v (\<lambda>i. i) n
     else if k = ''records_removed'' then set_int v (\<lambda>i. n) n
     else if k = ''message'' then set_str v (\<lambda>s. n) n
     else Inr n) 0"

definition mb_deleteTXTResponse_of_json :: "json \<Rightarrow> goerror + int" where
  "mb_deleteTXTResponse_of_json = decode_struct (\<lambda>k v n.
     if k = ''records_removed'' then set_int v (\<lambda>i. i) n
     else if k = ''message'' then set_str v (\<lambda>s. n) n
     else Inr n) 0"

definition mb_token :: "mythicbeasts \<Rightarrow> (world, string) go" where
  "mb_token d = str_field (mb_object d) ''token''"

definition mb_login :: "env \<Rightarrow> mythicbeasts \<Rightarrow> (world, goerror + unit) go" where
  "mb_login e d =
     bind (mb_token d) (\<lambda>token.
       if token \<noteq> [] then ret (Inr ())
       else
         check (send e ''POST'' (url_String (mb_AuthAPIEndpoint (mb_config d))) (Some ''grant_type=client_credentials'')
             (\<lambda>req. SetBasicAuth (mb_UserName (mb_config d)) (mb_Password (mb_config d))
               (Header_Add ''Content-Type'' ''application/x-www-form-urlencoded'' req))) (\<lambda>resp.
           let code = show_int (resp_StatusCode resp) in
           case resp_Body resp of
             Inl err \<Rightarrow> ret (Inl (Wrap ''login: '' err))
           | Inr body \<Rightarrow>
               if resp_StatusCode resp \<noteq> 200 then
                 (if resp_StatusCode resp < 400 \<or> 499 < resp_StatusCode resp
                  then ret (Inl (Err (''login: unknown error in auth API: '' @ code)))
                  else
                    (case Unmarshal e mb_authResponseError_of_json body of
                       Inl err \<Rightarrow> ret (Inl (Wrap ''login: error parsing error: '' err))
                     | Inr errResp \<Rightarrow>
                         ret (Inl (Wrap (''login: '' @ code @ '': '') (Err (mb_authResponseError_Error errResp))))))
               else
                 (case Unmarshal e mb_authResponse_of_json body of
                    Inl err \<Rightarrow> ret (Inl (Wrap ''login: error parsing response: '' err))
                  | Inr authResp \<Rightarrow>
                      if mba_TokenType authResp \<noteq> ''bearer''
                      then ret (Inl (Err (''login: received unexpected token type: '' @ mba_TokenType authResp)))
                      else bind (map_set (mb_object d) ''token'' (StrCell (mba_Token authResp))) (\<lambda>_. ret (Inr ())))))"

definition mb_endpoint :: "mythicbeasts \<Rightarrow> string \<Rightarrow> string \<Rightarrow> goerror + url" where
  "mb_endpoint d zone leaf =
     url_ParseRef (mb_APIEndpoint (mb_config d))
       (path_Join [url_Path (mb_APIEndpoint (mb_config d)), ''zones'', zone, ''records'', leaf, ''TXT''])"

text \<open>The end of both changes: one record must have been added or removed.\<close>

definition mb_one_record ::
  "env \<Rightarrow> string \<Rightarrow> (json \<Rightarrow> goerror + int) \<Rightarrow> goerror \<Rightarrow> http_response \<Rightarrow> goerror option" where
  "mb_one_record e what dec failed resp =
     (case resp_Body resp of
        Inl err \<Rightarrow> Some (Wrap (what @ '': '') err)
      | Inr body \<Rightarrow>
          if resp_StatusCode resp \<noteq> 200
          then Some (Err (what @ '': error in API: '' @ show_int (resp_StatusCode resp)))
          else
            (case Unmarshal e dec body of
               Inl err \<Rightarrow> Some (Wrap (what @ '': error parsing response: '') err)
             | Inr n \<Rightarrow> if n \<noteq> 1 then Some failed else None))"

definition mb_createTXTRecord :: "env \<Rightarrow> mythicbeasts \<Rightarrow> string \<Rightarrow> string \<Rightarrow> string \<Rightarrow> (world, goerror option) go" where
  "mb_createTXTRecord e d zone leaf value =
     bind (mb_token d) (\<lambda>token.
       if token = [] then ret (Some (Err ''createTXTRecord: not logged in''))
       else
         (case mb_endpoint d zone leaf of
            Inl err \<Rightarrow> ret (Some (Wrap ''createTXTRecord: failed to parse URL: '' err))
          | Inr endpoint \<Rightarrow>
              handle (send_as (Wrap ''createTXTRecord: '') (Wrap ''createTXTRecord: unable to perform HTTP request: '')
                  e ''POST'' (url_String endpoint)
                  (Some (jsonPrint e (mb_createTXTRequest_json [\<lparr>mbr_Host = leaf, mbr_TTL = hcf_TTL (mb_config d),
                     mbr_Type = ''TXT'', mbr_Data = value\<rparr>])))
                  (\<lambda>req. Header_Add ''Content-Type'' ''application/json''
                    (Header_Add ''Authorization'' (''Bearer '' @ token) req)))
                (\<lambda>err. ret (Some err)) (\<lambda>resp.
                ret (mb_one_record e ''createTXTRecord'' mb_createTXTResponse_of_json
                  (Err ''createTXTRecord: did not add TXT record for some reason'') resp))))"

definition mb_removeTXTRecord :: "env \<Rightarrow> mythicbeasts \<Rightarrow> string \<Rightarrow> string \<Rightarrow> string \<Rightarrow> (world, goerror option) go" where
  "mb_removeTXTRecord e d zone leaf value =
     bind (mb_token d) (\<lambda>token.
       if token = [] then ret (Some (Err ''removeTXTRecord: not logged in''))
       else
         (case mb_endpoint d zone leaf of
            Inl err \<Rightarrow> ret (Some (Wrap ''createTXTRecord: failed to parse URL: '' err))
          | Inr endpoint \<Rightarrow>
              (let endpoint = endpoint\<lparr>url_RawQuery := Values_Encode (Values_Add ''data'' value
                     (ParseQuery (url_RawQuery endpoint)))\<rparr> in
               handle (send_as (Wrap ''removeTXTRecord: '') (Wrap ''removeTXTRecord: unable to perform HTTP request: '')
                   e ''DELETE'' (url_String endpoint) None (Header_Add ''Authorization'' (''Bearer '' @ token)))
                 (\<lambda>err. ret (Some err)) (\<lambda>resp.
                 ret (mb_one_record e ''removeTXTRecord'' mb_deleteTXTResponse_of_json
                   (Err ''deleteTXTRecord: did not add TXT record for some reason'') resp)))))"

section \<open>The provider\<close>

text \<open>
  Both operations: find the zone, log in, and do the change.  The leaf is the name without the zone; a zone
  as long as the name is out of range.
\<close>

definition mb_operation ::
  "env \<Rightarrow> mythicbeasts \<Rightarrow> (string \<Rightarrow> string \<Rightarrow> string \<Rightarrow> (world, goerror option) go) \<Rightarrow> string \<Rightarrow> string
    \<Rightarrow> (world, goerror option) go" where
  "mb_operation e d change domain keyAuth =
     bind (GetRecord e domain keyAuth) (\<lambda>(fqdn, value).
       try_or ''mythicbeasts: '' (FindZoneByFqdn e fqdn) (\<lambda>authZone.
         if length fqdn < length authZone + 1 then panic ''slice bounds out of range''
         else
           (let leaf = take (length fqdn - (length authZone + 1)) fqdn in
            try_or ''mythicbeasts: '' (mb_login e d) (\<lambda>_.
              wrap_err ''mythicbeasts: '' (change (UnFqdn authZone) leaf value)))))"

definition mythicbeasts_Present :: "env \<Rightarrow> mythicbeasts \<Rightarrow> string \<Rightarrow> string \<Rightarrow> string \<Rightarrow> (world, goerror option) go" where
  "mythicbeasts_Present e d domain token keyAuth = mb_operation e d (mb_createTXTRecord e d) domain keyAuth"

definition mythicbeasts_CleanUp :: "env \<Rightarrow> mythicbeasts \<Rightarrow> string \<Rightarrow> string \<Rightarrow> string \<Rightarrow> (world, goerror option) go" where
  "mythicbeasts_CleanUp e d domain token keyAuth = mb_operation e d (mb_removeTXTRecord e d) domain keyAuth"

definition mythicbeasts_provider :: "env \<Rightarrow> mythicbeasts \<Rightarrow> provider" where
  "mythicbeasts_provider e d =
     \<lparr>prov_Present = mythicbeasts_Present e d, prov_CleanUp = mythicbeasts_CleanUp e d,
      prov_Timeout = None, prov_Sequential = None\<rparr>"

section \<open>The provider keeps its contract\<close>

context plain_invariant
begin

lemma always_mythicbeasts [always_intros]:
  "always R (mb_login e d)" "always R (mb_createTXTRecord e d zone leaf value)"
  "always R (mb_removeTXTRecord e d zone leaf value)"
  unfolding mb_login_def mb_createTXTRecord_def mb_removeTXTRecord_def mb_token_def Let_def
  by (intro always_intros; simp)+

lemma always_mythicbeasts_NewDNSProvider [always_intros]: "always R (mythicbeasts_NewDNSProvider e)"
  unfolding mythicbeasts_NewDNSProvider_def mythicbeasts_NewDNSProviderConfig_def by (intro always_intros)

lemma mythicbeasts_keeps: "provider_keeps R (mythicbeasts_provider e d)"
  unfolding mythicbeasts_provider_def
  by (rule provider_keepsI; unfold mythicbeasts_Present_def mythicbeasts_CleanUp_def mb_operation_def Let_def)
    (intro always_intros)+

end

text \<open>The service says that it added one record.\<close>

definition mb_added :: "env \<Rightarrow> http_response \<Rightarrow> bool" where
  "mb_added e resp \<longleftrightarrow> resp_StatusCode resp = 200
     \<and> (\<exists>body. resp_Body resp = Inr body \<and> Unmarshal e mb_createTXTResponse_of_json body = Inr 1)"

lemma mb_one_record_None:
  "mb_one_record e what mb_createTXTResponse_of_json failed resp = None \<longleftrightarrow> mb_added e resp"
  by (auto simp: mb_one_record_def mb_added_def split: sum.split)

lemma mb_createTXTRecord_sent:
  "ensures is_nil (delivered e value (answered (mb_added e))) (mb_createTXTRecord e d zone leaf value)"
  unfolding mb_createTXTRecord_def mb_token_def
  by (intro ensures_intros ensures_later always_intros)
    (auto simp: NewRequest_Inr mb_one_record_None mb_createTXTRequest_json_def mb_createTXTRecord_json_def
      intro!: carries_json)

lemma mythicbeasts_Present_sent:
  "ensures is_nil (delivered e (record_value e keyAuth) (answered (mb_added e)))
     (mythicbeasts_Present e d domain token keyAuth)"
  unfolding mythicbeasts_Present_def mb_operation_def Let_def
  by (intro mb_createTXTRecord_sent ensures_intros ensures_try_later always_intros)

interpretation mythicbeasts: hosting e "mythicbeasts_provider e d" "answered (mb_added e)" for e d
  by (rule hostingI [OF outsider.mythicbeasts_keeps]) (simp add: mythicbeasts_Present_sent mythicbeasts_provider_def)

end
