(* ===== verification/Bluecat.thy ===== *)
theory Bluecat
  imports Hosting
begin

text \<open>
  Package \<^verbatim>\<open>providers/dns/bluecat\<close>.  The token of the session is a field of the provider, here an entry of the
  map at \<open>bc_object\<close>.  The zone of a name is found from the top: each label is looked up below the zone found so
  far, until one is not there.  Entities are numbered by 64-bit words without sign.
\<close>

definition bluecat_configType :: string where "bluecat_configType = ''Configuration''"
definition bluecat_viewType :: string where "bluecat_viewType = ''View''"
definition bluecat_zoneType :: string where "bluecat_zoneType = ''Zone''"
definition bluecat_txtType :: string where "bluecat_txtType = ''TXTRecord''"

record bluecat_config = ttl_config +
  bc_BaseURL :: string
  bc_UserName :: string
  bc_Password :: string
  bc_ConfigName :: string
  bc_DNSView :: string

definition bluecat_NewDefaultConfig :: "env \<Rightarrow> bluecat_config" where
  "bluecat_NewDefaultConfig e =
     \<lparr>hcf_PropagationTimeout = GetOrDefaultSecond e ''BLUECAT_PROPAGATION_TIMEOUT'' DefaultPropagationTimeout,
      hcf_PollingInterval = GetOrDefaultSecond e ''BLUECAT_POLLING_INTERVAL'' DefaultPollingInterval,
      hcf_HTTPTimeout = GetOrDefaultSecond e ''BLUECAT_HTTP_TIMEOUT'' (30 * Second),
      hcf_TTL = GetOrDefaultInt e ''BLUECAT_TTL'' (int DefaultTTL),
      bc_BaseURL = [], bc_UserName = [], bc_Password = [], bc_ConfigName = [], bc_DNSView = []\<rparr>"

record bluecat =
  bc_config :: bluecat_config
  bc_object :: nat

definition bluecat_NewDNSProviderConfig :: "bluecat_config option \<Rightarrow> (world, goerror + bluecat) go" where
  "bluecat_NewDNSProviderConfig config =
     (case config of
        None \<Rightarrow> ret (Inl (nil_config ''bluecat''))
      | Some c \<Rightarrow>
          if bc_BaseURL c = [] \<or> bc_UserName c = [] \<or> bc_Password c = [] \<or> bc_ConfigName c = [] \<or> bc_DNSView c = []
          then ret (Inl (Err ''bluecat: credentials missing''))
          else bind make_map (\<lambda>a. ret (Inr \<lparr>bc_config = c, bc_object = a\<rparr>)))"

definition bluecat_NewDNSProvider :: "env \<Rightarrow> (world, goerror + bluecat) go" where
  "bluecat_NewDNSProvider e =
     (case env_Get e [''BLUECAT_SERVER_URL'', ''BLUECAT_USER_NAME'', ''BLUECAT_PASSWORD'', ''BLUECAT_CONFIG_NAME'',
          ''BLUECAT_DNS_VIEW''] of
        Inl err \<Rightarrow> ret (Inl (Wrap ''bluecat: '' err))
      | Inr values \<Rightarrow>
          bluecat_NewDNSProviderConfig (Some ((bluecat_NewDefaultConfig e)
            \<lparr>bc_BaseURL := env_value values ''BLUECAT_SERVER_URL'', bc_UserName := env_value values ''BLUECAT_USER_NAME'',
             bc_Password := env_value values ''BLUECAT_PASSWORD'', bc_ConfigName := env_value values ''BLUECAT_CONFIG_NAME'',
             bc_DNSView := env_value values ''BLUECAT_DNS_VIEW''\<rparr>)))"

section \<open>Texts\<close>

text \<open>\<^verbatim>\<open>strings.Contains\<close>, \<^verbatim>\<open>strings.Trim\<close> with one character, and \<^verbatim>\<open>strconv.ParseUint(s, 10, 64)\<close>.\<close>

definition str_contains :: "string \<Rightarrow> string \<Rightarrow> bool" where
  "str_contains s sub \<longleftrightarrow> str_index s sub \<noteq> None"

definition trim_char :: "char \<Rightarrow> string \<Rightarrow> string" where
  "trim_char c = TrimFunc (\<lambda>x. x = c)"

definition ParseUint :: "string \<Rightarrow> int option" where
  "ParseUint s =
     (if s \<noteq> [] \<and> list_all is_digit s \<and> digits_value s < 2 ^ 64 then Some (digits_value s) else None)"

text \<open>
  \<^verbatim>\<open>FindString\<close> for the pattern \<^verbatim>\<open>BAMAuthToken: [^ ]+\<close>: the leftmost place where the prefix is followed by a
  character other than a blank, up to the next blank; empty when there is none.
\<close>

fun bc_find_token :: "string \<Rightarrow> string" where
  "bc_find_token [] = []"
| "bc_find_token (c # s) =
     (let rest = drop (length ''BAMAuthToken: '') (c # s) in
      if HasPrefix (c # s) ''BAMAuthToken: '' \<and> rest \<noteq> [] \<and> hd rest \<noteq> CHR '' ''
      then ''BAMAuthToken: '' @ takeWhile (\<lambda>x. x \<noteq> CHR '' '') rest
      else bc_find_token s)"

section \<open>The client\<close>

definition bc_bluecatEntity_json :: "string \<Rightarrow> string \<Rightarrow> string \<Rightarrow> json" where
  "bc_bluecatEntity_json name ty properties =
     JObj [(''name'', JStr name), (''type'', JStr ty), (''properties'', JStr properties)]"

text \<open>The number of an entity; the other members must be texts.\<close>

definition set_uint :: "json \<Rightarrow> (int \<Rightarrow> 'a) \<Rightarrow> 'a \<Rightarrow> goerror + 'a" where
  "set_uint v upd a =
     (case v of JNum i \<Rightarrow> if 0 \<le> i \<and> i < 2 ^ 64 then Inr (upd i) else Inl type_error
      | JNull \<Rightarrow> Inr a | _ \<Rightarrow> Inl type_error)"

definition bc_entityResponse_of_json :: "json \<Rightarrow> goerror + int" where
  "bc_entityResponse_of_json = decode_struct (\<lambda>k v i.
     if k = ''id'' then set_uint v (\<lambda>n. n) i
     else if k = ''name'' \<or> k = ''type'' \<or> k = ''properties'' then set_str v (\<lambda>_. i) i
     else Inr i) 0"

definition bluecat_sendRequest ::
  "env \<Rightarrow> bluecat \<Rightarrow> string \<Rightarrow> string \<Rightarrow> json \<Rightarrow> (string \<times> string) list \<Rightarrow> (world, goerror + http_response) go" where
  "bluecat_sendRequest e d method resource payload queryArgs =
     bind (str_field (bc_object d) ''token'') (\<lambda>token.
       let url = bc_BaseURL (bc_config d) @ ''/Services/REST/v1/'' @ resource in
       check (send_as (Wrap ''bluecat: '') (Wrap ''bluecat: '') e method url (Some (jsonPrint e payload)) (\<lambda>req.
           let u = parsed (req_URL req);
               q = Values_Adds queryArgs (ParseQuery (url_RawQuery u)) in
           ((if token = [] then (\<lambda>r. r) else Header_Set ''Authorization'' token)
             (Header_Set ''Content-Type'' ''application/json'' req))
             \<lparr>req_URL := url_String (u\<lparr>url_RawQuery := Values_Encode q\<rparr>)\<rparr>)) (\<lambda>resp.
         if 400 \<le> resp_StatusCode resp
         then ret (Inl (Err (''bluecat: request failed with HTTP status code '' @ show_int (resp_StatusCode resp)
                @ [CHR 0x0A] @ '' Full message: '' @ body_text (resp_Body resp))))
         else ret (Inr resp)))"

definition bluecat_login :: "env \<Rightarrow> bluecat \<Rightarrow> (world, goerror + unit) go" where
  "bluecat_login e d =
     check (bluecat_sendRequest e d ''GET'' ''login'' JNull
         [(''username'', bc_UserName (bc_config d)), (''password'', bc_Password (bc_config d))]) (\<lambda>resp.
       case resp_Body resp of
         Inl err \<Rightarrow> ret (Inl (Wrap ''bluecat: '' err))
       | Inr authResp \<Rightarrow>
           if str_contains authResp ''Authentication Error''
           then ret (Inl (Err (''bluecat: request failed: '' @ trim_char (CHR 0x22) authResp)))
           else bind (map_set (bc_object d) ''token'' (StrCell (bc_find_token authResp))) (\<lambda>_. ret (Inr ())))"

definition bluecat_logout :: "env \<Rightarrow> bluecat \<Rightarrow> (world, goerror option) go" where
  "bluecat_logout e d =
     bind (str_field (bc_object d) ''token'') (\<lambda>token.
       if token = [] then ret None
       else
         handle (bluecat_sendRequest e d ''GET'' ''logout'' JNull []) (\<lambda>err. ret (Some err)) (\<lambda>resp.
           if resp_StatusCode resp \<noteq> 200
           then ret (Some (Err (''bluecat: request failed to delete session with HTTP status code ''
                  @ show_int (resp_StatusCode resp))))
           else
             (case resp_Body resp of
                Inl err \<Rightarrow> ret (Some err)
              | Inr authResp \<Rightarrow>
                  if \<not> str_contains authResp ''successfully''
                  then ret (Some (Err (''bluecat: request failed to delete session: '' @ trim_char (CHR 0x22) authResp)))
                  else bind (map_set (bc_object d) ''token'' (StrCell [])) (\<lambda>_. ret None))))"

text \<open>The number of the entity of a name and a type below another.\<close>

definition bc_entity :: "env \<Rightarrow> bluecat \<Rightarrow> int \<Rightarrow> string \<Rightarrow> string \<Rightarrow> (world, goerror + int) go" where
  "bc_entity e d parentID name ty =
     check (bluecat_sendRequest e d ''GET'' ''getEntityByName'' JNull
         [(''parentId'', show_int parentID), (''name'', name), (''type'', ty)]) (\<lambda>resp.
       case Decode e bc_entityResponse_of_json (resp_Body resp) of
         Inl err \<Rightarrow> ret (Inl (Wrap ''bluecat: '' err))
       | Inr i \<Rightarrow> ret (Inr i))"

definition bluecat_lookupConfID :: "env \<Rightarrow> bluecat \<Rightarrow> (world, goerror + int) go" where
  "bluecat_lookupConfID e d = bc_entity e d 0 (bc_ConfigName (bc_config d)) bluecat_configType"

definition bluecat_lookupViewID :: "env \<Rightarrow> bluecat \<Rightarrow> string \<Rightarrow> (world, goerror + int) go" where
  "bluecat_lookupViewID e d viewName =
     check (bluecat_lookupConfID e d) (\<lambda>confID. bc_entity e d confID viewName bluecat_viewType)"

text \<open>
  The code asks for the status 404 of the reply to tell that a zone is missing; replies from 400 on never get
  that far, \<^verbatim>\<open>sendRequest\<close> turns them into its own error.
\<close>

definition bluecat_getZone :: "env \<Rightarrow> bluecat \<Rightarrow> int \<Rightarrow> string \<Rightarrow> (world, goerror + int) go" where
  "bluecat_getZone e d parentID name = bc_entity e d parentID name bluecat_zoneType"

text \<open>The loop from the last label to the first; \<open>n\<close> is one more than the index of the next label.\<close>

fun bc_walk :: "env \<Rightarrow> bluecat \<Rightarrow> string list \<Rightarrow> nat \<Rightarrow> int \<Rightarrow> string \<Rightarrow> (world, goerror + int \<times> string) go" where
  "bc_walk e d zones 0 parentViewID name = ret (Inr (parentViewID, name))"
| "bc_walk e d zones (Suc i) parentViewID name =
     check (bluecat_getZone e d parentViewID (zones ! i)) (\<lambda>zoneID.
       if zoneID = 0 then ret (Inr (parentViewID, name))
       else bc_walk e d zones i zoneID (if 0 < i then Join (take i zones) ''.'' else name))"

definition bluecat_lookupParentZoneID :: "env \<Rightarrow> bluecat \<Rightarrow> int \<Rightarrow> string \<Rightarrow> (world, goerror + int \<times> string) go" where
  "bluecat_lookupParentZoneID e d viewID fqdn =
     (if fqdn = [] then ret (Inr (viewID, []))
      else
        (let zones = split_on (CHR ''.'') (trim_char (CHR ''.'') fqdn) in
         bc_walk e d zones (length zones) viewID (hd zones)))"

definition bluecat_deploy :: "env \<Rightarrow> bluecat \<Rightarrow> int \<Rightarrow> (world, goerror + unit) go" where
  "bluecat_deploy e d entityID =
     check (bluecat_sendRequest e d ''POST'' ''quickDeploy'' JNull [(''entityId'', show_int entityID)]) (\<lambda>_. ret (Inr ()))"

section \<open>The provider\<close>

definition bc_add_entity :: "env \<Rightarrow> bluecat \<Rightarrow> int \<Rightarrow> string \<Rightarrow> string \<Rightarrow> string \<Rightarrow> (world, goerror + unit) go" where
  "bc_add_entity e d parentZoneID name fqdn value =
     check (bluecat_sendRequest e d ''POST'' ''addEntity''
         (bc_bluecatEntity_json name ''TXTRecord''
           (''ttl='' @ show_int (hcf_TTL (bc_config d)) @ ''|absoluteName='' @ fqdn @ ''|txt='' @ value @ ''|''))
         [(''parentId'', show_int parentZoneID)]) (\<lambda>resp.
       let addTxtResp = body_text (resp_Body resp) in
       if ParseUint addTxtResp = None then ret (Inl (Err (''bluecat: addEntity request failed: '' @ addTxtResp)))
       else ret (Inr ()))"

definition bluecat_Present :: "env \<Rightarrow> bluecat \<Rightarrow> string \<Rightarrow> string \<Rightarrow> string \<Rightarrow> (world, goerror option) go" where
  "bluecat_Present e d domain token keyAuth =
     bind (GetRecord e domain keyAuth) (\<lambda>(fqdn, value).
       passing (bluecat_login e d) (\<lambda>_.
         passing (bluecat_lookupViewID e d (bc_DNSView (bc_config d))) (\<lambda>viewID.
           passing (bluecat_lookupParentZoneID e d viewID fqdn) (\<lambda>r.
             passing (bc_add_entity e d (fst r) (snd r) fqdn value) (\<lambda>_.
               passing (bluecat_deploy e d (fst r)) (\<lambda>_. bluecat_logout e d))))))"

definition bluecat_CleanUp :: "env \<Rightarrow> bluecat \<Rightarrow> string \<Rightarrow> string \<Rightarrow> string \<Rightarrow> (world, goerror option) go" where
  "bluecat_CleanUp e d domain token keyAuth =
     bind (GetRecord e domain keyAuth) (\<lambda>(fqdn, _).
       passing (bluecat_login e d) (\<lambda>_.
         passing (bluecat_lookupViewID e d (bc_DNSView (bc_config d))) (\<lambda>viewID.
           passing (bluecat_lookupParentZoneID e d viewID fqdn) (\<lambda>r.
             passing (bc_entity e d (fst r) (snd r) bluecat_txtType) (\<lambda>i.
               passing (bluecat_sendRequest e d ''DELETE'' ''DELETE'' JNull [(''objectId'', show_int i)]) (\<lambda>_.
                 passing (bluecat_deploy e d (fst r)) (\<lambda>_. bluecat_logout e d)))))))"

definition bluecat_Timeout :: "bluecat \<Rightarrow> int \<times> int" where
  "bluecat_Timeout d = (hcf_PropagationTimeout (bc_config d), hcf_PollingInterval (bc_config d))"

definition bluecat_provider :: "env \<Rightarrow> bluecat \<Rightarrow> provider" where
  "bluecat_provider e d =
     \<lparr>prov_Present = bluecat_Present e d, prov_CleanUp = bluecat_CleanUp e d,
      prov_Timeout = Some (bluecat_Timeout d), prov_Sequential = None\<rparr>"

section \<open>The provider keeps its contract\<close>

context plain_invariant
begin

lemma always_bluecat_sendRequest [always_intros]: "always R (bluecat_sendRequest e d method resource payload queryArgs)"
  unfolding bluecat_sendRequest_def Let_def by (intro always_intros; simp)

lemma always_bc_entity [always_intros]: "always R (bc_entity e d parentID name ty)"
  unfolding bc_entity_def by (intro always_intros)

lemma always_bc_walk [always_intros]: "always R (bc_walk e d zones n parentViewID name)"
proof (induction n arbitrary: parentViewID name)
  case (Suc i)
  show ?case unfolding bc_walk.simps bluecat_getZone_def by (intro always_intros Suc)
qed (simp add: always_intros)

lemma always_bluecat [always_intros]:
  "always R (bluecat_login e d)" "always R (bluecat_logout e d)" "always R (bluecat_lookupViewID e d viewName)"
  "always R (bluecat_lookupParentZoneID e d viewID fqdn)" "always R (bluecat_deploy e d i)"
  "always R (bc_add_entity e d parentZoneID name fqdn value)"
  unfolding bluecat_login_def bluecat_logout_def bluecat_lookupViewID_def bluecat_lookupConfID_def
    bluecat_lookupParentZoneID_def bluecat_deploy_def bc_add_entity_def Let_def
  by (intro always_intros)+

lemma always_bluecat_NewDNSProvider: "always R (bluecat_NewDNSProvider e)"
  unfolding bluecat_NewDNSProvider_def bluecat_NewDNSProviderConfig_def by (intro always_intros)

lemma bluecat_keeps: "provider_keeps R (bluecat_provider e d)"
  unfolding bluecat_provider_def
  by (rule provider_keepsI; unfold bluecat_Present_def bluecat_CleanUp_def) (intro always_intros)+

end

definition bluecat_accepts :: "http_response \<Rightarrow> bool" where
  "bluecat_accepts resp \<longleftrightarrow> resp_StatusCode resp < 400 \<and> ParseUint (body_text (resp_Body resp)) \<noteq> None"

lemma bc_add_entity_sent:
  "ensures is_ok (delivered e value (answered bluecat_accepts)) (bc_add_entity e d parentZoneID name fqdn value)"
proof -
  let ?p = "''ttl='' @ show_int (hcf_TTL (bc_config d)) @ ''|absoluteName='' @ fqdn @ ''|txt=''"
  have "?p @ value @ ''|'' \<in> set (json_strings (bc_bluecatEntity_json name ''TXTRecord'' (?p @ value @ ''|'')))"
    by (simp add: bc_bluecatEntity_json_def)
  then have "carries e value req"
    if "req_Body req = RawBody (jsonPrint e (bc_bluecatEntity_json name ''TXTRecord'' (?p @ value @ ''|'')))" for req
    using carries_json_within [of req e _ "[]" ?p "value" "''|''"] that by simp
  then show ?thesis
    unfolding ensures_def bc_add_entity_def bluecat_sendRequest_def Let_def send_as_def
    by (auto simp: host_runs run_cases NewRequest_Inr bluecat_accepts_def str_field_def run_map_get
        dest!: happened_http intro!: exI [of _ "EvHttp _ (Inr _)"])
qed

lemma bluecat_Present_sent:
  "ensures is_nil (delivered e (record_value e keyAuth) (answered bluecat_accepts)) (bluecat_Present e d domain token keyAuth)"
  unfolding bluecat_Present_def
  by (intro ensures_handle_first [OF bc_add_entity_sent] ensures_intros ensures_handle_later always_intros
      growing.always_bluecat) simp_all

interpretation bluecat: hosting e "bluecat_provider e d" "answered bluecat_accepts" for e d
  by (rule hostingI [OF outsider.bluecat_keeps]) (simp add: bluecat_Present_sent bluecat_provider_def)

end
