(* ===== verification/Checkdomain.thy ===== *)
theory Checkdomain
  imports Hosting
begin

text \<open>
  Package \<^verbatim>\<open>providers/dns/checkdomain\<close>.  Domains and records are listed page by page; a record is removed by
  writing all others back.  Lists of pointers may hold nil, which is dereferenced where the code does so.
\<close>

definition checkdomain_defaultEndpoint :: string where "checkdomain_defaultEndpoint = ''https://api.checkdomain.de''"
definition checkdomain_defaultTTL :: int where "checkdomain_defaultTTL = 300"
definition checkdomain_ns1 :: string where "checkdomain_ns1 = ''ns.checkdomain.de''"
definition checkdomain_ns2 :: string where "checkdomain_ns2 = ''ns2.checkdomain.de''"
definition checkdomain_maxLimit :: int where "checkdomain_maxLimit = 100"
definition checkdomain_maxInt :: int where "checkdomain_maxInt = 2 ^ 63 - 1"

record checkdomain_config = ttl_config +
  ckd_Endpoint :: "url option"
  ckd_Token :: string

definition checkdomain_NewDefaultConfig :: "env \<Rightarrow> checkdomain_config" where
  "checkdomain_NewDefaultConfig e =
     \<lparr>hcf_PropagationTimeout = GetOrDefaultSecond e ''CHECKDOMAIN_PROPAGATION_TIMEOUT'' (5 * Minute),
      hcf_PollingInterval = GetOrDefaultSecond e ''CHECKDOMAIN_POLLING_INTERVAL'' (7 * Second),
      hcf_HTTPTimeout = GetOrDefaultSecond e ''CHECKDOMAIN_HTTP_TIMEOUT'' (30 * Second),
      hcf_TTL = GetOrDefaultInt e ''CHECKDOMAIN_TTL'' checkdomain_defaultTTL,
      ckd_Endpoint = None, ckd_Token = []\<rparr>"

text \<open>The provider; the map from domain names to identifiers is a cache.\<close>

record checkdomain =
  ckd_config :: checkdomain_config
  ckd_domainIDMapping :: nat

definition checkdomain_NewDNSProviderConfig :: "checkdomain_config option \<Rightarrow> (world, goerror + checkdomain) go" where
  "checkdomain_NewDNSProviderConfig config =
     (case config of
        None \<Rightarrow> panic nil_pointer
      | Some c \<Rightarrow>
          if ckd_Endpoint c = None then ret (Inl (Err ''checkdomain: invalid endpoint''))
          else if ckd_Token c = [] then ret (Inl (Err ''checkdomain: missing token''))
          else bind make_map (\<lambda>a. ret (Inr \<lparr>ckd_config = c, ckd_domainIDMapping = a\<rparr>)))"

definition checkdomain_NewDNSProvider :: "env \<Rightarrow> (world, goerror + checkdomain) go" where
  "checkdomain_NewDNSProvider e =
     (case env_Get e [''CHECKDOMAIN_TOKEN''] of
        Inl err \<Rightarrow> ret (Inl (Wrap ''checkdomain: '' err))
      | Inr values \<Rightarrow>
          (case url_Parse (GetOrDefaultString e ''CHECKDOMAIN_ENDPOINT'' checkdomain_defaultEndpoint) of
             Inl err \<Rightarrow> ret (Inl (Wrap ''checkdomain: invalid CHECKDOMAIN_ENDPOINT: '' err))
           | Inr endpoint \<Rightarrow>
               checkdomain_NewDNSProviderConfig (Some ((checkdomain_NewDefaultConfig e)
                 \<lparr>ckd_Token := env_value values ''CHECKDOMAIN_TOKEN'', ckd_Endpoint := Some endpoint\<rparr>))))"

section \<open>Messages\<close>

record ckd_Domain =
  ckdd_ID :: int
  ckdd_Name :: string

definition ckd_Domain_of_json :: "json \<Rightarrow> goerror + ckd_Domain" where
  "ckd_Domain_of_json = decode_struct (\<lambda>k v d.
     if k = ''id'' then set_int v (\<lambda>i. d\<lparr>ckdd_ID := i\<rparr>) d
     else if k = ''name'' then set_str v (\<lambda>s. d\<lparr>ckdd_Name := s\<rparr>) d
     else Inr d) \<lparr>ckdd_ID = 0, ckdd_Name = []\<rparr>"

text \<open>The domain that is asked for by its identifier; only its name is used.\<close>

definition ckd_DomainResponse_of_json :: "json \<Rightarrow> goerror + ckd_Domain" where
  "ckd_DomainResponse_of_json = decode_struct (\<lambda>k v d.
     if k = ''id'' then set_int v (\<lambda>i. d\<lparr>ckdd_ID := i\<rparr>) d
     else if k = ''name'' then set_str v (\<lambda>s. d\<lparr>ckdd_Name := s\<rparr>) d
     else if k = ''created'' \<or> k = ''payed_up'' then set_str v (\<lambda>_. d) d
     else if k = ''active'' then set_bool v (\<lambda>_. d) d
     else Inr d) \<lparr>ckdd_ID = 0, ckdd_Name = []\<rparr>"

text \<open>A page of a list: how many pages and items there are, and the items of this page.\<close>

record 'a ckd_page =
  ckdp_Pages :: int
  ckdp_Total :: int
  ckdp_Items :: "'a option list"

definition ckd_listing_of_json :: "string \<Rightarrow> (json \<Rightarrow> goerror + 'a) \<Rightarrow> json \<Rightarrow> goerror + 'a ckd_page" where
  "ckd_listing_of_json field dec = decode_struct (\<lambda>k v p.
     if k = ''page'' \<or> k = ''limit'' then set_int v (\<lambda>_. p) p
     else if k = ''pages'' then set_int v (\<lambda>i. p\<lparr>ckdp_Pages := i\<rparr>) p
     else if k = ''total'' then set_int v (\<lambda>i. p\<lparr>ckdp_Total := i\<rparr>) p
     else if k = ''_embedded'' then
       set_struct (decode_struct (\<lambda>k v l.
           if k = field then set_list (ptr_of_json dec) v (\<lambda>xs. xs) else Inr l) (ckdp_Items p)) v
         (\<lambda>l. p\<lparr>ckdp_Items := l\<rparr>)
     else Inr p) \<lparr>ckdp_Pages = 0, ckdp_Total = 0, ckdp_Items = []\<rparr>"

definition ckd_DomainListingResponse_of_json :: "json \<Rightarrow> goerror + ckd_Domain ckd_page" where
  "ckd_DomainListingResponse_of_json = ckd_listing_of_json ''domains'' ckd_Domain_of_json"

record ckd_Record =
  ckdr_Name :: string
  ckdr_Value :: string
  ckdr_TTL :: int
  ckdr_Priority :: int
  ckdr_Type :: string

definition ckd_Record_of_json :: "json \<Rightarrow> goerror + ckd_Record" where
  "ckd_Record_of_json = decode_struct (\<lambda>k v r.
     if k = ''name'' then set_str v (\<lambda>s. r\<lparr>ckdr_Name := s\<rparr>) r
     else if k = ''value'' then set_str v (\<lambda>s. r\<lparr>ckdr_Value := s\<rparr>) r
     else if k = ''ttl'' then set_int v (\<lambda>i. r\<lparr>ckdr_TTL := i\<rparr>) r
     else if k = ''priority'' then set_int v (\<lambda>i. r\<lparr>ckdr_Priority := i\<rparr>) r
     else if k = ''type'' then set_str v (\<lambda>s. r\<lparr>ckdr_Type := s\<rparr>) r
     else Inr r) \<lparr>ckdr_Name = [], ckdr_Value = [], ckdr_TTL = 0, ckdr_Priority = 0, ckdr_Type = []\<rparr>"

definition ckd_Record_json :: "ckd_Record \<Rightarrow> json" where
  "ckd_Record_json r =
     JObj [(''name'', JStr (ckdr_Name r)), (''value'', JStr (ckdr_Value r)), (''ttl'', JNum (ckdr_TTL r)),
       (''priority'', JNum (ckdr_Priority r)), (''type'', JStr (ckdr_Type r))]"

definition ckd_RecordListingResponse_of_json :: "json \<Rightarrow> goerror + ckd_Record ckd_page" where
  "ckd_RecordListingResponse_of_json = ckd_listing_of_json ''records'' ckd_Record_of_json"

text \<open>The nameservers of a domain: their names, whether \<^verbatim>\<open>www\<close> is included, and the default time to live.\<close>

record ckd_NameserverResponse =
  ckdn_Nameservers :: "string option list"
  ckdn_IncludeWWW :: bool
  ckdn_TTL :: int

definition ckd_Nameserver_of_json :: "json \<Rightarrow> goerror + string" where
  "ckd_Nameserver_of_json = decode_struct (\<lambda>k v n. if k = ''name'' then set_str v (\<lambda>s. s) n else Inr n) []"

definition ckd_NameserverGeneral_of_json :: "bool \<Rightarrow> json \<Rightarrow> goerror + bool" where
  "ckd_NameserverGeneral_of_json = decode_struct (\<lambda>k v b.
     if k = ''ip_v4'' \<or> k = ''ip_v6'' then set_str v (\<lambda>_. b) b
     else if k = ''include_www'' then set_bool v (\<lambda>x. x) b
     else Inr b)"

definition ckd_NameserverSOA_of_json :: "int \<Rightarrow> json \<Rightarrow> goerror + int" where
  "ckd_NameserverSOA_of_json = decode_struct (\<lambda>k v t.
     if k = ''mail'' then set_str v (\<lambda>_. t) t
     else if k = ''refresh'' \<or> k = ''retry'' \<or> k = ''expiry'' then set_int v (\<lambda>_. t) t
     else if k = ''ttl'' then set_int v (\<lambda>i. i) t
     else Inr t)"

definition ckd_NameserverResponse_of_json :: "json \<Rightarrow> goerror + ckd_NameserverResponse" where
  "ckd_NameserverResponse_of_json = decode_struct (\<lambda>k v n.
     if k = ''general'' then
       set_struct (ckd_NameserverGeneral_of_json (ckdn_IncludeWWW n)) v (\<lambda>b. n\<lparr>ckdn_IncludeWWW := b\<rparr>)
     else if k = ''nameservers'' then
       set_list (ptr_of_json ckd_Nameserver_of_json) v (\<lambda>l. n\<lparr>ckdn_Nameservers := l\<rparr>)
     else if k = ''soa'' then
       set_struct (ckd_NameserverSOA_of_json (ckdn_TTL n)) v (\<lambda>t. n\<lparr>ckdn_TTL := t\<rparr>)
     else Inr n) \<lparr>ckdn_Nameservers = [], ckdn_IncludeWWW = False, ckdn_TTL = 0\<rparr>"

section \<open>The client\<close>

definition checkdomain_checkResponse :: "http_response \<Rightarrow> goerror option" where
  "checkdomain_checkResponse = checkStatus"

definition checkdomain_makeRequest ::
  "env \<Rightarrow> checkdomain \<Rightarrow> string \<Rightarrow> string \<Rightarrow> string option \<Rightarrow> (goerror + http_request) outcome" where
  "checkdomain_makeRequest e d method resource body =
     makeRequest e (ckd_Endpoint (ckd_config d)) method resource body (\<lambda>req.
       (if method = ''GET'' then (\<lambda>r. r) else Header_Set ''Content-Type'' ''application/json'')
         (Header_Set ''Authorization'' (''Bearer '' @ ckd_Token (ckd_config d))
           (Header_Set ''Accept'' ''application/json'' req)))"

definition checkdomain_sendRequest ::
  "env \<Rightarrow> string \<Rightarrow> http_request \<Rightarrow> (json \<Rightarrow> goerror + 'a) \<Rightarrow> 'a option \<Rightarrow> (world, goerror + 'a) go" where
  "checkdomain_sendRequest e typ = sendRequest e (''*checkdomain.'' @ typ)"

text \<open>
  The loop over the pages of a list: as long as no number of pages is known it is taken from the reply, and
  the list starts anew.  \<open>get\<close> requests the page with a number.  The count and the capacity come from the
  service: a service that reports the greatest integer as the number of pages is asked for ever.
\<close>

fun ckd_pages ::
  "nat \<Rightarrow> (int \<Rightarrow> (world, goerror + 'a ckd_page) go) \<Rightarrow> int \<Rightarrow> int \<Rightarrow> 'a option list
    \<Rightarrow> (world, goerror + 'a option list) go" where
  "ckd_pages 0 get currentPage totalPages items = stuck"
| "ckd_pages (Suc fuel) get currentPage totalPages items =
     (if currentPage \<le> totalPages then
        check (get currentPage) (\<lambda>res.
          if totalPages = checkdomain_maxInt then
            (if ckdp_Total res < 0 \<or> 2 ^ 45 < ckdp_Total res then panic ''makeslice: cap out of range''
             else ckd_pages fuel get (i64 (currentPage + 1)) (ckdp_Pages res) (ckdp_Items res))
          else ckd_pages fuel get (i64 (currentPage + 1)) totalPages (items @ ckdp_Items res))
      else ret (Inr items))"

definition ckd_at_page :: "http_request \<Rightarrow> (string \<times> string) list \<Rightarrow> int \<Rightarrow> http_request" where
  "ckd_at_page req params page =
     (let u = parsed (req_URL req);
          q = Values_Sets (params @ [(''page'', show_int page)]) (ParseQuery (url_RawQuery u)) in
      req\<lparr>req_URL := url_String (u\<lparr>url_RawQuery := Values_Encode q\<rparr>)\<rparr>)"

definition checkdomain_listDomains :: "env \<Rightarrow> checkdomain \<Rightarrow> (world, goerror + ckd_Domain option list) go" where
  "checkdomain_listDomains e d =
     check (outcome_of (map_outcome (map_sum (Wrap ''failed to make request: '') (\<lambda>x. x))
         (checkdomain_makeRequest e d ''GET'' ''/v1/domains'' None))) (\<lambda>req.
       ckd_pages (pollFuel e) (\<lambda>page. wrap_res ''failed to send domain listing request: ''
           (checkdomain_sendRequest e ''DomainListingResponse''
             (ckd_at_page req [(''limit'', show_int checkdomain_maxLimit)] page)
             ckd_DomainListingResponse_of_json None)) 1 checkdomain_maxInt [])"

definition checkdomain_listRecords ::
  "env \<Rightarrow> checkdomain \<Rightarrow> int \<Rightarrow> string \<Rightarrow> (world, goerror + ckd_Record option list) go" where
  "checkdomain_listRecords e d domainID recordType =
     check (outcome_of (map_outcome (map_sum (Wrap ''failed to make request: '') (\<lambda>x. x))
         (checkdomain_makeRequest e d ''GET'' (''/v1/domains/'' @ show_int domainID @ ''/nameservers/records'') None))) (\<lambda>req.
       ckd_pages (pollFuel e) (\<lambda>page. wrap_res ''failed to send record listing request: ''
           (checkdomain_sendRequest e ''RecordListingResponse''
             (ckd_at_page req ((''limit'', show_int checkdomain_maxLimit)
                 # (if recordType \<noteq> [] then [(''type'', recordType)] else [])) page)
             ckd_RecordListingResponse_of_json None)) 1 checkdomain_maxInt [])"

text \<open>The search through the domains, in the order of the list, up to the first match.\<close>

fun ckd_find :: "string \<Rightarrow> ckd_Domain option list \<Rightarrow> int option outcome" where
  "ckd_find name [] = Return None"
| "ckd_find name (None # ds) = Panic nil_pointer"
| "ckd_find name (Some domain # ds) =
     (if ckdd_Name domain = name \<or> HasSuffix name (''.'' @ ckdd_Name domain) then Return (Some (ckdd_ID domain))
      else ckd_find name ds)"

definition checkdomain_getDomainIDByName :: "env \<Rightarrow> checkdomain \<Rightarrow> string \<Rightarrow> (world, goerror + int) go" where
  "checkdomain_getDomainIDByName e d name =
     bind (map_get (ckd_domainIDMapping d) name) (\<lambda>found.
       case found of
         Some i \<Rightarrow> ret (Inr (cell_int i))
       | None \<Rightarrow>
           check (checkdomain_listDomains e d) (\<lambda>domains.
             bind (outcome_of (ckd_find name domains)) (\<lambda>r.
               case r of
                 None \<Rightarrow> ret (Inl (Err ''domain not found''))
               | Some i \<Rightarrow> bind (map_set (ckd_domainIDMapping d) name (IntCell i)) (\<lambda>_. ret (Inr i)))))"

definition checkdomain_getNameserverInfo ::
  "env \<Rightarrow> checkdomain \<Rightarrow> int \<Rightarrow> (world, goerror + ckd_NameserverResponse) go" where
  "checkdomain_getNameserverInfo e d domainID =
     check (outcome_of (checkdomain_makeRequest e d ''GET'' (''/v1/domains/'' @ show_int domainID @ ''/nameservers'') None))
       (\<lambda>req. checkdomain_sendRequest e ''NameserverResponse'' req ckd_NameserverResponse_of_json None)"

definition checkdomain_checkNameservers :: "env \<Rightarrow> checkdomain \<Rightarrow> int \<Rightarrow> (world, goerror + unit) go" where
  "checkdomain_checkNameservers e d domainID =
     check (checkdomain_getNameserverInfo e d domainID) (\<lambda>info.
       if None \<in> set (ckdn_Nameservers info) then panic nil_pointer
       else if Some checkdomain_ns1 \<in> set (ckdn_Nameservers info) \<and> Some checkdomain_ns2 \<in> set (ckdn_Nameservers info)
       then ret (Inr ())
       else ret (Inl (Err ''not using checkdomain nameservers, can not update records'')))"

definition checkdomain_createRecord :: "env \<Rightarrow> checkdomain \<Rightarrow> int \<Rightarrow> ckd_Record \<Rightarrow> (world, goerror + unit) go" where
  "checkdomain_createRecord e d domainID record =
     check (outcome_of (checkdomain_makeRequest e d ''POST'' (''/v1/domains/'' @ show_int domainID @ ''/nameservers/records'')
         (Some (jsonPrint e (ckd_Record_json record))))) (\<lambda>req.
       checkdomain_sendRequest e [] req (\<lambda>_. Inr ()) (Some ()))"

definition checkdomain_getDomainInfo :: "env \<Rightarrow> checkdomain \<Rightarrow> int \<Rightarrow> (world, goerror + ckd_Domain) go" where
  "checkdomain_getDomainInfo e d domainID =
     check (outcome_of (checkdomain_makeRequest e d ''GET'' (''/v1/domains/'' @ show_int domainID) None)) (\<lambda>req.
       checkdomain_sendRequest e ''DomainResponse'' req ckd_DomainResponse_of_json None)"

text \<open>A slice without elements that was never made is written as \<^verbatim>\<open>null\<close>.\<close>

definition checkdomain_replaceRecords ::
  "env \<Rightarrow> checkdomain \<Rightarrow> int \<Rightarrow> ckd_Record list \<Rightarrow> (world, goerror + unit) go" where
  "checkdomain_replaceRecords e d domainID records =
     check (outcome_of (checkdomain_makeRequest e d ''PUT'' (''/v1/domains/'' @ show_int domainID @ ''/nameservers/records'')
         (Some (jsonPrint e (if records = [] then JNull else JArr (map ckd_Record_json records)))))) (\<lambda>req.
       checkdomain_sendRequest e [] req (\<lambda>_. Inr ()) (Some ()))"

definition checkdomain_skipRecord :: "string \<Rightarrow> string \<Rightarrow> ckd_Record \<Rightarrow> ckd_NameserverResponse \<Rightarrow> bool" where
  "checkdomain_skipRecord recordName recordValue record nsInfo =
     (if ckdr_Value record = [] then True
      else if ckdr_Type record = ''SOA'' \<or> ckdr_Type record = ''NS'' \<or> ckdr_Name record = ''@''
        \<or> ckdn_IncludeWWW nsInfo \<and> ckdr_Name record = ''www'' then True
      else
        (let nameMatch = (recordName = [] \<or> ckdr_Name record = recordName);
             valueMatch = (recordValue = [] \<or> ckdr_Value record = recordValue) in
         ckdr_Type record = ''TXT'' \<and> nameMatch \<and> valueMatch))"

definition ckd_keep ::
  "string \<Rightarrow> string \<Rightarrow> ckd_NameserverResponse \<Rightarrow> ckd_Record option list \<Rightarrow> ckd_Record list" where
  "ckd_keep recordName recordValue nsInfo allRecords =
     map (\<lambda>r. if ckdr_TTL r = 0 then r\<lparr>ckdr_TTL := ckdn_TTL nsInfo\<rparr> else r)
       (filter (\<lambda>r. \<not> checkdomain_skipRecord recordName recordValue r nsInfo) (map the allRecords))"

definition checkdomain_deleteTXTRecord ::
  "env \<Rightarrow> checkdomain \<Rightarrow> int \<Rightarrow> string \<Rightarrow> string \<Rightarrow> (world, goerror + unit) go" where
  "checkdomain_deleteTXTRecord e d domainID recordName recordValue =
     check (checkdomain_getDomainInfo e d domainID) (\<lambda>domainInfo.
       check (checkdomain_getNameserverInfo e d domainID) (\<lambda>nsInfo.
         check (checkdomain_listRecords e d domainID []) (\<lambda>allRecords.
           if None \<in> set allRecords then panic nil_pointer
           else
             (let recordName' = TrimSuffix recordName (''.'' @ ckdd_Name domainInfo @ ''.'') in
              checkdomain_replaceRecords e d domainID (ckd_keep recordName' recordValue nsInfo allRecords)))))"

section \<open>The provider\<close>

definition checkdomain_Present :: "env \<Rightarrow> checkdomain \<Rightarrow> string \<Rightarrow> string \<Rightarrow> string \<Rightarrow> (world, goerror option) go" where
  "checkdomain_Present e d domain token keyAuth =
     try_or ''checkdomain: '' (checkdomain_getDomainIDByName e d domain) (\<lambda>domainID.
       try_or ''checkdomain: '' (checkdomain_checkNameservers e d domainID) (\<lambda>_.
         bind (GetRecord e domain keyAuth) (\<lambda>(name, value).
           try_or ''checkdomain: '' (checkdomain_createRecord e d domainID
             \<lparr>ckdr_Name = name, ckdr_Value = value, ckdr_TTL = hcf_TTL (ckd_config d), ckdr_Priority = 0,
              ckdr_Type = ''TXT''\<rparr>) (\<lambda>_. ret None))))"

text \<open>What is deleted from the cache is the name of the record, which never is a key of it.\<close>

definition checkdomain_CleanUp :: "env \<Rightarrow> checkdomain \<Rightarrow> string \<Rightarrow> string \<Rightarrow> string \<Rightarrow> (world, goerror option) go" where
  "checkdomain_CleanUp e d domain token keyAuth =
     try_or ''checkdomain: '' (checkdomain_getDomainIDByName e d domain) (\<lambda>domainID.
       try_or ''checkdomain: '' (checkdomain_checkNameservers e d domainID) (\<lambda>_.
         bind (GetRecord e domain keyAuth) (\<lambda>(name, value).
           try_or ''checkdomain: '' (checkdomain_deleteTXTRecord e d domainID name value) (\<lambda>_.
             bind (map_delete (ckd_domainIDMapping d) name) (\<lambda>_. ret None)))))"

definition checkdomain_Timeout :: "checkdomain \<Rightarrow> int \<times> int" where
  "checkdomain_Timeout d = (hcf_PropagationTimeout (ckd_config d), hcf_PollingInterval (ckd_config d))"

definition checkdomain_provider :: "env \<Rightarrow> checkdomain \<Rightarrow> provider" where
  "checkdomain_provider e d =
     \<lparr>prov_Present = checkdomain_Present e d, prov_CleanUp = checkdomain_CleanUp e d,
      prov_Timeout = Some (checkdomain_Timeout d), prov_Sequential = None\<rparr>"

section \<open>The provider keeps its contract\<close>

lemma checkdomain_makeRequest_body:
  "checkdomain_makeRequest e d method resource body = Return (Inr req) \<Longrightarrow>
   req_Body req = (case body of None \<Rightarrow> NoBody | Some b \<Rightarrow> RawBody b) \<and> req_Method req = method"
  unfolding checkdomain_makeRequest_def by (erule makeRequest_body) simp_all

lemma ckd_at_page_body [simp]: "req_Body (ckd_at_page req params page) = req_Body req"
  by (simp add: ckd_at_page_def Let_def)

lemma map_outcome_Return_Inr [simp]:
  "map_outcome (map_sum f (\<lambda>x. x)) r = Return (Inr x) \<longleftrightarrow> r = Return (Inr x)"
  by (cases r) (auto simp: map_sum_Inr_iff)

context lookup_invariant
begin

lemma always_ckd_pages:
  "(\<And>page. always R (get page)) \<Longrightarrow> always R (ckd_pages fuel get currentPage totalPages items)"
proof (induction fuel arbitrary: currentPage totalPages items)
  case (Suc fuel)
  show ?case unfolding ckd_pages.simps by (intro always_intros Suc.IH Suc.prems)
qed (simp add: always_intros)

lemma always_checkdomain_lists [always_intros]:
  "always R (checkdomain_listDomains e d)" "always R (checkdomain_listRecords e d domainID recordType)"
  unfolding checkdomain_listDomains_def checkdomain_listRecords_def checkdomain_sendRequest_def
  by (intro always_check_outcome always_ckd_pages always_wrap always_sendRequest;
      auto dest!: checkdomain_makeRequest_body)+

lemma always_checkdomain [always_intros]:
  "always R (checkdomain_checkNameservers e d domainID)" "always R (checkdomain_createRecord e d domainID r)"
  "always R (checkdomain_deleteTXTRecord e d domainID recordName recordValue)"
  unfolding checkdomain_checkNameservers_def checkdomain_createRecord_def checkdomain_deleteTXTRecord_def
    checkdomain_getDomainInfo_def checkdomain_replaceRecords_def checkdomain_getNameserverInfo_def
    checkdomain_sendRequest_def Let_def
  by (intro always_check_outcome always_intros; auto dest!: checkdomain_makeRequest_body)+

end

context plain_invariant
begin

lemma always_checkdomain_id [always_intros]: "always R (checkdomain_getDomainIDByName e d name)"
  unfolding checkdomain_getDomainIDByName_def by (intro always_intros)

lemma checkdomain_keeps: "provider_keeps R (checkdomain_provider e d)"
  unfolding checkdomain_provider_def
  by (rule provider_keepsI; unfold checkdomain_Present_def checkdomain_CleanUp_def; intro always_intros)

lemma always_checkdomain_NewDNSProvider: "always R (checkdomain_NewDNSProvider e)"
  unfolding checkdomain_NewDNSProvider_def checkdomain_NewDNSProviderConfig_def by (intro always_intros)

end

lemma checkdomain_createRecord_sent:
  "ckdr_Value r = v \<Longrightarrow> ensures is_ok (delivered e v (answered below_400)) (checkdomain_createRecord e d domainID r)"
  unfolding checkdomain_createRecord_def checkdomain_sendRequest_def
  by (intro ensures_check_outcome ensures_intros always_intros)
    (auto dest!: checkdomain_makeRequest_body intro!: carries_json simp: ckd_Record_json_def)

lemma checkdomain_Present_sent:
  "ensures is_nil (delivered e (record_value e keyAuth) (answered below_400)) (checkdomain_Present e d domain token keyAuth)"
  unfolding checkdomain_Present_def
  by (intro ensures_try_first [OF checkdomain_createRecord_sent] ensures_intros ensures_try_later always_intros) simp

interpretation checkdomain: hosting e "checkdomain_provider e d" "answered below_400" for e d
  by (rule hostingI [OF outsider.checkdomain_keeps]) (simp add: checkdomain_Present_sent checkdomain_provider_def)

section \<open>The loop over the pages ends\<close>

text \<open>
  Once the number of pages is known and is not the greatest integer, a bound of one more than the pages that
  are left is enough: every greater one gives the same run.
\<close>

lemma ckd_pages_enough:
  assumes "1 \<le> currentPage" and "totalPages < checkdomain_maxInt" and "nat (totalPages + 1 - currentPage) < fuel"
  shows "ckd_pages fuel get currentPage totalPages items
    = ckd_pages (Suc (nat (totalPages + 1 - currentPage))) get currentPage totalPages items"
  using assms
proof (induction "nat (totalPages + 1 - currentPage)" arbitrary: fuel currentPage items)
  case 0
  then show ?case by (cases fuel) auto
next
  case (Suc n)
  obtain f where f: "fuel = Suc f" using Suc.prems(3) by (cases fuel) auto
  have step: "i64 (currentPage + 1) = currentPage + 1"
    using Suc.hyps(2) Suc.prems(1,2) by (intro i64_id) (simp add: in_i64_def checkdomain_maxInt_def)
  have n: "n = nat (totalPages + 1 - (currentPage + 1))" using Suc.hyps(2) by simp
  have "ckd_pages f get (currentPage + 1) totalPages xs = ckd_pages (Suc n) get (currentPage + 1) totalPages xs" for xs
    using Suc.hyps(1) [OF n, of f xs] Suc.prems f Suc.hyps(2) n by (simp del: ckd_pages.simps)
  then show ?case
    unfolding f Suc.hyps(2) [symmetric] ckd_pages.simps(2) [of f] ckd_pages.simps(2) [of "Suc n"]
    using Suc.prems(2) step by (simp del: ckd_pages.simps)
qed

end
