(* ===== verification/Cloudns.thy ===== *)
theory Cloudns
  imports Hosting
begin

text \<open>
  Package \<^verbatim>\<open>providers/dns/cloudns\<close> with its client.  Every parameter of a request is in its query, to which the
  credentials are added last: the query is written, read back and written again.  Iterating over the map of
  records may visit them in any order, the parameter \<open>sched\<close>.
\<close>

definition cloudns_defaultBaseURL :: string where "cloudns_defaultBaseURL = ''https://api.cloudns.net/dns/''"

record cloudns_config = ttl_config +
  cns_AuthID :: string
  cns_SubAuthID :: string
  cns_AuthPassword :: string

definition cloudns_NewDefaultConfig :: "env \<Rightarrow> cloudns_config" where
  "cloudns_NewDefaultConfig e =
     \<lparr>hcf_PropagationTimeout = GetOrDefaultSecond e ''CLOUDNS_PROPAGATION_TIMEOUT'' (120 * Second),
      hcf_PollingInterval = GetOrDefaultSecond e ''CLOUDNS_POLLING_INTERVAL'' (4 * Second),
      hcf_HTTPTimeout = GetOrDefaultSecond e ''CLOUDNS_HTTP_TIMEOUT'' (30 * Second),
      hcf_TTL = GetOrDefaultInt e ''CLOUDNS_TTL'' 60,
      cns_AuthID = [], cns_SubAuthID = [], cns_AuthPassword = []\<rparr>"

record cloudns_client =
  cnsc_authID :: string
  cnsc_subAuthID :: string
  cnsc_authPassword :: string
  cnsc_BaseURL :: url

definition cloudns_NewClient :: "string \<Rightarrow> string \<Rightarrow> string \<Rightarrow> goerror + cloudns_client" where
  "cloudns_NewClient authID subAuthID authPassword =
     (if authID = [] \<and> subAuthID = [] then Inl (Err ''credentials missing: authID or subAuthID'')
      else if authPassword = [] then Inl (Err ''credentials missing: authPassword'')
      else
        (case url_Parse cloudns_defaultBaseURL of
           Inl err \<Rightarrow> Inl err
         | Inr baseURL \<Rightarrow> Inr \<lparr>cnsc_authID = authID, cnsc_subAuthID = subAuthID, cnsc_authPassword = authPassword,
             cnsc_BaseURL = baseURL\<rparr>))"

record cloudns =
  cns_config :: cloudns_config
  cns_client :: cloudns_client

definition cloudns_NewDNSProviderConfig :: "cloudns_config option \<Rightarrow> goerror + cloudns" where
  "cloudns_NewDNSProviderConfig config =
     (case config of
        None \<Rightarrow> Inl (nil_config ''ClouDNS'')
      | Some c \<Rightarrow>
          (case cloudns_NewClient (cns_AuthID c) (cns_SubAuthID c) (cns_AuthPassword c) of
             Inl err \<Rightarrow> Inl (Wrap ''ClouDNS: '' err)
           | Inr client \<Rightarrow> Inr \<lparr>cns_config = c, cns_client = client\<rparr>))"

text \<open>One of two identifiers is needed; the second is only read when the first is missing.\<close>

definition cloudns_NewDNSProvider :: "env \<Rightarrow> goerror + cloudns" where
  "cloudns_NewDNSProvider e =
     (let authID = GetOrFile e ''CLOUDNS_AUTH_ID'';
          subAuthID = (if authID = [] then GetOrFile e ''CLOUDNS_SUB_AUTH_ID'' else []) in
      if authID = [] \<and> subAuthID = []
      then Inl (Err ''ClouDNS: some credentials information are missing: CLOUDNS_AUTH_ID or CLOUDNS_SUB_AUTH_ID'')
      else
        (case env_Get e [''CLOUDNS_AUTH_PASSWORD''] of
           Inl err \<Rightarrow> Inl (Wrap ''ClouDNS: '' err)
         | Inr values \<Rightarrow>
             cloudns_NewDNSProviderConfig (Some ((cloudns_NewDefaultConfig e)
               \<lparr>cns_AuthID := authID, cns_SubAuthID := subAuthID,
                cns_AuthPassword := env_value values ''CLOUDNS_AUTH_PASSWORD''\<rparr>))))"

section \<open>Messages\<close>

text \<open>The status of a reply and its description.\<close>

definition cns_apiResponse_of_json :: "json \<Rightarrow> goerror + string \<times> string" where
  "cns_apiResponse_of_json = decode_struct (\<lambda>k v (st, ds).
     if k = ''status'' then set_str v (\<lambda>s. (s, ds)) (st, ds)
     else if k = ''statusDescription'' then set_str v (\<lambda>s. (st, s)) (st, ds)
     else Inr (st, ds)) ([], [])"

text \<open>The fields of a zone have no names for JSON: their own are compared without regard to case.\<close>

record cns_Zone =
  cnsz_Name :: string
  cnsz_Type :: string
  cnsz_Zone :: string
  cnsz_Status :: string

definition cns_Zone_of_json :: "json \<Rightarrow> goerror + cns_Zone" where
  "cns_Zone_of_json = decode_struct (\<lambda>k v z.
     if ToLower k = ''name'' then set_str v (\<lambda>s. z\<lparr>cnsz_Name := s\<rparr>) z
     else if ToLower k = ''type'' then set_str v (\<lambda>s. z\<lparr>cnsz_Type := s\<rparr>) z
     else if ToLower k = ''zone'' then set_str v (\<lambda>s. z\<lparr>cnsz_Zone := s\<rparr>) z
     else if ToLower k = ''status'' then set_str v (\<lambda>s. z\<lparr>cnsz_Status := s\<rparr>) z
     else Inr z) \<lparr>cnsz_Name = [], cnsz_Type = [], cnsz_Zone = [], cnsz_Status = []\<rparr>"

record cns_TXTRecord =
  cnsr_ID :: int
  cnsr_Type :: string
  cnsr_Host :: string
  cnsr_Record :: string
  cnsr_Failover :: int
  cnsr_TTL :: int
  cnsr_Status :: int

definition cns_TXTRecord_of_json :: "json \<Rightarrow> goerror + cns_TXTRecord" where
  "cns_TXTRecord_of_json = decode_struct (\<lambda>k v r.
     if k = ''id'' then set_int_string v (\<lambda>i. r\<lparr>cnsr_ID := i\<rparr>) r
     else if k = ''type'' then set_str v (\<lambda>s. r\<lparr>cnsr_Type := s\<rparr>) r
     else if k = ''host'' then set_str v (\<lambda>s. r\<lparr>cnsr_Host := s\<rparr>) r
     else if k = ''record'' then set_str v (\<lambda>s. r\<lparr>cnsr_Record := s\<rparr>) r
     else if k = ''failover'' then set_int_string v (\<lambda>i. r\<lparr>cnsr_Failover := i\<rparr>) r
     else if k = ''ttl'' then set_int_string v (\<lambda>i. r\<lparr>cnsr_TTL := i\<rparr>) r
     else if k = ''status'' then set_int v (\<lambda>i. r\<lparr>cnsr_Status := i\<rparr>) r
     else Inr r) \<lparr>cnsr_ID = 0, cnsr_Type = [], cnsr_Host = [], cnsr_Record = [], cnsr_Failover = 0, cnsr_TTL = 0,
       cnsr_Status = 0\<rparr>"

text \<open>A map from identifiers to records.\<close>

definition cns_TXTRecords_of_json :: "json \<Rightarrow> goerror + (string \<times> cns_TXTRecord) list" where
  "cns_TXTRecords_of_json = decode_struct (\<lambda>k v m.
     case cns_TXTRecord_of_json v of Inl err \<Rightarrow> Inl err | Inr r \<Rightarrow> Inr (put k r m)) []"

section \<open>The client\<close>

definition cloudns_toUnreadableBodyMessage :: "http_request \<Rightarrow> string \<Rightarrow> string" where
  "cloudns_toUnreadableBodyMessage req rawBody =
     ''the request '' @ req_URL req @ '' sent a response with a body which is an invalid format: '' @ Quote rawBody"

definition cloudns_buildRequest :: "env \<Rightarrow> cloudns_client \<Rightarrow> string \<Rightarrow> url \<Rightarrow> goerror + http_request" where
  "cloudns_buildRequest e c method u =
     (let q = Values_Adds
            [if cnsc_subAuthID c \<noteq> [] then (''sub-auth-id'', cnsc_subAuthID c) else (''auth-id'', cnsc_authID c),
             (''auth-password'', cnsc_authPassword c)] (ParseQuery (url_RawQuery u)) in
      map_sum (Wrap ''invalid request: '') (\<lambda>x. x)
        (NewRequest e method (url_String (u\<lparr>url_RawQuery := Values_Encode q\<rparr>)) None))"

text \<open>A body that cannot be read to the end is quoted up to there; that part is taken to be empty.\<close>

definition cloudns_doRequest :: "env \<Rightarrow> cloudns_client \<Rightarrow> string \<Rightarrow> url \<Rightarrow> (world, goerror + string) go" where
  "cloudns_doRequest e c method u =
     (case cloudns_buildRequest e c method u of
        Inl err \<Rightarrow> ret (Inl err)
      | Inr req \<Rightarrow>
          check (http_do e req) (\<lambda>resp.
            case resp_Body resp of
              Inl _ \<Rightarrow> ret (Inl (Err (cloudns_toUnreadableBodyMessage req [])))
            | Inr content \<Rightarrow>
                if resp_StatusCode resp \<noteq> 200
                then ret (Inl (Err (''invalid code ('' @ show_int (resp_StatusCode resp) @ ''), error: '' @ content)))
                else ret (Inr content)))"

text \<open>A call of the API: its name behind the base URL, and its parameters.\<close>

definition cns_call :: "cloudns_client \<Rightarrow> string \<Rightarrow> (string \<times> string) list \<Rightarrow> url" where
  "cns_call c name params =
     (let u = (cnsc_BaseURL c)\<lparr>url_Path := url_Path (cnsc_BaseURL c) @ name\<rparr> in
      u\<lparr>url_RawQuery := Values_Encode (Values_Adds params (ParseQuery (url_RawQuery u)))\<rparr>)"

definition cloudns_GetZone :: "env \<Rightarrow> cloudns_client \<Rightarrow> string \<Rightarrow> (world, goerror + cns_Zone) go" where
  "cloudns_GetZone e c authFQDN =
     check (FindZoneByFqdn e authFQDN) (\<lambda>authZone.
       let authZoneName = UnFqdn authZone;
           not_found = Err (''zone '' @ authZoneName @ '' not found for authFQDN '' @ authFQDN) in
       check (cloudns_doRequest e c ''GET'' (cns_call c ''get-zone-info.json'' [(''domain-name'', authZoneName)])) (\<lambda>result.
         if result = [] then (if authZoneName = [] then ret (Inr \<lparr>cnsz_Name = [], cnsz_Type = [], cnsz_Zone = [], cnsz_Status = []\<rparr>)
           else ret (Inl not_found))
         else
           (case Unmarshal e cns_Zone_of_json result of
              Inl err \<Rightarrow> ret (Inl (Wrap ''zone unmarshaling error: '' err))
            | Inr zone \<Rightarrow> if cnsz_Name zone = authZoneName then ret (Inr zone) else ret (Inl not_found))))"

definition cns_host :: "string \<Rightarrow> string \<Rightarrow> string" where
  "cns_host zoneName fqdn = UnFqdn (TrimSuffix (UnFqdn fqdn) zoneName)"

definition cloudns_FindTxtRecord ::
  "env \<Rightarrow> cloudns_client \<Rightarrow> string \<Rightarrow> string \<Rightarrow> (world, goerror + cns_TXTRecord option) go" where
  "cloudns_FindTxtRecord e c zoneName fqdn =
     (let host = cns_host zoneName fqdn in
      check (cloudns_doRequest e c ''GET'' (cns_call c ''records.json''
          [(''domain-name'', zoneName), (''host'', host), (''type'', ''TXT'')])) (\<lambda>result.
        if result = ''[]'' then ret (Inr None)
        else
          (case Unmarshal e cns_TXTRecords_of_json result of
             Inl err \<Rightarrow> ret (Inl (Wrap ''TXT record unmarshaling error: '' (err_then err ('': '' @ result))))
           | Inr records \<Rightarrow>
               ret (Inr (find (\<lambda>r. cnsr_Host r = host \<and> cnsr_Type r = ''TXT'')
                 (map (\<lambda>i. snd (records ! i)) (filter (\<lambda>i. i < length records) (sched e (length records)))))))))"

definition cloudns_ttlRounder :: "int \<Rightarrow> int" where
  "cloudns_ttlRounder ttl =
     (case find (\<lambda>validTTL. ttl \<le> validTTL)
        [60, 300, 900, 1800, 3600, 21600, 43200, 86400, 172800, 259200, 604800, 1209600] of
        Some validTTL \<Rightarrow> validTTL
      | None \<Rightarrow> 2592000)"

text \<open>The end of both changes; removing a record fails with the words of adding one.\<close>

definition cns_outcome :: "env \<Rightarrow> string \<Rightarrow> goerror option" where
  "cns_outcome e raw =
     (case Unmarshal e cns_apiResponse_of_json raw of
        Inl err \<Rightarrow> Some (Wrap ''apiResponse unmarshaling error: '' (err_then err ('': '' @ raw)))
      | Inr (st, ds) \<Rightarrow> if st \<noteq> ''Success'' then Some (Err (''fail to add TXT record: '' @ st @ '' '' @ ds)) else None)"

definition cloudns_AddTxtRecord ::
  "env \<Rightarrow> cloudns_client \<Rightarrow> string \<Rightarrow> string \<Rightarrow> string \<Rightarrow> int \<Rightarrow> (world, goerror option) go" where
  "cloudns_AddTxtRecord e c zoneName fqdn value ttl =
     handle (cloudns_doRequest e c ''POST'' (cns_call c ''add-record.json''
         [(''domain-name'', zoneName), (''host'', cns_host zoneName fqdn), (''record'', value),
          (''ttl'', show_int (cloudns_ttlRounder ttl)), (''record-type'', ''TXT'')]))
       (\<lambda>err. ret (Some err)) (\<lambda>raw. ret (cns_outcome e raw))"

definition cloudns_RemoveTxtRecord :: "env \<Rightarrow> cloudns_client \<Rightarrow> int \<Rightarrow> string \<Rightarrow> (world, goerror option) go" where
  "cloudns_RemoveTxtRecord e c recordID zoneName =
     handle (cloudns_doRequest e c ''POST'' (cns_call c ''delete-record.json''
         [(''domain-name'', zoneName), (''record-id'', show_int recordID)]))
       (\<lambda>err. ret (Some err)) (\<lambda>raw. ret (cns_outcome e raw))"

section \<open>The provider\<close>

definition cloudns_Present :: "env \<Rightarrow> cloudns \<Rightarrow> string \<Rightarrow> string \<Rightarrow> string \<Rightarrow> (world, goerror option) go" where
  "cloudns_Present e d domain token keyAuth =
     bind (GetRecord e domain keyAuth) (\<lambda>(fqdn, value).
       try_or ''ClouDNS: '' (cloudns_GetZone e (cns_client d) fqdn) (\<lambda>zone.
         wrap_err ''ClouDNS: ''
           (cloudns_AddTxtRecord e (cns_client d) (cnsz_Name zone) fqdn value (hcf_TTL (cns_config d)))))"

definition cloudns_CleanUp :: "env \<Rightarrow> cloudns \<Rightarrow> string \<Rightarrow> string \<Rightarrow> string \<Rightarrow> (world, goerror option) go" where
  "cloudns_CleanUp e d domain token keyAuth =
     bind (GetRecord e domain keyAuth) (\<lambda>(fqdn, _).
       try_or ''ClouDNS: '' (cloudns_GetZone e (cns_client d) fqdn) (\<lambda>zone.
         try_or ''ClouDNS: '' (cloudns_FindTxtRecord e (cns_client d) (cnsz_Name zone) fqdn) (\<lambda>record.
           case record of
             None \<Rightarrow> ret None
           | Some r \<Rightarrow>
               wrap_err ''ClouDNS: '' (cloudns_RemoveTxtRecord e (cns_client d) (cnsr_ID r) (cnsz_Name zone)))))"

definition cloudns_Timeout :: "cloudns \<Rightarrow> int \<times> int" where
  "cloudns_Timeout d = (hcf_PropagationTimeout (cns_config d), hcf_PollingInterval (cns_config d))"

definition cloudns_provider :: "env \<Rightarrow> cloudns \<Rightarrow> provider" where
  "cloudns_provider e d =
     \<lparr>prov_Present = cloudns_Present e d, prov_CleanUp = cloudns_CleanUp e d,
      prov_Timeout = Some (cloudns_Timeout d), prov_Sequential = None\<rparr>"

section \<open>The provider keeps its contract\<close>

lemma cloudns_buildRequest_Inr:
  "cloudns_buildRequest e c method u = Inr req \<Longrightarrow> req_Body req = NoBody"
  by (auto simp: cloudns_buildRequest_def Let_def map_sum_Inr_iff NewRequest_Inr)

context lookup_invariant
begin

lemma always_cloudns_doRequest [always_intros]: "always R (cloudns_doRequest e c method u)"
  unfolding cloudns_doRequest_def
  by (intro always_intros always_plain_http) (auto dest: cloudns_buildRequest_Inr)

lemma always_cloudns [always_intros]:
  "always R (cloudns_GetZone e c authFQDN)" "always R (cloudns_FindTxtRecord e c zoneName fqdn)"
  "always R (cloudns_AddTxtRecord e c zoneName fqdn value ttl)" "always R (cloudns_RemoveTxtRecord e c recordID zoneName)"
  unfolding cloudns_GetZone_def cloudns_FindTxtRecord_def cloudns_AddTxtRecord_def cloudns_RemoveTxtRecord_def Let_def
  by (intro always_intros)+

end

context plain_invariant
begin

lemma cloudns_keeps: "provider_keeps R (cloudns_provider e d)"
  unfolding cloudns_provider_def
  by (rule provider_keepsI; unfold cloudns_Present_def cloudns_CleanUp_def; intro always_intros)

end

text \<open>The value is in the URL that is sent, behind both rounds of writing the query.\<close>

lemma cloudns_request_value:
  assumes "cloudns_buildRequest e c method (cns_call c name params) = Inr req"
    and "(k, v) \<in> set params" and "QueryEscape v = v"
  shows "carries e v req"
proof -
  let ?u = "cns_call c name params"
  have "url_RawQuery ?u = Values_Encode (Values_Adds params (ParseQuery (url_RawQuery (cnsc_BaseURL c))))"
    by (simp add: cns_call_def Let_def)
  then have "has_value (ParseQuery (url_RawQuery ?u)) k v"
    by (simp only:) (intro has_value_reread has_value_Adds distinct_ParseQuery disjI1 assms(2))
  then have "has_value (Values_Adds ps (ParseQuery (url_RawQuery ?u))) k v" for ps
    by (intro has_value_Adds distinct_ParseQuery disjI2)
  then obtain xs where xs: "map_of (Values_Adds
      [if cnsc_subAuthID c \<noteq> [] then (''sub-auth-id'', cnsc_subAuthID c) else (''auth-id'', cnsc_authID c),
       (''auth-password'', cnsc_authPassword c)] (ParseQuery (url_RawQuery ?u))) k = Some xs" "v \<in> set xs"
    unfolding has_value_def by blast
  have "\<exists>a b. req_URL req = a @ v @ b"
    using assms(1) url_String_value [OF xs assms(3), of "?u\<lparr>url_RawQuery := Values_Encode (Values_Adds
      [if cnsc_subAuthID c \<noteq> [] then (''sub-auth-id'', cnsc_subAuthID c) else (''auth-id'', cnsc_authID c),
       (''auth-password'', cnsc_authPassword c)] (ParseQuery (url_RawQuery ?u)))\<rparr>"]
    by (auto simp: cloudns_buildRequest_def Let_def map_sum_Inr_iff NewRequest_Inr)
  then show ?thesis using carries_url by blast
qed

definition cloudns_accepts :: "env \<Rightarrow> http_response \<Rightarrow> bool" where
  "cloudns_accepts e resp \<longleftrightarrow> resp_StatusCode resp = 200
     \<and> (\<exists>raw ds. resp_Body resp = Inr raw \<and> Unmarshal e cns_apiResponse_of_json raw = Inr (''Success'', ds))"

lemma cns_outcome_None:
  "cns_outcome e raw = None \<longleftrightarrow> (\<exists>ds. Unmarshal e cns_apiResponse_of_json raw = Inr (''Success'', ds))"
  by (auto simp: cns_outcome_def split: sum.splits)

lemma cloudns_AddTxtRecord_sent:
  assumes "QueryEscape value = value"
  shows "ensures is_nil (delivered e value (answered (cloudns_accepts e))) (cloudns_AddTxtRecord e c zoneName fqdn value ttl)"
proof -
  have "carries e value req" if "cloudns_buildRequest e c ''POST'' (cns_call c ''add-record.json''
      [(''domain-name'', zoneName), (''host'', cns_host zoneName fqdn), (''record'', value),
       (''ttl'', show_int (cloudns_ttlRounder ttl)), (''record-type'', ''TXT'')]) = Inr req" for req
    using cloudns_request_value [OF that, of "''record''" "value"] assms by simp
  then show ?thesis
    unfolding ensures_def cloudns_AddTxtRecord_def cloudns_doRequest_def
    by (auto simp: host_runs run_cases cns_outcome_None cloudns_accepts_def dest!: happened_http
        intro!: exI [of _ "EvHttp _ (Inr _)"] exI)
qed

lemma cloudns_Present_sent:
  "ensures is_nil (delivered e (record_value e keyAuth) (answered (cloudns_accepts e))) (cloudns_Present e d domain token keyAuth)"
  unfolding cloudns_Present_def
  by (intro ensures_wrap cloudns_AddTxtRecord_sent ensures_intros ensures_try_later always_intros) simp

interpretation cloudns: hosting e "cloudns_provider e d" "answered (cloudns_accepts e)" for e d
  by (rule hostingI [OF outsider.cloudns_keeps]) (simp add: cloudns_Present_sent cloudns_provider_def)

section \<open>The time to live\<close>

text \<open>The service knows thirteen values; the smallest that is large enough is taken, and the greatest for the rest.\<close>

lemma cloudns_ttlRounder_bounds:
  "60 \<le> cloudns_ttlRounder ttl \<and> cloudns_ttlRounder ttl \<le> 2592000
   \<and> (ttl \<le> 1209600 \<longrightarrow> ttl \<le> cloudns_ttlRounder ttl)"
  by (simp add: cloudns_ttlRounder_def)

end
