(* ===== verification/Cloudxns.thy ===== *)
theory Cloudxns
  imports Hosting
begin

text \<open>
  Package \<^verbatim>\<open>providers/dns/cloudxns\<close> with its client.  Every request carries a digest of the keys, the URL, the body
  and the date; a reply counts when its code is 1, whatever the status of the exchange.
\<close>

definition cloudxns_defaultBaseURL :: string where "cloudxns_defaultBaseURL = ''https://www.cloudxns.net/api2/''"

record cloudxns_config = ttl_config +
  cx_APIKey :: string
  cx_SecretKey :: string

definition cloudxns_NewDefaultConfig :: "env \<Rightarrow> cloudxns_config" where
  "cloudxns_NewDefaultConfig e =
     \<lparr>hcf_PropagationTimeout = GetOrDefaultSecond e ''CLOUDXNS_PROPAGATION_TIMEOUT'' DefaultPropagationTimeout,
      hcf_PollingInterval = GetOrDefaultSecond e ''CLOUDXNS_POLLING_INTERVAL'' DefaultPollingInterval,
      hcf_HTTPTimeout = GetOrDefaultSecond e ''CLOUDXNS_HTTP_TIMEOUT'' (30 * Second),
      hcf_TTL = GetOrDefaultInt e ''CLOUDXNS_TTL'' (int DefaultTTL), cx_APIKey = [], cx_SecretKey = []\<rparr>"

record cloudxns_client =
  cxc_apiKey :: string
  cxc_secretKey :: string
  cxc_BaseURL :: string

definition cloudxns_NewClient :: "string \<Rightarrow> string \<Rightarrow> goerror + cloudxns_client" where
  "cloudxns_NewClient apiKey secretKey =
     (if apiKey = [] then Inl (Err ''CloudXNS: credentials missing: apiKey'')
      else if secretKey = [] then Inl (Err ''CloudXNS: credentials missing: secretKey'')
      else Inr \<lparr>cxc_apiKey = apiKey, cxc_secretKey = secretKey, cxc_BaseURL = cloudxns_defaultBaseURL\<rparr>)"

record cloudxns =
  cx_config :: cloudxns_config
  cx_client :: cloudxns_client

definition cloudxns_NewDNSProviderConfig :: "cloudxns_config option \<Rightarrow> goerror + cloudxns" where
  "cloudxns_NewDNSProviderConfig config =
     (case config of
        None \<Rightarrow> Inl (nil_config ''CloudXNS'')
      | Some c \<Rightarrow>
          (case cloudxns_NewClient (cx_APIKey c) (cx_SecretKey c) of
             Inl err \<Rightarrow> Inl err
           | Inr client \<Rightarrow> Inr \<lparr>cx_config = c, cx_client = client\<rparr>))"

definition cloudxns_NewDNSProvider :: "env \<Rightarrow> goerror + cloudxns" where
  "cloudxns_NewDNSProvider e =
     (case env_Get e [''CLOUDXNS_API_KEY'', ''CLOUDXNS_SECRET_KEY''] of
        Inl err \<Rightarrow> Inl (Wrap ''CloudXNS: '' err)
      | Inr values \<Rightarrow>
          cloudxns_NewDNSProviderConfig (Some ((cloudxns_NewDefaultConfig e)
            \<lparr>cx_APIKey := env_value values ''CLOUDXNS_API_KEY'',
             cx_SecretKey := env_value values ''CLOUDXNS_SECRET_KEY''\<rparr>)))"

section \<open>Messages\<close>

text \<open>The data of a reply are kept as they came, \<open>None\<close> when there are none.\<close>

record cx_apiResponse =
  cxa_Code :: int
  cxa_Message :: string
  cxa_Data :: "json option"

definition cx_apiResponse_of_json :: "json \<Rightarrow> goerror + cx_apiResponse" where
  "cx_apiResponse_of_json = decode_struct (\<lambda>k v a.
     if k = ''code'' then set_int v (\<lambda>i. a\<lparr>cxa_Code := i\<rparr>) a
     else if k = ''message'' then set_str v (\<lambda>s. a\<lparr>cxa_Message := s\<rparr>) a
     else if k = ''data'' then Inr (a\<lparr>cxa_Data := Some v\<rparr>)
     else Inr a) \<lparr>cxa_Code = 0, cxa_Message = [], cxa_Data = None\<rparr>"

record cx_Data =
  cxd_ID :: string
  cxd_Domain :: string
  cxd_TTL :: int

definition cx_Data_of_json :: "json \<Rightarrow> goerror + cx_Data" where
  "cx_Data_of_json = decode_struct (\<lambda>k v d.
     if k = ''id'' then set_str v (\<lambda>s. d\<lparr>cxd_ID := s\<rparr>) d
     else if k = ''domain'' then set_str v (\<lambda>s. d\<lparr>cxd_Domain := s\<rparr>) d
     else if k = ''ttl'' then set_int v (\<lambda>i. d\<lparr>cxd_TTL := i\<rparr>) d
     else Inr d) \<lparr>cxd_ID = [], cxd_Domain = [], cxd_TTL = 0\<rparr>"

record cx_TXTRecord =
  cxr_ID :: int
  cxr_RecordID :: string
  cxr_Host :: string
  cxr_Value :: string
  cxr_Type :: string
  cxr_LineID :: int
  cxr_TTL :: int

text \<open>Two of the numbers are written and read as texts.\<close>

definition cx_TXTRecord_json :: "cx_TXTRecord \<Rightarrow> json" where
  "cx_TXTRecord_json r =
     JObj (omit_int ''domain_id'' (cxr_ID r) @ omit_str ''record_id'' (cxr_RecordID r)
       @ [(''host'', JStr (cxr_Host r)), (''value'', JStr (cxr_Value r)), (''type'', JStr (cxr_Type r)),
          (''line_id'', JStr (show_int (cxr_LineID r))), (''ttl'', JStr (show_int (cxr_TTL r)))])"

definition cx_TXTRecord_of_json :: "json \<Rightarrow> goerror + cx_TXTRecord" where
  "cx_TXTRecord_of_json = decode_struct (\<lambda>k v r.
     if k = ''domain_id'' then set_int v (\<lambda>i. r\<lparr>cxr_ID := i\<rparr>) r
     else if k = ''record_id'' then set_str v (\<lambda>s. r\<lparr>cxr_RecordID := s\<rparr>) r
     else if k = ''host'' then set_str v (\<lambda>s. r\<lparr>cxr_Host := s\<rparr>) r
     else if k = ''value'' then set_str v (\<lambda>s. r\<lparr>cxr_Value := s\<rparr>) r
     else if k = ''type'' then set_str v (\<lambda>s. r\<lparr>cxr_Type := s\<rparr>) r
     else if k = ''line_id'' then set_int_string v (\<lambda>i. r\<lparr>cxr_LineID := i\<rparr>) r
     else if k = ''ttl'' then set_int_string v (\<lambda>i. r\<lparr>cxr_TTL := i\<rparr>) r
     else Inr r) \<lparr>cxr_ID = 0, cxr_RecordID = [], cxr_Host = [], cxr_Value = [], cxr_Type = [], cxr_LineID = 0, cxr_TTL = 0\<rparr>"

section \<open>The client\<close>

text \<open>The error of \<^verbatim>\<open>strconv.Atoi\<close>.\<close>

definition Atoi_error :: "string \<Rightarrow> goerror" where
  "Atoi_error s =
     (let digits = (if s \<noteq> [] \<and> (hd s = CHR ''+'' \<or> hd s = CHR ''-'') then tl s else s) in
      Err (''strconv.Atoi: parsing '' @ Quote s
        @ (if digits \<noteq> [] \<and> list_all is_digit digits then '': value out of range'' else '': invalid syntax'')))"

definition cloudxns_hmac :: "env \<Rightarrow> cloudxns_client \<Rightarrow> string \<Rightarrow> string \<Rightarrow> string \<Rightarrow> string" where
  "cloudxns_hmac e c url date body =
     hex_EncodeToString (md5 e (cxc_apiKey c @ url @ body @ date @ cxc_secretKey c))"

definition cloudxns_toUnreadableBodyMessage :: "string \<Rightarrow> string \<Rightarrow> string" where
  "cloudxns_toUnreadableBodyMessage url rawBody =
     ''the request '' @ url @ '' sent a response with a body which is an invalid format: '' @ Quote rawBody"

text \<open>The head of a request; \<open>now\<close> is the time of day when it is made.\<close>

definition cloudxns_buildRequest ::
  "env \<Rightarrow> cloudxns_client \<Rightarrow> int \<Rightarrow> string \<Rightarrow> string \<Rightarrow> string option \<Rightarrow> goerror + http_request" where
  "cloudxns_buildRequest e c now method uri body =
     (let url = cxc_BaseURL c @ uri;
          requestDate = timeFormat e ''Mon, 02 Jan 2006 15:04:05 -0700'' now in
      map_sum (Wrap ''CloudXNS: invalid request: '') (\<lambda>req.
          Header_Set ''API-FORMAT'' ''json''
            (Header_Set ''API-HMAC'' (cloudxns_hmac e c url requestDate (case body of None \<Rightarrow> [] | Some b \<Rightarrow> b))
              (Header_Set ''API-REQUEST-DATE'' requestDate (Header_Set ''API-KEY'' (cxc_apiKey c) req))))
        (NewRequest e method url body))"

text \<open>A body that cannot be read to the end is quoted up to there; that part is taken to be empty.\<close>

definition cloudxns_doRequest ::
  "env \<Rightarrow> cloudxns_client \<Rightarrow> string \<Rightarrow> string \<Rightarrow> string option \<Rightarrow> (world, goerror + json option) go" where
  "cloudxns_doRequest e c method uri body =
     bind (gets w_now) (\<lambda>now.
       case cloudxns_buildRequest e c now method uri body of
         Inl err \<Rightarrow> ret (Inl err)
       | Inr req \<Rightarrow>
           check (wrap_res ''CloudXNS: '' (http_do e req)) (\<lambda>resp.
             case resp_Body resp of
               Inl _ \<Rightarrow> ret (Inl (Err (''CloudXNS: '' @ cloudxns_toUnreadableBodyMessage (req_URL req) [])))
             | Inr content \<Rightarrow>
                 (case Unmarshal e cx_apiResponse_of_json content of
                    Inl err \<Rightarrow> ret (Inl (Wrap ''CloudXNS: response unmashaling error: ''
                      (err_then err ('': '' @ cloudxns_toUnreadableBodyMessage (req_URL req) content))))
                  | Inr r \<Rightarrow>
                      if cxa_Code r \<noteq> 1
                      then ret (Inl (Err (''CloudXNS: invalid code ('' @ show_int (cxa_Code r) @ ''), error: '' @ cxa_Message r)))
                      else ret (Inr (cxa_Data r)))))"

definition cloudxns_GetDomainInformation :: "env \<Rightarrow> cloudxns_client \<Rightarrow> string \<Rightarrow> (world, goerror + cx_Data) go" where
  "cloudxns_GetDomainInformation e c fqdn =
     check (FindZoneByFqdn e fqdn) (\<lambda>authZone.
       check (cloudxns_doRequest e c ''GET'' ''domain'' None) (\<lambda>result.
         case (case result of None \<Rightarrow> Inr [] | Some j \<Rightarrow> list_of_json cx_Data_of_json j) of
           Inl err \<Rightarrow> ret (Inl (Wrap ''CloudXNS: domains unmarshaling error: '' err))
         | Inr domains \<Rightarrow>
             (case find (\<lambda>data. cxd_Domain data = authZone) domains of
                Some data \<Rightarrow> ret (Inr data)
              | None \<Rightarrow> ret (Inl (Err (''CloudXNS: zone '' @ authZone @ '' not found for domain '' @ fqdn))))))"

definition cloudxns_FindTxtRecord :: "env \<Rightarrow> cloudxns_client \<Rightarrow> string \<Rightarrow> string \<Rightarrow> (world, goerror + cx_TXTRecord) go" where
  "cloudxns_FindTxtRecord e c zoneID fqdn =
     check (cloudxns_doRequest e c ''GET'' (''record/'' @ zoneID @ ''?host_id=0&offset=0&row_num=2000'') None) (\<lambda>result.
       case unmarshal_raw (list_of_json cx_TXTRecord_of_json) result of
         Inl err \<Rightarrow> ret (Inl (Wrap ''CloudXNS: TXT record unmarshaling error: '' err))
       | Inr records \<Rightarrow>
           (case find (\<lambda>r. cxr_Host r = UnFqdn fqdn \<and> cxr_Type r = ''TXT'') records of
              Some r \<Rightarrow> ret (Inr r)
            | None \<Rightarrow> ret (Inl (Err (''CloudXNS: no existing record found for '' @ Quote fqdn)))))"

definition cloudxns_AddTxtRecord ::
  "env \<Rightarrow> cloudxns_client \<Rightarrow> cx_Data \<Rightarrow> string \<Rightarrow> string \<Rightarrow> int \<Rightarrow> (world, goerror + unit) go" where
  "cloudxns_AddTxtRecord e c info fqdn value ttl =
     (case Atoi (cxd_ID info) of
        None \<Rightarrow> ret (Inl (Wrap ''CloudXNS: invalid zone ID: '' (Atoi_error (cxd_ID info))))
      | Some i \<Rightarrow>
          check (cloudxns_doRequest e c ''POST'' ''record'' (Some (jsonPrint e (cx_TXTRecord_json
              \<lparr>cxr_ID = i, cxr_RecordID = [], cxr_Host = UnFqdn (TrimSuffix fqdn (cxd_Domain info)), cxr_Value = value,
               cxr_Type = ''TXT'', cxr_LineID = 1, cxr_TTL = ttl\<rparr>)))) (\<lambda>_. ret (Inr ())))"

definition cloudxns_RemoveTxtRecord :: "env \<Rightarrow> cloudxns_client \<Rightarrow> string \<Rightarrow> string \<Rightarrow> (world, goerror + unit) go" where
  "cloudxns_RemoveTxtRecord e c recordID zoneID =
     check (cloudxns_doRequest e c ''DELETE'' (''record/'' @ recordID @ ''/'' @ zoneID) None) (\<lambda>_. ret (Inr ()))"

section \<open>The provider\<close>

definition cloudxns_Present :: "env \<Rightarrow> cloudxns \<Rightarrow> string \<Rightarrow> string \<Rightarrow> string \<Rightarrow> (world, goerror option) go" where
  "cloudxns_Present e d domain token keyAuth =
     bind (GetRecord e domain keyAuth) (\<lambda>(fqdn, value).
       passing (cloudxns_GetDomainInformation e (cx_client d) fqdn) (\<lambda>info.
         passing (cloudxns_AddTxtRecord e (cx_client d) info fqdn value (hcf_TTL (cx_config d))) (\<lambda>_. ret None)))"

definition cloudxns_CleanUp :: "env \<Rightarrow> cloudxns \<Rightarrow> string \<Rightarrow> string \<Rightarrow> string \<Rightarrow> (world, goerror option) go" where
  "cloudxns_CleanUp e d domain token keyAuth =
     bind (GetRecord e domain keyAuth) (\<lambda>(fqdn, _).
       passing (cloudxns_GetDomainInformation e (cx_client d) fqdn) (\<lambda>info.
         passing (cloudxns_FindTxtRecord e (cx_client d) (cxd_ID info) fqdn) (\<lambda>record.
           passing (cloudxns_RemoveTxtRecord e (cx_client d) (cxr_RecordID record) (cxd_ID info)) (\<lambda>_. ret None))))"

definition cloudxns_Timeout :: "cloudxns \<Rightarrow> int \<times> int" where
  "cloudxns_Timeout d = (hcf_PropagationTimeout (cx_config d), hcf_PollingInterval (cx_config d))"

definition cloudxns_provider :: "env \<Rightarrow> cloudxns \<Rightarrow> provider" where
  "cloudxns_provider e d =
     \<lparr>prov_Present = cloudxns_Present e d, prov_CleanUp = cloudxns_CleanUp e d,
      prov_Timeout = Some (cloudxns_Timeout d), prov_Sequential = None\<rparr>"

section \<open>The provider keeps its contract\<close>

lemma cloudxns_buildRequest_body:
  "cloudxns_buildRequest e c now method uri body = Inr req \<Longrightarrow>
   req_Body req = (case body of None \<Rightarrow> NoBody | Some b \<Rightarrow> RawBody b)"
  unfolding cloudxns_buildRequest_def Let_def
  by (cases "NewRequest e method (cxc_BaseURL c @ uri) body") (auto simp: NewRequest_Inr)

context plain_invariant
begin

lemma always_cloudxns_doRequest [always_intros]: "always R (cloudxns_doRequest e c method uri body)"
  unfolding cloudxns_doRequest_def
  by (intro always_intros always_plain_http) (auto dest!: cloudxns_buildRequest_body split: option.splits)

lemma always_cloudxns [always_intros]:
  "always R (cloudxns_FindTxtRecord e c zoneID fqdn)" "always R (cloudxns_AddTxtRecord e c info fqdn v ttl)"
  "always R (cloudxns_RemoveTxtRecord e c recordID zoneID)" "always R (cloudxns_GetDomainInformation e c fqdn)"
  unfolding cloudxns_FindTxtRecord_def cloudxns_AddTxtRecord_def cloudxns_RemoveTxtRecord_def
    cloudxns_GetDomainInformation_def
  by (intro always_intros)+

lemma cloudxns_keeps: "provider_keeps R (cloudxns_provider e d)"
  unfolding cloudxns_provider_def
  by (rule provider_keepsI; unfold cloudxns_Present_def cloudxns_CleanUp_def; intro always_intros)

end

definition cloudxns_accepts :: "env \<Rightarrow> http_response \<Rightarrow> bool" where
  "cloudxns_accepts e resp \<longleftrightarrow>
     (\<exists>content r. resp_Body resp = Inr content \<and> Unmarshal e cx_apiResponse_of_json content = Inr r \<and> cxa_Code r = 1)"

lemma cloudxns_doRequest_sent:
  assumes "v \<in> set (json_strings j)"
  shows "ensures is_ok (delivered e v (answered (cloudxns_accepts e))) (cloudxns_doRequest e c method uri (Some (jsonPrint e j)))"
  unfolding ensures_def
proof (intro allI impI)
  fix s x t
  assume run: "cloudxns_doRequest e c method uri (Some (jsonPrint e j)) s = (Return x, t)" and ok: "is_ok x"
  then obtain req resp where req: "cloudxns_buildRequest e c (w_now s) method uri (Some (jsonPrint e j)) = Inr req"
    and sent: "happened s t (EvHttp req (Inr resp))" "cloudxns_accepts e resp"
    unfolding cloudxns_doRequest_def cloudxns_accepts_def
    by (auto simp: host_runs run_cases dest!: happened_http)
  have "carries e v req" using cloudxns_buildRequest_body [OF req] assms by (simp add: carries_json)
  with sent show "\<exists>ev. happened s t ev \<and> delivered e v (answered (cloudxns_accepts e)) ev"
    by (intro exI [of _ "EvHttp req (Inr resp)"]) simp
qed

lemma cloudxns_AddTxtRecord_sent:
  "ensures is_ok (delivered e v (answered (cloudxns_accepts e))) (cloudxns_AddTxtRecord e c info fqdn v ttl)"
  unfolding cloudxns_AddTxtRecord_def
  by (intro ensures_check_first [OF cloudxns_doRequest_sent] ensures_intros growing.always_cloudxns_doRequest always_intros)
    (simp_all add: cx_TXTRecord_json_def)

lemma cloudxns_Present_sent:
  "ensures is_nil (delivered e (record_value e keyAuth) (answered (cloudxns_accepts e))) (cloudxns_Present e d domain token keyAuth)"
  unfolding cloudxns_Present_def
  by (intro ensures_handle_first [OF cloudxns_AddTxtRecord_sent] ensures_intros ensures_handle_later always_intros) simp_all

interpretation cloudxns: hosting e "cloudxns_provider e d" "answered (cloudxns_accepts e)" for e d
  by (rule hostingI [OF outsider.cloudxns_keeps]) (simp add: cloudxns_Present_sent cloudxns_provider_def)

end
