(* ===== verification/Constellix.thy ===== *)
theory Constellix
  imports Hosting
begin

text \<open>
  Package \<^verbatim>\<open>providers/dns/constellix\<close> with its client.  A record has several values; \<^verbatim>\<open>Present\<close> adds one and \<^verbatim>\<open>CleanUp\<close>
  takes it out again.  A search that the service answers with \<^verbatim>\<open>404\<close> found nothing.
\<close>

definition constellix_defaultBaseURL :: string where
  "constellix_defaultBaseURL = ''https://api.dns.constellix.com''"

definition constellix_defaultVersion :: string where
  "constellix_defaultVersion = ''v1''"

record constellix_config = ttl_config +
  cst_APIKey :: string
  cst_SecretKey :: string

definition constellix_NewDefaultConfig :: "env \<Rightarrow> constellix_config" where
  "constellix_NewDefaultConfig e =
     \<lparr>hcf_PropagationTimeout = GetOrDefaultSecond e ''CONSTELLIX_PROPAGATION_TIMEOUT'' DefaultPropagationTimeout,
      hcf_PollingInterval = GetOrDefaultSecond e ''CONSTELLIX_POLLING_INTERVAL'' (10 * Second),
      hcf_HTTPTimeout = GetOrDefaultSecond e ''CONSTELLIX_HTTP_TIMEOUT'' (30 * Second),
      hcf_TTL = GetOrDefaultInt e ''CONSTELLIX_TTL'' 60, cst_APIKey = [], cst_SecretKey = []\<rparr>"

section \<open>Authentication\<close>

definition constellix_securityTokenHeader :: string where
  "constellix_securityTokenHeader = ''x-cns-security-token''"

record constellix_TokenTransport =
  cstt_apiKey :: string
  cstt_secretKey :: string

definition constellix_NewTokenTransport :: "string \<Rightarrow> string \<Rightarrow> goerror + constellix_TokenTransport" where
  "constellix_NewTokenTransport apiKey secretKey =
     (if apiKey = [] then Inl (Err ''credentials missing: API key'')
      else if secretKey = [] then Inl (Err ''credentials missing: secret key'')
      else Inr \<lparr>cstt_apiKey = apiKey, cstt_secretKey = secretKey\<rparr>)"

definition constellix_encodedHmac :: "env \<Rightarrow> int \<Rightarrow> string \<Rightarrow> string" where
  "constellix_encodedHmac e message secret = StdEncoding (hmacSHA1 e secret (show_int message))"

text \<open>The time, in nanoseconds, is rounded to milliseconds.\<close>

definition constellix_createCnsSecurityToken :: "env \<Rightarrow> int \<Rightarrow> string \<Rightarrow> string \<Rightarrow> string" where
  "constellix_createCnsSecurityToken e now apiKey secretKey =
     (let timestamp = (now + 500000) div 1000000 in
      apiKey @ '':'' @ constellix_encodedHmac e timestamp secretKey @ '':'' @ show_int timestamp)"

text \<open>What the transport adds to a request; the transport below it belongs to the HTTP client.\<close>

definition constellix_RoundTrip :: "env \<Rightarrow> constellix_TokenTransport \<Rightarrow> int \<Rightarrow> http_request \<Rightarrow> http_request" where
  "constellix_RoundTrip e t now req =
     (if cstt_apiKey t \<noteq> [] \<and> cstt_secretKey t \<noteq> []
      then Header_Add constellix_securityTokenHeader
        (constellix_createCnsSecurityToken e now (cstt_apiKey t) (cstt_secretKey t)) req
      else req)"

record constellix_client =
  cstc_BaseURL :: string
  cstc_Transport :: constellix_TokenTransport

definition constellix_NewClient :: "constellix_TokenTransport \<Rightarrow> constellix_client" where
  "constellix_NewClient tr = \<lparr>cstc_BaseURL = constellix_defaultBaseURL, cstc_Transport = tr\<rparr>"

record constellix =
  cst_config :: constellix_config
  cst_client :: constellix_client

definition constellix_NewDNSProviderConfig :: "constellix_config option \<Rightarrow> goerror + constellix" where
  "constellix_NewDNSProviderConfig config =
     (case config of
        None \<Rightarrow> Inl (nil_config ''constellix'')
      | Some c \<Rightarrow>
          if cst_SecretKey c = [] \<or> cst_APIKey c = []
          then Inl (Err ''constellix: incomplete credentials, missing secret key and/or API key'')
          else (case constellix_NewTokenTransport (cst_APIKey c) (cst_SecretKey c) of
                  Inl err \<Rightarrow> Inl (Wrap ''constellix: '' err)
                | Inr tr \<Rightarrow> Inr \<lparr>cst_config = c, cst_client = constellix_NewClient tr\<rparr>))"

definition constellix_NewDNSProvider :: "env \<Rightarrow> goerror + constellix" where
  "constellix_NewDNSProvider e =
     (case env_Get e [''CONSTELLIX_API_KEY'', ''CONSTELLIX_SECRET_KEY''] of
        Inl err \<Rightarrow> Inl (Wrap ''constellix: '' err)
      | Inr values \<Rightarrow>
          constellix_NewDNSProviderConfig (Some ((constellix_NewDefaultConfig e)
            \<lparr>cst_APIKey := env_value values ''CONSTELLIX_API_KEY'',
             cst_SecretKey := env_value values ''CONSTELLIX_SECRET_KEY''\<rparr>)))"

section \<open>Messages\<close>

definition constellix_Exact :: string where
  "constellix_Exact = ''exact''"

record cst_APIError =
  cste_StatusCode :: int
  cste_Errors :: "string list"

definition cst_APIError_of_json :: "int \<Rightarrow> json \<Rightarrow> goerror + cst_APIError" where
  "cst_APIError_of_json status = decode_struct (\<lambda>k v a.
     if k = ''statusCode'' then set_int v (\<lambda>i. a\<lparr>cste_StatusCode := i\<rparr>) a
     else if k = ''errors'' then set_struct (list_of_json (\<lambda>x. set_str x (\<lambda>s. s) [])) v (\<lambda>l. a\<lparr>cste_Errors := l\<rparr>)
     else Inr a) \<lparr>cste_StatusCode = status, cste_Errors = []\<rparr>"

definition constellix_Error :: "cst_APIError \<Rightarrow> goerror" where
  "constellix_Error a = Err (show_int (cste_StatusCode a) @ '': '' @ Join (cste_Errors a) '': '')"

text \<open>The errors of a request, by their type.\<close>

datatype cst_error = NotFound cst_APIError | BadRequest cst_APIError | Other goerror

fun cst_as_error :: "cst_error \<Rightarrow> goerror" where
  "cst_as_error (NotFound a) = constellix_Error a"
| "cst_as_error (BadRequest a) = constellix_Error a"
| "cst_as_error (Other err) = err"

definition cst_SuccessMessage_of_json :: "json \<Rightarrow> goerror + string" where
  "cst_SuccessMessage_of_json = decode_struct (\<lambda>k v m. if k = ''success'' then set_str v (\<lambda>s. s) m else Inr m) []"

record cst_RecordValue =
  cstv_Value :: string
  cstv_DisableFlag :: bool

definition cst_RecordValue_json :: "cst_RecordValue \<Rightarrow> json" where
  "cst_RecordValue_json v = JObj (omit_str ''value'' (cstv_Value v) @ omit_bool ''disableFlag'' (cstv_DisableFlag v))"

definition cst_RecordValue_of_json :: "json \<Rightarrow> goerror + cst_RecordValue" where
  "cst_RecordValue_of_json = decode_struct (\<lambda>k v r.
     if k = ''value'' then set_str v (\<lambda>s. r\<lparr>cstv_Value := s\<rparr>) r
     else if k = ''disableFlag'' then set_bool v (\<lambda>b. r\<lparr>cstv_DisableFlag := b\<rparr>) r
     else Inr r) \<lparr>cstv_Value = [], cstv_DisableFlag = False\<rparr>"

record cst_RecordRequest =
  cstq_Name :: string
  cstq_TTL :: int
  cstq_RoundRobin :: "cst_RecordValue list"

definition cst_RecordRequest_json :: "cst_RecordRequest \<Rightarrow> json" where
  "cst_RecordRequest_json r =
     JObj ([(''name'', JStr (cstq_Name r))] @ omit_int ''ttl'' (cstq_TTL r)
       @ omit_list ''roundRobin'' cst_RecordValue_json (cstq_RoundRobin r))"

record cst_Record =
  cstr_ID :: int
  cstr_Type :: string
  cstr_RecordType :: string
  cstr_Name :: string
  cstr_RecordOption :: string
  cstr_NoAnswer :: bool
  cstr_Note :: string
  cstr_TTL :: int
  cstr_GtdRegion :: int
  cstr_ParentID :: int
  cstr_Parent :: string
  cstr_Source :: string
  cstr_ModifiedTs :: int
  cstr_Value :: "cst_RecordValue list"
  cstr_RoundRobin :: "cst_RecordValue list"

definition zero_cst_Record :: cst_Record where
  "zero_cst_Record = \<lparr>cstr_ID = 0, cstr_Type = [], cstr_RecordType = [], cstr_Name = [], cstr_RecordOption = [],
     cstr_NoAnswer = False, cstr_Note = [], cstr_TTL = 0, cstr_GtdRegion = 0, cstr_ParentID = 0, cstr_Parent = [],
     cstr_Source = [], cstr_ModifiedTs = 0, cstr_Value = [], cstr_RoundRobin = []\<rparr>"

definition cst_Record_of_json :: "json \<Rightarrow> goerror + cst_Record" where
  "cst_Record_of_json = decode_struct (\<lambda>k v r.
     if k = ''id'' then set_int v (\<lambda>i. r\<lparr>cstr_ID := i\<rparr>) r
     else if k = ''type'' then set_str v (\<lambda>s. r\<lparr>cstr_Type := s\<rparr>) r
     else if k = ''recordType'' then set_str v (\<lambda>s. r\<lparr>cstr_RecordType := s\<rparr>) r
     else if k = ''name'' then set_str v (\<lambda>s. r\<lparr>cstr_Name := s\<rparr>) r
     else if k = ''recordOption'' then set_str v (\<lambda>s. r\<lparr>cstr_RecordOption := s\<rparr>) r
     else if k = ''noAnswer'' then set_bool v (\<lambda>b. r\<lparr>cstr_NoAnswer := b\<rparr>) r
     else if k = ''note'' then set_str v (\<lambda>s. r\<lparr>cstr_Note := s\<rparr>) r
     else if k = ''ttl'' then set_int v (\<lambda>i. r\<lparr>cstr_TTL := i\<rparr>) r
     else if k = ''gtdRegion'' then set_int v (\<lambda>i. r\<lparr>cstr_GtdRegion := i\<rparr>) r
     else if k = ''parentId'' then set_int v (\<lambda>i. r\<lparr>cstr_ParentID := i\<rparr>) r
     else if k = ''parent'' then set_str v (\<lambda>s. r\<lparr>cstr_Parent := s\<rparr>) r
     else if k = ''source'' then set_str v (\<lambda>s. r\<lparr>cstr_Source := s\<rparr>) r
     else if k = ''modifiedTs'' then set_int v (\<lambda>i. r\<lparr>cstr_ModifiedTs := i\<rparr>) r
     else if k = ''value'' then set_struct (list_of_json cst_RecordValue_of_json) v (\<lambda>l. r\<lparr>cstr_Value := l\<rparr>)
     else if k = ''roundRobin'' then set_struct (list_of_json cst_RecordValue_of_json) v (\<lambda>l. r\<lparr>cstr_RoundRobin := l\<rparr>)
     else Inr r) zero_cst_Record"

record cst_Domain =
  cstd_ID :: int
  cstd_Name :: string
  cstd_TypeID :: int
  cstd_Version :: int
  cstd_Status :: string

definition cst_Domain_of_json :: "json \<Rightarrow> goerror + cst_Domain" where
  "cst_Domain_of_json = decode_struct (\<lambda>k v d.
     if k = ''id'' then set_int v (\<lambda>i. d\<lparr>cstd_ID := i\<rparr>) d
     else if k = ''name'' then set_str v (\<lambda>s. d\<lparr>cstd_Name := s\<rparr>) d
     else if k = ''typeId'' then set_int v (\<lambda>i. d\<lparr>cstd_TypeID := i\<rparr>) d
     else if k = ''version'' then set_int v (\<lambda>i. d\<lparr>cstd_Version := i\<rparr>) d
     else if k = ''status'' then set_str v (\<lambda>s. d\<lparr>cstd_Status := s\<rparr>) d
     else Inr d) \<lparr>cstd_ID = 0, cstd_Name = [], cstd_TypeID = 0, cstd_Version = 0, cstd_Status = []\<rparr>"

text \<open>A list of domains as \<^verbatim>\<open>fmt\<close> prints it.\<close>

definition cst_show_domains :: "cst_Domain list \<Rightarrow> string" where
  "cst_show_domains ds =
     ''['' @ Join (map (\<lambda>d. ''{'' @ Join [show_int (cstd_ID d), cstd_Name d, show_int (cstd_TypeID d), show_int (cstd_Version d),
       cstd_Status d] '' '' @ ''}'') ds) '' '' @ '']''"

record cst_PaginationParameters =
  cstp_Offset :: int
  cstp_Max :: int
  cstp_Sort :: string
  cstp_Order :: string

section \<open>The client\<close>

definition constellix_createEndpoint :: "constellix_client \<Rightarrow> string list \<Rightarrow> goerror + string" where
  "constellix_createEndpoint c fragment =
     (case url_Parse (cstc_BaseURL c) of
        Inl err \<Rightarrow> Inl err
      | Inr baseURL \<Rightarrow> map_sum (\<lambda>err. err) url_String (url_ParseRef baseURL (path_Join fragment)))"

definition constellix_checkResponse :: "env \<Rightarrow> http_response \<Rightarrow> cst_error option" where
  "constellix_checkResponse e resp =
     (if resp_StatusCode resp = 200 then None
      else Some (case resp_Body resp of
        Inl _ \<Rightarrow> Other (Err (''API error, status code: '' @ show_int (resp_StatusCode resp)))
      | Inr data \<Rightarrow>
          (case Unmarshal e (cst_APIError_of_json (resp_StatusCode resp)) data of
             Inl _ \<Rightarrow> Other (Err (''API error: status code: '' @ show_int (resp_StatusCode resp) @ '': '' @ data))
           | Inr msg \<Rightarrow>
               if resp_StatusCode resp = 404 then NotFound msg
               else if resp_StatusCode resp = 400 then BadRequest msg
               else Other (constellix_Error msg))))"

definition constellix_do ::
  "env \<Rightarrow> constellix_client \<Rightarrow> http_request \<Rightarrow> string \<Rightarrow> (json \<Rightarrow> goerror + 'a) \<Rightarrow> (world, cst_error + 'a) go" where
  "constellix_do e c req type_name dec =
     bind (gets w_now) (\<lambda>now.
       bind (http_do e (constellix_RoundTrip e (cstc_Transport c) now (Header_Set ''Content-Type'' ''application/json'' req))) (\<lambda>r.
         case r of
           Inl err \<Rightarrow> ret (Inl (Other err))
         | Inr resp \<Rightarrow>
             (case constellix_checkResponse e resp of
                Some err \<Rightarrow> ret (Inl err)
              | None \<Rightarrow>
                  (case resp_Body resp of
                     Inl err \<Rightarrow> ret (Inl (Other (Wrap ''failed to read body: '' err)))
                   | Inr raw \<Rightarrow>
                       (case Unmarshal e dec raw of
                          Inl err \<Rightarrow> ret (Inl (Other (Wrap (''unmarshaling '' @ type_name @ '' error: '')
                            (err_then err ('': '' @ raw)))))
                        | Inr x \<Rightarrow> ret (Inr x))))))"

text \<open>The request to an endpoint, as every call of the services makes it.\<close>

definition cst_request ::
  "env \<Rightarrow> constellix_client \<Rightarrow> string \<Rightarrow> string list \<Rightarrow> string option \<Rightarrow> goerror + http_request" where
  "cst_request e c method fragment body =
     (case constellix_createEndpoint c (constellix_defaultVersion # ''domains'' # fragment) of
        Inl err \<Rightarrow> Inl (Wrap ''failed to create request endpoint: '' err)
      | Inr endpoint \<Rightarrow> map_sum (Wrap ''failed to create request: '') (\<lambda>req. req) (NewRequest e method endpoint body))"

definition cst_at_query :: "(url_values \<Rightarrow> url_values) \<Rightarrow> http_request \<Rightarrow> http_request" where
  "cst_at_query f req =
     (let u = parsed (req_URL req) in
      req\<lparr>req_URL := url_String (u\<lparr>url_RawQuery := Values_Encode (f (ParseQuery (url_RawQuery u)))\<rparr>)\<rparr>)"

text \<open>Send the request and read the reply; the errors lose their type.\<close>

definition cst_call ::
  "env \<Rightarrow> constellix_client \<Rightarrow> goerror + http_request \<Rightarrow> string \<Rightarrow> (json \<Rightarrow> goerror + 'a) \<Rightarrow> (world, goerror + 'a) go" where
  "cst_call e c request type_name dec =
     (case request of
        Inl err \<Rightarrow> ret (Inl err)
      | Inr req \<Rightarrow> bind (constellix_do e c req type_name dec) (\<lambda>r. ret (map_sum cst_as_error (\<lambda>x. x) r)))"

text \<open>A search: not found is an empty result.\<close>

definition cst_search ::
  "env \<Rightarrow> constellix_client \<Rightarrow> string list \<Rightarrow> string \<Rightarrow> string \<Rightarrow> string \<Rightarrow> (json \<Rightarrow> goerror + 'a)
    \<Rightarrow> (world, goerror + 'a list) go" where
  "cst_search e c fragment flt value type_name dec =
     (case cst_request e c ''GET'' (fragment @ [''search'']) None of
        Inl err \<Rightarrow> ret (Inl err)
      | Inr req \<Rightarrow>
          bind (constellix_do e c (cst_at_query (Values_Set flt value) req) type_name (list_of_json dec)) (\<lambda>r.
            ret (case r of Inr xs \<Rightarrow> Inr xs | Inl (NotFound _) \<Rightarrow> Inr [] | Inl err \<Rightarrow> Inl (cst_as_error err))))"

definition constellix_Domains_GetAll ::
  "env \<Rightarrow> constellix_client \<Rightarrow> cst_PaginationParameters option \<Rightarrow> (world, goerror + cst_Domain list) go" where
  "constellix_Domains_GetAll e c params =
     (let request = cst_request e c ''GET'' [] None;
          paged = (case params of
              None \<Rightarrow> request
            | Some p \<Rightarrow>
                (case request of
                   Inl err \<Rightarrow> Inl err
                 | Inr req \<Rightarrow>
                     map_sum (\<lambda>err. err) (\<lambda>v. cst_at_query (\<lambda>_. v) req)
                       (queryValues e [(''offset'', JNum (cstp_Offset p)), (''max'', JNum (cstp_Max p)),
                          (''sort'', JStr (cstp_Sort p)), (''order'', JStr (cstp_Order p))]))) in
      cst_call e c paged ''*[]internal.Domain'' (list_of_json cst_Domain_of_json))"

definition constellix_Domains_Search ::
  "env \<Rightarrow> constellix_client \<Rightarrow> string \<Rightarrow> string \<Rightarrow> (world, goerror + cst_Domain list) go" where
  "constellix_Domains_Search e c flt value = cst_search e c [] flt value ''*[]internal.Domain'' cst_Domain_of_json"

definition constellix_GetByName :: "env \<Rightarrow> constellix_client \<Rightarrow> string \<Rightarrow> (world, goerror + cst_Domain) go" where
  "constellix_GetByName e c domainName =
     check (constellix_Domains_Search e c constellix_Exact domainName) (\<lambda>domains.
       case domains of
         [] \<Rightarrow> ret (Inl (Err (''domain not found: '' @ domainName)))
       | [d] \<Rightarrow> ret (Inr d)
       | _ \<Rightarrow> ret (Inl (Err (''multiple domains found: '' @ cst_show_domains domains))))"

abbreviation cst_txt :: "int \<Rightarrow> string list \<Rightarrow> string list" where
  "cst_txt domainID rest \<equiv> [show_int domainID, ''records'', ''txt''] @ rest"

definition constellix_Create ::
  "env \<Rightarrow> constellix_client \<Rightarrow> int \<Rightarrow> cst_RecordRequest \<Rightarrow> (world, goerror + cst_Record list) go" where
  "constellix_Create e c domainID record =
     cst_call e c (cst_request e c ''POST'' (cst_txt domainID []) (Some (jsonPrint e (cst_RecordRequest_json record))))
       ''*[]internal.Record'' (list_of_json cst_Record_of_json)"

definition constellix_GetAll :: "env \<Rightarrow> constellix_client \<Rightarrow> int \<Rightarrow> (world, goerror + cst_Record list) go" where
  "constellix_GetAll e c domainID =
     cst_call e c (cst_request e c ''GET'' (cst_txt domainID []) None)
       ''*[]internal.Record'' (list_of_json cst_Record_of_json)"

definition constellix_Get :: "env \<Rightarrow> constellix_client \<Rightarrow> int \<Rightarrow> int \<Rightarrow> (world, goerror + cst_Record) go" where
  "constellix_Get e c domainID recordID =
     cst_call e c (cst_request e c ''GET'' (cst_txt domainID [show_int recordID]) None)
       ''*internal.Record'' cst_Record_of_json"

definition constellix_Update ::
  "env \<Rightarrow> constellix_client \<Rightarrow> int \<Rightarrow> int \<Rightarrow> cst_RecordRequest \<Rightarrow> (world, goerror + string) go" where
  "constellix_Update e c domainID recordID record =
     cst_call e c (cst_request e c ''PUT'' (cst_txt domainID [show_int recordID])
         (Some (jsonPrint e (cst_RecordRequest_json record))))
       ''*internal.SuccessMessage'' cst_SuccessMessage_of_json"

text \<open>A reply that is \<^verbatim>\<open>null\<close> leaves the message nil.\<close>

definition constellix_Delete :: "env \<Rightarrow> constellix_client \<Rightarrow> int \<Rightarrow> int \<Rightarrow> (world, goerror + string option) go" where
  "constellix_Delete e c domainID recordID =
     cst_call e c (cst_request e c ''DELETE'' (cst_txt domainID [show_int recordID]) None)
       ''**internal.SuccessMessage'' (\<lambda>j. set_ptr cst_SuccessMessage_of_json j (\<lambda>m. m))"

definition constellix_Search ::
  "env \<Rightarrow> constellix_client \<Rightarrow> int \<Rightarrow> string \<Rightarrow> string \<Rightarrow> (world, goerror + cst_Record list) go" where
  "constellix_Search e c domainID flt value =
     cst_search e c (cst_txt domainID []) flt value ''*[]internal.Record'' cst_Record_of_json"

section \<open>The provider\<close>

abbreviation quoted :: "string \<Rightarrow> string" where
  "quoted v \<equiv> [CHR 0x22] @ v @ [CHR 0x22]"

definition constellix_containsValue :: "cst_Record \<Rightarrow> string \<Rightarrow> bool" where
  "constellix_containsValue record value = list_ex (\<lambda>val. cstv_Value val = quoted value) (cstr_Value record)"

definition constellix_getRecordName :: "string \<Rightarrow> string \<Rightarrow> string outcome" where
  "constellix_getRecordName fqdn authZone =
     (if length fqdn < length authZone + 1 then Panic ''slice bounds out of range''
      else Return (take (length fqdn - length authZone - 1) fqdn))"

definition constellix_createRecord ::
  "env \<Rightarrow> constellix \<Rightarrow> cst_Domain \<Rightarrow> string \<Rightarrow> string \<Rightarrow> string \<Rightarrow> (world, goerror + cst_Record list) go" where
  "constellix_createRecord e d zone fqdn recordName value =
     wrap_res (''failed to create TXT record '' @ fqdn @ '': '') (constellix_Create e (cst_client d) (cstd_ID zone)
       \<lparr>cstq_Name = recordName, cstq_TTL = hcf_TTL (cst_config d),
        cstq_RoundRobin = [\<lparr>cstv_Value = quoted value, cstv_DisableFlag = False\<rparr>]\<rparr>)"

definition constellix_appendRecordValue ::
  "env \<Rightarrow> constellix \<Rightarrow> cst_Domain \<Rightarrow> int \<Rightarrow> string \<Rightarrow> (world, goerror option) go" where
  "constellix_appendRecordValue e d zone recordID value =
     try_or ''failed to get TXT records: '' (constellix_Get e (cst_client d) (cstd_ID zone) recordID) (\<lambda>record.
       if constellix_containsValue record value then ret None
       else try_or ''failed to update TXT records: '' (constellix_Update e (cst_client d) (cstd_ID zone) (cstr_ID record)
           \<lparr>cstq_Name = cstr_Name record, cstq_TTL = cstr_TTL record,
            cstq_RoundRobin = cstr_RoundRobin record @ [\<lparr>cstv_Value = quoted value, cstv_DisableFlag = False\<rparr>]\<rparr>)
         (\<lambda>_. ret None))"

definition constellix_removeRecordValue ::
  "env \<Rightarrow> constellix \<Rightarrow> cst_Domain \<Rightarrow> cst_Record \<Rightarrow> string \<Rightarrow> (world, goerror + string) go" where
  "constellix_removeRecordValue e d zone record value =
     wrap_res ''failed to update TXT records: '' (constellix_Update e (cst_client d) (cstd_ID zone) (cstr_ID record)
       \<lparr>cstq_Name = cstr_Name record, cstq_TTL = cstr_TTL record,
        cstq_RoundRobin = filter (\<lambda>val. cstv_Value val \<noteq> quoted value) (cstr_Value record)\<rparr>)"

text \<open>
  Both operations look for the record first: the domain, the name of the record in it, and the records with
  that name.
\<close>

definition cst_lookup ::
  "env \<Rightarrow> constellix \<Rightarrow> string \<Rightarrow> string \<Rightarrow> (cst_Domain \<Rightarrow> string \<Rightarrow> cst_Record list \<Rightarrow> (world, goerror option) go)
    \<Rightarrow> (world, goerror option) go" where
  "cst_lookup e d domain fqdn k =
     try_or (''constellix: could not find zone for domain '' @ Quote domain @ '' and fqdn '' @ Quote fqdn @ '' : '')
         (FindZoneByFqdn e fqdn) (\<lambda>authZone.
       try_or (''constellix: failed to get domain ('' @ authZone @ ''): '')
           (constellix_GetByName e (cst_client d) (UnFqdn authZone)) (\<lambda>zone.
         bind (outcome_of (constellix_getRecordName fqdn authZone)) (\<lambda>recordName.
           try_or ''constellix: failed to search TXT records: ''
               (constellix_Search e (cst_client d) (cstd_ID zone) constellix_Exact recordName) (\<lambda>records.
             if 1 < length records then ret (Some (Err ''constellix: failed to get TXT records''))
             else k zone recordName records))))"

definition constellix_Present :: "env \<Rightarrow> constellix \<Rightarrow> string \<Rightarrow> string \<Rightarrow> string \<Rightarrow> (world, goerror option) go" where
  "constellix_Present e d domain token keyAuth =
     bind (GetRecord e domain keyAuth) (\<lambda>(fqdn, value).
       cst_lookup e d domain fqdn (\<lambda>zone recordName records.
         case records of
           r # _ \<Rightarrow> constellix_appendRecordValue e d zone (cstr_ID r) value
         | [] \<Rightarrow> try_or ''constellix: '' (constellix_createRecord e d zone fqdn recordName value) (\<lambda>_. ret None)))"

definition constellix_CleanUp :: "env \<Rightarrow> constellix \<Rightarrow> string \<Rightarrow> string \<Rightarrow> string \<Rightarrow> (world, goerror option) go" where
  "constellix_CleanUp e d domain token keyAuth =
     bind (GetRecord e domain keyAuth) (\<lambda>(fqdn, value).
       cst_lookup e d domain fqdn (\<lambda>zone recordName records.
         case records of
           [] \<Rightarrow> ret None
         | r # _ \<Rightarrow>
             try_or ''constellix: failed to get TXT records: ''
                 (constellix_Get e (cst_client d) (cstd_ID zone) (cstr_ID r)) (\<lambda>record.
               if \<not> constellix_containsValue record value then ret None
               else if length (cstr_Value record) = 1
               then try_or ''constellix: failed to delete TXT records: ''
                 (constellix_Delete e (cst_client d) (cstd_ID zone) (cstr_ID record)) (\<lambda>_. ret None)
               else try_or ''constellix: '' (constellix_removeRecordValue e d zone record value) (\<lambda>_. ret None))))"

definition constellix_Timeout :: "constellix \<Rightarrow> int \<times> int" where
  "constellix_Timeout d = (hcf_PropagationTimeout (cst_config d), hcf_PollingInterval (cst_config d))"

definition constellix_provider :: "env \<Rightarrow> constellix \<Rightarrow> provider" where
  "constellix_provider e d =
     \<lparr>prov_Present = constellix_Present e d, prov_CleanUp = constellix_CleanUp e d,
      prov_Timeout = Some (constellix_Timeout d), prov_Sequential = None\<rparr>"

section \<open>The provider keeps its contract\<close>

lemma constellix_RoundTrip_keeps [simp]:
  "req_Body (constellix_RoundTrip e t now req) = req_Body req"
  "carries e v (constellix_RoundTrip e t now req) = carries e v req"
  by (simp_all add: constellix_RoundTrip_def)

lemma cst_request_body:
  "cst_request e c method fragment body = Inr req \<Longrightarrow>
   req_Body req = (case body of None \<Rightarrow> NoBody | Some b \<Rightarrow> RawBody b)"
  by (auto simp: cst_request_def map_sum_Inr_iff NewRequest_Inr split: sum.splits)

lemma cst_at_query_body [simp]: "req_Body (cst_at_query f req) = req_Body req"
  by (simp add: cst_at_query_def Let_def)

context plain_invariant
begin

lemma always_constellix_do:
  "(\<And>m. req_Body req \<noteq> JoseBody m) \<Longrightarrow> always R (constellix_do e c req type_name dec)"
  unfolding constellix_do_def by (intro always_intros always_plain_http) simp_all

lemma always_cst_call [always_intros]: "always R (cst_call e c (cst_request e c method fragment body) type_name dec)"
  unfolding cst_call_def
  by (intro always_intros always_constellix_do) (auto dest!: cst_request_body split: option.splits)

lemma always_cst_search [always_intros]: "always R (cst_search e c fragment flt val type_name dec)"
  unfolding cst_search_def
  by (intro always_intros always_constellix_do) (auto dest!: cst_request_body)

lemma always_constellix [always_intros]:
  "always R (constellix_GetByName e c domainName)" "always R (constellix_Create e c domainID r)"
  "always R (constellix_Get e c domainID recordID)" "always R (constellix_Update e c domainID recordID r)"
  "always R (constellix_Delete e c domainID recordID)" "always R (constellix_Search e c domainID flt val)"
  unfolding constellix_GetByName_def constellix_Domains_Search_def constellix_Create_def constellix_Get_def
    constellix_Update_def constellix_Delete_def constellix_Search_def
  by (intro always_intros)+

lemma always_cst_edit [always_intros]:
  "always R (constellix_createRecord e d zone fqdn name v)" "always R (constellix_appendRecordValue e d zone recordID v)"
  "always R (constellix_removeRecordValue e d zone r v)"
  unfolding constellix_createRecord_def constellix_appendRecordValue_def constellix_removeRecordValue_def
  by (intro always_intros)+

lemma always_cst_lookup [always_intros]:
  "(\<And>zone name rs. always R (k zone name rs)) \<Longrightarrow> always R (cst_lookup e d domain fqdn k)"
  unfolding cst_lookup_def by (intro always_intros)

lemma constellix_keeps: "provider_keeps R (constellix_provider e d)"
  unfolding constellix_provider_def
  by (rule provider_keepsI; unfold constellix_Present_def constellix_CleanUp_def; intro always_intros)

end

lemma cst_call_run:
  assumes "cst_call e c (cst_request e c method fragment body) type_name dec s = (Return (Inr x), t)"
  obtains req resp raw where "happened s t (EvHttp req (Inr resp))" "resp_StatusCode resp = 200" "resp_Body resp = Inr raw"
    "Unmarshal e dec raw = Inr x" "req_Body req = (case body of None \<Rightarrow> NoBody | Some b \<Rightarrow> RawBody b)"
proof -
  obtain req u where req: "cst_request e c method fragment body = Inr req"
    and run: "constellix_do e c req type_name dec s = (Return (Inr x), u)" and u: "u = t"
    using assms by (auto simp: cst_call_def host_runs run_cases bind_Return_eq)
  let ?req = "constellix_RoundTrip e (cstc_Transport c) (w_now s) (Header_Set ''Content-Type'' ''application/json'' req)"
  obtain resp raw where "happened s t (EvHttp ?req (Inr resp))" "constellix_checkResponse e resp = None"
    "resp_Body resp = Inr raw" "Unmarshal e dec raw = Inr x"
    using run u unfolding constellix_do_def by (auto simp: host_runs run_cases dest!: happened_http)
  then show thesis
    using that [of ?req resp raw] cst_request_body [OF req] by (auto simp: constellix_checkResponse_def split: if_splits)
qed

lemma cst_request_quotes:
  assumes "rv \<in> set (cstq_RoundRobin r)" and "cstv_Value rv = quoted v"
  shows "quoted v \<in> set (json_strings (cst_RecordRequest_json r))"
proof -
  have "quoted v \<in> set (json_strings (cst_RecordValue_json rv))"
    using assms(2) by (simp add: cst_RecordValue_json_def omit_str_def)
  then show ?thesis using assms(1) by (auto simp: cst_RecordRequest_json_def omit_list_def)
qed

lemma cst_call_sent:
  assumes "rv \<in> set (cstq_RoundRobin r)" and "cstv_Value rv = quoted v"
  shows "ensures is_ok (delivered e v status_200)
    (cst_call e c (cst_request e c method fragment (Some (jsonPrint e (cst_RecordRequest_json r)))) type_name dec)"
  unfolding ensures_def
proof (intro allI impI)
  fix s x t
  assume "cst_call e c (cst_request e c method fragment (Some (jsonPrint e (cst_RecordRequest_json r)))) type_name dec s
    = (Return x, t)" and "is_ok x"
  then obtain y where "cst_call e c (cst_request e c method fragment (Some (jsonPrint e (cst_RecordRequest_json r))))
    type_name dec s = (Return (Inr y), t)" by (cases x) auto
  from cst_call_run [OF this, unfolded option.case] obtain req resp where ev: "happened s t (EvHttp req (Inr resp))"
    and ok: "resp_StatusCode resp = 200" and body: "req_Body req = RawBody (jsonPrint e (cst_RecordRequest_json r))"
    by metis
  have "carries e v req"
    using carries_json_within [of req e _ "[]", OF _ cst_request_quotes [OF assms]] body by simp
  with ev ok show "\<exists>ev. happened s t ev \<and> delivered e v status_200 ev"
    by (intro exI [of _ "EvHttp req (Inr resp)"]) simp
qed

text \<open>The values of a decoded record were in the reply.\<close>

lemma cst_RecordValue_text:
  assumes "cst_RecordValue_of_json j = Inr r" and "cstv_Value r \<noteq> []"
  shows "cstv_Value r \<in> set (json_strings j)"
proof -
  have "cstv_Value r = [] \<or> cstv_Value r \<in> set (json_strings j)"
    using assms(1) unfolding cst_RecordValue_of_json_def
    by (rule decode_struct_invariant) (auto simp: set_str_def set_bool_def split: if_splits json.splits)
  with assms(2) show ?thesis by simp
qed

lemma cst_Record_values:
  assumes "cst_Record_of_json j = Inr r" and "rv \<in> set (cstr_Value r)" and "cstv_Value rv \<noteq> []"
  shows "cstv_Value rv \<in> set (json_strings j)"
proof -
  have list: "cstv_Value rv \<in> set (json_strings j)"
    if "list_of_json cst_RecordValue_of_json v = Inr l" "rv \<in> set l" "set (json_strings v) \<subseteq> set (json_strings j)" for v l
    using list_of_json_member [OF that(1,2)] cst_RecordValue_text assms(3) that(3) by blast
  have "rv \<in> set (cstr_Value r) \<longrightarrow> cstv_Value rv \<in> set (json_strings j)"
    using assms(1) unfolding cst_Record_of_json_def
    by (rule decode_struct_invariant)
      (auto simp: zero_cst_Record_def set_str_def set_int_def set_bool_def set_struct_def intro: list
        split: if_splits json.splits sum.splits)
  with assms(2) show ?thesis by simp
qed

lemma constellix_Get_found:
  assumes "constellix_Get e c domainID recordID s = (Return (Inr r), t)" and "constellix_containsValue r v"
  shows "\<exists>ev. happened s t ev \<and> reported e v ev"
proof -
  obtain rv where rv: "rv \<in> set (cstr_Value r)" "cstv_Value rv = quoted v"
    using assms(2) by (auto simp: constellix_containsValue_def list_ex_iff)
  from cst_call_run [OF assms(1) [unfolded constellix_Get_def]] obtain req resp raw where
    ev: "happened s t (EvHttp req (Inr resp))" and raw: "resp_Body resp = Inr raw" "Unmarshal e cst_Record_of_json raw = Inr r"
    by blast
  obtain j where j: "jsonParse e raw = Some j" "cst_Record_of_json j = Inr r"
    using raw(2) by (auto simp: Unmarshal_def split: option.splits)
  have "quoted v \<in> set (json_strings j)" using cst_Record_values [OF j(2) rv(1)] rv(2) by simp
  from reportedI [OF raw(1) j(1) this] ev show ?thesis by blast
qed

lemma cst_append_sent:
  "ensures is_nil (\<lambda>ev. delivered e v status_200 ev \<or> reported e v ev) (constellix_appendRecordValue e d zone recordID v)"
proof -
  have put: "ensures is_nil (\<lambda>ev. delivered e v status_200 ev \<or> reported e v ev)
      (try_or msg (constellix_Update e c domainID recordID r) (\<lambda>_. ret None))"
    if "\<lparr>cstv_Value = quoted v, cstv_DisableFlag = False\<rparr> \<in> set (cstq_RoundRobin r)" for msg c domainID recordID r
    unfolding try_or_def constellix_Update_def
    by (intro ensures_mono [OF ensures_handle_first [OF cst_call_sent [OF that]]]
        growing.always_cst_call always_intros ensures_intros disjI1) simp_all
  show ?thesis
    unfolding constellix_appendRecordValue_def
    by (intro ensures_try_either [OF growing.always_constellix(3)] ensures_if put always_intros)
      (auto dest: constellix_Get_found)
qed

lemma cst_create_sent:
  "ensures is_nil (\<lambda>ev. delivered e v status_200 ev \<or> Q ev)
    (try_or msg (constellix_createRecord e d zone fqdn name v) (\<lambda>_. ret None))"
proof -
  have "ensures is_ok (delivered e v status_200) (constellix_createRecord e d zone fqdn name v)"
    unfolding constellix_createRecord_def constellix_Create_def
    by (rule ensures_wrap(2), rule cst_call_sent [of "\<lparr>cstv_Value = quoted v, cstv_DisableFlag = False\<rparr>"]) simp_all
  then show ?thesis
    by (rule ensures_mono [OF ensures_try_first]) (simp_all add: growing.always_cst_edit growth.always_ret)
qed

lemma constellix_Present_sent:
  "ensures is_nil (\<lambda>ev. delivered e (record_value e keyAuth) status_200 ev \<or> reported e (record_value e keyAuth) ev)
    (constellix_Present e d domain token keyAuth)"
  unfolding constellix_Present_def cst_lookup_def
  by (intro ensures_GetRecord ensures_try_later growing.always_FindZone growing.always_constellix ensures_if
      ensures_later [OF growth.always_outcome_of])
    (auto intro: cst_append_sent cst_create_sent ensures_ret split: list.split)

interpretation constellix: offering e "constellix_provider e d" status_200 "reported e" for e d
  by (rule offeringI [OF outsider.constellix_keeps]) (simp add: constellix_Present_sent constellix_provider_def)

end
