(* ===== verification/Dnsmadeeasy.thy ===== *)
theory Dnsmadeeasy
  imports Hosting
begin

text \<open>
  Package \<^verbatim>\<open>providers/dns/dnsmadeeasy\<close> with its client.  Every request is signed with the time of day.  A reply
  \<^verbatim>\<open>null\<close> leaves a nil pointer, which the code dereferences.
\<close>

record dnsmadeeasy_config = ttl_config +
  dme_BaseURL :: string
  dme_APIKey :: string
  dme_APISecret :: string
  dme_Sandbox :: bool

definition dnsmadeeasy_NewDefaultConfig :: "env \<Rightarrow> dnsmadeeasy_config" where
  "dnsmadeeasy_NewDefaultConfig e =
     \<lparr>hcf_PropagationTimeout = GetOrDefaultSecond e ''DNSMADEEASY_PROPAGATION_TIMEOUT'' DefaultPropagationTimeout,
      hcf_PollingInterval = GetOrDefaultSecond e ''DNSMADEEASY_POLLING_INTERVAL'' DefaultPollingInterval,
      hcf_HTTPTimeout = GetOrDefaultSecond e ''DNSMADEEASY_HTTP_TIMEOUT'' (10 * Second),
      hcf_TTL = GetOrDefaultInt e ''DNSMADEEASY_TTL'' (int DefaultTTL),
      dme_BaseURL = [], dme_APIKey = [], dme_APISecret = [], dme_Sandbox = False\<rparr>"

record dnsmadeeasy_client =
  dmec_apiKey :: string
  dmec_apiSecret :: string
  dmec_BaseURL :: string

definition dnsmadeeasy_NewClient :: "string \<Rightarrow> string \<Rightarrow> goerror + dnsmadeeasy_client" where
  "dnsmadeeasy_NewClient apiKey apiSecret =
     (if apiKey = [] then Inl (Err ''credentials missing: API key'')
      else if apiSecret = [] then Inl (Err ''credentials missing: API secret'')
      else Inr \<lparr>dmec_apiKey = apiKey, dmec_apiSecret = apiSecret, dmec_BaseURL = []\<rparr>)"

record dnsmadeeasy =
  dme_config :: dnsmadeeasy_config
  dme_client :: dnsmadeeasy_client

definition dnsmadeeasy_NewDNSProviderConfig :: "dnsmadeeasy_config option \<Rightarrow> goerror + dnsmadeeasy" where
  "dnsmadeeasy_NewDNSProviderConfig config =
     (case config of
        None \<Rightarrow> Inl (nil_config ''dnsmadeeasy'')
      | Some c \<Rightarrow>
          (let baseURL = (if dme_Sandbox c then ''https://api.sandbox.dnsmadeeasy.com/V2.0''
                          else if dme_BaseURL c \<noteq> [] then dme_BaseURL c else ''https://api.dnsmadeeasy.com/V2.0'') in
           case dnsmadeeasy_NewClient (dme_APIKey c) (dme_APISecret c) of
             Inl err \<Rightarrow> Inl (Wrap ''dnsmadeeasy: '' err)
           | Inr client \<Rightarrow> Inr \<lparr>dme_config = c, dme_client = client\<lparr>dmec_BaseURL := baseURL\<rparr>\<rparr>))"

definition dnsmadeeasy_NewDNSProvider :: "env \<Rightarrow> goerror + dnsmadeeasy" where
  "dnsmadeeasy_NewDNSProvider e =
     (case env_Get e [''DNSMADEEASY_API_KEY'', ''DNSMADEEASY_API_SECRET''] of
        Inl err \<Rightarrow> Inl (Wrap ''dnsmadeeasy: '' err)
      | Inr values \<Rightarrow>
          dnsmadeeasy_NewDNSProviderConfig (Some ((dnsmadeeasy_NewDefaultConfig e)
            \<lparr>dme_Sandbox := GetOrDefaultBool e ''DNSMADEEASY_SANDBOX'' False,
             dme_APIKey := env_value values ''DNSMADEEASY_API_KEY'',
             dme_APISecret := env_value values ''DNSMADEEASY_API_SECRET''\<rparr>)))"

section \<open>Messages\<close>

record dme_Domain =
  dmed_ID :: int
  dmed_Name :: string

definition dme_Domain_of_json :: "json \<Rightarrow> goerror + dme_Domain" where
  "dme_Domain_of_json = decode_struct (\<lambda>k v d.
     if k = ''id'' then set_int v (\<lambda>i. d\<lparr>dmed_ID := i\<rparr>) d
     else if k = ''name'' then set_str v (\<lambda>s. d\<lparr>dmed_Name := s\<rparr>) d
     else Inr d) \<lparr>dmed_ID = 0, dmed_Name = []\<rparr>"

record dme_Record =
  dmer_ID :: int
  dmer_Type :: string
  dmer_Name :: string
  dmer_Value :: string
  dmer_TTL :: int
  dmer_SourceID :: int

definition dme_Record_json :: "dme_Record \<Rightarrow> json" where
  "dme_Record_json r =
     JObj [(''id'', JNum (dmer_ID r)), (''type'', JStr (dmer_Type r)), (''name'', JStr (dmer_Name r)),
       (''value'', JStr (dmer_Value r)), (''ttl'', JNum (dmer_TTL r)), (''sourceId'', JNum (dmer_SourceID r))]"

definition dme_Record_of_json :: "json \<Rightarrow> goerror + dme_Record" where
  "dme_Record_of_json = decode_struct (\<lambda>k v r.
     if k = ''id'' then set_int v (\<lambda>i. r\<lparr>dmer_ID := i\<rparr>) r
     else if k = ''type'' then set_str v (\<lambda>s. r\<lparr>dmer_Type := s\<rparr>) r
     else if k = ''name'' then set_str v (\<lambda>s. r\<lparr>dmer_Name := s\<rparr>) r
     else if k = ''value'' then set_str v (\<lambda>s. r\<lparr>dmer_Value := s\<rparr>) r
     else if k = ''ttl'' then set_int v (\<lambda>i. r\<lparr>dmer_TTL := i\<rparr>) r
     else if k = ''sourceId'' then set_int v (\<lambda>i. r\<lparr>dmer_SourceID := i\<rparr>) r
     else Inr r) \<lparr>dmer_ID = 0, dmer_Type = [], dmer_Name = [], dmer_Value = [], dmer_TTL = 0, dmer_SourceID = 0\<rparr>"

text \<open>A pointer to a list, nil when the reply has none.\<close>

definition dme_recordsResponse_of_json :: "json \<Rightarrow> goerror + dme_Record list option" where
  "dme_recordsResponse_of_json = decode_struct (\<lambda>k v r.
     if k = ''data'' then set_ptr (list_of_json dme_Record_of_json) v (\<lambda>x. x) else Inr r) None"

section \<open>The client\<close>

definition dnsmadeeasy_computeHMAC :: "env \<Rightarrow> string \<Rightarrow> string \<Rightarrow> string" where
  "dnsmadeeasy_computeHMAC e message secret = hex_EncodeToString (hmacSHA1 e secret message)"

definition dnsmadeeasy_sendRequest ::
  "env \<Rightarrow> dnsmadeeasy_client \<Rightarrow> string \<Rightarrow> string \<Rightarrow> json \<Rightarrow> (world, goerror + http_response) go" where
  "dnsmadeeasy_sendRequest e c method resource payload =
     bind (gets w_now) (\<lambda>now.
       let timestamp = timeFormatUTC e ''Mon, 02 Jan 2006 15:04:05 MST'' now;
           signature = dnsmadeeasy_computeHMAC e timestamp (dmec_apiSecret c) in
       check (send e method (dmec_BaseURL c @ resource) (Some (jsonPrint e payload)) (\<lambda>req.
           Header_Set ''content-type'' ''application/json'' (Header_Set ''accept'' ''application/json''
             (Header_Set ''x-dnsme-hmac'' signature (Header_Set ''x-dnsme-requestDate'' timestamp
               (Header_Set ''x-dnsme-apiKey'' (dmec_apiKey c) req)))))) (\<lambda>resp.
         if 299 < resp_StatusCode resp then
           (let failed = ''request failed with HTTP status code '' @ show_int (resp_StatusCode resp) in
            case resp_Body resp of
              Inl _ \<Rightarrow> ret (Inl (Err failed))
            | Inr body \<Rightarrow> ret (Inl (Err (failed @ '': '' @ body))))
         else ret (Inr resp)))"

definition dnsmadeeasy_GetDomain :: "env \<Rightarrow> dnsmadeeasy_client \<Rightarrow> string \<Rightarrow> (world, goerror + dme_Domain option) go" where
  "dnsmadeeasy_GetDomain e c authZone =
     (if authZone = [] then panic ''slice bounds out of range''
      else
        check (dnsmadeeasy_sendRequest e c ''GET'' (''/dns/managed/name?domainname='' @ butlast authZone) JNull) (\<lambda>resp.
          ret (Decode e (ptr_of_json dme_Domain_of_json) (resp_Body resp))))"

definition dnsmadeeasy_GetRecords ::
  "env \<Rightarrow> dnsmadeeasy_client \<Rightarrow> dme_Domain option \<Rightarrow> string \<Rightarrow> string
    \<Rightarrow> (world, goerror + dme_Record list option) go" where
  "dnsmadeeasy_GetRecords e c domain recordName recordType =
     (case domain of
        None \<Rightarrow> panic nil_pointer
      | Some d \<Rightarrow>
          check (dnsmadeeasy_sendRequest e c ''GET'' (''/dns/managed/'' @ show_int (dmed_ID d) @ ''/records?recordName=''
              @ recordName @ ''&type='' @ recordType) JNull) (\<lambda>resp.
            check (ret (Decode e (ptr_of_json dme_recordsResponse_of_json) (resp_Body resp))) (\<lambda>records.
              case records of None \<Rightarrow> panic nil_pointer | Some r \<Rightarrow> ret (Inr r))))"

definition dnsmadeeasy_CreateRecord ::
  "env \<Rightarrow> dnsmadeeasy_client \<Rightarrow> dme_Domain option \<Rightarrow> dme_Record \<Rightarrow> (world, goerror + unit) go" where
  "dnsmadeeasy_CreateRecord e c domain record =
     (case domain of
        None \<Rightarrow> panic nil_pointer
      | Some d \<Rightarrow>
          check (dnsmadeeasy_sendRequest e c ''POST'' (''/dns/managed/'' @ show_int (dmed_ID d) @ ''/records'')
            (dme_Record_json record)) (\<lambda>_. ret (Inr ())))"

definition dnsmadeeasy_DeleteRecord :: "env \<Rightarrow> dnsmadeeasy_client \<Rightarrow> dme_Record \<Rightarrow> (world, goerror + unit) go" where
  "dnsmadeeasy_DeleteRecord e c record =
     check (dnsmadeeasy_sendRequest e c ''DELETE'' (''/dns/managed/'' @ show_int (dmer_SourceID record) @ ''/records/''
       @ show_int (dmer_ID record)) JNull) (\<lambda>_. ret (Inr ()))"

section \<open>The provider\<close>

definition dnsmadeeasy_Present :: "env \<Rightarrow> dnsmadeeasy \<Rightarrow> string \<Rightarrow> string \<Rightarrow> string \<Rightarrow> (world, goerror option) go" where
  "dnsmadeeasy_Present e d domainName token keyAuth =
     bind (GetRecord e domainName keyAuth) (\<lambda>(fqdn, value).
       try_or (''dnsmadeeasy: unable to find zone for '' @ fqdn @ '': '') (FindZoneByFqdn e fqdn) (\<lambda>authZone.
         try_or (''dnsmadeeasy: unable to get domain for zone '' @ authZone @ '': '')
             (dnsmadeeasy_GetDomain e (dme_client d) authZone) (\<lambda>domain.
           let name = replace_first fqdn (''.'' @ authZone) [] in
           try_or (''dnsmadeeasy: unable to create record for '' @ name @ '': '')
             (dnsmadeeasy_CreateRecord e (dme_client d) domain \<lparr>dmer_ID = 0, dmer_Type = ''TXT'', dmer_Name = name,
                dmer_Value = value, dmer_TTL = hcf_TTL (dme_config d), dmer_SourceID = 0\<rparr>) (\<lambda>_. ret None))))"

text \<open>Every record is tried; the last error is the result.\<close>

fun dme_delete_all :: "env \<Rightarrow> dnsmadeeasy_client \<Rightarrow> dme_Record list \<Rightarrow> goerror option \<Rightarrow> (world, goerror option) go" where
  "dme_delete_all e c [] lastError = ret lastError"
| "dme_delete_all e c (record # records) lastError =
     bind (dnsmadeeasy_DeleteRecord e c record) (\<lambda>r.
       dme_delete_all e c records
         (case r of
            Inl err \<Rightarrow> Some (Wrap (''dnsmadeeasy: unable to delete record [id='' @ show_int (dmer_ID record) @ '', name=''
              @ dmer_Name record @ '']: '') err)
          | Inr _ \<Rightarrow> lastError))"

definition dnsmadeeasy_CleanUp :: "env \<Rightarrow> dnsmadeeasy \<Rightarrow> string \<Rightarrow> string \<Rightarrow> string \<Rightarrow> (world, goerror option) go" where
  "dnsmadeeasy_CleanUp e d domainName token keyAuth =
     bind (GetRecord e domainName keyAuth) (\<lambda>(fqdn, _).
       try_or (''dnsmadeeasy: unable to find zone for '' @ fqdn @ '': '') (FindZoneByFqdn e fqdn) (\<lambda>authZone.
         try_or (''dnsmadeeasy: unable to get domain for zone '' @ authZone @ '': '')
             (dnsmadeeasy_GetDomain e (dme_client d) authZone) (\<lambda>domain.
           let name = replace_first fqdn (''.'' @ authZone) [] in
           try_or (''dnsmadeeasy: unable to get records for domain ''
               @ (case domain of None \<Rightarrow> [] | Some x \<Rightarrow> dmed_Name x) @ '': '')
             (dnsmadeeasy_GetRecords e (dme_client d) domain name ''TXT'') (\<lambda>records.
             case records of
               None \<Rightarrow> panic nil_pointer
             | Some rs \<Rightarrow> dme_delete_all e (dme_client d) rs None))))"

definition dnsmadeeasy_Timeout :: "dnsmadeeasy \<Rightarrow> int \<times> int" where
  "dnsmadeeasy_Timeout d = (hcf_PropagationTimeout (dme_config d), hcf_PollingInterval (dme_config d))"

definition dnsmadeeasy_provider :: "env \<Rightarrow> dnsmadeeasy \<Rightarrow> provider" where
  "dnsmadeeasy_provider e d =
     \<lparr>prov_Present = dnsmadeeasy_Present e d, prov_CleanUp = dnsmadeeasy_CleanUp e d,
      prov_Timeout = Some (dnsmadeeasy_Timeout d), prov_Sequential = None\<rparr>"

section \<open>The provider keeps its contract\<close>

context lookup_invariant
begin

lemma always_dnsmadeeasy [always_intros]:
  "always R (dnsmadeeasy_GetDomain e c authZone)" "always R (dnsmadeeasy_GetRecords e c dmn recordName recordType)"
  "always R (dnsmadeeasy_CreateRecord e c dmn record)" "always R (dnsmadeeasy_DeleteRecord e c record)"
  unfolding dnsmadeeasy_GetDomain_def dnsmadeeasy_GetRecords_def dnsmadeeasy_CreateRecord_def dnsmadeeasy_DeleteRecord_def
    dnsmadeeasy_sendRequest_def Let_def
  by (intro always_intros; simp)+

lemma always_dme_delete_all [always_intros]: "always R (dme_delete_all e c records lastError)"
  by (induction records arbitrary: lastError) (auto intro!: always_intros)

end

context plain_invariant
begin

lemma dnsmadeeasy_keeps: "provider_keeps R (dnsmadeeasy_provider e d)"
  unfolding dnsmadeeasy_provider_def
  by (rule provider_keepsI; unfold dnsmadeeasy_Present_def dnsmadeeasy_CleanUp_def Let_def; intro always_intros)

end

definition dnsmadeeasy_accepts :: "http_response \<Rightarrow> bool" where
  "dnsmadeeasy_accepts resp \<longleftrightarrow> resp_StatusCode resp \<le> 299"

lemma dnsmadeeasy_CreateRecord_sent:
  "dmer_Value record = v \<Longrightarrow>
   ensures is_ok (delivered e v (answered dnsmadeeasy_accepts)) (dnsmadeeasy_CreateRecord e c dmn record)"
  unfolding dnsmadeeasy_CreateRecord_def dnsmadeeasy_sendRequest_def Let_def
  by (intro ensures_intros ensures_check_first ensures_later always_intros)
    (auto simp: NewRequest_Inr dnsmadeeasy_accepts_def dme_Record_json_def intro!: carries_json)

lemma dnsmadeeasy_Present_sent:
  "ensures is_nil (delivered e (record_value e keyAuth) (answered dnsmadeeasy_accepts))
     (dnsmadeeasy_Present e d domainName token keyAuth)"
  unfolding dnsmadeeasy_Present_def Let_def
  by (intro ensures_try_first [OF dnsmadeeasy_CreateRecord_sent] ensures_intros ensures_try_later always_intros) simp

interpretation dnsmadeeasy: hosting e "dnsmadeeasy_provider e d" "answered dnsmadeeasy_accepts" for e d
  by (rule hostingI [OF outsider.dnsmadeeasy_keeps]) (simp add: dnsmadeeasy_Present_sent dnsmadeeasy_provider_def)

end
