(* ===== verification/Dynu.thy ===== *)
theory Dynu
  imports Hosting
begin

text \<open>
  Package \<^verbatim>\<open>providers/dns/dynu\<close> with its client.  The service often closes a connection without a reply; the client
  repeats such a request with the library \<^verbatim>\<open>backoff\<close>.  The status of an answer is in its body.  \<^verbatim>\<open>io.EOF\<close> is the
  error with its text.
\<close>

definition dynu_defaultBaseURL :: string where
  "dynu_defaultBaseURL = ''https://api.dynu.com/v2''"

record dynu_config = ttl_config +
  dyu_APIKey :: string

definition dynu_NewDefaultConfig :: "env \<Rightarrow> dynu_config" where
  "dynu_NewDefaultConfig e =
     \<lparr>hcf_PropagationTimeout = GetOrDefaultSecond e ''DYNU_PROPAGATION_TIMEOUT'' (3 * Minute),
      hcf_PollingInterval = GetOrDefaultSecond e ''DYNU_POLLING_INTERVAL'' (10 * Second),
      hcf_HTTPTimeout = GetOrDefaultSecond e ''DYNU_HTTP_TIMEOUT'' (30 * Second),
      hcf_TTL = GetOrDefaultInt e ''DYNU_TTL'' 300, dyu_APIKey = []\<rparr>"

text \<open>The transport that adds the key to every request; the transport below it belongs to the HTTP client.\<close>

definition dynu_apiKeyHeader :: string where
  "dynu_apiKeyHeader = ''Api-Key''"

record dynu_TokenTransport =
  dyut_apiKey :: string

definition dynu_NewTokenTransport :: "string \<Rightarrow> goerror + dynu_TokenTransport" where
  "dynu_NewTokenTransport apiKey =
     (if apiKey = [] then Inl (Err ''credentials missing: API key'') else Inr \<lparr>dyut_apiKey = apiKey\<rparr>)"

definition dynu_RoundTrip :: "dynu_TokenTransport \<Rightarrow> http_request \<Rightarrow> http_request" where
  "dynu_RoundTrip t req = (if dyut_apiKey t \<noteq> [] then Header_Add dynu_apiKeyHeader (dyut_apiKey t) req else req)"

record dynu_client =
  dyuc_Transport :: dynu_TokenTransport
  dyuc_BaseURL :: string

definition dynu_NewClient :: "dynu_TokenTransport \<Rightarrow> dynu_client" where
  "dynu_NewClient tr = \<lparr>dyuc_Transport = tr, dyuc_BaseURL = dynu_defaultBaseURL\<rparr>"

record dynu =
  dyu_config :: dynu_config
  dyu_client :: dynu_client

definition dynu_NewDNSProviderConfig :: "dynu_config option \<Rightarrow> goerror + dynu" where
  "dynu_NewDNSProviderConfig config =
     (case config of
        None \<Rightarrow> Inl (nil_config ''dynu'')
      | Some c \<Rightarrow>
          if dyu_APIKey c = [] then Inl (Err ''dynu: incomplete credentials, missing API key'')
          else (case dynu_NewTokenTransport (dyu_APIKey c) of
                  Inl err \<Rightarrow> Inl (Wrap ''dynu: '' err)
                | Inr tr \<Rightarrow> Inr \<lparr>dyu_config = c, dyu_client = dynu_NewClient tr\<rparr>))"

definition dynu_NewDNSProvider :: "env \<Rightarrow> goerror + dynu" where
  "dynu_NewDNSProvider e =
     (case env_Get e [''DYNU_API_KEY''] of
        Inl err \<Rightarrow> Inl (Wrap ''dynu: '' err)
      | Inr values \<Rightarrow>
          dynu_NewDNSProviderConfig (Some ((dynu_NewDefaultConfig e)\<lparr>dyu_APIKey := env_value values ''DYNU_API_KEY''\<rparr>)))"

section \<open>Messages\<close>

record dyu_APIException =
  dyux_Message :: string
  dyux_StatusCode :: int
  dyux_Type :: string

definition zero_dyu_APIException :: dyu_APIException where
  "zero_dyu_APIException = \<lparr>dyux_Message = [], dyux_StatusCode = 0, dyux_Type = []\<rparr>"

definition dynu_Error :: "dyu_APIException \<Rightarrow> goerror" where
  "dynu_Error a = Err (show_int (dyux_StatusCode a) @ '': '' @ dyux_Type a @ '': '' @ dyux_Message a)"

text \<open>A field of type \<^verbatim>\<open>int32\<close>.\<close>

definition set_int32 :: "json \<Rightarrow> (int \<Rightarrow> 'a) \<Rightarrow> 'a \<Rightarrow> goerror + 'a" where
  "set_int32 v upd a =
     (case v of
        JNum i \<Rightarrow> if - (2 ^ 31) \<le> i \<and> i < 2 ^ 31 then Inr (upd i) else Inl type_error
      | JNull \<Rightarrow> Inr a
      | _ \<Rightarrow> Inl type_error)"

definition dyu_APIException_member :: "string \<Rightarrow> json \<Rightarrow> dyu_APIException \<Rightarrow> goerror + dyu_APIException" where
  "dyu_APIException_member k v a =
     (if k = ''message'' then set_str v (\<lambda>s. a\<lparr>dyux_Message := s\<rparr>) a
      else if k = ''statusCode'' then set_int32 v (\<lambda>i. a\<lparr>dyux_StatusCode := i\<rparr>) a
      else if k = ''type'' then set_str v (\<lambda>s. a\<lparr>dyux_Type := s\<rparr>) a
      else Inr a)"

definition dyu_APIException_of_json :: "json \<Rightarrow> goerror + dyu_APIException" where
  "dyu_APIException_of_json = decode_struct dyu_APIException_member zero_dyu_APIException"

text \<open>
  Embedded as a pointer, the exception is made when a member of it is met, and stays nil in a reply without
  any of them.
\<close>

definition dyu_embedded ::
  "string \<Rightarrow> json \<Rightarrow> dyu_APIException option \<Rightarrow> goerror + dyu_APIException option" where
  "dyu_embedded k v x =
     (if k \<in> {''message'', ''statusCode'', ''type''}
      then map_sum (\<lambda>err. err) Some
        (dyu_APIException_member k v (case x of None \<Rightarrow> zero_dyu_APIException | Some a \<Rightarrow> a))
      else Inr x)"

record dyu_DNSRecord =
  dyur_ID :: int
  dyur_Type :: string
  dyur_DomainID :: int
  dyur_DomainName :: string
  dyur_NodeName :: string
  dyur_Hostname :: string
  dyur_State :: bool
  dyur_Content :: string
  dyur_TextData :: string
  dyur_TTL :: int

definition zero_dyu_DNSRecord :: dyu_DNSRecord where
  "zero_dyu_DNSRecord = \<lparr>dyur_ID = 0, dyur_Type = [], dyur_DomainID = 0, dyur_DomainName = [], dyur_NodeName = [],
     dyur_Hostname = [], dyur_State = False, dyur_Content = [], dyur_TextData = [], dyur_TTL = 0\<rparr>"

definition dyu_DNSRecord_member :: "string \<Rightarrow> json \<Rightarrow> dyu_DNSRecord \<Rightarrow> goerror + dyu_DNSRecord" where
  "dyu_DNSRecord_member k v r =
     (if k = ''id'' then set_int v (\<lambda>i. r\<lparr>dyur_ID := i\<rparr>) r
      else if k = ''recordType'' then set_str v (\<lambda>s. r\<lparr>dyur_Type := s\<rparr>) r
      else if k = ''domainId'' then set_int v (\<lambda>i. r\<lparr>dyur_DomainID := i\<rparr>) r
      else if k = ''domainName'' then set_str v (\<lambda>s. r\<lparr>dyur_DomainName := s\<rparr>) r
      else if k = ''nodeName'' then set_str v (\<lambda>s. r\<lparr>dyur_NodeName := s\<rparr>) r
      else if k = ''hostname'' then set_str v (\<lambda>s. r\<lparr>dyur_Hostname := s\<rparr>) r
      else if k = ''state'' then set_bool v (\<lambda>b. r\<lparr>dyur_State := b\<rparr>) r
      else if k = ''content'' then set_str v (\<lambda>s. r\<lparr>dyur_Content := s\<rparr>) r
      else if k = ''textData'' then set_str v (\<lambda>s. r\<lparr>dyur_TextData := s\<rparr>) r
      else if k = ''ttl'' then set_int v (\<lambda>i. r\<lparr>dyur_TTL := i\<rparr>) r
      else Inr r)"

definition dyu_DNSRecord_of_json :: "json \<Rightarrow> goerror + dyu_DNSRecord" where
  "dyu_DNSRecord_of_json = decode_struct dyu_DNSRecord_member zero_dyu_DNSRecord"

definition dyu_DNSRecord_json :: "dyu_DNSRecord \<Rightarrow> json" where
  "dyu_DNSRecord_json r =
     JObj (omit_int ''id'' (dyur_ID r) @ omit_str ''recordType'' (dyur_Type r) @ omit_int ''domainId'' (dyur_DomainID r)
       @ omit_str ''domainName'' (dyur_DomainName r) @ omit_str ''nodeName'' (dyur_NodeName r)
       @ omit_str ''hostname'' (dyur_Hostname r) @ omit_bool ''state'' (dyur_State r) @ omit_str ''content'' (dyur_Content r)
       @ omit_str ''textData'' (dyur_TextData r) @ omit_int ''ttl'' (dyur_TTL r))"

record dyu_DNSHostname =
  dyuh_ID :: int
  dyuh_DomainName :: string
  dyuh_Hostname :: string
  dyuh_Node :: string

definition dyu_DNSHostname_of_json :: "json \<Rightarrow> goerror + dyu_APIException option \<times> dyu_DNSHostname" where
  "dyu_DNSHostname_of_json = decode_struct (\<lambda>k v (x, h).
     if k = ''id'' then set_int v (\<lambda>i. (x, h\<lparr>dyuh_ID := i\<rparr>)) (x, h)
     else if k = ''domainName'' then set_str v (\<lambda>s. (x, h\<lparr>dyuh_DomainName := s\<rparr>)) (x, h)
     else if k = ''hostname'' then set_str v (\<lambda>s. (x, h\<lparr>dyuh_Hostname := s\<rparr>)) (x, h)
     else if k = ''node'' then set_str v (\<lambda>s. (x, h\<lparr>dyuh_Node := s\<rparr>)) (x, h)
     else map_sum (\<lambda>err. err) (\<lambda>y. (y, h)) (dyu_embedded k v x))
     (None, \<lparr>dyuh_ID = 0, dyuh_DomainName = [], dyuh_Hostname = [], dyuh_Node = []\<rparr>)"

definition dyu_RecordsResponse_of_json :: "json \<Rightarrow> goerror + dyu_APIException option \<times> dyu_DNSRecord list" where
  "dyu_RecordsResponse_of_json = decode_struct (\<lambda>k v (x, rs).
     if k = ''dnsRecords'' then set_struct (list_of_json dyu_DNSRecord_of_json) v (\<lambda>l. (x, l))
     else map_sum (\<lambda>err. err) (\<lambda>y. (y, rs)) (dyu_embedded k v x)) (None, [])"

definition dyu_RecordResponse_of_json :: "json \<Rightarrow> goerror + dyu_APIException option \<times> dyu_DNSRecord" where
  "dyu_RecordResponse_of_json = decode_struct (\<lambda>k v (x, r).
     case dyu_embedded k v x of
       Inl err \<Rightarrow> Inl err
     | Inr y \<Rightarrow> map_sum (\<lambda>err. err) (\<lambda>r'. (y, r')) (dyu_DNSRecord_member k v r)) (None, zero_dyu_DNSRecord)"

section \<open>The client\<close>

definition dynu_createEndpoint :: "dynu_client \<Rightarrow> string list \<Rightarrow> goerror + url" where
  "dynu_createEndpoint c fragments =
     (case url_Parse (dyuc_BaseURL c) of
        Inl err \<Rightarrow> Inl err
      | Inr baseURL \<Rightarrow> url_ParseRef baseURL (path_Join [url_Path baseURL, path_Join fragments]))"

fun dyu_is_EOF :: "goerror \<Rightarrow> bool" where
  "dyu_is_EOF (Err s) \<longleftrightarrow> s = ''EOF''"
| "dyu_is_EOF (Wrap _ err) \<longleftrightarrow> dyu_is_EOF err"
| "dyu_is_EOF _ \<longleftrightarrow> False"

text \<open>
  One attempt.  Only an error of the exchange other than the end of the connection ends the attempts; a
  request that cannot be built is tried again.
\<close>

definition dyu_operation :: "env \<Rightarrow> dynu_client \<Rightarrow> string \<Rightarrow> string \<Rightarrow> string option \<Rightarrow> (world, attempt) go" where
  "dyu_operation e c method url body =
     (case NewRequest e method url body of
        Inl err \<Rightarrow> ret (Some err, False, None)
      | Inr req \<Rightarrow>
          bind (http_do e (dynu_RoundTrip (dyuc_Transport c)
              (Header_Add ''Accept'' ''application/json'' (Header_Add ''Content-Type'' ''application/json'' req)))) (\<lambda>r.
            case r of
              Inl err \<Rightarrow>
                if dyu_is_EOF err then ret (Some err, False, None)
                else ret (Some (Wrap ''client error: '' err), True, None)
            | Inr resp \<Rightarrow> ret (None, False, Some (resp, None))))"

text \<open>The defaults of the library, but for the first interval.\<close>

definition dyu_backoff :: backoff where
  "dyu_backoff = \<lparr>bo_InitialInterval = Second, bo_MaxInterval = 60 * Second, bo_MaxElapsedTime = 15 * Minute\<rparr>"

text \<open>A body that is not nil is the text of a JSON value, which is never empty.\<close>

definition dynu_doRetry ::
  "env \<Rightarrow> dynu_client \<Rightarrow> string \<Rightarrow> string \<Rightarrow> string option \<Rightarrow> (json \<Rightarrow> goerror + 'a) \<Rightarrow> (world, goerror + 'a) go" where
  "dynu_doRetry e c method url body dec =
     bind (retry e dyu_backoff (dyu_operation e c method url body)) (\<lambda>(err, reply).
       case err of
         Some er \<Rightarrow> ret (Inl er)
       | None \<Rightarrow>
           (case reply of
              None \<Rightarrow> panic nil_pointer
            | Some (resp, _) \<Rightarrow>
                (case resp_Body resp of
                   Inl er \<Rightarrow> ret (Inl (Wrap ''failed to read response body: '' er))
                 | Inr raw \<Rightarrow> ret (Unmarshal e dec raw))))"

text \<open>The status in a reply; a reply without one has no exception, and reading it panics.\<close>

definition dyu_success :: "dyu_APIException option \<Rightarrow> 'a \<Rightarrow> (world, goerror + 'a) go" where
  "dyu_success x result =
     (case x of
        None \<Rightarrow> panic nil_pointer
      | Some a \<Rightarrow>
          if 200 \<le> dyux_StatusCode a \<and> dyux_StatusCode a < 300 then ret (Inr result)
          else ret (Inl (Wrap ''API error: '' (dynu_Error a))))"

definition dynu_GetRecords :: "env \<Rightarrow> dynu_client \<Rightarrow> string \<Rightarrow> string \<Rightarrow> (world, goerror + dyu_DNSRecord list) go" where
  "dynu_GetRecords e c hostname recordType =
     (case dynu_createEndpoint c [''dns'', ''record'', hostname] of
        Inl err \<Rightarrow> ret (Inl err)
      | Inr endpoint \<Rightarrow>
          let query = Values_Set ''recordType'' recordType (ParseQuery (url_RawQuery endpoint)) in
          check (dynu_doRetry e c ''GET'' (url_String (endpoint\<lparr>url_RawQuery := Values_Encode query\<rparr>)) None
            dyu_RecordsResponse_of_json) (\<lambda>(x, records). dyu_success x records))"

definition dynu_AddNewRecord :: "env \<Rightarrow> dynu_client \<Rightarrow> int \<Rightarrow> dyu_DNSRecord \<Rightarrow> (world, goerror + unit) go" where
  "dynu_AddNewRecord e c domainID record =
     (case dynu_createEndpoint c [''dns'', show_int domainID, ''record''] of
        Inl err \<Rightarrow> ret (Inl err)
      | Inr endpoint \<Rightarrow>
          check (dynu_doRetry e c ''POST'' (url_String endpoint) (Some (jsonPrint e (dyu_DNSRecord_json record)))
            dyu_RecordResponse_of_json) (\<lambda>(x, _). dyu_success x ()))"

definition dynu_DeleteRecord :: "env \<Rightarrow> dynu_client \<Rightarrow> int \<Rightarrow> int \<Rightarrow> (world, goerror + unit) go" where
  "dynu_DeleteRecord e c domainID recordID =
     (case dynu_createEndpoint c [''dns'', show_int domainID, ''record'', show_int recordID] of
        Inl err \<Rightarrow> ret (Inl err)
      | Inr endpoint \<Rightarrow>
          check (dynu_doRetry e c ''DELETE'' (url_String endpoint) None dyu_APIException_of_json)
            (\<lambda>a. dyu_success (Some a) ()))"

definition dynu_GetRootDomain :: "env \<Rightarrow> dynu_client \<Rightarrow> string \<Rightarrow> (world, goerror + dyu_DNSHostname) go" where
  "dynu_GetRootDomain e c hostname =
     (case dynu_createEndpoint c [''dns'', ''getroot'', hostname] of
        Inl err \<Rightarrow> ret (Inl err)
      | Inr endpoint \<Rightarrow>
          check (dynu_doRetry e c ''GET'' (url_String endpoint) None dyu_DNSHostname_of_json)
            (\<lambda>(x, h). dyu_success x h))"

section \<open>The provider\<close>

definition dyu_matches :: "string \<Rightarrow> string \<Rightarrow> dyu_DNSRecord \<Rightarrow> bool" where
  "dyu_matches fqdn value record \<longleftrightarrow> dyur_Hostname record = UnFqdn fqdn \<and> dyur_TextData record = value"

definition dynu_Present :: "env \<Rightarrow> dynu \<Rightarrow> string \<Rightarrow> string \<Rightarrow> string \<Rightarrow> (world, goerror option) go" where
  "dynu_Present e d domain token keyAuth =
     bind (GetRecord e domain keyAuth) (\<lambda>(fqdn, value).
       try_or (''dynu: could not find root domain for '' @ domain @ '': '') (dynu_GetRootDomain e (dyu_client d) domain) (\<lambda>rootDomain.
         try_or (''dynu: failed to get records for '' @ domain @ '': '')
             (dynu_GetRecords e (dyu_client d) (UnFqdn fqdn) ''TXT'') (\<lambda>records.
           if list_ex (dyu_matches fqdn value) records then ret None
           else try_or (''dynu: failed to add record to '' @ domain @ '': '')
             (dynu_AddNewRecord e (dyu_client d) (dyuh_ID rootDomain)
               (zero_dyu_DNSRecord\<lparr>dyur_Type := ''TXT'', dyur_DomainName := dyuh_DomainName rootDomain,
                  dyur_Hostname := UnFqdn fqdn, dyur_NodeName := UnFqdn (TrimSuffix fqdn (dnsFqdn e domain)),
                  dyur_TextData := value, dyur_State := True, dyur_TTL := hcf_TTL (dyu_config d)\<rparr>)) (\<lambda>_. ret None))))"

text \<open>Every record with the name and the text is removed, up to the first error.\<close>

fun dyu_remove_all ::
  "env \<Rightarrow> dynu_client \<Rightarrow> string \<Rightarrow> int \<Rightarrow> dyu_DNSRecord list \<Rightarrow> (world, goerror option) go" where
  "dyu_remove_all e c domain domainID [] = ret None"
| "dyu_remove_all e c domain domainID (r # rs) =
     try_or (''dynu: failed to remove TXT record for '' @ domain @ '': '') (dynu_DeleteRecord e c domainID (dyur_ID r))
       (\<lambda>_. dyu_remove_all e c domain domainID rs)"

definition dynu_CleanUp :: "env \<Rightarrow> dynu \<Rightarrow> string \<Rightarrow> string \<Rightarrow> string \<Rightarrow> (world, goerror option) go" where
  "dynu_CleanUp e d domain token keyAuth =
     bind (GetRecord e domain keyAuth) (\<lambda>(fqdn, value).
       try_or (''dynu: could not find root domain for '' @ domain @ '': '') (dynu_GetRootDomain e (dyu_client d) domain) (\<lambda>rootDomain.
         try_or (''dynu: failed to get records for '' @ domain @ '': '')
             (dynu_GetRecords e (dyu_client d) (UnFqdn fqdn) ''TXT'') (\<lambda>records.
           dyu_remove_all e (dyu_client d) domain (dyuh_ID rootDomain) (filter (dyu_matches fqdn value) records))))"

definition dynu_Timeout :: "dynu \<Rightarrow> int \<times> int" where
  "dynu_Timeout d = (hcf_PropagationTimeout (dyu_config d), hcf_PollingInterval (dyu_config d))"

definition dynu_provider :: "env \<Rightarrow> dynu \<Rightarrow> provider" where
  "dynu_provider e d =
     \<lparr>prov_Present = dynu_Present e d, prov_CleanUp = dynu_CleanUp e d,
      prov_Timeout = Some (dynu_Timeout d), prov_Sequential = None\<rparr>"

section \<open>The provider keeps its contract\<close>

lemma dyu_RoundTrip_body [simp]: "req_Body (dynu_RoundTrip t req) = req_Body req" "carries e v (dynu_RoundTrip t req) = carries e v req"
  by (simp_all add: dynu_RoundTrip_def)

context plain_invariant
begin

lemma always_dyu_operation: "always R (dyu_operation e c method url body)"
  unfolding dyu_operation_def
  by (intro always_intros always_plain_http) (auto simp: NewRequest_Inr split: option.splits)

lemma always_dynu_doRetry [always_intros]:
  assumes "retry_ok e"
  shows "always R (dynu_doRetry e c method url body dec)"
proof -
  have "always R (retry e dyu_backoff (dyu_operation e c method url body))"
    using assms step_relation_axioms clock_step always_dyu_operation by (intro always_retry)
  then show ?thesis unfolding dynu_doRetry_def by (intro always_intros)
qed

lemma always_dyu_success [always_intros]: "always R (dyu_success x y)"
  unfolding dyu_success_def by (intro always_intros)

lemma always_dynu [always_intros]:
  assumes "retry_ok e"
  shows "always R (dynu_GetRecords e c hostname recordType)" "always R (dynu_AddNewRecord e c domainID record)"
    "always R (dynu_DeleteRecord e c domainID recordID)" "always R (dynu_GetRootDomain e c hostname)"
  unfolding dynu_GetRecords_def dynu_AddNewRecord_def dynu_DeleteRecord_def dynu_GetRootDomain_def Let_def
  by (intro always_intros assms)+

lemma always_dyu_remove_all [always_intros]:
  assumes "retry_ok e"
  shows "always R (dyu_remove_all e c domain domainID rs)"
  by (induction rs; simp only: dyu_remove_all.simps; intro always_intros assms)

lemma dynu_keeps: "retry_ok e \<Longrightarrow> provider_keeps R (dynu_provider e d)"
  unfolding dynu_provider_def
  by (rule provider_keepsI; unfold dynu_Present_def dynu_CleanUp_def; intro always_intros)

end

lemma dynu_doRetry_run:
  assumes "retry_ok e" and "dynu_doRetry e c method url body dec s = (Return (Inr x), t)"
  obtains req resp raw where "happened s t (EvHttp req (Inr resp))" "resp_Body resp = Inr raw" "Unmarshal e dec raw = Inr x"
    "req_Body req = (case body of None \<Rightarrow> NoBody | Some b \<Rightarrow> RawBody b)"
proof -
  let ?op = "dyu_operation e c method url body"
  obtain rep resp raw where run: "retry e dyu_backoff ?op s = (Return (None, Some (resp, rep)), t)"
    and raw: "resp_Body resp = Inr raw" "Unmarshal e dec raw = Inr x"
    using assms(2) by (auto simp: dynu_doRetry_def host_runs bind_Return_eq split: option.splits sum.splits)
  have "retries ?op s (retry e dyu_backoff ?op s)" using assms(1) by (simp add: retry_ok_def)
  from retries_success [OF this run growing.always_dyu_operation] obtain u ca where
    u: "grows s u" "?op u = (Return (None, ca, Some (resp, rep)), t)" by blast
  then obtain req where "happened u t (EvHttp req (Inr resp))"
    "req_Body req = (case body of None \<Rightarrow> NoBody | Some b \<Rightarrow> RawBody b)"
    unfolding dyu_operation_def
    by (auto simp: host_runs run_cases NewRequest_Inr dest!: happened_http split: if_splits)
  moreover from this(1) have "happened s t (EvHttp req (Inr resp))"
    using happened_within u(1) growth.step_refl by blast
  ultimately show thesis using that raw by blast
qed

definition dynu_accepts :: "env \<Rightarrow> http_response \<Rightarrow> bool" where
  "dynu_accepts e resp \<longleftrightarrow>
     (\<exists>raw a r. resp_Body resp = Inr raw \<and> Unmarshal e dyu_RecordResponse_of_json raw = Inr (Some a, r)
        \<and> 200 \<le> dyux_StatusCode a \<and> dyux_StatusCode a < 300)"

lemma dyu_success_Inr:
  "dyu_success x y s = (Return (Inr z), t) \<longleftrightarrow>
     (\<exists>a. x = Some a \<and> 200 \<le> dyux_StatusCode a \<and> dyux_StatusCode a < 300) \<and> z = y \<and> t = s"
  by (auto simp: dyu_success_def split: option.splits)

lemma dynu_AddNewRecord_sent:
  assumes "retry_ok e"
  shows "ensures is_ok (delivered e (dyur_TextData r) (answered (dynu_accepts e))) (dynu_AddNewRecord e c domainID r)"
  unfolding ensures_def
proof (intro allI impI)
  fix s x t
  assume "dynu_AddNewRecord e c domainID r s = (Return x, t)" and "is_ok x"
  then obtain y where "dynu_AddNewRecord e c domainID r s = (Return (Inr y), t)" by (cases x) auto
  then obtain url a r' where run: "dynu_doRetry e c ''POST'' url (Some (jsonPrint e (dyu_DNSRecord_json r)))
      dyu_RecordResponse_of_json s = (Return (Inr (Some a, r')), t)"
    and ok: "200 \<le> dyux_StatusCode a" "dyux_StatusCode a < 300"
    unfolding dynu_AddNewRecord_def by (auto simp: host_runs run_cases dyu_success_Inr)
  from dynu_doRetry_run [OF assms run] obtain req resp raw where
    ev: "happened s t (EvHttp req (Inr resp))" and raw: "resp_Body resp = Inr raw"
      "Unmarshal e dyu_RecordResponse_of_json raw = Inr (Some a, r')"
    and body: "req_Body req = RawBody (jsonPrint e (dyu_DNSRecord_json r))" by auto
  have "carries e (dyur_TextData r) req"
    by (rule carries_json [OF body]) (simp add: dyu_DNSRecord_json_def omit_str_def)
  moreover have "dynu_accepts e resp" using raw ok unfolding dynu_accepts_def by blast
  ultimately show "\<exists>ev. happened s t ev \<and> delivered e (dyur_TextData r) (answered (dynu_accepts e)) ev"
    using ev by (intro exI [of _ "EvHttp req (Inr resp)"]) simp
qed

text \<open>The text of a decoded record was in the reply.\<close>

lemma dyu_DNSRecord_text:
  assumes "dyu_DNSRecord_of_json j = Inr r" and "dyur_TextData r \<noteq> []"
  shows "dyur_TextData r \<in> set (json_strings j)"
proof -
  have "dyur_TextData r = [] \<or> dyur_TextData r \<in> set (json_strings j)"
    using assms(1) unfolding dyu_DNSRecord_of_json_def
    by (rule decode_struct_invariant)
      (auto simp: dyu_DNSRecord_member_def zero_dyu_DNSRecord_def set_str_def set_int_def set_bool_def
        split: if_splits json.splits)
  with assms(2) show ?thesis by simp
qed

lemma dyu_RecordsResponse_text:
  assumes "dyu_RecordsResponse_of_json j = Inr (x, rs)" and "r \<in> set rs" and "dyur_TextData r \<noteq> []"
  shows "dyur_TextData r \<in> set (json_strings j)"
proof -
  have list: "dyur_TextData r \<in> set (json_strings j)"
    if "list_of_json dyu_DNSRecord_of_json v = Inr l" "r \<in> set l" "dyur_TextData r \<noteq> []"
      "set (json_strings v) \<subseteq> set (json_strings j)" for v l r
    using list_of_json_member [OF that(1,2)] dyu_DNSRecord_text that(3,4) by blast
  have "\<forall>r \<in> set (snd (x, rs)). dyur_TextData r \<noteq> [] \<longrightarrow> dyur_TextData r \<in> set (json_strings j)"
    using assms(1) unfolding dyu_RecordsResponse_of_json_def
    by (rule decode_struct_invariant)
      (auto simp: set_struct_def map_sum_eq_Inr intro: list split: if_splits sum.splits)
  with assms(2,3) show ?thesis by simp
qed

lemma dynu_GetRecords_found:
  assumes "retry_ok e" and "dynu_GetRecords e c hostname ty s = (Return (Inr records), t)"
    and "list_ex (dyu_matches fqdn v) records"
  shows "\<exists>ev. happened s t ev \<and> reported e v ev"
proof -
  obtain r where r: "r \<in> set records" "dyur_TextData r = v"
    using assms(3) by (auto simp: list_ex_iff dyu_matches_def)
  obtain url x where run: "dynu_doRetry e c ''GET'' url None dyu_RecordsResponse_of_json s = (Return (Inr (x, records)), t)"
    using assms(2) unfolding dynu_GetRecords_def by (auto simp: host_runs run_cases dyu_success_Inr Let_def)
  from dynu_doRetry_run [OF assms(1) run] obtain req resp raw where
    ev: "happened s t (EvHttp req (Inr resp))" and raw: "resp_Body resp = Inr raw"
      "Unmarshal e dyu_RecordsResponse_of_json raw = Inr (x, records)" by blast
  obtain j where j: "jsonParse e raw = Some j" "dyu_RecordsResponse_of_json j = Inr (x, records)"
    using raw(2) by (auto simp: Unmarshal_def split: option.splits)
  have "v \<noteq> [] \<Longrightarrow> [] @ v @ [] \<in> set (json_strings j)"
    using dyu_RecordsResponse_text [OF j(2) r(1)] r(2) by simp
  from reportedI [OF raw(1) j(1) this] ev show ?thesis by blast
qed

lemma dynu_Present_sent:
  assumes "retry_ok e"
  shows "ensures is_nil (\<lambda>ev. delivered e (record_value e keyAuth) (answered (dynu_accepts e)) ev
     \<or> reported e (record_value e keyAuth) ev) (dynu_Present e d domain token keyAuth)"
proof -
  have put: "ensures is_nil (\<lambda>ev. delivered e v (answered (dynu_accepts e)) ev \<or> Q ev)
      (try_or msg (dynu_AddNewRecord e c domainID r) (\<lambda>_. ret None))" if "dyur_TextData r = v" for v Q msg c domainID r
    unfolding try_or_def that [symmetric]
    by (intro ensures_mono [OF ensures_handle_first [OF dynu_AddNewRecord_sent [OF assms]]]
        growing.always_dynu assms always_intros ensures_intros) simp_all
  show ?thesis
    unfolding dynu_Present_def
    by (intro ensures_GetRecord ensures_try_later [OF growing.always_dynu(4) [OF assms]]
        ensures_try_either [OF growing.always_dynu(1) [OF assms]] ensures_if put always_intros assms)
      (auto dest: dynu_GetRecords_found [OF assms])
qed

lemma dynu_offering:
  assumes "retry_ok e"
  shows "offering e (dynu_provider e d) (answered (dynu_accepts e)) (reported e)"
  by (rule offeringI [OF outsider.dynu_keeps [OF assms]]) (simp add: dynu_Present_sent [OF assms] dynu_provider_def)

text \<open>An instance: the library that repeats a fixed number of times.\<close>

interpretation dynu: offering "with_retries n e" "dynu_provider (with_retries n e) d"
  "answered (dynu_accepts (with_retries n e))" "reported (with_retries n e)" for n e d
  by (rule dynu_offering [OF retry_ok_with_retries])

end
