(* ===== verification/Easydns.thy ===== *)
theory Easydns
  imports Hosting
begin

text \<open>
  Package \<^verbatim>\<open>providers/dns/easydns\<close>.  The identifier of a record is kept in a map under the name of the record and
  its value, so that challenges for one name do not mix.  The zone is taken to be the last two labels.
\<close>

definition easydns_defaultEndpoint :: string where "easydns_defaultEndpoint = ''https://rest.easydns.net''"

record easydns_config = ttl_config +
  ez_Endpoint :: "url option"
  ez_Token :: string
  ez_Key :: string
  ez_SequenceInterval :: int

definition easydns_NewDefaultConfig :: "env \<Rightarrow> easydns_config" where
  "easydns_NewDefaultConfig e =
     \<lparr>hcf_PropagationTimeout = GetOrDefaultSecond e ''EASYDNS_PROPAGATION_TIMEOUT'' DefaultPropagationTimeout,
      hcf_PollingInterval = GetOrDefaultSecond e ''EASYDNS_POLLING_INTERVAL'' DefaultPollingInterval,
      hcf_HTTPTimeout = GetOrDefaultSecond e ''EASYDNS_HTTP_TIMEOUT'' (30 * Second),
      hcf_TTL = GetOrDefaultInt e ''EASYDNS_TTL'' (int DefaultTTL),
      ez_Endpoint = None, ez_Token = [], ez_Key = [],
      ez_SequenceInterval = GetOrDefaultSecond e ''EASYDNS_SEQUENCE_INTERVAL'' DefaultPropagationTimeout\<rparr>"

record easydns =
  ez_config :: easydns_config
  ez_recordIDs :: nat

definition easydns_NewDNSProviderConfig :: "easydns_config option \<Rightarrow> (world, goerror + easydns) go" where
  "easydns_NewDNSProviderConfig config =
     (case config of
        None \<Rightarrow> ret (Inl (nil_config ''easydns''))
      | Some c \<Rightarrow>
          if ez_Token c = [] then ret (Inl (Err ''easydns: the API token is missing''))
          else if ez_Key c = [] then ret (Inl (Err ''easydns: the API key is missing''))
          else bind make_map (\<lambda>a. ret (Inr \<lparr>ez_config = c, ez_recordIDs = a\<rparr>)))"

definition easydns_NewDNSProvider :: "env \<Rightarrow> (world, goerror + easydns) go" where
  "easydns_NewDNSProvider e =
     (case url_Parse (GetOrDefaultString e ''EASYDNS_ENDPOINT'' easydns_defaultEndpoint) of
        Inl err \<Rightarrow> ret (Inl (Wrap ''easydns: '' err))
      | Inr endpoint \<Rightarrow>
          (case env_Get e [''EASYDNS_TOKEN'', ''EASYDNS_KEY''] of
             Inl err \<Rightarrow> ret (Inl (Wrap ''easydns: '' err))
           | Inr values \<Rightarrow>
               easydns_NewDNSProviderConfig (Some ((easydns_NewDefaultConfig e)
                 \<lparr>ez_Endpoint := Some endpoint, ez_Token := env_value values ''EASYDNS_TOKEN'',
                  ez_Key := env_value values ''EASYDNS_KEY''\<rparr>))))"

section \<open>The client\<close>

record ez_zoneRecord =
  ezr_ID :: string
  ezr_Domain :: string
  ezr_Host :: string
  ezr_TTL :: string
  ezr_Prio :: string
  ezr_Type :: string
  ezr_Rdata :: string
  ezr_LastMod :: string
  ezr_Revoked :: int
  ezr_NewHost :: string

definition zero_ez_zoneRecord :: ez_zoneRecord where
  "zero_ez_zoneRecord = \<lparr>ezr_ID = [], ezr_Domain = [], ezr_Host = [], ezr_TTL = [], ezr_Prio = [], ezr_Type = [],
     ezr_Rdata = [], ezr_LastMod = [], ezr_Revoked = 0, ezr_NewHost = []\<rparr>"

definition ez_zoneRecord_json :: "ez_zoneRecord \<Rightarrow> json" where
  "ez_zoneRecord_json r =
     JObj (omit_str ''id'' (ezr_ID r)
       @ [(''domain'', JStr (ezr_Domain r)), (''host'', JStr (ezr_Host r)), (''ttl'', JStr (ezr_TTL r)),
          (''prio'', JStr (ezr_Prio r)), (''type'', JStr (ezr_Type r)), (''rdata'', JStr (ezr_Rdata r))]
       @ omit_str ''last_mod'' (ezr_LastMod r) @ omit_int ''revoked'' (ezr_Revoked r) @ omit_str ''new_host'' (ezr_NewHost r))"

definition ez_zoneRecord_of_json :: "json \<Rightarrow> goerror + ez_zoneRecord" where
  "ez_zoneRecord_of_json = decode_struct (\<lambda>k v r.
     if k = ''id'' then set_str v (\<lambda>s. r\<lparr>ezr_ID := s\<rparr>) r
     else if k = ''domain'' then set_str v (\<lambda>s. r\<lparr>ezr_Domain := s\<rparr>) r
     else if k = ''host'' then set_str v (\<lambda>s. r\<lparr>ezr_Host := s\<rparr>) r
     else if k = ''ttl'' then set_str v (\<lambda>s. r\<lparr>ezr_TTL := s\<rparr>) r
     else if k = ''prio'' then set_str v (\<lambda>s. r\<lparr>ezr_Prio := s\<rparr>) r
     else if k = ''type'' then set_str v (\<lambda>s. r\<lparr>ezr_Type := s\<rparr>) r
     else if k = ''rdata'' then set_str v (\<lambda>s. r\<lparr>ezr_Rdata := s\<rparr>) r
     else if k = ''last_mod'' then set_str v (\<lambda>s. r\<lparr>ezr_LastMod := s\<rparr>) r
     else if k = ''revoked'' then set_int v (\<lambda>i. r\<lparr>ezr_Revoked := i\<rparr>) r
     else if k = ''new_host'' then set_str v (\<lambda>s. r\<lparr>ezr_NewHost := s\<rparr>) r
     else Inr r) zero_ez_zoneRecord"

text \<open>The record in the reply to an addition.\<close>

definition ez_addRecordResponse_of_json :: "json \<Rightarrow> goerror + ez_zoneRecord" where
  "ez_addRecordResponse_of_json = decode_struct (\<lambda>k v r.
     if k = ''msg'' then set_str v (\<lambda>_. r) r
     else if k = ''tm'' \<or> k = ''status'' then set_int v (\<lambda>_. r) r
     else if k = ''data'' then set_struct ez_zoneRecord_of_json v (\<lambda>x. x)
     else Inr r) zero_ez_zoneRecord"

text \<open>The request that \<^verbatim>\<open>doRequest\<close> makes.\<close>

definition ez_request :: "env \<Rightarrow> easydns \<Rightarrow> string \<Rightarrow> string \<Rightarrow> json option \<Rightarrow> (goerror + http_request) outcome" where
  "ez_request e d method path requestMsg =
     makeRequest e (ez_Endpoint (ez_config d)) method (path @ ''?format=json'') (map_option (Encode e) requestMsg) (\<lambda>req.
       SetBasicAuth (ez_Token (ez_config d)) (ez_Key (ez_config d))
         (Header_Set ''Accept'' ''application/json'' (Header_Set ''Content-Type'' ''application/json'' req)))"

text \<open>\<open>nothing\<close> is the result when no reply is decoded.\<close>

definition easydns_doRequest ::
  "env \<Rightarrow> easydns \<Rightarrow> string \<Rightarrow> string \<Rightarrow> json option \<Rightarrow> (json \<Rightarrow> goerror + 'a) \<Rightarrow> 'a option \<Rightarrow> (world, goerror + 'a) go" where
  "easydns_doRequest e d method path requestMsg dec nothing =
     check (outcome_of (ez_request e d method path requestMsg)) (\<lambda>req.
       check (http_do e req) (\<lambda>response.
         let code = show_int (resp_StatusCode response) in
         if 400 \<le> resp_StatusCode response then
           (case resp_Body response of
              Inl err \<Rightarrow> ret (Inl (Wrap (code @ '': failed to read response body: '') err))
            | Inr body \<Rightarrow> ret (Inl (Err (code @ '': request failed: '' @ body))))
         else
           (case nothing of
              Some x \<Rightarrow> ret (Inr x)
            | None \<Rightarrow> ret (Decode e dec (resp_Body response)))))"

definition easydns_addRecord :: "env \<Rightarrow> easydns \<Rightarrow> string \<Rightarrow> ez_zoneRecord \<Rightarrow> (world, goerror + string) go" where
  "easydns_addRecord e d domain record =
     check (easydns_doRequest e d ''PUT'' (path_Join [''/zones/records/add'', domain, ''TXT''])
         (Some (ez_zoneRecord_json record)) ez_addRecordResponse_of_json None) (\<lambda>r. ret (Inr (ezr_ID r)))"

definition easydns_deleteRecord :: "env \<Rightarrow> easydns \<Rightarrow> string \<Rightarrow> string \<Rightarrow> (world, goerror + unit) go" where
  "easydns_deleteRecord e d domain recordID =
     easydns_doRequest e d ''DELETE'' (path_Join [''/zones/records'', domain, recordID]) None (\<lambda>_. Inr ()) (Some ())"

section \<open>The provider\<close>

definition easydns_splitFqdn :: "env \<Rightarrow> string \<Rightarrow> (string \<times> string) outcome" where
  "easydns_splitFqdn e fqdn =
     (let parts = dnsSplitDomainName e fqdn; n = length parts in
      if n < 2 then Panic ''slice bounds out of range''
      else Return (Join (take (n - 2) parts) ''.'', Join (drop (n - 2) parts) ''.''))"

definition easydns_getMapKey :: "string \<Rightarrow> string \<Rightarrow> string" where
  "easydns_getMapKey fqdn value = fqdn @ ''|'' @ value"

definition easydns_Present :: "env \<Rightarrow> easydns \<Rightarrow> string \<Rightarrow> string \<Rightarrow> string \<Rightarrow> (world, goerror option) go" where
  "easydns_Present e d domain token keyAuth =
     bind (GetRecord e domain keyAuth) (\<lambda>(fqdn, value).
       bind (outcome_of (easydns_splitFqdn e fqdn)) (\<lambda>(apiHost, apiDomain).
         let record = zero_ez_zoneRecord\<lparr>ezr_Domain := apiDomain, ezr_Host := apiHost, ezr_Type := ''TXT'', ezr_Rdata := value,
               ezr_TTL := show_int (hcf_TTL (ez_config d)), ezr_Prio := ''0''\<rparr> in
         try_or ''easydns: error adding zone record: '' (easydns_addRecord e d apiDomain record) (\<lambda>recordID.
           bind (map_set (ez_recordIDs d) (easydns_getMapKey fqdn value) (StrCell recordID)) (\<lambda>_. ret None))))"

text \<open>The entry is deleted whatever the service answers.\<close>

definition easydns_CleanUp :: "env \<Rightarrow> easydns \<Rightarrow> string \<Rightarrow> string \<Rightarrow> string \<Rightarrow> (world, goerror option) go" where
  "easydns_CleanUp e d domain token keyAuth =
     bind (GetRecord e domain keyAuth) (\<lambda>(fqdn, challenge).
       let key = easydns_getMapKey fqdn challenge in
       bind (map_get (ez_recordIDs d) key) (\<lambda>found.
         case found of
           None \<Rightarrow> ret None
         | Some recordID \<Rightarrow>
             bind (outcome_of (easydns_splitFqdn e fqdn)) (\<lambda>(_, apiDomain).
               bind (easydns_deleteRecord e d apiDomain (cell_str recordID)) (\<lambda>r.
                 bind (map_delete (ez_recordIDs d) key) (\<lambda>_.
                   case r of Inl err \<Rightarrow> ret (Some (Wrap ''easydns: '' err)) | Inr _ \<Rightarrow> ret None)))))"

definition easydns_Timeout :: "easydns \<Rightarrow> int \<times> int" where
  "easydns_Timeout d = (hcf_PropagationTimeout (ez_config d), hcf_PollingInterval (ez_config d))"

definition easydns_Sequential :: "easydns \<Rightarrow> int" where
  "easydns_Sequential d = ez_SequenceInterval (ez_config d)"

definition easydns_provider :: "env \<Rightarrow> easydns \<Rightarrow> provider" where
  "easydns_provider e d =
     \<lparr>prov_Present = easydns_Present e d, prov_CleanUp = easydns_CleanUp e d,
      prov_Timeout = Some (easydns_Timeout d), prov_Sequential = Some (easydns_Sequential d)\<rparr>"

section \<open>The provider keeps its contract\<close>

lemma ez_request_body:
  "ez_request e d method path requestMsg = Return (Inr req) \<Longrightarrow>
   req_Body req = (case map_option (Encode e) requestMsg of None \<Rightarrow> NoBody | Some b \<Rightarrow> RawBody b) \<and> req_Method req = method"
  unfolding ez_request_def by (erule makeRequest_body) simp_all

context plain_invariant
begin

lemma always_easydns_doRequest [always_intros]: "always R (easydns_doRequest e d method path requestMsg dec nothing)"
  unfolding easydns_doRequest_def Let_def
  by (intro always_check_outcome always_intros always_plain_http)
    (auto dest!: ez_request_body split: option.splits)

lemma always_easydns [always_intros]:
  "always R (easydns_addRecord e d domain record)" "always R (easydns_deleteRecord e d domain recordID)"
  unfolding easydns_addRecord_def easydns_deleteRecord_def by (intro always_intros)+

lemma always_easydns_NewDNSProvider: "always R (easydns_NewDNSProvider e)"
  unfolding easydns_NewDNSProvider_def easydns_NewDNSProviderConfig_def by (intro always_intros)

lemma easydns_keeps: "provider_keeps R (easydns_provider e d)"
  unfolding easydns_provider_def
  by (rule provider_keepsI; unfold easydns_Present_def easydns_CleanUp_def Let_def case_prod_unfold; intro always_intros)

end

lemma easydns_addRecord_sent:
  "ezr_Rdata record = v \<Longrightarrow> ensures is_ok (delivered e v (answered below_400)) (easydns_addRecord e d domain record)"
  unfolding easydns_addRecord_def
proof (intro ensures_check_first always_intros growing.always_easydns_doRequest)
  assume v: "ezr_Rdata record = v"
  show "ensures is_ok (delivered e v (answered below_400)) (easydns_doRequest e d ''PUT''
      (path_Join [''/zones/records/add'', domain, ''TXT'']) (Some (ez_zoneRecord_json record)) ez_addRecordResponse_of_json None)"
    unfolding easydns_doRequest_def Let_def
    by (intro ensures_check_outcome ensures_intros always_intros)
      (auto dest!: ez_request_body intro!: carries_json_line simp: ez_zoneRecord_json_def v)
qed

lemma easydns_Present_sent:
  "ensures is_nil (delivered e (record_value e keyAuth) (answered below_400)) (easydns_Present e d domain token keyAuth)"
  unfolding easydns_Present_def Let_def
proof (rule ensures_GetRecord, unfold case_prod_unfold, rule ensures_later)
  fix fqdn x
  show "ensures is_nil (delivered e (record_value e keyAuth) (answered below_400))
     (try_or ''easydns: error adding zone record: ''
       (easydns_addRecord e d (snd x) (zero_ez_zoneRecord\<lparr>ezr_Domain := snd x, ezr_Host := fst x, ezr_Type := ''TXT'',
         ezr_Rdata := record_value e keyAuth, ezr_TTL := show_int (hcf_TTL (ez_config d)), ezr_Prio := ''0''\<rparr>))
       (\<lambda>recordID. bind (map_set (ez_recordIDs d) (easydns_getMapKey fqdn (record_value e keyAuth)) (StrCell recordID))
         (\<lambda>_. ret None)))"
    by (intro ensures_try_first [OF easydns_addRecord_sent] always_intros) simp
qed (intro always_intros)

interpretation easydns: hosting e "easydns_provider e d" "answered below_400" for e d
  by (rule hostingI [OF outsider.easydns_keeps]) (simp add: easydns_Present_sent easydns_provider_def)

end
