(* ===== verification/Xml.thy ===== *)
theory Xml
  imports Hosting
begin

text \<open>
  What the providers use of \<^verbatim>\<open>encoding/xml\<close>: the text of a structure, and the fields of a structure in a parsed
  document.  Parsing a text is a parameter.
\<close>

section \<open>Printing\<close>

datatype xml_doc = Node string "(string \<times> string) list" "xml_doc list" | Txt string

text \<open>A character that XML does not allow becomes the replacement character; bytes above 127 are kept.\<close>

definition xml_escape_char :: "char \<Rightarrow> string" where
  "xml_escape_char c =
     (let n = of_char c :: nat in
      if n = 0x22 then ''&#34;'' else if n = 0x27 then ''&#39;'' else if n = 0x26 then ''&amp;''
      else if n = 0x3C then ''&lt;'' else if n = 0x3E then ''&gt;''
      else if n = 9 then ''&#x9;'' else if n = 10 then ''&#xA;'' else if n = 13 then ''&#xD;''
      else if n < 0x20 then [CHR 0xEF, CHR 0xBF, CHR 0xBD] else [c])"

definition xml_escape :: "string \<Rightarrow> string" where
  "xml_escape s = concat (map xml_escape_char s)"

definition xml_start :: "string \<Rightarrow> (string \<times> string) list \<Rightarrow> string" where
  "xml_start n as =
     ''<'' @ n @ concat (map (\<lambda>(k, v). '' '' @ k @ ''='' @ [CHR 0x22] @ xml_escape v @ [CHR 0x22]) as) @ ''>''"

abbreviation xml_end :: "string \<Rightarrow> string" where
  "xml_end n \<equiv> ''</'' @ n @ ''>''"

text \<open>\<^verbatim>\<open>xml.Marshal\<close>\<close>

fun xml_Marshal :: "xml_doc \<Rightarrow> string" where
  "xml_Marshal (Txt s) = xml_escape s"
| "xml_Marshal (Node n as cs) = xml_start n as @ concat (map xml_Marshal cs) @ xml_end n"

definition is_node :: "xml_doc \<Rightarrow> bool" where
  "is_node d \<longleftrightarrow> (case d of Node _ _ _ \<Rightarrow> True | Txt _ \<Rightarrow> False)"

text \<open>\<^verbatim>\<open>xml.MarshalIndent(v, "", "  ")\<close>: an element with elements in it is spread over lines.\<close>

definition xml_line :: "nat \<Rightarrow> string" where
  "xml_line depth = [CHR 0x0A] @ replicate (2 * depth) (CHR '' '')"

fun xml_indented :: "nat \<Rightarrow> xml_doc \<Rightarrow> string" where
  "xml_indented depth (Txt s) = xml_escape s"
| "xml_indented depth (Node n as cs) =
     xml_start n as
     @ (if list_ex is_node cs
        then concat (map (\<lambda>c. xml_line (Suc depth) @ xml_indented (Suc depth) c) cs) @ xml_line depth
        else concat (map (xml_indented depth) cs))
     @ xml_end n"

abbreviation xml_MarshalIndent :: "xml_doc \<Rightarrow> string" where
  "xml_MarshalIndent \<equiv> xml_indented 0"

fun xml_texts :: "xml_doc \<Rightarrow> string list" where
  "xml_texts (Txt s) = [s]"
| "xml_texts (Node n as cs) = concat (map xml_texts cs)"

lemma concat_part: "x \<in> set xs \<Longrightarrow> f x = a @ t @ b \<Longrightarrow> \<exists>a b. concat (map f xs) = a @ t @ b"
proof -
  assume "x \<in> set xs" and f: "f x = a @ t @ b"
  then obtain ys zs where "xs = ys @ x # zs" by (meson split_list)
  with f show ?thesis
    by (intro exI [of _ "concat (map f ys) @ a"] exI [of _ "b @ concat (map f zs)"]) simp
qed

lemma part_within: "\<exists>a b. m = a @ t @ b \<Longrightarrow> \<exists>a b. l @ m @ r = a @ t @ b"
  by (metis append.assoc)

lemma xml_Marshal_texts: "s \<in> set (xml_texts d) \<Longrightarrow> \<exists>a b. xml_Marshal d = a @ xml_escape s @ b"
proof (induction d)
  case (Node n as cs)
  then obtain c a b where "c \<in> set cs" "xml_Marshal c = a @ xml_escape s @ b" by fastforce
  from concat_part [where f = xml_Marshal, OF this] show ?case
    unfolding xml_Marshal.simps by (rule part_within)
qed (auto intro: exI [of _ "[]"])

lemma xml_indented_texts: "s \<in> set (xml_texts d) \<Longrightarrow> \<exists>a b. xml_indented depth d = a @ xml_escape s @ b"
proof (induction d arbitrary: depth)
  case (Node n as cs)
  then obtain c where c: "c \<in> set cs" and part: "\<And>depth. \<exists>a b. xml_indented depth c = a @ xml_escape s @ b" by fastforce
  have plain: "\<exists>a b. concat (map (xml_indented depth) cs) = a @ xml_escape s @ b" 
    using concat_part [where f = "xml_indented depth", OF c] part by blast
  obtain a b where "xml_indented (Suc depth) c = a @ xml_escape s @ b" using part by blast
  then have "xml_line (Suc depth) @ xml_indented (Suc depth) c = (xml_line (Suc depth) @ a) @ xml_escape s @ b" by simp
  from concat_part [where f = "\<lambda>c. xml_line (Suc depth) @ xml_indented (Suc depth) c", OF c this]
  have "\<exists>a b. concat (map (\<lambda>c. xml_line (Suc depth) @ xml_indented (Suc depth) c) cs) = a @ xml_escape s @ b" .
  then have spread: "\<exists>a b. concat (map (\<lambda>c. xml_line (Suc depth) @ xml_indented (Suc depth) c) cs) @ xml_line depth = a @ xml_escape s @ b"
    by (metis append.assoc)
  show ?case
    unfolding xml_indented.simps by (rule part_within) (use plain spread in simp)
qed (auto intro: exI [of _ "[]"])

lemma xml_escape_base64: "list_all is_base64 v \<Longrightarrow> xml_escape v = v"
proof (induction v)
  case (Cons c v)
  have "xml_escape_char c = [c]"
    using Cons.prems by (auto simp: is_base64_def is_alnum_def xml_escape_char_def Let_def)
  with Cons show ?case by (simp add: xml_escape_def)
qed (simp add: xml_escape_def)

lemmas xml_escape_record_value [simp] = xml_escape_base64 [OF record_value_base64]

section \<open>Reading\<close>

text \<open>The elements at a path below an element, in the order of the document.\<close>

fun xml_at :: "string list \<Rightarrow> xml \<Rightarrow> xml list" where
  "xml_at [] x = [x]"
| "xml_at (n # ns) (Element m as inner cs) =
     concat (map (xml_at ns) (filter (\<lambda>c. case c of Element k _ _ _ \<Rightarrow> k = n | CharData _ \<Rightarrow> False) cs))"
| "xml_at (n # ns) (CharData s) = []"

text \<open>The text of an element: what stands directly in it.\<close>

definition xml_text :: "xml \<Rightarrow> string" where
  "xml_text x =
     (case x of
        Element _ _ _ cs \<Rightarrow> concat (map (\<lambda>c. case c of CharData s \<Rightarrow> s | Element _ _ _ _ \<Rightarrow> []) cs)
      | CharData s \<Rightarrow> s)"

text \<open>A field of type string: the text of the last element at its path.\<close>

definition xml_string :: "string list \<Rightarrow> xml \<Rightarrow> string" where
  "xml_string path x = (case rev (xml_at path x) of [] \<Rightarrow> [] | y # _ \<Rightarrow> xml_text y)"

definition xml_attr :: "string \<Rightarrow> xml \<Rightarrow> string" where
  "xml_attr k x =
     (case x of
        Element _ as _ _ \<Rightarrow> (case map_of as k of None \<Rightarrow> [] | Some v \<Rightarrow> v)
      | CharData _ \<Rightarrow> [])"

definition ParseInt_error :: "string \<Rightarrow> goerror" where
  "ParseInt_error s =
     (let digits = (if s \<noteq> [] \<and> (hd s = CHR ''+'' \<or> hd s = CHR ''-'') then tl s else s) in
      Err (''strconv.ParseInt: parsing '' @ Quote s
        @ (if digits \<noteq> [] \<and> list_all is_digit digits then '': value out of range'' else '': invalid syntax'')))"

text \<open>The text of a number; an empty one is zero.\<close>

definition xml_number :: "string \<Rightarrow> goerror + int" where
  "xml_number s =
     (if s = [] then Inr 0
      else (case Atoi (TrimSpace s) of None \<Rightarrow> Inl (ParseInt_error (TrimSpace s)) | Some i \<Rightarrow> Inr i))"

text \<open>A field of type \<^verbatim>\<open>int\<close>: every element at the path is read, the last one stays.\<close>

definition xml_int :: "string list \<Rightarrow> xml \<Rightarrow> goerror + int" where
  "xml_int path x =
     map_sum (\<lambda>err. err) (\<lambda>is. if is = [] then 0 else last is) (map_res (\<lambda>y. xml_number (xml_text y)) (xml_at path x))"

text \<open>A field of type \<^verbatim>\<open>bool\<close>, likewise.\<close>

definition xml_truth :: "string \<Rightarrow> goerror + bool" where
  "xml_truth s =
     (if s = [] then Inr False
      else (case ParseBool (TrimSpace s) of
          None \<Rightarrow> Inl (Err (''strconv.ParseBool: parsing '' @ Quote (TrimSpace s) @ '': invalid syntax''))
        | Some b \<Rightarrow> Inr b))"

definition xml_bool :: "string list \<Rightarrow> xml \<Rightarrow> goerror + bool" where
  "xml_bool path x =
     map_sum (\<lambda>err. err) (\<lambda>bs. bs \<noteq> [] \<and> last bs) (map_res (\<lambda>y. xml_truth (xml_text y)) (xml_at path x))"

text \<open>The root element has the name that the structure asks for.\<close>

definition xml_root :: "string \<Rightarrow> xml \<Rightarrow> goerror + xml" where
  "xml_root n x =
     (case x of
        Element m _ _ _ \<Rightarrow>
          if m = n then Inr x else Inl (Err (''expected element type <'' @ n @ ''> but have <'' @ m @ ''>''))
      | CharData _ \<Rightarrow> Inl (Err ''EOF''))"

text \<open>\<^verbatim>\<open>xml.Unmarshal\<close>\<close>

definition xml_Unmarshal :: "env \<Rightarrow> (xml \<Rightarrow> goerror + 'a) \<Rightarrow> string \<Rightarrow> goerror + 'a" where
  "xml_Unmarshal e dec raw = (case xmlParse e raw of Inl err \<Rightarrow> Inl err | Inr x \<Rightarrow> dec x)"

end
