(* ===== verification/Gandi.thy ===== *)
theory Gandi
  imports Xml
begin

text \<open>
  Package \<^verbatim>\<open>providers/dns/gandi\<close>, a client of an XML-RPC service.  The record is put into a copy of the zone, the
  copy takes the place of the zone while the challenge is in progress, and is removed afterwards.
\<close>

definition gandi_defaultBaseURL :: string where
  "gandi_defaultBaseURL = ''https://rpc.gandi.net/xmlrpc/''"

definition gandi_minTTL :: int where
  "gandi_minTTL = 300"

record gandi_config = ttl_config +
  gan_BaseURL :: string
  gan_APIKey :: string

definition gandi_NewDefaultConfig :: "env \<Rightarrow> gandi_config" where
  "gandi_NewDefaultConfig e =
     \<lparr>hcf_PropagationTimeout = GetOrDefaultSecond e ''GANDI_PROPAGATION_TIMEOUT'' (40 * Minute),
      hcf_PollingInterval = GetOrDefaultSecond e ''GANDI_POLLING_INTERVAL'' (60 * Second),
      hcf_HTTPTimeout = GetOrDefaultSecond e ''GANDI_HTTP_TIMEOUT'' (60 * Second),
      hcf_TTL = GetOrDefaultInt e ''GANDI_TTL'' gandi_minTTL, gan_BaseURL = [], gan_APIKey = []\<rparr>"

text \<open>The two maps are those at the addresses.\<close>

record gandi =
  gan_inProgressFQDNs :: nat
  gan_inProgressAuthZones :: nat
  gan_config :: gandi_config

definition gandi_NewDNSProviderConfig :: "gandi_config option \<Rightarrow> (world, goerror + gandi) go" where
  "gandi_NewDNSProviderConfig config =
     (case config of
        None \<Rightarrow> ret (Inl (nil_config ''gandi''))
      | Some c \<Rightarrow>
          if gan_APIKey c = [] then ret (Inl (Err ''gandi: no API Key given''))
          else
            let c' = (if gan_BaseURL c = [] then c\<lparr>gan_BaseURL := gandi_defaultBaseURL\<rparr> else c) in
            bind make_map (\<lambda>fqdns. bind make_map (\<lambda>zones.
              ret (Inr \<lparr>gan_inProgressFQDNs = fqdns, gan_inProgressAuthZones = zones, gan_config = c'\<rparr>))))"

definition gandi_NewDNSProvider :: "env \<Rightarrow> (world, goerror + gandi) go" where
  "gandi_NewDNSProvider e =
     (case env_Get e [''GANDI_API_KEY''] of
        Inl err \<Rightarrow> ret (Inl (Wrap ''gandi: '' err))
      | Inr values \<Rightarrow>
          gandi_NewDNSProviderConfig (Some ((gandi_NewDefaultConfig e)\<lparr>gan_APIKey := env_value values ''GANDI_API_KEY''\<rparr>)))"

section \<open>Calls\<close>

datatype gandi_structMember = structMemberString string string | structMemberInt string int

datatype gandi_param = paramString string | paramInt int | paramStruct "gandi_structMember list"

record gandi_methodCall =
  ganm_MethodName :: string
  ganm_Params :: "gandi_param list"

fun gandi_structMember_xml :: "gandi_structMember \<Rightarrow> xml_doc" where
  "gandi_structMember_xml (structMemberString name v) =
     Node ''member'' [] [Node ''name'' [] [Txt name], Node ''value'' [] [Node ''string'' [] [Txt v]]]"
| "gandi_structMember_xml (structMemberInt name i) =
     Node ''member'' [] [Node ''name'' [] [Txt name], Node ''value'' [] [Node ''int'' [] [Txt (show_int i)]]]"

text \<open>The elements around the members are written when there is a member.\<close>

fun gandi_param_xml :: "gandi_param \<Rightarrow> xml_doc" where
  "gandi_param_xml (paramString v) = Node ''param'' [] [Node ''value'' [] [Node ''string'' [] [Txt v]]]"
| "gandi_param_xml (paramInt i) = Node ''param'' [] [Node ''value'' [] [Node ''int'' [] [Txt (show_int i)]]]"
| "gandi_param_xml (paramStruct ms) =
     Node ''param'' [] (if ms = [] then [] else [Node ''value'' [] [Node ''struct'' [] (map gandi_structMember_xml ms)]])"

text \<open>The name that the type of a parameter has takes precedence over the tag of the field.\<close>

definition gandi_methodCall_xml :: "gandi_methodCall \<Rightarrow> xml_doc" where
  "gandi_methodCall_xml call =
     Node ''methodCall'' [] (Node ''methodName'' [] [Txt (ganm_MethodName call)] # map gandi_param_xml (ganm_Params call))"

record gandi_responseFault =
  ganf_FaultCode :: int
  ganf_FaultString :: string

definition gandi_responseFault_of_xml :: "xml \<Rightarrow> goerror + gandi_responseFault" where
  "gandi_responseFault_of_xml x =
     (let path = [''fault'', ''value'', ''struct'', ''member'', ''value''] in
      map_sum (\<lambda>err. err) (\<lambda>i. \<lparr>ganf_FaultCode = i, ganf_FaultString = xml_string (path @ [''string'']) x\<rparr>)
        (xml_int (path @ [''int'']) x))"

text \<open>Each response is a fault together with its own fields.\<close>

definition gandi_response_of_xml :: "(xml \<Rightarrow> goerror + 'a) \<Rightarrow> xml \<Rightarrow> goerror + gandi_responseFault \<times> 'a" where
  "gandi_response_of_xml dec x =
     (case gandi_responseFault_of_xml x of
        Inl err \<Rightarrow> Inl err
      | Inr fault \<Rightarrow> map_sum (\<lambda>err. err) (Pair fault) (dec x))"

definition gandi_responseStruct_of_xml :: "xml \<Rightarrow> goerror + gandi_responseFault \<times> (string \<times> int) list" where
  "gandi_responseStruct_of_xml = gandi_response_of_xml (\<lambda>x.
     map_res (\<lambda>m. map_sum (\<lambda>err. err) (Pair (xml_string [''name''] m)) (xml_int [''value'', ''int''] m))
       (xml_at [''params'', ''param'', ''value'', ''struct'', ''member''] x))"

definition gandi_responseInt_of_xml :: "xml \<Rightarrow> goerror + gandi_responseFault \<times> int" where
  "gandi_responseInt_of_xml = gandi_response_of_xml (xml_int [''params'', ''param'', ''value'', ''int''])"

definition gandi_responseBool_of_xml :: "xml \<Rightarrow> goerror + gandi_responseFault \<times> bool" where
  "gandi_responseBool_of_xml = gandi_response_of_xml (xml_bool [''params'', ''param'', ''value'', ''boolean''])"

text \<open>\<^verbatim>\<open>rpcError.Error\<close>\<close>

definition gandi_rpcError :: "gandi_responseFault \<Rightarrow> goerror" where
  "gandi_rpcError fault =
     Err (''Gandi DNS: RPC Error: ('' @ show_int (ganf_FaultCode fault) @ '') '' @ ganf_FaultString fault)"

definition gandi_httpPost :: "env \<Rightarrow> string \<Rightarrow> string \<Rightarrow> string \<Rightarrow> (world, goerror + string) go" where
  "gandi_httpPost e url bodyType body =
     check (send_as (Wrap ''HTTP Post Error: '') (Wrap ''HTTP Post Error: '') e ''POST'' url (Some body)
         (Header_Set ''Content-Type'' bodyType)) (\<lambda>resp.
       ret (map_sum (Wrap ''HTTP Post Error: '') (\<lambda>b. b) (resp_Body resp)))"

abbreviation gandi_xml_header :: string where
  "gandi_xml_header \<equiv> ''<?xml version='' @ [CHR 0x22] @ ''1.0'' @ [CHR 0x22] @ ''?>'' @ [CHR 0x0A]"

definition gandi_rpcCall ::
  "env \<Rightarrow> gandi \<Rightarrow> string \<Rightarrow> gandi_param list \<Rightarrow> (xml \<Rightarrow> goerror + gandi_responseFault \<times> 'a) \<Rightarrow> (world, goerror + 'a) go" where
  "gandi_rpcCall e d method params dec =
     check (gandi_httpPost e (gan_BaseURL (gan_config d)) ''text/xml''
         (gandi_xml_header @ xml_MarshalIndent (gandi_methodCall_xml \<lparr>ganm_MethodName = method, ganm_Params = params\<rparr>)))
       (\<lambda>respBody.
         ret (case xml_Unmarshal e dec respBody of
            Inl err \<Rightarrow> Inl (Wrap ''unmarshal error: '' err)
          | Inr (fault, x) \<Rightarrow> if ganf_FaultCode fault \<noteq> 0 then Inl (gandi_rpcError fault) else Inr x))"

text \<open>The loops over the members keep the last number with the name.\<close>

definition gandi_member :: "string \<Rightarrow> (string \<times> int) list \<Rightarrow> int" where
  "gandi_member name members = fold (\<lambda>(n, i) acc. if n = name then i else acc) members 0"

abbreviation gandi_key :: "gandi \<Rightarrow> gandi_param" where
  "gandi_key d \<equiv> paramString (gan_APIKey (gan_config d))"

definition gandi_getZoneID :: "env \<Rightarrow> gandi \<Rightarrow> string \<Rightarrow> (world, goerror + int) go" where
  "gandi_getZoneID e d domain =
     check (gandi_rpcCall e d ''domain.info'' [gandi_key d, paramString domain] gandi_responseStruct_of_xml) (\<lambda>members.
       let zoneID = gandi_member ''zone_id'' members in
       if zoneID = 0 then ret (Inl (Err (''could not determine zone_id for '' @ domain))) else ret (Inr zoneID))"

definition gandi_cloneZone :: "env \<Rightarrow> gandi \<Rightarrow> int \<Rightarrow> string \<Rightarrow> (world, goerror + int) go" where
  "gandi_cloneZone e d zoneID name =
     check (gandi_rpcCall e d ''domain.zone.clone'' [gandi_key d, paramInt zoneID, paramInt 0,
         paramStruct [structMemberString ''name'' name]] gandi_responseStruct_of_xml) (\<lambda>members.
       let newZoneID = gandi_member ''id'' members in
       if newZoneID = 0 then ret (Inl (Err ''could not determine cloned zone_id'')) else ret (Inr newZoneID))"

definition gandi_newZoneVersion :: "env \<Rightarrow> gandi \<Rightarrow> int \<Rightarrow> (world, goerror + int) go" where
  "gandi_newZoneVersion e d zoneID =
     check (gandi_rpcCall e d ''domain.zone.version.new'' [gandi_key d, paramInt zoneID] gandi_responseInt_of_xml) (\<lambda>v.
       if v = 0 then ret (Inl (Err ''could not create new zone version'')) else ret (Inr v))"

definition gandi_addTXTRecord ::
  "env \<Rightarrow> gandi \<Rightarrow> int \<Rightarrow> int \<Rightarrow> string \<Rightarrow> string \<Rightarrow> int \<Rightarrow> (world, goerror + unit) go" where
  "gandi_addTXTRecord e d zoneID version name v ttl =
     check (gandi_rpcCall e d ''domain.zone.record.add'' [gandi_key d, paramInt zoneID, paramInt version,
         paramStruct [structMemberString ''type'' ''TXT'', structMemberString ''name'' name,
           structMemberString ''value'' v, structMemberInt ''ttl'' ttl]] gandi_responseStruct_of_xml) (\<lambda>_. ret (Inr ()))"

definition gandi_setZoneVersion :: "env \<Rightarrow> gandi \<Rightarrow> int \<Rightarrow> int \<Rightarrow> (world, goerror + unit) go" where
  "gandi_setZoneVersion e d zoneID version =
     check (gandi_rpcCall e d ''domain.zone.version.set'' [gandi_key d, paramInt zoneID, paramInt version]
         gandi_responseBool_of_xml) (\<lambda>ok.
       if \<not> ok then ret (Inl (Err ''could not set zone version'')) else ret (Inr ()))"

definition gandi_setZone :: "env \<Rightarrow> gandi \<Rightarrow> string \<Rightarrow> int \<Rightarrow> (world, goerror + unit) go" where
  "gandi_setZone e d domain zoneID =
     check (gandi_rpcCall e d ''domain.zone.set'' [gandi_key d, paramString domain, paramInt zoneID]
         gandi_responseStruct_of_xml) (\<lambda>members.
       if gandi_member ''zone_id'' members \<noteq> zoneID then ret (Inl (Err (''could not set new zone_id for '' @ domain)))
       else ret (Inr ()))"

definition gandi_deleteZone :: "env \<Rightarrow> gandi \<Rightarrow> int \<Rightarrow> (world, goerror + unit) go" where
  "gandi_deleteZone e d zoneID =
     check (gandi_rpcCall e d ''domain.zone.delete'' [gandi_key d, paramInt zoneID] gandi_responseBool_of_xml) (\<lambda>ok.
       if \<not> ok then ret (Inl (Err ''could not delete zone_id'')) else ret (Inr ()))"

section \<open>The provider\<close>

text \<open>\<^verbatim>\<open>inProgressInfo\<close>\<close>

definition gandi_info_cell :: "int \<Rightarrow> int \<Rightarrow> string \<Rightarrow> cell" where
  "gandi_info_cell zoneID newZoneID authZone = StructCell [IntCell zoneID, IntCell newZoneID, StrCell authZone]"

fun gandi_info :: "cell \<Rightarrow> int \<times> int \<times> string" where
  "gandi_info (StructCell [IntCell zoneID, IntCell newZoneID, StrCell authZone]) = (zoneID, newZoneID, authZone)"
| "gandi_info _ = (0, 0, [])"

text \<open>The TTL of the configuration is raised once and for all; only \<^verbatim>\<open>Present\<close> reads it.\<close>

definition gandi_Present :: "env \<Rightarrow> gandi \<Rightarrow> string \<Rightarrow> string \<Rightarrow> string \<Rightarrow> (world, goerror option) go" where
  "gandi_Present e d domain token keyAuth =
     bind (GetRecord e domain keyAuth) (\<lambda>(fqdn, value).
       let ttl = (if hcf_TTL (gan_config d) < gandi_minTTL then gandi_minTTL else hcf_TTL (gan_config d)) in
       try_or ''gandi: findZoneByFqdn failure: '' (FindZoneByFqdn e fqdn) (\<lambda>authZone.
         try_or ''gandi: '' (gandi_getZoneID e d authZone) (\<lambda>zoneID.
           if \<not> HasSuffix (ToLower fqdn) (ToLower (''.'' @ authZone))
           then ret (Some (Err (''gandi: unexpected authZone '' @ authZone @ '' for fqdn '' @ fqdn)))
           else
             let name = take (length fqdn - length (''.'' @ authZone)) fqdn in
             bind (map_get (gan_inProgressAuthZones d) authZone) (\<lambda>busy.
               if busy \<noteq> None then ret (Some (Err (''gandi: challenge already in progress for authZone '' @ authZone)))
               else bind (gets w_now) (\<lambda>now.
                 let newZoneName = UnFqdn authZone @ '' [ACME Challenge '' @ timeFormat e ''02 Jan 06 15:04 -0700'' now @ '']'' in
                 handle (gandi_cloneZone e d zoneID newZoneName) (\<lambda>err. ret (Some err)) (\<lambda>newZoneID.
                   try_or ''gandi: '' (gandi_newZoneVersion e d newZoneID) (\<lambda>newZoneVersion.
                     try_or ''gandi: '' (gandi_addTXTRecord e d newZoneID newZoneVersion name value ttl) (\<lambda>_.
                       try_or ''gandi: '' (gandi_setZoneVersion e d newZoneID newZoneVersion) (\<lambda>_.
                         try_or ''gandi: '' (gandi_setZone e d authZone newZoneID) (\<lambda>_.
                           bind (map_set (gan_inProgressFQDNs d) fqdn (gandi_info_cell zoneID newZoneID authZone)) (\<lambda>_.
                             bind (map_set (gan_inProgressAuthZones d) authZone NilCell) (\<lambda>_. ret None))))))))))))"

definition gandi_CleanUp :: "env \<Rightarrow> gandi \<Rightarrow> string \<Rightarrow> string \<Rightarrow> string \<Rightarrow> (world, goerror option) go" where
  "gandi_CleanUp e d domain token keyAuth =
     bind (GetRecord e domain keyAuth) (\<lambda>(fqdn, _).
       bind (map_get (gan_inProgressFQDNs d) fqdn) (\<lambda>found.
         case found of
           None \<Rightarrow> ret None
         | Some c \<Rightarrow>
             (case gandi_info c of (zoneID, newZoneID, authZone) \<Rightarrow>
                bind (map_delete (gan_inProgressFQDNs d) fqdn) (\<lambda>_.
                  bind (map_delete (gan_inProgressAuthZones d) authZone) (\<lambda>_.
                    try_or ''gandi: '' (gandi_setZone e d authZone zoneID) (\<lambda>_.
                      handle (gandi_deleteZone e d newZoneID) (\<lambda>err. ret (Some err)) (\<lambda>_. ret None)))))))"

definition gandi_Timeout :: "gandi \<Rightarrow> int \<times> int" where
  "gandi_Timeout d = (hcf_PropagationTimeout (gan_config d), hcf_PollingInterval (gan_config d))"

definition gandi_provider :: "env \<Rightarrow> gandi \<Rightarrow> provider" where
  "gandi_provider e d =
     \<lparr>prov_Present = gandi_Present e d, prov_CleanUp = gandi_CleanUp e d,
      prov_Timeout = Some (gandi_Timeout d), prov_Sequential = None\<rparr>"

section \<open>The provider keeps its contract\<close>

context plain_invariant
begin

lemma always_gandi_rpcCall [always_intros]: "always R (gandi_rpcCall e d method params dec)"
  unfolding gandi_rpcCall_def gandi_httpPost_def by (intro always_intros) simp

lemma always_gandi [always_intros]:
  "always R (gandi_getZoneID e d domain)" "always R (gandi_cloneZone e d zoneID name)"
  "always R (gandi_newZoneVersion e d zoneID)" "always R (gandi_addTXTRecord e d zoneID version name v ttl)"
  "always R (gandi_setZoneVersion e d zoneID version)" "always R (gandi_setZone e d domain zoneID)"
  "always R (gandi_deleteZone e d zoneID)"
  unfolding gandi_getZoneID_def gandi_cloneZone_def gandi_newZoneVersion_def gandi_addTXTRecord_def
    gandi_setZoneVersion_def gandi_setZone_def gandi_deleteZone_def Let_def
  by (intro always_intros)+

lemma always_gandi_NewDNSProvider: "always R (gandi_NewDNSProvider e)"
  unfolding gandi_NewDNSProvider_def gandi_NewDNSProviderConfig_def Let_def by (intro always_intros)

lemma gandi_keeps: "provider_keeps R (gandi_provider e d)"
  unfolding gandi_provider_def
  by (rule provider_keepsI; unfold gandi_Present_def gandi_CleanUp_def Let_def) (intro always_intros)+

end

text \<open>The service took a call when its reply can be read and reports no fault; the status is not looked at.\<close>

definition gandi_accepts :: "env \<Rightarrow> http_response \<Rightarrow> bool" where
  "gandi_accepts e resp \<longleftrightarrow>
     (\<exists>body fault. resp_Body resp = Inr body \<and> (\<exists>x. xml_Unmarshal e gandi_responseStruct_of_xml body = Inr (fault, x))
        \<and> ganf_FaultCode fault = 0)"

lemma gandi_httpPost_run:
  assumes "gandi_httpPost e url ty body s = (Return (Inr b), t)"
  obtains req resp where "NewRequest e ''POST'' url (Some body) = Inr req"
    "happened s t (EvHttp (Header_Set ''Content-Type'' ty req) (Inr resp))" "resp_Body resp = Inr b"
  using assms unfolding gandi_httpPost_def send_as_def
  by (auto simp: host_runs run_cases map_sum_Inr_iff dest!: happened_http)

lemma gandi_rpcCall_run:
  assumes "gandi_rpcCall e d method params dec s = (Return (Inr y), t)"
  obtains req resp body fault where "NewRequest e ''POST'' (gan_BaseURL (gan_config d)) (Some (gandi_xml_header
      @ xml_MarshalIndent (gandi_methodCall_xml \<lparr>ganm_MethodName = method, ganm_Params = params\<rparr>))) = Inr req"
    "happened s t (EvHttp (Header_Set ''Content-Type'' ''text/xml'' req) (Inr resp))" "resp_Body resp = Inr body"
    "xml_Unmarshal e dec body = Inr (fault, y)" "ganf_FaultCode fault = 0"
proof -
  obtain body where post: "gandi_httpPost e (gan_BaseURL (gan_config d)) ''text/xml'' (gandi_xml_header
      @ xml_MarshalIndent (gandi_methodCall_xml \<lparr>ganm_MethodName = method, ganm_Params = params\<rparr>)) s = (Return (Inr body), t)"
    and read: "(case xml_Unmarshal e dec body of Inl err \<Rightarrow> Inl (Wrap ''unmarshal error: '' err)
      | Inr (fault, x) \<Rightarrow> if ganf_FaultCode fault \<noteq> 0 then Inl (gandi_rpcError fault) else Inr x) = Inr y"
    using assms unfolding gandi_rpcCall_def by (auto simp: host_runs)
  obtain fault where "xml_Unmarshal e dec body = Inr (fault, y)" "ganf_FaultCode fault = 0"
    using read by (cases "xml_Unmarshal e dec body") (auto split: if_splits)
  with post show thesis by (elim gandi_httpPost_run) (rule that)
qed

text \<open>A text of a parameter stands in the body.\<close>

lemma gandi_rpcCall_sent:
  assumes "txt \<in> set (xml_texts (gandi_methodCall_xml \<lparr>ganm_MethodName = method, ganm_Params = params\<rparr>))"
    and "xml_escape txt = txt"
  shows "ensures is_ok (delivered e txt (answered (gandi_accepts e)))
    (gandi_rpcCall e d method params gandi_responseStruct_of_xml)"
  unfolding ensures_def
proof (intro allI impI)
  fix s x t
  let ?call = "\<lparr>ganm_MethodName = method, ganm_Params = params\<rparr>"
  assume "gandi_rpcCall e d method params gandi_responseStruct_of_xml s = (Return x, t)" and "is_ok x"
  then obtain y where "gandi_rpcCall e d method params gandi_responseStruct_of_xml s = (Return (Inr y), t)"
    by (cases x) auto
  then obtain req resp body fault where req: "NewRequest e ''POST'' (gan_BaseURL (gan_config d))
      (Some (gandi_xml_header @ xml_MarshalIndent (gandi_methodCall_xml ?call))) = Inr req"
    and sent: "happened s t (EvHttp (Header_Set ''Content-Type'' ''text/xml'' req) (Inr resp))"
    and reply: "resp_Body resp = Inr body" "xml_Unmarshal e gandi_responseStruct_of_xml body = Inr (fault, y)"
      "ganf_FaultCode fault = 0"
    by (rule gandi_rpcCall_run)
  obtain a b where "xml_MarshalIndent (gandi_methodCall_xml ?call) = a @ txt @ b"
    using xml_indented_texts [OF assms(1)] assms(2) by metis
  then have "req_Body req = RawBody ((gandi_xml_header @ a) @ txt @ b)" using req by (simp add: NewRequest_Inr)
  then have "carries e txt req" by (rule carries_body)
  moreover have "gandi_accepts e resp" using reply unfolding gandi_accepts_def by blast
  ultimately show "\<exists>ev. happened s t ev \<and> delivered e txt (answered (gandi_accepts e)) ev"
    using sent by (intro exI [of _ "EvHttp (Header_Set ''Content-Type'' ''text/xml'' req) (Inr resp)"]) simp
qed

lemma gandi_addTXTRecord_sent:
  "ensures is_ok (delivered e (record_value e keyAuth) (answered (gandi_accepts e)))
     (gandi_addTXTRecord e d zoneID version name (record_value e keyAuth) ttl)"
  unfolding gandi_addTXTRecord_def
  by (intro ensures_check_first gandi_rpcCall_sent always_intros growing.always_gandi_rpcCall)
    (simp_all add: gandi_methodCall_xml_def)

lemma gandi_Present_sent:
  "ensures is_nil (delivered e (record_value e keyAuth) (answered (gandi_accepts e))) (gandi_Present e d domain token keyAuth)"
  unfolding gandi_Present_def Let_def
  by (intro ensures_try_first [OF gandi_addTXTRecord_sent] ensures_try_later [OF growing.always_gandi(1)]
      ensures_try_later [OF growing.always_gandi(3)] ensures_handle_later [OF growing.always_gandi(2)]
      ensures_later [OF growing.always_maps(2)] ensures_later [OF growth.always_gets] ensures_intros growing.always_gandi always_intros) simp_all

interpretation gandi: hosting e "gandi_provider e d" "answered (gandi_accepts e)" for e d
  by (rule hostingI [OF outsider.gandi_keeps]) (simp add: gandi_Present_sent gandi_provider_def)

end
