(* ===== verification/Hostingde.thy ===== *)
theory Hostingde
  imports Hosting
begin

text \<open>
  Package \<^verbatim>\<open>providers/dns/hostingde\<close>.  A zone that was edited recently is not active for a while; the client
  asks for it again, with the library \<^verbatim>\<open>backoff\<close>, until it is.  Status codes of replies are not looked at,
  only the status in their bodies.
\<close>

definition hostingde_defaultBaseURL :: string where
  "hostingde_defaultBaseURL = ''https://secure.hosting.de/api/dns/v1/json''"

record hostingde_config = ttl_config +
  hde_APIKey :: string
  hde_ZoneName :: string

definition hostingde_NewDefaultConfig :: "env \<Rightarrow> hostingde_config" where
  "hostingde_NewDefaultConfig e =
     \<lparr>hcf_PropagationTimeout = GetOrDefaultSecond e ''HOSTINGDE_PROPAGATION_TIMEOUT'' (2 * Minute),
      hcf_PollingInterval = GetOrDefaultSecond e ''HOSTINGDE_POLLING_INTERVAL'' (2 * Second),
      hcf_HTTPTimeout = GetOrDefaultSecond e ''HOSTINGDE_HTTP_TIMEOUT'' (30 * Second),
      hcf_TTL = GetOrDefaultInt e ''HOSTINGDE_TTL'' (int DefaultTTL), hde_APIKey = [], hde_ZoneName = []\<rparr>"

record hostingde =
  hde_config :: hostingde_config
  hde_recordIDs :: nat

definition hostingde_NewDNSProviderConfig :: "hostingde_config option \<Rightarrow> (world, goerror + hostingde) go" where
  "hostingde_NewDNSProviderConfig config =
     (case config of
        None \<Rightarrow> ret (Inl (nil_config ''hostingde''))
      | Some c \<Rightarrow>
          if hde_APIKey c = [] then ret (Inl (Err ''hostingde: API key missing''))
          else if hde_ZoneName c = [] then ret (Inl (Err ''hostingde: Zone Name missing''))
          else bind make_map (\<lambda>a. ret (Inr \<lparr>hde_config = c, hde_recordIDs = a\<rparr>)))"

definition hostingde_NewDNSProvider :: "env \<Rightarrow> (world, goerror + hostingde) go" where
  "hostingde_NewDNSProvider e =
     (case env_Get e [''HOSTINGDE_API_KEY'', ''HOSTINGDE_ZONE_NAME''] of
        Inl err \<Rightarrow> ret (Inl (Wrap ''hostingde: '' err))
      | Inr values \<Rightarrow>
          hostingde_NewDNSProviderConfig (Some ((hostingde_NewDefaultConfig e)
            \<lparr>hde_APIKey := env_value values ''HOSTINGDE_API_KEY'',
             hde_ZoneName := env_value values ''HOSTINGDE_ZONE_NAME''\<rparr>)))"

section \<open>Messages\<close>

definition hde_texts :: "json \<Rightarrow> goerror + string list" where
  "hde_texts = list_of_json (\<lambda>v. set_str v (\<lambda>s. s) [])"

text \<open>Members of a reply that are read and not used must have the right type.\<close>

definition hde_APIError_of_json :: "json \<Rightarrow> goerror + unit" where
  "hde_APIError_of_json = decode_struct (\<lambda>k v a.
     if k = ''code'' then set_int v (\<lambda>_. a) a
     else if k = ''details'' then set_struct hde_texts v (\<lambda>_. a)
     else if k = ''contextObject'' \<or> k = ''contextPath'' \<or> k = ''text'' \<or> k = ''value'' then set_str v (\<lambda>_. a) a
     else Inr a) ()"

definition hde_Metadata_of_json :: "json \<Rightarrow> goerror + unit" where
  "hde_Metadata_of_json = decode_struct (\<lambda>k v a.
     if k = ''clientTransactionId'' \<or> k = ''serverTransactionId'' then set_str v (\<lambda>_. a) a else Inr a) ()"

text \<open>The common part of a reply: only its status is used.\<close>

definition hde_BaseResponse_member :: "string \<Rightarrow> json \<Rightarrow> string \<Rightarrow> goerror + string" where
  "hde_BaseResponse_member k v status =
     (if k = ''errors'' then set_struct (list_of_json hde_APIError_of_json) v (\<lambda>_. status)
      else if k = ''metadata'' then set_struct hde_Metadata_of_json v (\<lambda>_. status)
      else if k = ''warnings'' then set_struct hde_texts v (\<lambda>_. status)
      else if k = ''status'' then set_str v (\<lambda>s. s) status
      else Inr status)"

record hde_SOAValues =
  hdes_Refresh :: int
  hdes_Retry :: int
  hdes_Expire :: int
  hdes_TTL :: int
  hdes_NegativeTTL :: int

definition hde_SOAValues_of_json :: "json \<Rightarrow> goerror + hde_SOAValues" where
  "hde_SOAValues_of_json = decode_struct (\<lambda>k v s.
     if k = ''refresh'' then set_int v (\<lambda>i. s\<lparr>hdes_Refresh := i\<rparr>) s
     else if k = ''retry'' then set_int v (\<lambda>i. s\<lparr>hdes_Retry := i\<rparr>) s
     else if k = ''expire'' then set_int v (\<lambda>i. s\<lparr>hdes_Expire := i\<rparr>) s
     else if k = ''ttl'' then set_int v (\<lambda>i. s\<lparr>hdes_TTL := i\<rparr>) s
     else if k = ''negativeTtl'' then set_int v (\<lambda>i. s\<lparr>hdes_NegativeTTL := i\<rparr>) s
     else Inr s) \<lparr>hdes_Refresh = 0, hdes_Retry = 0, hdes_Expire = 0, hdes_TTL = 0, hdes_NegativeTTL = 0\<rparr>"

definition hde_SOAValues_json :: "hde_SOAValues \<Rightarrow> json" where
  "hde_SOAValues_json s =
     JObj [(''refresh'', JNum (hdes_Refresh s)), (''retry'', JNum (hdes_Retry s)), (''expire'', JNum (hdes_Expire s)),
       (''ttl'', JNum (hdes_TTL s)), (''negativeTtl'', JNum (hdes_NegativeTTL s))]"

text \<open>A list that is nil and one without elements are written differently: \<open>None\<close> is nil.\<close>

record hde_ZoneConfig =
  hdez_ID :: string
  hdez_AccountID :: string
  hdez_Status :: string
  hdez_Name :: string
  hdez_NameUnicode :: string
  hdez_MasterIP :: string
  hdez_Type :: string
  hdez_EMailAddress :: string
  hdez_ZoneTransferWhitelist :: "string list option"
  hdez_LastChangeDate :: string
  hdez_DNSServerGroupID :: string
  hdez_DNSSecMode :: string
  hdez_SOAValues :: "hde_SOAValues option"
  hdez_TemplateValues :: "json option"

definition zero_hde_ZoneConfig :: hde_ZoneConfig where
  "zero_hde_ZoneConfig = \<lparr>hdez_ID = [], hdez_AccountID = [], hdez_Status = [], hdez_Name = [], hdez_NameUnicode = [],
     hdez_MasterIP = [], hdez_Type = [], hdez_EMailAddress = [], hdez_ZoneTransferWhitelist = None, hdez_LastChangeDate = [],
     hdez_DNSServerGroupID = [], hdez_DNSSecMode = [], hdez_SOAValues = None, hdez_TemplateValues = None\<rparr>"

definition hde_ZoneConfig_of_json :: "json \<Rightarrow> goerror + hde_ZoneConfig" where
  "hde_ZoneConfig_of_json = decode_struct (\<lambda>k v z.
     if k = ''id'' then set_str v (\<lambda>s. z\<lparr>hdez_ID := s\<rparr>) z
     else if k = ''accountId'' then set_str v (\<lambda>s. z\<lparr>hdez_AccountID := s\<rparr>) z
     else if k = ''status'' then set_str v (\<lambda>s. z\<lparr>hdez_Status := s\<rparr>) z
     else if k = ''name'' then set_str v (\<lambda>s. z\<lparr>hdez_Name := s\<rparr>) z
     else if k = ''nameUnicode'' then set_str v (\<lambda>s. z\<lparr>hdez_NameUnicode := s\<rparr>) z
     else if k = ''masterIp'' then set_str v (\<lambda>s. z\<lparr>hdez_MasterIP := s\<rparr>) z
     else if k = ''type'' then set_str v (\<lambda>s. z\<lparr>hdez_Type := s\<rparr>) z
     else if k = ''emailAddress'' then set_str v (\<lambda>s. z\<lparr>hdez_EMailAddress := s\<rparr>) z
     else if k = ''zoneTransferWhitelist'' then set_ptr hde_texts v (\<lambda>l. z\<lparr>hdez_ZoneTransferWhitelist := l\<rparr>)
     else if k = ''lastChangeDate'' then set_str v (\<lambda>s. z\<lparr>hdez_LastChangeDate := s\<rparr>) z
     else if k = ''dnsServerGroupId'' then set_str v (\<lambda>s. z\<lparr>hdez_DNSServerGroupID := s\<rparr>) z
     else if k = ''dnsSecMode'' then set_str v (\<lambda>s. z\<lparr>hdez_DNSSecMode := s\<rparr>) z
     else if k = ''soaValues'' then set_ptr hde_SOAValues_of_json v (\<lambda>s. z\<lparr>hdez_SOAValues := s\<rparr>)
     else if k = ''templateValues'' then Inr (z\<lparr>hdez_TemplateValues := Some v\<rparr>)
     else Inr z) zero_hde_ZoneConfig"

definition hde_ZoneConfig_json :: "hde_ZoneConfig \<Rightarrow> json" where
  "hde_ZoneConfig_json z =
     JObj ([(''id'', JStr (hdez_ID z)), (''accountId'', JStr (hdez_AccountID z)), (''status'', JStr (hdez_Status z)),
       (''name'', JStr (hdez_Name z)), (''nameUnicode'', JStr (hdez_NameUnicode z)), (''masterIp'', JStr (hdez_MasterIP z)),
       (''type'', JStr (hdez_Type z)), (''emailAddress'', JStr (hdez_EMailAddress z)),
       (''zoneTransferWhitelist'', (case hdez_ZoneTransferWhitelist z of None \<Rightarrow> JNull | Some l \<Rightarrow> JArr (map JStr l))),
       (''lastChangeDate'', JStr (hdez_LastChangeDate z)), (''dnsServerGroupId'', JStr (hdez_DNSServerGroupID z)),
       (''dnsSecMode'', JStr (hdez_DNSSecMode z))]
       @ (case hdez_SOAValues z of None \<Rightarrow> [] | Some s \<Rightarrow> [(''soaValues'', hde_SOAValues_json s)])
       @ (case hdez_TemplateValues z of None \<Rightarrow> [] | Some j \<Rightarrow> [(''templateValues'', j)]))"

record hde_DNSRecord =
  hder_ID :: string
  hder_ZoneID :: string
  hder_RecordTemplateID :: string
  hder_Name :: string
  hder_Type :: string
  hder_Content :: string
  hder_TTL :: int
  hder_Priority :: int
  hder_LastChangeDate :: string

definition zero_hde_DNSRecord :: hde_DNSRecord where
  "zero_hde_DNSRecord = \<lparr>hder_ID = [], hder_ZoneID = [], hder_RecordTemplateID = [], hder_Name = [], hder_Type = [],
     hder_Content = [], hder_TTL = 0, hder_Priority = 0, hder_LastChangeDate = []\<rparr>"

definition hde_DNSRecord_of_json :: "json \<Rightarrow> goerror + hde_DNSRecord" where
  "hde_DNSRecord_of_json = decode_struct (\<lambda>k v r.
     if k = ''id'' then set_str v (\<lambda>s. r\<lparr>hder_ID := s\<rparr>) r
     else if k = ''zoneId'' then set_str v (\<lambda>s. r\<lparr>hder_ZoneID := s\<rparr>) r
     else if k = ''recordTemplateId'' then set_str v (\<lambda>s. r\<lparr>hder_RecordTemplateID := s\<rparr>) r
     else if k = ''name'' then set_str v (\<lambda>s. r\<lparr>hder_Name := s\<rparr>) r
     else if k = ''type'' then set_str v (\<lambda>s. r\<lparr>hder_Type := s\<rparr>) r
     else if k = ''content'' then set_str v (\<lambda>s. r\<lparr>hder_Content := s\<rparr>) r
     else if k = ''ttl'' then set_int v (\<lambda>i. r\<lparr>hder_TTL := i\<rparr>) r
     else if k = ''priority'' then set_int v (\<lambda>i. r\<lparr>hder_Priority := i\<rparr>) r
     else if k = ''lastChangeDate'' then set_str v (\<lambda>s. r\<lparr>hder_LastChangeDate := s\<rparr>) r
     else Inr r) zero_hde_DNSRecord"

definition hde_DNSRecord_json :: "hde_DNSRecord \<Rightarrow> json" where
  "hde_DNSRecord_json r =
     JObj (omit_str ''id'' (hder_ID r) @ omit_str ''zoneId'' (hder_ZoneID r)
       @ omit_str ''recordTemplateId'' (hder_RecordTemplateID r) @ omit_str ''name'' (hder_Name r)
       @ omit_str ''type'' (hder_Type r) @ omit_str ''content'' (hder_Content r) @ omit_int ''ttl'' (hder_TTL r)
       @ omit_int ''priority'' (hder_Priority r) @ omit_str ''lastChangeDate'' (hder_LastChangeDate r))"

text \<open>A slice that was never made is written as \<^verbatim>\<open>null\<close>.\<close>

definition hde_records_json :: "hde_DNSRecord list \<Rightarrow> json" where
  "hde_records_json rs = (if rs = [] then JNull else JArr (map hde_DNSRecord_json rs))"

definition hde_ZoneUpdateRequest_json :: "string \<Rightarrow> hde_ZoneConfig \<Rightarrow> hde_DNSRecord list \<Rightarrow> hde_DNSRecord list \<Rightarrow> json" where
  "hde_ZoneUpdateRequest_json authToken zone recordsToAdd recordsToDelete =
     JObj [(''authToken'', JStr authToken), (''zoneConfig'', hde_ZoneConfig_json zone),
       (''recordsToAdd'', hde_records_json recordsToAdd), (''recordsToDelete'', hde_records_json recordsToDelete)]"

text \<open>The records of a zone; its configuration is read and not used.\<close>

definition hde_Zone_of_json :: "hde_DNSRecord list \<Rightarrow> json \<Rightarrow> goerror + hde_DNSRecord list" where
  "hde_Zone_of_json = decode_struct (\<lambda>k v rs.
     if k = ''records'' then set_struct (list_of_json hde_DNSRecord_of_json) v (\<lambda>x. x)
     else if k = ''zoneConfig'' then set_struct hde_ZoneConfig_of_json v (\<lambda>_. rs)
     else Inr rs)"

definition hde_ZoneUpdateResponse_of_json :: "json \<Rightarrow> goerror + string \<times> hde_DNSRecord list" where
  "hde_ZoneUpdateResponse_of_json = decode_struct (\<lambda>k v (status, rs).
     if k = ''response'' then set_struct (hde_Zone_of_json rs) v (\<lambda>x. (status, x))
     else map_sum (\<lambda>x. x) (\<lambda>s. (s, rs)) (hde_BaseResponse_member k v status)) ([], [])"

text \<open>The request for the configuration of the zone with a name.\<close>

definition hde_ZoneConfigsFindRequest_json :: "string \<Rightarrow> string \<Rightarrow> json" where
  "hde_ZoneConfigsFindRequest_json authToken zoneName =
     JObj [(''authToken'', JStr authToken),
       (''filter'', JObj [(''field'', JStr ''zoneName''), (''value'', JStr zoneName)]),
       (''limit'', JNum 1), (''page'', JNum 1)]"

definition hde_found_of_json :: "hde_ZoneConfig list \<Rightarrow> json \<Rightarrow> goerror + hde_ZoneConfig list" where
  "hde_found_of_json = decode_struct (\<lambda>k v zs.
     if k = ''limit'' \<or> k = ''page'' \<or> k = ''totalEntries'' \<or> k = ''totalPages'' then set_int v (\<lambda>_. zs) zs
     else if k = ''type'' then set_str v (\<lambda>_. zs) zs
     else if k = ''data'' then set_struct (list_of_json hde_ZoneConfig_of_json) v (\<lambda>x. x)
     else Inr zs)"

definition hde_ZoneConfigsFindResponse_of_json :: "json \<Rightarrow> goerror + string \<times> hde_ZoneConfig list" where
  "hde_ZoneConfigsFindResponse_of_json = decode_struct (\<lambda>k v (status, zs).
     if k = ''response'' then set_struct (hde_found_of_json zs) v (\<lambda>x. (status, x))
     else map_sum (\<lambda>x. x) (\<lambda>s. (s, zs)) (hde_BaseResponse_member k v status)) ([], [])"

section \<open>The client\<close>

definition hostingde_toUnreadableBodyMessage :: "string \<Rightarrow> string \<Rightarrow> string" where
  "hostingde_toUnreadableBodyMessage uri rawBody =
     ''the request '' @ uri @ '' sent a response with a body which is an invalid format: '' @ Quote rawBody"

text \<open>
  The body that was sent back, and what it is decoded to.  A body that cannot be read to the end is quoted
  up to there; that part is taken to be empty.
\<close>

definition hostingde_post ::
  "env \<Rightarrow> string \<Rightarrow> json \<Rightarrow> (json \<Rightarrow> goerror + 'a) \<Rightarrow> (world, goerror + http_response \<times> string \<times> 'a) go" where
  "hostingde_post e uri request dec =
     check (send_as (\<lambda>err. err) (Wrap ''error querying API: '') e ''POST'' uri (Some (jsonPrint e request)) (\<lambda>req. req)) (\<lambda>resp.
       case resp_Body resp of
         Inl _ \<Rightarrow> ret (Inl (Err (hostingde_toUnreadableBodyMessage uri [])))
       | Inr content \<Rightarrow>
           (case Unmarshal e dec content of
              Inl err \<Rightarrow> ret (Inl (err_then err ('': '' @ hostingde_toUnreadableBodyMessage uri content)))
            | Inr x \<Rightarrow> ret (Inr (resp, content, x))))"

definition hde_status_ok :: "string \<Rightarrow> bool" where
  "hde_status_ok status \<longleftrightarrow> status = ''success'' \<or> status = ''pending''"

text \<open>An empty list is an error whose text wraps the error nil.\<close>

definition hostingde_listZoneConfigs ::
  "env \<Rightarrow> json \<Rightarrow> (world, goerror + http_response \<times> hde_ZoneConfig list) go" where
  "hostingde_listZoneConfigs e findRequest =
     (let uri = hostingde_defaultBaseURL @ ''/zoneConfigsFind'' in
      check (hostingde_post e uri findRequest hde_ZoneConfigsFindResponse_of_json) (\<lambda>(resp, raw, status, data).
        if data = [] then ret (Inl (Err (''%!w(<nil>): '' @ hostingde_toUnreadableBodyMessage uri raw)))
        else if \<not> hde_status_ok status then ret (Inl (Err (hostingde_toUnreadableBodyMessage uri raw)))
        else ret (Inr (resp, data))))"

definition hostingde_updateZone :: "env \<Rightarrow> json \<Rightarrow> (world, goerror + hde_DNSRecord list) go" where
  "hostingde_updateZone e updateRequest =
     (let uri = hostingde_defaultBaseURL @ ''/zoneUpdate'' in
      check (hostingde_post e uri updateRequest hde_ZoneUpdateResponse_of_json) (\<lambda>(_, raw, status, records).
        if \<not> hde_status_ok status then ret (Inl (Err (hostingde_toUnreadableBodyMessage uri raw)))
        else ret (Inr records)))"

text \<open>
  One attempt to get the zone: any error of the request cancels the retries, a zone that is not active does
  not.  The reply of the successful attempt holds the zone that the closure stores.
\<close>

definition hde_attempt :: "env \<Rightarrow> json \<Rightarrow> (world, attempt) go" where
  "hde_attempt e findRequest =
     handle (hostingde_listZoneConfigs e findRequest) (\<lambda>err. ret (Some err, True, None)) (\<lambda>(resp, data).
       if hdez_Status (hd data) \<noteq> ''active''
       then ret (Some (Err (''unexpected status: '' @ Quote (hdez_Status (hd data)))), False, None)
       else ret (None, False, Some (resp, Some (hde_ZoneConfig_json (hd data)))))"

definition hde_backoff :: backoff where
  "hde_backoff = \<lparr>bo_InitialInterval = 3 * Second, bo_MaxInterval = 30 * Second, bo_MaxElapsedTime = 300 * Second\<rparr>"

definition hostingde_getZone :: "env \<Rightarrow> json \<Rightarrow> (world, goerror + hde_ZoneConfig) go" where
  "hostingde_getZone e findRequest =
     bind (retry e hde_backoff (hde_attempt e findRequest)) (\<lambda>(err, reply).
       case err of
         Some er \<Rightarrow> ret (Inl er)
       | None \<Rightarrow>
           (case reply of
              Some (_, Some j) \<Rightarrow> ret (hde_ZoneConfig_of_json j)
            | _ \<Rightarrow> panic nil_pointer))"

text \<open>
  The zone that the closure stores is the one that was decoded: its numbers fit into 64 bits, hence passing it
  on as JSON loses nothing.
\<close>

definition hde_soa_fits :: "hde_SOAValues \<Rightarrow> bool" where
  "hde_soa_fits s \<longleftrightarrow> list_all in_i64 [hdes_Refresh s, hdes_Retry s, hdes_Expire s, hdes_TTL s, hdes_NegativeTTL s]"

lemma hde_soa_decoded: "hde_SOAValues_of_json j = Inr s \<Longrightarrow> hde_soa_fits s"
  unfolding hde_SOAValues_of_json_def
  by (erule decode_struct_invariant) (auto simp: hde_soa_fits_def set_int_def in_i64_def split: if_splits json.splits)

lemma hde_zone_decoded: "hde_ZoneConfig_of_json j = Inr z \<Longrightarrow> pred_option hde_soa_fits (hdez_SOAValues z)"
  unfolding hde_ZoneConfig_of_json_def
  by (erule decode_struct_invariant)
    (auto simp: zero_hde_ZoneConfig_def set_str_def set_ptr_def hde_soa_decoded split: if_splits json.splits sum.splits)

lemma hde_ZoneConfig_back:
  assumes "pred_option hde_soa_fits (hdez_SOAValues z)"
  shows "hde_ZoneConfig_of_json (hde_ZoneConfig_json z) = Inr z"
proof -
  have texts: "hde_texts (JArr (map JStr l)) = Inr l" for l
    by (simp add: hde_texts_def list_of_json_def set_list_def set_str_def map_res_map)
  have soa: "hde_SOAValues_of_json (hde_SOAValues_json s) = Inr s" if "hde_soa_fits s" for s
    using that by (simp add: hde_SOAValues_of_json_def hde_SOAValues_json_def decode_struct_def set_int_def hde_soa_fits_def)
  from assms show ?thesis
    by (cases "hdez_ZoneTransferWhitelist z"; cases "hdez_SOAValues z"; cases "hdez_TemplateValues z")
      (simp_all add: hde_ZoneConfig_of_json_def hde_ZoneConfig_json_def decode_struct_def zero_hde_ZoneConfig_def
        texts soa [unfolded hde_SOAValues_json_def] set_ptr_def set_str_def hde_SOAValues_json_def)
qed

section \<open>The provider\<close>

text \<open>The zone of the configuration, under the name of the configuration.\<close>

definition hde_zone :: "env \<Rightarrow> hostingde \<Rightarrow> (world, goerror + hde_ZoneConfig) go" where
  "hde_zone e d =
     check (hostingde_getZone e (hde_ZoneConfigsFindRequest_json (hde_APIKey (hde_config d)) (hde_ZoneName (hde_config d))))
       (\<lambda>zone. ret (Inr (zone\<lparr>hdez_Name := hde_ZoneName (hde_config d)\<rparr>)))"

text \<open>The identifiers that are stored, one after the other; the last one stays.\<close>

fun hde_store :: "hostingde \<Rightarrow> string \<Rightarrow> string \<Rightarrow> hde_DNSRecord list \<Rightarrow> (world, unit) go" where
  "hde_store d fqdn value [] = ret ()"
| "hde_store d fqdn value (r # rs) =
     bind (if hder_Name r = UnFqdn fqdn \<and> hder_Content r = [CHR 0x22] @ value @ [CHR 0x22]
           then map_set (hde_recordIDs d) fqdn (StrCell (hder_ID r)) else ret ()) (\<lambda>_. hde_store d fqdn value rs)"

definition hostingde_Present :: "env \<Rightarrow> hostingde \<Rightarrow> string \<Rightarrow> string \<Rightarrow> string \<Rightarrow> (world, goerror option) go" where
  "hostingde_Present e d domain token keyAuth =
     bind (GetRecord e domain keyAuth) (\<lambda>(fqdn, value).
       try_or ''hostingde: '' (hde_zone e d) (\<lambda>zone.
         let rec = zero_hde_DNSRecord\<lparr>hder_Type := ''TXT'', hder_Name := UnFqdn fqdn, hder_Content := value,
               hder_TTL := hcf_TTL (hde_config d)\<rparr> in
         try_or ''hostingde: '' (hostingde_updateZone e
             (hde_ZoneUpdateRequest_json (hde_APIKey (hde_config d)) zone [rec] [])) (\<lambda>records.
           bind (hde_store d fqdn value records) (\<lambda>_.
             bind (str_field (hde_recordIDs d) fqdn) (\<lambda>i.
               if i = [] then ret (Some (Err (''hostingde: error getting ID of just created record, for domain '' @ domain)))
               else ret None)))))"

definition hostingde_CleanUp :: "env \<Rightarrow> hostingde \<Rightarrow> string \<Rightarrow> string \<Rightarrow> string \<Rightarrow> (world, goerror option) go" where
  "hostingde_CleanUp e d domain token keyAuth =
     bind (GetRecord e domain keyAuth) (\<lambda>(fqdn, value).
       let rec = zero_hde_DNSRecord\<lparr>hder_Type := ''TXT'', hder_Name := UnFqdn fqdn,
             hder_Content := [CHR 0x22] @ value @ [CHR 0x22]\<rparr> in
       try_or ''hostingde: '' (hde_zone e d) (\<lambda>zone.
         bind (map_delete (hde_recordIDs d) fqdn) (\<lambda>_.
           try_or ''hostingde: '' (hostingde_updateZone e
             (hde_ZoneUpdateRequest_json (hde_APIKey (hde_config d)) zone [] [rec])) (\<lambda>_. ret None))))"

definition hostingde_Timeout :: "hostingde \<Rightarrow> int \<times> int" where
  "hostingde_Timeout d = (hcf_PropagationTimeout (hde_config d), hcf_PollingInterval (hde_config d))"

definition hostingde_provider :: "env \<Rightarrow> hostingde \<Rightarrow> provider" where
  "hostingde_provider e d =
     \<lparr>prov_Present = hostingde_Present e d, prov_CleanUp = hostingde_CleanUp e d,
      prov_Timeout = Some (hostingde_Timeout d), prov_Sequential = None\<rparr>"

section \<open>The provider keeps its contract\<close>

context plain_invariant
begin

lemma always_hostingde [always_intros]:
  "always R (hostingde_post e uri request dec)" "always R (hostingde_listZoneConfigs e findRequest)"
  "always R (hostingde_updateZone e updateRequest)" "always R (hde_store d fqdn v rs)"
proof -
  show post: "always R (hostingde_post e uri request dec)" for uri request dec
    unfolding hostingde_post_def by (intro always_intros) (rule refl)
  show "always R (hostingde_listZoneConfigs e findRequest)" "always R (hostingde_updateZone e updateRequest)"
    unfolding hostingde_listZoneConfigs_def hostingde_updateZone_def Let_def by (intro always_intros post)+
  show "always R (hde_store d fqdn v rs)"
    by (induction rs; simp only: hde_store.simps; intro always_intros)
qed

lemma always_hde_zone [always_intros]:
  assumes "retry_ok e"
  shows "always R (hde_zone e d)"
proof -
  have "always R (hde_attempt e req)" for req
    unfolding hde_attempt_def by (intro always_intros)
  then have "always R (retry e hde_backoff (hde_attempt e req))" for req
    using assms step_relation_axioms clock_step by (intro always_retry)
  then show ?thesis
    unfolding hde_zone_def hostingde_getZone_def by (intro always_intros)
qed

lemma always_hostingde_NewDNSProvider: "always R (hostingde_NewDNSProvider e)"
  unfolding hostingde_NewDNSProvider_def hostingde_NewDNSProviderConfig_def by (intro always_intros)

lemma hostingde_keeps: "retry_ok e \<Longrightarrow> provider_keeps R (hostingde_provider e d)"
  unfolding hostingde_provider_def
  by (rule provider_keepsI; unfold hostingde_Present_def hostingde_CleanUp_def Let_def; intro always_intros)

end

definition hostingde_accepts :: "env \<Rightarrow> http_response \<Rightarrow> bool" where
  "hostingde_accepts e resp \<longleftrightarrow>
     (\<exists>content status records. resp_Body resp = Inr content
        \<and> Unmarshal e hde_ZoneUpdateResponse_of_json content = Inr (status, records) \<and> hde_status_ok status)"

lemma hostingde_updateZone_sent:
  assumes "v \<noteq> [] \<Longrightarrow> v \<in> set (json_strings j)"
  shows "ensures is_ok (delivered e v (answered (hostingde_accepts e))) (hostingde_updateZone e j)"
  unfolding ensures_def
proof (intro allI impI)
  fix s x t
  assume run: "hostingde_updateZone e j s = (Return x, t)" and ok: "is_ok x"
  let ?req = "\<lparr>req_Method = ''POST'', req_URL = hostingde_defaultBaseURL @ ''/zoneUpdate'', req_Header = [],
    req_Body = RawBody (jsonPrint e j)\<rparr>"
  obtain resp where "happened s t (EvHttp ?req (Inr resp))" "hostingde_accepts e resp"
    using run ok unfolding hostingde_updateZone_def hostingde_post_def hostingde_accepts_def Let_def
    by (auto simp: host_runs run_cases send_as_def NewRequest_Inr dest!: happened_http)
  with assms show "\<exists>ev. happened s t ev \<and> delivered e v (answered (hostingde_accepts e)) ev"
    by (intro exI [of _ "EvHttp ?req (Inr resp)"]) (simp add: carries_json)
qed

lemma hostingde_Present_sent:
  "retry_ok e \<Longrightarrow>
   ensures is_nil (delivered e (record_value e keyAuth) (answered (hostingde_accepts e))) (hostingde_Present e d domain token keyAuth)"
  unfolding hostingde_Present_def try_or_def Let_def
  by (intro ensures_handle_first [OF hostingde_updateZone_sent] ensures_intros ensures_handle_later
      growing.always_hde_zone always_intros)
    (simp_all add: hde_ZoneUpdateRequest_json_def hde_records_json_def hde_DNSRecord_json_def omit_str_def)

lemma hostingde_hosting:
  assumes "retry_ok e"
  shows "hosting e (hostingde_provider e d) (answered (hostingde_accepts e))"
  by (rule hostingI [OF outsider.hostingde_keeps [OF assms]])
    (simp add: hostingde_Present_sent [OF assms] hostingde_provider_def)

text \<open>An instance: the library that repeats a fixed number of times.\<close>

interpretation hostingde: hosting "with_retries n e" "hostingde_provider (with_retries n e) d"
  "answered (hostingde_accepts (with_retries n e))" for n e d
  by (rule hostingde_hosting [OF retry_ok_with_retries])

end
