(* ===== verification/Hyperone.thy ===== *)
theory Hyperone
  imports Hosting
begin

text \<open>
  Package \<^verbatim>\<open>providers/dns/hyperone\<close> with its client.  The credentials are in a passport file; every request carries a
  token that is signed with the key of the passport.  Signing is a parameter.  A file that cannot be read to
  the end counts as one that cannot be opened.
\<close>

definition hyperone_defaultBaseURL :: string where
  "hyperone_defaultBaseURL = ''https://api.hyperone.com/v2''"

definition hyperone_defaultLocationID :: string where
  "hyperone_defaultLocationID = ''pl-waw-1''"

record hyperone_config = ttl_config +
  hy_APIEndpoint :: string
  hy_LocationID :: string
  hy_PassportLocation :: string

definition hyperone_NewDefaultConfig :: "env \<Rightarrow> hyperone_config" where
  "hyperone_NewDefaultConfig e =
     \<lparr>hcf_PropagationTimeout = GetOrDefaultSecond e ''HYPERONE_PROPAGATION_TIMEOUT'' DefaultPropagationTimeout,
      hcf_PollingInterval = GetOrDefaultSecond e ''HYPERONE_POLLING_INTERVAL'' DefaultPollingInterval,
      hcf_HTTPTimeout = GetOrDefaultSecond e ''HYPERONE_HTTP_TIMEOUT'' (30 * Second),
      hcf_TTL = GetOrDefaultInt e ''HYPERONE_TTL'' (int DefaultTTL), hy_APIEndpoint = [], hy_LocationID = [],
      hy_PassportLocation = []\<rparr>"

section \<open>Passport\<close>

record hy_Passport =
  hyp_SubjectID :: string
  hyp_CertificateID :: string
  hyp_Issuer :: string
  hyp_PrivateKey :: string
  hyp_PublicKey :: string

definition hy_Passport_of_json :: "json \<Rightarrow> goerror + hy_Passport" where
  "hy_Passport_of_json = decode_struct (\<lambda>k v p.
     if k = ''subject_id'' then set_str v (\<lambda>s. p\<lparr>hyp_SubjectID := s\<rparr>) p
     else if k = ''certificate_id'' then set_str v (\<lambda>s. p\<lparr>hyp_CertificateID := s\<rparr>) p
     else if k = ''issuer'' then set_str v (\<lambda>s. p\<lparr>hyp_Issuer := s\<rparr>) p
     else if k = ''private_key'' then set_str v (\<lambda>s. p\<lparr>hyp_PrivateKey := s\<rparr>) p
     else if k = ''public_key'' then set_str v (\<lambda>s. p\<lparr>hyp_PublicKey := s\<rparr>) p
     else Inr p) \<lparr>hyp_SubjectID = [], hyp_CertificateID = [], hyp_Issuer = [], hyp_PrivateKey = [], hyp_PublicKey = []\<rparr>"

definition hyperone_validate :: "hy_Passport \<Rightarrow> goerror option" where
  "hyperone_validate p =
     (if hyp_Issuer p = [] then Some (Err ''issuer is empty'')
      else if hyp_CertificateID p = [] then Some (Err ''certificate ID is empty'')
      else if hyp_PrivateKey p = [] then Some (Err ''private key is missing'')
      else if hyp_SubjectID p = [] then Some (Err ''subject is empty'')
      else None)"

definition hyperone_LoadPassportFile :: "env \<Rightarrow> string \<Rightarrow> goerror + hy_Passport" where
  "hyperone_LoadPassportFile e location =
     (case readFile e location of
        Inl err \<Rightarrow> Inl (Wrap ''failed to open passport file: '' err)
      | Inr content \<Rightarrow>
          (case Decode e hy_Passport_of_json (Inr content) of
             Inl err \<Rightarrow> Inl (Wrap ''failed to parse passport file: '' err)
           | Inr passport \<Rightarrow>
               (case hyperone_validate passport of
                  Some err \<Rightarrow> Inl (Wrap ''passport file validation failed: '' err)
                | None \<Rightarrow> Inr passport)))"

text \<open>The first match of the regular expression \<^verbatim>\<open>iam/project/([a-zA-Z0-9]+)\<close>.\<close>

fun hy_find_project :: "string \<Rightarrow> string option" where
  "hy_find_project s =
     (let rest = drop (length ''iam/project/'') s;
          found = takeWhile is_alnum rest in
      if HasPrefix s ''iam/project/'' \<and> found \<noteq> [] then Some found
      else (case s of [] \<Rightarrow> None | _ # t \<Rightarrow> hy_find_project t))"

declare hy_find_project.simps [simp del]

definition hyperone_ExtractProjectID :: "hy_Passport \<Rightarrow> goerror + string" where
  "hyperone_ExtractProjectID p =
     (case hy_find_project (hyp_SubjectID p) of
        None \<Rightarrow> Inl (Err (''failed to extract project ID from subject ID: '' @ hyp_SubjectID p))
      | Some i \<Rightarrow> Inr i)"

section \<open>Tokens\<close>

record hyperone_TokenSigner =
  hyt_PrivateKey :: string
  hyt_KeyID :: string
  hyt_Audience :: string
  hyt_Issuer :: string
  hyt_Subject :: string

text \<open>A text without a PEM block is not checked for.\<close>

definition hyperone_parseRSAKey :: "env \<Rightarrow> string \<Rightarrow> (goerror + private_key) outcome" where
  "hyperone_parseRSAKey e pemString =
     (case fst (pemDecode e pemString) of
        None \<Rightarrow> Panic nil_pointer
      | Some block \<Rightarrow> Return (map_sum (Wrap ''failed to parse private key: '') (\<lambda>k. k) (parsePKCS1 e (pem_Bytes block))))"

definition hyperone_getRSASigner :: "env \<Rightarrow> string \<Rightarrow> string \<Rightarrow> (goerror + private_key) outcome" where
  "hyperone_getRSASigner e privateKey keyID =
     map_outcome (\<lambda>r. case r of
         Inl err \<Rightarrow> Inl err
       | Inr key \<Rightarrow>
           (case jwtNewSigner e key keyID of
              Some err \<Rightarrow> Inl (Wrap ''failed to create JWS RSA256 signer: '' err)
            | None \<Rightarrow> Inr key)) (hyperone_parseRSAKey e privateKey)"

record hy_Payload =
  hyl_IssuedAt :: int
  hyl_Expiry :: int
  hyl_Audience :: string
  hyl_Issuer :: string
  hyl_Subject :: string

definition hy_Payload_json :: "hy_Payload \<Rightarrow> json" where
  "hy_Payload_json p =
     JObj [(''iat'', JNum (hyl_IssuedAt p)), (''exp'', JNum (hyl_Expiry p)), (''aud'', JStr (hyl_Audience p)),
       (''iss'', JStr (hyl_Issuer p)), (''sub'', JStr (hyl_Subject p))]"

definition hyperone_buildToken :: "env \<Rightarrow> private_key \<Rightarrow> string \<Rightarrow> hy_Payload \<Rightarrow> goerror + string" where
  "hyperone_buildToken e key keyID payload =
     map_sum (Wrap ''failed to build JWT: '') (\<lambda>t. t) (jwtSerialize e key keyID (hy_Payload_json payload))"

text \<open>The token is valid for five minutes; \<^verbatim>\<open>Unix\<close> cuts the nanoseconds off.\<close>

definition hyperone_GetJWT :: "env \<Rightarrow> hyperone_TokenSigner \<Rightarrow> int \<Rightarrow> (goerror + string) outcome" where
  "hyperone_GetJWT e input now =
     map_outcome (\<lambda>r. case r of
         Inl err \<Rightarrow> Inl err
       | Inr key \<Rightarrow>
           hyperone_buildToken e key (hyt_KeyID input)
             \<lparr>hyl_IssuedAt = now div Second, hyl_Expiry = (now + 5 * Minute) div Second, hyl_Audience = hyt_Audience input,
              hyl_Issuer = hyt_Issuer input, hyl_Subject = hyt_Subject input\<rparr>)
       (hyperone_getRSASigner e (hyt_PrivateKey input) (hyt_KeyID input))"

record hyperone_client =
  hyc_apiEndpoint :: string
  hyc_locationID :: string
  hyc_projectID :: string
  hyc_passport :: hy_Passport
  hyc_signer :: hyperone_TokenSigner

definition hyperone_NewClient :: "string \<Rightarrow> string \<Rightarrow> hy_Passport option \<Rightarrow> goerror + hyperone_client" where
  "hyperone_NewClient apiEndpoint locationID passport =
     (case passport of
        None \<Rightarrow> Inl (Err ''the passport is missing'')
      | Some p \<Rightarrow>
          (case hyperone_ExtractProjectID p of
             Inl err \<Rightarrow> Inl err
           | Inr projectID \<Rightarrow>
               let baseURL = (if apiEndpoint \<noteq> [] then apiEndpoint else hyperone_defaultBaseURL) in
               Inr \<lparr>hyc_apiEndpoint = baseURL,
                 hyc_locationID = (if locationID = [] then hyperone_defaultLocationID else locationID),
                 hyc_projectID = projectID, hyc_passport = p,
                 hyc_signer = \<lparr>hyt_PrivateKey = hyp_PrivateKey p, hyt_KeyID = hyp_CertificateID p, hyt_Audience = baseURL,
                   hyt_Issuer = hyp_Issuer p, hyt_Subject = hyp_SubjectID p\<rparr>\<rparr>))"

record hyperone =
  hy_client :: hyperone_client
  hy_config :: hyperone_config

definition hyperone_GetDefaultPassportLocation :: "env \<Rightarrow> goerror + string" where
  "hyperone_GetDefaultPassportLocation e =
     (case userHomeDir e of
        Inl err \<Rightarrow> Inl (Wrap ''failed to get user home directory: '' err)
      | Inr homeDir \<Rightarrow> Inr (path_Join [homeDir, ''.h1'', ''passport.json'']))"

text \<open>A missing configuration is not checked for.\<close>

definition hyperone_NewDNSProviderConfig :: "env \<Rightarrow> hyperone_config option \<Rightarrow> (world, goerror + hyperone) go" where
  "hyperone_NewDNSProviderConfig e config =
     (case config of
        None \<Rightarrow> panic nil_pointer
      | Some cfg \<Rightarrow>
          (case (if hy_PassportLocation cfg = [] then hyperone_GetDefaultPassportLocation e
                 else Inr (hy_PassportLocation cfg)) of
             Inl err \<Rightarrow> ret (Inl (Wrap ''hyperone: '' err))
           | Inr location \<Rightarrow>
               (case hyperone_LoadPassportFile e location of
                  Inl err \<Rightarrow> ret (Inl (Wrap ''hyperone: '' err))
                | Inr passport \<Rightarrow>
                    (case hyperone_NewClient (hy_APIEndpoint cfg) (hy_LocationID cfg) (Some passport) of
                       Inl err \<Rightarrow> ret (Inl (Wrap ''hyperone: failed to create client: '' err))
                     | Inr client \<Rightarrow> ret (Inr \<lparr>hy_client = client, hy_config = cfg\<lparr>hy_PassportLocation := location\<rparr>\<rparr>)))))"

definition hyperone_NewDNSProvider :: "env \<Rightarrow> (world, goerror + hyperone) go" where
  "hyperone_NewDNSProvider e =
     hyperone_NewDNSProviderConfig e (Some ((hyperone_NewDefaultConfig e)
       \<lparr>hy_PassportLocation := GetOrFile e ''HYPERONE_PASSPORT_LOCATION'',
        hy_LocationID := GetOrFile e ''HYPERONE_LOCATION_ID'', hy_APIEndpoint := GetOrFile e ''HYPERONE_API_URL''\<rparr>))"

section \<open>Messages\<close>

record hy_Record =
  hyr_ID :: string
  hyr_Content :: string
  hyr_Enabled :: bool

definition hy_Record_of_json :: "json \<Rightarrow> goerror + hy_Record" where
  "hy_Record_of_json = decode_struct (\<lambda>k v r.
     if k = ''id'' then set_str v (\<lambda>s. r\<lparr>hyr_ID := s\<rparr>) r
     else if k = ''content'' then set_str v (\<lambda>s. r\<lparr>hyr_Content := s\<rparr>) r
     else if k = ''enabled'' then set_bool v (\<lambda>b. r\<lparr>hyr_Enabled := b\<rparr>) r
     else Inr r) \<lparr>hyr_ID = [], hyr_Content = [], hyr_Enabled = False\<rparr>"

definition hy_Record_json :: "hy_Record \<Rightarrow> json" where
  "hy_Record_json r =
     JObj (omit_str ''id'' (hyr_ID r) @ [(''content'', JStr (hyr_Content r))] @ omit_bool ''enabled'' (hyr_Enabled r))"

record hy_Recordset =
  hys_RecordType :: string
  hys_Name :: string
  hys_TTL :: int
  hys_ID :: string
  hys_Record :: "hy_Record option"

definition hy_Recordset_of_json :: "json \<Rightarrow> goerror + hy_Recordset" where
  "hy_Recordset_of_json = decode_struct (\<lambda>k v r.
     if k = ''type'' then set_str v (\<lambda>s. r\<lparr>hys_RecordType := s\<rparr>) r
     else if k = ''name'' then set_str v (\<lambda>s. r\<lparr>hys_Name := s\<rparr>) r
     else if k = ''ttl'' then set_int v (\<lambda>i. r\<lparr>hys_TTL := i\<rparr>) r
     else if k = ''id'' then set_str v (\<lambda>s. r\<lparr>hys_ID := s\<rparr>) r
     else if k = ''record'' then set_ptr hy_Record_of_json v (\<lambda>x. r\<lparr>hys_Record := x\<rparr>)
     else Inr r) \<lparr>hys_RecordType = [], hys_Name = [], hys_TTL = 0, hys_ID = [], hys_Record = None\<rparr>"

definition hy_Recordset_json :: "hy_Recordset \<Rightarrow> json" where
  "hy_Recordset_json r =
     JObj ([(''type'', JStr (hys_RecordType r)), (''name'', JStr (hys_Name r))] @ omit_int ''ttl'' (hys_TTL r)
       @ omit_str ''id'' (hys_ID r) @ omit_ptr ''record'' hy_Record_json (hys_Record r))"

record hy_Zone =
  hyz_ID :: string
  hyz_Name :: string
  hyz_DNSName :: string
  hyz_FQDN :: string
  hyz_URI :: string

definition hy_Zone_of_json :: "json \<Rightarrow> goerror + hy_Zone" where
  "hy_Zone_of_json = decode_struct (\<lambda>k v z.
     if k = ''id'' then set_str v (\<lambda>s. z\<lparr>hyz_ID := s\<rparr>) z
     else if k = ''name'' then set_str v (\<lambda>s. z\<lparr>hyz_Name := s\<rparr>) z
     else if k = ''dnsName'' then set_str v (\<lambda>s. z\<lparr>hyz_DNSName := s\<rparr>) z
     else if k = ''fqdn'' then set_str v (\<lambda>s. z\<lparr>hyz_FQDN := s\<rparr>) z
     else if k = ''uri'' then set_str v (\<lambda>s. z\<lparr>hyz_URI := s\<rparr>) z
     else Inr z) \<lparr>hyz_ID = [], hyz_Name = [], hyz_DNSName = [], hyz_FQDN = [], hyz_URI = []\<rparr>"

section \<open>The client\<close>

definition hy_headers :: "string \<Rightarrow> http_request \<Rightarrow> http_request" where
  "hy_headers jwt req =
     Header_Set ''Content-Type'' ''application/json'' (Header_Set ''Authorization'' (''Bearer '' @ jwt) req)"

definition hyperone_createRequest ::
  "env \<Rightarrow> hyperone_client \<Rightarrow> int \<Rightarrow> string \<Rightarrow> string \<Rightarrow> string option \<Rightarrow> (goerror + http_request) outcome" where
  "hyperone_createRequest e c now method uri body =
     (case url_Parse (hyc_apiEndpoint c) of
        Inl err \<Rightarrow> Return (Inl err)
      | Inr baseURL \<Rightarrow>
          (case url_ParseRef baseURL (path_Join [url_Path baseURL, uri]) of
             Inl err \<Rightarrow> Return (Inl err)
           | Inr endpoint \<Rightarrow>
               (case NewRequest e method (url_String endpoint) body of
                  Inl err \<Rightarrow> Return (Inl err)
                | Inr req \<Rightarrow>
                    map_outcome (\<lambda>r. case r of
                        Inl err \<Rightarrow> Inl (Wrap ''failed to sign the request: '' err)
                      | Inr jwt \<Rightarrow> Inr (hy_headers jwt req)) (hyperone_GetJWT e (hyc_signer c) now))))"

definition hyperone_checkResponse :: "http_response \<Rightarrow> goerror option" where
  "hyperone_checkResponse resp =
     (if 200 \<le> resp_StatusCode resp \<and> resp_StatusCode resp < 300 then None
      else
        let msg = (if resp_StatusCode resp = 403
              then ''forbidden: check if service account you are trying to use has permissions required for managing DNS''
              else show_int (resp_StatusCode resp) @ '': unknown error'');
            responseBody = (case resp_Body resp of Inl _ \<Rightarrow> [] | Inr b \<Rightarrow> b) in
        Some (Err (if responseBody = [] then msg else msg @ '': '' @ responseBody)))"

definition hyperone_do ::
  "env \<Rightarrow> http_request \<Rightarrow> (http_response \<Rightarrow> goerror + 'a) \<Rightarrow> (world, goerror + 'a) go" where
  "hyperone_do e req read =
     check (http_do e req) (\<lambda>resp.
       case hyperone_checkResponse resp of Some err \<Rightarrow> ret (Inl err) | None \<Rightarrow> ret (read resp))"

text \<open>How the reply is read when a result is asked for, and when none is.\<close>

definition hy_decoded :: "env \<Rightarrow> string \<Rightarrow> (json \<Rightarrow> goerror + 'a) \<Rightarrow> http_response \<Rightarrow> goerror + 'a" where
  "hy_decoded e type_name dec resp =
     (case resp_Body resp of
        Inl err \<Rightarrow> Inl (Wrap ''failed to read body: '' err)
      | Inr raw \<Rightarrow>
          (case Unmarshal e dec raw of
             Inl err \<Rightarrow> Inl (Wrap (''unmarshaling '' @ type_name @ '' error: '') (err_then err ('': '' @ raw)))
           | Inr x \<Rightarrow> Inr x))"

text \<open>A request to a resource of the project; an error of the exchange is prefixed.\<close>

definition hy_call ::
  "env \<Rightarrow> hyperone_client \<Rightarrow> string \<Rightarrow> string list \<Rightarrow> string option \<Rightarrow> (goerror \<Rightarrow> goerror)
    \<Rightarrow> (http_response \<Rightarrow> goerror + 'a) \<Rightarrow> (world, goerror + 'a) go" where
  "hy_call e c method parts body failed read =
     bind (gets w_now) (\<lambda>now.
       check (outcome_of (hyperone_createRequest e c now method
           (path_Join ([''dns'', hyc_locationID c, ''project'', hyc_projectID c, ''zone''] @ parts)) body)) (\<lambda>req.
         bind (hyperone_do e req read) (\<lambda>r. ret (map_sum failed (\<lambda>x. x) r))))"

definition hyperone_FindRecordset ::
  "env \<Rightarrow> hyperone_client \<Rightarrow> string \<Rightarrow> string \<Rightarrow> string \<Rightarrow> (world, goerror + hy_Recordset option) go" where
  "hyperone_FindRecordset e c zoneID recordType name =
     check (hy_call e c ''GET'' [zoneID, ''recordset''] None (Wrap ''failed to get recordsets from server: '')
         (hy_decoded e ''*[]internal.Recordset'' (list_of_json hy_Recordset_of_json))) (\<lambda>recordSets.
       ret (Inr (find (\<lambda>v. hys_RecordType v = recordType \<and> hys_Name v = name) recordSets)))"

definition hyperone_CreateRecordset ::
  "env \<Rightarrow> hyperone_client \<Rightarrow> string \<Rightarrow> string \<Rightarrow> string \<Rightarrow> string \<Rightarrow> int \<Rightarrow> (world, goerror + hy_Recordset) go" where
  "hyperone_CreateRecordset e c zoneID recordType name recordValue ttl =
     hy_call e c ''POST'' [zoneID, ''recordset'']
       (Some (jsonPrint e (hy_Recordset_json \<lparr>hys_RecordType = recordType, hys_Name = name, hys_TTL = ttl, hys_ID = [],
          hys_Record = Some \<lparr>hyr_ID = [], hyr_Content = recordValue, hyr_Enabled = False\<rparr>\<rparr>)))
       (Wrap ''failed to create recordset: '') (hy_decoded e ''*internal.Recordset'' hy_Recordset_of_json)"

definition hyperone_DeleteRecordset :: "env \<Rightarrow> hyperone_client \<Rightarrow> string \<Rightarrow> string \<Rightarrow> (world, goerror + unit) go" where
  "hyperone_DeleteRecordset e c zoneID recordsetID =
     hy_call e c ''DELETE'' [zoneID, ''recordset'', recordsetID] None (\<lambda>err. err) (\<lambda>_. Inr ())"

definition hyperone_GetRecords :: "env \<Rightarrow> hyperone_client \<Rightarrow> string \<Rightarrow> string \<Rightarrow> (world, goerror + hy_Record list) go" where
  "hyperone_GetRecords e c zoneID recordsetID =
     hy_call e c ''GET'' [zoneID, ''recordset'', recordsetID, ''record''] None (Wrap ''failed to get records from server: '')
       (hy_decoded e ''*[]internal.Record'' (list_of_json hy_Record_of_json))"

definition hyperone_CreateRecord ::
  "env \<Rightarrow> hyperone_client \<Rightarrow> string \<Rightarrow> string \<Rightarrow> string \<Rightarrow> (world, goerror + hy_Record) go" where
  "hyperone_CreateRecord e c zoneID recordsetID recordContent =
     hy_call e c ''POST'' [zoneID, ''recordset'', recordsetID, ''record'']
       (Some (jsonPrint e (hy_Record_json \<lparr>hyr_ID = [], hyr_Content = recordContent, hyr_Enabled = False\<rparr>)))
       (Wrap ''failed to set record: '') (hy_decoded e ''*internal.Record'' hy_Record_of_json)"

definition hyperone_DeleteRecord :: "env \<Rightarrow> hyperone_client \<Rightarrow> string \<Rightarrow> string \<Rightarrow> string \<Rightarrow> (world, goerror + unit) go" where
  "hyperone_DeleteRecord e c zoneID recordsetID recordID =
     hy_call e c ''DELETE'' [zoneID, ''recordset'', recordsetID, ''record'', recordID] None (\<lambda>err. err) (\<lambda>_. Inr ())"

definition hyperone_GetZones :: "env \<Rightarrow> hyperone_client \<Rightarrow> (world, goerror + hy_Zone list) go" where
  "hyperone_GetZones e c =
     hy_call e c ''GET'' [] None (Wrap ''failed to fetch available zones: '')
       (hy_decoded e ''*[]internal.Zone'' (list_of_json hy_Zone_of_json))"

definition hyperone_FindZone :: "env \<Rightarrow> hyperone_client \<Rightarrow> string \<Rightarrow> (world, goerror + hy_Zone) go" where
  "hyperone_FindZone e c name =
     check (hyperone_GetZones e c) (\<lambda>zones.
       case find (\<lambda>zone. hyz_DNSName zone = name) zones of
         Some zone \<Rightarrow> ret (Inr zone)
       | None \<Rightarrow> ret (Inl (Err (''failed to find zone for '' @ name))))"

section \<open>The provider\<close>

definition hyperone_getHostedZone :: "env \<Rightarrow> hyperone \<Rightarrow> string \<Rightarrow> (world, goerror + hy_Zone) go" where
  "hyperone_getHostedZone e d fqdn =
     check (FindZoneByFqdn e fqdn) (\<lambda>authZone. hyperone_FindZone e (hy_client d) authZone)"

text \<open>Both operations look for the zone and the set of records first.\<close>

definition hy_lookup ::
  "env \<Rightarrow> hyperone \<Rightarrow> string \<Rightarrow> (hy_Zone \<Rightarrow> hy_Recordset option \<Rightarrow> (world, goerror option) go) \<Rightarrow> (world, goerror option) go" where
  "hy_lookup e d fqdn k =
     try_or (''hyperone: failed to get zone for fqdn='' @ fqdn @ '': '') (hyperone_getHostedZone e d fqdn) (\<lambda>zone.
       try_or (''hyperone: fqdn='' @ fqdn @ '', zone ID='' @ hyz_ID zone @ '': '')
         (hyperone_FindRecordset e (hy_client d) (hyz_ID zone) ''TXT'' fqdn) (\<lambda>recordset. k zone recordset))"

definition hyperone_Present :: "env \<Rightarrow> hyperone \<Rightarrow> string \<Rightarrow> string \<Rightarrow> string \<Rightarrow> (world, goerror option) go" where
  "hyperone_Present e d domain token keyAuth =
     bind (GetRecord e domain keyAuth) (\<lambda>(fqdn, value).
       hy_lookup e d fqdn (\<lambda>zone recordset.
         case recordset of
           None \<Rightarrow>
             try_or (''hyperone: failed to create recordset: fqdn='' @ fqdn @ '', zone ID='' @ hyz_ID zone @ '', value='' @ value @ '': '')
               (hyperone_CreateRecordset e (hy_client d) (hyz_ID zone) ''TXT'' fqdn value (hcf_TTL (hy_config d))) (\<lambda>_. ret None)
         | Some rs \<Rightarrow>
             try_or (''hyperone: failed to create record: fqdn='' @ fqdn @ '', zone ID='' @ hyz_ID zone @ '', recordset ID='' @ hys_ID rs @ '': '')
               (hyperone_CreateRecord e (hy_client d) (hyz_ID zone) (hys_ID rs) value) (\<lambda>_. ret None)))"

definition hyperone_CleanUp :: "env \<Rightarrow> hyperone \<Rightarrow> string \<Rightarrow> string \<Rightarrow> string \<Rightarrow> (world, goerror option) go" where
  "hyperone_CleanUp e d domain token keyAuth =
     bind (GetRecord e domain keyAuth) (\<lambda>(fqdn, value).
       hy_lookup e d fqdn (\<lambda>zone recordset.
         case recordset of
           None \<Rightarrow> ret (Some (Err (''hyperone: recordset to remove not found: fqdn='' @ fqdn)))
         | Some rs \<Rightarrow>
             try_or ''hyperone: '' (hyperone_GetRecords e (hy_client d) (hyz_ID zone) (hys_ID rs)) (\<lambda>records.
               case records of
                 [r] \<Rightarrow>
                   if hyr_Content r \<noteq> value
                   then ret (Some (Err (''hyperone: record with content '' @ value @ '' not found: fqdn='' @ fqdn)))
                   else try_or (''hyperone: failed to delete record: fqdn='' @ fqdn @ '', zone ID='' @ hyz_ID zone @ '', recordset ID='' @ hys_ID rs @ '': '')
                     (hyperone_DeleteRecordset e (hy_client d) (hyz_ID zone) (hys_ID rs)) (\<lambda>_. ret None)
               | _ \<Rightarrow>
                   (case find (\<lambda>r. hyr_Content r = value) records of
                      Some r \<Rightarrow>
                        try_or (''hyperone: fqdn='' @ fqdn @ '', zone ID='' @ hyz_ID zone @ '', recordset ID='' @ hys_ID rs
                            @ '', record ID='' @ hyr_ID r @ '': '')
                          (hyperone_DeleteRecord e (hy_client d) (hyz_ID zone) (hys_ID rs) (hyr_ID r)) (\<lambda>_. ret None)
                    | None \<Rightarrow> ret (Some (Err (''hyperone: fqdn='' @ fqdn @ '', failed to find record with given value'')))))))"

definition hyperone_Timeout :: "hyperone \<Rightarrow> int \<times> int" where
  "hyperone_Timeout d = (hcf_PropagationTimeout (hy_config d), hcf_PollingInterval (hy_config d))"

definition hyperone_provider :: "env \<Rightarrow> hyperone \<Rightarrow> provider" where
  "hyperone_provider e d =
     \<lparr>prov_Present = hyperone_Present e d, prov_CleanUp = hyperone_CleanUp e d,
      prov_Timeout = Some (hyperone_Timeout d), prov_Sequential = None\<rparr>"

section \<open>The provider keeps its contract\<close>

lemma hyperone_createRequest_body:
  "hyperone_createRequest e c now method uri body = Return (Inr req) \<Longrightarrow>
   req_Body req = (case body of None \<Rightarrow> NoBody | Some b \<Rightarrow> RawBody b)"
  unfolding hyperone_createRequest_def
  by (cases "hyperone_GetJWT e (hyc_signer c) now")
    (auto simp: NewRequest_Inr hy_headers_def split: sum.splits)

context plain_invariant
begin

lemma always_hy_call [always_intros]: "always R (hy_call e c method parts body failed f)"
  unfolding hy_call_def hyperone_do_def
  by (intro always_check_outcome always_intros always_plain_http)
    (auto dest!: hyperone_createRequest_body split: option.splits)

lemma always_hyperone [always_intros]:
  "always R (hyperone_FindRecordset e c zoneID ty name)" "always R (hyperone_CreateRecordset e c zoneID ty name v ttl)"
  "always R (hyperone_DeleteRecordset e c zoneID rs)" "always R (hyperone_GetRecords e c zoneID rs)"
  "always R (hyperone_CreateRecord e c zoneID rs v)" "always R (hyperone_DeleteRecord e c zoneID rs r)"
  "always R (hyperone_getHostedZone e d fqdn)"
  unfolding hyperone_FindRecordset_def hyperone_CreateRecordset_def hyperone_DeleteRecordset_def hyperone_GetRecords_def
    hyperone_CreateRecord_def hyperone_DeleteRecord_def hyperone_getHostedZone_def hyperone_FindZone_def hyperone_GetZones_def
  by (intro always_intros)+

lemma always_hy_lookup [always_intros]:
  "(\<And>zone rs. always R (k zone rs)) \<Longrightarrow> always R (hy_lookup e d fqdn k)"
  unfolding hy_lookup_def by (intro always_intros)

lemma always_hyperone_NewDNSProvider: "always R (hyperone_NewDNSProvider e)"
  unfolding hyperone_NewDNSProvider_def hyperone_NewDNSProviderConfig_def by (intro always_intros)

lemma hyperone_keeps: "provider_keeps R (hyperone_provider e d)"
  unfolding hyperone_provider_def
  by (rule provider_keepsI; unfold hyperone_Present_def hyperone_CleanUp_def; intro always_intros)

end

abbreviation status_2xx :: "http_response \<Rightarrow> bool" where
  "status_2xx resp \<equiv> 200 \<le> resp_StatusCode resp \<and> resp_StatusCode resp < 300"

lemma hy_call_sent:
  assumes "v \<in> set (json_strings j)"
  shows "ensures is_ok (delivered e v (answered status_2xx)) (hy_call e c method parts (Some (jsonPrint e j)) failed f)"
  unfolding ensures_def
proof (intro allI impI)
  fix s x t
  assume "hy_call e c method parts (Some (jsonPrint e j)) failed f s = (Return x, t)" and "is_ok x"
  then obtain req resp where req: "hyperone_createRequest e c (w_now s) method
      (path_Join ([''dns'', hyc_locationID c, ''project'', hyc_projectID c, ''zone''] @ parts)) (Some (jsonPrint e j)) = Return (Inr req)"
    and sent: "happened s t (EvHttp req (Inr resp))" "hyperone_checkResponse resp = None"
    unfolding hy_call_def hyperone_do_def
    by (auto simp: host_runs run_cases dest!: happened_http)
  have "carries e v req" using hyperone_createRequest_body [OF req] assms by (simp add: carries_json)
  with sent show "\<exists>ev. happened s t ev \<and> delivered e v (answered status_2xx) ev"
    by (intro exI [of _ "EvHttp req (Inr resp)"]) (auto simp: hyperone_checkResponse_def Let_def split: if_splits)
qed

lemma hyperone_Present_sent:
  "ensures is_nil (delivered e (record_value e keyAuth) (answered status_2xx)) (hyperone_Present e d domain token keyAuth)"
  unfolding hyperone_Present_def hy_lookup_def hyperone_CreateRecordset_def hyperone_CreateRecord_def
  by (intro ensures_GetRecord ensures_try_later [OF growing.always_hyperone(7)] ensures_try_later [OF growing.always_hyperone(1)]
      ensures_option ensures_try_first hy_call_sent growing.always_hy_call always_intros)
    (simp_all add: hy_Recordset_json_def hy_Record_json_def omit_ptr_def)

interpretation hyperone: hosting e "hyperone_provider e d" "answered status_2xx" for e d
  by (rule hostingI [OF outsider.hyperone_keeps]) (simp add: hyperone_Present_sent hyperone_provider_def)

end
