(* ===== verification/Joker.thy ===== *)
theory Joker
  imports Hosting
begin

text \<open>
  Package \<^verbatim>\<open>providers/dns/joker\<close>.  The service speaks in lines of a key and a value.  A zone is fetched as a text,
  edited line by line and written back as a whole.  The identifier of the session is a field of the
  configuration, here an entry of the map at \<open>jk_object\<close>.
\<close>

definition joker_defaultBaseURL :: string where "joker_defaultBaseURL = ''https://dmapi.joker.com/request/''"

record joker_config = ttl_config +
  jk_Debug :: bool
  jk_BaseURL :: string
  jk_APIKey :: string
  jk_Username :: string
  jk_Password :: string
  jk_AuthSid :: string

definition joker_NewDefaultConfig :: "env \<Rightarrow> joker_config" where
  "joker_NewDefaultConfig e =
     \<lparr>hcf_PropagationTimeout = GetOrDefaultSecond e ''JOKER_PROPAGATION_TIMEOUT'' DefaultPropagationTimeout,
      hcf_PollingInterval = GetOrDefaultSecond e ''JOKER_POLLING_INTERVAL'' DefaultPollingInterval,
      hcf_HTTPTimeout = GetOrDefaultSecond e ''JOKER_HTTP_TIMEOUT'' (60 * Second),
      hcf_TTL = GetOrDefaultInt e ''JOKER_TTL'' (int DefaultTTL),
      jk_Debug = GetOrDefaultBool e ''JOKER_DEBUG'' False, jk_BaseURL = joker_defaultBaseURL,
      jk_APIKey = [], jk_Username = [], jk_Password = [], jk_AuthSid = []\<rparr>"

record joker =
  jk_config :: joker_config
  jk_object :: nat

definition joker_NewDNSProviderConfig :: "joker_config option \<Rightarrow> (world, goerror + joker) go" where
  "joker_NewDNSProviderConfig config =
     (case config of
        None \<Rightarrow> ret (Inl (nil_config ''joker''))
      | Some c \<Rightarrow>
          if jk_APIKey c = [] \<and> (jk_Username c = [] \<or> jk_Password c = []) then ret (Inl (Err ''joker: credentials missing''))
          else
            (let c' = (if HasSuffix (jk_BaseURL c) ''/'' then c else c\<lparr>jk_BaseURL := jk_BaseURL c @ ''/''\<rparr>) in
             bind make_map (\<lambda>a. bind (map_set a ''AuthSid'' (StrCell (jk_AuthSid c))) (\<lambda>_.
               ret (Inr \<lparr>jk_config = c', jk_object = a\<rparr>)))))"

definition joker_NewDNSProvider :: "env \<Rightarrow> (world, goerror + joker) go" where
  "joker_NewDNSProvider e =
     (let new = (\<lambda>values. joker_NewDNSProviderConfig (Some ((joker_NewDefaultConfig e)
            \<lparr>jk_APIKey := env_value values ''JOKER_API_KEY'', jk_Username := env_value values ''JOKER_USERNAME'',
             jk_Password := env_value values ''JOKER_PASSWORD''\<rparr>))) in
      case env_Get e [''JOKER_API_KEY''] of
        Inr values \<Rightarrow> new values
      | Inl err \<Rightarrow>
          (case env_Get e [''JOKER_USERNAME'', ''JOKER_PASSWORD''] of
             Inl errU \<Rightarrow> ret (Inl (Err (''joker: '' @ error_text errU @ '' or '' @ error_text err)))
           | Inr values \<Rightarrow> new values))"

section \<open>Replies\<close>

record jk_response =
  jkr_Headers :: url_values
  jkr_Body :: string
  jkr_StatusCode :: int
  jkr_StatusText :: string
  jkr_AuthSid :: string

definition newline :: string where "newline = [CHR 0x0A]"

text \<open>A line of the head of a reply.\<close>

definition jk_header_line :: "string \<Rightarrow> jk_response \<Rightarrow> jk_response" where
  "jk_header_line line r =
     (if TrimSpace line = [] then r
      else
        (let key = takeWhile (\<lambda>c. c \<noteq> CHR '':'') line;
             val = (if CHR '':'' \<in> set line then TrimSpace (drop (length key + 1) line) else []);
             r = r\<lparr>jkr_Headers := Values_Add key val (jkr_Headers r)\<rparr> in
         if key = ''Status-Code'' then (case Atoi val of Some i \<Rightarrow> r\<lparr>jkr_StatusCode := i\<rparr> | None \<Rightarrow> r)
         else if key = ''Status-Text'' then r\<lparr>jkr_StatusText := val\<rparr>
         else if key = ''Auth-Sid'' then r\<lparr>jkr_AuthSid := val\<rparr>
         else r))"

definition joker_parseResponse :: "string \<Rightarrow> jk_response" where
  "joker_parseResponse message =
     (let (head, body) = (case str_index message (newline @ newline) of
            None \<Rightarrow> (message, [])
          | Some i \<Rightarrow> (take i message, drop (i + 2) message)) in
      (fold jk_header_line (split_on (CHR 0x0A) head)
        \<lparr>jkr_Headers = [], jkr_Body = [], jkr_StatusCode = -1, jkr_StatusText = [], jkr_AuthSid = []\<rparr>)
        \<lparr>jkr_Body := body\<rparr>)"

text \<open>\<^verbatim>\<open>%v\<close> of a map prints its keys in order.\<close>

definition show_values :: "url_values \<Rightarrow> string" where
  "show_values vs =
     ''map['' @ Join (map (\<lambda>(k, xs). k @ '':['' @ Join xs '' '' @ '']'') (sort_key fst vs)) '' '' @ '']''"

text \<open>An error that is nil is printed as a wrong use of \<^verbatim>\<open>%w\<close>.\<close>

definition joker_formatResponseError :: "jk_response option \<Rightarrow> goerror option \<Rightarrow> goerror" where
  "joker_formatResponseError response err =
     (let text = (case err of None \<Rightarrow> ''%!w(<nil>)'' | Some er \<Rightarrow> error_text er) in
      case response of
        Some r \<Rightarrow> Err (''joker: DMAPI error: '' @ text @ '' Response: '' @ show_values (jkr_Headers r))
      | None \<Rightarrow> Err (''joker: DMAPI error: '' @ text))"

section \<open>The client\<close>

definition joker_postRequest :: "env \<Rightarrow> joker \<Rightarrow> string \<Rightarrow> url_values \<Rightarrow> (world, goerror + jk_response) go" where
  "joker_postRequest e d cmd data =
     bind (str_field (jk_object d) ''AuthSid'') (\<lambda>sid.
       let data = (if sid \<noteq> [] then Values_Set ''auth-sid'' sid data else data) in
       check (send e ''POST'' (jk_BaseURL (jk_config d) @ cmd) (Some (Values_Encode data))
           (Header_Set ''Content-Type'' ''application/x-www-form-urlencoded'')) (\<lambda>resp.
         case resp_Body resp of
           Inl err \<Rightarrow> ret (Inl err)
         | Inr body \<Rightarrow>
             if resp_StatusCode resp \<noteq> 200
             then ret (Inl (Err (''HTTP error '' @ show_int (resp_StatusCode resp) @ '' [''
                    @ StatusText (resp_StatusCode resp) @ '']: '' @ body)))
             else ret (Inr (joker_parseResponse body))))"

text \<open>\<^verbatim>\<open>login\<close> may return a response together with its error; the response of a success is not used.\<close>

definition joker_login :: "env \<Rightarrow> joker \<Rightarrow> (world, (jk_response option \<times> goerror) + unit) go" where
  "joker_login e d =
     (let c = jk_config d;
          post = (\<lambda>values. handle (joker_postRequest e d ''login'' values) (\<lambda>err. ret (Inl (None, err))) (\<lambda>response.
            if jkr_AuthSid response = [] then ret (Inl (Some response, Err ''login did not return valid Auth-Sid''))
            else bind (map_set (jk_object d) ''AuthSid'' (StrCell (jkr_AuthSid response))) (\<lambda>_. ret (Inr ())))) in
      bind (str_field (jk_object d) ''AuthSid'') (\<lambda>sid.
        if sid \<noteq> [] then ret (Inr ())
        else if jk_Username c \<noteq> [] \<and> jk_Password c \<noteq> []
        then post [(''username'', [jk_Username c]), (''password'', [jk_Password c])]
        else if jk_APIKey c \<noteq> [] then post [(''api-key'', [jk_APIKey c])]
        else ret (Inl (None, Err ''no username and password or api-key''))))"

definition joker_logout :: "env \<Rightarrow> joker \<Rightarrow> (world, goerror + jk_response) go" where
  "joker_logout e d =
     bind (str_field (jk_object d) ''AuthSid'') (\<lambda>sid.
       if sid = [] then ret (Inl (Err ''already logged out''))
       else check (joker_postRequest e d ''logout'' []) (\<lambda>response.
         bind (map_set (jk_object d) ''AuthSid'' (StrCell [])) (\<lambda>_. ret (Inr response))))"

definition joker_getZone :: "env \<Rightarrow> joker \<Rightarrow> string \<Rightarrow> (world, goerror + jk_response) go" where
  "joker_getZone e d domain =
     bind (str_field (jk_object d) ''AuthSid'') (\<lambda>sid.
       if sid = [] then ret (Inl (Err ''must be logged in to get zone''))
       else joker_postRequest e d ''dns-zone-get'' [(''domain'', [UnFqdn domain])])"

definition joker_putZone :: "env \<Rightarrow> joker \<Rightarrow> string \<Rightarrow> string \<Rightarrow> (world, goerror + jk_response) go" where
  "joker_putZone e d domain zone =
     bind (str_field (jk_object d) ''AuthSid'') (\<lambda>sid.
       if sid = [] then ret (Inl (Err ''must be logged in to put zone''))
       else joker_postRequest e d ''dns-zone-put'' [(''domain'', [UnFqdn domain]), (''zone'', [TrimSpace zone])])"

section \<open>Editing a zone\<close>

text \<open>The service returns quotes of long texts broken in two; such a line is mended.\<close>

definition joker_fixTxtLines :: "string \<Rightarrow> string" where
  "joker_fixTxtLines line =
     (let fields = Fields line in
      if length fields < 6 \<or> fields ! 1 \<noteq> ''TXT'' then line
      else
        (let fields = (if hd (fields ! 3) = CHR 0x22 \<and> fields ! 4 = [CHR 0x22]
                then take 3 fields @ [TrimSpace (fields ! 3) @ [CHR 0x22]] @ drop 5 fields else fields) in
         Join fields '' ''))"

definition jk_prefix :: "string \<Rightarrow> string" where
  "jk_prefix relative = relative @ '' TXT 0 ''"

definition joker_removeTxtEntryFromZone :: "string \<Rightarrow> string \<Rightarrow> string \<times> bool" where
  "joker_removeTxtEntryFromZone zone relative =
     (let lines = split_on (CHR 0x0A) zone;
          zoneEntries = filter (\<lambda>line. \<not> HasPrefix line (jk_prefix relative)) lines in
      (TrimSpace (Join zoneEntries newline), list_ex (\<lambda>line. HasPrefix line (jk_prefix relative)) lines))"

definition joker_addTxtEntryToZone :: "string \<Rightarrow> string \<Rightarrow> string \<Rightarrow> int \<Rightarrow> string" where
  "joker_addTxtEntryToZone zone relative value ttl =
     (let zoneEntries = map joker_fixTxtLines (split_on (CHR 0x0A) zone);
          newZoneEntry = relative @ '' TXT 0 '' @ Quote value @ '' '' @ show_int ttl in
      TrimSpace (Join (zoneEntries @ [newZoneEntry]) newline))"

section \<open>The provider\<close>

definition joker_getRelative :: "string \<Rightarrow> string \<Rightarrow> string" where
  "joker_getRelative fqdn zone = UnFqdn (TrimSuffix fqdn (ToFqdn zone))"

text \<open>A reply of the service must have the status code 0.\<close>

definition jk_checked ::
  "(world, goerror + jk_response) go \<Rightarrow> (jk_response \<Rightarrow> (world, goerror option) go) \<Rightarrow> (world, goerror option) go" where
  "jk_checked m k =
     handle m (\<lambda>err. ret (Some (joker_formatResponseError None (Some err)))) (\<lambda>response.
       if jkr_StatusCode response \<noteq> 0 then ret (Some (joker_formatResponseError (Some response) None))
       else k response)"

definition jk_logged_in :: "env \<Rightarrow> joker \<Rightarrow> (world, goerror option) go \<Rightarrow> (world, goerror option) go" where
  "jk_logged_in e d k =
     handle (joker_login e d) (\<lambda>(response, err). ret (Some (joker_formatResponseError response (Some err)))) (\<lambda>_. k)"

definition joker_Present :: "env \<Rightarrow> joker \<Rightarrow> string \<Rightarrow> string \<Rightarrow> string \<Rightarrow> (world, goerror option) go" where
  "joker_Present e d domain token keyAuth =
     bind (GetRecord e domain keyAuth) (\<lambda>(fqdn, value).
       try_or ''joker: '' (FindZoneByFqdn e fqdn) (\<lambda>zone.
         jk_logged_in e d (
           jk_checked (joker_getZone e d zone) (\<lambda>response.
             let dnsZone = joker_addTxtEntryToZone (jkr_Body response) (joker_getRelative fqdn zone) value
                   (hcf_TTL (jk_config d)) in
             jk_checked (joker_putZone e d zone dnsZone) (\<lambda>_. ret None)))))"

definition joker_CleanUp :: "env \<Rightarrow> joker \<Rightarrow> string \<Rightarrow> string \<Rightarrow> string \<Rightarrow> (world, goerror option) go" where
  "joker_CleanUp e d domain token keyAuth =
     bind (GetRecord e domain keyAuth) (\<lambda>(fqdn, _).
       try_or ''joker: '' (FindZoneByFqdn e fqdn) (\<lambda>zone.
         jk_logged_in e d (deferring (
           jk_checked (joker_getZone e d zone) (\<lambda>response.
             let (dnsZone, modified) = joker_removeTxtEntryFromZone (jkr_Body response) (joker_getRelative fqdn zone);
                 leave = handle (joker_logout e d) (\<lambda>err. ret (Some (joker_formatResponseError None (Some err)))) (\<lambda>_. ret None) in
             if modified then jk_checked (joker_putZone e d zone dnsZone) (\<lambda>_. leave) else leave))
           (bind (joker_logout e d) (\<lambda>_. ret ())))))"

definition joker_Timeout :: "joker \<Rightarrow> int \<times> int" where
  "joker_Timeout d = (hcf_PropagationTimeout (jk_config d), hcf_PollingInterval (jk_config d))"

definition joker_provider :: "env \<Rightarrow> joker \<Rightarrow> provider" where
  "joker_provider e d =
     \<lparr>prov_Present = joker_Present e d, prov_CleanUp = joker_CleanUp e d,
      prov_Timeout = Some (joker_Timeout d), prov_Sequential = None\<rparr>"

section \<open>The provider keeps its contract\<close>

context plain_invariant
begin

lemma always_joker_postRequest [always_intros]: "always R (joker_postRequest e d cmd data)"
  unfolding joker_postRequest_def Let_def by (intro always_intros; simp)

lemma always_joker [always_intros]:
  "always R (joker_login e d)" "always R (joker_logout e d)" "always R (joker_getZone e d domain)"
  "always R (joker_putZone e d domain zone)"
  unfolding joker_login_def joker_logout_def joker_getZone_def joker_putZone_def Let_def by (intro always_intros)+

lemma always_jk_checked [always_intros]:
  "always R m \<Longrightarrow> (\<And>r. always R (k r)) \<Longrightarrow> always R (jk_checked m k)"
  "always R n \<Longrightarrow> always R (jk_logged_in e d n)"
  unfolding jk_checked_def jk_logged_in_def case_prod_unfold by (intro always_intros; assumption)+

lemma always_joker_NewDNSProvider: "always R (joker_NewDNSProvider e)"
  unfolding joker_NewDNSProvider_def joker_NewDNSProviderConfig_def Let_def by (intro always_intros)

lemma joker_keeps: "provider_keeps R (joker_provider e d)"
  unfolding joker_provider_def
  by (rule provider_keepsI; unfold joker_Present_def joker_CleanUp_def Let_def; intro always_intros)

end

text \<open>Trimming does not reach a text without blanks inside.\<close>

lemma dropWhile_keeps:
  assumes "x \<noteq> []" and "list_all (\<lambda>c. \<not> p c) x"
  shows "\<exists>a'. dropWhile p (a @ x @ b) = a' @ x @ b"
proof (cases "list_all p a")
  case True
  then have "dropWhile p (a @ x @ b) = [] @ x @ b"
    using assms by (cases x) (auto simp: list_all_iff dropWhile_append)
  then show ?thesis by blast
next
  case False
  then have "dropWhile p (a @ x @ b) = dropWhile p a @ x @ b" by (auto simp: list_all_iff dropWhile_append)
  then show ?thesis by blast
qed

lemma TrimSpace_keeps:
  assumes "x \<noteq> []" and "list_all (\<lambda>c. \<not> is_space c) x"
  shows "\<exists>a' b'. TrimSpace (a @ x @ b) = a' @ x @ b'"
proof -
  obtain a' where a': "dropWhile is_space (a @ x @ b) = a' @ x @ b" using dropWhile_keeps [OF assms] by blast
  obtain b' where "dropWhile is_space (rev b @ rev x @ rev a') = b' @ rev x @ rev a'"
    using dropWhile_keeps [of "rev x" is_space "rev b" "rev a'"] assms by auto
  then have "TrimSpace (a @ x @ b) = a' @ x @ rev b'" unfolding TrimSpace_def a' by simp
  then show ?thesis by blast
qed

lemma base64_plain: "is_base64 c \<Longrightarrow> \<not> is_space c \<and> quote_char c = [c]"
  by (auto simp: is_base64_def is_alnum_def is_space_def quote_char_def Let_def)

lemma Quote_base64: "list_all is_base64 v \<Longrightarrow> Quote v = [CHR 0x22] @ v @ [CHR 0x22]"
  unfolding Quote_def by (induction v) (simp_all add: base64_plain)

text \<open>The new entry is in the text that is sent.\<close>

lemma joker_zone_value:
  assumes "list_all is_base64 v" and "v \<noteq> []"
  shows "\<exists>a b. TrimSpace (joker_addTxtEntryToZone zone relative v ttl) = a @ v @ b"
proof -
  have plain: "list_all (\<lambda>c. \<not> is_space c) v" using assms(1) base64_plain by (auto simp: list_all_iff)
  let ?entry = "relative @ '' TXT 0 '' @ Quote v @ '' '' @ show_int ttl"
  obtain a b where "Join (map joker_fixTxtLines (split_on (CHR 0x0A) zone) @ [?entry]) newline = a @ ?entry @ b"
    using Join_split [of ?entry "map joker_fixTxtLines (split_on (CHR 0x0A) zone) @ [?entry]" newline] by auto
  then have "joker_addTxtEntryToZone zone relative v ttl
      = TrimSpace ((a @ relative @ '' TXT 0 '' @ [CHR 0x22]) @ v @ ([CHR 0x22] @ '' '' @ show_int ttl @ b))"
    unfolding joker_addTxtEntryToZone_def Let_def by (simp add: Quote_base64 [OF assms(1)])
  then obtain a' b' where "joker_addTxtEntryToZone zone relative v ttl = a' @ v @ b'"
    using TrimSpace_keeps [OF assms(2) plain] by metis
  then show ?thesis using TrimSpace_keeps [OF assms(2) plain] by metis
qed

definition joker_accepts :: "http_response \<Rightarrow> bool" where
  "joker_accepts resp \<longleftrightarrow> resp_StatusCode resp = 200
     \<and> (\<exists>body. resp_Body resp = Inr body \<and> jkr_StatusCode (joker_parseResponse body) = 0)"

lemma joker_postRequest_run:
  assumes "joker_postRequest e d cmd data w = (Return (Inr r), t)"
  shows "\<exists>req resp sid body. happened w t (EvHttp req (Inr resp)) \<and> resp_StatusCode resp = 200
    \<and> resp_Body resp = Inr body \<and> r = joker_parseResponse body
    \<and> req_Body req = RawBody (Values_Encode (if sid \<noteq> [] then Values_Set ''auth-sid'' sid data else data))"
proof -
  obtain sid req resp body where "NewRequest e ''POST'' (jk_BaseURL (jk_config d) @ cmd)
        (Some (Values_Encode (if sid \<noteq> [] then Values_Set ''auth-sid'' sid data else data))) = Inr req"
    and "http_do e (Header_Set ''Content-Type'' ''application/x-www-form-urlencoded'' req) w = (Return (Inr resp), t)"
    and "resp_StatusCode resp = 200" "resp_Body resp = Inr body" "r = joker_parseResponse body"
    using assms unfolding joker_postRequest_def Let_def send_as_def
    by (fastforce simp: host_runs run_cases str_field_def run_map_get)
  then show ?thesis using happened_http by (fastforce simp: NewRequest_Inr)
qed

lemma joker_putZone_sent:
  assumes "list_all is_base64 v" and "TrimSpace zone = a @ v @ b"
  shows "ensures is_nil (delivered e v (answered joker_accepts)) (jk_checked (joker_putZone e d domain zone) (\<lambda>_. ret None))"
  unfolding ensures_def
proof (intro allI impI)
  fix s x t
  assume run: "jk_checked (joker_putZone e d domain zone) (\<lambda>_. ret None) s = (Return x, t)" and "x = None"
  let ?data = "[(''domain'', [UnFqdn domain]), (''zone'', [TrimSpace zone])]"
  let ?form = "\<lambda>sid. if sid \<noteq> [] then Values_Set ''auth-sid'' sid ?data else ?data"
  obtain r where "joker_postRequest e d ''dns-zone-put'' ?data s = (Return (Inr r), t)" and "jkr_StatusCode r = 0"
    using run \<open>x = None\<close> unfolding jk_checked_def joker_putZone_def
    by (auto simp: host_runs run_cases str_field_def run_map_get)
  then obtain req resp sid body where sent: "happened s t (EvHttp req (Inr resp))" "joker_accepts resp"
    and body: "req_Body req = RawBody (Values_Encode (?form sid))"
    using joker_postRequest_run unfolding joker_accepts_def by blast
  have "map_of (?form sid) ''zone'' = Some [TrimSpace zone]" by (simp add: Values_Set_def)
  then obtain c d where "Values_Encode (?form sid) = c @ QueryEscape (TrimSpace zone) @ d"
    using Values_Encode_value by (metis list.set_intros(1))
  moreover have "QueryEscape (TrimSpace zone) = QueryEscape a @ v @ QueryEscape b"
    unfolding assms(2) QueryEscape_def escape_append by (simp add: escape_base64 [OF assms(1)])
  ultimately have "Values_Encode (?form sid) = (c @ QueryEscape a) @ v @ (QueryEscape b @ d)" by simp
  then have "carries e v req" using body carries_body by metis
  then show "\<exists>ev. happened s t ev \<and> delivered e v (answered joker_accepts) ev"
    using sent by (intro exI [of _ "EvHttp req (Inr resp)"]) simp
qed

lemma ensures_jk_later:
  "always grows m \<Longrightarrow> (\<And>r. ensures is_nil P (k r)) \<Longrightarrow> ensures is_nil P (jk_checked m k)"
  "ensures is_nil P n \<Longrightarrow> ensures is_nil P (jk_logged_in e d n)"
  unfolding jk_checked_def jk_logged_in_def case_prod_unfold
  by (intro ensures_handle_later ensures_intros growing.always_joker; simp)+

lemma joker_Present_sent:
  "ensures is_nil (delivered e (record_value e keyAuth) (answered joker_accepts)) (joker_Present e d domain token keyAuth)"
proof -
  have "\<exists>a b. TrimSpace (joker_addTxtEntryToZone zone relative (record_value e keyAuth) ttl) = a @ record_value e keyAuth @ b"
    for zone relative ttl
  proof (cases "record_value e keyAuth = []")
    case False
    then show ?thesis using joker_zone_value [OF record_value_base64] by blast
  qed auto
  then have put: "ensures is_nil (delivered e (record_value e keyAuth) (answered joker_accepts))
      (jk_checked (joker_putZone e d domain (joker_addTxtEntryToZone zone relative (record_value e keyAuth) ttl)) (\<lambda>_. ret None))"
    for domain zone relative ttl
    using joker_putZone_sent [OF record_value_base64] by blast
  show ?thesis
    unfolding joker_Present_def Let_def by (intro put ensures_jk_later ensures_intros growing.always_joker)
qed

interpretation joker: hosting e "joker_provider e d" "answered joker_accepts" for e d
  by (rule hostingI [OF outsider.joker_keeps]) (simp add: joker_Present_sent joker_provider_def)

section \<open>Adding an entry and removing it\<close>

text \<open>A zone as the service keeps it: trimmed, no broken quotes, and no entry of the name.\<close>

definition jk_tidy :: "string \<Rightarrow> string \<Rightarrow> bool" where
  "jk_tidy zone relative \<longleftrightarrow> zone \<noteq> [] \<and> TrimSpace zone = zone
     \<and> list_all (\<lambda>line. joker_fixTxtLines line = line \<and> \<not> HasPrefix line (jk_prefix relative)) (split_on (CHR 0x0A) zone)"

lemma Join_split_on: "Join (split_on c s) [c] = s"
proof (induction s)
  case (Cons x s)
  then show ?case by (cases "split_on c s"; cases "tl (split_on c s)") auto
qed simp

lemma TrimSpace_ends:
  assumes "s \<noteq> []" and "\<not> is_space (hd s)" and "\<not> is_space (last s)"
  shows "TrimSpace s = s"
proof -
  have "dropWhile is_space s = s" using assms(1,2) by (cases s) auto
  moreover have "dropWhile is_space (rev s) = rev s"
    using assms(1,3) by (cases "rev s") (auto simp: last_rev [of "rev s", simplified] hd_rev [symmetric])
  ultimately show ?thesis by (simp add: TrimSpace_def)
qed

lemma TrimSpace_hd: "zone \<noteq> [] \<Longrightarrow> TrimSpace zone = zone \<Longrightarrow> \<not> is_space (hd zone)"
proof
  assume "zone \<noteq> []" and fix_zone: "TrimSpace zone = zone" and space: "is_space (hd zone)"
  then obtain c r where zone: "zone = c # r" by (cases zone) auto
  have "length (TrimSpace zone) \<le> length (dropWhile is_space zone)"
    unfolding TrimSpace_def using length_dropWhile_le [of is_space "rev (dropWhile is_space zone)"] by simp
  also have "\<dots> \<le> length r" using zone space length_dropWhile_le [of is_space r] by simp
  finally show False using fix_zone zone by simp
qed

lemma show_nat_digits: "list_all is_digit (show_nat n)"
proof (induction n rule: show_nat.induct)
  case (1 n)
  have "is_digit (digit m)" if "m < 10" for m using that by (auto simp: is_digit_def digit_def Let_def of_char_of)
  then show ?case using 1 by (subst show_nat.simps) simp
qed

lemma show_int_plain: "c \<in> set (show_int i) \<Longrightarrow> \<not> is_space c"
  using show_nat_digits
  by (fastforce simp: show_int_def list_all_iff is_digit_def is_space_def Let_def split: if_splits)

lemma show_int_nonempty: "show_int i \<noteq> []"
  by (simp add: show_int_def)


definition sample_zone :: string where "sample_zone = ''@ A 0 192.0.2.2 3600'' @ newline @ ''www CNAME 0 a.org. 3600''"


end
