(* ===== verification/Namecheap.thy ===== *)
theory Namecheap
  imports Xml
begin

text \<open>
  Package \<^verbatim>\<open>providers/dns/namecheap\<close>.  The service has no operation for a single record: all records of a domain
  are read and written back, with the new one added or the old one left out.
\<close>

definition namecheap_defaultBaseURL :: string where
  "namecheap_defaultBaseURL = ''https://api.namecheap.com/xml.response''"

definition namecheap_sandboxBaseURL :: string where
  "namecheap_sandboxBaseURL = ''https://api.sandbox.namecheap.com/xml.response''"

definition namecheap_getIPURL :: string where
  "namecheap_getIPURL = ''https://dynamicdns.park-your-domain.com/getip''"

record namecheap_config = ttl_config +
  nmc_Debug :: bool
  nmc_BaseURL :: string
  nmc_APIUser :: string
  nmc_APIKey :: string
  nmc_ClientIP :: string

definition namecheap_NewDefaultConfig :: "env \<Rightarrow> namecheap_config" where
  "namecheap_NewDefaultConfig e =
     \<lparr>hcf_PropagationTimeout = GetOrDefaultSecond e ''NAMECHEAP_PROPAGATION_TIMEOUT'' (60 * Minute),
      hcf_PollingInterval = GetOrDefaultSecond e ''NAMECHEAP_POLLING_INTERVAL'' (15 * Second),
      hcf_HTTPTimeout = GetOrDefaultSecond e ''NAMECHEAP_HTTP_TIMEOUT'' (60 * Second),
      hcf_TTL = GetOrDefaultInt e ''NAMECHEAP_TTL'' (int DefaultTTL), nmc_Debug = GetOrDefaultBool e ''NAMECHEAP_DEBUG'' False,
      nmc_BaseURL = (if GetOrDefaultBool e ''NAMECHEAP_SANDBOX'' False then namecheap_sandboxBaseURL else namecheap_defaultBaseURL),
      nmc_APIUser = [], nmc_APIKey = [], nmc_ClientIP = []\<rparr>"

record namecheap =
  nmc_config :: namecheap_config

definition namecheap_getClientIP :: "env \<Rightarrow> (world, goerror + string) go" where
  "namecheap_getClientIP e = check (http_Get e namecheap_getIPURL) (\<lambda>resp. ret (resp_Body resp))"

definition namecheap_NewDNSProviderConfig :: "env \<Rightarrow> namecheap_config option \<Rightarrow> (world, goerror + namecheap) go" where
  "namecheap_NewDNSProviderConfig e config =
     (case config of
        None \<Rightarrow> ret (Inl (nil_config ''namecheap''))
      | Some c \<Rightarrow>
          if nmc_APIUser c = [] \<or> nmc_APIKey c = [] then ret (Inl (Err ''namecheap: credentials missing''))
          else if nmc_ClientIP c \<noteq> [] then ret (Inr \<lparr>nmc_config = c\<rparr>)
          else check (wrap_res ''namecheap: '' (namecheap_getClientIP e)) (\<lambda>clientIP.
            ret (Inr \<lparr>nmc_config = c\<lparr>nmc_ClientIP := clientIP\<rparr>\<rparr>)))"

definition namecheap_NewDNSProvider :: "env \<Rightarrow> (world, goerror + namecheap) go" where
  "namecheap_NewDNSProvider e =
     (case env_Get e [''NAMECHEAP_API_USER'', ''NAMECHEAP_API_KEY''] of
        Inl err \<Rightarrow> ret (Inl (Wrap ''namecheap: '' err))
      | Inr values \<Rightarrow>
          namecheap_NewDNSProviderConfig e (Some ((namecheap_NewDefaultConfig e)
            \<lparr>nmc_APIUser := env_value values ''NAMECHEAP_API_USER'', nmc_APIKey := env_value values ''NAMECHEAP_API_KEY''\<rparr>)))"

section \<open>Messages\<close>

record nmc_Record =
  nmr_Type :: string
  nmr_Name :: string
  nmr_Address :: string
  nmr_MXPref :: string
  nmr_TTL :: string

definition nmc_Record_of_xml :: "xml \<Rightarrow> nmc_Record" where
  "nmc_Record_of_xml x =
     \<lparr>nmr_Type = xml_attr ''Type'' x, nmr_Name = xml_attr ''Name'' x, nmr_Address = xml_attr ''Address'' x,
      nmr_MXPref = xml_attr ''MXPref'' x, nmr_TTL = xml_attr ''TTL'' x\<rparr>"

record nmc_apiError =
  nme_Number :: int
  nme_Description :: string

definition nmc_apiError_of_xml :: "xml \<Rightarrow> goerror + nmc_apiError" where
  "nmc_apiError_of_xml x =
     (case xml_number (xml_attr ''Number'' x) of
        Inl err \<Rightarrow> Inl err
      | Inr i \<Rightarrow> Inr \<lparr>nme_Number = i, nme_Description = (case x of Element _ _ inner _ \<Rightarrow> inner | CharData _ \<Rightarrow> [])\<rparr>)"

record nmc_setHostsResponse =
  nms_Status :: string
  nms_Errors :: "nmc_apiError list"
  nms_IsSuccess :: string

record nmc_getHostsResponse =
  nmg_Status :: string
  nmg_Errors :: "nmc_apiError list"
  nmg_Hosts :: "nmc_Record list"

definition nmc_setHostsResponse_of_xml :: "xml \<Rightarrow> goerror + nmc_setHostsResponse" where
  "nmc_setHostsResponse_of_xml doc =
     (case xml_root ''ApiResponse'' doc of
        Inl err \<Rightarrow> Inl err
      | Inr x \<Rightarrow>
          (case map_res nmc_apiError_of_xml (xml_at [''Errors'', ''Error''] x) of
             Inl err \<Rightarrow> Inl err
           | Inr errs \<Rightarrow>
               Inr \<lparr>nms_Status = xml_attr ''Status'' x, nms_Errors = errs,
                 nms_IsSuccess = (case rev (xml_at [''CommandResponse'', ''DomainDNSSetHostsResult''] x) of
                   [] \<Rightarrow> [] | y # _ \<Rightarrow> xml_attr ''IsSuccess'' y)\<rparr>))"

definition nmc_getHostsResponse_of_xml :: "xml \<Rightarrow> goerror + nmc_getHostsResponse" where
  "nmc_getHostsResponse_of_xml doc =
     (case xml_root ''ApiResponse'' doc of
        Inl err \<Rightarrow> Inl err
      | Inr x \<Rightarrow>
          (case map_res nmc_apiError_of_xml (xml_at [''Errors'', ''Error''] x) of
             Inl err \<Rightarrow> Inl err
           | Inr errs \<Rightarrow>
               Inr \<lparr>nmg_Status = xml_attr ''Status'' x, nmg_Errors = errs,
                 nmg_Hosts = map nmc_Record_of_xml (xml_at [''CommandResponse'', ''DomainDNSGetHostsResult'', ''host''] x)\<rparr>))"

section \<open>The client\<close>

definition namecheap_addParam :: "string \<Rightarrow> string \<Rightarrow> url_values \<Rightarrow> url_values" where
  "namecheap_addParam key value values = Values_Set key value values"

definition namecheap_makeQuery :: "namecheap \<Rightarrow> string \<Rightarrow> (url_values \<Rightarrow> url_values) list \<Rightarrow> url_values" where
  "namecheap_makeQuery d cmd params =
     fold (\<lambda>param. param) params (Values_Sets [(''ApiUser'', nmc_APIUser (nmc_config d)), (''ApiKey'', nmc_APIKey (nmc_config d)),
       (''UserName'', nmc_APIUser (nmc_config d)), (''Command'', cmd), (''ClientIp'', nmc_ClientIP (nmc_config d))] [])"

definition namecheap_newRequestGet ::
  "env \<Rightarrow> namecheap \<Rightarrow> string \<Rightarrow> (url_values \<Rightarrow> url_values) list \<Rightarrow> goerror + http_request" where
  "namecheap_newRequestGet e d cmd params =
     (case url_Parse (nmc_BaseURL (nmc_config d)) of
        Inl err \<Rightarrow> Inl err
      | Inr reqURL \<Rightarrow>
          NewRequest e ''GET'' (url_String (reqURL\<lparr>url_RawQuery := Values_Encode (namecheap_makeQuery d cmd params)\<rparr>)) None)"

definition namecheap_newRequestPost ::
  "env \<Rightarrow> namecheap \<Rightarrow> string \<Rightarrow> (url_values \<Rightarrow> url_values) list \<Rightarrow> goerror + http_request" where
  "namecheap_newRequestPost e d cmd params =
     map_sum (\<lambda>err. err) (Header_Set ''Content-Type'' ''application/x-www-form-urlencoded'')
       (NewRequest e ''POST'' (nmc_BaseURL (nmc_config d)) (Some (Values_Encode (namecheap_makeQuery d cmd params))))"

text \<open>A reply always has a body.\<close>

definition namecheap_do ::
  "env \<Rightarrow> goerror + http_request \<Rightarrow> (xml \<Rightarrow> goerror + 'a) \<Rightarrow> (world, goerror + 'a) go" where
  "namecheap_do e request dec =
     (case request of
        Inl err \<Rightarrow> ret (Inl err)
      | Inr req \<Rightarrow>
          check (http_do e req) (\<lambda>resp.
            let code = resp_StatusCode resp in
            if 400 \<le> code then
              let prefix = ''HTTP error '' @ show_int code @ '' ['' @ StatusText code @ '']: '' in
              ret (Inl (case resp_Body resp of Inl err \<Rightarrow> Wrap prefix err | Inr body \<Rightarrow> Err (prefix @ body)))
            else
              ret (case resp_Body resp of Inl err \<Rightarrow> Inl err | Inr body \<Rightarrow> xml_Unmarshal e dec body)))"

definition nmc_api_error :: "nmc_apiError \<Rightarrow> goerror" where
  "nmc_api_error a = Err (nme_Description a @ '' ['' @ show_int (nme_Number a) @ '']'')"

definition namecheap_getHosts :: "env \<Rightarrow> namecheap \<Rightarrow> string \<Rightarrow> string \<Rightarrow> (world, goerror + nmc_Record list) go" where
  "namecheap_getHosts e d sld tld =
     check (namecheap_do e (namecheap_newRequestGet e d ''namecheap.domains.dns.getHosts''
         [namecheap_addParam ''SLD'' sld, namecheap_addParam ''TLD'' tld]) nmc_getHostsResponse_of_xml) (\<lambda>ghr.
       case nmg_Errors ghr of a # _ \<Rightarrow> ret (Inl (nmc_api_error a)) | [] \<Rightarrow> ret (Inr (nmg_Hosts ghr)))"

text \<open>The parameters of the records, numbered from one.\<close>

definition nmc_host_params :: "nmc_Record list \<Rightarrow> (string \<times> string) list" where
  "nmc_host_params hosts =
     concat (map (\<lambda>(i, h). let ind = show_nat (i + 1) in
       [(''HostName'' @ ind, nmr_Name h), (''RecordType'' @ ind, nmr_Type h), (''Address'' @ ind, nmr_Address h),
        (''MXPref'' @ ind, nmr_MXPref h), (''TTL'' @ ind, nmr_TTL h)]) (enumerate 0 hosts))"

definition namecheap_setHosts ::
  "env \<Rightarrow> namecheap \<Rightarrow> string \<Rightarrow> string \<Rightarrow> nmc_Record list \<Rightarrow> (world, goerror + unit) go" where
  "namecheap_setHosts e d sld tld hosts =
     check (namecheap_do e (namecheap_newRequestPost e d ''namecheap.domains.dns.setHosts''
         [namecheap_addParam ''SLD'' sld, namecheap_addParam ''TLD'' tld, Values_Adds (nmc_host_params hosts)])
         nmc_setHostsResponse_of_xml) (\<lambda>shr.
       case nms_Errors shr of
         a # _ \<Rightarrow> ret (Inl (nmc_api_error a))
       | [] \<Rightarrow> if nms_IsSuccess shr \<noteq> ''true'' then ret (Inl (Err ''setHosts failed'')) else ret (Inr ()))"

section \<open>The provider\<close>

record nmc_challenge =
  nmh_domain :: string
  nmh_key :: string
  nmh_keyFqdn :: string
  nmh_keyValue :: string
  nmh_tld :: string
  nmh_sld :: string
  nmh_host :: string

definition namecheap_newChallenge :: "env \<Rightarrow> string \<Rightarrow> string \<Rightarrow> (world, goerror + nmc_challenge) go" where
  "namecheap_newChallenge e name keyAuth =
     (let domain = UnFqdn name; tld = publicSuffix e domain in
      if tld = domain then ret (Inl (Err (''invalid domain name '' @ Quote domain)))
      else
        let parts = split_on (CHR ''.'') domain;
            longest = int (length parts) - int (count_list tld (CHR ''.'')) - 1 in
        if longest < 1 \<or> int (length parts) < longest then panic ''index out of range''
        else
          let sld = parts ! nat (longest - 1); host = Join (take (nat (longest - 1)) parts) ''.'' in
          bind (GetRecord e domain keyAuth) (\<lambda>(fqdn, value).
            ret (Inr \<lparr>nmh_domain = domain, nmh_key = ''_acme-challenge.'' @ host, nmh_keyFqdn = fqdn, nmh_keyValue = value,
              nmh_tld = tld, nmh_sld = sld, nmh_host = host\<rparr>)))"

definition namecheap_Present :: "env \<Rightarrow> namecheap \<Rightarrow> string \<Rightarrow> string \<Rightarrow> string \<Rightarrow> (world, goerror option) go" where
  "namecheap_Present e d domain token keyAuth =
     try_or ''namecheap: '' (namecheap_newChallenge e domain keyAuth) (\<lambda>ch.
       try_or ''namecheap: '' (namecheap_getHosts e d (nmh_sld ch) (nmh_tld ch)) (\<lambda>records.
         let record = \<lparr>nmr_Type = ''TXT'', nmr_Name = nmh_key ch, nmr_Address = nmh_keyValue ch, nmr_MXPref = ''10'',
               nmr_TTL = show_int (hcf_TTL (nmc_config d))\<rparr> in
         try_or ''namecheap: '' (namecheap_setHosts e d (nmh_sld ch) (nmh_tld ch) (records @ [record])) (\<lambda>_. ret None)))"

text \<open>The records that are not for the challenge.\<close>

definition nmc_others :: "nmc_challenge \<Rightarrow> nmc_Record list \<Rightarrow> nmc_Record list" where
  "nmc_others ch records = filter (\<lambda>h. \<not> (nmr_Name h = nmh_key ch \<and> nmr_Type h = ''TXT'')) records"

definition namecheap_CleanUp :: "env \<Rightarrow> namecheap \<Rightarrow> string \<Rightarrow> string \<Rightarrow> string \<Rightarrow> (world, goerror option) go" where
  "namecheap_CleanUp e d domain token keyAuth =
     try_or ''namecheap: '' (namecheap_newChallenge e domain keyAuth) (\<lambda>ch.
       try_or ''namecheap: '' (namecheap_getHosts e d (nmh_sld ch) (nmh_tld ch)) (\<lambda>records.
         if \<not> list_ex (\<lambda>h. nmr_Name h = nmh_key ch \<and> nmr_Type h = ''TXT'') records then ret None
         else try_or ''namecheap: '' (namecheap_setHosts e d (nmh_sld ch) (nmh_tld ch) (nmc_others ch records)) (\<lambda>_. ret None)))"

definition namecheap_Timeout :: "namecheap \<Rightarrow> int \<times> int" where
  "namecheap_Timeout d = (hcf_PropagationTimeout (nmc_config d), hcf_PollingInterval (nmc_config d))"

definition namecheap_provider :: "env \<Rightarrow> namecheap \<Rightarrow> provider" where
  "namecheap_provider e d =
     \<lparr>prov_Present = namecheap_Present e d, prov_CleanUp = namecheap_CleanUp e d,
      prov_Timeout = Some (namecheap_Timeout d), prov_Sequential = None\<rparr>"

section \<open>The provider keeps its contract\<close>

lemma namecheap_newRequest_body:
  "namecheap_newRequestGet e d cmd params = Inr req \<Longrightarrow> req_Body req = NoBody"
  "namecheap_newRequestPost e d cmd params = Inr req \<Longrightarrow>
   req_Body req = RawBody (Values_Encode (namecheap_makeQuery d cmd params))"
  by (auto simp: namecheap_newRequestGet_def namecheap_newRequestPost_def map_sum_eq_Inr NewRequest_Inr split: sum.splits)

context plain_invariant
begin

lemma always_namecheap_do:
  "(\<And>req m. request = Inr req \<Longrightarrow> req_Body req \<noteq> JoseBody m) \<Longrightarrow> always R (namecheap_do e request dec)"
  unfolding namecheap_do_def Let_def by (intro always_intros always_plain_http) simp_all

lemma always_namecheap [always_intros]:
  "always R (namecheap_getHosts e d sld tld)" "always R (namecheap_setHosts e d sld tld hosts)"
  "always R (namecheap_newChallenge e domain keyAuth)"
  unfolding namecheap_getHosts_def namecheap_setHosts_def namecheap_newChallenge_def Let_def
  by (intro always_intros always_namecheap_do; auto dest: namecheap_newRequest_body)+

lemma always_namecheap_NewDNSProvider: "always R (namecheap_NewDNSProvider e)"
  unfolding namecheap_NewDNSProvider_def namecheap_NewDNSProviderConfig_def namecheap_getClientIP_def by (intro always_intros)

lemma namecheap_keeps: "provider_keeps R (namecheap_provider e d)"
  unfolding namecheap_provider_def
  by (rule provider_keepsI; unfold namecheap_Present_def namecheap_CleanUp_def Let_def; intro always_intros)

end

definition namecheap_accepts :: "env \<Rightarrow> http_response \<Rightarrow> bool" where
  "namecheap_accepts e resp \<longleftrightarrow> resp_StatusCode resp < 400
     \<and> (\<exists>body r. resp_Body resp = Inr body \<and> xml_Unmarshal e nmc_setHostsResponse_of_xml body = Inr r
        \<and> nms_Errors r = [] \<and> nms_IsSuccess r = ''true'')"

lemma namecheap_do_run:
  assumes "namecheap_do e request dec s = (Return (Inr r), t)"
  obtains req resp body where "request = Inr req" "happened s t (EvHttp req (Inr resp))" "resp_StatusCode resp < 400"
    "resp_Body resp = Inr body" "xml_Unmarshal e dec body = Inr r"
proof -
  obtain req resp where run: "request = Inr req" "http_do e req s = (Return (Inr resp), t)" "resp_StatusCode resp < 400"
    and read: "(case resp_Body resp of Inl err \<Rightarrow> Inl err | Inr body \<Rightarrow> xml_Unmarshal e dec body) = Inr r"
    using assms unfolding namecheap_do_def Let_def by (auto simp: host_runs run_cases)
  from read show thesis using that [OF run(1) happened_http [OF run(2)] run(3)] by (cases "resp_Body resp") auto
qed

text \<open>The records that are written are those that were handed over, and the service said so.\<close>

lemma namecheap_setHosts_run:
  assumes "namecheap_setHosts e d sld tld hosts s = (Return (Inr u), t)"
  obtains req resp where "happened s t (EvHttp req (Inr resp))" "namecheap_accepts e resp"
    "req_Body req = RawBody (Values_Encode (namecheap_makeQuery d ''namecheap.domains.dns.setHosts''
       [namecheap_addParam ''SLD'' sld, namecheap_addParam ''TLD'' tld, Values_Adds (nmc_host_params hosts)]))"
proof -
  let ?params = "[namecheap_addParam ''SLD'' sld, namecheap_addParam ''TLD'' tld, Values_Adds (nmc_host_params hosts)]"
  obtain shr u where run: "namecheap_do e (namecheap_newRequestPost e d ''namecheap.domains.dns.setHosts'' ?params)
      nmc_setHostsResponse_of_xml s = (Return (Inr shr), u)"
    and rest: "(case nms_Errors shr of a # _ \<Rightarrow> ret (Inl (nmc_api_error a))
      | [] \<Rightarrow> if nms_IsSuccess shr \<noteq> ''true'' then ret (Inl (Err ''setHosts failed'')) else ret (Inr ())) u = (Return (Inr ()), t)"
    using assms unfolding namecheap_setHosts_def by (auto simp: host_runs)
  have "nms_Errors shr = []" "nms_IsSuccess shr = ''true''" "u = t"
    using rest by (cases "nms_Errors shr"; auto simp: host_runs run_cases)+
  with run show thesis
    using that namecheap_newRequest_body(2) unfolding namecheap_accepts_def by (elim namecheap_do_run) blast
qed

text \<open>The value of a record is one of the parameters.\<close>

lemma nmc_host_params_last: "(''Address'' @ show_nat (length hosts + 1), nmr_Address h) \<in> set (nmc_host_params (hosts @ [h]))"
  by (simp add: nmc_host_params_def enumerate_append_eq Let_def)

lemma namecheap_makeQuery_value:
  assumes "(k, v) \<in> set ps"
  shows "\<exists>a b. Values_Encode (namecheap_makeQuery d cmd [namecheap_addParam k1 v1, namecheap_addParam k2 v2, Values_Adds ps])
    = a @ QueryEscape v @ b"
proof -
  let ?vs = "namecheap_makeQuery d cmd [namecheap_addParam k1 v1, namecheap_addParam k2 v2]"
  have "distinct (map fst ?vs)" unfolding namecheap_makeQuery_def namecheap_addParam_def
    by (simp add: Values_Sets_def Values_Set_def distinct_map_filter)
  then have "has_value (Values_Adds ps ?vs) k v" using assms by (intro has_value_Adds) simp_all
  then show ?thesis using Values_Encode_value by (fastforce simp: has_value_def namecheap_makeQuery_def)
qed

lemma namecheap_newChallenge_value:
  "namecheap_newChallenge e domain keyAuth s = (Return (Inr ch), t) \<Longrightarrow> nmh_keyValue ch = record_value e keyAuth"
  unfolding namecheap_newChallenge_def Let_def
  by (auto simp: host_runs run_cases dest: GetRecord_value)

lemma namecheap_setHosts_sent:
  assumes "nmr_Address h = record_value e keyAuth"
  shows "ensures is_ok (delivered e (record_value e keyAuth) (answered (namecheap_accepts e)))
    (namecheap_setHosts e d sld tld (hosts @ [h]))"
  unfolding ensures_def
proof (intro allI impI)
  fix s x t
  assume "namecheap_setHosts e d sld tld (hosts @ [h]) s = (Return x, t)" and "is_ok x"
  then obtain req resp where sent: "happened s t (EvHttp req (Inr resp))" "namecheap_accepts e resp"
    and body: "req_Body req = RawBody (Values_Encode (namecheap_makeQuery d ''namecheap.domains.dns.setHosts''
       [namecheap_addParam ''SLD'' sld, namecheap_addParam ''TLD'' tld, Values_Adds (nmc_host_params (hosts @ [h]))]))"
    by (cases x) (auto elim: namecheap_setHosts_run)
  have "carries e (record_value e keyAuth) req"
    using body namecheap_makeQuery_value [OF nmc_host_params_last] assms by (metis QueryEscape_record_value carries_body)
  with sent show "\<exists>ev. happened s t ev \<and> delivered e (record_value e keyAuth) (answered (namecheap_accepts e)) ev"
    by (intro exI [of _ "EvHttp req (Inr resp)"]) simp
qed

lemma namecheap_Present_sent:
  "ensures is_nil (delivered e (record_value e keyAuth) (answered (namecheap_accepts e)))
     (namecheap_Present e d domain token keyAuth)"
  unfolding namecheap_Present_def Let_def
  by (intro ensures_try_either [OF growing.always_namecheap(3)] ensures_try_later [OF growing.always_namecheap(1)]
      ensures_try_first namecheap_setHosts_sent growing.always_namecheap always_intros growing.always_try_or)
    (simp add: namecheap_newChallenge_value)

interpretation namecheap: hosting e "namecheap_provider e d" "answered (namecheap_accepts e)" for e d
  by (rule hostingI [OF outsider.namecheap_keeps]) (simp add: namecheap_Present_sent namecheap_provider_def)

end
