(* ===== verification/Netcup.thy ===== *)
theory Netcup
  imports Hosting
begin

text \<open>
  Package \<^verbatim>\<open>providers/dns/netcup\<close> with its client.  Every request is a POST of an action with its parameters; a
  reply counts as a success by its status member.  A session is opened for every change and closed by a
  deferred call, whose error is only logged.
\<close>

definition netcup_defaultBaseURL :: string where
  "netcup_defaultBaseURL = ''https://ccp.netcup.net/run/webservice/servers/endpoint.php?JSON''"
definition netcup_success :: string where "netcup_success = ''success''"

record netcup_config = ttl_config +
  nc_Key :: string
  nc_Password :: string
  nc_Customer :: string

definition netcup_NewDefaultConfig :: "env \<Rightarrow> netcup_config" where
  "netcup_NewDefaultConfig e =
     \<lparr>hcf_PropagationTimeout = GetOrDefaultSecond e ''NETCUP_PROPAGATION_TIMEOUT'' (120 * Second),
      hcf_PollingInterval = GetOrDefaultSecond e ''NETCUP_POLLING_INTERVAL'' (5 * Second),
      hcf_HTTPTimeout = GetOrDefaultSecond e ''NETCUP_HTTP_TIMEOUT'' (10 * Second),
      hcf_TTL = GetOrDefaultInt e ''NETCUP_TTL'' (int DefaultTTL),
      nc_Key = [], nc_Password = [], nc_Customer = []\<rparr>"

text \<open>The client; its HTTP client is the one of the configuration.\<close>

record netcup_client =
  ncc_customerNumber :: string
  ncc_apiKey :: string
  ncc_apiPassword :: string
  ncc_BaseURL :: string

definition netcup_NewClient :: "string \<Rightarrow> string \<Rightarrow> string \<Rightarrow> goerror + netcup_client" where
  "netcup_NewClient customerNumber apiKey apiPassword =
     (if customerNumber = [] \<or> apiKey = [] \<or> apiPassword = [] then Inl (Err ''credentials missing'')
      else Inr \<lparr>ncc_customerNumber = customerNumber, ncc_apiKey = apiKey, ncc_apiPassword = apiPassword,
        ncc_BaseURL = netcup_defaultBaseURL\<rparr>)"

record netcup =
  nc_client :: netcup_client
  nc_config :: netcup_config

definition netcup_NewDNSProviderConfig :: "netcup_config option \<Rightarrow> goerror + netcup" where
  "netcup_NewDNSProviderConfig config =
     (case config of
        None \<Rightarrow> Inl (nil_config ''netcup'')
      | Some c \<Rightarrow>
          (case netcup_NewClient (nc_Customer c) (nc_Key c) (nc_Password c) of
             Inl err \<Rightarrow> Inl (Wrap ''netcup: '' err)
           | Inr client \<Rightarrow> Inr \<lparr>nc_client = client, nc_config = c\<rparr>))"

definition netcup_NewDNSProvider :: "env \<Rightarrow> goerror + netcup" where
  "netcup_NewDNSProvider e =
     (case env_Get e [''NETCUP_CUSTOMER_NUMBER'', ''NETCUP_API_KEY'', ''NETCUP_API_PASSWORD''] of
        Inl err \<Rightarrow> Inl (Wrap ''netcup: '' err)
      | Inr values \<Rightarrow>
          netcup_NewDNSProviderConfig (Some ((netcup_NewDefaultConfig e)
            \<lparr>nc_Customer := env_value values ''NETCUP_CUSTOMER_NUMBER'', nc_Key := env_value values ''NETCUP_API_KEY'',
             nc_Password := env_value values ''NETCUP_API_PASSWORD''\<rparr>)))"

section \<open>Messages\<close>

definition nc_Request_json :: "string \<Rightarrow> json \<Rightarrow> json" where
  "nc_Request_json action param = JObj [(''action'', JStr action), (''param'', param)]"

text \<open>The parameters; the empty \<^verbatim>\<open>ClientRequestID\<close> is left out.\<close>

definition nc_LoginRequest_json :: "netcup_client \<Rightarrow> json" where
  "nc_LoginRequest_json c =
     JObj [(''customernumber'', JStr (ncc_customerNumber c)), (''apikey'', JStr (ncc_apiKey c)),
       (''apipassword'', JStr (ncc_apiPassword c))]"

definition nc_LogoutRequest_json :: "netcup_client \<Rightarrow> string \<Rightarrow> json" where
  "nc_LogoutRequest_json c sessionID =
     JObj [(''customernumber'', JStr (ncc_customerNumber c)), (''apikey'', JStr (ncc_apiKey c)),
       (''apisessionid'', JStr sessionID)]"

definition nc_InfoDNSRecordsRequest_json :: "netcup_client \<Rightarrow> string \<Rightarrow> string \<Rightarrow> json" where
  "nc_InfoDNSRecordsRequest_json c domainName sessionID =
     JObj [(''domainname'', JStr domainName), (''customernumber'', JStr (ncc_customerNumber c)),
       (''apikey'', JStr (ncc_apiKey c)), (''apisessionid'', JStr sessionID)]"

record nc_DNSRecord =
  ncr_ID :: int
  ncr_Hostname :: string
  ncr_RecordType :: string
  ncr_Priority :: string
  ncr_Destination :: string
  ncr_DeleteRecord :: bool
  ncr_State :: string
  ncr_TTL :: int

definition zero_nc_DNSRecord :: nc_DNSRecord where
  "zero_nc_DNSRecord = \<lparr>ncr_ID = 0, ncr_Hostname = [], ncr_RecordType = [], ncr_Priority = [], ncr_Destination = [],
     ncr_DeleteRecord = False, ncr_State = [], ncr_TTL = 0\<rparr>"

definition nc_DNSRecord_json :: "nc_DNSRecord \<Rightarrow> json" where
  "nc_DNSRecord_json r =
     JObj ((if ncr_ID r = 0 then [] else [(''id'', JStr (show_int (ncr_ID r)))])
       @ [(''hostname'', JStr (ncr_Hostname r)), (''type'', JStr (ncr_RecordType r))]
       @ omit_str ''priority'' (ncr_Priority r) @ [(''destination'', JStr (ncr_Destination r))]
       @ omit_bool ''deleterecord'' (ncr_DeleteRecord r) @ omit_str ''state'' (ncr_State r)
       @ omit_int ''ttl'' (ncr_TTL r))"

definition nc_DNSRecord_of_json :: "json \<Rightarrow> goerror + nc_DNSRecord" where
  "nc_DNSRecord_of_json = decode_struct (\<lambda>k v r.
     if k = ''id'' then set_int_string v (\<lambda>i. r\<lparr>ncr_ID := i\<rparr>) r
     else if k = ''hostname'' then set_str v (\<lambda>s. r\<lparr>ncr_Hostname := s\<rparr>) r
     else if k = ''type'' then set_str v (\<lambda>s. r\<lparr>ncr_RecordType := s\<rparr>) r
     else if k = ''priority'' then set_str v (\<lambda>s. r\<lparr>ncr_Priority := s\<rparr>) r
     else if k = ''destination'' then set_str v (\<lambda>s. r\<lparr>ncr_Destination := s\<rparr>) r
     else if k = ''deleterecord'' then set_bool v (\<lambda>b. r\<lparr>ncr_DeleteRecord := b\<rparr>) r
     else if k = ''state'' then set_str v (\<lambda>s. r\<lparr>ncr_State := s\<rparr>) r
     else if k = ''ttl'' then set_int v (\<lambda>i. r\<lparr>ncr_TTL := i\<rparr>) r
     else Inr r) zero_nc_DNSRecord"

text \<open>A nil slice of records is written as \<^verbatim>\<open>null\<close>.\<close>

definition nc_DNSRecordSet_json :: "nc_DNSRecord list \<Rightarrow> json" where
  "nc_DNSRecordSet_json rs =
     JObj [(''dnsrecords'', if rs = [] then JNull else JArr (map nc_DNSRecord_json rs))]"

definition nc_UpdateDNSRecordsRequest_json :: "netcup_client \<Rightarrow> string \<Rightarrow> string \<Rightarrow> nc_DNSRecord list \<Rightarrow> json" where
  "nc_UpdateDNSRecordsRequest_json c domainName sessionID records =
     JObj [(''domainname'', JStr domainName), (''customernumber'', JStr (ncc_customerNumber c)),
       (''apikey'', JStr (ncc_apiKey c)), (''apisessionid'', JStr sessionID),
       (''dnsrecordset'', nc_DNSRecordSet_json records)]"

record nc_ResponseMsg =
  ncm_Action :: string
  ncm_Status :: string
  ncm_StatusCode :: int
  ncm_ShortMessage :: string
  ncm_LongMessage :: string
  ncm_ResponseData :: "json option"

definition nc_ResponseMsg_of_json :: "json \<Rightarrow> goerror + nc_ResponseMsg" where
  "nc_ResponseMsg_of_json = decode_struct (\<lambda>k v m.
     if k = ''serverrequestid'' \<or> k = ''clientrequestid'' then set_str v (\<lambda>_. m) m
     else if k = ''action'' then set_str v (\<lambda>s. m\<lparr>ncm_Action := s\<rparr>) m
     else if k = ''status'' then set_str v (\<lambda>s. m\<lparr>ncm_Status := s\<rparr>) m
     else if k = ''statuscode'' then set_int v (\<lambda>i. m\<lparr>ncm_StatusCode := i\<rparr>) m
     else if k = ''shortmessage'' then set_str v (\<lambda>s. m\<lparr>ncm_ShortMessage := s\<rparr>) m
     else if k = ''longmessage'' then set_str v (\<lambda>s. m\<lparr>ncm_LongMessage := s\<rparr>) m
     else if k = ''responsedata'' then Inr (m\<lparr>ncm_ResponseData := Some v\<rparr>)
     else Inr m) \<lparr>ncm_Action = [], ncm_Status = [], ncm_StatusCode = 0, ncm_ShortMessage = [], ncm_LongMessage = [],
       ncm_ResponseData = None\<rparr>"

definition nc_ResponseMsg_Error :: "nc_ResponseMsg \<Rightarrow> string" where
  "nc_ResponseMsg_Error r =
     ''an error occurred during the action '' @ ncm_Action r @ '': [Status='' @ ncm_Status r @ '', StatusCode=''
     @ show_int (ncm_StatusCode r) @ '', ShortMessage='' @ ncm_ShortMessage r @ '', LongMessage='' @ ncm_LongMessage r @ '']''"

definition nc_LoginResponse_of_json :: "json \<Rightarrow> goerror + string" where
  "nc_LoginResponse_of_json = decode_struct (\<lambda>k v i.
     if k = ''apisessionid'' then set_str v (\<lambda>s. s) i else Inr i) []"

definition nc_InfoDNSRecordsResponse_of_json :: "json \<Rightarrow> goerror + nc_DNSRecord list" where
  "nc_InfoDNSRecordsResponse_of_json = decode_struct (\<lambda>k v rs.
     if k = ''apisessionid'' then set_str v (\<lambda>_. rs) rs
     else if k = ''dnsrecords'' then set_list nc_DNSRecord_of_json v (\<lambda>l. l)
     else Inr rs) []"

section \<open>The client\<close>

definition netcup_checkResponse :: "http_response \<Rightarrow> goerror option" where
  "netcup_checkResponse resp =
     (let code = show_int (resp_StatusCode resp) in
      if resp_StatusCode resp > 299 then
        (case resp_Body resp of
           Inl err \<Rightarrow> Some (Wrap (''unable to read body: status code='' @ code @ '', error='') err)
         | Inr raw \<Rightarrow> Some (Err (''status code='' @ code @ '': '' @ raw)))
      else None)"

definition netcup_decodeResponseMsg :: "env \<Rightarrow> http_response \<Rightarrow> goerror + nc_ResponseMsg" where
  "netcup_decodeResponseMsg e resp =
     (let code = show_int (resp_StatusCode resp) in
      case resp_Body resp of
        Inl err \<Rightarrow> Inl (Wrap (''unable to read body: status code='' @ code @ '', error='') err)
      | Inr raw \<Rightarrow>
          (case Unmarshal e nc_ResponseMsg_of_json raw of
             Inl err \<Rightarrow> Inl (Wrap (''unmarshaling internal.ResponseMsg error [status code='' @ code @ '']: '')
               (err_then err ('': '' @ raw)))
           | Inr m \<Rightarrow> Inr m))"

text \<open>
  \<open>nothing\<close> is the result when no data of the reply is decoded, as in \<open>sendRequest\<close>.  The data that fails to
  decode is quoted in the error; its text is that of the printed value.
\<close>

definition netcup_doRequest ::
  "env \<Rightarrow> netcup_client \<Rightarrow> json \<Rightarrow> string \<Rightarrow> (json \<Rightarrow> goerror + 'a) \<Rightarrow> 'a option \<Rightarrow> (world, goerror + 'a) go" where
  "netcup_doRequest e c payload typ dec nothing =
     check (send e ''POST'' (ncc_BaseURL c) (Some (jsonPrint e payload)) (Header_Set ''content-type'' ''application/json''))
       (\<lambda>resp.
         case netcup_checkResponse resp of
           Some err \<Rightarrow> ret (Inl err)
         | None \<Rightarrow>
             (case netcup_decodeResponseMsg e resp of
                Inl err \<Rightarrow> ret (Inl err)
              | Inr respMsg \<Rightarrow>
                  if ncm_Status respMsg \<noteq> netcup_success then ret (Inl (Err (nc_ResponseMsg_Error respMsg)))
                  else
                    (case nothing of
                       Some x \<Rightarrow> ret (Inr x)
                     | None \<Rightarrow>
                         (case unmarshal_raw dec (ncm_ResponseData respMsg) of
                            Inl err \<Rightarrow> ret (Inl (Wrap (nc_ResponseMsg_Error respMsg @ '': unmarshaling *internal.'' @ typ @ '' error: '')
                              (err_then err ('': '' @ (case ncm_ResponseData respMsg of None \<Rightarrow> [] | Some j \<Rightarrow> jsonPrint e j)))))
                          | Inr x \<Rightarrow> ret (Inr x)))))"

definition netcup_Login :: "env \<Rightarrow> netcup_client \<Rightarrow> (world, goerror + string) go" where
  "netcup_Login e c =
     wrap_res ''loging error: '' (netcup_doRequest e c (nc_Request_json ''login'' (nc_LoginRequest_json c))
       ''LoginResponse'' nc_LoginResponse_of_json None)"

definition netcup_Logout :: "env \<Rightarrow> netcup_client \<Rightarrow> string \<Rightarrow> (world, goerror + unit) go" where
  "netcup_Logout e c sessionID =
     wrap_res ''logout error: '' (netcup_doRequest e c (nc_Request_json ''logout'' (nc_LogoutRequest_json c sessionID))
       [] (\<lambda>_. Inr ()) (Some ()))"

definition netcup_UpdateDNSRecord ::
  "env \<Rightarrow> netcup_client \<Rightarrow> string \<Rightarrow> string \<Rightarrow> nc_DNSRecord list \<Rightarrow> (world, goerror + unit) go" where
  "netcup_UpdateDNSRecord e c sessionID domainName records =
     wrap_res ''error when sending the request: '' (netcup_doRequest e c
       (nc_Request_json ''updateDnsRecords'' (nc_UpdateDNSRecordsRequest_json c domainName sessionID records))
       [] (\<lambda>_. Inr ()) (Some ()))"

definition netcup_GetDNSRecords ::
  "env \<Rightarrow> netcup_client \<Rightarrow> string \<Rightarrow> string \<Rightarrow> (world, goerror + nc_DNSRecord list) go" where
  "netcup_GetDNSRecords e c hostname apiSessionID =
     wrap_res ''error when sending the request: '' (netcup_doRequest e c
       (nc_Request_json ''infoDnsRecords'' (nc_InfoDNSRecordsRequest_json c hostname apiSessionID))
       ''InfoDNSRecordsResponse'' nc_InfoDNSRecordsResponse_of_json None)"

text \<open>The record that is looked for; the name is not compared.\<close>

definition netcup_GetDNSRecordIdx :: "nc_DNSRecord list \<Rightarrow> nc_DNSRecord \<Rightarrow> goerror + nat" where
  "netcup_GetDNSRecordIdx records record =
     (case find (\<lambda>i. ncr_Destination record = ncr_Destination (records ! i)
              \<and> ncr_RecordType record = ncr_RecordType (records ! i)) [0..<length records] of
        Some i \<Rightarrow> Inr i
      | None \<Rightarrow> Inl (Err ''no DNS Record found''))"

section \<open>The provider\<close>

text \<open>The beginning of both operations: zone and session, which is closed at the end.\<close>

definition nc_in_session ::
  "env \<Rightarrow> netcup \<Rightarrow> string \<Rightarrow> (string \<Rightarrow> string \<Rightarrow> (world, goerror option) go) \<Rightarrow> (world, goerror option) go" where
  "nc_in_session e d fqdn k =
     try_or ''netcup: failed to find DNSZone, '' (FindZoneByFqdn e fqdn) (\<lambda>zone.
       try_or ''netcup: '' (netcup_Login e (nc_client d)) (\<lambda>sessionID.
         deferring (k zone sessionID) (bind (netcup_Logout e (nc_client d) sessionID) (\<lambda>_. ret ()))))"

definition netcup_Present :: "env \<Rightarrow> netcup \<Rightarrow> string \<Rightarrow> string \<Rightarrow> string \<Rightarrow> (world, goerror option) go" where
  "netcup_Present e d domainName token keyAuth =
     bind (GetRecord e domainName keyAuth) (\<lambda>(fqdn, value).
       nc_in_session e d fqdn (\<lambda>zone sessionID.
         let hostname = replace_first fqdn (''.'' @ zone) [];
             record = zero_nc_DNSRecord\<lparr>ncr_Hostname := hostname, ncr_RecordType := ''TXT'', ncr_Destination := value,
               ncr_TTL := hcf_TTL (nc_config d)\<rparr> in
         bind (netcup_GetDNSRecords e (nc_client d) (UnFqdn zone) sessionID) (\<lambda>r.
           let records = (case r of Inl _ \<Rightarrow> [] | Inr rs \<Rightarrow> rs) in
           try_or ''netcup: failed to add TXT-Record: ''
             (netcup_UpdateDNSRecord e (nc_client d) sessionID (UnFqdn zone) (records @ [record])) (\<lambda>_. ret None))))"

definition netcup_CleanUp :: "env \<Rightarrow> netcup \<Rightarrow> string \<Rightarrow> string \<Rightarrow> string \<Rightarrow> (world, goerror option) go" where
  "netcup_CleanUp e d domainName token keyAuth =
     bind (GetRecord e domainName keyAuth) (\<lambda>(fqdn, value).
       nc_in_session e d fqdn (\<lambda>zone sessionID.
         let hostname = replace_first fqdn (''.'' @ zone) [] in
         try_or ''netcup: '' (netcup_GetDNSRecords e (nc_client d) (UnFqdn zone) sessionID) (\<lambda>records.
           case netcup_GetDNSRecordIdx records (zero_nc_DNSRecord\<lparr>ncr_Hostname := hostname, ncr_RecordType := ''TXT'',
                  ncr_Destination := value\<rparr>) of
             Inl err \<Rightarrow> ret (Some (Wrap ''netcup: '' err))
           | Inr idx \<Rightarrow>
               try_or ''netcup: '' (netcup_UpdateDNSRecord e (nc_client d) sessionID (UnFqdn zone)
                 [(records ! idx)\<lparr>ncr_DeleteRecord := True\<rparr>]) (\<lambda>_. ret None))))"

definition netcup_Timeout :: "netcup \<Rightarrow> int \<times> int" where
  "netcup_Timeout d = (hcf_PropagationTimeout (nc_config d), hcf_PollingInterval (nc_config d))"

definition netcup_provider :: "env \<Rightarrow> netcup \<Rightarrow> provider" where
  "netcup_provider e d =
     \<lparr>prov_Present = netcup_Present e d, prov_CleanUp = netcup_CleanUp e d,
      prov_Timeout = Some (netcup_Timeout d), prov_Sequential = None\<rparr>"

section \<open>The provider keeps its contract\<close>

context lookup_invariant
begin

lemma always_netcup [always_intros]:
  "always R (netcup_Login e c)" "always R (netcup_Logout e c sessionID)"
  "always R (netcup_UpdateDNSRecord e c sessionID domainName records)"
  "always R (netcup_GetDNSRecords e c hostname sessionID)"
  unfolding netcup_Login_def netcup_Logout_def netcup_UpdateDNSRecord_def netcup_GetDNSRecords_def netcup_doRequest_def
  by (intro always_intros; simp)+

end

context plain_invariant
begin

lemma netcup_keeps: "provider_keeps R (netcup_provider e d)"
  unfolding netcup_provider_def
  by (rule provider_keepsI; unfold netcup_Present_def netcup_CleanUp_def nc_in_session_def Let_def; intro always_intros)

end

text \<open>A reply that counts as accepted: a status below 300 and a message of success.\<close>

definition netcup_accepts :: "env \<Rightarrow> http_response \<Rightarrow> bool" where
  "netcup_accepts e resp \<longleftrightarrow> resp_StatusCode resp < 300
     \<and> (\<exists>m. netcup_decodeResponseMsg e resp = Inr m \<and> ncm_Status m = netcup_success)"

lemma netcup_UpdateDNSRecord_sent:
  assumes "v \<in> ncr_Destination ` set records"
  shows "ensures is_ok (delivered e v (answered (netcup_accepts e))) (netcup_UpdateDNSRecord e c sessionID domainName records)"
proof -
  have "v \<in> set (json_strings (nc_Request_json ''updateDnsRecords'' (nc_UpdateDNSRecordsRequest_json c domainName sessionID records)))"
    using assms
    by (auto simp: nc_Request_json_def nc_UpdateDNSRecordsRequest_json_def nc_DNSRecordSet_json_def nc_DNSRecord_json_def)
  then show ?thesis
    unfolding netcup_UpdateDNSRecord_def netcup_doRequest_def
    by (intro ensures_intros always_intros)
      (auto simp: NewRequest_Inr netcup_accepts_def netcup_checkResponse_def Let_def intro!: carries_json
        split: sum.splits if_splits)
qed

lemma netcup_Present_sent:
  "ensures is_nil (delivered e (record_value e keyAuth) (answered (netcup_accepts e))) (netcup_Present e d domainName token keyAuth)"
  unfolding netcup_Present_def nc_in_session_def Let_def
  by (intro ensures_try_first [OF netcup_UpdateDNSRecord_sent] ensures_intros ensures_try_later ensures_later always_intros)
    simp_all

interpretation netcup: hosting e "netcup_provider e d" "answered (netcup_accepts e)" for e d
  by (rule hostingI [OF outsider.netcup_keeps]) (simp add: netcup_Present_sent netcup_provider_def)

end
