(* ===== verification/Nifcloud.thy ===== *)
theory Nifcloud
  imports Xml
begin

text \<open>
  Package \<^verbatim>\<open>providers/dns/nifcloud\<close> with its client.  A change is asked for in XML; then the service is polled until
  the change is everywhere.
\<close>

definition nifcloud_defaultBaseURL :: string where
  "nifcloud_defaultBaseURL = ''https://dns.api.nifcloud.com''"

definition nifcloud_apiVersion :: string where
  "nifcloud_apiVersion = ''2012-12-12N2013-12-16''"

definition nifcloud_XMLNs :: string where
  "nifcloud_XMLNs = ''https://route53.amazonaws.com/doc/2012-12-12/''"

record nifcloud_config = ttl_config +
  nif_BaseURL :: string
  nif_AccessKey :: string
  nif_SecretKey :: string

definition nifcloud_NewDefaultConfig :: "env \<Rightarrow> nifcloud_config" where
  "nifcloud_NewDefaultConfig e =
     \<lparr>hcf_PropagationTimeout = GetOrDefaultSecond e ''NIFCLOUD_PROPAGATION_TIMEOUT'' DefaultPropagationTimeout,
      hcf_PollingInterval = GetOrDefaultSecond e ''NIFCLOUD_POLLING_INTERVAL'' DefaultPollingInterval,
      hcf_HTTPTimeout = GetOrDefaultSecond e ''NIFCLOUD_HTTP_TIMEOUT'' (30 * Second),
      hcf_TTL = GetOrDefaultInt e ''NIFCLOUD_TTL'' (int DefaultTTL),
      nif_BaseURL = [], nif_AccessKey = [], nif_SecretKey = []\<rparr>"

record nifcloud_client =
  nifc_accessKey :: string
  nifc_secretKey :: string
  nifc_BaseURL :: string

definition nifcloud_NewClient :: "string \<Rightarrow> string \<Rightarrow> goerror + nifcloud_client" where
  "nifcloud_NewClient accessKey secretKey =
     (if accessKey = [] \<or> secretKey = [] then Inl (Err ''credentials missing'')
      else Inr \<lparr>nifc_accessKey = accessKey, nifc_secretKey = secretKey, nifc_BaseURL = nifcloud_defaultBaseURL\<rparr>)"

record nifcloud =
  nif_client :: nifcloud_client
  nif_config :: nifcloud_config

definition nifcloud_NewDNSProviderConfig :: "nifcloud_config option \<Rightarrow> goerror + nifcloud" where
  "nifcloud_NewDNSProviderConfig config =
     (case config of
        None \<Rightarrow> Inl (nil_config ''nifcloud'')
      | Some c \<Rightarrow>
          (case nifcloud_NewClient (nif_AccessKey c) (nif_SecretKey c) of
             Inl err \<Rightarrow> Inl (Wrap ''nifcloud: '' err)
           | Inr client \<Rightarrow>
               Inr \<lparr>nif_client = (if nif_BaseURL c \<noteq> [] then client\<lparr>nifc_BaseURL := nif_BaseURL c\<rparr> else client),
                 nif_config = c\<rparr>))"

definition nifcloud_NewDNSProvider :: "env \<Rightarrow> goerror + nifcloud" where
  "nifcloud_NewDNSProvider e =
     (case env_Get e [''NIFCLOUD_ACCESS_KEY_ID'', ''NIFCLOUD_SECRET_ACCESS_KEY''] of
        Inl err \<Rightarrow> Inl (Wrap ''nifcloud: '' err)
      | Inr values \<Rightarrow>
          nifcloud_NewDNSProviderConfig (Some ((nifcloud_NewDefaultConfig e)
            \<lparr>nif_BaseURL := GetOrFile e ''NIFCLOUD_DNS_ENDPOINT'',
             nif_AccessKey := env_value values ''NIFCLOUD_ACCESS_KEY_ID'',
             nif_SecretKey := env_value values ''NIFCLOUD_SECRET_ACCESS_KEY''\<rparr>)))"

section \<open>Messages\<close>

record nif_ResourceRecord =
  nifr_Value :: string

record nif_ResourceRecordSet =
  nifs_Name :: string
  nifs_Type :: string
  nifs_TTL :: int
  nifs_ResourceRecords :: "nif_ResourceRecord list"

record nif_Change =
  nifh_Action :: string
  nifh_ResourceRecordSet :: nif_ResourceRecordSet

record nif_ChangeBatch =
  nifb_Changes :: "nif_Change list"
  nifb_Comment :: string

record nif_ChangeResourceRecordSetsRequest =
  nifq_XMLNs :: string
  nifq_ChangeBatch :: nif_ChangeBatch

abbreviation text_node :: "string \<Rightarrow> string \<Rightarrow> xml_doc" where
  "text_node n s \<equiv> Node n [] [Txt s]"

definition nif_ResourceRecord_xml :: "nif_ResourceRecord \<Rightarrow> xml_doc" where
  "nif_ResourceRecord_xml r = Node ''ResourceRecord'' [] [text_node ''Value'' (nifr_Value r)]"

definition nif_ResourceRecordSet_xml :: "nif_ResourceRecordSet \<Rightarrow> xml_doc" where
  "nif_ResourceRecordSet_xml s =
     Node ''ResourceRecordSet'' [] [text_node ''Name'' (nifs_Name s), text_node ''Type'' (nifs_Type s),
       text_node ''TTL'' (show_int (nifs_TTL s)),
       Node ''ResourceRecords'' [] (map nif_ResourceRecord_xml (nifs_ResourceRecords s))]"

definition nif_Change_xml :: "nif_Change \<Rightarrow> xml_doc" where
  "nif_Change_xml c =
     Node ''Change'' [] [text_node ''Action'' (nifh_Action c), nif_ResourceRecordSet_xml (nifh_ResourceRecordSet c)]"

definition nif_ChangeBatch_xml :: "nif_ChangeBatch \<Rightarrow> xml_doc" where
  "nif_ChangeBatch_xml b =
     Node ''ChangeBatch'' [] [Node ''Changes'' [] (map nif_Change_xml (nifb_Changes b)), text_node ''Comment'' (nifb_Comment b)]"

definition nif_ChangeResourceRecordSetsRequest_xml :: "nif_ChangeResourceRecordSetsRequest \<Rightarrow> xml_doc" where
  "nif_ChangeResourceRecordSetsRequest_xml r =
     Node ''ChangeResourceRecordSetsRequest'' [(''xmlns'', nifq_XMLNs r)] [nif_ChangeBatch_xml (nifq_ChangeBatch r)]"

record nif_ChangeInfo =
  nifi_ID :: string
  nifi_Status :: string
  nifi_SubmittedAt :: string

text \<open>\<^verbatim>\<open>ChangeResourceRecordSetsResponse\<close> and \<^verbatim>\<open>GetChangeResponse\<close>: their only field.\<close>

definition nif_ChangeInfo_of_xml :: "xml \<Rightarrow> goerror + nif_ChangeInfo" where
  "nif_ChangeInfo_of_xml x =
     Inr \<lparr>nifi_ID = xml_string [''ChangeInfo'', ''Id''] x, nifi_Status = xml_string [''ChangeInfo'', ''Status''] x,
       nifi_SubmittedAt = xml_string [''ChangeInfo'', ''SubmittedAt''] x\<rparr>"

record nif_ErrorResponse =
  nife_Type :: string
  nife_Message :: string
  nife_Code :: string
  nife_RequestID :: string

definition nif_ErrorResponse_of_xml :: "xml \<Rightarrow> goerror + nif_ErrorResponse" where
  "nif_ErrorResponse_of_xml x =
     Inr \<lparr>nife_Type = xml_string [''Error'', ''Type''] x, nife_Message = xml_string [''Error'', ''Message''] x,
       nife_Code = xml_string [''Error'', ''Code''] x, nife_RequestID = xml_string [''RequestId''] x\<rparr>"

section \<open>The client\<close>

text \<open>The request is new: it has no header \<^verbatim>\<open>Date\<close> yet.  The time is written in the zone GMT.\<close>

definition nifcloud_sign :: "env \<Rightarrow> nifcloud_client \<Rightarrow> int \<Rightarrow> http_request \<Rightarrow> goerror + http_request" where
  "nifcloud_sign e c now req =
     (case loadLocation e ''GMT'' of
        Some err \<Rightarrow> Inl err
      | None \<Rightarrow>
          let date = timeFormatUTC e ''Mon, 02 Jan 2006 15:04:05 GMT'' now;
              u = parsed (req_URL req);
              rooted = (if url_Path u = [] then req\<lparr>req_URL := url_String (u\<lparr>url_Path := ''/''\<rparr>)\<rparr> else req);
              signature = StdEncoding (hmacSHA1 e (nifc_secretKey c) date) in
          Inr (Header_Set ''X-Nifty-Authorization''
            (''NIFTY3-HTTPS NiftyAccessKeyId='' @ nifc_accessKey c @ '',Algorithm=HmacSHA1,Signature='' @ signature)
            (Header_Set ''Date'' date rooted)))"

definition nif_read :: "env \<Rightarrow> (xml \<Rightarrow> goerror + 'a) \<Rightarrow> http_response \<Rightarrow> goerror + 'a" where
  "nif_read e dec resp = (case resp_Body resp of Inl err \<Rightarrow> Inl err | Inr body \<Rightarrow> xml_Unmarshal e dec body)"

text \<open>Both operations of the client sign the request, send it and read the reply in the same way.\<close>

definition nif_exchange ::
  "env \<Rightarrow> nifcloud_client \<Rightarrow> goerror + http_request \<Rightarrow> (world, goerror + nif_ChangeInfo) go" where
  "nif_exchange e c request =
     (case request of
        Inl err \<Rightarrow> ret (Inl err)
      | Inr req \<Rightarrow>
          bind (gets w_now) (\<lambda>now.
            case nifcloud_sign e c now req of
              Inl err \<Rightarrow> ret (Inl (Wrap ''an error occurred during the creation of the signature: '' err))
            | Inr signed \<Rightarrow>
                check (http_do e signed) (\<lambda>res.
                  if resp_StatusCode res \<noteq> 200 then
                    ret (Inl (case nif_read e nif_ErrorResponse_of_xml res of
                      Inl err \<Rightarrow> Wrap ''an error occurred while unmarshaling the error body to XML: '' err
                    | Inr errResp \<Rightarrow> Err (''an error occurred: '' @ nife_Message errResp)))
                  else
                    ret (map_sum (Wrap ''an error occurred while unmarshaling the response body to XML: '') (\<lambda>x. x)
                      (nif_read e nif_ChangeInfo_of_xml res)))))"

abbreviation xml_Header :: string where
  "xml_Header \<equiv> ''<?xml version='' @ [CHR 0x22] @ ''1.0'' @ [CHR 0x22] @ '' encoding='' @ [CHR 0x22] @ ''UTF-8''
     @ [CHR 0x22] @ ''?>'' @ [CHR 0x0A]"

definition nifcloud_ChangeResourceRecordSets ::
  "env \<Rightarrow> nifcloud_client \<Rightarrow> string \<Rightarrow> nif_ChangeResourceRecordSetsRequest \<Rightarrow> (world, goerror + nif_ChangeInfo) go" where
  "nifcloud_ChangeResourceRecordSets e c hostedZoneID input =
     nif_exchange e c (map_sum (\<lambda>err. err) (Header_Set ''Content-Type'' ''text/xml; charset=utf-8'')
       (NewRequest e ''POST'' (nifc_BaseURL c @ ''/'' @ nifcloud_apiVersion @ ''/hostedzone/'' @ hostedZoneID @ ''/rrset'')
         (Some (xml_Header @ xml_Marshal (nif_ChangeResourceRecordSetsRequest_xml input)))))"

definition nifcloud_GetChange :: "env \<Rightarrow> nifcloud_client \<Rightarrow> string \<Rightarrow> (world, goerror + nif_ChangeInfo) go" where
  "nifcloud_GetChange e c statusID =
     nif_exchange e c (NewRequest e ''GET'' (nifc_BaseURL c @ ''/'' @ nifcloud_apiVersion @ ''/change/'' @ statusID) None)"

section \<open>The provider\<close>

definition nif_params :: "string \<Rightarrow> string \<Rightarrow> string \<Rightarrow> int \<Rightarrow> nif_ChangeResourceRecordSetsRequest" where
  "nif_params action name v ttl =
     \<lparr>nifq_XMLNs = nifcloud_XMLNs,
      nifq_ChangeBatch = \<lparr>nifb_Changes =
        [\<lparr>nifh_Action = action,
          nifh_ResourceRecordSet = \<lparr>nifs_Name = name, nifs_Type = ''TXT'', nifs_TTL = ttl,
            nifs_ResourceRecords = [\<lparr>nifr_Value = v\<rparr>]\<rparr>\<rparr>],
        nifb_Comment = ''Managed by Lego''\<rparr>\<rparr>"

definition nif_poll :: "env \<Rightarrow> nifcloud \<Rightarrow> string \<Rightarrow> unit poll" where
  "nif_poll e d statusID = (\<lambda>_.
     bind (nifcloud_GetChange e (nif_client d) statusID) (\<lambda>r.
       case r of
         Inl err \<Rightarrow> ret ((), False, Some (Wrap ''failed to query NIFCLOUD DNS change status: '' err))
       | Inr info \<Rightarrow> ret ((), nifi_Status info = ''INSYNC'', None)))"

definition nifcloud_changeRecord ::
  "env \<Rightarrow> nifcloud \<Rightarrow> string \<Rightarrow> string \<Rightarrow> string \<Rightarrow> string \<Rightarrow> int \<Rightarrow> (world, goerror option) go" where
  "nifcloud_changeRecord e d action fqdn v domain ttl =
     try_or ''failed to change NIFCLOUD record set: ''
       (nifcloud_ChangeResourceRecordSets e (nif_client d) domain (nif_params action (UnFqdn fqdn) v ttl)) (\<lambda>info.
       bind (For e (120 * Second) (4 * Second) (nif_poll e d (nifi_ID info)) ()) (\<lambda>(_, err). ret err))"

definition nifcloud_Present :: "env \<Rightarrow> nifcloud \<Rightarrow> string \<Rightarrow> string \<Rightarrow> string \<Rightarrow> (world, goerror option) go" where
  "nifcloud_Present e d domain token keyAuth =
     bind (GetRecord e domain keyAuth) (\<lambda>(fqdn, value).
       wrap_err ''nifcloud: '' (nifcloud_changeRecord e d ''CREATE'' fqdn value domain (hcf_TTL (nif_config d))))"

definition nifcloud_CleanUp :: "env \<Rightarrow> nifcloud \<Rightarrow> string \<Rightarrow> string \<Rightarrow> string \<Rightarrow> (world, goerror option) go" where
  "nifcloud_CleanUp e d domain token keyAuth =
     bind (GetRecord e domain keyAuth) (\<lambda>(fqdn, value).
       wrap_err ''nifcloud: '' (nifcloud_changeRecord e d ''DELETE'' fqdn value domain (hcf_TTL (nif_config d))))"

definition nifcloud_Timeout :: "nifcloud \<Rightarrow> int \<times> int" where
  "nifcloud_Timeout d = (hcf_PropagationTimeout (nif_config d), hcf_PollingInterval (nif_config d))"

definition nifcloud_provider :: "env \<Rightarrow> nifcloud \<Rightarrow> provider" where
  "nifcloud_provider e d =
     \<lparr>prov_Present = nifcloud_Present e d, prov_CleanUp = nifcloud_CleanUp e d,
      prov_Timeout = Some (nifcloud_Timeout d), prov_Sequential = None\<rparr>"

section \<open>The provider keeps its contract\<close>

lemma nifcloud_sign_body: "nifcloud_sign e c now req = Inr signed \<Longrightarrow> req_Body signed = req_Body req"
  by (auto simp: nifcloud_sign_def Let_def split: option.splits if_splits)

context plain_invariant
begin

lemma always_nif_exchange:
  "(\<And>req m. request = Inr req \<Longrightarrow> req_Body req \<noteq> JoseBody m) \<Longrightarrow> always R (nif_exchange e c request)"
  unfolding nif_exchange_def by (intro always_intros always_plain_http) (auto dest: nifcloud_sign_body)

lemma always_nifcloud [always_intros]:
  "always R (nifcloud_ChangeResourceRecordSets e c zone input)" "always R (nifcloud_GetChange e c statusID)"
  unfolding nifcloud_ChangeResourceRecordSets_def nifcloud_GetChange_def
  by (rule always_nif_exchange; auto simp: map_sum_eq_Inr NewRequest_Inr)+

lemma always_nif_poll [always_intros]: "always R (nif_poll e d statusID u)"
  unfolding nif_poll_def by (intro always_intros)

lemma always_nifcloud_changeRecord [always_intros]: "always R (nifcloud_changeRecord e d action fqdn v domain ttl)"
  unfolding nifcloud_changeRecord_def by (intro always_intros)

lemma nifcloud_keeps: "provider_keeps R (nifcloud_provider e d)"
  unfolding nifcloud_provider_def
  by (rule provider_keepsI; unfold nifcloud_Present_def nifcloud_CleanUp_def; intro always_intros)

end

text \<open>Waiting ends: a round takes four seconds at least, and there are 120 of them.\<close>

lemma nif_poll_returns: "fst (nif_poll e d statusID u w) \<noteq> Stuck"
  unfolding nif_poll_def nifcloud_GetChange_def nif_exchange_def
  by (auto simp: go_simps run_http_do split: sum.splits)

lemma nifcloud_wait_ends: "fst (For e (120 * Second) (4 * Second) (nif_poll e d statusID) u w) \<noteq> Stuck"
  unfolding For_def
  using For_loop_not_stuck [of "4 * Second" "nif_poll e d statusID" "w_now w + 120 * Second" w
      "For_rounds e (120 * Second) (4 * Second)" e None u] nif_poll_returns growing.always_nif_poll
  by (simp add: go_simps For_rounds_def Second_def)

text \<open>The value is in the document.\<close>

lemma nif_exchange_sent:
  assumes "\<And>req. request = Inr req \<Longrightarrow> req_Body req = RawBody (a @ txt @ b)"
  shows "ensures is_ok (delivered e txt status_200) (nif_exchange e c request)"
  unfolding nif_exchange_def
  by (intro ensures_intros always_intros ensures_later [OF growth.always_gets])
    (auto dest!: nifcloud_sign_body assms intro: carries_body)

lemma nifcloud_ChangeResourceRecordSets_sent:
  "ensures is_ok (delivered e (record_value e keyAuth) status_200)
     (nifcloud_ChangeResourceRecordSets e c zone (nif_params action name (record_value e keyAuth) ttl))"
proof -
  let ?doc = "nif_ChangeResourceRecordSetsRequest_xml (nif_params action name (record_value e keyAuth) ttl)"
  have "record_value e keyAuth \<in> set (xml_texts ?doc)"
    by (simp add: nif_ChangeResourceRecordSetsRequest_xml_def nif_ChangeBatch_xml_def nif_Change_xml_def
        nif_ResourceRecordSet_xml_def nif_ResourceRecord_xml_def nif_params_def)
  then obtain a b where "xml_Marshal ?doc = a @ record_value e keyAuth @ b"
    using xml_Marshal_texts by fastforce
  then show ?thesis
    unfolding nifcloud_ChangeResourceRecordSets_def
    by (intro nif_exchange_sent [where a = "xml_Header @ a" and b = b]) (auto simp: map_sum_eq_Inr NewRequest_Inr)
qed

lemma nifcloud_Present_sent:
  "ensures is_nil (delivered e (record_value e keyAuth) status_200) (nifcloud_Present e d domain token keyAuth)"
  unfolding nifcloud_Present_def nifcloud_changeRecord_def
  by (intro ensures_GetRecord ensures_wrap ensures_try_first [OF nifcloud_ChangeResourceRecordSets_sent]
      growing.always_nifcloud always_intros growing.always_For growing.always_nif_poll)

interpretation nifcloud: hosting e "nifcloud_provider e d" status_200 for e d
  by (rule hostingI [OF outsider.nifcloud_keeps]) (simp add: nifcloud_Present_sent nifcloud_provider_def)

end
