(* ===== verification/Otc.thy ===== *)
theory Otc
  imports Hosting
begin

text \<open>
  Package \<^verbatim>\<open>providers/dns/otc\<close> (Open Telekom Cloud).  Each operation logs in first; the token and the address of
  the DNS service are fields of the provider, here entries of the map at \<open>ot_object\<close>.  The token is stored
  before the rest of the reply is read, so that it stays when the login fails afterwards.
\<close>

definition otc_defaultIdentityEndpoint :: string where
  "otc_defaultIdentityEndpoint = ''https://iam.eu-de.otc.t-systems.com:443/v3/auth/tokens''"
definition otc_minTTL :: int where "otc_minTTL = 300"

record otc_config = ttl_config +
  ot_IdentityEndpoint :: string
  ot_DomainName :: string
  ot_ProjectName :: string
  ot_UserName :: string
  ot_Password :: string

text \<open>The other settings of the HTTP transport have no part in what is sent.\<close>

definition otc_NewDefaultConfig :: "env \<Rightarrow> otc_config" where
  "otc_NewDefaultConfig e =
     \<lparr>hcf_PropagationTimeout = GetOrDefaultSecond e ''OTC_PROPAGATION_TIMEOUT'' DefaultPropagationTimeout,
      hcf_PollingInterval = GetOrDefaultSecond e ''OTC_POLLING_INTERVAL'' DefaultPollingInterval,
      hcf_HTTPTimeout = GetOrDefaultSecond e ''OTC_HTTP_TIMEOUT'' (10 * Second),
      hcf_TTL = GetOrDefaultInt e ''OTC_TTL'' otc_minTTL,
      ot_IdentityEndpoint = GetOrDefaultString e ''OTC_IDENTITY_ENDPOINT'' otc_defaultIdentityEndpoint,
      ot_DomainName = [], ot_ProjectName = [], ot_UserName = [], ot_Password = []\<rparr>"

record otc =
  ot_config :: otc_config
  ot_object :: nat

definition otc_NewDNSProviderConfig :: "otc_config option \<Rightarrow> (world, goerror + otc) go" where
  "otc_NewDNSProviderConfig config =
     (case config of
        None \<Rightarrow> ret (Inl (nil_config ''otc''))
      | Some c \<Rightarrow>
          if ot_DomainName c = [] \<or> ot_UserName c = [] \<or> ot_Password c = [] \<or> ot_ProjectName c = []
          then ret (Inl (Err ''otc: credentials missing''))
          else if hcf_TTL c < otc_minTTL then ret (Inl (ttl_error ''otc'' (hcf_TTL c) otc_minTTL))
          else
            (let c' = (if ot_IdentityEndpoint c = [] then c\<lparr>ot_IdentityEndpoint := otc_defaultIdentityEndpoint\<rparr> else c) in
             bind make_map (\<lambda>a. ret (Inr \<lparr>ot_config = c', ot_object = a\<rparr>))))"

definition otc_NewDNSProvider :: "env \<Rightarrow> (world, goerror + otc) go" where
  "otc_NewDNSProvider e =
     (case env_Get e [''OTC_DOMAIN_NAME'', ''OTC_USER_NAME'', ''OTC_PASSWORD'', ''OTC_PROJECT_NAME''] of
        Inl err \<Rightarrow> ret (Inl (Wrap ''otc: '' err))
      | Inr values \<Rightarrow>
          otc_NewDNSProviderConfig (Some ((otc_NewDefaultConfig e)
            \<lparr>ot_DomainName := env_value values ''OTC_DOMAIN_NAME'', ot_UserName := env_value values ''OTC_USER_NAME'',
             ot_Password := env_value values ''OTC_PASSWORD'', ot_ProjectName := env_value values ''OTC_PROJECT_NAME''\<rparr>)))"

section \<open>Messages\<close>

record ot_recordset =
  otr_Name :: string
  otr_Description :: string
  otr_Type :: string
  otr_TTL :: int
  otr_Records :: "string list"

definition ot_recordset_json :: "ot_recordset \<Rightarrow> json" where
  "ot_recordset_json r =
     JObj [(''name'', JStr (otr_Name r)), (''description'', JStr (otr_Description r)), (''type'', JStr (otr_Type r)),
       (''ttl'', JNum (otr_TTL r)), (''records'', JArr (map JStr (otr_Records r)))]"

definition ot_nameResponse_json :: "string \<Rightarrow> json" where
  "ot_nameResponse_json name = JObj [(''name'', JStr name)]"

definition ot_userResponse_json :: "otc_config \<Rightarrow> json" where
  "ot_userResponse_json c =
     JObj [(''name'', JStr (ot_UserName c)), (''password'', JStr (ot_Password c)),
       (''domain'', ot_nameResponse_json (ot_DomainName c))]"

definition ot_identityResponse_json :: "otc_config \<Rightarrow> json" where
  "ot_identityResponse_json c =
     JObj [(''methods'', JArr [JStr ''password'']), (''password'', JObj [(''user'', ot_userResponse_json c)])]"

definition ot_loginResponse_json :: "otc_config \<Rightarrow> json" where
  "ot_loginResponse_json c =
     JObj [(''auth'', JObj [(''identity'', ot_identityResponse_json c),
       (''scope'', JObj [(''project'', ot_nameResponse_json (ot_ProjectName c))])])]"

definition ot_endpoint_of_json :: "json \<Rightarrow> goerror + string" where
  "ot_endpoint_of_json = decode_struct (\<lambda>k v u. if k = ''url'' then set_str v (\<lambda>s. s) u else Inr u) []"

text \<open>An entry of the catalogue: its type and the addresses.\<close>

definition ot_catalog_of_json :: "json \<Rightarrow> goerror + string \<times> string list" where
  "ot_catalog_of_json = decode_struct (\<lambda>k v (ty, eps).
     if k = ''type'' then set_str v (\<lambda>s. (s, eps)) (ty, eps)
     else if k = ''endpoints'' then set_list ot_endpoint_of_json v (\<lambda>l. (ty, l))
     else Inr (ty, eps)) ([], [])"

definition ot_token_of_json :: "json \<Rightarrow> goerror + (string \<times> string list) list" where
  "ot_token_of_json = decode_struct (\<lambda>k v c.
     if k = ''catalog'' then set_list ot_catalog_of_json v (\<lambda>l. l) else Inr c) []"

definition ot_endpointResponse_of_json :: "json \<Rightarrow> goerror + (string \<times> string list) list" where
  "ot_endpointResponse_of_json = decode_struct (\<lambda>k v c.
     if k = ''token'' then set_struct ot_token_of_json v (\<lambda>l. l) else Inr c) []"

text \<open>Lists of zones and of record sets: the identifiers of their items.\<close>

definition ot_zoneItem_of_json :: "json \<Rightarrow> goerror + string" where
  "ot_zoneItem_of_json = decode_struct (\<lambda>k v i. if k = ''id'' then set_str v (\<lambda>s. s) i else Inr i) []"

definition ot_zonesResponse_of_json :: "json \<Rightarrow> goerror + string list" where
  "ot_zonesResponse_of_json = decode_struct (\<lambda>k v l.
     if k = ''zones'' then set_list ot_zoneItem_of_json v (\<lambda>x. x) else Inr l) []"

definition ot_recordSet_of_json :: "json \<Rightarrow> goerror + string" where
  "ot_recordSet_of_json = decode_struct (\<lambda>k v i. if k = ''id'' then set_str v (\<lambda>s. s) i else Inr i) []"

definition ot_recordSetsResponse_of_json :: "json \<Rightarrow> goerror + string list" where
  "ot_recordSetsResponse_of_json = decode_struct (\<lambda>k v l.
     if k = ''recordsets'' then set_list ot_recordSet_of_json v (\<lambda>x. x) else Inr l) []"

section \<open>The client\<close>

definition otc_loginRequest :: "env \<Rightarrow> otc \<Rightarrow> (world, goerror + unit) go" where
  "otc_loginRequest e d =
     check (send e ''POST'' (ot_IdentityEndpoint (ot_config d)) (Some (jsonPrint e (ot_loginResponse_json (ot_config d))))
         (Header_Set ''Content-Type'' ''application/json'')) (\<lambda>resp.
       if 400 \<le> resp_StatusCode resp
       then ret (Inl (Err (''OTC API request failed with HTTP status code '' @ show_int (resp_StatusCode resp))))
       else
         (let token = header_get (resp_Header resp) ''X-Subject-Token'' in
          bind (map_set (ot_object d) ''token'' (StrCell token)) (\<lambda>_.
            if token = [] then ret (Inl (Err ''unable to get auth token''))
            else
              (case Decode e ot_endpointResponse_of_json (resp_Body resp) of
                 Inl err \<Rightarrow> ret (Inl err)
               | Inr catalog \<Rightarrow>
                   (case concat (map snd (filter (\<lambda>v. fst v = ''dns'') catalog)) of
                      [] \<Rightarrow> ret (Inl (Err ''unable to get dns endpoint''))
                    | endpoint # _ \<Rightarrow>
                        bind (map_set (ot_object d) ''baseURL'' (StrCell (endpoint @ ''/v2''))) (\<lambda>_. ret (Inr ())))))))"

definition otc_login :: "env \<Rightarrow> otc \<Rightarrow> (world, goerror + unit) go" where
  "otc_login e d = otc_loginRequest e d"

definition otc_sendRequest ::
  "env \<Rightarrow> otc \<Rightarrow> string \<Rightarrow> string \<Rightarrow> json option \<Rightarrow> (world, goerror + string) go" where
  "otc_sendRequest e d method resource payload =
     bind (str_field (ot_object d) ''baseURL'') (\<lambda>baseURL.
       bind (str_field (ot_object d) ''token'') (\<lambda>token.
         let url = baseURL @ ''/'' @ resource in
         check (send e method url (map_option (jsonPrint e) payload) (\<lambda>req.
             (if token = [] then (\<lambda>r. r) else Header_Set ''X-Auth-Token'' token)
               (Header_Set ''Content-Type'' ''application/json'' req))) (\<lambda>resp.
           if 400 \<le> resp_StatusCode resp
           then ret (Inl (Err (''OTC API request '' @ url @ '' failed with HTTP status code ''
                  @ show_int (resp_StatusCode resp))))
           else ret (resp_Body resp))))"

text \<open>The one identifier of a list.\<close>

definition ot_single :: "string \<Rightarrow> string \<Rightarrow> string list \<Rightarrow> goerror + string" where
  "ot_single none many ids =
     (case ids of
        [] \<Rightarrow> Inl (Err none)
      | [i] \<Rightarrow> if i = [] then Inl (Err ''id not found'') else Inr i
      | _ \<Rightarrow> Inl (Err many))"

definition otc_getZoneID :: "env \<Rightarrow> otc \<Rightarrow> string \<Rightarrow> (world, goerror + string) go" where
  "otc_getZoneID e d zone =
     check (otc_sendRequest e d ''GET'' (''zones?name='' @ zone) None) (\<lambda>resp.
       case Decode e ot_zonesResponse_of_json (Inr resp) of
         Inl err \<Rightarrow> ret (Inl err)
       | Inr zones \<Rightarrow> ret (ot_single (''zone '' @ zone @ '' not found'') ''to many zones found'' zones))"

definition otc_getRecordSetID :: "env \<Rightarrow> otc \<Rightarrow> string \<Rightarrow> string \<Rightarrow> (world, goerror + string) go" where
  "otc_getRecordSetID e d zoneID fqdn =
     check (otc_sendRequest e d ''GET'' (''zones/'' @ zoneID @ ''/recordsets?type=TXT&name='' @ fqdn) None) (\<lambda>resp.
       case Decode e ot_recordSetsResponse_of_json (Inr resp) of
         Inl err \<Rightarrow> ret (Inl err)
       | Inr sets \<Rightarrow> ret (ot_single ''record not found'' ''to many records found'' sets))"

definition otc_deleteRecordSet :: "env \<Rightarrow> otc \<Rightarrow> string \<Rightarrow> string \<Rightarrow> (world, goerror + unit) go" where
  "otc_deleteRecordSet e d zoneID recordID =
     check (otc_sendRequest e d ''DELETE'' (''zones/'' @ zoneID @ ''/recordsets/'' @ recordID) None) (\<lambda>_. ret (Inr ()))"

section \<open>The provider\<close>

definition otc_Present :: "env \<Rightarrow> otc \<Rightarrow> string \<Rightarrow> string \<Rightarrow> string \<Rightarrow> (world, goerror option) go" where
  "otc_Present e d domain token keyAuth =
     bind (GetRecord e domain keyAuth) (\<lambda>(fqdn, value).
       try_or ''otc: '' (FindZoneByFqdn e fqdn) (\<lambda>authZone.
         try_or ''otc: '' (otc_login e d) (\<lambda>_.
           try_or ''otc: unable to get zone: '' (otc_getZoneID e d authZone) (\<lambda>zoneID.
             try_or ''otc: '' (otc_sendRequest e d ''POST'' (''zones/'' @ zoneID @ ''/recordsets'')
               (Some (ot_recordset_json \<lparr>otr_Name = fqdn,
                  otr_Description = ''Added TXT record for ACME dns-01 challenge using lego client'',
                  otr_Type = ''TXT'', otr_TTL = hcf_TTL (ot_config d),
                  otr_Records = [[CHR 0x22] @ value @ [CHR 0x22]]\<rparr>))) (\<lambda>_. ret None)))))"

definition otc_CleanUp :: "env \<Rightarrow> otc \<Rightarrow> string \<Rightarrow> string \<Rightarrow> string \<Rightarrow> (world, goerror option) go" where
  "otc_CleanUp e d domain token keyAuth =
     bind (GetRecord e domain keyAuth) (\<lambda>(fqdn, _).
       try_or ''otc: '' (FindZoneByFqdn e fqdn) (\<lambda>authZone.
         try_or ''otc: '' (otc_login e d) (\<lambda>_.
           try_or ''otc: '' (otc_getZoneID e d authZone) (\<lambda>zoneID.
             try_or (''otc: unable go get record '' @ fqdn @ '' for zone '' @ domain @ '': '')
               (otc_getRecordSetID e d zoneID fqdn) (\<lambda>recordID.
               try_or ''otc: '' (otc_deleteRecordSet e d zoneID recordID) (\<lambda>_. ret None))))))"

definition otc_Timeout :: "otc \<Rightarrow> int \<times> int" where
  "otc_Timeout d = (hcf_PropagationTimeout (ot_config d), hcf_PollingInterval (ot_config d))"

definition otc_provider :: "env \<Rightarrow> otc \<Rightarrow> provider" where
  "otc_provider e d =
     \<lparr>prov_Present = otc_Present e d, prov_CleanUp = otc_CleanUp e d,
      prov_Timeout = Some (otc_Timeout d), prov_Sequential = None\<rparr>"

section \<open>The provider keeps its contract\<close>

lemma always_case_list:
  assumes "always R m" and "\<And>y ys. always R (k y ys)"
  shows "always R (case xs of [] \<Rightarrow> m | y # ys \<Rightarrow> k y ys)"
  using assms by (cases xs) auto

context plain_invariant
begin

lemma always_otc_requests [always_intros]:
  "always R (otc_login e d)" "always R (otc_sendRequest e d method resource payload)"
  unfolding otc_login_def otc_loginRequest_def otc_sendRequest_def Let_def
  by (intro always_case_list always_intros; simp)+

lemma always_otc [always_intros]:
  "always R (otc_getZoneID e d zone)" "always R (otc_getRecordSetID e d zoneID fqdn)"
  "always R (otc_deleteRecordSet e d zoneID recordID)"
  unfolding otc_getZoneID_def otc_getRecordSetID_def otc_deleteRecordSet_def by (intro always_intros)+

lemma always_otc_NewDNSProvider: "always R (otc_NewDNSProvider e)"
  unfolding otc_NewDNSProvider_def otc_NewDNSProviderConfig_def Let_def by (intro always_intros)

lemma otc_keeps: "provider_keeps R (otc_provider e d)"
  unfolding otc_provider_def
  by (rule provider_keepsI; unfold otc_Present_def otc_CleanUp_def) (intro always_intros)+

end

lemma otc_sendRequest_sent:
  assumes "a @ v @ b \<in> set (json_strings payload)"
  shows "ensures is_ok (delivered e v (answered below_400)) (otc_sendRequest e d method resource (Some payload))"
  unfolding otc_sendRequest_def Let_def using assms
  by (intro ensures_intros ensures_later always_intros)
    (auto simp: NewRequest_Inr intro!: carries_json_within [where tail = "[]"])

lemma otc_Present_sent:
  "ensures is_nil (delivered e (record_value e keyAuth) (answered below_400)) (otc_Present e d domain token keyAuth)"
  unfolding otc_Present_def
  by (intro ensures_try_first [OF otc_sendRequest_sent [where a = "[CHR 0x22]" and b = "[CHR 0x22]"]]
      ensures_intros ensures_try_later always_intros) (simp add: ot_recordset_json_def)

interpretation otc: hosting e "otc_provider e d" "answered below_400" for e d
  by (rule hostingI [OF outsider.otc_keeps]) (simp add: otc_Present_sent otc_provider_def)

end
