(* ===== verification/Regru.thy ===== *)
theory Regru
  imports Hosting
begin

text \<open>
  Package \<^verbatim>\<open>providers/dns/regru\<close> with its client.  A request is a JSON text in the query of a GET, which is sent
  with \<^verbatim>\<open>http.Get\<close>: the HTTP client of the configuration and the time to live are never used.
\<close>

definition regru_defaultBaseURL :: string where "regru_defaultBaseURL = ''https://api.reg.ru/api/regru2/''"
definition regru_successResult :: string where "regru_successResult = ''success''"

record regru_config = ttl_config +
  rg_Username :: string
  rg_Password :: string

definition regru_NewDefaultConfig :: "env \<Rightarrow> regru_config" where
  "regru_NewDefaultConfig e =
     \<lparr>hcf_PropagationTimeout = GetOrDefaultSecond e ''REGRU_PROPAGATION_TIMEOUT'' DefaultPropagationTimeout,
      hcf_PollingInterval = GetOrDefaultSecond e ''REGRU_POLLING_INTERVAL'' DefaultPollingInterval,
      hcf_HTTPTimeout = GetOrDefaultSecond e ''REGRU_HTTP_TIMEOUT'' (30 * Second),
      hcf_TTL = GetOrDefaultInt e ''REGRU_TTL'' 300, rg_Username = [], rg_Password = []\<rparr>"

record regru_client =
  rgc_username :: string
  rgc_password :: string
  rgc_BaseURL :: string

definition regru_NewClient :: "string \<Rightarrow> string \<Rightarrow> regru_client" where
  "regru_NewClient username password =
     \<lparr>rgc_username = username, rgc_password = password, rgc_BaseURL = regru_defaultBaseURL\<rparr>"

record regru =
  rg_config :: regru_config
  rg_client :: regru_client

definition regru_NewDNSProviderConfig :: "regru_config option \<Rightarrow> goerror + regru" where
  "regru_NewDNSProviderConfig config =
     (case config of
        None \<Rightarrow> Inl (nil_config ''regru'')
      | Some c \<Rightarrow>
          if rg_Username c = [] \<or> rg_Password c = []
          then Inl (Err ''regru: incomplete credentials, missing username and/or password'')
          else Inr \<lparr>rg_config = c, rg_client = regru_NewClient (rg_Username c) (rg_Password c)\<rparr>)"

definition regru_NewDNSProvider :: "env \<Rightarrow> goerror + regru" where
  "regru_NewDNSProvider e =
     (case env_Get e [''REGRU_USERNAME'', ''REGRU_PASSWORD''] of
        Inl err \<Rightarrow> Inl (Wrap ''regru: '' err)
      | Inr values \<Rightarrow>
          regru_NewDNSProviderConfig (Some ((regru_NewDefaultConfig e)
            \<lparr>rg_Username := env_value values ''REGRU_USERNAME'', rg_Password := env_value values ''REGRU_PASSWORD''\<rparr>)))"

section \<open>Messages\<close>

record rg_DomainResponse =
  rgd_Result :: string
  rgd_DName :: string
  rgd_ErrorCode :: string
  rgd_ErrorText :: string

definition rg_DomainResponse_of_json :: "json \<Rightarrow> goerror + rg_DomainResponse" where
  "rg_DomainResponse_of_json = decode_struct (\<lambda>k v d.
     if k = ''result'' then set_str v (\<lambda>s. d\<lparr>rgd_Result := s\<rparr>) d
     else if k = ''dname'' then set_str v (\<lambda>s. d\<lparr>rgd_DName := s\<rparr>) d
     else if k = ''error_code'' then set_str v (\<lambda>s. d\<lparr>rgd_ErrorCode := s\<rparr>) d
     else if k = ''error_text'' then set_str v (\<lambda>s. d\<lparr>rgd_ErrorText := s\<rparr>) d
     else Inr d) \<lparr>rgd_Result = [], rgd_DName = [], rgd_ErrorCode = [], rgd_ErrorText = []\<rparr>"

definition rg_DomainResponse_Error :: "rg_DomainResponse \<Rightarrow> string" where
  "rg_DomainResponse_Error d = ''API '' @ rgd_Result d @ '': '' @ rgd_ErrorCode d @ '': '' @ rgd_ErrorText d"

definition rg_Answer_of_json :: "json \<Rightarrow> goerror + rg_DomainResponse list" where
  "rg_Answer_of_json = decode_struct (\<lambda>k v l.
     if k = ''domains'' then set_list rg_DomainResponse_of_json v (\<lambda>x. x) else Inr l) []"

record rg_APIResponse =
  rga_Result :: string
  rga_Answer :: "rg_DomainResponse list option"
  rga_ErrorCode :: string
  rga_ErrorText :: string

definition rg_APIResponse_of_json :: "json \<Rightarrow> goerror + rg_APIResponse" where
  "rg_APIResponse_of_json = decode_struct (\<lambda>k v a.
     if k = ''result'' then set_str v (\<lambda>s. a\<lparr>rga_Result := s\<rparr>) a
     else if k = ''answer'' then set_ptr rg_Answer_of_json v (\<lambda>x. a\<lparr>rga_Answer := x\<rparr>)
     else if k = ''error_code'' then set_str v (\<lambda>s. a\<lparr>rga_ErrorCode := s\<rparr>) a
     else if k = ''error_text'' then set_str v (\<lambda>s. a\<lparr>rga_ErrorText := s\<rparr>) a
     else Inr a) \<lparr>rga_Result = [], rga_Answer = None, rga_ErrorCode = [], rga_ErrorText = []\<rparr>"

definition rg_APIResponse_Error :: "rg_APIResponse \<Rightarrow> string" where
  "rg_APIResponse_Error a = ''API '' @ rga_Result a @ '': '' @ rga_ErrorCode a @ '': '' @ rga_ErrorText a"

definition regru_HasError :: "rg_APIResponse \<Rightarrow> goerror option" where
  "regru_HasError a =
     (if rga_Result a \<noteq> regru_successResult then Some (Err (rg_APIResponse_Error a))
      else
        (case rga_Answer a of
           None \<Rightarrow> None
         | Some domains \<Rightarrow>
             map_option (\<lambda>d. Err (rg_DomainResponse_Error d)) (find (\<lambda>d. rgd_Result d \<noteq> regru_successResult) domains)))"

definition rg_Domain_json :: "string \<Rightarrow> json" where
  "rg_Domain_json dname = JObj [(''dname'', JStr dname)]"

definition rg_AddTxtRequest_json :: "regru_client \<Rightarrow> string \<Rightarrow> string \<Rightarrow> string \<Rightarrow> json" where
  "rg_AddTxtRequest_json c domain subDomain content =
     JObj ([(''username'', JStr (rgc_username c)), (''password'', JStr (rgc_password c)),
         (''domains'', JArr [rg_Domain_json domain])]
       @ omit_str ''subdomain'' subDomain @ omit_str ''text'' content @ [(''output_content_type'', JStr ''plain'')])"

definition rg_RemoveRecordRequest_json :: "regru_client \<Rightarrow> string \<Rightarrow> string \<Rightarrow> string \<Rightarrow> json" where
  "rg_RemoveRecordRequest_json c domain subDomain content =
     JObj ([(''username'', JStr (rgc_username c)), (''password'', JStr (rgc_password c)),
         (''domains'', JArr [rg_Domain_json domain])]
       @ omit_str ''subdomain'' subDomain @ omit_str ''content'' content
       @ [(''record_type'', JStr ''TXT''), (''output_content_type'', JStr ''plain'')])"

section \<open>The client\<close>

definition regru_createEndpoint :: "regru_client \<Rightarrow> string list \<Rightarrow> goerror + url" where
  "regru_createEndpoint c fragments =
     (case url_Parse (rgc_BaseURL c) of
        Inl err \<Rightarrow> Inl err
      | Inr baseURL \<Rightarrow> url_ParseRef baseURL (path_Join [url_Path baseURL, path_Join fragments]))"

definition regru_do :: "env \<Rightarrow> regru_client \<Rightarrow> json \<Rightarrow> string list \<Rightarrow> (world, goerror + rg_APIResponse) go" where
  "regru_do e c request fragments =
     (case regru_createEndpoint c fragments of
        Inl err \<Rightarrow> ret (Inl err)
      | Inr endpoint \<Rightarrow>
          (let query = Values_Adds [(''input_data'', jsonPrint e request), (''input_format'', ''json'')]
                 (ParseQuery (url_RawQuery endpoint)) in
           check (http_Get e (url_String (endpoint\<lparr>url_RawQuery := Values_Encode query\<rparr>))) (\<lambda>resp.
             if \<not> (200 \<le> resp_StatusCode resp \<and> resp_StatusCode resp < 300)
             then ret (Inl (Err (''API error, status code: '' @ show_int (resp_StatusCode resp))))
             else
               (case resp_Body resp of
                  Inl err \<Rightarrow> ret (Inl err)
                | Inr raw \<Rightarrow> ret (Unmarshal e rg_APIResponse_of_json raw)))))"

definition regru_RemoveTxtRecord ::
  "env \<Rightarrow> regru_client \<Rightarrow> string \<Rightarrow> string \<Rightarrow> string \<Rightarrow> (world, goerror option) go" where
  "regru_RemoveTxtRecord e c domain subDomain content =
     handle (regru_do e c (rg_RemoveRecordRequest_json c domain subDomain content) [''zone'', ''remove_record''])
       (\<lambda>err. ret (Some err)) (\<lambda>resp. ret (regru_HasError resp))"

definition regru_AddTXTRecord ::
  "env \<Rightarrow> regru_client \<Rightarrow> string \<Rightarrow> string \<Rightarrow> string \<Rightarrow> (world, goerror option) go" where
  "regru_AddTXTRecord e c domain subDomain content =
     handle (regru_do e c (rg_AddTxtRequest_json c domain subDomain content) [''zone'', ''add_txt''])
       (\<lambda>err. ret (Some err)) (\<lambda>resp. ret (regru_HasError resp))"

section \<open>The provider\<close>

definition regru_Present :: "env \<Rightarrow> regru \<Rightarrow> string \<Rightarrow> string \<Rightarrow> string \<Rightarrow> (world, goerror option) go" where
  "regru_Present e d domain token keyAuth =
     bind (GetRecord e domain keyAuth) (\<lambda>(fqdn, value).
       try_or (''regru: could not find zone for domain '' @ Quote domain @ '' and fqdn '' @ Quote fqdn @ '' : '')
         (FindZoneByFqdn e fqdn) (\<lambda>authZone.
         let subDomain = UnFqdn (TrimSuffix fqdn authZone) in
         wrap_err (''regru: failed to create TXT records [domain: '' @ UnFqdn authZone @ '', sub domain: '' @ subDomain @ '']: '')
           (regru_AddTXTRecord e (rg_client d) (UnFqdn authZone) subDomain value)))"

definition regru_CleanUp :: "env \<Rightarrow> regru \<Rightarrow> string \<Rightarrow> string \<Rightarrow> string \<Rightarrow> (world, goerror option) go" where
  "regru_CleanUp e d domain token keyAuth =
     bind (GetRecord e domain keyAuth) (\<lambda>(fqdn, value).
       try_or (''regru: could not find zone for domain '' @ Quote domain @ '' and fqdn '' @ Quote fqdn @ '' : '')
         (FindZoneByFqdn e fqdn) (\<lambda>authZone.
         let subDomain = UnFqdn (TrimSuffix fqdn authZone) in
         wrap_err (''regru: failed to remove TXT records [domain: '' @ UnFqdn authZone @ '', sub domain: '' @ subDomain @ '']: '')
           (regru_RemoveTxtRecord e (rg_client d) (UnFqdn authZone) subDomain value)))"

definition regru_Timeout :: "regru \<Rightarrow> int \<times> int" where
  "regru_Timeout d = (hcf_PropagationTimeout (rg_config d), hcf_PollingInterval (rg_config d))"

definition regru_provider :: "env \<Rightarrow> regru \<Rightarrow> provider" where
  "regru_provider e d =
     \<lparr>prov_Present = regru_Present e d, prov_CleanUp = regru_CleanUp e d,
      prov_Timeout = Some (regru_Timeout d), prov_Sequential = None\<rparr>"

section \<open>The provider keeps its contract\<close>

context plain_invariant
begin

lemma always_regru [always_intros]:
  "always R (regru_AddTXTRecord e c domain subDomain content)" "always R (regru_RemoveTxtRecord e c domain subDomain content)"
  unfolding regru_AddTXTRecord_def regru_RemoveTxtRecord_def regru_do_def Let_def by (intro always_intros)+

lemma regru_keeps: "provider_keeps R (regru_provider e d)"
  unfolding regru_provider_def
  by (rule provider_keepsI; unfold regru_Present_def regru_CleanUp_def Let_def; intro always_intros)

end

definition regru_accepts :: "env \<Rightarrow> http_response \<Rightarrow> bool" where
  "regru_accepts e resp \<longleftrightarrow> 200 \<le> resp_StatusCode resp \<and> resp_StatusCode resp < 300
     \<and> (\<exists>raw a. resp_Body resp = Inr raw \<and> Unmarshal e rg_APIResponse_of_json raw = Inr a \<and> regru_HasError a = None)"

lemma regru_AddTXTRecord_sent:
  "ensures is_nil (delivered e content (answered (regru_accepts e))) (regru_AddTXTRecord e c domain subDomain content)"
proof -
  let ?j = "rg_AddTxtRequest_json c domain subDomain content"
  have json: "content \<noteq> [] \<Longrightarrow> [] @ content @ [] \<in> set (json_strings ?j)"
    by (simp add: rg_AddTxtRequest_json_def omit_str_def)
  have "carries e content req"
    if "req_URL req = url_String (u\<lparr>url_RawQuery := Values_Encode (Values_Adds
        [(''input_data'', jsonPrint e ?j), (''input_format'', ''json'')] (ParseQuery (url_RawQuery u)))\<rparr>)" for u req
  proof (cases "content = []")
    case False
    show ?thesis
      by (rule carries_query_json [where k = "''input_data''" and c = "[]" and d = "[]" and j = ?j, OF _ _ that json])
        (auto intro: has_value_Adds distinct_ParseQuery simp: False)
  qed simp
  then show ?thesis
    unfolding ensures_def regru_AddTXTRecord_def regru_do_def Let_def
    by (auto simp: host_runs run_cases NewRequest_Inr regru_accepts_def dest!: happened_http
        intro!: exI [of _ "EvHttp _ (Inr _)"])
qed

lemma regru_Present_sent:
  "ensures is_nil (delivered e (record_value e keyAuth) (answered (regru_accepts e))) (regru_Present e d domain token keyAuth)"
  unfolding regru_Present_def Let_def
  by (intro ensures_wrap regru_AddTXTRecord_sent ensures_intros)

interpretation regru: hosting e "regru_provider e d" "answered (regru_accepts e)" for e d
  by (rule hostingI [OF outsider.regru_keeps]) (simp add: regru_Present_sent regru_provider_def)

end
