(* ===== verification/Servercow.thy ===== *)
theory Servercow
  imports Hosting
begin

text \<open>
  Package \<^verbatim>\<open>providers/dns/servercow\<close> with its client.  A record has several values; \<^verbatim>\<open>Present\<close> adds one and
  \<^verbatim>\<open>CleanUp\<close> takes it out again.
\<close>

definition servercow_baseAPIURL :: string where
  "servercow_baseAPIURL = ''https://api.servercow.de/dns/v1/domains''"

record servercow_config = ttl_config +
  svc_Username :: string
  svc_Password :: string

definition servercow_defaultTTL :: int where
  "servercow_defaultTTL = 120"

definition servercow_NewDefaultConfig :: "env \<Rightarrow> servercow_config" where
  "servercow_NewDefaultConfig e =
     \<lparr>hcf_PropagationTimeout = GetOrDefaultSecond e ''SERVERCOW_PROPAGATION_TIMEOUT'' DefaultPropagationTimeout,
      hcf_PollingInterval = GetOrDefaultSecond e ''SERVERCOW_POLLING_INTERVAL'' DefaultPollingInterval,
      hcf_HTTPTimeout = GetOrDefaultSecond e ''SERVERCOW_HTTP_TIMEOUT'' (30 * Second),
      hcf_TTL = GetOrDefaultInt e ''SERVERCOW_TTL'' servercow_defaultTTL, svc_Username = [], svc_Password = []\<rparr>"

record servercow_client =
  svcc_BaseURL :: string
  svcc_username :: string
  svcc_password :: string

definition servercow_NewClient :: "string \<Rightarrow> string \<Rightarrow> servercow_client" where
  "servercow_NewClient username password =
     \<lparr>svcc_BaseURL = servercow_baseAPIURL, svcc_username = username, svcc_password = password\<rparr>"

record servercow =
  svc_config :: servercow_config
  svc_client :: servercow_client

text \<open>A missing configuration is not checked for.\<close>

definition servercow_NewDNSProviderConfig :: "servercow_config option \<Rightarrow> (world, goerror + servercow) go" where
  "servercow_NewDNSProviderConfig config =
     (case config of
        None \<Rightarrow> panic nil_pointer
      | Some c \<Rightarrow>
          if svc_Username c = [] \<or> svc_Password c = []
          then ret (Inl (Err ''servercow: incomplete credentials, missing username and/or password''))
          else ret (Inr \<lparr>svc_config = c, svc_client = servercow_NewClient (svc_Username c) (svc_Password c)\<rparr>))"

definition servercow_NewDNSProvider :: "env \<Rightarrow> (world, goerror + servercow) go" where
  "servercow_NewDNSProvider e =
     (case env_Get e [''SERVERCOW_USERNAME'', ''SERVERCOW_PASSWORD''] of
        Inl err \<Rightarrow> ret (Inl (Wrap ''servercow: '' err))
      | Inr values \<Rightarrow>
          servercow_NewDNSProviderConfig (Some ((servercow_NewDefaultConfig e)
            \<lparr>svc_Username := env_value values ''SERVERCOW_USERNAME'',
             svc_Password := env_value values ''SERVERCOW_PASSWORD''\<rparr>)))"

section \<open>Messages\<close>

text \<open>The values of a record: a string, or a list of strings.\<close>

definition servercow_MarshalJSON :: "string list \<Rightarrow> json" where
  "servercow_MarshalJSON v = (case v of [s] \<Rightarrow> JStr s | _ \<Rightarrow> JArr (map JStr v))"

text \<open>A string, and \<^verbatim>\<open>null\<close> as the empty one, is added to the values read so far.\<close>

definition servercow_UnmarshalJSON :: "json \<Rightarrow> string list \<Rightarrow> goerror + string list" where
  "servercow_UnmarshalJSON j v =
     (case j of
        JArr _ \<Rightarrow> list_of_json (\<lambda>x. set_str x (\<lambda>s. s) []) j
      | _ \<Rightarrow> set_str j (\<lambda>s. v @ [s]) (v @ [[]]))"

record svc_Record =
  svcr_Name :: string
  svcr_Type :: string
  svcr_TTL :: int
  svcr_Content :: "string list"

definition svc_Record_of_json :: "json \<Rightarrow> goerror + svc_Record" where
  "svc_Record_of_json = decode_struct (\<lambda>k v r.
     if k = ''name'' then set_str v (\<lambda>s. r\<lparr>svcr_Name := s\<rparr>) r
     else if k = ''type'' then set_str v (\<lambda>s. r\<lparr>svcr_Type := s\<rparr>) r
     else if k = ''ttl'' then set_int v (\<lambda>i. r\<lparr>svcr_TTL := i\<rparr>) r
     else if k = ''content'' then map_sum (\<lambda>x. x) (\<lambda>c. r\<lparr>svcr_Content := c\<rparr>) (servercow_UnmarshalJSON v (svcr_Content r))
     else Inr r) \<lparr>svcr_Name = [], svcr_Type = [], svcr_TTL = 0, svcr_Content = []\<rparr>"

definition svc_Record_json :: "svc_Record \<Rightarrow> json" where
  "svc_Record_json r =
     JObj ([(''name'', JStr (svcr_Name r)), (''type'', JStr (svcr_Type r))] @ omit_int ''ttl'' (svcr_TTL r)
       @ (if svcr_Content r = [] then [] else [(''content'', servercow_MarshalJSON (svcr_Content r))]))"

record svc_Message =
  svcm_Message :: string
  svcm_ErrorMsg :: string

definition svc_Message_of_json :: "json \<Rightarrow> goerror + svc_Message" where
  "svc_Message_of_json = decode_struct (\<lambda>k v m.
     if k = ''message'' then set_str v (\<lambda>s. m\<lparr>svcm_Message := s\<rparr>) m
     else if k = ''error'' then set_str v (\<lambda>s. m\<lparr>svcm_ErrorMsg := s\<rparr>) m
     else Inr m) \<lparr>svcm_Message = [], svcm_ErrorMsg = []\<rparr>"

definition servercow_Error :: "svc_Message \<Rightarrow> goerror" where
  "servercow_Error a = Err (svcm_ErrorMsg a)"

section \<open>The client\<close>

definition servercow_headers :: "servercow_client \<Rightarrow> http_request \<Rightarrow> http_request" where
  "servercow_headers c req =
     Header_Set ''Content-Type'' ''application/json''
       (Header_Set ''X-Auth-Password'' (svcc_password c) (Header_Set ''X-Auth-Username'' (svcc_username c) req))"

text \<open>Without a record the body is the text of \<^verbatim>\<open>null\<close>.\<close>

definition servercow_createRequest ::
  "env \<Rightarrow> servercow_client \<Rightarrow> string \<Rightarrow> string \<Rightarrow> svc_Record option \<Rightarrow> goerror + http_request" where
  "servercow_createRequest e c method domain payload =
     map_sum (\<lambda>err. err) (servercow_headers c)
       (NewRequest e method (svcc_BaseURL c @ ''/'' @ domain)
         (Some (jsonPrint e (case payload of None \<Rightarrow> JNull | Some r \<Rightarrow> svc_Record_json r))))"

text \<open>What the three calls have in common: the request and the body of its reply.\<close>

definition svc_exchange ::
  "env \<Rightarrow> servercow_client \<Rightarrow> string \<Rightarrow> string \<Rightarrow> svc_Record option \<Rightarrow> (world, goerror + string) go" where
  "svc_exchange e c method domain payload =
     (case servercow_createRequest e c method domain payload of
        Inl err \<Rightarrow> ret (Inl err)
      | Inr req \<Rightarrow>
          check (http_do e req) (\<lambda>resp.
            if \<not> (200 \<le> resp_StatusCode resp \<and> resp_StatusCode resp < 300)
            then ret (Inl (Err (''error: status code '' @ show_int (resp_StatusCode resp))))
            else ret (map_sum (Wrap ''failed to read body: '') (\<lambda>raw. raw) (resp_Body resp))))"

text \<open>A body of another type than asked for may be a message: it is the error then.\<close>

definition servercow_unmarshal :: "env \<Rightarrow> string \<Rightarrow> (json \<Rightarrow> goerror + 'a) \<Rightarrow> string \<Rightarrow> goerror + 'a" where
  "servercow_unmarshal e type_name dec raw =
     (let failed = (\<lambda>err. Wrap (''unmarshaling '' @ type_name @ '' error: '') (err_then err ('': '' @ raw))) in
      case Unmarshal e dec raw of
        Inr x \<Rightarrow> Inr x
      | Inl err \<Rightarrow>
          if jsonParse e raw = None then Inl (failed err)
          else (case Unmarshal e svc_Message_of_json raw of
                  Inl _ \<Rightarrow> Inl (failed err)
                | Inr apiError \<Rightarrow> Inl (servercow_Error apiError)))"

definition servercow_GetRecords :: "env \<Rightarrow> servercow_client \<Rightarrow> string \<Rightarrow> (world, goerror + svc_Record list) go" where
  "servercow_GetRecords e c domain =
     check (svc_exchange e c ''GET'' domain None) (\<lambda>raw.
       ret (servercow_unmarshal e ''*[]internal.Record'' (list_of_json svc_Record_of_json) raw))"

definition servercow_CreateUpdateRecord ::
  "env \<Rightarrow> servercow_client \<Rightarrow> string \<Rightarrow> svc_Record \<Rightarrow> (world, goerror + svc_Message) go" where
  "servercow_CreateUpdateRecord e c domain data =
     check (svc_exchange e c ''POST'' domain (Some data)) (\<lambda>raw.
       case Unmarshal e svc_Message_of_json raw of
         Inl err \<Rightarrow> ret (Inl err)
       | Inr msg \<Rightarrow> if svcm_ErrorMsg msg \<noteq> [] then ret (Inl (servercow_Error msg)) else ret (Inr msg))"

definition servercow_DeleteRecord ::
  "env \<Rightarrow> servercow_client \<Rightarrow> string \<Rightarrow> svc_Record \<Rightarrow> (world, goerror + svc_Message) go" where
  "servercow_DeleteRecord e c domain data =
     check (svc_exchange e c ''DELETE'' domain (Some data)) (\<lambda>raw.
       case Unmarshal e svc_Message_of_json raw of
         Inl err \<Rightarrow> ret (Inl (Wrap ''unmarshaling internal.Message error: '' (err_then err ('': '' @ raw))))
       | Inr msg \<Rightarrow> if svcm_ErrorMsg msg \<noteq> [] then ret (Inl (servercow_Error msg)) else ret (Inr msg))"

section \<open>The provider\<close>

definition servercow_getAuthZone :: "env \<Rightarrow> string \<Rightarrow> (world, goerror + string) go" where
  "servercow_getAuthZone e domain =
     check (wrap_res (''could not find zone for domain '' @ Quote domain @ '': '') (FindZoneByFqdn e (ToFqdn domain)))
       (\<lambda>authZone. ret (Inr (UnFqdn authZone)))"

definition servercow_findRecords :: "svc_Record list \<Rightarrow> string \<Rightarrow> svc_Record option" where
  "servercow_findRecords records name = find (\<lambda>r. svcr_Type r = ''TXT'' \<and> svcr_Name r = name) records"

definition servercow_containsValue :: "svc_Record \<Rightarrow> string \<Rightarrow> bool" where
  "servercow_containsValue record value = list_ex (\<lambda>val. val = value) (svcr_Content record)"

text \<open>The name in front of the zone and its two dots.  The record may be outside of the zone, behind an alias.\<close>

definition servercow_getRecordName :: "string \<Rightarrow> string \<Rightarrow> string outcome" where
  "servercow_getRecordName fqdn authZone =
     (if length fqdn < length authZone + 2 then Panic ''slice bounds out of range''
      else Return (take (length fqdn - length authZone - 2) fqdn))"

definition servercow_Present :: "env \<Rightarrow> servercow \<Rightarrow> string \<Rightarrow> string \<Rightarrow> string \<Rightarrow> (world, goerror option) go" where
  "servercow_Present e d domain token keyAuth =
     bind (GetRecord e domain keyAuth) (\<lambda>(fqdn, value).
       try_or ''servercow: '' (servercow_getAuthZone e domain) (\<lambda>authZone.
         try_or ''servercow: '' (servercow_GetRecords e (svc_client d) authZone) (\<lambda>records.
           bind (outcome_of (servercow_getRecordName fqdn authZone)) (\<lambda>recordName.
             case servercow_findRecords records recordName of
               Some record \<Rightarrow>
                 if servercow_containsValue record value then ret None
                 else try_or ''servercow: failed to update TXT records: ''
                   (servercow_CreateUpdateRecord e (svc_client d) authZone
                     (record\<lparr>svcr_Content := svcr_Content record @ [value]\<rparr>)) (\<lambda>_. ret None)
             | None \<Rightarrow>
                 try_or (''servercow: failed to create TXT record '' @ fqdn @ '': '')
                   (servercow_CreateUpdateRecord e (svc_client d) authZone
                     \<lparr>svcr_Name = recordName, svcr_Type = ''TXT'', svcr_TTL = hcf_TTL (svc_config d), svcr_Content = [value]\<rparr>)
                   (\<lambda>_. ret None)))))"

definition servercow_CleanUp :: "env \<Rightarrow> servercow \<Rightarrow> string \<Rightarrow> string \<Rightarrow> string \<Rightarrow> (world, goerror option) go" where
  "servercow_CleanUp e d domain token keyAuth =
     bind (GetRecord e domain keyAuth) (\<lambda>(fqdn, value).
       try_or ''servercow: '' (servercow_getAuthZone e domain) (\<lambda>authZone.
         try_or ''servercow: failed to get TXT records: '' (servercow_GetRecords e (svc_client d) authZone) (\<lambda>records.
           bind (outcome_of (servercow_getRecordName fqdn authZone)) (\<lambda>recordName.
             case servercow_findRecords records recordName of
               None \<Rightarrow> ret None
             | Some record \<Rightarrow>
                 if \<not> servercow_containsValue record value then ret None
                 else if length (svcr_Content record) = 1
                 then try_or ''servercow: failed to delete TXT records: ''
                   (servercow_DeleteRecord e (svc_client d) authZone record) (\<lambda>_. ret None)
                 else try_or ''servercow: failed to update TXT records: ''
                   (servercow_CreateUpdateRecord e (svc_client d) authZone
                     (record\<lparr>svcr_Content := filter (\<lambda>val. val \<noteq> value) (svcr_Content record)\<rparr>)) (\<lambda>_. ret None)))))"

definition servercow_Timeout :: "servercow \<Rightarrow> int \<times> int" where
  "servercow_Timeout d = (hcf_PropagationTimeout (svc_config d), hcf_PollingInterval (svc_config d))"

definition servercow_provider :: "env \<Rightarrow> servercow \<Rightarrow> provider" where
  "servercow_provider e d =
     \<lparr>prov_Present = servercow_Present e d, prov_CleanUp = servercow_CleanUp e d,
      prov_Timeout = Some (servercow_Timeout d), prov_Sequential = None\<rparr>"

section \<open>The provider keeps its contract\<close>

lemma servercow_createRequest_body:
  "servercow_createRequest e c method domain payload = Inr req \<Longrightarrow>
   req_Body req = RawBody (jsonPrint e (case payload of None \<Rightarrow> JNull | Some r \<Rightarrow> svc_Record_json r))"
  unfolding servercow_createRequest_def
  by (auto simp: NewRequest_def servercow_headers_def split: option.splits)

context plain_invariant
begin

lemma always_svc_exchange [always_intros]: "always R (svc_exchange e c method domain payload)"
  unfolding svc_exchange_def
  by (intro always_intros always_plain_http) (auto dest!: servercow_createRequest_body)

lemma always_servercow [always_intros]:
  "always R (servercow_GetRecords e c domain)" "always R (servercow_CreateUpdateRecord e c domain data)"
  "always R (servercow_DeleteRecord e c domain data)" "always R (servercow_getAuthZone e domain)"
  unfolding servercow_GetRecords_def servercow_CreateUpdateRecord_def servercow_DeleteRecord_def servercow_getAuthZone_def
  by (intro always_intros)+

lemma always_servercow_NewDNSProvider: "always R (servercow_NewDNSProvider e)"
  unfolding servercow_NewDNSProvider_def servercow_NewDNSProviderConfig_def by (intro always_intros)

lemma servercow_keeps: "provider_keeps R (servercow_provider e d)"
  unfolding servercow_provider_def
  by (rule provider_keepsI; unfold servercow_Present_def servercow_CleanUp_def; intro always_intros)

end

text \<open>The values of a decoded record were in its text.\<close>

lemma servercow_UnmarshalJSON_values:
  assumes "servercow_UnmarshalJSON j old = Inr l" and "v \<in> set l" and "v \<noteq> []"
  shows "v \<in> set old \<or> v \<in> set (json_strings j)"
proof (cases "\<exists>js. j = JArr js")
  case True
  then have "list_of_json (\<lambda>x. set_str x (\<lambda>s. s) []) j = Inr l" using assms(1) by (auto simp: servercow_UnmarshalJSON_def)
  from list_of_json_member [OF this assms(2)] obtain x where
    "set_str x (\<lambda>s. s) [] = Inr v" "set (json_strings x) \<subseteq> set (json_strings j)" by blast
  with assms(3) show ?thesis by (cases x) (auto simp: set_str_def)
next
  case False
  with assms show ?thesis by (cases j) (auto simp: servercow_UnmarshalJSON_def set_str_def)
qed

lemma svc_Record_content:
  assumes "svc_Record_of_json j = Inr r" and "v \<in> set (svcr_Content r)" and "v \<noteq> []"
  shows "v \<in> set (json_strings j)"
proof -
  have "v \<in> set (svcr_Content r) \<longrightarrow> v \<in> set (json_strings j)"
    using assms(1) unfolding svc_Record_of_json_def
    by (erule_tac decode_struct_invariant [where P = "\<lambda>r. v \<in> set (svcr_Content r) \<longrightarrow> v \<in> set (json_strings j)"])
      (auto simp: set_str_def set_int_def map_sum_eq_Inr dest: servercow_UnmarshalJSON_values [OF _ _ assms(3)]
        split: if_splits json.splits)
  with assms(2) show ?thesis by simp
qed

lemma servercow_unmarshal_Inr: "servercow_unmarshal e n dec raw = Inr x \<Longrightarrow> Unmarshal e dec raw = Inr x"
  by (auto simp: servercow_unmarshal_def Let_def split: sum.splits if_splits)

lemma servercow_GetRecords_found:
  assumes "servercow_GetRecords e c domain s = (Return (Inr records), t)"
    and "servercow_findRecords records name = Some r" and "servercow_containsValue r v"
  shows "\<exists>ev. happened s t ev \<and> reported e v ev"
proof -
  have r: "r \<in> set records" "v \<in> set (svcr_Content r)"
    using assms(2,3) by (auto simp: servercow_findRecords_def servercow_containsValue_def find_Some_iff list_ex_iff)
  obtain raw where run: "svc_exchange e c ''GET'' domain None s = (Return (Inr raw), t)"
    and dec: "Unmarshal e (list_of_json svc_Record_of_json) raw = Inr records"
    using assms(1) by (auto simp: servercow_GetRecords_def host_runs dest: servercow_unmarshal_Inr)
  obtain j where j: "jsonParse e raw = Some j" "list_of_json svc_Record_of_json j = Inr records"
    using dec by (auto simp: Unmarshal_def split: option.splits)
  obtain y where "svc_Record_of_json y = Inr r" "set (json_strings y) \<subseteq> set (json_strings j)"
    using list_of_json_member [OF j(2) r(1)] by blast
  then have "v = [] \<or> v \<in> set (json_strings j)" using svc_Record_content r(2) by blast
  moreover obtain req resp where "happened s t (EvHttp req (Inr resp))" "resp_Body resp = Inr raw"
    using run unfolding svc_exchange_def by (auto simp: host_runs run_cases dest!: happened_http)
  ultimately show ?thesis using reportedI [OF _ j(1), of resp v "[]" "[]"] by auto
qed

definition servercow_accepts :: "env \<Rightarrow> http_response \<Rightarrow> bool" where
  "servercow_accepts e resp \<longleftrightarrow> 200 \<le> resp_StatusCode resp \<and> resp_StatusCode resp < 300
     \<and> (\<exists>raw msg. resp_Body resp = Inr raw \<and> Unmarshal e svc_Message_of_json raw = Inr msg \<and> svcm_ErrorMsg msg = [])"

lemma servercow_CreateUpdateRecord_sent:
  assumes "v \<in> set (svcr_Content r)"
  shows "ensures is_ok (delivered e v (answered (servercow_accepts e))) (servercow_CreateUpdateRecord e c domain r)"
  unfolding ensures_def
proof (intro allI impI)
  fix s x t
  assume run: "servercow_CreateUpdateRecord e c domain r s = (Return x, t)" and ok: "is_ok x"
  then obtain req resp where req: "servercow_createRequest e c ''POST'' domain (Some r) = Inr req"
    and sent: "happened s t (EvHttp req (Inr resp))" "servercow_accepts e resp"
    unfolding servercow_CreateUpdateRecord_def svc_exchange_def servercow_accepts_def
    by (auto simp: host_runs run_cases dest!: happened_http)
  have "v \<in> set (json_strings (svc_Record_json r))"
    using assms by (auto simp: svc_Record_json_def servercow_MarshalJSON_def split: list.splits)
  then have "carries e v req" using servercow_createRequest_body [OF req] by (simp add: carries_json)
  with sent show "\<exists>ev. happened s t ev \<and> delivered e v (answered (servercow_accepts e)) ev"
    by (intro exI [of _ "EvHttp req (Inr resp)"]) simp
qed

lemma servercow_put_sent:
  assumes "v \<in> set (svcr_Content r)"
  shows "ensures is_nil (\<lambda>ev. delivered e v (answered (servercow_accepts e)) ev \<or> Q ev)
    (try_or msg (servercow_CreateUpdateRecord e c domain r) (\<lambda>_. ret None))"
  unfolding try_or_def
  by (intro ensures_mono [OF ensures_handle_first [OF servercow_CreateUpdateRecord_sent [OF assms]]]
      growing.always_servercow always_intros ensures_intros) simp_all

lemma servercow_Present_sent:
  "ensures is_nil (\<lambda>ev. delivered e (record_value e keyAuth) (answered (servercow_accepts e)) ev
     \<or> reported e (record_value e keyAuth) ev) (servercow_Present e d domain token keyAuth)"
  unfolding servercow_Present_def
proof (intro ensures_GetRecord ensures_try_later [OF growing.always_servercow(4)]
    ensures_try_either [OF growing.always_servercow(1)] ensures_option ensures_if
    ensures_later [OF growth.always_outcome_of] servercow_put_sent always_intros)
qed (auto dest: servercow_GetRecords_found)

interpretation servercow: offering e "servercow_provider e d" "answered (servercow_accepts e)" "reported e" for e d
  by (rule offeringI [OF outsider.servercow_keeps]) (simp add: servercow_Present_sent servercow_provider_def)

end
