(* ===== verification/Stackpath.thy ===== *)
theory Stackpath
  imports Hosting
begin

text \<open>
  Package \<^verbatim>\<open>providers/dns/stackpath\<close>.  Its HTTP client comes from the OAuth library, which gets a token and adds it
  to every request; that is part of what \<open>httpDo\<close> does with a request.
\<close>

definition stackpath_defaultBaseURL :: string where
  "stackpath_defaultBaseURL = ''https://gateway.stackpath.com/dns/v1/stacks/''"

record stackpath_config =
  sp_ClientID :: string
  sp_ClientSecret :: string
  sp_StackID :: string
  sp_TTL :: int
  sp_PropagationTimeout :: int
  sp_PollingInterval :: int

definition stackpath_NewDefaultConfig :: "env \<Rightarrow> stackpath_config" where
  "stackpath_NewDefaultConfig e =
     \<lparr>sp_ClientID = [], sp_ClientSecret = [], sp_StackID = [], sp_TTL = GetOrDefaultInt e ''STACKPATH_TTL'' 120,
      sp_PropagationTimeout = GetOrDefaultSecond e ''STACKPATH_PROPAGATION_TIMEOUT'' DefaultPropagationTimeout,
      sp_PollingInterval = GetOrDefaultSecond e ''STACKPATH_POLLING_INTERVAL'' DefaultPollingInterval\<rparr>"

record stackpath =
  sp_BaseURL :: url
  sp_config :: stackpath_config

definition stackpath_NewDNSProviderConfig :: "stackpath_config option \<Rightarrow> goerror + stackpath" where
  "stackpath_NewDNSProviderConfig config =
     (case config of
        None \<Rightarrow> Inl (nil_config ''stackpath'')
      | Some c \<Rightarrow>
          if sp_ClientID c = [] \<or> sp_ClientSecret c = [] then Inl (Err ''stackpath: credentials missing'')
          else if sp_StackID c = [] then Inl (Err ''stackpath: stack id missing'')
          else Inr \<lparr>sp_BaseURL = parsed stackpath_defaultBaseURL, sp_config = c\<rparr>)"

definition stackpath_NewDNSProvider :: "env \<Rightarrow> goerror + stackpath" where
  "stackpath_NewDNSProvider e =
     (case env_Get e [''STACKPATH_CLIENT_ID'', ''STACKPATH_CLIENT_SECRET'', ''STACKPATH_STACK_ID''] of
        Inl err \<Rightarrow> Inl (Wrap ''stackpath: '' err)
      | Inr values \<Rightarrow>
          stackpath_NewDNSProviderConfig (Some ((stackpath_NewDefaultConfig e)
            \<lparr>sp_ClientID := env_value values ''STACKPATH_CLIENT_ID'',
             sp_ClientSecret := env_value values ''STACKPATH_CLIENT_SECRET'',
             sp_StackID := env_value values ''STACKPATH_STACK_ID''\<rparr>)))"

section \<open>Messages\<close>

text \<open>The fields of a zone have no tags: members are matched in any case.\<close>

record sp_Zone =
  spz_ID :: string
  spz_Domain :: string

definition sp_Zone_of_json :: "json \<Rightarrow> goerror + sp_Zone" where
  "sp_Zone_of_json = decode_struct (\<lambda>k v z.
     if ToLower k = ''id'' then set_str v (\<lambda>s. z\<lparr>spz_ID := s\<rparr>) z
     else if ToLower k = ''domain'' then set_str v (\<lambda>s. z\<lparr>spz_Domain := s\<rparr>) z
     else Inr z) \<lparr>spz_ID = [], spz_Domain = []\<rparr>"

definition sp_Zones_of_json :: "json \<Rightarrow> goerror + sp_Zone list" where
  "sp_Zones_of_json = decode_struct (\<lambda>k v zs.
     if k = ''zones'' then set_struct (list_of_json sp_Zone_of_json) v (\<lambda>l. l) else Inr zs) []"

record sp_Record =
  spr_ID :: string
  spr_Name :: string
  spr_Type :: string
  spr_TTL :: int
  spr_Data :: string

definition sp_Record_of_json :: "json \<Rightarrow> goerror + sp_Record" where
  "sp_Record_of_json = decode_struct (\<lambda>k v r.
     if k = ''id'' then set_str v (\<lambda>s. r\<lparr>spr_ID := s\<rparr>) r
     else if k = ''name'' then set_str v (\<lambda>s. r\<lparr>spr_Name := s\<rparr>) r
     else if k = ''type'' then set_str v (\<lambda>s. r\<lparr>spr_Type := s\<rparr>) r
     else if k = ''ttl'' then set_int v (\<lambda>i. r\<lparr>spr_TTL := i\<rparr>) r
     else if k = ''data'' then set_str v (\<lambda>s. r\<lparr>spr_Data := s\<rparr>) r
     else Inr r) \<lparr>spr_ID = [], spr_Name = [], spr_Type = [], spr_TTL = 0, spr_Data = []\<rparr>"

definition sp_Record_json :: "sp_Record \<Rightarrow> json" where
  "sp_Record_json r =
     JObj (omit_str ''id'' (spr_ID r) @ [(''name'', JStr (spr_Name r)), (''type'', JStr (spr_Type r)),
       (''ttl'', JNum (spr_TTL r)), (''data'', JStr (spr_Data r))])"

definition sp_Records_of_json :: "json \<Rightarrow> goerror + sp_Record list" where
  "sp_Records_of_json = decode_struct (\<lambda>k v rs.
     if k = ''records'' then set_struct (list_of_json sp_Record_of_json) v (\<lambda>l. l) else Inr rs) []"

record sp_ErrorResponse =
  spe_Code :: int
  spe_Message :: string

definition sp_ErrorResponse_of_json :: "json \<Rightarrow> goerror + sp_ErrorResponse" where
  "sp_ErrorResponse_of_json = decode_struct (\<lambda>k v r.
     if k = ''code'' then set_int v (\<lambda>i. r\<lparr>spe_Code := i\<rparr>) r
     else if k = ''error'' then set_str v (\<lambda>s. r\<lparr>spe_Message := s\<rparr>) r
     else Inr r) \<lparr>spe_Code = 0, spe_Message = []\<rparr>"

definition stackpath_Error :: "sp_ErrorResponse \<Rightarrow> goerror" where
  "stackpath_Error r = Err (show_int (spe_Code r) @ '' '' @ spe_Message r)"

section \<open>The client\<close>

definition stackpath_newRequest :: "env \<Rightarrow> stackpath \<Rightarrow> string \<Rightarrow> string \<Rightarrow> json option \<Rightarrow> goerror + http_request" where
  "stackpath_newRequest e d method urlStr body =
     (case url_ParseRef (sp_BaseURL d) (path_Join [sp_StackID (sp_config d), urlStr]) of
        Inl err \<Rightarrow> Inl err
      | Inr u \<Rightarrow>
          (case body of
             None \<Rightarrow> NewRequest e method (url_String u) None
           | Some j \<Rightarrow>
               map_sum (\<lambda>err. err) (Header_Set ''Content-Type'' ''application/json'')
                 (NewRequest e method (url_String u) (Some (jsonPrint e j)))))"

text \<open>A reply always has a body.\<close>

definition stackpath_checkResponse :: "env \<Rightarrow> http_response \<Rightarrow> goerror option" where
  "stackpath_checkResponse e resp =
     (if 299 < resp_StatusCode resp then
        Some (case resp_Body resp of
          Inl err \<Rightarrow> stackpath_Error \<lparr>spe_Code = resp_StatusCode resp, spe_Message = error_text err\<rparr>
        | Inr data \<Rightarrow>
            (case Unmarshal e sp_ErrorResponse_of_json data of
               Inl err \<Rightarrow> stackpath_Error \<lparr>spe_Code = resp_StatusCode resp,
                 spe_Message = ''unmarshaling error: '' @ error_text err @ '': '' @ data\<rparr>
             | Inr errResp \<Rightarrow> stackpath_Error errResp))
      else None)"

text \<open>The result of a request whose reply is not decoded is the unit.\<close>

definition stackpath_do ::
  "env \<Rightarrow> goerror + http_request \<Rightarrow> (http_response \<Rightarrow> goerror + 'a) \<Rightarrow> (world, goerror + 'a) go" where
  "stackpath_do e request read =
     (case request of
        Inl err \<Rightarrow> ret (Inl err)
      | Inr req \<Rightarrow>
          check (http_do e req) (\<lambda>resp.
            case stackpath_checkResponse e resp of
              Some err \<Rightarrow> ret (Inl err)
            | None \<Rightarrow> ret (read resp)))"

definition sp_decoded :: "env \<Rightarrow> (json \<Rightarrow> goerror + 'a) \<Rightarrow> http_response \<Rightarrow> goerror + 'a" where
  "sp_decoded e dec resp =
     (case resp_Body resp of
        Inl err \<Rightarrow> Inl (Wrap ''failed to read body: '' err)
      | Inr raw \<Rightarrow>
          (case Unmarshal e dec raw of
             Inl err \<Rightarrow> Inl (Wrap ''unmarshaling error: '' (err_then err ('': '' @ raw)))
           | Inr x \<Rightarrow> Inr x))"

definition sp_filtered :: "string \<Rightarrow> http_request \<Rightarrow> http_request" where
  "sp_filtered condition req =
     (let u = parsed (req_URL req);
          query = Values_Adds [(''page_request.filter'', condition)] (ParseQuery (url_RawQuery u)) in
      req\<lparr>req_URL := url_String (u\<lparr>url_RawQuery := Values_Encode query\<rparr>)\<rparr>)"

abbreviation sp_quoted :: "string \<Rightarrow> string" where
  "sp_quoted s \<equiv> [CHR 0x27] @ s @ [CHR 0x27]"

definition stackpath_getZones :: "env \<Rightarrow> stackpath \<Rightarrow> string \<Rightarrow> (world, goerror + sp_Zone) go" where
  "stackpath_getZones e d domain =
     (case effectiveTLDPlusOne e (UnFqdn domain) of
        Inl err \<Rightarrow> ret (Inl err)
      | Inr tld \<Rightarrow>
          check (stackpath_do e
              (map_sum (\<lambda>err. err) (sp_filtered (''domain='' @ sp_quoted tld))
                (stackpath_newRequest e d ''GET'' ''/zones'' None))
              (sp_decoded e sp_Zones_of_json)) (\<lambda>zones.
            case zones of
              [] \<Rightarrow> ret (Inl (Err (''did not find zone with domain '' @ UnFqdn domain)))
            | z # _ \<Rightarrow> ret (Inr z)))"

definition stackpath_getZoneRecords :: "env \<Rightarrow> stackpath \<Rightarrow> string \<Rightarrow> sp_Zone \<Rightarrow> (world, goerror + sp_Record list) go" where
  "stackpath_getZoneRecords e d name zone =
     check (stackpath_do e
         (map_sum (\<lambda>err. err) (sp_filtered (''name='' @ sp_quoted name @ '' and type='' @ sp_quoted ''TXT''))
           (stackpath_newRequest e d ''GET'' (''/zones/'' @ spz_ID zone @ ''/records'') None))
         (sp_decoded e sp_Records_of_json)) (\<lambda>records.
       if records = [] then ret (Inl (Err (''did not find record with name '' @ name))) else ret (Inr records))"

definition stackpath_createZoneRecord :: "env \<Rightarrow> stackpath \<Rightarrow> sp_Zone \<Rightarrow> sp_Record \<Rightarrow> (world, goerror + unit) go" where
  "stackpath_createZoneRecord e d zone record =
     stackpath_do e (stackpath_newRequest e d ''POST'' (''/zones/'' @ spz_ID zone @ ''/records'') (Some (sp_Record_json record)))
       (\<lambda>_. Inr ())"

definition stackpath_deleteZoneRecord :: "env \<Rightarrow> stackpath \<Rightarrow> sp_Zone \<Rightarrow> sp_Record \<Rightarrow> (world, goerror + unit) go" where
  "stackpath_deleteZoneRecord e d zone record =
     stackpath_do e (stackpath_newRequest e d ''DELETE'' (''/zones/'' @ spz_ID zone @ ''/records/'' @ spr_ID record) None)
       (\<lambda>_. Inr ())"

section \<open>The provider\<close>

definition stackpath_extractRecordName :: "string \<Rightarrow> string \<Rightarrow> string" where
  "stackpath_extractRecordName fqdn zone =
     (let name = UnFqdn fqdn in
      case str_index name (''.'' @ zone) of Some idx \<Rightarrow> take idx name | None \<Rightarrow> name)"

definition stackpath_Present :: "env \<Rightarrow> stackpath \<Rightarrow> string \<Rightarrow> string \<Rightarrow> string \<Rightarrow> (world, goerror option) go" where
  "stackpath_Present e d domain token keyAuth =
     try_or ''stackpath: '' (stackpath_getZones e d domain) (\<lambda>zone.
       bind (GetRecord e domain keyAuth) (\<lambda>(fqdn, value).
         passing (stackpath_createZoneRecord e d zone
           \<lparr>spr_ID = [], spr_Name = stackpath_extractRecordName fqdn (spz_Domain zone), spr_Type = ''TXT'',
            spr_TTL = sp_TTL (sp_config d), spr_Data = value\<rparr>) (\<lambda>_. ret None)))"

text \<open>A record that cannot be deleted is only logged.\<close>

fun sp_delete_all :: "env \<Rightarrow> stackpath \<Rightarrow> sp_Zone \<Rightarrow> sp_Record list \<Rightarrow> (world, unit) go" where
  "sp_delete_all e d zone [] = ret ()"
| "sp_delete_all e d zone (r # rs) = bind (stackpath_deleteZoneRecord e d zone r) (\<lambda>_. sp_delete_all e d zone rs)"

definition stackpath_CleanUp :: "env \<Rightarrow> stackpath \<Rightarrow> string \<Rightarrow> string \<Rightarrow> string \<Rightarrow> (world, goerror option) go" where
  "stackpath_CleanUp e d domain token keyAuth =
     try_or ''stackpath: '' (stackpath_getZones e d domain) (\<lambda>zone.
       bind (GetRecord e domain keyAuth) (\<lambda>(fqdn, _).
         passing (stackpath_getZoneRecords e d (stackpath_extractRecordName fqdn (spz_Domain zone)) zone) (\<lambda>records.
           bind (sp_delete_all e d zone records) (\<lambda>_. ret None))))"

definition stackpath_Timeout :: "stackpath \<Rightarrow> int \<times> int" where
  "stackpath_Timeout d = (sp_PropagationTimeout (sp_config d), sp_PollingInterval (sp_config d))"

definition stackpath_provider :: "env \<Rightarrow> stackpath \<Rightarrow> provider" where
  "stackpath_provider e d =
     \<lparr>prov_Present = stackpath_Present e d, prov_CleanUp = stackpath_CleanUp e d,
      prov_Timeout = Some (stackpath_Timeout d), prov_Sequential = None\<rparr>"

section \<open>The provider keeps its contract\<close>

lemma stackpath_newRequest_body:
  "stackpath_newRequest e d method urlStr body = Inr req \<Longrightarrow>
   req_Body req = (case body of None \<Rightarrow> NoBody | Some j \<Rightarrow> RawBody (jsonPrint e j))"
  by (auto simp: stackpath_newRequest_def map_sum_eq_Inr NewRequest_Inr split: sum.splits option.splits)

lemma sp_filtered_body [simp]: "req_Body (sp_filtered condition req) = req_Body req"
  by (simp add: sp_filtered_def Let_def)

context plain_invariant
begin

lemma always_stackpath_do:
  "(\<And>req m. request = Inr req \<Longrightarrow> req_Body req \<noteq> JoseBody m) \<Longrightarrow> always R (stackpath_do e request f)"
  unfolding stackpath_do_def by (intro always_intros always_plain_http) simp_all

lemma always_stackpath [always_intros]:
  "always R (stackpath_getZones e d domain)" "always R (stackpath_getZoneRecords e d name zone)"
  "always R (stackpath_createZoneRecord e d zone r)" "always R (stackpath_deleteZoneRecord e d zone r)"
  unfolding stackpath_getZones_def stackpath_getZoneRecords_def stackpath_createZoneRecord_def stackpath_deleteZoneRecord_def
  by (intro always_intros always_stackpath_do; auto simp: map_sum_eq_Inr dest!: stackpath_newRequest_body)+

lemma always_sp_delete_all [always_intros]: "always R (sp_delete_all e d zone rs)"
  by (induction rs; simp only: sp_delete_all.simps; intro always_intros)

lemma stackpath_keeps: "provider_keeps R (stackpath_provider e d)"
  unfolding stackpath_provider_def
  by (rule provider_keepsI; unfold stackpath_Present_def stackpath_CleanUp_def; intro always_intros)

end

abbreviation below_300 :: "http_response \<Rightarrow> bool" where
  "below_300 resp \<equiv> resp_StatusCode resp \<le> 299"

lemma stackpath_createZoneRecord_sent:
  "ensures is_ok (delivered e (spr_Data r) (answered below_300)) (stackpath_createZoneRecord e d zone r)"
  unfolding ensures_def
proof (intro allI impI)
  fix s x t
  assume "stackpath_createZoneRecord e d zone r s = (Return x, t)" and "is_ok x"
  then obtain req resp where req: "stackpath_newRequest e d ''POST'' (''/zones/'' @ spz_ID zone @ ''/records'')
      (Some (sp_Record_json r)) = Inr req"
    and sent: "happened s t (EvHttp req (Inr resp))" "stackpath_checkResponse e resp = None"
    unfolding stackpath_createZoneRecord_def stackpath_do_def
    by (auto simp: host_runs run_cases dest!: happened_http)
  have "carries e (spr_Data r) req"
    using stackpath_newRequest_body [OF req] by (simp add: carries_json sp_Record_json_def)
  with sent show "\<exists>ev. happened s t ev \<and> delivered e (spr_Data r) (answered below_300) ev"
    by (intro exI [of _ "EvHttp req (Inr resp)"]) (auto simp: stackpath_checkResponse_def split: if_splits)
qed

lemma stackpath_Present_sent:
  "ensures is_nil (delivered e (record_value e keyAuth) (answered below_300)) (stackpath_Present e d domain token keyAuth)"
proof -
  have "ensures is_ok (delivered e v (answered below_300)) (stackpath_createZoneRecord e d zone r)"
    if "spr_Data r = v" for v zone r using stackpath_createZoneRecord_sent that by metis
  then show ?thesis
    unfolding stackpath_Present_def
    by (intro ensures_try_later [OF growing.always_stackpath(1)] ensures_GetRecord
        ensures_handle_first growing.always_stackpath always_intros ensures_ret) simp_all
qed

interpretation stackpath: hosting e "stackpath_provider e d" "answered below_300" for e d
  by (rule hostingI [OF outsider.stackpath_keeps]) (simp add: stackpath_Present_sent stackpath_provider_def)

end
