(* ===== verification/Dns_Registry.thy ===== *)
theory Dns_Registry
  imports Providers Digitalocean Godaddy Hetzner Httpreq Glesys Luadns Netlify Gandiv5 Query_Hosts Selectel Versio
    Zoneee Autodns Rackspace Conoha Scaleway Arvancloud Clouddns Pdns Dyn Mythicbeasts
    Bluecat Checkdomain Cloudns Cloudxns Constellix Dnsmadeeasy Dynu Easydns Gandi Hostingde Hyperone Joker
    Namecheap Netcup Nifcloud Otc Regru Servercow Stackpath
begin

text \<open>
  The DNS providers that are modelled, by the name of their package, put behind
  \<^verbatim>\<open>NewDNSChallengeProviderByName\<close>.  For each of them the locale \<open>offering\<close>, for most of them as \<open>hosting\<close>, is
  interpreted in its theory; here the facts are collected into one statement about whatever provider the table
  returns.
\<close>

section \<open>The table\<close>

text \<open>A constructor of a package, with its provider seen through the interface \<^verbatim>\<open>challenge.Provider\<close>.\<close>

definition built :: "(world, goerror + 'd) go \<Rightarrow> ('d \<Rightarrow> provider) \<Rightarrow> (world, goerror + provider) go" where
  "built new as_provider = check new (\<lambda>d. ret (Inr (as_provider d)))"

text \<open>
  A package: the variables without which its constructor gives up, the constructor, and which exchanges with
  the service its \<^verbatim>\<open>Present\<close> counts as accepted.
\<close>

type_synonym host = "string list \<times> (env \<Rightarrow> (world, goerror + provider) go) \<times> (env \<Rightarrow> event \<Rightarrow> bool)"

definition host_table :: "(string \<times> host) list" where
  "host_table = [
    (''arvancloud'', [''ARVANCLOUD_API_KEY''],
      \<lambda>e. built (arvancloud_NewDNSProvider e) (arvancloud_provider e), \<lambda>_. status_201),
    (''autodns'', [''AUTODNS_API_USER'', ''AUTODNS_API_PASSWORD''],
      \<lambda>e. built (ret (autodns_NewDNSProvider e)) (autodns_provider e), \<lambda>_. answered below_400),
    (''bluecat'', [''BLUECAT_SERVER_URL'', ''BLUECAT_USER_NAME'', ''BLUECAT_PASSWORD'', ''BLUECAT_CONFIG_NAME'', ''BLUECAT_DNS_VIEW''],
      \<lambda>e. built (bluecat_NewDNSProvider e) (bluecat_provider e), \<lambda>_. answered bluecat_accepts),
    (''checkdomain'', [''CHECKDOMAIN_TOKEN''],
      \<lambda>e. built (checkdomain_NewDNSProvider e) (checkdomain_provider e), \<lambda>_. answered below_400),
    (''clouddns'', [''CLOUDDNS_CLIENT_ID'', ''CLOUDDNS_EMAIL'', ''CLOUDDNS_PASSWORD''],
      \<lambda>e. built (clouddns_NewDNSProvider e) (clouddns_provider e), \<lambda>_. answered below_400),
    (''cloudns'', [''CLOUDNS_AUTH_PASSWORD''],
      \<lambda>e. built (ret (cloudns_NewDNSProvider e)) (cloudns_provider e), \<lambda>e. answered (cloudns_accepts e)),
    (''cloudxns'', [''CLOUDXNS_API_KEY'', ''CLOUDXNS_SECRET_KEY''],
      \<lambda>e. built (ret (cloudxns_NewDNSProvider e)) (cloudxns_provider e), \<lambda>e. answered (cloudxns_accepts e)),
    (''conoha'', [''CONOHA_TENANT_ID'', ''CONOHA_API_USERNAME'', ''CONOHA_API_PASSWORD''],
      \<lambda>e. built (conoha_NewDNSProvider e) (conoha_provider e), \<lambda>_. status_200),
    (''constellix'', [''CONSTELLIX_API_KEY'', ''CONSTELLIX_SECRET_KEY''],
      \<lambda>e. built (ret (constellix_NewDNSProvider e)) (constellix_provider e), \<lambda>_. status_200),
    (''digitalocean'', [''DO_AUTH_TOKEN''],
      \<lambda>e. built (digitalocean_NewDNSProvider e) (digitalocean_provider e), \<lambda>_. answered below_400),
    (''dnsmadeeasy'', [''DNSMADEEASY_API_KEY'', ''DNSMADEEASY_API_SECRET''],
      \<lambda>e. built (ret (dnsmadeeasy_NewDNSProvider e)) (dnsmadeeasy_provider e), \<lambda>_. answered dnsmadeeasy_accepts),
    (''dode'', [''DODE_TOKEN''],
      \<lambda>e. built (ret (dode_NewDNSProvider e)) (dode_provider e), \<lambda>e. answered (dode_accepts e)),
    (''dreamhost'', [''DREAMHOST_API_KEY''],
      \<lambda>e. built (ret (dreamhost_NewDNSProvider e)) (dreamhost_provider e), \<lambda>_. status_200),
    (''duckdns'', [''DUCKDNS_TOKEN''],
      \<lambda>e. built (ret (duckdns_NewDNSProvider e)) (duckdns_provider e), \<lambda>_. answered duckdns_accepts),
    (''dyn'', [''DYN_CUSTOMER_NAME'', ''DYN_USER_NAME'', ''DYN_PASSWORD''],
      \<lambda>e. built (dyn_NewDNSProvider e) (dyn_provider e), \<lambda>_. answered dyn_accepts),
    (''dynu'', [''DYNU_API_KEY''],
      \<lambda>e. built (ret (dynu_NewDNSProvider e)) (dynu_provider e), \<lambda>e. answered (dynu_accepts e)),
    (''easydns'', [''EASYDNS_TOKEN'', ''EASYDNS_KEY''],
      \<lambda>e. built (easydns_NewDNSProvider e) (easydns_provider e), \<lambda>_. answered below_400),
    (''exec'', [''EXEC_PATH''],
      \<lambda>e. built (ret (exec_NewDNSProvider e)) (exec_provider e), \<lambda>_. succeeded),
    (''gandi'', [''GANDI_API_KEY''],
      \<lambda>e. built (gandi_NewDNSProvider e) (gandi_provider e), \<lambda>e. answered (gandi_accepts e)),
    (''gandiv5'', [''GANDIV5_API_KEY''],
      \<lambda>e. built (gandiv5_NewDNSProvider e) (gandiv5_provider e), \<lambda>_. answered below_400),
    (''glesys'', [''GLESYS_API_USER'', ''GLESYS_API_KEY''],
      \<lambda>e. built (glesys_NewDNSProvider e) (glesys_provider e), \<lambda>_. answered below_400),
    (''godaddy'', [''GODADDY_API_KEY'', ''GODADDY_API_SECRET''],
      \<lambda>e. built (ret (godaddy_NewDNSProvider e)) (godaddy_provider e), \<lambda>_. status_200),
    (''hetzner'', [''HETZNER_API_KEY''],
      \<lambda>e. built (ret (hetzner_NewDNSProvider e)) (hetzner_provider e), \<lambda>_. status_200),
    (''hostingde'', [''HOSTINGDE_API_KEY'', ''HOSTINGDE_ZONE_NAME''],
      \<lambda>e. built (hostingde_NewDNSProvider e) (hostingde_provider e), \<lambda>e. answered (hostingde_accepts e)),
    (''httpreq'', [''HTTPREQ_ENDPOINT''],
      \<lambda>e. built (ret (httpreq_NewDNSProvider e)) (httpreq_provider e), \<lambda>_. answered below_400),
    (''hyperone'', [],
      \<lambda>e. built (hyperone_NewDNSProvider e) (hyperone_provider e), \<lambda>_. answered status_2xx),
    (''joker'', [],
      \<lambda>e. built (joker_NewDNSProvider e) (joker_provider e), \<lambda>_. answered joker_accepts),
    (''luadns'', [''LUADNS_API_USERNAME'', ''LUADNS_API_TOKEN''],
      \<lambda>e. built (luadns_NewDNSProvider e) (luadns_provider e), \<lambda>_. status_200),
    (''mydnsjp'', [''MYDNSJP_MASTER_ID'', ''MYDNSJP_PASSWORD''],
      \<lambda>e. built (ret (mydnsjp_NewDNSProvider e)) (mydnsjp_provider e), \<lambda>_. answered below_400),
    (''mythicbeasts'', [''MYTHICBEASTS_USERNAME'', ''MYTHICBEASTS_PASSWORD''],
      \<lambda>e. built (mythicbeasts_NewDNSProvider e) (mythicbeasts_provider e), \<lambda>e. answered (mb_added e)),
    (''namecheap'', [''NAMECHEAP_API_USER'', ''NAMECHEAP_API_KEY''],
      \<lambda>e. built (namecheap_NewDNSProvider e) (namecheap_provider e), \<lambda>e. answered (namecheap_accepts e)),
    (''netcup'', [''NETCUP_CUSTOMER_NUMBER'', ''NETCUP_API_KEY'', ''NETCUP_API_PASSWORD''],
      \<lambda>e. built (ret (netcup_NewDNSProvider e)) (netcup_provider e), \<lambda>e. answered (netcup_accepts e)),
    (''netlify'', [''NETLIFY_TOKEN''],
      \<lambda>e. built (netlify_NewDNSProvider e) (netlify_provider e), \<lambda>_. status_201),
    (''nifcloud'', [''NIFCLOUD_ACCESS_KEY_ID'', ''NIFCLOUD_SECRET_ACCESS_KEY''],
      \<lambda>e. built (ret (nifcloud_NewDNSProvider e)) (nifcloud_provider e), \<lambda>_. status_200),
    (''otc'', [''OTC_DOMAIN_NAME'', ''OTC_USER_NAME'', ''OTC_PASSWORD'', ''OTC_PROJECT_NAME''],
      \<lambda>e. built (otc_NewDNSProvider e) (otc_provider e), \<lambda>_. answered below_400),
    (''pdns'', [''PDNS_API_KEY'', ''PDNS_API_URL''],
      \<lambda>e. built (pdns_NewDNSProvider e) (pdns_provider e), \<lambda>_. answered pdns_accepts),
    (''rackspace'', [''RACKSPACE_USER'', ''RACKSPACE_API_KEY''],
      \<lambda>e. built (rackspace_NewDNSProvider e) (rackspace_provider e), \<lambda>_. status_200_or_202),
    (''regru'', [''REGRU_USERNAME'', ''REGRU_PASSWORD''],
      \<lambda>e. built (ret (regru_NewDNSProvider e)) (regru_provider e), \<lambda>e. answered (regru_accepts e)),
    (''scaleway'', [''SCALEWAY_API_TOKEN''],
      \<lambda>e. built (ret (scaleway_NewDNSProvider e)) (scaleway_provider e), \<lambda>_. status_200_to_399),
    (''selectel'', [''SELECTEL_API_TOKEN''],
      \<lambda>e. built (ret (selectel_NewDNSProvider e)) (selectel_provider e), \<lambda>_. answered below_400),
    (''servercow'', [''SERVERCOW_USERNAME'', ''SERVERCOW_PASSWORD''],
      \<lambda>e. built (servercow_NewDNSProvider e) (servercow_provider e), \<lambda>e. answered (servercow_accepts e)),
    (''stackpath'', [''STACKPATH_CLIENT_ID'', ''STACKPATH_CLIENT_SECRET'', ''STACKPATH_STACK_ID''],
      \<lambda>e. built (ret (stackpath_NewDNSProvider e)) (stackpath_provider e), \<lambda>_. answered below_300),
    (''versio'', [''VERSIO_USERNAME'', ''VERSIO_PASSWORD''],
      \<lambda>e. built (ret (versio_NewDNSProvider e)) (versio_provider e), \<lambda>_. answered below_400),
    (''vscale'', [''VSCALE_API_TOKEN''],
      \<lambda>e. built (ret (vscale_NewDNSProvider e)) (vscale_provider e), \<lambda>_. answered below_400),
    (''zoneee'', [''ZONEEE_API_USER'', ''ZONEEE_API_KEY''],
      \<lambda>e. built (ret (zoneee_NewDNSProvider e)) (zoneee_provider e), \<lambda>_. answered below_400)]"

text \<open>\<^verbatim>\<open>NewDNSProvider\<close> of a package; the packages that are not modelled are the argument \<open>rest\<close>.\<close>

definition package_NewDNSProvider ::
  "env \<Rightarrow> (string \<Rightarrow> (world, goerror + provider) go) \<Rightarrow> string \<Rightarrow> (world, goerror + provider) go" where
  "package_NewDNSProvider e rest package =
     (case map_of host_table package of Some (_, new, _) \<Rightarrow> new e | None \<Rightarrow> rest package)"

section \<open>Every modelled package keeps the contract\<close>

text \<open>Three packages look for the record first, and do nothing when the service already has it.\<close>

definition found_by :: "string \<Rightarrow> env \<Rightarrow> string \<Rightarrow> event \<Rightarrow> bool" where
  "found_by package e txt ev \<longleftrightarrow> package \<in> {''constellix'', ''dynu'', ''servercow''} \<and> reported e txt ev"

definition sound_host :: "string \<times> host \<Rightarrow> bool" where
  "sound_host h \<longleftrightarrow> (case h of (package, _, new, accepts) \<Rightarrow>
     \<forall>e. always outside (new e)
       \<and> (\<forall>p w t. retry_ok e \<longrightarrow> new e w = (Return (Inr p), t) \<longrightarrow> offering e p (accepts e) (found_by package e)))"

lemma sound_offering:
  assumes "\<And>e. always outside (new e)" and "\<And>e d. retry_ok e \<Longrightarrow> offering e (as_provider e d) (accepts e) (found_by package e)"
  shows "sound_host (package, ks, \<lambda>e. built (new e) (as_provider e), accepts)"
  using assms
  by (auto simp: sound_host_def built_def check_def handle_Return_eq intro!: outsider.always_handle outsider.always_ret)

lemma offering_mono:
  assumes "offering e p accepted found" and "\<And>txt ev. found txt ev \<Longrightarrow> found' txt ev"
  shows "offering e p accepted found'"
proof
  show "provider_keeps outside p" by (rule offering.offer_outside [OF assms(1)])
  show "ensures is_nil (\<lambda>ev. delivered e (record_value e keyAuth) accepted ev
      \<or> delivered e keyAuth accepted ev \<or> found' (record_value e keyAuth) ev) (prov_Present p domain token keyAuth)"
    for keyAuth domain token
    by (rule ensures_mono [OF offering.offer_present [OF assms(1)]]) (use assms(2) in blast)
qed

lemma sound_found:
  assumes "\<And>e. always outside (new e)" and "\<And>e d. retry_ok e \<Longrightarrow> offering e (as_provider e d) (accepts e) (reported e)"
    and "package \<in> {''constellix'', ''dynu'', ''servercow''}"
  shows "sound_host (package, ks, \<lambda>e. built (new e) (as_provider e), accepts)"
proof -
  have "reported e = found_by package e" for e using assms(3) by (simp add: found_by_def fun_eq_iff)
  then show ?thesis using assms(2) by (intro sound_offering assms(1)) simp
qed

lemma hosting_offering: "hosting e p accepted \<Longrightarrow> offering e p accepted (\<lambda>_ _. False)"
  by (simp add: hosting_def offering_def)

lemma sound_built_retry:
  assumes "\<And>e. always outside (new e)" and "\<And>e d. retry_ok e \<Longrightarrow> hosting e (as_provider e d) (accepts e)"
  shows "sound_host (package, ks, \<lambda>e. built (new e) (as_provider e), accepts)"
proof (rule sound_offering [OF assms(1)])
  show "offering e (as_provider e d) (accepts e) (found_by package e)" if "retry_ok e" for e d
    using offering_mono [OF hosting_offering [OF assms(2) [OF that]]] by simp
qed

text \<open>Most providers do not use the back-off library.\<close>

lemma sound_built:
  assumes "\<And>e. always outside (new e)" and "\<And>e d. hosting e (as_provider e d) (accepts e)"
  shows "sound_host (package, ks, \<lambda>e. built (new e) (as_provider e), accepts)"
  using assms by (rule sound_built_retry)

context plain_invariant
begin

lemma always_new_hosts:
  "always R (digitalocean_NewDNSProvider e)" "always R (gandiv5_NewDNSProvider e)"
  "always R (glesys_NewDNSProvider e)" "always R (luadns_NewDNSProvider e)" "always R (netlify_NewDNSProvider e)"
  unfolding digitalocean_NewDNSProvider_def digitalocean_NewDNSProviderConfig_def
    gandiv5_NewDNSProvider_def gandiv5_NewDNSProviderConfig_def glesys_NewDNSProvider_def glesys_NewDNSProviderConfig_def
    luadns_NewDNSProvider_def luadns_NewDNSProviderConfig_def netlify_NewDNSProvider_def
    netlify_NewDNSProviderConfig_def Let_def
  by (intro always_intros)+

end

lemmas sound_hosts =
  sound_found [OF outsider.always_ret constellix.offering_axioms]
  sound_found [OF outsider.always_ret dynu_offering]
  sound_found [OF outsider.always_servercow_NewDNSProvider servercow.offering_axioms]
  sound_built_retry [OF outsider.always_hostingde_NewDNSProvider hostingde_hosting]
  sound_built [OF outsider.always_arvancloud_NewDNSProvider arvancloud.hosting_axioms]
  sound_built [OF outsider.always_clouddns_NewDNSProvider clouddns.hosting_axioms]
  sound_built [OF outsider.always_conoha_NewDNSProvider conoha.hosting_axioms]
  sound_built [OF outsider.always_new_hosts(1) digitalocean.hosting_axioms]
  sound_built [OF outsider.always_dyn_NewDNSProvider dyn.hosting_axioms]
  sound_built [OF outsider.always_new_hosts(2) gandiv5.hosting_axioms]
  sound_built [OF outsider.always_new_hosts(3) glesys.hosting_axioms]
  sound_built [OF outsider.always_new_hosts(4) luadns.hosting_axioms]
  sound_built [OF outsider.always_mythicbeasts_NewDNSProvider mythicbeasts.hosting_axioms]
  sound_built [OF outsider.always_new_hosts(5) netlify.hosting_axioms]
  sound_built [OF outsider.always_pdns_NewDNSProvider pdns.hosting_axioms]
  sound_built [OF outsider.always_rackspace_NewDNSProvider rackspace.hosting_axioms]
  sound_built [OF outsider.always_bluecat_NewDNSProvider bluecat.hosting_axioms]
  sound_built [OF outsider.always_checkdomain_NewDNSProvider checkdomain.hosting_axioms]
  sound_built [OF outsider.always_easydns_NewDNSProvider easydns.hosting_axioms]
  sound_built [OF outsider.always_joker_NewDNSProvider joker.hosting_axioms]
  sound_built [OF outsider.always_hyperone_NewDNSProvider hyperone.hosting_axioms]
  sound_built [OF outsider.always_namecheap_NewDNSProvider namecheap.hosting_axioms]
  sound_built [OF outsider.always_gandi_NewDNSProvider gandi.hosting_axioms]
  sound_built [OF outsider.always_ret stackpath.hosting_axioms] sound_built [OF outsider.always_ret nifcloud.hosting_axioms]
  sound_built [OF outsider.always_otc_NewDNSProvider otc.hosting_axioms]
  sound_built [OF outsider.always_ret cloudns.hosting_axioms] sound_built [OF outsider.always_ret netcup.hosting_axioms]
  sound_built [OF outsider.always_ret regru.hosting_axioms] sound_built [OF outsider.always_ret cloudxns.hosting_axioms]
  sound_built [OF outsider.always_ret dnsmadeeasy.hosting_axioms]
  sound_built [OF outsider.always_ret autodns.hosting_axioms] sound_built [OF outsider.always_ret dode.hosting_axioms]
  sound_built [OF outsider.always_ret dreamhost.hosting_axioms] sound_built [OF outsider.always_ret duckdns.hosting_axioms]
  sound_built [OF outsider.always_ret exec.hosting_axioms] sound_built [OF outsider.always_ret godaddy.hosting_axioms]
  sound_built [OF outsider.always_ret hetzner.hosting_axioms] sound_built [OF outsider.always_ret httpreq.hosting_axioms]
  sound_built [OF outsider.always_ret mydnsjp.hosting_axioms] sound_built [OF outsider.always_ret scaleway.hosting_axioms]
  sound_built [OF outsider.always_ret selectel.hosting_axioms] sound_built [OF outsider.always_ret versio.hosting_axioms]
  sound_built [OF outsider.always_ret vscale.hosting_axioms] sound_built [OF outsider.always_ret zoneee.hosting_axioms]

lemma host_table_sound: "list_all sound_host host_table"
  unfolding host_table_def by (simp add: sound_hosts)

lemma map_of_host_sound: "map_of host_table package = Some h \<Longrightarrow> sound_host (package, h)"
  using host_table_sound map_of_SomeD by (fastforce simp: list_all_iff)

text \<open>What the packages that are not modelled keep, all packages keep.\<close>

lemma package_keeps:
  assumes "retry_ok e" and "\<forall>package. always outside (rest package)"
    and "\<forall>package p w t. rest package w = (Return (Inr p), t) \<longrightarrow> provider_keeps tame p"
  shows "\<forall>package. always outside (package_NewDNSProvider e rest package)"
    and "\<forall>package p w t. package_NewDNSProvider e rest package w = (Return (Inr p), t) \<longrightarrow> provider_keeps tame p"
proof -
  have "sound_host (package, h)" if "map_of host_table package = Some h" for h package using map_of_host_sound that .
  then show "\<forall>package. always outside (package_NewDNSProvider e rest package)"
    and "\<forall>package p w t. package_NewDNSProvider e rest package w = (Return (Inr p), t) \<longrightarrow> provider_keeps tame p"
    using assms offering.offer_tame
    by (fastforce simp: package_NewDNSProvider_def sound_host_def split: option.splits prod.splits)+
qed

lemma ByName_package:
  assumes "map_of dns_packages name = Some package"
  shows "NewDNSChallengeProviderByName e construct name = construct package"
proof -
  have "map_of dns_packages ''manual'' = None" by (simp add: dns_packages_def)
  with assms have "name \<noteq> ''manual''" by auto
  then show ?thesis using assms by (simp add: NewDNSChallengeProviderByName_def)
qed


text \<open>A service that accepts everything, and an environment in which every variable is set.\<close>

definition open_env :: env where
  "open_env = sample_env\<lparr>getenv := (\<lambda>k. if k \<in> {''MYDNSJP_MASTER_ID'', ''MYDNSJP_PASSWORD''} then ''x'' else []),
     httpDo := (\<lambda>_ _. Inr \<lparr>resp_StatusCode = 200, resp_Status = ''200 OK'', resp_Header = [], resp_Body = Inr []\<rparr>)\<rparr>"

definition dns_authz :: authorization where
  "dns_authz = \<lparr>az_Status = ''pending'', az_Expires = [], az_Identifier = \<lparr>id_Type = ''dns'', id_Value = ''a.org''\<rparr>,
     az_Challenges = [\<lparr>chl_Type = ''dns-01'', chl_URL = ''c'', chl_Status = [], chl_Validated = [], chl_Error = None,
       chl_Token = ''t'', chl_KeyAuthorization = []\<rparr>], az_Wildcard = False\<rparr>"

definition dns_challenge_of :: "provider \<Rightarrow> dns_challenge" where
  "dns_challenge_of p = \<lparr>dc_core = cl_core shop_client, dc_validate = (\<lambda>_ _ _. ret None), dc_provider = Some p,
     dc_preCheck = newPreCheck\<rparr>"

definition mydnsjp_open :: mydnsjp where
  "mydnsjp_open = (mydnsjp_NewDefaultConfig open_env)\<lparr>mj_MasterID := ''x'', mj_Password := ''x''\<rparr>"

lemma retry_ok_open: "retry_ok open_env"
  by (rule retry_ok_sample [of _ 3]) (simp add: open_env_def sample_retry_ok)

lemma open_env_mydnsjp:
  "NewDNSChallengeProviderByName open_env (package_NewDNSProvider open_env rest) ''mydnsjp'' w
     = (Return (Inr (mydnsjp_provider open_env mydnsjp_open)), w)"
proof -
  have "env_Get open_env [''MYDNSJP_MASTER_ID'', ''MYDNSJP_PASSWORD'']
      = Inr [(''MYDNSJP_MASTER_ID'', ''x''), (''MYDNSJP_PASSWORD'', ''x'')]"
    by (simp add: env_Get_def GetOrFile_def open_env_def)
  then have "mydnsjp_NewDNSProvider open_env = Inr mydnsjp_open"
    by (simp add: mydnsjp_NewDNSProvider_def mydnsjp_NewDNSProviderConfig_def env_value_def mydnsjp_open_def)
  moreover have "map_of dns_packages ''mydnsjp'' = Some ''mydnsjp''" by (simp add: dns_packages_def)
  ultimately show ?thesis
    by (simp add: ByName_package package_NewDNSProvider_def host_table_def built_def check_def handle_def bind_def)
qed


section \<open>Credentials\<close>

lemma env_Get_fold:
  "snd (fold (\<lambda>envVar (vs, ms). let value = GetOrFile e envVar in
      (put envVar value vs, if value = [] then ms @ [envVar] else ms)) ks (vs0, ms0))
    = ms0 @ filter (\<lambda>k. GetOrFile e k = []) ks"
  by (induction ks arbitrary: vs0 ms0) (auto simp: Let_def)

lemma env_Get_missing:
  assumes "list_ex (\<lambda>k. GetOrFile e k = []) ks"
  shows "env_Get e ks = Inl (missing_error (filter (\<lambda>k. GetOrFile e k = []) ks))"
proof -
  have "filter (\<lambda>k. GetOrFile e k = []) ks \<noteq> []" using assms by (auto simp: list_ex_iff filter_empty_conv)
  then show ?thesis
    using env_Get_fold [of e ks "[]" "[]"] by (auto simp: env_Get_def split: prod.split)
qed

lemmas new_host_defs = arvancloud_NewDNSProvider_def autodns_NewDNSProvider_def clouddns_NewDNSProvider_def
  conoha_NewDNSProvider_def digitalocean_NewDNSProvider_def dode_NewDNSProvider_def dreamhost_NewDNSProvider_def
  duckdns_NewDNSProvider_def dyn_NewDNSProvider_def exec_NewDNSProvider_def gandiv5_NewDNSProvider_def
  glesys_NewDNSProvider_def godaddy_NewDNSProvider_def hetzner_NewDNSProvider_def httpreq_NewDNSProvider_def
  luadns_NewDNSProvider_def mydnsjp_NewDNSProvider_def mythicbeasts_NewDNSProvider_def netlify_NewDNSProvider_def
  pdns_NewDNSProvider_def rackspace_NewDNSProvider_def scaleway_NewDNSProvider_def selectel_NewDNSProvider_def
  vscale_NewDNSProvider_def sel_NewDNSProvider_def versio_NewDNSProvider_def zoneee_NewDNSProvider_def
  bluecat_NewDNSProvider_def checkdomain_NewDNSProvider_def cloudns_NewDNSProvider_def easydns_NewDNSProvider_def
  netcup_NewDNSProvider_def otc_NewDNSProvider_def regru_NewDNSProvider_def
  cloudxns_NewDNSProvider_def dnsmadeeasy_NewDNSProvider_def hostingde_NewDNSProvider_def
  constellix_NewDNSProvider_def dynu_NewDNSProvider_def servercow_NewDNSProvider_def
  namecheap_NewDNSProvider_def stackpath_NewDNSProvider_def gandi_NewDNSProvider_def nifcloud_NewDNSProvider_def

lemma host_credentials_needed:
  "list_all (\<lambda>(_, ks, new, _). list_ex (\<lambda>k. GetOrFile e k = []) ks \<longrightarrow> (\<exists>err. new e w = (Return (Inl err), w))) host_table"
  unfolding host_table_def list.pred_inject prod.case
  by (intro conjI impI list.pred_inject(1);
      ((simp; fail)
      | (drule env_Get_missing, simp add: built_def check_def handle_def bind_def new_host_defs Let_def split: sum.split)))

text \<open>
  C39 (error).  A provider is refused when one of its credentials is neither in the environment nor in a file
  named there: the constructor returns an error, nothing is sent and nothing is allocated.
\<close>

theorem registered_provider_needs_credentials:
  assumes "map_of dns_packages name = Some package" and "map_of host_table package = Some (ks, new, accepts)"
    and "k \<in> set ks" and "GetOrFile e k = []"
  shows "\<exists>err. NewDNSChallengeProviderByName e (package_NewDNSProvider e rest) name w = (Return (Inl err), w)"
proof -
  have "\<exists>err. new e w = (Return (Inl err), w)"
    using host_credentials_needed [of e w] map_of_SomeD [OF assms(2)] assms(3,4)
    by (fastforce simp: list_all_iff list_ex_iff)
  then show ?thesis using assms(2) by (simp add: ByName_package [OF assms(1)] package_NewDNSProvider_def)
qed

theorem registered_provider_needs_credentials_witness:
  "\<exists>err. NewDNSChallengeProviderByName sample_env (package_NewDNSProvider sample_env (\<lambda>_. panic [])) ''pdns'' sample_world
     = (Return (Inl err), sample_world)"
proof -
  have table: "map_of dns_packages ''pdns'' = Some ''pdns''"
    "map_of host_table ''pdns'' = Some ([''PDNS_API_KEY'', ''PDNS_API_URL''],
       \<lambda>e. built (pdns_NewDNSProvider e) (pdns_provider e), \<lambda>_. answered pdns_accepts)"
    by (simp_all add: dns_packages_def host_table_def)
  have "GetOrFile sample_env ''PDNS_API_URL'' = []" by (simp add: GetOrFile_def sample_env_def)
  from registered_provider_needs_credentials [OF table _ this] show ?thesis by simp
qed

end
