(* ===== verification/Dns_Help_Pages.thy ===== *)
theory Dns_Help_Pages
  imports Go_Base
begin

text \<open>
  The pages of \<^verbatim>\<open>displayDNSHelp\<close> in \<^verbatim>\<open>cmd/zz_gen_cmd_dnshelp.go\<close>, as data: the name of the provider, its code, the
  version since when it is there, and the variables of the environment it reads, with their descriptions.
  Every branch of the switch but \<^verbatim>\<open>manual\<close> prints one of them in the layout of \<open>help_lines\<close>.
\<close>

named_theorems credentials \<open>the names of the credentials on the pages\<close>

record help_page =
  hp_Name :: string
  hp_Code :: string
  hp_Since :: string
  hp_Credentials :: "(string \<times> string) list"
  hp_Additional :: "(string \<times> string) list"

definition credential_names :: "help_page \<Rightarrow> string list" where
  "credential_names p = map fst (hp_Credentials p)"

definition help_item :: "string \<times> string \<Rightarrow> string" where
  "help_item v = [CHR 0x09] @ ''- '' @ [CHR 0x22] @ fst v @ [CHR 0x22] @ '':'' @ [CHR 0x09] @ snd v"

text \<open>The arguments of \<^verbatim>\<open>writeln\<close>, one after the other; a section without variables is left out.\<close>

definition help_lines :: "help_page \<Rightarrow> string list" where
  "help_lines p =
     [''Configuration for '' @ hp_Name p @ ''.'',
      ''Code:'' @ [CHR 0x09, CHR 0x27] @ hp_Code p @ [CHR 0x27],
      ''Since:'' @ [CHR 0x09, CHR 0x27] @ hp_Since p @ [CHR 0x27],
      []]
     @ (if hp_Credentials p = [] then [] else ''Credentials:'' # map help_item (hp_Credentials p) @ [[]])
     @ (if hp_Additional p = [] then [] else ''Additional Configuration:'' # map help_item (hp_Additional p))
     @ [[], ''More information: https://go-acme.github.io/lego/dns/'' @ hp_Code p]"

definition help_acme_dns :: help_page where
  "help_acme_dns =
     \<lparr>hp_Name = ''Joohoi's ACME-DNS'', hp_Code = ''acme-dns'', hp_Since = ''v1.1.0'',
      hp_Credentials = [
       (''ACME_DNS_API_BASE'', ''The ACME-DNS API address''),
       (''ACME_DNS_STORAGE_PATH'', ''The ACME-DNS JSON account data file. A per-domain account will be registered/persisted to this file and used for TXT updates.'')],
      hp_Additional = []\<rparr>"

definition help_alidns :: help_page where
  "help_alidns =
     \<lparr>hp_Name = ''Alibaba Cloud DNS'', hp_Code = ''alidns'', hp_Since = ''v1.1.0'',
      hp_Credentials = [
       (''ALICLOUD_ACCESS_KEY'', ''Access key ID''),
       (''ALICLOUD_SECRET_KEY'', ''Access Key secret'')],
      hp_Additional = [
       (''ALICLOUD_HTTP_TIMEOUT'', ''API request timeout''),
       (''ALICLOUD_POLLING_INTERVAL'', ''Time between DNS propagation check''),
       (''ALICLOUD_PROPAGATION_TIMEOUT'', ''Maximum waiting time for DNS propagation''),
       (''ALICLOUD_TTL'', ''The TTL of the TXT record used for the DNS challenge'')]\<rparr>"

definition help_arvancloud :: help_page where
  "help_arvancloud =
     \<lparr>hp_Name = ''ArvanCloud'', hp_Code = ''arvancloud'', hp_Since = ''v3.8.0'',
      hp_Credentials = [
       (''ARVANCLOUD_API_KEY'', ''API key'')],
      hp_Additional = [
       (''ARVANCLOUD_HTTP_TIMEOUT'', ''API request timeout''),
       (''ARVANCLOUD_POLLING_INTERVAL'', ''Time between DNS propagation check''),
       (''ARVANCLOUD_PROPAGATION_TIMEOUT'', ''Maximum waiting time for DNS propagation''),
       (''ARVANCLOUD_SEQUENCE_INTERVAL'', ''Interval between iteration''),
       (''ARVANCLOUD_TTL'', ''The TTL of the TXT record used for the DNS challenge'')]\<rparr>"

definition help_auroradns :: help_page where
  "help_auroradns =
     \<lparr>hp_Name = ''Aurora DNS'', hp_Code = ''auroradns'', hp_Since = ''v0.4.0'',
      hp_Credentials = [
       (''AURORA_ENDPOINT'', ''API endpoint URL''),
       (''AURORA_KEY'', ''User API key''),
       (''AURORA_USER_ID'', ''User ID'')],
      hp_Additional = [
       (''AURORA_POLLING_INTERVAL'', ''Time between DNS propagation check''),
       (''AURORA_PROPAGATION_TIMEOUT'', ''Maximum waiting time for DNS propagation''),
       (''AURORA_TTL'', ''The TTL of the TXT record used for the DNS challenge'')]\<rparr>"

definition help_autodns :: help_page where
  "help_autodns =
     \<lparr>hp_Name = ''Autodns'', hp_Code = ''autodns'', hp_Since = ''v3.2.0'',
      hp_Credentials = [
       (''AUTODNS_API_PASSWORD'', ''User Password''),
       (''AUTODNS_API_USER'', ''Username'')],
      hp_Additional = [
       (''AUTODNS_CONTEXT'', ''API context (4 for production, 1 for testing. Defaults to 4)''),
       (''AUTODNS_ENDPOINT'', ''API endpoint URL, defaults to https://api.autodns.com/v1/''),
       (''AUTODNS_HTTP_TIMEOUT'', ''API request timeout, defaults to 30 seconds''),
       (''AUTODNS_POLLING_INTERVAL'', ''Time between DNS propagation check''),
       (''AUTODNS_PROPAGATION_TIMEOUT'', ''Maximum waiting time for DNS propagation''),
       (''AUTODNS_TTL'', ''The TTL of the TXT record used for the DNS challenge'')]\<rparr>"

definition help_azure :: help_page where
  "help_azure =
     \<lparr>hp_Name = ''Azure'', hp_Code = ''azure'', hp_Since = ''v0.4.0'',
      hp_Credentials = [
       (''AZURE_CLIENT_ID'', ''Client ID''),
       (''AZURE_CLIENT_SECRET'', ''Client secret''),
       (''AZURE_ENVIRONMENT'', ''Azure environment, one of: public, usgovernment, german, and china''),
       (''AZURE_RESOURCE_GROUP'', ''Resource group''),
       (''AZURE_SUBSCRIPTION_ID'', ''Subscription ID''),
       (''AZURE_TENANT_ID'', ''Tenant ID''),
       (''instance metadata service'', ''If the credentials are **not** set via the environment, then it will attempt to get a bearer token via the [instance metadata service](https://docs.microsoft.com/en-us/azure/virtual-machines/windows/instance-metadata-service).'')],
      hp_Additional = [
       (''AZURE_METADATA_ENDPOINT'', ''Metadata Service endpoint URL''),
       (''AZURE_POLLING_INTERVAL'', ''Time between DNS propagation check''),
       (''AZURE_PROPAGATION_TIMEOUT'', ''Maximum waiting time for DNS propagation''),
       (''AZURE_TTL'', ''The TTL of the TXT record used for the DNS challenge'')]\<rparr>"

definition help_bindman :: help_page where
  "help_bindman =
     \<lparr>hp_Name = ''Bindman'', hp_Code = ''bindman'', hp_Since = ''v2.6.0'',
      hp_Credentials = [
       (''BINDMAN_MANAGER_ADDRESS'', ''The server URL, should have scheme, hostname, and port (if required) of the Bindman-DNS Manager server'')],
      hp_Additional = [
       (''BINDMAN_HTTP_TIMEOUT'', ''API request timeout''),
       (''BINDMAN_POLLING_INTERVAL'', ''Time between DNS propagation check''),
       (''BINDMAN_PROPAGATION_TIMEOUT'', ''Maximum waiting time for DNS propagation'')]\<rparr>"

definition help_bluecat :: help_page where
  "help_bluecat =
     \<lparr>hp_Name = ''Bluecat'', hp_Code = ''bluecat'', hp_Since = ''v0.5.0'',
      hp_Credentials = [
       (''BLUECAT_CONFIG_NAME'', ''Configuration name''),
       (''BLUECAT_DNS_VIEW'', ''External DNS View Name''),
       (''BLUECAT_PASSWORD'', ''API password''),
       (''BLUECAT_SERVER_URL'', ''The server URL, should have scheme, hostname, and port (if required) of the authoritative Bluecat BAM serve''),
       (''BLUECAT_USER_NAME'', ''API username'')],
      hp_Additional = [
       (''BLUECAT_HTTP_TIMEOUT'', ''API request timeout''),
       (''BLUECAT_POLLING_INTERVAL'', ''Time between DNS propagation check''),
       (''BLUECAT_PROPAGATION_TIMEOUT'', ''Maximum waiting time for DNS propagation''),
       (''BLUECAT_TTL'', ''The TTL of the TXT record used for the DNS challenge'')]\<rparr>"

definition help_checkdomain :: help_page where
  "help_checkdomain =
     \<lparr>hp_Name = ''Checkdomain'', hp_Code = ''checkdomain'', hp_Since = ''v3.3.0'',
      hp_Credentials = [
       (''CHECKDOMAIN_TOKEN'', ''API token'')],
      hp_Additional = [
       (''CHECKDOMAIN_ENDPOINT'', ''API endpoint URL, defaults to https://api.checkdomain.de''),
       (''CHECKDOMAIN_HTTP_TIMEOUT'', ''API request timeout, defaults to 30 seconds''),
       (''CHECKDOMAIN_POLLING_INTERVAL'', ''Time between DNS propagation check''),
       (''CHECKDOMAIN_PROPAGATION_TIMEOUT'', ''Maximum waiting time for DNS propagation''),
       (''CHECKDOMAIN_TTL'', ''The TTL of the TXT record used for the DNS challenge'')]\<rparr>"

definition help_clouddns :: help_page where
  "help_clouddns =
     \<lparr>hp_Name = ''CloudDNS'', hp_Code = ''clouddns'', hp_Since = ''v3.6.0'',
      hp_Credentials = [
       (''CLOUDDNS_CLIENT_ID'', ''Client ID''),
       (''CLOUDDNS_EMAIL'', ''Account email''),
       (''CLOUDDNS_PASSWORD'', ''Account password'')],
      hp_Additional = [
       (''CLOUDDNS_HTTP_TIMEOUT'', ''API request timeout''),
       (''CLOUDDNS_POLLING_INTERVAL'', ''Time between DNS propagation check''),
       (''CLOUDDNS_PROPAGATION_TIMEOUT'', ''Maximum waiting time for DNS propagation''),
       (''CLOUDDNS_TTL'', ''The TTL of the TXT record used for the DNS challenge'')]\<rparr>"

definition help_cloudflare :: help_page where
  "help_cloudflare =
     \<lparr>hp_Name = ''Cloudflare'', hp_Code = ''cloudflare'', hp_Since = ''v0.3.0'',
      hp_Credentials = [
       (''CF_API_EMAIL'', ''Account email''),
       (''CF_API_KEY'', ''API key''),
       (''CF_DNS_API_TOKEN'', ''API token with DNS:Edit permission (since v3.1.0)''),
       (''CF_ZONE_API_TOKEN'', ''API token with Zone:Read permission (since v3.1.0)''),
       (''CLOUDFLARE_API_KEY'', ''Alias to CF_API_KEY''),
       (''CLOUDFLARE_DNS_API_TOKEN'', ''Alias to CF_DNS_API_TOKEN''),
       (''CLOUDFLARE_EMAIL'', ''Alias to CF_API_EMAIL''),
       (''CLOUDFLARE_ZONE_API_TOKEN'', ''Alias to CF_ZONE_API_TOKEN'')],
      hp_Additional = [
       (''CLOUDFLARE_HTTP_TIMEOUT'', ''API request timeout''),
       (''CLOUDFLARE_POLLING_INTERVAL'', ''Time between DNS propagation check''),
       (''CLOUDFLARE_PROPAGATION_TIMEOUT'', ''Maximum waiting time for DNS propagation''),
       (''CLOUDFLARE_TTL'', ''The TTL of the TXT record used for the DNS challenge'')]\<rparr>"

definition help_cloudns :: help_page where
  "help_cloudns =
     \<lparr>hp_Name = ''ClouDNS'', hp_Code = ''cloudns'', hp_Since = ''v2.3.0'',
      hp_Credentials = [
       (''CLOUDNS_AUTH_ID'', ''The API user ID''),
       (''CLOUDNS_AUTH_PASSWORD'', ''The password for API user ID'')],
      hp_Additional = [
       (''CLOUDNS_HTTP_TIMEOUT'', ''API request timeout''),
       (''CLOUDNS_POLLING_INTERVAL'', ''Time between DNS propagation check''),
       (''CLOUDNS_PROPAGATION_TIMEOUT'', ''Maximum waiting time for DNS propagation''),
       (''CLOUDNS_SUB_AUTH_ID'', ''The API sub user ID''),
       (''CLOUDNS_TTL'', ''The TTL of the TXT record used for the DNS challenge'')]\<rparr>"

definition help_cloudxns :: help_page where
  "help_cloudxns =
     \<lparr>hp_Name = ''CloudXNS'', hp_Code = ''cloudxns'', hp_Since = ''v0.5.0'',
      hp_Credentials = [
       (''CLOUDXNS_API_KEY'', ''The API key''),
       (''CLOUDXNS_SECRET_KEY'', ''The API secret key'')],
      hp_Additional = [
       (''CLOUDXNS_HTTP_TIMEOUT'', ''API request timeout''),
       (''CLOUDXNS_POLLING_INTERVAL'', ''Time between DNS propagation check''),
       (''CLOUDXNS_PROPAGATION_TIMEOUT'', ''Maximum waiting time for DNS propagation''),
       (''CLOUDXNS_TTL'', ''The TTL of the TXT record used for the DNS challenge'')]\<rparr>"

definition help_conoha :: help_page where
  "help_conoha =
     \<lparr>hp_Name = ''ConoHa'', hp_Code = ''conoha'', hp_Since = ''v1.2.0'',
      hp_Credentials = [
       (''CONOHA_API_PASSWORD'', ''The API password''),
       (''CONOHA_API_USERNAME'', ''The API username''),
       (''CONOHA_TENANT_ID'', ''Tenant ID'')],
      hp_Additional = [
       (''CONOHA_HTTP_TIMEOUT'', ''API request timeout''),
       (''CONOHA_POLLING_INTERVAL'', ''Time between DNS propagation check''),
       (''CONOHA_PROPAGATION_TIMEOUT'', ''Maximum waiting time for DNS propagation''),
       (''CONOHA_REGION'', ''The region''),
       (''CONOHA_TTL'', ''The TTL of the TXT record used for the DNS challenge'')]\<rparr>"

definition help_constellix :: help_page where
  "help_constellix =
     \<lparr>hp_Name = ''Constellix'', hp_Code = ''constellix'', hp_Since = ''v0.3.4'',
      hp_Credentials = [
       (''CONSTELLIX_API_KEY'', ''User API key''),
       (''CONSTELLIX_SECRET_KEY'', ''User secret key'')],
      hp_Additional = [
       (''CONSTELLIX_HTTP_TIMEOUT'', ''API request timeout''),
       (''CONSTELLIX_POLLING_INTERVAL'', ''Time between DNS propagation check''),
       (''CONSTELLIX_PROPAGATION_TIMEOUT'', ''Maximum waiting time for DNS propagation''),
       (''CONSTELLIX_TTL'', ''The TTL of the TXT record used for the DNS challenge'')]\<rparr>"

definition help_desec :: help_page where
  "help_desec =
     \<lparr>hp_Name = ''deSEC.io'', hp_Code = ''desec'', hp_Since = ''v3.7.0'',
      hp_Credentials = [
       (''DESEC_TOKEN'', ''Domain token'')],
      hp_Additional = [
       (''DESEC_HTTP_TIMEOUT'', ''API request timeout''),
       (''DESEC_POLLING_INTERVAL'', ''Time between DNS propagation check''),
       (''DESEC_PROPAGATION_TIMEOUT'', ''Maximum waiting time for DNS propagation''),
       (''DESEC_TTL'', ''The TTL of the TXT record used for the DNS challenge'')]\<rparr>"

definition help_designate :: help_page where
  "help_designate =
     \<lparr>hp_Name = ''Designate DNSaaS for Openstack'', hp_Code = ''designate'', hp_Since = ''v2.2.0'',
      hp_Credentials = [
       (''OS_AUTH_URL'', ''Identity endpoint URL''),
       (''OS_PASSWORD'', ''Password''),
       (''OS_PROJECT_NAME'', ''Project name''),
       (''OS_REGION_NAME'', ''Region name''),
       (''OS_TENANT_NAME'', ''Tenant name (deprecated see OS_PROJECT_NAME and OS_PROJECT_ID)''),
       (''OS_USERNAME'', ''Username'')],
      hp_Additional = [
       (''DESIGNATE_POLLING_INTERVAL'', ''Time between DNS propagation check''),
       (''DESIGNATE_PROPAGATION_TIMEOUT'', ''Maximum waiting time for DNS propagation''),
       (''DESIGNATE_TTL'', ''The TTL of the TXT record used for the DNS challenge''),
       (''OS_PROJECT_ID'', ''Project ID'')]\<rparr>"

definition help_digitalocean :: help_page where
  "help_digitalocean =
     \<lparr>hp_Name = ''Digital Ocean'', hp_Code = ''digitalocean'', hp_Since = ''v0.3.0'',
      hp_Credentials = [
       (''DO_AUTH_TOKEN'', ''Authentication token'')],
      hp_Additional = [
       (''DO_HTTP_TIMEOUT'', ''API request timeout''),
       (''DO_POLLING_INTERVAL'', ''Time between DNS propagation check''),
       (''DO_PROPAGATION_TIMEOUT'', ''Maximum waiting time for DNS propagation''),
       (''DO_TTL'', ''The TTL of the TXT record used for the DNS challenge'')]\<rparr>"

definition help_dnsimple :: help_page where
  "help_dnsimple =
     \<lparr>hp_Name = ''DNSimple'', hp_Code = ''dnsimple'', hp_Since = ''v0.3.0'',
      hp_Credentials = [
       (''DNSIMPLE_OAUTH_TOKEN'', ''OAuth token'')],
      hp_Additional = [
       (''DNSIMPLE_BASE_URL'', ''API endpoint URL''),
       (''DNSIMPLE_POLLING_INTERVAL'', ''Time between DNS propagation check''),
       (''DNSIMPLE_PROPAGATION_TIMEOUT'', ''Maximum waiting time for DNS propagation''),
       (''DNSIMPLE_TTL'', ''The TTL of the TXT record used for the DNS challenge'')]\<rparr>"

definition help_dnsmadeeasy :: help_page where
  "help_dnsmadeeasy =
     \<lparr>hp_Name = ''DNS Made Easy'', hp_Code = ''dnsmadeeasy'', hp_Since = ''v0.4.0'',
      hp_Credentials = [
       (''DNSMADEEASY_API_KEY'', ''The API key''),
       (''DNSMADEEASY_API_SECRET'', ''The API Secret key'')],
      hp_Additional = [
       (''DNSMADEEASY_HTTP_TIMEOUT'', ''API request timeout''),
       (''DNSMADEEASY_POLLING_INTERVAL'', ''Time between DNS propagation check''),
       (''DNSMADEEASY_PROPAGATION_TIMEOUT'', ''Maximum waiting time for DNS propagation''),
       (''DNSMADEEASY_SANDBOX'', ''Activate the sandbox (boolean)''),
       (''DNSMADEEASY_TTL'', ''The TTL of the TXT record used for the DNS challenge'')]\<rparr>"

definition help_dnspod :: help_page where
  "help_dnspod =
     \<lparr>hp_Name = ''DNSPod'', hp_Code = ''dnspod'', hp_Since = ''v0.4.0'',
      hp_Credentials = [
       (''DNSPOD_API_KEY'', ''The user token'')],
      hp_Additional = [
       (''DNSPOD_HTTP_TIMEOUT'', ''API request timeout''),
       (''DNSPOD_POLLING_INTERVAL'', ''Time between DNS propagation check''),
       (''DNSPOD_PROPAGATION_TIMEOUT'', ''Maximum waiting time for DNS propagation''),
       (''DNSPOD_TTL'', ''The TTL of the TXT record used for the DNS challenge'')]\<rparr>"

definition help_dode :: help_page where
  "help_dode =
     \<lparr>hp_Name = ''Domain Offensive (do.de)'', hp_Code = ''dode'', hp_Since = ''v2.4.0'',
      hp_Credentials = [
       (''DODE_TOKEN'', ''API token'')],
      hp_Additional = [
       (''DODE_HTTP_TIMEOUT'', ''API request timeout''),
       (''DODE_POLLING_INTERVAL'', ''Time between DNS propagation check''),
       (''DODE_PROPAGATION_TIMEOUT'', ''Maximum waiting time for DNS propagation''),
       (''DODE_SEQUENCE_INTERVAL'', ''Interval between iteration''),
       (''DODE_TTL'', ''The TTL of the TXT record used for the DNS challenge'')]\<rparr>"

definition help_dreamhost :: help_page where
  "help_dreamhost =
     \<lparr>hp_Name = ''DreamHost'', hp_Code = ''dreamhost'', hp_Since = ''v1.1.0'',
      hp_Credentials = [
       (''DREAMHOST_API_KEY'', ''The API key'')],
      hp_Additional = [
       (''DREAMHOST_HTTP_TIMEOUT'', ''API request timeout''),
       (''DREAMHOST_POLLING_INTERVAL'', ''Time between DNS propagation check''),
       (''DREAMHOST_PROPAGATION_TIMEOUT'', ''Maximum waiting time for DNS propagation''),
       (''DREAMHOST_TTL'', ''The TTL of the TXT record used for the DNS challenge'')]\<rparr>"

definition help_duckdns :: help_page where
  "help_duckdns =
     \<lparr>hp_Name = ''Duck DNS'', hp_Code = ''duckdns'', hp_Since = ''v0.5.0'',
      hp_Credentials = [
       (''DUCKDNS_TOKEN'', ''Account token'')],
      hp_Additional = [
       (''DUCKDNS_HTTP_TIMEOUT'', ''API request timeout''),
       (''DUCKDNS_POLLING_INTERVAL'', ''Time between DNS propagation check''),
       (''DUCKDNS_PROPAGATION_TIMEOUT'', ''Maximum waiting time for DNS propagation''),
       (''DUCKDNS_SEQUENCE_INTERVAL'', ''Interval between iteration''),
       (''DUCKDNS_TTL'', ''The TTL of the TXT record used for the DNS challenge'')]\<rparr>"

definition help_dyn :: help_page where
  "help_dyn =
     \<lparr>hp_Name = ''Dyn'', hp_Code = ''dyn'', hp_Since = ''v0.3.0'',
      hp_Credentials = [
       (''DYN_CUSTOMER_NAME'', ''Customer name''),
       (''DYN_PASSWORD'', ''Password''),
       (''DYN_USER_NAME'', ''User name'')],
      hp_Additional = [
       (''DYN_HTTP_TIMEOUT'', ''API request timeout''),
       (''DYN_POLLING_INTERVAL'', ''Time between DNS propagation check''),
       (''DYN_PROPAGATION_TIMEOUT'', ''Maximum waiting time for DNS propagation''),
       (''DYN_TTL'', ''The TTL of the TXT record used for the DNS challenge'')]\<rparr>"

definition help_dynu :: help_page where
  "help_dynu =
     \<lparr>hp_Name = ''Dynu'', hp_Code = ''dynu'', hp_Since = ''v3.5.0'',
      hp_Credentials = [
       (''DYNU_API_KEY'', ''API key'')],
      hp_Additional = [
       (''DYNU_HTTP_TIMEOUT'', ''API request timeout''),
       (''DYNU_POLLING_INTERVAL'', ''Time between DNS propagation check''),
       (''DYNU_PROPAGATION_TIMEOUT'', ''Maximum waiting time for DNS propagation''),
       (''DYNU_TTL'', ''The TTL of the TXT record used for the DNS challenge'')]\<rparr>"

definition help_easydns :: help_page where
  "help_easydns =
     \<lparr>hp_Name = ''EasyDNS'', hp_Code = ''easydns'', hp_Since = ''v2.6.0'',
      hp_Credentials = [
       (''EASYDNS_KEY'', ''API Key''),
       (''EASYDNS_TOKEN'', ''API Token'')],
      hp_Additional = [
       (''EASYDNS_ENDPOINT'', ''The endpoint URL of the API Server''),
       (''EASYDNS_HTTP_TIMEOUT'', ''API request timeout''),
       (''EASYDNS_POLLING_INTERVAL'', ''Time between DNS propagation check''),
       (''EASYDNS_PROPAGATION_TIMEOUT'', ''Maximum waiting time for DNS propagation''),
       (''EASYDNS_SEQUENCE_INTERVAL'', ''Time between sequential requests''),
       (''EASYDNS_TTL'', ''The TTL of the TXT record used for the DNS challenge'')]\<rparr>"

definition help_edgedns :: help_page where
  "help_edgedns =
     \<lparr>hp_Name = ''Akamai EdgeDNS'', hp_Code = ''edgedns'', hp_Since = ''v3.9.0'',
      hp_Credentials = [
       (''AKAMAI_ACCESS_TOKEN'', ''Access token''),
       (''AKAMAI_CLIENT_SECRET'', ''Client secret''),
       (''AKAMAI_CLIENT_TOKEN'', ''Client token''),
       (''AKAMAI_HOST'', ''API host'')],
      hp_Additional = [
       (''AKAMAI_POLLING_INTERVAL'', ''Time between DNS propagation check. Default: 15 seconds''),
       (''AKAMAI_PROPAGATION_TIMEOUT'', ''Maximum waiting time for DNS propagation. Default: 3 minutes''),
       (''AKAMAI_TTL'', ''The TTL of the TXT record used for the DNS challenge'')]\<rparr>"

definition help_exec :: help_page where
  "help_exec =
     \<lparr>hp_Name = ''External program'', hp_Code = ''exec'', hp_Since = ''v0.5.0'',
      hp_Credentials = [],
      hp_Additional = []\<rparr>"

definition help_exoscale :: help_page where
  "help_exoscale =
     \<lparr>hp_Name = ''Exoscale'', hp_Code = ''exoscale'', hp_Since = ''v0.4.0'',
      hp_Credentials = [
       (''EXOSCALE_API_KEY'', ''API key''),
       (''EXOSCALE_API_SECRET'', ''API secret''),
       (''EXOSCALE_ENDPOINT'', ''API endpoint URL'')],
      hp_Additional = [
       (''EXOSCALE_HTTP_TIMEOUT'', ''API request timeout''),
       (''EXOSCALE_POLLING_INTERVAL'', ''Time between DNS propagation check''),
       (''EXOSCALE_PROPAGATION_TIMEOUT'', ''Maximum waiting time for DNS propagation''),
       (''EXOSCALE_TTL'', ''The TTL of the TXT record used for the DNS challenge'')]\<rparr>"

definition help_gandi :: help_page where
  "help_gandi =
     \<lparr>hp_Name = ''Gandi'', hp_Code = ''gandi'', hp_Since = ''v0.3.0'',
      hp_Credentials = [
       (''GANDI_API_KEY'', ''API key'')],
      hp_Additional = [
       (''GANDI_HTTP_TIMEOUT'', ''API request timeout''),
       (''GANDI_POLLING_INTERVAL'', ''Time between DNS propagation check''),
       (''GANDI_PROPAGATION_TIMEOUT'', ''Maximum waiting time for DNS propagation''),
       (''GANDI_TTL'', ''The TTL of the TXT record used for the DNS challenge'')]\<rparr>"

definition help_gandiv5 :: help_page where
  "help_gandiv5 =
     \<lparr>hp_Name = ''Gandi Live DNS (v5)'', hp_Code = ''gandiv5'', hp_Since = ''v0.5.0'',
      hp_Credentials = [
       (''GANDIV5_API_KEY'', ''API key'')],
      hp_Additional = [
       (''GANDIV5_HTTP_TIMEOUT'', ''API request timeout''),
       (''GANDIV5_POLLING_INTERVAL'', ''Time between DNS propagation check''),
       (''GANDIV5_PROPAGATION_TIMEOUT'', ''Maximum waiting time for DNS propagation''),
       (''GANDIV5_TTL'', ''The TTL of the TXT record used for the DNS challenge'')]\<rparr>"

definition help_gcloud :: help_page where
  "help_gcloud =
     \<lparr>hp_Name = ''Google Cloud'', hp_Code = ''gcloud'', hp_Since = ''v0.3.0'',
      hp_Credentials = [
       (''Application Default Credentials'', ''[Documentation](https://cloud.google.com/docs/authentication/production#providing_credentials_to_your_application)''),
       (''GCE_PROJECT'', ''Project name (by default, the project name is auto-detected by using the metadata service)''),
       (''GCE_SERVICE_ACCOUNT'', ''Account''),
       (''GCE_SERVICE_ACCOUNT_FILE'', ''Account file path'')],
      hp_Additional = [
       (''GCE_ALLOW_PRIVATE_ZONE'', ''Allows requested domain to be in private DNS zone, works only with a private ACME server (by default: false)''),
       (''GCE_POLLING_INTERVAL'', ''Time between DNS propagation check''),
       (''GCE_PROPAGATION_TIMEOUT'', ''Maximum waiting time for DNS propagation''),
       (''GCE_TTL'', ''The TTL of the TXT record used for the DNS challenge'')]\<rparr>"

definition help_glesys :: help_page where
  "help_glesys =
     \<lparr>hp_Name = ''Glesys'', hp_Code = ''glesys'', hp_Since = ''v0.5.0'',
      hp_Credentials = [
       (''GLESYS_API_KEY'', ''API key''),
       (''GLESYS_API_USER'', ''API user'')],
      hp_Additional = [
       (''GLESYS_HTTP_TIMEOUT'', ''API request timeout''),
       (''GLESYS_POLLING_INTERVAL'', ''Time between DNS propagation check''),
       (''GLESYS_PROPAGATION_TIMEOUT'', ''Maximum waiting time for DNS propagation''),
       (''GLESYS_TTL'', ''The TTL of the TXT record used for the DNS challenge'')]\<rparr>"

definition help_godaddy :: help_page where
  "help_godaddy =
     \<lparr>hp_Name = ''Go Daddy'', hp_Code = ''godaddy'', hp_Since = ''v0.5.0'',
      hp_Credentials = [
       (''GODADDY_API_KEY'', ''API key''),
       (''GODADDY_API_SECRET'', ''API secret'')],
      hp_Additional = [
       (''GODADDY_HTTP_TIMEOUT'', ''API request timeout''),
       (''GODADDY_POLLING_INTERVAL'', ''Time between DNS propagation check''),
       (''GODADDY_PROPAGATION_TIMEOUT'', ''Maximum waiting time for DNS propagation''),
       (''GODADDY_SEQUENCE_INTERVAL'', ''Interval between iteration''),
       (''GODADDY_TTL'', ''The TTL of the TXT record used for the DNS challenge'')]\<rparr>"

definition help_hetzner :: help_page where
  "help_hetzner =
     \<lparr>hp_Name = ''Hetzner'', hp_Code = ''hetzner'', hp_Since = ''v3.7.0'',
      hp_Credentials = [
       (''HETZNER_API_KEY'', ''API key'')],
      hp_Additional = [
       (''HETZNER_HTTP_TIMEOUT'', ''API request timeout''),
       (''HETZNER_POLLING_INTERVAL'', ''Time between DNS propagation check''),
       (''HETZNER_PROPAGATION_TIMEOUT'', ''Maximum waiting time for DNS propagation''),
       (''HETZNER_SEQUENCE_INTERVAL'', ''Interval between iteration''),
       (''HETZNER_TTL'', ''The TTL of the TXT record used for the DNS challenge'')]\<rparr>"

definition help_hostingde :: help_page where
  "help_hostingde =
     \<lparr>hp_Name = ''Hosting.de'', hp_Code = ''hostingde'', hp_Since = ''v1.1.0'',
      hp_Credentials = [
       (''HOSTINGDE_API_KEY'', ''API key''),
       (''HOSTINGDE_ZONE_NAME'', ''Zone name in ACE format'')],
      hp_Additional = [
       (''HOSTINGDE_HTTP_TIMEOUT'', ''API request timeout''),
       (''HOSTINGDE_POLLING_INTERVAL'', ''Time between DNS propagation check''),
       (''HOSTINGDE_PROPAGATION_TIMEOUT'', ''Maximum waiting time for DNS propagation''),
       (''HOSTINGDE_TTL'', ''The TTL of the TXT record used for the DNS challenge'')]\<rparr>"

definition help_httpreq :: help_page where
  "help_httpreq =
     \<lparr>hp_Name = ''HTTP request'', hp_Code = ''httpreq'', hp_Since = ''v2.0.0'',
      hp_Credentials = [
       (''HTTPREQ_ENDPOINT'', ''The URL of the server''),
       (''HTTPREQ_MODE'', ([CHR 0x27] @ ''RAW', none''))],
      hp_Additional = [
       (''HTTPREQ_HTTP_TIMEOUT'', ''API request timeout''),
       (''HTTPREQ_PASSWORD'', ''Basic authentication password''),
       (''HTTPREQ_POLLING_INTERVAL'', ''Time between DNS propagation check''),
       (''HTTPREQ_PROPAGATION_TIMEOUT'', ''Maximum waiting time for DNS propagation''),
       (''HTTPREQ_USERNAME'', ''Basic authentication username'')]\<rparr>"

definition help_hyperone :: help_page where
  "help_hyperone =
     \<lparr>hp_Name = ''HyperOne'', hp_Code = ''hyperone'', hp_Since = [],
      hp_Credentials = [],
      hp_Additional = [
       (''HYPERONE_API_URL'', ''Allows to pass custom API Endpoint to be used in the challenge (default https://api.hyperone.com/v2)''),
       (''HYPERONE_LOCATION_ID'', ''Specifies location (region) to be used in API calls. (default pl-waw-1)''),
       (''HYPERONE_PASSPORT_LOCATION'', ''Allows to pass custom passport file location (default ~/.h1/passport.json)''),
       (''HYPERONE_POLLING_INTERVAL'', ''Time between DNS propagation check''),
       (''HYPERONE_PROPAGATION_TIMEOUT'', ''Maximum waiting time for DNS propagation''),
       (''HYPERONE_TTL'', ''The TTL of the TXT record used for the DNS challenge'')]\<rparr>"

definition help_iij :: help_page where
  "help_iij =
     \<lparr>hp_Name = ''Internet Initiative Japan'', hp_Code = ''iij'', hp_Since = ''v1.1.0'',
      hp_Credentials = [
       (''IIJ_API_ACCESS_KEY'', ''API access key''),
       (''IIJ_API_SECRET_KEY'', ''API secret key''),
       (''IIJ_DO_SERVICE_CODE'', ''DO service code'')],
      hp_Additional = [
       (''IIJ_POLLING_INTERVAL'', ''Time between DNS propagation check''),
       (''IIJ_PROPAGATION_TIMEOUT'', ''Maximum waiting time for DNS propagation''),
       (''IIJ_TTL'', ''The TTL of the TXT record used for the DNS challenge'')]\<rparr>"

definition help_inwx :: help_page where
  "help_inwx =
     \<lparr>hp_Name = ''INWX'', hp_Code = ''inwx'', hp_Since = ''v2.0.0'',
      hp_Credentials = [
       (''INWX_PASSWORD'', ''Password''),
       (''INWX_USERNAME'', ''Username'')],
      hp_Additional = [
       (''INWX_POLLING_INTERVAL'', ''Time between DNS propagation check''),
       (''INWX_PROPAGATION_TIMEOUT'', ''Maximum waiting time for DNS propagation''),
       (''INWX_SANDBOX'', ''Activate the sandbox (boolean)''),
       (''INWX_SHARED_SECRET'', ''shared secret related to 2FA''),
       (''INWX_TTL'', ''The TTL of the TXT record used for the DNS challenge'')]\<rparr>"

definition help_joker :: help_page where
  "help_joker =
     \<lparr>hp_Name = ''Joker'', hp_Code = ''joker'', hp_Since = ''v2.6.0'',
      hp_Credentials = [
       (''JOKER_API_KEY'', ''API key''),
       (''JOKER_PASSWORD'', ''Joker.com password''),
       (''JOKER_USERNAME'', ''Joker.com username (email address)'')],
      hp_Additional = [
       (''JOKER_HTTP_TIMEOUT'', ''API request timeout''),
       (''JOKER_POLLING_INTERVAL'', ''Time between DNS propagation check''),
       (''JOKER_PROPAGATION_TIMEOUT'', ''Maximum waiting time for DNS propagation''),
       (''JOKER_TTL'', ''The TTL of the TXT record used for the DNS challenge'')]\<rparr>"

definition help_lightsail :: help_page where
  "help_lightsail =
     \<lparr>hp_Name = ''Amazon Lightsail'', hp_Code = ''lightsail'', hp_Since = ''v0.5.0'',
      hp_Credentials = [
       (''AWS_ACCESS_KEY_ID'', ''Access key ID''),
       (''AWS_SECRET_ACCESS_KEY'', ''Secret access key''),
       (''DNS_ZONE'', ''DNS zone'')],
      hp_Additional = [
       (''LIGHTSAIL_POLLING_INTERVAL'', ''Time between DNS propagation check''),
       (''LIGHTSAIL_PROPAGATION_TIMEOUT'', ''Maximum waiting time for DNS propagation'')]\<rparr>"

definition help_linode :: help_page where
  "help_linode =
     \<lparr>hp_Name = ''Linode (v4)'', hp_Code = ''linode'', hp_Since = ''v1.1.0'',
      hp_Credentials = [
       (''LINODE_TOKEN'', ''API token'')],
      hp_Additional = [
       (''LINODE_HTTP_TIMEOUT'', ''API request timeout''),
       (''LINODE_POLLING_INTERVAL'', ''Time between DNS propagation check''),
       (''LINODE_PROPAGATION_TIMEOUT'', ''Maximum waiting time for DNS propagation''),
       (''LINODE_TTL'', ''The TTL of the TXT record used for the DNS challenge'')]\<rparr>"

definition help_liquidweb :: help_page where
  "help_liquidweb =
     \<lparr>hp_Name = ''Liquid Web'', hp_Code = ''liquidweb'', hp_Since = ''v3.1.0'',
      hp_Credentials = [
       (''LIQUID_WEB_PASSWORD'', ''Storm API Password''),
       (''LIQUID_WEB_USERNAME'', ''Storm API Username''),
       (''LIQUID_WEB_ZONE'', ''DNS Zone'')],
      hp_Additional = [
       (''LIQUID_WEB_HTTP_TIMEOUT'', ''Maximum waiting time for the DNS records to be created (not verified)''),
       (''LIQUID_WEB_POLLING_INTERVAL'', ''Time between DNS propagation check''),
       (''LIQUID_WEB_PROPAGATION_TIMEOUT'', ''Maximum waiting time for DNS propagation''),
       (''LIQUID_WEB_TTL'', ''The TTL of the TXT record used for the DNS challenge''),
       (''LIQUID_WEB_URL'', ''Storm API endpoint'')]\<rparr>"

definition help_luadns :: help_page where
  "help_luadns =
     \<lparr>hp_Name = ''LuaDNS'', hp_Code = ''luadns'', hp_Since = ''v3.7.0'',
      hp_Credentials = [
       (''LUADNS_API_TOKEN'', ''API token''),
       (''LUADNS_API_USERNAME'', ''Username (your email)'')],
      hp_Additional = [
       (''LUADNS_HTTP_TIMEOUT'', ''API request timeout''),
       (''LUADNS_POLLING_INTERVAL'', ''Time between DNS propagation check''),
       (''LUADNS_PROPAGATION_TIMEOUT'', ''Maximum waiting time for DNS propagation''),
       (''LUADNS_SEQUENCE_INTERVAL'', ''Interval between iteration''),
       (''LUADNS_TTL'', ''The TTL of the TXT record used for the DNS challenge'')]\<rparr>"

definition help_mydnsjp :: help_page where
  "help_mydnsjp =
     \<lparr>hp_Name = ''MyDNS.jp'', hp_Code = ''mydnsjp'', hp_Since = ''v1.2.0'',
      hp_Credentials = [
       (''MYDNSJP_MASTER_ID'', ''Master ID''),
       (''MYDNSJP_PASSWORD'', ''Password'')],
      hp_Additional = [
       (''MYDNSJP_HTTP_TIMEOUT'', ''API request timeout''),
       (''MYDNSJP_POLLING_INTERVAL'', ''Time between DNS propagation check''),
       (''MYDNSJP_PROPAGATION_TIMEOUT'', ''Maximum waiting time for DNS propagation''),
       (''MYDNSJP_TTL'', ''The TTL of the TXT record used for the DNS challenge'')]\<rparr>"

definition help_mythicbeasts :: help_page where
  "help_mythicbeasts =
     \<lparr>hp_Name = ''MythicBeasts'', hp_Code = ''mythicbeasts'', hp_Since = ''v0.3.7'',
      hp_Credentials = [
       (''MYTHICBEASTS_PASSWORD'', ''Password''),
       (''MYTHICBEASTS_USERNAME'', ''User name'')],
      hp_Additional = [
       (''MYTHICBEASTS_API_ENDPOINT'', ''The endpoint for the API (must implement v2)''),
       (''MYTHICBEASTS_HTTP_TIMEOUT'', ''API request timeout''),
       (''MYTHICBEASTS_POLLING_INTERVAL'', ''Time between DNS propagation check''),
       (''MYTHICBEASTS_PROPAGATION_TIMEOUT'', ''Maximum waiting time for DNS propagation''),
       (''MYTHICBEASTS_TTL'', ''The TTL of the TXT record used for the DNS challenge''),
       (''MYTHICBEASYS_AUTH_API_ENDPOINT'', ''The endpoint for Mythic Beasts' Authentication'')]\<rparr>"

definition help_namecheap :: help_page where
  "help_namecheap =
     \<lparr>hp_Name = ''Namecheap'', hp_Code = ''namecheap'', hp_Since = ''v0.3.0'',
      hp_Credentials = [
       (''NAMECHEAP_API_KEY'', ''API key''),
       (''NAMECHEAP_API_USER'', ''API user'')],
      hp_Additional = [
       (''NAMECHEAP_HTTP_TIMEOUT'', ''API request timeout''),
       (''NAMECHEAP_POLLING_INTERVAL'', ''Time between DNS propagation check''),
       (''NAMECHEAP_PROPAGATION_TIMEOUT'', ''Maximum waiting time for DNS propagation''),
       (''NAMECHEAP_SANDBOX'', ''Activate the sandbox (boolean)''),
       (''NAMECHEAP_TTL'', ''The TTL of the TXT record used for the DNS challenge'')]\<rparr>"

definition help_namedotcom :: help_page where
  "help_namedotcom =
     \<lparr>hp_Name = ''Name.com'', hp_Code = ''namedotcom'', hp_Since = ''v0.5.0'',
      hp_Credentials = [
       (''NAMECOM_API_TOKEN'', ''API token''),
       (''NAMECOM_USERNAME'', ''Username'')],
      hp_Additional = [
       (''NAMECOM_HTTP_TIMEOUT'', ''API request timeout''),
       (''NAMECOM_POLLING_INTERVAL'', ''Time between DNS propagation check''),
       (''NAMECOM_PROPAGATION_TIMEOUT'', ''Maximum waiting time for DNS propagation''),
       (''NAMECOM_TTL'', ''The TTL of the TXT record used for the DNS challenge'')]\<rparr>"

definition help_namesilo :: help_page where
  "help_namesilo =
     \<lparr>hp_Name = ''Namesilo'', hp_Code = ''namesilo'', hp_Since = ''v2.7.0'',
      hp_Credentials = [
       (''NAMESILO_API_KEY'', ''Client ID'')],
      hp_Additional = [
       (''NAMESILO_POLLING_INTERVAL'', ''Time between DNS propagation check''),
       (''NAMESILO_PROPAGATION_TIMEOUT'', ''Maximum waiting time for DNS propagation, it is better to set larger than 15m''),
       (''NAMESILO_TTL'', ''The TTL of the TXT record used for the DNS challenge, should be in [3600, 2592000]'')]\<rparr>"

definition help_netcup :: help_page where
  "help_netcup =
     \<lparr>hp_Name = ''Netcup'', hp_Code = ''netcup'', hp_Since = ''v1.1.0'',
      hp_Credentials = [
       (''NETCUP_API_KEY'', ''API key''),
       (''NETCUP_API_PASSWORD'', ''API password''),
       (''NETCUP_CUSTOMER_NUMBER'', ''Customer number'')],
      hp_Additional = [
       (''NETCUP_HTTP_TIMEOUT'', ''API request timeout''),
       (''NETCUP_POLLING_INTERVAL'', ''Time between DNS propagation check''),
       (''NETCUP_PROPAGATION_TIMEOUT'', ''Maximum waiting time for DNS propagation''),
       (''NETCUP_TTL'', ''The TTL of the TXT record used for the DNS challenge'')]\<rparr>"

definition help_netlify :: help_page where
  "help_netlify =
     \<lparr>hp_Name = ''Netlify'', hp_Code = ''netlify'', hp_Since = ''v0.3.7'',
      hp_Credentials = [
       (''NETLIFY_TOKEN'', ''Token'')],
      hp_Additional = [
       (''NETLIFY_HTTP_TIMEOUT'', ''API request timeout''),
       (''NETLIFY_POLLING_INTERVAL'', ''Time between DNS propagation check''),
       (''NETLIFY_PROPAGATION_TIMEOUT'', ''Maximum waiting time for DNS propagation''),
       (''NETLIFY_TTL'', ''The TTL of the TXT record used for the DNS challenge'')]\<rparr>"

definition help_nifcloud :: help_page where
  "help_nifcloud =
     \<lparr>hp_Name = ''NIFCloud'', hp_Code = ''nifcloud'', hp_Since = ''v1.1.0'',
      hp_Credentials = [
       (''NIFCLOUD_ACCESS_KEY_ID'', ''Access key''),
       (''NIFCLOUD_SECRET_ACCESS_KEY'', ''Secret access key'')],
      hp_Additional = [
       (''NIFCLOUD_HTTP_TIMEOUT'', ''API request timeout''),
       (''NIFCLOUD_POLLING_INTERVAL'', ''Time between DNS propagation check''),
       (''NIFCLOUD_PROPAGATION_TIMEOUT'', ''Maximum waiting time for DNS propagation''),
       (''NIFCLOUD_TTL'', ''The TTL of the TXT record used for the DNS challenge'')]\<rparr>"

definition help_ns1 :: help_page where
  "help_ns1 =
     \<lparr>hp_Name = ''NS1'', hp_Code = ''ns1'', hp_Since = ''v0.4.0'',
      hp_Credentials = [
       (''NS1_API_KEY'', ''API key'')],
      hp_Additional = [
       (''NS1_HTTP_TIMEOUT'', ''API request timeout''),
       (''NS1_POLLING_INTERVAL'', ''Time between DNS propagation check''),
       (''NS1_PROPAGATION_TIMEOUT'', ''Maximum waiting time for DNS propagation''),
       (''NS1_TTL'', ''The TTL of the TXT record used for the DNS challenge'')]\<rparr>"

definition help_oraclecloud :: help_page where
  "help_oraclecloud =
     \<lparr>hp_Name = ''Oracle Cloud'', hp_Code = ''oraclecloud'', hp_Since = ''v2.3.0'',
      hp_Credentials = [
       (''OCI_COMPARTMENT_OCID'', ''Compartment OCID''),
       (''OCI_PRIVKEY_FILE'', ''Private key file''),
       (''OCI_PRIVKEY_PASS'', ''Private key password''),
       (''OCI_PUBKEY_FINGERPRINT'', ''Public key fingerprint''),
       (''OCI_REGION'', ''Region''),
       (''OCI_TENANCY_OCID'', ''Tenancy OCID''),
       (''OCI_USER_OCID'', ''User OCID'')],
      hp_Additional = [
       (''OCI_POLLING_INTERVAL'', ''Time between DNS propagation check''),
       (''OCI_PROPAGATION_TIMEOUT'', ''Maximum waiting time for DNS propagation''),
       (''OCI_TTL'', ''The TTL of the TXT record used for the DNS challenge'')]\<rparr>"

definition help_otc :: help_page where
  "help_otc =
     \<lparr>hp_Name = ''Open Telekom Cloud'', hp_Code = ''otc'', hp_Since = ''v0.4.1'',
      hp_Credentials = [
       (''OTC_DOMAIN_NAME'', ''Domain name''),
       (''OTC_IDENTITY_ENDPOINT'', ''Identity endpoint URL''),
       (''OTC_PASSWORD'', ''Password''),
       (''OTC_PROJECT_NAME'', ''Project name''),
       (''OTC_USER_NAME'', ''User name'')],
      hp_Additional = [
       (''OTC_HTTP_TIMEOUT'', ''API request timeout''),
       (''OTC_POLLING_INTERVAL'', ''Time between DNS propagation check''),
       (''OTC_PROPAGATION_TIMEOUT'', ''Maximum waiting time for DNS propagation''),
       (''OTC_TTL'', ''The TTL of the TXT record used for the DNS challenge'')]\<rparr>"

definition help_ovh :: help_page where
  "help_ovh =
     \<lparr>hp_Name = ''OVH'', hp_Code = ''ovh'', hp_Since = ''v0.4.0'',
      hp_Credentials = [
       (''OVH_APPLICATION_KEY'', ''Application key''),
       (''OVH_APPLICATION_SECRET'', ''Application secret''),
       (''OVH_CONSUMER_KEY'', ''Consumer key''),
       (''OVH_ENDPOINT'', ''Endpoint URL (ovh-eu or ovh-ca)'')],
      hp_Additional = [
       (''OVH_HTTP_TIMEOUT'', ''API request timeout''),
       (''OVH_POLLING_INTERVAL'', ''Time between DNS propagation check''),
       (''OVH_PROPAGATION_TIMEOUT'', ''Maximum waiting time for DNS propagation''),
       (''OVH_TTL'', ''The TTL of the TXT record used for the DNS challenge'')]\<rparr>"

definition help_pdns :: help_page where
  "help_pdns =
     \<lparr>hp_Name = ''PowerDNS'', hp_Code = ''pdns'', hp_Since = ''v0.4.0'',
      hp_Credentials = [
       (''PDNS_API_KEY'', ''API key''),
       (''PDNS_API_URL'', ''API URL'')],
      hp_Additional = [
       (''PDNS_HTTP_TIMEOUT'', ''API request timeout''),
       (''PDNS_POLLING_INTERVAL'', ''Time between DNS propagation check''),
       (''PDNS_PROPAGATION_TIMEOUT'', ''Maximum waiting time for DNS propagation''),
       (''PDNS_TTL'', ''The TTL of the TXT record used for the DNS challenge'')]\<rparr>"

definition help_rackspace :: help_page where
  "help_rackspace =
     \<lparr>hp_Name = ''Rackspace'', hp_Code = ''rackspace'', hp_Since = ''v0.4.0'',
      hp_Credentials = [
       (''RACKSPACE_API_KEY'', ''API key''),
       (''RACKSPACE_USER'', ''API user'')],
      hp_Additional = [
       (''RACKSPACE_HTTP_TIMEOUT'', ''API request timeout''),
       (''RACKSPACE_POLLING_INTERVAL'', ''Time between DNS propagation check''),
       (''RACKSPACE_PROPAGATION_TIMEOUT'', ''Maximum waiting time for DNS propagation''),
       (''RACKSPACE_TTL'', ''The TTL of the TXT record used for the DNS challenge'')]\<rparr>"

definition help_regru :: help_page where
  "help_regru =
     \<lparr>hp_Name = ''reg.ru'', hp_Code = ''regru'', hp_Since = ''v3.5.0'',
      hp_Credentials = [
       (''REGRU_PASSWORD'', ''API password''),
       (''REGRU_USERNAME'', ''API username'')],
      hp_Additional = [
       (''REGRU_HTTP_TIMEOUT'', ''API request timeout''),
       (''REGRU_POLLING_INTERVAL'', ''Time between DNS propagation check''),
       (''REGRU_PROPAGATION_TIMEOUT'', ''Maximum waiting time for DNS propagation''),
       (''REGRU_TTL'', ''The TTL of the TXT record used for the DNS challenge'')]\<rparr>"

definition help_rfc2136 :: help_page where
  "help_rfc2136 =
     \<lparr>hp_Name = ''RFC2136'', hp_Code = ''rfc2136'', hp_Since = ''v0.3.0'',
      hp_Credentials = [
       (''RFC2136_NAMESERVER'', (''Network address in the form '' @ [CHR 0x22] @ ''host'' @ [CHR 0x22] @ '' or '' @ [CHR 0x22] @ ''host:port'' @ [CHR 0x22])),
       (''RFC2136_TSIG_ALGORITHM'', ''TSIG algorithm. See [miekg/dns#tsig.go](https://github.com/miekg/dns/blob/master/tsig.go) for supported values. To disable TSIG authentication, leave the 'RFC2136_TSIG*' variables unset.''),
       (''RFC2136_TSIG_KEY'', ''Name of the secret key as defined in DNS server configuration. To disable TSIG authentication, leave the 'RFC2136_TSIG*' variables unset.''),
       (''RFC2136_TSIG_SECRET'', ''Secret key payload. To disable TSIG authentication, leave the' RFC2136_TSIG*' variables unset.'')],
      hp_Additional = [
       (''RFC2136_DNS_TIMEOUT'', ''API request timeout''),
       (''RFC2136_POLLING_INTERVAL'', ''Time between DNS propagation check''),
       (''RFC2136_PROPAGATION_TIMEOUT'', ''Maximum waiting time for DNS propagation''),
       (''RFC2136_SEQUENCE_INTERVAL'', ''Interval between iteration''),
       (''RFC2136_TTL'', ''The TTL of the TXT record used for the DNS challenge'')]\<rparr>"

definition help_rimuhosting :: help_page where
  "help_rimuhosting =
     \<lparr>hp_Name = ''RimuHosting'', hp_Code = ''rimuhosting'', hp_Since = ''v0.3.5'',
      hp_Credentials = [
       (''RIMUHOSTING_API_KEY'', ''User API key'')],
      hp_Additional = [
       (''RIMUHOSTING_HTTP_TIMEOUT'', ''API request timeout''),
       (''RIMUHOSTING_POLLING_INTERVAL'', ''Time between DNS propagation check''),
       (''RIMUHOSTING_PROPAGATION_TIMEOUT'', ''Maximum waiting time for DNS propagation''),
       (''RIMUHOSTING_TTL'', ''The TTL of the TXT record used for the DNS challenge'')]\<rparr>"

definition help_route53 :: help_page where
  "help_route53 =
     \<lparr>hp_Name = ''Amazon Route 53'', hp_Code = ''route53'', hp_Since = ''v0.3.0'',
      hp_Credentials = [
       (''AWS_ACCESS_KEY_ID'', ''Managed by the AWS client ('AWS_ACCESS_KEY_ID_FILE' is not supported)''),
       (''AWS_HOSTED_ZONE_ID'', ''Override the hosted zone ID''),
       (''AWS_PROFILE'', ''Managed by the AWS client ('AWS_PROFILE_FILE' is not supported)''),
       (''AWS_REGION'', ''Managed by the AWS client ('AWS_REGION_FILE' is not supported)''),
       (''AWS_SDK_LOAD_CONFIG'', ''Retrieve the region from the CLI config file ('AWS_SDK_LOAD_CONFIG_FILE' is not supported)''),
       (''AWS_SECRET_ACCESS_KEY'', ''Managed by the AWS client ('AWS_SECRET_ACCESS_KEY_FILE' is not supported)'')],
      hp_Additional = [
       (''AWS_MAX_RETRIES'', ''The number of maximum returns the service will use to make an individual API request''),
       (''AWS_POLLING_INTERVAL'', ''Time between DNS propagation check''),
       (''AWS_PROPAGATION_TIMEOUT'', ''Maximum waiting time for DNS propagation''),
       (''AWS_TTL'', ''The TTL of the TXT record used for the DNS challenge'')]\<rparr>"

definition help_sakuracloud :: help_page where
  "help_sakuracloud =
     \<lparr>hp_Name = ''Sakura Cloud'', hp_Code = ''sakuracloud'', hp_Since = ''v1.1.0'',
      hp_Credentials = [
       (''SAKURACLOUD_ACCESS_TOKEN'', ''Access token''),
       (''SAKURACLOUD_ACCESS_TOKEN_SECRET'', ''Access token secret'')],
      hp_Additional = [
       (''SAKURACLOUD_HTTP_TIMEOUT'', ''API request timeout''),
       (''SAKURACLOUD_POLLING_INTERVAL'', ''Time between DNS propagation check''),
       (''SAKURACLOUD_PROPAGATION_TIMEOUT'', ''Maximum waiting time for DNS propagation''),
       (''SAKURACLOUD_TTL'', ''The TTL of the TXT record used for the DNS challenge'')]\<rparr>"

definition help_scaleway :: help_page where
  "help_scaleway =
     \<lparr>hp_Name = ''Scaleway'', hp_Code = ''scaleway'', hp_Since = ''v3.4.0'',
      hp_Credentials = [
       (''SCALEWAY_API_TOKEN'', ''API token'')],
      hp_Additional = [
       (''SCALEWAY_API_VERSION'', ''API version''),
       (''SCALEWAY_BASE_URL'', ''API endpoint URL''),
       (''SCALEWAY_HTTP_TIMEOUT'', ''API request timeout''),
       (''SCALEWAY_POLLING_INTERVAL'', ''Time between DNS propagation check''),
       (''SCALEWAY_PROPAGATION_TIMEOUT'', ''Maximum waiting time for DNS propagation''),
       (''SCALEWAY_TTL'', ''The TTL of the TXT record used for the DNS challenge'')]\<rparr>"

definition help_selectel :: help_page where
  "help_selectel =
     \<lparr>hp_Name = ''Selectel'', hp_Code = ''selectel'', hp_Since = ''v1.2.0'',
      hp_Credentials = [
       (''SELECTEL_API_TOKEN'', ''API token'')],
      hp_Additional = [
       (''SELECTEL_BASE_URL'', ''API endpoint URL''),
       (''SELECTEL_HTTP_TIMEOUT'', ''API request timeout''),
       (''SELECTEL_POLLING_INTERVAL'', ''Time between DNS propagation check''),
       (''SELECTEL_PROPAGATION_TIMEOUT'', ''Maximum waiting time for DNS propagation''),
       (''SELECTEL_TTL'', ''The TTL of the TXT record used for the DNS challenge'')]\<rparr>"

definition help_servercow :: help_page where
  "help_servercow =
     \<lparr>hp_Name = ''Servercow'', hp_Code = ''servercow'', hp_Since = ''v3.4.0'',
      hp_Credentials = [
       (''SERVERCOW_PASSWORD'', ''API password''),
       (''SERVERCOW_USERNAME'', ''API username'')],
      hp_Additional = [
       (''SERVERCOW_HTTP_TIMEOUT'', ''API request timeout''),
       (''SERVERCOW_POLLING_INTERVAL'', ''Time between DNS propagation check''),
       (''SERVERCOW_PROPAGATION_TIMEOUT'', ''Maximum waiting time for DNS propagation''),
       (''SERVERCOW_TTL'', ''The TTL of the TXT record used for the DNS challenge'')]\<rparr>"

definition help_stackpath :: help_page where
  "help_stackpath =
     \<lparr>hp_Name = ''Stackpath'', hp_Code = ''stackpath'', hp_Since = ''v1.1.0'',
      hp_Credentials = [
       (''STACKPATH_CLIENT_ID'', ''Client ID''),
       (''STACKPATH_CLIENT_SECRET'', ''Client secret''),
       (''STACKPATH_STACK_ID'', ''Stack ID'')],
      hp_Additional = [
       (''STACKPATH_POLLING_INTERVAL'', ''Time between DNS propagation check''),
       (''STACKPATH_PROPAGATION_TIMEOUT'', ''Maximum waiting time for DNS propagation''),
       (''STACKPATH_TTL'', ''The TTL of the TXT record used for the DNS challenge'')]\<rparr>"

definition help_transip :: help_page where
  "help_transip =
     \<lparr>hp_Name = ''TransIP'', hp_Code = ''transip'', hp_Since = ''v2.0.0'',
      hp_Credentials = [
       (''TRANSIP_ACCOUNT_NAME'', ''Account name''),
       (''TRANSIP_PRIVATE_KEY_PATH'', ''Private key path'')],
      hp_Additional = [
       (''TRANSIP_POLLING_INTERVAL'', ''Time between DNS propagation check''),
       (''TRANSIP_PROPAGATION_TIMEOUT'', ''Maximum waiting time for DNS propagation''),
       (''TRANSIP_TTL'', ''The TTL of the TXT record used for the DNS challenge'')]\<rparr>"

definition help_vegadns :: help_page where
  "help_vegadns =
     \<lparr>hp_Name = ''VegaDNS'', hp_Code = ''vegadns'', hp_Since = ''v1.1.0'',
      hp_Credentials = [
       (''SECRET_VEGADNS_KEY'', ''API key''),
       (''SECRET_VEGADNS_SECRET'', ''API secret''),
       (''VEGADNS_URL'', ''API endpoint URL'')],
      hp_Additional = [
       (''VEGADNS_POLLING_INTERVAL'', ''Time between DNS propagation check''),
       (''VEGADNS_PROPAGATION_TIMEOUT'', ''Maximum waiting time for DNS propagation''),
       (''VEGADNS_TTL'', ''The TTL of the TXT record used for the DNS challenge'')]\<rparr>"

definition help_versio :: help_page where
  "help_versio =
     \<lparr>hp_Name = ''Versio.[nl|eu|uk]'', hp_Code = ''versio'', hp_Since = ''v2.7.0'',
      hp_Credentials = [
       (''VERSIO_PASSWORD'', ''Basic authentication password''),
       (''VERSIO_USERNAME'', ''Basic authentication username'')],
      hp_Additional = [
       (''VERSIO_ENDPOINT'', ''The endpoint URL of the API Server''),
       (''VERSIO_HTTP_TIMEOUT'', ''API request timeout''),
       (''VERSIO_POLLING_INTERVAL'', ''Time between DNS propagation check''),
       (''VERSIO_PROPAGATION_TIMEOUT'', ''Maximum waiting time for DNS propagation''),
       (''VERSIO_SEQUENCE_INTERVAL'', ''Interval between iteration, default 60s''),
       (''VERSIO_TTL'', ''The TTL of the TXT record used for the DNS challenge'')]\<rparr>"

definition help_vscale :: help_page where
  "help_vscale =
     \<lparr>hp_Name = ''Vscale'', hp_Code = ''vscale'', hp_Since = ''v2.0.0'',
      hp_Credentials = [
       (''VSCALE_API_TOKEN'', ''API token'')],
      hp_Additional = [
       (''VSCALE_BASE_URL'', ''API endpoint URL''),
       (''VSCALE_HTTP_TIMEOUT'', ''API request timeout''),
       (''VSCALE_POLLING_INTERVAL'', ''Time between DNS propagation check''),
       (''VSCALE_PROPAGATION_TIMEOUT'', ''Maximum waiting time for DNS propagation''),
       (''VSCALE_TTL'', ''The TTL of the TXT record used for the DNS challenge'')]\<rparr>"

definition help_vultr :: help_page where
  "help_vultr =
     \<lparr>hp_Name = ''Vultr'', hp_Code = ''vultr'', hp_Since = ''v0.3.1'',
      hp_Credentials = [
       (''VULTR_API_KEY'', ''API key'')],
      hp_Additional = [
       (''VULTR_HTTP_TIMEOUT'', ''API request timeout''),
       (''VULTR_POLLING_INTERVAL'', ''Time between DNS propagation check''),
       (''VULTR_PROPAGATION_TIMEOUT'', ''Maximum waiting time for DNS propagation''),
       (''VULTR_TTL'', ''The TTL of the TXT record used for the DNS challenge'')]\<rparr>"

definition help_yandex :: help_page where
  "help_yandex =
     \<lparr>hp_Name = ''Yandex'', hp_Code = ''yandex'', hp_Since = ''v3.7.0'',
      hp_Credentials = [
       (''YANDEX_PDD_TOKEN'', ''Basic authentication username'')],
      hp_Additional = [
       (''YANDEX_HTTP_TIMEOUT'', ''API request timeout''),
       (''YANDEX_POLLING_INTERVAL'', ''Time between DNS propagation check''),
       (''YANDEX_PROPAGATION_TIMEOUT'', ''Maximum waiting time for DNS propagation''),
       (''YANDEX_SEQUENCE_INTERVAL'', ''Interval between iteration, default 60s''),
       (''YANDEX_TTL'', ''The TTL of the TXT record used for the DNS challenge'')]\<rparr>"

definition help_zoneee :: help_page where
  "help_zoneee =
     \<lparr>hp_Name = ''Zone.ee'', hp_Code = ''zoneee'', hp_Since = ''v2.1.0'',
      hp_Credentials = [
       (''ZONEEE_API_KEY'', ''API key''),
       (''ZONEEE_API_USER'', ''API user'')],
      hp_Additional = [
       (''ZONEEE_ENDPOINT'', ''API endpoint URL''),
       (''ZONEEE_HTTP_TIMEOUT'', ''API request timeout''),
       (''ZONEEE_POLLING_INTERVAL'', ''Time between DNS propagation check''),
       (''ZONEEE_PROPAGATION_TIMEOUT'', ''Maximum waiting time for DNS propagation''),
       (''ZONEEE_TTL'', ''The TTL of the TXT record used for the DNS challenge'')]\<rparr>"

definition help_zonomi :: help_page where
  "help_zonomi =
     \<lparr>hp_Name = ''Zonomi'', hp_Code = ''zonomi'', hp_Since = ''v0.3.5'',
      hp_Credentials = [
       (''ZONOMI_API_KEY'', ''User API key'')],
      hp_Additional = [
       (''ZONOMI_HTTP_TIMEOUT'', ''API request timeout''),
       (''ZONOMI_POLLING_INTERVAL'', ''Time between DNS propagation check''),
       (''ZONOMI_PROPAGATION_TIMEOUT'', ''Maximum waiting time for DNS propagation''),
       (''ZONOMI_TTL'', ''The TTL of the TXT record used for the DNS challenge'')]\<rparr>"

text \<open>The names of the credentials, without the descriptions.\<close>

lemma names_help_acme_dns [credentials]:
  "credential_names help_acme_dns = [''ACME_DNS_API_BASE'', ''ACME_DNS_STORAGE_PATH'']"
  unfolding help_acme_dns_def credential_names_def help_page.simps by simp

lemma names_help_alidns [credentials]:
  "credential_names help_alidns = [''ALICLOUD_ACCESS_KEY'', ''ALICLOUD_SECRET_KEY'']"
  unfolding help_alidns_def credential_names_def help_page.simps by simp

lemma names_help_arvancloud [credentials]:
  "credential_names help_arvancloud = [''ARVANCLOUD_API_KEY'']"
  unfolding help_arvancloud_def credential_names_def help_page.simps by simp

lemma names_help_auroradns [credentials]:
  "credential_names help_auroradns = [''AURORA_ENDPOINT'', ''AURORA_KEY'', ''AURORA_USER_ID'']"
  unfolding help_auroradns_def credential_names_def help_page.simps by simp

lemma names_help_autodns [credentials]:
  "credential_names help_autodns = [''AUTODNS_API_PASSWORD'', ''AUTODNS_API_USER'']"
  unfolding help_autodns_def credential_names_def help_page.simps by simp

lemma names_help_azure [credentials]:
  "credential_names help_azure = [''AZURE_CLIENT_ID'', ''AZURE_CLIENT_SECRET'', ''AZURE_ENVIRONMENT'', ''AZURE_RESOURCE_GROUP'', ''AZURE_SUBSCRIPTION_ID'', ''AZURE_TENANT_ID'', ''instance metadata service'']"
  unfolding help_azure_def credential_names_def help_page.simps by simp

lemma names_help_bindman [credentials]:
  "credential_names help_bindman = [''BINDMAN_MANAGER_ADDRESS'']"
  unfolding help_bindman_def credential_names_def help_page.simps by simp

lemma names_help_bluecat [credentials]:
  "credential_names help_bluecat = [''BLUECAT_CONFIG_NAME'', ''BLUECAT_DNS_VIEW'', ''BLUECAT_PASSWORD'', ''BLUECAT_SERVER_URL'', ''BLUECAT_USER_NAME'']"
  unfolding help_bluecat_def credential_names_def help_page.simps by simp

lemma names_help_checkdomain [credentials]:
  "credential_names help_checkdomain = [''CHECKDOMAIN_TOKEN'']"
  unfolding help_checkdomain_def credential_names_def help_page.simps by simp

lemma names_help_clouddns [credentials]:
  "credential_names help_clouddns = [''CLOUDDNS_CLIENT_ID'', ''CLOUDDNS_EMAIL'', ''CLOUDDNS_PASSWORD'']"
  unfolding help_clouddns_def credential_names_def help_page.simps by simp

lemma names_help_cloudflare [credentials]:
  "credential_names help_cloudflare = [''CF_API_EMAIL'', ''CF_API_KEY'', ''CF_DNS_API_TOKEN'', ''CF_ZONE_API_TOKEN'', ''CLOUDFLARE_API_KEY'', ''CLOUDFLARE_DNS_API_TOKEN'', ''CLOUDFLARE_EMAIL'', ''CLOUDFLARE_ZONE_API_TOKEN'']"
  unfolding help_cloudflare_def credential_names_def help_page.simps by simp

lemma names_help_cloudns [credentials]:
  "credential_names help_cloudns = [''CLOUDNS_AUTH_ID'', ''CLOUDNS_AUTH_PASSWORD'']"
  unfolding help_cloudns_def credential_names_def help_page.simps by simp

lemma names_help_cloudxns [credentials]:
  "credential_names help_cloudxns = [''CLOUDXNS_API_KEY'', ''CLOUDXNS_SECRET_KEY'']"
  unfolding help_cloudxns_def credential_names_def help_page.simps by simp

lemma names_help_conoha [credentials]:
  "credential_names help_conoha = [''CONOHA_API_PASSWORD'', ''CONOHA_API_USERNAME'', ''CONOHA_TENANT_ID'']"
  unfolding help_conoha_def credential_names_def help_page.simps by simp

lemma names_help_constellix [credentials]:
  "credential_names help_constellix = [''CONSTELLIX_API_KEY'', ''CONSTELLIX_SECRET_KEY'']"
  unfolding help_constellix_def credential_names_def help_page.simps by simp

lemma names_help_desec [credentials]:
  "credential_names help_desec = [''DESEC_TOKEN'']"
  unfolding help_desec_def credential_names_def help_page.simps by simp

lemma names_help_designate [credentials]:
  "credential_names help_designate = [''OS_AUTH_URL'', ''OS_PASSWORD'', ''OS_PROJECT_NAME'', ''OS_REGION_NAME'', ''OS_TENANT_NAME'', ''OS_USERNAME'']"
  unfolding help_designate_def credential_names_def help_page.simps by simp

lemma names_help_digitalocean [credentials]:
  "credential_names help_digitalocean = [''DO_AUTH_TOKEN'']"
  unfolding help_digitalocean_def credential_names_def help_page.simps by simp

lemma names_help_dnsimple [credentials]:
  "credential_names help_dnsimple = [''DNSIMPLE_OAUTH_TOKEN'']"
  unfolding help_dnsimple_def credential_names_def help_page.simps by simp

lemma names_help_dnsmadeeasy [credentials]:
  "credential_names help_dnsmadeeasy = [''DNSMADEEASY_API_KEY'', ''DNSMADEEASY_API_SECRET'']"
  unfolding help_dnsmadeeasy_def credential_names_def help_page.simps by simp

lemma names_help_dnspod [credentials]:
  "credential_names help_dnspod = [''DNSPOD_API_KEY'']"
  unfolding help_dnspod_def credential_names_def help_page.simps by simp

lemma names_help_dode [credentials]:
  "credential_names help_dode = [''DODE_TOKEN'']"
  unfolding help_dode_def credential_names_def help_page.simps by simp

lemma names_help_dreamhost [credentials]:
  "credential_names help_dreamhost = [''DREAMHOST_API_KEY'']"
  unfolding help_dreamhost_def credential_names_def help_page.simps by simp

lemma names_help_duckdns [credentials]:
  "credential_names help_duckdns = [''DUCKDNS_TOKEN'']"
  unfolding help_duckdns_def credential_names_def help_page.simps by simp

lemma names_help_dyn [credentials]:
  "credential_names help_dyn = [''DYN_CUSTOMER_NAME'', ''DYN_PASSWORD'', ''DYN_USER_NAME'']"
  unfolding help_dyn_def credential_names_def help_page.simps by simp

lemma names_help_dynu [credentials]:
  "credential_names help_dynu = [''DYNU_API_KEY'']"
  unfolding help_dynu_def credential_names_def help_page.simps by simp

lemma names_help_easydns [credentials]:
  "credential_names help_easydns = [''EASYDNS_KEY'', ''EASYDNS_TOKEN'']"
  unfolding help_easydns_def credential_names_def help_page.simps by simp

lemma names_help_edgedns [credentials]:
  "credential_names help_edgedns = [''AKAMAI_ACCESS_TOKEN'', ''AKAMAI_CLIENT_SECRET'', ''AKAMAI_CLIENT_TOKEN'', ''AKAMAI_HOST'']"
  unfolding help_edgedns_def credential_names_def help_page.simps by simp

lemma names_help_exec [credentials]:
  "credential_names help_exec = []"
  unfolding help_exec_def credential_names_def help_page.simps by simp

lemma names_help_exoscale [credentials]:
  "credential_names help_exoscale = [''EXOSCALE_API_KEY'', ''EXOSCALE_API_SECRET'', ''EXOSCALE_ENDPOINT'']"
  unfolding help_exoscale_def credential_names_def help_page.simps by simp

lemma names_help_gandi [credentials]:
  "credential_names help_gandi = [''GANDI_API_KEY'']"
  unfolding help_gandi_def credential_names_def help_page.simps by simp

lemma names_help_gandiv5 [credentials]:
  "credential_names help_gandiv5 = [''GANDIV5_API_KEY'']"
  unfolding help_gandiv5_def credential_names_def help_page.simps by simp

lemma names_help_gcloud [credentials]:
  "credential_names help_gcloud = [''Application Default Credentials'', ''GCE_PROJECT'', ''GCE_SERVICE_ACCOUNT'', ''GCE_SERVICE_ACCOUNT_FILE'']"
  unfolding help_gcloud_def credential_names_def help_page.simps by simp

lemma names_help_glesys [credentials]:
  "credential_names help_glesys = [''GLESYS_API_KEY'', ''GLESYS_API_USER'']"
  unfolding help_glesys_def credential_names_def help_page.simps by simp

lemma names_help_godaddy [credentials]:
  "credential_names help_godaddy = [''GODADDY_API_KEY'', ''GODADDY_API_SECRET'']"
  unfolding help_godaddy_def credential_names_def help_page.simps by simp

lemma names_help_hetzner [credentials]:
  "credential_names help_hetzner = [''HETZNER_API_KEY'']"
  unfolding help_hetzner_def credential_names_def help_page.simps by simp

lemma names_help_hostingde [credentials]:
  "credential_names help_hostingde = [''HOSTINGDE_API_KEY'', ''HOSTINGDE_ZONE_NAME'']"
  unfolding help_hostingde_def credential_names_def help_page.simps by simp

lemma names_help_httpreq [credentials]:
  "credential_names help_httpreq = [''HTTPREQ_ENDPOINT'', ''HTTPREQ_MODE'']"
  unfolding help_httpreq_def credential_names_def help_page.simps by simp

lemma names_help_hyperone [credentials]:
  "credential_names help_hyperone = []"
  unfolding help_hyperone_def credential_names_def help_page.simps by simp

lemma names_help_iij [credentials]:
  "credential_names help_iij = [''IIJ_API_ACCESS_KEY'', ''IIJ_API_SECRET_KEY'', ''IIJ_DO_SERVICE_CODE'']"
  unfolding help_iij_def credential_names_def help_page.simps by simp

lemma names_help_inwx [credentials]:
  "credential_names help_inwx = [''INWX_PASSWORD'', ''INWX_USERNAME'']"
  unfolding help_inwx_def credential_names_def help_page.simps by simp

lemma names_help_joker [credentials]:
  "credential_names help_joker = [''JOKER_API_KEY'', ''JOKER_PASSWORD'', ''JOKER_USERNAME'']"
  unfolding help_joker_def credential_names_def help_page.simps by simp

lemma names_help_lightsail [credentials]:
  "credential_names help_lightsail = [''AWS_ACCESS_KEY_ID'', ''AWS_SECRET_ACCESS_KEY'', ''DNS_ZONE'']"
  unfolding help_lightsail_def credential_names_def help_page.simps by simp

lemma names_help_linode [credentials]:
  "credential_names help_linode = [''LINODE_TOKEN'']"
  unfolding help_linode_def credential_names_def help_page.simps by simp

lemma names_help_liquidweb [credentials]:
  "credential_names help_liquidweb = [''LIQUID_WEB_PASSWORD'', ''LIQUID_WEB_USERNAME'', ''LIQUID_WEB_ZONE'']"
  unfolding help_liquidweb_def credential_names_def help_page.simps by simp

lemma names_help_luadns [credentials]:
  "credential_names help_luadns = [''LUADNS_API_TOKEN'', ''LUADNS_API_USERNAME'']"
  unfolding help_luadns_def credential_names_def help_page.simps by simp

lemma names_help_mydnsjp [credentials]:
  "credential_names help_mydnsjp = [''MYDNSJP_MASTER_ID'', ''MYDNSJP_PASSWORD'']"
  unfolding help_mydnsjp_def credential_names_def help_page.simps by simp

lemma names_help_mythicbeasts [credentials]:
  "credential_names help_mythicbeasts = [''MYTHICBEASTS_PASSWORD'', ''MYTHICBEASTS_USERNAME'']"
  unfolding help_mythicbeasts_def credential_names_def help_page.simps by simp

lemma names_help_namecheap [credentials]:
  "credential_names help_namecheap = [''NAMECHEAP_API_KEY'', ''NAMECHEAP_API_USER'']"
  unfolding help_namecheap_def credential_names_def help_page.simps by simp

lemma names_help_namedotcom [credentials]:
  "credential_names help_namedotcom = [''NAMECOM_API_TOKEN'', ''NAMECOM_USERNAME'']"
  unfolding help_namedotcom_def credential_names_def help_page.simps by simp

lemma names_help_namesilo [credentials]:
  "credential_names help_namesilo = [''NAMESILO_API_KEY'']"
  unfolding help_namesilo_def credential_names_def help_page.simps by simp

lemma names_help_netcup [credentials]:
  "credential_names help_netcup = [''NETCUP_API_KEY'', ''NETCUP_API_PASSWORD'', ''NETCUP_CUSTOMER_NUMBER'']"
  unfolding help_netcup_def credential_names_def help_page.simps by simp

lemma names_help_netlify [credentials]:
  "credential_names help_netlify = [''NETLIFY_TOKEN'']"
  unfolding help_netlify_def credential_names_def help_page.simps by simp

lemma names_help_nifcloud [credentials]:
  "credential_names help_nifcloud = [''NIFCLOUD_ACCESS_KEY_ID'', ''NIFCLOUD_SECRET_ACCESS_KEY'']"
  unfolding help_nifcloud_def credential_names_def help_page.simps by simp

lemma names_help_ns1 [credentials]:
  "credential_names help_ns1 = [''NS1_API_KEY'']"
  unfolding help_ns1_def credential_names_def help_page.simps by simp

lemma names_help_oraclecloud [credentials]:
  "credential_names help_oraclecloud = [''OCI_COMPARTMENT_OCID'', ''OCI_PRIVKEY_FILE'', ''OCI_PRIVKEY_PASS'', ''OCI_PUBKEY_FINGERPRINT'', ''OCI_REGION'', ''OCI_TENANCY_OCID'', ''OCI_USER_OCID'']"
  unfolding help_oraclecloud_def credential_names_def help_page.simps by simp

lemma names_help_otc [credentials]:
  "credential_names help_otc = [''OTC_DOMAIN_NAME'', ''OTC_IDENTITY_ENDPOINT'', ''OTC_PASSWORD'', ''OTC_PROJECT_NAME'', ''OTC_USER_NAME'']"
  unfolding help_otc_def credential_names_def help_page.simps by simp

lemma names_help_ovh [credentials]:
  "credential_names help_ovh = [''OVH_APPLICATION_KEY'', ''OVH_APPLICATION_SECRET'', ''OVH_CONSUMER_KEY'', ''OVH_ENDPOINT'']"
  unfolding help_ovh_def credential_names_def help_page.simps by simp

lemma names_help_pdns [credentials]:
  "credential_names help_pdns = [''PDNS_API_KEY'', ''PDNS_API_URL'']"
  unfolding help_pdns_def credential_names_def help_page.simps by simp

lemma names_help_rackspace [credentials]:
  "credential_names help_rackspace = [''RACKSPACE_API_KEY'', ''RACKSPACE_USER'']"
  unfolding help_rackspace_def credential_names_def help_page.simps by simp

lemma names_help_regru [credentials]:
  "credential_names help_regru = [''REGRU_PASSWORD'', ''REGRU_USERNAME'']"
  unfolding help_regru_def credential_names_def help_page.simps by simp

lemma names_help_rfc2136 [credentials]:
  "credential_names help_rfc2136 = [''RFC2136_NAMESERVER'', ''RFC2136_TSIG_ALGORITHM'', ''RFC2136_TSIG_KEY'', ''RFC2136_TSIG_SECRET'']"
  unfolding help_rfc2136_def credential_names_def help_page.simps by simp

lemma names_help_rimuhosting [credentials]:
  "credential_names help_rimuhosting = [''RIMUHOSTING_API_KEY'']"
  unfolding help_rimuhosting_def credential_names_def help_page.simps by simp

lemma names_help_route53 [credentials]:
  "credential_names help_route53 = [''AWS_ACCESS_KEY_ID'', ''AWS_HOSTED_ZONE_ID'', ''AWS_PROFILE'', ''AWS_REGION'', ''AWS_SDK_LOAD_CONFIG'', ''AWS_SECRET_ACCESS_KEY'']"
  unfolding help_route53_def credential_names_def help_page.simps by simp

lemma names_help_sakuracloud [credentials]:
  "credential_names help_sakuracloud = [''SAKURACLOUD_ACCESS_TOKEN'', ''SAKURACLOUD_ACCESS_TOKEN_SECRET'']"
  unfolding help_sakuracloud_def credential_names_def help_page.simps by simp

lemma names_help_scaleway [credentials]:
  "credential_names help_scaleway = [''SCALEWAY_API_TOKEN'']"
  unfolding help_scaleway_def credential_names_def help_page.simps by simp

lemma names_help_selectel [credentials]:
  "credential_names help_selectel = [''SELECTEL_API_TOKEN'']"
  unfolding help_selectel_def credential_names_def help_page.simps by simp

lemma names_help_servercow [credentials]:
  "credential_names help_servercow = [''SERVERCOW_PASSWORD'', ''SERVERCOW_USERNAME'']"
  unfolding help_servercow_def credential_names_def help_page.simps by simp

lemma names_help_stackpath [credentials]:
  "credential_names help_stackpath = [''STACKPATH_CLIENT_ID'', ''STACKPATH_CLIENT_SECRET'', ''STACKPATH_STACK_ID'']"
  unfolding help_stackpath_def credential_names_def help_page.simps by simp

lemma names_help_transip [credentials]:
  "credential_names help_transip = [''TRANSIP_ACCOUNT_NAME'', ''TRANSIP_PRIVATE_KEY_PATH'']"
  unfolding help_transip_def credential_names_def help_page.simps by simp

lemma names_help_vegadns [credentials]:
  "credential_names help_vegadns = [''SECRET_VEGADNS_KEY'', ''SECRET_VEGADNS_SECRET'', ''VEGADNS_URL'']"
  unfolding help_vegadns_def credential_names_def help_page.simps by simp

lemma names_help_versio [credentials]:
  "credential_names help_versio = [''VERSIO_PASSWORD'', ''VERSIO_USERNAME'']"
  unfolding help_versio_def credential_names_def help_page.simps by simp

lemma names_help_vscale [credentials]:
  "credential_names help_vscale = [''VSCALE_API_TOKEN'']"
  unfolding help_vscale_def credential_names_def help_page.simps by simp

lemma names_help_vultr [credentials]:
  "credential_names help_vultr = [''VULTR_API_KEY'']"
  unfolding help_vultr_def credential_names_def help_page.simps by simp

lemma names_help_yandex [credentials]:
  "credential_names help_yandex = [''YANDEX_PDD_TOKEN'']"
  unfolding help_yandex_def credential_names_def help_page.simps by simp

lemma names_help_zoneee [credentials]:
  "credential_names help_zoneee = [''ZONEEE_API_KEY'', ''ZONEEE_API_USER'']"
  unfolding help_zoneee_def credential_names_def help_page.simps by simp

lemma names_help_zonomi [credentials]:
  "credential_names help_zonomi = [''ZONOMI_API_KEY'']"
  unfolding help_zonomi_def credential_names_def help_page.simps by simp

text \<open>The branches of the switch, in their order.\<close>

definition help_pages :: "(string \<times> help_page) list" where
  "help_pages = [
    (''acme-dns'', help_acme_dns),
    (''alidns'', help_alidns),
    (''arvancloud'', help_arvancloud),
    (''auroradns'', help_auroradns),
    (''autodns'', help_autodns),
    (''azure'', help_azure),
    (''bindman'', help_bindman),
    (''bluecat'', help_bluecat),
    (''checkdomain'', help_checkdomain),
    (''clouddns'', help_clouddns),
    (''cloudflare'', help_cloudflare),
    (''cloudns'', help_cloudns),
    (''cloudxns'', help_cloudxns),
    (''conoha'', help_conoha),
    (''constellix'', help_constellix),
    (''desec'', help_desec),
    (''designate'', help_designate),
    (''digitalocean'', help_digitalocean),
    (''dnsimple'', help_dnsimple),
    (''dnsmadeeasy'', help_dnsmadeeasy),
    (''dnspod'', help_dnspod),
    (''dode'', help_dode),
    (''dreamhost'', help_dreamhost),
    (''duckdns'', help_duckdns),
    (''dyn'', help_dyn),
    (''dynu'', help_dynu),
    (''easydns'', help_easydns),
    (''edgedns'', help_edgedns),
    (''exec'', help_exec),
    (''exoscale'', help_exoscale),
    (''gandi'', help_gandi),
    (''gandiv5'', help_gandiv5),
    (''gcloud'', help_gcloud),
    (''glesys'', help_glesys),
    (''godaddy'', help_godaddy),
    (''hetzner'', help_hetzner),
    (''hostingde'', help_hostingde),
    (''httpreq'', help_httpreq),
    (''hyperone'', help_hyperone),
    (''iij'', help_iij),
    (''inwx'', help_inwx),
    (''joker'', help_joker),
    (''lightsail'', help_lightsail),
    (''linode'', help_linode),
    (''liquidweb'', help_liquidweb),
    (''luadns'', help_luadns),
    (''mydnsjp'', help_mydnsjp),
    (''mythicbeasts'', help_mythicbeasts),
    (''namecheap'', help_namecheap),
    (''namedotcom'', help_namedotcom),
    (''namesilo'', help_namesilo),
    (''netcup'', help_netcup),
    (''netlify'', help_netlify),
    (''nifcloud'', help_nifcloud),
    (''ns1'', help_ns1),
    (''oraclecloud'', help_oraclecloud),
    (''otc'', help_otc),
    (''ovh'', help_ovh),
    (''pdns'', help_pdns),
    (''rackspace'', help_rackspace),
    (''regru'', help_regru),
    (''rfc2136'', help_rfc2136),
    (''rimuhosting'', help_rimuhosting),
    (''route53'', help_route53),
    (''sakuracloud'', help_sakuracloud),
    (''scaleway'', help_scaleway),
    (''selectel'', help_selectel),
    (''servercow'', help_servercow),
    (''stackpath'', help_stackpath),
    (''transip'', help_transip),
    (''vegadns'', help_vegadns),
    (''versio'', help_versio),
    (''vscale'', help_vscale),
    (''vultr'', help_vultr),
    (''yandex'', help_yandex),
    (''zoneee'', help_zoneee),
    (''zonomi'', help_zonomi)]"

end
