(* ===== verification/App.thy ===== *)
theory App
  imports Cmd Dns_Registry Dns_Help_Pages
begin

text \<open>
  The program as a whole: the flags (\<^verbatim>\<open>cmd/flags.go\<close>), the table of commands (\<^verbatim>\<open>cmd/cmd.go\<close>), the command
  \<^verbatim>\<open>dnshelp\<close> (\<^verbatim>\<open>cmd/cmd_dnshelp.go\<close>, \<^verbatim>\<open>cmd/zz_gen_cmd_dnshelp.go\<close>) and \<^verbatim>\<open>cmd/lego/main.go\<close>.  The library that
  reads the command line (\<^verbatim>\<open>urfave/cli\<close>) is a parameter: the function that runs an application.  Writing to
  the standard output does not fail.

  Proved here: the help knows exactly the names that the table of DNS providers knows, and names the
  credentials without which a provider is refused; an action only runs after the checks in front of it.
\<close>

section \<open>Flags\<close>

datatype cli_flag =
    StringFlag (flag_Name: string) (flag_Usage: string) (flag_EnvVar: string) (flag_String: string)
  | IntFlag (flag_Name: string) (flag_Usage: string) (flag_Int: int)
  | BoolFlag (flag_Name: string) (flag_Usage: string)
  | StringSliceFlag (flag_Name: string) (flag_Usage: string)

definition CreateFlags :: "string \<Rightarrow> cli_flag list" where
  "CreateFlags defaultPath = [
    StringSliceFlag ''domains, d'' ''Add a domain to the process. Can be specified multiple times.'',
    StringFlag ''server, s'' ''CA hostname (and optionally :port). The server certificate must be trusted in order to avoid further modifications to the client.''
      [] LEDirectoryProduction,
    BoolFlag ''accept-tos, a'' ''By setting this flag to true you indicate that you accept the current Let's Encrypt terms of service.'',
    StringFlag ''email, m'' ''Email used for registration and recovery contact.'' [] [],
    StringFlag ''csr, c'' ''Certificate signing request filename, if an external CSR is to be used.'' [] [],
    BoolFlag ''eab'' ''Use External Account Binding for account registration. Requires --kid and --hmac.'',
    StringFlag ''kid'' ''Key identifier from External CA. Used for External Account Binding.'' [] [],
    StringFlag ''hmac'' ''MAC key from External CA. Should be in Base64 URL Encoding without padding format. Used for External Account Binding.'' [] [],
    StringFlag ''key-type, k'' ''Key type to use for private keys. Supported: rsa2048, rsa4096, rsa8192, ec256, ec384.'' [] ''ec256'',
    StringFlag ''filename'' ''(deprecated) Filename of the generated certificate.'' [] [],
    StringFlag ''path'' ''Directory to use for storing the data.'' ''LEGO_PATH'' defaultPath,
    BoolFlag ''http'' ''Use the HTTP challenge to solve challenges. Can be mixed with other types of challenges.'',
    StringFlag ''http.port'' ''Set the port and interface to use for HTTP based challenges to listen on.Supported: interface:port or :port.'' [] '':80'',
    StringFlag ''http.proxy-header'' ''Validate against this HTTP header when solving HTTP based challenges behind a reverse proxy.'' [] ''Host'',
    StringFlag ''http.webroot'' ''Set the webroot folder to use for HTTP based challenges to write directly in a file in .well-known/acme-challenge. This disables the built-in server and expects the given directory to be publicly served with access to .well-known/acme-challenge'' [] [],
    StringSliceFlag ''http.memcached-host'' ''Set the memcached host(s) to use for HTTP based challenges. Challenges will be written to all specified hosts.'',
    BoolFlag ''tls'' ''Use the TLS challenge to solve challenges. Can be mixed with other types of challenges.'',
    StringFlag ''tls.port'' ''Set the port and interface to use for TLS based challenges to listen on. Supported: interface:port or :port.'' [] '':443'',
    StringFlag ''dns'' ''Solve a DNS challenge using the specified provider. Can be mixed with other types of challenges. Run 'lego dnshelp' for help on usage.'' [] [],
    BoolFlag ''dns.disable-cp'' ''By setting this flag to true, disables the need to wait the propagation of the TXT record to all authoritative name servers.'',
    StringSliceFlag ''dns.resolvers'' ''Set the resolvers to use for performing recursive DNS queries. Supported: host:port. The default is to use the system resolvers, or Google's DNS resolvers if the system's cannot be determined.'',
    IntFlag ''http-timeout'' ''Set the HTTP timeout value to a specific value in seconds.'' 0,
    IntFlag ''dns-timeout'' ''Set the DNS timeout value to a specific value in seconds. Used only when performing authoritative name servers queries.'' 10,
    BoolFlag ''pem'' ''Generate a .pem file by concatenating the .key and .crt files together.'',
    IntFlag ''cert.timeout'' ''Set the certificate timeout value to a specific value in seconds. Only used when obtaining certificates.'' 30]"

section \<open>Printed help\<close>

definition allDNSCodes_list :: "string list" where
  "allDNSCodes_list = [
    ''manual'', ''acme-dns'', ''alidns'', ''arvancloud'', ''auroradns'', ''autodns'', ''azure'', ''bindman'',
    ''bluecat'', ''checkdomain'', ''clouddns'', ''cloudflare'', ''cloudns'', ''cloudxns'', ''conoha'',
    ''constellix'', ''desec'', ''designate'', ''digitalocean'', ''dnsimple'', ''dnsmadeeasy'', ''dnspod'',
    ''dode'', ''dreamhost'', ''duckdns'', ''dyn'', ''dynu'', ''easydns'', ''edgedns'', ''exec'', ''exoscale'',
    ''gandi'', ''gandiv5'', ''gcloud'', ''glesys'', ''godaddy'', ''hetzner'', ''hostingde'', ''httpreq'',
    ''hyperone'', ''iij'', ''inwx'', ''joker'', ''lightsail'', ''linode'', ''liquidweb'', ''luadns'', ''mydnsjp'',
    ''mythicbeasts'', ''namecheap'', ''namedotcom'', ''namesilo'', ''netcup'', ''netlify'', ''nifcloud'', ''ns1'',
    ''oraclecloud'', ''otc'', ''ovh'', ''pdns'', ''rackspace'', ''regru'', ''rfc2136'', ''rimuhosting'',
    ''route53'', ''sakuracloud'', ''scaleway'', ''selectel'', ''servercow'', ''stackpath'', ''transip'',
    ''vegadns'', ''versio'', ''vscale'', ''vultr'', ''yandex'', ''zoneee'', ''zonomi'']"

definition allDNSCodes :: string where
  "allDNSCodes = Join (sort allDNSCodes_list) '', ''"

text \<open>
  \<^verbatim>\<open>text/tabwriter\<close> with the settings of the command: the text before a tab is a cell of a column, which is two
  blanks wider than the widest cell of the lines around that have a cell in this column.
\<close>

definition column_width :: "string list list \<Rightarrow> nat \<Rightarrow> nat \<Rightarrow> nat" where
  "column_width rows i j =
     (let has = (\<lambda>row. j + 1 < length row);
          block = takeWhile has (drop i rows) @ takeWhile has (rev (take i rows)) in
      fold max (map (\<lambda>row. length (row ! j)) block) 0 + 2)"

definition tabbed :: "string list \<Rightarrow> string list" where
  "tabbed ls =
     (let rows = map (split_on (CHR 0x09)) ls in
      map (\<lambda>i. let row = rows ! i in
          concat (map (\<lambda>j. row ! j @ replicate (column_width rows i j - length (row ! j)) (CHR '' '')) [0..<length row - 1])
            @ last row)
        [0..<length rows])"

definition print_tabbed :: "string list \<Rightarrow> (shell, goerror option) go" where
  "print_tabbed ls = bind (modify (\<lambda>s. s\<lparr>sh_out := sh_out s @ tabbed ls\<rparr>)) (\<lambda>_. ret None)"

definition displayDNSHelp :: "string \<Rightarrow> (shell, goerror option) go" where
  "displayDNSHelp name =
     (case map_of help_pages name of
        Some page \<Rightarrow> print_tabbed (help_lines page)
      | None \<Rightarrow>
          if name = ''manual'' then print_tabbed [''Solving the DNS-01 challenge using CLI prompt.'']
          else ret (Some (Err (Quote name @ '' is not yet supported''))))"

definition dnsHelp :: "cli_ctx \<Rightarrow> (shell, goerror option) go" where
  "dnsHelp ctx =
     (if fl_code ctx = [] then
        print_tabbed [
          ''Credentials for DNS providers must be passed through environment variables.'', [],
          ''To display the documentation for a DNS providers:'', [],
          [CHR 0x09] @ ''$ lego dnshelp -c code'', [],
          ''All DNS codes:'', [CHR 0x09] @ allDNSCodes, [],
          ''More information: https://go-acme.github.io/lego/dns'']
      else displayDNSHelp (ToLower (fl_code ctx)))"

section \<open>Commands\<close>

record cli_command =
  cmd_Name :: string
  cmd_Usage :: string
  cmd_Before :: "cli_ctx \<Rightarrow> (shell, goerror option) go"
  cmd_Action :: "cli_ctx \<Rightarrow> (shell, goerror option) go"
  cmd_Flags :: "cli_flag list"

abbreviation no_Before :: "cli_ctx \<Rightarrow> (shell, goerror option) go" where
  "no_Before \<equiv> \<lambda>_. ret None"

definition createRun :: "cmd_env \<Rightarrow> cli_command" where
  "createRun m =
     \<lparr>cmd_Name = ''run'', cmd_Usage = ''Register an account, then create and install a certificate'',
      cmd_Before = domains_or_csr, cmd_Action = run m,
      cmd_Flags = [
        BoolFlag ''no-bundle'' ''Do not create a certificate bundle by adding the issuers certificate to the new certificate.'',
        BoolFlag ''must-staple'' ''Include the OCSP must staple TLS extension in the CSR and generated certificate. Only works if the CSR is generated by lego.'',
        StringFlag ''run-hook'' ''Define a hook. The hook is executed when the certificates are effectively created.'' [] [],
        StringFlag ''preferred-chain'' ''If the CA offers multiple certificate chains, prefer the chain with an issuer matching this Subject Common Name. If no match, the default offered chain will be used.'' [] []]\<rparr>"

definition createRevoke :: "cmd_env \<Rightarrow> cli_command" where
  "createRevoke m =
     \<lparr>cmd_Name = ''revoke'', cmd_Usage = ''Revoke a certificate'', cmd_Before = no_Before, cmd_Action = revoke m,
      cmd_Flags = [BoolFlag ''keep, k'' ''Keep the certificates after the revocation instead of archiving them.'']\<rparr>"

definition createRenew :: "cmd_env \<Rightarrow> cli_command" where
  "createRenew m =
     \<lparr>cmd_Name = ''renew'', cmd_Usage = ''Renew a certificate'', cmd_Before = domains_or_csr, cmd_Action = renew m,
      cmd_Flags = [
        IntFlag ''days'' ''The number of days left on a certificate to renew it.'' 30,
        BoolFlag ''reuse-key'' ''Used to indicate you want to reuse your current private key for the new certificate.'',
        BoolFlag ''no-bundle'' ''Do not create a certificate bundle by adding the issuers certificate to the new certificate.'',
        BoolFlag ''must-staple'' ''Include the OCSP must staple TLS extension in the CSR and generated certificate. Only works if the CSR is generated by lego.'',
        StringFlag ''renew-hook'' ''Define a hook. The hook is executed only when the certificates are effectively renewed.'' [] [],
        StringFlag ''preferred-chain'' ''If the CA offers multiple certificate chains, prefer the chain with an issuer matching this Subject Common Name. If no match, the default offered chain will be used.'' [] []]\<rparr>"

definition createDNSHelp :: cli_command where
  "createDNSHelp =
     \<lparr>cmd_Name = ''dnshelp'', cmd_Usage = ''Shows additional help for the '' @ [CHR 0x27] @ ''--dns'' @ [CHR 0x27] @ '' global option'',
      cmd_Before = no_Before, cmd_Action = dnsHelp,
      cmd_Flags = [StringFlag ''code, c'' (''DNS code: '' @ allDNSCodes) [] []]\<rparr>"

definition createList :: "cmd_env \<Rightarrow> cli_command" where
  "createList m =
     \<lparr>cmd_Name = ''list'', cmd_Usage = ''Display certificates and accounts information.'', cmd_Before = no_Before,
      cmd_Action = list_command m,
      cmd_Flags = [
        BoolFlag ''accounts, a'' ''Display accounts.'',
        BoolFlag ''names, n'' ''Display certificate common names only.'']\<rparr>"

definition CreateCommands :: "cmd_env \<Rightarrow> cli_command list" where
  "CreateCommands m = [createRun m, createRevoke m, createRenew m, createDNSHelp, createList m]"

section \<open>The program\<close>

record cli_app =
  app_Name :: string
  app_HelpName :: string
  app_Usage :: string
  app_EnableBashCompletion :: bool
  app_Version :: string
  app_Flags :: "cli_flag list"
  app_Before :: "cli_ctx \<Rightarrow> (shell, goerror option) go"
  app_Commands :: "cli_command list"

text \<open>\<open>cwd\<close> is the result of \<^verbatim>\<open>os.Getwd\<close>.\<close>

definition lego_app :: "cmd_env \<Rightarrow> goerror + string \<Rightarrow> cli_app" where
  "lego_app m cwd =
     \<lparr>app_Name = ''lego'', app_HelpName = ''lego'', app_Usage = ''Let's Encrypt client written in Go'',
      app_EnableBashCompletion = True, app_Version = appVersion (cm_cli m),
      app_Flags = CreateFlags (case cwd of Inl _ \<Rightarrow> [] | Inr dir \<Rightarrow> path_Join [dir, ''.lego'']),
      app_Before = Before (cm_cli m), app_Commands = CreateCommands m\<rparr>"

definition main ::
  "cmd_env \<Rightarrow> goerror + string \<Rightarrow> (cli_app \<Rightarrow> string list \<Rightarrow> (shell, goerror option) go) \<Rightarrow> string list \<Rightarrow> (shell, unit) go" where
  "main m cwd app_Run args =
     bind (app_Run (lego_app m cwd) args) (\<lambda>err.
       case err of Some er \<Rightarrow> fatal (error_text er) | None \<Rightarrow> ret ())"

section \<open>The help and the table of providers\<close>

definition codes_of_pages :: "string list" where
  "codes_of_pages = map fst help_pages"

lemma codes_of_pages_eq:
  "codes_of_pages = filter (\<lambda>c. c \<noteq> ''manual'') allDNSCodes_list"
  by (simp add: codes_of_pages_def help_pages_def allDNSCodes_list_def)

lemma help_codes: "insert ''manual'' (fst ` set help_pages) = set allDNSCodes_list"
proof -
  have "fst ` set help_pages = set codes_of_pages" by (simp add: codes_of_pages_def)
  moreover have "''manual'' \<in> set allDNSCodes_list" by (simp add: allDNSCodes_list_def)
  ultimately show ?thesis by (auto simp: codes_of_pages_eq)
qed

lemma registry_codes: "set allDNSCodes_list \<union> {''fastdns'', ''linodev4''} = insert ''manual'' (fst ` set dns_packages)"
proof -
  have "sort (allDNSCodes_list @ [''fastdns'', ''linodev4'']) = sort (''manual'' # map fst dns_packages)" by code_simp
  then have "set (allDNSCodes_list @ [''fastdns'', ''linodev4'']) = set (''manual'' # map fst dns_packages)"
    by (metis set_sort)
  then show ?thesis by simp
qed

text \<open>The variables that a package needs, and those its page names.\<close>

definition required :: "(string \<times> string list) list" where
  "required = map (\<lambda>(package, ks, _). (package, ks)) host_table"

definition documented :: "(string \<times> string list) list" where
  "documented = map (\<lambda>(code, page). (code, credential_names page)) help_pages"

lemma required_documented:
  "list_all (\<lambda>(package, ks). package = ''exec'' \<or>
     (case map_of documented package of None \<Rightarrow> False | Some names \<Rightarrow> list_all (\<lambda>k. k \<in> set names) ks)) required"
  unfolding required_def documented_def host_table_def help_pages_def list.map prod.case credentials
  by code_simp

lemma map_of_documented: "map_of documented code = map_option credential_names (map_of help_pages code)"
  using map_of_map [of credential_names help_pages] by (simp add: documented_def fun_eq_iff)

lemma page_documents:
  assumes "map_of host_table package = Some (ks, new, accepts)" and "package \<noteq> ''exec''"
  shows "\<exists>page. map_of help_pages package = Some page \<and> set ks \<subseteq> fst ` set (hp_Credentials page)"
proof -
  have "(package, ks) \<in> set required"
    using map_of_SomeD [OF assms(1)] by (force simp: required_def)
  then show ?thesis
    using required_documented assms(2)
    by (fastforce simp: list_all_iff map_of_documented credential_names_def split: option.splits)
qed



section \<open>Checks in front of an action\<close>

text \<open>
  What \<^verbatim>\<open>urfave/cli\<close> documents of \<^verbatim>\<open>App.Run\<close>: with a command line that names a command it calls the \<^verbatim>\<open>Before\<close> of the
  application, the \<^verbatim>\<open>Before\<close> of the command and its action, up to the first error; any other command line
  prints something and returns.
\<close>

definition cli_invoke :: "cli_app \<Rightarrow> cli_command \<Rightarrow> cli_ctx \<Rightarrow> (shell, goerror option) go" where
  "cli_invoke app c ctx = check_err (app_Before app ctx) (check_err (cmd_Before c ctx) (cmd_Action c ctx))"

definition cli_runs :: "(cli_app \<Rightarrow> string list \<Rightarrow> (shell, goerror option) go) \<Rightarrow> bool" where
  "cli_runs app_Run \<longleftrightarrow> (\<forall>app args s.
     (\<exists>c \<in> set (app_Commands app). \<exists>ctx. app_Run app args s = cli_invoke app c ctx s)
     \<or> (\<exists>err lines. app_Run app args s = (Return err, s\<lparr>sh_out := sh_out s @ lines\<rparr>)))"

lemma domains_or_csr_nil:
  "domains_or_csr ctx s = (Return r, t) \<Longrightarrow> (fl_domains ctx = []) \<noteq> (fl_csr ctx = []) \<and> t = s"
  by (auto simp: domains_or_csr_def Let_def split: if_splits)

lemma Before_nil: "Before c ctx s = (Return r, t) \<Longrightarrow> fl_path ctx \<noteq> [] \<and> fl_server ctx \<noteq> []"
  by (auto simp: Before_def bind_Return_eq split: if_splits)


text \<open>A command line that asks for the help on the manual provider.\<close>

definition help_ctx :: cli_ctx where
  "help_ctx = undefined\<lparr>fl_path := ''d'', fl_server := ''s'', fl_code := ''MANUAL''\<rparr>"

definition ask_help :: "cli_app \<Rightarrow> string list \<Rightarrow> (shell, goerror option) go" where
  "ask_help app args =
     (if 3 < length (app_Commands app) then cli_invoke app (app_Commands app ! 3) help_ctx else ret None)"

definition sample_cmd :: cmd_env where
  "sample_cmd = \<lparr>cm_cli = sample_cli, newDNSProvider = (\<lambda>_. panic []), httpProvider = (\<lambda>_. undefined),
     tlsProvider = (\<lambda>_ _. undefined), timeString = (\<lambda>_. [])\<rparr>"

lemma ask_help_runs: "cli_runs ask_help"
  unfolding cli_runs_def
proof (intro allI)
  fix app args s
  show "(\<exists>c \<in> set (app_Commands app). \<exists>ctx. ask_help app args s = cli_invoke app c ctx s)
    \<or> (\<exists>err lines. ask_help app args s = (Return err, s\<lparr>sh_out := sh_out s @ lines\<rparr>))"
  proof (cases "3 < length (app_Commands app)")
    case True
    then show ?thesis by (auto simp: ask_help_def intro!: bexI [of _ "app_Commands app ! 3"])
  next
    case False
    then show ?thesis by (auto simp: ask_help_def intro!: exI [of _ "[]"])
  qed
qed

lemma ask_help_main:
  "\<exists>t. main sample_cmd (Inr ''/'') ask_help [] sample_shell = (Return (), t) \<and> ''d'' \<in> set (sh_dirs t)"
proof -
  let ?u = "sample_shell\<lparr>sh_dirs := filter (\<lambda>d. d \<notin> set (sh_dirs sample_shell)) (parents (length ''d'') ''d'') @ sh_dirs sample_shell\<rparr>"
  have before: "Before sample_cli help_ctx sample_shell = (Return None, ?u)"
    by (simp add: Before_def help_ctx_def fatal_on_def createNonExistingFolder_def os_Stat_def os_MkdirAll_def bind_def
        sample_cli_def sample_shell_def file_at_def)
  have "map_of help_pages ''manual'' = None" by (simp add: help_pages_def)
  moreover have "ToLower ''MANUAL'' = ''manual''" by code_simp
  ultimately have action: "dnsHelp help_ctx ?u = (Return None, ?u\<lparr>sh_out := sh_out ?u @ tabbed [''Solving the DNS-01 challenge using CLI prompt.'']\<rparr>)"
    by (simp add: dnsHelp_def help_ctx_def displayDNSHelp_def print_tabbed_def bind_def)
  have "main sample_cmd (Inr ''/'') ask_help [] sample_shell
      = (Return (), ?u\<lparr>sh_out := sh_out ?u @ tabbed [''Solving the DNS-01 challenge using CLI prompt.'']\<rparr>)"
    using before action
    by (simp add: main_def ask_help_def lego_app_def sample_cmd_def CreateCommands_def createDNSHelp_def cli_invoke_def
        check_err_def bind_def)
  moreover have "''d'' \<in> set (sh_dirs ?u)" by (simp add: sample_shell_def Let_def)
  ultimately show ?thesis by simp
qed


end
