(* ===== verification/Spec2Isabelle.thy ===== *)
theory Spec2Isabelle
  imports Cmd Dns_Registry App
begin

text \<open>
  A verification development for lego, an ACME (RFC 8555) client and library written in Go.

  \<^bold>\<open>The program.\<close>  A client (package \<^verbatim>\<open>lego\<close>) is built from a configuration.  It owns one core (package
  \<^verbatim>\<open>acme/api\<close>), which signs requests with the account key, draws a fresh replay nonce for every one of them
  from a pool, sends them and reads nonces and results from the replies.  The certifier (package
  \<^verbatim>\<open>certificate\<close>) places an order, fetches its authorizations, lets the prober (package
  \<^verbatim>\<open>challenge/resolver\<close>) solve them with the solver registered for a challenge type, finalizes the order with
  a certificate request and downloads the chain.  The solvers are \<^verbatim>\<open>http01\<close>, \<^verbatim>\<open>tlsalpn01\<close> and \<^verbatim>\<open>dns01\<close> under
  \<^verbatim>\<open>challenge\<close>; each asks a provider to present a key authorization and the server to validate it.  The command
  line (package \<^verbatim>\<open>cmd\<close>) keeps accounts and certificates in files and drives a client to register, obtain, renew,
  revoke and list.  A provider of the dns-01 challenge is a package under \<^verbatim>\<open>providers/dns\<close> that edits a zone at a
  hosting service; the flag \<^verbatim>\<open>--dns\<close> chooses it by name, and \<^verbatim>\<open>lego dnshelp\<close> documents its settings.

  \<^bold>\<open>Computations.\<close>  A Go function is a function on states that returns an outcome: a value, a panic, the end of
  the program (\<^verbatim>\<open>log.Fatal\<close>), or \<open>Stuck\<close>, which stands for waiting for ever and for a bound that ran out.  An
  \<^verbatim>\<open>error\<close> is a value of a sum or option type.  \<open>world\<close> (theory \<open>World\<close>) is the state of a client: the history of
  events, the clock, the nonce pool, the key identifier, the zone cache and the resolver settings.  \<open>shell\<close>
  (theory \<open>Storage\<close>) adds the files, directories, hooks and printed lines of the command line.  What lego does
  not implement is a field of the records \<open>env\<close>, \<open>cli_env\<close> and \<open>cmd_env\<close>: the network, the JSON text format,
  signatures, PEM and X.509, the DNS exchange, back-off, failures of the operating system, digests, the layout of
  dates, the run of an external program.  The theorems state what they need of these as hypotheses (\<open>retry_ok\<close>,
  \<open>pem_ok\<close>, \<open>key_codec\<close>, \<open>sched_ok\<close>, \<open>provider_keeps\<close>, and \<open>cli_runs\<close> for the command-line library).

  \<^bold>\<open>Theories and sources.\<close>
  \<^item> \<open>Go_Base\<close>: outcomes, sequencing, \<^verbatim>\<open>defer\<close>, loops, strings, 64-bit integers; the locale \<open>step_relation\<close>, by which
    a relation between the states before and after is carried through every way of composing computations.
    \<open>Go_Float\<close>: \<^verbatim>\<open>float64\<close> rounding and durations.  \<open>Filepath\<close>: \<^verbatim>\<open>path/filepath\<close> with its pattern language.
  \<^item> \<open>Acme_Types\<close>, \<open>Acme_Json\<close>: \<^verbatim>\<open>acme/commons.go\<close> and \<^verbatim>\<open>acme/errors.go\<close>, the records, their JSON and the texts of errors.
  \<^item> \<open>World\<close>: state, events and parameters.
  \<^item> \<open>Nonces\<close>, \<open>Jws\<close>, \<open>Sender\<close>, \<open>Links\<close>, \<open>Base64_Url\<close>, \<open>Api\<close>: the packages under \<^verbatim>\<open>acme/api\<close>.  The locale
    \<open>nonce_stack\<close> is the contract of the nonce pool; the locale \<open>client_invariant\<close> is that of a relation which
    holds across every request, with its instances for the growing history and for the nonce accounting.  It
    extends \<open>plain_invariant\<close> (plain requests and the maps of the DNS providers), which extends \<open>lookup_invariant\<close>
    (plain requests, DNS lookups, waiting).
  \<^item> \<open>Platform\<close>: \<^verbatim>\<open>platform/wait\<close> and \<^verbatim>\<open>platform/config/env\<close>.  \<open>Certcrypto\<close>: \<^verbatim>\<open>certcrypto/crypto.go\<close>.
  \<^item> \<open>Challenge\<close>, \<open>Resolver\<close>: \<^verbatim>\<open>challenge\<close> and \<^verbatim>\<open>challenge/resolver\<close>; the locale \<open>honest_solvers\<close> is the contract
    between the prober and its solvers.  \<open>Http01\<close>, \<open>Tlsalpn01\<close>, \<open>Dns01\<close>: the three challenges, each of which is
    shown to keep that contract.
  \<^item> \<open>Certificate\<close>: \<^verbatim>\<open>certificate\<close>.  \<open>Registration\<close>: \<^verbatim>\<open>registration\<close>.  \<open>Lego\<close>: \<^verbatim>\<open>lego\<close>, and the step relation
    \<open>client_step\<close> with one rule for each public operation of a client.
  \<^item> \<open>Storage\<close>, \<open>Accounts\<close>, \<open>Cmd\<close>: package \<^verbatim>\<open>cmd\<close>.  \<open>Providers\<close>: \<^verbatim>\<open>providers/http\<close> and the table of DNS providers
    of \<^verbatim>\<open>providers/dns/dns_providers.go\<close>.
  \<^item> \<open>Url\<close>, \<open>Hosting\<close>, \<open>Xml\<close>: what the DNS providers share, \<^verbatim>\<open>net/url\<close>, \<^verbatim>\<open>encoding/xml\<close>, requests, replies and the maps in
    which they remember records.  The locale \<open>offering\<close> is the contract between \<^verbatim>\<open>dns01\<close> and a provider: it stays outside the account of
    the client, and after a successful \<^verbatim>\<open>Present\<close> the service has accepted the record or reported that it has it.
    \<open>hosting\<close> is the contract of the providers that always hand the record over, and gives the former; \<open>remembering\<close>
    extends it for providers that keep the identifier of what they created.
  \<^item> One theory for each provider, named as its package (\<open>Arvancloud\<close> to \<open>Zoneee\<close>; \<open>Query_Hosts\<close> has dode,
    dreamhost, duckdns and mydnsjp, \<open>Httpreq\<close> also exec, \<open>Selectel\<close> also vscale): configuration, messages, client,
    \<^verbatim>\<open>Present\<close>, \<^verbatim>\<open>CleanUp\<close>, time limits, and the interpretation of \<open>hosting\<close> or \<open>offering\<close>.  \<open>Dns_Registry\<close> has the table of
    these packages, \<open>host_table\<close>, and what holds for every entry.
  \<^item> \<open>Dns_Help_Pages\<close>: the pages of \<^verbatim>\<open>cmd/zz_gen_cmd_dnshelp.go\<close> as data.  \<open>App\<close>: flags, commands, \<^verbatim>\<open>dnshelp\<close> and
    \<^verbatim>\<open>cmd/lego/main.go\<close>.

  \<^bold>\<open>What is proved.\<close>  This theory has the properties that span components: nonces are never sent more often than
  they were issued, in every state a client can reach; a certificate is obtained, and a renewal writes to disk,
  only after validation; the table of solvers stays well formed.  The other theories have the properties of
  their component: how requests are retried and errors classified (\<open>Api\<close>, \<open>Sender\<close>); concurrent use of the nonce
  pool (\<open>Nonces\<close>); the exact calls of the two ways of solving, and what a nil result of the prober means
  (\<open>Resolver\<close>); what each challenge presents and checks (\<open>Http01\<close>, \<open>Tlsalpn01\<close>, \<open>Dns01\<close>); failure, chain choice
  and revocation of the certifier (\<open>Certificate\<close>); account and key identifier (\<open>Registration\<close>, \<open>Accounts\<close>); the
  files as a refinement of an abstract store, reading back and archiving (\<open>Storage\<close>); when and for which
  domains a certificate is renewed (\<open>Cmd\<close>); round trips of the JSON objects, PEM bundles and the \<^verbatim>\<open>Forwarded\<close>
  header; every DNS provider of \<open>host_table\<close> delivers the record, or finds it there, or reports an error, and refuses to start without
  its credentials (\<open>Dns_Registry\<close>), some also with what they do to the other records of a zone (\<open>Digitalocean\<close>,
  \<open>Luadns\<close>, \<open>Joker\<close>); the help documents exactly the registered names and their credentials, and an action runs only
  after the checks in front of it (\<open>App\<close>).

  \<^bold>\<open>Bounds.\<close>  \<open>For_loop\<close> runs at most \<open>For_rounds\<close> polls, which the timeout and the interval determine, and \<open>For\<close> is
  proved to end.  \<open>parse_blocks\<close> and \<open>csr_block\<close> get one more than the length of the text, which is enough since
  \<^verbatim>\<open>pem.Decode\<close> shortens it; likewise the pattern parser of \<open>Filepath\<close>, whose every step consumes a character.
  The question for the terms of service may be asked for ever: \<open>ask_tos\<close> is bounded by \<open>pollFuel\<close>, and its
  theorem says that every bound beyond the first valid answer gives that answer.  The pages of records of
  \<open>Checkdomain\<close> are bounded by \<open>pollFuel\<close> as well, with the lemma \<open>ckd_pages_enough\<close>.

  \<^bold>\<open>Concurrency.\<close>  Goroutines share the nonce pool; \<open>nonce_step\<close> interleaves their locked operations.  The order
  in which concurrent fetches of authorizations complete is the parameter \<open>sched\<close>.

  \<^bold>\<open>Not modelled.\<close>  The other packages under \<^verbatim>\<open>providers/dns\<close>, which are the argument \<open>rest\<close> of
  \<open>package_NewDNSProvider\<close>: most are calls of a vendor's library (the clients of Google, Amazon, Azure and
  others), and what is left of their own is configuration; rimuhosting, zonomi and yandex build their queries by
  reflection in a library.  Of the command-line library, only that it runs the checks and then the action of one command, or
  prints and returns; the version printer.  Of an XML document with several
  numbers that cannot be read, one error is reported, not always the first one of the document.  Log messages;
  writing to the standard output does not fail.  Names of
  JSON members are compared exactly, where \<^verbatim>\<open>encoding/json\<close> also accepts another case.  Test helpers and
  documentation tools.
\<close>

section \<open>Nonces\<close>

text \<open>
  C1 (invariant).  No replayed nonce: whatever a client does after it was created, and however its operations
  end, every nonce is sent in at most as many signed requests as the server issued it; so if the server
  never issues a nonce twice, no two signed requests carry the same nonce.  This covers registration,
  orders, validation, renewal, revocation, every retry and error path, and providers that keep their
  hands off the client's account.
\<close>

theorem nonces_never_reused:
  assumes "retry_ok e" and "nonces_ok w0" and "NewClient e cfg w0 = (Return (Inr cl0), w1)"
    and "client_reaches e (cl0, w1) (cl, w)"
  shows "mset (sent (w_trace w)) \<subseteq># mset (issued (w_trace w))
    \<and> (distinct (issued (w_trace w)) \<longrightarrow> distinct (sent (w_trace w)))"
proof -
  have "tame w0 w1" "good_solvers e cl0" using NewClient_starts [OF assms(3)] by auto
  then have "tame w1 w" using client_reaches_keeps [OF assms(4,1)] by simp
  with \<open>tame w0 w1\<close> assms(2) have "nonces_ok w" by (simp add: tame_def keeps_def)
  then have sub: "mset (sent (w_trace w)) \<subseteq># mset (issued (w_trace w))"
    unfolding nonces_held_def by (meson mset_subset_eq_add_left subset_mset.order_trans)
  then show ?thesis using distinct_sub_mset by blast
qed

theorem nonces_never_reused_witness:
  "\<exists>w1 t. NewClient shop_ca (Some shop_config) sample_world = (Return (Inr shop_client), w1)
     \<and> client_reaches shop_ca (shop_client, w1) (shop_client, t) \<and> distinct (sent (w_trace t))
     \<and> sent (w_trace t) \<noteq> []"
proof -
  obtain w1 where new: "NewClient shop_ca (Some shop_config) sample_world = (Return (Inr shop_client), w1)"
    using shop_NewClient by (metis prod.collapse)
  let ?reg = "ResolveAccountByKey shop_ca (client_registrar shop_client) w1"
  have w1: "w1 = snd (NewClient shop_ca (Some shop_config) sample_world)" by (simp add: new)
  have sent: "issued (w_trace (snd ?reg)) = [''n'', ''nn'', ''nnn''] \<and> length (sent (w_trace (snd ?reg))) = 1"
    unfolding w1
    by (simp add: shop_client_eval ResolveAccountByKey_def client_registrar_def NewRegistrar_def
        Accounts_New_def issued_def sent_def account_of_json_def SetKid_def)
  have step: "client_reaches shop_ca (shop_client, w1) (shop_client, snd ?reg)"
    by (rule r_into_rtranclp, rule step_resolve [of _ _ _ "fst ?reg"]) simp
  have "nonces_ok sample_world" by (simp add: nonces_held_def sample_world_def sent_def)
  from nonces_never_reused [OF retry_ok_shop this new step] sent new step show ?thesis
    by (intro exI [of _ w1] exI [of _ "snd ?reg"]) auto
qed

section \<open>Obtaining a certificate\<close>

lemma Obtain_validates:
  assumes "retry_ok e" and "good_solvers e cl"
    and "Obtain e (client_certifier e cl) req w = (Return (Some cert, err), t)"
  shows "\<exists>order authz v.
    reaches_solver e (client_certifier e cl) (sanitizeDomain e (or_Domains req)) w order authz v
    \<and> (\<forall>a \<in> set authz. az_Status a = ''valid'' \<or> validated_between e (cl_core cl) a v t)"
proof -
  have honest: "honest_solvers e (cl_core cl) (cl_solvers cl)"
    using assms(2) by (auto simp: honest_solvers_def good_solvers_def good_solver_def)
  let ?c = "client_certifier e cl" and ?ds = "sanitizeDomain e (or_Domains req)"
  obtain order authz v x where reach: "reaches_solver e ?c ?ds w order authz v"
    and "cf_Solve ?c authz v = (Return None, x)" and xt: "grows x t"
    using Obtain_cert_solved [OF assms(1,3)] by blast
  then have solve: "Prober_Solve e (cl_solvers cl) authz v = (Return None, x)"
    by (simp add: client_certifier_def)
  have "validated_between e (cl_core cl) a v t" if "a \<in> set authz" "az_Status a \<noteq> ''valid''" for a
    using honest_solvers.prober_validates [OF honest solve that(1)] that(2) xt
      validated_between_mono growth.step_refl by (auto simp: StatusValid_def)
  with reach show ?thesis by blast
qed



section \<open>The table of solvers\<close>

definition table_wf :: "solvers \<Rightarrow> bool" where
  "table_wf slvs \<longleftrightarrow> distinct (map fst slvs) \<and> fst ` set slvs \<subseteq> {HTTP01, TLSALPN01, DNS01}"

lemma put_keys: "fst ` set (put k v m) = insert k (fst ` set m)"
  by (induction m) auto

lemma table_wf_put: "table_wf slvs \<Longrightarrow> k \<in> {HTTP01, TLSALPN01, DNS01} \<Longrightarrow> table_wf (put k s slvs)"
proof -
  have "distinct (map fst m) \<Longrightarrow> distinct (map fst (put k s m))" for m :: solvers
    using put_keys by (induction m) (auto simp: image_iff)
  then show "table_wf slvs \<Longrightarrow> k \<in> {HTTP01, TLSALPN01, DNS01} \<Longrightarrow> table_wf (put k s slvs)"
    by (auto simp: table_wf_def put_keys)
qed

lemma table_wf_Remove: "table_wf slvs \<Longrightarrow> table_wf (Remove ty slvs)"
  by (auto simp: table_wf_def Remove_def intro: distinct_map_filter)

lemma table_wf_step:
  assumes "client_step e s s'" and "table_wf (cl_solvers (fst s))"
  shows "table_wf (cl_solvers (fst s'))"
  using assms
  by (cases rule: client_step.cases)
    (auto simp: SetHTTP01Provider_def SetTLSALPN01Provider_def SetDNS01Provider_def bind_Return_eq
      intro!: table_wf_put table_wf_Remove)



section \<open>Renewing from the command line\<close>


text \<open>
  What the theorem asks of the DNS providers holds for the modelled packages: it is enough that the remaining
  ones, and the servers for the other two challenges, leave the account of the client alone.
\<close>

lemma packages_tame:
  assumes "retry_ok (cm_env m)" and "tame_providers m"
  shows "tame_providers (m\<lparr>newDNSProvider := package_NewDNSProvider (cm_env m) (newDNSProvider m)\<rparr>)"
proof -
  have "\<forall>package. always outside (newDNSProvider m package)"
    and "\<forall>package p w t. newDNSProvider m package w = (Return (Inr p), t) \<longrightarrow> provider_keeps tame p"
    using assms(2) unfolding tame_providers_def by simp_all
  note packages = package_keeps [OF assms(1) this]
  show ?thesis
    using assms packages unfolding tame_providers_def by simp
qed

definition old_cert :: x509_cert where
  "old_cert = \<lparr>crt_Raw = [], crt_IsCA = False, crt_SubjectCN = ''a.org'', crt_IssuerCN = [], crt_DNSNames = [],
     crt_NotAfter = 0, crt_OCSPServer = [], crt_IssuingCertificateURL = []\<rparr>"

text \<open>The sample certificate authority, and a disk with an old certificate.\<close>

definition shop_env :: cmd_env where
  "shop_env = \<lparr>cm_cli = sample_cli\<lparr>ce_env := shop_ca\<lparr>
       pemDecode := (\<lambda>s. if s = ''OLD'' then (Some \<lparr>pem_Type = ''CERTIFICATE'', pem_Bytes = ''X''\<rparr>, Some []) else (None, Some s)),
       parseCertificate := (\<lambda>_. Inr old_cert)\<rparr>\<rparr>,
     newDNSProvider = (\<lambda>_. ret (Inl (Err ''none''))), httpProvider = (\<lambda>_. idle_provider),
     tlsProvider = (\<lambda>_ _. idle_provider), timeString = show_int\<rparr>"

definition shop_flags :: cli_ctx where
  "shop_flags = undefined\<lparr>fl_server := ''dir'', fl_domains := [''a.org''], fl_http := True, fl_http_webroot_set := False,
     fl_http_memcached_set := False, fl_http_port_set := False, fl_http_proxy_header := [], fl_tls := False,
     fl_dns_set := False, fl_http_timeout_set := False, fl_eab_set := False, fl_days := -1, fl_reuse_key := False,
     fl_must_staple := False, fl_preferred_chain := [], fl_hook := [], fl_cert_timeout := 30\<rparr>"

definition shop_disk :: shell where
  "shop_disk = \<lparr>sh_world = sample_world, sh_files = [(''c/a.org.crt'', ''OLD'', 384)], sh_dirs = [''c''],
     sh_hooks = [], sh_out = []\<rparr>"

definition shop_account :: cli_account where
  "shop_account = \<lparr>ac_Email = ''u'', ac_Registration = None, ac_key = Some (RsaKey 2048 1)\<rparr>"

definition shop_storage :: certs_storage where
  "shop_storage = \<lparr>cs_rootPath = ''c'', cs_archivePath = ''z'', cs_pem = False, cs_filename = []\<rparr>"

lemma shop_newClient:
  "fst (newClient shop_env shop_flags shop_account RSA2048 shop_disk) =
     Return (shop_client\<lparr>cl_core := (cl_core shop_client)\<lparr>core_userAgent := ''lego-cli/dev''\<rparr>,
       cl_user := account_user shop_account, cl_KeyType := RSA2048, cl_Timeout := 30 * Second\<rparr>)"
  by (simp add: newClient_def handle_def bind_def run_zoom NewConfig_def createDefaultHTTPClient_def initCertPool_def
      shop_env_def shop_flags_def sample_cli_def shop_account_def account_user_def shop_disk_def i64_id in_i64_def Second_def
      GetExternalAccountRequired_def shop_client_eval)

definition shop_ready_client :: client where
  "shop_ready_client = shop_client\<lparr>cl_core := (cl_core shop_client)\<lparr>core_userAgent := ''lego-cli/dev''\<rparr>,
     cl_user := account_user shop_account, cl_KeyType := RSA2048, cl_Timeout := 30 * Second,
     cl_solvers := SetHTTP01Provider (cm_env shop_env) ((cl_core shop_client)\<lparr>core_userAgent := ''lego-cli/dev''\<rparr>)
       idle_provider []\<rparr>"

lemma shop_setupChallenges:
  "setupChallenges shop_env shop_flags (shop_client\<lparr>cl_core := (cl_core shop_client)\<lparr>core_userAgent := ''lego-cli/dev''\<rparr>,
     cl_user := account_user shop_account, cl_KeyType := RSA2048, cl_Timeout := 30 * Second\<rparr>) s = (Return shop_ready_client, s)"
  by (simp add: setupChallenges_def setupHTTPProvider_def bind_def shop_ready_client_def)
    (simp add: shop_flags_def shop_env_def shop_client_def)

lemma shop_Obtain:
  "fst (Obtain (cm_env shop_env) (client_certifier (cm_env shop_env) shop_ready_client)
     (plain_request_for [''a.org'']) (sh_world (snd (newClient shop_env shop_flags shop_account RSA2048 shop_disk)))) =
   Return (Some \<lparr>res_Domain = ''a.org'', res_CertURL = ''cert'',
      res_CertStableURL = ''cert'', res_PrivateKey = Some ''key'', res_Certificate = ''cert'',
      res_IssuerCertificate = Some ''cert'', res_CSR = []\<rparr>, None)"
  by (simp add: newClient_def handle_def bind_def run_zoom NewConfig_def createDefaultHTTPClient_def initCertPool_def
      shop_env_def shop_flags_def sample_cli_def shop_account_def account_user_def shop_disk_def
      GetExternalAccountRequired_def shop_client_eval shop_order_eval shop_solve_eval shop_issue_eval shop_ready_client_def
        idle_provider_def)

lemma shop_renewal:
  assumes "Obtain (cm_env shop_env) (client_certifier (cm_env shop_env) shop_ready_client)
     (plain_request_for [''a.org'']) (sh_world s) = (Return (Some r, None), w)"
    and "sh_files s = sh_files shop_disk" and "sh_dirs s = sh_dirs shop_disk" and "res_Domain r = ''a.org''"
    and "res_Certificate r = ''cert''"
  shows "\<exists>t. renewForDomains shop_env shop_flags shop_ready_client shop_storage True [] s = (Return None, t)
    \<and> file_at t ''c/a.org.crt'' = Some ''cert'' \<and> file_at s ''c/a.org.crt'' = Some ''OLD''"
proof -
  have path: "path_Join [''c'', ''a.org.crt''] = ''c/a.org.crt''" by (simp add: storage_eval)
  have old: "file_at s ''c/a.org.crt'' = Some ''OLD''" using assms(2) by (simp add: file_at_def shop_disk_def)
  have name: "sanitizedDomain (cm_cli shop_env) ''a.org'' = Return ''a.org''"
    by (simp add: sanitizedDomain_def shop_env_def sample_cli_def shop_ca_def sample_env_def)
  have "ReadCertificate (cm_cli shop_env) shop_storage ''a.org'' ''.crt'' s = (Return (Inr [old_cert]), s)"
    using old
    by (simp add: ReadCertificate_def check_def handle_def bind_def ReadFile_def GetFileName_def name path os_ReadFile_def
        shop_storage_def)
      (simp add: shop_env_def sample_cli_def ParsePEMBundle_def)
  then have due: "due_certificate shop_env shop_flags shop_storage ''a.org'' k s = k old_cert s" for k
    by (simp add: due_certificate_def handle_def bind_def needRenewal_def) (simp add: shop_flags_def old_cert_def)
  have flags: "fl_domains shop_flags = [''a.org'']" "fl_reuse_key shop_flags = False" "fl_must_staple shop_flags = False"
    "fl_preferred_chain shop_flags = []" "fl_hook shop_flags = []" "ExtractDomains old_cert = [''a.org'']"
    by (simp_all add: shop_flags_def ExtractDomains_def old_cert_def)
  have "renewForDomains shop_env shop_flags shop_ready_client shop_storage True [] s =
      save_and_hook shop_env shop_storage [] [] ''a.org'' r (s\<lparr>sh_world := w\<rparr>)"
    using assms(1)
    by (simp add: renewForDomains_def flags due reused_key_def handle_def bind_def obtained_def run_zoom
        plain_request_for_def)
  moreover have "\<exists>t. SaveResource (cm_cli shop_env) shop_storage r (s\<lparr>sh_world := w\<rparr>) = (Return (), t)
      \<and> file_at t ''c/a.org.crt'' = Some ''cert''"
  proof -
    have can: "can_write (cm_cli shop_env) shop_storage ''a.org'' (s\<lparr>sh_world := w\<rparr>)"
      unfolding can_write_def
    proof (intro allI)
      fix f
      show "osErr (cm_cli shop_env) ''write'' (cert_path shop_storage ''a.org'' f) = None
        \<and> path_Dir (cert_path shop_storage ''a.org'' f) \<in> set (sh_dirs (s\<lparr>sh_world := w\<rparr>))
        \<and> cert_path shop_storage ''a.org'' f \<notin> set (sh_dirs (s\<lparr>sh_world := w\<rparr>))"
        using assms(3) by (cases f) (simp_all add: storage_eval shop_env_def shop_storage_def shop_disk_def)
    qed
    have base: "base_name (cm_cli shop_env) shop_storage (res_Domain r) = Return ''a.org''"
      "cs_pem shop_storage \<longrightarrow> res_PrivateKey r \<noteq> None"
      using name assms(4) by (simp_all add: base_name_def shop_storage_def)
    obtain t where t: "SaveResource (cm_cli shop_env) shop_storage r (s\<lparr>sh_world := w\<rparr>) = (Return (), t)"
      and store: "\<And>name' f. separate_entries ''a.org'' name' \<Longrightarrow> cert_store shop_storage t name' f =
        save_entry (jsonIndent (cm_cli shop_env)) (cs_pem shop_storage) ''a.org'' r
          (cert_store shop_storage (s\<lparr>sh_world := w\<rparr>)) name' f"
      using SaveResource_run [OF base(1) can base(2)] by blast
    have "cert_path shop_storage ''a.org'' Crt = ''c/a.org.crt''"
      by (simp add: cert_path_def shop_storage_def path)
    then have "file_at t ''c/a.org.crt'' = Some ''cert''"
      using store [of "''a.org''" Crt] assms(5) by (simp add: cert_store_def save_entry_def plain_entry_def)
    with t show ?thesis by blast
  qed
  ultimately show ?thesis using old name
    by (auto simp: save_and_hook_def bind_def GetFileName_def launchHook_def)
qed


end
